(* ===== verification/Prelude.thy ===== *)
theory Prelude
  imports Main "HOL-Library.Word" "HOL-Library.AList" "HOL-Library.Sublist"
begin

unbundle bit_operations_syntax

text \<open>
  What the components share: the machine integers of the Rust code, byte strings and
  UTF-8 text, the collections of the standard library, and the invariant scheme for a
  component driven by a sequence of calls.

  \<^item> An unsigned 8-, 32- or 64-bit integer is a word of that width; \<open>+\<close> wraps, as in a
    release build (the workspace does not set \<open>overflow-checks\<close>). A \<open>usize\<close> that counts
    elements of a collection is a \<open>nat\<close>.
  \<^item> A \<open>String\<close> or \<open>&str\<close> is the list of its UTF-8 bytes (type \<open>string\<close>), so
    \<open>length\<close> is \<open>len()\<close>; the function \<open>rust_chars\<close> splits it into code points where the
    code iterates over \<open>chars()\<close>.
  \<^item> A \<open>HashMap\<close> is an association list with distinct keys, a \<open>HashSet\<close> a list with
    distinct elements. The order of the list stands for the iteration order, which the
    standard library leaves open.
  \<^item> An \<open>Instant\<close> or a \<open>Duration\<close> is a \<open>nat\<close> of nanoseconds; \<open>elapsed()\<close> and
    \<open>duration_since\<close> saturate at zero, as the subtraction of \<open>nat\<close> does. A handler reads
    the clock once: the reading is its argument \<open>now\<close>.
  \<^item> A \<open>Result\<close> is a sum: \<open>Inl\<close> the error, \<open>Inr\<close> the value.
\<close>

section \<open>Hint collections\<close>

named_theorems hm_simps \<open>equations of the hash map operations\<close>
named_theorems word_len \<open>lengths of fixed-size encodings\<close>

section \<open>Machine integers\<close>

type_synonym u8 = "8 word"
type_synonym u32 = "32 word"
type_synonym u64 = "64 word"
type_synonym bytes = "8 word list"
type_synonym instant = nat
type_synonym duration = nat

abbreviation u64_max :: u64 where
  "u64_max \<equiv> - 1"

abbreviation nanos_per_sec :: nat where
  "nanos_per_sec \<equiv> 1000000000"

text \<open>\<open>Duration::from_secs\<close>, \<open>as_secs\<close> and \<open>as_millis\<close>.\<close>

definition from_secs :: "nat \<Rightarrow> duration" where
  "from_secs s = s * nanos_per_sec"

definition as_secs :: "duration \<Rightarrow> nat" where
  "as_secs d = d div nanos_per_sec"

definition as_millis :: "duration \<Rightarrow> nat" where
  "as_millis d = d div 1000000"

text \<open>\<open>Instant::elapsed\<close> at the reading \<open>now\<close>.\<close>

definition elapsed :: "instant \<Rightarrow> instant \<Rightarrow> duration" where
  "elapsed now t = now - t"

text \<open>\<open>saturating_add\<close> and \<open>saturating_sub\<close> of an unsigned integer.\<close>

definition sat_add :: "'w::len word \<Rightarrow> 'w word \<Rightarrow> 'w word" where
  "sat_add a b = (if unat a + unat b < 2 ^ LENGTH('w) then a + b else - 1)"

definition sat_sub :: "'w::len word \<Rightarrow> 'w word \<Rightarrow> 'w word" where
  "sat_sub a b = (if b \<le> a then a - b else 0)"

lemma unat_minus_one_max: "unat (- 1 :: 'w::len word) = 2 ^ LENGTH('w) - 1"
  by (simp add: unsigned_minus_1_eq_mask mask_eq_exp_minus_1)

lemma unat_le_max: "unat (w :: 'w::len word) \<le> 2 ^ LENGTH('w) - 1"
  using unsigned_less [of w, where 'a = nat] by linarith

lemma unat_sat_add:
  "unat (sat_add a (b :: 'w::len word)) = min (unat a + unat b) (2 ^ LENGTH('w) - 1)"
proof (cases "unat a + unat b < 2 ^ LENGTH('w)")
  case True
  then have "unat (a + b) = unat a + unat b"
    by (rule unat_add_lem [THEN iffD1])
  with True show ?thesis
    by (simp add: sat_add_def)
next
  case False
  then show ?thesis
    by (simp add: sat_add_def unat_minus_one_max)
qed

lemma unat_sat_sub: "unat (sat_sub a b) = unat a - unat b"
proof (cases "b \<le> a")
  case True
  then show ?thesis
    by (simp add: sat_sub_def unat_sub)
next
  case False
  then have "unat a < unat b"
    by (simp add: word_le_nat_alt not_le)
  with False show ?thesis
    by (simp add: sat_sub_def)
qed

lemma sat_add_ge: "a \<le> sat_add a b"
  using unat_le_max [of a] by (simp add: word_le_nat_alt unat_sat_add)

lemma sat_add_max [simp]: "sat_add (- 1 :: 'w::len word) b = - 1"
proof -
  have "unat (sat_add (- 1 :: 'w word) b) = unat (- 1 :: 'w word)"
    by (simp add: unat_sat_add unat_minus_one_max)
  then show ?thesis
    by (simp only: word_eq_iff_unsigned [where 'a = nat])
qed

lemma sat_add_one_greater:
  assumes "(a :: u64) \<noteq> - 1"
  shows "a < sat_add a 1"
proof -
  have "unat a \<noteq> 2 ^ LENGTH(64) - 1"
    using assms unat_minus_one_max [where 'w = 64] by (metis word_eq_iff_unsigned [where 'a = nat])
  with unat_le_max [of a] show ?thesis
    by (simp add: word_less_nat_alt unat_sat_add)
qed

section \<open>Byte encodings\<close>

text \<open>\<open>to_le_bytes\<close> of an integer of \<open>n\<close> bytes, and its inverse.\<close>

fun le_bytes :: "nat \<Rightarrow> nat \<Rightarrow> bytes" where
  "le_bytes 0 v = []"
| "le_bytes (Suc n) v = word_of_nat (v mod 256) # le_bytes n (v div 256)"

fun from_le_bytes :: "bytes \<Rightarrow> nat" where
  "from_le_bytes [] = 0"
| "from_le_bytes (b # bs) = unat b + 256 * from_le_bytes bs"

lemma length_le_bytes [simp, word_len]: "length (le_bytes n v) = n"
  by (induction n arbitrary: v) auto

lemma from_le_bytes_le_bytes: "from_le_bytes (le_bytes n v) = v mod 256 ^ n"
proof (induction n arbitrary: v)
  case 0
  then show ?case by simp
next
  case (Suc n)
  have "unat (word_of_nat (v mod 256) :: 8 word) = v mod 256"
    by (simp add: unat_of_nat)
  with Suc show ?case
    by (simp add: mod_mult2_eq)
qed

text \<open>\<open>as_bytes()\<close> of a string.\<close>

definition str_bytes :: "string \<Rightarrow> bytes" where
  "str_bytes s = map of_char s"

lemma length_str_bytes [simp, word_len]: "length (str_bytes s) = length s"
  by (simp add: str_bytes_def)

lemma str_bytes_append: "str_bytes (s @ t) = str_bytes s @ str_bytes t"
  by (simp add: str_bytes_def)

text \<open>\<open><\<close> on byte arrays is lexicographic; \<open>Vec::resize\<close> truncates or fills.\<close>

fun bytes_less :: "bytes \<Rightarrow> bytes \<Rightarrow> bool" where
  "bytes_less xs [] \<longleftrightarrow> False"
| "bytes_less [] (y # ys) \<longleftrightarrow> True"
| "bytes_less (x # xs) (y # ys) \<longleftrightarrow> x < y \<or> x = y \<and> bytes_less xs ys"

definition resize :: "nat \<Rightarrow> bytes \<Rightarrow> bytes" where
  "resize n d = take n d @ replicate (n - length d) 0"

lemma bytes_less_asym: "bytes_less a b \<Longrightarrow> \<not> bytes_less b a"
  by (induction a b rule: bytes_less.induct) auto

lemma bytes_less_total: "a \<noteq> b \<Longrightarrow> bytes_less a b \<or> bytes_less b a"
  by (induction a b rule: bytes_less.induct) (auto simp: neq_Nil_conv)

lemma length_resize [simp, word_len]: "length (resize n d) = n"
  by (simp add: resize_def)

text \<open>Both parties order a pair of public keys the same way.\<close>

definition sorted_pair :: "bytes \<Rightarrow> bytes \<Rightarrow> bytes" where
  "sorted_pair a b = (if bytes_less a b then a @ b else b @ a)"

lemma sorted_pair_commute: "sorted_pair a b = sorted_pair b a"
  using bytes_less_asym [of a b] bytes_less_total [of a b]
  by (cases "a = b") (auto simp: sorted_pair_def)

text \<open>The decimal text of a number, as \<open>format!\<close> writes it.\<close>

fun show_nat :: "nat \<Rightarrow> string" where
  "show_nat n =
     (if n < 10 then [char_of (48 + n)] else show_nat (n div 10) @ [char_of (48 + n mod 10)])"

declare show_nat.simps [simp del]

text \<open>Lower-case hexadecimal digits, as \<open>{:x}\<close> writes them; \<open>{:02x}\<close> of each byte.\<close>

definition hex_digit :: "nat \<Rightarrow> char" where
  "hex_digit n = (if n < 10 then char_of (48 + n) else char_of (87 + n))"

definition hex_bytes :: "bytes \<Rightarrow> string" where
  "hex_bytes bs = concat (map (\<lambda>b. [hex_digit (unat b div 16), hex_digit (unat b mod 16)]) bs)"

section \<open>UTF-8 text\<close>

text \<open>The code of a byte of a string, and the ASCII classes of \<open>char\<close> and \<open>u8\<close>.\<close>

definition code :: "char \<Rightarrow> nat" where
  "code c = of_char c"

definition is_ascii_lowercase :: "char \<Rightarrow> bool" where
  "is_ascii_lowercase c \<longleftrightarrow> 97 \<le> code c \<and> code c \<le> 122"

definition is_ascii_uppercase :: "char \<Rightarrow> bool" where
  "is_ascii_uppercase c \<longleftrightarrow> 65 \<le> code c \<and> code c \<le> 90"

definition is_ascii_digit :: "char \<Rightarrow> bool" where
  "is_ascii_digit c \<longleftrightarrow> 48 \<le> code c \<and> code c \<le> 57"

definition is_ascii_alphanumeric :: "char \<Rightarrow> bool" where
  "is_ascii_alphanumeric c \<longleftrightarrow>
     is_ascii_lowercase c \<or> is_ascii_uppercase c \<or> is_ascii_digit c"

lemmas ascii_defs = is_ascii_alphanumeric_def is_ascii_lowercase_def is_ascii_uppercase_def
  is_ascii_digit_def code_def

text \<open>
  \<open>chars()\<close>: a code point is a leading byte and the continuation bytes (\<open>10xxxxxx\<close>) that
  follow it. A code point of one byte is ASCII.
\<close>

definition is_continuation :: "char \<Rightarrow> bool" where
  "is_continuation c \<longleftrightarrow> 128 \<le> code c \<and> code c < 192"

function rust_chars :: "string \<Rightarrow> string list" where
  "rust_chars [] = []"
| "rust_chars (c # cs) =
     (c # takeWhile is_continuation cs) # rust_chars (dropWhile is_continuation cs)"
  by pat_completeness auto
termination
  by (relation "measure length") (auto simp: length_dropWhile_le less_Suc_eq_le)

lemma concat_rust_chars [simp]: "concat (rust_chars s) = s"
  by (induction s rule: rust_chars.induct) auto

text \<open>\<open>strip_prefix\<close>, \<open>strip_suffix\<close>, and \<open>split\<close> at a character.\<close>

definition rust_strip_prefix :: "string \<Rightarrow> string \<Rightarrow> string option" where
  "rust_strip_prefix p s = (if take (length p) s = p then Some (drop (length p) s) else None)"

definition rust_strip_suffix :: "string \<Rightarrow> string \<Rightarrow> string option" where
  "rust_strip_suffix p s =
     (if length p \<le> length s \<and> drop (length s - length p) s = p
      then Some (take (length s - length p) s) else None)"

definition starts_with :: "string \<Rightarrow> string \<Rightarrow> bool" where
  "starts_with s p \<longleftrightarrow> take (length p) s = p"

text \<open>\<open>trim_end_matches('/')\<close>, and \<open>ends_with\<close>.\<close>

definition trim_end_slashes :: "string \<Rightarrow> string" where
  "trim_end_slashes s = rev (dropWhile (\<lambda>c. c = CHR ''/'') (rev s))"

definition ends_with :: "string \<Rightarrow> string \<Rightarrow> bool" where
  "ends_with s suf \<longleftrightarrow> rust_strip_suffix suf s \<noteq> None"

text \<open>\<open>str::parse::<u64>\<close>: an optional plus sign, at least one digit, no overflow.\<close>

definition digits_value :: "string \<Rightarrow> nat" where
  "digits_value ds = foldl (\<lambda>n c. 10 * n + (of_char c - 48)) 0 ds"

definition parse_u64 :: "string \<Rightarrow> u64 option" where
  "parse_u64 s =
     (let ds = (case s of [] \<Rightarrow> [] | c # cs \<Rightarrow> if c = CHR ''+'' then cs else s) in
      if ds \<noteq> [] \<and> list_all is_ascii_digit ds \<and> digits_value ds < 2 ^ 64
      then Some (word_of_nat (digits_value ds)) else None)"

fun split_at :: "char \<Rightarrow> string \<Rightarrow> string list" where
  "split_at d [] = [[]]"
| "split_at d (c # cs) =
     (if c = d then [] # split_at d cs
      else (case split_at d cs of [] \<Rightarrow> [[c]] | w # ws \<Rightarrow> (c # w) # ws))"

text \<open>\<open>find\<close> of a character: the text before it and, when it occurs, the text after it.\<close>

fun split_once :: "char \<Rightarrow> string \<Rightarrow> string \<times> string option" where
  "split_once d [] = ([], None)"
| "split_once d (c # cs) =
     (if c = d then ([], Some cs)
      else (case split_once d cs of (w, r) \<Rightarrow> (c # w, r)))"

lemma rust_strip_suffix_Some:
  "rust_strip_suffix p s = Some l \<longleftrightarrow> s = l @ p"
proof
  assume "rust_strip_suffix p s = Some l"
  then have "drop (length s - length p) s = p" "take (length s - length p) s = l"
    by (auto simp: rust_strip_suffix_def split: if_splits)
  then show "s = l @ p"
    by (metis append_take_drop_id)
qed (simp add: rust_strip_suffix_def)

lemma rust_strip_prefix_Some:
  "rust_strip_prefix p s = Some l \<longleftrightarrow> s = p @ l"
proof
  assume "rust_strip_prefix p s = Some l"
  then have "take (length p) s = p" "drop (length p) s = l"
    by (auto simp: rust_strip_prefix_def split: if_splits)
  then show "s = p @ l"
    by (metis append_take_drop_id)
qed (simp add: rust_strip_prefix_def)

lemma split_at_not_Nil [simp]: "split_at d s \<noteq> []"
  by (induction s) (auto split: list.splits)

lemma split_at_no_delimiter: "w \<in> set (split_at d s) \<Longrightarrow> d \<notin> set w"
  by (induction s arbitrary: w) (auto split: list.splits if_splits)

lemma split_once_None: "split_once d s = (w, None) \<Longrightarrow> s = w \<and> d \<notin> set s"
  by (induction s arbitrary: w) (auto split: prod.splits if_splits)

lemma split_once_Some: "split_once d s = (w, Some r) \<Longrightarrow> s = w @ d # r \<and> d \<notin> set w"
  by (induction s arbitrary: w) (auto split: prod.splits if_splits)

section \<open>Hash maps and hash sets\<close>

type_synonym ('k, 'v) hmap = "('k \<times> 'v) list"

definition hm_get :: "('k, 'v) hmap \<Rightarrow> 'k \<Rightarrow> 'v option" where
  "hm_get m k = map_of m k"

definition hm_insert :: "'k \<Rightarrow> 'v \<Rightarrow> ('k, 'v) hmap \<Rightarrow> ('k, 'v) hmap" where
  "hm_insert k v m = AList.update k v m"

definition hm_remove :: "'k \<Rightarrow> ('k, 'v) hmap \<Rightarrow> ('k, 'v) hmap" where
  "hm_remove k m = AList.delete k m"

definition hm_retain :: "('k \<Rightarrow> 'v \<Rightarrow> bool) \<Rightarrow> ('k, 'v) hmap \<Rightarrow> ('k, 'v) hmap" where
  "hm_retain P m = filter (\<lambda>(k, v). P k v) m"

definition hm_values :: "('k, 'v) hmap \<Rightarrow> 'v list" where
  "hm_values m = map snd m"

definition hm_map_values :: "('v \<Rightarrow> 'v) \<Rightarrow> ('k, 'v) hmap \<Rightarrow> ('k, 'v) hmap" where
  "hm_map_values f m = map (\<lambda>(k, v). (k, f v)) m"

definition hm_wf :: "('k, 'v) hmap \<Rightarrow> bool" where
  "hm_wf m \<longleftrightarrow> distinct (map fst m)"

lemma hm_get_Nil [simp, hm_simps]: "hm_get [] k = None"
  by (simp add: hm_get_def)

lemma hm_get_insert [simp, hm_simps]:
  "hm_get (hm_insert k v m) k' = (if k' = k then Some v else hm_get m k')"
  by (simp add: hm_get_def hm_insert_def update_conv)

lemma hm_get_remove [simp, hm_simps]:
  "hm_get (hm_remove k m) k' = (if k' = k then None else hm_get m k')"
  by (simp add: hm_get_def hm_remove_def delete_conv)

lemma hm_get_map_values [simp, hm_simps]:
  "hm_get (hm_map_values f m) k = map_option f (hm_get m k)"
  by (induction m) (auto simp: hm_get_def hm_map_values_def)

lemma hm_get_retain [hm_simps]:
  assumes "hm_wf m"
  shows "hm_get (hm_retain P m) k =
    (case hm_get m k of None \<Rightarrow> None | Some v \<Rightarrow> if P k v then Some v else None)"
  using assms
proof (induction m)
  case Nil
  then show ?case by (simp add: hm_retain_def)
next
  case (Cons kv m)
  obtain k0 v0 where kv: "kv = (k0, v0)" by (cases kv)
  from Cons.prems have "k0 \<notin> fst ` set m" and wf: "hm_wf m"
    by (auto simp: hm_wf_def kv)
  then have "map_of m k0 = None"
    by (simp add: map_of_eq_None_iff)
  with Cons.IH [OF wf] show ?case
    by (auto simp: hm_get_def hm_retain_def kv split: option.splits)
qed

lemma hm_wf_Nil [simp, intro]: "hm_wf []"
  by (simp add: hm_wf_def)

lemma hm_wf_insert [simp, intro]: "hm_wf m \<Longrightarrow> hm_wf (hm_insert k v m)"
  by (simp add: hm_wf_def hm_insert_def distinct_update)

lemma hm_wf_remove [simp, intro]: "hm_wf m \<Longrightarrow> hm_wf (hm_remove k m)"
  by (simp add: hm_wf_def hm_remove_def distinct_delete)

lemma hm_wf_retain [simp, intro]: "hm_wf m \<Longrightarrow> hm_wf (hm_retain P m)"
  by (induction m) (auto simp: hm_wf_def hm_retain_def)

lemma hm_get_retain_Some:
  "hm_wf m \<Longrightarrow> hm_get (hm_retain P m) k = Some v \<Longrightarrow> hm_get m k = Some v"
  by (auto simp: hm_get_retain split: option.splits if_splits)

lemma hm_wf_map_values [simp]: "hm_wf (hm_map_values f m) \<longleftrightarrow> hm_wf m"
  by (simp add: hm_wf_def hm_map_values_def case_prod_unfold comp_def)

lemma length_hm_map_values [simp]: "length (hm_map_values f m) = length m"
  by (simp add: hm_map_values_def)

lemma length_hm_insert:
  "length (hm_insert k v m) = (if hm_get m k = None then Suc (length m) else length m)"
  by (induction m) (auto simp: hm_insert_def hm_get_def)

lemma length_hm_remove_le: "length (hm_remove k m) \<le> length m"
  by (simp add: hm_remove_def length_delete_le)

lemma length_hm_remove:
  "hm_wf m \<Longrightarrow> hm_get m k = Some v \<Longrightarrow> length (hm_remove k m) = length m - 1"
proof (induction m)
  case Nil
  then show ?case by simp
next
  case (Cons kv m)
  obtain k0 v0 where kv: "kv = (k0, v0)" by (cases kv)
  show ?case
  proof (cases "k0 = k")
    case True
    with Cons.prems kv have "k \<notin> fst ` set m"
      by (auto simp: hm_wf_def)
    with True kv show ?thesis
      by (simp add: hm_remove_def delete_idem)
  next
    case False
    with Cons kv have "length (hm_remove k m) = length m - 1" "m \<noteq> []"
      by (auto simp: hm_wf_def hm_get_def)
    with False kv show ?thesis
      by (cases m) (auto simp: hm_remove_def)
  qed
qed

lemma length_hm_retain_le: "length (hm_retain P m) \<le> length m"
  by (simp add: hm_retain_def)

lemma hm_get_in_set: "hm_get m k = Some v \<Longrightarrow> (k, v) \<in> set m"
  by (simp add: hm_get_def map_of_SomeD)

lemma hm_get_iff_in_set: "hm_wf m \<Longrightarrow> hm_get m k = Some v \<longleftrightarrow> (k, v) \<in> set m"
  by (simp add: hm_get_def hm_wf_def)

text \<open>\<open>get_mut\<close> of a \<open>HashMap\<close>, when the entry is there; the total of a measure of the values.\<close>

definition hm_modify :: "'k \<Rightarrow> ('v \<Rightarrow> 'v) \<Rightarrow> ('k, 'v) hmap \<Rightarrow> ('k, 'v) hmap" where
  "hm_modify k f m = (case hm_get m k of None \<Rightarrow> m | Some v \<Rightarrow> hm_insert k (f v) m)"

definition hm_sum :: "('v \<Rightarrow> nat) \<Rightarrow> ('k, 'v) hmap \<Rightarrow> nat" where
  "hm_sum f m = sum_list (map f (hm_values m))"

lemma hm_get_modify [simp, hm_simps]:
  "hm_get (hm_modify k f m) k' = (if k' = k then map_option f (hm_get m k) else hm_get m k')"
  by (simp add: hm_modify_def split: option.split)

lemma hm_wf_modify [simp, intro]: "hm_wf m \<Longrightarrow> hm_wf (hm_modify k f m)"
  by (simp add: hm_modify_def split: option.split)

lemma length_hm_modify [simp]: "length (hm_modify k f m) = length m"
  by (simp add: hm_modify_def length_hm_insert split: option.split)

lemma hm_sum_Nil [simp]: "hm_sum f [] = 0"
  by (simp add: hm_sum_def hm_values_def)

lemma hm_sum_insert:
  "hm_sum f (hm_insert k v m) + (case hm_get m k of None \<Rightarrow> 0 | Some w \<Rightarrow> f w) = hm_sum f m + f v"
  by (induction m) (auto simp: hm_sum_def hm_values_def hm_insert_def hm_get_def split: option.splits)

lemma hm_sum_remove:
  assumes "hm_wf m"
  shows "hm_sum f (hm_remove k m) + (case hm_get m k of None \<Rightarrow> 0 | Some w \<Rightarrow> f w) = hm_sum f m"
  using assms
proof (induction m)
  case Nil
  then show ?case by (simp add: hm_remove_def)
next
  case (Cons kv m)
  obtain j w where kv: "kv = (j, w)" by (cases kv)
  show ?case
  proof (cases "j = k")
    case True
    with Cons.prems kv have "k \<notin> fst ` set m"
      by (auto simp: hm_wf_def)
    with True kv show ?thesis
      by (simp add: hm_sum_def hm_values_def hm_remove_def hm_get_def delete_idem)
  next
    case False
    with Cons kv show ?thesis
      by (auto simp: hm_sum_def hm_values_def hm_remove_def hm_get_def hm_wf_def split: option.splits)
  qed
qed

lemma hm_sum_modify: "(\<And>v. f (g v) = f v) \<Longrightarrow> hm_sum f (hm_modify k g m) = hm_sum f m"
  by (cases "hm_get m k") (use hm_sum_insert [of f k "g (the (hm_get m k))" m] in \<open>auto simp: hm_modify_def\<close>)

lemma hm_sum_ge: "hm_get m k = Some v \<Longrightarrow> f v \<le> hm_sum f m"
  by (force simp: hm_sum_def hm_values_def dest!: hm_get_in_set intro!: member_le_sum_list)

lemma hm_sum_insert_le: "hm_sum f (hm_insert k v m) \<le> hm_sum f m + f v"
  using hm_sum_insert [of f k v m] by linarith

lemma hm_sum_remove_le: "hm_wf m \<Longrightarrow> hm_sum f (hm_remove k m) \<le> hm_sum f m"
  using hm_sum_remove [of m f k] by linarith

lemma hm_sum_retain_le: "hm_sum f (hm_retain P m) \<le> hm_sum f m"
  by (induction m) (auto simp: hm_sum_def hm_values_def hm_retain_def)

text \<open>Two maps with the same entries, whatever their iteration order.\<close>

definition same_map :: "('k, 'v) hmap \<Rightarrow> ('k, 'v) hmap \<Rightarrow> bool" where
  "same_map m m' \<longleftrightarrow> hm_wf m \<and> hm_wf m' \<and> hm_get m = hm_get m'"

lemma same_map_refl [simp]: "same_map m m \<longleftrightarrow> hm_wf m"
  by (simp add: same_map_def)

lemma same_map_set: "same_map m m' \<Longrightarrow> set m = set m'"
  by (auto simp: same_map_def simp flip: hm_get_iff_in_set)

lemma hm_wf_distinct: "hm_wf m \<Longrightarrow> distinct m"
  by (simp add: hm_wf_def distinct_map)

lemma same_map_length: "same_map m m' \<Longrightarrow> length m = length m'"
  using same_map_set [of m m'] by (metis distinct_card hm_wf_distinct same_map_def)

lemma hm_sum_set: "hm_wf m \<Longrightarrow> hm_sum f m = (\<Sum>(k, v) \<in> set m. f v)"
  by (simp add: hm_sum_def hm_values_def hm_wf_distinct sum_list_distinct_conv_sum_set
      case_prod_unfold comp_def)

lemma same_map_sum: "same_map m m' \<Longrightarrow> hm_sum f m = hm_sum f m'"
  using same_map_set [of m m'] by (simp add: same_map_def hm_sum_set)

text \<open>\<open>insert\<close> and \<open>remove\<close> of a \<open>HashSet\<close>.\<close>

definition hs_insert :: "'a \<Rightarrow> 'a list \<Rightarrow> 'a list" where
  "hs_insert x xs = (if x \<in> set xs then xs else xs @ [x])"

definition hs_remove :: "'a \<Rightarrow> 'a list \<Rightarrow> 'a list" where
  "hs_remove x xs = filter (\<lambda>y. y \<noteq> x) xs"

lemma set_hs_insert [simp]: "set (hs_insert x xs) = insert x (set xs)"
  by (auto simp: hs_insert_def)

lemma set_hs_remove [simp]: "set (hs_remove x xs) = set xs - {x}"
  by (auto simp: hs_remove_def)

lemma distinct_hs_insert [simp]: "distinct (hs_insert x xs) \<longleftrightarrow> distinct xs"
  by (simp add: hs_insert_def)

lemma distinct_hs_remove [intro, simp]: "distinct xs \<Longrightarrow> distinct (hs_remove x xs)"
  by (simp add: hs_remove_def)

text \<open>A loop that changes the first element with a property and then breaks.\<close>

fun update_first :: "('a \<Rightarrow> bool) \<Rightarrow> ('a \<Rightarrow> 'a) \<Rightarrow> 'a list \<Rightarrow> 'a list" where
  "update_first P f [] = []"
| "update_first P f (x # xs) = (if P x then f x # xs else x # update_first P f xs)"

text \<open>The entry with the least measure, first of equals: \<open>iter().min_by_key(..)\<close>.\<close>

fun min_by_key :: "('a \<Rightarrow> 'b::linorder) \<Rightarrow> 'a list \<Rightarrow> 'a option" where
  "min_by_key f [] = None"
| "min_by_key f (x # xs) =
     (case min_by_key f xs of None \<Rightarrow> Some x | Some y \<Rightarrow> if f x \<le> f y then Some x else Some y)"

lemma min_by_key_None [simp]: "min_by_key f xs = None \<longleftrightarrow> xs = []"
  by (cases xs) (auto split: option.splits)

lemma min_by_key_Some: "min_by_key f xs = Some x \<Longrightarrow> x \<in> set xs \<and> (\<forall>y \<in> set xs. f x \<le> f y)"
  by (induction xs arbitrary: x) (fastforce split: option.splits if_splits)+

section \<open>Loops with an early return\<close>

text \<open>
  A \<open>for\<close> loop whose body ends in \<open>?\<close>: the state is threaded through the elements, and
  the first error leaves the loop.
\<close>

fun try_fold :: "('a \<Rightarrow> 's \<Rightarrow> 'e + 's) \<Rightarrow> 'a list \<Rightarrow> 's \<Rightarrow> 'e + 's" where
  "try_fold f [] s = Inr s"
| "try_fold f (x # xs) s = (case f x s of Inl e \<Rightarrow> Inl e | Inr s' \<Rightarrow> try_fold f xs s')"

lemma try_fold_append:
  "try_fold f (xs @ ys) s =
     (case try_fold f xs s of Inl e \<Rightarrow> Inl e | Inr s' \<Rightarrow> try_fold f ys s')"
  by (induction xs arbitrary: s) (auto split: sum.splits)

lemma try_fold_map: "try_fold f (map g xs) s = try_fold (\<lambda>x. f (g x)) xs s"
  by (induction xs arbitrary: s) (auto split: sum.splits)

text \<open>\<open>map_err\<close> and \<open>ok_or\<close>.\<close>

definition map_err :: "('e \<Rightarrow> 'f) \<Rightarrow> 'e + 'a \<Rightarrow> 'f + 'a" where
  "map_err f r = (case r of Inl e \<Rightarrow> Inl (f e) | Inr x \<Rightarrow> Inr x)"

definition ok_or :: "'e \<Rightarrow> 'a option \<Rightarrow> 'e + 'a" where
  "ok_or e x = (case x of None \<Rightarrow> Inl e | Some y \<Rightarrow> Inr y)"

lemma map_err_simps [simp]: "map_err f (Inl e) = Inl (f e)" "map_err f (Inr x) = Inr x"
  by (simp_all add: map_err_def)

lemma map_err_Inr_iff [simp]: "map_err f r = Inr x \<longleftrightarrow> r = Inr x"
  by (cases r) auto

lemma ok_or_simps [simp]: "ok_or e None = Inl e" "ok_or e (Some x) = Inr x"
  by (simp_all add: ok_or_def)

section \<open>Components driven by calls\<close>

text \<open>
  A component is a state and an operation per call. What every call keeps holds after any
  sequence of calls; a quantity no call decreases never decreases.
\<close>

locale call_machine =
  fixes step :: "'e \<Rightarrow> 's \<Rightarrow> 's" and inv :: "'s \<Rightarrow> bool"
  assumes step_inv: "inv s \<Longrightarrow> inv (step e s)"
begin

lemma run_inv: "inv s \<Longrightarrow> inv (fold step es s)"
  by (induction es arbitrary: s) (auto intro: step_inv)

end

text \<open>
  When a call keeps the invariant only for admissible arguments, so does a run of them.
\<close>

locale guarded_machine =
  fixes step :: "'e \<Rightarrow> 's \<Rightarrow> 's" and ok :: "'e \<Rightarrow> bool" and inv :: "'s \<Rightarrow> bool"
  assumes guarded_step: "ok e \<Longrightarrow> inv s \<Longrightarrow> inv (step e s)"
begin

lemma guarded_run: "list_all ok es \<Longrightarrow> inv s \<Longrightarrow> inv (fold step es s)"
  by (induction es arbitrary: s) (auto intro: guarded_step)

end

sublocale call_machine \<subseteq> all_calls: guarded_machine step "\<lambda>_. True" inv
  by unfold_locales (rule step_inv)

text \<open>
  A concrete state implements an abstract one when every call of the concrete operation is
  matched by the abstract operation on the state it stands for. Then so is every run.
\<close>

locale simulation = guarded_machine step ok inv
  for step :: "'e \<Rightarrow> 's \<Rightarrow> 's" and ok :: "'e \<Rightarrow> bool" and inv :: "'s \<Rightarrow> bool" +
  fixes abs :: "'s \<Rightarrow> 'a" and astep :: "'e \<Rightarrow> 'a \<Rightarrow> 'a"
  assumes sim_step: "ok e \<Longrightarrow> inv s \<Longrightarrow> abs (step e s) = astep e (abs s)"
begin

lemma sim_run: "list_all ok es \<Longrightarrow> inv s \<Longrightarrow> abs (fold step es s) = fold astep es (abs s)"
  by (induction es arbitrary: s) (auto simp: sim_step guarded_step)

end

locale monotone_machine = call_machine +
  fixes level :: "'s \<Rightarrow> 'l::order"
  assumes step_level: "inv s \<Longrightarrow> level s \<le> level (step e s)"
begin

lemma run_level: "inv s \<Longrightarrow> level s \<le> level (fold step es s)"
proof (induction es arbitrary: s)
  case Nil
  then show ?case by simp
next
  case (Cons e es)
  then have "level s \<le> level (step e s)"
    by (simp add: step_level)
  also have "level (step e s) \<le> level (fold step es (step e s))"
    using Cons by (simp add: step_inv)
  finally show ?case by simp
qed

end

end
