(* ===== verification/CidPath.thy ===== *)
theory CidPath
  imports Prelude
begin

text \<open>
  CID and content-path validation, \<open>protocol/src/cid_validation.rs\<close>, and the request URL
  built from a validated path in \<open>protocol/src/storage.rs\<close> (\<open>IpfsHttpClient::cat\<close>).
\<close>

definition MAX_CID_PATH_LEN :: nat where
  "MAX_CID_PATH_LEN = 512"

definition BASE58_CHARS :: string where
  "BASE58_CHARS = ''123456789ABCDEFGHJKLMNPQRSTUVWXYZabcdefghijkmnopqrstuvwxyz''"

definition BASE32_LOWER_CHARS :: string where
  "BASE32_LOWER_CHARS = ''abcdefghijklmnopqrstuvwxyz234567''"

definition is_base58 :: "char \<Rightarrow> bool" where
  "is_base58 c \<longleftrightarrow> c \<in> set BASE58_CHARS"

definition is_base32_lower :: "char \<Rightarrow> bool" where
  "is_base32_lower c \<longleftrightarrow> c \<in> set BASE32_LOWER_CHARS"

definition all_base58 :: "string \<Rightarrow> bool" where
  "all_base58 s \<longleftrightarrow> list_all is_base58 s"

definition all_base32_lower :: "string \<Rightarrow> bool" where
  "all_base32_lower s \<longleftrightarrow> list_all is_base32_lower s"

definition validate_cid :: "string \<Rightarrow> bool" where
  "validate_cid cid \<longleftrightarrow>
     (if cid = [] then False
      else if starts_with cid ''Qm'' then length cid = 46 \<and> all_base58 cid
      else if starts_with cid ''bafy'' then length cid = 59 \<and> all_base32_lower cid
      else False)"

datatype cid_validation_error =
    Empty
  | TooLong
  | ControlCharacter
  | InvalidCid
  | TraversalAttempt

fun cid_validation_error_text :: "cid_validation_error \<Rightarrow> string" where
  "cid_validation_error_text Empty = ''CID path is empty''"
| "cid_validation_error_text TooLong =
     ''CID path exceeds maximum length of '' @ show_nat MAX_CID_PATH_LEN"
| "cid_validation_error_text ControlCharacter = ''CID path contains control characters''"
| "cid_validation_error_text InvalidCid =
     ''Invalid CID format (expected CIDv0 Qm... or CIDv1 bafy...)''"
| "cid_validation_error_text TraversalAttempt =
     ''CID subpath contains directory traversal (. or ..)''"

definition is_control :: "char \<Rightarrow> bool" where
  "is_control b \<longleftrightarrow> code b < 32"

definition traverses :: "string \<Rightarrow> bool" where
  "traverses sub \<longleftrightarrow> list_ex (\<lambda>segment. segment = ''.'' \<or> segment = ''..'') (split_at (CHR ''/'') sub)"

definition validate_cid_path :: "string \<Rightarrow> cid_validation_error + (string \<times> string option)" where
  "validate_cid_path path =
     (if path = [] then Inl Empty
      else if MAX_CID_PATH_LEN < length path then Inl TooLong
      else if list_ex is_control path then Inl ControlCharacter
      else (case split_once (CHR ''/'') path of (cid, subpath) \<Rightarrow>
        if \<not> validate_cid cid then Inl InvalidCid
        else (case subpath of
                None \<Rightarrow> Inr (cid, subpath)
              | Some sub \<Rightarrow> if traverses sub then Inl TraversalAttempt else Inr (cid, subpath))))"

definition validate_content_path :: "string \<Rightarrow> cid_validation_error + (string \<times> string option)" where
  "validate_content_path path =
     (if path = [] then Inl Empty
      else if MAX_CID_PATH_LEN < length path then Inl TooLong
      else if list_ex is_control path then Inl ControlCharacter
      else (case split_once (CHR ''/'') path of (content_id, subpath) \<Rightarrow>
        if content_id = [] \<or> 128 < length content_id \<or>
           \<not> list_all is_ascii_alphanumeric content_id then Inl InvalidCid
        else (case subpath of
                None \<Rightarrow> Inr (content_id, subpath)
              | Some sub \<Rightarrow>
                  if traverses sub then Inl TraversalAttempt else Inr (content_id, subpath))))"

text \<open>The URL \<open>IpfsHttpClient::cat\<close> posts to once the path is validated.\<close>

definition cat_url :: "string \<Rightarrow> string \<Rightarrow> cid_validation_error + string" where
  "cat_url base_url cid =
     (case validate_cid_path cid of
        Inl e \<Rightarrow> Inl e
      | Inr _ \<Rightarrow> Inr (base_url @ ''/api/v0/cat?arg='' @ cid))"

section \<open>Lemmas\<close>

lemma base58_alphanumeric: "is_base58 c \<Longrightarrow> is_ascii_alphanumeric c"
  by (auto simp: is_base58_def BASE58_CHARS_def ascii_defs)

lemma base32_alphanumeric: "is_base32_lower c \<Longrightarrow> is_ascii_alphanumeric c"
  by (auto simp: is_base32_lower_def BASE32_LOWER_CHARS_def ascii_defs)

lemma slash_not_alphanumeric: "\<not> is_ascii_alphanumeric (CHR ''/'')"
  by (simp add: ascii_defs)

text \<open>A valid CID has one of the two shapes, and is alphanumeric in both.\<close>

lemma starts_with_exclusive: "starts_with cid ''Qm'' \<Longrightarrow> \<not> starts_with cid ''bafy''"
  by (cases cid) (auto simp: starts_with_def)

lemma validate_cid_cases:
  "validate_cid cid \<longleftrightarrow>
     starts_with cid ''Qm'' \<and> length cid = 46 \<and> list_all is_base58 cid \<or>
     starts_with cid ''bafy'' \<and> length cid = 59 \<and> list_all is_base32_lower cid"
  using starts_with_exclusive [of cid]
  by (cases "cid = []") (auto simp: validate_cid_def all_base58_def all_base32_lower_def)

lemma validate_cid_alphanumeric:
  "validate_cid cid \<Longrightarrow> cid \<noteq> [] \<and> length cid \<le> 128 \<and> list_all is_ascii_alphanumeric cid"
  by (auto simp: validate_cid_cases list_all_iff base58_alphanumeric base32_alphanumeric)

definition join_path :: "string \<Rightarrow> string option \<Rightarrow> string" where
  "join_path cid sub = cid @ (case sub of None \<Rightarrow> [] | Some s \<Rightarrow> CHR ''/'' # s)"

lemma split_once_join:
  "split_once (CHR ''/'') path = (cid, sub) \<longleftrightarrow> path = join_path cid sub \<and> CHR ''/'' \<notin> set cid"
proof
  assume "split_once (CHR ''/'') path = (cid, sub)"
  then show "path = join_path cid sub \<and> CHR ''/'' \<notin> set cid"
    by (cases sub) (auto simp: join_path_def dest: split_once_None split_once_Some)
next
  assume "path = join_path cid sub \<and> CHR ''/'' \<notin> set cid"
  then have "path = join_path cid sub" "CHR ''/'' \<notin> set cid" by auto
  then show "split_once (CHR ''/'') path = (cid, sub)"
  proof (induction cid arbitrary: path)
    case Nil
    then show ?case by (cases sub) (simp_all add: join_path_def)
  next
    case (Cons c cid)
    then show ?case by (auto simp: join_path_def)
  qed
qed

text \<open>The checks that both validators make of the whole path.\<close>

definition path_ok :: "string \<Rightarrow> string option \<Rightarrow> bool" where
  "path_ok path sub \<longleftrightarrow> path \<noteq> [] \<and> length path \<le> 512 \<and> \<not> list_ex is_control path \<and>
     (case sub of None \<Rightarrow> True | Some s \<Rightarrow> \<not> traverses s)"

lemma validate_cid_path_iff:
  "validate_cid_path path = Inr (cid, sub) \<longleftrightarrow>
     path = join_path cid sub \<and> validate_cid cid \<and> path_ok path sub"
proof -
  have "CHR ''/'' \<notin> set cid" if "validate_cid cid"
    using validate_cid_alphanumeric [OF that] slash_not_alphanumeric by (auto simp: list_all_iff)
  moreover obtain cid' sub' where split: "split_once (CHR ''/'') path = (cid', sub')"
    by (cases "split_once (CHR ''/'') path")
  moreover have "(cid', sub') = (cid, sub) \<longleftrightarrow> path = join_path cid sub \<and> CHR ''/'' \<notin> set cid"
    using split by (simp flip: split_once_join)
  ultimately show ?thesis
    by (auto simp: validate_cid_path_def path_ok_def MAX_CID_PATH_LEN_def not_less
        split: option.splits)
qed

lemma validate_content_path_iff:
  "validate_content_path path = Inr (cid, sub) \<longleftrightarrow>
     path = join_path cid sub \<and> cid \<noteq> [] \<and> length cid \<le> 128 \<and>
     list_all is_ascii_alphanumeric cid \<and> path_ok path sub"
proof -
  have "CHR ''/'' \<notin> set cid" if "list_all is_ascii_alphanumeric cid"
    using that slash_not_alphanumeric by (auto simp: list_all_iff)
  moreover obtain cid' sub' where split: "split_once (CHR ''/'') path = (cid', sub')"
    by (cases "split_once (CHR ''/'') path")
  moreover have "(cid', sub') = (cid, sub) \<longleftrightarrow> path = join_path cid sub \<and> CHR ''/'' \<notin> set cid"
    using split by (simp flip: split_once_join)
  ultimately show ?thesis
    by (auto simp: validate_content_path_def path_ok_def MAX_CID_PATH_LEN_def not_less
        split: option.splits)
qed

section \<open>Properties\<close>

text \<open>
  What \<open>validate_cid_path\<close> accepts, exactly: the path is a well-formed CIDv0 or CIDv1,
  or one followed by a slash and a subpath; it is at most 512 bytes long, has no control
  character, and no segment of the subpath is "." or "..". The result is the split.
\<close>

theorem validate_cid_path_exact:
  "validate_cid_path path = Inr (cid, sub) \<longleftrightarrow>
     path = cid @ (case sub of None \<Rightarrow> [] | Some s \<Rightarrow> CHR ''/'' # s) \<and>
     (starts_with cid ''Qm'' \<and> length cid = 46 \<and> list_all is_base58 cid \<or>
      starts_with cid ''bafy'' \<and> length cid = 59 \<and> list_all is_base32_lower cid) \<and>
     length path \<le> 512 \<and> (\<forall>b \<in> set path. 32 \<le> code b) \<and>
     (sub \<noteq> None \<longrightarrow> ''.'' \<notin> set (split_at (CHR ''/'') (the sub)) \<and>
        ''..'' \<notin> set (split_at (CHR ''/'') (the sub)))"
  by (auto simp: validate_cid_path_iff path_ok_def join_path_def validate_cid_cases traverses_def
      is_control_def list_ex_iff not_less split: option.splits)

theorem validate_cid_path_exact_witness:
  "validate_cid_path (''Qm'' @ replicate 44 (CHR ''a'') @ ''/site/index.html'') =
     Inr (''Qm'' @ replicate 44 (CHR ''a''), Some ''site/index.html'')"
  by (subst validate_cid_path_exact)
     (simp add: starts_with_def is_base58_def BASE58_CHARS_def code_def list_all_iff)

text \<open>
  The gateway's validator is a relaxation of the strict one: every path that
  \<open>validate_cid_path\<close> accepts, \<open>validate_content_path\<close> accepts with the same split.
\<close>

theorem content_path_relaxes_cid_path:
  "validate_cid_path path = Inr r \<Longrightarrow> validate_content_path path = Inr r"
  using validate_cid_alphanumeric
  by (cases r) (auto simp: validate_cid_path_iff validate_content_path_iff)

theorem content_path_relaxes_cid_path_witness:
  "validate_content_path (''Qm'' @ replicate 44 (CHR ''a'')) =
     Inr (''Qm'' @ replicate 44 (CHR ''a''), None)"
  by (rule content_path_relaxes_cid_path, subst validate_cid_path_iff)
     (simp add: join_path_def path_ok_def validate_cid_cases starts_with_def is_base58_def
      BASE58_CHARS_def list_ex_iff is_control_def code_def list_all_iff)

text \<open>
  The subpath is not restricted to path characters: for every well-formed CID the
  validated path may carry an ampersand, so the URL that \<open>cat\<close> posts to then has a second
  query parameter, chosen by the caller.
\<close>

theorem cat_url_second_parameter:
  assumes "validate_cid cid"
  shows "cat_url base (cid @ ''/x&length=1'') =
    Inr (base @ ''/api/v0/cat?arg='' @ cid @ ''/x'' @ ''&length=1'')"
proof -
  have "validate_cid_path (cid @ ''/x&length=1'') = Inr (cid, Some ''x&length=1'')"
    using assms validate_cid_alphanumeric [OF assms]
    by (auto simp: validate_cid_path_iff join_path_def path_ok_def traverses_def list_ex_iff
        is_control_def list_all_iff ascii_defs)
  then show ?thesis
    by (simp add: cat_url_def)
qed

theorem cat_url_second_parameter_witness:
  "cat_url ''http://127.0.0.1:5001'' (''Qm'' @ replicate 44 (CHR ''a'') @ ''/x&length=1'') =
     Inr (''http://127.0.0.1:5001'' @ ''/api/v0/cat?arg='' @ (''Qm'' @ replicate 44 (CHR ''a''))
       @ ''/x'' @ ''&length=1'')"
  using cat_url_second_parameter [of "''Qm'' @ replicate 44 (CHR ''a'')" "''http://127.0.0.1:5001''"]
  by (simp add: validate_cid_cases starts_with_def is_base58_def BASE58_CHARS_def list_all_iff)

end
