(* ===== verification/Crypto.thy ===== *)
theory Crypto
  imports Prelude
begin

text \<open>
  The cryptographic primitives of \<open>protocol/src/crypto.rs\<close>: symmetric sealing of byte
  strings, the layered (onion) encryption built from it, and key derivation.

  The ciphers and hashes come from third-party crates (\<open>chacha20poly1305\<close>, \<open>blake3\<close>,
  \<open>x25519-dalek\<close>, \<open>hex\<close>, the Ed25519 of \<open>libp2p\<close>). They are the fields of the record
  \<open>prims\<close>, an argument of every definition that calls them; the predicates after it name
  the documented behaviour the code relies on. A random draw of the code (a nonce, a key)
  is an argument too.
\<close>

section \<open>Third-party primitives\<close>

record prims =
  aead_encrypt :: "bytes \<Rightarrow> bytes \<Rightarrow> bytes \<Rightarrow> string + bytes" \<comment> \<open>key, nonce, plaintext\<close>
  aead_decrypt :: "bytes \<Rightarrow> bytes \<Rightarrow> bytes \<Rightarrow> string + bytes" \<comment> \<open>key, nonce, ciphertext\<close>
  blake3 :: "bytes \<Rightarrow> bytes"
  blake3_keyed :: "bytes \<Rightarrow> bytes \<Rightarrow> bytes" \<comment> \<open>key, input\<close>
  x25519_public :: "bytes \<Rightarrow> bytes" \<comment> \<open>secret\<close>
  x25519_dh :: "bytes \<Rightarrow> bytes \<Rightarrow> bytes" \<comment> \<open>secret, peer's public key\<close>
  hex_encode :: "bytes \<Rightarrow> string"
  hex_decode :: "string \<Rightarrow> string + bytes"
  ed_public :: "bytes \<Rightarrow> bytes" \<comment> \<open>seed\<close>
  ed_sign :: "bytes \<Rightarrow> bytes \<Rightarrow> bytes" \<comment> \<open>seed, message\<close>
  ed_verify :: "bytes \<Rightarrow> bytes \<Rightarrow> bytes \<Rightarrow> bool" \<comment> \<open>public key, message, signature\<close>

text \<open>The largest plaintext ChaCha20-Poly1305 accepts.\<close>

definition aead_limit :: nat where
  "aead_limit = 274877906880"

text \<open>
  RFC 8439: with a 32-byte key and a 12-byte nonce a plaintext within the limit is
  encrypted to 16 bytes more, and decryption under the same key and nonce gives it back.
\<close>

definition aead_correct :: "prims \<Rightarrow> bool" where
  "aead_correct P \<longleftrightarrow> (\<forall>k n d. length k = 32 \<longrightarrow> length n = 12 \<longrightarrow> length d \<le> aead_limit \<longrightarrow>
     (\<exists>c. aead_encrypt P k n d = Inr c \<and> length c = length d + 16 \<and>
          aead_decrypt P k n c = Inr d))"

text \<open>BLAKE3 digests are 32 bytes; its keyed mode too.\<close>

definition blake3_sized :: "prims \<Rightarrow> bool" where
  "blake3_sized P \<longleftrightarrow> (\<forall>d. length (blake3 P d) = 32) \<and> (\<forall>k d. length (blake3_keyed P k d) = 32)"

text \<open>X25519: both sides of an exchange compute the same secret; public keys are 32 bytes.\<close>

definition x25519_correct :: "prims \<Rightarrow> bool" where
  "x25519_correct P \<longleftrightarrow>
     (\<forall>a b. x25519_dh P a (x25519_public P b) = x25519_dh P b (x25519_public P a)) \<and>
     (\<forall>a. length (x25519_public P a) = 32)"

text \<open>Ed25519: a signature made with a seed verifies under that seed's public key.\<close>

definition ed25519_correct :: "prims \<Rightarrow> bool" where
  "ed25519_correct P \<longleftrightarrow> (\<forall>s m. ed_verify P (ed_public P s) m (ed_sign P s m))"

text \<open>The \<open>hex\<close> crate: decoding inverts encoding.\<close>

definition hex_correct :: "prims \<Rightarrow> bool" where
  "hex_correct P \<longleftrightarrow> (\<forall>d. hex_decode P (hex_encode P d) = Inr d)"

lemma aead_correctE:
  assumes "aead_correct P" "length k = 32" "length n = 12" "length d \<le> aead_limit"
  obtains c where "aead_encrypt P k n d = Inr c" "length c = length d + 16"
    "aead_decrypt P k n c = Inr d"
  using assms unfolding aead_correct_def by blast

section \<open>Symmetric sealing\<close>

definition KEY_SIZE :: nat where
  "KEY_SIZE = 32"

definition NONCE_SIZE :: nat where
  "NONCE_SIZE = 12"

datatype crypto_error =
    EncryptionFailed string
  | DecryptionFailed string
  | InvalidKeySize
  | InvalidNonce
  | InvalidCiphertext

fun crypto_error_text :: "crypto_error \<Rightarrow> string" where
  "crypto_error_text (EncryptionFailed msg) = ''Encryption failed: '' @ msg"
| "crypto_error_text (DecryptionFailed msg) = ''Decryption failed: '' @ msg"
| "crypto_error_text InvalidKeySize = ''Invalid key size''"
| "crypto_error_text InvalidNonce = ''Invalid nonce''"
| "crypto_error_text InvalidCiphertext = ''Invalid ciphertext format''"

record encrypted_data =
  nonce :: bytes
  ciphertext :: bytes

text \<open>A manager holds the cipher, which is its key.\<close>

record crypto_manager =
  cipher :: bytes

definition cm_new :: "bytes \<Rightarrow> crypto_manager" where
  "cm_new key = \<lparr>cipher = key\<rparr>"

text \<open>\<open>new_random\<close>: \<open>drawn\<close> is the key the generator returns.\<close>

definition cm_new_random :: "bytes \<Rightarrow> crypto_error + (crypto_manager \<times> bytes)" where
  "cm_new_random drawn =
     (if length drawn = KEY_SIZE then Inr (cm_new drawn, drawn) else Inl InvalidKeySize)"

definition encrypt :: "prims \<Rightarrow> crypto_manager \<Rightarrow> bytes \<Rightarrow> bytes \<Rightarrow> crypto_error + encrypted_data" where
  "encrypt P m rnd plaintext =
     (case aead_encrypt P (cipher m) rnd plaintext of
        Inl e \<Rightarrow> Inl (EncryptionFailed e)
      | Inr c \<Rightarrow> Inr \<lparr>nonce = rnd, ciphertext = c\<rparr>)"

definition decrypt :: "prims \<Rightarrow> crypto_manager \<Rightarrow> encrypted_data \<Rightarrow> crypto_error + bytes" where
  "decrypt P m e =
     (if length (nonce e) \<noteq> NONCE_SIZE then Inl InvalidNonce
      else map_err DecryptionFailed (aead_decrypt P (cipher m) (nonce e) (ciphertext e)))"

definition encrypt_raw :: "prims \<Rightarrow> crypto_manager \<Rightarrow> bytes \<Rightarrow> bytes \<Rightarrow> crypto_error + bytes" where
  "encrypt_raw P m rnd plaintext =
     (case encrypt P m rnd plaintext of
        Inl e \<Rightarrow> Inl e
      | Inr e \<Rightarrow> Inr (nonce e @ ciphertext e))"

definition decrypt_raw :: "prims \<Rightarrow> crypto_manager \<Rightarrow> bytes \<Rightarrow> crypto_error + bytes" where
  "decrypt_raw P m data =
     (if length data < NONCE_SIZE then Inl InvalidCiphertext
      else decrypt P m \<lparr>nonce = take NONCE_SIZE data, ciphertext = drop NONCE_SIZE data\<rparr>)"

lemmas seal_defs = encrypt_raw_def decrypt_raw_def encrypt_def decrypt_def NONCE_SIZE_def

lemma seal_open:
  assumes "aead_correct P" "length (cipher m) = 32" "length rnd = 12" "length d \<le> aead_limit"
  shows "\<exists>c. encrypt_raw P m rnd d = Inr c \<and> length c = length d + 28 \<and> decrypt_raw P m c = Inr d"
proof -
  from assms obtain c where c: "aead_encrypt P (cipher m) rnd d = Inr c"
    "length c = length d + 16" "aead_decrypt P (cipher m) rnd c = Inr d"
    by (rule aead_correctE)
  with assms(3) show ?thesis
    by (intro exI [of _ "rnd @ c"]) (simp add: seal_defs)
qed

lemma decrypt_raw_short: "length data < 12 \<Longrightarrow> decrypt_raw P m data = Inl InvalidCiphertext"
  by (simp add: seal_defs)

lemma decrypt_raw_never_nonce_error: "decrypt_raw P m data \<noteq> Inl InvalidNonce"
  by (auto simp: seal_defs map_err_def split: sum.splits)

section \<open>Layered sealing\<close>

text \<open>
  What the onion code relies on: an element \<open>a\<close> of the sending side (a key and the random
  draw for it) and an element \<open>b\<close> of the receiving side that match seal and open a layer of
  an overhead that depends on the sending side alone. Sealing from the last element to the first, opening from the first to
  the last, gives the data back.
\<close>

locale sealing =
  fixes seal :: "'p \<Rightarrow> 'a \<Rightarrow> bytes \<Rightarrow> 'e + bytes"
    and unseal :: "'p \<Rightarrow> 'b \<Rightarrow> bytes \<Rightarrow> 'f + bytes"
    and matches :: "'p \<Rightarrow> 'a \<Rightarrow> 'b \<Rightarrow> bool"
    and overhead :: "'a \<Rightarrow> nat" and limit :: nat
  assumes seal_unseal: "matches p a b \<Longrightarrow> length d + overhead a \<le> limit \<Longrightarrow>
    \<exists>c. seal p a d = Inr c \<and> length c = length d + overhead a \<and> unseal p b c = Inr d"
begin

lemma layers:
  assumes "list_all2 (matches p) as bs" and "length d + sum_list (map overhead as) \<le> limit"
  shows "\<exists>c. try_fold (seal p) (rev as) d = Inr c \<and> try_fold (unseal p) bs c = Inr d \<and>
    length c = length d + sum_list (map overhead as)"
  using assms
proof (induction as bs rule: list_all2_induct)
  case Nil
  then show ?case by simp
next
  case (Cons a as b bs)
  then obtain c where c: "try_fold (seal p) (rev as) d = Inr c"
    "try_fold (unseal p) bs c = Inr d" "length c = length d + sum_list (map overhead as)"
    by auto
  then have "length c + overhead a \<le> limit"
    using Cons.prems by simp
  with Cons.hyps(1) obtain c' where "seal p a c = Inr c'"
    "length c' = length c + overhead a" "unseal p b c' = Inr c"
    using seal_unseal by blast
  with c show ?case
    by (simp add: try_fold_append)
qed

end

record onion_router =
  layers :: "crypto_manager list"

definition onion_new :: "bytes list \<Rightarrow> onion_router" where
  "onion_new keys = \<lparr>layers = map cm_new keys\<rparr>"

text \<open>\<open>wrap\<close>: \<open>rnd i\<close> is the nonce drawn when layer \<open>i\<close> is encrypted.\<close>

definition seal_layer :: "prims \<Rightarrow> crypto_manager \<times> bytes \<Rightarrow> bytes \<Rightarrow> crypto_error + bytes" where
  "seal_layer P = (\<lambda>(m, rnd). encrypt_raw P m rnd)"

definition wrap :: "prims \<Rightarrow> onion_router \<Rightarrow> (nat \<Rightarrow> bytes) \<Rightarrow> bytes \<Rightarrow> crypto_error + bytes" where
  "wrap P r rnd plaintext =
     try_fold (seal_layer P)
       (rev (zip (layers r) (map rnd [0..<length (layers r)]))) plaintext"

definition unwrap_layer :: "prims \<Rightarrow> onion_router \<Rightarrow> bytes \<Rightarrow> nat \<Rightarrow> crypto_error + bytes" where
  "unwrap_layer P r data layer =
     (if length (layers r) \<le> layer then Inl (DecryptionFailed ''Invalid layer index'')
      else decrypt_raw P (layers r ! layer) data)"

definition unwrap_all :: "prims \<Rightarrow> onion_router \<Rightarrow> bytes \<Rightarrow> crypto_error + bytes" where
  "unwrap_all P r data = try_fold (decrypt_raw P) (layers r) data"

definition raw_matches :: "prims \<Rightarrow> crypto_manager \<times> bytes \<Rightarrow> crypto_manager \<Rightarrow> bool" where
  "raw_matches P a m \<longleftrightarrow>
     aead_correct P \<and> fst a = m \<and> length (cipher m) = 32 \<and> length (snd a) = 12"

interpretation raw_sealing: sealing seal_layer decrypt_raw raw_matches "\<lambda>_. 28" aead_limit
proof (unfold_locales, goal_cases)
  case (1 P a m d)
  then show ?case
    using seal_open [of P m "snd a" d]
    by (auto simp: raw_matches_def seal_layer_def case_prod_unfold)
qed

section \<open>Key derivation and content hashes\<close>

definition derive_key :: "prims \<Rightarrow> bytes \<Rightarrow> string \<Rightarrow> bytes" where
  "derive_key P secret ctx = take KEY_SIZE (blake3 P (str_bytes ctx @ secret))"

definition derive_route_keys :: "prims \<Rightarrow> bytes \<Rightarrow> nat \<Rightarrow> bytes list" where
  "derive_route_keys P secret num_hops =
     map (\<lambda>i. derive_key P secret (''shadowmesh-hop-'' @ show_nat i)) [0..<num_hops]"

definition hash_content :: "prims \<Rightarrow> bytes \<Rightarrow> string" where
  "hash_content P data = hex_encode P (blake3 P data)"

definition verify_content_hash :: "prims \<Rightarrow> bytes \<Rightarrow> string \<Rightarrow> bool" where
  "verify_content_hash P data expected \<longleftrightarrow> hash_content P data = expected"

lemma length_derive_key [word_len]: "blake3_sized P \<Longrightarrow> length (derive_key P s c) = 32"
  by (simp add: derive_key_def blake3_sized_def KEY_SIZE_def)

lemma length_derive_route_keys [simp]: "length (derive_route_keys P s n) = n"
  by (simp add: derive_route_keys_def)

lemma derive_route_keys_sized: "blake3_sized P \<Longrightarrow> k \<in> set (derive_route_keys P s n) \<Longrightarrow> length k = 32"
  by (auto simp: derive_route_keys_def length_derive_key)

section \<open>A concrete instance\<close>

text \<open>
  Stand-ins that satisfy the laws above, for the witnesses: the tag is sixteen zero bytes,
  the shared secret is the sum of the two seeds.
\<close>

definition pad_to :: "nat \<Rightarrow> bytes \<Rightarrow> bytes" where
  "pad_to n d = take n (d @ replicate n 0)"

lemma length_pad_to [simp]: "length (pad_to n d) = n"
  by (simp add: pad_to_def)

definition demo_prims :: prims where
  "demo_prims = \<lparr>
     aead_encrypt = (\<lambda>k n d. Inr (d @ take 16 k)),
     aead_decrypt = (\<lambda>k n c. if 16 \<le> length c \<and> drop (length c - 16) c = take 16 k
                             then Inr (take (length c - 16) c) else Inl ''aead::Error''),
     blake3 = pad_to 32 \<circ> rev,
     blake3_keyed = (\<lambda>k d. pad_to 32 (rev d @ k)),
     x25519_public = pad_to 32,
     x25519_dh = (\<lambda>a p. map (\<lambda>(x, y). x + y) (zip (pad_to 32 a) (pad_to 32 p))),
     hex_encode = map (\<lambda>w. char_of (unat w)),
     hex_decode = (\<lambda>s. Inr (str_bytes s)),
     ed_public = (\<lambda>s. s),
     ed_sign = (\<lambda>s m. s @ m),
     ed_verify = (\<lambda>p m g. g = p @ m)\<rparr>"

lemma demo_aead: "aead_correct demo_prims"
  by (auto simp: aead_correct_def demo_prims_def)

lemma demo_blake3: "blake3_sized demo_prims"
  by (simp add: blake3_sized_def demo_prims_def)

lemma pad_to_pad_to [simp]: "pad_to n (pad_to n d) = pad_to n d"
  by (simp add: pad_to_def)

lemma map2_add_commute: "map2 (+) xs ys = map2 (+) ys (xs :: bytes)"
  by (subst zip_commute) (simp add: comp_def case_prod_unfold add.commute)

lemma demo_x25519: "x25519_correct demo_prims"
  by (simp add: x25519_correct_def demo_prims_def map2_add_commute)

lemma demo_ed25519: "ed25519_correct demo_prims"
  by (simp add: ed25519_correct_def demo_prims_def)

lemma byte_char_byte: "of_char (char_of (unat w)) = (w :: 8 word)"
proof -
  have "of_char (char_of (unat w)) = (of_nat (of_char (char_of (unat w) :: char)) :: 8 word)"
    by (simp only: of_nat_of_char)
  also have "\<dots> = of_nat (unat w mod 256)"
    by (simp only: of_char_of)
  also have "unat w mod 256 = unat w"
    using unsigned_less [of w, where 'a = nat] by simp
  finally show ?thesis by simp
qed

lemma demo_hex: "hex_correct demo_prims"
  by (simp add: hex_correct_def demo_prims_def str_bytes_def comp_def byte_char_byte)

end
