(* ===== verification/Onion.thy ===== *)
theory Onion
  imports Crypto
begin

text \<open>
  Onion packets of \<open>protocol/src/routing.rs\<close>: one ECDH key per hop, layers of
  \<open>[ephemeral public key (32)][nonce (12)][ciphertext]\<close>, and packets of one fixed size.
  The random draws of the construction, an ephemeral secret and a nonce for each hop, are
  the argument \<open>rnd\<close>.
\<close>

definition ONION_PACKET_SIZE :: nat where
  "ONION_PACKET_SIZE = 4096"

definition LAYER_OVERHEAD :: nat where
  "LAYER_OVERHEAD = 32 + NONCE_SIZE + 16"

definition MAX_HOPS :: nat where
  "MAX_HOPS = 10"

definition X25519_PUBKEY_SIZE :: nat where
  "X25519_PUBKEY_SIZE = 32"

lemmas onion_sizes = ONION_PACKET_SIZE_def LAYER_OVERHEAD_def MAX_HOPS_def X25519_PUBKEY_SIZE_def
  NONCE_SIZE_def

section \<open>Relay keys\<close>

record relay_keypair =
  rk_secret :: bytes
  rk_public :: bytes

definition rk_from_secret_bytes :: "prims \<Rightarrow> bytes \<Rightarrow> relay_keypair" where
  "rk_from_secret_bytes P secret = \<lparr>rk_secret = secret, rk_public = x25519_public P secret\<rparr>"

text \<open>\<open>generate\<close>: \<open>drawn\<close> is the secret the generator returns.\<close>

definition rk_generate :: "prims \<Rightarrow> bytes \<Rightarrow> relay_keypair" where
  "rk_generate P drawn = \<lparr>rk_secret = drawn, rk_public = x25519_public P drawn\<rparr>"

definition derive_key_from_shared_secret ::
    "prims \<Rightarrow> bytes \<Rightarrow> bytes \<Rightarrow> bytes \<Rightarrow> bytes \<Rightarrow> bytes" where
  "derive_key_from_shared_secret P shared pub_a pub_b ctx =
     take KEY_SIZE (blake3_keyed P shared
       (str_bytes ''shadowmesh-onion-hop-key-v1'' @ ctx @
        (if bytes_less pub_a pub_b then pub_a @ pub_b else pub_b @ pub_a)))"

definition rk_derive_symmetric_key :: "prims \<Rightarrow> relay_keypair \<Rightarrow> bytes \<Rightarrow> bytes \<Rightarrow> bytes" where
  "rk_derive_symmetric_key P kp peer_public ctx =
     derive_key_from_shared_secret P (x25519_dh P (rk_secret kp) peer_public) (rk_public kp)
       peer_public ctx"

definition hop_context :: "nat \<Rightarrow> bytes" where
  "hop_context i = str_bytes (''onion-layer-'' @ show_nat i)"

section \<open>Building a packet\<close>

text \<open>One turn of the loop, for hop \<open>i\<close> with the relay's public key and the draws for it.\<close>

definition build_layer :: "prims \<Rightarrow> nat \<times> bytes \<times> bytes \<times> bytes \<Rightarrow> bytes \<Rightarrow> string + bytes" where
  "build_layer P = (\<lambda>(i, relay_pub, eph_secret, rnd) current.
     let eph_public = x25519_public P eph_secret;
         shared = x25519_dh P eph_secret relay_pub;
         sym_key = derive_key_from_shared_secret P shared eph_public relay_pub (hop_context i)
     in case encrypt_raw P (cm_new sym_key) rnd current of
          Inl e \<Rightarrow> Inl (''Encryption at hop '' @ show_nat i @ '' failed: '' @ crypto_error_text e)
        | Inr encrypted \<Rightarrow> Inr (eph_public @ encrypted))"

definition hop_inputs :: "bytes list \<Rightarrow> (nat \<Rightarrow> bytes \<times> bytes) \<Rightarrow> (nat \<times> bytes \<times> bytes \<times> bytes) list" where
  "hop_inputs relay_pubkeys rnd = map (\<lambda>(i, pub). (i, pub, rnd i)) (enumerate 0 relay_pubkeys)"

definition build_onion_packet ::
    "prims \<Rightarrow> (nat \<Rightarrow> bytes \<times> bytes) \<Rightarrow> bytes \<Rightarrow> bytes list \<Rightarrow> string + bytes" where
  "build_onion_packet P rnd data relay_pubkeys =
     (let num_hops = length relay_pubkeys in
      if num_hops = 0 then Inl ''At least one hop is required''
      else if MAX_HOPS < num_hops then
        Inl (''Too many hops ('' @ show_nat num_hops @ '' > '' @ show_nat MAX_HOPS @ '')'')
      else
        let pad_region = ONION_PACKET_SIZE - num_hops * LAYER_OVERHEAD;
            max_payload = pad_region - 4
        in if max_payload < length data then
             Inl (''Payload too large ('' @ show_nat (length data) @ '' bytes, max '' @
                  show_nat max_payload @ '' for '' @ show_nat num_hops @ '' hops)'')
           else
             let payload_len = length data mod 2 ^ 32;
                 padded = resize pad_region (le_bytes 4 payload_len @ data)
             in try_fold (build_layer P) (rev (hop_inputs relay_pubkeys rnd)) padded)"

section \<open>Peeling\<close>

definition peel_layer :: "prims \<Rightarrow> bytes \<Rightarrow> relay_keypair \<Rightarrow> nat \<Rightarrow> string + bytes" where
  "peel_layer P packet relay_kp hop_index =
     (if length packet < LAYER_OVERHEAD then
        Inl ''Packet too small to contain an onion layer''
      else
        let eph_pub = take X25519_PUBKEY_SIZE packet;
            encrypted = drop X25519_PUBKEY_SIZE packet;
            sym_key = rk_derive_symmetric_key P relay_kp eph_pub (hop_context hop_index)
        in map_err (\<lambda>e. ''Peel failed at hop '' @ show_nat hop_index @ '': '' @ crypto_error_text e)
             (decrypt_raw P (cm_new sym_key) encrypted))"

definition extract_payload :: "bytes \<Rightarrow> string + bytes" where
  "extract_payload plaintext =
     (if length plaintext < 4 then Inl ''Plaintext too short to contain length prefix''
      else
        let len = from_le_bytes (take 4 plaintext)
        in if length plaintext < 4 + len then
             Inl (''Length prefix ('' @ show_nat len @ '') exceeds available data ('' @
                  show_nat (length plaintext - 4) @ '')'')
           else Inr (take len (drop 4 plaintext)))"

section \<open>The routing layer\<close>

record routing_layer =
  secret :: bytes

text \<open>\<open>build_route\<close>: \<open>shuffle\<close> is the permutation the generator draws.\<close>

definition build_route :: "('peer list \<Rightarrow> 'peer list) \<Rightarrow> 'peer list \<Rightarrow> nat \<Rightarrow> 'peer list" where
  "build_route shuffle available_peers num_hops = take num_hops (shuffle available_peers)"

definition encrypt_for_route_ecdh ::
    "prims \<Rightarrow> (nat \<Rightarrow> bytes \<times> bytes) \<Rightarrow> routing_layer \<Rightarrow> bytes \<Rightarrow> bytes list \<Rightarrow> string + bytes" where
  "encrypt_for_route_ecdh P rnd rl data relay_pubkeys = build_onion_packet P rnd data relay_pubkeys"

definition encrypt_for_route ::
    "prims \<Rightarrow> (nat \<Rightarrow> bytes) \<Rightarrow> routing_layer \<Rightarrow> bytes \<Rightarrow> 'peer list \<Rightarrow> string + bytes" where
  "encrypt_for_route P rnd rl data route =
     map_err (\<lambda>e. ''Encryption failed: '' @ crypto_error_text e)
       (wrap P (onion_new (derive_route_keys P (secret rl) (length route))) rnd data)"

definition decrypt_layer ::
    "prims \<Rightarrow> routing_layer \<Rightarrow> bytes \<Rightarrow> nat \<Rightarrow> nat \<Rightarrow> string + bytes" where
  "decrypt_layer P rl data layer_index num_hops =
     map_err (\<lambda>e. ''Decryption failed: '' @ crypto_error_text e)
       (unwrap_layer P (onion_new (derive_route_keys P (secret rl) num_hops)) data layer_index)"

definition decrypt_all :: "prims \<Rightarrow> routing_layer \<Rightarrow> bytes \<Rightarrow> nat \<Rightarrow> string + bytes" where
  "decrypt_all P rl data num_hops =
     map_err (\<lambda>e. ''Decryption failed: '' @ crypto_error_text e)
       (unwrap_all P (onion_new (derive_route_keys P (secret rl) num_hops)) data)"

definition encrypt_fragment :: "prims \<Rightarrow> bytes \<Rightarrow> routing_layer \<Rightarrow> bytes \<Rightarrow> string + bytes" where
  "encrypt_fragment P rnd rl data =
     map_err (\<lambda>e. ''Fragment encryption failed: '' @ crypto_error_text e)
       (encrypt_raw P (cm_new (derive_key P (secret rl) ''fragment'')) rnd data)"

definition decrypt_fragment :: "prims \<Rightarrow> routing_layer \<Rightarrow> bytes \<Rightarrow> string + bytes" where
  "decrypt_fragment P rl data =
     map_err (\<lambda>e. ''Fragment decryption failed: '' @ crypto_error_text e)
       (decrypt_raw P (cm_new (derive_key P (secret rl) ''fragment'')) data)"

section \<open>Lemmas\<close>

lemma derive_key_commute:
  "derive_key_from_shared_secret P s a b ctx = derive_key_from_shared_secret P s b a ctx"
  using sorted_pair_commute [of a b]
  by (simp add: derive_key_from_shared_secret_def sorted_pair_def)

lemma length_derived [word_len]:
  "blake3_sized P \<Longrightarrow> length (derive_key_from_shared_secret P s a b ctx) = 32"
  by (simp add: derive_key_from_shared_secret_def blake3_sized_def KEY_SIZE_def)

text \<open>The client's key for a hop is the key the relay derives from the ephemeral key it reads.\<close>

lemma hop_keys_agree:
  assumes "x25519_correct P"
  shows "rk_derive_symmetric_key P (rk_from_secret_bytes P s) (x25519_public P eph) ctx =
    derive_key_from_shared_secret P (x25519_dh P eph (x25519_public P s)) (x25519_public P eph)
      (x25519_public P s) ctx"
  using assms derive_key_commute
  by (simp add: rk_derive_symmetric_key_def rk_from_secret_bytes_def x25519_correct_def)

definition hop_matches :: "prims \<Rightarrow> nat \<times> bytes \<times> bytes \<times> bytes \<Rightarrow> relay_keypair \<times> nat \<Rightarrow> bool" where
  "hop_matches P = (\<lambda>(i, relay_pub, eph, rnd) (kp, hop_index).
     aead_correct P \<and> blake3_sized P \<and> x25519_correct P \<and> hop_index = i \<and>
     (\<exists>s. kp = rk_from_secret_bytes P s) \<and> relay_pub = rk_public kp \<and> length rnd = 12)"

definition peel_at :: "prims \<Rightarrow> relay_keypair \<times> nat \<Rightarrow> bytes \<Rightarrow> string + bytes" where
  "peel_at P = (\<lambda>(kp, hop_index) packet. peel_layer P packet kp hop_index)"

lemma build_peel:
  assumes "hop_matches P (i, pub, eph, rnd) (kp, j)" and "length d + 60 \<le> aead_limit"
  shows "\<exists>c. build_layer P (i, pub, eph, rnd) d = Inr c \<and> length c = length d + 60 \<and>
    peel_layer P c kp j = Inr d"
proof -
  from assms(1) obtain s where laws: "aead_correct P" "blake3_sized P" "x25519_correct P"
    and j: "j = i" and kp: "kp = rk_from_secret_bytes P s" and pub: "pub = x25519_public P s"
    and rnd: "length rnd = 12"
    by (auto simp: hop_matches_def rk_from_secret_bytes_def)
  define k where "k = derive_key_from_shared_secret P (x25519_dh P eph pub) (x25519_public P eph)
    pub (hop_context i)"
  have k: "rk_derive_symmetric_key P kp (x25519_public P eph) (hop_context j) = k"
    by (simp add: k_def kp pub j hop_keys_agree [OF laws(3)])
  have "length (cipher (cm_new k)) = 32"
    using laws(2) by (simp add: k_def cm_new_def length_derived)
  then obtain c where c: "encrypt_raw P (cm_new k) rnd d = Inr c" "length c = length d + 28"
    "decrypt_raw P (cm_new k) c = Inr d"
    using seal_open [OF laws(1) _ rnd] assms(2) by force
  have "length (x25519_public P eph) = 32"
    using laws(3) by (simp add: x25519_correct_def)
  with c k show ?thesis
    by (intro exI [of _ "x25519_public P eph @ c"])
       (simp add: build_layer_def peel_layer_def Let_def k_def [symmetric] onion_sizes)
qed

interpretation ecdh_sealing: sealing build_layer peel_at hop_matches "\<lambda>_. 60" aead_limit
proof (unfold_locales, goal_cases)
  case (1 P a b d)
  then show ?case
    using build_peel [of P "fst a" "fst (snd a)" "fst (snd (snd a))" "snd (snd (snd a))" "fst b"
        "snd b" d]
    by (simp add: peel_at_def case_prod_unfold)
qed

lemma length_hop_inputs [simp]: "length (hop_inputs pubs rnd) = length pubs"
  by (simp add: hop_inputs_def)

lemma extract_padded:
  assumes "length d < 2 ^ 32" and "length d + 4 \<le> n"
  shows "extract_payload (resize n (le_bytes 4 (length d mod 2 ^ 32) @ d)) = Inr d"
proof -
  have "resize n (le_bytes 4 (length d mod 2 ^ 32) @ d) =
      le_bytes 4 (length d) @ d @ replicate (n - (4 + length d)) 0"
    using assms by (simp add: resize_def)
  moreover have "from_le_bytes (le_bytes 4 (length d)) = length d"
    using assms(1) by (simp add: from_le_bytes_le_bytes)
  ultimately show ?thesis
    using assms(2) by (simp add: extract_payload_def)
qed

lemma hop_inputs_match:
  assumes "aead_correct P" "blake3_sized P" "x25519_correct P" "\<forall>i. length (snd (rnd i)) = 12"
  shows "list_all2 (hop_matches P)
    (hop_inputs (map (x25519_public P) secrets) rnd)
    (map (\<lambda>(i, s). (rk_from_secret_bytes P s, i)) (enumerate 0 secrets))"
  using assms
  by (auto simp: list_all2_conv_all_nth hop_inputs_def hop_matches_def nth_enumerate_eq
      rk_from_secret_bytes_def case_prod_unfold)

lemma build_onion_packet_ok:
  assumes "0 < length pubs" "length pubs \<le> 10" "length d + 4 + 60 * length pubs \<le> 4096"
  shows "build_onion_packet P rnd d pubs =
    try_fold (build_layer P) (rev (hop_inputs pubs rnd))
      (resize (4096 - length pubs * 60) (le_bytes 4 (length d mod 2 ^ 32) @ d))"
  using assms by (auto simp: build_onion_packet_def Let_def onion_sizes)

section \<open>Properties\<close>

text \<open>
  C1. End to end: a packet built for a circuit of 1 to 10 relays, with a payload that fits,
  is built without error and has exactly 4096 bytes whatever the payload; when the relays
  peel it one after the other, each with its own secret and its own position, the last one
  holds a plaintext from which \<open>extract_payload\<close> gives the payload.
\<close>

theorem onion_packet_delivery:
  assumes laws: "aead_correct P" "blake3_sized P" "x25519_correct P"
    and hops: "0 < length secrets" "length secrets \<le> 10"
    and fits: "length d + 4 + 60 * length secrets \<le> 4096"
    and nonces: "\<forall>i. length (snd (rnd i)) = 12"
  shows "\<exists>packet plaintext.
    build_onion_packet P rnd d (map (x25519_public P) secrets) = Inr packet \<and>
    length packet = ONION_PACKET_SIZE \<and>
    try_fold (\<lambda>(i, s) data. peel_layer P data (rk_from_secret_bytes P s) i)
      (enumerate 0 secrets) packet = Inr plaintext \<and>
    extract_payload plaintext = Inr d"
proof -
  let ?in = "hop_inputs (map (x25519_public P) secrets) rnd"
  let ?pad = "resize (4096 - length secrets * 60) (le_bytes 4 (length d mod 2 ^ 32) @ d)"
  let ?relays = "map (\<lambda>(i, s). (rk_from_secret_bytes P s, i)) (enumerate 0 secrets)"
  have "length ?pad + 60 * length ?in = 4096"
    using fits by simp
  then obtain c where c: "try_fold (build_layer P) (rev ?in) ?pad = Inr c"
    "try_fold (peel_at P) ?relays c = Inr ?pad" "length c = 4096"
    using ecdh_sealing.layers [OF hop_inputs_match [OF laws nonces], of ?pad secrets]
    by (auto simp: aead_limit_def sum_list_triv)
  have "try_fold (\<lambda>(i, s) data. peel_layer P data (rk_from_secret_bytes P s) i)
      (enumerate 0 secrets) x = try_fold (peel_at P) ?relays x" for x
    by (simp add: try_fold_map peel_at_def case_prod_unfold)
  moreover have "extract_payload ?pad = Inr d"
    using fits hops by (intro extract_padded) auto
  moreover have "build_onion_packet P rnd d (map (x25519_public P) secrets) =
      try_fold (build_layer P) (rev ?in) ?pad"
    using build_onion_packet_ok [of "map (x25519_public P) secrets" d P rnd] hops fits by simp
  ultimately show ?thesis
    using c by (simp add: ONION_PACKET_SIZE_def)
qed


theorem onion_packet_delivery_witness:
  "\<exists>packet plaintext.
    build_onion_packet demo_prims (\<lambda>i. ([word_of_nat i], replicate 12 7)) [104, 105]
      (map (x25519_public demo_prims) [[1], [2], [3]]) = Inr packet \<and>
    length packet = ONION_PACKET_SIZE \<and>
    try_fold (\<lambda>(i, s) data. peel_layer demo_prims data (rk_from_secret_bytes demo_prims s) i)
      (enumerate 0 [[1], [2], [3]]) packet = Inr plaintext \<and>
    extract_payload plaintext = Inr [104, 105]"
  by (rule onion_packet_delivery [OF demo_aead demo_blake3 demo_x25519]) simp_all

text \<open>
  Construction succeeds exactly within the stated bounds: at least one hop, at most
  \<open>MAX_HOPS\<close>, and a payload of at most \<open>ONION_PACKET_SIZE - hops * LAYER_OVERHEAD - 4\<close>
  bytes. Everything else is refused before any encryption.
\<close>

theorem onion_packet_bounds:
  assumes laws: "aead_correct P" "blake3_sized P" "x25519_correct P"
    and nonces: "\<forall>i. length (snd (rnd i)) = 12"
  shows "(\<exists>packet. build_onion_packet P rnd d (map (x25519_public P) secrets) = Inr packet) \<longleftrightarrow>
    0 < length secrets \<and> length secrets \<le> MAX_HOPS \<and>
    length d \<le> ONION_PACKET_SIZE - length secrets * LAYER_OVERHEAD - 4"
proof (cases "0 < length secrets \<and> length secrets \<le> MAX_HOPS \<and>
    length d \<le> ONION_PACKET_SIZE - length secrets * LAYER_OVERHEAD - 4")
  case True
  let ?in = "hop_inputs (map (x25519_public P) secrets) rnd"
  let ?pad = "resize (4096 - length secrets * 60) (le_bytes 4 (length d mod 2 ^ 32) @ d)"
  from True have "length ?pad + 60 * length ?in \<le> aead_limit"
    by (simp add: aead_limit_def onion_sizes)
  then obtain c where "try_fold (build_layer P) (rev ?in) ?pad = Inr c"
    using ecdh_sealing.layers [OF hop_inputs_match [OF laws nonces], of ?pad secrets]
    by (auto simp: sum_list_triv)
  moreover have "length d + 4 + 60 * length secrets \<le> 4096"
  proof -
    have "length secrets * 60 \<le> 600" "length d \<le> 4096 - length secrets * 60 - 4"
      using True by (simp_all add: onion_sizes)
    then show ?thesis by linarith
  qed
  ultimately show ?thesis
    using True by (simp add: build_onion_packet_ok onion_sizes)
next
  case False
  then show ?thesis
    by (auto simp: build_onion_packet_def Let_def not_le not_less)
qed

theorem onion_packet_bounds_witness:
  "(\<exists>packet. build_onion_packet demo_prims (\<lambda>i. ([], replicate 12 0)) (replicate 4033 9)
      (map (x25519_public demo_prims) [[1]]) = Inr packet) \<longleftrightarrow> False"
proof -
  have "\<forall>i. length (snd ((\<lambda>i. ([], replicate 12 0)) i)) = 12" by simp
  from onion_packet_bounds [OF demo_aead demo_blake3 demo_x25519 this, of "replicate 4033 9" "[[1]]"]
  show ?thesis by (simp add: onion_sizes)
qed

text \<open>
  \<open>extract_payload\<close> stays within the plaintext: it returns \<open>d\<close> exactly when the
  plaintext is a four-byte little-endian length, then \<open>d\<close> of that length, then anything.
\<close>

theorem extract_payload_exact:
  "extract_payload p = Inr d \<longleftrightarrow>
     (\<exists>hdr rest. p = hdr @ d @ rest \<and> length hdr = 4 \<and> from_le_bytes hdr = length d)"
proof
  assume "extract_payload p = Inr d"
  then have len: "4 \<le> length p" "4 + from_le_bytes (take 4 p) \<le> length p"
    and d: "d = take (from_le_bytes (take 4 p)) (drop 4 p)"
    by (auto simp: extract_payload_def Let_def split: if_splits)
  have "p = take 4 p @ d @ drop (from_le_bytes (take 4 p)) (drop 4 p)"
    unfolding d by (simp only: append_take_drop_id)
  moreover have "length (take 4 p) = 4" "from_le_bytes (take 4 p) = length d"
    using len by (auto simp: d)
  ultimately show "\<exists>hdr rest. p = hdr @ d @ rest \<and> length hdr = 4 \<and> from_le_bytes hdr = length d"
    by blast
qed (auto simp: extract_payload_def)

text \<open>
  The legacy route encryption: what \<open>encrypt_for_route\<close> produces for a route,
  \<open>decrypt_all\<close> with the same secret and number of hops turns back into the data; each
  layer costs 28 bytes.
\<close>

theorem legacy_route_roundtrip:
  assumes "aead_correct P" "blake3_sized P" "\<forall>i. length (rnd i) = 12"
    and "length d + 28 * length route \<le> aead_limit"
  shows "\<exists>c. encrypt_for_route P rnd rl d route = Inr c \<and> length c = length d + 28 * length route \<and>
    decrypt_all P rl c (length route) = Inr d"
proof -
  let ?ms = "map cm_new (derive_route_keys P (secret rl) (length route))"
  have "list_all2 (raw_matches P) (zip ?ms (map rnd [0..<length ?ms])) ?ms"
    using assms derive_route_keys_sized [OF assms(2) nth_mem]
    by (auto simp: list_all2_conv_all_nth raw_matches_def cm_new_def)
  from raw_sealing.layers [OF this, of d] assms(4)
  show ?thesis
    by (auto simp: sum_list_triv encrypt_for_route_def decrypt_all_def wrap_def unwrap_all_def onion_new_def)
qed

theorem legacy_route_roundtrip_witness:
  "\<exists>c. encrypt_for_route demo_prims (\<lambda>i. replicate 12 1) \<lparr>secret = [42]\<rparr> [1, 2, 3] [''a'', ''b''] =
        Inr c \<and> length c = length [1, 2, 3 :: 8 word] + 28 * length [''a'', ''b''] \<and>
      decrypt_all demo_prims \<lparr>secret = [42]\<rparr> c (length [''a'', ''b'']) = Inr [1, 2, 3]"
  by (rule legacy_route_roundtrip [OF demo_aead demo_blake3]) (simp_all add: aead_limit_def)

end
