(* ===== verification/NameRecord.thy ===== *)
theory NameRecord
  imports Crypto
begin

text \<open>
  The records of the naming layer, first half of \<open>protocol/src/naming.rs\<close>: names and their
  validation, signed records, conflict resolution, service registries.

  The JSON encoder of records, the key pairs of \<open>libp2p\<close> and their signatures are
  third-party code: the fields of \<open>naming_env\<close>, next to the primitives of Crypto.
\<close>

section \<open>Constants, errors and data\<close>

definition DEFAULT_NAME_TTL :: u64 where
  "DEFAULT_NAME_TTL = 3600"

definition MAX_NAME_TTL :: u64 where
  "MAX_NAME_TTL = 86400"

definition MIN_NAME_TTL :: u64 where
  "MIN_NAME_TTL = 60"

definition NEGATIVE_CACHE_TTL :: duration where
  "NEGATIVE_CACHE_TTL = from_secs 300"

definition MAX_CACHE_ENTRIES :: nat where
  "MAX_CACHE_ENTRIES = 10000"

definition SERVICE_HEARTBEAT_TIMEOUT :: u64 where
  "SERVICE_HEARTBEAT_TIMEOUT = 3600"

definition MAX_NAME_LENGTH :: nat where
  "MAX_NAME_LENGTH = 63"

definition well_known_names :: "string list" where
  "well_known_names = [''_gateway.shadow'', ''_signaling.shadow'', ''_bootstrap.shadow'',
     ''_turn.shadow'', ''_stun.shadow'']"

definition is_well_known :: "string \<Rightarrow> bool" where
  "is_well_known name \<longleftrightarrow> name \<in> set well_known_names"

datatype naming_error =
    InvalidName string
  | InvalidSignature
  | ValidationFailed string
  | SigningFailed string
  | NameTaken
  | NotOwner
  | Revoked
  | SerializationError string
  | InvalidTtl u64
  | StaleSequence
  | ResolutionFailed string

fun naming_error_text :: "naming_error \<Rightarrow> string" where
  "naming_error_text (InvalidName msg) = ''Invalid name: '' @ msg"
| "naming_error_text InvalidSignature = ''Invalid record signature''"
| "naming_error_text (ValidationFailed msg) = ''Validation failed: '' @ msg"
| "naming_error_text (SigningFailed msg) = ''Signing failed: '' @ msg"
| "naming_error_text NameTaken = ''Name is already registered''"
| "naming_error_text NotOwner = ''Not the owner of this name''"
| "naming_error_text Revoked = ''Name has been revoked''"
| "naming_error_text (SerializationError msg) = ''Serialization error: '' @ msg"
| "naming_error_text (InvalidTtl ttl) =
     ''TTL '' @ show_nat (unat ttl) @ '' out of range ['' @ show_nat (unat MIN_NAME_TTL) @
     '', '' @ show_nat (unat MAX_NAME_TTL) @ '']''"
| "naming_error_text StaleSequence = ''Sequence number is not higher than existing''"
| "naming_error_text (ResolutionFailed msg) = ''Resolution failed: '' @ msg"

datatype service_type = Signaling | Turn | Stun | Bootstrap | Relay | Custom string

datatype name_record_type =
    Content (rt_cid: string)
  | Gateway (rt_peer: string) (rt_addrs: "string list") (rt_weight: u8)
  | Service (rt_service: service_type) (rt_peer: string) (rt_addrs: "string list")
  | Peer (rt_peer: string) (rt_addrs: "string list")
  | Alias (rt_target: string)

record name_record =
  name :: string
  name_hash :: string
  owner_pubkey :: string
  records :: "name_record_type list"
  sequence :: u64
  created_at :: u64
  updated_at :: u64
  ttl_seconds :: u64
  signature :: string

record service_registry_entry =
  se_service_type :: service_type
  se_peer_id :: string
  se_multiaddrs :: "string list"
  se_reputation :: u8
  se_registered_at :: u64
  se_last_heartbeat :: u64
  se_signature :: string

record service_registry =
  sr_name :: string
  sr_entries :: "service_registry_entry list"
  sr_updated_at :: u64

section \<open>Third-party code of the naming layer\<close>

text \<open>A key pair is known by its secret bytes.\<close>

record naming_env =
  np :: prims
  record_to_json :: "name_record \<Rightarrow> string + bytes"
  record_from_json :: "bytes \<Rightarrow> string + name_record"
  entry_to_json :: "service_registry_entry \<Rightarrow> string + bytes"
  registry_to_json :: "service_registry \<Rightarrow> string + bytes"
  registry_from_json :: "bytes \<Rightarrow> string + service_registry"
  kp_public :: "bytes \<Rightarrow> bytes" \<comment> \<open>the public key, protobuf-encoded\<close>
  kp_sign :: "bytes \<Rightarrow> bytes \<Rightarrow> string + bytes"
  pk_decode :: "bytes \<Rightarrow> string + bytes"
  pk_verify :: "bytes \<Rightarrow> bytes \<Rightarrow> bytes \<Rightarrow> bool"

text \<open>
  Records serialize without error; a key pair signs without error, its encoded public key
  decodes, and the signature verifies under the decoded key.
\<close>

definition naming_correct :: "naming_env \<Rightarrow> bool" where
  "naming_correct E \<longleftrightarrow> hex_correct (np E) \<and>
     (\<forall>r. \<exists>b. record_to_json E r = Inr b) \<and>
     (\<forall>kp m. \<exists>s pk. kp_sign E kp m = Inr s \<and> pk_decode E (kp_public E kp) = Inr pk \<and>
        pk_verify E pk m s)"

text \<open>A concrete instance, for the witnesses: a signature is the key followed by the message.\<close>

definition demo_record :: name_record where
  "demo_record = \<lparr>name = ''app.shadow'', name_hash = hex_encode demo_prims (blake3 demo_prims (str_bytes ''app.shadow'')),
     owner_pubkey = ''k'', records = [Content ''cid''], sequence = 1, created_at = 100,
     updated_at = 100, ttl_seconds = 3600, signature = ''kapp.shadow''\<rparr>"

definition demo_naming :: naming_env where
  "demo_naming = \<lparr>np = demo_prims,
     record_to_json = (\<lambda>r. Inr (str_bytes (name r))),
     record_from_json = (\<lambda>b. if b = [] then Inl ''EOF''
       else Inr (demo_record\<lparr>records := (if b = [0] then [] else [Content ''cid'']),
                             sequence := (if b = [0] then u64_max else 1)\<rparr>)),
     entry_to_json = (\<lambda>e. Inr (str_bytes (se_peer_id e))),
     registry_to_json = (\<lambda>r. Inr (str_bytes (sr_name r))),
     registry_from_json = (\<lambda>b. Inl ''EOF''),
     kp_public = (\<lambda>k. k),
     kp_sign = (\<lambda>k m. Inr (k @ m)),
     pk_decode = Inr,
     pk_verify = (\<lambda>p m s. s = p @ m)\<rparr>"

lemma demo_naming_correct: "naming_correct demo_naming"
  by (simp add: naming_correct_def demo_naming_def demo_hex)

section \<open>Names\<close>

text \<open>A test of an ASCII class on a code point.\<close>

definition cp_is :: "(char \<Rightarrow> bool) \<Rightarrow> string \<Rightarrow> bool" where
  "cp_is p cp = (case cp of [c] \<Rightarrow> p c | _ \<Rightarrow> False)"

definition name_char :: "string \<Rightarrow> bool" where
  "name_char ch \<longleftrightarrow> cp_is is_ascii_lowercase ch \<or> cp_is is_ascii_digit ch \<or> ch = ''-''"

definition validate_name :: "string \<Rightarrow> naming_error + unit" where
  "validate_name nm =
     (case rust_strip_suffix ''.shadow'' nm of
        None \<Rightarrow> Inl (InvalidName ''must end with .shadow'')
      | Some label \<Rightarrow>
          if label = [] \<or> MAX_NAME_LENGTH < length label then
            Inl (InvalidName (''label must be 1-'' @ show_nat MAX_NAME_LENGTH @
              '' characters, got '' @ show_nat (length label)))
          else
            (case (case rust_strip_prefix ''_'' label of
                     Some rest \<Rightarrow>
                       if rest = [] then Inl (InvalidName ''underscore prefix requires a label'')
                       else Inr rest
                   | None \<Rightarrow> Inr label) of
               Inl e \<Rightarrow> Inl e
             | Inr check_label \<Rightarrow>
                 let cps = rust_chars check_label in
                 if cps = [] \<or> \<not> cp_is is_ascii_alphanumeric (hd cps) then
                   Inl (InvalidName ''must start with alphanumeric character'')
                 else if \<not> cp_is is_ascii_alphanumeric (last cps) then
                   Inl (InvalidName ''must end with alphanumeric character'')
                 else
                   (case List.find (\<lambda>ch. \<not> name_char ch) cps of
                      Some ch \<Rightarrow> Inl (InvalidName (''invalid character '' @ [CHR 0x27] @ ch @
                        [CHR 0x27] @ ''; only [a-z0-9-] allowed''))
                    | None \<Rightarrow> Inr ())))"

definition name_to_hash :: "prims \<Rightarrow> string \<Rightarrow> string" where
  "name_to_hash P nm = hex_encode P (blake3 P (str_bytes nm))"

definition name_to_key :: "prims \<Rightarrow> string \<Rightarrow> bytes" where
  "name_to_key P nm = str_bytes (''/shadowmesh/names/'' @ name_to_hash P nm)"

section \<open>Signatures and well-formed records\<close>

definition canonical_bytes :: "naming_env \<Rightarrow> name_record \<Rightarrow> naming_error + bytes" where
  "canonical_bytes E r = map_err SerializationError (record_to_json E (r\<lparr>signature := []\<rparr>))"

definition sign_record :: "naming_env \<Rightarrow> name_record \<Rightarrow> bytes \<Rightarrow> naming_error + name_record" where
  "sign_record E r keypair =
     (case canonical_bytes E r of
        Inl e \<Rightarrow> Inl e
      | Inr b \<Rightarrow>
          (case kp_sign E keypair b of
             Inl e \<Rightarrow> Inl (SigningFailed e)
           | Inr sig \<Rightarrow> Inr (r\<lparr>signature := hex_encode (np E) sig\<rparr>)))"

definition verify_record :: "naming_env \<Rightarrow> name_record \<Rightarrow> naming_error + bool" where
  "verify_record E r =
     (case hex_decode (np E) (owner_pubkey r) of
        Inl e \<Rightarrow> Inl (ValidationFailed e)
      | Inr pubkey_bytes \<Rightarrow>
          (case pk_decode E pubkey_bytes of
             Inl e \<Rightarrow> Inl (ValidationFailed (''invalid public key: '' @ e))
           | Inr public_key \<Rightarrow>
               (case canonical_bytes E r of
                  Inl e \<Rightarrow> Inl e
                | Inr b \<Rightarrow>
                    (case hex_decode (np E) (signature r) of
                       Inl e \<Rightarrow> Inl (ValidationFailed e)
                     | Inr sig \<Rightarrow> Inr (pk_verify E public_key b sig)))))"

definition ttl_in_range :: "u64 \<Rightarrow> bool" where
  "ttl_in_range ttl \<longleftrightarrow> MIN_NAME_TTL \<le> ttl \<and> ttl \<le> MAX_NAME_TTL"

fun validate_alias :: "name_record_type \<Rightarrow> unit \<Rightarrow> naming_error + unit" where
  "validate_alias (Alias target) u = validate_name target"
| "validate_alias _ u = Inr u"

definition validate_record :: "prims \<Rightarrow> name_record \<Rightarrow> naming_error + unit" where
  "validate_record P r =
     (case validate_name (name r) of
        Inl e \<Rightarrow> Inl e
      | Inr _ \<Rightarrow>
          if \<not> ttl_in_range (ttl_seconds r) then Inl (InvalidTtl (ttl_seconds r))
          else if name_hash r \<noteq> name_to_hash P (name r) then
            Inl (ValidationFailed ''name_hash does not match name'')
          else if owner_pubkey r = [] then Inl (ValidationFailed ''owner_pubkey is required'')
          else try_fold validate_alias (records r) ())"

section \<open>Conflict resolution\<close>

text \<open>\<open>String\<close> comparison is bytewise.\<close>

definition string_le :: "string \<Rightarrow> string \<Rightarrow> bool" where
  "string_le s t \<longleftrightarrow> \<not> bytes_less (str_bytes t) (str_bytes s)"

text \<open>
  \<open>resolve_conflict\<close> returns one of its two references, and the callers test by pointer
  whether it is the first: \<open>record_wins a b\<close> says that it is.
\<close>

definition record_wins :: "name_record \<Rightarrow> name_record \<Rightarrow> bool" where
  "record_wins a b \<longleftrightarrow>
     (if sequence a \<noteq> sequence b then sequence b < sequence a
      else if created_at a \<noteq> created_at b then created_at a < created_at b
      else string_le (owner_pubkey a) (owner_pubkey b))"

definition resolve_conflict :: "name_record \<Rightarrow> name_record \<Rightarrow> name_record" where
  "resolve_conflict a b = (if record_wins a b then a else b)"

section \<open>Queries of a record\<close>

definition is_revoked :: "name_record \<Rightarrow> bool" where
  "is_revoked r \<longleftrightarrow> records r = [] \<and> sequence r = u64_max"

definition content_cids :: "name_record \<Rightarrow> string list" where
  "content_cids r =
     List.map_filter (\<lambda>t. case t of Content cid \<Rightarrow> Some cid | _ \<Rightarrow> None) (records r)"

definition gateways :: "name_record \<Rightarrow> (string \<times> string list \<times> u8) list" where
  "gateways r =
     List.map_filter (\<lambda>t. case t of Gateway p a w \<Rightarrow> Some (p, a, w) | _ \<Rightarrow> None) (records r)"

definition services :: "name_record \<Rightarrow> service_type \<Rightarrow> (string \<times> string list) list" where
  "services r wanted =
     List.map_filter (\<lambda>t. case t of
         Service s p a \<Rightarrow> if s = wanted then Some (p, a) else None | _ \<Rightarrow> None) (records r)"

definition peers :: "name_record \<Rightarrow> (string \<times> string list) list" where
  "peers r =
     List.map_filter (\<lambda>t. case t of Peer p a \<Rightarrow> Some (p, a) | _ \<Rightarrow> None) (records r)"

section \<open>Service registries\<close>

definition registry_new :: "string \<Rightarrow> u64 \<Rightarrow> service_registry" where
  "registry_new nm now = \<lparr>sr_name = nm, sr_entries = [], sr_updated_at = now\<rparr>"

definition upsert_entry :: "service_registry_entry \<Rightarrow> u64 \<Rightarrow> service_registry \<Rightarrow> service_registry" where
  "upsert_entry entry now reg =
     reg\<lparr>sr_entries := filter (\<lambda>e. se_peer_id e \<noteq> se_peer_id entry) (sr_entries reg) @ [entry],
         sr_updated_at := now\<rparr>"

definition prune_stale :: "u64 \<Rightarrow> service_registry \<Rightarrow> service_registry" where
  "prune_stale now reg =
     (let cutoff = sat_sub now SERVICE_HEARTBEAT_TIMEOUT
      in reg\<lparr>sr_entries := filter (\<lambda>e. cutoff < se_last_heartbeat e) (sr_entries reg),
             sr_updated_at := now\<rparr>)"

text \<open>\<open>sort_by\<close> with the operands swapped: stable, highest reputation first.\<close>

definition best_entries :: "nat \<Rightarrow> service_registry \<Rightarrow> service_registry_entry list" where
  "best_entries limit reg = take limit (sort_key (\<lambda>e. 255 - unat (se_reputation e)) (sr_entries reg))"

definition entries_by_type :: "service_type \<Rightarrow> service_registry \<Rightarrow> service_registry_entry list" where
  "entries_by_type t reg = filter (\<lambda>e. se_service_type e = t) (sr_entries reg)"


section \<open>Lemmas on names\<close>

lemma rust_chars_ascii:
  "\<forall>c \<in> set s. \<not> is_continuation c \<Longrightarrow> rust_chars s = map (\<lambda>c. [c]) s"
proof (induction s)
  case (Cons c s)
  then have "takeWhile is_continuation s = []" "dropWhile is_continuation s = s"
    by (cases s; simp)+
  with Cons show ?case by simp
qed simp

lemma singletons: "\<forall>x \<in> set xs. length x = 1 \<Longrightarrow> xs = map (\<lambda>c. [c]) (concat xs)"
  by (induction xs) (auto simp: length_Suc_conv)

lemma rust_chars_singletons:
  "\<forall>x \<in> set (rust_chars s). length x = 1 \<Longrightarrow> rust_chars s = map (\<lambda>c. [c]) s"
  using singletons [of "rust_chars s"] by simp

definition label_char :: "char \<Rightarrow> bool" where
  "label_char c \<longleftrightarrow> is_ascii_lowercase c \<or> is_ascii_digit c \<or> c = CHR ''-''"

lemma name_char_iff: "name_char cp \<longleftrightarrow> (\<exists>c. cp = [c] \<and> label_char c)"
  by (auto simp: name_char_def label_char_def cp_is_def split: list.splits)

lemma label_char_not_continuation: "label_char c \<Longrightarrow> \<not> is_continuation c"
  by (auto simp: label_char_def is_continuation_def ascii_defs)

lemma label_char_alphanumeric: "label_char c \<Longrightarrow> is_ascii_alphanumeric c \<longleftrightarrow> c \<noteq> CHR ''-''"
  by (auto simp: label_char_def ascii_defs)

lemma all_name_chars_iff: "list_all name_char (rust_chars s) \<longleftrightarrow> list_all label_char s"
proof
  assume *: "list_all name_char (rust_chars s)"
  then have "\<forall>x \<in> set (rust_chars s). length x = 1"
    by (auto simp: list_all_iff name_char_iff)
  then have "rust_chars s = map (\<lambda>c. [c]) s"
    by (rule rust_chars_singletons)
  with * show "list_all label_char s"
    by (auto simp: list_all_iff name_char_iff)
next
  assume *: "list_all label_char s"
  then have "rust_chars s = map (\<lambda>c. [c]) s"
    by (intro rust_chars_ascii) (auto simp: list_all_iff label_char_not_continuation)
  with * show "list_all name_char (rust_chars s)"
    by (auto simp: list_all_iff name_char_iff)
qed

text \<open>The part of the check that follows the optional underscore.\<close>

definition core_ok :: "string \<Rightarrow> bool" where
  "core_ok s \<longleftrightarrow> s \<noteq> [] \<and> list_all label_char s \<and> hd s \<noteq> CHR ''-'' \<and> last s \<noteq> CHR ''-''"

lemma core_check_iff:
  "(rust_chars s \<noteq> [] \<and> cp_is is_ascii_alphanumeric (hd (rust_chars s)) \<and>
    cp_is is_ascii_alphanumeric (last (rust_chars s)) \<and>
    List.find (\<lambda>ch. \<not> name_char ch) (rust_chars s) = None) \<longleftrightarrow> core_ok s"
proof (cases "list_all label_char s")
  case True
  then have chars: "rust_chars s = map (\<lambda>c. [c]) s"
    by (intro rust_chars_ascii) (auto simp: list_all_iff label_char_not_continuation)
  have "List.find (\<lambda>ch. \<not> name_char ch) (rust_chars s) = None"
    using True by (simp add: find_None_iff flip: all_name_chars_iff) (simp add: list_all_iff)
  with True chars show ?thesis
    by (cases "s = []")
       (auto simp: core_ok_def cp_is_def hd_map last_map list_all_iff label_char_alphanumeric)
next
  case False
  then have "\<not> list_all name_char (rust_chars s)"
    by (simp add: all_name_chars_iff)
  then have "List.find (\<lambda>ch. \<not> name_char ch) (rust_chars s) \<noteq> None"
    by (auto simp: find_None_iff list_all_iff)
  with False show ?thesis
    by (auto simp: core_ok_def)
qed

lemma validate_label_iff:
  "(let cps = rust_chars s in
    if cps = [] \<or> \<not> cp_is is_ascii_alphanumeric (hd cps) then Inl e1
    else if \<not> cp_is is_ascii_alphanumeric (last cps) then Inl e2
    else (case List.find (\<lambda>ch. \<not> name_char ch) cps of Some ch \<Rightarrow> Inl (e3 ch) | None \<Rightarrow> Inr ()))
   = Inr u \<longleftrightarrow> core_ok s"
  unfolding core_check_iff [symmetric] by (auto simp: Let_def split: option.splits)

lemma underscore_not_core: "\<not> core_ok (CHR ''_'' # s)"
  by (simp add: core_ok_def label_char_def ascii_defs)

lemma core_ok_no_underscore: "core_ok s \<Longrightarrow> rust_strip_prefix ''_'' s = None"
  using underscore_not_core by (cases s) (auto simp: rust_strip_prefix_def)

lemma validate_name_label:
  "validate_name (label @ ''.shadow'') = Inr u \<longleftrightarrow>
     length label \<le> 63 \<and> (core_ok label \<or> (\<exists>core. label = CHR ''_'' # core \<and> core_ok core))"
proof -
  have "rust_strip_suffix ''.shadow'' (label @ ''.shadow'') = Some label"
    by (simp only: rust_strip_suffix_Some)
  moreover have "rust_strip_prefix ''_'' (CHR ''_'' # core) = Some core" for core
    by (simp add: rust_strip_prefix_def)
  moreover have "rust_strip_prefix ''_'' (c # core) = None" if "c \<noteq> CHR ''_''" for c core
    using that by (simp add: rust_strip_prefix_def)
  ultimately show ?thesis
    by (cases label; cases "hd label = CHR ''_''")
       (auto simp: validate_name_def validate_label_iff MAX_NAME_LENGTH_def not_less
        underscore_not_core core_ok_def [of "[]"] simp del: rust_chars.simps(2))
qed

text \<open>
  The names \<open>validate_name\<close> accepts, exactly: an optional underscore, then a nonempty
  run of lowercase letters, digits and hyphens that neither starts nor ends with a hyphen,
  then ".shadow"; the label with its underscore has at most 63 bytes.
\<close>

theorem validate_name_exact:
  "validate_name nm = Inr () \<longleftrightarrow>
     (\<exists>prefix core. nm = prefix @ core @ ''.shadow'' \<and> (prefix = [] \<or> prefix = ''_'') \<and>
        length prefix + length core \<le> 63 \<and> core \<noteq> [] \<and>
        (\<forall>c \<in> set core. is_ascii_lowercase c \<or> is_ascii_digit c \<or> c = CHR ''-'') \<and>
        hd core \<noteq> CHR ''-'' \<and> last core \<noteq> CHR ''-'')"
  (is "_ \<longleftrightarrow> ?rhs")
proof -
  have rhs: "?rhs \<longleftrightarrow> (\<exists>label. nm = label @ ''.shadow'' \<and> length label \<le> 63 \<and>
      (core_ok label \<or> (\<exists>core. label = CHR ''_'' # core \<and> core_ok core)))"
    (is "_ \<longleftrightarrow> ?labels")
  proof
    assume ?rhs
    then show ?labels
      by (auto simp: core_ok_def list_all_iff label_char_def)
  next
    assume ?labels
    then obtain label core where "nm = label @ ''.shadow''" "length label \<le> 63" "core_ok core"
      "label = core \<or> label = CHR ''_'' # core" by blast
    then show ?rhs
      by (intro exI [of _ "if label = core then [] else ''_''"] exI [of _ core])
         (auto simp: core_ok_def list_all_iff label_char_def)
  qed
  show ?thesis
  proof (cases "rust_strip_suffix ''.shadow'' nm")
    case None
    then have "\<nexists>label. nm = label @ ''.shadow''"
      by (metis option.distinct(1) rust_strip_suffix_Some)
    with None rhs show ?thesis
      by (simp add: validate_name_def)
  next
    case (Some label)
    then have "nm = label @ ''.shadow''"
      by (simp only: rust_strip_suffix_Some)
    then show ?thesis
      using rhs by (simp add: validate_name_label)
  qed
qed

theorem validate_name_exact_witness: "validate_name ''_gateway.shadow'' = Inr ()"
  by (subst validate_name_exact, rule exI [of _ "''_''"], rule exI [of _ "''gateway''"])
     (simp add: ascii_defs)

section \<open>Lemmas on conflict resolution\<close>

text \<open>
  A relation "the first argument wins" that is total and transitive selects, from any
  nonempty list of candidates, one that wins against all of them. Two selections from
  rearrangements of one list win against each other.
\<close>

locale selection =
  fixes wins :: "'a \<Rightarrow> 'a \<Rightarrow> bool"
  assumes total: "wins a b \<or> wins b a"
    and trans: "wins a b \<Longrightarrow> wins b c \<Longrightarrow> wins a c"
begin

lemma fold_select:
  "wins (fold (\<lambda>b a. if wins a b then a else b) xs x) x \<and>
   (\<forall>y \<in> set xs. wins (fold (\<lambda>b a. if wins a b then a else b) xs x) y) \<and>
   fold (\<lambda>b a. if wins a b then a else b) xs x \<in> insert x (set xs)"
proof (induction xs arbitrary: x)
  case Nil
  then show ?case using total [of x x] by simp
next
  case (Cons y xs)
  let ?z = "if wins x y then x else y"
  have "wins ?z x" "wins ?z y"
    using total [of x y] total [of x x] total [of y y] by auto
  with Cons [of ?z] show ?case
    by (auto intro: trans)
qed

lemma fold_select_perm:
  assumes "set (x # xs) = set (y # ys)"
  shows "wins (fold (\<lambda>b a. if wins a b then a else b) xs x)
    (fold (\<lambda>b a. if wins a b then a else b) ys y)"
proof -
  have "fold (\<lambda>b a. if wins a b then a else b) ys y \<in> set (x # xs)"
    using fold_select [of ys y] assms by auto
  then show ?thesis
    using fold_select [of xs x] by auto
qed

end

lemma bytes_less_trans: "bytes_less a b \<Longrightarrow> bytes_less b c \<Longrightarrow> bytes_less a c"
proof (induction a b arbitrary: c rule: bytes_less.induct)
  case (3 x xs y ys)
  then show ?case by (cases c) auto
next
  case (2 y ys)
  then show ?case by (cases c) auto
qed simp

lemma string_le_total: "string_le a b \<or> string_le b a"
  by (auto simp: string_le_def dest: bytes_less_asym)

lemma string_le_trans: "string_le a b \<Longrightarrow> string_le b c \<Longrightarrow> string_le a c"
  unfolding string_le_def
  by (metis bytes_less_total bytes_less_trans)

lemma str_bytes_inject [simp]: "str_bytes a = str_bytes b \<longleftrightarrow> a = b"
proof -
  have "inj (of_char :: char \<Rightarrow> 8 word)"
  proof (rule injI)
    fix c d :: char
    assume "(of_char c :: 8 word) = of_char d"
    then have "unat (of_nat (of_char c) :: 8 word) = unat (of_nat (of_char d) :: 8 word)"
      by (simp only: of_nat_of_char)
    then have "(of_char c :: nat) mod 256 = of_char d mod 256"
      by (simp add: unat_of_nat)
    then show "c = d" by simp
  qed
  then show ?thesis
    by (simp add: str_bytes_def inj_map_eq_map)
qed

lemma string_le_antisym: "string_le a b \<Longrightarrow> string_le b a \<Longrightarrow> a = b"
  unfolding string_le_def using bytes_less_total [of "str_bytes a" "str_bytes b"] by auto

lemma record_wins_total: "record_wins a b \<or> record_wins b a"
  using string_le_total by (auto simp: record_wins_def)

lemma record_wins_trans: "record_wins a b \<Longrightarrow> record_wins b c \<Longrightarrow> record_wins a c"
  by (auto simp: record_wins_def intro: string_le_trans split: if_splits)

lemma record_wins_antisym:
  "record_wins a b \<Longrightarrow> record_wins b a \<Longrightarrow>
     sequence a = sequence b \<and> created_at a = created_at b \<and> owner_pubkey a = owner_pubkey b"
  by (auto simp: record_wins_def intro: string_le_antisym split: if_splits)

interpretation conflicts: selection record_wins
  by unfold_locales (rule record_wins_total, rule record_wins_trans)

end
