(* ===== verification/NameStore.thy ===== *)
theory NameStore
  imports NameRecord
begin

text \<open>
  The state of the naming layer, second half of \<open>protocol/src/naming.rs\<close>: the
  \<open>NamingManager\<close> (owned names, cached records, service registries) and the
  \<open>NameResolver\<close> (positive and negative cache with expiry). A method with \<open>&mut self\<close>
  returns its result and the new state; \<open>now\<close> is the clock reading of the call.
\<close>

section \<open>The manager\<close>

record naming_manager =
  owned_names :: "(string, name_record) hmap"
  local_cache :: "(string, name_record) hmap"
  service_registries :: "(string, service_registry) hmap"

definition manager_new :: naming_manager where
  "manager_new = \<lparr>owned_names = [], local_cache = [], service_registries = []\<rparr>"

definition pubkey_hex :: "naming_env \<Rightarrow> bytes \<Rightarrow> string" where
  "pubkey_hex E keypair = hex_encode (np E) (kp_public E keypair)"

definition create_name_record ::
    "naming_env \<Rightarrow> u64 \<Rightarrow> string \<Rightarrow> name_record_type list \<Rightarrow> bytes \<Rightarrow> u64 \<Rightarrow> naming_error + name_record" where
  "create_name_record E now nm recs keypair ttl =
     (case validate_name nm of
        Inl e \<Rightarrow> Inl e
      | Inr _ \<Rightarrow>
          if \<not> ttl_in_range ttl then Inl (InvalidTtl ttl)
          else sign_record E
            \<lparr>name = nm, name_hash = name_to_hash (np E) nm, owner_pubkey = pubkey_hex E keypair,
             records = recs, sequence = 1, created_at = now, updated_at = now,
             ttl_seconds = ttl, signature = []\<rparr> keypair)"

definition update_name_record ::
    "naming_env \<Rightarrow> u64 \<Rightarrow> name_record \<Rightarrow> name_record_type list \<Rightarrow> bytes \<Rightarrow> naming_error + name_record" where
  "update_name_record E now existing new_records keypair =
     (if pubkey_hex E keypair \<noteq> owner_pubkey existing then Inl NotOwner
      else sign_record E
        (existing\<lparr>records := new_records, sequence := sat_add (sequence existing) 1,
                  updated_at := now, signature := []\<rparr>) keypair)"

definition revoke_name_record ::
    "naming_env \<Rightarrow> u64 \<Rightarrow> name_record \<Rightarrow> bytes \<Rightarrow> naming_error + name_record" where
  "revoke_name_record E now existing keypair =
     (if pubkey_hex E keypair \<noteq> owner_pubkey existing then Inl NotOwner
      else sign_record E
        (existing\<lparr>records := [], sequence := u64_max, updated_at := now, signature := []\<rparr>) keypair)"

definition register_name ::
    "naming_env \<Rightarrow> u64 \<Rightarrow> string \<Rightarrow> name_record_type list \<Rightarrow> bytes \<Rightarrow> u64 \<Rightarrow> naming_manager \<Rightarrow>
     (naming_error + name_record) \<times> naming_manager" where
  "register_name E now nm recs keypair ttl st =
     (let hash = name_to_hash (np E) nm in
      case hm_get (owned_names st) hash of
        Some existing \<Rightarrow>
          if owner_pubkey existing \<noteq> pubkey_hex E keypair then (Inl NameTaken, st)
          else (update_name_record E now existing recs keypair, st)
      | None \<Rightarrow>
          if (case hm_get (local_cache st) hash of
                Some cached \<Rightarrow> owner_pubkey cached \<noteq> pubkey_hex E keypair
              | None \<Rightarrow> False)
          then (Inl NameTaken, st)
          else (case create_name_record E now nm recs keypair ttl of
                  Inl e \<Rightarrow> (Inl e, st)
                | Inr r \<Rightarrow> (Inr r, st\<lparr>owned_names := hm_insert hash r (owned_names st)\<rparr>)))"

definition update_owned_name ::
    "naming_env \<Rightarrow> u64 \<Rightarrow> string \<Rightarrow> name_record_type list \<Rightarrow> bytes \<Rightarrow> naming_manager \<Rightarrow>
     (naming_error + name_record) \<times> naming_manager" where
  "update_owned_name E now nm new_records keypair st =
     (let hash = name_to_hash (np E) nm in
      case hm_get (owned_names st) hash of
        None \<Rightarrow> (Inl NotOwner, st)
      | Some existing \<Rightarrow>
          (case update_name_record E now existing new_records keypair of
             Inl e \<Rightarrow> (Inl e, st)
           | Inr r \<Rightarrow> (Inr r, st\<lparr>owned_names := hm_insert hash r (owned_names st)\<rparr>)))"

text \<open>The last step of \<open>cache_record\<close>: one entry, oldest \<open>updated_at\<close>, leaves a full cache.\<close>

definition evict_oldest :: "(string, name_record) hmap \<Rightarrow> (string, name_record) hmap" where
  "evict_oldest cache =
     (if MAX_CACHE_ENTRIES < length cache then
        (case min_by_key (\<lambda>(_, r). updated_at r) cache of
           Some (oldest_key, _) \<Rightarrow> hm_remove oldest_key cache
         | None \<Rightarrow> cache)
      else cache)"

definition cache_record ::
    "naming_env \<Rightarrow> name_record \<Rightarrow> naming_manager \<Rightarrow> (naming_error + unit) \<times> naming_manager" where
  "cache_record E r st =
     (case validate_record (np E) r of
        Inl e \<Rightarrow> (Inl e, st)
      | Inr _ \<Rightarrow>
          (case verify_record E r of
             Inl e \<Rightarrow> (Inl e, st)
           | Inr False \<Rightarrow> (Inl InvalidSignature, st)
           | Inr True \<Rightarrow>
               if (case hm_get (local_cache st) (name_hash r) of
                     Some existing \<Rightarrow> record_wins existing r
                   | None \<Rightarrow> False)
               then (Inr (), st)
               else (Inr (), st\<lparr>local_cache :=
                       evict_oldest (hm_insert (name_hash r) r (local_cache st))\<rparr>)))"

definition resolve_local :: "naming_env \<Rightarrow> naming_manager \<Rightarrow> string \<Rightarrow> name_record option" where
  "resolve_local E st nm =
     (let hash = name_to_hash (np E) nm in
      case hm_get (owned_names st) hash of
        Some r \<Rightarrow> Some r
      | None \<Rightarrow> hm_get (local_cache st) hash)"

definition invalidate_cache :: "naming_env \<Rightarrow> string \<Rightarrow> naming_manager \<Rightarrow> naming_manager" where
  "invalidate_cache E nm st =
     st\<lparr>local_cache := hm_remove (name_to_hash (np E) nm) (local_cache st)\<rparr>"

definition list_owned_names :: "naming_manager \<Rightarrow> name_record list" where
  "list_owned_names st = hm_values (owned_names st)"

text \<open>\<open>service_registry\<close> gives a mutable reference: the registry, and how to put it back.\<close>

definition service_registry_entry_or_new :: "u64 \<Rightarrow> string \<Rightarrow> naming_manager \<Rightarrow> service_registry" where
  "service_registry_entry_or_new now nm st =
     (case hm_get (service_registries st) nm of Some r \<Rightarrow> r | None \<Rightarrow> registry_new nm now)"

definition modify_service_registry ::
    "u64 \<Rightarrow> string \<Rightarrow> (service_registry \<Rightarrow> service_registry) \<Rightarrow> naming_manager \<Rightarrow> naming_manager" where
  "modify_service_registry now nm f st =
     st\<lparr>service_registries :=
          hm_insert nm (f (service_registry_entry_or_new now nm st)) (service_registries st)\<rparr>"

definition get_service_registry :: "naming_manager \<Rightarrow> string \<Rightarrow> service_registry option" where
  "get_service_registry st nm = hm_get (service_registries st) nm"

definition create_service_entry ::
    "naming_env \<Rightarrow> u64 \<Rightarrow> service_type \<Rightarrow> string \<Rightarrow> string list \<Rightarrow> u8 \<Rightarrow> bytes \<Rightarrow>
     naming_error + service_registry_entry" where
  "create_service_entry E now t peer addrs reputation keypair =
     (let entry = \<lparr>se_service_type = t, se_peer_id = peer, se_multiaddrs = addrs,
            se_reputation = reputation, se_registered_at = now, se_last_heartbeat = now,
            se_signature = []\<rparr>
      in case entry_to_json E (entry\<lparr>se_signature := []\<rparr>) of
           Inl e \<Rightarrow> Inl (SerializationError e)
         | Inr b \<Rightarrow>
             (case kp_sign E keypair b of
                Inl e \<Rightarrow> Inl (SigningFailed e)
              | Inr sig \<Rightarrow> Inr (entry\<lparr>se_signature := hex_encode (np E) sig\<rparr>)))"

definition prune_all_registries :: "u64 \<Rightarrow> naming_manager \<Rightarrow> naming_manager" where
  "prune_all_registries now st =
     st\<lparr>service_registries := hm_map_values (prune_stale now) (service_registries st)\<rparr>"

definition serialize_record :: "naming_env \<Rightarrow> name_record \<Rightarrow> naming_error + bytes" where
  "serialize_record E r = map_err SerializationError (record_to_json E r)"

definition deserialize_record :: "naming_env \<Rightarrow> bytes \<Rightarrow> naming_error + name_record" where
  "deserialize_record E data = map_err SerializationError (record_from_json E data)"

definition serialize_registry :: "naming_env \<Rightarrow> service_registry \<Rightarrow> naming_error + bytes" where
  "serialize_registry E r = map_err SerializationError (registry_to_json E r)"

definition deserialize_registry :: "naming_env \<Rightarrow> bytes \<Rightarrow> naming_error + service_registry" where
  "deserialize_registry E data = map_err SerializationError (registry_from_json E data)"

section \<open>The resolver\<close>

record cached_entry =
  ce_record :: name_record
  ce_cached_at :: instant
  ce_ttl :: duration

definition entry_expired :: "instant \<Rightarrow> cached_entry \<Rightarrow> bool" where
  "entry_expired now e \<longleftrightarrow> ce_ttl e < elapsed now (ce_cached_at e)"

datatype resolve_result = Found name_record | NotFound | CacheMiss

record name_resolver =
  positive_cache :: "(string, cached_entry) hmap"
  negative_cache :: "(string, instant) hmap"
  max_entries :: nat

definition resolver_with_capacity :: "nat \<Rightarrow> name_resolver" where
  "resolver_with_capacity n = \<lparr>positive_cache = [], negative_cache = [], max_entries = n\<rparr>"

definition resolver_new :: name_resolver where
  "resolver_new = resolver_with_capacity MAX_CACHE_ENTRIES"

definition resolve :: "naming_env \<Rightarrow> instant \<Rightarrow> name_resolver \<Rightarrow> string \<Rightarrow> resolve_result" where
  "resolve E now res nm =
     (let hash = name_to_hash (np E) nm in
      case (case hm_get (positive_cache res) hash of
              Some entry \<Rightarrow> if \<not> entry_expired now entry then Some (Found (ce_record entry)) else None
            | None \<Rightarrow> None) of
        Some result \<Rightarrow> result
      | None \<Rightarrow>
          (case hm_get (negative_cache res) hash of
             Some cached_at \<Rightarrow>
               if elapsed now cached_at < NEGATIVE_CACHE_TTL then NotFound else CacheMiss
           | None \<Rightarrow> CacheMiss))"

lemma length_hm_remove_less: "(k, v) \<in> set m \<Longrightarrow> length (hm_remove k m) < length m"
proof (induction m)
  case Nil
  then show ?case by simp
next
  case (Cons kv m)
  have "length (hm_remove k m) \<le> length m"
    by (rule length_hm_remove_le)
  with Cons show ?case
    by (cases kv) (auto simp: hm_remove_def)
qed

text \<open>The loop of \<open>evict_if_needed\<close>: the oldest entries leave until the capacity is met.\<close>

function evict_loop :: "nat \<Rightarrow> (string, cached_entry) hmap \<Rightarrow> (string, cached_entry) hmap" where
  "evict_loop n cache =
     (if n < length cache then
        (case min_by_key (\<lambda>(_, e). ce_cached_at e) cache of
           Some (oldest_key, _) \<Rightarrow> evict_loop n (hm_remove oldest_key cache)
         | None \<Rightarrow> cache)
      else cache)"
  by pat_completeness auto

termination
  by (relation "measure (length \<circ> snd)")
     (auto dest!: min_by_key_Some intro: length_hm_remove_less)

declare evict_loop.simps [simp del]

definition evict_if_needed :: "name_resolver \<Rightarrow> name_resolver" where
  "evict_if_needed res =
     res\<lparr>positive_cache := evict_loop (max_entries res) (positive_cache res)\<rparr>"

definition record_miss :: "instant \<Rightarrow> string \<Rightarrow> name_resolver \<Rightarrow> resolve_result \<times> name_resolver" where
  "record_miss now hash res =
     (NotFound, res\<lparr>negative_cache := hm_insert hash now (negative_cache res)\<rparr>)"

definition process_dht_result ::
    "naming_env \<Rightarrow> instant \<Rightarrow> string \<Rightarrow> bytes option \<Rightarrow> name_resolver \<Rightarrow> resolve_result \<times> name_resolver" where
  "process_dht_result E now nm data res =
     (let hash = name_to_hash (np E) nm in
      case data of
        None \<Rightarrow> record_miss now hash res
      | Some b \<Rightarrow>
          (case deserialize_record E b of
             Inl _ \<Rightarrow> record_miss now hash res
           | Inr r \<Rightarrow>
               if validate_record (np E) r \<noteq> Inr () then record_miss now hash res
               else if verify_record E r \<noteq> Inr True then record_miss now hash res
               else if is_revoked r then record_miss now hash res
               else
                 (case (case hm_get (positive_cache res) hash of
                          Some existing \<Rightarrow>
                            if record_wins (ce_record existing) r then Some (ce_record existing)
                            else None
                        | None \<Rightarrow> None) of
                    Some kept \<Rightarrow> (Found kept, res)
                  | None \<Rightarrow>
                      let ttl = from_secs (unat (min (ttl_seconds r) MAX_NAME_TTL));
                          entry = \<lparr>ce_record = r, ce_cached_at = now, ce_ttl = ttl\<rparr>
                      in (Found r, evict_if_needed
                            (res\<lparr>positive_cache := hm_insert hash entry (positive_cache res),
                                 negative_cache := hm_remove hash (negative_cache res)\<rparr>)))))"

definition invalidate :: "naming_env \<Rightarrow> string \<Rightarrow> name_resolver \<Rightarrow> name_resolver" where
  "invalidate E nm res =
     (let hash = name_to_hash (np E) nm
      in res\<lparr>positive_cache := hm_remove hash (positive_cache res),
             negative_cache := hm_remove hash (negative_cache res)\<rparr>)"

definition cleanup_expired :: "instant \<Rightarrow> name_resolver \<Rightarrow> name_resolver" where
  "cleanup_expired now res =
     res\<lparr>positive_cache := hm_retain (\<lambda>_ e. \<not> entry_expired now e) (positive_cache res),
         negative_cache :=
           hm_retain (\<lambda>_ t. elapsed now t < NEGATIVE_CACHE_TTL) (negative_cache res)\<rparr>"

definition cache_size :: "name_resolver \<Rightarrow> nat" where
  "cache_size res = length (positive_cache res)"

definition negative_cache_size :: "name_resolver \<Rightarrow> nat" where
  "negative_cache_size res = length (negative_cache res)"

end
