(* ===== verification/NameSafety.thy ===== *)
theory NameSafety
  imports NameStore
begin

text \<open>
  What the naming layer guarantees: signed records verify, caches hold only valid signed
  records within their bounds, they converge whatever the order of delivery, and the owner's
  updates and revocations prevail. The last section states where the resolver and
  \<open>register_name\<close> fall short of their documentation.
\<close>

section \<open>Signing and verification\<close>

lemma canonical_bytes_signature [simp]:
  "canonical_bytes E (r\<lparr>signature := s\<rparr>) = canonical_bytes E r"
  by (simp add: canonical_bytes_def)

lemma sign_record_shape:
  "sign_record E r kp = Inr r' \<Longrightarrow> \<exists>s. r' = r\<lparr>signature := s\<rparr>"
  by (auto simp: sign_record_def split: sum.splits)

lemma sign_verify:
  assumes "naming_correct E" and "owner_pubkey r = pubkey_hex E kp"
  shows "\<exists>s. sign_record E r kp = Inr (r\<lparr>signature := s\<rparr>) \<and>
    verify_record E (r\<lparr>signature := s\<rparr>) = Inr True"
proof -
  from assms(1) obtain b where b: "record_to_json E (r\<lparr>signature := []\<rparr>) = Inr b"
    unfolding naming_correct_def by blast
  from assms(1) obtain sig pk where sig: "kp_sign E kp b = Inr sig"
    "pk_decode E (kp_public E kp) = Inr pk" "pk_verify E pk b sig"
    unfolding naming_correct_def by blast
  have hex: "hex_decode (np E) (hex_encode (np E) x) = Inr x" for x
    using assms(1) by (simp add: naming_correct_def hex_correct_def)
  have c: "canonical_bytes E r = Inr b"
    by (simp add: canonical_bytes_def b)
  show ?thesis
    using sig
    by (intro exI [of _ "hex_encode (np E) sig"])
       (simp add: sign_record_def verify_record_def c assms(2) pubkey_hex_def hex)
qed

definition accepted :: "naming_env \<Rightarrow> name_record \<Rightarrow> bool" where
  "accepted E r \<longleftrightarrow> validate_record (np E) r = Inr () \<and> verify_record E r = Inr True"

definition aliases_ok :: "name_record_type list \<Rightarrow> bool" where
  "aliases_ok recs \<longleftrightarrow>
     list_all (\<lambda>t. case t of Alias target \<Rightarrow> validate_name target = Inr () | _ \<Rightarrow> True) recs"

lemma validate_aliases: "try_fold validate_alias recs () = Inr () \<longleftrightarrow> aliases_ok recs"
proof (induction recs)
  case Nil
  then show ?case by (simp add: aliases_ok_def)
next
  case (Cons t recs)
  then show ?case
    by (cases t) (auto simp: aliases_ok_def split: sum.splits)
qed

lemma validate_record_iff:
  "validate_record P r = Inr () \<longleftrightarrow>
     validate_name (name r) = Inr () \<and> ttl_in_range (ttl_seconds r) \<and>
     name_hash r = name_to_hash P (name r) \<and> owner_pubkey r \<noteq> [] \<and> aliases_ok (records r)"
  by (auto simp: validate_record_def validate_aliases split: sum.splits)

lemma update_shape:
  "update_name_record E now r recs kp = Inr r' \<Longrightarrow>
     pubkey_hex E kp = owner_pubkey r \<and>
     (\<exists>s. r' = r\<lparr>records := recs, sequence := sat_add (sequence r) 1, updated_at := now,
                signature := s\<rparr>)"
  by (auto simp: update_name_record_def split: if_splits dest!: sign_record_shape)

lemma update_verifies:
  assumes "naming_correct E" and "update_name_record E now r recs kp = Inr r'"
  shows "verify_record E r' = Inr True"
proof -
  let ?r = "r\<lparr>records := recs, sequence := sat_add (sequence r) 1, updated_at := now, signature := []\<rparr>"
  have owner: "owner_pubkey ?r = pubkey_hex E kp"
    using update_shape [OF assms(2)] by simp
  from sign_verify [OF assms(1) owner] assms(2) show ?thesis
    by (auto simp: update_name_record_def split: if_splits)
qed

section \<open>The invariant of the manager\<close>

definition registry_ok :: "string \<Rightarrow> service_registry \<Rightarrow> bool" where
  "registry_ok nm reg \<longleftrightarrow> sr_name reg = nm \<and> distinct (map se_peer_id (sr_entries reg))"

definition owned_ok :: "naming_env \<Rightarrow> string \<Rightarrow> name_record \<Rightarrow> bool" where
  "owned_ok E h r \<longleftrightarrow> name_hash r = h \<and> name_hash r = name_to_hash (np E) (name r) \<and>
     validate_name (name r) = Inr () \<and> ttl_in_range (ttl_seconds r)"

definition naming_inv :: "naming_env \<Rightarrow> naming_manager \<Rightarrow> bool" where
  "naming_inv E st \<longleftrightarrow>
     hm_wf (local_cache st) \<and> length (local_cache st) \<le> MAX_CACHE_ENTRIES \<and>
     (\<forall>h r. hm_get (local_cache st) h = Some r \<longrightarrow> name_hash r = h \<and> accepted E r) \<and>
     hm_wf (owned_names st) \<and>
     (\<forall>h r. hm_get (owned_names st) h = Some r \<longrightarrow> owned_ok E h r) \<and>
     hm_wf (service_registries st) \<and>
     (\<forall>n reg. hm_get (service_registries st) n = Some reg \<longrightarrow> registry_ok n reg)"

datatype manager_call =
    RegisterName u64 string "name_record_type list" bytes u64
  | UpdateOwned u64 string "name_record_type list" bytes
  | CacheRecord name_record
  | InvalidateCache string
  | UpsertService u64 string service_registry_entry
  | PruneService u64 string
  | PruneAll u64

fun manager_step :: "naming_env \<Rightarrow> manager_call \<Rightarrow> naming_manager \<Rightarrow> naming_manager" where
  "manager_step E (RegisterName now nm recs kp ttl) st = snd (register_name E now nm recs kp ttl st)"
| "manager_step E (UpdateOwned now nm recs kp) st = snd (update_owned_name E now nm recs kp st)"
| "manager_step E (CacheRecord r) st = snd (cache_record E r st)"
| "manager_step E (InvalidateCache nm) st = invalidate_cache E nm st"
| "manager_step E (UpsertService now nm e) st = modify_service_registry now nm (upsert_entry e now) st"
| "manager_step E (PruneService now nm) st = modify_service_registry now nm (prune_stale now) st"
| "manager_step E (PruneAll now) st = prune_all_registries now st"

lemma evict_oldest_wf [simp]: "hm_wf c \<Longrightarrow> hm_wf (evict_oldest c)"
  by (auto simp: evict_oldest_def split: option.splits)

lemma evict_oldest_sub: "hm_get (evict_oldest c) h = Some r \<Longrightarrow> hm_get c h = Some r"
  by (auto simp: evict_oldest_def split: if_splits option.splits prod.splits)

lemma evict_oldest_small: "length c \<le> MAX_CACHE_ENTRIES \<Longrightarrow> evict_oldest c = c"
  by (simp add: evict_oldest_def)

lemma evict_oldest_bound:
  assumes "length c \<le> Suc MAX_CACHE_ENTRIES"
  shows "length (evict_oldest c) \<le> MAX_CACHE_ENTRIES"
proof (cases "MAX_CACHE_ENTRIES < length c")
  case True
  then have "c \<noteq> []" by auto
  then obtain k r where kr: "min_by_key (\<lambda>(_, r). updated_at r) c = Some (k, r)"
    by (metis min_by_key_None option.exhaust surj_pair)
  then have "(k, r) \<in> set c"
    by (auto dest: min_by_key_Some)
  then have "length (hm_remove k c) < length c"
    by (rule length_hm_remove_less)
  with True kr assms show ?thesis
    by (simp add: evict_oldest_def)
qed (simp add: evict_oldest_def)

lemma length_insert_le: "length (hm_insert k v m) \<le> Suc (length m)"
  by (simp add: length_hm_insert)

text \<open>\<open>cache_record\<close> by cases: refused, ignored, or stored.\<close>

lemma cache_record_cases:
  obtains (refused) e where "cache_record E r st = (Inl e, st)" "\<not> accepted E r"
  | (ignored) existing where "cache_record E r st = (Inr (), st)" "accepted E r"
      "hm_get (local_cache st) (name_hash r) = Some existing" "record_wins existing r"
  | (stored) "cache_record E r st = (Inr (), st\<lparr>local_cache :=
        evict_oldest (hm_insert (name_hash r) r (local_cache st))\<rparr>)" "accepted E r"
      "\<And>existing. hm_get (local_cache st) (name_hash r) = Some existing \<Longrightarrow>
         \<not> record_wins existing r"
proof -
  consider (e1) e where "validate_record (np E) r = Inl e"
    | (e2) e where "validate_record (np E) r = Inr ()" "verify_record E r = Inl e"
    | (e3) "validate_record (np E) r = Inr ()" "verify_record E r = Inr False"
    | (ok) "accepted E r"
    by (metis (full_types) accepted_def sum.exhaust old.unit.exhaust)
  then show thesis
  proof cases
    case ok
    then show thesis
      using ignored stored
      by (cases "hm_get (local_cache st) (name_hash r)")
         (auto simp: cache_record_def accepted_def split: if_splits)
  qed (use refused in \<open>auto simp: cache_record_def accepted_def\<close>)
qed

lemma create_owned_ok:
  "create_name_record E now nm recs kp ttl = Inr r \<Longrightarrow> owned_ok E (name_to_hash (np E) nm) r"
  by (auto simp: create_name_record_def owned_ok_def split: sum.splits if_splits
      dest!: sign_record_shape)

lemma update_owned_ok:
  "update_name_record E now r recs kp = Inr r' \<Longrightarrow> owned_ok E h r \<Longrightarrow> owned_ok E h r'"
  by (auto simp: owned_ok_def dest!: update_shape)

lemma register_name_inv:
  "naming_inv E st \<Longrightarrow> naming_inv E (snd (register_name E now nm recs kp ttl st))"
  by (auto simp: register_name_def naming_inv_def Let_def create_owned_ok
      split: option.splits sum.splits)

lemma update_owned_name_inv:
  "naming_inv E st \<Longrightarrow> naming_inv E (snd (update_owned_name E now nm recs kp st))"
  by (auto simp: update_owned_name_def naming_inv_def Let_def intro: update_owned_ok
      split: option.splits sum.splits)

lemma cache_record_inv: "naming_inv E st \<Longrightarrow> naming_inv E (snd (cache_record E r st))"
proof (cases rule: cache_record_cases [of E r st])
  case stored
  assume inv: "naming_inv E st"
  let ?c = "hm_insert (name_hash r) r (local_cache st)"
  have "length ?c \<le> Suc MAX_CACHE_ENTRIES"
    using inv length_insert_le [of "name_hash r" r "local_cache st"] by (auto simp: naming_inv_def)
  then have "length (evict_oldest ?c) \<le> MAX_CACHE_ENTRIES"
    by (rule evict_oldest_bound)
  with inv stored(1,2) show ?thesis
    by (auto simp: naming_inv_def dest!: evict_oldest_sub split: if_splits)
qed simp_all

lemma upsert_registry_ok:
  "registry_ok nm reg \<Longrightarrow> registry_ok nm (upsert_entry e now reg)"
  by (auto simp: registry_ok_def upsert_entry_def distinct_map intro: inj_on_subset)

lemma prune_registry_ok: "registry_ok nm reg \<Longrightarrow> registry_ok nm (prune_stale now reg)"
  by (auto simp: registry_ok_def prune_stale_def Let_def distinct_map intro: inj_on_subset)

lemma modify_registry_inv:
  assumes "naming_inv E st" and "\<And>reg. registry_ok nm reg \<Longrightarrow> registry_ok nm (f reg)"
  shows "naming_inv E (modify_service_registry now nm f st)"
proof -
  have "registry_ok nm (service_registry_entry_or_new now nm st)"
    using assms(1)
    by (auto simp: naming_inv_def service_registry_entry_or_new_def registry_new_def registry_ok_def
        split: option.splits)
  with assms show ?thesis
    by (auto simp: naming_inv_def modify_service_registry_def)
qed

lemma manager_step_inv: "naming_inv E st \<Longrightarrow> naming_inv E (manager_step E call st)"
proof (cases call)
  case (InvalidateCache nm)
  assume "naming_inv E st"
  moreover have "length (hm_remove (name_to_hash (np E) nm) (local_cache st)) \<le> length (local_cache st)"
    by (rule length_hm_remove_le)
  ultimately show ?thesis
    by (auto simp: InvalidateCache naming_inv_def invalidate_cache_def)
next
  case (PruneAll now)
  assume "naming_inv E st"
  then show ?thesis
    by (auto simp: PruneAll naming_inv_def prune_all_registries_def intro: prune_registry_ok)
qed (simp_all add: register_name_inv update_owned_name_inv cache_record_inv modify_registry_inv
      upsert_registry_ok prune_registry_ok)

interpretation manager: call_machine "manager_step E" "naming_inv E" for E
  by unfold_locales (rule manager_step_inv)

lemma naming_inv_new: "naming_inv E manager_new"
  by (simp add: naming_inv_def manager_new_def)

text \<open>
  C7. Whatever calls a manager has served: its cache maps each hash to a record of a name
  with that hash that is valid and signed by its owner, holds at most 10000 records, and every
  service registry stands under its own name and lists each peer at most once.
\<close>

theorem manager_sound:
  fixes E calls
  defines "st \<equiv> fold (manager_step E) calls manager_new"
  shows "list_all (\<lambda>(h, r). name_hash r = h \<and> name_to_hash (np E) (name r) = h \<and>
           validate_record (np E) r = Inr () \<and> verify_record E r = Inr True) (local_cache st) \<and>
         length (local_cache st) \<le> 10000 \<and>
         list_all (\<lambda>(n, reg). sr_name reg = n \<and> distinct (map se_peer_id (sr_entries reg)))
           (service_registries st)"
proof -
  have inv: "naming_inv E st"
    unfolding st_def by (rule manager.run_inv) (rule naming_inv_new)
  then have "name_hash r = h \<and> accepted E r" if "(h, r) \<in> set (local_cache st)" for h r
    using that by (auto simp: naming_inv_def hm_get_iff_in_set)
  moreover have "registry_ok n reg" if "(n, reg) \<in> set (service_registries st)" for n reg
    using inv that by (auto simp: naming_inv_def hm_get_iff_in_set)
  ultimately show ?thesis
    using inv
    by (fastforce simp: list_all_iff naming_inv_def MAX_CACHE_ENTRIES_def accepted_def
        validate_record_iff registry_ok_def)
qed

text \<open>
  What a manager owns only grows: the names with their owners, and the sequence numbers up to the
  current one.
\<close>

definition ownership :: "naming_manager \<Rightarrow> (string \<times> string \<times> string \<times> u64) set" where
  "ownership st = {(h, nm, pk, s). \<exists>r. hm_get (owned_names st) h = Some r \<and> name r = nm \<and>
     owner_pubkey r = pk \<and> s \<le> sequence r}"

lemma ownership_insert:
  assumes "\<And>r. hm_get (owned_names st) h = Some r \<Longrightarrow>
    name r' = name r \<and> owner_pubkey r' = owner_pubkey r \<and> sequence r \<le> sequence r'"
  shows "ownership st \<subseteq> ownership (st\<lparr>owned_names := hm_insert h r' (owned_names st)\<rparr>)"
  using assms by (fastforce simp: ownership_def intro: order_trans)

lemma ownership_other_fields [simp]:
  "ownership (local_cache_update f st) = ownership st"
  "ownership (service_registries_update g st) = ownership st"
  by (simp_all add: ownership_def)

lemma register_name_ownership:
  "ownership st \<subseteq> ownership (snd (register_name E now nm recs kp ttl st))"
proof (cases "hm_get (owned_names st) (name_to_hash (np E) nm)")
  case None
  then have "ownership st \<subseteq> ownership
      (st\<lparr>owned_names := hm_insert (name_to_hash (np E) nm) r (owned_names st)\<rparr>)" for r
    by (intro ownership_insert) simp
  with None show ?thesis
    by (simp add: register_name_def Let_def split: sum.splits)
qed (simp add: register_name_def Let_def)

lemma update_owned_name_ownership:
  "ownership st \<subseteq> ownership (snd (update_owned_name E now nm recs kp st))"
proof (cases "hm_get (owned_names st) (name_to_hash (np E) nm)")
  case None
  then show ?thesis
    by (simp add: update_owned_name_def Let_def)
next
  case (Some r)
  have "ownership st \<subseteq> ownership
      (st\<lparr>owned_names := hm_insert (name_to_hash (np E) nm) r' (owned_names st)\<rparr>)"
    if "update_name_record E now r recs kp = Inr r'" for r'
    using update_shape [OF that] Some sat_add_ge [of "sequence r" 1]
    by (intro ownership_insert) auto
  with Some show ?thesis
    by (simp add: update_owned_name_def Let_def split: sum.splits)
qed

lemma manager_step_ownership: "ownership st \<subseteq> ownership (manager_step E call st)"
proof (cases call)
  case (CacheRecord r)
  then show ?thesis
    by (cases rule: cache_record_cases [of E r st]) simp_all
qed (simp_all add: register_name_ownership update_owned_name_ownership invalidate_cache_def
    modify_service_registry_def prune_all_registries_def)

interpretation owner: monotone_machine "manager_step E" "naming_inv E" ownership for E
  by unfold_locales (rule manager_step_ownership)

text \<open>
  Ownership is never lost: a name a manager owns stays owned, under the same owner key, and
  its sequence number never decreases, whatever calls follow - also when the cache evicts
  entries, foreign records arrive or the name is invalidated or registered again.
\<close>

theorem owned_names_never_regress:
  fixes E calls later
  defines "st \<equiv> fold (manager_step E) calls manager_new"
  assumes "hm_get (owned_names st) h = Some r"
  shows "\<exists>r'. hm_get (owned_names (fold (manager_step E) later st)) h = Some r' \<and>
    name r' = name r \<and> owner_pubkey r' = owner_pubkey r \<and> sequence r \<le> sequence r' \<and>
    resolve_local E (fold (manager_step E) later st) (name r) = Some r'"
proof -
  have "naming_inv E st"
    unfolding st_def by (rule manager.run_inv) (rule naming_inv_new)
  then have later: "ownership st \<subseteq> ownership (fold (manager_step E) later st)"
    by (rule owner.run_level)
  from \<open>naming_inv E st\<close> assms(2) have h: "name_to_hash (np E) (name r) = h"
    unfolding naming_inv_def owned_ok_def by metis
  have "(h, name r, owner_pubkey r, sequence r) \<in> ownership st"
    using assms(2) by (auto simp: ownership_def)
  with later have "(h, name r, owner_pubkey r, sequence r) \<in> ownership (fold (manager_step E) later st)"
    by blast
  then obtain r' where "hm_get (owned_names (fold (manager_step E) later st)) h = Some r'"
    "name r' = name r" "owner_pubkey r' = owner_pubkey r" "sequence r \<le> sequence r'"
    unfolding ownership_def by blast
  then show ?thesis
    by (simp add: resolve_local_def h)
qed

section \<open>Publication and ownership\<close>

lemma create_accepted:
  assumes "naming_correct E" "validate_name nm = Inr ()" "ttl_in_range ttl" "aliases_ok recs"
    and "pubkey_hex E kp \<noteq> []"
  shows "\<exists>s. create_name_record E now nm recs kp ttl =
      Inr \<lparr>name = nm, name_hash = name_to_hash (np E) nm, owner_pubkey = pubkey_hex E kp,
           records = recs, sequence = 1, created_at = now, updated_at = now,
           ttl_seconds = ttl, signature = s\<rparr> \<and>
    accepted E \<lparr>name = nm, name_hash = name_to_hash (np E) nm, owner_pubkey = pubkey_hex E kp,
           records = recs, sequence = 1, created_at = now, updated_at = now,
           ttl_seconds = ttl, signature = s\<rparr>"
proof -
  let ?r = "\<lparr>name = nm, name_hash = name_to_hash (np E) nm, owner_pubkey = pubkey_hex E kp,
           records = recs, sequence = 1, created_at = now, updated_at = now,
           ttl_seconds = ttl, signature = []\<rparr>"
  obtain s where "sign_record E ?r kp = Inr (?r\<lparr>signature := s\<rparr>)"
    "verify_record E (?r\<lparr>signature := s\<rparr>) = Inr True"
    using sign_verify [OF assms(1), of ?r kp] by auto
  with assms show ?thesis
    by (intro exI [of _ s]) (simp add: create_name_record_def accepted_def validate_record_iff)
qed

text \<open>A record that does not lose to the cached one is stored, when there is room.\<close>

lemma cache_record_stores:
  assumes "accepted E r"
    and "\<And>e. hm_get (local_cache st) (name_hash r) = Some e \<Longrightarrow> \<not> record_wins e r"
    and "length (local_cache st) < MAX_CACHE_ENTRIES \<or>
      length (local_cache st) \<le> MAX_CACHE_ENTRIES \<and> hm_get (local_cache st) (name_hash r) \<noteq> None"
  shows "cache_record E r st =
    (Inr (), st\<lparr>local_cache := hm_insert (name_hash r) r (local_cache st)\<rparr>)"
proof -
  have "length (hm_insert (name_hash r) r (local_cache st)) \<le> MAX_CACHE_ENTRIES"
    using assms(3) by (auto simp: length_hm_insert)
  then show ?thesis
    using assms(1,2)
    by (cases rule: cache_record_cases [of E r st]) (auto simp: evict_oldest_small)
qed

text \<open>
  Publication: for a valid name, a TTL in range, valid alias targets and a key pair whose
  public key is not empty, \<open>create_name_record\<close> succeeds, and any peer that has room in its
  cache and neither owns nor caches the name accepts the record and then resolves the name to
  it.
\<close>

theorem created_record_resolves_at_peers:
  assumes "naming_correct E" "validate_name nm = Inr ()" "ttl_in_range ttl" "aliases_ok recs"
    and "pubkey_hex E kp \<noteq> []"
    and "hm_get (owned_names peer) (name_to_hash (np E) nm) = None"
    and "hm_get (local_cache peer) (name_to_hash (np E) nm) = None"
    and "length (local_cache peer) < 10000"
  shows "\<exists>r peer'. create_name_record E now nm recs kp ttl = Inr r \<and>
    name r = nm \<and> records r = recs \<and> sequence r = 1 \<and> owner_pubkey r = pubkey_hex E kp \<and>
    cache_record E r peer = (Inr (), peer') \<and> resolve_local E peer' nm = Some r"
proof -
  obtain r where r: "create_name_record E now nm recs kp ttl = Inr r" "accepted E r"
    "name r = nm" "name_hash r = name_to_hash (np E) nm" "records r = recs" "sequence r = 1"
    "owner_pubkey r = pubkey_hex E kp"
    using create_accepted [OF assms(1-5), of now] by auto
  have "cache_record E r peer =
    (Inr (), peer\<lparr>local_cache := hm_insert (name_hash r) r (local_cache peer)\<rparr>)"
    by (rule cache_record_stores) (use r assms in \<open>auto simp: MAX_CACHE_ENTRIES_def\<close>)
  with r assms(6) show ?thesis
    by (simp add: resolve_local_def)
qed

theorem created_record_resolves_at_peers_witness:
  "\<exists>r peer'. create_name_record demo_naming 100 ''app.shadow'' [Content ''cid''] [7] 3600 = Inr r \<and>
    name r = ''app.shadow'' \<and> records r = [Content ''cid''] \<and> sequence r = 1 \<and>
    owner_pubkey r = pubkey_hex demo_naming [7] \<and>
    cache_record demo_naming r manager_new = (Inr (), peer') \<and>
    resolve_local demo_naming peer' ''app.shadow'' = Some r"
proof (rule created_record_resolves_at_peers)
  show "naming_correct demo_naming" by (rule demo_naming_correct)
  show "validate_name ''app.shadow'' = Inr ()" by code_simp
qed (simp_all add: aliases_ok_def ttl_in_range_def MIN_NAME_TTL_def MAX_NAME_TTL_def
    manager_new_def pubkey_hex_def demo_naming_def demo_prims_def)

theorem owned_names_never_regress_witness:
  "\<exists>r r'. create_name_record demo_naming 100 ''app.shadow'' [Content ''cid''] [7] 3600 = Inr r \<and>
    hm_get (owned_names (fold (manager_step demo_naming)
      [InvalidateCache ''app.shadow'', UpdateOwned 200 ''app.shadow'' [Content ''new''] [7]]
      (fold (manager_step demo_naming)
        [RegisterName 100 ''app.shadow'' [Content ''cid''] [7] 3600] manager_new)))
      (name_to_hash (np demo_naming) ''app.shadow'') = Some r' \<and> sequence r \<le> sequence r'"
proof -
  have "validate_name ''app.shadow'' = Inr ()"
    by code_simp
  then obtain r where r: "create_name_record demo_naming 100 ''app.shadow'' [Content ''cid''] [7] 3600 = Inr r"
    using create_accepted [OF demo_naming_correct, of "''app.shadow''" 3600 "[Content ''cid'']" "[7]" 100]
    by (auto simp: aliases_ok_def ttl_in_range_def MIN_NAME_TTL_def MAX_NAME_TTL_def
        pubkey_hex_def demo_naming_def demo_prims_def)
  then have "hm_get (owned_names (fold (manager_step demo_naming)
      [RegisterName 100 ''app.shadow'' [Content ''cid''] [7] 3600] manager_new))
      (name_to_hash (np demo_naming) ''app.shadow'') = Some r"
    by (simp add: register_name_def manager_new_def)
  with r show ?thesis
    using owned_names_never_regress
      [of demo_naming "[RegisterName 100 ''app.shadow'' [Content ''cid''] [7] 3600]" _ r
        "[InvalidateCache ''app.shadow'', UpdateOwned 200 ''app.shadow'' [Content ''new''] [7]]"]
    by blast
qed

lemma revoke_shape:
  "revoke_name_record E now r kp = Inr v \<Longrightarrow>
     pubkey_hex E kp = owner_pubkey r \<and>
     (\<exists>s. v = r\<lparr>records := [], sequence := u64_max, updated_at := now, signature := s\<rparr>)"
  by (auto simp: revoke_name_record_def split: if_splits dest!: sign_record_shape)

lemma update_accepted:
  assumes "naming_correct E" "accepted E r" "owner_pubkey r = pubkey_hex E kp" "aliases_ok recs"
  shows "\<exists>s. update_name_record E now r recs kp = Inr (r\<lparr>records := recs,
      sequence := sat_add (sequence r) 1, updated_at := now, signature := s\<rparr>) \<and>
    accepted E (r\<lparr>records := recs, sequence := sat_add (sequence r) 1, updated_at := now,
      signature := s\<rparr>)"
proof -
  let ?r = "r\<lparr>records := recs, sequence := sat_add (sequence r) 1, updated_at := now, signature := []\<rparr>"
  obtain s where "sign_record E ?r kp = Inr (?r\<lparr>signature := s\<rparr>)"
    "verify_record E (?r\<lparr>signature := s\<rparr>) = Inr True"
    using sign_verify [OF assms(1), of ?r kp] assms(3) by auto
  with assms show ?thesis
    by (intro exI [of _ s]) (simp add: update_name_record_def accepted_def validate_record_iff)
qed

lemma revoke_accepted:
  assumes "naming_correct E" "accepted E r" "owner_pubkey r = pubkey_hex E kp"
  shows "\<exists>s. revoke_name_record E now r kp = Inr (r\<lparr>records := [],
      sequence := u64_max, updated_at := now, signature := s\<rparr>) \<and>
    accepted E (r\<lparr>records := [], sequence := u64_max, updated_at := now, signature := s\<rparr>)"
proof -
  let ?r = "r\<lparr>records := [], sequence := u64_max, updated_at := now, signature := []\<rparr>"
  obtain s where "sign_record E ?r kp = Inr (?r\<lparr>signature := s\<rparr>)"
    "verify_record E (?r\<lparr>signature := s\<rparr>) = Inr True"
    using sign_verify [OF assms(1), of ?r kp] assms(3) by auto
  with assms show ?thesis
    by (intro exI [of _ s])
       (simp add: revoke_name_record_def accepted_def validate_record_iff aliases_ok_def)
qed

lemma cache_record_keeps:
  assumes "hm_get (local_cache st) (name_hash r) = Some e" and "record_wins e r"
  shows "snd (cache_record E r st) = st"
  using assms by (cases rule: cache_record_cases [of E r st]) auto

lemma higher_sequence_wins: "sequence b < sequence a \<Longrightarrow> record_wins a b"
  by (auto simp: record_wins_def)

lemma lower_sequence_loses: "sequence a < sequence b \<Longrightarrow> \<not> record_wins a b"
  by (auto simp: record_wins_def)

text \<open>
  An owner's update prevails: \<open>update_name_record\<close> on a valid record below the last
  sequence number raises the number; every peer that caches the old record accepts the new one
  and stores it in its place, and from then on ignores the old one when it is sent again.
\<close>

theorem owner_update_prevails:
  assumes "naming_correct E" "accepted E r" "owner_pubkey r = pubkey_hex E kp" "aliases_ok recs"
    and "sequence r \<noteq> u64_max"
    and "hm_get (local_cache peer) (name_hash r) = Some r" "length (local_cache peer) \<le> 10000"
  shows "\<exists>r' peer'. update_name_record E now r recs kp = Inr r' \<and>
    records r' = recs \<and> sequence r < sequence r' \<and>
    cache_record E r' peer = (Inr (), peer') \<and>
    hm_get (local_cache peer') (name_hash r) = Some r' \<and> snd (cache_record E r peer') = peer'"
proof -
  obtain r' where r': "update_name_record E now r recs kp = Inr r'" "accepted E r'"
    "records r' = recs" "sequence r' = sat_add (sequence r) 1" "name_hash r' = name_hash r"
    using update_accepted [OF assms(1-4), of now] by auto
  with assms(5) have less: "sequence r < sequence r'"
    by (simp add: sat_add_one_greater)
  let ?peer = "peer\<lparr>local_cache := hm_insert (name_hash r') r' (local_cache peer)\<rparr>"
  have "cache_record E r' peer = (Inr (), ?peer)"
    by (rule cache_record_stores)
       (use r' less assms lower_sequence_loses in \<open>auto simp: MAX_CACHE_ENTRIES_def\<close>)
  moreover have "snd (cache_record E r ?peer) = ?peer"
    by (rule cache_record_keeps [of _ _ r']) (use r' higher_sequence_wins [OF less] in simp_all)
  ultimately show ?thesis
    using r' less by auto
qed

lemma demo_accepted: "accepted demo_naming demo_record"
proof -
  have "validate_name ''app.shadow'' = Inr ()" by code_simp
  then show ?thesis
    by (simp add: accepted_def validate_record_iff demo_record_def demo_naming_def ttl_in_range_def
        MIN_NAME_TTL_def MAX_NAME_TTL_def aliases_ok_def name_to_hash_def verify_record_def
        canonical_bytes_def demo_prims_def str_bytes_def)
qed

lemma demo_owner: "owner_pubkey demo_record = pubkey_hex demo_naming (str_bytes ''k'')"
  by code_simp

definition demo_peer :: naming_manager where
  "demo_peer = manager_new\<lparr>local_cache := [(name_hash demo_record, demo_record)]\<rparr>"

lemma demo_peer_get: "hm_get (local_cache demo_peer) (name_hash demo_record) = Some demo_record"
  by (simp add: demo_peer_def manager_new_def hm_get_def)

theorem owner_update_prevails_witness:
  "\<exists>r' peer'. update_name_record demo_naming 200 demo_record [] (str_bytes ''k'') = Inr r' \<and>
    records r' = [] \<and> sequence demo_record < sequence r' \<and>
    cache_record demo_naming r' demo_peer = (Inr (), peer') \<and>
    hm_get (local_cache peer') (name_hash demo_record) = Some r' \<and>
    snd (cache_record demo_naming demo_record peer') = peer'"
  by (rule owner_update_prevails)
     (simp_all add: demo_naming_correct demo_accepted demo_owner demo_peer_get aliases_ok_def,
      simp_all add: demo_record_def demo_peer_def)

text \<open>
  Calls with another key pair on an owned name are refused and change nothing:
  \<open>register_name\<close> answers that the name is taken, \<open>update_owned_name\<close> and
  \<open>revoke_name_record\<close> that the caller is not the owner.
\<close>

theorem other_key_refused:
  assumes "hm_get (owned_names st) (name_to_hash (np E) nm) = Some r"
    and "owner_pubkey r \<noteq> pubkey_hex E kp"
  shows "register_name E now nm recs kp ttl st = (Inl NameTaken, st) \<and>
    update_owned_name E now nm recs kp st = (Inl NotOwner, st) \<and>
    revoke_name_record E now r kp = Inl NotOwner"
  using assms
  by (auto simp: register_name_def update_owned_name_def update_name_record_def
      revoke_name_record_def)

theorem other_key_refused_witness:
  "register_name demo_naming 200 ''app.shadow'' [] [7] 3600
     (manager_new\<lparr>owned_names := [(name_hash demo_record, demo_record)]\<rparr>) =
     (Inl NameTaken, manager_new\<lparr>owned_names := [(name_hash demo_record, demo_record)]\<rparr>)"
proof -
  have "hm_get (owned_names (manager_new\<lparr>owned_names := [(name_hash demo_record, demo_record)]\<rparr>))
      (name_to_hash (np demo_naming) ''app.shadow'') = Some demo_record"
    by (simp add: hm_get_def name_to_hash_def demo_record_def demo_naming_def)
  moreover have "owner_pubkey demo_record \<noteq> pubkey_hex demo_naming [7]"
    by code_simp
  ultimately show ?thesis
    by (rule other_key_refused [THEN conjunct1])
qed

text \<open>
  The caches do not enforce ownership: whoever holds any key pair creates a record for a
  name that a peer has cached from its owner and revokes it at once. The revocation is valid,
  and it replaces the owner's record at that peer whatever its sequence number below the last;
  the name then resolves there to the attacker's empty record, and all further records of the
  owner below the last sequence number are ignored.
\<close>

theorem foreign_revocation_replaces:
  assumes "naming_correct E" "accepted E r" "sequence r \<noteq> u64_max" "pubkey_hex E kp \<noteq> []"
    and "hm_get (local_cache peer) (name_hash r) = Some r" "length (local_cache peer) \<le> 10000"
    and "hm_get (owned_names peer) (name_hash r) = None"
  shows "\<exists>a v peer'. create_name_record E now (name r) [] kp (ttl_seconds r) = Inr a \<and>
    revoke_name_record E now a kp = Inr v \<and> owner_pubkey v = pubkey_hex E kp \<and>
    cache_record E v peer = (Inr (), peer') \<and> resolve_local E peer' (name r) = Some v \<and>
    is_revoked v \<and>
    (\<forall>x. name_hash x = name_hash r \<and> sequence x \<noteq> u64_max \<longrightarrow> snd (cache_record E x peer') = peer')"
proof -
  have valid: "validate_name (name r) = Inr ()" "ttl_in_range (ttl_seconds r)"
    "name_hash r = name_to_hash (np E) (name r)"
    using assms(2) by (auto simp: accepted_def validate_record_iff)
  obtain a where a: "create_name_record E now (name r) [] kp (ttl_seconds r) = Inr a" "accepted E a"
    "name_hash a = name_hash r" "owner_pubkey a = pubkey_hex E kp"
    using create_accepted [OF assms(1) valid(1,2) _ assms(4), of "[]" now] valid(3)
    by (auto simp: aliases_ok_def)
  obtain v where v: "revoke_name_record E now a kp = Inr v" "accepted E v" "records v = []"
    "sequence v = u64_max" "name_hash v = name_hash r" "owner_pubkey v = pubkey_hex E kp"
    using revoke_accepted [OF assms(1) a(2,4), of now] a(3,4) by auto
  have wins: "record_wins v x" if "sequence x \<noteq> u64_max" for x
    using that v(4) by (intro higher_sequence_wins) (simp add: less_le)
  have "\<not> record_wins r v"
    using assms(3) v(4) by (intro lower_sequence_loses) (simp add: less_le)
  then have "cache_record E v peer =
      (Inr (), peer\<lparr>local_cache := hm_insert (name_hash v) v (local_cache peer)\<rparr>)"
    using assms(5,6) v(2,5) by (intro cache_record_stores) (auto simp: MAX_CACHE_ENTRIES_def)
  moreover have "snd (cache_record E x (peer\<lparr>local_cache := hm_insert (name_hash v) v (local_cache peer)\<rparr>))
      = peer\<lparr>local_cache := hm_insert (name_hash v) v (local_cache peer)\<rparr>"
    if "name_hash x = name_hash r" "sequence x \<noteq> u64_max" for x
    by (rule cache_record_keeps [of _ _ v]) (use that v(5) wins in simp_all)
  ultimately show ?thesis
    using a v valid(3) assms(7) by (auto simp: resolve_local_def is_revoked_def)
qed

theorem foreign_revocation_replaces_witness:
  "\<exists>a v peer'. create_name_record demo_naming 300 (name demo_record) [] [7] (ttl_seconds demo_record) = Inr a \<and>
    revoke_name_record demo_naming 300 a [7] = Inr v \<and> owner_pubkey v = pubkey_hex demo_naming [7] \<and>
    cache_record demo_naming v demo_peer = (Inr (), peer') \<and>
    resolve_local demo_naming peer' (name demo_record) = Some v \<and> is_revoked v \<and>
    (\<forall>x. name_hash x = name_hash demo_record \<and> sequence x \<noteq> u64_max \<longrightarrow>
       snd (cache_record demo_naming x peer') = peer')"
proof (rule foreign_revocation_replaces)
  show "pubkey_hex demo_naming [7] \<noteq> []" by code_simp
qed (simp_all add: demo_naming_correct demo_accepted demo_peer_get,
     simp_all add: demo_record_def demo_peer_def manager_new_def)

text \<open>
  Registering an owned name again returns an updated record but does not keep it. So the
  manager keeps resolving the name to the old record, and the results of two registrations in a
  row carry the same sequence number: a peer that cached the first ignores the second.
\<close>

theorem reregistration_lost:
  assumes "hm_get (owned_names st) (name_to_hash (np E) nm) = Some r"
    and "register_name E t1 nm recs1 kp ttl st = (Inr r1, st1)"
    and "register_name E t2 nm recs2 kp ttl st1 = (Inr r2, st2)"
    and "hm_get (local_cache peer) (name_hash r1) = Some r1"
  shows "resolve_local E st2 nm = Some r \<and> sequence r2 = sequence r1 \<and>
    records r2 = recs2 \<and> snd (cache_record E r2 peer) = peer"
proof -
  have 1: "st1 = st" "update_name_record E t1 r recs1 kp = Inr r1"
    using assms(1,2) by (auto simp: register_name_def split: if_splits)
  then have 2: "st2 = st" "update_name_record E t2 r recs2 kp = Inr r2"
    using assms(1,3) by (auto simp: register_name_def split: if_splits)
  have eqs: "sequence r2 = sequence r1" "created_at r2 = created_at r1"
    "owner_pubkey r2 = owner_pubkey r1" "name_hash r2 = name_hash r1" "records r2 = recs2"
    using update_shape [OF 1(2)] update_shape [OF 2(2)] by auto
  then have "record_wins r1 r2"
    using record_wins_total [of r1 r2] by (auto simp: record_wins_def)
  then have "snd (cache_record E r2 peer) = peer"
    using cache_record_keeps [of peer r2 r1] assms(4) eqs(4) by simp
  then show ?thesis
    using assms(1) 1 2 eqs by (simp add: resolve_local_def)
qed

definition demo_owner_node :: naming_manager where
  "demo_owner_node = manager_new\<lparr>owned_names := [(name_hash demo_record, demo_record)]\<rparr>"

definition demo_update :: "name_record_type list \<Rightarrow> u64 \<Rightarrow> name_record" where
  "demo_update recs t = demo_record\<lparr>records := recs, sequence := 2, updated_at := t\<rparr>"

lemma demo_reregister:
  "register_name demo_naming t ''app.shadow'' recs (str_bytes ''k'') 3600 demo_owner_node =
     (Inr (demo_update recs t), demo_owner_node)"
proof -
  have "hm_get (owned_names demo_owner_node) (name_to_hash (np demo_naming) ''app.shadow'') = Some demo_record"
    by (simp add: demo_owner_node_def hm_get_def name_to_hash_def demo_record_def demo_naming_def)
  moreover have "hex_encode demo_prims (str_bytes ''k'' @ str_bytes ''app.shadow'') = ''kapp.shadow''"
    by code_simp
  moreover have "sat_add 1 (1 :: u64) = 2"
    by (simp add: sat_add_def)
  ultimately show ?thesis
    using demo_owner
    by (simp add: register_name_def update_name_record_def sign_record_def canonical_bytes_def
        demo_naming_def demo_update_def) (simp add: demo_record_def)
qed

theorem reregistration_lost_witness:
  "resolve_local demo_naming demo_owner_node ''app.shadow'' = Some demo_record \<and>
   sequence (demo_update [] 300) = sequence (demo_update [Content ''new''] 200) \<and>
   records (demo_update [] 300) = [] \<and>
   snd (cache_record demo_naming (demo_update [] 300)
     (manager_new\<lparr>local_cache := [(name_hash demo_record, demo_update [Content ''new''] 200)]\<rparr>)) =
   manager_new\<lparr>local_cache := [(name_hash demo_record, demo_update [Content ''new''] 200)]\<rparr>"
proof (rule reregistration_lost [OF _ demo_reregister demo_reregister])
  show "hm_get (owned_names demo_owner_node) (name_to_hash (np demo_naming) ''app.shadow'') = Some demo_record"
    by (simp add: demo_owner_node_def hm_get_def name_to_hash_def demo_record_def demo_naming_def)
qed (simp add: hm_get_def demo_update_def)

section \<open>Convergence of caches\<close>

text \<open>What a cache holds for a hash is the winner of the records accepted for it.\<close>

definition deliver :: "naming_env \<Rightarrow> name_record list \<Rightarrow> naming_manager \<Rightarrow> naming_manager" where
  "deliver E rs st = fold (\<lambda>r s. snd (cache_record E r s)) rs st"

fun winner :: "name_record list \<Rightarrow> name_record option" where
  "winner [] = None"
| "winner (r # rs) = Some (fold (\<lambda>b a. if record_wins a b then a else b) rs r)"

lemma winner_snoc:
  "winner (rs @ [r]) = (case winner rs of None \<Rightarrow> Some r | Some a \<Rightarrow> Some (if record_wins a r then a else r))"
  by (cases rs) auto

lemma winner_perm:
  assumes "set rs = set rs'"
  shows "rel_option record_wins (winner rs) (winner rs')"
proof (cases rs; cases rs')
  fix x xs y ys
  assume "rs = x # xs" "rs' = y # ys"
  with assms show ?thesis
    using conflicts.fold_select_perm [of x xs y ys] by simp
qed (use assms in auto)

lemma deliver_snoc: "deliver E (rs @ [r]) st = snd (cache_record E r (deliver E rs st))"
  by (simp add: deliver_def)

lemma deliver_cache:
  "length rs \<le> MAX_CACHE_ENTRIES \<Longrightarrow>
     length (local_cache (deliver E rs manager_new)) \<le> length rs \<and>
     hm_get (local_cache (deliver E rs manager_new)) h =
       winner (filter (\<lambda>r. accepted E r \<and> name_hash r = h) rs)"
proof (induction rs arbitrary: h rule: rev_induct)
  case Nil
  then show ?case by (simp add: deliver_def manager_new_def)
next
  case (snoc r rs)
  let ?st = "deliver E rs manager_new"
  from snoc have len: "length (local_cache ?st) \<le> length rs" "length rs < MAX_CACHE_ENTRIES"
    and get: "hm_get (local_cache ?st) h' =
       winner (filter (\<lambda>r. accepted E r \<and> name_hash r = h') rs)" for h'
    by auto
  show ?case
  proof (cases rule: cache_record_cases [of E r ?st])
    case (refused e)
    with len get show ?thesis by (simp add: deliver_snoc)
  next
    case (ignored e)
    with len get show ?thesis by (auto simp: deliver_snoc winner_snoc)
  next
    case stored
    have "length (hm_insert (name_hash r) r (local_cache ?st)) \<le> Suc (length rs)"
      using len(1) by (simp add: length_hm_insert)
    then have "evict_oldest (hm_insert (name_hash r) r (local_cache ?st)) =
        hm_insert (name_hash r) r (local_cache ?st)"
      using len(2) by (intro evict_oldest_small) linarith
    with stored len get [symmetric] show ?thesis
      by (auto simp: deliver_snoc winner_snoc length_hm_insert split: option.splits)
  qed
qed

text \<open>
  C3. Convergence: two peers that start empty and receive the same records, in any order and
  with any repetition, at most 10000 each, hold for every hash either both nothing or two records
  with the same sequence number, creation time and owner.
\<close>

theorem caches_converge:
  assumes "set rs = set rs'" and "length rs \<le> 10000" and "length rs' \<le> 10000"
  shows "rel_option (\<lambda>a b. sequence a = sequence b \<and> created_at a = created_at b \<and>
           owner_pubkey a = owner_pubkey b)
    (hm_get (local_cache (fold (\<lambda>r s. snd (cache_record E r s)) rs manager_new)) h)
    (hm_get (local_cache (fold (\<lambda>r s. snd (cache_record E r s)) rs' manager_new)) h)"
proof -
  let ?ok = "filter (\<lambda>r. accepted E r \<and> name_hash r = h)"
  have "set (?ok rs) = set (?ok rs')" using assms(1) by simp
  then have "rel_option record_wins (winner (?ok rs)) (winner (?ok rs'))"
    and "rel_option record_wins (winner (?ok rs')) (winner (?ok rs))"
    by (simp_all add: winner_perm)
  then have "rel_option (\<lambda>a b. sequence a = sequence b \<and> created_at a = created_at b \<and>
           owner_pubkey a = owner_pubkey b) (winner (?ok rs)) (winner (?ok rs'))"
    by (auto elim!: option.rel_cases dest: record_wins_antisym)
  then show ?thesis
    using deliver_cache [of rs E h] deliver_cache [of rs' E h] assms(2,3)
    by (simp add: deliver_def MAX_CACHE_ENTRIES_def)
qed

theorem caches_converge_witness:
  "rel_option (\<lambda>a b. sequence a = sequence b \<and> created_at a = created_at b \<and>
       owner_pubkey a = owner_pubkey b)
    (hm_get (local_cache (fold (\<lambda>r s. snd (cache_record demo_naming r s))
       [demo_record, demo_update [] 200] manager_new)) (name_hash demo_record))
    (hm_get (local_cache (fold (\<lambda>r s. snd (cache_record demo_naming r s))
       [demo_update [] 200, demo_record, demo_record] manager_new)) (name_hash demo_record))"
  by (rule caches_converge) auto

end
