(* ===== verification/NameLookup.thy ===== *)
theory NameLookup
  imports NameSafety
begin

text \<open>
  What the \<open>NameResolver\<close> of \<open>protocol/src/naming.rs\<close> guarantees: its answers are valid,
  signed records that are not revoked and not out of date, and its cache keeps its capacity. The
  last section states where it falls short: it does not compare the record with the name that
  was asked for, and a revocation does not take the record it revokes out of the cache.
\<close>

section \<open>The invariant of the resolver\<close>

definition entry_ok :: "naming_env \<Rightarrow> cached_entry \<Rightarrow> bool" where
  "entry_ok E e \<longleftrightarrow> accepted E (ce_record e) \<and> \<not> is_revoked (ce_record e) \<and>
     ce_ttl e = from_secs (unat (ttl_seconds (ce_record e)))"

definition resolver_inv :: "naming_env \<Rightarrow> nat \<Rightarrow> name_resolver \<Rightarrow> bool" where
  "resolver_inv E n res \<longleftrightarrow> max_entries res = n \<and> hm_wf (positive_cache res) \<and>
     length (positive_cache res) \<le> n \<and>
     (\<forall>h e. hm_get (positive_cache res) h = Some e \<longrightarrow> entry_ok E e)"

datatype resolver_call =
    ProcessDht instant string "bytes option"
  | Invalidate string
  | CleanupExpired instant

fun resolver_step :: "naming_env \<Rightarrow> resolver_call \<Rightarrow> name_resolver \<Rightarrow> name_resolver" where
  "resolver_step E (ProcessDht now nm data) res = snd (process_dht_result E now nm data res)"
| "resolver_step E (Invalidate nm) res = invalidate E nm res"
| "resolver_step E (CleanupExpired now) res = cleanup_expired now res"

lemma evict_loop_props:
  "(hm_wf c \<longrightarrow> hm_wf (evict_loop n c)) \<and> length (evict_loop n c) \<le> n \<and>
   (\<forall>h e. hm_get (evict_loop n c) h = Some e \<longrightarrow> hm_get c h = Some e)"
proof (induction n c rule: evict_loop.induct)
  case (1 n c)
  show ?case
  proof (cases "n < length c")
    case False
    then have "evict_loop n c = c" by (subst evict_loop.simps) simp
    with False show ?thesis by simp
  next
    case True
    then have "c \<noteq> []" by auto
    then obtain k e where ke: "min_by_key (\<lambda>(_, e). ce_cached_at e) c = Some (k, e)"
      by (metis min_by_key_None option.exhaust surj_pair)
    with True have "evict_loop n c = evict_loop n (hm_remove k c)"
      by (subst evict_loop.simps) simp
    moreover have "(hm_wf (hm_remove k c) \<longrightarrow> hm_wf (evict_loop n (hm_remove k c))) \<and>
       length (evict_loop n (hm_remove k c)) \<le> n \<and>
       (\<forall>h e. hm_get (evict_loop n (hm_remove k c)) h = Some e \<longrightarrow> hm_get (hm_remove k c) h = Some e)"
      by (rule 1 [OF True ke refl])
    ultimately show ?thesis
      by (metis hm_get_remove hm_wf_remove option.distinct(1))
  qed
qed

lemma evict_loop_fits: "length c \<le> n \<Longrightarrow> evict_loop n c = c"
  by (subst evict_loop.simps) simp

text \<open>\<open>process_dht_result\<close> by cases: nothing usable, an older record, or a new entry.\<close>

definition usable :: "naming_env \<Rightarrow> bytes option \<Rightarrow> name_record \<Rightarrow> bool" where
  "usable E data r \<longleftrightarrow> (\<exists>b. data = Some b \<and> deserialize_record E b = Inr r) \<and>
     accepted E r \<and> \<not> is_revoked r"

lemma process_dht_cases:
  obtains (miss) "process_dht_result E now nm data res = record_miss now (name_to_hash (np E) nm) res"
      "\<And>r. \<not> usable E data r"
  | (kept) r e where "process_dht_result E now nm data res = (Found (ce_record e), res)"
      "usable E data r" "hm_get (positive_cache res) (name_to_hash (np E) nm) = Some e"
      "record_wins (ce_record e) r"
  | (stored) r where "process_dht_result E now nm data res =
        (Found r, evict_if_needed (res\<lparr>positive_cache := hm_insert (name_to_hash (np E) nm)
            \<lparr>ce_record = r, ce_cached_at = now,
             ce_ttl = from_secs (unat (min (ttl_seconds r) MAX_NAME_TTL))\<rparr> (positive_cache res),
            negative_cache := hm_remove (name_to_hash (np E) nm) (negative_cache res)\<rparr>))"
      "usable E data r"
      "\<And>e. hm_get (positive_cache res) (name_to_hash (np E) nm) = Some e \<Longrightarrow>
         \<not> record_wins (ce_record e) r"
proof (cases "\<exists>r. usable E data r")
  case False
  then have "process_dht_result E now nm data res = record_miss now (name_to_hash (np E) nm) res"
    by (auto simp: process_dht_result_def usable_def accepted_def Let_def
        split: option.splits sum.splits)
  with False show thesis using miss by blast
next
  case True
  then obtain r b where r: "usable E data r" "data = Some b" "deserialize_record E b = Inr r"
    by (auto simp: usable_def)
  show thesis
  proof (cases "hm_get (positive_cache res) (name_to_hash (np E) nm)")
    case None
    with r show thesis
      by (intro stored [of r]) (auto simp: process_dht_result_def usable_def accepted_def Let_def)
  next
    case (Some e)
    show thesis
    proof (cases "record_wins (ce_record e) r")
      case True
      with Some r show thesis
        by (intro kept [of e r]) (auto simp: process_dht_result_def usable_def accepted_def Let_def)
    next
      case False
      with Some r show thesis
        by (intro stored [of r]) (auto simp: process_dht_result_def usable_def accepted_def Let_def)
    qed
  qed
qed

lemma usable_entry_ok:
  "usable E data r \<Longrightarrow> entry_ok E \<lparr>ce_record = r, ce_cached_at = now,
     ce_ttl = from_secs (unat (min (ttl_seconds r) MAX_NAME_TTL))\<rparr>"
  by (auto simp: usable_def entry_ok_def accepted_def validate_record_iff ttl_in_range_def min_def)

lemma process_dht_inv:
  "resolver_inv E n res \<Longrightarrow> resolver_inv E n (snd (process_dht_result E now nm data res))"
proof (cases rule: process_dht_cases [of E now nm data res])
  case (stored r)
  assume inv: "resolver_inv E n res"
  let ?c = "hm_insert (name_to_hash (np E) nm) \<lparr>ce_record = r, ce_cached_at = now,
     ce_ttl = from_secs (unat (min (ttl_seconds r) MAX_NAME_TTL))\<rparr> (positive_cache res)"
  have "\<forall>h e. hm_get ?c h = Some e \<longrightarrow> entry_ok E e"
    using inv usable_entry_ok [OF stored(2), of now] by (auto simp: resolver_inv_def)
  with inv stored(1) evict_loop_props [of ?c n] show ?thesis
    by (auto simp: resolver_inv_def evict_if_needed_def)
qed (simp_all add: record_miss_def resolver_inv_def)

lemma resolver_step_inv: "resolver_inv E n res \<Longrightarrow> resolver_inv E n (resolver_step E call res)"
proof (cases call)
  case (Invalidate nm)
  assume "resolver_inv E n res"
  then show ?thesis
    using length_hm_remove_le [of "name_to_hash (np E) nm" "positive_cache res"]
    by (auto simp: Invalidate invalidate_def resolver_inv_def Let_def)
next
  case (CleanupExpired now)
  assume "resolver_inv E n res"
  then show ?thesis
    using length_hm_retain_le [of "\<lambda>_ e. \<not> entry_expired now e" "positive_cache res"]
    by (auto simp: CleanupExpired cleanup_expired_def resolver_inv_def hm_get_retain
        split: option.splits if_splits)
qed (simp_all add: process_dht_inv)

interpretation resolver: call_machine "resolver_step E" "resolver_inv E n" for E n
  by unfold_locales (rule resolver_step_inv)

lemma resolver_inv_new: "resolver_inv E n (resolver_with_capacity n)"
  by (simp add: resolver_inv_def resolver_with_capacity_def)

lemma resolve_Found:
  "resolve E now res nm = Found r \<longleftrightarrow>
     (\<exists>e. hm_get (positive_cache res) (name_to_hash (np E) nm) = Some e \<and>
        \<not> entry_expired now e \<and> r = ce_record e)"
  by (auto simp: resolve_def Let_def split: option.splits)


lemma demo_not_revoked: "\<not> is_revoked demo_record"
  by (simp add: is_revoked_def demo_record_def)

lemma demo_usable: "usable demo_naming (Some [1]) demo_record"
  using demo_accepted demo_not_revoked
  by (simp add: usable_def deserialize_record_def demo_naming_def) (simp add: demo_record_def)

text \<open>A usable record of a name that is not cached is stored, when there is room.\<close>

lemma process_dht_stores:
  assumes "usable E data r" "hm_get (positive_cache res) (name_to_hash (np E) nm) = None"
    and "length (positive_cache res) < max_entries res"
  shows "process_dht_result E now nm data res = (Found r,
    res\<lparr>positive_cache := hm_insert (name_to_hash (np E) nm)
           \<lparr>ce_record = r, ce_cached_at = now, ce_ttl = from_secs (unat (ttl_seconds r))\<rparr>
           (positive_cache res),
        negative_cache := hm_remove (name_to_hash (np E) nm) (negative_cache res)\<rparr>)"
proof -
  have ttl: "min (ttl_seconds r) MAX_NAME_TTL = ttl_seconds r"
    using assms(1) by (auto simp: usable_def accepted_def validate_record_iff ttl_in_range_def)
  have fits: "evict_loop (max_entries res) (hm_insert (name_to_hash (np E) nm) e (positive_cache res)) =
      hm_insert (name_to_hash (np E) nm) e (positive_cache res)" for e
    by (rule evict_loop_fits) (use assms(3) in \<open>simp add: length_hm_insert\<close>)
  show ?thesis
  proof (cases rule: process_dht_cases [of E now nm data res])
    case miss
    with assms(1) show ?thesis by blast
  next
    case (kept r' e)
    with assms(2) show ?thesis by simp
  next
    case (stored r')
    then have "r' = r"
      using assms(1) by (auto simp: usable_def)
    with stored(1) show ?thesis
      by (simp add: evict_if_needed_def ttl fits)
  qed
qed

lemma demo_lookup:
  "process_dht_result demo_naming 0 nm (Some [1]) (resolver_with_capacity 10) = (Found demo_record,
     \<lparr>positive_cache = [(name_to_hash (np demo_naming) nm,
          \<lparr>ce_record = demo_record, ce_cached_at = 0, ce_ttl = from_secs 3600\<rparr>)],
      negative_cache = [], max_entries = 10\<rparr>)"
proof -
  have "unat (ttl_seconds demo_record) = 3600"
    by (simp add: demo_record_def)
  then show ?thesis
    using process_dht_stores [OF demo_usable, of "resolver_with_capacity 10" nm 0]
    by (simp add: resolver_with_capacity_def hm_insert_def hm_remove_def)
qed

lemma demo_found:
  "resolve demo_naming 1 (snd (process_dht_result demo_naming 0 nm (Some [1])
     (resolver_with_capacity 10))) nm = Found demo_record"
  unfolding demo_lookup resolve_Found
  by (simp add: entry_expired_def hm_get_def elapsed_def from_secs_def)


section \<open>Where the resolver falls short\<close>

text \<open>
  The resolver does not compare the record it is served with the name that was asked for:
  any valid record of any other name, signed by anyone, is found and cached under the name that
  was asked for, and the name then resolves to it until the record's own TTL has passed.
\<close>

theorem resolver_accepts_other_name:
  assumes "record_from_json E b = Inr r"
    and "validate_record (np E) r = Inr ()" "verify_record E r = Inr True" "\<not> is_revoked r"
    and "name r \<noteq> nm"
    and "hm_get (positive_cache res) (name_to_hash (np E) nm) = None"
    and "length (positive_cache res) < max_entries res"
    and "elapsed later now \<le> from_secs (unat (ttl_seconds r))"
  shows "\<exists>res'. process_dht_result E now nm (Some b) res = (Found r, res') \<and>
    resolve E later res' nm = Found r"
proof -
  have "usable E (Some b) r"
    using assms(1-4) by (simp add: usable_def deserialize_record_def accepted_def)
  from process_dht_stores [OF this assms(6,7)] assms(8) show ?thesis
    by (simp add: resolve_Found entry_expired_def)
qed

theorem resolver_accepts_other_name_witness:
  "\<exists>res'. process_dht_result demo_naming 0 ''bank.shadow'' (Some [1]) (resolver_with_capacity 10) =
     (Found demo_record, res') \<and>
   resolve demo_naming 1 res' ''bank.shadow'' = Found demo_record"
proof (rule resolver_accepts_other_name)
  show "record_from_json demo_naming [1] = Inr demo_record"
    by (simp add: demo_naming_def) (simp add: demo_record_def)
qed (use demo_accepted demo_not_revoked in \<open>simp_all add: accepted_def\<close>,
     simp_all add: demo_record_def resolver_with_capacity_def elapsed_def from_secs_def)

text \<open>
  A revocation does not take effect on a cached name: the resolver answers that the name is
  not found when it processes the revocation, but the revoked record stays in its cache, and the
  next lookup finds it again until its TTL has passed.
\<close>

theorem revocation_leaves_cached_record:
  assumes "resolve E later res nm = Found r"
    and "record_from_json E b = Inr v" "is_revoked v"
  shows "fst (process_dht_result E now nm (Some b) res) = NotFound \<and>
    resolve E later (snd (process_dht_result E now nm (Some b) res)) nm = Found r"
proof -
  have "\<not> usable E (Some b) x" for x
    using assms(2,3) by (auto simp: usable_def deserialize_record_def)
  then show ?thesis
    using assms(1)
    by (cases rule: process_dht_cases [of E now nm "Some b" res])
       (auto simp: record_miss_def resolve_Found)
qed

theorem revocation_leaves_cached_record_witness:
  "fst (process_dht_result demo_naming 1 ''app.shadow'' (Some [0])
     (snd (process_dht_result demo_naming 0 ''app.shadow'' (Some [1]) (resolver_with_capacity 10)))) =
     NotFound"
proof (rule revocation_leaves_cached_record [THEN conjunct1])
  show "resolve demo_naming 1 (snd (process_dht_result demo_naming 0 ''app.shadow'' (Some [1])
      (resolver_with_capacity 10))) ''app.shadow'' = Found demo_record"
    by (rule demo_found)
  show "record_from_json demo_naming [0] =
      Inr (demo_record\<lparr>records := [], sequence := u64_max\<rparr>)"
    by (simp add: demo_naming_def)
qed (simp add: is_revoked_def)

end
