(* ===== verification/ZkCells.thy ===== *)
theory ZkCells
  imports Crypto
begin

text \<open>
  Keys, handshakes and cells of the circuit protocol, first part of
  \<open>protocol/src/zk_relay.rs\<close>. A \<open>PeerId\<close> is its bytes. The \<open>bincode\<close> codec, the decoding of
  Ed25519 public keys and the map from an identity key to its \<open>PeerId\<close> are third-party code:
  the fields of \<open>relay_env\<close>, next to the primitives of Crypto. The Unix clock (seconds) and the
  random draws of a call are arguments.
\<close>

section \<open>Errors\<close>

type_synonym peer_id = bytes
type_synonym circuit_id = bytes

definition X25519_PUBLIC_KEY_SIZE :: nat where
  "X25519_PUBLIC_KEY_SIZE = 32"

datatype relay_error =
    CircuitNotFound
  | CircuitExpired
  | CircuitBuildFailed string
  | RelayDecryptionFailed string
  | RelayEncryptionFailed string
  | InvalidPayload
  | InvalidHop
  | ForwardFailed string
  | MaxCircuitsExceeded
  | RateLimited
  | HandshakeAuthFailed string
  | StaleCell
  | ReplayedCell
  | CircuitIdCollision

fun relay_error_text :: "relay_error \<Rightarrow> string" where
  "relay_error_text CircuitNotFound = ''Circuit not found''"
| "relay_error_text CircuitExpired = ''Circuit has expired''"
| "relay_error_text (CircuitBuildFailed msg) = ''Circuit build failed: '' @ msg"
| "relay_error_text (RelayDecryptionFailed msg) = ''Decryption failed: '' @ msg"
| "relay_error_text (RelayEncryptionFailed msg) = ''Encryption failed: '' @ msg"
| "relay_error_text InvalidPayload = ''Invalid payload format''"
| "relay_error_text InvalidHop = ''Invalid hop in circuit''"
| "relay_error_text (ForwardFailed msg) = ''Forward failed: '' @ msg"
| "relay_error_text MaxCircuitsExceeded = ''Maximum circuits exceeded''"
| "relay_error_text RateLimited = ''Rate limited''"
| "relay_error_text (HandshakeAuthFailed msg) = ''Handshake authentication failed: '' @ msg"
| "relay_error_text StaleCell = ''Cell timestamp outside freshness window''"
| "relay_error_text ReplayedCell = ''Replayed cell rejected''"
| "relay_error_text CircuitIdCollision = ''Circuit ID collision''"

section \<open>Data\<close>

record x25519_keypair =
  xk_secret :: bytes
  xk_public :: bytes

record create_handshake =
  ch_client_public_key :: bytes
  ch_circuit_id :: circuit_id
  ch_timestamp :: u64
  ch_padding :: bytes

record created_handshake =
  cd_relay_public_key :: bytes
  cd_key_confirmation :: bytes
  cd_timestamp :: u64
  cd_relay_identity_key :: bytes
  cd_signature :: bytes

datatype cell_type = Create | Created | Extend | Extended | Relay | Destroy | Padding

record relay_cell =
  cl_circuit_id :: circuit_id
  cl_cell_type :: cell_type
  cl_payload :: bytes
  cl_timestamp :: u64

record relay_payload =
  rp_next_hop :: "peer_id option"
  rp_hop_id :: bytes
  rp_inner_data :: bytes
  rp_digest :: bytes

record extend_request =
  er_next_peer :: peer_id
  er_handshake :: bytes

datatype relay_action =
    Forward (act_cell: relay_cell) (act_peer: peer_id)
  | Respond (act_cell: relay_cell)
  | Exit (act_data: bytes) (act_circuit: circuit_id)
  | Drop

section \<open>Third-party code of the circuit protocol\<close>

record relay_env =
  zp :: prims
  bc_create :: "create_handshake \<Rightarrow> string + bytes"
  bc_create_de :: "bytes \<Rightarrow> string + create_handshake"
  bc_created :: "created_handshake \<Rightarrow> string + bytes"
  bc_created_de :: "bytes \<Rightarrow> string + created_handshake"
  bc_cell :: "relay_cell \<Rightarrow> string + bytes"
  bc_cell_de :: "bytes \<Rightarrow> string + relay_cell"
  bc_payload :: "relay_payload \<Rightarrow> string + bytes"
  bc_payload_de :: "bytes \<Rightarrow> string + relay_payload"
  bc_extend :: "extend_request \<Rightarrow> string + bytes"
  bc_extend_de :: "bytes \<Rightarrow> string + extend_request"
  ed_key_decode :: "bytes \<Rightarrow> string + bytes"
  peer_of_key :: "bytes \<Rightarrow> peer_id"

text \<open>
  \<open>bincode\<close> on values whose array fields have the length of their Rust type and whose byte
  strings have a length that a \<open>u64\<close> can hold: serialization succeeds and deserialization inverts it. Its encoding has fixed-width integers, so a
  \<open>RelayPayload\<close> takes 41 bytes beside the inner data, and 8 more than the bytes of the next hop
  when there is one; an \<open>ExtendRequest\<close> takes 16 bytes beside its two byte strings, a
  \<open>CreateHandshake\<close> 104 bytes.
\<close>

definition payload_overhead :: "peer_id option \<Rightarrow> nat" where
  "payload_overhead p = 41 + (case p of None \<Rightarrow> 0 | Some q \<Rightarrow> 8 + length q)"

definition bincode_correct :: "relay_env \<Rightarrow> bool" where
  "bincode_correct E \<longleftrightarrow>
     (\<forall>h. length (ch_client_public_key h) = 32 \<and> length (ch_circuit_id h) = 32 \<and>
        length (ch_padding h) = 32 \<longrightarrow>
        (\<exists>b. bc_create E h = Inr b \<and> bc_create_de E b = Inr h \<and> length b = 104)) \<and>
     (\<forall>h. length (cd_relay_public_key h) = 32 \<and> length (cd_key_confirmation h) = 16 \<and>
        length (cd_relay_identity_key h) = 32 \<and> length (cd_signature h) < 2 ^ 64 \<longrightarrow>
        (\<exists>b. bc_created E h = Inr b \<and> bc_created_de E b = Inr h)) \<and>
     (\<forall>p. length (rp_hop_id p) = 16 \<and> length (rp_digest p) = 16 \<and>
        length (rp_inner_data p) < 2 ^ 64 \<and>
        (case rp_next_hop p of None \<Rightarrow> True | Some q \<Rightarrow> length q < 2 ^ 64) \<longrightarrow>
        (\<exists>b. bc_payload E p = Inr b \<and> bc_payload_de E b = Inr p \<and>
           length b = length (rp_inner_data p) + payload_overhead (rp_next_hop p))) \<and>
     (\<forall>r. length (er_next_peer r) < 2 ^ 64 \<and> length (er_handshake r) < 2 ^ 64 \<longrightarrow>
        (\<exists>b. bc_extend E r = Inr b \<and> bc_extend_de E b = Inr r \<and>
        length b = length (er_next_peer r) + length (er_handshake r) + 16))"

text \<open>An Ed25519 public key made from a seed has 32 bytes and decodes to itself; a signature has
  64 bytes.\<close>

definition identity_correct :: "relay_env \<Rightarrow> bool" where
  "identity_correct E \<longleftrightarrow> ed25519_correct (zp E) \<and>
     (\<forall>seed msg. length (ed_public (zp E) seed) = 32 \<and>
        length (ed_sign (zp E) seed msg) = 64 \<and>
        ed_key_decode E (ed_public (zp E) seed) = Inr (ed_public (zp E) seed))"

definition relay_correct :: "relay_env \<Rightarrow> bool" where
  "relay_correct E \<longleftrightarrow> aead_correct (zp E) \<and> blake3_sized (zp E) \<and> x25519_correct (zp E) \<and>
     identity_correct E \<and> bincode_correct E"

text \<open>\<open>unwrap_or_default\<close> and \<open>map_err\<close> around the codec.\<close>

definition or_default :: "string + bytes \<Rightarrow> bytes" where
  "or_default r = (case r of Inl _ \<Rightarrow> [] | Inr b \<Rightarrow> b)"

definition or_invalid :: "string + 'a \<Rightarrow> relay_error + 'a" where
  "or_invalid r = map_err (\<lambda>_. InvalidPayload) r"

section \<open>Key exchange\<close>

text \<open>\<open>generate\<close> draws the secret, \<open>from_secret\<close> is given it.\<close>

definition x25519_from_secret :: "prims \<Rightarrow> bytes \<Rightarrow> x25519_keypair" where
  "x25519_from_secret P sec = \<lparr>xk_secret = sec, xk_public = x25519_public P sec\<rparr>"

definition derive_symmetric_key :: "prims \<Rightarrow> x25519_keypair \<Rightarrow> bytes \<Rightarrow> bytes \<Rightarrow> bytes" where
  "derive_symmetric_key P kp peer_public ctx =
     take KEY_SIZE (blake3_keyed P (x25519_dh P (xk_secret kp) peer_public)
       (str_bytes ''shadowmesh-circuit-key-v1'' @ ctx @
        (if bytes_less (xk_public kp) peer_public then xk_public kp @ peer_public
         else peer_public @ xk_public kp)))"

text \<open>The context of a hop: the circuit id and the index of the hop as a \<open>usize\<close>.\<close>

definition hop_key_context :: "circuit_id \<Rightarrow> nat \<Rightarrow> bytes" where
  "hop_key_context cid hop_index = cid @ le_bytes 8 hop_index"

section \<open>Handshakes\<close>

definition create_handshake_new :: "u64 \<Rightarrow> bytes \<Rightarrow> bytes \<Rightarrow> circuit_id \<Rightarrow> create_handshake" where
  "create_handshake_new unix padding client_public cid =
     \<lparr>ch_client_public_key = client_public, ch_circuit_id = cid, ch_timestamp = unix,
      ch_padding = padding\<rparr>"

definition create_serialize :: "relay_env \<Rightarrow> create_handshake \<Rightarrow> bytes" where
  "create_serialize E h = or_default (bc_create E h)"

definition create_deserialize :: "relay_env \<Rightarrow> bytes \<Rightarrow> relay_error + create_handshake" where
  "create_deserialize E data = or_invalid (bc_create_de E data)"

definition handshake_transcript :: "bytes \<Rightarrow> bytes \<Rightarrow> circuit_id \<Rightarrow> bytes" where
  "handshake_transcript relay_ephemeral client_ephemeral cid =
     str_bytes ''shadowmesh-created-auth-v1'' @ relay_ephemeral @ client_ephemeral @ cid"

text \<open>The confirmation both \<open>new_signed\<close> and \<open>verify_key\<close> compute.\<close>

definition key_confirmation_hash :: "prims \<Rightarrow> bytes \<Rightarrow> bytes" where
  "key_confirmation_hash P key = take 16 (blake3 P (str_bytes ''shadowmesh-key-confirm-v1'' @ key))"

text \<open>An identity key pair is known by its seed.\<close>

definition created_new_signed ::
    "prims \<Rightarrow> u64 \<Rightarrow> bytes \<Rightarrow> bytes \<Rightarrow> circuit_id \<Rightarrow> bytes \<Rightarrow> bytes \<Rightarrow> created_handshake" where
  "created_new_signed P unix relay_public client_public cid shared_key identity =
     \<lparr>cd_relay_public_key = relay_public,
      cd_key_confirmation = key_confirmation_hash P shared_key,
      cd_timestamp = unix,
      cd_relay_identity_key = ed_public P identity,
      cd_signature = ed_sign P identity (handshake_transcript relay_public client_public cid)\<rparr>"

definition verify_key :: "prims \<Rightarrow> created_handshake \<Rightarrow> bytes \<Rightarrow> bool" where
  "verify_key P h shared_key \<longleftrightarrow> cd_key_confirmation h = key_confirmation_hash P shared_key"

definition verify_identity ::
    "relay_env \<Rightarrow> created_handshake \<Rightarrow> bytes \<Rightarrow> circuit_id \<Rightarrow> peer_id \<Rightarrow> relay_error + unit" where
  "verify_identity E h client_public cid expected_peer =
     (case ed_key_decode E (cd_relay_identity_key h) of
        Inl e \<Rightarrow> Inl (HandshakeAuthFailed (''bad identity key: '' @ e))
      | Inr identity_pub \<Rightarrow>
          if peer_of_key E identity_pub \<noteq> expected_peer then
            Inl (HandshakeAuthFailed ''relay identity does not match expected hop peer'')
          else if \<not> ed_verify (zp E) identity_pub
                     (handshake_transcript (cd_relay_public_key h) client_public cid) (cd_signature h)
          then Inl (HandshakeAuthFailed ''signature verification failed'')
          else Inr ())"

definition created_serialize :: "relay_env \<Rightarrow> created_handshake \<Rightarrow> bytes" where
  "created_serialize E h = or_default (bc_created E h)"

definition created_deserialize :: "relay_env \<Rightarrow> bytes \<Rightarrow> relay_error + created_handshake" where
  "created_deserialize E data = or_invalid (bc_created_de E data)"

section \<open>Cells and payloads\<close>

definition cell_new :: "u64 \<Rightarrow> circuit_id \<Rightarrow> cell_type \<Rightarrow> bytes \<Rightarrow> relay_cell" where
  "cell_new unix cid t payload =
     \<lparr>cl_circuit_id = cid, cl_cell_type = t, cl_payload = payload, cl_timestamp = unix\<rparr>"

definition cell_serialize :: "relay_env \<Rightarrow> relay_cell \<Rightarrow> bytes" where
  "cell_serialize E c = or_default (bc_cell E c)"

definition cell_deserialize :: "relay_env \<Rightarrow> bytes \<Rightarrow> relay_error + relay_cell" where
  "cell_deserialize E data = or_invalid (bc_cell_de E data)"

definition compute_digest :: "prims \<Rightarrow> bytes \<Rightarrow> bytes \<Rightarrow> bytes" where
  "compute_digest P data hop_id = take 16 (blake3 P (data @ hop_id))"

definition payload_new :: "prims \<Rightarrow> peer_id option \<Rightarrow> bytes \<Rightarrow> bytes \<Rightarrow> relay_payload" where
  "payload_new P next_hop hop_id inner =
     \<lparr>rp_next_hop = next_hop, rp_hop_id = hop_id, rp_inner_data = inner,
      rp_digest = compute_digest P inner hop_id\<rparr>"

definition payload_verify :: "prims \<Rightarrow> relay_payload \<Rightarrow> bool" where
  "payload_verify P p \<longleftrightarrow> rp_digest p = compute_digest P (rp_inner_data p) (rp_hop_id p)"

section \<open>Lemmas\<close>

lemma length_symmetric_key [word_len]:
  "blake3_sized P \<Longrightarrow> length (derive_symmetric_key P kp pub ctx) = 32"
  by (simp add: derive_symmetric_key_def blake3_sized_def KEY_SIZE_def)

text \<open>Both ends derive the same key from the same context.\<close>

lemma symmetric_keys_agree:
  assumes "x25519_correct P"
  shows "derive_symmetric_key P (x25519_from_secret P a) (x25519_public P b) ctx =
    derive_symmetric_key P (x25519_from_secret P b) (x25519_public P a) ctx"
proof -
  have key: "derive_symmetric_key P kp pub ctx = take KEY_SIZE (blake3_keyed P
      (x25519_dh P (xk_secret kp) pub)
      (str_bytes ''shadowmesh-circuit-key-v1'' @ ctx @ sorted_pair (xk_public kp) pub))" for kp pub
    by (simp add: derive_symmetric_key_def sorted_pair_def)
  show ?thesis
    unfolding key using assms sorted_pair_commute [of "x25519_public P a" "x25519_public P b"]
    by (simp add: x25519_from_secret_def x25519_correct_def)
qed

lemma length_confirmation [word_len]:
  "blake3_sized P \<Longrightarrow> length (key_confirmation_hash P k) = 16"
  by (simp add: key_confirmation_hash_def blake3_sized_def)

lemma length_digest [word_len]: "blake3_sized P \<Longrightarrow> length (compute_digest P d h) = 16"
  by (simp add: compute_digest_def blake3_sized_def)

lemma payload_new_verifies [simp]: "payload_verify P (payload_new P n h d)"
  by (simp add: payload_verify_def payload_new_def)

lemma signed_identity_verifies:
  assumes "identity_correct E" "peer_of_key E (ed_public (zp E) seed) = peer"
  shows "verify_identity E (created_new_signed (zp E) unix rpub cpub cid k seed) cpub cid peer = Inr ()"
  using assms
  by (simp add: verify_identity_def created_new_signed_def identity_correct_def ed25519_correct_def)

lemma confirmed_iff:
  "verify_key P (created_new_signed P unix rpub cpub cid k seed) k' \<longleftrightarrow>
     key_confirmation_hash P k = key_confirmation_hash P k'"
  by (simp add: verify_key_def created_new_signed_def)

lemma create_roundtrip:
  assumes "bincode_correct E" "length (ch_client_public_key h) = 32" "length (ch_circuit_id h) = 32"
    "length (ch_padding h) = 32"
  shows "create_deserialize E (create_serialize E h) = Inr h \<and> length (create_serialize E h) = 104"
proof -
  from assms obtain b where "bc_create E h = Inr b" "bc_create_de E b = Inr h" "length b = 104"
    unfolding bincode_correct_def by blast
  then show ?thesis
    by (simp add: create_deserialize_def create_serialize_def or_default_def or_invalid_def)
qed

lemma created_roundtrip:
  assumes "bincode_correct E" "length (cd_relay_public_key h) = 32"
    "length (cd_key_confirmation h) = 16" "length (cd_relay_identity_key h) = 32"
    "length (cd_signature h) < 2 ^ 64"
  shows "created_deserialize E (created_serialize E h) = Inr h"
proof -
  from assms obtain b where "bc_created E h = Inr b" "bc_created_de E b = Inr h"
    unfolding bincode_correct_def by blast
  then show ?thesis
    by (simp add: created_deserialize_def created_serialize_def or_default_def or_invalid_def)
qed

lemma extend_roundtrip:
  assumes "bincode_correct E" "length (er_next_peer r) < 2 ^ 64" "length (er_handshake r) < 2 ^ 64"
  obtains b where "bc_extend E r = Inr b" "bc_extend_de E b = Inr r"
    "length b = length (er_next_peer r) + length (er_handshake r) + 16"
  using assms unfolding bincode_correct_def by blast

lemma payload_roundtrip:
  assumes "bincode_correct E" "length (rp_hop_id p) = 16" "length (rp_digest p) = 16"
    and "length (rp_inner_data p) < 2 ^ 64"
    and "case rp_next_hop p of None \<Rightarrow> True | Some q \<Rightarrow> length q < 2 ^ 64"
  obtains b where "bc_payload E p = Inr b" "bc_payload_de E b = Inr p"
    "length b = length (rp_inner_data p) + payload_overhead (rp_next_hop p)"
  using assms unfolding bincode_correct_def by blast

section \<open>A concrete instance\<close>

text \<open>
  An environment that satisfies the laws, for the witnesses: a codec with fixed-width length
  prefixes, and the stand-ins of Crypto with a keyed hash that reads the hop index.
\<close>

definition vec_enc :: "bytes \<Rightarrow> bytes" where
  "vec_enc b = le_bytes 8 (length b) @ b"

definition vec_dec :: "bytes \<Rightarrow> bytes \<times> bytes" where
  "vec_dec b = (let n = from_le_bytes (take 8 b) in (take n (drop 8 b), drop (8 + n) b))"

lemma vec_dec_enc: "length b < 2 ^ 64 \<Longrightarrow> vec_dec (vec_enc b @ r) = (b, r)"
  by (simp add: vec_dec_def vec_enc_def from_le_bytes_le_bytes)

lemma length_vec_enc [simp]: "length (vec_enc b) = 8 + length b"
  by (simp add: vec_enc_def)

definition u64_enc :: "u64 \<Rightarrow> bytes" where
  "u64_enc w = le_bytes 8 (unat w)"

definition u64_dec :: "bytes \<Rightarrow> u64" where
  "u64_dec b = word_of_nat (from_le_bytes b)"

lemma length_u64_enc [simp]: "length (u64_enc w) = 8"
  by (simp add: u64_enc_def)

lemma u64_dec_enc [simp]: "u64_dec (u64_enc w) = w"
  using unsigned_less [of w, where 'a = nat]
  by (simp add: u64_dec_def u64_enc_def from_le_bytes_le_bytes)

definition demo_relay_prims :: prims where
  "demo_relay_prims = demo_prims\<lparr>
     blake3_keyed := (\<lambda>k d. replicate 24 0 @ pad_to 8 (drop 57 d)),
     ed_public := pad_to 32, ed_sign := (\<lambda>s m. pad_to 64 (pad_to 32 s @ m)),
     ed_verify := (\<lambda>p m g. g = pad_to 64 (p @ m))\<rparr>"

definition demo_relay :: relay_env where
  "demo_relay = \<lparr>zp = demo_relay_prims,
     bc_create = (\<lambda>h. Inr (ch_client_public_key h @ ch_circuit_id h @ u64_enc (ch_timestamp h) @
       ch_padding h)),
     bc_create_de = (\<lambda>b. if length b = 104 then
       Inr \<lparr>ch_client_public_key = take 32 b, ch_circuit_id = take 32 (drop 32 b),
            ch_timestamp = u64_dec (take 8 (drop 64 b)), ch_padding = drop 72 b\<rparr> else Inl ''size''),
     bc_created = (\<lambda>h. Inr (cd_relay_public_key h @ cd_key_confirmation h @ u64_enc (cd_timestamp h) @
       cd_relay_identity_key h @ vec_enc (cd_signature h))),
     bc_created_de = (\<lambda>b. if 96 \<le> length b then
       Inr \<lparr>cd_relay_public_key = take 32 b, cd_key_confirmation = take 16 (drop 32 b),
            cd_timestamp = u64_dec (take 8 (drop 48 b)),
            cd_relay_identity_key = take 32 (drop 56 b),
            cd_signature = fst (vec_dec (drop 88 b))\<rparr> else Inl ''size''),
     bc_cell = (\<lambda>c. Inr []), bc_cell_de = (\<lambda>b. Inl ''unused''),
     bc_payload = (\<lambda>p. Inr ((case rp_next_hop p of None \<Rightarrow> [0] | Some q \<Rightarrow> 1 # vec_enc q) @
       rp_hop_id p @ vec_enc (rp_inner_data p) @ rp_digest p)),
     bc_payload_de = (\<lambda>b. case b of [] \<Rightarrow> Inl ''size'' | tag # b1 \<Rightarrow>
       (let (hop, b2) = (if tag = 0 then (None, b1) else (map_prod Some id (vec_dec b1)));
            (inner, b3) = vec_dec (drop 16 b2)
        in Inr \<lparr>rp_next_hop = hop, rp_hop_id = take 16 b2, rp_inner_data = inner,
                rp_digest = b3\<rparr>)),
     bc_extend = (\<lambda>r. Inr (vec_enc (er_next_peer r) @ vec_enc (er_handshake r))),
     bc_extend_de = (\<lambda>b. let (p, b1) = vec_dec b; (h, b2) = vec_dec b1
       in Inr \<lparr>er_next_peer = p, er_handshake = h\<rparr>),
     ed_key_decode = Inr, peer_of_key = (\<lambda>k. k)\<rparr>"

lemma demo_bincode: "bincode_correct demo_relay"
proof -
  have vec: "vec_dec (vec_enc b) = (b, [])" if "length b < 2 ^ 64" for b
    using vec_dec_enc [of b "[]"] that by simp
  show ?thesis
    unfolding bincode_correct_def
  proof (intro conjI allI impI, goal_cases)
    case (3 p)
    then show ?case
      by (cases "rp_next_hop p") (simp_all add: demo_relay_def vec_dec_enc payload_overhead_def)
  qed (auto simp: demo_relay_def vec vec_dec_enc)
qed

lemma demo_relay_correct: "relay_correct demo_relay"
proof -
  have [simp]: "zp demo_relay = demo_relay_prims" "ed_key_decode demo_relay = Inr"
    by (simp_all add: demo_relay_def)
  have "aead_correct demo_relay_prims" "x25519_correct demo_relay_prims"
    using demo_aead demo_x25519
    by (simp_all add: aead_correct_def x25519_correct_def demo_relay_prims_def)
  moreover have "blake3_sized demo_relay_prims"
    by (simp add: blake3_sized_def demo_relay_prims_def demo_prims_def)
  moreover have "identity_correct demo_relay"
    by (simp add: identity_correct_def ed25519_correct_def demo_relay_prims_def)
  ultimately show ?thesis
    using demo_bincode by (simp add: relay_correct_def)
qed

end
