(* ===== verification/ZkClient.thy ===== *)
theory ZkClient
  imports ZkCells
begin

text \<open>
  The client side of the circuit protocol of \<open>protocol/src/zk_relay.rs\<close>: circuits, their
  hops, and the \<open>ZkRelayClient\<close>. A method with \<open>&mut self\<close> returns its result and the new
  state. Arguments that stand for the outside: \<open>now\<close> (the \<open>Instant\<close> of the call), \<open>unix\<close>
  (the Unix clock in seconds), and the random draws.
\<close>

section \<open>Circuits\<close>

record ephemeral_hop_keypair =
  eh_keypair :: x25519_keypair
  eh_created_at :: instant

definition ephemeral_generate :: "prims \<Rightarrow> instant \<Rightarrow> bytes \<Rightarrow> ephemeral_hop_keypair" where
  "ephemeral_generate P now drawn = \<lparr>eh_keypair = x25519_from_secret P drawn, eh_created_at = now\<rparr>"

definition eh_public :: "ephemeral_hop_keypair \<Rightarrow> bytes" where
  "eh_public e = xk_public (eh_keypair e)"

record circuit_hop =
  hop_peer_id :: peer_id
  hop_ephemeral :: ephemeral_hop_keypair
  hop_relay_public :: "bytes option"
  hop_symmetric_key :: "bytes option"
  hop_hop_id :: bytes

record circuit =
  ci_id :: circuit_id
  ci_hops :: "circuit_hop list"
  ci_created_at :: instant
  ci_lifetime :: duration
  ci_ready :: bool

text \<open>\<open>Circuit::new\<close> draws a nonce of 12 bytes and 32 more bytes.\<close>

definition circuit_new :: "prims \<Rightarrow> instant \<Rightarrow> bytes \<Rightarrow> bytes \<Rightarrow> duration \<Rightarrow> circuit" where
  "circuit_new P now rnd extra lifetime =
     \<lparr>ci_id = rnd @ take 20 (blake3 P (rnd @ extra)), ci_hops = [], ci_created_at = now,
      ci_lifetime = lifetime, ci_ready = False\<rparr>"

definition circuit_is_expired :: "instant \<Rightarrow> circuit \<Rightarrow> bool" where
  "circuit_is_expired now c \<longleftrightarrow> ci_lifetime c < elapsed now (ci_created_at c)"

definition num_hops :: "circuit \<Rightarrow> nat" where
  "num_hops c = length (ci_hops c)"

definition generate_hop_id :: "prims \<Rightarrow> circuit_id \<Rightarrow> nat \<Rightarrow> bytes" where
  "generate_hop_id P cid hop_index = take 16 (blake3 P (cid @ le_bytes 8 hop_index))"

definition add_hop_with_keypair ::
    "prims \<Rightarrow> peer_id \<Rightarrow> ephemeral_hop_keypair \<Rightarrow> circuit \<Rightarrow> circuit" where
  "add_hop_with_keypair P peer kp c =
     c\<lparr>ci_hops := ci_hops c @
        [\<lparr>hop_peer_id = peer, hop_ephemeral = kp, hop_relay_public = None,
          hop_symmetric_key = None,
          hop_hop_id = generate_hop_id P (ci_id c) (length (ci_hops c))\<rparr>]\<rparr>"

definition add_hop :: "prims \<Rightarrow> instant \<Rightarrow> bytes \<Rightarrow> peer_id \<Rightarrow> circuit \<Rightarrow> circuit" where
  "add_hop P now drawn peer c = add_hop_with_keypair P peer (ephemeral_generate P now drawn) c"

definition complete_hop_handshake ::
    "prims \<Rightarrow> nat \<Rightarrow> bytes \<Rightarrow> bytes \<Rightarrow> circuit \<Rightarrow> (relay_error + bytes) \<times> circuit" where
  "complete_hop_handshake P hop_index relay_public ctx c =
     (if length (ci_hops c) \<le> hop_index then (Inl InvalidHop, c)
      else
        let hop = ci_hops c ! hop_index;
            key = derive_symmetric_key P (eh_keypair (hop_ephemeral hop)) relay_public ctx
        in (Inr key,
            c\<lparr>ci_hops := (ci_hops c)[hop_index :=
               hop\<lparr>hop_relay_public := Some relay_public, hop_symmetric_key := Some key\<rparr>]\<rparr>))"

text \<open>\<open>keys\<close> collects the keys in hop order, or nothing if one is missing.\<close>

definition circuit_keys :: "circuit \<Rightarrow> bytes list option" where
  "circuit_keys c = those (map hop_symmetric_key (ci_hops c))"

definition is_handshake_complete :: "circuit \<Rightarrow> bool" where
  "is_handshake_complete c \<longleftrightarrow> list_all (\<lambda>h. hop_symmetric_key h \<noteq> None) (ci_hops c)"

definition get_create_handshake :: "u64 \<Rightarrow> bytes \<Rightarrow> circuit \<Rightarrow> nat \<Rightarrow> create_handshake option" where
  "get_create_handshake unix padding c hop_index =
     (if length (ci_hops c) \<le> hop_index then None
      else Some (create_handshake_new unix padding (eh_public (hop_ephemeral (ci_hops c ! hop_index)))
                  (ci_id c)))"

section \<open>Configuration\<close>

record zk_config =
  default_hops :: nat
  circuit_lifetime :: duration
  max_circuits :: nat
  max_circuits_per_peer :: nat
  max_cell_age :: duration
  padding_enabled :: bool
  padding_interval :: duration
  cell_timeout :: duration

definition zk_config_default :: zk_config where
  "zk_config_default = \<lparr>default_hops = 3, circuit_lifetime = from_secs 600, max_circuits = 10000,
     max_circuits_per_peer = 256, max_cell_age = from_secs 300, padding_enabled = True,
     padding_interval = 100 * 1000000, cell_timeout = from_secs 30\<rparr>"

section \<open>The client\<close>

record zk_client =
  cl_secret :: bytes
  cl_circuits :: "(circuit_id, circuit) hmap"
  cl_config :: zk_config

definition client_with_config :: "bytes \<Rightarrow> zk_config \<Rightarrow> zk_client" where
  "client_with_config sec cfg = \<lparr>cl_secret = sec, cl_circuits = [], cl_config = cfg\<rparr>"

definition client_new :: "bytes \<Rightarrow> zk_client" where
  "client_new sec = client_with_config sec zk_config_default"

text \<open>\<open>build_circuit\<close>: \<open>eph i\<close> is the secret drawn for hop \<open>i\<close>.\<close>

definition build_circuit ::
    "prims \<Rightarrow> instant \<Rightarrow> bytes \<Rightarrow> bytes \<Rightarrow> (nat \<Rightarrow> bytes) \<Rightarrow> peer_id list \<Rightarrow> zk_client \<Rightarrow>
     (relay_error + circuit_id) \<times> zk_client" where
  "build_circuit P now rnd extra eph peers cl =
     (if length peers < 2 then (Inl (CircuitBuildFailed ''Need at least 2 hops''), cl)
      else
        let c0 = circuit_new P now rnd extra (circuit_lifetime (cl_config cl));
            c = fold (\<lambda>(i, peer). add_hop P now (eph i) peer) (enumerate 0 peers) c0
        in (Inr (ci_id c0),
            cl\<lparr>cl_circuits := hm_insert (ci_id c0) (c\<lparr>ci_ready := False\<rparr>) (cl_circuits cl)\<rparr>))"

definition get_create_cell ::
    "relay_env \<Rightarrow> u64 \<Rightarrow> bytes \<Rightarrow> circuit_id \<Rightarrow> zk_client \<Rightarrow> relay_error + relay_cell" where
  "get_create_cell E unix padding cid cl =
     (case hm_get (cl_circuits cl) cid of
        None \<Rightarrow> Inl CircuitNotFound
      | Some c \<Rightarrow>
          (case get_create_handshake unix padding c 0 of
             None \<Rightarrow> Inl InvalidHop
           | Some h \<Rightarrow> Inr (cell_new unix cid Create (create_serialize E h))))"

text \<open>
  The onion of an EXTEND cell: one layer per completed hop, from \<open>hop_index\<close> down to the first;
  a hop without a key is skipped. \<open>rnd i\<close> is the nonce drawn for hop \<open>i\<close>.
\<close>

definition extend_layer ::
    "prims \<Rightarrow> (nat \<Rightarrow> bytes) \<Rightarrow> circuit \<Rightarrow> nat \<Rightarrow> bytes \<Rightarrow> relay_error + bytes" where
  "extend_layer P rnd c i payload =
     (case hop_symmetric_key (ci_hops c ! i) of
        None \<Rightarrow> Inr payload
      | Some key \<Rightarrow>
          map_err (\<lambda>e. RelayEncryptionFailed (crypto_error_text e))
            (encrypt_raw P (cm_new key) (rnd i) payload))"

definition extend_cell ::
    "relay_env \<Rightarrow> u64 \<Rightarrow> bytes \<Rightarrow> (nat \<Rightarrow> bytes) \<Rightarrow> circuit_id \<Rightarrow> circuit \<Rightarrow> nat \<Rightarrow> relay_error + relay_cell" where
  "extend_cell E unix padding rnd cid c hop_index =
     (case get_create_handshake unix padding c (hop_index + 1) of
        None \<Rightarrow> Inl InvalidHop
      | Some h \<Rightarrow>
          (case or_invalid (bc_extend E \<lparr>er_next_peer = hop_peer_id (ci_hops c ! (hop_index + 1)),
                                        er_handshake = create_serialize E h\<rparr>) of
             Inl e \<Rightarrow> Inl e
           | Inr b \<Rightarrow>
               (case try_fold (extend_layer (zp E) rnd c) (rev [0..<hop_index + 1]) b of
                  Inl e \<Rightarrow> Inl e
                | Inr payload \<Rightarrow> Inr (cell_new unix cid Extend payload))))"

definition process_created_response ::
    "relay_env \<Rightarrow> u64 \<Rightarrow> bytes \<Rightarrow> (nat \<Rightarrow> bytes) \<Rightarrow> circuit_id \<Rightarrow> created_handshake \<Rightarrow> nat \<Rightarrow> zk_client \<Rightarrow>
     (relay_error + relay_cell option) \<times> zk_client" where
  "process_created_response E unix padding rnd cid resp hop_index cl =
     (case hm_get (cl_circuits cl) cid of
        None \<Rightarrow> (Inl CircuitNotFound, cl)
      | Some c \<Rightarrow>
          if length (ci_hops c) \<le> hop_index then (Inl InvalidHop, cl)
          else
            let hop = ci_hops c ! hop_index in
            (case verify_identity E resp (eh_public (hop_ephemeral hop)) cid (hop_peer_id hop) of
               Inl e \<Rightarrow> (Inl e, cl)
             | Inr _ \<Rightarrow>
                 (case complete_hop_handshake (zp E) hop_index (cd_relay_public_key resp)
                         (hop_key_context cid hop_index) c of
                    (Inl e, c1) \<Rightarrow> (Inl e, cl\<lparr>cl_circuits := hm_insert cid c1 (cl_circuits cl)\<rparr>)
                  | (Inr key, c1) \<Rightarrow>
                      let cl1 = cl\<lparr>cl_circuits := hm_insert cid c1 (cl_circuits cl)\<rparr> in
                      if \<not> verify_key (zp E) resp key then
                        (Inl (RelayDecryptionFailed ''Key confirmation failed''), cl1)
                      else if hop_index + 1 < length (ci_hops c1) then
                        ((case extend_cell E unix padding rnd cid c1 hop_index of
                           Inl e \<Rightarrow> Inl e | Inr x \<Rightarrow> Inr (Some x)), cl1)
                      else
                        (Inr None, cl\<lparr>cl_circuits :=
                           hm_insert cid (c1\<lparr>ci_ready := True\<rparr>) (cl_circuits cl)\<rparr>))))"

section \<open>Requests and responses\<close>

text \<open>One turn of the loop of \<open>wrap_request\<close>, for hop \<open>i\<close>.\<close>

definition wrap_hop :: "circuit \<Rightarrow> nat \<Rightarrow> peer_id option" where
  "wrap_hop c i = (if i = length (ci_hops c) - 1 then None else Some (hop_peer_id (ci_hops c ! (i + 1))))"

definition wrap_layer ::
    "relay_env \<Rightarrow> circuit_hop \<times> peer_id option \<times> bytes \<Rightarrow> bytes \<Rightarrow> relay_error + bytes" where
  "wrap_layer E = (\<lambda>(hop, next_hop, rnd) payload.
     (case or_invalid (bc_payload E (payload_new (zp E) next_hop (hop_hop_id hop) payload)) of
        Inl e \<Rightarrow> Inl e
      | Inr b \<Rightarrow>
          (case hop_symmetric_key hop of
             None \<Rightarrow> Inl (CircuitBuildFailed ''Hop key not established'')
           | Some key \<Rightarrow>
               map_err (\<lambda>e. RelayEncryptionFailed (crypto_error_text e))
                 (encrypt_raw (zp E) (cm_new key) rnd b))))"

definition wrap_inputs :: "circuit \<Rightarrow> (nat \<Rightarrow> bytes) \<Rightarrow> (circuit_hop \<times> peer_id option \<times> bytes) list" where
  "wrap_inputs c rnd = map (\<lambda>(i, hop). (hop, wrap_hop c i, rnd i)) (enumerate 0 (ci_hops c))"

definition wrap_request ::
    "relay_env \<Rightarrow> instant \<Rightarrow> u64 \<Rightarrow> (nat \<Rightarrow> bytes) \<Rightarrow> circuit_id \<Rightarrow> bytes \<Rightarrow> zk_client \<Rightarrow>
     relay_error + relay_cell" where
  "wrap_request E now unix rnd cid request cl =
     (case hm_get (cl_circuits cl) cid of
        None \<Rightarrow> Inl CircuitNotFound
      | Some c \<Rightarrow>
          if circuit_is_expired now c then Inl CircuitExpired
          else if \<not> ci_ready c then Inl (CircuitBuildFailed ''Circuit not ready'')
          else
            (case try_fold (wrap_layer E) (rev (wrap_inputs c rnd)) request of
               Inl e \<Rightarrow> Inl e
             | Inr payload \<Rightarrow> Inr (cell_new unix cid Relay payload)))"

definition unwrap_hop :: "prims \<Rightarrow> circuit_hop \<Rightarrow> bytes \<Rightarrow> relay_error + bytes" where
  "unwrap_hop P hop data =
     (case hop_symmetric_key hop of
        None \<Rightarrow> Inl (RelayDecryptionFailed ''Hop key not established'')
      | Some key \<Rightarrow>
          map_err (\<lambda>e. RelayDecryptionFailed (crypto_error_text e)) (decrypt_raw P (cm_new key) data))"

definition unwrap_response :: "prims \<Rightarrow> circuit_id \<Rightarrow> relay_cell \<Rightarrow> zk_client \<Rightarrow> relay_error + bytes" where
  "unwrap_response P cid cell cl =
     (case hm_get (cl_circuits cl) cid of
        None \<Rightarrow> Inl CircuitNotFound
      | Some c \<Rightarrow> try_fold (unwrap_hop P) (ci_hops c) (cl_payload cell))"

definition get_entry_node :: "circuit_id \<Rightarrow> zk_client \<Rightarrow> peer_id option" where
  "get_entry_node cid cl =
     (case hm_get (cl_circuits cl) cid of
        None \<Rightarrow> None
      | Some c \<Rightarrow> (case ci_hops c of [] \<Rightarrow> None | h # _ \<Rightarrow> Some (hop_peer_id h)))"

definition destroy_circuit :: "u64 \<Rightarrow> circuit_id \<Rightarrow> zk_client \<Rightarrow> relay_cell option \<times> zk_client" where
  "destroy_circuit unix cid cl =
     (let cl1 = cl\<lparr>cl_circuits := hm_remove cid (cl_circuits cl)\<rparr>
      in if hm_get (cl_circuits cl) cid \<noteq> None then (Some (cell_new unix cid Destroy []), cl1)
         else (None, cl1))"

definition client_active_circuits :: "zk_client \<Rightarrow> nat" where
  "client_active_circuits cl = length (cl_circuits cl)"

definition client_cleanup_expired :: "instant \<Rightarrow> zk_client \<Rightarrow> nat \<times> zk_client" where
  "client_cleanup_expired now cl =
     (let kept = hm_retain (\<lambda>_ c. \<not> circuit_is_expired now c) (cl_circuits cl)
      in (length (cl_circuits cl) - length kept, cl\<lparr>cl_circuits := kept\<rparr>))"

text \<open>\<open>create_padding_cell\<close>: \<open>drawn\<close> is the 512 random bytes.\<close>

definition create_padding_cell :: "u64 \<Rightarrow> bytes \<Rightarrow> circuit_id \<Rightarrow> zk_client \<Rightarrow> relay_cell option" where
  "create_padding_cell unix drawn cid cl =
     (if \<not> padding_enabled (cl_config cl) then None else Some (cell_new unix cid Padding drawn))"

section \<open>Blind requests and padding\<close>

record blind_request =
  br_content_hash :: string
  br_range :: "(u64 \<times> u64) option"
  br_request_id :: bytes
  br_timestamp :: u64

definition blind_request_new :: "u64 \<Rightarrow> bytes \<Rightarrow> string \<Rightarrow> blind_request" where
  "blind_request_new unix rnd content_hash =
     \<lparr>br_content_hash = content_hash, br_range = None, br_request_id = rnd @ replicate 4 0,
      br_timestamp = unix\<rparr>"

definition blind_request_with_range :: "u64 \<Rightarrow> bytes \<Rightarrow> string \<Rightarrow> u64 \<Rightarrow> u64 \<Rightarrow> blind_request" where
  "blind_request_with_range unix rnd content_hash first last_byte =
     (blind_request_new unix rnd content_hash)\<lparr>br_range := Some (first, last_byte)\<rparr>"

record traffic_padder =
  tp_min_size :: nat
  tp_target_size :: nat
  tp_timing_jitter :: bool
  tp_max_jitter_ms :: u64

definition padder_default :: traffic_padder where
  "padder_default = \<lparr>tp_min_size = 512, tp_target_size = 512, tp_timing_jitter = True,
     tp_max_jitter_ms = 50\<rparr>"

definition padder_with_size :: "nat \<Rightarrow> traffic_padder" where
  "padder_with_size n = padder_default\<lparr>tp_min_size := n, tp_target_size := n\<rparr>"

text \<open>\<open>drawn i\<close> is the i-th random byte.\<close>

definition pad :: "(nat \<Rightarrow> 8 word) \<Rightarrow> traffic_padder \<Rightarrow> bytes \<Rightarrow> bytes" where
  "pad drawn tp data =
     (if tp_target_size tp \<le> length data then data
      else data @ map drawn [0..<tp_target_size tp - length data])"

definition unpad :: "bytes \<Rightarrow> nat \<Rightarrow> bytes" where
  "unpad data original_len = take (min original_len (length data)) data"

text \<open>\<open>get_jitter\<close>: the remainder panics when the bound is zero, which is the value None.\<close>

definition get_jitter :: "u64 \<Rightarrow> traffic_padder \<Rightarrow> duration option" where
  "get_jitter drawn tp =
     (if \<not> tp_timing_jitter tp then Some 0
      else if tp_max_jitter_ms tp = 0 then None
      else Some (unat (drawn mod tp_max_jitter_ms tp) * 1000000))"

end
