(* ===== verification/ZkNode.thy ===== *)
theory ZkNode
  imports ZkClient
begin

text \<open>
  The relay side of the circuit protocol of \<open>protocol/src/zk_relay.rs\<close>: the \<open>ZkRelayNode\<close>,
  with its circuit table, replay cache and statistics. The locks of the node recover from
  poisoning, so a handler is a function of the state it holds them for. Arguments that stand for
  the outside: \<open>now\<close> (the \<open>Instant\<close> of the call), \<open>unix\<close> (the Unix clock in seconds) and
  \<open>drawn\<close> (the random bytes of the call: an ephemeral secret or a nonce).
\<close>

section \<open>State\<close>

record relay_circuit_state =
  rs_circuit_id :: circuit_id
  rs_ephemeral :: ephemeral_hop_keypair
  rs_client_public :: bytes
  rs_hop_key :: bytes
  rs_prev_hop :: "peer_id option"
  rs_next_hop :: "peer_id option"
  rs_created_at :: instant
  rs_expires_at :: instant

record relay_stats =
  st_cells_relayed :: u64
  st_bytes_relayed :: u64
  st_active_circuits :: nat
  st_circuits_created :: u64
  st_circuits_destroyed :: u64
  st_decryption_failures :: u64

record zk_node =
  nd_identity :: bytes
  nd_states :: "(circuit_id, relay_circuit_state) hmap"
  nd_replay :: "(bytes, instant) hmap"
  nd_config :: zk_config
  nd_stats :: relay_stats

definition stats_default :: relay_stats where
  "stats_default = \<lparr>st_cells_relayed = 0, st_bytes_relayed = 0, st_active_circuits = 0,
     st_circuits_created = 0, st_circuits_destroyed = 0, st_decryption_failures = 0\<rparr>"

definition node_with_config :: "bytes \<Rightarrow> zk_config \<Rightarrow> zk_node" where
  "node_with_config node_secret cfg = \<lparr>nd_identity = node_secret, nd_states = [], nd_replay = [],
     nd_config = cfg, nd_stats = stats_default\<rparr>"

definition node_new :: "bytes \<Rightarrow> zk_node" where
  "node_new node_secret = node_with_config node_secret zk_config_default"

definition identity_public_key :: "prims \<Rightarrow> zk_node \<Rightarrow> bytes" where
  "identity_public_key P nd = ed_public P (nd_identity nd)"

definition from_handshake ::
    "prims \<Rightarrow> instant \<Rightarrow> u64 \<Rightarrow> bytes \<Rightarrow> circuit_id \<Rightarrow> bytes \<Rightarrow> peer_id \<Rightarrow> duration \<Rightarrow> bytes \<Rightarrow>
     relay_circuit_state \<times> created_handshake" where
  "from_handshake P now unix drawn cid client_public from lifetime identity =
     (let eph = ephemeral_generate P now drawn;
          hop_key = derive_symmetric_key P (eh_keypair eph) client_public (hop_key_context cid 0)
      in (\<lparr>rs_circuit_id = cid, rs_ephemeral = eph, rs_client_public = client_public,
           rs_hop_key = hop_key, rs_prev_hop = Some from, rs_next_hop = None,
           rs_created_at = now, rs_expires_at = now + lifetime\<rparr>,
          created_new_signed P unix (eh_public eph) client_public cid hop_key identity))"

definition state_is_expired :: "instant \<Rightarrow> relay_circuit_state \<Rightarrow> bool" where
  "state_is_expired now s \<longleftrightarrow> rs_expires_at s < now"

section \<open>Freshness and replay\<close>

definition check_freshness :: "u64 \<Rightarrow> zk_config \<Rightarrow> u64 \<Rightarrow> relay_error + unit" where
  "check_freshness unix cfg timestamp =
     (let max_age = word_of_nat (as_secs (max_cell_age cfg))
      in if sat_add unix max_age < timestamp \<or> max_age < sat_sub unix timestamp then Inl StaleCell
         else Inr ())"

definition replay_cap :: "zk_config \<Rightarrow> nat" where
  "replay_cap cfg = max (min (max_circuits cfg * 2) (2 ^ 64 - 1)) 1024"

definition check_and_record_replay ::
    "instant \<Rightarrow> bytes \<Rightarrow> zk_node \<Rightarrow> (relay_error + unit) \<times> zk_node" where
  "check_and_record_replay now digest nd =
     (let pruned = hm_retain (\<lambda>_ seen. elapsed now seen \<le> max_cell_age (nd_config nd)) (nd_replay nd);
          cache = (if replay_cap (nd_config nd) \<le> length pruned then [] else pruned)
      in if hm_get cache digest \<noteq> None then (Inl ReplayedCell, nd\<lparr>nd_replay := cache\<rparr>)
         else (Inr (), nd\<lparr>nd_replay := hm_insert digest now cache\<rparr>))"

definition create_digest :: "prims \<Rightarrow> circuit_id \<Rightarrow> create_handshake \<Rightarrow> bytes" where
  "create_digest P cid h =
     blake3 P (str_bytes ''shadowmesh-create-replay-v1'' @ cid @ le_bytes 8 (unat (ch_timestamp h)) @
       ch_client_public_key h @ ch_padding h)"

section \<open>Handlers\<close>

definition handle_create ::
    "relay_env \<Rightarrow> instant \<Rightarrow> u64 \<Rightarrow> bytes \<Rightarrow> relay_cell \<Rightarrow> peer_id \<Rightarrow> zk_node \<Rightarrow>
     (relay_error + relay_action) \<times> zk_node" where
  "handle_create E now unix drawn cell from nd =
     (case check_freshness unix (nd_config nd) (cl_timestamp cell) of
        Inl e \<Rightarrow> (Inl e, nd)
      | Inr _ \<Rightarrow>
     (case create_deserialize E (cl_payload cell) of
        Inl e \<Rightarrow> (Inl e, nd)
      | Inr h \<Rightarrow>
     (case check_freshness unix (nd_config nd) (ch_timestamp h) of
        Inl e \<Rightarrow> (Inl e, nd)
      | Inr _ \<Rightarrow>
     (case check_and_record_replay now (create_digest (zp E) (cl_circuit_id cell) h) nd of
        (Inl e, nd1) \<Rightarrow> (Inl e, nd1)
      | (Inr _, nd1) \<Rightarrow>
          let states = nd_states nd1; cfg = nd_config nd1 in
          if max_circuits cfg \<le> length states then (Inl MaxCircuitsExceeded, nd1)
          else if hm_get states (cl_circuit_id cell) \<noteq> None then (Inl CircuitIdCollision, nd1)
          else if max_circuits_per_peer cfg \<le>
                  length (filter (\<lambda>s. rs_prev_hop s = Some from) (hm_values states)) then
            (Inl RateLimited, nd1)
          else
            let (state, created) = from_handshake (zp E) now unix drawn (cl_circuit_id cell)
                  (ch_client_public_key h) from (circuit_lifetime cfg) (nd_identity nd1);
                states1 = hm_insert (cl_circuit_id cell) state states;
                stats = nd_stats nd1
            in (Inr (Respond (cell_new unix (cl_circuit_id cell) Created (created_serialize E created))),
                nd1\<lparr>nd_states := states1,
                     nd_stats := stats\<lparr>st_circuits_created := st_circuits_created stats + 1,
                                       st_active_circuits := length states1\<rparr>\<rparr>)))))"

definition handle_extend ::
    "relay_env \<Rightarrow> instant \<Rightarrow> u64 \<Rightarrow> relay_cell \<Rightarrow> peer_id \<Rightarrow> zk_node \<Rightarrow>
     (relay_error + relay_action) \<times> zk_node" where
  "handle_extend E now unix cell from nd =
     (case check_freshness unix (nd_config nd) (cl_timestamp cell) of
        Inl e \<Rightarrow> (Inl e, nd)
      | Inr _ \<Rightarrow>
     (case hm_get (nd_states nd) (cl_circuit_id cell) of
        None \<Rightarrow> (Inl CircuitNotFound, nd)
      | Some state \<Rightarrow>
          if state_is_expired now state then
            (Inl CircuitExpired, nd\<lparr>nd_states := hm_remove (cl_circuit_id cell) (nd_states nd)\<rparr>)
          else if rs_prev_hop state \<noteq> Some from then (Inl InvalidHop, nd)
          else
     (case decrypt_raw (zp E) (cm_new (rs_hop_key state)) (cl_payload cell) of
        Inl e \<Rightarrow> (Inl (RelayDecryptionFailed (crypto_error_text e)), nd)
      | Inr decrypted \<Rightarrow>
     (case or_invalid (bc_extend_de E decrypted) of
        Inl e \<Rightarrow> (Inl e, nd)
      | Inr req \<Rightarrow>
          (Inr (Forward (cell_new unix (cl_circuit_id cell) Create (er_handshake req)) (er_next_peer req)),
           nd\<lparr>nd_states := hm_insert (cl_circuit_id cell)
                (state\<lparr>rs_next_hop := Some (er_next_peer req)\<rparr>) (nd_states nd)\<rparr>)))))"

text \<open>The layer a relay opens: decryption, parsing, integrity check.\<close>

definition open_payload :: "relay_env \<Rightarrow> bytes \<Rightarrow> relay_error + relay_payload" where
  "open_payload E decrypted =
     (case or_invalid (bc_payload_de E decrypted) of
        Inl e \<Rightarrow> Inl e
      | Inr p \<Rightarrow> if \<not> payload_verify (zp E) p then Inl InvalidPayload else Inr p)"

definition handle_relay ::
    "relay_env \<Rightarrow> instant \<Rightarrow> u64 \<Rightarrow> bytes \<Rightarrow> relay_cell \<Rightarrow> peer_id \<Rightarrow> zk_node \<Rightarrow>
     (relay_error + relay_action) \<times> zk_node" where
  "handle_relay E now unix drawn cell from nd =
     (case check_freshness unix (nd_config nd) (cl_timestamp cell) of
        Inl e \<Rightarrow> (Inl e, nd)
      | Inr _ \<Rightarrow>
     (case hm_get (nd_states nd) (cl_circuit_id cell) of
        None \<Rightarrow> (Inl CircuitNotFound, nd)
      | Some state \<Rightarrow>
          if state_is_expired now state then
            (Inl CircuitExpired, nd\<lparr>nd_states := hm_remove (cl_circuit_id cell) (nd_states nd)\<rparr>)
          else
     (case decrypt_raw (zp E) (cm_new (rs_hop_key state)) (cl_payload cell) of
        Inl e \<Rightarrow> (Inl (RelayDecryptionFailed (crypto_error_text e)),
          nd\<lparr>nd_stats := (nd_stats nd)\<lparr>st_decryption_failures :=
               st_decryption_failures (nd_stats nd) + 1\<rparr>\<rparr>)
      | Inr decrypted \<Rightarrow>
     (case open_payload E decrypted of
        Inl e \<Rightarrow> (Inl e, nd)
      | Inr p \<Rightarrow>
          let nd1 = nd\<lparr>nd_stats := (nd_stats nd)\<lparr>
                st_cells_relayed := st_cells_relayed (nd_stats nd) + 1,
                st_bytes_relayed := st_bytes_relayed (nd_stats nd) + word_of_nat (length (cl_payload cell))\<rparr>\<rparr>
          in if rs_prev_hop state = Some from then
               (case rp_next_hop p of
                  Some next_peer \<Rightarrow>
                    (Inr (Forward (cell_new unix (cl_circuit_id cell) Relay (rp_inner_data p)) next_peer), nd1)
                | None \<Rightarrow> (Inr (Exit (rp_inner_data p) (cl_circuit_id cell)), nd1))
             else
               (case rs_prev_hop state of
                  None \<Rightarrow> (Inl InvalidHop, nd1)
                | Some prev_peer \<Rightarrow>
                    (case encrypt_raw (zp E) (cm_new (rs_hop_key state)) drawn (cl_payload cell) of
                       Inl e \<Rightarrow> (Inl (RelayEncryptionFailed (crypto_error_text e)), nd1)
                     | Inr encrypted \<Rightarrow>
                         (Inr (Forward (cell_new unix (cl_circuit_id cell) Relay encrypted) prev_peer),
                          nd1)))))))"

definition handle_destroy ::
    "u64 \<Rightarrow> relay_cell \<Rightarrow> zk_node \<Rightarrow> (relay_error + relay_action) \<times> zk_node" where
  "handle_destroy unix cell nd =
     (case hm_get (nd_states nd) (cl_circuit_id cell) of
        None \<Rightarrow> (Inr Drop, nd\<lparr>nd_states := hm_remove (cl_circuit_id cell) (nd_states nd)\<rparr>)
      | Some state \<Rightarrow>
          let states1 = hm_remove (cl_circuit_id cell) (nd_states nd);
              nd1 = nd\<lparr>nd_states := states1,
                nd_stats := (nd_stats nd)\<lparr>
                  st_circuits_destroyed := st_circuits_destroyed (nd_stats nd) + 1,
                  st_active_circuits := length states1\<rparr>\<rparr>
          in (case rs_next_hop state of
                Some next_peer \<Rightarrow>
                  (Inr (Forward (cell_new unix (cl_circuit_id cell) Destroy []) next_peer), nd1)
              | None \<Rightarrow> (Inr Drop, nd1)))"

definition process_cell ::
    "relay_env \<Rightarrow> instant \<Rightarrow> u64 \<Rightarrow> bytes \<Rightarrow> relay_cell \<Rightarrow> peer_id \<Rightarrow> zk_node \<Rightarrow>
     (relay_error + relay_action) \<times> zk_node" where
  "process_cell E now unix drawn cell from nd =
     (case cl_cell_type cell of
        Create \<Rightarrow> handle_create E now unix drawn cell from nd
      | Extend \<Rightarrow> handle_extend E now unix cell from nd
      | Relay \<Rightarrow> handle_relay E now unix drawn cell from nd
      | Destroy \<Rightarrow> handle_destroy unix cell nd
      | Padding \<Rightarrow> (Inr Drop, nd)
      | _ \<Rightarrow> (Inr Drop, nd))"

definition node_active_circuits :: "zk_node \<Rightarrow> nat" where
  "node_active_circuits nd = length (nd_states nd)"

definition node_cleanup_expired :: "instant \<Rightarrow> zk_node \<Rightarrow> nat \<times> zk_node" where
  "node_cleanup_expired now nd =
     (let kept = hm_retain (\<lambda>_ s. \<not> state_is_expired now s) (nd_states nd);
          removed = length (nd_states nd) - length kept
      in (removed, nd\<lparr>nd_states := kept,
            nd_stats := (nd_stats nd)\<lparr>
              st_circuits_destroyed := st_circuits_destroyed (nd_stats nd) + word_of_nat removed,
              st_active_circuits := length kept\<rparr>\<rparr>))"

section \<open>The invariant of the node\<close>

definition peer_circuits :: "peer_id \<Rightarrow> (circuit_id, relay_circuit_state) hmap \<Rightarrow> nat" where
  "peer_circuits p states = length (filter (\<lambda>s. rs_prev_hop s = Some p) (hm_values states))"

definition node_inv :: "zk_config \<Rightarrow> zk_node \<Rightarrow> bool" where
  "node_inv cfg nd \<longleftrightarrow> nd_config nd = cfg \<and> hm_wf (nd_states nd) \<and> hm_wf (nd_replay nd) \<and>
     length (nd_states nd) \<le> max_circuits cfg \<and>
     (\<forall>p. peer_circuits p (nd_states nd) \<le> max_circuits_per_peer cfg) \<and>
     length (nd_replay nd) \<le> replay_cap cfg"

datatype node_call =
    ProcessCell instant u64 bytes relay_cell peer_id
  | CleanupCircuits instant

fun node_step :: "relay_env \<Rightarrow> node_call \<Rightarrow> zk_node \<Rightarrow> zk_node" where
  "node_step E (ProcessCell now unix drawn cell from) nd = snd (process_cell E now unix drawn cell from nd)"
| "node_step E (CleanupCircuits now) nd = snd (node_cleanup_expired now nd)"

lemma peer_circuits_Nil [simp]: "peer_circuits p [] = 0"
  by (simp add: peer_circuits_def hm_values_def)

lemma peer_circuits_Cons [simp]:
  "peer_circuits p ((k, s) # m) = (if rs_prev_hop s = Some p then 1 else 0) + peer_circuits p m"
  by (simp add: peer_circuits_def hm_values_def)

lemma peer_circuits_insert_new:
  "hm_get m k = None \<Longrightarrow> peer_circuits p (hm_insert k s m) =
     (if rs_prev_hop s = Some p then 1 else 0) + peer_circuits p m"
  by (induction m) (auto simp: hm_insert_def hm_get_def split: if_splits)

lemma peer_circuits_update:
  "hm_get m k = Some s \<Longrightarrow> rs_prev_hop s' = rs_prev_hop s \<Longrightarrow>
     peer_circuits p (hm_insert k s' m) = peer_circuits p m"
  by (induction m) (auto simp: hm_insert_def hm_get_def split: if_splits)

lemma peer_circuits_remove: "peer_circuits p (hm_remove k m) \<le> peer_circuits p m"
  by (induction m) (auto simp: hm_remove_def)

lemma peer_circuits_retain: "peer_circuits p (hm_retain P m) \<le> peer_circuits p m"
  by (induction m) (auto simp: hm_retain_def)

lemma replay_step:
  assumes "check_and_record_replay now d nd = (r, nd')"
  shows "nd_states nd' = nd_states nd \<and> nd_config nd' = nd_config nd \<and> nd_identity nd' = nd_identity nd \<and>
    nd_stats nd' = nd_stats nd \<and>
    (hm_wf (nd_replay nd) \<longrightarrow> hm_wf (nd_replay nd')) \<and>
    (length (nd_replay nd) \<le> replay_cap (nd_config nd) \<longrightarrow>
       length (nd_replay nd') \<le> replay_cap (nd_config nd))"
proof -
  let ?pruned = "hm_retain (\<lambda>_ seen. elapsed now seen \<le> max_cell_age (nd_config nd)) (nd_replay nd)"
  let ?cache = "if replay_cap (nd_config nd) \<le> length ?pruned then [] else ?pruned"
  have "0 < replay_cap (nd_config nd)"
    by (simp add: replay_cap_def)
  then have "length (hm_insert d now ?cache) \<le> replay_cap (nd_config nd)"
    by (auto simp: length_hm_insert)
  moreover have "length ?cache \<le> length (nd_replay nd)"
    using length_hm_retain_le by auto
  ultimately show ?thesis
    using assms by (auto simp: check_and_record_replay_def Let_def split: if_splits)
qed

lemma handle_extend_states:
  "nd_states (snd (handle_extend E now unix cell from nd)) = nd_states nd \<or>
   (\<exists>s. nd_states (snd (handle_extend E now unix cell from nd)) =
        hm_remove (cl_circuit_id cell) (nd_states nd) \<and>
      hm_get (nd_states nd) (cl_circuit_id cell) = Some s \<and> state_is_expired now s) \<or>
   (\<exists>s n. nd_states (snd (handle_extend E now unix cell from nd)) =
        hm_insert (cl_circuit_id cell) (s\<lparr>rs_next_hop := Some n\<rparr>) (nd_states nd) \<and>
      hm_get (nd_states nd) (cl_circuit_id cell) = Some s \<and> rs_prev_hop s = Some from \<and>
      \<not> state_is_expired now s)"
  by (auto simp: handle_extend_def split: sum.splits option.splits)

text \<open>A handler leaves the configuration and the identity alone; only CREATE touches the replay cache.\<close>

lemma handle_create_frame:
  "nd_config (snd (handle_create E now unix drawn cell from nd)) = nd_config nd \<and>
   nd_identity (snd (handle_create E now unix drawn cell from nd)) = nd_identity nd \<and>
   (hm_wf (nd_replay nd) \<longrightarrow> hm_wf (nd_replay (snd (handle_create E now unix drawn cell from nd)))) \<and>
   (length (nd_replay nd) \<le> replay_cap (nd_config nd) \<longrightarrow>
      length (nd_replay (snd (handle_create E now unix drawn cell from nd))) \<le> replay_cap (nd_config nd))"
  by (auto simp: handle_create_def Let_def split: sum.splits prod.splits dest!: replay_step)

lemma other_handlers_frame:
  "nd_config (snd (handle_extend E now unix cell from nd)) = nd_config nd \<and>
   nd_identity (snd (handle_extend E now unix cell from nd)) = nd_identity nd \<and>
   nd_replay (snd (handle_extend E now unix cell from nd)) = nd_replay nd"
  "nd_config (snd (handle_relay E now unix drawn cell from nd)) = nd_config nd \<and>
   nd_identity (snd (handle_relay E now unix drawn cell from nd)) = nd_identity nd \<and>
   nd_replay (snd (handle_relay E now unix drawn cell from nd)) = nd_replay nd"
  "nd_config (snd (handle_destroy unix cell nd)) = nd_config nd \<and>
   nd_identity (snd (handle_destroy unix cell nd)) = nd_identity nd \<and>
   nd_replay (snd (handle_destroy unix cell nd)) = nd_replay nd"
  by (auto simp: handle_extend_def handle_relay_def handle_destroy_def Let_def
      split: sum.splits option.splits)

text \<open>What one cell can do to the table of circuits.\<close>

lemma process_cell_cases:
  obtains (same) "nd_states (snd (process_cell E now unix drawn cell from nd)) = nd_states nd"
  | (created) s where "nd_states (snd (process_cell E now unix drawn cell from nd)) =
        hm_insert (cl_circuit_id cell) s (nd_states nd)"
      "cl_cell_type cell = Create" "hm_get (nd_states nd) (cl_circuit_id cell) = None"
      "rs_prev_hop s = Some from" "length (nd_states nd) < max_circuits (nd_config nd)"
      "peer_circuits from (nd_states nd) < max_circuits_per_peer (nd_config nd)"
  | (extended) s n where "nd_states (snd (process_cell E now unix drawn cell from nd)) =
        hm_insert (cl_circuit_id cell) (s\<lparr>rs_next_hop := Some n\<rparr>) (nd_states nd)"
      "cl_cell_type cell = Extend" "hm_get (nd_states nd) (cl_circuit_id cell) = Some s"
      "rs_prev_hop s = Some from" "\<not> state_is_expired now s"
  | (expired) s where "nd_states (snd (process_cell E now unix drawn cell from nd)) =
        hm_remove (cl_circuit_id cell) (nd_states nd)"
      "hm_get (nd_states nd) (cl_circuit_id cell) = Some s" "state_is_expired now s"
  | (destroyed) "nd_states (snd (process_cell E now unix drawn cell from nd)) =
        hm_remove (cl_circuit_id cell) (nd_states nd)" "cl_cell_type cell = Destroy"
proof (cases "cl_cell_type cell")
  case Create
  then have "process_cell E now unix drawn cell from nd = handle_create E now unix drawn cell from nd"
    by (simp add: process_cell_def)
  then show thesis
    using same created Create
    by (auto simp: handle_create_def from_handshake_def peer_circuits_def Let_def not_le
        split: sum.splits prod.splits if_splits dest!: replay_step)
next
  case Extend
  then have "process_cell E now unix drawn cell from nd = handle_extend E now unix cell from nd"
    by (simp add: process_cell_def)
  then show thesis
    using handle_extend_states [of E now unix cell "from" nd] same extended expired Extend
    by (elim disjE exE conjE) auto
next
  case Relay
  then have "process_cell E now unix drawn cell from nd = handle_relay E now unix drawn cell from nd"
    by (simp add: process_cell_def)
  then show thesis
    using same expired
    by (auto simp: handle_relay_def Let_def split: sum.splits option.splits if_splits)
next
  case Destroy
  then show thesis
    by (intro destroyed)
       (auto simp: process_cell_def handle_destroy_def Let_def split: option.splits)
qed (simp_all add: process_cell_def same)

lemma process_cell_frame:
  "nd_config (snd (process_cell E now unix drawn cell from nd)) = nd_config nd \<and>
   nd_identity (snd (process_cell E now unix drawn cell from nd)) = nd_identity nd \<and>
   (hm_wf (nd_replay nd) \<longrightarrow> hm_wf (nd_replay (snd (process_cell E now unix drawn cell from nd)))) \<and>
   (length (nd_replay nd) \<le> replay_cap (nd_config nd) \<longrightarrow>
      length (nd_replay (snd (process_cell E now unix drawn cell from nd))) \<le> replay_cap (nd_config nd))"
  by (cases "cl_cell_type cell")
     (simp_all add: process_cell_def handle_create_frame other_handlers_frame)

lemma node_states_inv:
  assumes "hm_wf m" "length m \<le> n" "\<forall>p. peer_circuits p m \<le> k"
  shows "hm_wf (hm_remove c m) \<and> length (hm_remove c m) \<le> n \<and> (\<forall>p. peer_circuits p (hm_remove c m) \<le> k)"
    and "hm_wf (hm_retain Q m) \<and> length (hm_retain Q m) \<le> n \<and> (\<forall>p. peer_circuits p (hm_retain Q m) \<le> k)"
  using assms length_hm_remove_le [of c m] length_hm_retain_le [of Q m]
    peer_circuits_remove [of _ c m] peer_circuits_retain [of _ Q m]
  by (auto intro: order_trans)

lemma process_cell_inv:
  assumes "node_inv cfg nd"
  shows "node_inv cfg (snd (process_cell E now unix drawn cell from nd))"
proof -
  have inv: "hm_wf (nd_states nd)" "length (nd_states nd) \<le> max_circuits cfg"
    "\<forall>p. peer_circuits p (nd_states nd) \<le> max_circuits_per_peer cfg" "nd_config nd = cfg"
    using assms by (simp_all add: node_inv_def)
  let ?m = "nd_states (snd (process_cell E now unix drawn cell from nd))"
  have "hm_wf ?m \<and> length ?m \<le> max_circuits cfg \<and> (\<forall>p. peer_circuits p ?m \<le> max_circuits_per_peer cfg)"
  proof (cases rule: process_cell_cases [of E now unix drawn cell "from" nd])
    case same
    with inv show ?thesis by simp
  next
    case (created s)
    with inv show ?thesis
      by (auto simp: length_hm_insert peer_circuits_insert_new Suc_le_eq)
  next
    case (extended s n)
    with inv show ?thesis
      by (simp add: length_hm_insert peer_circuits_update)
  next
    case (expired s)
    with inv show ?thesis by (simp add: node_states_inv)
  next
    case destroyed
    with inv show ?thesis by (simp add: node_states_inv)
  qed
  with assms show ?thesis
    using process_cell_frame [of E now unix drawn cell "from" nd]
    by (simp add: node_inv_def)
qed

lemma node_step_inv: "node_inv cfg nd \<Longrightarrow> node_inv cfg (node_step E call nd)"
proof (cases call)
  case (CleanupCircuits now)
  assume inv: "node_inv cfg nd"
  then show ?thesis
    using node_states_inv(2) [of "nd_states nd" "max_circuits cfg" "max_circuits_per_peer cfg"]
    by (simp add: CleanupCircuits node_cleanup_expired_def node_inv_def Let_def)
qed (simp add: process_cell_inv)

interpretation relay_node: call_machine "node_step E" "node_inv cfg" for E cfg
  by unfold_locales (rule node_step_inv)

lemma node_inv_new: "node_inv cfg (node_with_config sec cfg)"
  by (simp add: node_inv_def node_with_config_def)

text \<open>
  Whatever cells a relay has processed and from whomever, its tables keep their bounds: at
  most \<open>max_circuits\<close> circuits in all, at most \<open>max_circuits_per_peer\<close> of each originating peer,
  and at most twice \<open>max_circuits\<close> (or 1024) remembered handshakes.
\<close>

theorem relay_tables_bounded:
  fixes E calls node_secret cfg
  defines "nd \<equiv> fold (node_step E) calls (node_with_config node_secret cfg)"
  shows "node_active_circuits nd \<le> max_circuits cfg \<and>
    length (filter (\<lambda>s. rs_prev_hop s = Some p) (hm_values (nd_states nd))) \<le> max_circuits_per_peer cfg \<and>
    length (nd_replay nd) \<le> max (2 * max_circuits cfg) 1024"
proof -
  have "node_inv cfg nd"
    unfolding nd_def by (rule relay_node.run_inv) (rule node_inv_new)
  then show ?thesis
    by (auto simp: node_inv_def node_active_circuits_def peer_circuits_def replay_cap_def)
qed

text \<open>
  C9. A circuit a relay holds changes only in three ways, whatever cell arrives from whatever
  peer: its next hop is set by an EXTEND cell of the peer that created it, it is removed once it
  has expired, or it is removed by a DESTROY cell. In particular no CREATE replaces it, and its
  key and its originating peer stay.
\<close>

theorem circuit_integrity:
  assumes "hm_get (nd_states nd) cid = Some s"
  shows "(case hm_get (nd_states (snd (process_cell E now unix drawn cell peer nd))) cid of
      None \<Rightarrow> cl_circuit_id cell = cid \<and> (state_is_expired now s \<or> cl_cell_type cell = Destroy)
    | Some s' \<Rightarrow> s' = s \<or> cl_circuit_id cell = cid \<and> cl_cell_type cell = Extend \<and>
        rs_prev_hop s = Some peer \<and> (\<exists>n. s' = s\<lparr>rs_next_hop := Some n\<rparr>))"
  using assms by (cases rule: process_cell_cases [of E now unix drawn cell peer nd]) auto

theorem circuit_integrity_witness:
  "\<exists>s. case hm_get (nd_states (snd (process_cell demo_relay 9 9 [] (cell_new 9 [1] Relay []) [2]
      ((node_new [])\<lparr>nd_states := [([1], s)]\<rparr>)))) [1] of
    None \<Rightarrow> state_is_expired 9 s \<or> Relay = Destroy | Some s' \<Rightarrow> rs_hop_key s' = rs_hop_key s"
proof -
  let ?s = "fst (from_handshake demo_relay_prims 0 0 [] [1] [] [2] 100 [])"
  have "hm_get (nd_states ((node_new [])\<lparr>nd_states := [([1], ?s)]\<rparr>)) [1] = Some ?s"
    by (simp add: hm_get_def)
  from circuit_integrity [OF this, where E = demo_relay and now = 9 and unix = 9 and drawn = "[]"
      and cell = "cell_new 9 [1] Relay []" and peer = "[2]"]
  show ?thesis
    by (intro exI [of _ ?s]) (auto simp: cell_new_def split: option.splits)
qed

end
