(* ===== verification/ZkCircuit.thy ===== *)
theory ZkCircuit
  imports ZkNode
begin

text \<open>
  Client and relays of \<open>protocol/src/zk_relay.rs\<close> together: the authenticated handshake, the
  travel of a request through the relays of a circuit, replayed handshakes, and the two places
  where the protocol does not reach its goal (hops after the first, the way back).
\<close>

section \<open>The handshake with one relay\<close>

lemma check_freshness_now [simp]: "check_freshness unix cfg unix = Inr ()"
  using sat_add_ge [of unix] by (simp add: check_freshness_def Let_def sat_sub_def not_less)

lemma check_freshness_Inl: "check_freshness unix cfg ts = Inl e \<Longrightarrow> e = StaleCell"
  by (auto simp: check_freshness_def Let_def split: if_splits)

lemma check_and_record_fresh:
  assumes "hm_wf (nd_replay nd)" "hm_get (nd_replay nd) d = None"
  shows "fst (check_and_record_replay now d nd) = Inr ()"
  using assms by (simp add: check_and_record_replay_def Let_def hm_get_retain)

text \<open>A relay with room answers a fresh CREATE with a response signed for that client key.\<close>

lemma handle_create_accepts:
  assumes "create_deserialize E (cl_payload cell) = Inr h" "cl_timestamp cell = unix"
    and "ch_timestamp h = unix" "hm_wf (nd_replay nd)"
    and "hm_get (nd_replay nd) (create_digest (zp E) (cl_circuit_id cell) h) = None"
    and "length (nd_states nd) < max_circuits (nd_config nd)"
    and "hm_get (nd_states nd) (cl_circuit_id cell) = None"
    and "peer_circuits peer (nd_states nd) < max_circuits_per_peer (nd_config nd)"
    and "from_handshake (zp E) now unix drawn (cl_circuit_id cell) (ch_client_public_key h) peer
      (circuit_lifetime (nd_config nd)) (nd_identity nd) = (s, created)"
  shows "\<exists>nd1. handle_create E now unix drawn cell peer nd =
      (Inr (Respond (cell_new unix (cl_circuit_id cell) Created (created_serialize E created))), nd1) \<and>
    nd_states nd1 = hm_insert (cl_circuit_id cell) s (nd_states nd) \<and>
    nd_config nd1 = nd_config nd \<and> nd_identity nd1 = nd_identity nd"
proof -
  let ?d = "create_digest (zp E) (cl_circuit_id cell) h"
  obtain nd1 where nd1: "check_and_record_replay now ?d nd = (Inr (), nd1)"
    using check_and_record_fresh [OF assms(4,5), of now]
    by (metis prod.collapse)
  with replay_step [OF nd1] assms show ?thesis
    by (simp add: handle_create_def peer_circuits_def Let_def)
qed

lemma created_from_handshake:
  assumes "relay_correct E"
    and "from_handshake (zp E) now unix drawn cid cpub peer lifetime seed = (s, created)"
  shows "created_deserialize E (created_serialize E created) = Inr created"
  using assms
  by (intro created_roundtrip)
     (auto simp: relay_correct_def from_handshake_def created_new_signed_def Let_def eh_public_def
      ephemeral_generate_def x25519_from_secret_def x25519_correct_def identity_correct_def
      length_confirmation)

text \<open>The response verifies at the client that expects the relay's identity.\<close>

lemma client_accepts_identity:
  assumes "relay_correct E" "peer_of_key E (ed_public (zp E) seed) = hop_peer"
    and "from_handshake (zp E) now unix drawn cid cpub peer lifetime seed = (s, created)"
  shows "verify_identity E created cpub cid hop_peer = Inr ()"
  using assms signed_identity_verifies [of E seed hop_peer]
  by (auto simp: relay_correct_def from_handshake_def Let_def)

text \<open>The two keys: the relay uses index 0, the client the index of the hop.\<close>

lemma handshake_keys:
  assumes "relay_correct E"
    and "from_handshake (zp E) now unix drawn cid (x25519_public (zp E) a) peer lifetime seed = (s, created)"
  shows "derive_symmetric_key (zp E) (x25519_from_secret (zp E) a) (cd_relay_public_key created)
      (hop_key_context cid 0) = rs_hop_key s"
    and "cd_relay_public_key created = x25519_public (zp E) drawn"
    and "verify_key (zp E) created k \<longleftrightarrow>
      key_confirmation_hash (zp E) (rs_hop_key s) = key_confirmation_hash (zp E) k"
  using assms symmetric_keys_agree [of "zp E" a drawn]
  by (auto simp: relay_correct_def from_handshake_def Let_def ephemeral_generate_def confirmed_iff
      eh_public_def created_new_signed_def x25519_from_secret_def verify_key_def)

section \<open>Circuits under construction\<close>

lemma add_hop_simps [simp]:
  "ci_id (add_hop P now d peer c) = ci_id c" "ci_ready (add_hop P now d peer c) = ci_ready c"
  "ci_hops (add_hop P now d peer c) = ci_hops c @
     [\<lparr>hop_peer_id = peer, hop_ephemeral = ephemeral_generate P now d, hop_relay_public = None,
       hop_symmetric_key = None, hop_hop_id = generate_hop_id P (ci_id c) (length (ci_hops c))\<rparr>]"
  by (simp_all add: add_hop_def add_hop_with_keypair_def)

definition add_hops :: "prims \<Rightarrow> instant \<Rightarrow> (nat \<Rightarrow> bytes) \<Rightarrow> (nat \<times> peer_id) list \<Rightarrow> circuit \<Rightarrow> circuit" where
  "add_hops P now eph xs c = fold (\<lambda>(i, peer). add_hop P now (eph i) peer) xs c"

lemma add_hops_simps [simp]:
  "add_hops P now eph [] c = c"
  "add_hops P now eph ((i, peer) # xs) c = add_hops P now eph xs (add_hop P now (eph i) peer c)"
  by (simp_all add: add_hops_def)

lemma add_hops_frame:
  "length (ci_hops (add_hops P now eph xs c)) = length (ci_hops c) + length xs"
  "ci_id (add_hops P now eph xs c) = ci_id c"
  "ci_ready (add_hops P now eph xs c) = ci_ready c"
  by (induction xs arbitrary: c) auto

lemma add_hops_hops:
  "ci_hops (add_hops P now eph xs c) = ci_hops c @
     map (\<lambda>(j, i, peer). \<lparr>hop_peer_id = peer, hop_ephemeral = ephemeral_generate P now (eph i),
        hop_relay_public = None, hop_symmetric_key = None,
        hop_hop_id = generate_hop_id P (ci_id c) j\<rparr>) (enumerate (length (ci_hops c)) xs)"
proof (induction xs arbitrary: c)
  case Nil
  then show ?case by simp
next
  case (Cons x xs)
  obtain i peer where "x = (i, peer)" by (cases x)
  with Cons.IH [of "add_hop P now (eph i) peer c"] show ?case by simp
qed

text \<open>The circuit \<open>build_circuit\<close> stores: one hop per peer, with the key drawn for it.\<close>

lemma build_circuit_props:
  assumes "build_circuit P now rnd extra eph peers cl = (Inr cid, cl1)"
  shows "\<exists>c. hm_get (cl_circuits cl1) cid = Some c \<and> ci_id c = cid \<and> \<not> ci_ready c \<and>
    length (ci_hops c) = length peers \<and> 2 \<le> length peers \<and>
    (\<forall>i < length peers. hop_peer_id (ci_hops c ! i) = peers ! i \<and>
       hop_symmetric_key (ci_hops c ! i) = None \<and>
       eh_keypair (hop_ephemeral (ci_hops c ! i)) = x25519_from_secret P (eph i))"
proof -
  let ?new = "circuit_new P now rnd extra (circuit_lifetime (cl_config cl))"
  let ?c = "add_hops P now eph (enumerate 0 peers) ?new"
  have new: "ci_hops ?new = []"
    by (simp add: circuit_new_def)
  have "2 \<le> length peers" "cid = ci_id ?new"
    "hm_get (cl_circuits cl1) cid = Some (?c\<lparr>ci_ready := False\<rparr>)"
    using assms by (auto simp: build_circuit_def add_hops_def Let_def split: if_splits)
  then show ?thesis
    by (auto simp: new add_hops_frame add_hops_hops nth_enumerate_eq ephemeral_generate_def)
qed

lemma length_build_cid:
  "build_circuit P now rnd extra eph peers cl = (Inr cid, cl1) \<Longrightarrow> blake3_sized P \<Longrightarrow>
     length rnd = 12 \<Longrightarrow> length cid = 32"
  by (auto simp: build_circuit_def circuit_new_def Let_def blake3_sized_def split: if_splits)

text \<open>The client accepts a relay's response for the first hop and moves on to the second.\<close>

lemma client_extends:
  assumes laws: "relay_correct E" and nonce: "length (nonces 0) = 12" and pad: "length padding = 32"
    and c: "hm_get (cl_circuits cl) cid = Some c" "ci_id c = cid" "2 \<le> length (ci_hops c)"
    and cid: "length cid = 32"
    and hop: "hop_peer_id (ci_hops c ! 0) = peer_of_key E (ed_public (zp E) seed)"
      "eh_keypair (hop_ephemeral (ci_hops c ! 0)) = x25519_from_secret (zp E) a"
      "eh_keypair (hop_ephemeral (ci_hops c ! 1)) = x25519_from_secret (zp E) b"
    and next_hop: "length (hop_peer_id (ci_hops c ! 1)) < 2 ^ 32"
    and s: "from_handshake (zp E) now unix drawn cid (x25519_public (zp E) a) client lifetime seed =
      (s, created)"
  shows "\<exists>ext cl2 c2 req h2. process_created_response E unix padding nonces cid created 0 cl =
      (Inr (Some (cell_new unix cid Extend ext)), cl2) \<and>
    hm_get (cl_circuits cl2) cid = Some c2 \<and> hop_symmetric_key (ci_hops c2 ! 0) = Some (rs_hop_key s) \<and>
    decrypt_raw (zp E) (cm_new (rs_hop_key s)) ext = Inr req \<and>
    bc_extend_de E req = Inr \<lparr>er_next_peer = hop_peer_id (ci_hops c ! 1),
      er_handshake = create_serialize E h2\<rparr> \<and>
    create_deserialize E (create_serialize E h2) = Inr h2 \<and>
    ch_client_public_key h2 = x25519_public (zp E) b \<and> ch_circuit_id h2 = cid"
proof -
  let ?key = "rs_hop_key s"
  let ?hop = "(ci_hops c ! 0)\<lparr>hop_relay_public := Some (cd_relay_public_key created),
    hop_symmetric_key := Some ?key\<rparr>"
  let ?c1 = "c\<lparr>ci_hops := (ci_hops c)[0 := ?hop]\<rparr>"
  define h2 where "h2 = create_handshake_new unix padding (x25519_public (zp E) b) cid"
  have P: "aead_correct (zp E)" "blake3_sized (zp E)" "x25519_correct (zp E)" "bincode_correct E"
    using laws by (simp_all add: relay_correct_def)
  have h2: "create_deserialize E (create_serialize E h2) = Inr h2" "length (create_serialize E h2) = 104"
    using create_roundtrip [OF P(4), of h2] P(3) pad cid
    by (simp_all add: h2_def create_handshake_new_def x25519_correct_def)
  have id: "verify_identity E created (eh_public (hop_ephemeral (ci_hops c ! 0))) cid
      (hop_peer_id (ci_hops c ! 0)) = Inr ()"
    using client_accepts_identity [OF laws hop(1) [symmetric] s] hop(2)
    by (simp add: eh_public_def x25519_from_secret_def)
  have key: "complete_hop_handshake (zp E) 0 (cd_relay_public_key created) (hop_key_context cid 0) c =
      (Inr ?key, ?c1)"
    using c(3) handshake_keys(1) [OF laws s] hop(2) by (auto simp: complete_hop_handshake_def Let_def)
  have len: "length ?key = 32"
    using handshake_keys(1) [OF laws s] P(2) by (metis length_symmetric_key)
  let ?req = "\<lparr>er_next_peer = hop_peer_id (ci_hops c ! 1), er_handshake = create_serialize E h2\<rparr>"
  obtain req where req: "bc_extend E ?req = Inr req" "bc_extend_de E req = Inr ?req"
    "length req = length (hop_peer_id (ci_hops c ! 1)) + 104 + 16"
    by (rule extend_roundtrip [OF P(4), of ?req]) (use h2(2) next_hop in simp_all)
  then have "length req \<le> aead_limit"
    using next_hop by (simp add: aead_limit_def)
  with P(1) nonce len obtain ext where ext: "encrypt_raw (zp E) (cm_new ?key) (nonces 0) req = Inr ext"
    "decrypt_raw (zp E) (cm_new ?key) ext = Inr req"
    using seal_open [of "zp E" "cm_new ?key" "nonces 0" req] by (auto simp: cm_new_def)
  have ne: "ci_hops c \<noteq> []"
    using c(3) by auto
  have first: "(ci_hops c)[0 := x] ! 0 = x" for x
    using c(3) by (cases "ci_hops c") auto
  have "extend_cell E unix padding nonces cid ?c1 0 = Inr (cell_new unix cid Extend ext)"
    using c(2,3) req(1) ext(1) hop(3)
    by (simp add: extend_cell_def get_create_handshake_def extend_layer_def or_invalid_def h2_def
        first eh_public_def x25519_from_secret_def)
  then have "process_created_response E unix padding nonces cid created 0 cl =
      (Inr (Some (cell_new unix cid Extend ext)),
       cl\<lparr>cl_circuits := hm_insert cid ?c1 (cl_circuits cl)\<rparr>)"
    using ne c id key handshake_keys(3) [OF laws s, of ?key]
    by (simp add: process_created_response_def Let_def)
  moreover have "hop_symmetric_key (ci_hops ?c1 ! 0) = Some ?key"
    by (simp add: first)
  ultimately show ?thesis
    using ext(2) req(2) h2(1)
    by (intro exI [of _ ext] exI [of _ "cl\<lparr>cl_circuits := hm_insert cid ?c1 (cl_circuits cl)\<rparr>"]
        exI [of _ ?c1] exI [of _ req] exI [of _ h2])
       (simp add: h2_def create_handshake_new_def)
qed

text \<open>
  The authenticated handshake with the first hop: the CREATE cell of a new circuit, sent to
  a relay that has the identity the client expects and has room, is answered; the client accepts
  the answer and both hold the same key for the circuit. The EXTEND cell the client sends then
  makes the relay forward, to the peer of the second hop, a CREATE cell with the client's key for
  that hop.
\<close>

theorem first_hop_handshake:
  assumes laws: "relay_correct E"
    and draws: "length rnd = 12" "length (nonces 0) = 12" "length padding = 32"
    and build: "build_circuit (zp E) t0 rnd extra eph peers cl = (Inr cid, cl1)"
    and identity: "peers ! 0 = peer_of_key E (ed_public (zp E) (nd_identity nd))"
    and peer1: "length (peers ! 1) < 2 ^ 32"
    and relay: "length (nd_states nd) < max_circuits (nd_config nd)"
      "hm_get (nd_states nd) cid = None"
      "peer_circuits client (nd_states nd) < max_circuits_per_peer (nd_config nd)"
      "hm_wf (nd_replay nd)"
      "hm_get (nd_replay nd) (create_digest (zp E) cid
         (create_handshake_new unix padding (x25519_public (zp E) (eph 0)) cid)) = None"
  shows "\<exists>create resp nd1 created ext cl2 s c2 nd2 create2 h2.
    get_create_cell E unix padding cid cl1 = Inr create \<and>
    process_cell E now unix drawn create client nd = (Inr (Respond resp), nd1) \<and>
    created_deserialize E (cl_payload resp) = Inr created \<and>
    process_created_response E unix padding nonces cid created 0 cl1 = (Inr (Some ext), cl2) \<and>
    hm_get (nd_states nd1) cid = Some s \<and> hm_get (cl_circuits cl2) cid = Some c2 \<and>
    hop_symmetric_key (ci_hops c2 ! 0) = Some (rs_hop_key s) \<and>
    process_cell E now unix drawn2 ext client nd1 = (Inr (Forward create2 (peers ! 1)), nd2) \<and>
    cl_cell_type create2 = Create \<and> cl_circuit_id create2 = cid \<and>
    create_deserialize E (cl_payload create2) = Inr h2 \<and>
    ch_client_public_key h2 = x25519_public (zp E) (eph 1)"
proof -
  have P: "blake3_sized (zp E)" "x25519_correct (zp E)" "bincode_correct E"
    using laws by (simp_all add: relay_correct_def)
  have cid: "length cid = 32"
    by (rule length_build_cid [OF build P(1) draws(1)])
  obtain c where c: "hm_get (cl_circuits cl1) cid = Some c" "ci_id c = cid"
    "length (ci_hops c) = length peers" "2 \<le> length peers"
    and hops: "\<And>i. i < length peers \<Longrightarrow> hop_peer_id (ci_hops c ! i) = peers ! i \<and>
       eh_keypair (hop_ephemeral (ci_hops c ! i)) = x25519_from_secret (zp E) (eph i)"
    using build_circuit_props [OF build] by blast
  have ne: "ci_hops c \<noteq> []" "0 < length peers" "1 < length peers"
    using c(3,4) by auto
  define h where "h = create_handshake_new unix padding (x25519_public (zp E) (eph 0)) cid"
  obtain s created where s: "from_handshake (zp E) now unix drawn cid (x25519_public (zp E) (eph 0))
      client (circuit_lifetime (nd_config nd)) (nd_identity nd) = (s, created)"
    by (rule prod.exhaust)
  let ?create = "cell_new unix cid Create (create_serialize E h)"
  have create: "get_create_cell E unix padding cid cl1 = Inr ?create"
    using c(1,2) ne hops [OF ne(2)]
    by (simp add: get_create_cell_def get_create_handshake_def h_def eh_public_def x25519_from_secret_def)
  have "create_deserialize E (create_serialize E h) = Inr h"
    using create_roundtrip [OF P(3), of h] P(2) draws(3) cid
    by (simp add: h_def create_handshake_new_def x25519_correct_def)
  then obtain nd1 where nd1: "process_cell E now unix drawn ?create client nd =
      (Inr (Respond (cell_new unix cid Created (created_serialize E created))), nd1)"
    "nd_states nd1 = hm_insert cid s (nd_states nd)" "nd_config nd1 = nd_config nd"
    using handle_create_accepts [of E ?create h unix nd client now drawn s created] relay s
    by (auto simp: process_cell_def cell_new_def h_def create_handshake_new_def)
  obtain ext cl2 c2 req h2 where ext: "process_created_response E unix padding nonces cid created 0 cl1 =
      (Inr (Some (cell_new unix cid Extend ext)), cl2)"
    "hm_get (cl_circuits cl2) cid = Some c2" "hop_symmetric_key (ci_hops c2 ! 0) = Some (rs_hop_key s)"
    "decrypt_raw (zp E) (cm_new (rs_hop_key s)) ext = Inr req"
    "bc_extend_de E req = Inr \<lparr>er_next_peer = peers ! 1, er_handshake = create_serialize E h2\<rparr>"
    "create_deserialize E (create_serialize E h2) = Inr h2"
    "ch_client_public_key h2 = x25519_public (zp E) (eph 1)"
    using client_extends [of E nonces padding cl1 cid c "nd_identity nd" "eph 0" "eph 1" now unix
        drawn client "circuit_lifetime (nd_config nd)" s created]
      laws draws(2,3) c cid s identity peer1 hops [OF ne(2)] hops [OF ne(3)] by auto
  have live: "\<not> state_is_expired now s" "rs_prev_hop s = Some client"
    using s by (auto simp: from_handshake_def state_is_expired_def Let_def)
  have "process_cell E now unix drawn2 (cell_new unix cid Extend ext) client nd1 =
      (Inr (Forward (cell_new unix cid Create (create_serialize E h2)) (peers ! 1)),
       nd1\<lparr>nd_states := hm_insert cid (s\<lparr>rs_next_hop := Some (peers ! 1)\<rparr>) (nd_states nd1)\<rparr>)"
    using nd1 live ext(4,5)
    by (simp add: process_cell_def handle_extend_def cell_new_def or_invalid_def)
  moreover have "hm_get (nd_states nd1) cid = Some s"
    by (simp add: nd1)
  moreover have "created_deserialize E (created_serialize E created) = Inr created"
    by (rule created_from_handshake [OF laws s])
  ultimately show ?thesis
    using create nd1(1) ext
    by (intro exI [of _ ?create] exI [of _ "cell_new unix cid Created (created_serialize E created)"]
        exI [of _ nd1] exI [of _ created] exI [of _ "cell_new unix cid Extend ext"] exI [of _ cl2]
        exI [of _ s] exI [of _ c2] exI [of _ "nd1\<lparr>nd_states :=
          hm_insert cid (s\<lparr>rs_next_hop := Some (peers ! 1)\<rparr>) (nd_states nd1)\<rparr>"]
        exI [of _ "cell_new unix cid Create (create_serialize E h2)"] exI [of _ h2])
       (simp add: cell_new_def)
qed

definition demo_peers :: "peer_id list" where
  "demo_peers = [pad_to 32 [1], pad_to 32 [2]]"

definition demo_build :: "(relay_error + circuit_id) \<times> zk_client" where
  "demo_build = build_circuit (zp demo_relay) 0 (replicate 12 5) [] (\<lambda>i. [3 + word_of_nat i]) demo_peers
     (client_new [])"

definition demo_cid :: circuit_id where
  "demo_cid = replicate 12 5 @ take 20 (blake3 (zp demo_relay) (replicate 12 5 @ []))"

lemma demo_build_ok: "demo_build = (Inr demo_cid, snd demo_build)"
  by (simp add: demo_build_def build_circuit_def demo_peers_def Let_def circuit_new_def demo_cid_def)

theorem first_hop_handshake_witness:
  "\<exists>create resp nd1. get_create_cell demo_relay 50 (replicate 32 0) demo_cid (snd demo_build) = Inr create \<and>
     process_cell demo_relay 0 50 [8] create [77] (node_new [1]) = (Inr (Respond resp), nd1)"
proof -
  have build: "build_circuit (zp demo_relay) 0 (replicate 12 5) [] (\<lambda>i. [3 + word_of_nat i]) demo_peers
      (client_new []) = (Inr demo_cid, snd demo_build)"
    using demo_build_ok by (simp add: demo_build_def)
  have id: "demo_peers ! 0 = peer_of_key demo_relay (ed_public (zp demo_relay) (nd_identity (node_new [1])))"
    by (simp add: demo_peers_def demo_relay_def demo_relay_prims_def node_new_def node_with_config_def)
  note T = first_hop_handshake [OF demo_relay_correct _ _ _ build id,
     of "\<lambda>_. replicate 12 0" "replicate 32 0" "[77]" 50 0 "[8]" "[]"]
  show ?thesis
    using T
    by (simp add: demo_peers_def node_new_def node_with_config_def zk_config_default_def) blast

qed

section \<open>Later hops\<close>

text \<open>
  No hop but the first can complete its handshake with a relay: \<open>from_handshake\<close> derives
  the relay's key for hop index 0 whatever hop it is, the client derives its own for the real
  index. So the client takes the relay's identity for good but finds that the key confirmation
  differs, and answers with an error. It has stored the key by then, the circuit does not become
  ready, and \<open>wrap_request\<close> refuses to use it. The hypothesis is that the two confirmation hashes,
  of keys derived from different inputs, do not collide.
\<close>

theorem later_hop_handshake_fails:
  assumes laws: "relay_correct E"
    and c: "hm_get (cl_circuits cl) cid = Some c" "\<not> ci_ready c"
    and hop: "1 \<le> i" "i < length (ci_hops c)"
      "hop_peer_id (ci_hops c ! i) = peer_of_key E (ed_public (zp E) seed)"
      "eh_keypair (hop_ephemeral (ci_hops c ! i)) = x25519_from_secret (zp E) a"
    and resp: "from_handshake (zp E) now unix drawn cid (x25519_public (zp E) a) prev lifetime seed =
      (s, created)"
    and no_collision: "key_confirmation_hash (zp E) (rs_hop_key s) \<noteq>
      key_confirmation_hash (zp E) (derive_symmetric_key (zp E) (x25519_from_secret (zp E) a)
        (x25519_public (zp E) drawn) (hop_key_context cid i))"
  shows "\<exists>cl2 c2. process_created_response E unix2 padding nonces cid created i cl =
      (Inl (RelayDecryptionFailed ''Key confirmation failed''), cl2) \<and>
    hm_get (cl_circuits cl2) cid = Some c2 \<and> \<not> ci_ready c2 \<and>
    hop_symmetric_key (ci_hops c2 ! i) \<noteq> None \<and>
    (\<exists>e. wrap_request E later unix3 rnd cid request cl2 = Inl e)"
proof -
  let ?key = "derive_symmetric_key (zp E) (x25519_from_secret (zp E) a) (x25519_public (zp E) drawn)
    (hop_key_context cid i)"
  let ?hop = "(ci_hops c ! i)\<lparr>hop_relay_public := Some (cd_relay_public_key created),
    hop_symmetric_key := Some ?key\<rparr>"
  let ?c1 = "c\<lparr>ci_hops := (ci_hops c)[i := ?hop]\<rparr>"
  let ?cl2 = "cl\<lparr>cl_circuits := hm_insert cid ?c1 (cl_circuits cl)\<rparr>"
  have id: "verify_identity E created (eh_public (hop_ephemeral (ci_hops c ! i))) cid
      (hop_peer_id (ci_hops c ! i)) = Inr ()"
    using client_accepts_identity [OF laws hop(3) [symmetric] resp] hop(4)
    by (simp add: eh_public_def x25519_from_secret_def)
  have "complete_hop_handshake (zp E) i (cd_relay_public_key created) (hop_key_context cid i) c =
      (Inr ?key, ?c1)"
    using hop(2,4) handshake_keys(2) [OF laws resp] by (simp add: complete_hop_handshake_def Let_def)
  moreover have "\<not> verify_key (zp E) created ?key"
    using no_collision handshake_keys(3) [OF laws resp] by simp
  ultimately have "process_created_response E unix2 padding nonces cid created i cl =
      (Inl (RelayDecryptionFailed ''Key confirmation failed''), ?cl2)"
    using c(1) hop(2) id by (simp add: process_created_response_def Let_def)
  moreover have "\<exists>e. wrap_request E later unix3 rnd cid request ?cl2 = Inl e"
    using c(2) by (simp add: wrap_request_def)
  ultimately show ?thesis
    using c(2) hop(2) by (intro exI [of _ ?cl2] exI [of _ ?c1]) simp
qed

definition demo_second_hop :: "relay_circuit_state \<times> created_handshake" where
  "demo_second_hop = from_handshake (zp demo_relay) 0 50 [8] demo_cid (x25519_public (zp demo_relay) [4])
     (pad_to 32 [1]) 600 [2]"

lemma demo_symmetric_key:
  assumes "length cid = 32"
  shows "derive_symmetric_key demo_relay_prims kp pub (hop_key_context cid i) = replicate 24 0 @ le_bytes 8 i"
proof -
  have "length (str_bytes ''shadowmesh-circuit-key-v1'') = 25" by simp
  then have "drop 57 (str_bytes ''shadowmesh-circuit-key-v1'' @ (cid @ le_bytes 8 i) @ r) = le_bytes 8 i @ r" for r
    using assms by simp
  moreover have "pad_to 8 (le_bytes 8 i @ r) = le_bytes 8 i" for r
    by (simp add: pad_to_def)
  ultimately show ?thesis
    by (simp add: derive_symmetric_key_def hop_key_context_def demo_relay_prims_def KEY_SIZE_def)
qed

lemma demo_confirmation:
  "key_confirmation_hash demo_relay_prims (replicate 24 0 @ le_bytes 8 i) =
     rev (le_bytes 8 i) @ replicate 8 0"
  by (simp add: key_confirmation_hash_def demo_relay_prims_def demo_prims_def pad_to_def)

theorem later_hop_handshake_fails_witness:
  "\<exists>cl2. process_created_response demo_relay 50 [] (\<lambda>_. []) demo_cid (snd demo_second_hop) 1
     (snd demo_build) = (Inl (RelayDecryptionFailed ''Key confirmation failed''), cl2)"
proof -
  have build: "build_circuit (zp demo_relay) 0 (replicate 12 5) [] (\<lambda>i. [3 + word_of_nat i]) demo_peers
      (client_new []) = (Inr demo_cid, snd demo_build)"
    using demo_build_ok by (simp add: demo_build_def)
  then obtain c where c: "hm_get (cl_circuits (snd demo_build)) demo_cid = Some c" "\<not> ci_ready c"
    "length (ci_hops c) = 2" "hop_peer_id (ci_hops c ! 1) = pad_to 32 [2]"
    "eh_keypair (hop_ephemeral (ci_hops c ! 1)) = x25519_from_secret (zp demo_relay) [4]"
    using build_circuit_props [OF build] by (auto simp: demo_peers_def)
  have id: "hop_peer_id (ci_hops c ! 1) = peer_of_key demo_relay (ed_public (zp demo_relay) [2])"
    by (simp only: c(4)) (simp add: demo_relay_def demo_relay_prims_def)
  have resp: "from_handshake (zp demo_relay) 0 50 [8] demo_cid (x25519_public (zp demo_relay) [4])
      (pad_to 32 [1]) 600 [2] = (fst demo_second_hop, snd demo_second_hop)"
    by (simp add: demo_second_hop_def)
  have "key_confirmation_hash (zp demo_relay) (rs_hop_key (fst demo_second_hop)) \<noteq>
      key_confirmation_hash (zp demo_relay) (derive_symmetric_key (zp demo_relay)
        (x25519_from_secret (zp demo_relay) [4]) (x25519_public (zp demo_relay) [8])
        (hop_key_context demo_cid 1))"
  proof -
    have "zp demo_relay = demo_relay_prims" by (simp add: demo_relay_def)
    moreover have "length demo_cid = 32"
      by (rule length_build_cid [OF build]) (use demo_relay_correct in \<open>simp_all add: relay_correct_def\<close>)
    moreover have "le_bytes 8 0 \<noteq> le_bytes 8 1" by code_simp
    ultimately show ?thesis
      by (simp add: demo_second_hop_def from_handshake_def Let_def demo_symmetric_key demo_confirmation)
  qed
  from later_hop_handshake_fails [OF demo_relay_correct c(1,2) _ _ id c(5) resp this,
      of 50 "[]" "\<lambda>_. []" 0 0 "\<lambda>_. []" "[]"] c(3)
  show ?thesis by auto
qed

section \<open>Requests through a circuit\<close>

text \<open>What a relay does to a layer when it is expected to name \<open>next\<close> as the next hop.\<close>

definition open_hop :: "relay_env \<Rightarrow> bytes \<times> peer_id option \<Rightarrow> bytes \<Rightarrow> relay_error + bytes" where
  "open_hop E = (\<lambda>(key, next) payload.
     case decrypt_raw (zp E) (cm_new key) payload of
       Inl e \<Rightarrow> Inl (RelayDecryptionFailed (crypto_error_text e))
     | Inr d \<Rightarrow> (case open_payload E d of
         Inl e \<Rightarrow> Inl e
       | Inr p \<Rightarrow> if rp_next_hop p = next then Inr (rp_inner_data p) else Inl InvalidHop))"

definition hop_overhead :: "circuit_hop \<times> peer_id option \<times> bytes \<Rightarrow> nat" where
  "hop_overhead = (\<lambda>(hop, next, rnd). payload_overhead next + 28)"

definition opens_hop :: "relay_env \<Rightarrow> circuit_hop \<times> peer_id option \<times> bytes \<Rightarrow> bytes \<times> peer_id option \<Rightarrow> bool" where
  "opens_hop E = (\<lambda>(hop, next, rnd) (key, next'). relay_correct E \<and> next' = next \<and>
     hop_symmetric_key hop = Some key \<and> length key = 32 \<and> length rnd = 12 \<and>
     length (hop_hop_id hop) = 16)"

interpretation circuit_sealing: sealing wrap_layer open_hop opens_hop hop_overhead aead_limit
proof (unfold_locales, goal_cases)
  case (1 E a b d)
  obtain hop nxt rnd key nxt' where ab: "a = (hop, nxt, rnd)" "b = (key, nxt')"
    by (metis prod.exhaust)
  from 1(1) have laws: "aead_correct (zp E)" "blake3_sized (zp E)" "bincode_correct E"
    and m: "nxt' = nxt" "hop_symmetric_key hop = Some key" "length key = 32" "length rnd = 12"
      "length (hop_hop_id hop) = 16"
    by (auto simp: opens_hop_def ab relay_correct_def)
  let ?p = "payload_new (zp E) nxt (hop_hop_id hop) d"
  have lim: "length d + payload_overhead nxt + 28 \<le> aead_limit"
    using 1(2) by (simp add: hop_overhead_def ab)
  then have sizes: "length d < 2 ^ 64" "case nxt of None \<Rightarrow> True | Some q \<Rightarrow> length q < 2 ^ 64"
    by (auto simp: aead_limit_def payload_overhead_def split: option.splits)
  obtain bs where bs: "bc_payload E ?p = Inr bs" "bc_payload_de E bs = Inr ?p"
    "length bs = length d + payload_overhead nxt"
    by (rule payload_roundtrip [OF laws(3), of ?p])
       (use m sizes length_digest [OF laws(2)] in \<open>simp_all add: payload_new_def\<close>)
  then obtain c where "encrypt_raw (zp E) (cm_new key) rnd bs = Inr c" "length c = length bs + 28"
    "decrypt_raw (zp E) (cm_new key) c = Inr bs"
    using seal_open [OF laws(1), of "cm_new key" rnd bs] m lim by (auto simp: cm_new_def)
  with bs m show ?case
    by (auto simp: wrap_layer_def open_hop_def open_payload_def or_invalid_def ab hop_overhead_def)
       (simp_all add: payload_new_def)
qed

text \<open>
  A cell travels from peer \<open>prev\<close> along the relays \<open>(peer, node)\<close>: each processes it and the cell
  it forwards is delivered to the next. The result is the data the last one extracts as exit node.
\<close>

fun travel ::
    "relay_env \<Rightarrow> instant \<Rightarrow> u64 \<Rightarrow> relay_cell \<Rightarrow> peer_id \<Rightarrow> (peer_id \<times> zk_node) list \<Rightarrow> bytes option" where
  "travel E now unix cell prev [] = None"
| "travel E now unix cell prev ((p, nd) # rest) =
     (case fst (process_cell E now unix [] cell prev nd) of
        Inr (Exit d _) \<Rightarrow> if rest = [] then Some d else None
      | Inr (Forward cell' to) \<Rightarrow>
          (case rest of
             [] \<Rightarrow> None
           | (q, _) # _ \<Rightarrow> if q = to then travel E now unix cell' p rest else None)
      | _ \<Rightarrow> None)"

text \<open>
  The relays hold the circuit: relay \<open>i\<close> is the peer of hop \<open>i\<close>, has the client's key for that hop,
  took the circuit from the peer before it, and has not let it expire.
\<close>

definition holds_circuit :: "instant \<Rightarrow> circuit_id \<Rightarrow> peer_id \<Rightarrow> bytes \<Rightarrow> zk_node \<Rightarrow> bool" where
  "holds_circuit now cid prev key nd \<longleftrightarrow>
     (case hm_get (nd_states nd) cid of
        None \<Rightarrow> False
      | Some s \<Rightarrow> rs_hop_key s = key \<and> rs_prev_hop s = Some prev \<and> \<not> state_is_expired now s)"

fun path_ok :: "instant \<Rightarrow> circuit_id \<Rightarrow> peer_id \<Rightarrow> circuit_hop list \<Rightarrow> (peer_id \<times> zk_node) list \<Rightarrow> bool" where
  "path_ok now cid prev [] [] \<longleftrightarrow> True"
| "path_ok now cid prev (h # hs) ((p, nd) # rest) \<longleftrightarrow>
     hop_peer_id h = p \<and> length (hop_hop_id h) = 16 \<and>
     (case hop_symmetric_key h of
        None \<Rightarrow> False | Some key \<Rightarrow> length key = 32 \<and> holds_circuit now cid prev key nd) \<and>
     path_ok now cid p hs rest"
| "path_ok now cid prev _ _ \<longleftrightarrow> False"

text \<open>The next hop each layer names.\<close>

fun next_hops :: "circuit_hop list \<Rightarrow> peer_id option list" where
  "next_hops [] = []"
| "next_hops (h # hs) = (case hs of [] \<Rightarrow> None | h' # _ \<Rightarrow> Some (hop_peer_id h')) # next_hops hs"

lemma length_next_hops [simp]: "length (next_hops hs) = length hs"
  by (induction hs) auto

lemma next_hops_nth:
  "i < length hs \<Longrightarrow> next_hops hs ! i = (if i = length hs - 1 then None else Some (hop_peer_id (hs ! (i + 1))))"
proof (induction hs arbitrary: i)
  case Nil
  then show ?case by simp
next
  case (Cons h hs)
  then show ?case
    by (cases i; cases hs) auto
qed

lemma wrap_inputs_zip:
  "wrap_inputs c rnd = zip (ci_hops c) (zip (next_hops (ci_hops c)) (map rnd [0..<length (ci_hops c)]))"
  by (rule nth_equalityI)
     (simp_all add: wrap_inputs_def nth_enumerate_eq next_hops_nth wrap_hop_def)

definition hop_keys :: "circuit_hop list \<Rightarrow> bytes list" where
  "hop_keys hs = map (\<lambda>h. the (hop_symmetric_key h)) hs"

lemma path_ok_hop:
  "path_ok now cid prev hs relays \<Longrightarrow> h \<in> set hs \<Longrightarrow>
     \<exists>key. hop_symmetric_key h = Some key \<and> length key = 32 \<and> length (hop_hop_id h) = 16"
  by (induction now cid prev hs relays rule: path_ok.induct) (auto split: option.splits)

lemma path_matches:
  assumes "relay_correct E" "path_ok now cid prev (ci_hops c) relays" "\<forall>i. length (rnd i) = 12"
  shows "list_all2 (opens_hop E) (wrap_inputs c rnd) (zip (hop_keys (ci_hops c)) (next_hops (ci_hops c)))"
proof (rule list_all2_all_nthI)
  show "length (wrap_inputs c rnd) = length (zip (hop_keys (ci_hops c)) (next_hops (ci_hops c)))"
    by (simp add: wrap_inputs_zip hop_keys_def)
next
  fix i
  assume "i < length (wrap_inputs c rnd)"
  then have i: "i < length (ci_hops c)"
    by (simp add: wrap_inputs_zip)
  then obtain key where "hop_symmetric_key (ci_hops c ! i) = Some key" "length key = 32"
    "length (hop_hop_id (ci_hops c ! i)) = 16"
    using path_ok_hop [OF assms(2) nth_mem] by blast
  with i assms(1,3) show "opens_hop E (wrap_inputs c rnd ! i)
      (zip (hop_keys (ci_hops c)) (next_hops (ci_hops c)) ! i)"
    by (simp add: wrap_inputs_zip opens_hop_def hop_keys_def)
qed

text \<open>What a relay on the path does is what \<open>open_hop\<close> says.\<close>

lemma relay_opens:
  assumes "holds_circuit now cid prev key nd" "open_hop E (key, next) payload = Inr d"
  shows "fst (process_cell E now unix drawn (cell_new unix cid Relay payload) prev nd) =
    Inr (case next of None \<Rightarrow> Exit d cid | Some q \<Rightarrow> Forward (cell_new unix cid Relay d) q)"
proof -
  obtain s where s: "hm_get (nd_states nd) cid = Some s" "rs_hop_key s = key" "rs_prev_hop s = Some prev"
    "\<not> state_is_expired now s"
    using assms(1) by (auto simp: holds_circuit_def split: option.splits)
  obtain b p where "decrypt_raw (zp E) (cm_new key) payload = Inr b" "open_payload E b = Inr p"
    "rp_next_hop p = next" "rp_inner_data p = d"
    using assms(2) by (auto simp: open_hop_def split: sum.splits if_splits)
  with s show ?thesis
    by (simp add: process_cell_def handle_relay_def cell_new_def Let_def split: option.splits)
qed

lemma travel_opens:
  "path_ok now cid prev hs relays \<Longrightarrow> hs \<noteq> [] \<Longrightarrow>
     try_fold (open_hop E) (zip (hop_keys hs) (next_hops hs)) payload = Inr d \<Longrightarrow>
     travel E now unix (cell_new unix cid Relay payload) prev relays = Some d"
proof (induction now cid prev hs relays arbitrary: payload rule: path_ok.induct)
  case (2 now cid prev h hs p nd rest)
  then obtain key where key: "hop_symmetric_key h = Some key" "holds_circuit now cid prev key nd"
    "hop_peer_id h = p" "path_ok now cid p hs rest"
    by (auto split: option.splits)
  let ?next = "case hs of [] \<Rightarrow> None | h' # _ \<Rightarrow> Some (hop_peer_id h')"
  obtain d1 where d1: "open_hop E (key, ?next) payload = Inr d1"
    "try_fold (open_hop E) (zip (hop_keys hs) (next_hops hs)) d1 = Inr d"
    using 2(4) by (auto simp: hop_keys_def key(1) split: sum.splits)
  note step = relay_opens [OF key(2) d1(1), of unix "[]"]
  show ?case
  proof (cases hs)
    case Nil
    with key(4) have "rest = []" by (cases rest) auto
    with Nil step d1(2) show ?thesis by (simp add: hop_keys_def)
  next
    case (Cons h' hs')
    with key(4) obtain nd' rest' where rest: "rest = (hop_peer_id h', nd') # rest'"
      by (cases rest) auto
    have "travel E now unix (cell_new unix cid Relay d1) p rest = Some d"
      by (rule 2(1) [OF key(4) _ d1(2)]) (simp add: Cons)
    with Cons rest step show ?thesis by simp
  qed
qed simp_all


definition demo_hop :: "8 word \<Rightarrow> circuit_hop" where
  "demo_hop i = \<lparr>hop_peer_id = [i], hop_ephemeral = ephemeral_generate demo_prims 0 [i],
     hop_relay_public = None, hop_symmetric_key = Some (replicate 32 i),
     hop_hop_id = replicate 16 i\<rparr>"

definition demo_relay_node :: "8 word \<Rightarrow> peer_id \<Rightarrow> zk_node" where
  "demo_relay_node i prev = (node_new [i])\<lparr>nd_states :=
     [([9], \<lparr>rs_circuit_id = [9], rs_ephemeral = ephemeral_generate demo_prims 0 [i],
        rs_client_public = [], rs_hop_key = replicate 32 i, rs_prev_hop = Some prev,
        rs_next_hop = None, rs_created_at = 0, rs_expires_at = 600\<rparr>)]\<rparr>"

definition demo_circuit :: circuit where
  "demo_circuit = \<lparr>ci_id = [9], ci_hops = [demo_hop 1, demo_hop 2], ci_created_at = 0,
     ci_lifetime = 600, ci_ready = True\<rparr>"


section \<open>The way back\<close>

text \<open>
  The way back does not work: a RELAY cell that comes from any peer other than the one that
  created the circuit is taken for a response, and is dropped unless it opens under the relay's
  own key. If it does, the relay seals the cell as it came, not what it opened. So the peer before
  it gets a cell with two layers under one key, of which \<open>unwrap_response\<close> opens one.
\<close>

theorem backward_cell_sealed_twice:
  assumes "aead_correct (zp E)" "length (rs_hop_key s) = 32" "length drawn = 12"
    "length (cl_payload cell) \<le> aead_limit"
    and "hm_get (nd_states nd) (cl_circuit_id cell) = Some s" "cl_cell_type cell = Relay"
    and "rs_prev_hop s \<noteq> Some sender"
    and "fst (process_cell E now unix drawn cell sender nd) = Inr action"
  shows "\<exists>cell' prev inner. action = Forward cell' prev \<and> rs_prev_hop s = Some prev \<and>
    decrypt_raw (zp E) (cm_new (rs_hop_key s)) (cl_payload cell') = Inr (cl_payload cell) \<and>
    decrypt_raw (zp E) (cm_new (rs_hop_key s)) (cl_payload cell) = Inr inner"
proof -
  obtain c where c: "encrypt_raw (zp E) (cm_new (rs_hop_key s)) drawn (cl_payload cell) = Inr c"
    "decrypt_raw (zp E) (cm_new (rs_hop_key s)) c = Inr (cl_payload cell)"
    using seal_open [of "zp E" "cm_new (rs_hop_key s)" drawn "cl_payload cell"] assms(1-4)
    by (auto simp: cm_new_def)
  with assms(5-8) show ?thesis
    by (auto simp: process_cell_def handle_relay_def cell_new_def Let_def
        split: sum.splits option.splits if_splits)
qed

definition demo_backward_cell :: relay_cell where
  "demo_backward_cell = cell_new 50 [9] Relay (replicate 12 0 @
     case_sum (\<lambda>e. []) id (bc_payload demo_relay (payload_new (zp demo_relay) None (replicate 16 1) [5])) @
     replicate 16 1)"

theorem backward_cell_sealed_twice_witness:
  "\<exists>cell' prev. fst (process_cell demo_relay 5 50 (replicate 12 3) demo_backward_cell [66]
     (demo_relay_node 1 [77])) = Inr (Forward cell' prev)"
proof -
  let ?s = "\<lparr>rs_circuit_id = [9], rs_ephemeral = ephemeral_generate demo_prims 0 [1],
        rs_client_public = [], rs_hop_key = replicate 32 1, rs_prev_hop = Some [77],
        rs_next_hop = None, rs_created_at = 0, rs_expires_at = 600\<rparr>"
  let ?p = "payload_new (zp demo_relay) None (replicate 16 1) [5]"
  have laws: "aead_correct (zp demo_relay)" "blake3_sized (zp demo_relay)"
    using demo_relay_correct by (simp_all add: relay_correct_def)
  have get: "hm_get (nd_states (demo_relay_node 1 [77])) [9] = Some ?s"
    by (simp add: demo_relay_node_def hm_get_def)
  obtain b where b: "bc_payload demo_relay ?p = Inr b" "bc_payload_de demo_relay b = Inr ?p"
    "length b = 42"
    by (rule payload_roundtrip [OF demo_bincode, of ?p])
       (simp_all add: payload_new_def length_digest [OF laws(2)] payload_overhead_def)
  have cell: "demo_backward_cell = cell_new 50 [9] Relay (replicate 12 0 @ b @ replicate 16 1)"
    by (simp add: demo_backward_cell_def b(1))
  have dec: "decrypt_raw (zp demo_relay) (cm_new (replicate 32 1)) (replicate 12 0 @ b @ replicate 16 1) = Inr b"
    by (simp add: seal_defs cm_new_def demo_relay_def demo_relay_prims_def demo_prims_def)
  obtain c where "encrypt_raw (zp demo_relay) (cm_new (replicate 32 1)) (replicate 12 3)
      (replicate 12 0 @ b @ replicate 16 1) = Inr c"
    using seal_open [OF laws(1), of "cm_new (replicate 32 1)" "replicate 12 3"
        "replicate 12 0 @ b @ replicate 16 1"] b(3)
    by (auto simp: cm_new_def aead_limit_def)
  then obtain action where "fst (process_cell demo_relay 5 50 (replicate 12 3) demo_backward_cell [66]
      (demo_relay_node 1 [77])) = Inr action"
    using get dec b(2)
    by (simp add: cell process_cell_def handle_relay_def cell_new_def state_is_expired_def
        open_payload_def or_invalid_def Let_def)
  moreover have "hm_get (nd_states (demo_relay_node 1 [77])) (cl_circuit_id demo_backward_cell) = Some ?s"
    using get by (simp add: cell cell_new_def)
  moreover have "length (cl_payload demo_backward_cell) \<le> aead_limit" "cl_cell_type demo_backward_cell = Relay"
    using b(3) by (simp_all add: cell cell_new_def aead_limit_def)
  ultimately show ?thesis
    using backward_cell_sealed_twice [of demo_relay ?s "replicate 12 3" demo_backward_cell
        "demo_relay_node 1 [77]" "[66]" 5 50 action] laws
    by auto
qed

section \<open>Replayed handshakes\<close>

fun call_time :: "node_call \<Rightarrow> instant" where
  "call_time (ProcessCell now unix drawn cell sender) = now"
| "call_time (CleanupCircuits now) = now"

lemma record_keeps:
  assumes "hm_wf (nd_replay nd)" "hm_get (nd_replay nd) d = Some t"
    and "elapsed now t \<le> max_cell_age (nd_config nd)"
    and "length (nd_replay nd) < replay_cap (nd_config nd)"
  shows "hm_get (nd_replay (snd (check_and_record_replay now d' nd))) d = Some t \<and>
    length (nd_replay (snd (check_and_record_replay now d' nd))) \<le> Suc (length (nd_replay nd)) \<and>
    (d' = d \<longrightarrow> fst (check_and_record_replay now d' nd) = Inl ReplayedCell)"
proof -
  let ?pruned = "hm_retain (\<lambda>_ seen. elapsed now seen \<le> max_cell_age (nd_config nd)) (nd_replay nd)"
  have len: "length ?pruned \<le> length (nd_replay nd)"
    by (rule length_hm_retain_le)
  moreover have "hm_get ?pruned d = Some t"
    using assms(1-3) by (simp add: hm_get_retain)
  ultimately show ?thesis
    using assms(4)
    by (auto simp: check_and_record_replay_def Let_def length_hm_insert)
qed

lemma handle_create_replay:
  "nd_replay (snd (handle_create E now unix drawn cell sender nd)) = nd_replay nd \<or>
   (\<exists>d. nd_replay (snd (handle_create E now unix drawn cell sender nd)) =
      nd_replay (snd (check_and_record_replay now d nd)))"
  by (auto simp: handle_create_def Let_def split: sum.splits prod.splits) (metis snd_conv)+

lemma step_keeps:
  assumes "hm_wf (nd_replay nd)" "hm_get (nd_replay nd) d = Some t"
    and "elapsed (call_time call) t \<le> max_cell_age (nd_config nd)"
    and "length (nd_replay nd) < replay_cap (nd_config nd)"
  shows "hm_get (nd_replay (node_step E call nd)) d = Some t \<and>
    length (nd_replay (node_step E call nd)) \<le> Suc (length (nd_replay nd)) \<and>
    hm_wf (nd_replay (node_step E call nd)) \<and> nd_config (node_step E call nd) = nd_config nd"
proof (cases call)
  case (CleanupCircuits now)
  with assms show ?thesis by (simp add: node_cleanup_expired_def Let_def)
next
  case (ProcessCell now unix drawn cell sender)
  show ?thesis
  proof (cases "cl_cell_type cell = Create")
    case True
    then have "process_cell E now unix drawn cell sender nd = handle_create E now unix drawn cell sender nd"
      by (simp add: process_cell_def)
    then show ?thesis
      using handle_create_replay [of E now unix drawn cell sender nd]
        handle_create_frame [of E now unix drawn cell sender nd]
        record_keeps [OF assms(1,2) _ assms(4), of now] assms ProcessCell
      by auto
  next
    case False
    then show ?thesis
      using assms ProcessCell
      by (cases "cl_cell_type cell") (simp_all add: process_cell_def other_handlers_frame)
  qed
qed

lemma run_keeps:
  assumes "hm_wf (nd_replay nd)" "hm_get (nd_replay nd) d = Some t"
    and "list_all (\<lambda>call. call_time call \<le> t + max_cell_age (nd_config nd)) calls"
    and "length (nd_replay nd) + length calls \<le> replay_cap (nd_config nd)"
  shows "hm_get (nd_replay (fold (node_step E) calls nd)) d = Some t \<and>
    length (nd_replay (fold (node_step E) calls nd)) \<le> length (nd_replay nd) + length calls \<and>
    hm_wf (nd_replay (fold (node_step E) calls nd)) \<and>
    nd_config (fold (node_step E) calls nd) = nd_config nd"
  using assms
proof (induction calls arbitrary: nd)
  case Nil
  then show ?case by simp
next
  case (Cons call calls)
  then have "elapsed (call_time call) t \<le> max_cell_age (nd_config nd)"
    "length (nd_replay nd) < replay_cap (nd_config nd)"
    by (auto simp: elapsed_def)
  note step = step_keeps [OF Cons.prems(1,2) this, of E]
  then have "length (nd_replay (node_step E call nd)) + length calls \<le> replay_cap (nd_config nd)"
    using Cons.prems(4) by simp
  with step Cons.IH [of "node_step E call nd"] Cons.prems show ?case
    by simp
qed

text \<open>
  A CREATE handshake a relay has answered at time \<open>t\<close> is answered only once while it is
  remembered: for \<open>max_cell_age\<close> after \<open>t\<close>, and while fewer cells than the capacity of the replay
  cache have arrived, a cell with the same circuit and handshake is refused as stale or as a
  replay, from whatever peer, and whatever has happened to the circuit in between.
\<close>

theorem replayed_create_refused:
  assumes "process_cell E t unix drawn cell peer nd = (Inr (Respond r), nd1)"
    and "cl_cell_type cell = Create" "hm_wf (nd_replay nd)"
    and "list_all (\<lambda>call. call_time call \<le> t + max_cell_age (nd_config nd)) calls"
    and "length (nd_replay nd) + length calls + 1 < replay_cap (nd_config nd)"
    and "cl_cell_type cell' = Create" "cl_circuit_id cell' = cl_circuit_id cell"
    and "cl_payload cell' = cl_payload cell" "now' \<le> t + max_cell_age (nd_config nd)"
  shows "fst (process_cell E now' unix' drawn' cell' peer' (fold (node_step E) calls nd1)) \<in>
    {Inl StaleCell, Inl ReplayedCell}"
proof -
  let ?nd2 = "fold (node_step E) calls nd1"
  have create: "handle_create E t unix drawn cell peer nd = (Inr (Respond r), nd1)"
    using assms(1,2) by (simp add: process_cell_def)
  then obtain h nd0 where h: "create_deserialize E (cl_payload cell) = Inr h"
    and rec: "check_and_record_replay t (create_digest (zp E) (cl_circuit_id cell) h) nd = (Inr (), nd0)"
    and nd0: "nd_replay nd1 = nd_replay nd0"
    by (auto simp: handle_create_def Let_def split: sum.splits prod.splits if_splits)
  have cfg: "nd_config nd1 = nd_config nd"
    using handle_create_frame [of E t unix drawn cell peer nd] create by simp
  let ?d = "create_digest (zp E) (cl_circuit_id cell) h"
  have len: "length (hm_retain Q (nd_replay nd)) \<le> length (nd_replay nd)" for Q
    by (rule length_hm_retain_le)
  have "hm_wf (nd_replay nd1)" "hm_get (nd_replay nd1) ?d = Some t"
    "length (nd_replay nd1) \<le> Suc (length (nd_replay nd))"
    using rec assms(3) len le_SucI
    by (auto simp: nd0 check_and_record_replay_def Let_def length_hm_insert split: if_splits)
  then have kept: "hm_get (nd_replay ?nd2) ?d = Some t" "hm_wf (nd_replay ?nd2)"
    "length (nd_replay ?nd2) < replay_cap (nd_config nd)" "nd_config ?nd2 = nd_config nd"
    using run_keeps [of nd1 ?d t calls E] assms(4,5) by (auto simp: cfg)
  have "elapsed now' t \<le> max_cell_age (nd_config nd)"
    using assms(9) by (simp add: elapsed_def)
  with kept have "fst (check_and_record_replay now' ?d ?nd2) = Inl ReplayedCell"
    using record_keeps [of ?nd2 ?d t now' ?d] by simp
  then show ?thesis
    using assms(6-8) h
    by (auto simp: process_cell_def handle_create_def split: sum.splits prod.splits
        dest: check_freshness_Inl)
qed

definition demo_handshake :: create_handshake where
  "demo_handshake = create_handshake_new 50 (replicate 32 0) (replicate 32 7) (replicate 32 5)"

definition demo_create_cell :: relay_cell where
  "demo_create_cell = cell_new 50 (replicate 32 5) Create (create_serialize demo_relay demo_handshake)"

theorem replayed_create_refused_witness:
  "\<exists>r nd1. process_cell demo_relay 0 50 [8] demo_create_cell [77] (node_new [1]) = (Inr (Respond r), nd1) \<and>
    fst (process_cell demo_relay 30 50 [4] demo_create_cell [66]
      (fold (node_step demo_relay) [ProcessCell 10 50 [] (cell_new 50 (replicate 32 5) Destroy []) [3]] nd1))
    \<in> {Inl StaleCell, Inl ReplayedCell}"
proof -
  have deser: "create_deserialize demo_relay (cl_payload demo_create_cell) = Inr demo_handshake"
    using create_roundtrip [OF demo_bincode, of demo_handshake]
    by (simp add: demo_create_cell_def cell_new_def demo_handshake_def create_handshake_new_def)
  have fields: "cl_timestamp demo_create_cell = 50" "ch_timestamp demo_handshake = 50"
    "cl_cell_type demo_create_cell = Create"
    by (simp_all add: demo_create_cell_def cell_new_def demo_handshake_def create_handshake_new_def)
  obtain r nd1 where step: "process_cell demo_relay 0 50 [8] demo_create_cell [77] (node_new [1]) =
      (Inr (Respond r), nd1)"
    using handle_create_accepts [OF deser, of 50 "node_new [1]" "[77]" 0 "[8]"] fields
    by (auto simp: process_cell_def node_new_def node_with_config_def zk_config_default_def
        from_handshake_def Let_def)
  have "fst (process_cell demo_relay 30 50 [4] demo_create_cell [66]
      (fold (node_step demo_relay) [ProcessCell 10 50 [] (cell_new 50 (replicate 32 5) Destroy []) [3]] nd1))
    \<in> {Inl StaleCell, Inl ReplayedCell}"
    by (rule replayed_create_refused [OF step])
       (simp_all add: fields node_new_def node_with_config_def zk_config_default_def from_secs_def
        replay_cap_def)
  with step show ?thesis by blast
qed

end
