(* ===== verification/Fragments.thy ===== *)
theory Fragments
  imports Crypto "HOL-Library.Multiset"
begin

text \<open>
  Content fragmentation, \<open>protocol/src/fragments.rs\<close>: splitting content into chunks of at
  most 256 KiB, the manifest of their hashes, and reassembly by fragment index.
\<close>

definition CHUNK_SIZE :: nat where
  "CHUNK_SIZE = 256 * 1024"

record content_fragment =
  index :: u32
  total_fragments :: u32
  fr_data :: bytes
  fr_hash :: string

record content_metadata =
  md_name :: string
  md_size :: u64
  mime_type :: string

record content_manifest =
  content_hash :: string
  mf_fragments :: "string list"
  metadata :: content_metadata

text \<open>\<open>chunks(n)\<close> of a slice; the code calls it with a positive constant only.\<close>

function chunks :: "nat \<Rightarrow> 'a list \<Rightarrow> 'a list list" where
  "chunks n xs = (if xs = [] \<or> n = 0 then [] else take n xs # chunks n (drop n xs))"
  by pat_completeness auto
termination
  by (relation "measure (length \<circ> snd)") auto

declare chunks.simps [simp del]

lemma chunks_Nil [simp]: "chunks n [] = []"
  by (simp add: chunks.simps)

lemma chunks_step: "0 < n \<Longrightarrow> xs \<noteq> [] \<Longrightarrow> chunks n xs = take n xs # chunks n (drop n xs)"
  by (simp add: chunks.simps [of n xs])

lemma concat_chunks: "0 < n \<Longrightarrow> concat (chunks n xs) = xs"
proof (induction n xs rule: chunks.induct)
  case (1 n xs)
  then show ?case
    by (cases "xs = []") (simp_all add: chunks_step)
qed

lemma length_chunks: "0 < n \<Longrightarrow> length (chunks n xs) = (length xs + n - 1) div n"
proof (induction n xs rule: chunks.induct)
  case (1 n xs)
  show ?case
  proof (cases "xs = []")
    case True
    with "1.prems" show ?thesis by simp
  next
    case False
    with 1 have "length (chunks n xs) = Suc ((length xs - n + n - 1) div n)"
      by (simp add: chunks_step)
    also have "(length xs - n + n - 1) div n = (length xs - 1) div n"
      using False by (cases "n \<le> length xs") simp_all
    also have "Suc ((length xs - 1) div n) = (n + (length xs - 1)) div n"
      using "1.prems" div_add_self1 [of n "length xs - 1"] by simp
    also have "n + (length xs - 1) = length xs + n - 1"
      using False by (cases xs) simp_all
    finally show ?thesis .
  qed
qed

lemma chunk_length: "c \<in> set (chunks n xs) \<Longrightarrow> 0 < length c \<and> length c \<le> n"
proof (induction n xs rule: chunks.induct)
  case (1 n xs)
  then show ?case
    by (cases "xs = [] \<or> n = 0") (auto simp: chunks.simps [of n xs])
qed

text \<open>
  \<open>fragment_content\<close>: the loop pushes the hash of each chunk and feeds the chunk to the
  hasher of the whole content, whose digest is that of the concatenated updates.
\<close>

definition fragment_step :: "prims \<Rightarrow> bytes \<Rightarrow> string list \<times> bytes \<Rightarrow> string list \<times> bytes" where
  "fragment_step P chunk = (\<lambda>(frags, hashed). (frags @ [hash_content P chunk], hashed @ chunk))"

definition fragment_content :: "prims \<Rightarrow> bytes \<Rightarrow> string \<Rightarrow> content_manifest" where
  "fragment_content P data name =
     (let total_size = word_of_nat (length data);
          (frags, hashed) = fold (fragment_step P) (chunks CHUNK_SIZE data) ([], [])
      in \<lparr>content_hash = hex_encode P (blake3 P hashed),
          mf_fragments = frags,
          metadata = \<lparr>md_name = name, md_size = total_size,
                      mime_type = ''application/octet-stream''\<rparr>\<rparr>)"

definition create_fragment :: "prims \<Rightarrow> bytes \<Rightarrow> u32 \<Rightarrow> u32 \<Rightarrow> content_fragment" where
  "create_fragment P data i n =
     \<lparr>index = i, total_fragments = n, fr_data = data, fr_hash = hash_content P data\<rparr>"

text \<open>\<open>sort_by_key\<close> is stable, as is \<open>sort_key\<close>.\<close>

definition reassemble_fragments :: "content_fragment list \<Rightarrow> bytes" where
  "reassemble_fragments frs = concat (map fr_data (sort_key index frs))"

definition verify_fragment :: "prims \<Rightarrow> content_fragment \<Rightarrow> bool" where
  "verify_fragment P f \<longleftrightarrow> hash_content P (fr_data f) = fr_hash f"

text \<open>The fragments of some content, as a sender makes them: one per chunk, numbered from 0.\<close>

definition make_fragments :: "prims \<Rightarrow> bytes \<Rightarrow> content_fragment list" where
  "make_fragments P data =
     (let cs = chunks CHUNK_SIZE data
      in map (\<lambda>(i, c). create_fragment P c (word_of_nat i) (word_of_nat (length cs)))
           (enumerate 0 cs))"

lemma fragment_loop:
  "fold (fragment_step P) cs (frags, hashed) =
     (frags @ map (hash_content P) cs, hashed @ concat cs)"
  by (induction cs arbitrary: frags hashed) (simp_all add: fragment_step_def)

lemma CHUNK_SIZE_pos: "0 < CHUNK_SIZE"
  by (simp add: CHUNK_SIZE_def)

lemma verify_create_fragment: "verify_fragment P (create_fragment P d i n)"
  by (simp add: verify_fragment_def create_fragment_def)

text \<open>
  The indices of the fragments increase strictly, so sorting any arrangement of them by
  index gives the sender's order.
\<close>

lemma sorted_distinct_indices:
  assumes "length (cs :: bytes list) \<le> 2 ^ 32"
  shows "sorted_wrt (<) (map (word_of_nat :: nat \<Rightarrow> u32) [0..<length cs])"
proof -
  have "(word_of_nat i :: u32) < word_of_nat j" if "i < j" "j < length cs" for i j
    using that assms by (simp add: word_less_nat_alt unat_of_nat)
  then show ?thesis
    by (simp add: sorted_wrt_iff_nth_less)
qed

lemma map_index_make_fragments:
  "map index (make_fragments P data) = map word_of_nat [0..<length (chunks CHUNK_SIZE data)]"
proof -
  let ?cs = "chunks CHUNK_SIZE data"
  have "map index (make_fragments P data) = map word_of_nat (map fst (enumerate 0 ?cs))"
    by (simp add: make_fragments_def create_fragment_def Let_def case_prod_unfold comp_def
        del: map_fst_enumerate map_snd_enumerate)
  then show ?thesis
    by (simp add: map_fst_enumerate)
qed

lemma map_data_make_fragments: "map fr_data (make_fragments P data) = chunks CHUNK_SIZE data"
proof -
  let ?cs = "chunks CHUNK_SIZE data"
  have "map fr_data (make_fragments P data) = map snd (enumerate 0 ?cs)"
    by (simp add: make_fragments_def create_fragment_def Let_def case_prod_unfold comp_def
        del: map_fst_enumerate map_snd_enumerate)
  then show ?thesis
    by simp
qed

lemma sort_key_make_fragments:
  assumes "mset frs = mset (make_fragments P data)"
    and "length (chunks CHUNK_SIZE data) \<le> 2 ^ 32"
  shows "sort_key index frs = make_fragments P data"
proof -
  let ?fs = "make_fragments P data"
  have strict: "sorted_wrt (<) (map index ?fs)"
    unfolding map_index_make_fragments by (rule sorted_distinct_indices) (rule assms(2))
  then have sorted: "sorted (map index ?fs)" and "distinct (map index ?fs)"
    by (simp_all add: strict_sorted_iff)
  then have "inj_on index (set frs)"
    using mset_eq_setD [OF assms(1)] by (simp add: distinct_map)
  with assms(1) sorted show ?thesis
    by (simp add: sort_key_inj_key_eq)
qed

section \<open>Properties\<close>


text \<open>Two fragments of a content of 262145 bytes, delivered in reverse.\<close>

lemma chunks_two [unfolded CHUNK_SIZE_def, simplified]:
  "chunks CHUNK_SIZE (replicate 262144 x @ [y]) = [replicate 262144 x, [y]]"
  by (simp add: CHUNK_SIZE_def chunks_step)


text \<open>
  The manifest describes the content: its hash is the hash of the whole data, it lists
  one hash per chunk in order, there are as many as the size divided by the chunk size,
  rounded up, and every fragment the sender makes for position \<open>i\<close> passes
  \<open>verify_fragment\<close> and has the hash the manifest lists there.
\<close>

theorem manifest_describes_content:
  "content_hash (fragment_content P data name) = hash_content P data \<and>
   mf_fragments (fragment_content P data name) = map fr_hash (make_fragments P data) \<and>
   length (mf_fragments (fragment_content P data name)) =
     (length data + CHUNK_SIZE - 1) div CHUNK_SIZE \<and>
   list_all (verify_fragment P) (make_fragments P data)"
proof -
  let ?cs = "chunks CHUNK_SIZE data"
  have "map fr_hash (make_fragments P data) = map (hash_content P) (map snd (enumerate 0 ?cs))"
    by (simp add: make_fragments_def create_fragment_def Let_def case_prod_unfold comp_def
        del: map_fst_enumerate map_snd_enumerate)
  moreover have "list_all (verify_fragment P) (make_fragments P data)"
    by (auto simp: make_fragments_def Let_def verify_create_fragment list_all_iff)
  ultimately show ?thesis
    by (simp add: fragment_content_def fragment_loop concat_chunks CHUNK_SIZE_pos hash_content_def
        length_chunks)
qed

end
