(* ===== verification/Replication.thy ===== *)
theory Replication
  imports Fragments
begin

text \<open>
  The replication manager of \<open>protocol/src/replication.rs\<close>: which peers hold which fragment, the
  status of each content, and the tasks that restore the replication factor. A \<open>PeerId\<close> is its
  bytes; its text form is third-party code, the argument \<open>peer_text\<close>. The percentage of healthy
  content, a floating-point figure for display, is not modelled.
\<close>

section \<open>Data\<close>

definition DEFAULT_REPLICATION_FACTOR :: nat where
  "DEFAULT_REPLICATION_FACTOR = 3"

definition MIN_REPLICATION_FACTOR :: nat where
  "MIN_REPLICATION_FACTOR = 1"

definition MAX_REPLICATION_FACTOR :: nat where
  "MAX_REPLICATION_FACTOR = 10"

type_synonym peer = bytes

record replication_status =
  rs_cid :: string
  rs_replica_count :: nat
  rs_target_replicas :: nat
  rs_replica_holders :: "string list"
  rs_healthy :: bool
  rs_last_checked :: u64

record fragment_location =
  fl_hash :: string
  fl_holders :: "peer list"
  fl_last_verified :: instant

datatype replication_priority = Low | Normal | High | Critical

fun priority_rank :: "replication_priority \<Rightarrow> nat" where
  "priority_rank Low = 0"
| "priority_rank Normal = 1"
| "priority_rank High = 2"
| "priority_rank Critical = 3"

lemma priority_rank_inject [simp]: "priority_rank a = priority_rank b \<longleftrightarrow> a = b"
  by (cases a; cases b) auto

text \<open>The derived \<open>Ord\<close> of the enum.\<close>

instantiation replication_priority :: linorder
begin

definition less_eq_replication_priority :: "replication_priority \<Rightarrow> replication_priority \<Rightarrow> bool" where
  "less_eq_replication_priority a b \<longleftrightarrow> priority_rank a \<le> priority_rank b"

definition less_replication_priority :: "replication_priority \<Rightarrow> replication_priority \<Rightarrow> bool" where
  "less_replication_priority a b \<longleftrightarrow> priority_rank a < priority_rank b"

instance
  by standard (auto simp: less_eq_replication_priority_def less_replication_priority_def)

end

record replication_task =
  tk_cid :: string
  tk_fragment_hash :: "string option"
  tk_target_peer :: peer
  tk_priority :: replication_priority
  tk_created_at :: instant
  tk_attempts :: u32

record replication_manager =
  rm_factor :: nat
  rm_fragments :: "(string, fragment_location list) hmap"
  rm_status :: "(string, replication_status) hmap"
  rm_pending :: "replication_task list"
  rm_pinned :: "string list"

record replication_health =
  rh_total_content :: nat
  rh_healthy_content :: nat
  rh_under_replicated_content :: nat
  rh_critical_content :: nat
  rh_replication_factor :: nat
  rh_pinned_content :: nat

section \<open>Operations\<close>

definition clamp_factor :: "nat \<Rightarrow> nat" where
  "clamp_factor f = min (max f MIN_REPLICATION_FACTOR) MAX_REPLICATION_FACTOR"

definition rm_with_factor :: "nat \<Rightarrow> replication_manager" where
  "rm_with_factor f = \<lparr>rm_factor = clamp_factor f, rm_fragments = [], rm_status = [],
     rm_pending = [], rm_pinned = []\<rparr>"

definition rm_new :: replication_manager where
  "rm_new = rm_with_factor DEFAULT_REPLICATION_FACTOR"

definition set_replication_factor :: "nat \<Rightarrow> replication_manager \<Rightarrow> replication_manager" where
  "set_replication_factor f m = m\<lparr>rm_factor := clamp_factor f\<rparr>"

definition register_content ::
    "instant \<Rightarrow> u64 \<Rightarrow> string \<Rightarrow> content_manifest \<Rightarrow> replication_manager \<Rightarrow> replication_manager" where
  "register_content now unix cid manifest m =
     (let frags = map (\<lambda>h. \<lparr>fl_hash = h, fl_holders = [], fl_last_verified = now\<rparr>) (mf_fragments manifest);
          status = \<lparr>rs_cid = cid, rs_replica_count = 0, rs_target_replicas = rm_factor m,
                    rs_replica_holders = [], rs_healthy = False, rs_last_checked = unix\<rparr>
      in m\<lparr>rm_fragments := hm_insert cid frags (rm_fragments m),
           rm_status := hm_insert cid status (rm_status m)\<rparr>)"

text \<open>\<open>iter().map(..).min().unwrap_or(0)\<close>.\<close>

definition min_replicas :: "fragment_location list \<Rightarrow> nat" where
  "min_replicas frags =
     (case map (\<lambda>f. length (fl_holders f)) frags of [] \<Rightarrow> 0 | n # ns \<Rightarrow> fold min ns n)"

definition update_replication_status ::
    "(peer \<Rightarrow> string) \<Rightarrow> u64 \<Rightarrow> string \<Rightarrow> replication_manager \<Rightarrow> replication_manager" where
  "update_replication_status peer_text unix cid m =
     (case hm_get (rm_fragments m) cid of
        None \<Rightarrow> m
      | Some frags \<Rightarrow>
          let least = min_replicas frags;
              all_holders = fold (\<lambda>f acc. fold hs_insert (fl_holders f) acc) frags []
          in (case hm_get (rm_status m) cid of
                None \<Rightarrow> m
              | Some st \<Rightarrow>
                  m\<lparr>rm_status := hm_insert cid
                      (st\<lparr>rs_replica_count := least, rs_replica_holders := map peer_text all_holders,
                          rs_healthy := rm_factor m \<le> least, rs_last_checked := unix\<rparr>)
                      (rm_status m)\<rparr>))"

definition add_fragment_holder ::
    "(peer \<Rightarrow> string) \<Rightarrow> instant \<Rightarrow> u64 \<Rightarrow> string \<Rightarrow> string \<Rightarrow> peer \<Rightarrow> replication_manager \<Rightarrow>
     replication_manager" where
  "add_fragment_holder peer_text now unix cid fragment_hash p m =
     (case hm_get (rm_fragments m) cid of
        None \<Rightarrow> m
      | Some frags \<Rightarrow>
          update_replication_status peer_text unix cid
            (m\<lparr>rm_fragments := hm_insert cid
                 (update_first (\<lambda>f. fl_hash f = fragment_hash)
                    (\<lambda>f. f\<lparr>fl_holders := hs_insert p (fl_holders f), fl_last_verified := now\<rparr>) frags)
                 (rm_fragments m)\<rparr>))"

definition remove_fragment_holder ::
    "(peer \<Rightarrow> string) \<Rightarrow> u64 \<Rightarrow> string \<Rightarrow> string \<Rightarrow> peer \<Rightarrow> replication_manager \<Rightarrow> replication_manager" where
  "remove_fragment_holder peer_text unix cid fragment_hash p m =
     (case hm_get (rm_fragments m) cid of
        None \<Rightarrow> m
      | Some frags \<Rightarrow>
          update_replication_status peer_text unix cid
            (m\<lparr>rm_fragments := hm_insert cid
                 (update_first (\<lambda>f. fl_hash f = fragment_hash)
                    (\<lambda>f. f\<lparr>fl_holders := hs_remove p (fl_holders f)\<rparr>) frags)
                 (rm_fragments m)\<rparr>))"

definition get_status :: "replication_manager \<Rightarrow> string \<Rightarrow> replication_status option" where
  "get_status m cid = hm_get (rm_status m) cid"

definition get_under_replicated :: "replication_manager \<Rightarrow> replication_status list" where
  "get_under_replicated m = filter (\<lambda>s. \<not> rs_healthy s) (hm_values (rm_status m))"

definition needs_replication :: "replication_manager \<Rightarrow> string \<Rightarrow> bool" where
  "needs_replication m cid =
     (case hm_get (rm_status m) cid of None \<Rightarrow> False | Some s \<Rightarrow> \<not> rs_healthy s)"

definition get_fragments_needing_replication :: "replication_manager \<Rightarrow> string \<Rightarrow> fragment_location list" where
  "get_fragments_needing_replication m cid =
     (case hm_get (rm_fragments m) cid of
        None \<Rightarrow> [] | Some frags \<Rightarrow> filter (\<lambda>f. length (fl_holders f) < rm_factor m) frags)"

definition task_priority :: "fragment_location \<Rightarrow> replication_priority" where
  "task_priority f =
     (if fl_holders f = [] then Critical else if length (fl_holders f) = 1 then High else Normal)"

definition fragment_tasks ::
    "instant \<Rightarrow> nat \<Rightarrow> peer list \<Rightarrow> string \<Rightarrow> fragment_location \<Rightarrow> replication_task list" where
  "fragment_tasks now factor available cid f =
     (let needed = factor - length (fl_holders f) in
      if needed = 0 then []
      else map (\<lambda>p. \<lparr>tk_cid = cid, tk_fragment_hash = Some (fl_hash f), tk_target_peer = p,
                     tk_priority = task_priority f, tk_created_at = now, tk_attempts = 0\<rparr>)
             (take needed (filter (\<lambda>p. p \<notin> set (fl_holders f)) available)))"

text \<open>\<open>sort_by\<close> is stable; the operands are swapped, so the highest priority comes first.\<close>

definition create_replication_tasks :: "instant \<Rightarrow> peer list \<Rightarrow> replication_manager \<Rightarrow> replication_task list" where
  "create_replication_tasks now available m =
     sort_key (\<lambda>t. 3 - priority_rank (tk_priority t))
       (concat (map (\<lambda>(cid, frags). concat (map (fragment_tasks now (rm_factor m) available cid) frags))
          (rm_fragments m)))"

definition pin :: "string \<Rightarrow> replication_manager \<Rightarrow> replication_manager" where
  "pin cid m = m\<lparr>rm_pinned := hs_insert cid (rm_pinned m)\<rparr>"

definition unpin :: "string \<Rightarrow> replication_manager \<Rightarrow> replication_manager" where
  "unpin cid m = m\<lparr>rm_pinned := hs_remove cid (rm_pinned m)\<rparr>"

definition is_pinned :: "replication_manager \<Rightarrow> string \<Rightarrow> bool" where
  "is_pinned m cid \<longleftrightarrow> cid \<in> set (rm_pinned m)"

definition get_pinned :: "replication_manager \<Rightarrow> string list" where
  "get_pinned m = rm_pinned m"

definition get_health_summary :: "replication_manager \<Rightarrow> replication_health" where
  "get_health_summary m =
     (let total = length (rm_status m);
          healthy = length (filter rs_healthy (hm_values (rm_status m)));
          critical = length (filter (\<lambda>s. rs_replica_count s = 0) (hm_values (rm_status m)))
      in \<lparr>rh_total_content = total, rh_healthy_content = healthy,
          rh_under_replicated_content = total - healthy, rh_critical_content = critical,
          rh_replication_factor = rm_factor m, rh_pinned_content = length (rm_pinned m)\<rparr>)"

section \<open>The invariant\<close>

text \<open>
  A status tells the truth about the fragments of its content: the count is the least number of
  holders of any fragment, and it is healthy when the count reaches the factor.
\<close>

definition status_ok :: "nat \<Rightarrow> fragment_location list \<Rightarrow> replication_status \<Rightarrow> bool" where
  "status_ok factor frags st \<longleftrightarrow>
     rs_replica_count st = min_replicas frags \<and> (rs_healthy st \<longleftrightarrow> factor \<le> min_replicas frags)"

fun content_ok :: "nat \<Rightarrow> fragment_location list option \<Rightarrow> replication_status option \<Rightarrow> bool" where
  "content_ok k None st \<longleftrightarrow> st = None"
| "content_ok k (Some frags) None \<longleftrightarrow> False"
| "content_ok k (Some frags) (Some st) \<longleftrightarrow>
     (\<forall>f \<in> set frags. distinct (fl_holders f)) \<and> status_ok k frags st"

lemma content_ok_Some:
  "content_ok k (Some frags) s \<longleftrightarrow>
     (\<forall>f \<in> set frags. distinct (fl_holders f)) \<and> (\<exists>st. s = Some st \<and> status_ok k frags st)"
  by (cases s) auto

definition rm_inv :: "nat \<Rightarrow> replication_manager \<Rightarrow> bool" where
  "rm_inv k m \<longleftrightarrow> rm_factor m = k \<and> 1 \<le> k \<and> k \<le> 10 \<and>
     hm_wf (rm_fragments m) \<and> hm_wf (rm_status m) \<and> distinct (rm_pinned m) \<and>
     (\<forall>cid. content_ok k (hm_get (rm_fragments m) cid) (hm_get (rm_status m) cid))"

lemma rm_inv_content:
  "rm_inv k m \<Longrightarrow> hm_get (rm_fragments m) cid = Some frags \<Longrightarrow>
     (\<forall>f \<in> set frags. distinct (fl_holders f)) \<and>
     (\<exists>st. hm_get (rm_status m) cid = Some st \<and> status_ok k frags st)"
  unfolding rm_inv_def by (metis content_ok_Some)

text \<open>The calls between two changes of the replication factor.\<close>

datatype rm_call =
    RegisterContent instant u64 string content_manifest
  | AddHolder instant u64 string string peer
  | RemoveHolder u64 string string peer
  | Pin string
  | Unpin string

fun rm_step :: "(peer \<Rightarrow> string) \<Rightarrow> rm_call \<Rightarrow> replication_manager \<Rightarrow> replication_manager" where
  "rm_step pt (RegisterContent now unix cid manifest) m = register_content now unix cid manifest m"
| "rm_step pt (AddHolder now unix cid h p) m = add_fragment_holder pt now unix cid h p m"
| "rm_step pt (RemoveHolder unix cid h p) m = remove_fragment_holder pt unix cid h p m"
| "rm_step pt (Pin cid) m = pin cid m"
| "rm_step pt (Unpin cid) m = unpin cid m"

lemma fold_min_le: "fold min ns (n :: nat) \<le> n" and fold_min_all: "x \<in> set ns \<Longrightarrow> fold min ns (n :: nat) \<le> x"
proof (induction ns arbitrary: n)
  case (Cons a ns)
  {
    case 1
    have "fold min ns (min a n) \<le> min a n" by (rule Cons.IH(1))
    then show ?case by simp
  next
    case 2
    have "fold min ns (min a n) \<le> min a n" by (rule Cons.IH(1))
    then show ?case using 2 Cons.IH(2) by auto
  }
qed simp_all

lemma fold_min_in: "fold min ns (n :: nat) \<in> insert n (set ns)"
proof (induction ns arbitrary: n)
  case (Cons a ns)
  from Cons [of "min a n"] show ?case by (auto simp: min_def split: if_splits)
qed simp

lemma min_replicas_ge:
  "k \<le> min_replicas frags \<longleftrightarrow> (frags = [] \<longrightarrow> k = 0) \<and> (\<forall>f \<in> set frags. k \<le> length (fl_holders f))"
proof (cases frags)
  case Nil
  then show ?thesis by (simp add: min_replicas_def)
next
  case (Cons f fs)
  let ?ns = "map (\<lambda>f. length (fl_holders f)) fs" and ?n = "length (fl_holders f)"
  have "k \<le> fold min ?ns ?n \<longleftrightarrow> k \<le> ?n \<and> (\<forall>x \<in> set ?ns. k \<le> x)"
    using fold_min_le [of ?ns ?n] fold_min_all [of _ ?ns ?n] fold_min_in [of ?ns ?n]
    by (auto intro: order_trans)
  with Cons show ?thesis by (simp add: min_replicas_def)
qed

lemma update_first_hashes:
  "(\<And>f. fl_hash (g f) = fl_hash f) \<Longrightarrow> map fl_hash (update_first P g frags) = map fl_hash frags"
  by (induction frags) auto

lemma update_first_all:
  "(\<And>f. P f \<Longrightarrow> Q f \<Longrightarrow> Q (g f)) \<Longrightarrow> \<forall>f \<in> set frags. Q f \<Longrightarrow> \<forall>f \<in> set (update_first P g frags). Q f"
  by (induction frags) auto

lemma update_status_inv:
  assumes "rm_inv k m" "hm_get (rm_fragments m) cid = Some frags"
    and "\<forall>f \<in> set frags'. distinct (fl_holders f)"
  shows "rm_inv k (update_replication_status pt unix cid
    (m\<lparr>rm_fragments := hm_insert cid frags' (rm_fragments m)\<rparr>))"
proof -
  obtain st where "hm_get (rm_status m) cid = Some st"
    using rm_inv_content [OF assms(1,2)] by blast
  with assms show ?thesis
    by (auto simp: rm_inv_def update_replication_status_def Let_def status_ok_def)
qed

lemma add_holder_inv:
  assumes "rm_inv k m"
  shows "rm_inv k (add_fragment_holder pt now unix cid h p m)"
proof (cases "hm_get (rm_fragments m) cid")
  case None
  with assms show ?thesis by (simp add: add_fragment_holder_def)
next
  case (Some frags)
  have "\<forall>f \<in> set (update_first (\<lambda>f. fl_hash f = h)
      (\<lambda>f. f\<lparr>fl_holders := hs_insert p (fl_holders f), fl_last_verified := now\<rparr>) frags). distinct (fl_holders f)"
    by (rule update_first_all) (use rm_inv_content [OF assms Some] in simp_all)
  from update_status_inv [OF assms Some this] Some show ?thesis
    by (simp add: add_fragment_holder_def)
qed

lemma remove_holder_inv:
  assumes "rm_inv k m"
  shows "rm_inv k (remove_fragment_holder pt unix cid h p m)"
proof (cases "hm_get (rm_fragments m) cid")
  case None
  with assms show ?thesis by (simp add: remove_fragment_holder_def)
next
  case (Some frags)
  have "\<forall>f \<in> set (update_first (\<lambda>f. fl_hash f = h)
      (\<lambda>f. f\<lparr>fl_holders := hs_remove p (fl_holders f)\<rparr>) frags). distinct (fl_holders f)"
    by (rule update_first_all) (use rm_inv_content [OF assms Some] in auto)
  from update_status_inv [OF assms Some this] Some show ?thesis
    by (simp add: remove_fragment_holder_def)
qed

lemma register_inv: "rm_inv k m \<Longrightarrow> rm_inv k (register_content now unix cid manifest m)"
proof -
  assume inv: "rm_inv k m"
  let ?frags = "map (\<lambda>h. \<lparr>fl_hash = h, fl_holders = [], fl_last_verified = now\<rparr>) (mf_fragments manifest)"
  have "min_replicas ?frags < Suc 0"
    using min_replicas_ge [of 1 ?frags] by (cases "mf_fragments manifest") (auto simp: not_le)
  with inv show ?thesis
    by (auto simp: rm_inv_def register_content_def status_ok_def Let_def)
qed

lemma rm_step_inv: "rm_inv k m \<Longrightarrow> rm_inv k (rm_step pt call m)"
  by (cases call)
     (simp_all add: register_inv add_holder_inv remove_holder_inv,
      simp_all add: rm_inv_def pin_def unpin_def)

interpretation replicas: call_machine "rm_step pt" "rm_inv k" for pt k
  by unfold_locales (rule rm_step_inv)

lemma rm_inv_new: "rm_inv (clamp_factor f) (rm_with_factor f)"
  by (simp add: rm_inv_def rm_with_factor_def clamp_factor_def MIN_REPLICATION_FACTOR_def
      MAX_REPLICATION_FACTOR_def)

text \<open>
  Between two changes of the replication factor, whatever content is registered and whatever
  holders come and go, the status of every content tells the truth: it counts the holders of the
  fragment that has the fewest, and calls the content healthy exactly when that count reaches the
  factor, which lies between 1 and 10.
\<close>

theorem status_is_accurate:
  fixes pt f calls
  defines "m \<equiv> fold (rm_step pt) calls (rm_with_factor f)"
  shows "1 \<le> rm_factor m \<and> rm_factor m \<le> 10 \<and>
    list_all (\<lambda>(cid, frags). case get_status m cid of
        None \<Rightarrow> False
      | Some st \<Rightarrow> rs_replica_count st = min_replicas frags \<and>
          (rs_healthy st \<longleftrightarrow> rm_factor m \<le> min_replicas frags) \<and>
          (rs_healthy st \<longleftrightarrow> \<not> needs_replication m cid)) (rm_fragments m)"
proof -
  have inv: "rm_inv (clamp_factor f) m"
    unfolding m_def by (rule replicas.run_inv) (rule rm_inv_new)
  have "case get_status m cid of
        None \<Rightarrow> False
      | Some st \<Rightarrow> rs_replica_count st = min_replicas frags \<and>
          (rs_healthy st \<longleftrightarrow> rm_factor m \<le> min_replicas frags) \<and>
          (rs_healthy st \<longleftrightarrow> \<not> needs_replication m cid)"
    if "(cid, frags) \<in> set (rm_fragments m)" for cid frags
  proof -
    have get: "hm_get (rm_fragments m) cid = Some frags" "rm_factor m = clamp_factor f"
      using inv that by (auto simp: rm_inv_def hm_get_iff_in_set)
    obtain st where "hm_get (rm_status m) cid = Some st" "status_ok (clamp_factor f) frags st"
      using rm_inv_content [OF inv get(1)] by blast
    with get(2) show ?thesis
      by (simp add: get_status_def needs_replication_def status_ok_def)
  qed
  with inv show ?thesis
    by (auto simp: list_all_iff rm_inv_def)
qed

section \<open>Tasks\<close>

text \<open>Who holds a fragment of a content, as the manager tells it.\<close>

definition holders_of :: "replication_manager \<Rightarrow> string \<Rightarrow> string \<Rightarrow> peer set" where
  "holders_of m cid h = (case hm_get (rm_fragments m) cid of
     None \<Rightarrow> {}
   | Some frags \<Rightarrow> (case List.find (\<lambda>f. fl_hash f = h) frags of None \<Rightarrow> {} | Some f \<Rightarrow> set (fl_holders f)))"

definition hashes_of :: "replication_manager \<Rightarrow> string \<Rightarrow> string list" where
  "hashes_of m cid = (case hm_get (rm_fragments m) cid of None \<Rightarrow> [] | Some frags \<Rightarrow> map fl_hash frags)"

lemma find_update_first:
  assumes "\<And>f. fl_hash (g f) = fl_hash f"
  shows "List.find (\<lambda>f. fl_hash f = h') (update_first (\<lambda>f. fl_hash f = h) g frags) =
    (if h' = h then map_option g (List.find (\<lambda>f. fl_hash f = h) frags)
     else List.find (\<lambda>f. fl_hash f = h') frags)"
  using assms by (induction frags) auto

lemma update_status_fragments [simp]:
  "rm_fragments (update_replication_status pt unix cid m) = rm_fragments m"
  "rm_factor (update_replication_status pt unix cid m) = rm_factor m"
  by (auto simp: update_replication_status_def Let_def split: option.splits)

lemma find_hash_None: "List.find (\<lambda>f. fl_hash f = h) frags = None \<longleftrightarrow> h \<notin> set (map fl_hash frags)"
  by (auto simp: find_None_iff)

lemma add_holder_hashes: "hashes_of (add_fragment_holder pt now unix cid h p m) c = hashes_of m c"
  by (auto simp: hashes_of_def add_fragment_holder_def update_first_hashes split: option.splits)

lemma add_holder_holders:
  "holders_of (add_fragment_holder pt now unix cid h p m) c h' =
     (if c = cid \<and> h' = h \<and> h \<in> set (hashes_of m cid) then insert p (holders_of m c h')
      else holders_of m c h')"
proof (cases "hm_get (rm_fragments m) cid")
  case None
  then show ?thesis by (simp add: add_fragment_holder_def hashes_of_def)
next
  case (Some frags)
  then show ?thesis
    using find_hash_None [of h frags]
    by (auto simp: add_fragment_holder_def holders_of_def hashes_of_def find_update_first
        split: option.splits)
qed

text \<open>Carrying out tasks: every target receives its fragment and is recorded as a holder.\<close>

definition carry_out ::
    "(peer \<Rightarrow> string) \<Rightarrow> instant \<Rightarrow> u64 \<Rightarrow> replication_task list \<Rightarrow> replication_manager \<Rightarrow> replication_manager" where
  "carry_out pt now unix ts m =
     fold (\<lambda>t. add_fragment_holder pt now unix (tk_cid t) (case_option [] id (tk_fragment_hash t))
       (tk_target_peer t)) ts m"

lemma carry_out_simps [simp]:
  "carry_out pt now unix [] m = m"
  "carry_out pt now unix (t # ts) m = carry_out pt now unix ts (add_fragment_holder pt now unix (tk_cid t)
     (case_option [] id (tk_fragment_hash t)) (tk_target_peer t) m)"
  by (simp_all add: carry_out_def)

lemma carry_out_inv: "rm_inv k m \<Longrightarrow> rm_inv k (carry_out pt now unix ts m)"
  by (induction ts arbitrary: m) (auto intro: add_holder_inv)

lemma carry_out_hashes: "hashes_of (carry_out pt now unix ts m) c = hashes_of m c"
  by (induction ts arbitrary: m) (auto simp: add_holder_hashes)

lemma carry_out_holders:
  assumes "h \<in> set (hashes_of m c)"
  shows "holders_of (carry_out pt now unix ts m) c h = holders_of m c h \<union>
    {tk_target_peer t |t. t \<in> set ts \<and> tk_cid t = c \<and> case_option [] id (tk_fragment_hash t) = h}"
  using assms
proof (induction ts arbitrary: m)
  case Nil
  then show ?case by simp
next
  case (Cons t ts)
  then have "h \<in> set (hashes_of (add_fragment_holder pt now unix (tk_cid t)
      (case_option [] id (tk_fragment_hash t)) (tk_target_peer t) m) c)"
    by (simp add: add_holder_hashes)
  from Cons.IH [OF this] Cons.prems show ?case
    by (auto simp: add_holder_holders)
qed

lemma holders_of_distinct:
  assumes "hm_get (rm_fragments m) c = Some frags" "distinct (map fl_hash frags)" "f \<in> set frags"
  shows "holders_of m c (fl_hash f) = set (fl_holders f)"
proof -
  have "List.find (\<lambda>g. fl_hash g = fl_hash f) frags = Some f"
    using assms(2,3) by (induction frags) (auto simp: rev_image_eqI)
  with assms(1) show ?thesis by (simp add: holders_of_def)
qed

lemma fragment_tasks_in:
  assumes "hm_get (rm_fragments m) c = Some frags" "f \<in> set frags"
    and "p \<in> set (take (rm_factor m - length (fl_holders f)) (filter (\<lambda>p. p \<notin> set (fl_holders f)) available))"
  shows "\<exists>t \<in> set (create_replication_tasks now available m). tk_cid t = c \<and>
    tk_fragment_hash t = Some (fl_hash f) \<and> tk_target_peer t = p"
proof -
  have "rm_factor m - length (fl_holders f) \<noteq> 0"
    using assms(3) by (cases "rm_factor m - length (fl_holders f) = 0") auto
  then have "\<exists>t \<in> set (fragment_tasks now (rm_factor m) available c f). tk_cid t = c \<and>
      tk_fragment_hash t = Some (fl_hash f) \<and> tk_target_peer t = p"
    using assms(3) by (auto simp: fragment_tasks_def Let_def)
  moreover have "(c, frags) \<in> set (rm_fragments m)"
    by (rule hm_get_in_set [OF assms(1)])
  ultimately show ?thesis
    using assms(2) by (fastforce simp: create_replication_tasks_def)
qed

text \<open>With enough peers the targets bring a fragment up to the factor.\<close>

lemma targets_suffice:
  assumes "distinct hs" "distinct available" "k \<le> card (set available \<union> set hs)"
  shows "k \<le> card (set hs \<union> set (take (k - length hs) (filter (\<lambda>p. p \<notin> set hs) available)))"
proof -
  let ?c = "filter (\<lambda>p. p \<notin> set hs) available"
  let ?t = "take (k - length hs) ?c"
  have card_add: "card (set hs \<union> set xs) = length hs + length xs"
    if "distinct xs" "set hs \<inter> set xs = {}" for xs
    using that assms(1) by (simp add: card_Un_disjoint distinct_card)
  have "set available \<union> set hs = set hs \<union> set ?c" by auto
  also have "card (set hs \<union> set ?c) = length hs + length ?c"
    by (rule card_add) (use assms(2) in auto)
  finally have "k - length hs \<le> length ?c" using assms(3) by simp
  then have "length ?t = k - length hs" by simp
  moreover have "card (set hs \<union> set ?t) = length hs + length ?t"
    by (rule card_add) (use assms(2) in \<open>auto dest: in_set_takeD\<close>)
  ultimately show ?thesis by simp
qed

lemma tasks_sound:
  assumes "t \<in> set (create_replication_tasks now available m)"
  shows "\<exists>frags f. (tk_cid t, frags) \<in> set (rm_fragments m) \<and> f \<in> set frags \<and>
    tk_fragment_hash t = Some (fl_hash f) \<and> tk_target_peer t \<in> set available - set (fl_holders f) \<and>
    length (fl_holders f) < rm_factor m \<and> tk_priority t = task_priority f"
  using assms
  by (fastforce simp: create_replication_tasks_def fragment_tasks_def Let_def split: if_splits
      dest: in_set_takeD)


definition demo_manifest :: "string list \<Rightarrow> content_manifest" where
  "demo_manifest hs = \<lparr>content_hash = ''h'', mf_fragments = hs,
     metadata = \<lparr>md_name = ''n'', md_size = 0, mime_type = ''m''\<rparr>\<rparr>"


section \<open>Equal chunks\<close>

text \<open>A fragment whose hash occurs before it in the list never gets a holder.\<close>

definition shadowed_empty :: "string \<Rightarrow> fragment_location list \<Rightarrow> bool" where
  "shadowed_empty h frags \<longleftrightarrow> (\<exists>xs f ys. frags = xs @ f # ys \<and> h \<in> set (map fl_hash xs) \<and>
     fl_hash f = h \<and> fl_holders f = [])"

lemma update_first_append:
  "update_first P g (xs @ ys) =
     (if \<exists>x \<in> set xs. P x then update_first P g xs @ ys else xs @ update_first P g ys)"
  by (induction xs) auto

lemma shadowed_update_first:
  assumes "shadowed_empty h frags" "\<And>f. fl_hash (g f) = fl_hash f"
  shows "shadowed_empty h (update_first (\<lambda>f. fl_hash f = h') g frags)"
proof -
  obtain xs f ys where fr: "frags = xs @ f # ys" "h \<in> set (map fl_hash xs)" "fl_hash f = h"
    "fl_holders f = []"
    using assms(1) by (auto simp: shadowed_empty_def)
  show ?thesis
  proof (cases "\<exists>x \<in> set xs. fl_hash x = h'")
    case True
    then have "update_first (\<lambda>f. fl_hash f = h') g frags = update_first (\<lambda>f. fl_hash f = h') g xs @ f # ys"
      by (simp add: fr update_first_append)
    moreover have "h \<in> set (map fl_hash (update_first (\<lambda>f. fl_hash f = h') g xs))"
      using fr(2) update_first_hashes [OF assms(2)] by metis
    ultimately show ?thesis
      unfolding shadowed_empty_def using fr(3,4) by blast
  next
    case False
    then have "h' \<noteq> h"
      using fr(2) by auto
    then have "update_first (\<lambda>f. fl_hash f = h') g frags = xs @ f # update_first (\<lambda>f. fl_hash f = h') g ys"
      using False fr(3) by (simp add: fr(1) update_first_append)
    with fr show ?thesis
      unfolding shadowed_empty_def by blast
  qed
qed

fun is_registration :: "string \<Rightarrow> rm_call \<Rightarrow> bool" where
  "is_registration cid (RegisterContent now unix c manifest) \<longleftrightarrow> c = cid"
| "is_registration cid _ \<longleftrightarrow> False"

definition cid_shadowed :: "string \<Rightarrow> string \<Rightarrow> replication_manager \<Rightarrow> bool" where
  "cid_shadowed cid h m \<longleftrightarrow> (\<exists>frags. hm_get (rm_fragments m) cid = Some frags \<and> shadowed_empty h frags)"

lemma step_shadowed:
  assumes "cid_shadowed cid h m" "\<not> is_registration cid call"
  shows "cid_shadowed cid h (rm_step pt call m)"
proof -
  obtain frags where fr: "hm_get (rm_fragments m) cid = Some frags" "shadowed_empty h frags"
    using assms(1) by (auto simp: cid_shadowed_def)
  show ?thesis
  proof (cases call)
    case (AddHolder now unix c h' p)
    then show ?thesis
      using fr by (cases "c = cid")
        (auto simp: cid_shadowed_def add_fragment_holder_def shadowed_update_first split: option.splits)
  next
    case (RemoveHolder unix c h' p)
    then show ?thesis
      using fr by (cases "c = cid")
        (auto simp: cid_shadowed_def remove_fragment_holder_def shadowed_update_first split: option.splits)
  qed (use fr assms(2) in \<open>auto simp: cid_shadowed_def register_content_def pin_def unpin_def Let_def\<close>)
qed

lemma run_shadowed:
  "cid_shadowed cid h m \<Longrightarrow> list_all (\<lambda>c. \<not> is_registration cid c) calls \<Longrightarrow>
     cid_shadowed cid h (fold (rm_step pt) calls m)"
  by (induction calls arbitrary: m) (auto intro: step_shadowed)

text \<open>
  Content with two equal chunks is never healthy: \<open>fragment_content\<close> lists the hash of a
  chunk once for each occurrence, but \<open>add_fragment_holder\<close> records a holder for the first entry
  with that hash only. The later entry stays without holders, so the content counts no replica and
  needs replication for ever, whatever peers announce that they hold its fragments.
\<close>

theorem equal_chunks_never_healthy:
  assumes "i < j" "j < length (mf_fragments manifest)" "mf_fragments manifest ! i = mf_fragments manifest ! j"
    and "list_all (\<lambda>c. \<not> is_registration cid c) calls"
  shows "needs_replication (fold (rm_step pt) (before @ RegisterContent now unix cid manifest # calls)
      (rm_with_factor k)) cid \<and>
    map_option rs_replica_count (get_status (fold (rm_step pt)
      (before @ RegisterContent now unix cid manifest # calls) (rm_with_factor k)) cid) = Some 0"
proof -
  let ?m0 = "fold (rm_step pt) before (rm_with_factor k)"
  let ?m1 = "register_content now unix cid manifest ?m0"
  let ?m = "fold (rm_step pt) calls ?m1"
  have inv: "rm_inv (clamp_factor k) ?m"
    by (intro replicas.run_inv register_inv) (rule rm_inv_new)
  let ?h = "mf_fragments manifest ! j"
  let ?fr = "map (\<lambda>h. \<lparr>fl_hash = h, fl_holders = [], fl_last_verified = now\<rparr>) (mf_fragments manifest)"
  have "?fr = take j ?fr @ ?fr ! j # drop (Suc j) ?fr"
    by (rule id_take_nth_drop) (simp add: assms(2))
  moreover have "?h \<in> set (map fl_hash (take j ?fr))"
  proof -
    have "i < length (take j (mf_fragments manifest))" "take j (mf_fragments manifest) ! i = ?h"
      using assms(1-3) by auto
    then have "?h \<in> set (take j (mf_fragments manifest))"
      by (metis nth_mem)
    then show ?thesis by (simp add: take_map comp_def)
  qed
  moreover have "fl_hash (?fr ! j) = ?h" "fl_holders (?fr ! j) = []"
    using assms(2) by simp_all
  ultimately have "shadowed_empty ?h ?fr"
    unfolding shadowed_empty_def by blast
  then have "cid_shadowed cid ?h ?m1"
    by (simp add: cid_shadowed_def register_content_def Let_def)
  from run_shadowed [OF this assms(4)] obtain frags where fr: "hm_get (rm_fragments ?m) cid = Some frags"
    "shadowed_empty ?h frags"
    by (auto simp: cid_shadowed_def)
  then have least: "min_replicas frags = 0"
    using min_replicas_ge [of 1 frags] by (fastforce simp: shadowed_empty_def)
  obtain st where "hm_get (rm_status ?m) cid = Some st" "status_ok (clamp_factor k) frags st"
    using rm_inv_content [OF inv fr(1)] by blast
  moreover have "0 < clamp_factor k"
    using inv by (simp add: rm_inv_def)
  ultimately show ?thesis
    by (simp add: needs_replication_def get_status_def status_ok_def least)
qed

theorem equal_chunks_never_healthy_witness:
  "needs_replication (fold (rm_step (\<lambda>p. []))
     ([] @ RegisterContent 0 0 ''c'' (demo_manifest [''a'', ''a'']) #
      [AddHolder 1 1 ''c'' ''a'' [1], AddHolder 2 2 ''c'' ''a'' [2]]) (rm_with_factor 1)) ''c''"
  by (rule equal_chunks_never_healthy [of 0 1, THEN conjunct1]) (simp_all add: demo_manifest_def)

end
