(* ===== verification/CircuitBreaker.thy ===== *)
theory CircuitBreaker
  imports Prelude
begin

text \<open>
  The circuit breaker of \<open>gateway/src/circuit_breaker.rs\<close>: closed, open and half-open states, a
  count of consecutive failures, and the reset timeout. The state is an atomic byte, as in the
  code; a call is taken as one step, with the clock reading \<open>now\<close>. Logging is left out.
\<close>

section \<open>The breaker\<close>

datatype circuit_state = Closed | Open | HalfOpen

fun state_code :: "circuit_state \<Rightarrow> u8" where
  "state_code Closed = 0"
| "state_code Open = 1"
| "state_code HalfOpen = 2"

definition state_of_code :: "u8 \<Rightarrow> circuit_state" where
  "state_of_code v = (if v = 0 then Closed else if v = 1 then Open else if v = 2 then HalfOpen else Closed)"

lemma state_of_code_code [simp]: "state_of_code (state_code s) = s"
  by (cases s) (simp_all add: state_of_code_def)

record circuit_breaker =
  cb_state :: u8
  cb_failure_count :: u32
  cb_failure_threshold :: u32
  cb_reset_timeout :: duration
  cb_last_failure_time :: "instant option"
  cb_opened_at :: "instant option"
  cb_name :: string

definition breaker_new :: "string \<Rightarrow> u32 \<Rightarrow> duration \<Rightarrow> circuit_breaker" where
  "breaker_new nm threshold timeout = \<lparr>cb_state = state_code Closed, cb_failure_count = 0,
     cb_failure_threshold = threshold, cb_reset_timeout = timeout, cb_last_failure_time = None,
     cb_opened_at = None, cb_name = nm\<rparr>"

definition breaker_default_for :: "string \<Rightarrow> circuit_breaker" where
  "breaker_default_for nm = breaker_new nm 5 (from_secs 30)"

definition breaker_state :: "circuit_breaker \<Rightarrow> circuit_state" where
  "breaker_state b = state_of_code (cb_state b)"

definition transition_to :: "circuit_state \<Rightarrow> circuit_breaker \<Rightarrow> circuit_breaker" where
  "transition_to s b = b\<lparr>cb_state := state_code s\<rparr>"

definition allow_request :: "instant \<Rightarrow> circuit_breaker \<Rightarrow> bool \<times> circuit_breaker" where
  "allow_request now b =
     (case breaker_state b of
        Closed \<Rightarrow> (True, b)
      | Open \<Rightarrow>
          (case cb_last_failure_time b of
             Some last_failure \<Rightarrow>
               if cb_reset_timeout b \<le> elapsed now last_failure then (True, transition_to HalfOpen b)
               else (False, b)
           | None \<Rightarrow> (False, b))
      | HalfOpen \<Rightarrow> (True, b))"

definition record_success :: "circuit_breaker \<Rightarrow> circuit_breaker" where
  "record_success b =
     (case breaker_state b of
        HalfOpen \<Rightarrow> (transition_to Closed b)\<lparr>cb_failure_count := 0\<rparr>
      | Closed \<Rightarrow> b\<lparr>cb_failure_count := 0\<rparr>
      | Open \<Rightarrow> b)"

definition open_circuit :: "instant \<Rightarrow> circuit_breaker \<Rightarrow> circuit_breaker" where
  "open_circuit now b = (transition_to Open b)\<lparr>cb_opened_at := Some now\<rparr>"

text \<open>\<open>fetch_add\<close> wraps around.\<close>

definition record_failure :: "instant \<Rightarrow> circuit_breaker \<Rightarrow> circuit_breaker" where
  "record_failure now b =
     (let state = breaker_state b;
          new_count = cb_failure_count b + 1;
          b1 = b\<lparr>cb_failure_count := new_count, cb_last_failure_time := Some now\<rparr>
      in case state of
           Closed \<Rightarrow> if cb_failure_threshold b \<le> new_count then open_circuit now b1 else b1
         | HalfOpen \<Rightarrow> open_circuit now b1
         | Open \<Rightarrow> b1)"

definition time_in_open_state :: "instant \<Rightarrow> circuit_breaker \<Rightarrow> duration option" where
  "time_in_open_state now b =
     (if breaker_state b = Open then map_option (elapsed now) (cb_opened_at b) else None)"

definition is_open :: "circuit_breaker \<Rightarrow> bool" where
  "is_open b \<longleftrightarrow> breaker_state b = Open"

definition force_close :: "circuit_breaker \<Rightarrow> circuit_breaker" where
  "force_close b = (transition_to Closed b)\<lparr>cb_failure_count := 0\<rparr>"

section \<open>Transitions\<close>

datatype breaker_event = Ask instant | Success | Failure instant | ForceClose

fun breaker_step :: "breaker_event \<Rightarrow> circuit_breaker \<Rightarrow> circuit_breaker" where
  "breaker_step (Ask now) b = snd (allow_request now b)"
| "breaker_step Success b = record_success b"
| "breaker_step (Failure now) b = record_failure now b"
| "breaker_step ForceClose b = force_close b"

text \<open>The state machine: which states one call can lead to, and why.\<close>

inductive moves :: "circuit_breaker \<Rightarrow> breaker_event \<Rightarrow> circuit_state \<Rightarrow> circuit_state \<Rightarrow> bool" where
  stay: "moves b e s s"
| trip: "cb_failure_threshold b \<le> cb_failure_count b + 1 \<Longrightarrow> moves b (Failure now) Closed Open"
| probe: "cb_last_failure_time b = Some t \<Longrightarrow> cb_reset_timeout b \<le> elapsed now t \<Longrightarrow>
    moves b (Ask now) Open HalfOpen"
| reopen: "moves b (Failure now) HalfOpen Open"
| recover: "moves b Success HalfOpen Closed"
| force: "moves b ForceClose s Closed"

inductive_cases moves_OpenE: "moves b e Open s"
inductive_cases moves_ClosedE: "moves b e Closed s"

lemma breaker_state_simps [simp]:
  "breaker_state (transition_to s b) = s"
  "breaker_state (b\<lparr>cb_failure_count := n\<rparr>) = breaker_state b"
  "breaker_state (b\<lparr>cb_last_failure_time := t\<rparr>) = breaker_state b"
  "breaker_state (b\<lparr>cb_opened_at := t\<rparr>) = breaker_state b"
  by (simp_all add: breaker_state_def transition_to_def)

lemmas breaker_ops = allow_request_def record_success_def record_failure_def force_close_def
  open_circuit_def Let_def

lemma step_moves: "moves b e (breaker_state b) (breaker_state (breaker_step e b))"
  by (cases e; cases "breaker_state b")
     (auto simp: breaker_ops intro: moves.intros split: option.splits)



section \<open>Consecutive failures\<close>

lemma failures_below:
  assumes "breaker_state b = Closed"
    and "unat (cb_failure_count b) + length ts < unat (cb_failure_threshold b)"
  shows "breaker_state (fold record_failure ts b) = Closed \<and>
    unat (cb_failure_count (fold record_failure ts b)) = unat (cb_failure_count b) + length ts \<and>
    cb_failure_threshold (fold record_failure ts b) = cb_failure_threshold b \<and>
    cb_reset_timeout (fold record_failure ts b) = cb_reset_timeout b"
  using assms
proof (induction ts arbitrary: b)
  case Nil
  then show ?case by simp
next
  case (Cons t ts)
  have "unat (cb_failure_count b) + 1 < 2 ^ 32"
    using Cons.prems(2) unat_le_max [of "cb_failure_threshold b"] by simp
  then have n: "unat (cb_failure_count b + 1) = unat (cb_failure_count b) + 1"
    using unat_add_lem [of "cb_failure_count b" 1] by simp
  then have "\<not> cb_failure_threshold b \<le> cb_failure_count b + 1"
    using Cons.prems(2) by (simp add: word_le_nat_alt)
  then have step: "record_failure t b =
      b\<lparr>cb_failure_count := cb_failure_count b + 1, cb_last_failure_time := Some t\<rparr>"
    using Cons.prems(1) by (simp add: record_failure_def)
  have "breaker_state (record_failure t b) = Closed"
    "unat (cb_failure_count (record_failure t b)) + length ts < unat (cb_failure_threshold (record_failure t b))"
    using Cons.prems n by (simp_all add: step)
  from Cons.IH [OF this] show ?case
    by (simp add: step n)
qed

lemma failure_at_threshold:
  assumes "breaker_state b = Closed" "unat (cb_failure_count b) + 1 = unat (cb_failure_threshold b)"
  shows "record_failure t b = b\<lparr>cb_failure_count := cb_failure_count b + 1,
    cb_last_failure_time := Some t, cb_state := state_code Open, cb_opened_at := Some t\<rparr>"
proof -
  have "unat (cb_failure_count b) + 1 < 2 ^ 32"
    using assms(2) unat_le_max [of "cb_failure_threshold b"] by simp
  then have "unat (cb_failure_count b + 1) = unat (cb_failure_threshold b)"
    using unat_add_lem [of "cb_failure_count b" 1] assms(2) by simp
  then have "cb_failure_threshold b \<le> cb_failure_count b + 1"
    by (simp add: word_le_nat_alt)
  with assms(1) show ?thesis
    by (simp add: record_failure_def open_circuit_def transition_to_def)
qed

text \<open>
  Failing fast: a fresh breaker with a positive threshold stays closed and lets every request
  pass as long as fewer failures than the threshold follow one another; the failure that reaches
  the threshold opens it, and then it refuses exactly the requests that come earlier than the
  reset timeout after that failure.
\<close>

theorem breaker_fails_fast:
  assumes "length ts + 1 = unat threshold"
  shows "fst (allow_request now (fold record_failure ts (breaker_new nm threshold timeout))) \<and>
    is_open (fold record_failure (ts @ [t]) (breaker_new nm threshold timeout)) \<and>
    (fst (allow_request now (fold record_failure (ts @ [t]) (breaker_new nm threshold timeout))) \<longleftrightarrow>
       timeout \<le> now - t)"
proof -
  let ?b = "breaker_new nm threshold timeout"
  have new: "breaker_state ?b = Closed" "cb_failure_count ?b = 0" "cb_failure_threshold ?b = threshold"
    "cb_reset_timeout ?b = timeout"
    by (simp_all add: breaker_new_def breaker_state_def state_of_code_def)
  have below: "breaker_state (fold record_failure ts ?b) = Closed"
    "unat (cb_failure_count (fold record_failure ts ?b)) + 1 = unat (cb_failure_threshold (fold record_failure ts ?b))"
    "cb_reset_timeout (fold record_failure ts ?b) = timeout"
    using failures_below [of ?b ts] new assms by auto
  have "fst (allow_request now (fold record_failure ts ?b))"
    using below(1) by (simp add: allow_request_def)
  moreover have "breaker_state (record_failure t (fold record_failure ts ?b)) = Open"
    by (simp add: failure_at_threshold [OF below(1,2)] breaker_state_def state_of_code_def)
  ultimately show ?thesis
    by (simp add: is_open_def allow_request_def)
       (simp add: failure_at_threshold [OF below(1,2)] below(3) elapsed_def)
qed

theorem breaker_fails_fast_witness:
  "is_open (fold record_failure ([1, 2, 3, 4] @ [5]) (breaker_default_for ''ipfs''))"
  unfolding breaker_default_for_def
  by (rule breaker_fails_fast [THEN conjunct2, THEN conjunct1]) simp

text \<open>
  Nothing limits the requests of the half-open state: once the timeout has passed and one
  request has been let through as a probe, every further request is let through as well, whenever
  it comes, until the outcome of one of them is recorded.
\<close>

theorem half_open_unlimited:
  assumes "breaker_state b = Open" "cb_last_failure_time b = Some t" "cb_reset_timeout b \<le> now - t"
  shows "list_all (\<lambda>later. fst (allow_request later
      (fold (\<lambda>u b. snd (allow_request u b)) asked (snd (allow_request now b))))) asks"
proof -
  have "breaker_state (snd (allow_request now b)) = HalfOpen"
    using assms by (simp add: allow_request_def elapsed_def)
  then have "breaker_state (fold (\<lambda>u b. snd (allow_request u b)) asked (snd (allow_request now b))) = HalfOpen"
    by (induction asked rule: rev_induct) (simp_all add: allow_request_def)
  then show ?thesis
    by (simp add: list_all_iff allow_request_def)
qed

theorem half_open_unlimited_witness:
  "list_all (\<lambda>later. fst (allow_request later (fold (\<lambda>u b. snd (allow_request u b)) [12, 12, 12]
     (snd (allow_request 12 (record_failure 1 (breaker_new ''ipfs'' 1 10))))))) [12, 12, 13]"
  by (rule half_open_unlimited [where t = 1]) code_simp+

end
