(* ===== verification/RateLimit.thy ===== *)
theory RateLimit
  imports Prelude
begin

text \<open>
  Rate limiting of the gateway: the local limiter of \<open>gateway/src/rate_limit.rs\<close>, the limiter
  over Redis of \<open>gateway/src/distributed_rate_limit.rs\<close> that uses it, and the bearer token of
  \<open>gateway/src/auth.rs\<close> both read. The hash of the standard library's \<open>DefaultHasher\<close>, whose
  value it does not promise, is the argument \<open>sip\<close>; Redis is the argument \<open>incr\<close>. Metrics and
  logging are left out, and running the rest of the request is the outcome \<open>RunNext\<close>.
\<close>

section \<open>Requests\<close>

text \<open>The address of the connection and the Authorization header, when it is visible ASCII.\<close>

record http_request =
  rq_connect_ip :: "string option"
  rq_authorization :: "string option"

definition to_ascii_lowercase :: "char \<Rightarrow> char" where
  "to_ascii_lowercase c = (if is_ascii_uppercase c then char_of (code c + 32) else c)"

definition is_ascii_space :: "char \<Rightarrow> bool" where
  "is_ascii_space c \<longleftrightarrow> code c = 32 \<or> (9 \<le> code c \<and> code c \<le> 13)"

definition extract_bearer_token :: "http_request \<Rightarrow> string option" where
  "extract_bearer_token req =
     (case rq_authorization req of
        None \<Rightarrow> None
      | Some v \<Rightarrow>
          if 7 < length v \<and> map to_ascii_lowercase (take 7 v) = ''bearer '' then
            Some (dropWhile is_ascii_space (drop 7 v))
          else None)"

definition extract_client_ip :: "http_request \<Rightarrow> string" where
  "extract_client_ip req = (case rq_connect_ip req of Some ip \<Rightarrow> ip | None \<Rightarrow> ''unknown'')"

text \<open>\<open>{:016x}\<close> of a hash.\<close>

definition hex16 :: "u64 \<Rightarrow> string" where
  "hex16 w = map (\<lambda>i. hex_digit (unat w div 16 ^ (15 - i) mod 16)) [0..<16]"

section \<open>Configuration and state\<close>

record rate_limit_config =
  ip_requests_per_second :: u64
  key_requests_per_second :: u64
  burst_size :: u32
  window :: duration

definition rate_config_default :: rate_limit_config where
  "rate_config_default = \<lparr>ip_requests_per_second = 100, key_requests_per_second = 1000,
     burst_size = 50, window = from_secs 1\<rparr>"

record client_limit =
  cl_count :: u64
  cl_window_start :: instant
  cl_burst_tokens :: u32
  cl_last_request :: instant

definition client_limit_new :: "instant \<Rightarrow> u32 \<Rightarrow> client_limit" where
  "client_limit_new now burst = \<lparr>cl_count = 0, cl_window_start = now, cl_burst_tokens = burst,
     cl_last_request = now\<rparr>"

record rate_limiter =
  ip_limits :: "(string, client_limit) hmap"
  key_limits :: "(string, client_limit) hmap"
  rl_config :: rate_limit_config

definition limiter_with_config :: "rate_limit_config \<Rightarrow> rate_limiter" where
  "limiter_with_config cfg = \<lparr>ip_limits = [], key_limits = [], rl_config = cfg\<rparr>"

definition limiter_new :: "u64 \<Rightarrow> rate_limiter" where
  "limiter_new rps = limiter_with_config (rate_config_default\<lparr>ip_requests_per_second := rps,
     key_requests_per_second := rps * 10\<rparr>)"

section \<open>The check\<close>

text \<open>The body of \<open>check_limit\<close> on the entry of one client; \<open>u32\<close> and \<open>u64\<close> arithmetic wraps.\<close>

definition limit_step ::
    "instant \<Rightarrow> u64 \<Rightarrow> u32 \<Rightarrow> duration \<Rightarrow> client_limit \<Rightarrow> (nat + unit) \<times> client_limit" where
  "limit_step now max_requests burst win cl =
     (let tokens_to_add = (word_of_nat (as_millis (elapsed now (cl_last_request cl))) * burst) div 1000;
          cl1 = cl\<lparr>cl_burst_tokens := min (cl_burst_tokens cl + tokens_to_add) burst,
                   cl_last_request := now\<rparr>;
          cl2 = (if win < elapsed now (cl_window_start cl1)
                 then cl1\<lparr>cl_count := 0, cl_window_start := now\<rparr> else cl1)
      in if max_requests \<le> cl_count cl2 then
           if 0 < cl_burst_tokens cl2 then
             (Inr (), cl2\<lparr>cl_burst_tokens := cl_burst_tokens cl2 - 1, cl_count := cl_count cl2 + 1\<rparr>)
           else (Inl (max (as_secs win - as_secs (elapsed now (cl_window_start cl2))) 1), cl2)
         else (Inr (), cl2\<lparr>cl_count := cl_count cl2 + 1\<rparr>))"

definition check_limit ::
    "instant \<Rightarrow> (string, client_limit) hmap \<Rightarrow> string \<Rightarrow> u64 \<Rightarrow> u32 \<Rightarrow> duration \<Rightarrow>
     (nat \<times> string + unit) \<times> (string, client_limit) hmap" where
  "check_limit now limits identifier max_requests burst win =
     (let cl = (case hm_get limits identifier of Some c \<Rightarrow> c | None \<Rightarrow> client_limit_new now burst);
          (r, cl1) = limit_step now max_requests burst win cl
      in (map_err (\<lambda>retry. (retry, identifier)) r, hm_insert identifier cl1 limits))"

definition cleanup_old_entries :: "instant \<Rightarrow> (string, client_limit) hmap \<Rightarrow> (string, client_limit) hmap" where
  "cleanup_old_entries now limits = hm_retain (\<lambda>_ l. now - cl_window_start l < from_secs 120) limits"

text \<open>One tick of the cleanup task.\<close>

definition cleanup_tick :: "instant \<Rightarrow> rate_limiter \<Rightarrow> rate_limiter" where
  "cleanup_tick now rl = rl\<lparr>ip_limits := cleanup_old_entries now (ip_limits rl),
     key_limits := cleanup_old_entries now (key_limits rl)\<rparr>"

section \<open>The middlewares\<close>

text \<open>
  What the caller sees: the rest of the request, a bare status 429 (the local limiter builds a
  response with a Retry-After header but returns the status alone), or a full 429 response.
\<close>

datatype rate_outcome = RunNext | Status429 | Response429 nat string

definition request_identity :: "(string \<Rightarrow> u64) \<Rightarrow> rate_limit_config \<Rightarrow> http_request \<Rightarrow> string \<times> string \<times> u64" where
  "request_identity sip cfg req =
     (case extract_bearer_token req of
        Some key \<Rightarrow> (''key:'' @ hex16 (sip key), ''api_key'', key_requests_per_second cfg)
      | None \<Rightarrow> (''ip:'' @ extract_client_ip req, ''ip'', ip_requests_per_second cfg))"

definition check_rate_limit ::
    "(string \<Rightarrow> u64) \<Rightarrow> instant \<Rightarrow> http_request \<Rightarrow> rate_limiter \<Rightarrow> rate_outcome \<times> rate_limiter" where
  "check_rate_limit sip now req rl =
     (let cfg = rl_config rl;
          (identifier, limit_type, max_requests) = request_identity sip cfg req;
          is_key = extract_bearer_token req \<noteq> None;
          limits = (if is_key then key_limits rl else ip_limits rl);
          (r, limits1) = check_limit now limits identifier max_requests (burst_size cfg) (window cfg);
          rl1 = (if is_key then rl\<lparr>key_limits := limits1\<rparr> else rl\<lparr>ip_limits := limits1\<rparr>)
      in (case r of Inr _ \<Rightarrow> RunNext | Inl _ \<Rightarrow> Status429, rl1))"

record distributed_limiter =
  dl_redis :: bool \<comment> \<open>a Redis client is configured\<close>
  dl_local :: rate_limiter
  dl_config :: rate_limit_config

definition distributed_new :: "bool \<Rightarrow> rate_limit_config \<Rightarrow> distributed_limiter" where
  "distributed_new redis cfg = \<lparr>dl_redis = redis, dl_local = limiter_with_config cfg, dl_config = cfg\<rparr>"

text \<open>
  \<open>incr key ttl\<close> is the answer of the Redis server: the count, an \<open>i64\<close>, or an error. The limit
  is cast from \<open>u64\<close> to \<open>i64\<close>.
\<close>

definition check_redis_limit ::
    "(string \<Rightarrow> nat \<Rightarrow> string + 64 word) \<Rightarrow> rate_limit_config \<Rightarrow> string \<Rightarrow> u64 \<Rightarrow> nat \<times> string + unit" where
  "check_redis_limit incr cfg identifier limit =
     (let window_secs = as_secs (window cfg)
      in case incr (''ratelimit:'' @ identifier) window_secs of
           Inr count \<Rightarrow> if limit <s count then Inl (max window_secs 1, identifier) else Inr ()
         | Inl e \<Rightarrow> Inr ())"

definition distributed_check_rate_limit ::
    "(string \<Rightarrow> nat \<Rightarrow> string + 64 word) \<Rightarrow> (string \<Rightarrow> u64) \<Rightarrow> instant \<Rightarrow> http_request \<Rightarrow>
     distributed_limiter \<Rightarrow> rate_outcome \<times> distributed_limiter" where
  "distributed_check_rate_limit incr sip now req dl =
     (let (identifier, limit_type, max_requests) = request_identity sip (dl_config dl) req
      in if dl_redis dl then
           (case check_redis_limit incr (dl_config dl) identifier max_requests of
              Inr _ \<Rightarrow> (RunNext, dl)
            | Inl (retry_after, _) \<Rightarrow> (Response429 retry_after limit_type, dl))
         else
           (case check_rate_limit sip now req (dl_local dl) of
              (r, local1) \<Rightarrow> (r, dl\<lparr>dl_local := local1\<rparr>)))"

section \<open>How much a client gets through\<close>

definition refill :: "u32 \<Rightarrow> duration \<Rightarrow> nat" where
  "refill burst d = (as_millis d * unat burst) div 1000"

lemma div_add_le: "x div k + y div k \<le> (x + y) div (k :: nat)"
  by (metis div_add1_eq le_add1)

lemma refill_add: "refill b d + refill b e \<le> refill b (d + e)"
proof -
  have "as_millis d + as_millis e \<le> as_millis (d + e)"
    unfolding as_millis_def by (rule div_add_le)
  then have le: "as_millis d * unat b + as_millis e * unat b \<le> as_millis (d + e) * unat b"
    by (metis add_mult_distrib mult_le_mono1)
  have "refill b d + refill b e \<le> (as_millis d * unat b + as_millis e * unat b) div 1000"
    unfolding refill_def by (rule div_add_le)
  also have "\<dots> \<le> refill b (d + e)"
    unfolding refill_def using le by (rule div_le_mono)
  finally show ?thesis .
qed

lemma refill_mono: "d \<le> e \<Longrightarrow> refill b d \<le> refill b e"
  by (simp add: refill_def as_millis_def div_le_mono mult_le_mono1)

text \<open>Wrapping only loses tokens.\<close>

lemma tokens_added:
  "unat ((word_of_nat (as_millis d) * b) div (1000 :: u32)) \<le> refill b d"
proof -
  have "unat (word_of_nat (as_millis d) * b :: u32) \<le> as_millis d * unat b"
  proof -
    have "unat (word_of_nat (as_millis d) * b :: u32) \<le> unat (word_of_nat (as_millis d) :: u32) * unat b"
      by (simp add: unat_word_ariths)
    also have "unat (word_of_nat (as_millis d) :: u32) \<le> as_millis d"
      by (simp add: unat_of_nat)
    finally show ?thesis by simp
  qed
  then show ?thesis
    by (simp add: refill_def unat_div div_le_mono)
qed

lemma unat_add_le: "unat (a + b) \<le> unat a + unat (b :: 'w::len word)"
  by (simp add: unat_word_ariths)

fun accepted_by ::
    "u64 \<Rightarrow> u32 \<Rightarrow> duration \<Rightarrow> instant list \<Rightarrow> client_limit \<Rightarrow> nat" where
  "accepted_by max_requests burst win [] cl = 0"
| "accepted_by max_requests burst win (t # ts) cl =
     (case limit_step t max_requests burst win cl of
        (r, cl1) \<Rightarrow> (if r = Inr () then 1 else 0) + accepted_by max_requests burst win ts cl1)"

lemma accepted_bound:
  assumes "sorted (cl_last_request cl # ts)" "\<forall>t \<in> set ts. t \<le> cl_window_start cl + win \<and> t \<le> last_t"
    and "unat (cl_count cl) + length ts < 2 ^ 64" "cl_last_request cl \<le> last_t"
  shows "accepted_by m b win ts cl \<le> (unat m - unat (cl_count cl)) + unat (cl_burst_tokens cl) +
    refill b (last_t - cl_last_request cl)"
  using assms
proof (induction ts arbitrary: cl)
  case Nil
  then show ?case by simp
next
  case (Cons t ts)
  let ?add = "(word_of_nat (as_millis (elapsed t (cl_last_request cl))) * b) div (1000 :: u32)"
  define tok where "tok = min (cl_burst_tokens cl + ?add) b"
  let ?c1 = "cl\<lparr>cl_burst_tokens := tok, cl_last_request := t\<rparr>"
  have t: "cl_last_request cl \<le> t" "t \<le> cl_window_start cl + win" "t \<le> last_t" "sorted (t # ts)"
    using Cons.prems(1,2) by auto
  have "unat tok \<le> unat (cl_burst_tokens cl + ?add)"
    by (simp add: tok_def min_def word_le_nat_alt)
  also have "\<dots> \<le> unat (cl_burst_tokens cl) + unat ?add"
    by (rule unat_add_le)
  also have "unat ?add \<le> refill b (t - cl_last_request cl)"
    using tokens_added by (simp add: elapsed_def)
  finally have tokens: "unat tok \<le> unat (cl_burst_tokens cl) + refill b (t - cl_last_request cl)" by simp
  have fill: "refill b (t - cl_last_request cl) + refill b (last_t - t) \<le> refill b (last_t - cl_last_request cl)"
    using refill_add [of b "t - cl_last_request cl" "last_t - t"] t(1,3) by simp
  have "unat (cl_count cl) + 1 < 2 ^ 64"
    using Cons.prems(3) by simp
  then have inc: "unat (cl_count cl + 1) = unat (cl_count cl) + 1"
    using unat_add_lem [of "cl_count cl" 1] by simp
  have win: "\<not> win < elapsed t (cl_window_start ?c1)"
    using t(2) by (simp add: elapsed_def)
  note IH = Cons.IH [of "?c1\<lparr>cl_count := cl_count cl + 1\<rparr>"]
    Cons.IH [of "?c1\<lparr>cl_burst_tokens := tok - 1, cl_count := cl_count cl + 1\<rparr>"] Cons.IH [of ?c1]
  show ?case
  proof (cases "m \<le> cl_count cl")
    case False
    then have "limit_step t m b win cl = (Inr (), ?c1\<lparr>cl_count := cl_count cl + 1\<rparr>)"
      using win by (simp add: limit_step_def Let_def tok_def [symmetric] del: min_less_iff_conj)
    moreover have "unat (cl_count cl) < unat m"
      using False by (simp add: word_le_nat_alt)
    ultimately show ?thesis
      using IH(1) t Cons.prems inc tokens fill by simp
  next
    case True
    then have le: "unat m \<le> unat (cl_count cl)"
      by (simp add: word_le_nat_alt)
    show ?thesis
    proof (cases "0 < tok")
      case True
      with \<open>m \<le> cl_count cl\<close> have "limit_step t m b win cl =
          (Inr (), ?c1\<lparr>cl_burst_tokens := tok - 1, cl_count := cl_count cl + 1\<rparr>)"
        using win by (simp add: limit_step_def Let_def tok_def [symmetric] del: min_less_iff_conj)
      moreover have "unat (tok - 1) = unat tok - 1" "1 \<le> unat tok"
        using unat_minus_one [of tok] True word_gt_0 [of tok] word_less_nat_alt [of 0 tok] by auto
      ultimately show ?thesis
        using IH(2) t Cons.prems inc tokens fill le by simp
    next
      case False
      with \<open>m \<le> cl_count cl\<close> have "fst (limit_step t m b win cl) \<noteq> Inr ()" "snd (limit_step t m b win cl) = ?c1"
        using win by (simp_all add: limit_step_def Let_def tok_def [symmetric] del: min_less_iff_conj)
      then have "accepted_by m b win (t # ts) cl = accepted_by m b win ts ?c1"
        by (simp add: case_prod_unfold)
      then show ?thesis
        using IH(3) t Cons.prems tokens fill by simp
    qed
  qed
qed

text \<open>The requests of one identifier through \<open>check_limit\<close>.\<close>

fun allowed ::
    "string \<Rightarrow> u64 \<Rightarrow> u32 \<Rightarrow> duration \<Rightarrow> instant list \<Rightarrow> (string, client_limit) hmap \<Rightarrow> nat" where
  "allowed identifier max_requests burst win [] limits = 0"
| "allowed identifier max_requests burst win (t # ts) limits =
     (case check_limit t limits identifier max_requests burst win of
        (r, limits1) \<Rightarrow>
          (if r = Inr () then 1 else 0) + allowed identifier max_requests burst win ts limits1)"

lemma check_limit_known:
  "hm_get limits i = Some cl \<Longrightarrow> check_limit t limits i m b win =
     (map_err (\<lambda>retry. (retry, i)) (fst (limit_step t m b win cl)),
      hm_insert i (snd (limit_step t m b win cl)) limits)"
  by (simp add: check_limit_def case_prod_unfold Let_def)

lemma allowed_known:
  "hm_get limits i = Some cl \<Longrightarrow> allowed i m b win ts limits = accepted_by m b win ts cl"
  by (induction ts arbitrary: limits cl) (simp_all add: check_limit_known case_prod_unfold)

text \<open>
  What a client gets through: of the requests a new client makes within one window after its
  first, at most the limit, plus the burst size, plus what the burst tokens refill during the
  window are accepted. The wrap-around of the counters never adds to that.
\<close>

theorem accepted_within_window:
  assumes "hm_get limits ident = None" "sorted (t0 # ts)" "\<forall>t \<in> set ts. t \<le> t0 + win"
    and "length ts < 2 ^ 63"
  shows "allowed ident max_requests burst win (t0 # ts) limits \<le>
    unat max_requests + unat burst + ((win div 1000000) * unat burst) div 1000"
proof -
  let ?cl = "client_limit_new t0 burst"
  let ?limits = "hm_insert ident ?cl limits"
  have "check_limit t0 limits ident max_requests burst win =
      (fst (check_limit t0 ?limits ident max_requests burst win),
       hm_insert ident (snd (limit_step t0 max_requests burst win ?cl)) limits)"
    using assms(1) by (simp add: check_limit_def case_prod_unfold Let_def)
  then have "allowed ident max_requests burst win (t0 # ts) limits =
      accepted_by max_requests burst win (t0 # ts) ?cl"
    using check_limit_known [of ?limits ident ?cl t0 max_requests burst win]
    by (simp add: case_prod_unfold allowed_known)
  also have "\<dots> \<le> (unat max_requests - unat (cl_count ?cl)) + unat (cl_burst_tokens ?cl) +
      refill burst ((t0 + win) - cl_last_request ?cl)"
    by (rule accepted_bound) (use assms in \<open>auto simp: client_limit_new_def\<close>)
  finally show ?thesis
    by (simp add: client_limit_new_def refill_def as_millis_def)
qed

theorem accepted_within_window_witness:
  "allowed ''ip:1'' 1 1 (from_secs 1) [0, 5, 5, 7] [] \<le>
     unat (1 :: u64) + unat (1 :: u32) + ((from_secs 1 div 1000000) * unat (1 :: u32)) div 1000"
  by (rule accepted_within_window) (simp_all add: from_secs_def)

text \<open>
  The limit is by-passed with made-up tokens: on the routes that need no key, a request that
  carries a bearer token the limiter has not seen is let through whatever the state of the limiter
  and however many requests its address has made, and is not counted against the address.
\<close>

theorem fresh_token_passes:
  assumes "rq_authorization req = Some (''Bearer '' @ token)" "token \<noteq> []" "\<not> is_ascii_space (hd token)"
    and "hm_get (key_limits rl) (''key:'' @ hex16 (sip token)) = None"
    and "0 < key_requests_per_second (rl_config rl)"
  shows "fst (check_rate_limit sip now req rl) = RunNext \<and>
    ip_limits (snd (check_rate_limit sip now req rl)) = ip_limits rl"
proof -
  have "map to_ascii_lowercase ''Bearer '' = ''bearer ''"
    by code_simp
  then have token: "extract_bearer_token req = Some token"
    using assms(1-3) by (cases token) (simp_all add: extract_bearer_token_def)
  have "fst (limit_step now (key_requests_per_second (rl_config rl)) (burst_size (rl_config rl))
      (window (rl_config rl)) (client_limit_new now (burst_size (rl_config rl)))) = Inr ()"
    using assms(5) by (simp add: limit_step_def client_limit_new_def elapsed_def Let_def not_le word_gt_0)
  then show ?thesis
    using assms(4) token
    by (simp add: check_rate_limit_def request_identity_def check_limit_def case_prod_unfold Let_def)
qed

definition demo_request :: http_request where
  "demo_request = \<lparr>rq_connect_ip = Some ''10.0.0.1'', rq_authorization = Some (''Bearer '' @ ''x7'')\<rparr>"

theorem fresh_token_passes_witness:
  "fst (check_rate_limit (\<lambda>s. word_of_nat (length s)) 5 demo_request
     ((limiter_new 1)\<lparr>ip_limits := [(''ip:10.0.0.1'',
        \<lparr>cl_count = 1, cl_window_start = 5, cl_burst_tokens = 0, cl_last_request = 5\<rparr>)]\<rparr>)) = RunNext"
  by (rule fresh_token_passes [where token = "''x7''", THEN conjunct1])
     (simp_all add: demo_request_def is_ascii_space_def code_def limiter_new_def limiter_with_config_def)

text \<open>
  When Redis fails, nothing is limited: with a Redis client configured whose server answers
  with an error, every request is let through, and the local limiter is not asked.
\<close>

theorem redis_failure_unlimited:
  assumes "dl_redis dl" "\<forall>key ttl. \<exists>e. incr key ttl = Inl e"
  shows "distributed_check_rate_limit incr sip now req dl = (RunNext, dl)"
proof -
  have "check_redis_limit incr (dl_config dl) ident limit = Inr ()" for ident limit
  proof -
    obtain e where "incr (''ratelimit:'' @ ident) (as_secs (window (dl_config dl))) = Inl e"
      using assms(2) by blast
    then show ?thesis by (simp add: check_redis_limit_def Let_def)
  qed
  then show ?thesis
    using assms(1) by (simp add: distributed_check_rate_limit_def case_prod_unfold)
qed

theorem redis_failure_unlimited_witness:
  "distributed_check_rate_limit (\<lambda>key ttl. Inl ''connection refused'') (\<lambda>s. 0) 5 demo_request
     (distributed_new True (rate_config_default\<lparr>key_requests_per_second := 0\<rparr>)) =
   (RunNext, distributed_new True (rate_config_default\<lparr>key_requests_per_second := 0\<rparr>))"
  by (rule redis_failure_unlimited) (simp_all add: distributed_new_def)

end
