(* ===== verification/ApiKeys.thy ===== *)
theory ApiKeys
  imports RateLimit
begin

text \<open>
  The API keys of \<open>gateway/src/api_keys.rs\<close>: key records, the in-memory store with its 30-second
  cache, the manager over an optional Redis, and the HTTP handlers. A \<open>DateTime<Utc>\<close> is an
  integer of nanoseconds. SHA-256, the calendar arithmetic of \<open>chrono\<close> and the Redis server are
  third-party code: arguments of the definitions. The server's state, of type \<open>'r\<close>, is threaded
  through the calls; random draws (key bytes, the id) and the clocks are arguments too.
\<close>

section \<open>Keys\<close>

record api_key =
  ak_id :: string
  ak_key_hash :: string
  ak_name :: string
  ak_created_at :: int
  ak_expires_at :: "int option"
  ak_last_used :: "int option"
  ak_enabled :: bool
  ak_scopes :: "string list"

record api_key_info =
  ki_id :: string
  ki_name :: string
  ki_created_at :: int
  ki_expires_at :: "int option"
  ki_last_used :: "int option"
  ki_enabled :: bool
  ki_scopes :: "string list"
  ki_is_expired :: bool

record key_env =
  sha256 :: "bytes \<Rightarrow> bytes"
  add_days :: "int \<Rightarrow> u32 \<Rightarrow> int"

definition generate_secure_key :: "bytes \<Rightarrow> string" where
  "generate_secure_key drawn = ''sm_'' @ hex_bytes drawn"

definition hash_key :: "key_env \<Rightarrow> string \<Rightarrow> string" where
  "hash_key K key = hex_bytes (sha256 K (str_bytes key))"

definition api_key_new ::
    "key_env \<Rightarrow> int \<Rightarrow> bytes \<Rightarrow> string \<Rightarrow> string \<Rightarrow> u32 option \<Rightarrow> string list \<Rightarrow> api_key \<times> string" where
  "api_key_new K utc drawn uuid nm expires_in_days scopes =
     (let raw_key = generate_secure_key drawn
      in (\<lparr>ak_id = uuid, ak_key_hash = hash_key K raw_key, ak_name = nm, ak_created_at = utc,
           ak_expires_at = map_option (add_days K utc) expires_in_days, ak_last_used = None,
           ak_enabled = True, ak_scopes = scopes\<rparr>, raw_key))"

definition key_is_expired :: "int \<Rightarrow> api_key \<Rightarrow> bool" where
  "key_is_expired utc k = (case ak_expires_at k of Some e \<Rightarrow> e < utc | None \<Rightarrow> False)"

definition key_is_valid :: "int \<Rightarrow> api_key \<Rightarrow> bool" where
  "key_is_valid utc k \<longleftrightarrow> ak_enabled k \<and> \<not> key_is_expired utc k"

definition key_rotate :: "key_env \<Rightarrow> bytes \<Rightarrow> api_key \<Rightarrow> string \<times> api_key" where
  "key_rotate K drawn k =
     (let raw_key = generate_secure_key drawn in (raw_key, k\<lparr>ak_key_hash := hash_key K raw_key\<rparr>))"

definition key_info :: "int \<Rightarrow> api_key \<Rightarrow> api_key_info" where
  "key_info utc k = \<lparr>ki_id = ak_id k, ki_name = ak_name k, ki_created_at = ak_created_at k,
     ki_expires_at = ak_expires_at k, ki_last_used = ak_last_used k, ki_enabled = ak_enabled k,
     ki_scopes = ak_scopes k, ki_is_expired = key_is_expired utc k\<rparr>"

section \<open>The in-memory store\<close>

record api_key_store =
  keys_by_hash :: "(string, api_key \<times> instant) hmap"
  id_to_hash :: "(string, string) hmap"
  cache_ttl :: duration

definition store_default :: api_key_store where
  "store_default = \<lparr>keys_by_hash = [], id_to_hash = [], cache_ttl = from_secs 30\<rparr>"

definition store_add :: "instant \<Rightarrow> api_key \<Rightarrow> api_key_store \<Rightarrow> api_key_store" where
  "store_add now k s = s\<lparr>id_to_hash := hm_insert (ak_id k) (ak_key_hash k) (id_to_hash s),
     keys_by_hash := hm_insert (ak_key_hash k) (k, now) (keys_by_hash s)\<rparr>"

definition get_by_hash :: "instant \<Rightarrow> api_key_store \<Rightarrow> string \<Rightarrow> api_key option" where
  "get_by_hash now s h =
     (case hm_get (keys_by_hash s) h of
        None \<Rightarrow> None
      | Some (k, cached_at) \<Rightarrow> if elapsed now cached_at < cache_ttl s then Some k else None)"

definition get_by_id :: "api_key_store \<Rightarrow> string \<Rightarrow> api_key option" where
  "get_by_id s kid =
     (case hm_get (id_to_hash s) kid of
        None \<Rightarrow> None
      | Some h \<Rightarrow> map_option fst (hm_get (keys_by_hash s) h))"

text \<open>\<open>get_by_id_mut\<close> gives a mutable reference: the update it is used for.\<close>

definition modify_by_id :: "string \<Rightarrow> (api_key \<Rightarrow> api_key) \<Rightarrow> api_key_store \<Rightarrow> api_key_store" where
  "modify_by_id kid f s =
     (case hm_get (id_to_hash s) kid of
        None \<Rightarrow> s
      | Some h \<Rightarrow>
          (case hm_get (keys_by_hash s) h of
             None \<Rightarrow> s
           | Some (k, cached_at) \<Rightarrow> s\<lparr>keys_by_hash := hm_insert h (f k, cached_at) (keys_by_hash s)\<rparr>))"

definition store_remove :: "string \<Rightarrow> api_key_store \<Rightarrow> api_key option \<times> api_key_store" where
  "store_remove kid s =
     (case hm_get (id_to_hash s) kid of
        None \<Rightarrow> (None, s)
      | Some h \<Rightarrow> (map_option fst (hm_get (keys_by_hash s) h),
          s\<lparr>id_to_hash := hm_remove kid (id_to_hash s), keys_by_hash := hm_remove h (keys_by_hash s)\<rparr>))"

definition store_list :: "api_key_store \<Rightarrow> api_key list" where
  "store_list s = map fst (hm_values (keys_by_hash s))"

definition update_hash :: "instant \<Rightarrow> string \<Rightarrow> string \<Rightarrow> string \<Rightarrow> api_key_store \<Rightarrow> api_key_store" where
  "update_hash now kid old_hash new_hash s =
     (case hm_get (keys_by_hash s) old_hash of
        None \<Rightarrow> s
      | Some (k, _) \<Rightarrow>
          s\<lparr>id_to_hash := hm_insert kid new_hash (id_to_hash s),
            keys_by_hash := hm_insert new_hash (k, now) (hm_remove old_hash (keys_by_hash s))\<rparr>)"

section \<open>The manager\<close>

text \<open>The calls of the Redis client the manager makes; an error is its text.\<close>

record 'r redis_ops =
  rd_set_json :: "string \<Rightarrow> api_key \<Rightarrow> 'r \<Rightarrow> (string + unit) \<times> 'r"
  rd_get_json :: "string \<Rightarrow> 'r \<Rightarrow> string + api_key option"
  rd_delete :: "string \<Rightarrow> 'r \<Rightarrow> (string + unit) \<times> 'r"
  rd_sadd :: "string \<Rightarrow> string \<Rightarrow> 'r \<Rightarrow> (string + unit) \<times> 'r"
  rd_srem :: "string \<Rightarrow> string \<Rightarrow> 'r \<Rightarrow> (string + unit) \<times> 'r"
  rd_smembers :: "string \<Rightarrow> 'r \<Rightarrow> string + string list"

definition REDIS_KEYS_SET :: string where
  "REDIS_KEYS_SET = ''apikeys:list''"

definition REDIS_KEY_PREFIX :: string where
  "REDIS_KEY_PREFIX = ''apikeys:''"

datatype api_key_error = Storage string | NotFound | Unauthorized | RateLimited

fun api_key_error_text :: "api_key_error \<Rightarrow> string" where
  "api_key_error_text (Storage e) = ''Storage error: '' @ e"
| "api_key_error_text NotFound = ''Key not found''"
| "api_key_error_text Unauthorized = ''Unauthorized''"
| "api_key_error_text RateLimited = ''Rate limit exceeded: too many key creations, try again later''"

record 'r api_key_manager =
  am_redis :: "'r redis_ops option"
  am_store :: api_key_store
  am_admin_key_hash :: "string option"
  am_create_timestamps :: "instant list"

definition key_manager_new :: "key_env \<Rightarrow> 'r redis_ops option \<Rightarrow> string option \<Rightarrow> 'r api_key_manager" where
  "key_manager_new K redis admin_key = \<lparr>am_redis = redis, am_store = store_default,
     am_admin_key_hash = map_option (hash_key K) admin_key, am_create_timestamps = []\<rparr>"

definition verify_admin :: "key_env \<Rightarrow> 'r api_key_manager \<Rightarrow> string \<Rightarrow> bool" where
  "verify_admin K m key =
     (case am_admin_key_hash m of None \<Rightarrow> False | Some h \<Rightarrow> hash_key K key = h)"

text \<open>The rate limit of \<open>create_key\<close>: whether a creation may go on, and the queue after it.\<close>

definition create_gate :: "instant \<Rightarrow> instant list \<Rightarrow> bool \<times> instant list" where
  "create_gate now timestamps =
     (let kept = dropWhile (\<lambda>t. t < now - from_secs 60) timestamps
      in if 10 \<le> length kept then (False, kept) else (True, kept @ [now]))"

text \<open>\<open>map_err(|e| ApiKeyError::Storage(..))?\<close>: the rest of the body runs if the call succeeded.\<close>

definition try_redis ::
    "(string + unit) \<times> 'r \<Rightarrow> ('r \<Rightarrow> (api_key_error + 'a) \<times> 's \<times> 'r) \<Rightarrow> 's \<Rightarrow> (api_key_error + 'a) \<times> 's \<times> 'r" where
  "try_redis res rest st = (case res of (Inl e, r) \<Rightarrow> (Inl (Storage e), st, r) | (Inr _, r) \<Rightarrow> rest r)"

definition create_key ::
    "key_env \<Rightarrow> instant \<Rightarrow> int \<Rightarrow> bytes \<Rightarrow> string \<Rightarrow> string \<Rightarrow> u32 option \<Rightarrow> string list \<Rightarrow>
     'r api_key_manager \<Rightarrow> 'r \<Rightarrow> (api_key_error + api_key \<times> string) \<times> 'r api_key_manager \<times> 'r" where
  "create_key K now utc drawn uuid nm expires_in_days scopes m r =
     (let (ok, ts) = create_gate now (am_create_timestamps m);
          m1 = m\<lparr>am_create_timestamps := ts\<rparr>
      in if \<not> ok then (Inl RateLimited, m1, r)
         else
           let (key, raw_key) = api_key_new K utc drawn uuid nm expires_in_days scopes;
               m2 = m1\<lparr>am_store := store_add now key (am_store m1)\<rparr>
           in (case am_redis m of
                 None \<Rightarrow> (Inr (key, raw_key), m2, r)
               | Some R \<Rightarrow>
                   try_redis (rd_set_json R (REDIS_KEY_PREFIX @ ak_id key) key r)
                     (\<lambda>r. try_redis (rd_sadd R REDIS_KEYS_SET (ak_id key) r)
                       (\<lambda>r. (Inr (key, raw_key), m2, r)) m1) m1))"

definition list_keys :: "int \<Rightarrow> 'r api_key_manager \<Rightarrow> 'r \<Rightarrow> api_key_error + api_key_info list" where
  "list_keys utc m r =
     (case am_redis m of
        Some R \<Rightarrow>
          (case rd_smembers R REDIS_KEYS_SET r of
             Inl e \<Rightarrow> Inl (Storage e)
           | Inr ids \<Rightarrow> Inr (List.map_filter
               (\<lambda>kid. case rd_get_json R (REDIS_KEY_PREFIX @ kid) r of
                       Inr (Some k) \<Rightarrow> Some (key_info utc k) | _ \<Rightarrow> None) ids))
      | None \<Rightarrow> Inr (map (key_info utc) (store_list (am_store m))))"

definition get_key :: "'r api_key_manager \<Rightarrow> 'r \<Rightarrow> string \<Rightarrow> api_key_error + api_key option" where
  "get_key m r kid =
     (case am_redis m of
        Some R \<Rightarrow> map_err Storage (rd_get_json R (REDIS_KEY_PREFIX @ kid) r)
      | None \<Rightarrow> Inr (get_by_id (am_store m) kid))"

text \<open>The search of \<open>validate_key\<close> among the ids of the server: the id and key of the first match.\<close>

fun find_key :: "'r redis_ops \<Rightarrow> int \<Rightarrow> string \<Rightarrow> 'r \<Rightarrow> string list \<Rightarrow> (string \<times> api_key) option" where
  "find_key R utc h r [] = None"
| "find_key R utc h r (kid # ids) =
     (case rd_get_json R (REDIS_KEY_PREFIX @ kid) r of
        Inr (Some k) \<Rightarrow>
          if ak_key_hash k = h \<and> key_is_valid utc k then Some (kid, k) else find_key R utc h r ids
      | _ \<Rightarrow> find_key R utc h r ids)"

definition validate_key ::
    "key_env \<Rightarrow> instant \<Rightarrow> int \<Rightarrow> string \<Rightarrow> 'r api_key_manager \<Rightarrow> 'r \<Rightarrow>
     api_key option \<times> 'r api_key_manager \<times> 'r" where
  "validate_key K now utc raw_key m r =
     (let h = hash_key K raw_key in
      case (case get_by_hash now (am_store m) h of
              Some k \<Rightarrow> if key_is_valid utc k then Some k else None | None \<Rightarrow> None) of
        Some k \<Rightarrow> (Some k, m, r)
      | None \<Rightarrow>
          (case am_redis m of
             None \<Rightarrow> (None, m, r)
           | Some R \<Rightarrow>
               (case rd_smembers R REDIS_KEYS_SET r of
                  Inl e \<Rightarrow> (None, m, r)
                | Inr ids \<Rightarrow>
                    (case find_key R utc h r ids of
                       None \<Rightarrow> (None, m, r)
                     | Some (kid, k) \<Rightarrow>
                         (Some k, m\<lparr>am_store := store_add now k (am_store m)\<rparr>,
                          snd (rd_set_json R (REDIS_KEY_PREFIX @ kid) (k\<lparr>ak_last_used := Some utc\<rparr>) r))))))"

definition revoke_key ::
    "string \<Rightarrow> 'r api_key_manager \<Rightarrow> 'r \<Rightarrow> (api_key_error + bool) \<times> 'r api_key_manager \<times> 'r" where
  "revoke_key kid m r =
     (let m1 = m\<lparr>am_store := modify_by_id kid (\<lambda>k. k\<lparr>ak_enabled := False\<rparr>) (am_store m)\<rparr> in
      case am_redis m of
        Some R \<Rightarrow>
          (case get_key m r kid of
             Inl e \<Rightarrow> (Inl e, m, r)
           | Inr None \<Rightarrow> (Inr False, m, r)
           | Inr (Some key) \<Rightarrow>
               try_redis (rd_set_json R (REDIS_KEY_PREFIX @ kid) (key\<lparr>ak_enabled := False\<rparr>) r)
                 (\<lambda>r. (Inr True, m1, r)) m)
      | None \<Rightarrow>
          if get_by_id (am_store m) kid \<noteq> None then (Inr True, m1, r) else (Inr False, m, r))"

definition delete_key ::
    "string \<Rightarrow> 'r api_key_manager \<Rightarrow> 'r \<Rightarrow> (api_key_error + bool) \<times> 'r api_key_manager \<times> 'r" where
  "delete_key kid m r =
     (let m1 = m\<lparr>am_store := snd (store_remove kid (am_store m))\<rparr> in
      case am_redis m of
        None \<Rightarrow> (Inr True, m1, r)
      | Some R \<Rightarrow>
          try_redis (rd_delete R (REDIS_KEY_PREFIX @ kid) r)
            (\<lambda>r. try_redis (rd_srem R REDIS_KEYS_SET kid r) (\<lambda>r. (Inr True, m1, r)) m) m)"

definition rotate_key ::
    "key_env \<Rightarrow> instant \<Rightarrow> bytes \<Rightarrow> string \<Rightarrow> 'r api_key_manager \<Rightarrow> 'r \<Rightarrow>
     (api_key_error + string option) \<times> 'r api_key_manager \<times> 'r" where
  "rotate_key K now drawn kid m r =
     (case get_key m r kid of
        Inl e \<Rightarrow> (Inl e, m, r)
      | Inr None \<Rightarrow> (Inr None, m, r)
      | Inr (Some key) \<Rightarrow>
          let old_hash = ak_key_hash key;
              (new_raw_key, key1) = key_rotate K drawn key;
              m1 = m\<lparr>am_store := modify_by_id kid (\<lambda>k. k\<lparr>ak_key_hash := ak_key_hash key1\<rparr>)
                      (update_hash now kid old_hash (ak_key_hash key1) (am_store m))\<rparr>
          in (case am_redis m of
                None \<Rightarrow> (Inr (Some new_raw_key), m1, r)
              | Some R \<Rightarrow>
                  try_redis (rd_set_json R (REDIS_KEY_PREFIX @ kid) key1 r)
                    (\<lambda>r. (Inr (Some new_raw_key), m1, r)) m))"

section \<open>The HTTP handlers\<close>

record create_key_request =
  cq_name :: string
  cq_expires_in_days :: "u32 option"
  cq_scopes :: "string list"

text \<open>The bodies of the replies; the status code goes with each.\<close>

datatype key_reply =
    ErrorResponse nat string string
  | CreateKeyResponse nat string string string "int option" string
  | KeyList nat "api_key_info list"
  | KeyStatus nat string string
  | RotateKeyResponse nat string string string

definition extract_admin_auth :: "key_env \<Rightarrow> http_request \<Rightarrow> 'r api_key_manager \<Rightarrow> key_reply + unit" where
  "extract_admin_auth K req m =
     (case (case rq_authorization req of
              None \<Rightarrow> None
            | Some v \<Rightarrow>
                if 7 < length v \<and> map to_ascii_lowercase (take 7 v) = ''bearer '' then
                  Some (dropWhile is_ascii_space (drop 7 v))
                else None) of
        None \<Rightarrow> Inl (ErrorResponse 401 ''Admin authorization required'' ''ADMIN_AUTH_REQUIRED'')
      | Some key \<Rightarrow>
          if verify_admin K m key then Inr ()
          else Inl (ErrorResponse 403 ''Invalid admin key'' ''INVALID_ADMIN_KEY''))"

fun create_reply :: "api_key_error + api_key \<times> string \<Rightarrow> key_reply" where
  "create_reply (Inr (key, raw_key)) =
     CreateKeyResponse 201 (ak_id key) raw_key (ak_name key) (ak_expires_at key)
       ''Save this key securely - it cannot be retrieved later''"
| "create_reply (Inl RateLimited) =
     ErrorResponse 429 ''Too many key creations, try again later'' ''RATE_LIMITED''"
| "create_reply (Inl e) = ErrorResponse 500 (api_key_error_text e) ''CREATE_FAILED''"

definition create_api_key ::
    "key_env \<Rightarrow> instant \<Rightarrow> int \<Rightarrow> bytes \<Rightarrow> string \<Rightarrow> http_request \<Rightarrow> create_key_request \<Rightarrow>
     'r api_key_manager \<Rightarrow> 'r \<Rightarrow> key_reply \<times> 'r api_key_manager \<times> 'r" where
  "create_api_key K now utc drawn uuid req body m r =
     (case extract_admin_auth K req m of
        Inl e \<Rightarrow> (e, m, r)
      | Inr _ \<Rightarrow>
          apfst create_reply
            (create_key K now utc drawn uuid (cq_name body) (cq_expires_in_days body) (cq_scopes body) m r))"

definition list_api_keys :: "key_env \<Rightarrow> int \<Rightarrow> http_request \<Rightarrow> 'r api_key_manager \<Rightarrow> 'r \<Rightarrow> key_reply" where
  "list_api_keys K utc req m r =
     (case extract_admin_auth K req m of
        Inl e \<Rightarrow> e
      | Inr _ \<Rightarrow>
          (case list_keys utc m r of
             Inr keys \<Rightarrow> KeyList 200 keys
           | Inl e \<Rightarrow> ErrorResponse 500 (api_key_error_text e) ''LIST_FAILED''))"

fun status_reply :: "string \<Rightarrow> string \<Rightarrow> string \<Rightarrow> api_key_error + bool \<Rightarrow> key_reply" where
  "status_reply kid status failed (Inr True) = KeyStatus 200 status kid"
| "status_reply kid status failed (Inr False) = ErrorResponse 404 ''Key not found'' ''NOT_FOUND''"
| "status_reply kid status failed (Inl e) = ErrorResponse 500 (api_key_error_text e) failed"

definition delete_api_key ::
    "key_env \<Rightarrow> http_request \<Rightarrow> string \<Rightarrow> 'r api_key_manager \<Rightarrow> 'r \<Rightarrow> key_reply \<times> 'r api_key_manager \<times> 'r" where
  "delete_api_key K req kid m r =
     (case extract_admin_auth K req m of
        Inl e \<Rightarrow> (e, m, r)
      | Inr _ \<Rightarrow> apfst (status_reply kid ''deleted'' ''DELETE_FAILED'') (delete_key kid m r))"

definition revoke_api_key ::
    "key_env \<Rightarrow> http_request \<Rightarrow> string \<Rightarrow> 'r api_key_manager \<Rightarrow> 'r \<Rightarrow> key_reply \<times> 'r api_key_manager \<times> 'r" where
  "revoke_api_key K req kid m r =
     (case extract_admin_auth K req m of
        Inl e \<Rightarrow> (e, m, r)
      | Inr _ \<Rightarrow> apfst (status_reply kid ''revoked'' ''REVOKE_FAILED'') (revoke_key kid m r))"

fun rotate_reply :: "string \<Rightarrow> api_key_error + string option \<Rightarrow> key_reply" where
  "rotate_reply kid (Inr (Some new_key)) = RotateKeyResponse 200 kid new_key
     ''Save this key securely - it cannot be retrieved later. The old key is now invalid.''"
| "rotate_reply kid (Inr None) = ErrorResponse 404 ''Key not found'' ''NOT_FOUND''"
| "rotate_reply kid (Inl e) = ErrorResponse 500 (api_key_error_text e) ''ROTATE_FAILED''"

definition rotate_api_key ::
    "key_env \<Rightarrow> instant \<Rightarrow> bytes \<Rightarrow> http_request \<Rightarrow> string \<Rightarrow> 'r api_key_manager \<Rightarrow> 'r \<Rightarrow>
     key_reply \<times> 'r api_key_manager \<times> 'r" where
  "rotate_api_key K now drawn req kid m r =
     (case extract_admin_auth K req m of
        Inl e \<Rightarrow> (e, m, r)
      | Inr _ \<Rightarrow> apfst (rotate_reply kid) (rotate_key K now drawn kid m r))"

section \<open>A gateway without Redis\<close>

text \<open>
  The operations on the keys of one gateway, and the passing of time. The world is the monotone
  clock, the manager and the (idle) server.
\<close>

datatype key_op =
    KeyWait duration
  | KeyCreate int bytes string string "u32 option" "string list"
  | KeyValidate int string
  | KeyRevoke string
  | KeyDelete string
  | KeyRotate bytes string

record key_world =
  kw_clock :: instant
  kw_manager :: "unit api_key_manager"

fun apply_key_op :: "key_env \<Rightarrow> key_op \<Rightarrow> key_world \<Rightarrow> key_world" where
  "apply_key_op K (KeyWait d) w = w\<lparr>kw_clock := kw_clock w + d\<rparr>"
| "apply_key_op K (KeyCreate utc drawn uuid nm days scopes) w =
     w\<lparr>kw_manager := fst (snd (create_key K (kw_clock w) utc drawn uuid nm days scopes (kw_manager w) ()))\<rparr>"
| "apply_key_op K (KeyValidate utc raw) w =
     w\<lparr>kw_manager := fst (snd (validate_key K (kw_clock w) utc raw (kw_manager w) ()))\<rparr>"
| "apply_key_op K (KeyRevoke kid) w = w\<lparr>kw_manager := fst (snd (revoke_key kid (kw_manager w) ()))\<rparr>"
| "apply_key_op K (KeyDelete kid) w = w\<lparr>kw_manager := fst (snd (delete_key kid (kw_manager w) ()))\<rparr>"
| "apply_key_op K (KeyRotate drawn kid) w =
     w\<lparr>kw_manager := fst (snd (rotate_key K (kw_clock w) drawn kid (kw_manager w) ()))\<rparr>"

definition key_world_new :: "key_env \<Rightarrow> string option \<Rightarrow> key_world" where
  "key_world_new K admin_key = \<lparr>kw_clock = 0, kw_manager = key_manager_new K None admin_key\<rparr>"

abbreviation kw_store :: "key_world \<Rightarrow> api_key_store" where
  "kw_store w \<equiv> am_store (kw_manager w)"

lemma create_gate_snd: "\<not> fst (create_gate now q) \<Longrightarrow> set (snd (create_gate now q)) \<subseteq> set q"
  by (auto simp: create_gate_def Let_def dest: set_dropWhileD split: if_splits)

text \<open>The operations without Redis, by their effect on the store.\<close>

lemma validate_local:
  "am_redis m = None \<Longrightarrow> validate_key K now utc raw m r =
     (case get_by_hash now (am_store m) (hash_key K raw) of
        Some k \<Rightarrow> if key_is_valid utc k then Some k else None | None \<Rightarrow> None, m, r)"
  by (simp add: validate_key_def Let_def split: option.splits)

lemma revoke_local:
  "am_redis m = None \<Longrightarrow> fst (snd (revoke_key kid m r)) =
     m\<lparr>am_store := modify_by_id kid (\<lambda>k. k\<lparr>ak_enabled := False\<rparr>) (am_store m)\<rparr>"
  by (auto simp: revoke_key_def modify_by_id_def get_by_id_def Let_def split: option.splits)

lemma delete_local:
  "am_redis m = None \<Longrightarrow>
     delete_key kid m r = (Inr True, m\<lparr>am_store := snd (store_remove kid (am_store m))\<rparr>, r)"
  by (simp add: delete_key_def Let_def)

definition rotated_store :: "instant \<Rightarrow> string \<Rightarrow> string \<Rightarrow> api_key_store \<Rightarrow> api_key_store" where
  "rotated_store now kid new_hash s =
     (case get_by_id s kid of
        None \<Rightarrow> s
      | Some k \<Rightarrow> modify_by_id kid (\<lambda>k. k\<lparr>ak_key_hash := new_hash\<rparr>)
          (update_hash now kid (ak_key_hash k) new_hash s))"

lemma rotate_local:
  "am_redis m = None \<Longrightarrow> fst (snd (rotate_key K now drawn kid m r)) =
     m\<lparr>am_store := rotated_store now kid (hash_key K (generate_secure_key drawn)) (am_store m)\<rparr>"
  by (auto simp: rotate_key_def rotated_store_def get_key_def key_rotate_def Let_def split: option.splits)

lemma create_local:
  "am_redis m = None \<Longrightarrow> fst (snd (create_key K now utc drawn uuid nm days scopes m r)) =
     m\<lparr>am_create_timestamps := snd (create_gate now (am_create_timestamps m)),
       am_store := (if fst (create_gate now (am_create_timestamps m))
         then store_add now (fst (api_key_new K utc drawn uuid nm days scopes)) (am_store m)
         else am_store m)\<rparr>"
  by (simp add: create_key_def Let_def case_prod_unfold)

subsection \<open>Cached entries are never younger than the clock\<close>

definition key_clock_inv :: "key_world \<Rightarrow> bool" where
  "key_clock_inv w \<longleftrightarrow> am_redis (kw_manager w) = None \<and> cache_ttl (kw_store w) = from_secs 30 \<and>
     (\<forall>h k t. hm_get (keys_by_hash (kw_store w)) h = Some (k, t) \<longrightarrow> t \<le> kw_clock w)"

lemmas store_defs = store_add_def modify_by_id_def store_remove_def update_hash_def
  rotated_store_def get_by_id_def get_by_hash_def

lemma apply_key_op_clock_inv: "key_clock_inv w \<Longrightarrow> key_clock_inv (apply_key_op K op w)"
proof (induction K op w rule: apply_key_op.induct)
  case (1 K d w)
  then show ?case by (force simp: key_clock_inv_def)
next
  case (2 K utc drawn uuid nm days scopes w)
  then show ?case by (auto simp: key_clock_inv_def create_local store_add_def)
next
  case (3 K utc raw w)
  then show ?case by (simp add: key_clock_inv_def validate_local)
next
  case (4 K kid w)
  then show ?case
    by (auto simp: key_clock_inv_def revoke_local modify_by_id_def split: option.splits)
next
  case (5 K kid w)
  then show ?case
    by (auto simp: key_clock_inv_def delete_local store_remove_def split: option.splits if_splits)
next
  case (6 K drawn kid w)
  then show ?case
    by (auto simp: key_clock_inv_def rotate_local store_defs split: option.splits if_splits)
qed

interpretation gateway_keys: call_machine "apply_key_op K" key_clock_inv for K
  by unfold_locales (rule apply_key_op_clock_inv)

lemma key_world_new_inv: "key_clock_inv (key_world_new K admin_key)"
  by (simp add: key_clock_inv_def key_world_new_def key_manager_new_def store_default_def)

lemmas key_run_inv = gateway_keys.run_inv [OF key_world_new_inv]

subsection \<open>The store is consistent\<close>

definition store_ok :: "api_key_store \<Rightarrow> bool" where
  "store_ok s \<longleftrightarrow>
     (\<forall>kid h. hm_get (id_to_hash s) kid = Some h \<longrightarrow>
        (\<exists>k t. hm_get (keys_by_hash s) h = Some (k, t) \<and> ak_id k = kid)) \<and>
     (\<forall>h k t. hm_get (keys_by_hash s) h = Some (k, t) \<longrightarrow>
        ak_key_hash k = h \<and> hm_get (id_to_hash s) (ak_id k) = Some h)"

lemma store_okD:
  assumes "store_ok s"
  shows "hm_get (id_to_hash s) kid = Some h \<Longrightarrow> \<exists>k t. hm_get (keys_by_hash s) h = Some (k, t) \<and> ak_id k = kid"
    and "hm_get (keys_by_hash s) h = Some (k, t) \<Longrightarrow> ak_key_hash k = h \<and> hm_get (id_to_hash s) (ak_id k) = Some h"
  using assms unfolding store_ok_def by blast+

lemma store_ok_default [simp]: "store_ok store_default"
  by (simp add: store_ok_def store_default_def)

lemma store_ok_add:
  assumes "store_ok s" "hm_get (id_to_hash s) (ak_id k) = None"
    and "hm_get (keys_by_hash s) (ak_key_hash k) = None"
  shows "store_ok (store_add now k s)"
  unfolding store_ok_def
proof (intro conjI allI impI)
  fix kid h assume "hm_get (id_to_hash (store_add now k s)) kid = Some h"
  then show "\<exists>k' t. hm_get (keys_by_hash (store_add now k s)) h = Some (k', t) \<and> ak_id k' = kid"
    using assms store_okD(1) [OF assms(1), of kid h] by (auto simp: store_add_def split: if_splits)
next
  fix h k' t assume h: "hm_get (keys_by_hash (store_add now k s)) h = Some (k', t)"
  then show "ak_key_hash k' = h"
    using store_okD(2) [OF assms(1), of h k' t] by (auto simp: store_add_def split: if_splits)
  show "hm_get (id_to_hash (store_add now k s)) (ak_id k') = Some h"
    using h assms(2) store_okD(2) [OF assms(1), of h k' t] by (auto simp: store_add_def split: if_splits)
qed

text \<open>What the operations leave under each hash: the lookups after them, by the key's id.\<close>

lemma store_ok_lookup:
  assumes "store_ok s"
  shows "hm_get (id_to_hash s) kid = Some h \<longleftrightarrow>
    (\<exists>k t. hm_get (keys_by_hash s) h = Some (k, t) \<and> ak_id k = kid)"
  using store_okD [OF assms] by blast

lemma modify_ids [simp]: "id_to_hash (modify_by_id kid f s) = id_to_hash s"
  by (simp add: modify_by_id_def split: option.splits)

lemma modify_ttl [simp]: "cache_ttl (modify_by_id kid f s) = cache_ttl s"
  by (simp add: modify_by_id_def split: option.splits)

lemma modify_keys:
  assumes "store_ok s"
  shows "hm_get (keys_by_hash (modify_by_id kid f s)) h =
    map_option (apfst (\<lambda>k. if ak_id k = kid then f k else k)) (hm_get (keys_by_hash s) h)"
proof (cases "hm_get (id_to_hash s) kid")
  case None
  have "ak_id k \<noteq> kid" if "hm_get (keys_by_hash s) h = Some (k, t)" for k t
    using store_okD(2) [OF assms that] None by auto
  with None show ?thesis
    by (cases "hm_get (keys_by_hash s) h") (auto simp: modify_by_id_def)
next
  case (Some h0)
  then obtain k0 t0 where k0: "hm_get (keys_by_hash s) h0 = Some (k0, t0)" "ak_id k0 = kid"
    using store_okD(1) [OF assms] by blast
  have "ak_id k \<noteq> kid" if "hm_get (keys_by_hash s) h = Some (k, t)" "h \<noteq> h0" for k t
    using store_okD(2) [OF assms that(1)] that(2) Some by auto
  with Some k0 show ?thesis
    by (cases "hm_get (keys_by_hash s) h") (auto simp: modify_by_id_def)
qed

lemma remove_ids:
  "hm_get (id_to_hash (snd (store_remove kid s))) kid' =
     (if kid' = kid then None else hm_get (id_to_hash s) kid')"
  by (auto simp: store_remove_def split: option.splits)

lemma remove_ttl [simp]: "cache_ttl (snd (store_remove kid s)) = cache_ttl s"
  by (simp add: store_remove_def split: option.splits)

lemma remove_keys:
  assumes "store_ok s"
  shows "hm_get (keys_by_hash (snd (store_remove kid s))) h =
    (case hm_get (keys_by_hash s) h of
       None \<Rightarrow> None | Some (k, t) \<Rightarrow> if ak_id k = kid then None else Some (k, t))"
proof (cases "hm_get (id_to_hash s) kid")
  case None
  have "ak_id k \<noteq> kid" if "hm_get (keys_by_hash s) h = Some (k, t)" for k t
    using store_okD(2) [OF assms that] None by auto
  with None show ?thesis
    by (cases "hm_get (keys_by_hash s) h") (auto simp: store_remove_def)
next
  case (Some h0)
  then obtain k0 t0 where k0: "hm_get (keys_by_hash s) h0 = Some (k0, t0)" "ak_id k0 = kid"
    using store_okD(1) [OF assms] by blast
  have "ak_id k \<noteq> kid" if "hm_get (keys_by_hash s) h = Some (k, t)" "h \<noteq> h0" for k t
    using store_okD(2) [OF assms that(1)] that(2) Some by auto
  with Some k0 show ?thesis
    by (cases "hm_get (keys_by_hash s) h") (auto simp: store_remove_def)
qed

lemma store_ok_modify:
  assumes "store_ok s" "\<And>k. ak_id (f k) = ak_id k" "\<And>k. ak_key_hash (f k) = ak_key_hash k"
  shows "store_ok (modify_by_id kid f s)"
  unfolding store_ok_def
proof (intro conjI allI impI)
  fix kid' h assume "hm_get (id_to_hash (modify_by_id kid f s)) kid' = Some h"
  then obtain k0 t where "hm_get (keys_by_hash s) h = Some (k0, t)" "ak_id k0 = kid'"
    using store_okD(1) [OF assms(1), of kid' h] by auto
  then have "hm_get (keys_by_hash (modify_by_id kid f s)) h = Some (if kid' = kid then f k0 else k0, t)"
    "ak_id (if kid' = kid then f k0 else k0) = kid'"
    by (simp_all add: modify_keys [OF assms(1)] assms(2))
  then show "\<exists>k t. hm_get (keys_by_hash (modify_by_id kid f s)) h = Some (k, t) \<and> ak_id k = kid'"
    by blast
next
  fix h k t assume "hm_get (keys_by_hash (modify_by_id kid f s)) h = Some (k, t)"
  then obtain k0 where "hm_get (keys_by_hash s) h = Some (k0, t)" "k = (if ak_id k0 = kid then f k0 else k0)"
    by (auto simp: modify_keys [OF assms(1)])
  with store_okD(2) [OF assms(1) this(1)] assms(2,3)
  show "ak_key_hash k = h" "hm_get (id_to_hash (modify_by_id kid f s)) (ak_id k) = Some h"
    by auto
qed

lemma store_ok_remove:
  assumes "store_ok s"
  shows "store_ok (snd (store_remove kid s))"
  unfolding store_ok_def
proof (intro conjI allI impI)
  fix kid' h assume "hm_get (id_to_hash (snd (store_remove kid s))) kid' = Some h"
  then have "kid' \<noteq> kid" "hm_get (id_to_hash s) kid' = Some h"
    by (simp_all add: remove_ids split: if_splits)
  then show "\<exists>k t. hm_get (keys_by_hash (snd (store_remove kid s))) h = Some (k, t) \<and> ak_id k = kid'"
    using store_okD(1) [OF assms, of kid' h] by (auto simp: remove_keys [OF assms])
next
  fix h k t assume "hm_get (keys_by_hash (snd (store_remove kid s))) h = Some (k, t)"
  then have "hm_get (keys_by_hash s) h = Some (k, t)" "ak_id k \<noteq> kid"
    by (auto simp: remove_keys [OF assms] split: option.splits if_splits)
  with store_okD(2) [OF assms this(1)]
  show "ak_key_hash k = h" "hm_get (id_to_hash (snd (store_remove kid s))) (ak_id k) = Some h"
    by (simp_all add: remove_ids)
qed

lemma rotated_keys:
  assumes "store_ok s" "hm_get (keys_by_hash s) new_hash = None" "get_by_id s kid = Some k0"
  shows "hm_get (keys_by_hash (rotated_store now kid new_hash s)) h =
    (if h = new_hash then Some (k0\<lparr>ak_key_hash := new_hash\<rparr>, now)
     else if h = ak_key_hash k0 then None else hm_get (keys_by_hash s) h)"
    and "hm_get (id_to_hash (rotated_store now kid new_hash s)) kid' =
      (if kid' = kid then Some new_hash else hm_get (id_to_hash s) kid')"
    and "ak_id k0 = kid"
    and "cache_ttl (rotated_store now kid new_hash s) = cache_ttl s"
proof -
  obtain h0 t0 where h0: "hm_get (id_to_hash s) kid = Some h0" "hm_get (keys_by_hash s) h0 = Some (k0, t0)"
    using assms(3) by (auto simp: get_by_id_def split: option.splits)
  have k0: "ak_key_hash k0 = h0" "ak_id k0 = kid"
    using store_okD(1) [OF assms(1) h0(1)] store_okD(2) [OF assms(1) h0(2)] h0(2) by auto
  have ne: "h0 \<noteq> new_hash"
    using h0(2) assms(2) by auto
  show "ak_id k0 = kid" by (fact k0(2))
  show "hm_get (keys_by_hash (rotated_store now kid new_hash s)) h =
    (if h = new_hash then Some (k0\<lparr>ak_key_hash := new_hash\<rparr>, now)
     else if h = ak_key_hash k0 then None else hm_get (keys_by_hash s) h)"
    using assms(3) h0 k0 ne by (simp add: rotated_store_def update_hash_def modify_by_id_def)
  show "hm_get (id_to_hash (rotated_store now kid new_hash s)) kid' =
      (if kid' = kid then Some new_hash else hm_get (id_to_hash s) kid')"
    "cache_ttl (rotated_store now kid new_hash s) = cache_ttl s"
    using assms(3) h0 k0 ne by (simp_all add: rotated_store_def update_hash_def modify_by_id_def)
qed

lemma store_ok_rotate:
  assumes "store_ok s" "hm_get (keys_by_hash s) new_hash = None"
  shows "store_ok (rotated_store now kid new_hash s)"
proof (cases "get_by_id s kid")
  case None
  with assms(1) show ?thesis by (simp add: rotated_store_def)
next
  case (Some k0)
  note R = rotated_keys [OF assms Some]
  obtain h0 t0 where h0: "hm_get (id_to_hash s) kid = Some h0" "hm_get (keys_by_hash s) h0 = Some (k0, t0)"
    using Some by (auto simp: get_by_id_def split: option.splits)
  have k0: "ak_key_hash k0 = h0"
    using store_okD(2) [OF assms(1) h0(2)] by blast
  show ?thesis
    unfolding store_ok_def
  proof (intro conjI allI impI)
    fix kid' h assume "hm_get (id_to_hash (rotated_store now kid new_hash s)) kid' = Some h"
    then show "\<exists>k t. hm_get (keys_by_hash (rotated_store now kid new_hash s)) h = Some (k, t) \<and> ak_id k = kid'"
    proof (cases "kid' = kid")
      case True
      with \<open>hm_get _ kid' = Some h\<close> have "h = new_hash" by (simp add: R(2))
      with True R(3) show ?thesis by (simp add: R(1))
    next
      case False
      with \<open>hm_get _ kid' = Some h\<close> have "hm_get (id_to_hash s) kid' = Some h" by (simp add: R(2))
      then obtain k t where "hm_get (keys_by_hash s) h = Some (k, t)" "ak_id k = kid'"
        using store_okD(1) [OF assms(1)] by blast
      moreover from this have "h \<noteq> new_hash" "h \<noteq> h0"
        using False R(3) assms(2) h0(2) by auto
      ultimately show ?thesis using k0 by (simp add: R(1))
    qed
  next
    fix h k t assume h: "hm_get (keys_by_hash (rotated_store now kid new_hash s)) h = Some (k, t)"
    then show "ak_key_hash k = h"
      using store_okD(2) [OF assms(1), of h k t] by (auto simp: R(1) split: if_splits)
    show "hm_get (id_to_hash (rotated_store now kid new_hash s)) (ak_id k) = Some h"
    proof (cases "h = new_hash")
      case True
      with h R(3) show ?thesis by (auto simp: R(1,2))
    next
      case False
      with h k0 have "h \<noteq> h0" "hm_get (keys_by_hash s) h = Some (k, t)"
        by (auto simp: R(1) split: if_splits)
      moreover from this have "ak_id k \<noteq> kid"
        using store_okD(2) [OF assms(1), of h k t] h0(1) by auto
      ultimately show ?thesis
        using store_okD(2) [OF assms(1), of h k t] by (simp add: R(2))
    qed
  qed
qed

text \<open>
  The gateways reached when the drawn ids are unused and the drawn keys hash to unused values, as
  random ids and 256-bit keys do.
\<close>

fun fresh_key_op :: "key_env \<Rightarrow> key_op \<Rightarrow> api_key_store \<Rightarrow> bool" where
  "fresh_key_op K (KeyCreate utc drawn uuid nm days scopes) s \<longleftrightarrow>
     hm_get (id_to_hash s) uuid = None \<and>
     hm_get (keys_by_hash s) (hash_key K (generate_secure_key drawn)) = None"
| "fresh_key_op K (KeyRotate drawn kid) s \<longleftrightarrow>
     hm_get (keys_by_hash s) (hash_key K (generate_secure_key drawn)) = None"
| "fresh_key_op K op s \<longleftrightarrow> True"

inductive key_reachable :: "key_env \<Rightarrow> string option \<Rightarrow> key_world \<Rightarrow> bool" for K admin_key where
  start: "key_reachable K admin_key (key_world_new K admin_key)"
| step: "key_reachable K admin_key w \<Longrightarrow> fresh_key_op K op (kw_store w) \<Longrightarrow>
    key_reachable K admin_key (apply_key_op K op w)"

lemma apply_key_op_store_ok:
  "\<lbrakk>am_redis (kw_manager w) = None; store_ok (kw_store w); fresh_key_op K op (kw_store w)\<rbrakk>
     \<Longrightarrow> store_ok (kw_store (apply_key_op K op w))"
  by (cases op) (simp_all add: create_local validate_local revoke_local delete_local rotate_local
      store_ok_add store_ok_modify store_ok_remove store_ok_rotate api_key_new_def Let_def)

lemma key_reachable_inv: "key_reachable K admin_key w \<Longrightarrow> key_clock_inv w \<and> store_ok (kw_store w)"
proof (induction rule: key_reachable.induct)
  case start
  show ?case
    using key_world_new_inv [of K admin_key] by (simp add: key_world_new_def key_manager_new_def)
next
  case (step w op)
  then show ?case
    using apply_key_op_clock_inv [of w K op] apply_key_op_store_ok [of w K op]
    by (simp add: key_clock_inv_def)
qed

lemma key_reachableD:
  assumes "key_reachable K admin_key w"
  shows "am_redis (kw_manager w) = None" "cache_ttl (kw_store w) = from_secs 30"
    "hm_get (keys_by_hash (kw_store w)) h = Some (k, t) \<Longrightarrow> t \<le> kw_clock w" "store_ok (kw_store w)"
  using key_reachable_inv [OF assms] by (auto simp: key_clock_inv_def)

text \<open>What a hash finds after a change: the change, on the key of that id alone.\<close>

definition other_key :: "string \<Rightarrow> api_key option \<Rightarrow> api_key option" where
  "other_key kid found = (case found of None \<Rightarrow> None | Some k \<Rightarrow> if ak_id k = kid then None else Some k)"

lemma get_by_hash_modify:
  assumes "store_ok s"
  shows "get_by_hash now (modify_by_id kid f s) h =
    map_option (\<lambda>k. if ak_id k = kid then f k else k) (get_by_hash now s h)"
  by (auto simp: get_by_hash_def modify_keys [OF assms] split: option.splits)

lemma get_by_hash_remove:
  assumes "store_ok s"
  shows "get_by_hash now (snd (store_remove kid s)) h = other_key kid (get_by_hash now s h)"
  by (auto simp: get_by_hash_def other_key_def remove_keys [OF assms] split: option.splits)

lemma get_by_hash_rotate:
  assumes "store_ok s" "hm_get (keys_by_hash s) new_hash = None" "get_by_id s kid = Some k0" "h \<noteq> new_hash"
  shows "get_by_hash now (rotated_store now0 kid new_hash s) h = other_key kid (get_by_hash now s h)"
proof -
  note R = rotated_keys [OF assms(1-3)]
  obtain h0 t0 where h0: "hm_get (id_to_hash s) kid = Some h0" "hm_get (keys_by_hash s) h0 = Some (k0, t0)"
    using assms(3) by (auto simp: get_by_id_def split: option.splits)
  have hash: "ak_key_hash k0 = h0"
    using store_okD(2) [OF assms(1) h0(2)] by blast
  have "ak_id k = kid \<longleftrightarrow> h = h0" if "hm_get (keys_by_hash s) h = Some (k, t)" for k t
    using store_okD(2) [OF assms(1) that] that h0 R(3) by auto
  then show ?thesis
    using assms(4) hash by (fastforce simp: get_by_hash_def other_key_def R(1,4) split: option.splits)
qed

text \<open>The key a secret is accepted for, at the readings \<open>now\<close> and \<open>utc\<close> of the clocks.\<close>

definition accepted_for :: "key_env \<Rightarrow> instant \<Rightarrow> int \<Rightarrow> unit api_key_manager \<Rightarrow> string \<Rightarrow> api_key option" where
  "accepted_for K now utc m raw = fst (validate_key K now utc raw m ())"

lemma accepted_for_local:
  "am_redis m = None \<Longrightarrow> accepted_for K now utc m raw =
     (case get_by_hash now (am_store m) (hash_key K raw) of
        Some k \<Rightarrow> if key_is_valid utc k then Some k else None | None \<Rightarrow> None)"
  by (simp add: accepted_for_def validate_local)

lemma get_by_hash_id: "store_ok s \<Longrightarrow> get_by_hash now s h = Some k \<Longrightarrow> ak_key_hash k = h"
  by (auto simp: get_by_hash_def dest: store_okD split: option.splits if_splits)

definition demo_keys :: key_env where
  "demo_keys = \<lparr>sha256 = (\<lambda>bs. bs), add_days = (\<lambda>t days. t + int (unat days))\<rparr>"

definition demo_key_world :: key_world where
  "demo_key_world = apply_key_op demo_keys (KeyCreate 0 [1] ''k1'' ''ci'' None []) (key_world_new demo_keys None)"

section \<open>Properties\<close>

text \<open>
  Without Redis a key works for half a minute only. A key just created, after any operations,
  is accepted exactly while fewer than 30 seconds have passed and it has not expired; after 30
  seconds the gateway accepts no key at all, although it still lists the key, enabled.
\<close>

theorem local_keys_lapse:
  assumes "w = fold (apply_key_op K) ops (key_world_new K admin_key)"
    and "create_key K (kw_clock w) utc drawn uuid nm days scopes (kw_manager w) () = (Inr (key, raw), m, ())"
  shows "fst (validate_key K (kw_clock w + d) utc' raw m ()) =
      (if d < from_secs 30 \<and> key_is_valid utc' key then Some key else None) \<and>
    (from_secs 30 \<le> d \<longrightarrow> (\<forall>other. fst (validate_key K (kw_clock w + d) utc' other m ()) = None)) \<and>
    ak_enabled key \<and> get_key m () (ak_id key) = Inr (Some key)"
proof -
  have inv: "key_clock_inv w"
    unfolding assms(1) by (rule key_run_inv)
  then have redis: "am_redis (kw_manager w) = None"
    and ttl: "cache_ttl (kw_store w) = from_secs 30"
    and clock: "\<And>h k t. hm_get (keys_by_hash (kw_store w)) h = Some (k, t) \<Longrightarrow> t \<le> kw_clock w"
    by (auto simp: key_clock_inv_def)
  have m: "m = (kw_manager w)\<lparr>
      am_create_timestamps := snd (create_gate (kw_clock w) (am_create_timestamps (kw_manager w))),
      am_store := store_add (kw_clock w) key (kw_store w)\<rparr>"
    and key: "ak_enabled key" "ak_key_hash key = hash_key K raw"
    using assms(2) redis
    by (auto simp: create_key_def api_key_new_def Let_def case_prod_unfold split: if_splits)
  have "am_redis m = None"
    using redis m by simp
  note valid = validate_local [OF this]
  have "get_by_hash (kw_clock w + d) (am_store m) (hash_key K raw) =
      (if d < from_secs 30 then Some key else None)"
    by (simp add: m get_by_hash_def store_add_def key(2) elapsed_def ttl)
  moreover have "get_by_hash (kw_clock w + d) (am_store m) h = None" if "from_secs 30 \<le> d" for h
    using that clock [of h]
    by (fastforce simp: m get_by_hash_def store_add_def elapsed_def ttl split: option.splits)
  moreover have "get_key m () (ak_id key) = Inr (Some key)"
    using redis by (simp add: m get_key_def get_by_id_def store_add_def)
  ultimately show ?thesis
    using key(1) by (auto simp: valid)
qed

theorem local_keys_lapse_witness:
  "fst (validate_key demo_keys (from_secs 31) 7 (generate_secure_key [1]) (kw_manager demo_key_world) ()) = None"
proof -
  have w: "key_world_new demo_keys None = fold (apply_key_op demo_keys) [] (key_world_new demo_keys None)"
    by simp
  have made: "create_key demo_keys (kw_clock (key_world_new demo_keys None)) 0 [1] ''k1'' ''ci'' None []
      (kw_manager (key_world_new demo_keys None)) () =
    (Inr (api_key_new demo_keys 0 [1] ''k1'' ''ci'' None []), kw_manager demo_key_world, ())"
    by (simp add: demo_key_world_def create_key_def create_gate_def key_world_new_def
        key_manager_new_def api_key_new_def Let_def)
  have made': "create_key demo_keys (kw_clock (key_world_new demo_keys None)) 0 [1] ''k1'' ''ci'' None []
      (kw_manager (key_world_new demo_keys None)) () =
    (Inr (fst (api_key_new demo_keys 0 [1] ''k1'' ''ci'' None []), generate_secure_key [1]),
     kw_manager demo_key_world, ())"
    unfolding made by (simp add: api_key_new_def Let_def)
  show ?thesis
    using local_keys_lapse [OF w made', of "from_secs 31" 7] by (simp add: key_world_new_def from_secs_def)
qed

text \<open>
  C11. Without Redis, revoking, deleting and rotating a key take effect at once and on that key
  alone: after revoking or deleting \<open>kid\<close> a secret is accepted just if it was accepted before for
  another key, and after rotating it the old secrets of \<open>kid\<close> are refused, those of the other keys
  are accepted as before, and the new secret stands for \<open>kid\<close> as it was.
\<close>

theorem key_changes_at_once:
  assumes "key_reachable K admin_key w" "fresh_key_op K (KeyRotate drawn kid) (kw_store w)"
    and "get_by_id (kw_store w) kid = Some k0"
    and "hash_key K raw \<noteq> hash_key K (generate_secure_key drawn)"
  shows "accepted_for K now utc (fst (snd (revoke_key kid (kw_manager w) ()))) raw =
      other_key kid (accepted_for K now utc (kw_manager w) raw) \<and>
    accepted_for K now utc (fst (snd (delete_key kid (kw_manager w) ()))) raw =
      other_key kid (accepted_for K now utc (kw_manager w) raw) \<and>
    accepted_for K now utc (fst (snd (rotate_key K (kw_clock w) drawn kid (kw_manager w) ()))) raw =
      other_key kid (accepted_for K now utc (kw_manager w) raw) \<and>
    map_option ak_id (accepted_for K now utc
        (fst (snd (rotate_key K (kw_clock w) drawn kid (kw_manager w) ()))) (generate_secure_key drawn)) =
      (if elapsed now (kw_clock w) < from_secs 30 \<and> key_is_valid utc k0 then Some kid else None)"
proof -
  note R = key_reachableD [OF assms(1)]
  have fresh: "hm_get (keys_by_hash (kw_store w)) (hash_key K (generate_secure_key drawn)) = None"
    using assms(2) by simp
  note rotated = rotated_keys [OF R(4) fresh assms(3)]
  have valid: "key_is_valid utc (k0\<lparr>ak_key_hash := x\<rparr>) = key_is_valid utc k0" for x
    by (simp add: key_is_valid_def key_is_expired_def)
  have "accepted_for K now utc (fst (snd (revoke_key kid (kw_manager w) ()))) raw =
      other_key kid (accepted_for K now utc (kw_manager w) raw)"
    by (auto simp: accepted_for_local R(1) revoke_local get_by_hash_modify [OF R(4)] other_key_def
        key_is_valid_def key_is_expired_def split: option.splits)
  moreover have "accepted_for K now utc (fst (snd (delete_key kid (kw_manager w) ()))) raw =
      other_key kid (accepted_for K now utc (kw_manager w) raw)"
    by (auto simp: accepted_for_local R(1) delete_local get_by_hash_remove [OF R(4)] other_key_def
        split: option.splits)
  moreover have "accepted_for K now utc (fst (snd (rotate_key K (kw_clock w) drawn kid (kw_manager w) ()))) raw =
      other_key kid (accepted_for K now utc (kw_manager w) raw)"
    by (auto simp: accepted_for_local R(1) rotate_local other_key_def
        get_by_hash_rotate [OF R(4) fresh assms(3,4)] split: option.splits)
  moreover have "map_option ak_id (accepted_for K now utc
        (fst (snd (rotate_key K (kw_clock w) drawn kid (kw_manager w) ()))) (generate_secure_key drawn)) =
      (if elapsed now (kw_clock w) < from_secs 30 \<and> key_is_valid utc k0 then Some kid else None)"
    by (simp add: accepted_for_local R(1,2) rotate_local get_by_hash_def rotated(1,4) rotated(3) valid)
  ultimately show ?thesis by blast
qed

theorem key_changes_at_once_witness:
  "accepted_for demo_keys 5 7
     (fst (snd (revoke_key ''k1'' (kw_manager demo_key_world) ()))) (generate_secure_key [1]) =
   other_key ''k1'' (accepted_for demo_keys 5 7 (kw_manager demo_key_world) (generate_secure_key [1]))"
proof (rule key_changes_at_once [THEN conjunct1])
  have "length (hash_key demo_keys (generate_secure_key [1])) \<noteq> length (hash_key demo_keys (generate_secure_key []))"
    by (simp add: hash_key_def demo_keys_def generate_secure_key_def hex_bytes_def str_bytes_def)
  then show ne: "hash_key demo_keys (generate_secure_key [1]) \<noteq> hash_key demo_keys (generate_secure_key [])"
    by auto
  note made = demo_key_world_def create_local create_gate_def key_world_new_def key_manager_new_def
    api_key_new_def store_add_def store_default_def
  show "key_reachable demo_keys None demo_key_world"
    unfolding demo_key_world_def
    by (rule key_reachable.step [OF key_reachable.start])
       (simp add: key_world_new_def key_manager_new_def store_default_def)
  show "fresh_key_op demo_keys (KeyRotate [] ''k1'') (kw_store demo_key_world)"
    using ne by (simp add: made Let_def)
  show "get_by_id (kw_store demo_key_world) ''k1'' =
      Some (fst (api_key_new demo_keys 0 [1] ''k1'' ''ci'' None []))"
    by (simp add: made get_by_id_def Let_def)
qed

section \<open>The creation limit\<close>

text \<open>The readings of the clock at which a run of operations was let through to create a key.\<close>

fun creation_times :: "key_env \<Rightarrow> key_op list \<Rightarrow> key_world \<Rightarrow> instant list" where
  "creation_times K [] w = []"
| "creation_times K (op # ops) w =
     (case op of
        KeyCreate utc drawn uuid nm days scopes \<Rightarrow>
          (if fst (create_key K (kw_clock w) utc drawn uuid nm days scopes (kw_manager w) ()) = Inl RateLimited
           then [] else [kw_clock w])
      | _ \<Rightarrow> []) @ creation_times K ops (apply_key_op K op w)"

definition queue_ok :: "instant \<Rightarrow> instant list \<Rightarrow> bool" where
  "queue_ok clock q \<longleftrightarrow> sorted q \<and> length q \<le> 10 \<and> (\<forall>t\<in>set q. t \<le> clock)"

definition in_minute :: "instant \<Rightarrow> instant list \<Rightarrow> nat" where
  "in_minute a q = length (filter (\<lambda>t. a \<le> t \<and> t \<le> a + from_secs 60) q)"

lemma in_minute_append [simp]: "in_minute a (p @ q) = in_minute a p + in_minute a q"
  by (simp add: in_minute_def)

lemma in_minute_late: "\<forall>t\<in>set q. a + from_secs 60 < t \<Longrightarrow> in_minute a q = 0"
  by (force simp: in_minute_def filter_empty_conv)

lemma in_minute_dropWhile:
  "now \<le> a + from_secs 60 \<Longrightarrow> in_minute a (dropWhile (\<lambda>t. t < now - from_secs 60) q) = in_minute a q"
  by (induction q) (auto simp: in_minute_def)

lemma queue_ok_gate: "queue_ok clock q \<Longrightarrow> queue_ok clock (snd (create_gate clock q))"
  using length_dropWhile_le [of "\<lambda>t. t < clock - from_secs 60" q]
  by (auto simp: queue_ok_def create_gate_def Let_def sorted_append sorted_dropWhile
      dest: set_dropWhileD)

lemma queue_ok_minute: "queue_ok clock q \<Longrightarrow> in_minute a q \<le> 10"
  by (simp add: queue_ok_def in_minute_def le_trans [OF length_filter_le])

lemma queue_ok_later: "queue_ok clock q \<Longrightarrow> clock \<le> clock' \<Longrightarrow> queue_ok clock' q"
  by (force simp: queue_ok_def)

lemma try_redis_state: "(\<And>r. fst (snd (rest r)) = st \<or> fst (snd (rest r)) = st') \<Longrightarrow>
    fst (snd (try_redis res rest st)) = st \<or> fst (snd (try_redis res rest st)) = st'"
  by (auto simp: try_redis_def split: prod.splits sum.splits)

lemma create_key_gate:
  "am_create_timestamps (fst (snd (create_key K now utc drawn uuid nm days scopes m r))) =
     snd (create_gate now (am_create_timestamps m))"
  "fst (create_key K now utc drawn uuid nm days scopes m r) = Inl RateLimited \<longleftrightarrow>
     \<not> fst (create_gate now (am_create_timestamps m))"
  by (auto simp: create_key_def try_redis_def Let_def case_prod_unfold split: option.splits sum.splits)

lemma other_ops_queue:
  "am_create_timestamps (fst (snd (validate_key K now utc raw m r))) = am_create_timestamps m"
  "am_create_timestamps (fst (snd (revoke_key kid m r))) = am_create_timestamps m"
  "am_create_timestamps (fst (snd (delete_key kid m r))) = am_create_timestamps m"
  "am_create_timestamps (fst (snd (rotate_key K now drawn kid m r))) = am_create_timestamps m"
  by (auto simp: validate_key_def revoke_key_def delete_key_def rotate_key_def try_redis_def
      Let_def case_prod_unfold split: option.splits sum.splits)

lemma apply_key_op_clock: "kw_clock w \<le> kw_clock (apply_key_op K op w)"
  by (cases op) simp_all

lemma creation_times_late: "t \<in> set (creation_times K ops w) \<Longrightarrow> kw_clock w \<le> t"
proof (induction ops arbitrary: w)
  case Nil
  then show ?case by simp
next
  case (Cons op ops)
  then show ?case
    using apply_key_op_clock [of w K op] by (fastforce split: key_op.splits if_splits)
qed

lemma creation_times_limit:
  "queue_ok (kw_clock w) (am_create_timestamps (kw_manager w)) \<Longrightarrow>
   in_minute a (am_create_timestamps (kw_manager w)) + in_minute a (creation_times K ops w) \<le> 10"
proof (induction ops arbitrary: w)
  case Nil
  then show ?case
    using queue_ok_minute by (simp add: in_minute_def)
next
  case (Cons op ops)
  let ?q = "am_create_timestamps (kw_manager w)"
  show ?case
  proof (cases "\<exists>utc drawn uuid nm days scopes. op = KeyCreate utc drawn uuid nm days scopes")
    case False
    then have "am_create_timestamps (kw_manager (apply_key_op K op w)) = ?q \<and>
      creation_times K (op # ops) w = creation_times K ops (apply_key_op K op w)"
      by (cases op) (simp_all add: other_ops_queue)
    with Cons.IH [of "apply_key_op K op w"] queue_ok_later [OF Cons.prems apply_key_op_clock]
    show ?thesis by simp
  next
    case True
    then obtain utc drawn uuid nm days scopes where op: "op = KeyCreate utc drawn uuid nm days scopes"
      by blast
    let ?now = "kw_clock w"
    have q': "am_create_timestamps (kw_manager (apply_key_op K op w)) = snd (create_gate ?now ?q)"
      and clock: "kw_clock (apply_key_op K op w) = ?now"
      by (simp_all add: op create_key_gate)
    have times: "creation_times K (op # ops) w = (if fst (create_gate ?now ?q) then [?now] else []) @
        creation_times K ops (apply_key_op K op w)"
      by (simp add: op create_key_gate)
    have IH: "in_minute a (snd (create_gate ?now ?q)) +
        in_minute a (creation_times K ops (apply_key_op K op w)) \<le> 10"
      using Cons.IH [of "apply_key_op K op w"] queue_ok_gate [OF Cons.prems] q' clock by simp
    show ?thesis
    proof (cases "?now \<le> a + from_secs 60")
      case True
      then have "in_minute a (snd (create_gate ?now ?q)) =
          in_minute a ?q + in_minute a (if fst (create_gate ?now ?q) then [?now] else [])"
        by (simp add: create_gate_def Let_def in_minute_dropWhile) (simp add: in_minute_def)
      with IH show ?thesis
        unfolding times by simp
    next
      case False
      then have "in_minute a (creation_times K (op # ops) w) = 0"
        using creation_times_late [of _ K "op # ops" w] by (force intro: in_minute_late)
      moreover have "in_minute a ?q \<le> 10"
        using Cons.prems by (rule queue_ok_minute)
      ultimately show ?thesis by simp
    qed
  qed
qed

text \<open>
  Key creation is limited as documented: whatever the operations and the pauses between them,
  at most ten creations pass the limit in any closed interval of 60 seconds.
\<close>

theorem at_most_ten_creations:
  assumes "am_create_timestamps (kw_manager w) = []"
  shows "length (filter (\<lambda>t. a \<le> t \<and> t \<le> a + from_secs 60) (creation_times K ops w)) \<le> 10"
  using creation_times_limit [of w a K ops] assms by (simp add: queue_ok_def in_minute_def)

theorem at_most_ten_creations_witness:
  "length (filter (\<lambda>t. 5 \<le> t \<and> t \<le> 5 + from_secs 60)
     (creation_times demo_keys (replicate 12 (KeyCreate 0 [1] ''k1'' ''ci'' None []))
       (key_world_new demo_keys None))) \<le> 10"
  by (rule at_most_ten_creations) (simp add: key_world_new_def key_manager_new_def)

end
