(* ===== verification/NodeStorage.thy ===== *)
theory NodeStorage
  imports Prelude
begin

text \<open>
  The fragment store of a node, \<open>node-runner/src/storage.rs\<close>: metadata of fragments and of content
  in two maps, fragment files and an index file on disk, the usage counter and the statistics.

  The disk is part of the state (\<open>sm_disk\<close>, the bytes of each file). Whether a call to the file
  system fails is the caller's argument \<open>io\<close>: a failed write may leave the file as it was or with
  any other bytes in it. The JSON encoding of the index is the argument \<open>J\<close>. \<open>now\<close> is the clock
  in seconds since the epoch.
\<close>

section \<open>The file system\<close>

type_synonym path = "string list"
type_synonym io_error = string
type_synonym disk = "(path, bytes) hmap"

record io =
  io_create_dir :: "path \<Rightarrow> io_error option"
  io_write :: "path \<Rightarrow> (io_error \<times> bytes option) option"
  io_read :: "path \<Rightarrow> io_error option"
  io_remove :: "path \<Rightarrow> io_error option"

definition no_such_file :: io_error where
  "no_such_file = ''No such file or directory (os error 2)''"

definition not_utf8 :: io_error where
  "not_utf8 = ''stream did not contain valid UTF-8''"

definition create_dir_all :: "io \<Rightarrow> path \<Rightarrow> io_error + unit" where
  "create_dir_all io p = (case io_create_dir io p of Some e \<Rightarrow> Inl e | None \<Rightarrow> Inr ())"

definition fs_write :: "io \<Rightarrow> path \<Rightarrow> bytes \<Rightarrow> disk \<Rightarrow> (io_error + unit) \<times> disk" where
  "fs_write io p data d =
     (case io_write io p of
        None \<Rightarrow> (Inr (), hm_insert p data d)
      | Some (e, None) \<Rightarrow> (Inl e, d)
      | Some (e, Some left) \<Rightarrow> (Inl e, hm_insert p left d))"

definition fs_read :: "io \<Rightarrow> path \<Rightarrow> disk \<Rightarrow> io_error + bytes" where
  "fs_read io p d =
     (case io_read io p of Some e \<Rightarrow> Inl e | None \<Rightarrow> ok_or no_such_file (hm_get d p))"

definition fs_remove_file :: "io \<Rightarrow> path \<Rightarrow> disk \<Rightarrow> (io_error + unit) \<times> disk" where
  "fs_remove_file io p d =
     (case io_remove io p of
        Some e \<Rightarrow> (Inl e, d)
      | None \<Rightarrow> (if hm_get d p = None then (Inl no_such_file, d) else (Inr (), hm_remove p d)))"

definition path_exists :: "path \<Rightarrow> disk \<Rightarrow> bool" where
  "path_exists p d \<longleftrightarrow> hm_get d p \<noteq> None"

text \<open>Well-formed UTF-8, as \<open>read_to_string\<close> requires: no overlong form, no surrogate.\<close>

fun utf8_valid :: "nat list \<Rightarrow> bool" where
  "utf8_valid [] \<longleftrightarrow> True"
| "utf8_valid (a # s) \<longleftrightarrow>
     (if a < 128 then utf8_valid s
      else (case s of
        [] \<Rightarrow> False
      | b # s2 \<Rightarrow>
          if 194 \<le> a \<and> a < 224 then 128 \<le> b \<and> b < 192 \<and> utf8_valid s2
          else (case s2 of
            [] \<Rightarrow> False
          | c # s3 \<Rightarrow>
              if 224 \<le> a \<and> a < 240 then
                (if a = 224 then 160 else 128) \<le> b \<and> b < (if a = 237 then 160 else 192) \<and>
                128 \<le> c \<and> c < 192 \<and> utf8_valid s3
              else (case s3 of
                [] \<Rightarrow> False
              | e # s4 \<Rightarrow>
                  240 \<le> a \<and> a < 245 \<and>
                  (if a = 240 then 144 else 128) \<le> b \<and> b < (if a = 244 then 144 else 192) \<and>
                  128 \<le> c \<and> c < 192 \<and> 128 \<le> e \<and> e < 192 \<and> utf8_valid s4))))"

definition fs_read_to_string :: "io \<Rightarrow> path \<Rightarrow> disk \<Rightarrow> io_error + bytes" where
  "fs_read_to_string io p d =
     (case fs_read io p d of
        Inl e \<Rightarrow> Inl e
      | Inr bs \<Rightarrow> if utf8_valid (map unat bs) then Inr bs else Inl not_utf8)"

section \<open>Metadata, statistics and errors\<close>

record storage_stats =
  ss_total_bytes :: u64
  ss_fragment_count :: u64
  ss_content_count :: u64
  ss_pinned_count :: u64
  ss_capacity_bytes :: u64
  ss_last_gc :: "u64 option"

definition available_bytes :: "storage_stats \<Rightarrow> u64" where
  "available_bytes s = sat_sub (ss_capacity_bytes s) (ss_total_bytes s)"

record stored_fragment =
  sf_hash :: string
  sf_cid :: string
  sf_index :: u32
  sf_size :: u64
  sf_stored_at :: u64
  sf_last_accessed :: u64
  sf_access_count :: u64
  sf_pinned :: bool

record stored_content =
  sc_cid :: string
  sc_name :: string
  sc_total_size :: u64
  sc_fragment_count :: u32
  sc_fragments :: "string list"
  sc_stored_at :: u64
  sc_pinned :: bool
  sc_mime_type :: string

type_synonym frag_map = "(string, stored_fragment) hmap"
type_synonym content_map = "(string, stored_content) hmap"

record index_codec =
  ix_to_json :: "frag_map \<times> content_map \<Rightarrow> io_error + bytes"
  ix_from_json :: "bytes \<Rightarrow> (frag_map \<times> content_map) option"

text \<open>
  \<open>StorageError\<close>. The last constructor is no error value: it is the panic of \<open>&hash[..32]\<close> when
  the 32nd byte is inside a character, which no \<open>let _ =\<close> and no \<open>is_ok()\<close> discards.
\<close>

datatype storage_error =
    InsufficientSpace u64 u64
  | NotFound string
  | Pinned string
  | InvalidHash string
  | Io io_error
  | SlicePanic string

definition storage_error_text :: "storage_error \<Rightarrow> string" where
  "storage_error_text e =
     (case e of
        InsufficientSpace required available \<Rightarrow>
          ''Insufficient space: need '' @ show_nat (unat required) @ '' bytes, have '' @
          show_nat (unat available) @ '' available''
      | NotFound s \<Rightarrow> ''Not found: '' @ s
      | Pinned s \<Rightarrow> ''Content is pinned: '' @ s
      | InvalidHash h \<Rightarrow> ''Invalid fragment hash: '' @ [CHR 0x27] @ h @ [CHR 0x27]
      | Io err \<Rightarrow> ''IO error: '' @ err
      | SlicePanic h \<Rightarrow> [])"

record gc_result =
  gr_freed_bytes :: u64
  gr_removed_fragments :: u64
  gr_removed_content :: u64

record storage =
  sm_data_dir :: path
  sm_max_capacity :: u64
  sm_fragments :: frag_map
  sm_content :: content_map
  sm_usage :: u64
  sm_stats :: storage_stats
  sm_disk :: disk

section \<open>Paths and the index file\<close>

definition metadata_path :: "storage \<Rightarrow> path" where
  "metadata_path st = sm_data_dir st @ [''metadata'', ''index.json'']"

definition is_char_boundary :: "string \<Rightarrow> nat \<Rightarrow> bool" where
  "is_char_boundary s n \<longleftrightarrow> n = 0 \<or> n = length s \<or> n < length s \<and> \<not> is_continuation (s ! n)"

definition safe_hash :: "string \<Rightarrow> bool" where
  "safe_hash hash \<longleftrightarrow>
     hash \<noteq> [] \<and> length hash \<le> 512 \<and> list_all is_ascii_alphanumeric hash"

definition fragment_path :: "path \<Rightarrow> string \<Rightarrow> storage_error + path" where
  "fragment_path data_dir hash =
     (if \<not> safe_hash hash then
        (let n = min (length hash) 32 in
         if is_char_boundary hash n then Inl (InvalidHash (take n hash)) else Inl (SlicePanic hash))
      else Inr (data_dir @ [''fragments'', take (min 2 (length hash)) hash, hash]))"

definition save_metadata :: "io \<Rightarrow> index_codec \<Rightarrow> storage \<Rightarrow> (io_error + unit) \<times> storage" where
  "save_metadata io J st =
     (case ix_to_json J (sm_fragments st, sm_content st) of
        Inl e \<Rightarrow> (Inl e, st)
      | Inr data \<Rightarrow>
          (case fs_write io (metadata_path st) data (sm_disk st) of
             (r, d) \<Rightarrow> (r, st\<lparr>sm_disk := d\<rparr>)))"

definition save_or_fail :: "io \<Rightarrow> index_codec \<Rightarrow> storage \<Rightarrow> (storage_error + unit) \<times> storage" where
  "save_or_fail io J st = (case save_metadata io J st of (r, st') \<Rightarrow> (map_err Io r, st'))"

definition pinned_items :: "content_map \<Rightarrow> u64" where
  "pinned_items m = word_of_nat (length (filter sc_pinned (hm_values m)))"

definition load_metadata :: "io \<Rightarrow> index_codec \<Rightarrow> storage \<Rightarrow> io_error + storage" where
  "load_metadata io J st =
     (if \<not> path_exists (metadata_path st) (sm_disk st) then Inr st
      else case fs_read_to_string io (metadata_path st) (sm_disk st) of
        Inl e \<Rightarrow> Inl e
      | Inr data \<Rightarrow>
          (case ix_from_json J data of
             None \<Rightarrow> Inr st
           | Some (frags, cont) \<Rightarrow>
               (let usage = sum_list (map sf_size (hm_values frags)) in
                Inr (st\<lparr>sm_fragments := frags, sm_content := cont, sm_usage := usage,
                  sm_stats := (sm_stats st)\<lparr>ss_total_bytes := usage,
                    ss_fragment_count := word_of_nat (length frags),
                    ss_content_count := word_of_nat (length cont),
                    ss_pinned_count := pinned_items cont\<rparr>\<rparr>))))"

definition empty_manager :: "path \<Rightarrow> u64 \<Rightarrow> disk \<Rightarrow> storage" where
  "empty_manager data_dir max_capacity d =
     \<lparr>sm_data_dir = data_dir, sm_max_capacity = max_capacity, sm_fragments = [], sm_content = [],
      sm_usage = 0,
      sm_stats = \<lparr>ss_total_bytes = 0, ss_fragment_count = 0, ss_content_count = 0,
                  ss_pinned_count = 0, ss_capacity_bytes = max_capacity, ss_last_gc = None\<rparr>,
      sm_disk = d\<rparr>"

definition storage_new :: "io \<Rightarrow> index_codec \<Rightarrow> path \<Rightarrow> u64 \<Rightarrow> disk \<Rightarrow> io_error + storage" where
  "storage_new io J data_dir max_capacity d =
     (case create_dir_all io data_dir of
        Inl e \<Rightarrow> Inl e
      | Inr _ \<Rightarrow>
     (case create_dir_all io (data_dir @ [''fragments'']) of
        Inl e \<Rightarrow> Inl e
      | Inr _ \<Rightarrow>
     (case create_dir_all io (data_dir @ [''metadata'']) of
        Inl e \<Rightarrow> Inl e
      | Inr _ \<Rightarrow> load_metadata io J (empty_manager data_dir max_capacity d))))"

section \<open>Fragments\<close>

definition record_fragment :: "u64 \<Rightarrow> string \<Rightarrow> string \<Rightarrow> u32 \<Rightarrow> u64 \<Rightarrow> storage \<Rightarrow> storage" where
  "record_fragment now hash cid index sz st =
     st\<lparr>sm_fragments := hm_insert hash
           \<lparr>sf_hash = hash, sf_cid = cid, sf_index = index, sf_size = sz, sf_stored_at = now,
            sf_last_accessed = now, sf_access_count = 0, sf_pinned = False\<rparr> (sm_fragments st),
         sm_usage := sm_usage st + sz,
         sm_stats := (sm_stats st)\<lparr>ss_total_bytes := ss_total_bytes (sm_stats st) + sz,
           ss_fragment_count := ss_fragment_count (sm_stats st) + 1\<rparr>\<rparr>"

definition store_fragment ::
    "io \<Rightarrow> index_codec \<Rightarrow> u64 \<Rightarrow> string \<Rightarrow> string \<Rightarrow> u32 \<Rightarrow> bytes \<Rightarrow> storage \<Rightarrow>
     (storage_error + unit) \<times> storage" where
  "store_fragment io J now hash cid index data st =
     (let sz = word_of_nat (length data); current = sm_usage st in
      if current + sz > sm_max_capacity st then
        (Inl (InsufficientSpace sz (sat_sub (sm_max_capacity st) current)), st)
      else case fragment_path (sm_data_dir st) hash of
        Inl e \<Rightarrow> (Inl e, st)
      | Inr p \<Rightarrow>
          (case create_dir_all io (butlast p) of
             Inl e \<Rightarrow> (Inl (Io e), st)
           | Inr _ \<Rightarrow>
               (case fs_write io p data (sm_disk st) of
                  (Inl e, d) \<Rightarrow> (Inl (Io e), st\<lparr>sm_disk := d\<rparr>)
                | (Inr _, d) \<Rightarrow>
                    save_or_fail io J (record_fragment now hash cid index sz (st\<lparr>sm_disk := d\<rparr>)))))"

definition bump_access :: "u64 \<Rightarrow> string \<Rightarrow> storage \<Rightarrow> storage" where
  "bump_access now hash st =
     st\<lparr>sm_fragments := hm_modify hash
        (\<lambda>f. f\<lparr>sf_last_accessed := now, sf_access_count := sf_access_count f + 1\<rparr>) (sm_fragments st)\<rparr>"

definition has_fragment :: "storage \<Rightarrow> string \<Rightarrow> bool" where
  "has_fragment st hash \<longleftrightarrow> hm_get (sm_fragments st) hash \<noteq> None"

definition get_fragment :: "io \<Rightarrow> u64 \<Rightarrow> string \<Rightarrow> storage \<Rightarrow> (storage_error + bytes) \<times> storage" where
  "get_fragment io now hash st =
     (if hm_get (sm_fragments st) hash = None then (Inl (NotFound hash), st)
      else case fragment_path (sm_data_dir st) hash of
        Inl e \<Rightarrow> (Inl e, st)
      | Inr p \<Rightarrow>
          (case fs_read io p (sm_disk st) of
             Inl e \<Rightarrow> (Inl (Io e), st)
           | Inr data \<Rightarrow> (Inr data, bump_access now hash st)))"

definition get_fragment_path :: "u64 \<Rightarrow> string \<Rightarrow> storage \<Rightarrow> (storage_error + path) \<times> storage" where
  "get_fragment_path now hash st =
     (if hm_get (sm_fragments st) hash = None then (Inl (NotFound hash), st)
      else (fragment_path (sm_data_dir st) hash, bump_access now hash st))"

section \<open>Content\<close>

definition count_content :: "storage \<Rightarrow> storage" where
  "count_content st =
     st\<lparr>sm_stats := (sm_stats st)\<lparr>ss_content_count := word_of_nat (length (sm_content st))\<rparr>\<rparr>"

definition store_content ::
    "io \<Rightarrow> index_codec \<Rightarrow> stored_content \<Rightarrow> storage \<Rightarrow> (storage_error + unit) \<times> storage" where
  "store_content io J c st =
     save_or_fail io J (count_content (st\<lparr>sm_content := hm_insert (sc_cid c) c (sm_content st)\<rparr>))"

definition get_content :: "storage \<Rightarrow> string \<Rightarrow> stored_content option" where
  "get_content st cid = hm_get (sm_content st) cid"

definition list_content :: "storage \<Rightarrow> stored_content list" where
  "list_content st = hm_values (sm_content st)"

definition set_pinned :: "bool \<Rightarrow> string \<Rightarrow> storage \<Rightarrow> (storage_error + unit) \<times> storage" where
  "set_pinned b cid st =
     (case hm_get (sm_content st) cid of
        None \<Rightarrow> (Inl (NotFound cid), st)
      | Some c \<Rightarrow>
          (let content = hm_insert cid (c\<lparr>sc_pinned := b\<rparr>) (sm_content st);
               frags = fold (\<lambda>hash. hm_modify hash (\<lambda>f. f\<lparr>sf_pinned := b\<rparr>)) (sc_fragments c)
                         (sm_fragments st) in
           (Inr (), st\<lparr>sm_content := content, sm_fragments := frags,
              sm_stats := (sm_stats st)\<lparr>ss_pinned_count := pinned_items content\<rparr>\<rparr>)))"

definition pin :: "io \<Rightarrow> index_codec \<Rightarrow> string \<Rightarrow> storage \<Rightarrow> (storage_error + unit) \<times> storage" where
  "pin io J cid st =
     (case set_pinned True cid st of (Inl e, st') \<Rightarrow> (Inl e, st') | (Inr _, st') \<Rightarrow> save_or_fail io J st')"

definition unpin :: "io \<Rightarrow> index_codec \<Rightarrow> string \<Rightarrow> storage \<Rightarrow> (storage_error + unit) \<times> storage" where
  "unpin io J cid st =
     (case set_pinned False cid st of (Inl e, st') \<Rightarrow> (Inl e, st') | (Inr _, st') \<Rightarrow> save_or_fail io J st')"

definition forget_fragment :: "string \<Rightarrow> u64 \<Rightarrow> storage \<Rightarrow> storage" where
  "forget_fragment hash sz st =
     st\<lparr>sm_fragments := hm_remove hash (sm_fragments st),
        sm_usage := sat_sub (sm_usage st) sz,
        sm_stats := (sm_stats st)\<lparr>ss_total_bytes := sat_sub (ss_total_bytes (sm_stats st)) sz,
          ss_fragment_count := sat_sub (ss_fragment_count (sm_stats st)) 1\<rparr>\<rparr>"

definition delete_fragment :: "io \<Rightarrow> string \<Rightarrow> storage \<Rightarrow> (storage_error + unit) \<times> storage" where
  "delete_fragment io hash st =
     (case fragment_path (sm_data_dir st) hash of
        Inl e \<Rightarrow> (Inl e, st)
      | Inr p \<Rightarrow>
          (let sz = (case hm_get (sm_fragments st) hash of None \<Rightarrow> 0 | Some f \<Rightarrow> sf_size f) in
           if path_exists p (sm_disk st) then
             (case fs_remove_file io p (sm_disk st) of
                (Inl e, d) \<Rightarrow> (Inl (Io e), st)
              | (Inr _, d) \<Rightarrow> (Inr (), forget_fragment hash sz (st\<lparr>sm_disk := d\<rparr>)))
           else (Inr (), forget_fragment hash sz st)))"

text \<open>The loop of \<open>delete\<close>: errors are discarded, a panic is not.\<close>

fun delete_fragments :: "io \<Rightarrow> string list \<Rightarrow> storage \<Rightarrow> (storage_error + unit) \<times> storage" where
  "delete_fragments io [] st = (Inr (), st)"
| "delete_fragments io (h # hs) st =
     (case delete_fragment io h st of
        (Inl (SlicePanic p), st') \<Rightarrow> (Inl (SlicePanic p), st')
      | (_, st') \<Rightarrow> delete_fragments io hs st')"

definition delete :: "io \<Rightarrow> index_codec \<Rightarrow> string \<Rightarrow> storage \<Rightarrow> (storage_error + unit) \<times> storage" where
  "delete io J cid st =
     (case hm_get (sm_content st) cid of
        None \<Rightarrow> (Inl (NotFound cid), st)
      | Some c \<Rightarrow>
          if sc_pinned c then (Inl (Pinned cid), st)
          else (case delete_fragments io (sc_fragments c) st of
                  (Inl e, st') \<Rightarrow> (Inl e, st')
                | (Inr _, st') \<Rightarrow> save_or_fail io J
                    (count_content (st'\<lparr>sm_content := hm_remove cid (sm_content st')\<rparr>))))"

section \<open>Garbage collection\<close>

definition last_access :: "frag_map \<Rightarrow> stored_content \<Rightarrow> u64" where
  "last_access frags c =
     (case map sf_last_accessed (List.map_filter (hm_get frags) (sc_fragments c)) of
        [] \<Rightarrow> 0
      | t # ts \<Rightarrow> min_list (t # ts))"

definition unpinned_by_age :: "storage \<Rightarrow> stored_content list" where
  "unpinned_by_age st =
     sort_key (last_access (sm_fragments st))
       (filter (\<lambda>c. \<not> sc_pinned c) (hm_values (sm_content st)))"

text \<open>Each \<open>delete\<close> of the loop meets its own file system, \<open>ios\<close> of the CID.\<close>

fun gc_loop ::
    "(string \<Rightarrow> io) \<Rightarrow> index_codec \<Rightarrow> u64 \<Rightarrow> stored_content list \<Rightarrow> gc_result \<Rightarrow> storage \<Rightarrow>
     (storage_error + gc_result) \<times> storage" where
  "gc_loop ios J need [] acc st = (Inr acc, st)"
| "gc_loop ios J need (c # cs) acc st =
     (if gr_freed_bytes acc \<ge> need then (Inr acc, st)
      else case delete (ios (sc_cid c)) J (sc_cid c) st of
        (Inl (SlicePanic p), st') \<Rightarrow> (Inl (SlicePanic p), st')
      | (Inl _, st') \<Rightarrow> gc_loop ios J need cs acc st'
      | (Inr _, st') \<Rightarrow> gc_loop ios J need cs
          \<lparr>gr_freed_bytes = gr_freed_bytes acc + sc_total_size c,
           gr_removed_fragments =
             gr_removed_fragments acc + word_of_nat (length (sc_fragments c)),
           gr_removed_content = gr_removed_content acc + 1\<rparr> st')"

definition garbage_collect ::
    "(string \<Rightarrow> io) \<Rightarrow> index_codec \<Rightarrow> u64 \<Rightarrow> u64 \<Rightarrow> storage \<Rightarrow> (storage_error + gc_result) \<times> storage" where
  "garbage_collect ios J now target_free_bytes st =
     (let available = sat_sub (sm_max_capacity st) (sm_usage st);
          none_freed = \<lparr>gr_freed_bytes = 0, gr_removed_fragments = 0, gr_removed_content = 0\<rparr> in
      if available \<ge> target_free_bytes then (Inr none_freed, st)
      else case gc_loop ios J (target_free_bytes - available) (unpinned_by_age st) none_freed st of
        (Inl e, st') \<Rightarrow> (Inl e, st')
      | (Inr r, st') \<Rightarrow> (Inr r, st'\<lparr>sm_stats := (sm_stats st')\<lparr>ss_last_gc := Some now\<rparr>\<rparr>))"

definition get_stats :: "storage \<Rightarrow> storage_stats" where
  "get_stats st = sm_stats st"

end
