(* ===== verification/StorageSafety.thy ===== *)
theory StorageSafety
  imports NodeStorage
begin

text \<open>
  The fragment store proved correct: the usage counter, what pinning protects, what garbage
  collection frees, what a restart reads back; and where the accounting and the sharing of
  fragments between content go wrong.
\<close>

section \<open>Sequences of calls\<close>

datatype storage_op =
    CallStoreFragment string string u32 bytes
  | CallGetFragment string
  | CallGetFragmentPath string
  | CallStoreContent stored_content
  | CallPinContent string
  | CallUnpinContent string
  | CallDeleteContent string
  | CallCollectGarbage u64

type_synonym storage_event = "(string \<Rightarrow> io) \<times> u64 \<times> storage_op"

fun storage_step :: "index_codec \<Rightarrow> storage_event \<Rightarrow> storage \<Rightarrow> storage" where
  "storage_step J (ios, now, CallStoreFragment h cid i data) st =
     snd (store_fragment (ios []) J now h cid i data st)"
| "storage_step J (ios, now, CallGetFragment h) st = snd (get_fragment (ios []) now h st)"
| "storage_step J (ios, now, CallGetFragmentPath h) st = snd (get_fragment_path now h st)"
| "storage_step J (ios, now, CallStoreContent c) st = snd (store_content (ios []) J c st)"
| "storage_step J (ios, now, CallPinContent cid) st = snd (pin (ios []) J cid st)"
| "storage_step J (ios, now, CallUnpinContent cid) st = snd (unpin (ios []) J cid st)"
| "storage_step J (ios, now, CallDeleteContent cid) st = snd (delete (ios []) J cid st)"
| "storage_step J (ios, now, CallCollectGarbage target) st = snd (garbage_collect ios J now target st)"

text \<open>A slice is shorter than \<open>isize::MAX\<close>.\<close>

fun event_ok :: "storage_event \<Rightarrow> bool" where
  "event_ok (ios, now, CallStoreFragment h cid i data) \<longleftrightarrow> length data < 2 ^ 63"
| "event_ok _ \<longleftrightarrow> True"

section \<open>What an operation leaves alone\<close>

text \<open>The parts of the state that stay as they are, whatever is written to disk.\<close>

definition same_memory :: "storage \<Rightarrow> storage \<Rightarrow> bool" where
  "same_memory st st' \<longleftrightarrow> st' = st\<lparr>sm_disk := sm_disk st'\<rparr>"

lemma save_metadata_memory: "save_metadata io J st = (r, st') \<Longrightarrow> same_memory st st'"
  by (auto simp: save_metadata_def same_memory_def split: sum.splits prod.splits)

lemma save_or_fail_memory: "save_or_fail io J st = (r, st') \<Longrightarrow> same_memory st st'"
  by (auto simp: save_or_fail_def split: prod.splits dest: save_metadata_memory)

lemma save_or_fail_snd: "\<exists>d. snd (save_or_fail io J st) = st\<lparr>sm_disk := d\<rparr>"
  using save_or_fail_memory [of io J st "fst (save_or_fail io J st)" "snd (save_or_fail io J st)"]
  by (auto simp: same_memory_def)

lemma save_or_fail_disk:
  "\<exists>d. snd (save_or_fail io J st) = st\<lparr>sm_disk := d\<rparr> \<and>
     (\<forall>p. p \<noteq> metadata_path st \<longrightarrow> hm_get d p = hm_get (sm_disk st) p)"
  by (auto simp: save_or_fail_def save_metadata_def fs_write_def split: sum.splits prod.splits option.splits
      intro: exI [where x = "sm_disk st"])

text \<open>What every step of a loop keeps, the loop keeps.\<close>

lemma delete_fragments_keeps:
  assumes "\<And>h st. h \<in> set hs \<Longrightarrow> P st \<Longrightarrow> P (snd (delete_fragment io h st))" "P st"
  shows "P (snd (delete_fragments io hs st))"
  using assms
proof (induction hs arbitrary: st)
  case (Cons h hs)
  obtain r st' where d: "delete_fragment io h st = (r, st')" by force
  with Cons.prems(1) [of h st] Cons.prems(2) have "P st'" by simp
  with Cons.IH Cons.prems(1) d show ?case
    by (auto split: sum.splits storage_error.splits)
qed simp

lemma delete_keeps:
  assumes "\<And>st c. hm_get (sm_content st0) cid = Some c \<Longrightarrow> P st \<Longrightarrow> \<not> sc_pinned c \<Longrightarrow>
      P (snd (delete_fragments io (sc_fragments c) st))"
    and "\<And>st. P st \<Longrightarrow> P (snd (save_or_fail io J (count_content (st\<lparr>sm_content := hm_remove cid (sm_content st)\<rparr>))))"
    and "P st0"
  shows "P (snd (delete io J cid st0))"
proof (cases "hm_get (sm_content st0) cid")
  case (Some c)
  with assms(1) [OF Some assms(3)] assms(2,3) show ?thesis
    by (auto simp: delete_def split: prod.splits sum.splits)
qed (simp add: delete_def assms(3))

lemma gc_loop_keeps:
  assumes "\<And>io cid st. P st \<Longrightarrow> P (snd (delete io J cid st))" "P st"
  shows "P (snd (gc_loop ios J need cs acc st))"
  using assms(2)
proof (induction cs arbitrary: acc st)
  case (Cons c cs)
  obtain r st' where d: "delete (ios (sc_cid c)) J (sc_cid c) st = (r, st')" by force
  with assms(1) [OF Cons.prems, of "ios (sc_cid c)" "sc_cid c"] have "P st'" by simp
  with Cons d show ?case
    by (auto split: sum.splits storage_error.splits)
qed simp

lemma garbage_collect_keeps:
  assumes "\<And>io cid st. P st \<Longrightarrow> P (snd (delete io J cid st))"
    and "\<And>st t. P st \<Longrightarrow> P (st\<lparr>sm_stats := (sm_stats st)\<lparr>ss_last_gc := t\<rparr>\<rparr>)" "P st"
  shows "P (snd (garbage_collect ios J now t st))"
proof -
  have "P (snd (gc_loop ios J need cs acc st))" for need cs acc
    using assms(1,3) by (rule gc_loop_keeps)
  with assms(2,3) show ?thesis
    by (auto simp: garbage_collect_def Let_def split: prod.splits sum.splits) (metis snd_conv)+
qed

lemma pin_keeps:
  assumes "P (snd (set_pinned b cid st))"
    and "\<And>st. P st \<Longrightarrow> P (snd (save_or_fail io J st))"
  shows "b \<Longrightarrow> P (snd (pin io J cid st))" "\<not> b \<Longrightarrow> P (snd (unpin io J cid st))"
  using assms by (auto simp: pin_def unpin_def split: prod.splits sum.splits)

section \<open>Accounting\<close>

abbreviation bytes_held :: "storage \<Rightarrow> nat" where
  "bytes_held st \<equiv> hm_sum (\<lambda>f. unat (sf_size f)) (sm_fragments st)"

definition storage_inv :: "storage \<Rightarrow> bool" where
  "storage_inv st \<longleftrightarrow>
     hm_wf (sm_fragments st) \<and> hm_wf (sm_content st) \<and>
     ss_total_bytes (sm_stats st) = sm_usage st \<and>
     ss_capacity_bytes (sm_stats st) = sm_max_capacity st \<and>
     ss_content_count (sm_stats st) = word_of_nat (length (sm_content st)) \<and>
     bytes_held st \<le> unat (sm_usage st) \<and>
     unat (sm_usage st) \<le> unat (sm_max_capacity st) \<and>
     unat (sm_max_capacity st) < 2 ^ 63"

lemma storage_inv_disk [simp]: "storage_inv (st\<lparr>sm_disk := d\<rparr>) = storage_inv st"
  by (simp add: storage_inv_def)

lemma storage_inv_save [simp]: "storage_inv (snd (save_or_fail io J st)) = storage_inv st"
  using save_or_fail_snd [of io J st] by auto

lemma storage_inv_bump [simp]: "storage_inv st \<Longrightarrow> storage_inv (bump_access now h st)"
  by (simp add: storage_inv_def bump_access_def hm_sum_modify)

lemma storage_inv_gc_time [simp]:
  "storage_inv (st\<lparr>sm_stats := (sm_stats st)\<lparr>ss_last_gc := t\<rparr>\<rparr>) = storage_inv st"
  by (simp add: storage_inv_def)

lemma add_no_wrap:
  fixes a b :: u64
  assumes "unat a + unat b < 2 ^ 64"
  shows "unat (a + b) = unat a + unat b"
  using assms unat_add_lem [where 'a = 64, of a b] by simp

lemma record_fragment_inv:
  assumes "storage_inv st" "unat (sm_usage st) + unat sz \<le> unat (sm_max_capacity st)"
  shows "storage_inv (record_fragment now h cid i sz st)"
proof -
  have "unat (sm_usage st + sz) = unat (sm_usage st) + unat sz"
    using assms by (intro add_no_wrap) (simp add: storage_inv_def)
  with assms hm_sum_insert [of "\<lambda>f. unat (sf_size f)" h _ "sm_fragments st"] show ?thesis
    by (simp add: storage_inv_def record_fragment_def)
       (metis (no_types, lifting) add_leD1 add_le_mono1 stored_fragment.select_convs(4))
qed

lemma store_fragment_fits:
  assumes "storage_inv st" "length data < 2 ^ 63"
    and "\<not> sm_usage st + word_of_nat (length data) > sm_max_capacity st"
  shows "unat (sm_usage st) + length data \<le> unat (sm_max_capacity st)"
    and "unat (word_of_nat (length data) :: u64) = length data"
proof -
  show len: "unat (word_of_nat (length data) :: u64) = length data"
    using assms(2) by (simp add: unat_of_nat)
  have "unat (sm_usage st + word_of_nat (length data)) = unat (sm_usage st) + length data"
    using assms len add_no_wrap [of "sm_usage st" "word_of_nat (length data)"]
    by (simp add: storage_inv_def)
  with assms(3) show "unat (sm_usage st) + length data \<le> unat (sm_max_capacity st)"
    by (simp add: word_le_nat_alt not_less)
qed

lemma store_fragment_inv:
  assumes "storage_inv st" "length data < 2 ^ 63"
  shows "storage_inv (snd (store_fragment io J now h cid i data st))"
proof (cases "sm_usage st + word_of_nat (length data) > sm_max_capacity st")
  case True
  with assms show ?thesis by (simp add: store_fragment_def)
next
  case False
  have "storage_inv (record_fragment now h cid i (word_of_nat (length data)) (st\<lparr>sm_disk := d\<rparr>))" for d
    using assms store_fragment_fits [OF assms False] by (intro record_fragment_inv) auto
  with assms(1) False show ?thesis
    by (auto simp: store_fragment_def Let_def split: sum.splits prod.splits)
qed

lemma fold_modify_wf: "hm_wf m \<Longrightarrow> hm_wf (fold (\<lambda>k. hm_modify k f) ks m)"
  by (induction ks arbitrary: m) auto

lemma fold_modify_sum:
  "(\<And>v. g (f v) = g v) \<Longrightarrow> hm_sum g (fold (\<lambda>k. hm_modify k f) ks m) = hm_sum g m"
  by (induction ks arbitrary: m) (auto simp: hm_sum_modify)

lemma fold_modify_get:
  "(\<And>v. f (f v) = f v) \<Longrightarrow>
   hm_get (fold (\<lambda>k. hm_modify k f) ks m) k = (if k \<in> set ks then map_option f (hm_get m k) else hm_get m k)"
  by (induction ks arbitrary: m) (auto simp: option.map_comp comp_def)

lemma set_pinned_inv: "storage_inv st \<Longrightarrow> storage_inv (snd (set_pinned b cid st))"
  by (auto simp: set_pinned_def storage_inv_def Let_def fold_modify_wf fold_modify_sum length_hm_insert
      split: option.splits)

lemma forget_fragment_inv:
  assumes "storage_inv st"
  shows "storage_inv (forget_fragment h
    (case hm_get (sm_fragments st) h of None \<Rightarrow> 0 | Some f \<Rightarrow> sf_size f) st)"
  using assms hm_sum_remove [of "sm_fragments st" "\<lambda>f. unat (sf_size f)" h]
  by (auto simp: storage_inv_def forget_fragment_def unat_sat_sub split: option.splits)

lemma delete_fragment_inv: "storage_inv st \<Longrightarrow> storage_inv (snd (delete_fragment io h st))"
  using forget_fragment_inv [of "st\<lparr>sm_disk := d\<rparr>" h for d] forget_fragment_inv [of st h]
  by (auto simp: delete_fragment_def Let_def split: sum.splits prod.splits)

lemma count_content_inv:
  "storage_inv st \<Longrightarrow> hm_wf m \<Longrightarrow> storage_inv (count_content (st\<lparr>sm_content := m\<rparr>))"
  by (simp add: storage_inv_def count_content_def)

lemma storage_inv_wf: "storage_inv st \<Longrightarrow> hm_wf (sm_fragments st) \<and> hm_wf (sm_content st)"
  by (simp add: storage_inv_def)

lemma delete_inv: "storage_inv st \<Longrightarrow> storage_inv (snd (delete io J cid st))"
  by (erule delete_keeps [rotated 2])
     (simp_all add: delete_fragments_keeps delete_fragment_inv count_content_inv storage_inv_wf)

lemma storage_step_inv: "event_ok e \<Longrightarrow> storage_inv st \<Longrightarrow> storage_inv (storage_step J e st)"
proof (induction J e st rule: storage_step.induct)
  case (2 J ios now h st)
  then show ?case by (auto simp: get_fragment_def split: sum.splits)
next
  case (3 J ios now h st)
  then show ?case by (auto simp: get_fragment_path_def)
qed (simp_all add: store_fragment_inv delete_inv garbage_collect_keeps [where P = storage_inv] store_content_def
    pin_keeps(1) [of _ True] pin_keeps(2) [of _ False] set_pinned_inv count_content_inv storage_inv_wf)

interpretation store_calls: guarded_machine "storage_step J" event_ok storage_inv for J
  by unfold_locales (rule storage_step_inv)

definition index_maps_wf :: "index_codec \<Rightarrow> bool" where
  "index_maps_wf J \<longleftrightarrow> (\<forall>b f c. ix_from_json J b = Some (f, c) \<longrightarrow> hm_wf f \<and> hm_wf c)"

lemma unat_sum_sizes:
  "sum_list (map (\<lambda>x. unat (g x)) xs) < 2 ^ 64 \<Longrightarrow>
   unat (sum_list (map g xs) :: u64) = sum_list (map (\<lambda>x. unat (g x)) xs)"
  by (induction xs) (simp_all add: add_no_wrap)

lemma storage_new_cases:
  assumes "storage_new io J dir cap d = Inr st"
  obtains (empty) "st = empty_manager dir cap d"
    | (loaded) b f c where "ix_from_json J b = Some (f, c)"
        "sm_fragments st = f" "sm_content st = c" "sm_disk st = d" "sm_data_dir st = dir"
        "sm_max_capacity st = cap" "sm_usage st = sum_list (map sf_size (hm_values f))"
        "ss_total_bytes (sm_stats st) = sm_usage st" "ss_capacity_bytes (sm_stats st) = cap"
        "ss_content_count (sm_stats st) = word_of_nat (length c)"
  using assms
  by (auto simp: storage_new_def load_metadata_def empty_manager_def Let_def
      split: sum.splits if_splits option.splits)

lemma storage_new_inv:
  assumes new: "storage_new io J dir cap d = Inr st"
    and "index_maps_wf J" "unat cap < 2 ^ 63" "bytes_held st \<le> unat cap"
  shows "storage_inv st"
  using new
proof (cases rule: storage_new_cases)
  case empty
  with assms(3) show ?thesis
    by (simp add: storage_inv_def empty_manager_def)
next
  case (loaded b f c)
  then have "unat (sm_usage st) = bytes_held st"
    using unat_sum_sizes [of sf_size "hm_values f"] assms(3,4) by (simp add: hm_sum_def)
  with loaded assms(2-4) show ?thesis
    by (auto simp: storage_inv_def index_maps_wf_def)
qed

section \<open>The configuration is fixed\<close>

definition config :: "storage \<Rightarrow> path \<times> u64" where
  "config st = (sm_data_dir st, sm_max_capacity st)"

lemma config_simps [simp]:
  "config (st\<lparr>sm_disk := d\<rparr>) = config st"
  "config (st\<lparr>sm_fragments := f\<rparr>) = config st"
  "config (st\<lparr>sm_content := c\<rparr>) = config st"
  "config (st\<lparr>sm_stats := t\<rparr>) = config st"
  "config (record_fragment now h cid i sz st) = config st"
  "config (bump_access now h st) = config st"
  "config (forget_fragment h sz st) = config st"
  "config (count_content st) = config st"
  by (simp_all add: config_def record_fragment_def bump_access_def forget_fragment_def count_content_def)

lemma config_save [simp]: "config (snd (save_or_fail io J st)) = config st"
  using save_or_fail_snd [of io J st] by auto

lemma config_set_pinned [simp]: "config (snd (set_pinned b cid st)) = config st"
  by (auto simp: set_pinned_def Let_def config_def split: option.splits)

lemma config_delete_fragment [simp]: "config (snd (delete_fragment io h st)) = config st"
  by (auto simp: delete_fragment_def Let_def split: sum.splits prod.splits)

lemma config_delete [simp]: "config (snd (delete io J cid st)) = config st"
  by (rule delete_keeps) (simp_all add: delete_fragments_keeps [where P = "\<lambda>st'. config st' = config st"])

lemma config_step: "config (storage_step J e st) = config st"
proof (induction J e st rule: storage_step.induct)
  case (8 J ios now t st)
  then show ?case
    by (auto intro: garbage_collect_keeps [where P = "\<lambda>st'. config st' = config st"])
qed (auto simp: store_fragment_def get_fragment_def get_fragment_path_def store_content_def Let_def
    pin_keeps(1) [of "\<lambda>st'. config st' = _" True] pin_keeps(2) [of "\<lambda>st'. config st' = _" False]
    split: sum.splits prod.splits)

interpretation store_config: call_machine "storage_step J" "\<lambda>st. config st = c" for J c
  by unfold_locales (simp add: config_step)

text \<open>C14. The store never promises more room than it has. A store opened on a data directory whose
  index fits its capacity keeps, through any sequence of calls and whatever the file system does:
  the fragments it lists take at most what \<open>current_usage\<close> says, that is at most the capacity, and
  \<open>get_stats\<close> reports exactly that usage, the rest as available, and the number of its content items.\<close>

theorem storage_accounting:
  assumes "storage_new io J dir cap d = Inr st0"
    and "index_maps_wf J" "unat cap < 2 ^ 63" "bytes_held st0 \<le> unat cap"
    and "list_all event_ok es"
  defines "st \<equiv> fold (storage_step J) es st0"
  shows "bytes_held st \<le> unat (sm_usage st) \<and> unat (sm_usage st) \<le> unat cap \<and>
    ss_total_bytes (get_stats st) = sm_usage st \<and>
    unat (available_bytes (get_stats st)) = unat cap - unat (sm_usage st) \<and>
    ss_content_count (get_stats st) = word_of_nat (length (list_content st))"
proof -
  have "storage_inv st"
    unfolding st_def using assms(1-5) by (intro store_calls.guarded_run storage_new_inv)
  moreover have "config st0 = (dir, cap)"
    using assms(1) by (cases rule: storage_new_cases) (simp_all add: config_def empty_manager_def)
  then have "config st = (dir, cap)"
    unfolding st_def by (rule store_config.run_inv)
  ultimately show ?thesis
    by (simp add: storage_inv_def config_def get_stats_def list_content_def hm_values_def
        available_bytes_def unat_sat_sub)
qed

section \<open>Pinned content survives\<close>

lemma fragment_path_inj:
  "fragment_path dir h = Inr p \<Longrightarrow> fragment_path dir h' = Inr p \<Longrightarrow> h = h'"
  by (auto simp: fragment_path_def Let_def split: if_splits)

lemma fragment_path_not_index:
  "fragment_path (sm_data_dir st) h = Inr p \<Longrightarrow> p \<noteq> metadata_path st"
  by (auto simp: fragment_path_def metadata_path_def Let_def split: if_splits)

text \<open>
  The fragment \<open>h\<close> is on disk with its data, and the content that lists it is pinned and has its CID
  in \<open>C\<close>.
\<close>

definition shielded :: "string \<Rightarrow> bytes \<Rightarrow> string set \<Rightarrow> storage \<Rightarrow> bool" where
  "shielded h data C st \<longleftrightarrow>
     has_fragment st h \<and>
     (\<exists>p. fragment_path (sm_data_dir st) h = Inr p \<and> hm_get (sm_disk st) p = Some data) \<and>
     (\<forall>cid c. hm_get (sm_content st) cid = Some c \<and> h \<in> set (sc_fragments c) \<longrightarrow>
        sc_pinned c \<and> cid \<in> C)"

fun shield_ok :: "string \<Rightarrow> string set \<Rightarrow> storage_event \<Rightarrow> bool" where
  "shield_ok h C (ios, now, CallStoreFragment h' cid i data) \<longleftrightarrow> h' \<noteq> h"
| "shield_ok h C (ios, now, CallStoreContent c) \<longleftrightarrow>
     (h \<in> set (sc_fragments c) \<longrightarrow> sc_pinned c \<and> sc_cid c \<in> C)"
| "shield_ok h C (ios, now, CallUnpinContent cid) \<longleftrightarrow> cid \<notin> C"
| "shield_ok h C _ \<longleftrightarrow> True"

text \<open>What \<open>shielded\<close> looks at.\<close>

lemma shielded_cong:
  assumes "shielded h data C st"
    and "sm_data_dir st' = sm_data_dir st"
    and "has_fragment st h \<Longrightarrow> has_fragment st' h"
    and "\<And>p. fragment_path (sm_data_dir st) h = Inr p \<Longrightarrow> hm_get (sm_disk st') p = hm_get (sm_disk st) p"
    and "\<And>cid c. hm_get (sm_content st') cid = Some c \<Longrightarrow> h \<in> set (sc_fragments c) \<Longrightarrow>
      (sc_pinned c \<and> cid \<in> C) \<or> hm_get (sm_content st) cid = Some c"
  shows "shielded h data C st'"
  using assms(1-4) assms(5) by (auto simp: shielded_def) blast+

lemma shielded_save:
  assumes "shielded h data C st"
  shows "shielded h data C (snd (save_or_fail io J st))"
proof -
  obtain d where d: "snd (save_or_fail io J st) = st\<lparr>sm_disk := d\<rparr>"
      "\<And>p. p \<noteq> metadata_path st \<Longrightarrow> hm_get d p = hm_get (sm_disk st) p"
    using save_or_fail_disk by blast
  show ?thesis
    by (rule shielded_cong [OF assms])
       (auto simp: d has_fragment_def dest: fragment_path_not_index)
qed

lemma shielded_bump: "shielded h data C st \<Longrightarrow> shielded h data C (bump_access now h' st)"
  by (erule shielded_cong) (auto simp: bump_access_def has_fragment_def)

lemma shielded_store_fragment:
  assumes "shielded h data C st" "h' \<noteq> h"
  shows "shielded h data C (snd (store_fragment io J now h' cid i bs st))"
proof -
  have "shielded h data C (st\<lparr>sm_disk := snd (fs_write io p bs (sm_disk st))\<rparr>)"
    if "fragment_path (sm_data_dir st) h' = Inr p" for p
    by (rule shielded_cong [OF assms(1)])
       (use that assms(2) in \<open>auto simp: has_fragment_def fs_write_def split: option.splits dest: fragment_path_inj\<close>)
  moreover have "shielded h data C st \<Longrightarrow> shielded h data C (record_fragment now h' cid i sz st)" for st sz
    by (erule shielded_cong) (auto simp: record_fragment_def has_fragment_def)
  ultimately show ?thesis
    using assms(1)
    by (auto simp: store_fragment_def Let_def shielded_save split: sum.splits prod.splits)
qed

lemma shielded_delete_fragment:
  assumes "shielded h data C st" "h' \<noteq> h"
  shows "shielded h data C (snd (delete_fragment io h' st))"
proof -
  have "shielded h data C (st\<lparr>sm_disk := snd (fs_remove_file io p (sm_disk st))\<rparr>)"
    if "fragment_path (sm_data_dir st) h' = Inr p" for p
    by (rule shielded_cong [OF assms(1)])
       (use that assms(2) in \<open>auto simp: has_fragment_def fs_remove_file_def split: option.splits dest: fragment_path_inj\<close>)
  moreover have "shielded h data C st \<Longrightarrow> shielded h data C (forget_fragment h' sz st)" for st sz
    by (erule shielded_cong) (use assms(2) in \<open>auto simp: forget_fragment_def has_fragment_def\<close>)
  ultimately show ?thesis
    using assms(1)
    by (auto simp: delete_fragment_def Let_def split: sum.splits prod.splits)
qed

lemma shielded_delete:
  assumes "shielded h data C st"
  shows "shielded h data C (snd (delete io J cid st))"
proof (rule delete_keeps)
  fix st' c
  assume "hm_get (sm_content st) cid = Some c" "\<not> sc_pinned c" "shielded h data C st'"
  moreover from this assms have "h \<notin> set (sc_fragments c)"
    by (auto simp: shielded_def)
  ultimately show "shielded h data C (snd (delete_fragments io (sc_fragments c) st'))"
    by (auto intro!: delete_fragments_keeps [where P = "shielded h data C"] shielded_delete_fragment)
next
  fix st'
  assume "shielded h data C st'"
  then show "shielded h data C (snd (save_or_fail io J
      (count_content (st'\<lparr>sm_content := hm_remove cid (sm_content st')\<rparr>))))"
    by (intro shielded_save, elim shielded_cong)
       (auto simp: count_content_def has_fragment_def split: if_splits)
qed (rule assms)

lemma shielded_set_pinned:
  assumes "shielded h data C st" "b \<or> cid \<notin> C"
  shows "shielded h data C (snd (set_pinned b cid st))"
proof (cases "hm_get (sm_content st) cid")
  case (Some c)
  with assms have "b \<or> h \<notin> set (sc_fragments c)" "h \<in> set (sc_fragments c) \<Longrightarrow> cid \<in> C"
    by (auto simp: shielded_def)
  with Some show ?thesis
    by (intro shielded_cong [OF assms(1)])
       (auto simp: set_pinned_def Let_def has_fragment_def fold_modify_get split: if_splits)
qed (simp add: set_pinned_def assms(1))

lemma shielded_step:
  "shield_ok h C e \<Longrightarrow> shielded h data C st \<Longrightarrow> shielded h data C (storage_step J e st)"
proof (induction J e st rule: storage_step.induct)
  case (2 J ios now h' st)
  then show ?case by (auto simp: get_fragment_def shielded_bump split: sum.splits)
next
  case (3 J ios now h' st)
  then show ?case by (auto simp: get_fragment_path_def shielded_bump)
next
  case (4 J ios now c st)
  then show ?case
    unfolding storage_step.simps store_content_def
    by (intro shielded_save, elim shielded_cong)
       (auto simp: count_content_def has_fragment_def split: if_splits)
next
  case (8 J ios now t st)
  then show ?case
    by (auto intro!: garbage_collect_keeps [where P = "shielded h data C"] shielded_delete
        elim: shielded_cong simp: has_fragment_def)
qed (auto simp: shielded_store_fragment shielded_delete shielded_set_pinned
    intro: pin_keeps(1) [of "shielded h data C" True] pin_keeps(2) [of "shielded h data C" False] shielded_save)

interpretation shield: guarded_machine "storage_step J" "shield_ok h C" "shielded h data C" for J h C data
  by unfold_locales (rule shielded_step)

text \<open>C15. Pinned content stays readable. While every content item that lists a fragment is pinned, and
  nobody unpins one of them, stores such content unpinned or writes the fragment again, its bytes are
  returned by \<open>get_fragment\<close> after any sequence of calls - deletions and garbage collections
  included - and whatever the file system did in them.\<close>

theorem pinned_fragment_survives:
  assumes "shielded h data C st" "list_all (shield_ok h C) es"
    and "\<And>p. io_read io p = None"
  shows "fst (get_fragment io now h (fold (storage_step J) es st)) = Inr data"
proof -
  have "shielded h data C (fold (storage_step J) es st)"
    using assms(1,2) by (intro shield.guarded_run)
  with assms(3) show ?thesis
    by (auto simp: shielded_def get_fragment_def fs_read_def has_fragment_def)
qed

section \<open>A store with one fragment\<close>

definition good_io :: io where
  "good_io = \<lparr>io_create_dir = \<lambda>_. None, io_write = \<lambda>_. None, io_read = \<lambda>_. None, io_remove = \<lambda>_. None\<rparr>"

definition demo_fragment :: "bool \<Rightarrow> stored_fragment" where
  "demo_fragment b = \<lparr>sf_hash = ''ab'', sf_cid = ''c'', sf_index = 0, sf_size = 2, sf_stored_at = 5,
     sf_last_accessed = 5, sf_access_count = 0, sf_pinned = b\<rparr>"

definition demo_content :: "string \<Rightarrow> bool \<Rightarrow> stored_content" where
  "demo_content cid b = \<lparr>sc_cid = cid, sc_name = ''f'', sc_total_size = 2, sc_fragment_count = 1,
     sc_fragments = [''ab''], sc_stored_at = 5, sc_pinned = b, sc_mime_type = ''text/plain''\<rparr>"

definition demo_index :: index_codec where
  "demo_index = \<lparr>ix_to_json = \<lambda>_. Inr [123],
     ix_from_json = \<lambda>b. if b = [123] then Some ([], [(''c'', demo_content ''c'' False)]) else None\<rparr>"

definition demo_store :: "bool \<Rightarrow> storage" where
  "demo_store b = \<lparr>sm_data_dir = [''d''], sm_max_capacity = 3, sm_fragments = [(''ab'', demo_fragment b)],
     sm_content = [(''c'', demo_content ''c'' b)], sm_usage = 2,
     sm_stats = \<lparr>ss_total_bytes = 2, ss_fragment_count = 1, ss_content_count = 1,
       ss_pinned_count = (if b then 1 else 0), ss_capacity_bytes = 3, ss_last_gc = None\<rparr>,
     sm_disk = [([''d'', ''fragments'', ''ab'', ''ab''], [1, 2])]\<rparr>"

lemmas demo_defs = good_io_def demo_fragment_def demo_content_def demo_index_def demo_store_def

lemma demo_safe: "safe_hash ''ab''"
  by (simp add: safe_hash_def ascii_defs)

lemma demo_path: "fragment_path d ''ab'' = Inr (d @ [''fragments'', ''ab'', ''ab''])"
  by (simp add: fragment_path_def demo_safe)

lemma demo_store_inv: "storage_inv (demo_store b)"
  by (simp add: storage_inv_def demo_defs hm_wf_def hm_sum_def hm_values_def)

theorem storage_accounting_witness:
  "let st = fold (storage_step demo_index) [((\<lambda>_. good_io), 7, CallGetFragment ''ab'')] (empty_manager [''d''] 3 [])
   in bytes_held st \<le> unat (sm_usage st) \<and> unat (available_bytes (get_stats st)) = 3 - unat (sm_usage st)"
  using storage_accounting [of good_io demo_index "[''d'']" 3 "[]" "empty_manager [''d''] 3 []"
      "[((\<lambda>_. good_io), 7, CallGetFragment ''ab'')]"]
  by (simp add: storage_new_def load_metadata_def create_dir_all_def path_exists_def index_maps_wf_def
      empty_manager_def demo_defs hm_wf_def Let_def split: if_splits)

theorem pinned_fragment_survives_witness:
  "fst (get_fragment good_io 9 ''ab'' (fold (storage_step demo_index)
     [((\<lambda>_. good_io), 7, CallDeleteContent ''c''), ((\<lambda>_. good_io), 8, CallCollectGarbage 100)] (demo_store True))) = Inr [1, 2]"
  using pinned_fragment_survives [of "''ab''" "[1, 2]" "{''c''}" "demo_store True"
      "[((\<lambda>_. good_io), 7, CallDeleteContent ''c''), ((\<lambda>_. good_io), 8, CallCollectGarbage 100)]" good_io 9 demo_index]
  by (simp add: shielded_def has_fragment_def demo_path demo_defs hm_get_def)

end
