(* ===== verification/StorageGc.thy ===== *)
theory StorageGc
  imports StorageSafety
begin

text \<open>
  Garbage collection of the fragment store makes room, and what a restart reads back.
\<close>

section \<open>Garbage collection makes room\<close>

definition fault_free :: "io \<Rightarrow> bool" where
  "fault_free io \<longleftrightarrow> (\<forall>p. io_write io p = None \<and> io_remove io p = None)"

definition size_of :: "storage \<Rightarrow> string \<Rightarrow> nat" where
  "size_of st h = (case hm_get (sm_fragments st) h of None \<Rightarrow> 0 | Some f \<Rightarrow> unat (sf_size f))"

text \<open>
  Unpinned content in good order: listed under its CID, with safe and distinct hashes that no other
  item shares, and a total that is the sum of the sizes of its fragments.
\<close>

definition collectable :: "storage \<Rightarrow> stored_content list \<Rightarrow> bool" where
  "collectable st cs \<longleftrightarrow>
     distinct (map sc_cid cs) \<and> distinct (concat (map sc_fragments cs)) \<and>
     (\<forall>c \<in> set cs. hm_get (sm_content st) (sc_cid c) = Some c \<and> \<not> sc_pinned c \<and>
        list_all safe_hash (sc_fragments c) \<and>
        unat (sc_total_size c) = sum_list (map (size_of st) (sc_fragments c)))"

lemma delete_fragment_fault_free:
  assumes "fault_free io" "safe_hash h"
  shows "\<exists>d. delete_fragment io h st = (Inr (), forget_fragment h
    (case hm_get (sm_fragments st) h of None \<Rightarrow> 0 | Some f \<Rightarrow> sf_size f) (st\<lparr>sm_disk := d\<rparr>))"
  using assms
  by (auto simp: delete_fragment_def fragment_path_def fault_free_def fs_remove_file_def
      path_exists_def Let_def intro: exI [where x = "sm_disk st"])

lemma size_of_le_usage: "storage_inv st \<Longrightarrow> size_of st h \<le> unat (sm_usage st)"
  using hm_sum_ge [of "sm_fragments st" h _ "\<lambda>f. unat (sf_size f)"]
  by (fastforce simp: size_of_def storage_inv_def split: option.splits)

lemma delete_fragment_ok:
  assumes "fault_free io" "safe_hash h" "storage_inv st"
  obtains st' where "delete_fragment io h st = (Inr (), st')" "storage_inv st'"
    "\<And>k. hm_get (sm_fragments st') k = (if k = h then None else hm_get (sm_fragments st) k)"
    "unat (sm_usage st') + size_of st h = unat (sm_usage st)"
    "sm_content st' = sm_content st"
proof -
  let ?sz = "case hm_get (sm_fragments st) h of None \<Rightarrow> 0 | Some f \<Rightarrow> sf_size f"
  obtain d where d: "delete_fragment io h st = (Inr (), forget_fragment h ?sz (st\<lparr>sm_disk := d\<rparr>))"
    using delete_fragment_fault_free [OF assms(1,2)] by blast
  have "unat ?sz = size_of st h"
    by (simp add: size_of_def split: option.split)
  then have "unat (sm_usage st) - unat ?sz + size_of st h = unat (sm_usage st)"
    using size_of_le_usage [OF assms(3), of h] by simp
  moreover have "storage_inv (forget_fragment h ?sz (st\<lparr>sm_disk := d\<rparr>))"
    using delete_fragment_inv [OF assms(3), of io h] by (simp add: d)
  ultimately show thesis
    by (intro that [OF d]) (simp_all add: forget_fragment_def unat_sat_sub)
qed

lemma delete_fragments_ok:
  assumes "fault_free io" "list_all safe_hash hs" "distinct hs" "storage_inv st"
  shows "\<exists>st'. delete_fragments io hs st = (Inr (), st') \<and> storage_inv st' \<and>
    (\<forall>k. hm_get (sm_fragments st') k = (if k \<in> set hs then None else hm_get (sm_fragments st) k)) \<and>
    unat (sm_usage st') + sum_list (map (size_of st) hs) = unat (sm_usage st) \<and>
    sm_content st' = sm_content st"
  using assms(2-)
proof (induction hs arbitrary: st)
  case (Cons h hs)
  have "safe_hash h" "storage_inv st"
    using Cons.prems by simp_all
  then obtain st1 where st1: "delete_fragment io h st = (Inr (), st1)" "storage_inv st1"
      "\<And>k. hm_get (sm_fragments st1) k = (if k = h then None else hm_get (sm_fragments st) k)"
      "unat (sm_usage st1) + size_of st h = unat (sm_usage st)" "sm_content st1 = sm_content st"
    using delete_fragment_ok [OF assms(1)] by blast
  moreover have "sum_list (map (size_of st1) hs) = sum_list (map (size_of st) hs)"
    using Cons.prems by (intro arg_cong [where f = sum_list] map_cong) (auto simp: size_of_def st1(3))
  ultimately show ?case
    using Cons.IH [of st1] Cons.prems by auto
qed simp

lemma save_or_fail_ok:
  assumes "fault_free io" "ix_to_json J (sm_fragments st, sm_content st) = Inr b"
  shows "save_or_fail io J st = (Inr (), st\<lparr>sm_disk := hm_insert (metadata_path st) b (sm_disk st)\<rparr>)"
  using assms by (simp add: save_or_fail_def save_metadata_def fs_write_def fault_free_def)

definition always_encodes :: "index_codec \<Rightarrow> bool" where
  "always_encodes J \<longleftrightarrow> (\<forall>x. \<exists>b. ix_to_json J x = Inr b)"

lemma collectable_Cons:
  assumes "collectable st (c # cs)"
  shows "collectable st cs" "hm_get (sm_content st) (sc_cid c) = Some c" "\<not> sc_pinned c"
    "list_all safe_hash (sc_fragments c)" "distinct (sc_fragments c)"
    "unat (sc_total_size c) = sum_list (map (size_of st) (sc_fragments c))"
    "x \<in> set cs \<Longrightarrow> sc_cid x \<noteq> sc_cid c"
    "x \<in> set cs \<Longrightarrow> h \<in> set (sc_fragments x) \<Longrightarrow> h \<notin> set (sc_fragments c)"
proof -
  have d: "sc_cid c \<notin> sc_cid ` set cs" "distinct (map sc_cid cs)"
      "distinct (sc_fragments c)" "distinct (concat (map sc_fragments cs))"
      "set (sc_fragments c) \<inter> (\<Union>x \<in> set cs. set (sc_fragments x)) = {}"
    and all: "\<forall>x \<in> set (c # cs). hm_get (sm_content st) (sc_cid x) = Some x \<and> \<not> sc_pinned x \<and>
        list_all safe_hash (sc_fragments x) \<and>
        unat (sc_total_size x) = sum_list (map (size_of st) (sc_fragments x))"
    using assms by (simp_all add: collectable_def del: set_simps)
  from d all show "collectable st cs"
    unfolding collectable_def by (meson list.set_intros(2))
  show "hm_get (sm_content st) (sc_cid c) = Some c" "\<not> sc_pinned c"
    "list_all safe_hash (sc_fragments c)" "distinct (sc_fragments c)"
    "unat (sc_total_size c) = sum_list (map (size_of st) (sc_fragments c))"
    using bspec [OF all list.set_intros(1)] d(3) by blast+
  show "x \<in> set cs \<Longrightarrow> sc_cid x \<noteq> sc_cid c"
    "x \<in> set cs \<Longrightarrow> h \<in> set (sc_fragments x) \<Longrightarrow> h \<notin> set (sc_fragments c)"
    using d(1,5) by (metis imageI, blast)
qed

lemma collectable_frame:
  assumes "collectable st cs"
    and "\<And>c. c \<in> set cs \<Longrightarrow> hm_get (sm_content st') (sc_cid c) = hm_get (sm_content st) (sc_cid c)"
    and "\<And>c h. c \<in> set cs \<Longrightarrow> h \<in> set (sc_fragments c) \<Longrightarrow>
      hm_get (sm_fragments st') h = hm_get (sm_fragments st) h"
  shows "collectable st' cs"
proof -
  have "sum_list (map (size_of st') (sc_fragments c)) = sum_list (map (size_of st) (sc_fragments c))"
    if "c \<in> set cs" for c
    using assms(3) [OF that] by (intro arg_cong [where f = sum_list] map_cong) (simp_all add: size_of_def)
  with assms(1,2) show ?thesis
    by (auto simp: collectable_def)
qed

lemma delete_ok:
  assumes "fault_free io" "always_encodes J" "storage_inv st" "collectable st (c # cs)"
  obtains st' where "delete io J (sc_cid c) st = (Inr (), st')" "storage_inv st'" "collectable st' cs"
    "unat (sm_usage st') + unat (sc_total_size c) = unat (sm_usage st)"
    "\<And>cid. hm_get (sm_content st') cid = (if cid = sc_cid c then None else hm_get (sm_content st) cid)"
    "\<And>h. hm_get (sm_fragments st') h = (if h \<in> set (sc_fragments c) then None else hm_get (sm_fragments st) h)"
proof -
  note c = collectable_Cons [OF assms(4)]
  obtain st1 where st1: "delete_fragments io (sc_fragments c) st = (Inr (), st1)" "storage_inv st1"
      "\<And>k. hm_get (sm_fragments st1) k = (if k \<in> set (sc_fragments c) then None else hm_get (sm_fragments st) k)"
      "unat (sm_usage st1) + sum_list (map (size_of st) (sc_fragments c)) = unat (sm_usage st)"
      "sm_content st1 = sm_content st"
    using delete_fragments_ok [OF assms(1) c(4,5) assms(3)] by blast
  define st2 where "st2 = count_content (st1\<lparr>sm_content := hm_remove (sc_cid c) (sm_content st1)\<rparr>)"
  obtain b where b: "ix_to_json J (sm_fragments st2, sm_content st2) = Inr b"
    using assms(2) unfolding always_encodes_def by blast
  obtain d where save: "save_or_fail io J st2 = (Inr (), st2\<lparr>sm_disk := d\<rparr>)"
    using save_or_fail_ok [OF assms(1) b] by blast
  define st3 where "st3 = st2\<lparr>sm_disk := d\<rparr>"
  have del: "delete io J (sc_cid c) st = (Inr (), st3)"
    using c(2,3) st1(1) save by (simp add: delete_def st2_def st3_def)
  have inv: "storage_inv st3"
    using st1(2) by (simp add: st2_def st3_def count_content_inv storage_inv_wf)
  have fields: "sm_fragments st3 = sm_fragments st1" "sm_usage st3 = sm_usage st1"
      "sm_content st3 = hm_remove (sc_cid c) (sm_content st)"
    by (simp_all add: st2_def st3_def count_content_def st1(5))
  have "collectable st3 cs"
    by (rule collectable_frame [OF c(1)]) (simp_all add: fields st1(3) c(7,8))
  moreover have "unat (sm_usage st3) + unat (sc_total_size c) = unat (sm_usage st)"
    using st1(4) c(6) by (simp add: fields)
  ultimately show thesis
    by (intro that [OF del inv]) (simp_all add: fields st1(3))
qed

text \<open>The loop deletes a prefix of the candidates, the shortest that frees what is needed.\<close>

lemma gc_loop_ok:
  assumes "\<And>cid. fault_free (ios cid)" "always_encodes J"
    and "storage_inv st" "collectable st cs"
    and "unat (gr_freed_bytes acc) + unat (sm_usage st) < 2 ^ 64"
  shows "\<exists>r st' n. gc_loop ios J need cs acc st = (Inr r, st') \<and> storage_inv st' \<and>
    unat (gr_freed_bytes r) + unat (sm_usage st') = unat (gr_freed_bytes acc) + unat (sm_usage st) \<and>
    (need \<le> gr_freed_bytes r \<or> n = length cs) \<and>
    (\<forall>cid. hm_get (sm_content st') cid =
       (if cid \<in> sc_cid ` set (take n cs) then None else hm_get (sm_content st) cid)) \<and>
    (\<forall>h. hm_get (sm_fragments st') h =
       (if \<exists>c \<in> set (take n cs). h \<in> set (sc_fragments c) then None else hm_get (sm_fragments st) h))"
  using assms(3-)
proof (induction cs arbitrary: acc st)
  case Nil
  then show ?case by (auto intro: exI [of _ "0::nat"])
next
  case (Cons c cs)
  show ?case
  proof (cases "need \<le> gr_freed_bytes acc")
    case True
    with Cons.prems show ?thesis
      by (intro exI [of _ acc] exI [of _ st] exI [of _ "0::nat"]) simp
  next
    case False
    let ?acc = "\<lparr>gr_freed_bytes = gr_freed_bytes acc + sc_total_size c,
      gr_removed_fragments = gr_removed_fragments acc + word_of_nat (length (sc_fragments c)),
      gr_removed_content = gr_removed_content acc + 1\<rparr>"
    obtain st1 where st1: "delete (ios (sc_cid c)) J (sc_cid c) st = (Inr (), st1)" "storage_inv st1"
      "collectable st1 cs" "unat (sm_usage st1) + unat (sc_total_size c) = unat (sm_usage st)"
      "\<And>cid. hm_get (sm_content st1) cid = (if cid = sc_cid c then None else hm_get (sm_content st) cid)"
      "\<And>h. hm_get (sm_fragments st1) h = (if h \<in> set (sc_fragments c) then None else hm_get (sm_fragments st) h)"
      using delete_ok [OF assms(1,2) Cons.prems(1,2)] by blast
    have freed: "unat (gr_freed_bytes ?acc) = unat (gr_freed_bytes acc) + unat (sc_total_size c)"
      using Cons.prems(3) st1(4) by (simp add: add_no_wrap)
    with Cons.prems(3) st1(4) have "unat (gr_freed_bytes ?acc) + unat (sm_usage st1) < 2 ^ 64"
      by simp
    from Cons.IH [OF st1(2,3) this] obtain r st' n where
      "gc_loop ios J need cs ?acc st1 = (Inr r, st')" "storage_inv st'"
      "unat (gr_freed_bytes r) + unat (sm_usage st') = unat (gr_freed_bytes ?acc) + unat (sm_usage st1)"
      "need \<le> gr_freed_bytes r \<or> n = length cs"
      "\<And>cid. hm_get (sm_content st') cid =
        (if cid \<in> sc_cid ` set (take n cs) then None else hm_get (sm_content st1) cid)"
      "\<And>h. hm_get (sm_fragments st') h =
        (if \<exists>c \<in> set (take n cs). h \<in> set (sc_fragments c) then None else hm_get (sm_fragments st1) h)"
      by blast
    with False st1 freed show ?thesis
      by (intro exI [of _ r] exI [of _ st'] exI [of _ "Suc n"]) auto
  qed
qed

lemma gc_target_reached:
  fixes target freed usage' :: u64
  assumes "storage_inv st" "\<not> target \<le> sat_sub (sm_max_capacity st) (sm_usage st)"
    and "target - sat_sub (sm_max_capacity st) (sm_usage st) \<le> freed"
    and "unat freed + unat usage' = unat (sm_usage st)"
  shows "target \<le> sat_sub (sm_max_capacity st) usage'"
proof -
  have "unat (sm_usage st) \<le> unat (sm_max_capacity st)"
    using assms(1) by (simp add: storage_inv_def)
  moreover have "unat target - (unat (sm_max_capacity st) - unat (sm_usage st)) \<le> unat freed"
    using assms(2,3) by (simp add: word_le_nat_alt unat_sub not_le unat_sat_sub)
  ultimately show ?thesis
    using assms(4) by (simp add: word_le_nat_alt unat_sat_sub)
qed

lemma unpinned_listed:
  "hm_get (sm_content st) cid = Some c \<Longrightarrow> \<not> sc_pinned c \<Longrightarrow> c \<in> set (unpinned_by_age st)"
  by (force simp: unpinned_by_age_def hm_values_def dest: hm_get_in_set)

lemma listed_content:
  "storage_inv st \<Longrightarrow> c \<in> set (list_content st) \<Longrightarrow> \<exists>cid. hm_get (sm_content st) cid = Some c"
  by (auto simp: list_content_def hm_values_def hm_get_iff_in_set storage_inv_wf)

text \<open>Garbage collection makes the room it is asked for. When the file system does not fail and the
  unpinned content is in good order (\<open>collectable\<close>), \<open>garbage_collect\<close> returns; afterwards the target
  is free or no unpinned content is left. It reports exactly the bytes it freed, removes the first
  items in the order of their last access and their fragments, and touches nothing else - pinned
  content least of all.\<close>

theorem gc_makes_room:
  assumes "\<And>cid. fault_free (ios cid)" "always_encodes J" "storage_inv st"
    and "collectable st (unpinned_by_age st)"
    and "\<And>cid c. hm_get (sm_content st) cid = Some c \<Longrightarrow> sc_cid c = cid"
  shows "\<exists>r st' n. garbage_collect ios J now target st = (Inr r, st') \<and>
    (target \<le> available_bytes (get_stats st') \<or> (\<forall>c \<in> set (list_content st'). sc_pinned c)) \<and>
    unat (gr_freed_bytes r) = unat (sm_usage st) - unat (sm_usage st') \<and>
    (\<forall>cid. get_content st' cid =
       (if cid \<in> sc_cid ` set (take n (unpinned_by_age st)) then None else get_content st cid)) \<and>
    (\<forall>h. hm_get (sm_fragments st') h =
       (if \<exists>c \<in> set (take n (unpinned_by_age st)). h \<in> set (sc_fragments c) then None
        else hm_get (sm_fragments st) h))"
proof (cases "target \<le> sat_sub (sm_max_capacity st) (sm_usage st)")
  case True
  then show ?thesis
    using assms(3)
    by (intro exI [of _ "\<lparr>gr_freed_bytes = 0, gr_removed_fragments = 0, gr_removed_content = 0\<rparr>"]
          exI [of _ st] exI [of _ "0::nat"])
       (simp add: garbage_collect_def get_stats_def available_bytes_def storage_inv_def)
next
  case False
  let ?avail = "sat_sub (sm_max_capacity st) (sm_usage st)" and ?cs = "unpinned_by_age st"
  let ?none = "\<lparr>gr_freed_bytes = 0, gr_removed_fragments = 0, gr_removed_content = 0 :: u64\<rparr>"
  have fits: "unat (gr_freed_bytes ?none) + unat (sm_usage st) < 2 ^ 64"
    using assms(3) by (simp add: storage_inv_def)
  obtain r st1 n where run: "gc_loop ios J (target - ?avail) ?cs ?none st = (Inr r, st1)"
      "storage_inv st1"
      "unat (gr_freed_bytes r) + unat (sm_usage st1) = unat (gr_freed_bytes ?none) + unat (sm_usage st)"
      "target - ?avail \<le> gr_freed_bytes r \<or> n = length ?cs"
      "\<forall>cid. hm_get (sm_content st1) cid =
        (if cid \<in> sc_cid ` set (take n ?cs) then None else hm_get (sm_content st) cid)"
      "\<forall>h. hm_get (sm_fragments st1) h =
        (if \<exists>c \<in> set (take n ?cs). h \<in> set (sc_fragments c) then None else hm_get (sm_fragments st) h)"
    using gc_loop_ok [of ios, OF assms(1-4) fits, where need = "target - ?avail"] by blast
  define st' where "st' = st1\<lparr>sm_stats := (sm_stats st1)\<lparr>ss_last_gc := Some now\<rparr>\<rparr>"
  have gc: "garbage_collect ios J now target st = (Inr r, st')"
    using False run(1) by (simp add: garbage_collect_def st'_def)
  have "sm_max_capacity st' = sm_max_capacity st"
    using config_step [of J "(ios, now, CallCollectGarbage target)" st] by (simp add: gc config_def)
  then have "available_bytes (get_stats st') = sat_sub (sm_max_capacity st) (sm_usage st1)"
    using run(2) by (simp add: get_stats_def available_bytes_def st'_def storage_inv_def)
  then have room: "target \<le> available_bytes (get_stats st')" if "target - ?avail \<le> gr_freed_bytes r"
    using gc_target_reached [OF assms(3) False that] run(3) by simp
  have "sc_pinned c" if "n = length ?cs" "c \<in> set (list_content st')" for c
    using that run(5) listed_content [OF run(2), of c] unpinned_listed [of st _ c] assms(5)
    by (fastforce simp: list_content_def st'_def split: if_splits)
  with room show ?thesis
    using run gc by (intro exI [of _ r] exI [of _ st'] exI [of _ n]) (auto simp: st'_def get_content_def)
qed

section \<open>Restart\<close>

text \<open>What \<open>serde_json\<close> does: the text of two maps parses back to the same maps.\<close>

definition index_reads_back :: "index_codec \<Rightarrow> frag_map \<Rightarrow> content_map \<Rightarrow> bool" where
  "index_reads_back J f c \<longleftrightarrow> (\<forall>b. ix_to_json J (f, c) = Inr b \<longrightarrow>
     utf8_valid (map unat b) \<and>
     (\<exists>f' c'. ix_from_json J b = Some (f', c') \<and> same_map f f' \<and> same_map c c'))"

definition directories_ok :: "io \<Rightarrow> bool" where
  "directories_ok io \<longleftrightarrow> (\<forall>p. io_create_dir io p = None \<and> io_read io p = None)"

lemma save_or_fail_written:
  assumes "save_or_fail io J st = (Inr (), st')"
  obtains b where "ix_to_json J (sm_fragments st', sm_content st') = Inr b"
    "hm_get (sm_disk st') (metadata_path st') = Some b" "config st' = config st"
  using assms
  by (auto simp: save_or_fail_def save_metadata_def fs_write_def metadata_path_def config_def
      split: sum.splits option.splits prod.splits)

lemma storage_new_reads:
  assumes "directories_ok io" "hm_get d (dir @ [''metadata'', ''index.json'']) = Some b"
    and "utf8_valid (map unat b)"
  shows "storage_new io J dir cap d = load_metadata io J (empty_manager dir cap d)"
    and "fs_read_to_string io (metadata_path (empty_manager dir cap d)) d = Inr b"
    and "path_exists (metadata_path (empty_manager dir cap d)) d"
  using assms
  by (simp_all add: storage_new_def create_dir_all_def directories_ok_def fs_read_to_string_def
      fs_read_def metadata_path_def path_exists_def empty_manager_def)

lemma load_reads_back:
  assumes "directories_ok io" "hm_get d (dir @ [''metadata'', ''index.json'']) = Some b"
    and "ix_to_json J (f, c) = Inr b" "index_reads_back J f c"
    and "hm_sum (\<lambda>x. unat (sf_size x)) f < 2 ^ 64"
  shows "\<exists>st. storage_new io J dir cap d = Inr st \<and> same_map f (sm_fragments st) \<and>
    same_map c (sm_content st) \<and> unat (sm_usage st) = hm_sum (\<lambda>x. unat (sf_size x)) f \<and>
    ss_fragment_count (sm_stats st) = word_of_nat (length f) \<and> sm_disk st = d"
proof -
  from assms(3,4) obtain f' c' where b: "utf8_valid (map unat b)" "ix_from_json J b = Some (f', c')"
      "same_map f f'" "same_map c c'"
    by (auto simp: index_reads_back_def)
  moreover have "unat (sum_list (map sf_size (hm_values f'))) = hm_sum (\<lambda>x. unat (sf_size x)) f"
    using unat_sum_sizes [of sf_size "hm_values f'"] assms(5) same_map_sum [OF b(3)]
    by (simp add: hm_sum_def)
  moreover have "length f' = length f"
    using same_map_length [OF b(3)] by simp
  ultimately show ?thesis
    using storage_new_reads [OF assms(1,2) b(1)]
    by (auto simp: load_metadata_def Let_def empty_manager_def)
qed

text \<open>C16. A restart loses nothing. After a call that changes fragments or content and succeeds, a new
  manager on the same disk lists the same fragments and the same content, and its usage is the sum
  of the sizes of the fragments it lists.\<close>

theorem restart_recovers:
  assumes "store_fragment io J now h cid i data st = (Inr (), st') \<or>
      store_content io J c st = (Inr (), st') \<or> pin io J cid st = (Inr (), st') \<or>
      unpin io J cid st = (Inr (), st') \<or> delete io J cid st = (Inr (), st')"
    and "index_reads_back J (sm_fragments st') (sm_content st')"
    and "directories_ok io'" "bytes_held st' < 2 ^ 64"
  shows "\<exists>st2. storage_new io' J (sm_data_dir st') cap (sm_disk st') = Inr st2 \<and>
    same_map (sm_fragments st') (sm_fragments st2) \<and> same_map (sm_content st') (sm_content st2) \<and>
    unat (sm_usage st2) = bytes_held st' \<and>
    ss_fragment_count (get_stats st2) = word_of_nat (length (sm_fragments st'))"
proof -
  obtain s where "save_or_fail io J s = (Inr (), st')"
    using assms(1)
    by (auto simp: store_fragment_def store_content_def pin_def unpin_def delete_def Let_def
        split: if_splits sum.splits prod.splits option.splits)
  then obtain b where "ix_to_json J (sm_fragments st', sm_content st') = Inr b"
      "hm_get (sm_disk st') (sm_data_dir st' @ [''metadata'', ''index.json'']) = Some b"
    by (rule save_or_fail_written) (simp add: metadata_path_def)
  with assms(2-4) show ?thesis
    using load_reads_back [of io' "sm_disk st'" "sm_data_dir st'" b J "sm_fragments st'" "sm_content st'" cap]
    by (auto simp: get_stats_def)
qed

text \<open>The index is overwritten in place, so a write that fails half way forgets everything. When the
  write of the index in \<open>store_content\<close> leaves text that no longer parses, the next start succeeds
  with an empty store - no fragment, no content, usage zero - while every fragment file is still on
  the disk.\<close>

theorem failed_index_write_forgets_all:
  assumes "ix_to_json J (sm_fragments st, hm_insert (sc_cid c) c (sm_content st)) = Inr b"
    and "io_write io (metadata_path st) = Some (e, Some left)"
    and "utf8_valid (map unat left)" "ix_from_json J left = None"
    and "store_content io J c st = (r, st')" and "directories_ok io'"
    and "fragment_path (sm_data_dir st) h = Inr p" "hm_get (sm_disk st) p = Some data"
  shows "r = Inl (Io e) \<and>
    storage_new io' J (sm_data_dir st) cap (sm_disk st') = Inr (empty_manager (sm_data_dir st) cap (sm_disk st')) \<and>
    hm_get (sm_disk st') p = Some data"
proof -
  have r: "r = Inl (Io e)" "sm_disk st' = hm_insert (metadata_path st) left (sm_disk st)"
    using assms(1,2,5)
    by (auto simp: store_content_def save_or_fail_def save_metadata_def fs_write_def count_content_def
        metadata_path_def)
  then have "hm_get (sm_disk st') (sm_data_dir st @ [''metadata'', ''index.json'']) = Some left"
    by (simp add: metadata_path_def)
  from storage_new_reads [OF assms(6) this assms(3)] r assms(4,7,8) show ?thesis
    by (auto simp: load_metadata_def empty_manager_def dest: fragment_path_not_index)
qed

section \<open>Where the accounting and the sharing of fragments go wrong\<close>

lemma store_fragment_done:
  assumes "store_fragment io J now h cid i data st = (Inr (), st')"
    and "storage_inv st" "length data < 2 ^ 63"
  obtains f where "sm_fragments st' = hm_insert h f (sm_fragments st)"
    "unat (sf_size f) = length data" "unat (sm_usage st') = unat (sm_usage st) + length data"
    "storage_inv st'" "sm_content st' = sm_content st" "\<not> sf_pinned f"
proof -
  let ?sz = "word_of_nat (length data) :: u64"
  have fits: "\<not> sm_usage st + ?sz > sm_max_capacity st"
    using assms(1) by (auto simp: store_fragment_def Let_def split: if_splits)
  note fits = this store_fragment_fits [OF assms(2,3) this]
  obtain d where "save_or_fail io J (record_fragment now h cid i ?sz (st\<lparr>sm_disk := d\<rparr>)) = (Inr (), st')"
    using assms(1) fits(1) by (auto simp: store_fragment_def Let_def split: sum.splits prod.splits)
  from save_or_fail_memory [OF this] obtain d' where
    st': "st' = (record_fragment now h cid i ?sz st)\<lparr>sm_disk := d'\<rparr>"
    by (auto simp: same_memory_def record_fragment_def)
  have "unat (sm_usage st + ?sz) = unat (sm_usage st) + length data"
    using fits(2,3) assms(2) by (subst add_no_wrap) (simp_all add: storage_inv_def)
  moreover have "storage_inv st'"
    using store_fragment_inv [OF assms(2,3), of io J now h cid i] by (simp add: assms(1))
  ultimately show thesis
    using st' fits(3)
    by (intro that [of "\<lparr>sf_hash = h, sf_cid = cid, sf_index = i, sf_size = ?sz, sf_stored_at = now,
          sf_last_accessed = now, sf_access_count = 0, sf_pinned = False\<rparr>"])
       (simp_all add: record_fragment_def)
qed

lemma delete_fragment_done:
  assumes "delete_fragment io h st = (Inr (), st')"
  shows "sm_fragments st' = hm_remove h (sm_fragments st)"
    "unat (sm_usage st') = unat (sm_usage st) - size_of st h" "sm_content st' = sm_content st"
  using assms
  by (auto simp: delete_fragment_def Let_def forget_fragment_def size_of_def unat_sat_sub
      split: sum.splits prod.splits if_splits option.splits)

text \<open>Storing a fragment again leaks capacity. \<open>store_fragment\<close> replaces the file and the entry of a
  hash it already holds but adds the size to the usage once more: after two stores of one fragment the
  store holds its bytes once and counts them twice, and when the fragment is deleted its size stays
  booked although nothing is left of it. Uploading the same file twice does this.\<close>

theorem storing_again_leaks_capacity:
  assumes "storage_inv st" "length data < 2 ^ 63"
    and "store_fragment io1 J now1 h cid1 i1 data st = (Inr (), st1)"
    and "store_fragment io2 J now2 h cid2 i2 data st1 = (Inr (), st2)"
    and "delete_fragment io3 h st2 = (Inr (), st3)"
  shows "bytes_held st2 + (case hm_get (sm_fragments st) h of None \<Rightarrow> 0 | Some f \<Rightarrow> unat (sf_size f)) =
      bytes_held st + length data \<and>
    unat (sm_usage st2) = unat (sm_usage st) + 2 * length data \<and>
    \<not> has_fragment st3 h \<and> unat (sm_usage st3) = unat (sm_usage st) + length data"
proof -
  obtain f1 where 1: "sm_fragments st1 = hm_insert h f1 (sm_fragments st)" "unat (sf_size f1) = length data"
      "unat (sm_usage st1) = unat (sm_usage st) + length data" "storage_inv st1"
    using store_fragment_done [OF assms(3,1,2)] by blast
  obtain f2 where 2: "sm_fragments st2 = hm_insert h f2 (sm_fragments st1)" "unat (sf_size f2) = length data"
      "unat (sm_usage st2) = unat (sm_usage st1) + length data"
    using store_fragment_done [OF assms(4) 1(4) assms(2)] by blast
  have "size_of st2 h = length data"
    using 2 by (simp add: size_of_def)
  with delete_fragment_done [OF assms(5)] 1 2
    hm_sum_insert [of "\<lambda>f. unat (sf_size f)" h f1 "sm_fragments st"]
    hm_sum_insert [of "\<lambda>f. unat (sf_size f)" h f2 "sm_fragments st1"]
  show ?thesis
    by (simp add: has_fragment_def)
qed

lemma delete_fragment_effect:
  "sm_content (snd (delete_fragment io k st)) = sm_content st"
  "\<not> has_fragment st h \<Longrightarrow> \<not> has_fragment (snd (delete_fragment io k st)) h"
  by (auto simp: delete_fragment_def Let_def forget_fragment_def has_fragment_def
      split: sum.splits prod.splits)

lemma delete_fragments_content:
  "sm_content (snd (delete_fragments io hs st)) = sm_content st"
  by (rule delete_fragments_keeps [where P = "\<lambda>st'. sm_content st' = sm_content st"])
     (simp_all add: delete_fragment_effect)

lemma delete_fragments_gone:
  assumes "fault_free io" "safe_hash h" "delete_fragments io hs st = (Inr (), st')" "h \<in> set hs"
  shows "\<not> has_fragment st' h"
  using assms(3,4)
proof (induction hs arbitrary: st)
  case (Cons k hs)
  obtain r st1 where d: "delete_fragment io k st = (r, st1)" by force
  with Cons.prems(1) have rest: "delete_fragments io hs st1 = (Inr (), st')"
    by (auto split: sum.splits storage_error.splits)
  show ?case
  proof (cases "h \<in> set hs")
    case True
    with rest Cons.IH show ?thesis by blast
  next
    case False
    then have "k = h"
      using Cons.prems(2) by simp
    then have "\<not> has_fragment st1 h"
      using delete_fragment_fault_free [OF assms(1,2), of st] d
      by (auto simp: forget_fragment_def has_fragment_def)
    then have "\<not> has_fragment (snd (delete_fragments io hs st1)) h"
      by (intro delete_fragments_keeps [where P = "\<lambda>st. \<not> has_fragment st h"]) (simp_all add: delete_fragment_effect)
    with rest show ?thesis by simp
  qed
qed simp

text \<open>Pinning does not protect a fragment that is shared. Content is looked at one item at a time:
  when an unpinned item lists a fragment that a pinned item also lists, deleting the unpinned one (or
  collecting it) succeeds and takes the fragment with it; the pinned content is still listed, as
  pinned, but \<open>get_fragment\<close> answers \<open>NotFound\<close>.\<close>

theorem deleting_shared_fragment_breaks_pinned:
  assumes "get_content st a = Some ca" "\<not> sc_pinned ca" "h \<in> set (sc_fragments ca)"
    and "get_content st b = Some cb" "sc_pinned cb" "h \<in> set (sc_fragments cb)"
    and "safe_hash h" "fault_free io" "delete io J a st = (Inr (), st')"
  shows "get_content st' b = Some cb \<and> fst (get_fragment io' now h st') = Inl (NotFound h)"
proof -
  obtain st1 where del: "delete_fragments io (sc_fragments ca) st = (Inr (), st1)"
    and save: "save_or_fail io J (count_content (st1\<lparr>sm_content := hm_remove a (sm_content st1)\<rparr>)) = (Inr (), st')"
    using assms(1,2,9) by (auto simp: delete_def get_content_def split: prod.splits sum.splits)
  have "\<not> has_fragment st1 h" "sm_content st1 = sm_content st"
    using delete_fragments_gone [OF assms(8,7) del assms(3)]
      delete_fragments_content [of io "sc_fragments ca" st] del by simp_all
  moreover have "a \<noteq> b"
    using assms(1,2,4,5) by auto
  moreover obtain d where
      "st' = (count_content (st1\<lparr>sm_content := hm_remove a (sm_content st1)\<rparr>))\<lparr>sm_disk := d\<rparr>"
    using save_or_fail_memory [OF save] unfolding same_memory_def by blast
  ultimately show ?thesis
    using assms(4)
    by (simp add: count_content_def get_content_def get_fragment_def has_fragment_def)
qed

section \<open>Witnesses\<close>

lemma good_io_fault_free: "fault_free good_io" "directories_ok good_io"
  by (simp_all add: fault_free_def directories_ok_def good_io_def)

lemma demo_encodes: "always_encodes demo_index"
  by (simp add: always_encodes_def demo_index_def)

lemma demo_unpinned: "unpinned_by_age (demo_store False) = [demo_content ''c'' False]"
  by (simp add: unpinned_by_age_def hm_values_def demo_defs)

lemma demo_collectable: "collectable (demo_store False) [demo_content ''c'' False]"
  using demo_safe by (simp add: collectable_def size_of_def demo_defs hm_get_def)

theorem gc_makes_room_witness:
  "\<exists>r st'. garbage_collect (\<lambda>_. good_io) demo_index 9 3 (demo_store False) = (Inr r, st') \<and>
     unat (gr_freed_bytes r) = 2 - unat (sm_usage st')"
proof -
  have keys: "\<And>cid c. hm_get (sm_content (demo_store False)) cid = Some c \<Longrightarrow> sc_cid c = cid"
    by (auto simp: demo_store_def hm_get_def demo_content_def split: if_splits)
  have "collectable (demo_store False) (unpinned_by_age (demo_store False))"
    by (simp add: demo_unpinned demo_collectable)
  from gc_makes_room [of "\<lambda>_. good_io" demo_index "demo_store False" 9 3,
      OF good_io_fault_free(1) demo_encodes demo_store_inv this keys]
  obtain r st' where "garbage_collect (\<lambda>_. good_io) demo_index 9 3 (demo_store False) = (Inr r, st')"
      "unat (gr_freed_bytes r) = unat (sm_usage (demo_store False)) - unat (sm_usage st')"
    by blast
  then show ?thesis
    by (simp add: demo_store_def)
qed

theorem restart_recovers_witness:
  "\<exists>st2. storage_new good_io demo_index [''d''] 3
       (sm_disk (snd (store_content good_io demo_index (demo_content ''c'' False) (empty_manager [''d''] 3 [])))) = Inr st2 \<and>
     same_map [(''c'', demo_content ''c'' False)] (sm_content st2)"
proof -
  obtain st' where st: "store_content good_io demo_index (demo_content ''c'' False) (empty_manager [''d''] 3 []) = (Inr (), st')"
      "sm_fragments st' = []" "sm_content st' = [(''c'', demo_content ''c'' False)]" "sm_data_dir st' = [''d'']"
    by (simp add: store_content_def save_or_fail_def save_metadata_def fs_write_def count_content_def
        good_io_def demo_index_def empty_manager_def hm_insert_def demo_content_def)
  have "index_reads_back demo_index (sm_fragments st') (sm_content st')"
    by (simp add: index_reads_back_def st demo_index_def same_map_def hm_wf_def)
  with st good_io_fault_free(2) show ?thesis
    using restart_recovers [of good_io demo_index 0 "[]" "[]" 0 "[]" "empty_manager [''d''] 3 []" st'
      "demo_content ''c'' False" good_io 3] by auto
qed

theorem failed_index_write_forgets_all_witness:
  "\<exists>r st'. store_content (good_io\<lparr>io_write := \<lambda>_. Some (''disk full'', Some [])\<rparr>) demo_index
       (demo_content ''c'' False) (demo_store False) = (r, st') \<and>
     storage_new good_io demo_index [''d''] 3 (sm_disk st') = Inr (empty_manager [''d''] 3 (sm_disk st'))"
proof -
  let ?io = "good_io\<lparr>io_write := \<lambda>_. Some (''disk full'', Some [])\<rparr>"
  obtain r st' where r: "store_content ?io demo_index (demo_content ''c'' False) (demo_store False) = (r, st')"
    by force
  with failed_index_write_forgets_all [of demo_index "demo_store False" "demo_content ''c'' False" "[123]" ?io
      "''disk full''" "[]" r st' good_io "''ab''" "[''d'', ''fragments'', ''ab'', ''ab'']" "[1, 2]" 3]
    good_io_fault_free(2)
  show ?thesis
    by (auto simp: demo_defs demo_path hm_get_def)
qed

theorem storing_again_leaks_capacity_witness:
  "\<exists>st1 st2 st3. store_fragment good_io demo_index 1 ''ab'' ''c'' 0 [7] (empty_manager [''d''] 3 []) = (Inr (), st1) \<and>
     store_fragment good_io demo_index 2 ''ab'' ''c'' 0 [7] st1 = (Inr (), st2) \<and>
     delete_fragment good_io ''ab'' st2 = (Inr (), st3) \<and> \<not> has_fragment st3 ''ab'' \<and> unat (sm_usage st3) = 1"
proof -
  have inv: "storage_inv (empty_manager [''d''] 3 [])"
    by (simp add: storage_inv_def empty_manager_def)
  have ok: "fst (store_fragment good_io demo_index now ''ab'' ''c'' 0 [7] st) = Inr ()"
    if "sm_usage st + 1 \<le> sm_max_capacity st" for st now
    using that by (auto simp: store_fragment_def demo_path create_dir_all_def fs_write_def good_io_def
        demo_index_def save_or_fail_def save_metadata_def Let_def split: if_splits)
  obtain st1 where 1: "store_fragment good_io demo_index 1 ''ab'' ''c'' 0 [7] (empty_manager [''d''] 3 []) = (Inr (), st1)"
    using ok [of "empty_manager [''d''] 3 []" 1] by (cases "store_fragment good_io demo_index 1 ''ab'' ''c'' 0 [7] (empty_manager [''d''] 3 [])")
      (simp add: empty_manager_def)
  then have "sm_usage st1 = 1" "sm_max_capacity st1 = 3"
    by (auto simp: store_fragment_def demo_path create_dir_all_def fs_write_def good_io_def
        demo_index_def save_or_fail_def save_metadata_def empty_manager_def record_fragment_def)
  then obtain st2 where 2: "store_fragment good_io demo_index 2 ''ab'' ''c'' 0 [7] st1 = (Inr (), st2)"
    using ok [of st1 2] by (cases "store_fragment good_io demo_index 2 ''ab'' ''c'' 0 [7] st1") simp
  obtain d where 3: "delete_fragment good_io ''ab'' st2 = (Inr (), d)"
    using delete_fragment_fault_free [OF good_io_fault_free(1) demo_safe] by blast
  from storing_again_leaks_capacity [OF inv _ 1 2 3] 1 2 3 show ?thesis
    by (auto simp: empty_manager_def)
qed

theorem deleting_shared_fragment_breaks_pinned_witness:
  "\<exists>st'. delete good_io demo_index ''x'' ((demo_store True)\<lparr>sm_content :=
       [(''c'', demo_content ''c'' True), (''x'', demo_content ''x'' False)]\<rparr>) = (Inr (), st') \<and>
     get_content st' ''c'' = Some (demo_content ''c'' True) \<and>
     fst (get_fragment good_io 9 ''ab'' st') = Inl (NotFound ''ab'')"
proof -
  let ?st = "(demo_store True)\<lparr>sm_content := [(''c'', demo_content ''c'' True), (''x'', demo_content ''x'' False)]\<rparr>"
  obtain st1 where "delete_fragment good_io ''ab'' ?st = (Inr (), st1)"
    using delete_fragment_fault_free [OF good_io_fault_free(1) demo_safe] by blast
  then obtain st' where "delete good_io demo_index ''x'' ?st = (Inr (), st')"
    by (auto simp: delete_def hm_get_def demo_content_def save_or_fail_def save_metadata_def fs_write_def
        good_io_def demo_index_def count_content_def)
  with deleting_shared_fragment_breaks_pinned [of ?st "''x''" "demo_content ''x'' False" "''ab''" "''c''"
      "demo_content ''c'' True" good_io demo_index st' good_io 9] good_io_fault_free(1) demo_safe
  show ?thesis
    by (auto simp: get_content_def hm_get_def demo_content_def)
qed

end
