(* ===== verification/ContentCodec.thy ===== *)
theory ContentCodec
  imports Fragments
begin

text \<open>
  The content protocol, \<open>protocol/src/content_protocol.rs\<close>: what nodes ask each other and answer,
  and the codec that puts a message on a stream as a four-byte big-endian length and a JSON text.

  A stream is the list of bytes its writer sent before closing it; a reader returns what it read and
  the bytes that remain. The JSON texts are those of \<open>serde_json\<close>, the fields of \<open>content_json\<close>.
\<close>

section \<open>Messages\<close>

definition MAX_MESSAGE_SIZE :: nat where
  "MAX_MESSAGE_SIZE = 512 * 1024"

definition MAX_FRAGMENT_COUNT :: nat where
  "MAX_FRAGMENT_COUNT = 10000"

definition MAX_CONTENT_LIST_ITEMS :: nat where
  "MAX_CONTENT_LIST_ITEMS = 10000"

datatype content_request =
    ReqGetFragment string
  | ReqGetManifest string
  | ReqPing
  | ReqListContent u32
  | ReqRelayCell bytes

record content_summary =
  su_cid :: string
  su_total_size :: u64
  su_fragment_count :: u32
  su_mime_type :: string

datatype content_response =
    RespFragment string bytes
  | RespManifest string "string list" u64 string
  | RespPong
  | RespNotFound string
  | RespError string
  | RespContentList "content_summary list"
  | RespRelayCell bytes

record content_announcement =
  an_cid :: string
  an_peer_id :: string
  an_total_size :: u64
  an_fragment_count :: u32
  an_mime_type :: string
  an_timestamp :: u64

section \<open>Codec\<close>

datatype codec_error =
    InvalidData string
  | InvalidInput string
  | UnexpectedEof

record content_json =
  rq_to_json :: "content_request \<Rightarrow> string + bytes"
  rq_from_json :: "bytes \<Rightarrow> string + content_request"
  rs_to_json :: "content_response \<Rightarrow> string + bytes"
  rs_from_json :: "bytes \<Rightarrow> string + content_response"

text \<open>\<open>to_be_bytes\<close> and \<open>from_be_bytes\<close> of a \<open>u32\<close>.\<close>

definition to_be_bytes :: "nat \<Rightarrow> bytes" where
  "to_be_bytes v = rev (le_bytes 4 v)"

definition from_be_bytes :: "bytes \<Rightarrow> nat" where
  "from_be_bytes bs = from_le_bytes (rev bs)"

definition read_exact :: "nat \<Rightarrow> bytes \<Rightarrow> codec_error + bytes \<times> bytes" where
  "read_exact n s = (if length s < n then Inl UnexpectedEof else Inr (take n s, drop n s))"

definition read_length_prefixed :: "bytes \<Rightarrow> codec_error + bytes \<times> bytes" where
  "read_length_prefixed s =
     (case read_exact 4 s of
        Inl e \<Rightarrow> Inl e
      | Inr (len_buf, s1) \<Rightarrow>
          (let len = from_be_bytes len_buf in
           if len > MAX_MESSAGE_SIZE then
             Inl (InvalidData (''message too large: '' @ show_nat len @ '' bytes (max '' @
               show_nat MAX_MESSAGE_SIZE @ '')''))
           else read_exact len s1))"

definition write_length_prefixed :: "bytes \<Rightarrow> codec_error + bytes" where
  "write_length_prefixed data =
     (if length data \<ge> 2 ^ 32 then Inl (InvalidInput ''message exceeds u32::MAX bytes'')
      else Inr (to_be_bytes (length data) @ data))"

definition validate_response :: "content_response \<Rightarrow> codec_error + unit" where
  "validate_response resp =
     (case resp of
        RespManifest _ fragment_hashes _ _ \<Rightarrow>
          if length fragment_hashes > MAX_FRAGMENT_COUNT then
            Inl (InvalidData (''manifest has '' @ show_nat (length fragment_hashes) @ '' fragments (max '' @
              show_nat MAX_FRAGMENT_COUNT @ '')''))
          else Inr ()
      | RespContentList items \<Rightarrow>
          if length items > MAX_CONTENT_LIST_ITEMS then
            Inl (InvalidData (''content list has '' @ show_nat (length items) @ '' items (max '' @
              show_nat MAX_CONTENT_LIST_ITEMS @ '')''))
          else Inr ()
      | _ \<Rightarrow> Inr ())"

definition read_request :: "content_json \<Rightarrow> bytes \<Rightarrow> codec_error + content_request \<times> bytes" where
  "read_request J s =
     (case read_length_prefixed s of
        Inl e \<Rightarrow> Inl e
      | Inr (buf, s1) \<Rightarrow>
          (case rq_from_json J buf of Inl e \<Rightarrow> Inl (InvalidData e) | Inr req \<Rightarrow> Inr (req, s1)))"

definition read_response :: "content_json \<Rightarrow> bytes \<Rightarrow> codec_error + content_response \<times> bytes" where
  "read_response J s =
     (case read_length_prefixed s of
        Inl e \<Rightarrow> Inl e
      | Inr (buf, s1) \<Rightarrow>
          (case rs_from_json J buf of
             Inl e \<Rightarrow> Inl (InvalidData e)
           | Inr resp \<Rightarrow>
               (case validate_response resp of Inl e \<Rightarrow> Inl e | Inr _ \<Rightarrow> Inr (resp, s1))))"

definition write_request :: "content_json \<Rightarrow> content_request \<Rightarrow> codec_error + bytes" where
  "write_request J req =
     (case rq_to_json J req of Inl e \<Rightarrow> Inl (InvalidData e) | Inr b \<Rightarrow> write_length_prefixed b)"

definition write_response :: "content_json \<Rightarrow> content_response \<Rightarrow> codec_error + bytes" where
  "write_response J resp =
     (case rs_to_json J resp of Inl e \<Rightarrow> Inl (InvalidData e) | Inr b \<Rightarrow> write_length_prefixed b)"

section \<open>Framing\<close>

lemma from_be_to_be: "v < 2 ^ 32 \<Longrightarrow> from_be_bytes (to_be_bytes v) = v"
  by (simp add: from_be_bytes_def to_be_bytes_def from_le_bytes_le_bytes)

lemma length_to_be [simp, word_len]: "length (to_be_bytes v) = 4"
  by (simp add: to_be_bytes_def)

lemma from_le_bytes_inj:
  "from_le_bytes bs = v \<Longrightarrow> le_bytes (length bs) v = bs"
proof (induction bs arbitrary: v)
  case (Cons b bs)
  have "unat b < 256"
    using unsigned_less [of b, where 'a = nat] by simp
  then have "v mod 256 = unat b" "v div 256 = from_le_bytes bs"
    using Cons.prems by auto
  with Cons.IH show ?case
    by simp
qed simp

lemma to_be_from_be: "length bs = 4 \<Longrightarrow> to_be_bytes (from_be_bytes bs) = bs"
  using from_le_bytes_inj [of "rev bs"] by (simp add: to_be_bytes_def from_be_bytes_def)

text \<open>A frame is read exactly when it is there and not too large.\<close>

lemma read_length_prefixed_iff:
  "read_length_prefixed s = Inr (b, rest) \<longleftrightarrow>
     s = to_be_bytes (length b) @ b @ rest \<and> length b \<le> MAX_MESSAGE_SIZE"
proof
  assume read: "read_length_prefixed s = Inr (b, rest)"
  then have s: "\<not> length s < 4" "from_be_bytes (take 4 s) \<le> MAX_MESSAGE_SIZE"
      "\<not> length (drop 4 s) < from_be_bytes (take 4 s)"
      "b = take (from_be_bytes (take 4 s)) (drop 4 s)" "rest = drop (from_be_bytes (take 4 s)) (drop 4 s)"
    by (auto simp: read_length_prefixed_def read_exact_def Let_def split: if_splits)
  have len: "length (take 4 s) = 4"
    using s(1) by simp
  have "length b = from_be_bytes (take 4 s)"
    using s(3,4) by simp
  moreover have "b @ rest = drop 4 s"
    unfolding s(4,5) by (rule append_take_drop_id)
  ultimately show "s = to_be_bytes (length b) @ b @ rest \<and> length b \<le> MAX_MESSAGE_SIZE"
    using s(2) to_be_from_be [OF len] append_take_drop_id [of 4 s] by simp
next
  assume "s = to_be_bytes (length b) @ b @ rest \<and> length b \<le> MAX_MESSAGE_SIZE"
  moreover from this have "from_be_bytes (to_be_bytes (length b)) = length b"
    by (intro from_be_to_be) (simp add: MAX_MESSAGE_SIZE_def)
  ultimately show "read_length_prefixed s = Inr (b, rest)"
    by (simp add: read_length_prefixed_def read_exact_def)
qed

text \<open>A frame that is too large is refused, whatever follows.\<close>

lemma read_length_prefixed_too_large:
  assumes "MAX_MESSAGE_SIZE < n" "n < 2 ^ 32"
  shows "read_length_prefixed (to_be_bytes n @ s) =
    Inl (InvalidData (''message too large: '' @ show_nat n @ '' bytes (max '' @ show_nat MAX_MESSAGE_SIZE @ '')''))"
  using assms by (simp add: read_length_prefixed_def read_exact_def from_be_to_be)

lemma read_response_frame:
  "read_response J s = Inr (r, rest) \<longleftrightarrow>
     (\<exists>b. read_length_prefixed s = Inr (b, rest) \<and> rs_from_json J b = Inr r \<and> validate_response r = Inr ())"
  by (auto simp: read_response_def split: sum.splits)

text \<open>The codec is exact: a reader gets a response from a stream exactly when the stream starts with
  a four-byte big-endian length of at most 512 KiB and that many bytes, which parse as the response, and
  the response passes the checks on its number of items; the rest of the stream is left untouched.\<close>

theorem response_stream_exact:
  "read_response J s = Inr (r, rest) \<longleftrightarrow>
     (\<exists>b. s = to_be_bytes (length b) @ b @ rest \<and> length b \<le> MAX_MESSAGE_SIZE \<and>
        rs_from_json J b = Inr r \<and> validate_response r = Inr ())"
  by (auto simp: read_response_frame read_length_prefixed_iff)

lemma read_request_frame:
  "read_request J s = Inr (r, rest) \<longleftrightarrow>
     (\<exists>b. read_length_prefixed s = Inr (b, rest) \<and> rq_from_json J b = Inr r)"
  by (auto simp: read_request_def split: sum.splits)

text \<open>What is written and not too large is what the other side reads.\<close>

lemma response_roundtrip:
  assumes "rs_to_json J r = Inr b" "rs_from_json J b = Inr r" "length b \<le> MAX_MESSAGE_SIZE"
    and "validate_response r = Inr ()"
  shows "\<exists>w. write_response J r = Inr w \<and> read_response J (w @ rest) = Inr (r, rest)"
  using assms
  by (auto simp: write_response_def write_length_prefixed_def read_response_frame read_length_prefixed_iff
      MAX_MESSAGE_SIZE_def)

lemma request_roundtrip:
  assumes "rq_to_json J r = Inr b" "rq_from_json J b = Inr r" "length b \<le> MAX_MESSAGE_SIZE"
  shows "\<exists>w. write_request J r = Inr w \<and> read_request J (w @ rest) = Inr (r, rest)"
  using assms
  by (auto simp: write_request_def write_length_prefixed_def read_request_frame read_length_prefixed_iff
      MAX_MESSAGE_SIZE_def)

section \<open>Full chunks do not fit\<close>

text \<open>
  \<open>serde_json\<close> writes a \<open>Vec<u8>\<close> as an array of decimal numbers: at least a digit and a comma or
  bracket for each byte, besides the rest of the message.
\<close>

definition json_writes_numbers :: "content_json \<Rightarrow> bool" where
  "json_writes_numbers J \<longleftrightarrow>
     (\<forall>h data b. rs_to_json J (RespFragment h data) = Inr b \<longrightarrow> 2 * length data < length b)"

lemma chunks_first:
  assumes "CHUNK_SIZE \<le> length content"
  obtains c cs where "chunks CHUNK_SIZE content = c # cs" "length c = CHUNK_SIZE"
proof -
  have "0 < CHUNK_SIZE" "content \<noteq> []"
    using assms by (auto simp: CHUNK_SIZE_def)
  then show thesis
    using assms by (intro that [OF chunks_step]) simp_all
qed

text \<open>A full chunk never arrives. The limit of 512 KiB is said to cover a 256 KiB fragment with its
  JSON overhead, but JSON takes at least two bytes for each byte of data: for content of 256 KiB or more
  the answer with its first fragment is written without an error and refused by every reader.\<close>

theorem full_chunk_refused:
  assumes "json_writes_numbers J" "CHUNK_SIZE \<le> length content"
    and "rs_to_json J (RespFragment h (hd (chunks CHUNK_SIZE content))) = Inr b" "length b < 2 ^ 32"
  shows "\<exists>w. write_response J (RespFragment h (hd (chunks CHUNK_SIZE content))) = Inr w \<and>
    read_response J (w @ rest) = Inl (InvalidData (''message too large: '' @ show_nat (length b) @
      '' bytes (max '' @ show_nat MAX_MESSAGE_SIZE @ '')''))"
proof -
  obtain c cs where "chunks CHUNK_SIZE content = c # cs" "length c = CHUNK_SIZE"
    using assms(2) by (rule chunks_first)
  with assms(1,3) have "2 * CHUNK_SIZE < length b"
    unfolding json_writes_numbers_def by fastforce
  then have "MAX_MESSAGE_SIZE < length b"
    by (simp add: MAX_MESSAGE_SIZE_def CHUNK_SIZE_def)
  with assms(3,4) show ?thesis
    by (simp add: write_response_def write_length_prefixed_def read_response_def read_length_prefixed_too_large)
qed

text \<open>A codec that writes each byte as a number of one digit, whatever the number.\<close>

definition demo_json :: content_json where
  "demo_json = \<lparr>rq_to_json = (\<lambda>_. Inr []), rq_from_json = (\<lambda>_. Inl ''EOF''),
     rs_to_json = (\<lambda>r. case r of RespFragment h data \<Rightarrow> Inr (replicate (2 * length data + 1) 0) | _ \<Rightarrow> Inr []),
     rs_from_json = (\<lambda>_. Inl ''EOF'')\<rparr>"

theorem full_chunk_refused_witness:
  "let content = replicate CHUNK_SIZE 7 in
   \<exists>w e. write_response demo_json (RespFragment ''ab'' (hd (chunks CHUNK_SIZE content))) = Inr w \<and>
     read_response demo_json w = Inl e"
proof -
  have pos: "0 < CHUNK_SIZE" and big: "2 * CHUNK_SIZE + 1 < 2 ^ 32"
    by (simp_all add: CHUNK_SIZE_def)
  then have "chunks CHUNK_SIZE (replicate CHUNK_SIZE (7::8 word)) = [replicate CHUNK_SIZE 7]"
    by (subst chunks_step) (auto simp: replicate_empty)
  with big full_chunk_refused [of demo_json "replicate CHUNK_SIZE 7" "''ab''"
      "replicate (2 * CHUNK_SIZE + 1) 0" "[]"] show ?thesis
    by (auto simp: demo_json_def json_writes_numbers_def)
qed

end
