(* ===== verification/DhtManager.thy ===== *)
theory DhtManager
  imports ContentCodec
begin

text \<open>
  Content records and the peers a node knows, \<open>protocol/src/dht.rs\<close>. Peer identifiers are their
  bytes, their text form and multiaddresses are strings; the JSON of a record is that of
  \<open>serde_json\<close>, the fields of \<open>dht_json\<close>.
\<close>

section \<open>Records\<close>

record provider_info =
  pv_peer_id :: string
  pv_addresses :: "string list"
  pv_reputation :: u8
  pv_online :: bool
  pv_last_seen :: u64

record content_dht_metadata =
  md_size :: u64
  md_mime_type :: string
  md_fragment_count :: u32
  md_encrypted :: bool

record content_record =
  cr_cid :: string
  cr_providers :: "provider_info list"
  cr_metadata :: content_dht_metadata
  cr_created_at :: u64
  cr_ttl_seconds :: u64

record peer_state =
  ps_addresses :: "string list"
  ps_reputation :: u8
  ps_last_seen :: instant
  ps_bytes_sent :: u64
  ps_bytes_received :: u64
  ps_successful_requests :: u64
  ps_failed_requests :: u64

record dht_manager =
  dm_local_peer_id :: string
  dm_local_records :: "(string, content_record) hmap"
  dm_known_peers :: "(string, peer_state) hmap"
  dm_bootstrap_nodes :: "(string \<times> string) list"

record bandwidth_stats =
  bw_total_bytes_sent :: u64
  bw_total_bytes_received :: u64
  bw_total_requests :: u64
  bw_successful_requests :: u64
  bw_peer_count :: nat

record dht_json =
  dj_to_json :: "content_record \<Rightarrow> string + bytes"
  dj_from_json :: "bytes \<Rightarrow> string + content_record"

section \<open>Operations\<close>

definition dht_new :: "string \<Rightarrow> dht_manager" where
  "dht_new local_peer_id = \<lparr>dm_local_peer_id = local_peer_id, dm_local_records = [], dm_known_peers = [],
     dm_bootstrap_nodes = []\<rparr>"

definition add_bootstrap_nodes :: "(string \<times> string) list \<Rightarrow> dht_manager \<Rightarrow> dht_manager" where
  "add_bootstrap_nodes nodes d = d\<lparr>dm_bootstrap_nodes := dm_bootstrap_nodes d @ nodes\<rparr>"

definition create_content_record ::
    "u64 \<Rightarrow> string \<Rightarrow> u64 \<Rightarrow> string \<Rightarrow> u32 \<Rightarrow> bool \<Rightarrow> dht_manager \<Rightarrow> content_record" where
  "create_content_record now cid sz mime n_fragments sealed d =
     \<lparr>cr_cid = cid,
      cr_providers = [\<lparr>pv_peer_id = dm_local_peer_id d, pv_addresses = [], pv_reputation = 100,
        pv_online = True, pv_last_seen = now\<rparr>],
      cr_metadata = \<lparr>md_size = sz, md_mime_type = mime, md_fragment_count = n_fragments,
        md_encrypted = sealed\<rparr>,
      cr_created_at = now, cr_ttl_seconds = 86400\<rparr>"

definition store_local :: "content_record \<Rightarrow> dht_manager \<Rightarrow> dht_manager" where
  "store_local r d = d\<lparr>dm_local_records := hm_insert (cr_cid r) r (dm_local_records d)\<rparr>"

definition get_local :: "dht_manager \<Rightarrow> string \<Rightarrow> content_record option" where
  "get_local d cid = hm_get (dm_local_records d) cid"

definition list_local_content :: "dht_manager \<Rightarrow> content_record list" where
  "list_local_content d = hm_values (dm_local_records d)"

definition register_peer :: "instant \<Rightarrow> string \<Rightarrow> string list \<Rightarrow> dht_manager \<Rightarrow> dht_manager" where
  "register_peer now peer addresses d = d\<lparr>dm_known_peers := hm_insert peer
     \<lparr>ps_addresses = addresses, ps_reputation = 50, ps_last_seen = now, ps_bytes_sent = 0,
      ps_bytes_received = 0, ps_successful_requests = 0, ps_failed_requests = 0\<rparr> (dm_known_peers d)\<rparr>"

definition record_success :: "instant \<Rightarrow> string \<Rightarrow> u64 \<Rightarrow> dht_manager \<Rightarrow> dht_manager" where
  "record_success now peer n d = d\<lparr>dm_known_peers := hm_modify peer (\<lambda>s. s\<lparr>
     ps_last_seen := now,
     ps_bytes_received := ps_bytes_received s + n,
     ps_successful_requests := ps_successful_requests s + 1,
     ps_reputation := min (ps_reputation s + 1) 100\<rparr>) (dm_known_peers d)\<rparr>"

definition record_failure :: "string \<Rightarrow> dht_manager \<Rightarrow> dht_manager" where
  "record_failure peer d = d\<lparr>dm_known_peers := hm_modify peer (\<lambda>s. s\<lparr>
     ps_failed_requests := ps_failed_requests s + 1,
     ps_reputation := sat_sub (ps_reputation s) 5\<rparr>) (dm_known_peers d)\<rparr>"

text \<open>The comparison is reversed; the sort is stable.\<close>

definition get_best_peers :: "nat \<Rightarrow> dht_manager \<Rightarrow> (string \<times> peer_state) list" where
  "get_best_peers limit d =
     take limit (sort_key (\<lambda>(_, s). - int (unat (ps_reputation s))) (dm_known_peers d))"

definition get_bandwidth_stats :: "dht_manager \<Rightarrow> bandwidth_stats" where
  "get_bandwidth_stats d =
     (fold (\<lambda>s b. b\<lparr>
        bw_total_bytes_sent := bw_total_bytes_sent b + ps_bytes_sent s,
        bw_total_bytes_received := bw_total_bytes_received b + ps_bytes_received s,
        bw_total_requests := bw_total_requests b + (ps_successful_requests s + ps_failed_requests s),
        bw_successful_requests := bw_successful_requests b + ps_successful_requests s\<rparr>)
      (hm_values (dm_known_peers d))
      \<lparr>bw_total_bytes_sent = 0, bw_total_bytes_received = 0, bw_total_requests = 0,
       bw_successful_requests = 0, bw_peer_count = 0\<rparr>)\<lparr>bw_peer_count := length (dm_known_peers d)\<rparr>"

definition serialize_record :: "dht_json \<Rightarrow> content_record \<Rightarrow> string + bytes" where
  "serialize_record J r = dj_to_json J r"

definition deserialize_record :: "dht_json \<Rightarrow> bytes \<Rightarrow> string + content_record" where
  "deserialize_record J data = dj_from_json J data"

definition cid_to_key :: "string \<Rightarrow> string" where
  "cid_to_key cid = ''/shadowmesh/content/'' @ cid"

definition cleanup_stale_peers :: "instant \<Rightarrow> dht_manager \<Rightarrow> dht_manager" where
  "cleanup_stale_peers now d = d\<lparr>dm_known_peers :=
     hm_retain (\<lambda>_ s. ps_last_seen s + from_secs 3600 > now) (dm_known_peers d)\<rparr>"

definition cleanup_expired_records :: "u64 \<Rightarrow> dht_manager \<Rightarrow> dht_manager" where
  "cleanup_expired_records now d = d\<lparr>dm_local_records :=
     hm_retain (\<lambda>_ r. cr_created_at r + cr_ttl_seconds r > now) (dm_local_records d)\<rparr>"

section \<open>Reputation\<close>

datatype dht_call =
    RegisterPeer instant string "string list"
  | RecordSuccess instant string u64
  | RecordFailure string
  | CleanupStale instant

fun dht_step :: "dht_call \<Rightarrow> dht_manager \<Rightarrow> dht_manager" where
  "dht_step (RegisterPeer now p addrs) = register_peer now p addrs"
| "dht_step (RecordSuccess now p n) = record_success now p n"
| "dht_step (RecordFailure p) = record_failure p"
| "dht_step (CleanupStale now) = cleanup_stale_peers now"

definition reputations_ok :: "dht_manager \<Rightarrow> bool" where
  "reputations_ok d \<longleftrightarrow> hm_wf (dm_known_peers d) \<and>
     (\<forall>p s. hm_get (dm_known_peers d) p = Some s \<longrightarrow> ps_reputation s \<le> 100)"

lemma sat_sub_le: "a \<le> c \<Longrightarrow> sat_sub a b \<le> (c :: 'w::len word)"
  by (simp add: word_le_nat_alt unat_sat_sub)

lemma dht_step_ok: "reputations_ok d \<Longrightarrow> reputations_ok (dht_step c d)"
  by (cases c)
     (auto simp: reputations_ok_def register_peer_def record_success_def record_failure_def
       cleanup_stale_peers_def hm_get_retain sat_sub_le split: if_splits option.splits)

interpretation dht: call_machine dht_step reputations_ok
  by unfold_locales (rule dht_step_ok)

lemma best_peers_sorted:
  "sorted_wrt (\<lambda>x y. ps_reputation (snd y) \<le> ps_reputation (snd x)) (get_best_peers limit d)"
proof -
  let ?f = "\<lambda>(p :: string, s :: peer_state). - int (unat (ps_reputation s))"
  have "sorted_wrt (\<lambda>x y. ?f x \<le> ?f y) (sort_key ?f (dm_known_peers d))"
    using sorted_sort_key [of ?f "dm_known_peers d"] by (simp add: sorted_map)
  then have "sorted_wrt (\<lambda>x y. ps_reputation (snd y) \<le> ps_reputation (snd x)) (sort_key ?f (dm_known_peers d))"
    by (rule sorted_wrt_mono_rel [rotated]) (auto simp: word_le_def)
  then show ?thesis
    unfolding get_best_peers_def by (rule sorted_wrt_take)
qed

end
