(* ===== verification/NodeP2p.thy ===== *)
theory NodeP2p
  imports StorageSafety ZkNode DhtManager
begin

text \<open>
  The event loop of a node, \<open>node-runner/src/p2p.rs\<close> with the commands of \<open>p2p_commands.rs\<close>: it serves
  what peers ask for, relays their cells, and carries out the commands of the API handlers, whose
  answers it routes back over one-shot channels.

  The state is what \<open>run_event_loop\<close> owns. libp2p is outside: what the loop hands to it is appended to
  \<open>pn_effects\<close>, the answers to requests to \<open>pn_answers\<close>, and request identifiers are numbers counted up.
  A one-shot channel is a number; what is sent on it is appended to \<open>pn_replies\<close>. What an event needs
  of the outside (clocks, random bytes, the file system, the health of a path as the adaptive router
  sees it) is in the record \<open>call_env\<close>. Censorship statistics, metrics and logging are left out.
\<close>

section \<open>Commands and replies\<close>

type_synonym channel = nat

datatype fetch_error =
    FetchNotFound
  | ConnectionFailed string
  | PeerError string
  | ChannelClosed
  | FetchRelayError string

definition fetch_error_text :: "fetch_error \<Rightarrow> string" where
  "fetch_error_text e =
     (case e of
        FetchNotFound \<Rightarrow> ''Content not found on peer''
      | ConnectionFailed m \<Rightarrow> ''Connection failed: '' @ m
      | PeerError m \<Rightarrow> ''Peer error: '' @ m
      | ChannelClosed \<Rightarrow> ''P2P event loop is shut down''
      | FetchRelayError m \<Rightarrow> ''ZK relay error: '' @ m)"

record manifest_result =
  mr_content_hash :: string
  mr_fragment_hashes :: "string list"
  mr_total_size :: u64
  mr_mime_type :: string

datatype p2p_command =
    FetchFragment peer_id string channel
  | FetchManifest peer_id string channel
  | AnnounceContent string "string list" u64 string
  | FindProviders string channel
  | ListPeerContent peer_id channel
  | ReportCensorship peer_id
  | BroadcastContentAnnouncement string u64 u32 string
  | BuildCircuit "peer_id list" channel
  | SendRelayCell relay_cell peer_id
  | FetchViaCircuit circuit_id string channel

datatype reply =
    BytesReply "fetch_error + bytes"
  | ManifestReply "fetch_error + manifest_result"
  | CidsReply "fetch_error + string list"
  | ProvidersReply "fetch_error + peer_id list"
  | CircuitReply "fetch_error + circuit_id"

datatype pending_reply =
    PendingFragment peer_id string channel
  | PendingManifest peer_id channel
  | PendingContentList peer_id channel
  | RelayResponse peer_id circuit_id
  | RelayForward peer_id peer_id circuit_id

definition target_peer :: "pending_reply \<Rightarrow> peer_id" where
  "target_peer p =
     (case p of
        PendingFragment t _ _ \<Rightarrow> t | PendingManifest t _ \<Rightarrow> t | PendingContentList t _ \<Rightarrow> t
      | RelayResponse t _ \<Rightarrow> t | RelayForward t _ _ \<Rightarrow> t)"

definition pending_is_closed :: "(channel \<Rightarrow> bool) \<Rightarrow> pending_reply \<Rightarrow> bool" where
  "pending_is_closed closed p =
     (case p of
        PendingFragment _ _ c \<Rightarrow> closed c | PendingManifest _ c \<Rightarrow> closed c | PendingContentList _ c \<Rightarrow> closed c
      | RelayResponse _ _ \<Rightarrow> False | RelayForward _ _ _ \<Rightarrow> False)"

record pending_circuit_build =
  pb_next_hop_index :: nat
  pb_total_hops :: nat
  pb_reply :: "channel option"

record blind_response =
  bs_request_id :: bytes
  bs_encrypted_content :: bytes
  bs_content_hash :: string
  bs_success :: bool
  bs_error :: "string option"

section \<open>The outside\<close>

record p2p_env =
  pe_relay :: relay_env
  pe_dht :: dht_json
  pe_announcement_to_json :: "content_announcement \<Rightarrow> string + bytes"
  pe_announcement_from_json :: "bytes \<Rightarrow> string + content_announcement"
  pe_index :: index_codec
  bc_blind_request :: "blind_request \<Rightarrow> string + bytes"
  bc_blind_request_de :: "bytes \<Rightarrow> string + blind_request"
  bc_blind_response :: "blind_response \<Rightarrow> string + bytes"
  bc_blind_response_de :: "bytes \<Rightarrow> string + blind_response"
  peer_text :: "peer_id \<Rightarrow> string"
  parse_peer :: "string \<Rightarrow> peer_id option"
  rendezvous_peers :: "peer_id list"

record call_env =
  ce_io :: io
  ce_now :: instant
  ce_unix :: u64
  ce_drawn :: bytes
  ce_extra :: bytes
  ce_padding :: bytes
  ce_nonces :: "nat \<Rightarrow> bytes"
  ce_secrets :: "nat \<Rightarrow> bytes"
  ce_blocked :: "peer_id \<Rightarrow> bool"
  ce_closed :: "channel \<Rightarrow> bool"
  ce_listen_addrs :: "string list"

datatype p2p_effect =
    SendRequest nat peer_id content_request
  | KadGetRecord string
  | KadPutRecord string bytes
  | GossipPublish bytes
  | RendezvousRegister peer_id
  | RendezvousDiscover peer_id

datatype kad_get_result =
    FoundRecord bytes
  | FinishedWithNoAdditionalRecord
  | KadNotFound string
  | KadQuorumFailed string
  | KadTimeout string

section \<open>The state of the loop\<close>

record p2p_node =
  pn_peer :: peer_id
  pn_listen_addrs :: "string list"
  pn_peers :: "(peer_id, string \<times> string) hmap"
  pn_announcements :: "content_announcement list"
  pn_storage :: storage
  pn_relay :: zk_node
  pn_client :: zk_client
  pn_builds :: "(circuit_id, pending_circuit_build) hmap"
  pn_fetches :: "(circuit_id, channel) hmap"
  pn_pending :: "(nat, pending_reply) hmap"
  pn_dht_queries :: "(string, channel) hmap"
  pn_next_id :: nat
  pn_effects :: "p2p_effect list"
  pn_answers :: "(peer_id \<times> content_response) list"
  pn_replies :: "(channel \<times> reply) list"

text \<open>The relay identity is the secret of the node's Ed25519 key pair, which all nodes have.\<close>

definition p2p_start :: "peer_id \<Rightarrow> bytes \<Rightarrow> storage \<Rightarrow> p2p_node" where
  "p2p_start peer relay_secret st =
     \<lparr>pn_peer = peer, pn_listen_addrs = [], pn_peers = [], pn_announcements = [], pn_storage = st,
      pn_relay = node_new relay_secret, pn_client = client_new relay_secret,
      pn_builds = [], pn_fetches = [], pn_pending = [], pn_dht_queries = [], pn_next_id = 0,
      pn_effects = [], pn_answers = [], pn_replies = []\<rparr>"

definition send_request :: "peer_id \<Rightarrow> content_request \<Rightarrow> p2p_node \<Rightarrow> nat \<times> p2p_node" where
  "send_request peer req nd =
     (pn_next_id nd, nd\<lparr>pn_next_id := pn_next_id nd + 1,
        pn_effects := pn_effects nd @ [SendRequest (pn_next_id nd) peer req]\<rparr>)"

definition send_tracked :: "peer_id \<Rightarrow> content_request \<Rightarrow> pending_reply \<Rightarrow> p2p_node \<Rightarrow> p2p_node" where
  "send_tracked peer req p nd =
     (case send_request peer req nd of
        (rid, nd1) \<Rightarrow> nd1\<lparr>pn_pending := hm_insert rid p (pn_pending nd1)\<rparr>)"

definition send_reply :: "channel \<Rightarrow> reply \<Rightarrow> p2p_node \<Rightarrow> p2p_node" where
  "send_reply c r nd = nd\<lparr>pn_replies := pn_replies nd @ [(c, r)]\<rparr>"

section \<open>Serving peers\<close>

definition ack_cell :: "p2p_env \<Rightarrow> call_env \<Rightarrow> circuit_id \<Rightarrow> content_response" where
  "ack_cell E ce cid = RespRelayCell (cell_serialize (pe_relay E) (cell_new (ce_unix ce) cid Padding []))"

text \<open>The exit node answers the plaintext request it extracted from a cell.\<close>

definition answer_blind_request ::
    "p2p_env \<Rightarrow> call_env \<Rightarrow> bytes \<Rightarrow> circuit_id \<Rightarrow> p2p_node \<Rightarrow> content_response \<times> p2p_node" where
  "answer_blind_request E ce data cid nd =
     (case bc_blind_request_de E data of
        Inl e \<Rightarrow> (RespError ''Invalid exit payload'', nd)
      | Inr req \<Rightarrow>
          (case get_fragment (ce_io ce) (ce_unix ce) (br_content_hash req) (pn_storage nd) of
             (r, st) \<Rightarrow>
               (let resp = (case r of
                      Inl _ \<Rightarrow> \<lparr>bs_request_id = br_request_id req, bs_encrypted_content = [],
                        bs_content_hash = br_content_hash req, bs_success = False,
                        bs_error = Some ''Content not found''\<rparr>
                    | Inr d \<Rightarrow> \<lparr>bs_request_id = br_request_id req, bs_encrypted_content = d,
                        bs_content_hash = br_content_hash req, bs_success = True, bs_error = None\<rparr>);
                    resp_cell = cell_new (ce_unix ce) cid Relay (or_default (bc_blind_response E resp)) in
                (RespRelayCell (cell_serialize (pe_relay E) resp_cell), nd\<lparr>pn_storage := st\<rparr>))))"

definition handle_inbound_relay_cell ::
    "p2p_env \<Rightarrow> call_env \<Rightarrow> peer_id \<Rightarrow> bytes \<Rightarrow> p2p_node \<Rightarrow> content_response \<times> p2p_node" where
  "handle_inbound_relay_cell E ce from_peer cell_data nd =
     (case cell_deserialize (pe_relay E) cell_data of
        Inl e \<Rightarrow> (RespError ''Invalid relay cell'', nd)
      | Inr cell \<Rightarrow>
          (case process_cell (pe_relay E) (ce_now ce) (ce_unix ce) (ce_drawn ce) cell from_peer (pn_relay nd) of
             (r, relay) \<Rightarrow>
               (let nd1 = nd\<lparr>pn_relay := relay\<rparr> in
                case r of
                  Inr (Respond response_cell) \<Rightarrow>
                    (RespRelayCell (cell_serialize (pe_relay E) response_cell), nd1)
                | Inr (Forward forward_cell to_peer) \<Rightarrow>
                    (ack_cell E ce (cl_circuit_id cell),
                     send_tracked to_peer (ReqRelayCell (cell_serialize (pe_relay E) forward_cell))
                       (RelayForward to_peer from_peer (cl_circuit_id cell)) nd1)
                | Inr (Exit data exit_circuit_id) \<Rightarrow> answer_blind_request E ce data exit_circuit_id nd1
                | Inr Drop \<Rightarrow> (ack_cell E ce (cl_circuit_id cell), nd1)
                | Inl e \<Rightarrow> (RespError (''Relay error: '' @ relay_error_text e), nd1))))"

definition summary_of :: "stored_content \<Rightarrow> content_summary" where
  "summary_of c = \<lparr>su_cid = sc_cid c, su_total_size = sc_total_size c,
     su_fragment_count = sc_fragment_count c, su_mime_type = sc_mime_type c\<rparr>"

definition content_answer ::
    "p2p_env \<Rightarrow> call_env \<Rightarrow> peer_id \<Rightarrow> content_request \<Rightarrow> p2p_node \<Rightarrow> content_response \<times> p2p_node" where
  "content_answer E ce peer req nd =
     (case req of
        ReqGetFragment h \<Rightarrow>
          (case get_fragment (ce_io ce) (ce_unix ce) h (pn_storage nd) of
             (Inr data, st) \<Rightarrow> (RespFragment h data, nd\<lparr>pn_storage := st\<rparr>)
           | (Inl _, st) \<Rightarrow> (RespNotFound h, nd\<lparr>pn_storage := st\<rparr>))
      | ReqGetManifest h \<Rightarrow>
          (case get_content (pn_storage nd) h of
             Some c \<Rightarrow> (RespManifest (sc_cid c) (sc_fragments c) (sc_total_size c) (sc_mime_type c), nd)
           | None \<Rightarrow> (RespNotFound h, nd))
      | ReqPing \<Rightarrow> (RespPong, nd)
      | ReqListContent limit \<Rightarrow>
          (let all = list_content (pn_storage nd);
               items = (if limit = 0 then all else take (unat limit) all) in
           (RespContentList (map summary_of items), nd))
      | ReqRelayCell cell_data \<Rightarrow> handle_inbound_relay_cell E ce peer cell_data nd)"

definition handle_content_request ::
    "p2p_env \<Rightarrow> call_env \<Rightarrow> peer_id \<Rightarrow> content_request \<Rightarrow> p2p_node \<Rightarrow> p2p_node" where
  "handle_content_request E ce peer req nd =
     (case content_answer E ce peer req nd of
        (response, nd1) \<Rightarrow> nd1\<lparr>pn_answers := pn_answers nd1 @ [(peer, response)]\<rparr>)"

section \<open>Answers to our requests\<close>

definition resolve_pending :: "pending_reply \<Rightarrow> fetch_error \<Rightarrow> p2p_node \<Rightarrow> p2p_node" where
  "resolve_pending p e nd =
     (case p of
        PendingFragment _ _ c \<Rightarrow> send_reply c (BytesReply (Inl e)) nd
      | PendingManifest _ c \<Rightarrow> send_reply c (ManifestReply (Inl e)) nd
      | PendingContentList _ c \<Rightarrow> send_reply c (CidsReply (Inl e)) nd
      | RelayResponse _ _ \<Rightarrow> nd
      | RelayForward _ _ _ \<Rightarrow> nd)"

text \<open>A circuit build that failed is forgotten and its waiter told.\<close>

definition fail_build :: "circuit_id \<Rightarrow> fetch_error \<Rightarrow> p2p_node \<Rightarrow> p2p_node" where
  "fail_build cid e nd =
     (case hm_get (pn_builds nd) cid of
        None \<Rightarrow> nd
      | Some b \<Rightarrow>
          (let nd1 = nd\<lparr>pn_builds := hm_remove cid (pn_builds nd)\<rparr> in
           case pb_reply b of None \<Rightarrow> nd1 | Some c \<Rightarrow> send_reply c (CircuitReply (Inl e)) nd1))"

definition complete_build :: "circuit_id \<Rightarrow> p2p_node \<Rightarrow> p2p_node" where
  "complete_build cid nd =
     (case hm_get (pn_builds nd) cid of
        None \<Rightarrow> nd
      | Some b \<Rightarrow>
          (let nd1 = nd\<lparr>pn_builds := hm_remove cid (pn_builds nd)\<rparr> in
           case pb_reply b of None \<Rightarrow> nd1 | Some c \<Rightarrow> send_reply c (CircuitReply (Inr cid)) nd1))"

definition handle_created :: "p2p_env \<Rightarrow> call_env \<Rightarrow> circuit_id \<Rightarrow> relay_cell \<Rightarrow> p2p_node \<Rightarrow> p2p_node" where
  "handle_created E ce cid cell nd =
     (case hm_get (pn_builds nd) cid of
        None \<Rightarrow> nd
      | Some b \<Rightarrow>
          (let hop_index = pb_next_hop_index b in
           case created_deserialize (pe_relay E) (cl_payload cell) of
             Inl e \<Rightarrow> fail_build cid (FetchRelayError ''Invalid CREATED handshake'') nd
           | Inr handshake \<Rightarrow>
               (case process_created_response (pe_relay E) (ce_unix ce) (ce_padding ce) (ce_nonces ce) cid
                        handshake hop_index (pn_client nd) of
                  (Inr (Some next_cell), cl) \<Rightarrow>
                    (let nd1 = nd\<lparr>pn_client := cl,
                           pn_builds := hm_insert cid (b\<lparr>pb_next_hop_index := hop_index + 1\<rparr>) (pn_builds nd)\<rparr> in
                     case get_entry_node cid cl of
                       Some entry_peer \<Rightarrow>
                         snd (send_request entry_peer (ReqRelayCell (cell_serialize (pe_relay E) next_cell)) nd1)
                     | None \<Rightarrow> nd1)
                | (Inr None, cl) \<Rightarrow> complete_build cid (nd\<lparr>pn_client := cl\<rparr>)
                | (Inl e, cl) \<Rightarrow>
                    fail_build cid (FetchRelayError (''Handshake failed at hop '' @ show_nat hop_index @ '': '' @
                      relay_error_text e)) (nd\<lparr>pn_client := cl\<rparr>))))"

definition handle_relay_data :: "p2p_env \<Rightarrow> circuit_id \<Rightarrow> relay_cell \<Rightarrow> p2p_node \<Rightarrow> p2p_node" where
  "handle_relay_data E cid cell nd =
     (case hm_get (pn_fetches nd) cid of
        None \<Rightarrow> nd
      | Some c \<Rightarrow>
          (let nd1 = nd\<lparr>pn_fetches := hm_remove cid (pn_fetches nd)\<rparr> in
           case unwrap_response (zp (pe_relay E)) cid cell (pn_client nd) of
             Inl e \<Rightarrow> send_reply c (BytesReply (Inl (FetchRelayError (''Unwrap failed: '' @ relay_error_text e)))) nd1
           | Inr plaintext \<Rightarrow>
               (case bc_blind_response_de E plaintext of
                  Inl e \<Rightarrow> send_reply c (BytesReply (Inl (FetchRelayError ''Invalid response from exit node''))) nd1
                | Inr resp \<Rightarrow>
                    if bs_success resp then send_reply c (BytesReply (Inr (bs_encrypted_content resp))) nd1
                    else send_reply c (BytesReply (Inl (PeerError
                      (case bs_error resp of None \<Rightarrow> ''Unknown error'' | Some m \<Rightarrow> m)))) nd1)))"

definition handle_relay_cell_response ::
    "p2p_env \<Rightarrow> call_env \<Rightarrow> circuit_id \<Rightarrow> bytes \<Rightarrow> p2p_node \<Rightarrow> p2p_node" where
  "handle_relay_cell_response E ce cid cell_data nd =
     (case cell_deserialize (pe_relay E) cell_data of
        Inl e \<Rightarrow> fail_build cid (FetchRelayError ''Invalid relay cell response'') nd
      | Inr cell \<Rightarrow>
          (case cl_cell_type cell of
             Created \<Rightarrow> handle_created E ce cid cell nd
           | Relay \<Rightarrow> handle_relay_data E cid cell nd
           | _ \<Rightarrow> nd))"

definition is_ack :: "p2p_env \<Rightarrow> bytes \<Rightarrow> bool" where
  "is_ack E cell_data =
     (case cell_deserialize (pe_relay E) cell_data of Inl _ \<Rightarrow> True | Inr c \<Rightarrow> cl_cell_type c = Padding)"

definition fragment_hash_of :: "p2p_env \<Rightarrow> bytes \<Rightarrow> string" where
  "fragment_hash_of E data = hex_bytes (blake3 (zp (pe_relay E)) data)"

definition route_response ::
    "p2p_env \<Rightarrow> call_env \<Rightarrow> pending_reply \<Rightarrow> content_response \<Rightarrow> p2p_node \<Rightarrow> p2p_node" where
  "route_response E ce p response nd =
     (case (p, response) of
        (RelayForward _ return_to_peer cid, RespRelayCell cell_data) \<Rightarrow>
          if is_ack E cell_data then nd
          else send_tracked return_to_peer (ReqRelayCell cell_data)
                 (RelayForward return_to_peer return_to_peer cid) nd
      | (RelayResponse _ cid, RespRelayCell cell_data) \<Rightarrow> handle_relay_cell_response E ce cid cell_data nd
      | (PendingFragment _ h c, RespFragment _ data) \<Rightarrow>
          (let computed = fragment_hash_of E data in
           if computed = h then send_reply c (BytesReply (Inr data)) nd
           else send_reply c (BytesReply (Inl (PeerError
             (''Hash mismatch: expected '' @ h @ '', got '' @ computed)))) nd)
      | (PendingManifest _ c, RespManifest h hs n mime) \<Rightarrow>
          send_reply c (ManifestReply (Inr \<lparr>mr_content_hash = h, mr_fragment_hashes = hs,
            mr_total_size = n, mr_mime_type = mime\<rparr>)) nd
      | (PendingContentList _ c, RespContentList items) \<Rightarrow> send_reply c (CidsReply (Inr (map su_cid items))) nd
      | (_, RespNotFound _) \<Rightarrow> resolve_pending p FetchNotFound nd
      | (_, RespError m) \<Rightarrow> resolve_pending p (PeerError m) nd
      | _ \<Rightarrow> resolve_pending p (PeerError ''Unexpected response type'') nd)"

definition handle_content_response ::
    "p2p_env \<Rightarrow> call_env \<Rightarrow> nat \<Rightarrow> content_response \<Rightarrow> p2p_node \<Rightarrow> p2p_node" where
  "handle_content_response E ce rid response nd =
     (case hm_get (pn_pending nd) rid of
        None \<Rightarrow> nd
      | Some p \<Rightarrow> route_response E ce p response (nd\<lparr>pn_pending := hm_remove rid (pn_pending nd)\<rparr>))"

definition outbound_failure :: "nat \<Rightarrow> string \<Rightarrow> p2p_node \<Rightarrow> p2p_node" where
  "outbound_failure rid err nd =
     (case hm_get (pn_pending nd) rid of
        None \<Rightarrow> nd
      | Some p \<Rightarrow> resolve_pending p (ConnectionFailed err) (nd\<lparr>pn_pending := hm_remove rid (pn_pending nd)\<rparr>))"

definition handle_kademlia_get_record :: "p2p_env \<Rightarrow> kad_get_result \<Rightarrow> p2p_node \<Rightarrow> p2p_node" where
  "handle_kademlia_get_record E result nd =
     (let answer = (\<lambda>cid r. case hm_get (pn_dht_queries nd) cid of
            None \<Rightarrow> nd
          | Some c \<Rightarrow> send_reply c (ProvidersReply r) (nd\<lparr>pn_dht_queries := hm_remove cid (pn_dht_queries nd)\<rparr>));
          failed = (\<lambda>key. case rust_strip_prefix ''/shadowmesh/content/'' key of
            None \<Rightarrow> nd | Some cid \<Rightarrow> answer cid (Inl FetchNotFound)) in
      case result of
        FoundRecord value \<Rightarrow>
          (case deserialize_record (pe_dht E) value of
             Inl _ \<Rightarrow> nd
           | Inr r \<Rightarrow> answer (cr_cid r)
               (Inr (List.map_filter (\<lambda>p. parse_peer E (pv_peer_id p)) (cr_providers r))))
      | FinishedWithNoAdditionalRecord \<Rightarrow> nd
      | KadNotFound key \<Rightarrow> failed key
      | KadQuorumFailed key \<Rightarrow> failed key
      | KadTimeout key \<Rightarrow> failed key)"

section \<open>Commands of the API handlers\<close>

definition path_blocked :: string where
  "path_blocked = ''Path blocked by censorship detection''"

definition announce_to_dht ::
    "p2p_env \<Rightarrow> call_env \<Rightarrow> string \<Rightarrow> string list \<Rightarrow> u64 \<Rightarrow> string \<Rightarrow> u64 \<Rightarrow> p2p_node \<Rightarrow> p2p_node" where
  "announce_to_dht E ce cid hashes n mime dht_ttl_secs nd =
     (let r = \<lparr>cr_cid = cid,
            cr_providers = [\<lparr>pv_peer_id = peer_text E (pn_peer nd), pv_addresses = ce_listen_addrs ce,
              pv_reputation = 100, pv_online = True, pv_last_seen = ce_unix ce\<rparr>],
            cr_metadata = \<lparr>md_size = n, md_mime_type = mime,
              md_fragment_count = word_of_nat (length hashes), md_encrypted = False\<rparr>,
            cr_created_at = ce_unix ce, cr_ttl_seconds = dht_ttl_secs\<rparr> in
      case serialize_record (pe_dht E) r of
        Inl e \<Rightarrow> nd
      | Inr value \<Rightarrow> nd\<lparr>pn_effects := pn_effects nd @ [KadPutRecord (cid_to_key cid) value]\<rparr>)"

definition start_circuit :: "p2p_env \<Rightarrow> call_env \<Rightarrow> peer_id list \<Rightarrow> channel \<Rightarrow> p2p_node \<Rightarrow> p2p_node" where
  "start_circuit E ce peers c nd =
     (let fail = (\<lambda>m. send_reply c (CircuitReply (Inl (FetchRelayError m)))) in
      if length peers < 2 then fail ''Need at least 2 relay hops'' nd
      else case build_circuit (zp (pe_relay E)) (ce_now ce) (ce_drawn ce) (ce_extra ce) (ce_secrets ce) peers
                  (pn_client nd) of
        (Inl e, cl) \<Rightarrow> fail (''Failed to build circuit: '' @ relay_error_text e) (nd\<lparr>pn_client := cl\<rparr>)
      | (Inr cid, cl) \<Rightarrow>
          (let nd1 = nd\<lparr>pn_client := cl\<rparr> in
           case get_create_cell (pe_relay E) (ce_unix ce) (ce_padding ce) cid cl of
             Inl e \<Rightarrow> fail (''Failed to create CREATE cell: '' @ relay_error_text e) nd1
           | Inr create_cell \<Rightarrow>
               send_tracked (hd peers) (ReqRelayCell (cell_serialize (pe_relay E) create_cell))
                 (RelayResponse (hd peers) cid)
                 (nd1\<lparr>pn_builds := hm_insert cid \<lparr>pb_next_hop_index = 0, pb_total_hops = length peers,
                    pb_reply = Some c\<rparr> (pn_builds nd1)\<rparr>)))"

definition fetch_via_circuit ::
    "p2p_env \<Rightarrow> call_env \<Rightarrow> circuit_id \<Rightarrow> string \<Rightarrow> channel \<Rightarrow> p2p_node \<Rightarrow> p2p_node" where
  "fetch_via_circuit E ce cid h c nd =
     (let fail = (\<lambda>m. send_reply c (BytesReply (Inl (FetchRelayError m))) nd) in
      case bc_blind_request E (blind_request_new (ce_unix ce) (ce_drawn ce) h) of
        Inl e \<Rightarrow> fail (''Failed to serialize request: '' @ e)
      | Inr payload \<Rightarrow>
          (case wrap_request (pe_relay E) (ce_now ce) (ce_unix ce) (ce_nonces ce) cid payload (pn_client nd) of
             Inl e \<Rightarrow> fail (''Failed to wrap request: '' @ relay_error_text e)
           | Inr c1 \<Rightarrow>
               (case get_entry_node cid (pn_client nd) of
                  None \<Rightarrow> fail ''Circuit has no entry node''
                | Some entry_peer \<Rightarrow>
                    send_tracked entry_peer (ReqRelayCell (cell_serialize (pe_relay E) c1))
                      (RelayResponse entry_peer cid)
                      (nd\<lparr>pn_fetches := hm_insert cid c (pn_fetches nd)\<rparr>))))"

definition handle_command ::
    "p2p_env \<Rightarrow> call_env \<Rightarrow> u64 \<Rightarrow> p2p_command \<Rightarrow> p2p_node \<Rightarrow> p2p_node" where
  "handle_command E ce dht_ttl_secs cmd nd =
     (case cmd of
        FetchFragment peer h c \<Rightarrow>
          if ce_blocked ce peer then send_reply c (BytesReply (Inl (ConnectionFailed path_blocked))) nd
          else send_tracked peer (ReqGetFragment h) (PendingFragment peer h c) nd
      | FetchManifest peer h c \<Rightarrow>
          if ce_blocked ce peer then send_reply c (ManifestReply (Inl (ConnectionFailed path_blocked))) nd
          else send_tracked peer (ReqGetManifest h) (PendingManifest peer c) nd
      | AnnounceContent h hs n mime \<Rightarrow> announce_to_dht E ce h hs n mime dht_ttl_secs nd
      | FindProviders h c \<Rightarrow>
          nd\<lparr>pn_effects := pn_effects nd @ [KadGetRecord (cid_to_key h)],
             pn_dht_queries := hm_insert h c (pn_dht_queries nd)\<rparr>
      | ListPeerContent peer c \<Rightarrow>
          send_tracked peer (ReqListContent 100) (PendingContentList peer c) nd
      | ReportCensorship peer \<Rightarrow> nd
      | BroadcastContentAnnouncement cid n k mime \<Rightarrow>
          (case pe_announcement_to_json E \<lparr>an_cid = cid, an_peer_id = peer_text E (pn_peer nd),
                  an_total_size = n, an_fragment_count = k, an_mime_type = mime,
                  an_timestamp = ce_unix ce\<rparr> of
             Inl _ \<Rightarrow> nd
           | Inr data \<Rightarrow> nd\<lparr>pn_effects := pn_effects nd @ [GossipPublish data]\<rparr>)
      | BuildCircuit peers c \<Rightarrow> start_circuit E ce peers c nd
      | SendRelayCell cell target \<Rightarrow>
          send_tracked target (ReqRelayCell (cell_serialize (pe_relay E) cell))
            (RelayResponse target (cl_circuit_id cell)) nd
      | FetchViaCircuit cid h c \<Rightarrow> fetch_via_circuit E ce cid h c nd)"

section \<open>The loop\<close>

definition MAX_ANNOUNCEMENTS :: nat where
  "MAX_ANNOUNCEMENTS = 10000"

definition handle_announcement :: "p2p_env \<Rightarrow> bytes \<Rightarrow> p2p_node \<Rightarrow> p2p_node" where
  "handle_announcement E data nd =
     (case pe_announcement_from_json E data of
        Inl _ \<Rightarrow> nd
      | Inr a \<Rightarrow>
          (let anns = pn_announcements nd;
               kept = (if MAX_ANNOUNCEMENTS \<le> length anns then drop 1000 anns else anns) in
           nd\<lparr>pn_announcements := kept @ [a]\<rparr>))"

definition cleanup_tick :: "call_env \<Rightarrow> p2p_node \<Rightarrow> p2p_node" where
  "cleanup_tick ce nd =
     nd\<lparr>pn_pending := hm_retain (\<lambda>_ p. \<not> pending_is_closed (ce_closed ce) p) (pn_pending nd),
        pn_dht_queries := hm_retain (\<lambda>_ c. \<not> ce_closed ce c) (pn_dht_queries nd),
        pn_client := snd (client_cleanup_expired (ce_now ce) (pn_client nd)),
        pn_relay := snd (node_cleanup_expired (ce_now ce) (pn_relay nd)),
        pn_builds := hm_retain
          (\<lambda>_ b. case pb_reply b of None \<Rightarrow> False | Some c \<Rightarrow> \<not> ce_closed ce c) (pn_builds nd),
        pn_fetches := hm_retain (\<lambda>_ c. \<not> ce_closed ce c) (pn_fetches nd)\<rparr>"

datatype p2p_event =
    ConnectionEstablished peer_id string
  | ConnectionClosed peer_id nat
  | NewListenAddr string
  | InboundRequest peer_id content_request
  | ResponseReceived nat content_response
  | OutboundFailure nat string
  | KadGetRecordResult kad_get_result
  | GossipMessage bytes
  | Command p2p_command
  | CleanupTick

definition p2p_step :: "p2p_env \<Rightarrow> u64 \<Rightarrow> call_env \<times> p2p_event \<Rightarrow> p2p_node \<Rightarrow> p2p_node" where
  "p2p_step E dht_ttl_secs = (\<lambda>(ce, event) nd.
     (case event of
        ConnectionEstablished peer addr \<Rightarrow>
          nd\<lparr>pn_peers := hm_insert peer (peer_text E peer, addr) (pn_peers nd),
             pn_effects := pn_effects nd @
               (if peer \<in> set (rendezvous_peers E) then [RendezvousRegister peer, RendezvousDiscover peer] else [])\<rparr>
      | ConnectionClosed peer num_established \<Rightarrow>
          if num_established = 0 then nd\<lparr>pn_peers := hm_remove peer (pn_peers nd)\<rparr> else nd
      | NewListenAddr addr \<Rightarrow> nd\<lparr>pn_listen_addrs := pn_listen_addrs nd @ [addr]\<rparr>
      | InboundRequest peer req \<Rightarrow> handle_content_request E ce peer req nd
      | ResponseReceived rid response \<Rightarrow> handle_content_response E ce rid response nd
      | OutboundFailure rid err \<Rightarrow> outbound_failure rid err nd
      | KadGetRecordResult result \<Rightarrow> handle_kademlia_get_record E result nd
      | GossipMessage data \<Rightarrow> handle_announcement E data nd
      | Command cmd \<Rightarrow> handle_command E ce dht_ttl_secs cmd nd
      | CleanupTick \<Rightarrow> cleanup_tick ce nd))"

end
