(* ===== verification/NodeP2pSafety.thy ===== *)
theory NodeP2pSafety
  imports NodeP2p
begin

text \<open>
  What the event loop of a node guarantees whatever its peers send, and why no circuit is ever built.
\<close>

section \<open>What an event leaves alone\<close>

lemma send_tracked_fields [simp]:
  "pn_replies (send_tracked peer req p nd) = pn_replies nd"
  "pn_builds (send_tracked peer req p nd) = pn_builds nd"
  "pn_fetches (send_tracked peer req p nd) = pn_fetches nd"
  "pn_client (send_tracked peer req p nd) = pn_client nd"
  "pn_storage (send_tracked peer req p nd) = pn_storage nd"
  "pn_relay (send_tracked peer req p nd) = pn_relay nd"
  "pn_pending (send_tracked peer req p nd) = hm_insert (pn_next_id nd) p (pn_pending nd)"
  by (simp_all add: send_tracked_def send_request_def)

lemma send_request_fields [simp]:
  "pn_replies (snd (send_request peer req nd)) = pn_replies nd"
  "pn_builds (snd (send_request peer req nd)) = pn_builds nd"
  "pn_fetches (snd (send_request peer req nd)) = pn_fetches nd"
  "pn_client (snd (send_request peer req nd)) = pn_client nd"
  "pn_pending (snd (send_request peer req nd)) = pn_pending nd"
  by (simp_all add: send_request_def)

lemma send_reply_fields [simp]:
  "pn_replies (send_reply c r nd) = pn_replies nd @ [(c, r)]"
  "pn_builds (send_reply c r nd) = pn_builds nd"
  "pn_fetches (send_reply c r nd) = pn_fetches nd"
  "pn_client (send_reply c r nd) = pn_client nd"
  "pn_pending (send_reply c r nd) = pn_pending nd"
  by (simp_all add: send_reply_def)

text \<open>What the loop keeps for its own requests; serving a peer does not touch it.\<close>

definition own_state :: "p2p_node \<Rightarrow> _" where
  "own_state nd = (pn_replies nd, pn_builds nd, pn_fetches nd, pn_client nd)"

definition only_forwards :: "p2p_node \<Rightarrow> p2p_node \<Rightarrow> bool" where
  "only_forwards nd nd' \<longleftrightarrow> own_state nd' = own_state nd \<and>
     (pn_pending nd' = pn_pending nd \<or>
      (\<exists>rid a b cid. pn_pending nd' = hm_insert rid (RelayForward a b cid) (pn_pending nd)))"

lemma inbound_cell_only_forwards:
  "only_forwards nd (snd (handle_inbound_relay_cell E ce peer data nd))"
  by (auto simp: handle_inbound_relay_cell_def answer_blind_request_def only_forwards_def own_state_def Let_def
      split: sum.splits prod.splits relay_action.splits)

lemma serving_only_forwards: "only_forwards nd (handle_content_request E ce peer req nd)"
proof -
  have "only_forwards nd (snd (content_answer E ce peer req nd))"
    using inbound_cell_only_forwards [of nd E ce peer]
    by (cases req) (auto simp: content_answer_def only_forwards_def own_state_def Let_def
        split: sum.splits prod.splits option.splits)
  moreover obtain r nd' where "content_answer E ce peer req nd = (r, nd')" by force
  ultimately show ?thesis
    by (simp add: handle_content_request_def only_forwards_def own_state_def)
qed

lemma forward_only_forwards: "only_forwards nd (send_tracked peer req (RelayForward a b cid) nd)"
  by (auto simp: only_forwards_def own_state_def)

section \<open>Fetched bytes are verified\<close>

text \<open>
  Every pending fragment request was asked for by a command of \<open>S\<close>, and so was every answer with
  bytes; bytes that answer a request for a fragment hash to it.
\<close>

definition asked :: "p2p_env \<Rightarrow> (call_env \<times> p2p_event) set \<Rightarrow> p2p_node \<Rightarrow> bool" where
  "asked E S nd \<longleftrightarrow>
     hm_wf (pn_pending nd) \<and>
     (\<forall>rid peer h c. hm_get (pn_pending nd) rid = Some (PendingFragment peer h c) \<longrightarrow>
        (\<exists>ce. (ce, Command (FetchFragment peer h c)) \<in> S)) \<and>
     (\<forall>cid c. hm_get (pn_fetches nd) cid = Some c \<longrightarrow>
        (\<exists>ce h. (ce, Command (FetchViaCircuit cid h c)) \<in> S)) \<and>
     hm_wf (pn_fetches nd) \<and>
     (\<forall>c data. (c, BytesReply (Inr data)) \<in> set (pn_replies nd) \<longrightarrow>
        (\<exists>ce peer h. (ce, Command (FetchFragment peer h c)) \<in> S \<and> fragment_hash_of E data = h) \<or>
        (\<exists>ce cid h. (ce, Command (FetchViaCircuit cid h c)) \<in> S))"

lemma asked_forward:
  "asked E S nd \<Longrightarrow> only_forwards nd nd' \<Longrightarrow> asked E S nd'"
  by (auto simp: asked_def only_forwards_def own_state_def split: if_splits)

text \<open>Replies without bytes, and changes elsewhere.\<close>

lemma asked_same:
  assumes "asked E S nd" "pn_pending nd' = pn_pending nd" "pn_fetches nd' = pn_fetches nd"
    and "\<And>c data. (c, BytesReply (Inr data)) \<in> set (pn_replies nd') \<Longrightarrow>
      (c, BytesReply (Inr data)) \<in> set (pn_replies nd)"
  shows "asked E S nd'"
  using assms unfolding asked_def by auto

lemma asked_reply:
  "asked E S nd \<Longrightarrow> (\<And>data. r \<noteq> BytesReply (Inr data)) \<Longrightarrow> asked E S (send_reply c r nd)"
  by (auto simp: asked_def)

lemma asked_pending_removed: "asked E S nd \<Longrightarrow> asked E S (nd\<lparr>pn_pending := hm_remove rid (pn_pending nd)\<rparr>)"
  by (auto simp: asked_def split: if_splits)

lemma asked_resolve: "asked E S nd \<Longrightarrow> asked E S (resolve_pending p e nd)"
  by (auto simp: resolve_pending_def split: pending_reply.splits intro!: asked_same [of E S nd])

lemma asked_fail_build: "asked E S nd \<Longrightarrow> asked E S (fail_build cid e nd)"
  by (auto simp: fail_build_def Let_def split: option.splits intro!: asked_same [of E S nd])

lemma asked_complete_build: "asked E S nd \<Longrightarrow> asked E S (complete_build cid nd)"
  by (auto simp: complete_build_def Let_def split: option.splits intro!: asked_same [of E S nd])

lemma asked_client [simp]: "asked E S (nd\<lparr>pn_client := cl\<rparr>) = asked E S nd"
  "asked E S (nd\<lparr>pn_builds := b\<rparr>) = asked E S nd"
  by (simp_all add: asked_def)

lemma asked_created: "asked E S nd \<Longrightarrow> asked E S (handle_created E ce cid cell nd)"
  by (auto simp: handle_created_def Let_def asked_fail_build asked_complete_build
      split: option.splits sum.splits prod.splits intro!: asked_same [of E S nd])

lemma asked_relay_data: 
  assumes "asked E S nd"
  shows "asked E S (handle_relay_data E cid cell nd)"
proof (cases "hm_get (pn_fetches nd) cid")
  case (Some c)
  let ?nd = "nd\<lparr>pn_fetches := hm_remove cid (pn_fetches nd)\<rparr>"
  obtain ce h where "(ce, Command (FetchViaCircuit cid h c)) \<in> S"
    using assms Some unfolding asked_def by blast
  then have "asked E S (send_reply c r ?nd)" for r
    using assms by (auto simp: asked_def split: if_splits)
  with Some show ?thesis
    by (auto simp: handle_relay_data_def Let_def split: sum.splits)
qed (simp add: handle_relay_data_def assms)

lemma asked_route:
  assumes "asked E S nd"
    and "\<And>peer h c. p = PendingFragment peer h c \<Longrightarrow> \<exists>ce. (ce, Command (FetchFragment peer h c)) \<in> S"
  shows "asked E S (route_response E ce p r nd)"
proof (cases "\<exists>peer h c. p = PendingFragment peer h c")
  case True
  then obtain peer h c where p: "p = PendingFragment peer h c" by blast
  with assms(2) obtain ce' where "(ce', Command (FetchFragment peer h c)) \<in> S" by blast
  then have "asked E S (send_reply c (BytesReply (Inr data)) nd)" if "fragment_hash_of E data = h" for data
    using assms(1) that by (auto simp: asked_def)
  moreover have "asked E S (send_reply c (BytesReply (Inl e)) nd)" for e
    using assms(1) by (auto simp: asked_def)
  ultimately show ?thesis
    by (auto simp: p route_response_def asked_resolve assms(1) Let_def split: content_response.splits)
next
  case False
  then show ?thesis
    using assms(1)
    by (auto simp: route_response_def handle_relay_cell_response_def asked_resolve asked_fail_build asked_created
        asked_relay_data asked_forward [OF _ forward_only_forwards] asked_reply
        split: content_response.splits pending_reply.splits sum.splits cell_type.splits)
qed

lemma asked_command:
  assumes "asked E S nd" "(ce, Command cmd) \<in> S"
  shows "asked E S (handle_command E ce ttl cmd nd)"
proof (cases cmd)
  case (FetchFragment peer h c)
  with assms show ?thesis
    by (auto simp: handle_command_def asked_def split: if_splits)
next
  case (BuildCircuit peers c)
  with assms show ?thesis
    by (auto simp: handle_command_def start_circuit_def asked_def Let_def split: sum.splits prod.splits if_splits)
next
  case (FetchViaCircuit cid h c)
  with assms show ?thesis
    by (auto simp: handle_command_def fetch_via_circuit_def asked_def Let_def
        split: sum.splits option.splits if_splits)
qed (use assms in \<open>auto simp: handle_command_def announce_to_dht_def asked_def Let_def
      split: sum.splits if_splits\<close>)

lemma asked_step:
  assumes "e \<in> S" "asked E S nd"
  shows "asked E S (p2p_step E ttl e nd)"
proof -
  obtain ce ev where e: "e = (ce, ev)" by force
  show ?thesis
  proof (cases ev)
    case (InboundRequest peer req)
    with e assms(2) show ?thesis
      by (simp add: p2p_step_def asked_forward [OF _ serving_only_forwards])
  next
    case (ResponseReceived rid r)
    with e assms(2) show ?thesis
      by (auto simp: p2p_step_def handle_content_response_def asked_pending_removed asked_def [of E S nd]
          split: option.splits intro!: asked_route)
  next
    case (OutboundFailure rid err)
    with e assms(2) show ?thesis
      by (auto simp: p2p_step_def outbound_failure_def asked_pending_removed asked_resolve split: option.splits)
  next
    case (Command cmd)
    with e assms show ?thesis
      by (simp add: p2p_step_def asked_command)
  next
    case CleanupTick
    with e assms(2) show ?thesis
      by (auto simp: p2p_step_def cleanup_tick_def asked_def dest: hm_get_retain_Some)
  qed (use e assms(2) in \<open>auto simp: p2p_step_def handle_kademlia_get_record_def handle_announcement_def Let_def
        split: kad_get_result.splits sum.splits option.splits intro!: asked_same [of E S nd]\<close>)
qed

interpretation fetches: guarded_machine "p2p_step E ttl" "\<lambda>e. e \<in> S" "asked E S" for E ttl S
  by unfold_locales (rule asked_step)

text \<open>C4. A peer cannot pass off other bytes. Whatever events a node meets - answers of any peer, in any
  order, to any request, failures, cells, gossip - the bytes it hands to a waiter that asked a peer for
  a fragment hash, with BLAKE3, to the fragment hash that was asked for; no waiter gets bytes it did
  not ask for.\<close>

theorem fetched_bytes_verified:
  assumes "(c, BytesReply (Inr data)) \<in> set (pn_replies (fold (p2p_step E ttl) es (p2p_start peer sec st)))"
  shows "(\<exists>ce target h. (ce, Command (FetchFragment target h c)) \<in> set es \<and> fragment_hash_of E data = h) \<or>
    (\<exists>ce cid h. (ce, Command (FetchViaCircuit cid h c)) \<in> set es)"
proof -
  have "asked E (set es) (p2p_start peer sec st)"
    by (simp add: asked_def p2p_start_def)
  then have "asked E (set es) (fold (p2p_step E ttl) es (p2p_start peer sec st))"
    by (rule fetches.guarded_run [rotated]) (simp add: list_all_iff)
  with assms show ?thesis
    unfolding asked_def by blast
qed

section \<open>No circuit is ever built\<close>

text \<open>Requests for a circuit of our own that still wait for the cell of their answer.\<close>

definition awaits :: "circuit_id \<Rightarrow> pending_reply \<Rightarrow> nat" where
  "awaits cid p = (case p of RelayResponse _ c \<Rightarrow> if c = cid then 1 else 0 | _ \<Rightarrow> 0)"

abbreviation awaited :: "p2p_node \<Rightarrow> circuit_id \<Rightarrow> nat" where
  "awaited nd cid \<equiv> hm_sum (awaits cid) (pn_pending nd)"

definition fresh_circuit :: "p2p_node \<Rightarrow> circuit_id \<Rightarrow> bool" where
  "fresh_circuit nd cid \<longleftrightarrow> awaited nd cid = 0"

text \<open>
  The events of a node: any, except that no part of the program issues \<open>SendRelayCell\<close>, and the 32-byte
  identifier drawn for a new circuit is not one that is waited for.
\<close>

fun usual :: "p2p_env \<Rightarrow> p2p_node \<Rightarrow> call_env \<times> p2p_event \<Rightarrow> bool" where
  "usual E nd (ce, Command (SendRelayCell cell target)) \<longleftrightarrow> False"
| "usual E nd (ce, Command (BuildCircuit peers c)) \<longleftrightarrow>
     fresh_circuit nd (ci_id (circuit_new (zp (pe_relay E)) (ce_now ce) (ce_drawn ce) (ce_extra ce)
       (circuit_lifetime (cl_config (pn_client nd)))))"
| "usual E nd e \<longleftrightarrow> True"

inductive p2p_reachable :: "p2p_env \<Rightarrow> u64 \<Rightarrow> p2p_node \<Rightarrow> bool" for E ttl where
  start: "p2p_reachable E ttl (p2p_start peer sec st)"
| step: "p2p_reachable E ttl nd \<Longrightarrow> usual E nd e \<Longrightarrow> p2p_reachable E ttl (p2p_step E ttl e nd)"

text \<open>A client whose circuits all have at least two hops and are not ready.\<close>

definition unready :: "zk_client \<Rightarrow> bool" where
  "unready cl \<longleftrightarrow> hm_wf (cl_circuits cl) \<and>
     (\<forall>cid c. hm_get (cl_circuits cl) cid = Some c \<longrightarrow> \<not> ci_ready c \<and> 2 \<le> length (ci_hops c))"

lemma unready_update:
  "unready cl \<Longrightarrow> \<not> ci_ready c \<Longrightarrow> 2 \<le> length (ci_hops c) \<Longrightarrow>
   unready (cl\<lparr>cl_circuits := hm_insert cid c (cl_circuits cl)\<rparr>)"
  by (auto simp: unready_def)

lemma complete_hop_keeps:
  "complete_hop_handshake P i pub ctx c = (r, c') \<Longrightarrow>
   ci_ready c' = ci_ready c \<and> length (ci_hops c') = length (ci_hops c)"
  by (auto simp: complete_hop_handshake_def Let_def split: if_splits)

lemma first_created_unready:
  assumes "unready cl" "process_created_response E unix padding rnd cid resp 0 cl = (r, cl')"
  shows "unready cl' \<and> r \<noteq> Inr None"
proof (cases "hm_get (cl_circuits cl) cid")
  case (Some c)
  then have c: "\<not> ci_ready c" "2 \<le> length (ci_hops c)"
    using assms(1) by (auto simp: unready_def)
  let ?hop = "ci_hops c ! 0"
  obtain k c1 where k: "complete_hop_handshake (zp E) 0 (cd_relay_public_key resp) (hop_key_context cid 0) c = (k, c1)"
    by force
  have "unready (cl\<lparr>cl_circuits := hm_insert cid c1 (cl_circuits cl)\<rparr>)"
    using complete_hop_keeps [OF k] c assms(1) by (intro unready_update) auto
  then show ?thesis
    using assms complete_hop_keeps [OF k] c
    by (auto simp: process_created_response_def Some k Let_def split: sum.splits if_splits)
qed (use assms in \<open>auto simp: process_created_response_def\<close>)

lemma wrap_request_unready: "unready cl \<Longrightarrow> \<exists>e. wrap_request E now unix rnd cid req cl = Inl e"
  by (auto simp: wrap_request_def unready_def split: option.split)

lemma add_hop_keeps:
  "ci_ready (add_hop P now drawn peer c) = ci_ready c" "ci_id (add_hop P now drawn peer c) = ci_id c"
  "length (ci_hops (add_hop P now drawn peer c)) = Suc (length (ci_hops c))"
  by (simp_all add: add_hop_def add_hop_with_keypair_def)

lemma add_hops:
  "ci_ready (fold (\<lambda>(i, peer). add_hop P now (eph i) peer) xs c) = ci_ready c"
  "ci_id (fold (\<lambda>(i, peer). add_hop P now (eph i) peer) xs c) = ci_id c"
  "length (ci_hops (fold (\<lambda>(i, peer). add_hop P now (eph i) peer) xs c)) = length (ci_hops c) + length xs"
  by (induction xs arbitrary: c) (simp_all add: case_prod_unfold add_hop_keeps)

lemma build_circuit_unready:
  assumes "unready cl" "build_circuit P now rnd extra eph peers cl = (Inr cid, cl')"
  shows "unready cl' \<and> cid = ci_id (circuit_new P now rnd extra (circuit_lifetime (cl_config cl)))"
proof -
  let ?c0 = "circuit_new P now rnd extra (circuit_lifetime (cl_config cl))"
  let ?c = "fold (\<lambda>(i, peer). add_hop P now (eph i) peer) (enumerate 0 peers) ?c0"
  have cl': "2 \<le> length peers" "cid = ci_id ?c0"
      "cl' = cl\<lparr>cl_circuits := hm_insert cid (?c\<lparr>ci_ready := False\<rparr>) (cl_circuits cl)\<rparr>"
    using assms(2) by (auto simp: build_circuit_def Let_def add_hops split: if_splits)
  have "length (ci_hops ?c) = length peers"
    by (simp add: add_hops circuit_new_def)
  then have "unready cl'"
    unfolding cl'(3) using assms(1) cl'(1) by (intro unready_update) simp_all
  with cl'(2) show ?thesis
    by (simp add: add_hops)
qed

text \<open>The invariant: one answer at most, counting those still to come, for a circuit under construction.\<close>

definition stalled :: "p2p_node \<Rightarrow> bool" where
  "stalled nd \<longleftrightarrow>
     hm_wf (pn_pending nd) \<and> hm_wf (pn_builds nd) \<and> pn_fetches nd = [] \<and> unready (pn_client nd) \<and>
     (\<forall>cid b. hm_get (pn_builds nd) cid = Some b \<longrightarrow> pb_next_hop_index b + awaited nd cid \<le> 1) \<and>
     (\<forall>c cid. (c, CircuitReply (Inr cid)) \<notin> set (pn_replies nd))"

text \<open>A step that sends nothing for a circuit and leaves the builds alone.\<close>

lemma stalled_quiet:
  assumes "stalled nd" "pn_client nd' = pn_client nd" "pn_fetches nd' = pn_fetches nd"
    and "pn_builds nd' = pn_builds nd" "hm_wf (pn_pending nd')"
    and "\<And>cid. awaited nd' cid \<le> awaited nd cid"
    and "\<And>c cid. (c, CircuitReply (Inr cid)) \<in> set (pn_replies nd') \<Longrightarrow>
      (c, CircuitReply (Inr cid)) \<in> set (pn_replies nd)"
  shows "stalled nd'"
  using assms by (fastforce simp: stalled_def intro: order_trans [OF add_left_mono])

lemma stalled_effects [simp]:
  "stalled (nd\<lparr>pn_effects := x\<rparr>) = stalled nd" "stalled (nd\<lparr>pn_dht_queries := q\<rparr>) = stalled nd"
  "stalled (nd\<lparr>pn_peers := ps\<rparr>) = stalled nd" "stalled (nd\<lparr>pn_listen_addrs := la\<rparr>) = stalled nd"
  "stalled (nd\<lparr>pn_announcements := an\<rparr>) = stalled nd"
  by (simp_all add: stalled_def)

lemma stalled_reply:
  "stalled nd \<Longrightarrow> (\<And>cid. r \<noteq> CircuitReply (Inr cid)) \<Longrightarrow> stalled (send_reply c r nd)"
  by (auto simp: stalled_def)

lemma stalled_tracked:
  assumes "stalled nd" "\<And>cid. awaits cid p = 0"
  shows "stalled (send_tracked peer req p nd)"
  using assms hm_sum_insert_le [of "awaits cid" "pn_next_id nd" p "pn_pending nd" for cid]
  by (intro stalled_quiet [OF assms(1)]) (auto simp: stalled_def)

lemma stalled_forwards: "stalled nd \<Longrightarrow> only_forwards nd nd' \<Longrightarrow> stalled nd'"
  using hm_sum_insert_le [of "awaits cid" rid "RelayForward a b cid'" "pn_pending nd" for cid rid a b cid']
  by (auto simp: only_forwards_def own_state_def awaits_def intro!: stalled_quiet [of nd])
     (auto simp: stalled_def)

lemma stalled_resolve: "stalled nd \<Longrightarrow> stalled (resolve_pending p e nd)"
  by (auto simp: resolve_pending_def stalled_reply split: pending_reply.splits)

lemma stalled_client: "stalled nd \<Longrightarrow> unready cl \<Longrightarrow> stalled (nd\<lparr>pn_client := cl\<rparr>)"
  by (simp add: stalled_def)

lemma stalled_fail_build: "stalled nd \<Longrightarrow> stalled (fail_build cid e nd)"
  by (auto simp: fail_build_def stalled_def Let_def split: option.splits if_splits)

lemma stalled_removed:
  assumes "stalled nd"
  shows "stalled (nd\<lparr>pn_pending := hm_remove rid (pn_pending nd)\<rparr>)"
proof -
  have "hm_wf (pn_pending nd)"
    using assms by (simp add: stalled_def)
  then show ?thesis
    by (intro stalled_quiet [OF assms]) (simp_all add: hm_sum_remove_le)
qed

text \<open>
  The answer to the CREATE: nothing is awaited any more, and the EXTEND that follows is sent without
  being tracked.
\<close>

lemma stalled_created:
  assumes "stalled nd" "\<And>b. hm_get (pn_builds nd) cid = Some b \<Longrightarrow> pb_next_hop_index b + awaited nd cid = 0"
  shows "stalled (handle_created E ce cid cell nd)"
proof (cases "hm_get (pn_builds nd) cid")
  case (Some b)
  then have b: "pb_next_hop_index b = 0" "awaited nd cid = 0"
    using assms(2) by auto
  have cl: "unready cl" "r \<noteq> Inr None"
    if "process_created_response (pe_relay E) (ce_unix ce) (ce_padding ce) (ce_nonces ce) cid h 0 (pn_client nd) = (r, cl)"
    for h r cl
    using first_created_unready [OF _ that] assms(1) by (auto simp: stalled_def)
  have advanced: "stalled (nd\<lparr>pn_client := cl, pn_builds := hm_insert cid (b\<lparr>pb_next_hop_index := Suc 0\<rparr>) (pn_builds nd)\<rparr>)"
    if "unready cl" for cl
    using assms(1) b that by (auto simp: stalled_def)
  have sent: "stalled nd2 \<Longrightarrow> stalled (snd (send_request peer req nd2))" for peer req nd2
    by (rule stalled_quiet [of nd2]) (auto simp: stalled_def)
  show ?thesis
  proof (cases "created_deserialize (pe_relay E) (cl_payload cell)")
    case (Inl e)
    with Some assms(1) show ?thesis
      by (simp add: handle_created_def stalled_fail_build)
  next
    case (Inr h)
    obtain r cl where pc: "process_created_response (pe_relay E) (ce_unix ce) (ce_padding ce) (ce_nonces ce) cid h 0
        (pn_client nd) = (r, cl)" by force
    note cl = cl [OF pc]
    consider e where "r = Inl e" | x where "r = Inr (Some x)"
      using cl(2) by (cases r) auto
    then show ?thesis
      using Some Inr b pc cl(1) assms(1)
      by cases (simp_all add: handle_created_def stalled_fail_build stalled_client advanced sent Let_def split: option.split)
  qed
qed (simp add: handle_created_def assms(1))

lemma stalled_response:
  assumes "stalled nd"
  shows "stalled (handle_content_response E ce rid r nd)"
proof (cases "hm_get (pn_pending nd) rid")
  case (Some p)
  let ?nd = "nd\<lparr>pn_pending := hm_remove rid (pn_pending nd)\<rparr>"
  note removed = stalled_removed [OF assms, of rid]
  show ?thesis
  proof (cases "\<exists>target cid data. p = RelayResponse target cid \<and> r = RespRelayCell data")
    case True
    then obtain target cid data where p: "p = RelayResponse target cid" "r = RespRelayCell data" by blast
    have "awaited ?nd cid + 1 = awaited nd cid"
      using hm_sum_remove [of "pn_pending nd" "awaits cid" rid] Some p assms by (simp add: stalled_def awaits_def)
    then have "pb_next_hop_index b + awaited ?nd cid = 0" if "hm_get (pn_builds nd) cid = Some b" for b
      using assms that by (fastforce simp: stalled_def)
    then have "stalled (handle_created E ce cid cell ?nd)" for cell
      using removed by (intro stalled_created) auto
    moreover have "handle_relay_data E cid cell ?nd = ?nd" for cell
      using removed by (simp add: handle_relay_data_def stalled_def)
    ultimately show ?thesis
      using Some p removed
      by (auto simp: handle_content_response_def route_response_def handle_relay_cell_response_def
          stalled_fail_build split: sum.splits cell_type.splits)
  next
    case False
    with Some removed show ?thesis
      by (auto simp: handle_content_response_def route_response_def stalled_resolve stalled_reply Let_def
          stalled_forwards [OF _ forward_only_forwards] split: pending_reply.splits content_response.splits)
  qed
qed (simp add: handle_content_response_def assms)

lemma stalled_start_circuit:
  assumes "stalled nd"
    and "fresh_circuit nd (ci_id (circuit_new (zp (pe_relay E)) (ce_now ce) (ce_drawn ce) (ce_extra ce)
       (circuit_lifetime (cl_config (pn_client nd)))))"
  shows "stalled (start_circuit E ce peers c nd)"
proof (cases "build_circuit (zp (pe_relay E)) (ce_now ce) (ce_drawn ce) (ce_extra ce) (ce_secrets ce) peers (pn_client nd)")
  case (Pair r cl)
  show ?thesis
  proof (cases r)
    case (Inl e)
    then have "cl = pn_client nd"
      using Pair by (auto simp: build_circuit_def Let_def split: if_splits)
    with Pair Inl assms(1) show ?thesis
      by (auto simp: start_circuit_def Let_def stalled_reply)
  next
    case (Inr cid)
    then have cl: "unready cl" "awaited nd cid = 0"
      using build_circuit_unready [OF _ Pair [unfolded Inr]] assms by (auto simp: stalled_def fresh_circuit_def)
    let ?nd = "nd\<lparr>pn_client := cl, pn_builds := hm_insert cid \<lparr>pb_next_hop_index = 0, pb_total_hops = length peers,
                    pb_reply = Some c\<rparr> (pn_builds nd)\<rparr>"
    have more: "awaited (send_tracked peer req (RelayResponse peer cid) ?nd) k \<le> awaited nd k + (if k = cid then 1 else 0)"
      for peer req k
      using hm_sum_insert_le [of "awaits k" "pn_next_id nd" "RelayResponse peer cid" "pn_pending nd"]
      by (auto simp: awaits_def)
    have "pb_next_hop_index b + awaited (send_tracked peer req (RelayResponse peer cid) ?nd) k \<le> 1"
      if "hm_get (pn_builds ?nd) k = Some b" for peer req k b
    proof (cases "k = cid")
      case False
      then have "pb_next_hop_index b + awaited nd k \<le> 1"
        using that assms(1) by (simp add: stalled_def)
      with more [where k = k and peer = peer and req = req] False show ?thesis by simp
    qed (use that more [where k = cid and peer = peer and req = req] cl(2) in auto)
    then have "stalled (send_tracked peer req (RelayResponse peer cid) ?nd)" for peer req
      using assms(1) cl(1) by (simp add: stalled_def)
    with Pair Inr cl assms(1) show ?thesis
      by (auto simp: start_circuit_def Let_def stalled_reply stalled_client split: sum.splits)
  qed
qed

lemma stalled_fetch: "stalled nd \<Longrightarrow> stalled (fetch_via_circuit E ce cid h c nd)"
proof (cases "bc_blind_request E (blind_request_new (ce_unix ce) (ce_drawn ce) h)")
  case (Inr payload)
  assume nd: "stalled nd"
  then obtain e where
      "wrap_request (pe_relay E) (ce_now ce) (ce_unix ce) (ce_nonces ce) cid payload (pn_client nd) = Inl e"
    using wrap_request_unready unfolding stalled_def by blast
  with nd Inr show ?thesis
    by (simp add: fetch_via_circuit_def stalled_reply)
qed (simp add: fetch_via_circuit_def stalled_reply)

lemma stalled_cleanup:
  assumes "stalled nd"
  shows "stalled (cleanup_tick ce nd)"
proof -
  let ?nd = "cleanup_tick ce nd"
  have "pb_next_hop_index b + awaited ?nd cid \<le> 1" if "hm_get (pn_builds ?nd) cid = Some b" for cid b
  proof -
    have "hm_get (pn_builds nd) cid = Some b"
      using that assms by (auto simp: cleanup_tick_def stalled_def dest: hm_get_retain_Some)
    then have "pb_next_hop_index b + awaited nd cid \<le> 1"
      using assms by (simp add: stalled_def)
    then show ?thesis
      using hm_sum_retain_le [of "awaits cid" _ "pn_pending nd"]
      by (simp add: cleanup_tick_def) (meson add_left_mono order_trans)
  qed
  moreover have "unready (snd (client_cleanup_expired (ce_now ce) (pn_client nd)))"
    using assms by (auto simp: client_cleanup_expired_def unready_def Let_def stalled_def dest: hm_get_retain_Some)
  moreover have "hm_retain P [] = []" for P :: "circuit_id \<Rightarrow> channel \<Rightarrow> bool"
    by (simp add: hm_retain_def)
  ultimately show ?thesis
    using assms by (simp add: stalled_def) (simp add: cleanup_tick_def)
qed

lemma stalled_step:
  assumes "stalled nd" "usual E nd (ce, ev)"
  shows "stalled (p2p_step E ttl (ce, ev) nd)"
proof (cases ev)
  case (InboundRequest peer req)
  with assms(1) show ?thesis
    by (simp add: p2p_step_def stalled_forwards [OF _ serving_only_forwards])
next
  case (ResponseReceived rid r)
  with assms(1) show ?thesis
    by (simp add: p2p_step_def stalled_response)
next
  case (OutboundFailure rid err)
  with assms(1) show ?thesis
    by (auto simp: p2p_step_def outbound_failure_def stalled_removed stalled_resolve split: option.splits)
next
  case (Command cmd)
  with assms show ?thesis
    by (cases cmd)
       (auto simp: p2p_step_def handle_command_def announce_to_dht_def Let_def stalled_reply stalled_fetch
         stalled_start_circuit stalled_tracked awaits_def split: sum.splits intro: stalled_quiet [of nd])
next
  case CleanupTick
  with assms(1) show ?thesis
    by (simp add: p2p_step_def stalled_cleanup)
qed (use assms(1) in \<open>auto simp: p2p_step_def handle_kademlia_get_record_def handle_announcement_def Let_def stalled_reply
      split: kad_get_result.splits sum.splits option.splits intro: stalled_quiet [of nd]\<close>)

lemma reachable_stalled: "p2p_reachable E ttl nd \<Longrightarrow> stalled nd"
proof (induction rule: p2p_reachable.induct)
  case (start peer sec st)
  then show ?case
    by (simp add: stalled_def p2p_start_def client_new_def client_with_config_def unready_def)
next
  case (step nd e)
  then show ?case
    by (cases e) (simp add: stalled_step)
qed

text \<open>C6. No node ever completes a circuit. A circuit has at least two hops, but the EXTEND that follows the
  first handshake is sent without being recorded among the pending requests, so its answer is dropped.
  In every state the event loop can reach, whatever its peers answer: no waiter of \<open>BuildCircuit\<close> was
  told of a circuit, no circuit is ready, and every \<open>FetchViaCircuit\<close> fails on the spot.\<close>

theorem no_circuit_completes:
  assumes "p2p_reachable E ttl nd"
  shows "(\<forall>c cid. (c, CircuitReply (Inr cid)) \<notin> set (pn_replies nd)) \<and>
    (\<forall>cid circ. hm_get (cl_circuits (pn_client nd)) cid = Some circ \<longrightarrow> \<not> ci_ready circ) \<and>
    (\<exists>e. handle_command E ce ttl (FetchViaCircuit cid h c) nd = send_reply c (BytesReply (Inl (FetchRelayError e))) nd)"
proof -
  have "stalled nd"
    using assms by (rule reachable_stalled)
  then have nd: "unready (pn_client nd)" "\<forall>c cid. (c, CircuitReply (Inr cid)) \<notin> set (pn_replies nd)"
    by (simp_all add: stalled_def)
  have "\<exists>e. fetch_via_circuit E ce cid h c nd = send_reply c (BytesReply (Inl (FetchRelayError e))) nd"
  proof (cases "bc_blind_request E (blind_request_new (ce_unix ce) (ce_drawn ce) h)")
    case (Inr payload)
    obtain e where
        "wrap_request (pe_relay E) (ce_now ce) (ce_unix ce) (ce_nonces ce) cid payload (pn_client nd) = Inl e"
      using wrap_request_unready [OF nd(1)] by blast
    with Inr show ?thesis
      by (auto simp: fetch_via_circuit_def)
  qed (auto simp: fetch_via_circuit_def)
  with nd show ?thesis
    by (auto simp: handle_command_def unready_def)
qed

section \<open>A fetch from one node to another\<close>

text \<open>What the other side reads of a message that is written to a stream.\<close>

definition wire_request :: "content_json \<Rightarrow> content_request \<Rightarrow> codec_error + content_request" where
  "wire_request J req =
     (case write_request J req of Inl e \<Rightarrow> Inl e | Inr w \<Rightarrow> map_sum id fst (read_request J w))"

definition wire_response :: "content_json \<Rightarrow> content_response \<Rightarrow> codec_error + content_response" where
  "wire_response J resp =
     (case write_response J resp of Inl e \<Rightarrow> Inl e | Inr w \<Rightarrow> map_sum id fst (read_response J w))"

definition request_fits :: "content_json \<Rightarrow> content_request \<Rightarrow> bool" where
  "request_fits J r \<longleftrightarrow> (\<exists>b. rq_to_json J r = Inr b \<and> rq_from_json J b = Inr r \<and> length b \<le> MAX_MESSAGE_SIZE)"

definition response_fits :: "content_json \<Rightarrow> content_response \<Rightarrow> bool" where
  "response_fits J r \<longleftrightarrow> (\<exists>b. rs_to_json J r = Inr b \<and> rs_from_json J b = Inr r \<and> length b \<le> MAX_MESSAGE_SIZE)"

lemma wire_request_ok: "request_fits J r \<Longrightarrow> wire_request J r = Inr r"
  using request_roundtrip [of J r _ "[]"] by (auto simp: request_fits_def wire_request_def)

lemma wire_response_ok: "response_fits J r \<Longrightarrow> validate_response r = Inr () \<Longrightarrow> wire_response J r = Inr r"
  using response_roundtrip [of J r _ "[]"] by (auto simp: response_fits_def wire_response_def)


section \<open>Witnesses\<close>

definition demo_p2p :: p2p_env where
  "demo_p2p = \<lparr>pe_relay = demo_relay, pe_dht = \<lparr>dj_to_json = \<lambda>_. Inl [], dj_from_json = \<lambda>_. Inl []\<rparr>,
     pe_announcement_to_json = \<lambda>_. Inl [], pe_announcement_from_json = \<lambda>_. Inl [],
     pe_index = demo_index, bc_blind_request = \<lambda>_. Inr [], bc_blind_request_de = \<lambda>_. Inl [],
     bc_blind_response = \<lambda>_. Inr [], bc_blind_response_de = \<lambda>_. Inl [],
     peer_text = \<lambda>_. [], parse_peer = \<lambda>_. None, rendezvous_peers = []\<rparr>"

definition demo_call :: call_env where
  "demo_call = \<lparr>ce_io = good_io, ce_now = 0, ce_unix = 1, ce_drawn = [1], ce_extra = [2], ce_padding = [3],
     ce_nonces = \<lambda>_. [4], ce_secrets = \<lambda>i. [of_nat i], ce_blocked = \<lambda>_. False, ce_closed = \<lambda>_. False,
     ce_listen_addrs = []\<rparr>"

lemma demo_reachable:
  "p2p_reachable demo_p2p 60 (p2p_step demo_p2p 60 (demo_call, Command (BuildCircuit [[1], [2]] 5))
     (p2p_start [9] [7] (demo_store True)))"
  by (rule p2p_reachable.step [OF p2p_reachable.start]) (simp add: fresh_circuit_def p2p_start_def)

theorem no_circuit_completes_witness:
  "\<exists>e. handle_command demo_p2p demo_call 60 (FetchViaCircuit [0] ''h'' 6)
      (p2p_step demo_p2p 60 (demo_call, Command (BuildCircuit [[1], [2]] 5)) (p2p_start [9] [7] (demo_store True))) =
    send_reply 6 (BytesReply (Inl (FetchRelayError e)))
      (p2p_step demo_p2p 60 (demo_call, Command (BuildCircuit [[1], [2]] 5)) (p2p_start [9] [7] (demo_store True)))"
  using no_circuit_completes [OF demo_reachable] by blast

theorem fetched_bytes_verified_witness:
  "let h = fragment_hash_of demo_p2p [1, 2];
       es = [(demo_call, Command (FetchFragment [8] h 5)), (demo_call, ResponseReceived 0 (RespFragment h [1, 2]))]
   in (5, BytesReply (Inr [1, 2])) \<in> set (pn_replies (fold (p2p_step demo_p2p 60) es (p2p_start [9] [7] (demo_store True)))) \<and>
     (\<exists>ce target k. (ce, Command (FetchFragment target k 5)) \<in> set es \<and> fragment_hash_of demo_p2p [1, 2] = k)"
proof -
  let ?h = "fragment_hash_of demo_p2p [1, 2]"
  let ?es = "[(demo_call, Command (FetchFragment [8] ?h 5)), (demo_call, ResponseReceived 0 (RespFragment ?h [1, 2]))]"
  have "(5, BytesReply (Inr [1, 2])) \<in> set (pn_replies (fold (p2p_step demo_p2p 60) ?es (p2p_start [9] [7] (demo_store True))))"
    by (simp add: p2p_step_def handle_command_def demo_call_def handle_content_response_def route_response_def
        p2p_start_def Let_def)
  with fetched_bytes_verified [OF this] show ?thesis
    by (auto simp: Let_def)
qed

text \<open>A codec that knows the two messages of the exchange.\<close>

definition demo_wire :: "string \<Rightarrow> content_json" where
  "demo_wire h = \<lparr>rq_to_json = \<lambda>_. Inr [1], rq_from_json = \<lambda>_. Inr (ReqGetFragment h),
     rs_to_json = \<lambda>_. Inr [2], rs_from_json = \<lambda>_. Inr (RespFragment h [1, 2])\<rparr>"


end
