(* ===== verification/NodeReplication.thy ===== *)
theory NodeReplication
  imports NodeP2p Replication
begin

text \<open>
  The background replication of a node, \<open>node-runner/src/replication.rs\<close>: a scan registers what the node
  holds with the replication manager of the protocol crate, asks the DHT who else holds it, picks
  content it does not hold from gossip and from the catalogs of peers, pulls it and stores it.

  The scan talks to the event loop of NodeP2p over one-shot channels. What comes back on them is
  outside and an argument: an \<open>outcome\<close> per request, found under the content it is for and the
  position of the fragment and of the provider in their lists, so that a peer may answer each request
  differently. Transfers run concurrently but touch no shared state; their results are stored one
  after the other, in the order of the targets, as the code does. Metrics and logging are left out.
\<close>

section \<open>State and errors\<close>

record replication_config =
  rc_scan_interval_secs :: u64
  rc_max_concurrent_replications :: nat
  rc_budget_exceeded :: "storage_stats \<Rightarrow> bool" \<comment> \<open>the comparison of percentages, in floating point\<close>
  rc_max_items_per_cycle :: nat

record replication_stats =
  rt_total_replicated :: u64
  rt_total_bytes_replicated :: u64
  rt_total_failures :: u64
  rt_last_cycle_replicated :: u64
  rt_last_scan_timestamp :: "u64 option"
  rt_scan_in_progress :: bool

record replication_state =
  rp_manager :: replication_manager
  rp_stats :: replication_stats

definition stats_default :: replication_stats where
  "stats_default = \<lparr>rt_total_replicated = 0, rt_total_bytes_replicated = 0, rt_total_failures = 0,
     rt_last_cycle_replicated = 0, rt_last_scan_timestamp = None, rt_scan_in_progress = False\<rparr>"

definition replication_state_new :: "nat \<Rightarrow> replication_state" where
  "replication_state_new factor = \<lparr>rp_manager = rm_with_factor factor, rp_stats = stats_default\<rparr>"

definition health_report :: "replication_state \<Rightarrow> replication_health \<times> replication_stats" where
  "health_report rp = (get_health_summary (rp_manager rp), rp_stats rp)"

datatype replication_error =
    NoProviders
  | FetchFailed string
  | ReplicaStorageError string
  | P2pChannelClosed

definition replication_error_text :: "replication_error \<Rightarrow> string" where
  "replication_error_text e =
     (case e of
        NoProviders \<Rightarrow> ''No providers found''
      | FetchFailed m \<Rightarrow> ''Fetch failed: '' @ m
      | ReplicaStorageError m \<Rightarrow> ''Storage error: '' @ m
      | P2pChannelClosed \<Rightarrow> ''P2P channel closed'')"

definition MAX_INBOUND_CONTENT_SIZE :: u64 where
  "MAX_INBOUND_CONTENT_SIZE = 100 * 1024 * 1024"

definition MAX_INBOUND_FRAGMENT_SIZE :: nat where
  "MAX_INBOUND_FRAGMENT_SIZE = 4 * 1024 * 1024"

definition is_ascii_hexdigit :: "char \<Rightarrow> bool" where
  "is_ascii_hexdigit c \<longleftrightarrow> is_ascii_digit c \<or> code CHR ''a'' \<le> code c \<and> code c \<le> code CHR ''f'' \<or>
     code CHR ''A'' \<le> code c \<and> code c \<le> code CHR ''F''"

definition is_blake3_hex_cid :: "string \<Rightarrow> bool" where
  "is_blake3_hex_cid cid \<longleftrightarrow> length cid = 64 \<and> list_all is_ascii_hexdigit cid"

section \<open>Requests to the event loop\<close>

text \<open>
  What becomes of a request: the command channel is closed, the reply arrives, the reply channel is
  dropped, or the time limit of the request passes.
\<close>

datatype 'a outcome = Unsent | Answered "fetch_error + 'a" | Dropped | TimedOut

definition list_peer_content :: "string list outcome \<Rightarrow> replication_error + string list" where
  "list_peer_content r =
     (case r of
        Unsent \<Rightarrow> Inl P2pChannelClosed
      | Answered (Inr cids) \<Rightarrow> Inr cids
      | Answered (Inl e) \<Rightarrow> Inl (FetchFailed (fetch_error_text e))
      | Dropped \<Rightarrow> Inl P2pChannelClosed
      | TimedOut \<Rightarrow> Inr [])"

definition find_providers :: "peer_id list outcome \<Rightarrow> replication_error + peer_id list" where
  "find_providers r =
     (case r of
        Unsent \<Rightarrow> Inl P2pChannelClosed
      | Answered (Inr peers) \<Rightarrow> Inr peers
      | Answered (Inl FetchNotFound) \<Rightarrow> Inr []
      | Answered (Inl e) \<Rightarrow> Inl (FetchFailed (fetch_error_text e))
      | Dropped \<Rightarrow> Inl P2pChannelClosed
      | TimedOut \<Rightarrow> Inr [])"

definition fetch_manifest :: "manifest_result outcome \<Rightarrow> replication_error + manifest_result" where
  "fetch_manifest r =
     (case r of
        Unsent \<Rightarrow> Inl P2pChannelClosed
      | Answered (Inr m) \<Rightarrow> Inr m
      | Answered (Inl e) \<Rightarrow> Inl (FetchFailed (fetch_error_text e))
      | Dropped \<Rightarrow> Inl P2pChannelClosed
      | TimedOut \<Rightarrow> Inl (FetchFailed ''Manifest fetch timed out''))"

definition fetch_fragment :: "bytes outcome \<Rightarrow> replication_error + bytes" where
  "fetch_fragment r =
     (case r of
        Unsent \<Rightarrow> Inl P2pChannelClosed
      | Answered (Inr data) \<Rightarrow> Inr data
      | Answered (Inl e) \<Rightarrow> Inl (FetchFailed (fetch_error_text e))
      | Dropped \<Rightarrow> Inl P2pChannelClosed
      | TimedOut \<Rightarrow> Inl (FetchFailed ''Fragment fetch timed out''))"

section \<open>Fetching one item\<close>

record transfer =
  tf_providers :: "peer_id list outcome"
  tf_manifest :: "nat \<Rightarrow> peer_id \<Rightarrow> manifest_result outcome"
  tf_fragment :: "nat \<Rightarrow> nat \<Rightarrow> peer_id \<Rightarrow> string \<Rightarrow> bytes outcome"

text \<open>The providers are asked in turn until one answers.\<close>

fun first_ok :: "(nat \<Rightarrow> 'p \<Rightarrow> 'e + 'a) \<Rightarrow> nat \<Rightarrow> 'p list \<Rightarrow> 'a option" where
  "first_ok f j [] = None"
| "first_ok f j (p # ps) = (case f j p of Inr x \<Rightarrow> Some x | Inl _ \<Rightarrow> first_ok f (j + 1) ps)"

definition content_too_large :: replication_error where
  "content_too_large = FetchFailed ''Remote content exceeds 100 MB limit''"

fun fetch_fragments ::
    "transfer \<Rightarrow> peer_id list \<Rightarrow> nat \<Rightarrow> string list \<Rightarrow> u64 \<Rightarrow> replication_error + (string \<times> bytes) list" where
  "fetch_fragments T providers i [] sofar = Inr []"
| "fetch_fragments T providers i (h # hs) sofar =
     (case first_ok (\<lambda>j p. fetch_fragment (tf_fragment T i j p h)) 0 providers of
        None \<Rightarrow> Inl (FetchFailed (''Failed to fetch fragment '' @ h @ '' from any provider''))
      | Some data \<Rightarrow>
          if length data > MAX_INBOUND_FRAGMENT_SIZE
          then Inl (FetchFailed (''Remote fragment '' @ h @ '' exceeds 4 MB limit''))
          else let sofar' = sat_add sofar (word_of_nat (length data)) in
            if sofar' > MAX_INBOUND_CONTENT_SIZE then Inl content_too_large
            else (case fetch_fragments T providers (i + 1) hs sofar' of
                    Inl e \<Rightarrow> Inl e
                  | Inr fs \<Rightarrow> Inr ((h, data) # fs)))"

definition replicate_content ::
    "prims \<Rightarrow> transfer \<Rightarrow> string \<Rightarrow> replication_error + manifest_result \<times> (string \<times> bytes) list" where
  "replicate_content P T cid =
     (case find_providers (tf_providers T) of
        Inl e \<Rightarrow> Inl e
      | Inr providers \<Rightarrow>
          if providers = [] then Inl NoProviders
          else (case first_ok (\<lambda>j p. fetch_manifest (tf_manifest T j p)) 0 providers of
            None \<Rightarrow> Inl (FetchFailed ''All providers failed for manifest'')
          | Some m \<Rightarrow>
              if is_blake3_hex_cid cid \<and> mr_content_hash m \<noteq> cid
              then Inl (FetchFailed ''Manifest content hash does not match requested CID'')
              else if mr_total_size m > MAX_INBOUND_CONTENT_SIZE then Inl content_too_large
              else (case fetch_fragments T providers 0 (mr_fragment_hashes m) 0 of
                      Inl e \<Rightarrow> Inl e
                    | Inr fs \<Rightarrow>
                        if is_blake3_hex_cid cid \<and> hex_bytes (blake3 P (concat (map snd fs))) \<noteq> cid
                        then Inl (FetchFailed ''Reassembled content does not hash to the requested CID'')
                        else Inr (m, fs))))"

section \<open>Target selection\<close>

fun select_loop :: "string list \<Rightarrow> nat \<Rightarrow> string list \<Rightarrow> string list \<Rightarrow> string list \<Rightarrow> string list" where
  "select_loop local_set max_items seen targets [] = targets"
| "select_loop local_set max_items seen targets (cid # cids) =
     (let fresh = cid \<notin> set local_set \<and> cid \<notin> set seen;
          seen' = (if cid \<in> set local_set then seen else hs_insert cid seen);
          targets' = (if fresh then targets @ [cid] else targets)
      in if length targets' \<ge> max_items then targets'
         else select_loop local_set max_items seen' targets' cids)"

definition select_replication_targets :: "string list \<Rightarrow> string list \<Rightarrow> string list \<Rightarrow> nat \<Rightarrow> string list" where
  "select_replication_targets local_cids gossip_cids peer_catalog_cids max_items =
     select_loop local_cids max_items [] [] (gossip_cids @ peer_catalog_cids)"

section \<open>Storing what was fetched\<close>

fun store_fragments ::
    "(nat \<Rightarrow> io) \<Rightarrow> index_codec \<Rightarrow> u64 \<Rightarrow> string \<Rightarrow> nat \<Rightarrow> (string \<times> bytes) list \<Rightarrow> u64 \<Rightarrow> storage \<Rightarrow>
     (bool \<times> u64) \<times> storage" where
  "store_fragments ios J now cid idx [] sofar st = ((True, sofar), st)"
| "store_fragments ios J now cid idx ((h, data) # fs) sofar st =
     (if has_fragment st h then store_fragments ios J now cid (idx + 1) fs sofar st
      else case store_fragment (ios idx) J now h cid (word_of_nat idx) data st of
        (Inl e, st') \<Rightarrow> ((False, sofar), st')
      | (Inr _, st') \<Rightarrow>
          store_fragments ios J now cid (idx + 1) fs (sofar + word_of_nat (length data)) st')"

definition replica_content :: "u64 \<Rightarrow> string \<Rightarrow> manifest_result \<Rightarrow> stored_content" where
  "replica_content now cid m =
     \<lparr>sc_cid = cid, sc_name = cid, sc_total_size = mr_total_size m,
      sc_fragment_count = word_of_nat (length (mr_fragment_hashes m)),
      sc_fragments = mr_fragment_hashes m, sc_stored_at = now, sc_pinned = False,
      sc_mime_type = mr_mime_type m\<rparr>"

record scan_world =
  sw_storage :: storage
  sw_repl :: replication_state
  sw_announcements :: "content_announcement list"
  sw_sent :: "p2p_command list" \<comment> \<open>announcements handed to the event loop\<close>
  sw_cycle_replicated :: u64
  sw_cycle_bytes :: u64

record scan_env =
  se_index :: index_codec
  se_now :: instant
  se_unix :: u64
  se_holders :: "string \<Rightarrow> peer_id list outcome"
  se_catalog :: "peer_id \<Rightarrow> string list outcome"
  se_transfer :: "string \<Rightarrow> transfer"
  se_io :: "string \<Rightarrow> nat \<Rightarrow> io" \<comment> \<open>by content and step: the fragments, then the record, then the pin\<close>

abbreviation map_stats :: "(replication_stats \<Rightarrow> replication_stats) \<Rightarrow> scan_world \<Rightarrow> scan_world" where
  "map_stats f w \<equiv> w\<lparr>sw_repl := (sw_repl w)\<lparr>rp_stats := f (rp_stats (sw_repl w))\<rparr>\<rparr>"

definition count_failure :: "scan_world \<Rightarrow> scan_world" where
  "count_failure w = map_stats (\<lambda>t. t\<lparr>rt_total_failures := rt_total_failures t + 1\<rparr>) w"

definition store_replica ::
    "scan_env \<Rightarrow> string \<Rightarrow> manifest_result \<times> (string \<times> bytes) list \<Rightarrow> scan_world \<Rightarrow> scan_world" where
  "store_replica S cid mf w =
     (case mf of (m, fs) \<Rightarrow>
      (case store_fragments (se_io S cid) (se_index S) (se_unix S) cid 0 fs 0 (sw_storage w) of
         ((False, sofar), st) \<Rightarrow> count_failure (w\<lparr>sw_storage := st\<rparr>)
       | ((True, sofar), st) \<Rightarrow>
           let n = length fs in
           (case store_content (se_io S cid n) (se_index S) (replica_content (se_unix S) cid m) st of
              (Inl e, st') \<Rightarrow> w\<lparr>sw_storage := st'\<rparr>
            | (Inr _, st') \<Rightarrow>
                w\<lparr>sw_storage := snd (NodeStorage.pin (se_io S cid (n + 1)) (se_index S) cid st'),
                  sw_sent := sw_sent w @
                    [AnnounceContent cid (mr_fragment_hashes m) (mr_total_size m) (mr_mime_type m)],
                  sw_cycle_replicated := sw_cycle_replicated w + 1,
                  sw_cycle_bytes := sw_cycle_bytes w + sofar\<rparr>)))"

definition collect_result :: "prims \<Rightarrow> scan_env \<Rightarrow> string \<Rightarrow> scan_world \<Rightarrow> scan_world" where
  "collect_result P S cid w =
     (case replicate_content P (se_transfer S cid) cid of
        Inr mf \<Rightarrow> store_replica S cid mf w
      | Inl e \<Rightarrow> count_failure w)"

section \<open>The scan\<close>

definition manifest_of :: "stored_content \<Rightarrow> content_manifest" where
  "manifest_of c = \<lparr>content_hash = sc_cid c, mf_fragments = sc_fragments c,
     metadata = \<lparr>md_name = sc_name c, md_size = sc_total_size c, mime_type = sc_mime_type c\<rparr>\<rparr>"

definition add_holder ::
    "(peer_id \<Rightarrow> string) \<Rightarrow> scan_env \<Rightarrow> stored_content \<Rightarrow> peer_id \<Rightarrow> replication_manager \<Rightarrow> replication_manager" where
  "add_holder text S c p =
     fold (\<lambda>h. add_fragment_holder text (se_now S) (se_unix S) (sc_cid c) h p) (sc_fragments c)"

definition register_local ::
    "(peer_id \<Rightarrow> string) \<Rightarrow> scan_env \<Rightarrow> peer_id \<Rightarrow> stored_content \<Rightarrow> replication_manager \<Rightarrow> replication_manager" where
  "register_local text S me c m =
     add_holder text S c me (register_content (se_now S) (se_unix S) (sc_cid c) (manifest_of c) m)"

definition register_holders ::
    "(peer_id \<Rightarrow> string) \<Rightarrow> scan_env \<Rightarrow> stored_content \<Rightarrow> replication_manager \<Rightarrow> replication_manager" where
  "register_holders text S c m =
     (case find_providers (se_holders S (sc_cid c)) of
        Inl e \<Rightarrow> m
      | Inr providers \<Rightarrow> fold (add_holder text S c) providers m)"

definition catalog_cids :: "scan_env \<Rightarrow> peer_id list \<Rightarrow> string list" where
  "catalog_cids S peers =
     concat (map (\<lambda>p. case list_peer_content (se_catalog S p) of Inr cids \<Rightarrow> cids | Inl _ \<Rightarrow> [])
       (take 5 peers))"

definition start_scan :: "scan_world \<Rightarrow> scan_world" where
  "start_scan w = map_stats (\<lambda>t. t\<lparr>rt_scan_in_progress := True, rt_last_cycle_replicated := 0\<rparr>)
     (w\<lparr>sw_cycle_replicated := 0, sw_cycle_bytes := 0\<rparr>)"

definition finish_scan :: "u64 \<Rightarrow> scan_world \<Rightarrow> scan_world" where
  "finish_scan now w =
     map_stats (\<lambda>t. t\<lparr>rt_scan_in_progress := False, rt_last_scan_timestamp := Some now\<rparr>) w"

definition tally :: "scan_world \<Rightarrow> scan_world" where
  "tally w = map_stats (\<lambda>t. t\<lparr>
     rt_total_replicated := rt_total_replicated t + sw_cycle_replicated w,
     rt_total_bytes_replicated := rt_total_bytes_replicated t + sw_cycle_bytes w,
     rt_last_cycle_replicated := sw_cycle_replicated w\<rparr>) w"

text \<open>
  A scan either returns or waits for ever for a permit of its semaphore: the permits come back only
  from running transfers, and the semaphore starts with \<open>max_concurrent_replications\<close> of them.
\<close>

datatype scan_result = Returned scan_world | Waiting scan_world

definition scan_and_replicate ::
    "prims \<Rightarrow> (peer_id \<Rightarrow> string) \<Rightarrow> replication_config \<Rightarrow> peer_id \<Rightarrow> peer_id list \<Rightarrow> scan_env \<Rightarrow> scan_world \<Rightarrow>
     scan_result" where
  "scan_and_replicate P text cfg me peers S w0 =
     (let w = start_scan w0; local_content = list_content (sw_storage w) in
      if rc_budget_exceeded cfg (get_stats (sw_storage w)) \<or> local_content = []
      then Returned (finish_scan (se_unix S) w)
      else
        let mgr = fold (register_local text S me) local_content (rp_manager (sw_repl w));
            mgr' = fold (register_holders text S) local_content mgr;
            gossip_cids = map an_cid (sw_announcements w);
            w1 = w\<lparr>sw_repl := (sw_repl w)\<lparr>rp_manager := mgr'\<rparr>, sw_announcements := []\<rparr>;
            targets = select_replication_targets (map sc_cid local_content) gossip_cids
                        (catalog_cids S peers) (rc_max_items_per_cycle cfg)
        in if targets = [] then Returned (finish_scan (se_unix S) w1)
           else if rc_max_concurrent_replications cfg = 0 then Waiting w1
           else Returned (finish_scan (se_unix S) (tally (fold (collect_result P S) targets w1))))"

end
