(* ===== verification/ReplicaSafety.thy ===== *)
theory ReplicaSafety
  imports NodeReplication
begin

text \<open>
  The background replication proved correct: which content a scan goes after, what it accepts from
  peers, what it leaves in the store, and when it does not return.
\<close>

section \<open>Which content a scan goes after\<close>

lemma remdups_snoc: "remdups (xs @ [x]) = remdups (filter (\<lambda>y. y \<noteq> x) xs) @ [x]"
  by (induction xs) auto

text \<open>The elements of a list in the order of their first occurrence.\<close>

definition first_occurrences :: "'a list \<Rightarrow> 'a list" where
  "first_occurrences xs = rev (remdups (rev xs))"

lemma first_occurrences_simps [simp]:
  "first_occurrences [] = []"
  "first_occurrences (x # xs) = x # first_occurrences (filter (\<lambda>y. y \<noteq> x) xs)"
  by (simp_all add: first_occurrences_def remdups_snoc rev_filter)

lemma distinct_first_occurrences [simp]: "distinct (first_occurrences xs)"
  and set_first_occurrences [simp]: "set (first_occurrences xs) = set xs"
  by (simp_all add: first_occurrences_def)

lemma select_loop_exact:
  assumes "length targets < k"
  shows "select_loop L k seen targets xs =
    take k (targets @ first_occurrences (filter (\<lambda>c. c \<notin> set L \<and> c \<notin> set seen) xs))"
  using assms
proof (induction xs arbitrary: seen targets)
  case (Cons x xs)
  show ?case
  proof (cases "x \<notin> set L \<and> x \<notin> set seen")
    case True
    then have "filter (\<lambda>y. y \<noteq> x) (filter (\<lambda>c. c \<notin> set L \<and> c \<notin> set seen) xs) =
        filter (\<lambda>c. c \<notin> set L \<and> c \<notin> set (hs_insert x seen)) xs"
      by (auto simp: hs_insert_def intro: filter_cong)
    with True Cons show ?thesis
      by (auto simp: Let_def take_Cons')
  next
    case False
    then have "filter (\<lambda>c. c \<notin> set L \<and> c \<notin> set (if x \<in> set L then seen else hs_insert x seen)) xs =
        filter (\<lambda>c. c \<notin> set L \<and> c \<notin> set seen) xs"
      by (auto simp: hs_insert_def intro: filter_cong)
    with False Cons show ?thesis
      by (auto simp: Let_def)
  qed
qed simp

lemma select_loop_zero: "select_loop L 0 [] [] xs = filter (\<lambda>c. c \<notin> set L) (take 1 xs)"
  by (cases xs) (auto simp: Let_def)

lemma select_targets_fresh:
  "distinct (select_replication_targets L xs ys k)"
  "set (select_replication_targets L xs ys k) \<subseteq> set xs \<union> set ys - set L"
proof -
  have "distinct (select_replication_targets L xs ys k) \<and>
      set (select_replication_targets L xs ys k) \<subseteq> set xs \<union> set ys - set L"
  proof (cases "k = 0")
    case True
    have "set (take 1 (xs @ ys)) \<subseteq> set xs \<union> set ys"
      using set_take_subset [of 1 "xs @ ys"] by simp
    moreover have "distinct (take 1 (xs @ ys))"
      by (cases "xs @ ys") simp_all
    ultimately show ?thesis
      using True by (auto simp: select_replication_targets_def select_loop_zero)
  next
    case False
    then show ?thesis
      by (auto simp: select_replication_targets_def select_loop_exact intro: distinct_take dest: in_set_takeD)
  qed
  then show "distinct (select_replication_targets L xs ys k)"
    "set (select_replication_targets L xs ys k) \<subseteq> set xs \<union> set ys - set L" by simp_all
qed

text \<open>A scan pulls what it should. With a positive limit the targets are the announced and catalogued
  items the node does not hold, gossip first, each once and in the order they were first heard of,
  up to the limit; a limit of zero does not stop the first of them from being pulled.\<close>

theorem replication_targets_exact:
  "select_replication_targets local_cids gossip_cids catalog max_items =
     take (max 1 max_items) (first_occurrences
       (if max_items = 0 then filter (\<lambda>c. c \<notin> set local_cids) (take 1 (gossip_cids @ catalog))
        else filter (\<lambda>c. c \<notin> set local_cids) (gossip_cids @ catalog)))"
proof (cases "max_items = 0")
  case True
  then show ?thesis
    by (cases "gossip_cids @ catalog") (simp_all add: select_replication_targets_def select_loop_zero)
next
  case False
  then show ?thesis
    by (simp add: select_replication_targets_def select_loop_exact max_def)
qed

section \<open>What a transfer accepts\<close>

lemma first_ok_Some:
  "first_ok f j ps = Some x \<Longrightarrow> \<exists>i < length ps. f (j + i) (ps ! i) = Inr x"
proof (induction f j ps rule: first_ok.induct)
  case (2 f j p ps)
  then show ?case
    by (cases "f j p") (fastforce intro: exI [where x = "Suc _"], auto)
qed simp

lemma fetch_fragment_Inr [simp]: "fetch_fragment r = Inr d \<longleftrightarrow> r = Answered (Inr d)"
  by (auto simp: fetch_fragment_def split: outcome.splits sum.splits)

lemma fetch_manifest_Inr [simp]: "fetch_manifest r = Inr d \<longleftrightarrow> r = Answered (Inr d)"
  by (auto simp: fetch_manifest_def split: outcome.splits sum.splits)

abbreviation total_bytes :: "(string \<times> bytes) list \<Rightarrow> nat" where
  "total_bytes fs \<equiv> length (concat (map snd fs))"

lemma within_cap:
  assumes "length (data :: bytes) \<le> MAX_INBOUND_FRAGMENT_SIZE"
    and "\<not> sat_add n (word_of_nat (length data)) > MAX_INBOUND_CONTENT_SIZE"
  shows "unat (sat_add n (word_of_nat (length data) :: u64)) = unat n + length data"
proof -
  have "unat (word_of_nat (length data) :: u64) = length data"
    using assms(1) by (simp add: unat_of_nat MAX_INBOUND_FRAGMENT_SIZE_def)
  moreover have "unat (sat_add n (word_of_nat (length data) :: u64)) \<le> 104857600"
    using assms(2) by (simp add: not_less word_le_nat_alt MAX_INBOUND_CONTENT_SIZE_def)
  ultimately show ?thesis
    by (simp add: unat_sat_add min_def split: if_splits)
qed

lemma fetch_fragments_sound:
  assumes "fetch_fragments T ps i hs n = Inr fs" "n \<le> MAX_INBOUND_CONTENT_SIZE"
  shows "map fst fs = hs \<and> unat n + total_bytes fs \<le> 104857600 \<and>
    (\<forall>(h, d) \<in> set fs. length d \<le> MAX_INBOUND_FRAGMENT_SIZE \<and>
       (\<exists>i j. j < length ps \<and> tf_fragment T i j (ps ! j) h = Answered (Inr d)))"
  using assms
proof (induction T ps i hs n arbitrary: fs rule: fetch_fragments.induct)
  case (1 T ps i n)
  then show ?case by (simp add: word_le_nat_alt MAX_INBOUND_CONTENT_SIZE_def)
next
  case (2 T ps i h hs n)
  from "2.prems" obtain d fs' where d: "first_ok (\<lambda>j p. fetch_fragment (tf_fragment T i j p h)) 0 ps = Some d"
      "length d \<le> MAX_INBOUND_FRAGMENT_SIZE"
      "\<not> sat_add n (word_of_nat (length d)) > MAX_INBOUND_CONTENT_SIZE"
      "fetch_fragments T ps (i + 1) hs (sat_add n (word_of_nat (length d))) = Inr fs'" "fs = (h, d) # fs'"
    by (auto simp: Let_def split: option.splits if_splits sum.splits)
  moreover from first_ok_Some [OF d(1)] obtain j where "j < length ps" "tf_fragment T i j (ps ! j) h = Answered (Inr d)"
    by auto
  ultimately show ?case
    using "2.IH" [OF d(1) _ refl d(3), of fs'] within_cap [OF d(2,3)] by (auto simp: not_less)
qed

lemma replicate_cases:
  assumes "replicate_content P T cid = Inr (m, fs)"
  obtains ps where "find_providers (tf_providers T) = Inr ps"
    "first_ok (\<lambda>j p. fetch_manifest (tf_manifest T j p)) 0 ps = Some m"
    "is_blake3_hex_cid cid \<Longrightarrow> mr_content_hash m = cid" "mr_total_size m \<le> MAX_INBOUND_CONTENT_SIZE"
    "fetch_fragments T ps 0 (mr_fragment_hashes m) 0 = Inr fs"
    "is_blake3_hex_cid cid \<Longrightarrow> hex_bytes (blake3 P (concat (map snd fs))) = cid"
  using assms by (auto simp: replicate_content_def not_less split: sum.splits if_splits option.splits)


text \<open>Nothing unverified is accepted. What a transfer of content with a hex BLAKE3 CID returns comes
  with the manifest of that CID and hashes to it as a whole; in every case its fragments are those the
  manifest lists, in that order, each a provider's answer of at most 4 MB, and 100 MB together.\<close>

lemma replicated_content_verified:
  assumes "replicate_content P T cid = Inr (m, fs)"
  shows "map fst fs = mr_fragment_hashes m \<and> length (concat (map snd fs)) \<le> 104857600 \<and>
    (\<forall>(h, d) \<in> set fs. length d \<le> 4194304 \<and> (\<exists>i j p. tf_fragment T i j p h = Answered (Inr d))) \<and>
    (is_blake3_hex_cid cid \<longrightarrow>
       mr_content_hash m = cid \<and> hex_bytes (blake3 P (concat (map snd fs))) = cid)"
proof -
  from assms show ?thesis
  proof (rule replicate_cases)
    fix ps
    assume "fetch_fragments T ps 0 (mr_fragment_hashes m) 0 = Inr fs"
      and "is_blake3_hex_cid cid \<Longrightarrow> mr_content_hash m = cid"
        "is_blake3_hex_cid cid \<Longrightarrow> hex_bytes (blake3 P (concat (map snd fs))) = cid"
    with fetch_fragments_sound [OF this(1)] show ?thesis
      by (fastforce simp: MAX_INBOUND_FRAGMENT_SIZE_def)
  qed
qed

lemma first_ok_agreed:
  assumes "\<And>j p x. f j p = Inr x \<Longrightarrow> x = y" "\<exists>i < length ps. \<exists>x. f (j + i) (ps ! i) = Inr x"
  shows "first_ok f j ps = Some y"
proof -
  have "first_ok f j ps \<noteq> None"
    using assms(2)
  proof (induction f j ps rule: first_ok.induct)
    case (2 f j p ps)
    then obtain i x where i: "i < length (p # ps)" "f (j + i) ((p # ps) ! i) = Inr x" by blast
    show ?case
    proof (cases i)
      case 0
      with i show ?thesis by simp
    next
      case (Suc i')
      with i have "\<exists>i < length ps. \<exists>x. f (j + 1 + i) (ps ! i) = Inr x"
        by (intro exI [where x = i']) auto
      with "2.IH" show ?thesis by (auto split: sum.splits)
    qed
  qed simp
  then show ?thesis
    using first_ok_Some assms(1) by fast
qed

lemma fetch_fragments_complete:
  assumes "length datas = length hs" "unat n + length (concat datas) \<le> 104857600"
    and "\<forall>d \<in> set datas. length d \<le> MAX_INBOUND_FRAGMENT_SIZE"
    and "\<And>k j p d. k < length hs \<Longrightarrow> tf_fragment T (i + k) j p (hs ! k) = Answered (Inr d) \<Longrightarrow> d = datas ! k"
    and "\<And>k. k < length hs \<Longrightarrow> \<exists>j < length ps. \<exists>d. tf_fragment T (i + k) j (ps ! j) (hs ! k) = Answered (Inr d)"
  shows "fetch_fragments T ps i hs n = Inr (zip hs datas)"
  using assms
proof (induction hs arbitrary: datas i n)
  case (Cons h hs)
  then obtain d ds where datas: "datas = d # ds" by (cases datas) auto
  have "first_ok (\<lambda>j p. fetch_fragment (tf_fragment T i j p h)) 0 ps = Some d"
    using Cons.prems(4,5) [of 0] datas by (intro first_ok_agreed) auto
  moreover have "\<not> sat_add n (word_of_nat (length d)) > MAX_INBOUND_CONTENT_SIZE"
    using Cons.prems(2) datas
    by (simp add: not_less word_le_nat_alt unat_sat_add MAX_INBOUND_CONTENT_SIZE_def unat_of_nat take_bit_eq_mod)
  moreover from this have "unat (sat_add n (word_of_nat (length d))) = unat n + length d"
    using Cons.prems(3) datas by (intro within_cap) auto
  then have "fetch_fragments T ps (i + 1) hs (sat_add n (word_of_nat (length d))) = Inr (zip hs ds)"
    using Cons.prems datas Cons.prems(4) [of "Suc _"] Cons.prems(5) [of "Suc _"] by (intro Cons.IH) auto
  ultimately show ?case
    using Cons.prems(3) datas by (simp add: not_less Let_def)
qed simp

text \<open>One honest provider is enough. If whoever answers at all answers with the true manifest and the
  true fragments, and every request is answered by at least one of the providers found, then content
  within the size limits whose CID is its hash is transferred whole, however many other providers fail.\<close>

theorem honest_provider_suffices:
  assumes "find_providers (tf_providers T) = Inr ps" 
    and "\<And>j p m'. tf_manifest T j p = Answered (Inr m') \<Longrightarrow> m' = m"
    and "\<exists>j < length ps. \<exists>m'. tf_manifest T j (ps ! j) = Answered (Inr m')"
    and "mr_content_hash m = cid" "mr_total_size m \<le> MAX_INBOUND_CONTENT_SIZE"
    and "length datas = length (mr_fragment_hashes m)" "length (concat datas) \<le> 104857600"
    and "\<forall>d \<in> set datas. length d \<le> MAX_INBOUND_FRAGMENT_SIZE"
    and "\<And>i j p d. i < length datas \<Longrightarrow> tf_fragment T i j p (mr_fragment_hashes m ! i) = Answered (Inr d) \<Longrightarrow> d = datas ! i"
    and "\<And>i. i < length datas \<Longrightarrow>
      \<exists>j < length ps. \<exists>d. tf_fragment T i j (ps ! j) (mr_fragment_hashes m ! i) = Answered (Inr d)"
    and "hex_bytes (blake3 P (concat datas)) = cid"
  shows "replicate_content P T cid = Inr (m, zip (mr_fragment_hashes m) datas)"
proof -
  have "first_ok (\<lambda>j p. fetch_manifest (tf_manifest T j p)) 0 ps = Some m"
    using assms(2,3) by (intro first_ok_agreed) auto
  moreover have "fetch_fragments T ps 0 (mr_fragment_hashes m) 0 = Inr (zip (mr_fragment_hashes m) datas)"
    using assms(6-10) by (intro fetch_fragments_complete) auto
  ultimately show ?thesis
    using assms(1,3-6,11) by (auto simp: replicate_content_def)
qed

section \<open>What a scan leaves in the store\<close>

text \<open>The bytes on disk under the path of a fragment.\<close>

definition stored_bytes :: "storage \<Rightarrow> string \<Rightarrow> bytes option" where
  "stored_bytes st h =
     (case fragment_path (sm_data_dir st) h of Inl _ \<Rightarrow> None | Inr p \<Rightarrow> hm_get (sm_disk st) p)"

text \<open>The fragments \<open>st\<close> lists are those of \<open>st'\<close>, with the same bytes.\<close>

definition extends :: "storage \<Rightarrow> storage \<Rightarrow> bool" where
  "extends st st' \<longleftrightarrow> sm_data_dir st' = sm_data_dir st \<and>
     (\<forall>h. has_fragment st h \<longrightarrow> has_fragment st' h \<and> stored_bytes st' h = stored_bytes st h)"

lemma extends_refl [simp]: "extends st st"
  and extends_trans: "extends st st' \<Longrightarrow> extends st' st'' \<Longrightarrow> extends st st''"
  by (simp_all add: extends_def)

lemma extends_listed: "extends st st' \<Longrightarrow> has_fragment st h \<Longrightarrow> has_fragment st' h"
  and extends_bytes: "extends st st' \<Longrightarrow> has_fragment st h \<Longrightarrow> stored_bytes st' h = stored_bytes st h"
  by (simp_all add: extends_def)

lemma stored_bytes_cong:
  assumes "sm_data_dir st' = sm_data_dir st"
    and "\<And>p. fragment_path (sm_data_dir st) h = Inr p \<Longrightarrow> hm_get (sm_disk st') p = hm_get (sm_disk st) p"
  shows "stored_bytes st' h = stored_bytes st h"
  using assms by (simp add: stored_bytes_def split: sum.splits)

lemma save_keeps_fragments:
  "has_fragment (snd (save_or_fail io J st)) h = has_fragment st h"
  "stored_bytes (snd (save_or_fail io J st)) h = stored_bytes st h"
  "sm_content (snd (save_or_fail io J st)) = sm_content st"
  "sm_data_dir (snd (save_or_fail io J st)) = sm_data_dir st"
proof -
  obtain d where "snd (save_or_fail io J st) = st\<lparr>sm_disk := d\<rparr>"
      "\<And>p. p \<noteq> metadata_path st \<Longrightarrow> hm_get d p = hm_get (sm_disk st) p"
    using save_or_fail_disk by blast
  then show "has_fragment (snd (save_or_fail io J st)) h = has_fragment st h"
    "stored_bytes (snd (save_or_fail io J st)) h = stored_bytes st h"
    "sm_content (snd (save_or_fail io J st)) = sm_content st"
    "sm_data_dir (snd (save_or_fail io J st)) = sm_data_dir st"
    by (auto simp: has_fragment_def intro!: stored_bytes_cong dest: fragment_path_not_index)
qed

lemma save_extends:
  "extends st (snd (save_or_fail io J st))" "extends (snd (save_or_fail io J st)) st"
  by (simp_all add: extends_def save_keeps_fragments)

lemma write_keeps_others:
  assumes "fragment_path (sm_data_dir st) h = Inr p" "h' \<noteq> h"
  shows "stored_bytes (st\<lparr>sm_disk := snd (fs_write io p bs (sm_disk st))\<rparr>) h' = stored_bytes st h'"
  using assms by (intro stored_bytes_cong)
    (auto simp: fs_write_def split: option.splits dest: fragment_path_inj)

text \<open>Storing a fragment the node does not have: either it is listed with its bytes, or nothing is.\<close>

lemma write_extends:
  assumes "fragment_path (sm_data_dir st) h = Inr p" "\<not> has_fragment st h"
  shows "extends st (st\<lparr>sm_disk := snd (fs_write io p bs (sm_disk st))\<rparr>)"
proof -
  have "h' \<noteq> h" if "has_fragment st h'" for h'
    using that assms(2) by blast
  with write_keeps_others [OF assms(1)] show ?thesis
    by (simp add: extends_def) (simp add: has_fragment_def)
qed

lemma store_fragment_cases:
  assumes "store_fragment io J now h cid i data st = (r, st')"
    "fragment_path (sm_data_dir st) h = Inr p"
  obtains "st' = st" "r \<noteq> Inr ()"
  | "st' = st\<lparr>sm_disk := snd (fs_write io p data (sm_disk st))\<rparr>" "r \<noteq> Inr ()"
  | d where "fs_write io p data (sm_disk st) = (Inr (), d)"
    "st' = snd (save_or_fail io J (record_fragment now h cid i (word_of_nat (length data)) (st\<lparr>sm_disk := d\<rparr>)))"
proof (cases "sm_usage st + word_of_nat (length data) > sm_max_capacity st \<or> create_dir_all io (butlast p) \<noteq> Inr ()")
  case True
  with assms have "st' = st" "r \<noteq> Inr ()"
    by (auto simp: store_fragment_def Let_def split: sum.splits if_splits)
  then show thesis by (rule that(1))
next
  case False
  obtain r' d where w: "fs_write io p data (sm_disk st) = (r', d)" by force
  show thesis
  proof (cases r')
    case (Inl e)
    with w False assms have "st' = st\<lparr>sm_disk := d\<rparr>" "r \<noteq> Inr ()"
      by (auto simp: store_fragment_def)
    with w show thesis by (intro that(2)) simp_all
  next
    case (Inr u)
    with w False assms show thesis
      by (intro that(3)) (auto simp: store_fragment_def dest: arg_cong [where f = snd])
  qed
qed

text \<open>Storing a fragment the node does not have: either it is listed with its bytes, or nothing is.\<close>

lemma store_new_fragment:
  assumes "store_fragment io J now h cid i data st = (r, st')" "\<not> has_fragment st h"
  shows "sm_content st' = sm_content st \<and> extends st st' \<and>
    (\<forall>h'. has_fragment st' h' \<longrightarrow> has_fragment st h' \<or> h' = h \<and> stored_bytes st' h = Some data) \<and>
    (r = Inr () \<longrightarrow> has_fragment st' h)"
proof (cases "fragment_path (sm_data_dir st) h")
  case (Inl e)
  with assms(1) show ?thesis
    by (auto simp: store_fragment_def Let_def split: if_splits)
next
  case (Inr p)
  from assms(1) Inr show ?thesis
  proof (cases rule: store_fragment_cases)
    case 2
    then show ?thesis
      using write_extends [OF Inr assms(2)] by (simp add: has_fragment_def)
  next
    case (3 d)
    let ?st = "st\<lparr>sm_disk := d\<rparr>"
    have "has_fragment st' h' = (h' = h \<or> has_fragment st h')" for h'
      by (simp add: 3 save_keeps_fragments) (simp add: record_fragment_def has_fragment_def)
    moreover have "stored_bytes st' h' = stored_bytes ?st h'" for h'
      by (simp add: 3 save_keeps_fragments) (simp add: record_fragment_def stored_bytes_def split: sum.splits)
    moreover have "stored_bytes ?st h = Some data"
      using 3(1) Inr by (auto simp: stored_bytes_def fs_write_def split: option.splits)
    moreover have "sm_content st' = sm_content st" "sm_data_dir st' = sm_data_dir st"
      by (simp_all add: 3 save_keeps_fragments record_fragment_def)
    moreover have "extends st ?st"
      using write_extends [OF Inr assms(2), of io data] 3(1) by simp
    ultimately show ?thesis
      by (auto simp: extends_def)
  qed simp_all
qed

text \<open>
  Every listed fragment is on disk, with bytes of \<open>D\<close> that hash to its name.
\<close>

definition genuine :: "prims \<Rightarrow> bytes set \<Rightarrow> storage \<Rightarrow> bool" where
  "genuine P D st \<longleftrightarrow>
     (\<forall>h. has_fragment st h \<longrightarrow> (\<exists>d \<in> D. stored_bytes st h = Some d \<and> hex_bytes (blake3 P d) = h))"

lemma store_fragments_result:
  assumes "store_fragments ios J now cid i fs n st = ((ok, n'), st')"
    and "genuine P D st" "\<forall>(h, d) \<in> set fs. d \<in> D \<and> hex_bytes (blake3 P d) = h"
  shows "sm_content st' = sm_content st \<and> extends st st' \<and> genuine P D st' \<and>
    (ok \<longrightarrow> (\<forall>h \<in> fst ` set fs. has_fragment st' h))"
  using assms
proof (induction ios J now cid i fs n st rule: store_fragments.induct)
  case (2 ios J now cid i h d fs n st)
  show ?case
  proof (cases "has_fragment st h")
    case True
    with 2 show ?thesis by (auto simp: extends_def)
  next
    case False
    obtain r st1 where r: "store_fragment (ios i) J now h cid (word_of_nat i) d st = (r, st1)" by force
    note new = store_new_fragment [OF r False]
    have g: "genuine P D st1"
      unfolding genuine_def
    proof (intro allI impI)
      fix h' assume "has_fragment st1 h'"
      with new consider "has_fragment st h'" | "h' = h" "stored_bytes st1 h = Some d" by blast
      then show "\<exists>d \<in> D. stored_bytes st1 h' = Some d \<and> hex_bytes (blake3 P d) = h'"
        using "2.prems"(2,3) new by cases (auto simp: genuine_def extends_def)
    qed
    show ?thesis
    proof (cases r)
      case (Inl e)
      with "2.prems"(1) r False new g show ?thesis by auto
    next
      case (Inr u)
      have "sm_content st' = sm_content st1 \<and> extends st1 st' \<and> genuine P D st' \<and>
          (ok \<longrightarrow> (\<forall>h \<in> fst ` set fs. has_fragment st' h))"
        using "2.prems"(1,3) r False Inr g by (intro "2.IH"(2) [OF False r [symmetric] Inr]) auto
      with new Inr show ?thesis
        by (auto simp: extends_def)
    qed
  qed
qed simp

text \<open>
  Content that can be read back: its fragments are listed, and if its CID is a hex BLAKE3 digest the
  bytes on disk, put together, hash to it.
\<close>

definition readable :: "prims \<Rightarrow> storage \<Rightarrow> string \<Rightarrow> stored_content \<Rightarrow> bool" where
  "readable P st cid c \<longleftrightarrow>
     (\<forall>h \<in> set (sc_fragments c). has_fragment st h) \<and>
     (is_blake3_hex_cid cid \<longrightarrow>
        (\<exists>datas. map (stored_bytes st) (sc_fragments c) = map Some datas \<and>
           hex_bytes (blake3 P (concat datas)) = cid))"

lemma readable_extends: "readable P st cid c \<Longrightarrow> extends st st' \<Longrightarrow> readable P st' cid c"
  unfolding readable_def extends_def by (metis (no_types, lifting) map_eq_conv)

lemma readable_fragments: "sc_fragments c' = sc_fragments c \<Longrightarrow> readable P st cid c' = readable P st cid c"
  by (simp add: readable_def)

text \<open>A record and a pin leave the fragments as they are.\<close>

lemma store_content_result:
  assumes "store_content io J c st = (r, st')"
  shows "sm_content st' = hm_insert (sc_cid c) c (sm_content st) \<and> extends st st' \<and> extends st' st"
proof -
  have "st' = snd (store_content io J c st)"
    by (simp add: assms)
  then show ?thesis
    by (auto simp: store_content_def save_keeps_fragments extends_def)
       (auto simp: count_content_def has_fragment_def stored_bytes_def split: sum.splits)
qed

lemma set_pinned_result:
  assumes "hm_get (sm_content st) cid = Some c"
  shows "\<exists>st'. set_pinned True cid st = (Inr (), st') \<and> extends st st' \<and> extends st' st \<and>
    sm_content st' = hm_insert cid (c\<lparr>sc_pinned := True\<rparr>) (sm_content st)"
  using assms
  by (auto simp: set_pinned_def Let_def extends_def has_fragment_def stored_bytes_def fold_modify_get
      split: sum.splits)

lemma pin_result:
  assumes "hm_get (sm_content st) cid = Some c"
  shows "sm_content (snd (NodeStorage.pin io J cid st)) = hm_insert cid (c\<lparr>sc_pinned := True\<rparr>) (sm_content st) \<and>
    extends st (snd (NodeStorage.pin io J cid st)) \<and> extends (snd (NodeStorage.pin io J cid st)) st"
proof -
  obtain st1 where st1: "set_pinned True cid st = (Inr (), st1)" "extends st st1" "extends st1 st"
      "sm_content st1 = hm_insert cid (c\<lparr>sc_pinned := True\<rparr>) (sm_content st)"
    using set_pinned_result [OF assms] by (elim exE conjE)
  have "snd (NodeStorage.pin io J cid st) = snd (save_or_fail io J st1)"
    by (simp add: NodeStorage.pin_def st1(1))
  moreover have "extends st (snd (save_or_fail io J st1))" "extends (snd (save_or_fail io J st1)) st"
    using st1(2,3) save_extends extends_trans by fast+
  ultimately show ?thesis
    by (simp only: save_keeps_fragments(3) st1(4))
qed

lemma genuine_same:
  assumes "genuine P D st" "extends st st'" "extends st' st"
  shows "genuine P D st'"
  unfolding genuine_def
proof (intro allI impI)
  fix h assume "has_fragment st' h"
  with assms(2,3) have "has_fragment st h" "stored_bytes st' h = stored_bytes st h"
    by (auto intro: extends_listed extends_bytes)
  with assms(1) show "\<exists>d \<in> D. stored_bytes st' h = Some d \<and> hex_bytes (blake3 P d) = h"
    by (simp add: genuine_def)
qed

section \<open>Storing a replica\<close>

lemma hex_digit_inj: "a < 16 \<Longrightarrow> b < 16 \<Longrightarrow> hex_digit a = hex_digit b \<Longrightarrow> a = b"
  by (auto simp: hex_digit_def char_of_eq_iff take_bit_eq_mod split: if_splits)

lemma hex_bytes_inj: "hex_bytes xs = hex_bytes ys \<Longrightarrow> xs = ys"
proof (induction xs arbitrary: ys)
  case Nil
  then show ?case by (cases ys) (simp_all add: hex_bytes_def)
next
  case (Cons x xs)
  then obtain y ys' where ys: "ys = y # ys'" by (cases ys) (simp_all add: hex_bytes_def)
  with Cons.prems have "hex_digit (unat x div 16) = hex_digit (unat y div 16)"
      "hex_digit (unat x mod 16) = hex_digit (unat y mod 16)" "hex_bytes xs = hex_bytes ys'"
    by (simp_all add: hex_bytes_def)
  moreover have "unat x < 2 ^ LENGTH(8)" "unat y < 2 ^ LENGTH(8)"
    by (rule unsigned_less)+
  then have "unat x div 16 < 16" "unat y div 16 < 16"
    by (simp_all add: less_mult_imp_div_less)
  ultimately have "unat x div 16 = unat y div 16" "unat x mod 16 = unat y mod 16"
    using hex_digit_inj by simp_all
  then have "unat x = unat y"
    by (metis div_mult_mod_eq)
  with ys Cons.IH \<open>hex_bytes xs = hex_bytes ys'\<close> show ?case by (simp add: word_unat_eq_iff)
qed

text \<open>What the event loop guarantees of the answers it passes on: bytes asked for by a
  hash have it (NodeP2pSafety).\<close>

definition answers_verified :: "prims \<Rightarrow> bytes set \<Rightarrow> scan_env \<Rightarrow> bool" where
  "answers_verified P D S \<longleftrightarrow>
     (\<forall>cid i j p h d. tf_fragment (se_transfer S cid) i j p h = Answered (Inr d) \<longrightarrow>
        d \<in> D \<and> hex_bytes (blake3 P d) = h)"

lemma fetched_readable:
  assumes "genuine P D st" "inj_on (blake3 P) D" "map fst fs = sc_fragments c"
    and "\<forall>(h, d) \<in> set fs. d \<in> D \<and> hex_bytes (blake3 P d) = h"
    and "\<forall>h \<in> fst ` set fs. has_fragment st h"
    and "is_blake3_hex_cid cid \<Longrightarrow> hex_bytes (blake3 P (concat (map snd fs))) = cid"
  shows "readable P st cid c"
proof -
  have "stored_bytes st h = Some d" if hd: "(h, d) \<in> set fs" for h d
  proof -
    from hd assms(1,5) obtain d' where d': "d' \<in> D" "stored_bytes st h = Some d'" "hex_bytes (blake3 P d') = h"
      unfolding genuine_def by force
    with hd assms(4) have "blake3 P d' = blake3 P d" "d \<in> D"
      by (auto dest: hex_bytes_inj)
    with assms(2) d'(1,2) show ?thesis
      by (auto dest: inj_onD)
  qed
  then have "map (stored_bytes st) (sc_fragments c) = map Some (map snd fs)"
    unfolding assms(3) [symmetric] by auto
  moreover have "\<forall>h \<in> set (sc_fragments c). has_fragment st h"
    using assms(5) by (simp add: assms(3) [symmetric])
  ultimately show ?thesis
    unfolding readable_def using assms(6) by (intro conjI impI exI [where x = "map snd fs"]) simp_all
qed

text \<open>
  What collecting the result for one CID does to the store, and to the announcements: either nothing is
  announced, or the CID is, with what its record says, and the record is pinned.
\<close>

definition collected :: "prims \<Rightarrow> bytes set \<Rightarrow> string \<Rightarrow> storage \<Rightarrow> storage \<Rightarrow> bool" where
  "collected P D cid st st' \<longleftrightarrow>
     extends st st' \<and> genuine P D st' \<and>
     (\<forall>c. hm_get (sm_content st') cid = Some c \<longrightarrow> hm_get (sm_content st) cid = Some c \<or> readable P st' cid c)"

definition announcement :: "string \<times> stored_content \<Rightarrow> p2p_command" where
  "announcement = (\<lambda>(cid, c). AnnounceContent cid (sc_fragments c) (sc_total_size c) (sc_mime_type c))"

definition announced :: "string \<Rightarrow> scan_world \<Rightarrow> scan_world \<Rightarrow> bool" where
  "announced cid w w' \<longleftrightarrow>
     (\<forall>k. k \<noteq> cid \<longrightarrow> hm_get (sm_content (sw_storage w')) k = hm_get (sm_content (sw_storage w)) k) \<and>
     (sw_sent w' = sw_sent w \<and> sw_cycle_replicated w' = sw_cycle_replicated w \<or>
      (\<exists>c. sw_sent w' = sw_sent w @ [announcement (cid, c)] \<and>
         sw_cycle_replicated w' = sw_cycle_replicated w + 1 \<and>
         hm_get (sm_content (sw_storage w')) cid = Some c \<and> sc_pinned c))"

lemma store_fragments_content:
  "store_fragments ios J now cid i fs n st = (r, st') \<Longrightarrow> sm_content st' = sm_content st"
proof (induction ios J now cid i fs n st rule: store_fragments.induct)
  case (2 ios J now cid i h d fs n st)
  then show ?case
    by (fastforce dest: store_new_fragment split: if_splits prod.splits sum.splits)
qed simp

lemma replica_content_simps [simp]:
  "sc_cid (replica_content now cid m) = cid"
  "sc_fragments (replica_content now cid m) = mr_fragment_hashes m"
  "sc_total_size (replica_content now cid m) = mr_total_size m"
  "sc_mime_type (replica_content now cid m) = mr_mime_type m"
  by (simp_all add: replica_content_def)

lemma store_replica_eq:
  assumes "store_fragments (se_io S cid) (se_index S) (se_unix S) cid 0 fs 0 (sw_storage w) = ((ok, n), st)"
    and "store_content (se_io S cid (length fs)) (se_index S) (replica_content (se_unix S) cid m) st = (r, st1)"
  shows "store_replica S cid (m, fs) w =
    (if \<not> ok then count_failure (w\<lparr>sw_storage := st\<rparr>)
     else if r \<noteq> Inr () then w\<lparr>sw_storage := st1\<rparr>
     else w\<lparr>sw_storage := snd (NodeStorage.pin (se_io S cid (length fs + 1)) (se_index S) cid st1),
          sw_sent := sw_sent w @
            [AnnounceContent cid (mr_fragment_hashes m) (mr_total_size m) (mr_mime_type m)],
          sw_cycle_replicated := sw_cycle_replicated w + 1,
          sw_cycle_bytes := sw_cycle_bytes w + n\<rparr>)"
  using assms by (cases ok; cases r) (simp_all add: store_replica_def Let_def)

lemma collect_result_announced: "announced cid w (collect_result P S cid w)"
proof (cases "replicate_content P (se_transfer S cid) cid")
  case (Inl e)
  then show ?thesis
    by (simp add: collect_result_def count_failure_def announced_def)
next
  case (Inr mf)
  obtain m fs where mf: "mf = (m, fs)" by force
  obtain ok n st where sf: "store_fragments (se_io S cid) (se_index S) (se_unix S) cid 0 fs 0 (sw_storage w) = ((ok, n), st)"
    by (metis prod.exhaust)
  let ?c = "replica_content (se_unix S) cid m"
  obtain r st1 where sc: "store_content (se_io S cid (length fs)) (se_index S) ?c st = (r, st1)" by force
  note content = store_fragments_content [OF sf] store_content_result [OF sc]
  then have c1: "hm_get (sm_content st1) cid = Some ?c"
    by simp
  show ?thesis
    using content pin_result [OF c1, of "se_io S cid (length fs + 1)" "se_index S"]
    by (simp add: collect_result_def Inr mf store_replica_eq [OF sf sc] count_failure_def announced_def
          announcement_def)
qed

lemma collect_result_collected:
  assumes "genuine P D (sw_storage w)" "inj_on (blake3 P) D" "answers_verified P D S"
  shows "collected P D cid (sw_storage w) (sw_storage (collect_result P S cid w))"
proof (cases "replicate_content P (se_transfer S cid) cid")
  case (Inl e)
  with assms(1) show ?thesis
    by (simp add: collect_result_def count_failure_def collected_def)
next
  case (Inr mf)
  obtain m fs where mf: "mf = (m, fs)" by force
  note sound = replicated_content_verified [OF Inr [unfolded mf]]
  have fs: "\<forall>(h, d) \<in> set fs. d \<in> D \<and> hex_bytes (blake3 P d) = h"
    using sound assms(3) by (fastforce simp: answers_verified_def)
  obtain ok n st where sf: "store_fragments (se_io S cid) (se_index S) (se_unix S) cid 0 fs 0 (sw_storage w) = ((ok, n), st)"
    by (metis prod.exhaust)
  note stored = store_fragments_result [OF sf assms(1) fs]
  let ?c = "replica_content (se_unix S) cid m"
  obtain r st1 where sc: "store_content (se_io S cid (length fs)) (se_index S) ?c st = (r, st1)" by force
  note rec = store_content_result [OF sc]
  have "readable P st cid ?c" if "ok"
    using stored that sound fs assms(2)
    by (intro fetched_readable [where D = D and fs = fs]) auto
  then have rd1: "readable P st1 cid ?c" if "ok"
    using that rec readable_extends by blast
  have ext1: "extends (sw_storage w) st1"
    using stored rec extends_trans by blast
  have gen1: "genuine P D st1"
    using genuine_same [of P D st st1] stored rec by simp
  let ?w = "collect_result P S cid w"
  have "?w = store_replica S cid (m, fs) w"
    by (simp add: collect_result_def Inr mf)
  note eq = this [unfolded store_replica_eq [OF sf sc]]
  consider "\<not> ok" | e where "ok" "r = Inl e" | u where "ok" "r = Inr u" by (cases r) auto
  then show ?thesis
  proof cases
    case 1
    then show ?thesis
      using stored by (simp add: eq store_replica_def sf count_failure_def collected_def)
  next
    case 2
    then show ?thesis
      using stored rec ext1 gen1 rd1
      by (simp add: eq collected_def)
  next
    case 3
    have "hm_get (sm_content st1) cid = Some ?c"
      using rec by (simp add: replica_content_def)
    note pinned = pin_result [OF this, of "se_io S cid (length fs + 1)" "se_index S"]
    let ?st = "snd (NodeStorage.pin (se_io S cid (length fs + 1)) (se_index S) cid st1)"
    have "extends (sw_storage w) ?st"
      using ext1 pinned extends_trans by blast
    moreover have "genuine P D ?st"
      using gen1 pinned genuine_same by blast
    moreover have "readable P ?st cid (?c\<lparr>sc_pinned := True\<rparr>)"
      using rd1 [OF 3(1)] pinned readable_extends by (subst readable_fragments [of _ ?c]) auto
    moreover have "sw_storage ?w = ?st"
      using 3 by (simp add: eq)
    ultimately show ?thesis
      using pinned rec unfolding collected_def by auto
  qed
qed

section \<open>Scans\<close>

lemma fold_collect_announced:
  fixes P :: prims and S :: scan_env and w :: scan_world
  assumes "distinct cids"
  defines "w' \<equiv> fold (collect_result P S) cids w"
  shows "(\<forall>k. k \<notin> set cids \<longrightarrow> hm_get (sm_content (sw_storage w')) k = hm_get (sm_content (sw_storage w)) k) \<and>
    (\<exists>anns. sw_sent w' = sw_sent w @ map announcement anns \<and>
       sw_cycle_replicated w' = sw_cycle_replicated w + word_of_nat (length anns) \<and>
       distinct (map fst anns) \<and> fst ` set anns \<subseteq> set cids \<and>
       (\<forall>(k, c) \<in> set anns. hm_get (sm_content (sw_storage w')) k = Some c \<and> sc_pinned c))"
  using assms(1) unfolding w'_def
proof (induction cids arbitrary: w)
  case Nil
  then show ?case by (auto intro!: exI [where x = "[]"])
next
  case (Cons cid cids)
  let ?w = "collect_result P S cid w"
  note one = collect_result_announced [of cid w P S]
  from Cons.IH [of ?w] Cons.prems obtain anns where anns:
      "\<forall>k. k \<notin> set cids \<longrightarrow> hm_get (sm_content (sw_storage (fold (collect_result P S) cids ?w))) k = hm_get (sm_content (sw_storage ?w)) k"
      "sw_sent (fold (collect_result P S) cids ?w) = sw_sent ?w @ map announcement anns"
      "sw_cycle_replicated (fold (collect_result P S) cids ?w) = sw_cycle_replicated ?w + word_of_nat (length anns)"
      "distinct (map fst anns)" "fst ` set anns \<subseteq> set cids"
      "\<forall>(k, c) \<in> set anns. hm_get (sm_content (sw_storage (fold (collect_result P S) cids ?w))) k = Some c \<and> sc_pinned c"
    by auto
  have "\<forall>k. k \<notin> set (cid # cids) \<longrightarrow>
      hm_get (sm_content (sw_storage (fold (collect_result P S) (cid # cids) w))) k = hm_get (sm_content (sw_storage w)) k"
    using anns(1) one by (auto simp: announced_def)
  moreover consider "sw_sent ?w = sw_sent w" "sw_cycle_replicated ?w = sw_cycle_replicated w"
    | c where "sw_sent ?w = sw_sent w @ [announcement (cid, c)]" "sw_cycle_replicated ?w = sw_cycle_replicated w + 1"
      "hm_get (sm_content (sw_storage ?w)) cid = Some c" "sc_pinned c"
    using one unfolding announced_def by blast
  then have "\<exists>anns. sw_sent (fold (collect_result P S) (cid # cids) w) = sw_sent w @ map announcement anns \<and>
       sw_cycle_replicated (fold (collect_result P S) (cid # cids) w) = sw_cycle_replicated w + word_of_nat (length anns) \<and>
       distinct (map fst anns) \<and> fst ` set anns \<subseteq> set (cid # cids) \<and>
       (\<forall>(k, c) \<in> set anns. hm_get (sm_content (sw_storage (fold (collect_result P S) (cid # cids) w))) k = Some c \<and> sc_pinned c)"
  proof cases
    case 1
    with anns show ?thesis by (intro exI [where x = anns]) auto
  next
    case (2 c)
    with anns Cons.prems show ?thesis by (intro exI [where x = "(cid, c) # anns"]) auto
  qed
  ultimately show ?case by blast
qed

lemma fold_collect_readable:
  fixes P :: prims and S :: scan_env and w :: scan_world and cids :: "string list"
  assumes "genuine P D (sw_storage w)" "inj_on (blake3 P) D" "answers_verified P D S"
  defines "w' \<equiv> fold (collect_result P S) cids w"
  shows "extends (sw_storage w) (sw_storage w') \<and> genuine P D (sw_storage w') \<and>
    (\<forall>k c. hm_get (sm_content (sw_storage w')) k = Some c \<longrightarrow>
       hm_get (sm_content (sw_storage w)) k = Some c \<or> readable P (sw_storage w') k c)"
  using assms(1) unfolding w'_def
proof (induction cids arbitrary: w)
  case (Cons cid cids)
  let ?w = "collect_result P S cid w" and ?w' = "fold (collect_result P S) cids (collect_result P S cid w)"
  note one = collect_result_collected [OF Cons.prems assms(2,3), of cid] collect_result_announced [of cid w P S]
  then have "extends (sw_storage ?w) (sw_storage ?w')" "genuine P D (sw_storage ?w')" 
      "\<forall>k c. hm_get (sm_content (sw_storage ?w')) k = Some c \<longrightarrow>
         hm_get (sm_content (sw_storage ?w)) k = Some c \<or> readable P (sw_storage ?w') k c"
    using Cons.IH [of ?w] by (auto simp: collected_def)
  moreover from this(1) one have "readable P (sw_storage ?w') k c"
    if "hm_get (sm_content (sw_storage ?w)) k = Some c" "hm_get (sm_content (sw_storage w)) k \<noteq> Some c" for k c
    using that by (cases "k = cid") (auto simp: collected_def announced_def intro: readable_extends)
  moreover have "extends (sw_storage w) (sw_storage ?w')"
    using one calculation(1) extends_trans by (auto simp: collected_def)
  ultimately show ?case by auto
qed simp

lemma scan_cases:
  assumes "scan_and_replicate P text cfg me peers S w = Returned w'"
  obtains "sw_storage w' = sw_storage w" "sw_sent w' = sw_sent w"
      "rp_stats (sw_repl w') = (rp_stats (sw_repl w))\<lparr>rt_last_cycle_replicated := 0,
         rt_last_scan_timestamp := Some (se_unix S), rt_scan_in_progress := False\<rparr>"
  | targets w1 w2 where "distinct targets" "set targets \<inter> sc_cid ` set (list_content (sw_storage w)) = {}"
      "sw_storage w1 = sw_storage w" "sw_sent w1 = sw_sent w" "sw_cycle_replicated w1 = 0"
      "w2 = fold (collect_result P S) targets w1" "w' = finish_scan (se_unix S) (tally w2)"
proof -
  let ?T = "\<lambda>w. select_replication_targets (map sc_cid (list_content (sw_storage w))) (map an_cid (sw_announcements w))
      (catalog_cids S peers) (rc_max_items_per_cycle cfg)"
  let ?l = "list_content (sw_storage w)"
  let ?mgr = "fold (register_holders text S) ?l (fold (register_local text S me) ?l (rp_manager (sw_repl w)))"
  let ?w1 = "(start_scan w)\<lparr>sw_repl := (sw_repl (start_scan w))\<lparr>rp_manager := ?mgr\<rparr>, sw_announcements := []\<rparr>"
  consider "w' = finish_scan (se_unix S) (start_scan w)" | "w' = finish_scan (se_unix S) ?w1"
    | "w' = finish_scan (se_unix S) (tally (fold (collect_result P S) (?T w) ?w1))"
    using assms by (auto simp: scan_and_replicate_def Let_def start_scan_def split: if_splits)
  then show thesis
  proof cases
    case 3
    have "distinct (?T w)" "set (?T w) \<inter> sc_cid ` set ?l = {}"
      using select_targets_fresh(1) select_targets_fresh(2) by fastforce+
    with 3 show thesis by (intro that(2)) (simp_all add: start_scan_def)
  qed (rule that(1); simp add: finish_scan_def start_scan_def)+
qed

lemma scan_returns:
  assumes "rc_max_concurrent_replications cfg > 0"
  shows "\<exists>w'. scan_and_replicate P text cfg me peers S w = Returned w'"
proof (cases "scan_and_replicate P text cfg me peers S w")
  case (Waiting w1)
  with assms show ?thesis
    by (auto simp: scan_and_replicate_def Let_def split: if_splits)
qed simp

lemma genuine_get:
  assumes "genuine P D st" "has_fragment st h" "\<And>p. io_read io p = None"
  shows "\<exists>d. stored_bytes st h = Some d \<and> fst (get_fragment io now h st) = Inr d"
proof -
  obtain d where "stored_bytes st h = Some d"
    using assms(1,2) unfolding genuine_def by blast
  with assms(2,3) show ?thesis
    by (auto simp: stored_bytes_def get_fragment_def has_fragment_def fs_read_def split: sum.splits)
qed

text \<open>C17. What a scan adds can be read back. In a store whose fragments are genuine, when the answers are
  those the event loop lets through and no two byte strings involved share a hash, every content item
  that is new after a scan has all its fragments, and reading them in order gives, for a hex BLAKE3
  CID, bytes that hash to it - whatever the file system did, and whatever peers answered; and what the
  store held before reads as before.\<close>

theorem replicas_readable:
  assumes "scan_and_replicate P text cfg me peers S w = Returned w'"
    and "genuine P D (sw_storage w)" "inj_on (blake3 P) D" "answers_verified P D S"
    and "\<And>p. io_read io p = None"
  shows "(\<forall>cid c. hm_get (sm_content (sw_storage w')) cid = Some c \<and> hm_get (sm_content (sw_storage w)) cid = None \<longrightarrow>
      (\<exists>datas. map (\<lambda>h. fst (get_fragment io now h (sw_storage w'))) (sc_fragments c) = map Inr datas \<and>
         (is_blake3_hex_cid cid \<longrightarrow> hex_bytes (blake3 P (concat datas)) = cid))) \<and>
    (\<forall>h. has_fragment (sw_storage w) h \<longrightarrow>
      fst (get_fragment io now h (sw_storage w')) = fst (get_fragment io now h (sw_storage w)))"
proof -
  let ?st = "sw_storage w" and ?st' = "sw_storage w'"
  have "extends ?st ?st' \<and> genuine P D ?st' \<and>
      (\<forall>k c. hm_get (sm_content ?st') k = Some c \<longrightarrow> hm_get (sm_content ?st) k = Some c \<or> readable P ?st' k c)"
    using assms(1)
  proof (cases rule: scan_cases)
    case 1
    then show ?thesis using assms(2) by simp
  next
    case (2 targets w1 w2)
    then show ?thesis
      using fold_collect_readable [of P D w1 S targets] assms(2-4) by (simp add: finish_scan_def tally_def)
  qed
  then have ext: "extends ?st ?st'" and gen: "genuine P D ?st'"
    and new: "\<And>k c. hm_get (sm_content ?st') k = Some c \<Longrightarrow> hm_get (sm_content ?st) k = None \<Longrightarrow> readable P ?st' k c"
    by force+
  note get = genuine_get [OF gen _ assms(5), of _ now]
  have "\<exists>datas. map (\<lambda>h. fst (get_fragment io now h ?st')) (sc_fragments c) = map Inr datas \<and>
      (is_blake3_hex_cid cid \<longrightarrow> hex_bytes (blake3 P (concat datas)) = cid)"
    if "readable P ?st' cid c" for cid c
  proof -
    let ?datas = "map (\<lambda>h. the (stored_bytes ?st' h)) (sc_fragments c)"
    have listed: "\<forall>h \<in> set (sc_fragments c). fst (get_fragment io now h ?st') = Inr (the (stored_bytes ?st' h))"
      using that get unfolding readable_def by force
    moreover have "hex_bytes (blake3 P (concat ?datas)) = cid" if "is_blake3_hex_cid cid"
    proof -
      obtain ds where ds: "map (stored_bytes ?st') (sc_fragments c) = map Some ds" "hex_bytes (blake3 P (concat ds)) = cid"
        using \<open>readable P ?st' cid c\<close> \<open>is_blake3_hex_cid cid\<close> unfolding readable_def by blast
      have "?datas = map the (map (stored_bytes ?st') (sc_fragments c))" by simp
      also have "\<dots> = ds" unfolding ds(1) by (simp add: comp_def)
      finally show ?thesis using ds(2) by simp
    qed
    ultimately show ?thesis by (intro exI [where x = ?datas]) simp
  qed
  moreover have "fst (get_fragment io now h ?st') = fst (get_fragment io now h ?st)" if "has_fragment ?st h" for h
    using get [OF extends_listed [OF ext that]] genuine_get [OF assms(2) that assms(5), of now]
      extends_bytes [OF ext that] by auto
  ultimately show ?thesis using new by blast
qed


text \<open>A scan can hang for ever. A configuration with no concurrent replications, which the node's
  validation of its configuration accepts, makes a scan that has something to pull wait for a permit
  that never comes, with the scan marked as running; the loop it is awaited in cannot shut down.\<close>

theorem zero_concurrency_hangs:
  assumes "rc_max_concurrent_replications cfg = 0" "rc_max_items_per_cycle cfg > 0"
    and "\<not> rc_budget_exceeded cfg (get_stats (sw_storage w))" "sm_content (sw_storage w) \<noteq> []"
    and "a \<in> set (sw_announcements w)" "an_cid a \<notin> sc_cid ` set (list_content (sw_storage w))"
  shows "\<exists>w'. scan_and_replicate P text cfg me peers S w = Waiting w' \<and>
    rt_scan_in_progress (rp_stats (sw_repl w'))"
proof -
  have "an_cid a \<in> set (filter (\<lambda>c. c \<notin> sc_cid ` set (list_content (sw_storage w))) (map an_cid (sw_announcements w)))"
    using assms(5,6) by simp
  then have "select_replication_targets (map sc_cid (list_content (sw_storage w)))
      (map an_cid (sw_announcements w)) ys (rc_max_items_per_cycle cfg) \<noteq> []" for ys
    using assms(2) set_first_occurrences [of "filter (\<lambda>c. c \<notin> sc_cid ` set (list_content (sw_storage w))) (map an_cid (sw_announcements w) @ ys)"]
    by (force simp: select_replication_targets_def select_loop_exact simp del: set_first_occurrences)
  with assms(1,3,4) show ?thesis
    by (simp add: scan_and_replicate_def Let_def start_scan_def list_content_def hm_values_def)
qed

section \<open>Witnesses\<close>

definition demo_cid :: string where
  "demo_cid = concat (replicate 32 ''ab'')"

definition demo_hash :: prims where
  "demo_hash = demo_prims\<lparr>blake3 := \<lambda>_. replicate 32 171\<rparr>"

definition demo_replica :: manifest_result where
  "demo_replica = \<lparr>mr_content_hash = demo_cid, mr_fragment_hashes = [demo_cid], mr_total_size = 2,
     mr_mime_type = ''text/plain''\<rparr>"

text \<open>The first provider is dead, the second honest.\<close>

definition demo_transfer :: transfer where
  "demo_transfer = \<lparr>tf_providers = Answered (Inr [[1], [2]]),
     tf_manifest = \<lambda>j p. if p = [2] then Answered (Inr demo_replica) else TimedOut,
     tf_fragment = \<lambda>i j p h. if p = [2] \<and> h = demo_cid then Answered (Inr [1, 2]) else Dropped\<rparr>"

definition demo_scan :: scan_env where
  "demo_scan = \<lparr>se_index = demo_index, se_now = 0, se_unix = 7, se_holders = \<lambda>_. TimedOut,
     se_catalog = \<lambda>_. TimedOut, se_transfer = \<lambda>_. demo_transfer, se_io = \<lambda>_ _. good_io\<rparr>"

definition demo_world :: scan_world where
  "demo_world = \<lparr>sw_storage = (demo_store True)\<lparr>sm_fragments := [], sm_content :=
       [(''c'', (demo_content ''c'' True)\<lparr>sc_fragments := []\<rparr>)], sm_usage := 0\<rparr>,
     sw_repl = replication_state_new 3,
     sw_announcements = [\<lparr>an_cid = demo_cid, an_peer_id = ''p'', an_total_size = 2, an_fragment_count = 1,
       an_mime_type = ''text/plain'', an_timestamp = 1\<rparr>],
     sw_sent = [], sw_cycle_replicated = 0, sw_cycle_bytes = 0\<rparr>"

definition demo_config :: "nat \<Rightarrow> replication_config" where
  "demo_config n = \<lparr>rc_scan_interval_secs = 300, rc_max_concurrent_replications = n,
     rc_budget_exceeded = \<lambda>_. False, rc_max_items_per_cycle = 10\<rparr>"

abbreviation demo_run :: scan_result where
  "demo_run \<equiv> scan_and_replicate demo_hash (\<lambda>_. []) (demo_config 3) [9] [] demo_scan demo_world"

lemma demo_cid_facts [simp]:
  "is_blake3_hex_cid demo_cid" "safe_hash demo_cid" "demo_cid \<noteq> ''c''" "take 2 demo_cid = ''ab''"
  "length demo_cid = 64" "hex_bytes (replicate 32 171) = demo_cid"
  by code_simp+

lemma demo_replicated: "replicate_content demo_hash demo_transfer demo_cid = Inr (demo_replica, [(demo_cid, [1, 2])])"
  by (simp add: replicate_content_def demo_transfer_def find_providers_def fetch_manifest_def demo_replica_def
      fetch_fragment_def demo_hash_def MAX_INBOUND_CONTENT_SIZE_def MAX_INBOUND_FRAGMENT_SIZE_def sat_add_def Let_def)

theorem honest_provider_suffices_witness:
  "replicate_content demo_hash demo_transfer demo_cid = Inr (demo_replica, zip [demo_cid] [[1, 2]])"
proof -
  have "find_providers (tf_providers demo_transfer) = Inr [[1], [2]]"
    by (simp add: demo_transfer_def find_providers_def)
  moreover have "\<exists>j < length [[1], [2]]. \<exists>m'. tf_manifest demo_transfer j ([[1], [2]] ! j) = Answered (Inr m')"
    by (rule exI [where x = 1]) (simp add: demo_transfer_def)
  moreover have "\<exists>j < length [[1], [2]]. \<exists>d. tf_fragment demo_transfer i j ([[1], [2]] ! j) demo_cid = Answered (Inr d)" for i
    by (rule exI [where x = 1]) (simp add: demo_transfer_def)
  moreover have "mr_fragment_hashes demo_replica = [demo_cid]" "mr_content_hash demo_replica = demo_cid"
      "mr_total_size demo_replica = 2"
    by (simp_all add: demo_replica_def)
  ultimately have "replicate_content demo_hash demo_transfer demo_cid =
      Inr (demo_replica, zip (mr_fragment_hashes demo_replica) [[1, 2]])"
    by (intro honest_provider_suffices)
       (auto simp: demo_transfer_def demo_hash_def MAX_INBOUND_CONTENT_SIZE_def MAX_INBOUND_FRAGMENT_SIZE_def
         split: if_splits)
  then show ?thesis by (simp add: demo_replica_def)
qed

lemma good_io_simps:
  "create_dir_all good_io p = Inr ()" "fs_write good_io p bs d = (Inr (), hm_insert p bs d)"
  "fst (save_or_fail good_io demo_index st) = Inr ()"
  by (simp_all add: create_dir_all_def fs_write_def save_or_fail_def save_metadata_def demo_index_def good_io_def)

lemma demo_stored:
  "\<exists>st. store_fragments (\<lambda>_. good_io) demo_index 7 demo_cid 0 [(demo_cid, [1, 2])] 0 (sw_storage demo_world) = ((True, 2), st)"
proof -
  have "\<not> has_fragment (sw_storage demo_world) demo_cid"
    by (simp add: demo_world_def has_fragment_def)
  moreover have "fst (store_fragment good_io demo_index 7 demo_cid demo_cid 0 [1, 2] (sw_storage demo_world)) = Inr ()"
    by (simp add: store_fragment_def demo_world_def demo_store_def fragment_path_def good_io_simps Let_def)
  ultimately show ?thesis
    by (auto split: prod.split sum.split)
qed

lemma demo_collect:
  assumes "sw_storage w = sw_storage demo_world"
  shows "hm_get (sm_content (sw_storage (collect_result demo_hash demo_scan demo_cid w))) demo_cid =
    Some ((replica_content 7 demo_cid demo_replica)\<lparr>sc_pinned := True\<rparr>)"
proof -
  let ?c = "replica_content 7 demo_cid demo_replica"
  obtain st where st: "store_fragments (\<lambda>_. good_io) demo_index 7 demo_cid 0 [(demo_cid, [1, 2])] 0 (sw_storage w) = ((True, 2), st)"
    using demo_stored assms by auto
  obtain st1 where st1: "store_content good_io demo_index ?c st = (Inr (), st1)"
    using good_io_simps(3) by (metis prod.collapse store_content_def)
  then have "hm_get (sm_content st1) demo_cid = Some ?c"
    using store_content_result by fastforce
  from pin_result [OF this, of good_io demo_index] st st1 show ?thesis
    by (simp add: collect_result_def demo_scan_def demo_replicated store_replica_eq)
qed

lemma demo_run_eq:
  "\<exists>w1. demo_run = Returned (finish_scan 7 (tally (collect_result demo_hash demo_scan demo_cid w1))) \<and>
     sw_storage w1 = sw_storage demo_world"
proof -
  have "select_replication_targets [''c''] [demo_cid] [] 10 = [demo_cid]"
    by (simp add: select_replication_targets_def select_loop_exact)
  moreover have "se_unix demo_scan = 7"
    by (simp add: demo_scan_def)
  ultimately show ?thesis
    by (simp add: scan_and_replicate_def demo_config_def start_scan_def catalog_cids_def demo_world_def
        list_content_def hm_values_def demo_content_def Let_def)
       (intro exI conjI, rule refl, simp)
qed

lemma demo_scan_verified:
  "genuine demo_hash {[1, 2]} (sw_storage demo_world)" "inj_on (blake3 demo_hash) {[1, 2]}"
  "answers_verified demo_hash {[1, 2]} demo_scan"
  by (auto simp: genuine_def has_fragment_def demo_world_def answers_verified_def demo_scan_def demo_transfer_def
      demo_hash_def split: if_splits)

theorem replicas_readable_witness:
  "\<exists>w' c datas. demo_run = Returned w' \<and> hm_get (sm_content (sw_storage w')) demo_cid = Some c \<and>
     map (\<lambda>h. fst (get_fragment good_io 8 h (sw_storage w'))) (sc_fragments c) = map Inr datas \<and>
     hex_bytes (blake3 demo_hash (concat datas)) = demo_cid"
proof -
  obtain w1 where w1: "demo_run = Returned (finish_scan 7 (tally (collect_result demo_hash demo_scan demo_cid w1)))"
      "sw_storage w1 = sw_storage demo_world"
    using demo_run_eq by blast
  let ?w' = "finish_scan 7 (tally (collect_result demo_hash demo_scan demo_cid w1))"
  let ?c = "(replica_content 7 demo_cid demo_replica)\<lparr>sc_pinned := True\<rparr>"
  have "hm_get (sm_content (sw_storage ?w')) demo_cid = Some ?c"
    using demo_collect [OF w1(2)] by (simp add: finish_scan_def tally_def)
  moreover have "hm_get (sm_content (sw_storage demo_world)) demo_cid = None"
    by (simp add: demo_world_def hm_get_def)
  moreover have "io_read good_io p = None" for p
    by (simp add: good_io_def)
  ultimately show ?thesis
    using replicas_readable [OF w1(1) demo_scan_verified, of good_io 8] w1(1) by fastforce
qed


theorem zero_concurrency_hangs_witness:
  "\<exists>w'. scan_and_replicate demo_hash (\<lambda>_. []) (demo_config 0) [9] [] demo_scan demo_world = Waiting w' \<and>
     rt_scan_in_progress (rp_stats (sw_repl w'))"
  using zero_concurrency_hangs [of "demo_config 0" demo_world "hd (sw_announcements demo_world)"]
  by (simp add: demo_config_def demo_world_def list_content_def hm_values_def demo_content_def)

end
