(* ===== verification/KvStore.thy ===== *)
theory KvStore
  imports Prelude
begin

text \<open>
  The key-value store of deployed applications, \<open>gateway/src/kv_store.rs\<close>: a concurrent map of
  namespaces to concurrent maps of keys, with limits on both, on the size of values and on their life
  time. Each call is one step; the overshoot of the limits by concurrent writers that a comment of the
  code concedes is not modelled. The commands sent to Redis by spawned tasks are recorded in
  \<open>kv_redis_commands\<close>, newest last, whether or not the server obeys; base64 is the argument \<open>b64\<close>. A
  time to live is added to the clock without overflow (the code would panic; every caller passes none).
\<close>

section \<open>The store\<close>

definition DEFAULT_MAX_NAMESPACES :: nat where
  "DEFAULT_MAX_NAMESPACES = 10000"

record kv_config =
  kc_max_keys_per_namespace :: nat
  kc_max_value_size_bytes :: nat
  kc_max_namespaces :: nat

record kv_entry =
  ke_value :: bytes
  ke_expires_at :: "instant option"

datatype redis_command = RedisSetJson string string | RedisDelete string

type_synonym kv_namespace = "(string, kv_entry) hmap"

record kv_store =
  kv_namespaces :: "(string, kv_namespace) hmap"
  kv_redis :: bool \<comment> \<open>a Redis client is configured\<close>
  kv_redis_commands :: "redis_command list"
  kv_config :: kv_config

definition entry_is_expired :: "instant \<Rightarrow> kv_entry \<Rightarrow> bool" where
  "entry_is_expired now e = (case ke_expires_at e of None \<Rightarrow> False | Some t \<Rightarrow> now > t)"

definition kv_new :: "kv_config \<Rightarrow> bool \<Rightarrow> kv_store" where
  "kv_new cfg redis = \<lparr>kv_namespaces = [], kv_redis = redis, kv_redis_commands = [], kv_config = cfg\<rparr>"

definition redis_key :: "string \<Rightarrow> string \<Rightarrow> string" where
  "redis_key ns key = ''kv:'' @ ns @ '':'' @ key"

definition tell_redis :: "redis_command \<Rightarrow> kv_store \<Rightarrow> kv_store" where
  "tell_redis c s = (if kv_redis s then s\<lparr>kv_redis_commands := kv_redis_commands s @ [c]\<rparr> else s)"

abbreviation set_namespace :: "string \<Rightarrow> kv_namespace \<Rightarrow> kv_store \<Rightarrow> kv_store" where
  "set_namespace ns m s \<equiv> s\<lparr>kv_namespaces := hm_insert ns m (kv_namespaces s)\<rparr>"

definition kv_get :: "instant \<Rightarrow> string \<Rightarrow> string \<Rightarrow> kv_store \<Rightarrow> bytes option \<times> kv_store" where
  "kv_get now ns key s =
     (case hm_get (kv_namespaces s) ns of
        None \<Rightarrow> (None, s)
      | Some m \<Rightarrow>
          (case hm_get m key of
             None \<Rightarrow> (None, s)
           | Some e \<Rightarrow>
               if entry_is_expired now e then (None, set_namespace ns (hm_remove key m) s)
               else (Some (ke_value e), s)))"

definition kv_put ::
    "(bytes \<Rightarrow> string) \<Rightarrow> instant \<Rightarrow> string \<Rightarrow> string \<Rightarrow> bytes \<Rightarrow> u64 option \<Rightarrow> kv_store \<Rightarrow>
     (string + unit) \<times> kv_store" where
  "kv_put b64 now ns key v ttl_secs s =
     (let cfg = kv_config s in
      if length v > kc_max_value_size_bytes cfg then
        (Inl (''Value too large: '' @ show_nat (length v) @ '' bytes (max '' @
           show_nat (kc_max_value_size_bytes cfg) @ '')''), s)
      else if hm_get (kv_namespaces s) ns = None \<and> length (kv_namespaces s) \<ge> kc_max_namespaces cfg then
        (Inl (''Namespace limit reached ('' @ show_nat (kc_max_namespaces cfg) @ '' namespaces)''), s)
      else
        let m = (case hm_get (kv_namespaces s) ns of None \<Rightarrow> [] | Some m \<Rightarrow> m);
            s1 = set_namespace ns m s
        in if hm_get m key = None \<and> length m \<ge> kc_max_keys_per_namespace cfg then
             (Inl (''Namespace '' @ [CHR 39] @ ns @ [CHR 39] @ '' key limit reached ('' @ show_nat (length m) @ ''/'' @
                show_nat (kc_max_keys_per_namespace cfg) @ '')''), s1)
           else
             let e = \<lparr>ke_value = v, ke_expires_at = map_option (\<lambda>t. now + from_secs (unat t)) ttl_secs\<rparr>
             in (Inr (), tell_redis (RedisSetJson (redis_key ns key) (b64 v)) (set_namespace ns (hm_insert key e m) s1)))"

definition kv_delete :: "string \<Rightarrow> string \<Rightarrow> kv_store \<Rightarrow> bool \<times> kv_store" where
  "kv_delete ns key s =
     (case hm_get (kv_namespaces s) ns of
        None \<Rightarrow> (False, s)
      | Some m \<Rightarrow>
          if hm_get m key = None then (False, s)
          else (True, tell_redis (RedisDelete (redis_key ns key)) (set_namespace ns (hm_remove key m) s)))"

definition kv_list_keys :: "instant \<Rightarrow> string \<Rightarrow> string option \<Rightarrow> kv_store \<Rightarrow> string list" where
  "kv_list_keys now ns pfx s =
     (case hm_get (kv_namespaces s) ns of
        None \<Rightarrow> []
      | Some m \<Rightarrow>
          map fst (filter (\<lambda>(k, e). \<not> entry_is_expired now e \<and>
             (case pfx of None \<Rightarrow> True | Some p \<Rightarrow> starts_with k p)) m))"

definition kv_namespace_size :: "string \<Rightarrow> kv_store \<Rightarrow> nat" where
  "kv_namespace_size ns s = (case hm_get (kv_namespaces s) ns of None \<Rightarrow> 0 | Some m \<Rightarrow> length m)"

definition kv_cleanup_expired :: "instant \<Rightarrow> kv_store \<Rightarrow> kv_store" where
  "kv_cleanup_expired now s =
     s\<lparr>kv_namespaces := hm_map_values (hm_retain (\<lambda>_ e. \<not> entry_is_expired now e)) (kv_namespaces s)\<rparr>"

section \<open>Sequences of calls\<close>

text \<open>
  A run of calls on a clock that does not go back: a call comes some time after the one before. Beside
  the store, the run records for each key what was written last: the entry of the last accepted put,
  unless the key was deleted since.
\<close>

datatype kv_op =
    KvGet string string
  | KvPut string string bytes "u64 option"
  | KvDelete string string
  | KvCleanup

record kv_run =
  kr_clock :: instant
  kr_store :: kv_store
  kr_written :: "string \<Rightarrow> string \<Rightarrow> kv_entry option"

fun kv_apply :: "(bytes \<Rightarrow> string) \<Rightarrow> instant \<Rightarrow> kv_op \<Rightarrow> kv_store \<Rightarrow> kv_store" where
  "kv_apply b64 now (KvGet ns k) s = snd (kv_get now ns k s)"
| "kv_apply b64 now (KvPut ns k v ttl) s = snd (kv_put b64 now ns k v ttl s)"
| "kv_apply b64 now (KvDelete ns k) s = snd (kv_delete ns k s)"
| "kv_apply b64 now KvCleanup s = kv_cleanup_expired now s"

fun note_write ::
    "(bytes \<Rightarrow> string) \<Rightarrow> instant \<Rightarrow> kv_op \<Rightarrow> kv_store \<Rightarrow> (string \<Rightarrow> string \<Rightarrow> kv_entry option) \<Rightarrow>
     string \<Rightarrow> string \<Rightarrow> kv_entry option" where
  "note_write b64 now (KvPut ns k v ttl) s w =
     (if fst (kv_put b64 now ns k v ttl s) = Inr ()
      then w(ns := (w ns)(k := Some \<lparr>ke_value = v, ke_expires_at = map_option (\<lambda>t. now + from_secs (unat t)) ttl\<rparr>))
      else w)"
| "note_write b64 now (KvDelete ns k) s w = w(ns := (w ns)(k := None))"
| "note_write b64 now _ s w = w"

definition kv_step :: "(bytes \<Rightarrow> string) \<Rightarrow> duration \<times> kv_op \<Rightarrow> kv_run \<Rightarrow> kv_run" where
  "kv_step b64 = (\<lambda>(d, op) r.
     let now = kr_clock r + d in
     \<lparr>kr_clock = now, kr_store = kv_apply b64 now op (kr_store r),
      kr_written = note_write b64 now op (kr_store r) (kr_written r)\<rparr>)"

definition kv_start :: "kv_config \<Rightarrow> bool \<Rightarrow> kv_run" where
  "kv_start cfg redis = \<lparr>kr_clock = 0, kr_store = kv_new cfg redis, kr_written = \<lambda>_ _. None\<rparr>"

definition entry_at :: "kv_store \<Rightarrow> string \<Rightarrow> string \<Rightarrow> kv_entry option" where
  "entry_at s ns k = Option.bind (hm_get (kv_namespaces s) ns) (\<lambda>m. hm_get m k)"

definition kv_wf :: "kv_store \<Rightarrow> bool" where
  "kv_wf s \<longleftrightarrow> hm_wf (kv_namespaces s) \<and> (\<forall>ns m. hm_get (kv_namespaces s) ns = Some m \<longrightarrow> hm_wf m)"

lemma tell_redis_simps [simp]:
  "kv_namespaces (tell_redis c s) = kv_namespaces s" "kv_config (tell_redis c s) = kv_config s"
  by (simp_all add: tell_redis_def)

lemma kv_apply_wf: "kv_wf s \<Longrightarrow> kv_wf (kv_apply b64 now op s)"
  by (cases op)
     (auto simp: kv_wf_def kv_get_def kv_put_def kv_delete_def kv_cleanup_expired_def Let_def
       split: option.splits if_splits)

lemma entry_at_get:
  "entry_at (snd (kv_get now ns k s)) ns' k' =
     (if ns' = ns \<and> k' = k \<and> (\<exists>e. entry_at s ns k = Some e \<and> entry_is_expired now e) then None
      else entry_at s ns' k')"
  by (auto simp: kv_get_def entry_at_def split: option.splits)

lemma entry_at_put:
  "entry_at (snd (kv_put b64 now ns k v ttl s)) ns' k' =
     (if ns' = ns \<and> k' = k \<and> fst (kv_put b64 now ns k v ttl s) = Inr ()
      then Some \<lparr>ke_value = v, ke_expires_at = map_option (\<lambda>t. now + from_secs (unat t)) ttl\<rparr>
      else entry_at s ns' k')"
  by (auto simp: kv_put_def entry_at_def Let_def split: option.splits)

lemma entry_at_delete:
  "entry_at (snd (kv_delete ns k s)) ns' k' = (if ns' = ns \<and> k' = k then None else entry_at s ns' k')"
  by (auto simp: kv_delete_def entry_at_def split: option.splits)

lemma entry_at_cleanup:
  "kv_wf s \<Longrightarrow> entry_at (kv_cleanup_expired now s) ns k =
     (case entry_at s ns k of None \<Rightarrow> None | Some e \<Rightarrow> if entry_is_expired now e then None else Some e)"
  by (cases "hm_get (kv_namespaces s) ns")
     (auto simp: kv_cleanup_expired_def entry_at_def kv_wf_def hm_get_retain split: option.splits)

section \<open>Reads\<close>

text \<open>An entry the store does not have any more has expired.\<close>

definition agrees :: "instant \<Rightarrow> kv_entry option \<Rightarrow> kv_entry option \<Rightarrow> bool" where
  "agrees now held written \<longleftrightarrow>
     held = written \<or> held = None \<and> (\<exists>e. written = Some e \<and> entry_is_expired now e)"

definition reads_ok :: "kv_run \<Rightarrow> bool" where
  "reads_ok r \<longleftrightarrow> kv_wf (kr_store r) \<and>
     (\<forall>ns k. agrees (kr_clock r) (entry_at (kr_store r) ns k) (kr_written r ns k))"

lemma expired_later: "entry_is_expired now e \<Longrightarrow> entry_is_expired (now + d) e"
  by (auto simp: entry_is_expired_def split: option.splits)

lemma agrees_later: "agrees now held written \<Longrightarrow> agrees (now + d) held written"
  using expired_later by (auto simp: agrees_def)

lemma reads_ok_step:
  assumes "reads_ok r"
  shows "reads_ok (kv_step b64 e r)"
proof -
  obtain d op where e: "e = (d, op)" by force
  let ?now = "kr_clock r + d"
  have wf: "kv_wf (kr_store r)"
    using assms by (simp add: reads_ok_def)
  have "agrees ?now (entry_at (kv_apply b64 ?now op (kr_store r)) ns k) (note_write b64 ?now op (kr_store r) (kr_written r) ns k)" for ns k
  proof -
    have "agrees ?now (entry_at (kr_store r) ns k) (kr_written r ns k)"
      using assms agrees_later by (simp add: reads_ok_def)
    then show ?thesis
      using wf by (cases op)
        (auto simp: agrees_def entry_at_get entry_at_put entry_at_delete entry_at_cleanup split: option.split)
  qed
  then show ?thesis
    using wf by (simp add: e kv_step_def reads_ok_def Let_def kv_apply_wf)
qed

interpretation kv_reads: call_machine "kv_step b64" reads_ok for b64
  by unfold_locales (rule reads_ok_step)

text \<open>C20. Reads see the last write. After any calls, on a clock that does not go back, \<open>get\<close> answers what the
  last accepted put of that key in that namespace wrote, if the key was not deleted since and the
  entry has not outlived its time, and nothing otherwise.\<close>

theorem kv_reads_latest:
  fixes b64 :: "bytes \<Rightarrow> string" and es :: "(duration \<times> kv_op) list" and cfg :: kv_config and redis :: bool
  defines "r \<equiv> fold (kv_step b64) es (kv_start cfg redis)"
  shows "fst (kv_get (kr_clock r + d) ns k (kr_store r)) =
    (case kr_written r ns k of
       None \<Rightarrow> None
     | Some e \<Rightarrow> if entry_is_expired (kr_clock r + d) e then None else Some (ke_value e))"
proof -
  have "reads_ok (kv_start cfg redis)"
    by (simp add: reads_ok_def agrees_def kv_start_def kv_new_def kv_wf_def entry_at_def)
  then have "reads_ok r"
    unfolding r_def by (rule kv_reads.run_inv)
  then have "agrees (kr_clock r + d) (entry_at (kr_store r) ns k) (kr_written r ns k)"
    by (simp add: reads_ok_def agrees_later)
  moreover have "fst (kv_get t ns k s) =
      (case entry_at s ns k of None \<Rightarrow> None | Some e \<Rightarrow> if entry_is_expired t e then None else Some (ke_value e))" for t s
    by (auto simp: kv_get_def entry_at_def split: option.splits)
  ultimately show ?thesis by (cases "kr_written r ns k") (auto simp: agrees_def)
qed

theorem kv_reads_latest_witness:
  "fst (kv_get 5 ''n'' ''k'' (kr_store (fold (kv_step (\<lambda>_. [])) [(5, KvPut ''n'' ''k'' [1] (Some 0))]
     (kv_start \<lparr>kc_max_keys_per_namespace = 1, kc_max_value_size_bytes = 1, kc_max_namespaces = 1\<rparr> False)))) = Some [1]"
  using kv_reads_latest [of "\<lambda>_. []" "[(5, KvPut ''n'' ''k'' [1] (Some 0))]"
      "\<lparr>kc_max_keys_per_namespace = 1, kc_max_value_size_bytes = 1, kc_max_namespaces = 1\<rparr>" False 0 "''n''" "''k''"]
  by (simp add: kv_step_def kv_start_def kv_new_def kv_put_def entry_is_expired_def from_secs_def Let_def)

section \<open>Limits\<close>

definition kv_call :: "(bytes \<Rightarrow> string) \<Rightarrow> instant \<times> kv_op \<Rightarrow> kv_store \<Rightarrow> kv_store" where
  "kv_call b64 = (\<lambda>(now, op). kv_apply b64 now op)"

definition kv_limits :: "kv_config \<Rightarrow> kv_store \<Rightarrow> bool" where
  "kv_limits cfg s \<longleftrightarrow> kv_config s = cfg \<and> kv_wf s \<and> length (kv_namespaces s) \<le> kc_max_namespaces cfg \<and>
     (\<forall>ns m. hm_get (kv_namespaces s) ns = Some m \<longrightarrow> length m \<le> kc_max_keys_per_namespace cfg \<and>
        (\<forall>k e. hm_get m k = Some e \<longrightarrow> length (ke_value e) \<le> kc_max_value_size_bytes cfg))"

lemma kv_limits_call: "kv_limits cfg s \<Longrightarrow> kv_limits cfg (kv_call b64 e s)"
proof -
  assume lim: "kv_limits cfg s"
  obtain now op where e: "e = (now, op)" by force
  have wf: "kv_wf (kv_apply b64 now op s)"
    using lim by (simp add: kv_limits_def kv_apply_wf)
  show ?thesis
  proof (cases op)
    case (KvGet ns k)
    with lim wf show ?thesis
      by (fastforce simp: e kv_call_def kv_limits_def kv_get_def length_hm_insert
          intro: order_trans [OF length_hm_remove_le] split: option.splits if_splits)
  next
    case (KvPut ns k v ttl)
    with lim wf show ?thesis
      by (auto simp: e kv_call_def kv_limits_def kv_put_def length_hm_insert Let_def
          split: option.splits if_splits) force+
  next
    case (KvDelete ns k)
    with lim wf show ?thesis
      by (fastforce simp: e kv_call_def kv_limits_def kv_delete_def length_hm_insert
          intro: order_trans [OF length_hm_remove_le] split: option.splits if_splits)
  next
    case KvCleanup
    with lim wf show ?thesis
      by (auto simp: e kv_call_def kv_limits_def kv_cleanup_expired_def kv_wf_def hm_get_retain
          intro: order_trans [OF length_hm_retain_le] split: option.splits if_splits)
  qed
qed

interpretation kv_limited: call_machine "kv_call b64" "kv_limits cfg" for b64 cfg
  by unfold_locales (rule kv_limits_call)

lemma hm_sum_bound:
  assumes "hm_wf m" "\<And>k v. hm_get m k = Some v \<Longrightarrow> f v \<le> b"
  shows "hm_sum f m \<le> length m * b"
proof -
  have "\<forall>x \<in> set (map f (hm_values m)). x \<le> b"
    using assms by (auto simp: hm_values_def hm_get_iff_in_set)
  moreover have "\<forall>x \<in> set xs. x \<le> b \<Longrightarrow> sum_list xs \<le> length xs * b" for xs :: "nat list"
    by (induction xs) auto
  ultimately have "sum_list (map f (hm_values m)) \<le> length (map f (hm_values m)) * b"
    by blast
  then show ?thesis by (simp add: hm_sum_def hm_values_def)
qed

text \<open>The store is bounded. Whatever calls it served, the values it holds take at most the product of
  its three limits.\<close>

theorem kv_memory_bounded:
  "hm_sum (hm_sum (\<lambda>e. length (ke_value e))) (kv_namespaces (fold (kv_call b64) es (kv_new cfg redis))) \<le>
     kc_max_namespaces cfg * (kc_max_keys_per_namespace cfg * kc_max_value_size_bytes cfg)"
proof -
  have "kv_limits cfg (kv_new cfg redis)"
    by (simp add: kv_limits_def kv_new_def kv_wf_def)
  then have lim: "kv_limits cfg (fold (kv_call b64) es (kv_new cfg redis))"
    by (rule kv_limited.run_inv)
  let ?n = "kv_namespaces (fold (kv_call b64) es (kv_new cfg redis))"
  have "hm_sum (\<lambda>e. length (ke_value e)) m \<le> kc_max_keys_per_namespace cfg * kc_max_value_size_bytes cfg"
    if "hm_get ?n ns = Some m" for ns m
  proof -
    have "hm_sum (\<lambda>e. length (ke_value e)) m \<le> length m * kc_max_value_size_bytes cfg"
      using lim that by (intro hm_sum_bound) (auto simp: kv_limits_def kv_wf_def)
    also have "\<dots> \<le> kc_max_keys_per_namespace cfg * kc_max_value_size_bytes cfg"
      using lim that by (auto simp: kv_limits_def)
    finally show ?thesis .
  qed
  then have "hm_sum (hm_sum (\<lambda>e. length (ke_value e))) ?n \<le>
      length ?n * (kc_max_keys_per_namespace cfg * kc_max_value_size_bytes cfg)"
    using lim by (intro hm_sum_bound) (auto simp: kv_limits_def kv_wf_def)
  also have "\<dots> \<le> kc_max_namespaces cfg * (kc_max_keys_per_namespace cfg * kc_max_value_size_bytes cfg)"
    using lim by (auto simp: kv_limits_def)
  finally show ?thesis .
qed

text \<open>Namespaces are never removed: once the limit is reached no new one is ever accepted.\<close>

definition kv_full :: "string \<Rightarrow> kv_store \<Rightarrow> bool" where
  "kv_full ns s \<longleftrightarrow> hm_get (kv_namespaces s) ns = None \<and> kc_max_namespaces (kv_config s) \<le> length (kv_namespaces s)"

lemma kv_full_call: "kv_full ns s \<Longrightarrow> kv_full ns (kv_call b64 e s)"
proof -
  assume "kv_full ns s"
  moreover obtain now op where "e = (now, op)" by force
  ultimately show ?thesis
    by (cases op)
       (auto simp: kv_call_def kv_full_def kv_get_def kv_put_def kv_delete_def kv_cleanup_expired_def
         length_hm_insert Let_def split: option.splits)
qed

interpretation kv_exhausted: call_machine "kv_call b64" "kv_full ns" for b64 ns
  by unfold_locales (rule kv_full_call)

text \<open>A full store stays full. Once as many namespaces exist as are allowed, a put to any other one is
  refused for ever, whatever is deleted or expires in between.\<close>

theorem kv_full_for_ever:
  assumes "hm_get (kv_namespaces s) ns = None" "kc_max_namespaces (kv_config s) \<le> length (kv_namespaces s)"
  shows "fst (kv_put b64 now ns k v ttl (fold (kv_call b64) es s)) \<noteq> Inr ()"
proof -
  have "kv_full ns (fold (kv_call b64) es s)"
    using assms by (intro kv_exhausted.run_inv) (simp add: kv_full_def)
  then show ?thesis
    by (simp add: kv_full_def kv_put_def Let_def)
qed

theorem kv_full_for_ever_witness:
  "let s = snd (kv_put (\<lambda>_. []) 0 ''a'' ''k'' [1] None
       (kv_new \<lparr>kc_max_keys_per_namespace = 5, kc_max_value_size_bytes = 5, kc_max_namespaces = 1\<rparr> False))
   in fst (kv_put (\<lambda>_. []) 9 ''b'' ''k'' [1] None (fold (kv_call (\<lambda>_. [])) [(1, KvDelete ''a'' ''k''), (2, KvCleanup)] s)) \<noteq> Inr ()"
  unfolding Let_def
  by (rule kv_full_for_ever) (simp_all add: kv_put_def kv_new_def length_hm_insert)

section \<open>Isolation of namespaces\<close>

fun concerns :: "string \<Rightarrow> kv_op \<Rightarrow> bool" where
  "concerns ns (KvGet n k) \<longleftrightarrow> n = ns"
| "concerns ns (KvPut n k v ttl) \<longleftrightarrow> n = ns"
| "concerns ns (KvDelete n k) \<longleftrightarrow> n = ns"
| "concerns ns KvCleanup \<longleftrightarrow> True"

text \<open>A store with nothing but the namespace, and the calls it sees.\<close>

definition private_store :: "string \<Rightarrow> kv_store \<Rightarrow> kv_store" where
  "private_store ns s = \<lparr>kv_namespaces = [(ns, the (hm_get (kv_namespaces s) ns))], kv_redis = False,
     kv_redis_commands = [], kv_config = kv_config s\<rparr>"

definition private_call :: "(bytes \<Rightarrow> string) \<Rightarrow> string \<Rightarrow> instant \<times> kv_op \<Rightarrow> kv_store \<Rightarrow> kv_store" where
  "private_call b64 ns e = (if concerns ns (snd e) then kv_call b64 e else id)"

lemma private_simps [simp]:
  "hm_get (kv_namespaces (private_store ns s)) n = (if n = ns then Some (the (hm_get (kv_namespaces s) ns)) else None)"
  "kv_config (private_store ns s) = kv_config s"
  "private_store ns (tell_redis c s) = private_store ns s"
  "tell_redis c (private_store ns s) = private_store ns s"
  by (simp_all add: private_store_def hm_get_def tell_redis_def)

lemma private_set:
  "set_namespace ns m (private_store ns s) = private_store ns (set_namespace ns m s)"
  by (simp add: private_store_def) (simp add: hm_insert_def)

lemma private_other:
  "n \<noteq> ns \<Longrightarrow> private_store ns (set_namespace n m s) = private_store ns s"
  "n \<noteq> ns \<Longrightarrow> private_store ns (s\<lparr>kv_namespaces := hm_insert n m (hm_insert n m' (kv_namespaces s))\<rparr>) = private_store ns s"
  by (simp_all add: private_store_def)

lemma private_cleanup:
  assumes "hm_get (kv_namespaces s) ns = Some m"
  shows "kv_cleanup_expired now (private_store ns s) = private_store ns (kv_cleanup_expired now s)"
  using assms by (simp add: kv_cleanup_expired_def private_store_def) (simp add: hm_map_values_def)

lemma private_step:
  assumes "hm_get (kv_namespaces s) ns = Some m"
  shows "private_store ns (kv_call b64 e s) = private_call b64 ns e (private_store ns s)"
proof -
  obtain now op where e: "e = (now, op)" by force
  note defs = e kv_call_def private_call_def private_set private_other Let_def
  show ?thesis
  proof (cases op)
    case (KvGet n k)
    with assms show ?thesis
      by (cases "n = ns") (auto simp: defs kv_get_def split: option.split)
  next
    case (KvPut n k v ttl)
    with assms show ?thesis
      by (cases "n = ns") (auto simp: defs kv_put_def split: option.split)
  next
    case (KvDelete n k)
    with assms show ?thesis
      by (cases "n = ns") (auto simp: defs kv_delete_def split: option.split)
  next
    case KvCleanup
    with assms show ?thesis
      by (simp add: defs private_cleanup)
  qed
qed

lemma namespace_stays:
  fixes s :: kv_store
  shows "hm_get (kv_namespaces s) ns \<noteq> None \<Longrightarrow> hm_get (kv_namespaces (kv_call b64 e s)) ns \<noteq> None"
proof -
  assume "hm_get (kv_namespaces s) ns \<noteq> None"
  moreover obtain now op where "e = (now, op)" by force
  ultimately show ?thesis
    by (cases op)
       (auto simp: kv_call_def kv_get_def kv_put_def kv_delete_def kv_cleanup_expired_def Let_def split: option.splits)
qed

interpretation kv_private:
  simulation "kv_call b64" "\<lambda>_. True" "\<lambda>s. hm_get (kv_namespaces s) ns \<noteq> None" "private_store ns" "private_call b64 ns"
  for b64 ns
proof unfold_locales
  fix e :: "instant \<times> kv_op" and s :: kv_store
  assume "hm_get (kv_namespaces s) ns \<noteq> None"
  then show "hm_get (kv_namespaces (kv_call b64 e s)) ns \<noteq> None"
    by (rule namespace_stays)
next
  fix e :: "instant \<times> kv_op" and s :: kv_store
  assume "hm_get (kv_namespaces s) ns \<noteq> None"
  then show "private_store ns (kv_call b64 e s) = private_call b64 ns e (private_store ns s)"
    using private_step by blast
qed

text \<open>A namespace behaves as if it were alone. Once it exists, what any sequence of calls makes of it is
  what the calls that concern it make of a store with nothing else: reads, listings, and the outcome of
  puts and deletes are the same, so no other namespace can be seen or felt.\<close>

theorem namespace_isolated:
  fixes b64 :: "bytes \<Rightarrow> string" and es :: "(instant \<times> kv_op) list"
  assumes "hm_get (kv_namespaces s) ns \<noteq> None"
  defines "full \<equiv> fold (kv_call b64) es s"
    and "alone \<equiv> fold (kv_call b64) (filter (concerns ns \<circ> snd) es) (private_store ns s)"
  shows "fst (kv_get now ns k full) = fst (kv_get now ns k alone) \<and>
    kv_list_keys now ns p full = kv_list_keys now ns p alone \<and>
    fst (kv_put b64 now ns k v ttl full) = fst (kv_put b64 now ns k v ttl alone) \<and>
    fst (kv_delete ns k full) = fst (kv_delete ns k alone)"
proof -
  have "private_store ns full = fold (private_call b64 ns) es (private_store ns s)"
    unfolding full_def using assms(1) by (intro kv_private.sim_run) (simp_all add: list_all_iff)
  also have "\<dots> = alone"
    unfolding alone_def by (simp add: fold_filter private_call_def [abs_def] comp_def)
  finally have alone: "alone = private_store ns full" by simp
  have "hm_get (kv_namespaces full) ns \<noteq> None"
    unfolding full_def using assms(1) by (intro kv_private.guarded_run) (simp_all add: list_all_iff)
  then obtain m where "hm_get (kv_namespaces full) ns = Some m" by blast
  then show ?thesis
    unfolding alone
    by (auto simp: kv_get_def kv_list_keys_def kv_put_def kv_delete_def Let_def split: option.split)
qed

theorem namespace_isolated_witness:
  "let s = snd (kv_put (\<lambda>_. []) 0 ''a'' ''k'' [1] None
       (kv_new \<lparr>kc_max_keys_per_namespace = 5, kc_max_value_size_bytes = 5, kc_max_namespaces = 5\<rparr> False))
   in fst (kv_get 9 ''a'' ''k'' (fold (kv_call (\<lambda>_. [])) [(1, KvPut ''b'' ''k'' [2] None), (2, KvDelete ''b'' ''k'')] s)) =
      fst (kv_get 9 ''a'' ''k'' (private_store ''a'' s))"
proof -
  let ?s = "snd (kv_put (\<lambda>_. []) 0 ''a'' ''k'' [1] None
       (kv_new \<lparr>kc_max_keys_per_namespace = 5, kc_max_value_size_bytes = 5, kc_max_namespaces = 5\<rparr> False))"
  have "hm_get (kv_namespaces ?s) ''a'' \<noteq> None"
    by (simp add: kv_put_def kv_new_def Let_def)
  from namespace_isolated [OF this, of 9 "''k''" "\<lambda>_. []" "[(1, KvPut ''b'' ''k'' [2] None), (2, KvDelete ''b'' ''k'')]"]
  show ?thesis by (simp add: Let_def)
qed

end
