(* ===== verification/ContentCache.thy ===== *)
theory ContentCache
  imports Prelude
begin

text \<open>
  The in-memory content cache of the gateway, \<open>gateway/src/cache.rs\<close>: entries with a life time, evicted
  least recently used first. Each call is one step under its lock and reads the clock once; poisoned
  locks are left out.
\<close>

section \<open>The cache\<close>

record cache_entry =
  ca_data :: bytes
  ca_content_type :: string
  ca_created_at :: instant
  ca_last_accessed :: instant
  ca_ttl :: duration

record content_cache =
  cc_entries :: "(string, cache_entry) hmap"
  cc_max_entries :: nat
  cc_default_ttl :: duration

record cache_stats =
  ct_total_entries :: nat
  ct_expired_entries :: nat
  ct_max_entries :: nat

definition cached_is_expired :: "instant \<Rightarrow> cache_entry \<Rightarrow> bool" where
  "cached_is_expired now e \<longleftrightarrow> elapsed now (ca_created_at e) > ca_ttl e"

definition cache_with_config :: "nat \<Rightarrow> duration \<Rightarrow> content_cache" where
  "cache_with_config n ttl = \<lparr>cc_entries = [], cc_max_entries = n, cc_default_ttl = ttl\<rparr>"

definition cache_new :: content_cache where
  "cache_new = cache_with_config 1000 (from_secs 3600)"

definition cache_get :: "instant \<Rightarrow> string \<Rightarrow> content_cache \<Rightarrow> (bytes \<times> string) option \<times> content_cache" where
  "cache_get now cid c =
     (case hm_get (cc_entries c) cid of
        None \<Rightarrow> (None, c)
      | Some e \<Rightarrow>
          if cached_is_expired now e then (None, c)
          else (Some (ca_data e, ca_content_type e),
                c\<lparr>cc_entries := hm_insert cid (e\<lparr>ca_last_accessed := now\<rparr>) (cc_entries c)\<rparr>))"

definition evict_expired :: "instant \<Rightarrow> (string, cache_entry) hmap \<Rightarrow> (string, cache_entry) hmap" where
  "evict_expired now m = hm_retain (\<lambda>_ e. \<not> cached_is_expired now e) m"

definition evict_lru :: "(string, cache_entry) hmap \<Rightarrow> (string, cache_entry) hmap" where
  "evict_lru m = (case min_by_key (\<lambda>(k, e). ca_last_accessed e) m of None \<Rightarrow> m | Some (k, e) \<Rightarrow> hm_remove k m)"

definition cache_set_with_ttl ::
    "instant \<Rightarrow> string \<Rightarrow> bytes \<Rightarrow> string \<Rightarrow> duration \<Rightarrow> content_cache \<Rightarrow> content_cache" where
  "cache_set_with_ttl now cid data ty ttl c =
     (let full = (\<lambda>m. length m \<ge> cc_max_entries c);
          m1 = (if full (cc_entries c) then evict_expired now (cc_entries c) else cc_entries c);
          m2 = (if full m1 then evict_lru m1 else m1)
      in c\<lparr>cc_entries := hm_insert cid \<lparr>ca_data = data, ca_content_type = ty, ca_created_at = now,
             ca_last_accessed = now, ca_ttl = ttl\<rparr> m2\<rparr>)"

definition cache_set :: "instant \<Rightarrow> string \<Rightarrow> bytes \<Rightarrow> string \<Rightarrow> content_cache \<Rightarrow> content_cache" where
  "cache_set now cid data ty c = cache_set_with_ttl now cid data ty (cc_default_ttl c) c"

definition cache_remove :: "string \<Rightarrow> content_cache \<Rightarrow> content_cache" where
  "cache_remove cid c = c\<lparr>cc_entries := hm_remove cid (cc_entries c)\<rparr>"

definition cache_clear_expired :: "instant \<Rightarrow> content_cache \<Rightarrow> content_cache" where
  "cache_clear_expired now c = c\<lparr>cc_entries := evict_expired now (cc_entries c)\<rparr>"

definition cache_entries :: "instant \<Rightarrow> content_cache \<Rightarrow> (string \<times> nat \<times> string) list" where
  "cache_entries now c =
     map (\<lambda>(cid, e). (cid, length (ca_data e), ca_content_type e))
       (filter (\<lambda>(cid, e). \<not> cached_is_expired now e) (cc_entries c))"

definition cache_stats_of :: "instant \<Rightarrow> content_cache \<Rightarrow> cache_stats" where
  "cache_stats_of now c =
     \<lparr>ct_total_entries = length (cc_entries c),
      ct_expired_entries = length (filter (cached_is_expired now) (hm_values (cc_entries c))),
      ct_max_entries = cc_max_entries c\<rparr>"

section \<open>Sequences of calls\<close>

datatype cache_op =
    CacheGet string
  | CacheSet string bytes string duration
  | CacheRemove string
  | CacheClear

fun cache_apply :: "instant \<times> cache_op \<Rightarrow> content_cache \<Rightarrow> content_cache" where
  "cache_apply (now, CacheGet cid) c = snd (cache_get now cid c)"
| "cache_apply (now, CacheSet cid data ty ttl) c = cache_set_with_ttl now cid data ty ttl c"
| "cache_apply (now, CacheRemove cid) c = cache_remove cid c"
| "cache_apply (now, CacheClear) c = cache_clear_expired now c"

lemma evict_lru_cases:
  assumes "hm_wf m" "m \<noteq> []"
  obtains k e where "hm_get m k = Some e" "\<And>k' e'. hm_get m k' = Some e' \<Longrightarrow> ca_last_accessed e \<le> ca_last_accessed e'"
    "evict_lru m = hm_remove k m"
proof -
  obtain k e where ke: "min_by_key (\<lambda>(k, e). ca_last_accessed e) m = Some (k, e)"
    using assms(2) by (cases "min_by_key (\<lambda>(k, e). ca_last_accessed e) m") auto
  from min_by_key_Some [OF this] assms(1) show thesis
    by (intro that [of k e]) (auto simp: evict_lru_def ke hm_get_iff_in_set)
qed

text \<open>What \<open>set\<close> leaves of the other entries: it removes expired ones and then at most one, no entry older.\<close>

definition made_room :: "instant \<Rightarrow> content_cache \<Rightarrow> (string, cache_entry) hmap" where
  "made_room now c =
     (let m1 = (if length (cc_entries c) \<ge> cc_max_entries c then evict_expired now (cc_entries c) else cc_entries c)
      in if length m1 \<ge> cc_max_entries c then evict_lru m1 else m1)"

lemma cache_set_eq:
  "cache_set_with_ttl now cid data ty ttl c =
     c\<lparr>cc_entries := hm_insert cid \<lparr>ca_data = data, ca_content_type = ty, ca_created_at = now,
       ca_last_accessed = now, ca_ttl = ttl\<rparr> (made_room now c)\<rparr>"
  by (simp add: cache_set_with_ttl_def made_room_def Let_def)

lemma evict_lru_wf:
  assumes "hm_wf m"
  shows "hm_wf (evict_lru m) \<and> length (evict_lru m) = length m - 1 \<and>
    (\<forall>k e. hm_get (evict_lru m) k = Some e \<longrightarrow> hm_get m k = Some e)"
proof (cases "m = []")
  case False
  obtain k e where "hm_get m k = Some e" "evict_lru m = hm_remove k m"
    using assms False by (rule evict_lru_cases)
  with assms show ?thesis by (auto simp: length_hm_remove split: if_splits)
qed (simp add: evict_lru_def)

lemma evict_expired_wf:
  assumes "hm_wf m"
  shows "hm_wf (evict_expired now m)" "length (evict_expired now m) \<le> length m"
    "hm_get (evict_expired now m) k =
       (case hm_get m k of None \<Rightarrow> None | Some e \<Rightarrow> if cached_is_expired now e then None else Some e)"
  using assms by (auto simp: evict_expired_def length_hm_retain_le hm_get_retain split: option.split)

lemma made_room:
  assumes "hm_wf (cc_entries c)"
  shows "hm_wf (made_room now c)"
    and "hm_get (made_room now c) k = Some e \<Longrightarrow> hm_get (cc_entries c) k = Some e"
    and "length (cc_entries c) \<le> max 1 (cc_max_entries c) \<Longrightarrow> length (made_room now c) \<le> max 1 (cc_max_entries c) - 1"
proof -
  define m where "m = (if length (cc_entries c) \<ge> cc_max_entries c then evict_expired now (cc_entries c) else cc_entries c)"
  have room: "made_room now c = (if length m \<ge> cc_max_entries c then evict_lru m else m)"
    by (simp add: made_room_def m_def Let_def)
  have wf: "hm_wf m" and len: "length m \<le> length (cc_entries c)"
    and sub: "\<And>k e. hm_get m k = Some e \<Longrightarrow> hm_get (cc_entries c) k = Some e"
    using assms evict_expired_wf [OF assms, of now] by (auto simp: m_def split: option.splits if_splits)
  note lru = evict_lru_wf [OF wf]
  show "hm_wf (made_room now c)"
    using wf lru by (simp add: room)
  show "hm_get (made_room now c) k = Some e \<Longrightarrow> hm_get (cc_entries c) k = Some e"
    using sub lru by (auto simp: room split: if_splits)
  show "length (made_room now c) \<le> max 1 (cc_max_entries c) - 1" if "length (cc_entries c) \<le> max 1 (cc_max_entries c)"
    using lru len that unfolding room by (cases "length m \<ge> cc_max_entries c") auto
qed

section \<open>Bound and soundness\<close>

definition cache_ok :: "nat \<Rightarrow> content_cache \<Rightarrow> bool" where
  "cache_ok n c \<longleftrightarrow> hm_wf (cc_entries c) \<and> cc_max_entries c = n \<and> length (cc_entries c) \<le> max 1 n"

lemma cache_ok_step: "cache_ok n c \<Longrightarrow> cache_ok n (cache_apply e c)"
proof (induction e c rule: cache_apply.induct)
  case (1 now cid c)
  then show ?case
    by (auto simp: cache_ok_def cache_get_def length_hm_insert split: option.splits)
next
  case (2 now cid data ty ttl c)
  then show ?case
    using made_room [of c now] by (auto simp: cache_ok_def cache_set_eq length_hm_insert)
next
  case (3 now cid c)
  then show ?case
    using length_hm_remove_le [of cid "cc_entries c"] by (auto simp: cache_ok_def cache_remove_def)
next
  case (4 now c)
  then show ?case
    using evict_expired_wf [of "cc_entries c" now] by (auto simp: cache_ok_def cache_clear_expired_def)
qed

interpretation cache_bound: call_machine cache_apply "cache_ok n" for n
  by unfold_locales (rule cache_ok_step)

text \<open>The cache keeps its size: after any calls it has at most \<open>max_entries\<close> entries, one if that is zero.\<close>

theorem cache_bounded:
  "length (cc_entries (fold cache_apply es (cache_with_config n ttl))) \<le> max 1 n"
proof -
  have "cache_ok n (cache_with_config n ttl)"
    by (simp add: cache_ok_def cache_with_config_def)
  then have "cache_ok n (fold cache_apply es (cache_with_config n ttl))"
    by (rule cache_bound.run_inv)
  then show ?thesis by (simp add: cache_ok_def)
qed

text \<open>What was stored last for each CID, by the calls alone.\<close>

fun note_set :: "instant \<times> cache_op \<Rightarrow> (string \<Rightarrow> (instant \<times> bytes \<times> string \<times> duration) option) \<Rightarrow>
    string \<Rightarrow> (instant \<times> bytes \<times> string \<times> duration) option" where
  "note_set (now, CacheSet cid data ty ttl) w = w(cid := Some (now, data, ty, ttl))"
| "note_set (now, CacheRemove cid) w = w(cid := None)"
| "note_set _ w = w"

definition faithful :: "(string \<Rightarrow> (instant \<times> bytes \<times> string \<times> duration) option) \<Rightarrow> content_cache \<Rightarrow> bool" where
  "faithful w c \<longleftrightarrow> hm_wf (cc_entries c) \<and>
     (\<forall>cid e. hm_get (cc_entries c) cid = Some e \<longrightarrow>
        w cid = Some (ca_created_at e, ca_data e, ca_content_type e, ca_ttl e))"

lemma faithful_step: "faithful w c \<Longrightarrow> faithful (note_set e w) (cache_apply e c)"
proof (induction e c rule: cache_apply.induct)
  case (1 now cid c)
  then show ?case by (auto simp: faithful_def cache_get_def split: option.splits)
next
  case (2 now cid data ty ttl c)
  then have "hm_wf (cc_entries c)" by (simp add: faithful_def)
  note room = made_room(1,2) [OF this]
  from 2 show ?case by (auto simp: faithful_def cache_set_eq room dest: room(2))
next
  case (3 now cid c)
  then show ?case by (auto simp: faithful_def cache_remove_def)
next
  case (4 now c)
  then show ?case by (auto simp: faithful_def cache_clear_expired_def evict_expired_wf split: option.splits if_splits)
qed

lemma faithful_run: "faithful w c \<Longrightarrow> faithful (fold note_set es w) (fold cache_apply es c)"
  by (induction es arbitrary: w c) (auto intro: faithful_step)

text \<open>The cache never answers with something else or something stale: what \<open>get\<close> returns is what was
  stored last for that CID, not removed since, and no older than the life time it was stored with.\<close>

theorem cache_sound:
  assumes "fst (cache_get now cid (fold cache_apply es (cache_with_config n ttl))) = Some (data, ty)"
  shows "\<exists>t life. fold note_set es (\<lambda>_. None) cid = Some (t, data, ty, life) \<and> elapsed now t \<le> life"
proof -
  have "faithful (fold note_set es (\<lambda>_. None)) (fold cache_apply es (cache_with_config n ttl))"
    by (rule faithful_run) (simp add: faithful_def cache_with_config_def)
  with assms show ?thesis
    by (auto simp: faithful_def cache_get_def cached_is_expired_def split: option.splits if_splits)
qed

theorem cache_sound_witness:
  "\<exists>t life. fold note_set [(3, CacheSet ''c'' [1] ''t'' 9)] (\<lambda>_. None) ''c'' = Some (t, [1], ''t'', life) \<and> elapsed 5 t \<le> life"
  by (rule cache_sound [of _ _ _ 7 0])
     (simp add: cache_set_eq cache_get_def cached_is_expired_def elapsed_def)

section \<open>What is used stays\<close>

text \<open>
  From the moment \<open>t\<close> a CID was last used on, every other entry used since is one of \<open>others\<close>; the entry
  is kept while it does not expire.
\<close>

definition kept :: "string \<Rightarrow> instant \<Rightarrow> instant \<Rightarrow> bytes \<times> string \<Rightarrow> string set \<Rightarrow> content_cache \<Rightarrow> bool" where
  "kept cid t limit what others c \<longleftrightarrow> hm_wf (cc_entries c) \<and> finite others \<and> Suc (card others) < cc_max_entries c \<and>
     (\<exists>e. hm_get (cc_entries c) cid = Some e \<and> t \<le> ca_last_accessed e \<and> (ca_data e, ca_content_type e) = what \<and>
        ca_created_at e + ca_ttl e = limit) \<and>
     (\<forall>k e. hm_get (cc_entries c) k = Some e \<and> k \<noteq> cid \<and> t \<le> ca_last_accessed e \<longrightarrow> k \<in> others)"

fun harmless :: "string \<Rightarrow> instant \<Rightarrow> instant \<Rightarrow> string set \<Rightarrow> instant \<times> cache_op \<Rightarrow> bool" where
  "harmless cid t limit others (now, CacheGet k) \<longleftrightarrow> t \<le> now \<and> now \<le> limit \<and> (k \<noteq> cid \<longrightarrow> k \<in> others)"
| "harmless cid t limit others (now, CacheSet k data ty ttl) \<longleftrightarrow> t \<le> now \<and> now \<le> limit \<and> k \<in> others - {cid}"
| "harmless cid t limit others (now, CacheRemove k) \<longleftrightarrow> t \<le> now \<and> now \<le> limit \<and> k \<noteq> cid"
| "harmless cid t limit others (now, CacheClear) \<longleftrightarrow> t \<le> now \<and> now \<le> limit"

lemma not_expired: "ca_created_at e + ca_ttl e = limit \<Longrightarrow> now \<le> limit \<Longrightarrow> \<not> cached_is_expired now e"
  by (auto simp: cached_is_expired_def elapsed_def)

lemma used_stays:
  assumes "hm_wf (cc_entries c)" "finite others" "Suc (card others) < cc_max_entries c"
    and "hm_get (cc_entries c) cid = Some e" "\<not> cached_is_expired now e" "t \<le> ca_last_accessed e"
    and "\<And>k e. hm_get (cc_entries c) k = Some e \<Longrightarrow> k \<noteq> cid \<Longrightarrow> t \<le> ca_last_accessed e \<Longrightarrow> k \<in> others"
  shows "hm_get (made_room now c) cid = Some e"
proof -
  define m where "m = (if length (cc_entries c) \<ge> cc_max_entries c then evict_expired now (cc_entries c) else cc_entries c)"
  have room: "made_room now c = (if length m \<ge> cc_max_entries c then evict_lru m else m)"
    by (simp add: made_room_def m_def Let_def)
  have wf: "hm_wf m" and cid: "hm_get m cid = Some e"
    and sub: "\<And>k e. hm_get m k = Some e \<Longrightarrow> hm_get (cc_entries c) k = Some e"
    using assms(4,5) evict_expired_wf [OF assms(1), of now] assms(1)
    by (auto simp: m_def split: option.splits if_splits)
  show ?thesis
  proof (cases "length m \<ge> cc_max_entries c")
    case True
    have "m \<noteq> []" using cid by auto
    then obtain k0 e0 where lru: "hm_get m k0 = Some e0" "evict_lru m = hm_remove k0 m"
        "\<And>k' e'. hm_get m k' = Some e' \<Longrightarrow> ca_last_accessed e0 \<le> ca_last_accessed e'"
      using wf by (metis evict_lru_cases)
    have "k0 \<noteq> cid"
    proof
      assume "k0 = cid"
      have "k \<in> insert cid others" if "(k, e') \<in> set m" for k e'
      proof -
        have "hm_get m k = Some e'" using that wf by (simp add: hm_get_iff_in_set)
        with lru(1,3) cid \<open>k0 = cid\<close> have "ca_last_accessed e \<le> ca_last_accessed e'" by fastforce
        with assms(6,7) sub \<open>hm_get m k = Some e'\<close> show ?thesis by fastforce
      qed
      then have "fst ` set m \<subseteq> insert cid others" by force
      then have "card (fst ` set m) \<le> card (insert cid others)"
        using assms(2) by (intro card_mono) auto
      moreover have "card (fst ` set m) = length m"
        using wf distinct_card [of "map fst m"] by (simp add: hm_wf_def)
      ultimately show False
        using True assms(2,3) card_insert_le_m1 by (simp add: card_insert_if split: if_splits)
    qed
    with True lru(2) cid show ?thesis by (simp add: room)
  next
    case False
    with cid show ?thesis by (simp add: room)
  qed
qed

lemma kept_step: "harmless cid t limit others e \<Longrightarrow> kept cid t limit what others c \<Longrightarrow> kept cid t limit what others (cache_apply e c)"
proof (induction e c rule: cache_apply.induct)
  case (1 now k c)
  then show ?case
    by (cases "k = cid") (auto simp: kept_def cache_get_def not_expired split: option.splits)
next
  case (2 now k data ty ttl c)
  then obtain e where e: "hm_get (cc_entries c) cid = Some e" "t \<le> ca_last_accessed e"
      "(ca_data e, ca_content_type e) = what" "ca_created_at e + ca_ttl e = limit"
    unfolding kept_def by blast
  have "hm_get (made_room now c) cid = Some e"
    using 2 e not_expired [OF e(4), of now] by (intro used_stays [of c others cid e now t]) (auto simp: kept_def)
  with 2 e show ?case
    using made_room(1,2) [of c now] by (auto simp: kept_def cache_set_eq)
next
  case (3 now k c)
  then show ?case by (auto simp: kept_def cache_remove_def)
next
  case (4 now c)
  then show ?case
    by (auto simp: kept_def cache_clear_expired_def evict_expired_wf not_expired split: option.splits if_splits)
qed

interpretation lru: guarded_machine cache_apply "harmless cid t limit others" "kept cid t limit what others"
  for cid t limit what others
  by unfold_locales (rule kept_step)

text \<open>What is used stays. Once \<open>get\<close> has returned an entry, later than every use of another one, it goes on
  returning it until its life time is over, as long as nobody removes or overwrites it and the others
  used meanwhile are fewer than the capacity less one - whatever order they come in.\<close>

theorem recently_used_stays:
  assumes "cache_get t cid c = (Some what, c')" "hm_wf (cc_entries c)"
    and "\<And>k e. hm_get (cc_entries c) k = Some e \<Longrightarrow> ca_last_accessed e < t"
    and "hm_get (cc_entries c) cid = Some e0"
    and "list_all (harmless cid t (ca_created_at e0 + ca_ttl e0) others) es"
    and "finite others" "card others + 1 < cc_max_entries c" "now \<le> ca_created_at e0 + ca_ttl e0"
  shows "fst (cache_get now cid (fold cache_apply es c')) = Some what"
proof -
  let ?limit = "ca_created_at e0 + ca_ttl e0"
  have "kept cid t ?limit what others c'"
    using assms(1-4,6,7) by (auto simp: kept_def cache_get_def not_less dest!: leD split: if_splits)
  then have "kept cid t ?limit what others (fold cache_apply es c')"
    by (rule lru.guarded_run [OF assms(5)])
  then show ?thesis
    using assms(8) not_expired by (auto simp: kept_def cache_get_def)
qed

theorem recently_used_stays_witness:
  "\<exists>c. fst (cache_get 9 ''a'' (fold cache_apply [(6, CacheSet ''b'' [2] ''t'' 50), (7, CacheSet ''b'' [3] ''t'' 50)] c)) = Some ([1], ''t'')"
proof -
  let ?e = "\<lparr>ca_data = [1], ca_content_type = ''t'', ca_created_at = 2, ca_last_accessed = 3, ca_ttl = 50\<rparr>"
  let ?c = "\<lparr>cc_entries = [(''a'', ?e)], cc_max_entries = 3, cc_default_ttl = 50\<rparr>"
  have "cache_get 5 ''a'' ?c = (Some ([1], ''t''), ?c\<lparr>cc_entries := [(''a'', ?e\<lparr>ca_last_accessed := 5\<rparr>)]\<rparr>)"
    by (simp add: cache_get_def cached_is_expired_def elapsed_def hm_get_def hm_insert_def)
  moreover have "ca_last_accessed e < 5" if "hm_get (cc_entries ?c) k = Some e" for k e
    using that by (auto simp: hm_get_def split: if_splits)
  ultimately show ?thesis
    by (intro exI, intro recently_used_stays [of 5 _ ?c _ _ ?e "{''b''}"]) (auto simp: hm_wf_def hm_get_def split: if_splits)
qed

end
