(* ===== verification/GatewayAuth.thy ===== *)
theory GatewayAuth
  imports ApiKeys RateLimit CidPath
begin

text \<open>
  Authentication in the gateway: the configured API keys with the namespaces they may touch, the public
  routes and the middleware of \<open>gateway/src/auth.rs\<close>, and the signed tokens of
  \<open>gateway/src/jwt.rs\<close>. SHA-256, HMAC, base64 and the JSON of the claims are third-party code and
  arguments. The comparison of keys in constant time is the comparison of their bytes; audit log,
  metrics and logging are left out.
\<close>

section \<open>Trimming\<close>

text \<open>The characters of the Unicode property White_Space, in UTF-8.\<close>

definition is_white_space :: "string \<Rightarrow> bool" where
  "is_white_space c =
     (case map code c of
        [n] \<Rightarrow> 9 \<le> n \<and> n \<le> 13 \<or> n = 32
      | [m, n] \<Rightarrow> m = 194 \<and> (n = 133 \<or> n = 160)
      | [l, m, n] \<Rightarrow>
          l = 225 \<and> m = 154 \<and> n = 128 \<or>
          l = 226 \<and> m = 128 \<and> (128 \<le> n \<and> n \<le> 138 \<or> n = 168 \<or> n = 169 \<or> n = 175) \<or>
          l = 226 \<and> m = 129 \<and> n = 159 \<or> l = 227 \<and> m = 128 \<and> n = 128
      | _ \<Rightarrow> False)"

definition rust_trim :: "string \<Rightarrow> string" where
  "rust_trim s =
     (let strip = dropWhile is_white_space in concat (rev (strip (rev (strip (rust_chars s))))))"

section \<open>Configured keys\<close>

record api_identity =
  id_name :: string
  id_admin :: bool
  id_namespaces :: "string list"

definition is_authorized_for :: "api_identity \<Rightarrow> string \<Rightarrow> bool" where
  "is_authorized_for i ns \<longleftrightarrow> id_admin i \<or> ns \<in> set (id_namespaces i)"

definition short_id :: "key_env \<Rightarrow> string \<Rightarrow> string" where
  "short_id K key = take 8 (hash_key K key)"

record auth_config =
  ac_keys :: "(string \<times> api_identity) list"
  ac_enabled :: bool
  ac_public_routes :: "string list"

definition public_routes :: "string list" where
  "public_routes =
     [''GET:/health'', ''GET:/ready'', ''GET:/metrics'', ''GET:/metrics/prometheus'',
      ''GET:/'', ''GET:/login'', ''GET:/new'', ''GET:/domains'', ''GET:/analytics'', ''GET:/settings'',
      ''GET:/projects/*'', ''GET:/deployments/*'', ''GET:/assets/*'',
      ''GET:/ipfs/*'',
      ''GET:/api/github/login'', ''GET:/api/github/callback'', ''GET:/api/github/status'',
      ''GET:/api/names/*'',
      ''GET:/:cid'']"

definition with_keys :: "(string \<times> api_identity) list \<Rightarrow> bool \<Rightarrow> auth_config" where
  "with_keys keys enabled = \<lparr>ac_keys = keys, ac_enabled = enabled, ac_public_routes = public_routes\<rparr>"

definition admin_identity :: "key_env \<Rightarrow> string \<Rightarrow> api_identity" where
  "admin_identity K key = \<lparr>id_name = short_id K key, id_admin = True, id_namespaces = []\<rparr>"

definition auth_new :: "key_env \<Rightarrow> string list \<Rightarrow> bool \<Rightarrow> auth_config" where
  "auth_new K keys enabled = with_keys (map (\<lambda>k. (k, admin_identity K k)) keys) enabled"

definition auth_disabled :: auth_config where
  "auth_disabled = \<lparr>ac_keys = [], ac_enabled = False, ac_public_routes = []\<rparr>"

definition parse_key_entry :: "key_env \<Rightarrow> string \<Rightarrow> string \<times> api_identity" where
  "parse_key_entry K entry =
     (case split_once CHR '':'' entry of
        (_, None) \<Rightarrow> (entry, admin_identity K entry)
      | (k, Some spec0) \<Rightarrow>
          (let key = rust_trim k; spec = rust_trim spec0 in
           if spec = ''*'' then (key, admin_identity K key)
           else (key, \<lparr>id_name = short_id K key, id_admin = False,
             id_namespaces = filter (\<lambda>n. n \<noteq> []) (map rust_trim (split_at CHR ''|'' spec))\<rparr>)))"

definition list_entries :: "string \<Rightarrow> string list" where
  "list_entries s = filter (\<lambda>e. e \<noteq> []) (map rust_trim (split_at CHR '','' s))"

text \<open>The variables \<open>SHADOWMESH_API_KEYS\<close> and \<open>SHADOWMESH_ADMIN_API_KEYS\<close>, when they are set.\<close>

definition from_env :: "key_env \<Rightarrow> string option \<Rightarrow> string option \<Rightarrow> auth_config" where
  "from_env K api_keys admin_keys =
     (let var = (\<lambda>v. case v of None \<Rightarrow> [] | Some s \<Rightarrow> s);
          keys = map (parse_key_entry K) (list_entries (var api_keys)) @
                 map (\<lambda>k. (k, admin_identity K k)) (list_entries (var admin_keys))
      in with_keys keys (keys \<noteq> []))"

definition is_valid_key :: "auth_config \<Rightarrow> string \<Rightarrow> bool" where
  "is_valid_key cfg key = fold (\<lambda>(valid, _) r. r \<or> length key = length valid \<and> key = valid) (ac_keys cfg) False"

fun scan_key :: "string \<Rightarrow> string \<times> api_identity \<Rightarrow> bool \<times> api_identity option \<Rightarrow> bool \<times> api_identity option" where
  "scan_key key (valid, i) (found, matched) =
     (if length key = length valid \<and> key = valid then (True, Some i) else (found, matched))"

definition authenticate :: "auth_config \<Rightarrow> string \<Rightarrow> api_identity option" where
  "authenticate cfg key =
     (case fold (scan_key key) (ac_keys cfg) (False, None) of
        (found, matched) \<Rightarrow> if found then matched else None)"

section \<open>Public routes\<close>

definition route_matches :: "string \<Rightarrow> string \<Rightarrow> string \<Rightarrow> bool" where
  "route_matches method path public_route \<longleftrightarrow>
     (let route_key = method @ '':'' @ path in
      route_key = public_route \<or>
      public_route \<noteq> [] \<and> last public_route = CHR ''*'' \<and> starts_with route_key (butlast public_route) \<or>
      public_route = ''GET:/:cid'' \<and> method = ''GET'' \<and>
        (let trimmed = dropWhile (\<lambda>c. c = CHR ''/'') path in
         CHR ''/'' \<notin> set trimmed \<and> validate_cid trimmed))"

definition is_public_route :: "auth_config \<Rightarrow> string \<Rightarrow> string \<Rightarrow> bool" where
  "is_public_route cfg method path \<longleftrightarrow>
     \<not> ac_enabled cfg \<or> list_ex (route_matches method path) (ac_public_routes cfg)"

section \<open>The middleware\<close>

text \<open>The request goes on, with the identity of its key unless the route is public; or it is refused with 401.\<close>

datatype auth_outcome = NextAs "api_identity option" | Unauthorized string string

definition api_key_auth :: "auth_config \<Rightarrow> string \<Rightarrow> string \<Rightarrow> http_request \<Rightarrow> auth_outcome" where
  "api_key_auth cfg method path req =
     (if is_public_route cfg method path then NextAs None
      else case extract_bearer_token req of
        Some key \<Rightarrow>
          (case authenticate cfg key of
             Some i \<Rightarrow> NextAs (Some i)
           | None \<Rightarrow> Unauthorized ''Invalid API key'' ''INVALID_API_KEY'')
      | None \<Rightarrow> Unauthorized
          (''API key required. Provide via '' @ [CHR 39] @ ''Authorization: Bearer <key>'' @ [CHR 39] @ '' header'')
          ''MISSING_API_KEY'')"

section \<open>Signed tokens\<close>

record claims =
  cl_sub :: string
  cl_login :: string
  cl_avatar_url :: "string option"
  cl_github_token :: string
  cl_iat :: u64
  cl_exp :: u64

record jwt_env =
  b64_encode :: "bytes \<Rightarrow> string"
  b64_decode :: "string \<Rightarrow> bytes option"
  hmac_sha256 :: "bytes \<Rightarrow> bytes \<Rightarrow> string + bytes" \<comment> \<open>key, message; \<open>Inl\<close> if the key is refused\<close>
  claims_to_json :: "claims \<Rightarrow> string + bytes"
  claims_from_json :: "bytes \<Rightarrow> claims option"

datatype jwt_error = MalformedToken | InvalidSecret | InvalidSignature | InvalidPayload | TokenExpired

fun jwt_error_text :: "jwt_error \<Rightarrow> string" where
  "jwt_error_text MalformedToken = ''Malformed token''"
| "jwt_error_text InvalidSecret = ''Invalid secret''"
| "jwt_error_text InvalidSignature = ''Invalid signature''"
| "jwt_error_text InvalidPayload = ''Invalid payload''"
| "jwt_error_text TokenExpired = ''Token expired''"

definition jwt_header :: string where
  "jwt_header =
     (let q = [CHR 34] in
      ''{'' @ q @ ''alg'' @ q @ '':'' @ q @ ''HS256'' @ q @ '','' @ q @ ''typ'' @ q @ '':'' @ q @ ''JWT'' @ q @ ''}'')"

definition jwt_encode :: "jwt_env \<Rightarrow> claims \<Rightarrow> bytes \<Rightarrow> string + string" where
  "jwt_encode J c secret =
     (let hdr = b64_encode J (str_bytes jwt_header)
      in case claims_to_json J c of
           Inl e \<Rightarrow> Inl (''serialize claims: '' @ e)
         | Inr b \<Rightarrow>
             let signing_input = hdr @ ''.'' @ b64_encode J b in
             (case hmac_sha256 J secret (str_bytes signing_input) of
                Inl e \<Rightarrow> Inl (''hmac init: '' @ e)
              | Inr mac \<Rightarrow> Inr (signing_input @ ''.'' @ b64_encode J mac)))"

definition jwt_decode :: "jwt_env \<Rightarrow> u64 \<Rightarrow> string \<Rightarrow> bytes \<Rightarrow> jwt_error + claims" where
  "jwt_decode J now token secret =
     (case split_at CHR ''.'' token of
        [hdr, body, sig] \<Rightarrow>
          (case hmac_sha256 J secret (str_bytes (hdr @ ''.'' @ body)) of
             Inl e \<Rightarrow> Inl InvalidSecret
           | Inr mac \<Rightarrow>
               (case b64_decode J sig of
                  None \<Rightarrow> Inl MalformedToken
                | Some sig_bytes \<Rightarrow>
                    if sig_bytes \<noteq> mac then Inl InvalidSignature
                    else (case b64_decode J body of
                            None \<Rightarrow> Inl MalformedToken
                          | Some payload \<Rightarrow>
                              (case claims_from_json J payload of
                                 None \<Rightarrow> Inl InvalidPayload
                               | Some c \<Rightarrow> if cl_exp c < now then Inl TokenExpired else Inr c))))
      | _ \<Rightarrow> Inl MalformedToken)"

text \<open>The variable \<open>SHADOWMESH_AUTH_SECRET\<close>, when it is set.\<close>

definition auth_secret :: "string option \<Rightarrow> bytes option" where
  "auth_secret var = (case var of None \<Rightarrow> None | Some s \<Rightarrow> if length s \<ge> 32 then Some (str_bytes s) else None)"

section \<open>Who gets through\<close>

lemma authenticate_fold:
  "fold (scan_key key) ks (f, m) =
   (case map_of (rev ks) key of Some i \<Rightarrow> (True, Some i) | None \<Rightarrow> (f, m))"
  by (induction ks arbitrary: f m) (auto simp: map_add_def split: option.splits)

text \<open>The identity is that of the last configured entry with the key.\<close>

lemma authenticate_eq: "authenticate cfg key = map_of (rev (ac_keys cfg)) key"
  by (simp add: authenticate_def authenticate_fold split: option.split)

lemma is_valid_key_eq: "is_valid_key cfg key \<longleftrightarrow> authenticate cfg key \<noteq> None"
proof -
  have "fold (\<lambda>(valid, _) r. r \<or> length key = length valid \<and> key = valid) ks b \<longleftrightarrow> b \<or> key \<in> fst ` set ks"
    for ks :: "(string \<times> api_identity) list" and b
    by (induction ks arbitrary: b) auto
  then show ?thesis
    by (simp add: is_valid_key_def authenticate_eq map_of_eq_None_iff)
qed

lemma from_env_simps [simp]:
  "ac_public_routes (from_env K a b) = public_routes"
  "ac_enabled (from_env K a b) \<longleftrightarrow> ac_keys (from_env K a b) \<noteq> []"
  by (simp_all add: from_env_def with_keys_def Let_def)

lemma method_prefix:
  "CHR '':'' \<notin> set m \<Longrightarrow> CHR '':'' \<notin> set n \<Longrightarrow> m @ CHR '':'' # x = n @ CHR '':'' # y \<longleftrightarrow> m = n \<and> x = y"
proof (induction m arbitrary: n)
  case Nil
  then show ?case by (cases n) auto
next
  case (Cons a m)
  then show ?case by (cases n) auto
qed

lemma starts_with_iff: "starts_with s p \<longleftrightarrow> (\<exists>r. s = p @ r)"
  by (auto simp: starts_with_def) (metis append_take_drop_id)

text \<open>The text of a public route after its method, if it is one.\<close>

definition route_path :: "string \<Rightarrow> string option" where
  "route_path r = rust_strip_prefix ''GET:'' r"

lemma public_routes_get: "list_all (\<lambda>r. route_path r \<noteq> None) public_routes"
  by code_simp

lemma public_only_get:
  assumes "route_matches verb path r" "r \<in> set public_routes" "CHR '':'' \<notin> set verb"
  shows "verb = ''GET''"
proof -
  from assms(2) obtain p where r: "r = ''GET:'' @ p"
    using public_routes_get by (force simp: list_all_iff route_path_def rust_strip_prefix_Some)
  from assms(1) consider "verb @ '':'' @ path = r" | "starts_with (verb @ '':'' @ path) (butlast r)" "p \<noteq> []" | "verb = ''GET''"
    using r by (cases p) (auto simp: route_matches_def Let_def)
  then show ?thesis
  proof cases
    case 1
    then show ?thesis
      using method_prefix [of verb "''GET''" path p] assms(3) r by auto
  next
    case 2
    then obtain q where "verb @ '':'' @ path = ''GET:'' @ butlast p @ q"
      by (auto simp: r starts_with_iff butlast_append)
    then show ?thesis
      using method_prefix [of verb "''GET''" path "butlast p @ q"] assms(3) by auto
  qed
qed

lemma deployments_protected:
  assumes "ac_keys (from_env K api_keys admin_keys) \<noteq> []"
    and "CHR '':'' \<notin> set method" "method \<noteq> ''GET'' \<or> (\<exists>rest. path = ''/api/deployments/'' @ rest)"
  shows "\<not> is_public_route (from_env K api_keys admin_keys) method path"
proof -
  have "\<not> route_matches ''GET'' (''/api/deployments/'' @ rest) r" if "r \<in> set public_routes" for r rest
    using that by (auto simp: public_routes_def route_matches_def starts_with_def Let_def)
  then show ?thesis
    using assms public_only_get by (auto simp: is_public_route_def list_ex_iff)
qed

text \<open>Only reads are public, and of the deployment API not even those: once a key is configured, a request
  with another method than GET, or under \<open>/api/deployments/\<close>, goes on only with a configured key, as the
  identity configured for it; any other is answered with 401.\<close>

theorem protected_needs_key:
  assumes "ac_keys (from_env K api_keys admin_keys) \<noteq> []"
    and "CHR '':'' \<notin> set method" "method \<noteq> ''GET'' \<or> (\<exists>rest. path = ''/api/deployments/'' @ rest)"
  shows "api_key_auth (from_env K api_keys admin_keys) method path req =
    (case extract_bearer_token req of
       None \<Rightarrow> Unauthorized
          (''API key required. Provide via '' @ [CHR 39] @ ''Authorization: Bearer <key>'' @ [CHR 39] @ '' header'')
          ''MISSING_API_KEY''
     | Some key \<Rightarrow>
         (case map_of (rev (ac_keys (from_env K api_keys admin_keys))) key of
            None \<Rightarrow> Unauthorized ''Invalid API key'' ''INVALID_API_KEY''
          | Some i \<Rightarrow> NextAs (Some i)))"
  using deployments_protected [OF assms] by (auto simp: api_key_auth_def authenticate_eq split: option.split)

section \<open>Tokens\<close>

text \<open>
  URL-safe base64 without padding has no full stop and is undone by decoding; parsing the JSON of claims
  gives them back.
\<close>

definition jwt_correct :: "jwt_env \<Rightarrow> bool" where
  "jwt_correct J \<longleftrightarrow>
     (\<forall>b. CHR ''.'' \<notin> set (b64_encode J b) \<and> b64_decode J (b64_encode J b) = Some b) \<and>
     (\<forall>c b. claims_to_json J c = Inr b \<longrightarrow> claims_from_json J b = Some c)"

lemma split_at_append: "d \<notin> set w \<Longrightarrow> split_at d (w @ d # s) = w # split_at d s"
  by (induction w) auto

lemma split_at_single: "d \<notin> set w \<Longrightarrow> split_at d w = [w]"
  by (induction w) auto

lemma jwt_encode_Inr:
  assumes "jwt_correct J" "jwt_encode J c secret = Inr token"
  obtains hdr b mac where "claims_to_json J c = Inr b"
    "hmac_sha256 J secret (str_bytes (hdr @ ''.'' @ b64_encode J b)) = Inr mac"
    "split_at CHR ''.'' token = [hdr, b64_encode J b, b64_encode J mac]"
proof -
  define hdr where "hdr = b64_encode J (str_bytes jwt_header)"
  obtain b mac where b: "claims_to_json J c = Inr b"
      "hmac_sha256 J secret (str_bytes (hdr @ ''.'' @ b64_encode J b)) = Inr mac"
      "token = hdr @ ''.'' @ b64_encode J b @ ''.'' @ b64_encode J mac"
    using assms(2) by (auto simp: jwt_encode_def hdr_def Let_def split: sum.splits)
  moreover have "split_at CHR ''.'' token = [hdr, b64_encode J b, b64_encode J mac]"
    using assms(1) by (simp add: b(3) hdr_def split_at_append split_at_single jwt_correct_def)
  ultimately show thesis by (intro that)
qed

text \<open>Tokens work between gateways with the same secret, and only there: the claims of a token come back
  until it expires, and a gateway whose HMAC differs from that of the issuer refuses its signature.\<close>

theorem jwt_roundtrip:
  assumes "jwt_correct J" "jwt_encode J c secret = Inr token"
  shows "jwt_decode J now token secret = (if cl_exp c < now then Inl TokenExpired else Inr c) \<and>
    (\<forall>other. (\<forall>m. \<exists>mac. hmac_sha256 J other m = Inr mac \<and> hmac_sha256 J secret m \<noteq> Inr mac) \<longrightarrow>
       jwt_decode J now token other = Inl InvalidSignature)"
  using assms
proof (rule jwt_encode_Inr)
  fix hdr b mac
  assume b: "claims_to_json J c = Inr b"
    and mac: "hmac_sha256 J secret (str_bytes (hdr @ ''.'' @ b64_encode J b)) = Inr mac"
    and parts: "split_at CHR ''.'' token = [hdr, b64_encode J b, b64_encode J mac]"
  have "jwt_decode J now token secret = (if cl_exp c < now then Inl TokenExpired else Inr c)"
    using assms(1) mac b by (simp add: jwt_decode_def parts jwt_correct_def)
  moreover have "jwt_decode J now token other = Inl InvalidSignature"
    if diff: "\<forall>m. \<exists>mac. hmac_sha256 J other m = Inr mac \<and> hmac_sha256 J secret m \<noteq> Inr mac" for other
  proof -
    obtain mac' where other: "hmac_sha256 J other (str_bytes (hdr @ ''.'' @ b64_encode J b)) = Inr mac'"
        "hmac_sha256 J secret (str_bytes (hdr @ ''.'' @ b64_encode J b)) \<noteq> Inr mac'"
      using diff by blast
    then have "mac' \<noteq> mac"
      unfolding mac by blast
    with other(1) show ?thesis
      using assms(1) by (simp add: jwt_decode_def parts jwt_correct_def)
  qed
  ultimately show ?thesis by blast
qed

text \<open>Nothing is accepted without its signature.\<close>

lemma jwt_decode_Inr:
  assumes "jwt_decode J now token secret = Inr c"
  shows "\<exists>hdr body sig mac payload. split_at CHR ''.'' token = [hdr, body, sig] \<and>
    hmac_sha256 J secret (str_bytes (hdr @ ''.'' @ body)) = Inr mac \<and> b64_decode J sig = Some mac \<and>
    b64_decode J body = Some payload \<and> claims_from_json J payload = Some c \<and> now \<le> cl_exp c"
  using assms by (auto simp: jwt_decode_def not_less split: list.splits sum.splits option.splits if_splits)

section \<open>Witnesses\<close>

fun hex_value :: "char \<Rightarrow> nat" where
  "hex_value c = (if code c < 58 then code c - 48 else code c - 87)"

fun unhex :: "string \<Rightarrow> bytes option" where
  "unhex [] = Some []"
| "unhex [a] = None"
| "unhex (a # b # s) = map_option (\<lambda>r. word_of_nat (16 * hex_value a + hex_value b) # r) (unhex s)"

lemma hex_value_digit: "n < 16 \<Longrightarrow> hex_value (hex_digit n) = n"
  by (auto simp: hex_digit_def code_def take_bit_eq_mod)

lemma unhex_hex: "unhex (hex_bytes b) = Some b"
proof (induction b)
  case (Cons w b)
  have "unat w < 2 ^ LENGTH(8)" by (rule unsigned_less)
  then have "unat w div 16 < 16" by (simp add: less_mult_imp_div_less)
  with Cons show ?case
    by (simp add: hex_bytes_def hex_value_digit del: hex_value.simps)
qed (simp add: hex_bytes_def)

definition demo_claims :: claims where
  "demo_claims = \<lparr>cl_sub = ''a'', cl_login = ''a'', cl_avatar_url = None, cl_github_token = ''t'', cl_iat = 1, cl_exp = 9\<rparr>"

definition demo_jwt :: jwt_env where
  "demo_jwt = \<lparr>b64_encode = hex_bytes, b64_decode = unhex, hmac_sha256 = \<lambda>k m. Inr (k @ m),
     claims_to_json = \<lambda>c. if c = demo_claims then Inr [1] else Inl [],
     claims_from_json = \<lambda>b. if b = [1] then Some demo_claims else None\<rparr>"

lemma hex_no_dot: "CHR ''.'' \<notin> set (hex_bytes b)"
proof -
  have digit: "hex_digit n \<noteq> CHR ''.''" if "n < 16" for n
    using that by (auto simp: hex_digit_def char_of_eq_iff take_bit_eq_mod)
  have "unat w < 2 ^ LENGTH(8)" for w :: u8
    by (rule unsigned_less)
  then have "unat w div 16 < 16" "unat w mod 16 < 16" for w :: u8
    by (simp_all add: less_mult_imp_div_less)
  then show ?thesis
    by (auto simp: hex_bytes_def digit [symmetric])
qed

theorem jwt_roundtrip_witness:
  "\<exists>token. jwt_encode demo_jwt demo_claims [7] = Inr token \<and> jwt_decode demo_jwt 5 token [7] = Inr demo_claims \<and>
     jwt_decode demo_jwt 5 token [8] = Inl InvalidSignature"
proof -
  obtain token where token: "jwt_encode demo_jwt demo_claims [7] = Inr token"
    by (simp add: jwt_encode_def demo_jwt_def Let_def)
  have "jwt_correct demo_jwt"
    by (auto simp: jwt_correct_def demo_jwt_def unhex_hex hex_no_dot split: if_splits)
  moreover have "\<forall>m. \<exists>mac. hmac_sha256 demo_jwt [8] m = Inr mac \<and> hmac_sha256 demo_jwt [7] m \<noteq> Inr mac"
    by (simp add: demo_jwt_def)
  ultimately show ?thesis
    using jwt_roundtrip [OF _ token, of 5] token by (auto simp: demo_claims_def)
qed

theorem protected_needs_key_witness:
  "api_key_auth (from_env demo_keys (Some ''k1:ns1|ns2'') None) ''PUT'' ''/api/deployments/ns1/kv/a''
     \<lparr>rq_connect_ip = None, rq_authorization = Some ''Bearer k1''\<rparr> =
   NextAs (Some \<lparr>id_name = short_id demo_keys ''k1'', id_admin = False, id_namespaces = [''ns1'', ''ns2'']\<rparr>)"
proof -
  let ?i = "\<lparr>id_name = short_id demo_keys ''k1'', id_admin = False, id_namespaces = [''ns1'', ''ns2'']\<rparr>"
  have e1: "list_entries [] = []"
    by code_simp
  have e2: "rust_trim ''k1'' = ''k1''"
    by code_simp
  have e3: "rust_trim ''ns1|ns2'' = ''ns1|ns2''"
    by code_simp
  have e4: "list_entries ''k1:ns1|ns2'' = [''k1:ns1|ns2'']"
    by code_simp
  have e5: "rust_trim ''ns1'' = ''ns1''" "rust_trim ''ns2'' = ''ns2''"
    by code_simp+
  note e = e1 e2 e3 e4 e5
  have keys: "ac_keys (from_env demo_keys (Some ''k1:ns1|ns2'') None) = [(''k1'', ?i)]"
    by (simp add: from_env_def with_keys_def parse_key_entry_def e Let_def)
  have "extract_bearer_token \<lparr>rq_connect_ip = None, rq_authorization = Some ''Bearer k1''\<rparr> = Some ''k1''"
    by code_simp
  then show ?thesis
    using protected_needs_key [of demo_keys "Some ''k1:ns1|ns2''" None "''PUT''"] keys by simp
qed

end
