(* ===== verification/GatewayTenants.thy ===== *)
theory GatewayTenants
  imports GatewayAuth KvStore Crypto
begin

text \<open>
  What the tenants of a gateway may do with the state of deployed applications: the encrypted secrets of
  \<open>gateway/src/secrets.rs\<close>, and the handlers of \<open>gateway/src/main.rs\<close> for key-value pairs and secrets with
  the authorization of namespaces, behind the middleware of GatewayAuth. A response is its status
  and what its body carries. The bytes drawn for a nonce are an argument.
\<close>

section \<open>Secrets\<close>

record encrypted_secret =
  es_ciphertext :: bytes
  es_nonce :: bytes

record secrets_manager =
  sm_secrets :: "(string, (string, encrypted_secret) hmap) hmap"
  sm_master_key :: bytes
  sm_max_namespaces :: nat

text \<open>The variable \<open>SHADOWMESH_SECRETS_KEY\<close> when it is set, else random bytes.\<close>

definition secrets_new :: "prims \<Rightarrow> string option \<Rightarrow> bytes \<Rightarrow> secrets_manager" where
  "secrets_new P var drawn =
     \<lparr>sm_secrets = [],
      sm_master_key = (case var of Some hex_key \<Rightarrow> blake3 P (str_bytes hex_key) | None \<Rightarrow> drawn),
      sm_max_namespaces = 10000\<rparr>"

definition set_secret ::
    "prims \<Rightarrow> bytes \<Rightarrow> string \<Rightarrow> string \<Rightarrow> bytes \<Rightarrow> secrets_manager \<Rightarrow> (string + unit) \<times> secrets_manager" where
  "set_secret P iv ns n v sm =
     (if hm_get (sm_secrets sm) ns = None \<and> length (sm_secrets sm) \<ge> sm_max_namespaces sm then
        (Inl (''Namespace limit reached ('' @ show_nat (sm_max_namespaces sm) @ '' namespaces)''), sm)
      else case aead_encrypt P (sm_master_key sm) iv v of
        Inl e \<Rightarrow> (Inl (''Encryption failed: '' @ e), sm)
      | Inr c \<Rightarrow>
          let m = (case hm_get (sm_secrets sm) ns of None \<Rightarrow> [] | Some m \<Rightarrow> m) in
          (Inr (), sm\<lparr>sm_secrets := hm_insert ns (hm_insert n \<lparr>es_ciphertext = c, es_nonce = iv\<rparr> m)
             (sm_secrets sm)\<rparr>))"

definition get_secret :: "prims \<Rightarrow> string \<Rightarrow> string \<Rightarrow> secrets_manager \<Rightarrow> string + bytes" where
  "get_secret P ns n sm =
     (case hm_get (sm_secrets sm) ns of
        None \<Rightarrow> Inl (''Namespace '' @ [CHR 39] @ ns @ [CHR 39] @ '' not found'')
      | Some m \<Rightarrow>
          (case hm_get m n of
             None \<Rightarrow> Inl (''Secret '' @ [CHR 39] @ n @ [CHR 39] @ '' not found'')
           | Some s \<Rightarrow> map_err (\<lambda>e. ''Decryption failed: '' @ e)
                         (aead_decrypt P (sm_master_key sm) (es_nonce s) (es_ciphertext s))))"

definition delete_secret :: "string \<Rightarrow> string \<Rightarrow> secrets_manager \<Rightarrow> bool \<times> secrets_manager" where
  "delete_secret ns n sm =
     (case hm_get (sm_secrets sm) ns of
        None \<Rightarrow> (False, sm)
      | Some m \<Rightarrow> (hm_get m n \<noteq> None, sm\<lparr>sm_secrets := hm_insert ns (hm_remove n m) (sm_secrets sm)\<rparr>))"

definition list_secrets :: "string \<Rightarrow> secrets_manager \<Rightarrow> string list" where
  "list_secrets ns sm = (case hm_get (sm_secrets sm) ns of None \<Rightarrow> [] | Some m \<Rightarrow> map fst m)"

text \<open>\<open>String::from_utf8\<close> is the argument \<open>utf8\<close>, true for valid UTF-8.\<close>

definition get_env_map :: "prims \<Rightarrow> (bytes \<Rightarrow> bool) \<Rightarrow> string \<Rightarrow> secrets_manager \<Rightarrow> (string, bytes) hmap" where
  "get_env_map P utf8 ns sm =
     (case hm_get (sm_secrets sm) ns of
        None \<Rightarrow> []
      | Some m \<Rightarrow>
          fold (\<lambda>(n, s) acc.
             case aead_decrypt P (sm_master_key sm) (es_nonce s) (es_ciphertext s) of
               Inl e \<Rightarrow> acc
             | Inr plain \<Rightarrow> if utf8 plain then hm_insert n plain acc else acc) m [])"

section \<open>Handlers\<close>

datatype tenant_request =
    KvGetRequest string string
  | KvPutRequest string string bytes
  | KvDeleteRequest string string
  | KvListRequest string
  | SecretsListRequest string
  | SecretsSetRequest string string bytes
  | SecretsDeleteRequest string string

datatype tenant_response =
    ErrorStatus nat string
  | Value bytes
  | Stored
  | StoredSecret string
  | Deleted bool
  | Names "string list"

record app_state =
  as_kv :: "kv_store option"
  as_secrets :: "secrets_manager option"

text \<open>What one call finds outside: the clock, drawn bytes, and third-party code.\<close>

record tenant_env =
  te_now :: instant
  te_nonce :: bytes
  te_base64 :: "bytes \<Rightarrow> string"
  te_prims :: prims

fun namespace_of :: "tenant_request \<Rightarrow> string" where
  "namespace_of (KvGetRequest cid key) = cid"
| "namespace_of (KvPutRequest cid key body) = cid"
| "namespace_of (KvDeleteRequest cid key) = cid"
| "namespace_of (KvListRequest cid) = cid"
| "namespace_of (SecretsListRequest cid) = cid"
| "namespace_of (SecretsSetRequest cid n v) = cid"
| "namespace_of (SecretsDeleteRequest cid n) = cid"

definition authorize_namespace :: "api_identity option \<Rightarrow> string \<Rightarrow> tenant_response + unit" where
  "authorize_namespace ident cid =
     (case ident of
        Some i \<Rightarrow> if \<not> is_authorized_for i cid
                  then Inl (ErrorStatus 403 ''Not authorized for this deployment namespace'') else Inr ()
      | None \<Rightarrow> Inr ())"

definition kv_get_handler ::
    "tenant_env \<Rightarrow> api_identity option \<Rightarrow> string \<Rightarrow> string \<Rightarrow> app_state \<Rightarrow> tenant_response \<times> app_state" where
  "kv_get_handler E ident cid key s =
     (case authorize_namespace ident cid of
        Inl resp \<Rightarrow> (resp, s)
      | Inr _ \<Rightarrow>
          (case as_kv s of
             None \<Rightarrow> (ErrorStatus 503 ''KV store disabled'', s)
           | Some kv \<Rightarrow>
               (case kv_get (te_now E) cid key kv of
                  (Some v, kv') \<Rightarrow> (Value v, s\<lparr>as_kv := Some kv'\<rparr>)
                | (None, kv') \<Rightarrow> (ErrorStatus 404 ''Key not found'', s\<lparr>as_kv := Some kv'\<rparr>))))"

definition kv_put_handler ::
    "tenant_env \<Rightarrow> api_identity option \<Rightarrow> string \<Rightarrow> string \<Rightarrow> bytes \<Rightarrow> app_state \<Rightarrow> tenant_response \<times> app_state" where
  "kv_put_handler E ident cid key body s =
     (case authorize_namespace ident cid of
        Inl resp \<Rightarrow> (resp, s)
      | Inr _ \<Rightarrow>
          (case as_kv s of
             None \<Rightarrow> (ErrorStatus 503 ''KV store disabled'', s)
           | Some kv \<Rightarrow>
               (case kv_put (te_base64 E) (te_now E) cid key body None kv of
                  (Inr _, kv') \<Rightarrow> (Stored, s\<lparr>as_kv := Some kv'\<rparr>)
                | (Inl e, kv') \<Rightarrow> (ErrorStatus 400 e, s\<lparr>as_kv := Some kv'\<rparr>))))"

definition kv_delete_handler ::
    "tenant_env \<Rightarrow> api_identity option \<Rightarrow> string \<Rightarrow> string \<Rightarrow> app_state \<Rightarrow> tenant_response \<times> app_state" where
  "kv_delete_handler E ident cid key s =
     (case authorize_namespace ident cid of
        Inl resp \<Rightarrow> (resp, s)
      | Inr _ \<Rightarrow>
          (case as_kv s of
             None \<Rightarrow> (ErrorStatus 503 ''KV store disabled'', s)
           | Some kv \<Rightarrow> (case kv_delete cid key kv of (b, kv') \<Rightarrow> (Deleted b, s\<lparr>as_kv := Some kv'\<rparr>))))"

definition kv_list_handler ::
    "tenant_env \<Rightarrow> api_identity option \<Rightarrow> string \<Rightarrow> app_state \<Rightarrow> tenant_response \<times> app_state" where
  "kv_list_handler E ident cid s =
     (case authorize_namespace ident cid of
        Inl resp \<Rightarrow> (resp, s)
      | Inr _ \<Rightarrow>
          (case as_kv s of
             None \<Rightarrow> (ErrorStatus 503 ''KV store disabled'', s)
           | Some kv \<Rightarrow> (Names (kv_list_keys (te_now E) cid None kv), s)))"

definition secrets_list_handler ::
    "tenant_env \<Rightarrow> api_identity option \<Rightarrow> string \<Rightarrow> app_state \<Rightarrow> tenant_response \<times> app_state" where
  "secrets_list_handler E ident cid s =
     (case authorize_namespace ident cid of
        Inl resp \<Rightarrow> (resp, s)
      | Inr _ \<Rightarrow>
          (case as_secrets s of
             None \<Rightarrow> (ErrorStatus 503 ''Secrets disabled'', s)
           | Some sm \<Rightarrow> (Names (list_secrets cid sm), s)))"

definition secrets_set_handler ::
    "tenant_env \<Rightarrow> api_identity option \<Rightarrow> string \<Rightarrow> string \<Rightarrow> bytes \<Rightarrow> app_state \<Rightarrow> tenant_response \<times> app_state" where
  "secrets_set_handler E ident cid n v s =
     (case authorize_namespace ident cid of
        Inl resp \<Rightarrow> (resp, s)
      | Inr _ \<Rightarrow>
          (case as_secrets s of
             None \<Rightarrow> (ErrorStatus 503 ''Secrets disabled'', s)
           | Some sm \<Rightarrow>
               (case set_secret (te_prims E) (te_nonce E) cid n v sm of
                  (Inr _, sm') \<Rightarrow> (StoredSecret n, s\<lparr>as_secrets := Some sm'\<rparr>)
                | (Inl e, sm') \<Rightarrow> (ErrorStatus 500 e, s\<lparr>as_secrets := Some sm'\<rparr>))))"

definition secrets_delete_handler ::
    "tenant_env \<Rightarrow> api_identity option \<Rightarrow> string \<Rightarrow> string \<Rightarrow> app_state \<Rightarrow> tenant_response \<times> app_state" where
  "secrets_delete_handler E ident cid n s =
     (case authorize_namespace ident cid of
        Inl resp \<Rightarrow> (resp, s)
      | Inr _ \<Rightarrow>
          (case as_secrets s of
             None \<Rightarrow> (ErrorStatus 503 ''Secrets disabled'', s)
           | Some sm \<Rightarrow> (case delete_secret cid n sm of (b, sm') \<Rightarrow> (Deleted b, s\<lparr>as_secrets := Some sm'\<rparr>))))"

section \<open>Routing\<close>

fun tenant_method :: "tenant_request \<Rightarrow> string" where
  "tenant_method (KvGetRequest cid key) = ''GET''"
| "tenant_method (KvPutRequest cid key body) = ''PUT''"
| "tenant_method (KvDeleteRequest cid key) = ''DELETE''"
| "tenant_method (KvListRequest cid) = ''GET''"
| "tenant_method (SecretsListRequest cid) = ''GET''"
| "tenant_method (SecretsSetRequest cid n v) = ''POST''"
| "tenant_method (SecretsDeleteRequest cid n) = ''DELETE''"

fun dispatch :: "tenant_env \<Rightarrow> api_identity option \<Rightarrow> tenant_request \<Rightarrow> app_state \<Rightarrow> tenant_response \<times> app_state" where
  "dispatch E i (KvGetRequest cid key) s = kv_get_handler E i cid key s"
| "dispatch E i (KvPutRequest cid key body) s = kv_put_handler E i cid key body s"
| "dispatch E i (KvDeleteRequest cid key) s = kv_delete_handler E i cid key s"
| "dispatch E i (KvListRequest cid) s = kv_list_handler E i cid s"
| "dispatch E i (SecretsListRequest cid) s = secrets_list_handler E i cid s"
| "dispatch E i (SecretsSetRequest cid n v) s = secrets_set_handler E i cid n v s"
| "dispatch E i (SecretsDeleteRequest cid n) s = secrets_delete_handler E i cid n s"

text \<open>
  A request with its headers and its path, whose percent-encoded segments the router decodes into
  the parameters of the handler. Without configured keys the middleware is not installed.
\<close>

type_synonym tenant_call = "tenant_env \<times> http_request \<times> string \<times> tenant_request"

definition serve :: "auth_config \<Rightarrow> tenant_call \<Rightarrow> app_state \<Rightarrow> tenant_response \<times> app_state" where
  "serve cfg = (\<lambda>(E, http, path, req) s.
     if ac_enabled cfg then
       (case api_key_auth cfg (tenant_method req) (''/api/deployments/'' @ path) http of
          NextAs i \<Rightarrow> dispatch E i req s
        | Unauthorized e _ \<Rightarrow> (ErrorStatus 401 e, s))
     else dispatch E None req s)"

section \<open>Tenants are isolated\<close>

text \<open>The call is about another namespace, or its key does not give access to this one.\<close>

definition outsider :: "auth_config \<Rightarrow> string \<Rightarrow> tenant_call \<Rightarrow> bool" where
  "outsider cfg ns = (\<lambda>(E, http, path, req).
     namespace_of req \<noteq> ns \<or>
     \<not> (\<exists>key i. extract_bearer_token http = Some key \<and> map_of (rev (ac_keys cfg)) key = Some i \<and>
          is_authorized_for i ns))"

definition tenant_view :: "string \<Rightarrow> app_state \<Rightarrow> kv_namespace option option \<times> (string, encrypted_secret) hmap option option" where
  "tenant_view ns s =
     (map_option (\<lambda>kv. hm_get (kv_namespaces kv) ns) (as_kv s), map_option (\<lambda>sm. hm_get (sm_secrets sm) ns) (as_secrets s))"

lemma dispatch_other:
  "namespace_of req \<noteq> ns \<Longrightarrow> tenant_view ns (snd (dispatch E i req s)) = tenant_view ns s"
  by (cases req)
     (auto simp: tenant_view_def kv_get_handler_def kv_put_handler_def kv_delete_handler_def kv_list_handler_def
       secrets_list_handler_def secrets_set_handler_def secrets_delete_handler_def
       kv_get_def kv_put_def kv_delete_def set_secret_def delete_secret_def Let_def
       split: sum.split option.split)

lemma dispatch_denied:
  "\<not> is_authorized_for i (namespace_of req) \<Longrightarrow>
   dispatch E (Some i) req s = (ErrorStatus 403 ''Not authorized for this deployment namespace'', s)"
  by (cases req)
     (simp_all add: authorize_namespace_def kv_get_handler_def kv_put_handler_def kv_delete_handler_def
       kv_list_handler_def secrets_list_handler_def secrets_set_handler_def secrets_delete_handler_def)

lemma tenant_method_no_colon: "CHR '':'' \<notin> set (tenant_method req)"
  by (cases req) simp_all

lemma serve_protected:
  assumes "ac_keys (from_env K a b) \<noteq> []"
  shows "serve (from_env K a b) (E, http, path, req) s =
    (case extract_bearer_token http of
       None \<Rightarrow> (ErrorStatus 401
          (''API key required. Provide via '' @ [CHR 39] @ ''Authorization: Bearer <key>'' @ [CHR 39] @ '' header''), s)
     | Some key \<Rightarrow>
         (case map_of (rev (ac_keys (from_env K a b))) key of
            None \<Rightarrow> (ErrorStatus 401 ''Invalid API key'', s)
          | Some i \<Rightarrow> dispatch E (Some i) req s))"
proof -
  have "\<not> is_public_route (from_env K a b) (tenant_method req) (''/api/deployments/'' @ path)"
    using assms tenant_method_no_colon by (intro deployments_protected) auto
  then show ?thesis
    using assms by (auto simp: serve_def api_key_auth_def authenticate_eq split: option.split)
qed

lemma outsider_step:
  assumes "ac_keys (from_env K a b) \<noteq> []" "outsider (from_env K a b) ns e"
  shows "tenant_view ns (snd (serve (from_env K a b) e s)) = tenant_view ns s"
proof -
  obtain E http path req where e: "e = (E, http, path, req)" by (metis prod.exhaust)
  show ?thesis
  proof (cases "namespace_of req = ns")
    case True
    with assms(2) show ?thesis
      by (auto simp: e serve_protected [OF assms(1)] outsider_def dispatch_denied split: option.split)
  next
    case False
    then show ?thesis
      by (simp add: e serve_protected [OF assms(1)] dispatch_other split: option.split)
  qed
qed

text \<open>
  The configurations the gateway starts with: read from the environment, with at least one key.
\<close>

definition configured :: "auth_config \<Rightarrow> bool" where
  "configured cfg \<longleftrightarrow> (\<exists>K a b. cfg = from_env K a b) \<and> ac_keys cfg \<noteq> []"

interpretation tenants:
  guarded_machine "\<lambda>e s. snd (serve cfg e s)" "\<lambda>e. configured cfg \<and> outsider cfg ns e" "\<lambda>s. tenant_view ns s = v"
  for cfg ns v
  by unfold_locales (auto simp: configured_def outsider_step)

text \<open>C19. Tenants cannot reach each other. With at least one configured key, whatever requests for key-value
  pairs and secrets arrive, those for other namespaces and those whose key was not given access to this
  one leave its pairs and its secrets exactly as they are; and each of the latter that asks for it is
  answered with 401 or 403 and learns nothing.\<close>

theorem tenants_isolated:
  assumes "ac_keys (from_env K api_keys admin_keys) \<noteq> []"
    and "list_all (outsider (from_env K api_keys admin_keys) ns) es"
  shows "tenant_view ns (fold (\<lambda>e s. snd (serve (from_env K api_keys admin_keys) e s)) es s) = tenant_view ns s \<and>
    (\<forall>E http path req s'. namespace_of req = ns \<and> outsider (from_env K api_keys admin_keys) ns (E, http, path, req) \<longrightarrow>
       (\<exists>status msg. serve (from_env K api_keys admin_keys) (E, http, path, req) s' = (ErrorStatus status msg, s') \<and>
          status \<in> {401, 403}))"
proof -
  let ?cfg = "from_env K api_keys admin_keys"
  have "configured ?cfg"
    using assms(1) by (auto simp: configured_def)
  then have "tenant_view ns (fold (\<lambda>e s. snd (serve ?cfg e s)) es s) = tenant_view ns s"
    using assms(2) by (intro tenants.guarded_run) (auto simp: list_all_iff)
  moreover have "\<exists>status msg. serve ?cfg (E, http, path, req) s' = (ErrorStatus status msg, s') \<and> status \<in> {401, 403}"
    if "namespace_of req = ns" "outsider ?cfg ns (E, http, path, req)" for E http path req s'
    using that by (auto simp: serve_protected [OF assms(1)] outsider_def dispatch_denied split: option.split)
  ultimately show ?thesis by blast
qed

section \<open>Secrets come back\<close>

lemma secret_roundtrip:
  assumes "aead_correct P" "length (sm_master_key sm) = 32" "length iv = 12" "length v \<le> aead_limit"
    and "set_secret P iv ns n v sm = (Inr (), sm')"
  shows "get_secret P ns n sm' = Inr v"
proof -
  obtain c where "aead_encrypt P (sm_master_key sm) iv v = Inr c" "aead_decrypt P (sm_master_key sm) iv c = Inr v"
    using aead_correctE [OF assms(1-4)] by blast
  with assms(5) show ?thesis
    by (auto simp: set_secret_def get_secret_def Let_def split: if_splits)
qed

section \<open>Witness\<close>

definition demo_tenant_env :: tenant_env where
  "demo_tenant_env = \<lparr>te_now = 1, te_nonce = [], te_base64 = \<lambda>_. [], te_prims = demo_prims\<rparr>"

definition demo_tenant_call :: "string \<Rightarrow> tenant_request \<Rightarrow> tenant_call" where
  "demo_tenant_call auth req = (demo_tenant_env, \<lparr>rq_connect_ip = None, rq_authorization = Some auth\<rparr>, ''x'', req)"

theorem tenants_isolated_witness:
  "let cfg = from_env demo_keys (Some ''k1:ns1,k2:ns2'') None;
       kv = kv_new \<lparr>kc_max_keys_per_namespace = 5, kc_max_value_size_bytes = 5, kc_max_namespaces = 5\<rparr> False;
       s = snd (serve cfg (demo_tenant_call ''Bearer k1'' (KvPutRequest ''ns1'' ''a'' [1])) \<lparr>as_kv = Some kv, as_secrets = None\<rparr>);
       es = [demo_tenant_call ''Bearer k2'' (KvDeleteRequest ''ns1'' ''a''), demo_tenant_call ''Bearer k3'' (KvPutRequest ''ns1'' ''a'' [2]),
             demo_tenant_call ''Bearer k2'' (KvPutRequest ''ns2'' ''a'' [3])]
   in tenant_view ''ns1'' s = (Some (Some [(''a'', \<lparr>ke_value = [1], ke_expires_at = None\<rparr>)]), None) \<and>
     tenant_view ''ns1'' (fold (\<lambda>e s. snd (serve cfg e s)) es s) = tenant_view ''ns1'' s"
proof -
  let ?cfg = "from_env demo_keys (Some ''k1:ns1,k2:ns2'') None"
  let ?i = "\<lambda>k n. \<lparr>id_name = short_id demo_keys k, id_admin = False, id_namespaces = [n]\<rparr>"
  have "list_entries ''k1:ns1,k2:ns2'' = [''k1:ns1'', ''k2:ns2'']" "list_entries [] = []"
    "rust_trim ''k1'' = ''k1''" "rust_trim ''k2'' = ''k2''" "rust_trim ''ns1'' = ''ns1''" "rust_trim ''ns2'' = ''ns2''"
    by code_simp+
  then have keys: "ac_keys ?cfg = [(''k1'', ?i ''k1'' ''ns1''), (''k2'', ?i ''k2'' ''ns2'')]"
    by (simp add: from_env_def with_keys_def parse_key_entry_def Let_def)
  have token: "extract_bearer_token \<lparr>rq_connect_ip = None, rq_authorization = Some ''Bearer k1''\<rparr> = Some ''k1''"
    "extract_bearer_token \<lparr>rq_connect_ip = None, rq_authorization = Some ''Bearer k2''\<rparr> = Some ''k2''"
    "extract_bearer_token \<lparr>rq_connect_ip = None, rq_authorization = Some ''Bearer k3''\<rparr> = Some ''k3''"
    by code_simp+
  let ?es = "[demo_tenant_call ''Bearer k2'' (KvDeleteRequest ''ns1'' ''a''), demo_tenant_call ''Bearer k3'' (KvPutRequest ''ns1'' ''a'' [2]),
             demo_tenant_call ''Bearer k2'' (KvPutRequest ''ns2'' ''a'' [3])]"
  have "ac_keys ?cfg \<noteq> []" "list_all (outsider ?cfg ''ns1'') ?es"
    by (simp_all add: keys token outsider_def demo_tenant_call_def is_authorized_for_def)
  note isolated = tenants_isolated [OF this]
  have "tenant_view ''ns1'' (snd (serve ?cfg (demo_tenant_call ''Bearer k1'' (KvPutRequest ''ns1'' ''a'' [1]))
      \<lparr>as_kv = Some (kv_new \<lparr>kc_max_keys_per_namespace = 5, kc_max_value_size_bytes = 5, kc_max_namespaces = 5\<rparr> False),
        as_secrets = None\<rparr>)) = (Some (Some [(''a'', \<lparr>ke_value = [1], ke_expires_at = None\<rparr>)]), None)"
    using serve_protected [OF \<open>ac_keys ?cfg \<noteq> []\<close>]
    by (simp add: Let_def demo_tenant_call_def keys token kv_put_handler_def authorize_namespace_def
        is_authorized_for_def demo_tenant_env_def kv_put_def kv_new_def tenant_view_def hm_insert_def hm_get_def)
  with isolated show ?thesis
    unfolding Let_def by blast
qed

end
