(* ===== verification/Signaling.thy ===== *)
theory Signaling
  imports Prelude
begin

text \<open>
  The WebRTC signaling server of the gateway, \<open>gateway/src/signaling.rs\<close>, with the messages and the tracked
  peers of \<open>protocol/src/signaling.rs\<close>: clients on WebSockets announce a peer id, look for others, and have
  offers, answers and candidates relayed.

  One event of a connection is one step under its locks. What is sent to a connection is appended to
  \<open>sg_sent\<close>; the channel of 100 messages between it and the socket is taken to be drained (a client that
  does not read makes the server wait with its locks held, which is not modelled). JSON, the parsing
  of libp2p identifiers and the Unix clock are arguments.
\<close>

section \<open>Messages\<close>

record announce_message =
  am_peer_id :: string
  am_multiaddrs :: "string list"
  am_transports :: "string list"
  am_metadata :: "(string, string) hmap"

record discover_message =
  dm_peer_id :: string
  dm_max_peers :: nat
  dm_transport_filter :: "string option"
  dm_region_filter :: "string option"

record peer_info =
  pi_peer_id :: string
  pi_multiaddrs :: "string list"
  pi_transports :: "string list"
  pi_metadata :: "(string, string) hmap"
  pi_last_seen :: u64

record peers_message =
  ps_peers :: "peer_info list"
  ps_total_peers :: nat

record sdp_message =
  so_from :: string
  so_to :: string
  so_sdp :: string
  so_session_id :: string

record ice_candidate_message =
  ic_from :: string
  ic_to :: string
  ic_candidate :: string
  ic_sdp_mid :: "string option"
  ic_sdp_mline_index :: "16 word option"
  ic_session_id :: string

record heartbeat_message =
  hb_peer_id :: string
  hb_timestamp :: u64

datatype signaling_error_code =
    InvalidMessage | PeerNotFound | RateLimitExceeded | SessionExpired | InternalError | UnauthorizedPeer | MessageTooLarge

record error_message =
  em_code :: signaling_error_code
  em_message :: string
  em_request_id :: "string option"

record peer_disconnected_message =
  pd_peer_id :: string
  pd_reason :: "string option"

datatype signaling_message =
    Announce announce_message
  | Discover discover_message
  | Peers peers_message
  | Offer sdp_message
  | Answer sdp_message
  | IceCandidate ice_candidate_message
  | Heartbeat heartbeat_message
  | SignalingError error_message
  | PeerDisconnected peer_disconnected_message

section \<open>Tracked peers\<close>

record signaling_env =
  sj_to_json :: "signaling_message \<Rightarrow> string option"
  sj_from_json :: "string \<Rightarrow> string + signaling_message"
  sj_parse_peer :: "string \<Rightarrow> bytes option"
  sj_parse_addr :: "string \<Rightarrow> string option" \<comment> \<open>a multiaddress that parses, as it is printed\<close>

record tracked_peer =
  tp_peer_id :: string
  tp_parsed_peer_id :: "bytes option"
  tp_multiaddrs :: "string list"
  tp_transports :: "string list"
  tp_metadata :: "(string, string) hmap"
  tp_last_heartbeat :: instant
  tp_connection_id :: "string option"

definition from_announce :: "signaling_env \<Rightarrow> instant \<Rightarrow> announce_message \<Rightarrow> string option \<Rightarrow> tracked_peer" where
  "from_announce J now m conn =
     \<lparr>tp_peer_id = am_peer_id m, tp_parsed_peer_id = sj_parse_peer J (am_peer_id m),
      tp_multiaddrs = List.map_filter (sj_parse_addr J) (am_multiaddrs m),
      tp_transports = am_transports m, tp_metadata = am_metadata m, tp_last_heartbeat = now,
      tp_connection_id = conn\<rparr>"

definition peer_heartbeat :: "instant \<Rightarrow> tracked_peer \<Rightarrow> tracked_peer" where
  "peer_heartbeat now p = p\<lparr>tp_last_heartbeat := now\<rparr>"

definition peer_is_stale :: "instant \<Rightarrow> duration \<Rightarrow> tracked_peer \<Rightarrow> bool" where
  "peer_is_stale now timeout p \<longleftrightarrow> elapsed now (tp_last_heartbeat p) > timeout"

definition to_peer_info :: "u64 \<Rightarrow> tracked_peer \<Rightarrow> peer_info" where
  "to_peer_info unix p =
     \<lparr>pi_peer_id = tp_peer_id p, pi_multiaddrs = tp_multiaddrs p, pi_transports = tp_transports p,
      pi_metadata = tp_metadata p, pi_last_seen = unix\<rparr>"

section \<open>The server\<close>

record signaling_config =
  sc_max_peers :: nat
  sc_session_timeout_secs :: u64
  sc_heartbeat_interval_secs :: u64
  sc_max_message_size :: nat
  sc_enable_discovery :: bool

definition signaling_config_default :: signaling_config where
  "signaling_config_default = \<lparr>sc_max_peers = 1000, sc_session_timeout_secs = 300,
     sc_heartbeat_interval_secs = 30, sc_max_message_size = 65536, sc_enable_discovery = True\<rparr>"

record connection =
  cn_peer_id :: "string option"
  cn_last_activity :: instant

record signaling_server =
  sg_config :: signaling_config
  sg_connections :: "(string, connection) hmap"
  sg_peers :: "(string, tracked_peer) hmap"
  sg_peer_connections :: "(string, string) hmap"
  sg_sent :: "(string \<times> string) list"

definition signaling_new :: "signaling_config \<Rightarrow> signaling_server" where
  "signaling_new cfg = \<lparr>sg_config = cfg, sg_connections = [], sg_peers = [], sg_peer_connections = [], sg_sent = []\<rparr>"

definition send_text :: "string \<Rightarrow> string \<Rightarrow> signaling_server \<Rightarrow> signaling_server" where
  "send_text conn json s =
     (if hm_get (sg_connections s) conn = None then s else s\<lparr>sg_sent := sg_sent s @ [(conn, json)]\<rparr>)"

definition send_to_connection :: "signaling_env \<Rightarrow> string \<Rightarrow> signaling_message \<Rightarrow> signaling_server \<Rightarrow> signaling_server" where
  "send_to_connection J conn m s = (case sj_to_json J m of None \<Rightarrow> s | Some json \<Rightarrow> send_text conn json s)"

definition send_error ::
    "signaling_env \<Rightarrow> string \<Rightarrow> signaling_error_code \<Rightarrow> string \<Rightarrow> signaling_server \<Rightarrow> signaling_server" where
  "send_error J conn err msg =
     send_to_connection J conn (SignalingError \<lparr>em_code = err, em_message = msg, em_request_id = None\<rparr>)"

definition handle_announce ::
    "signaling_env \<Rightarrow> instant \<Rightarrow> string \<Rightarrow> announce_message \<Rightarrow> signaling_server \<Rightarrow> (string + unit) \<times> signaling_server" where
  "handle_announce J now conn m s =
     (if length (sg_peers s) \<ge> sc_max_peers (sg_config s) then
        (Inl ''Max peers reached'', send_error J conn RateLimitExceeded ''Maximum peer limit reached'' s)
      else
        let peer = am_peer_id m;
            peers = hm_insert peer (from_announce J now m (Some conn)) (sg_peers s);
            s1 = s\<lparr>sg_peers := peers,
                   sg_peer_connections := hm_insert peer conn (sg_peer_connections s),
                   sg_connections := hm_modify conn (\<lambda>c. c\<lparr>cn_peer_id := Some peer\<rparr>) (sg_connections s)\<rparr>
        in (Inr (), send_to_connection J conn (Peers \<lparr>ps_peers = [], ps_total_peers = length peers\<rparr>) s1))"

definition matches_discover :: "instant \<Rightarrow> duration \<Rightarrow> discover_message \<Rightarrow> tracked_peer \<Rightarrow> bool" where
  "matches_discover now timeout d p \<longleftrightarrow>
     tp_peer_id p \<noteq> dm_peer_id d \<and> \<not> peer_is_stale now timeout p \<and>
     (case dm_transport_filter d of None \<Rightarrow> True | Some f \<Rightarrow> f \<in> set (tp_transports p)) \<and>
     (case dm_region_filter d of None \<Rightarrow> True | Some r \<Rightarrow> hm_get (tp_metadata p) ''region'' = Some r)"

definition handle_discover ::
    "signaling_env \<Rightarrow> instant \<Rightarrow> u64 \<Rightarrow> string \<Rightarrow> discover_message \<Rightarrow> signaling_server \<Rightarrow>
     (string + unit) \<times> signaling_server" where
  "handle_discover J now unix conn d s =
     (if \<not> sc_enable_discovery (sg_config s) then
        (Inl ''Discovery disabled'', send_error J conn UnauthorizedPeer ''Peer discovery is disabled'' s)
      else
        let timeout = from_secs (unat (sc_session_timeout_secs (sg_config s)));
            available = take (dm_max_peers d)
              (map (to_peer_info unix) (filter (matches_discover now timeout d) (hm_values (sg_peers s))))
        in (Inr (), send_to_connection J conn
              (Peers \<lparr>ps_peers = available, ps_total_peers = length (sg_peers s)\<rparr>) s))"

definition handle_heartbeat :: "instant \<Rightarrow> heartbeat_message \<Rightarrow> signaling_server \<Rightarrow> (string + unit) \<times> signaling_server" where
  "handle_heartbeat now h s =
     (Inr (), s\<lparr>sg_peers := hm_modify (hb_peer_id h) (peer_heartbeat now) (sg_peers s)\<rparr>)"

definition relay_to_peer ::
    "signaling_env \<Rightarrow> string \<Rightarrow> signaling_message \<Rightarrow> signaling_server \<Rightarrow> (string + unit) \<times> signaling_server" where
  "relay_to_peer J target m s =
     (case hm_get (sg_peer_connections s) target of
        Some conn \<Rightarrow> (Inr (), send_to_connection J conn m s)
      | None \<Rightarrow> (Inl (''Peer not found: '' @ target), s))"

definition handle_message ::
    "signaling_env \<Rightarrow> instant \<Rightarrow> u64 \<Rightarrow> string \<Rightarrow> string \<Rightarrow> signaling_server \<Rightarrow> (string + unit) \<times> signaling_server" where
  "handle_message J now unix conn msg s =
     (if length msg > sc_max_message_size (sg_config s) then
        (Inl ''Message too large'', send_error J conn MessageTooLarge ''Message too large'' s)
      else case sj_from_json J msg of
        Inl e \<Rightarrow> (Inl (''Invalid JSON: '' @ e), send_error J conn InvalidMessage (''Invalid JSON: '' @ e) s)
      | Inr m \<Rightarrow>
          (case m of
             Announce a \<Rightarrow> handle_announce J now conn a s
           | Discover d \<Rightarrow> handle_discover J now unix conn d s
           | Offer d \<Rightarrow> relay_to_peer J (so_to d) m s
           | Answer d \<Rightarrow> relay_to_peer J (so_to d) m s
           | IceCandidate c \<Rightarrow> relay_to_peer J (ic_to c) m s
           | Heartbeat h \<Rightarrow> handle_heartbeat now h s
           | _ \<Rightarrow> (Inr (), s)))"

definition handle_disconnect :: "signaling_env \<Rightarrow> string \<Rightarrow> signaling_server \<Rightarrow> signaling_server" where
  "handle_disconnect J conn s =
     (let peer = Option.bind (hm_get (sg_connections s) conn) cn_peer_id;
          s1 = s\<lparr>sg_connections := hm_remove conn (sg_connections s)\<rparr>
      in case peer of
           None \<Rightarrow> s1
         | Some p \<Rightarrow>
             let s2 = s1\<lparr>sg_peers := hm_remove p (sg_peers s1),
                         sg_peer_connections := hm_remove p (sg_peer_connections s1)\<rparr>;
                 m = PeerDisconnected \<lparr>pd_peer_id = p, pd_reason = Some ''Connection closed''\<rparr>
             in fold (\<lambda>c. send_to_connection J c m) (map fst (sg_connections s2)) s2)"

definition cleanup_stale :: "signaling_env \<Rightarrow> instant \<Rightarrow> signaling_server \<Rightarrow> signaling_server" where
  "cleanup_stale J now s =
     (let timeout = from_secs (unat (sc_session_timeout_secs (sg_config s)));
          stale = map fst (filter (\<lambda>(k, c). elapsed now (cn_last_activity c) > timeout) (sg_connections s))
      in fold (handle_disconnect J) stale s)"

definition signaling_stats :: "signaling_server \<Rightarrow> nat \<times> nat" where
  "signaling_stats s = (length (sg_peers s), length (sg_connections s))"

section \<open>Connections\<close>

text \<open>What happens to a connection: it opens, a frame arrives, it ends. And the periodic clean-up.\<close>

datatype signaling_event =
    Opened string
  | TextFrame string string
  | PingFrame string
  | Closed string
  | CleanupStale

definition touch :: "instant \<Rightarrow> string \<Rightarrow> signaling_server \<Rightarrow> signaling_server" where
  "touch now conn s = s\<lparr>sg_connections := hm_modify conn (\<lambda>c. c\<lparr>cn_last_activity := now\<rparr>) (sg_connections s)\<rparr>"

fun signaling_step :: "signaling_env \<Rightarrow> instant \<times> u64 \<times> signaling_event \<Rightarrow> signaling_server \<Rightarrow> signaling_server" where
  "signaling_step J (now, unix, Opened conn) s =
     s\<lparr>sg_connections := hm_insert conn \<lparr>cn_peer_id = None, cn_last_activity = now\<rparr> (sg_connections s)\<rparr>"
| "signaling_step J (now, unix, TextFrame conn msg) s = snd (handle_message J now unix conn msg (touch now conn s))"
| "signaling_step J (now, unix, PingFrame conn) s = send_text conn [] s"
| "signaling_step J (now, unix, Closed conn) s = handle_disconnect J conn s"
| "signaling_step J (now, unix, CleanupStale) s = cleanup_stale J now s"

end
