(* ===== verification/SignalingSafety.thy ===== *)
theory SignalingSafety
  imports Signaling
begin

text \<open>
  The signaling server proved correct as far as it is: its tables agree and keep their bound, a message
  for a peer goes to whoever announced the peer and to nobody else, and an announced peer stays
  reachable; and where announcements of the same or of another peer id break that.
\<close>

section \<open>Sending changes no table\<close>

definition tables :: "signaling_server \<Rightarrow> _" where
  "tables s = (sg_config s, sg_connections s, sg_peers s, sg_peer_connections s)"

lemma tables_eqD:
  "tables s' = tables s \<Longrightarrow> sg_config s' = sg_config s \<and> sg_connections s' = sg_connections s \<and>
     sg_peers s' = sg_peers s \<and> sg_peer_connections s' = sg_peer_connections s"
  by (simp add: tables_def)

lemma tables_send [simp]:
  "tables (send_text c j s) = tables s" "tables (send_to_connection J c m s) = tables s"
  "tables (send_error J c e t s) = tables s"
  by (auto simp: tables_def send_text_def send_to_connection_def send_error_def split: option.splits)

lemma send_simps [simp]:
  "sg_config (send_to_connection J c m s) = sg_config s"
  "sg_connections (send_to_connection J c m s) = sg_connections s"
  "sg_peers (send_to_connection J c m s) = sg_peers s"
  "sg_peer_connections (send_to_connection J c m s) = sg_peer_connections s"
  "sg_config (send_error J c e t s) = sg_config s"
  "sg_connections (send_error J c e t s) = sg_connections s"
  "sg_peers (send_error J c e t s) = sg_peers s"
  "sg_peer_connections (send_error J c e t s) = sg_peer_connections s"
  "sg_config (send_text c j s) = sg_config s"
  "sg_connections (send_text c j s) = sg_connections s"
  "sg_peers (send_text c j s) = sg_peers s"
  "sg_peer_connections (send_text c j s) = sg_peer_connections s"
  using tables_eqD [OF tables_send(1)] tables_eqD [OF tables_send(2)] tables_eqD [OF tables_send(3)] by simp_all

lemma fold_send_simps [simp]:
  "sg_config (fold (\<lambda>c. send_to_connection J c m) cs s) = sg_config s"
  "sg_connections (fold (\<lambda>c. send_to_connection J c m) cs s) = sg_connections s"
  "sg_peers (fold (\<lambda>c. send_to_connection J c m) cs s) = sg_peers s"
  "sg_peer_connections (fold (\<lambda>c. send_to_connection J c m) cs s) = sg_peer_connections s"
  by (induction cs arbitrary: s) simp_all

text \<open>A message changes the tables only by an accepted announcement or a heartbeat.\<close>

fun announced_peer :: "signaling_env \<Rightarrow> string \<Rightarrow> announce_message option" where
  "announced_peer J msg = (case sj_from_json J msg of Inr (Announce a) \<Rightarrow> Some a | _ \<Rightarrow> None)"

lemma handle_message_cases:
  obtains "tables (snd (handle_message J now unix conn msg s)) = tables s"
  | h where "tables (snd (handle_message J now unix conn msg s)) =
      tables (s\<lparr>sg_peers := hm_modify h (peer_heartbeat now) (sg_peers s)\<rparr>)"
  | a where "announced_peer J msg = Some a" "length (sg_peers s) < sc_max_peers (sg_config s)"
      "tables (snd (handle_message J now unix conn msg s)) =
       tables (s\<lparr>sg_peers := hm_insert (am_peer_id a) (from_announce J now a (Some conn)) (sg_peers s),
         sg_peer_connections := hm_insert (am_peer_id a) conn (sg_peer_connections s),
         sg_connections := hm_modify conn (\<lambda>c. c\<lparr>cn_peer_id := Some (am_peer_id a)\<rparr>) (sg_connections s)\<rparr>)"
proof (cases "length msg > sc_max_message_size (sg_config s)")
  case True
  then show thesis by (intro that(1)) (simp add: handle_message_def)
next
  case False
  show thesis
  proof (cases "sj_from_json J msg")
    case (Inl e)
    with False show thesis by (intro that(1)) (simp add: handle_message_def)
  next
    case (Inr m)
    note eq = handle_message_def False Inr
    show thesis
    proof (cases m)
      case (Announce a)
      show thesis
      proof (cases "length (sg_peers s) \<ge> sc_max_peers (sg_config s)")
        case True
        with Announce show thesis
          using False by (intro that(1)) (simp add: handle_message_def Inr handle_announce_def)
      next
        case room: False
        with Announce show thesis
          using False by (intro that(3) [of a]) (simp_all add: handle_message_def Inr handle_announce_def Let_def)
      qed
    next
      case (Heartbeat h)
      with False show thesis
        by (intro that(2) [of "hb_peer_id h"]) (simp add: handle_message_def Inr handle_heartbeat_def)
    qed (use False in \<open>intro that(1); simp add: handle_message_def Inr handle_discover_def relay_to_peer_def Let_def
          split: option.split\<close>)+
  qed
qed

text \<open>A disconnect removes the connection, and the peer it announced last from both tables.\<close>

lemma handle_disconnect_cases:
  obtains "\<And>c. hm_get (sg_connections s) conn = Some c \<Longrightarrow> cn_peer_id c = None"
    "tables (handle_disconnect J conn s) = tables (s\<lparr>sg_connections := hm_remove conn (sg_connections s)\<rparr>)"
  | c p where "hm_get (sg_connections s) conn = Some c" "cn_peer_id c = Some p"
    "tables (handle_disconnect J conn s) =
       tables (s\<lparr>sg_connections := hm_remove conn (sg_connections s), sg_peers := hm_remove p (sg_peers s),
         sg_peer_connections := hm_remove p (sg_peer_connections s)\<rparr>)"
proof (cases "Option.bind (hm_get (sg_connections s) conn) cn_peer_id")
  case None
  then show thesis
    by (intro that(1)) (auto simp: handle_disconnect_def Let_def)
next
  case (Some p)
  then obtain c where "hm_get (sg_connections s) conn = Some c" "cn_peer_id c = Some p"
    by (auto simp: bind_eq_Some_conv)
  then show thesis
    by (intro that(2)) (simp_all add: handle_disconnect_def Let_def tables_def)
qed

lemma cleanup_keeps:
  assumes "\<And>conn s. P s \<Longrightarrow> P (handle_disconnect J conn s)" "P s"
  shows "P (cleanup_stale J now s)"
proof -
  have "P (fold (handle_disconnect J) cs s)" for cs
    using assms by (induction cs arbitrary: s) auto
  then show ?thesis by (simp add: cleanup_stale_def Let_def)
qed

section \<open>The tables agree\<close>

fun entry_ok :: "string \<Rightarrow> tracked_peer option \<Rightarrow> string option \<Rightarrow> bool" where
  "entry_ok p None None = True"
| "entry_ok p (Some t) (Some c) = (tp_peer_id t = p \<and> tp_connection_id t = Some c)"
| "entry_ok p _ _ = False"

lemma entry_ok_heartbeat [simp]: "entry_ok p (map_option (peer_heartbeat now) t) c = entry_ok p t c"
  by (cases t; cases c) (simp_all add: peer_heartbeat_def)

lemma entry_ok_iff:
  "entry_ok p t c \<longleftrightarrow> map_option tp_connection_id t = map_option Some c \<and> map_option tp_peer_id t \<in> {None, Some p}"
  by (cases t; cases c) auto

definition directory_ok :: "signaling_server \<Rightarrow> bool" where
  "directory_ok s \<longleftrightarrow>
     hm_wf (sg_connections s) \<and> hm_wf (sg_peers s) \<and> hm_wf (sg_peer_connections s) \<and>
     length (sg_peers s) \<le> sc_max_peers (sg_config s) \<and>
     (\<forall>p. entry_ok p (hm_get (sg_peers s) p) (hm_get (sg_peer_connections s) p))"

lemma directory_tables: "tables s' = tables s \<Longrightarrow> directory_ok s' = directory_ok s"
  by (auto simp: tables_def directory_ok_def)

lemma directory_disconnect:
  assumes "directory_ok s"
  shows "directory_ok (handle_disconnect J conn s)"
proof (cases rule: handle_disconnect_cases [of s conn J])
  case 1
  with assms show ?thesis by (simp add: directory_tables [OF 1(2)]) (simp add: directory_ok_def)
next
  case (2 c p)
  have "length (hm_remove p (sg_peers s)) \<le> sc_max_peers (sg_config s)"
    using assms length_hm_remove_le [of p "sg_peers s"] by (simp add: directory_ok_def)
  with assms show ?thesis
    by (simp add: directory_tables [OF 2(3)]) (simp add: directory_ok_def)
qed

lemma directory_message:
  assumes "directory_ok s"
  shows "directory_ok (snd (handle_message J now unix conn msg s))"
proof (cases rule: handle_message_cases [of J now unix conn msg s])
  case 1
  with assms show ?thesis using directory_tables by blast
next
  case (2 h)
  from assms show ?thesis
    by (simp add: directory_tables [OF 2]) (simp add: directory_ok_def)
next
  case (3 a)
  have "length (hm_insert (am_peer_id a) (from_announce J now a (Some conn)) (sg_peers s)) \<le> sc_max_peers (sg_config s)"
    using 3(2) by (simp add: length_hm_insert)
  with assms show ?thesis
    by (simp add: directory_tables [OF 3(3)]) (simp add: directory_ok_def from_announce_def)
qed

lemma directory_touch: "directory_ok s \<Longrightarrow> directory_ok (touch now conn s)"
  by (simp add: directory_ok_def touch_def)

lemma directory_cleanup: "directory_ok s \<Longrightarrow> directory_ok (cleanup_stale J now s)"
  by (rule cleanup_keeps [where P = directory_ok, OF directory_disconnect])

lemma directory_step: "directory_ok s \<Longrightarrow> directory_ok (signaling_step J e s)"
proof (induction J e s rule: signaling_step.induct)
  case (1 J now unix conn s)
  then show ?case by (simp add: directory_ok_def)
next
  case (2 J now unix conn msg s)
  then show ?case by (simp add: directory_message directory_touch)
next
  case (3 J now unix conn s)
  then show ?case by (simp add: directory_tables [OF tables_send(1)])
next
  case (4 J now unix conn s)
  then show ?case by (simp add: directory_disconnect)
next
  case (5 J now unix s)
  then show ?case by (simp add: directory_cleanup)
qed

interpretation signaling: call_machine "signaling_step J" directory_ok for J
  by unfold_locales (rule directory_step)

lemma signaling_config_step: "sg_config (signaling_step J e s) = sg_config s"
proof (induction J e s rule: signaling_step.induct)
  case (2 J now unix conn msg s)
  have "sg_config (snd (handle_message J now unix conn msg (touch now conn s))) = sg_config (touch now conn s)"
    by (cases rule: handle_message_cases [of J now unix conn msg "touch now conn s"]) (auto dest: tables_eqD)
  then show ?case by (simp add: touch_def)
next
  case (4 J now unix conn s)
  show ?case
    by (cases rule: handle_disconnect_cases [of s conn J]) (auto dest: tables_eqD)
next
  case (5 J now unix s)
  have "sg_config (handle_disconnect J conn t) = sg_config t" for conn t
    by (cases rule: handle_disconnect_cases [of t conn J]) (auto dest: tables_eqD)
  then show ?case
    by (auto intro: cleanup_keeps [where P = "\<lambda>t. sg_config t = sg_config s"])
qed simp_all

lemma signaling_config_run: "sg_config (fold (signaling_step J) es s) = sg_config s"
  by (induction es arbitrary: s) (simp_all add: signaling_config_step)

lemma length_hm_dom:
  assumes "hm_wf m"
  shows "length m = card {k. hm_get m k \<noteq> None}"
proof -
  have "fst ` set m = {k. hm_get m k \<noteq> None}"
    by (auto simp: hm_get_def map_of_eq_None_iff)
  moreover have "length m = card (set (map fst m))"
    using assms distinct_card [of "map fst m"] by (simp add: hm_wf_def)
  ultimately show ?thesis by simp
qed

lemma same_dom_length:
  assumes "hm_wf m" "hm_wf m'" "\<And>k. hm_get m k = None \<longleftrightarrow> hm_get m' k = None"
  shows "length m = length m'"
  using assms by (simp add: length_hm_dom)


section \<open>Whose messages go where\<close>

text \<open>Messages for the examples: \<open>hello\<close> announces the peer \<open>alice\<close>, \<open>call\<close> is an offer to her.\<close>

definition demo_offer :: signaling_message where
  "demo_offer = Offer \<lparr>so_from = ''bob'', so_to = ''alice'', so_sdp = ''v=0'', so_session_id = ''s1''\<rparr>"

definition demo_json :: signaling_env where
  "demo_json = \<lparr>sj_to_json = (\<lambda>m. Some (if m = demo_offer then ''call'' else ''other'')),
     sj_from_json = (\<lambda>s. if s = ''hello'' then Inr (Announce \<lparr>am_peer_id = ''alice'', am_multiaddrs = [],
         am_transports = [], am_metadata = []\<rparr>) else if s = ''call'' then Inr demo_offer else Inl ''expected value''),
     sj_parse_peer = (\<lambda>_. None), sj_parse_addr = Some\<rparr>"

fun announces :: "signaling_env \<Rightarrow> string \<Rightarrow> string \<Rightarrow> instant \<times> u64 \<times> signaling_event \<Rightarrow> bool" where
  "announces J c p (now, unix, TextFrame c' msg) \<longleftrightarrow> c' = c \<and> map_option am_peer_id (announced_peer J msg) = Some p"
| "announces J c p _ \<longleftrightarrow> False"

text \<open>If anybody announces the peer here, it is the connection \<open>c\<close>.\<close>

fun only_by :: "signaling_env \<Rightarrow> string \<Rightarrow> string \<Rightarrow> instant \<times> u64 \<times> signaling_event \<Rightarrow> bool" where
  "only_by J c p (now, unix, TextFrame c' msg) \<longleftrightarrow> map_option am_peer_id (announced_peer J msg) = Some p \<longrightarrow> c' = c"
| "only_by J c p _ \<longleftrightarrow> True"

definition owned :: "string \<Rightarrow> string \<Rightarrow> signaling_server \<Rightarrow> bool" where
  "owned c p s \<longleftrightarrow> hm_get (sg_peer_connections s) p \<in> {None, Some c} \<and>
     (\<forall>c'. Option.bind (hm_get (sg_connections s) c') cn_peer_id = Some p \<longrightarrow> c' = c)"

lemma owned_tables: "tables s' = tables s \<Longrightarrow> owned c p s' = owned c p s"
  by (auto simp: tables_def owned_def)

lemma bind_modify_other:
  "(\<And>k. cn_peer_id (f k) = cn_peer_id k) \<Longrightarrow>
   Option.bind (hm_get (hm_modify c f m) c') cn_peer_id = Option.bind (hm_get m c') cn_peer_id"
  by (cases "hm_get m c'") auto

lemma owned_touch [simp]: "owned c p (touch now conn s) = owned c p s"
  by (simp add: owned_def touch_def bind_modify_other del: hm_get_modify)

lemma owned_disconnect:
  assumes "owned c p s"
  shows "owned c p (handle_disconnect J conn s)"
proof (cases rule: handle_disconnect_cases [of s conn J])
  case 1
  with assms show ?thesis by (simp add: owned_tables [OF 1(2)]) (simp add: owned_def)
next
  case (2 k q)
  with assms show ?thesis by (simp add: owned_tables [OF 2(3)]) (simp add: owned_def)
qed

lemma owned_message:
  assumes "owned c p s" "only_by J c p (now, unix, TextFrame conn msg)"
  shows "owned c p (snd (handle_message J now unix conn msg s))"
proof (cases rule: handle_message_cases [of J now unix conn msg s])
  case 1
  with assms show ?thesis using owned_tables by blast
next
  case (2 h)
  from assms show ?thesis by (simp add: owned_tables [OF 2]) (simp add: owned_def)
next
  case (3 a)
  from assms 3(1) have "am_peer_id a = p \<longrightarrow> conn = c" by simp
  with assms(1) show ?thesis
    by (simp add: owned_tables [OF 3(3)])
      (cases "hm_get (sg_connections s) conn"; auto simp: owned_def)
qed

lemma owned_step: "only_by J c p e \<Longrightarrow> owned c p s \<Longrightarrow> owned c p (signaling_step J e s)"
proof (induction J e s rule: signaling_step.induct)
  case (1 J now unix conn s)
  then show ?case by (simp add: owned_def)
next
  case (2 J now unix conn msg s)
  have "owned c p (snd (handle_message J now unix conn msg (touch now conn s)))"
    by (rule owned_message) (use 2 in simp_all)
  then show ?case by simp
next
  case (3 J now unix conn s)
  then show ?case by (simp add: owned_tables [OF tables_send(1)])
next
  case (4 J now unix conn s)
  then show ?case by (simp add: owned_disconnect)
next
  case (5 J now unix s)
  have "owned c p (cleanup_stale J now s)"
    by (rule cleanup_keeps [where P = "owned c p", OF owned_disconnect]) (use 5 in simp_all)
  then show ?case by simp
qed

interpretation owner: guarded_machine "signaling_step J" "only_by J c p" "owned c p" for J c p
  by unfold_locales (rule owned_step)

lemma owned_new [simp]: "owned c p (signaling_new cfg)"
  by (simp add: owned_def signaling_new_def)

fun relay_target :: "signaling_message \<Rightarrow> string option" where
  "relay_target (Offer d) = Some (so_to d)"
| "relay_target (Answer d) = Some (so_to d)"
| "relay_target (IceCandidate d) = Some (ic_to d)"
| "relay_target _ = None"

lemma handle_relay:
  assumes "length msg \<le> sc_max_message_size (sg_config s)" "sj_from_json J msg = Inr m" "relay_target m = Some p"
  shows "handle_message J now unix conn msg s = relay_to_peer J p m s"
  using assms by (cases m) (simp_all add: handle_message_def)

text \<open>A relayed message reaches nobody but the peer's own connection. Where only the connection \<open>c\<close> ever announces
  the peer \<open>p\<close>, every offer, answer or candidate addressed to \<open>p\<close>, whoever sends it, is written to \<open>c\<close>
  alone or to nobody.\<close>

theorem relay_only_to_announcer:
  fixes J :: signaling_env and es :: "(instant \<times> u64 \<times> signaling_event) list" and cfg :: signaling_config
  defines "s \<equiv> fold (signaling_step J) es (signaling_new cfg)"
  assumes "list_all (only_by J c p) es"
    and "length msg \<le> sc_max_message_size cfg" "sj_from_json J msg = Inr m" "relay_target m = Some p"
  shows "\<exists>out. sg_sent (signaling_step J (now, unix, TextFrame from msg) s) = sg_sent s @ out \<and>
    out \<in> {[]} \<union> {[(c, json)] | json. sj_to_json J m = Some json}"
proof -
  have "owned c p (touch now from s)"
    unfolding s_def by (simp add: owner.guarded_run assms(2))
  moreover have "sg_config (touch now from s) = cfg"
    by (simp add: touch_def s_def signaling_config_run) (simp add: signaling_new_def)
  ultimately show ?thesis
    using assms(3-5)
    by (cases "sj_to_json J m"; cases "hm_get (sg_connections (touch now from s)) c")
      (auto simp: handle_relay owned_def relay_to_peer_def send_to_connection_def send_text_def touch_def)
qed

theorem relay_only_to_announcer_witness:
  "\<exists>out. sg_sent (signaling_step demo_json (9, 0, TextFrame ''c2'' ''call'')
       (fold (signaling_step demo_json) [(5, 0, Opened ''c1''), (6, 0, TextFrame ''c1'' ''hello''), (7, 0, Opened ''c2'')]
         (signaling_new signaling_config_default))) =
     sg_sent (fold (signaling_step demo_json) [(5, 0, Opened ''c1''), (6, 0, TextFrame ''c1'' ''hello''), (7, 0, Opened ''c2'')]
         (signaling_new signaling_config_default)) @ out \<and>
     out \<in> {[]} \<union> {[(''c1'', json)] | json. sj_to_json demo_json demo_offer = Some json}"
  by (rule relay_only_to_announcer [of demo_json "''c1''" "''alice''"])
    (simp_all add: demo_json_def demo_offer_def signaling_config_default_def)

section \<open>An announced peer stays reachable\<close>

fun event_time :: "instant \<times> u64 \<times> signaling_event \<Rightarrow> instant" where
  "event_time (now, unix, e) = now"

fun closes :: "string \<Rightarrow> instant \<times> u64 \<times> signaling_event \<Rightarrow> bool" where
  "closes c (now, unix, e) \<longleftrightarrow> e = Closed c"

text \<open>What may happen while the announcement made at \<open>t0\<close> is fresh.\<close>

definition calm :: "signaling_env \<Rightarrow> string \<Rightarrow> string \<Rightarrow> instant \<Rightarrow> duration \<Rightarrow> instant \<times> u64 \<times> signaling_event \<Rightarrow> bool" where
  "calm J c p t0 timeout e \<longleftrightarrow> only_by J c p e \<and> \<not> closes c e \<and> event_time e \<in> {t0 .. t0 + timeout}"

definition connected :: "string \<Rightarrow> string \<Rightarrow> instant \<Rightarrow> duration \<Rightarrow> signaling_server \<Rightarrow> bool" where
  "connected c p t0 timeout s \<longleftrightarrow> owned c p s \<and> hm_wf (sg_connections s) \<and>
     from_secs (unat (sc_session_timeout_secs (sg_config s))) = timeout \<and>
     hm_get (sg_peer_connections s) p = Some c \<and>
     (case hm_get (sg_connections s) c of None \<Rightarrow> False | Some k \<Rightarrow> t0 \<le> cn_last_activity k)"

lemma connected_tables: "tables s' = tables s \<Longrightarrow> connected c p t timeout s' = connected c p t timeout s"
  using owned_tables [of s' s c p] by (auto simp: tables_def connected_def)

lemma connected_disconnect:
  assumes "connected c p t timeout s" "conn \<noteq> c"
  shows "connected c p t timeout (handle_disconnect J conn s)"
proof -
  note owned = owned_disconnect [of c p s J conn]
  show ?thesis
  proof (cases rule: handle_disconnect_cases [of s conn J])
    case 1
    from tables_eqD [OF 1(2)] owned assms show ?thesis by (simp add: connected_def)
  next
    case (2 k q)
    with assms have "q \<noteq> p" by (auto simp: connected_def owned_def)
    with tables_eqD [OF 2(3)] owned assms show ?thesis by (simp add: connected_def)
  qed
qed

lemma connected_message:
  assumes "connected c p t timeout s" "only_by J c p (now, unix, TextFrame conn msg)"
  shows "connected c p t timeout (snd (handle_message J now unix conn msg s))"
proof -
  note owned = owned_message [of c p s J now unix conn msg]
  show ?thesis
  proof (cases rule: handle_message_cases [of J now unix conn msg s])
    case 1
    with assms show ?thesis using connected_tables by blast
  next
    case (2 h)
    from tables_eqD [OF 2] owned assms show ?thesis by (simp add: connected_def)
  next
    case (3 a)
    from assms 3(1) have "am_peer_id a = p \<longrightarrow> conn = c" by simp
    with tables_eqD [OF 3(3)] owned assms show ?thesis
      by (cases "c = conn") (auto simp: connected_def split: option.splits)
  qed
qed

lemma connected_touch: "connected c p t timeout s \<Longrightarrow> t \<le> now \<Longrightarrow> connected c p t timeout (touch now conn s)"
  using owned_touch [of c p now conn s]
  by (simp add: connected_def) (auto simp: touch_def split: option.splits)

lemma connected_cleanup:
  assumes "connected c p t timeout s" "now \<le> t + timeout"
  shows "connected c p t timeout (cleanup_stale J now s)"
proof -
  define stale where "stale = map fst (filter (\<lambda>(k, x). elapsed now (cn_last_activity x) > timeout) (sg_connections s))"
  have "c \<notin> set stale"
  proof
    assume "c \<in> set stale"
    then obtain x where "(c, x) \<in> set (sg_connections s)" "elapsed now (cn_last_activity x) > timeout"
      by (auto simp: stale_def)
    with assms show False
      by (auto simp: connected_def elapsed_def simp flip: hm_get_iff_in_set)
  qed
  then have "connected c p t timeout (fold (handle_disconnect J) stale s)"
    using assms(1) by (induction stale arbitrary: s) (auto simp: connected_disconnect)
  with assms show ?thesis
    by (simp add: cleanup_stale_def stale_def connected_def)
qed

lemma connected_step:
  "calm J c p t timeout e \<Longrightarrow> connected c p t timeout s \<Longrightarrow> connected c p t timeout (signaling_step J e s)"
proof (induction J e s rule: signaling_step.induct)
  case (1 J now unix conn s)
  then show ?case by (auto simp: connected_def calm_def owned_def)
next
  case (2 J now unix conn msg s)
  have "connected c p t timeout (snd (handle_message J now unix conn msg (touch now conn s)))"
    by (rule connected_message) (use 2 in \<open>simp_all add: connected_touch calm_def\<close>)
  then show ?case by simp
next
  case (3 J now unix conn s)
  then show ?case by (simp add: connected_tables [OF tables_send(1)])
next
  case (4 J now unix conn s)
  then show ?case by (simp add: connected_disconnect calm_def)
next
  case (5 J now unix s)
  then show ?case by (simp add: connected_cleanup calm_def)
qed

interpretation reachable: guarded_machine "signaling_step J" "calm J c p t timeout" "connected c p t timeout"
  for J c p t timeout
  by unfold_locales (rule connected_step)

definition is_open :: "string \<Rightarrow> signaling_server \<Rightarrow> bool" where
  "is_open c s \<longleftrightarrow> hm_get (sg_connections s) c \<noteq> None"

definition relayed_to :: "signaling_env \<Rightarrow> string \<Rightarrow> signaling_message \<Rightarrow> signaling_server \<Rightarrow> (string + unit) \<times> signaling_server" where
  "relayed_to J c m s =
     (Inr (), s\<lparr>sg_sent := sg_sent s @ (case sj_to_json J m of None \<Rightarrow> [] | Some json \<Rightarrow> [(c, json)])\<rparr>)"

lemma announce_accepted:
  assumes "announces J c p (t, unix, TextFrame c msg)" "is_open c s"
    and "length msg \<le> sc_max_message_size (sg_config s)" "length (sg_peers s) < sc_max_peers (sg_config s)"
  obtains a where "am_peer_id a = p"
    "tables (signaling_step J (t, unix, TextFrame c msg) s) =
       tables (s\<lparr>sg_peers := hm_insert p (from_announce J t a (Some c)) (sg_peers s),
         sg_peer_connections := hm_insert p c (sg_peer_connections s),
         sg_connections := hm_modify c (\<lambda>k. k\<lparr>cn_peer_id := Some p\<rparr>) (hm_modify c (\<lambda>k. k\<lparr>cn_last_activity := t\<rparr>) (sg_connections s))\<rparr>)"
proof -
  from assms(1) obtain a where a: "sj_from_json J msg = Inr (Announce a)" "am_peer_id a = p"
    by (auto split: sum.splits signaling_message.splits)
  then show thesis
    using assms(3,4) by (intro that [of a]) (simp_all add: handle_message_def handle_announce_def touch_def Let_def tables_def)
qed

lemma relay_connected: "hm_get (sg_peer_connections s) p = Some c \<Longrightarrow> is_open c s \<Longrightarrow> relay_to_peer J p m s = relayed_to J c m s"
  by (simp add: relay_to_peer_def relayed_to_def send_to_connection_def send_text_def is_open_def split: option.split)

text \<open>An announced peer stays reachable. A peer accepted at \<open>t0\<close> on its open connection, which alone announces
  that id and is not closed, gets every message addressed to it up to the session timeout after \<open>t0\<close>, whatever
  the other connections do and however often the clean-up runs.\<close>

theorem announcer_reachable:
  fixes J :: signaling_env and c p msg :: string and t0 :: instant and unix :: u64
    and es0 es :: "(instant \<times> u64 \<times> signaling_event) list" and cfg :: signaling_config
  defines "s0 \<equiv> fold (signaling_step J) es0 (signaling_new cfg)"
  assumes "announces J c p (t0, unix, TextFrame c msg)" "is_open c s0"
    and "length msg \<le> sc_max_message_size cfg" "length (sg_peers s0) < sc_max_peers cfg"
    and "list_all (only_by J c p) es0"
    and "list_all (calm J c p t0 (from_secs (unat (sc_session_timeout_secs cfg)))) es"
  defines "s \<equiv> fold (signaling_step J) es (signaling_step J (t0, unix, TextFrame c msg) s0)"
  shows "relay_to_peer J p m s = relayed_to J c m s"
proof -
  let ?s1 = "signaling_step J (t0, unix, TextFrame c msg) s0"
  have cfg: "sg_config s0 = cfg"
    unfolding s0_def signaling_config_run by (simp add: signaling_new_def)
  have "directory_ok s0"
    unfolding s0_def by (rule signaling.run_inv) (simp add: directory_ok_def signaling_new_def)
  then have wf: "hm_wf (sg_connections s0)" by (simp add: directory_ok_def)
  have "owned c p s0"
    unfolding s0_def by (rule owner.guarded_run) (simp_all add: assms)
  then have "owned c p ?s1"
    by (rule owned_step [rotated]) simp
  moreover obtain a where "tables ?s1 =
       tables (s0\<lparr>sg_peers := hm_insert p (from_announce J t0 a (Some c)) (sg_peers s0),
         sg_peer_connections := hm_insert p c (sg_peer_connections s0),
         sg_connections := hm_modify c (\<lambda>k. k\<lparr>cn_peer_id := Some p\<rparr>) (hm_modify c (\<lambda>k. k\<lparr>cn_last_activity := t0\<rparr>) (sg_connections s0))\<rparr>)"
    using announce_accepted [OF assms(2,3)] assms(4,5) cfg by metis
  ultimately have "connected c p t0 (from_secs (unat (sc_session_timeout_secs cfg))) ?s1"
    using wf cfg assms(3) by (auto simp: connected_def is_open_def dest: tables_eqD)
  with assms(7) have "connected c p t0 (from_secs (unat (sc_session_timeout_secs cfg))) s"
    unfolding s_def by (rule reachable.guarded_run)
  then show ?thesis
    by (intro relay_connected) (auto simp: connected_def is_open_def split: option.splits)
qed

theorem announcer_reachable_witness:
  "relay_to_peer demo_json ''alice'' demo_offer
     (fold (signaling_step demo_json) [(7, 0, Opened ''c2''), (9, 0, CleanupStale), (9, 0, Closed ''c2'')]
       (signaling_step demo_json (6, 0, TextFrame ''c1'' ''hello'')
         (fold (signaling_step demo_json) [(5, 0, Opened ''c1'')] (signaling_new signaling_config_default)))) =
   relayed_to demo_json ''c1'' demo_offer
     (fold (signaling_step demo_json) [(7, 0, Opened ''c2''), (9, 0, CleanupStale), (9, 0, Closed ''c2'')]
       (signaling_step demo_json (6, 0, TextFrame ''c1'' ''hello'')
         (fold (signaling_step demo_json) [(5, 0, Opened ''c1'')] (signaling_new signaling_config_default))))"
  by (rule announcer_reachable [where ?t0.0 = 6 and unix = 0 and msg = "''hello''" and cfg = signaling_config_default])
    (simp_all add: demo_json_def signaling_config_default_def is_open_def signaling_new_def calm_def from_secs_def)

text \<open>A peer id belongs to whoever announced it last. Any open connection may announce the id of a peer
  that is connected elsewhere: from then on the peer's messages go to that connection, and when the
  peer's own connection closes, the id has no connection at all.\<close>

theorem peer_id_taken_over:
  fixes J :: signaling_env and s :: signaling_server and thief p msg :: string and now :: instant and unix :: u64
  assumes "announces J thief p (now, unix, TextFrame thief msg)" "is_open thief s" "thief \<noteq> c"
    and "length msg \<le> sc_max_message_size (sg_config s)" "length (sg_peers s) < sc_max_peers (sg_config s)"
    and "Option.bind (hm_get (sg_connections s) c) cn_peer_id = Some p"
  defines "s' \<equiv> signaling_step J (now, unix, TextFrame thief msg) s"
  shows "relay_to_peer J p m s' = relayed_to J thief m s' \<and>
    fst (relay_to_peer J p m (signaling_step J (now', unix', Closed c) s')) = Inl (''Peer not found: '' @ p)"
proof -
  obtain a where a: "am_peer_id a = p" "tables s' =
       tables (s\<lparr>sg_peers := hm_insert p (from_announce J now a (Some thief)) (sg_peers s),
         sg_peer_connections := hm_insert p thief (sg_peer_connections s),
         sg_connections := hm_modify thief (\<lambda>k. k\<lparr>cn_peer_id := Some p\<rparr>) (hm_modify thief (\<lambda>k. k\<lparr>cn_last_activity := now\<rparr>) (sg_connections s))\<rparr>)"
    using announce_accepted [OF assms(1,2,4,5)] unfolding s'_def by metis
  note a' = tables_eqD [OF a(2)]
  have "relay_to_peer J p m s' = relayed_to J thief m s'"
    using a' assms(2) by (intro relay_connected) (auto simp: is_open_def)
  moreover have "Option.bind (hm_get (sg_connections s') c) cn_peer_id = Some p"
    using a' assms(3,6) by simp
  then have "hm_get (sg_peer_connections (handle_disconnect J c s')) p = None"
    by (simp add: handle_disconnect_def Let_def)
  then have "fst (relay_to_peer J p m (signaling_step J (now', unix', Closed c) s')) = Inl (''Peer not found: '' @ p)"
    by (simp add: relay_to_peer_def)
  ultimately show ?thesis by simp
qed

theorem peer_id_taken_over_witness:
  "let s = fold (signaling_step demo_json) [(5, 0, Opened ''c1''), (6, 0, TextFrame ''c1'' ''hello''), (7, 0, Opened ''c2'')]
        (signaling_new signaling_config_default);
      s' = signaling_step demo_json (8, 0, TextFrame ''c2'' ''hello'') s
   in relay_to_peer demo_json ''alice'' demo_offer s' = relayed_to demo_json ''c2'' demo_offer s' \<and>
      fst (relay_to_peer demo_json ''alice'' demo_offer (signaling_step demo_json (9, 0, Closed ''c1'') s')) =
        Inl (''Peer not found: '' @ ''alice'')"
  unfolding Let_def
  by (rule peer_id_taken_over)
    (simp_all add: demo_json_def signaling_config_default_def signaling_new_def is_open_def handle_message_def
      handle_announce_def send_to_connection_def send_text_def touch_def length_hm_insert demo_offer_def Let_def)

end
