(* ===== verification/Float64.thy ===== *)
theory Float64
  imports Prelude Complex_Main
begin

text \<open>
  The floating-point numbers of the program. An \<open>f64\<close> is a rational number: every operation rounds its
  exact result with the function \<open>R\<close>, as IEEE 754 defines for finite results; infinities and NaN do not
  occur where it is used. A decimal literal is the rounding of its value.
\<close>

section \<open>Floating point\<close>

type_synonym f64 = rat

definition fadd :: "(rat \<Rightarrow> rat) \<Rightarrow> f64 \<Rightarrow> f64 \<Rightarrow> f64" where "fadd R a b = R (a + b)"

definition fsub :: "(rat \<Rightarrow> rat) \<Rightarrow> f64 \<Rightarrow> f64 \<Rightarrow> f64" where "fsub R a b = R (a - b)"

definition fmul :: "(rat \<Rightarrow> rat) \<Rightarrow> f64 \<Rightarrow> f64 \<Rightarrow> f64" where "fmul R a b = R (a * b)"

definition fdiv :: "(rat \<Rightarrow> rat) \<Rightarrow> f64 \<Rightarrow> f64 \<Rightarrow> f64" where "fdiv R a b = R (a / b)"

text \<open>\<open>as f64\<close> and the sum of an iterator.\<close>

definition f64_of :: "(rat \<Rightarrow> rat) \<Rightarrow> nat \<Rightarrow> f64" where "f64_of R n = R (of_nat n)"

definition f64_sum :: "(rat \<Rightarrow> rat) \<Rightarrow> f64 list \<Rightarrow> f64" where "f64_sum R xs = foldl (fadd R) 0 xs"

definition f64_clamp :: "f64 \<Rightarrow> f64 \<Rightarrow> f64 \<Rightarrow> f64" where "f64_clamp lo hi x = (if x < lo then lo else if hi < x then hi else x)"

section \<open>Rounding\<close>

text \<open>
  What IEEE 754 says of rounding to nearest: it keeps the order, its results, and integers up to \<open>2 ^ 53\<close>, and for
  results that are neither too large nor too small the relative error is at most \<open>2 ^ - 53\<close>.
\<close>

definition rounds_to_nearest :: "(rat \<Rightarrow> rat) \<Rightarrow> bool" where
  "rounds_to_nearest R \<longleftrightarrow> mono R \<and> (\<forall>x. R (R x) = R x) \<and>
     (\<forall>n :: int. \<bar>n\<bar> \<le> 2 ^ 53 \<longrightarrow> R (of_int n) = of_int n) \<and>
     (\<forall>x. 1 / 2 ^ 1022 \<le> \<bar>x\<bar> \<and> \<bar>x\<bar> \<le> 2 ^ 1023 \<longrightarrow> \<bar>R x - x\<bar> \<le> \<bar>x\<bar> / 2 ^ 53)"

lemma rounds_id [simp]: "rounds_to_nearest id" "rounds_to_nearest (\<lambda>x. x)"
  by (simp_all add: rounds_to_nearest_def mono_def)

lemma rounds_int: "rounds_to_nearest R \<Longrightarrow> \<bar>n\<bar> \<le> 2 ^ 53 \<Longrightarrow> R (of_int n) = of_int n"
  by (simp add: rounds_to_nearest_def)

lemma rounds_nat: "rounds_to_nearest R \<Longrightarrow> n \<le> 2 ^ 53 \<Longrightarrow> R (of_nat n) = of_nat n"
  using rounds_int [of R "int n"] by simp

lemma rounds_numeral:
  "rounds_to_nearest R \<Longrightarrow> R 0 = 0" "rounds_to_nearest R \<Longrightarrow> R 1 = 1"
  "rounds_to_nearest R \<Longrightarrow> (numeral n :: nat) \<le> 2 ^ 53 \<Longrightarrow> R (numeral n) = numeral n"
  "rounds_to_nearest R \<Longrightarrow> (numeral n :: nat) \<le> 2 ^ 53 \<Longrightarrow> R (- numeral n) = - numeral n"
  using rounds_int [of R 0] rounds_int [of R 1] rounds_nat [of R "numeral n"] rounds_int [of R "- numeral n"]
  by simp_all

lemma rounds_idem: "rounds_to_nearest R \<Longrightarrow> R (R x) = R x"
  by (simp add: rounds_to_nearest_def)

lemma rounds_mono: "rounds_to_nearest R \<Longrightarrow> x \<le> y \<Longrightarrow> R x \<le> R y"
  by (simp add: rounds_to_nearest_def mono_def)

end
