(* ===== verification/AdaptiveRouting.thy ===== *)
theory AdaptiveRouting
  imports ZkCells Float64
begin

text \<open>
  The adaptive router, \<open>protocol/src/adaptive_routing.rs\<close>: regions, relays, the health of paths between
  peers and its verdict on censorship, and \<open>AdaptiveRouter\<close> with the choice of routes and failover.

  A call is one step under its locks and reads the clock
  once; what one thread does to itself by asking for a lock it holds is modelled.
\<close>

section \<open>Failures and regions\<close>

definition MAX_PATH_HISTORY :: nat where "MAX_PATH_HISTORY = 100"

definition CENSORSHIP_FAILURE_THRESHOLD :: "(rat \<Rightarrow> rat) \<Rightarrow> f64" where "CENSORSHIP_FAILURE_THRESHOLD R = R (7 / 10)"

definition MIN_SAMPLES_FOR_DETECTION :: nat where "MIN_SAMPLES_FOR_DETECTION = 5"

definition FAILURE_WINDOW :: duration where "FAILURE_WINDOW = from_secs 300"

datatype censorship_status = Clear | Suspected | Confirmed | UnknownStatus

datatype failure_type =
    Timeout | ConnectionRefused | ConnectionReset | DnsFailure | TlsFailure | HttpError "16 word"
  | ContentTampering | NetworkError | PeerUnreachable

fun is_censorship_indicator :: "failure_type \<Rightarrow> bool" where
  "is_censorship_indicator ConnectionReset = True"
| "is_censorship_indicator Timeout = True"
| "is_censorship_indicator DnsFailure = True"
| "is_censorship_indicator TlsFailure = True"
| "is_censorship_indicator ContentTampering = True"
| "is_censorship_indicator _ = False"

fun severity_weight :: "(rat \<Rightarrow> rat) \<Rightarrow> failure_type \<Rightarrow> f64" where
  "severity_weight R ConnectionReset = 1"
| "severity_weight R ContentTampering = 1"
| "severity_weight R TlsFailure = R (8 / 10)"
| "severity_weight R DnsFailure = R (8 / 10)"
| "severity_weight R Timeout = R (6 / 10)"
| "severity_weight R ConnectionRefused = R (4 / 10)"
| "severity_weight R (HttpError _) = R (3 / 10)"
| "severity_weight R NetworkError = R (2 / 10)"
| "severity_weight R PeerUnreachable = R (5 / 10)"

record path_attempt =
  pa_timestamp :: instant
  pa_success :: bool
  pa_failure_type :: "failure_type option"
  pa_latency_ms :: "u64 option"
  pa_bytes_transferred :: u64

datatype geo_region =
    NorthAmerica | SouthAmerica | Europe | Africa | MiddleEast | Asia | Oceania | UnknownRegion

text \<open>Of \<open>to_uppercase\<close> the Unicode tables are an argument.\<close>

definition from_country_code :: "(string \<Rightarrow> string) \<Rightarrow> string \<Rightarrow> geo_region" where
  "from_country_code upper cc =
     (let c = upper cc in
      if c \<in> set [''US'', ''CA'', ''MX'', ''GT'', ''CU'', ''HT'', ''DO'', ''HN'', ''NI'', ''SV'', ''CR'',
           ''PA'', ''JM'', ''TT'', ''BS'', ''BB'', ''LC'', ''GD'', ''VC'', ''AG'', ''DM'', ''KN'',
           ''BZ''] then NorthAmerica
      else
      if c \<in> set [''BR'', ''AR'', ''CL'', ''CO'', ''PE'', ''VE'', ''EC'', ''BO'', ''PY'', ''UY'', ''GY'',
           ''SR''] then SouthAmerica
      else
      if c \<in> set [''GB'', ''DE'', ''FR'', ''NL'', ''SE'', ''NO'', ''FI'', ''CH'', ''AT'', ''BE'', ''IT'',
           ''ES'', ''PT'', ''PL'', ''CZ'', ''RO'', ''UA'', ''IE'', ''DK'', ''HU'', ''SK'', ''HR'',
           ''SI'', ''RS'', ''BG'', ''GR'', ''LT'', ''LV'', ''EE'', ''IS'', ''LU'', ''MT'', ''CY'',
           ''AL'', ''MK'', ''BA'', ''ME'', ''MD'', ''BY'', ''XK'', ''AD'', ''MC'', ''SM'', ''LI''] then Europe
      else
      if c \<in> set [''ZA'', ''NG'', ''KE'', ''EG'', ''MA'', ''GH'', ''ET'', ''TZ'', ''UG'', ''DZ'', ''SD'',
           ''AO'', ''MZ'', ''MG'', ''CM'', ''CI'', ''NE'', ''BF'', ''ML'', ''MW'', ''ZM'', ''SN'',
           ''TD'', ''SO'', ''ZW'', ''GN'', ''RW'', ''BJ'', ''TN'', ''BI'', ''SS'', ''TG'', ''SL'',
           ''LY'', ''CG'', ''LR'', ''CF'', ''MR'', ''ER'', ''NA'', ''GM'', ''BW'', ''GA'', ''LS'',
           ''GW'', ''GQ'', ''MU'', ''SZ'', ''DJ'', ''KM'', ''CV'', ''ST'', ''SC'', ''CD''] then Africa
      else
      if c \<in> set [''AE'', ''SA'', ''IL'', ''TR'', ''IR'', ''IQ'', ''JO'', ''LB'', ''SY'', ''YE'', ''OM'',
           ''KW'', ''QA'', ''BH'', ''PS'', ''AM'', ''GE''] then MiddleEast
      else
      if c \<in> set [''CN'', ''JP'', ''KR'', ''IN'', ''SG'', ''HK'', ''TW'', ''TH'', ''VN'', ''ID'', ''MY'',
           ''PH'', ''PK'', ''BD'', ''LK'', ''NP'', ''MM'', ''KH'', ''LA'', ''MN'', ''KZ'', ''UZ'',
           ''TM'', ''TJ'', ''KG'', ''AZ'', ''AF'', ''BT'', ''MV'', ''BN'', ''TL'', ''MO'', ''KP''] then Asia
      else
      if c \<in> set [''AU'', ''NZ'', ''PG'', ''FJ'', ''SB'', ''VU'', ''WS'', ''KI'', ''TO'', ''FM'', ''PW'',
           ''MH'', ''NR'', ''TV''] then Oceania
      else UnknownRegion)"

fun latitude_range :: "geo_region \<Rightarrow> f64 \<times> f64" where
  "latitude_range NorthAmerica = (15, 72)"
| "latitude_range SouthAmerica = (- 56, 12)"
| "latitude_range Europe = (35, 71)"
| "latitude_range Africa = (- 35, 37)"
| "latitude_range MiddleEast = (12, 42)"
| "latitude_range Asia = (- 10, 77)"
| "latitude_range Oceania = (- 47, - 1)"
| "latitude_range UnknownRegion = (- 90, 90)"

fun longitude_range :: "geo_region \<Rightarrow> f64 \<times> f64" where
  "longitude_range NorthAmerica = (- 168, - 52)"
| "longitude_range SouthAmerica = (- 81, - 34)"
| "longitude_range Europe = (- 25, 60)"
| "longitude_range Africa = (- 17, 51)"
| "longitude_range MiddleEast = (25, 63)"
| "longitude_range Asia = (60, 180)"
| "longitude_range Oceania = (110, 180)"
| "longitude_range UnknownRegion = (- 180, 180)"

definition region_distances :: "((geo_region \<times> geo_region) \<times> u32) list" where
  "region_distances =
     [((NorthAmerica, SouthAmerica), 2), ((SouthAmerica, NorthAmerica), 2), ((NorthAmerica, Europe), 2),
      ((Europe, NorthAmerica), 2), ((Europe, Africa), 2), ((Africa, Europe), 2),
      ((Europe, MiddleEast), 1), ((MiddleEast, Europe), 1), ((MiddleEast, Asia), 2),
      ((Asia, MiddleEast), 2), ((MiddleEast, Africa), 2), ((Africa, MiddleEast), 2),
      ((Asia, Oceania), 2), ((Oceania, Asia), 2), ((NorthAmerica, Asia), 3), ((Asia, NorthAmerica), 3),
      ((NorthAmerica, Oceania), 3), ((Oceania, NorthAmerica), 3), ((Europe, Asia), 3),
      ((Asia, Europe), 3), ((SouthAmerica, Asia), 4), ((Asia, SouthAmerica), 4),
      ((SouthAmerica, Oceania), 4), ((Oceania, SouthAmerica), 4), ((Africa, Oceania), 4),
      ((Oceania, Africa), 4), ((SouthAmerica, Africa), 3), ((Africa, SouthAmerica), 3)]"

definition distance_to :: "geo_region \<Rightarrow> geo_region \<Rightarrow> u32" where
  "distance_to a b =
     (if a = b then 0
      else case map_of region_distances (a, b) of
        Some d \<Rightarrow> d
      | None \<Rightarrow> if a = UnknownRegion \<or> b = UnknownRegion then 5 else 3)"

fun region_name :: "geo_region \<Rightarrow> string" where
  "region_name NorthAmerica = ''North America''"
| "region_name SouthAmerica = ''South America''"
| "region_name Europe = ''Europe''"
| "region_name Africa = ''Africa''"
| "region_name MiddleEast = ''Middle East''"
| "region_name Asia = ''Asia''"
| "region_name Oceania = ''Oceania''"
| "region_name UnknownRegion = ''Unknown''"

definition all_regions :: "geo_region list" where
  "all_regions = [NorthAmerica, SouthAmerica, Europe, Africa, MiddleEast, Asia, Oceania]"

section \<open>Relays\<close>

record relay_info =
  ri_peer_id :: peer_id
  ri_ip_addr :: "bytes option"
  ri_country_code :: "string option"
  ri_region :: geo_region
  ri_asn :: "u32 option"
  ri_avg_latency_ms :: u64
  ri_bandwidth_bps :: u64
  ri_load :: f64
  ri_is_exit :: bool
  ri_is_guard :: bool
  ri_last_seen :: u64
  ri_reputation :: f64

definition relay_info_new :: "u64 \<Rightarrow> peer_id \<Rightarrow> relay_info" where
  "relay_info_new unix p =
     \<lparr>ri_peer_id = p, ri_ip_addr = None, ri_country_code = None, ri_region = UnknownRegion, ri_asn = None,
      ri_avg_latency_ms = 0, ri_bandwidth_bps = 0, ri_load = 0, ri_is_exit = False, ri_is_guard = False,
      ri_last_seen = unix, ri_reputation = 1 / 2\<rparr>"

definition relay_info_with_geo ::
    "(string \<Rightarrow> string) \<Rightarrow> u64 \<Rightarrow> peer_id \<Rightarrow> string \<Rightarrow> bytes option \<Rightarrow> relay_info" where
  "relay_info_with_geo upper unix p country_code ip =
     (relay_info_new unix p)\<lparr>ri_country_code := Some country_code,
        ri_region := from_country_code upper country_code, ri_ip_addr := ip\<rparr>"

definition is_healthy :: "(rat \<Rightarrow> rat) \<Rightarrow> relay_info \<Rightarrow> bool" where
  "is_healthy R r \<longleftrightarrow> ri_reputation r > R (3 / 10) \<and> ri_load r < R (9 / 10)"

definition fitness_score :: "(rat \<Rightarrow> rat) \<Rightarrow> bool \<Rightarrow> relay_info \<Rightarrow> f64" where
  "fitness_score R prefer_low_latency r =
     (let latency_factor =
            (if prefer_low_latency
             then fdiv R 1 (fadd R 1 (fdiv R (f64_of R (unat (ri_avg_latency_ms r))) 100))
             else 1 / 2);
          load_factor = fsub R 1 (ri_load r)
      in fadd R (fadd R (fmul R latency_factor (R (3 / 10))) (fmul R load_factor (R (3 / 10))))
           (fmul R (ri_reputation r) (R (4 / 10))))"

section \<open>The health of a path\<close>

record path_health =
  ph_source :: peer_id
  ph_destination :: peer_id
  ph_attempts :: "path_attempt list"
  ph_censorship_status :: censorship_status
  ph_consecutive_failures :: nat
  ph_last_success :: "instant option"
  ph_avg_latency_ms :: f64
  ph_total_bytes :: u64

definition path_health_new :: "peer_id \<Rightarrow> peer_id \<Rightarrow> path_health" where
  "path_health_new a b =
     \<lparr>ph_source = a, ph_destination = b, ph_attempts = [], ph_censorship_status = UnknownStatus,
      ph_consecutive_failures = 0, ph_last_success = None, ph_avg_latency_ms = 0, ph_total_bytes = 0\<rparr>"

definition add_attempt :: "path_attempt \<Rightarrow> path_health \<Rightarrow> path_health" where
  "add_attempt a h =
     (let kept = (if length (ph_attempts h) \<ge> MAX_PATH_HISTORY then tl (ph_attempts h) else ph_attempts h)
      in h\<lparr>ph_attempts := kept @ [a]\<rparr>)"

definition recent_attempts :: "instant \<Rightarrow> path_health \<Rightarrow> path_attempt list" where
  "recent_attempts now h = filter (\<lambda>a. elapsed now (pa_timestamp a) < FAILURE_WINDOW) (ph_attempts h)"

definition failure_rate :: "(rat \<Rightarrow> rat) \<Rightarrow> instant \<Rightarrow> path_health \<Rightarrow> f64" where
  "failure_rate R now h =
     (let recent = recent_attempts now h in
      if recent = [] then 0
      else fdiv R (f64_of R (length (filter (\<lambda>a. \<not> pa_success a) recent))) (f64_of R (length recent)))"

definition censorship_failure_rate :: "(rat \<Rightarrow> rat) \<Rightarrow> instant \<Rightarrow> path_health \<Rightarrow> f64" where
  "censorship_failure_rate R now h =
     (let recent = recent_attempts now h in
      if recent = [] then 0
      else
        let failures = filter is_censorship_indicator
              (List.map_filter pa_failure_type (filter (\<lambda>a. \<not> pa_success a) recent))
        in fdiv R (f64_sum R (map (severity_weight R) failures)) (f64_of R (length recent)))"

definition update_censorship_status :: "(rat \<Rightarrow> rat) \<Rightarrow> instant \<Rightarrow> path_health \<Rightarrow> path_health" where
  "update_censorship_status R now h =
     (if length (recent_attempts now h) < MIN_SAMPLES_FOR_DETECTION
      then h\<lparr>ph_censorship_status := UnknownStatus\<rparr>
      else
        let censorship_rate = censorship_failure_rate R now h;
            rate = failure_rate R now h
        in h\<lparr>ph_censorship_status :=
              (if censorship_rate > CENSORSHIP_FAILURE_THRESHOLD R then Confirmed
               else if censorship_rate > R (4 / 10) \<or> rate > R (6 / 10) then Suspected
               else if rate < R (2 / 10) then Clear
               else UnknownStatus)\<rparr>)"

definition path_success :: "(rat \<Rightarrow> rat) \<Rightarrow> instant \<Rightarrow> u64 \<Rightarrow> u64 \<Rightarrow> path_health \<Rightarrow> path_health" where
  "path_success R now latency_ms n h =
     (let h1 = add_attempt \<lparr>pa_timestamp = now, pa_success = True, pa_failure_type = None,
            pa_latency_ms = Some latency_ms, pa_bytes_transferred = n\<rparr> h;
          h2 = h1\<lparr>ph_consecutive_failures := 0, ph_last_success := Some now,
            ph_total_bytes := ph_total_bytes h1 + n,
            ph_avg_latency_ms := fadd R (fmul R (ph_avg_latency_ms h1) (R (9 / 10)))
              (fmul R (f64_of R (unat latency_ms)) (R (1 / 10)))\<rparr>
      in update_censorship_status R now h2)"

definition path_failure :: "(rat \<Rightarrow> rat) \<Rightarrow> instant \<Rightarrow> failure_type \<Rightarrow> path_health \<Rightarrow> path_health" where
  "path_failure R now ft h =
     (let h1 = add_attempt \<lparr>pa_timestamp = now, pa_success = False, pa_failure_type = Some ft,
            pa_latency_ms = None, pa_bytes_transferred = 0\<rparr> h
      in update_censorship_status R now (h1\<lparr>ph_consecutive_failures := ph_consecutive_failures h1 + 1\<rparr>))"

definition should_avoid :: "path_health \<Rightarrow> bool" where
  "should_avoid h \<longleftrightarrow> ph_censorship_status h \<in> {Confirmed, Suspected} \<or> ph_consecutive_failures h \<ge> 3"

definition health_score :: "(rat \<Rightarrow> rat) \<Rightarrow> instant \<Rightarrow> path_health \<Rightarrow> f64" where
  "health_score R now h =
     (let failure_penalty = failure_rate R now h;
          censorship_penalty = fmul R (censorship_failure_rate R now h) (1 / 2);
          recency_bonus =
            (case ph_last_success h of
               None \<Rightarrow> 0
             | Some t \<Rightarrow>
                 let age = f64_of R (as_secs (elapsed now t))
                 in min (fdiv R 1 (fadd R 1 (fdiv R age 60))) (R (2 / 10)))
      in f64_clamp 0 1 (fadd R (fsub R (fsub R 1 failure_penalty) censorship_penalty) recency_bonus))"

end
