(* ===== verification/AdaptiveRouter.thy ===== *)
theory AdaptiveRouter
  imports AdaptiveRouting
begin

text \<open>
  \<open>AdaptiveRouter\<close> of \<open>protocol/src/adaptive_routing.rs\<close>: the choice of relays, routes and backup
  routes, failures and failover, blocked paths; and the two functions of \<open>node-runner/src/p2p.rs\<close>
  through which a node reports to it.

  A call that asks for the write lock of a table its own thread holds never returns, one that indexes
  out of bounds panics: both are values (\<open>stuck\<close>). The random bytes of a route id, the clock, the
  duration of a call and the hash are arguments.
\<close>

section \<open>Configuration and routes\<close>

datatype route_strategy = LowLatency | HighPrivacy | HighReliability | Balanced | AvoidRegions

record adaptive_config =
  ar_strategy :: route_strategy
  ar_min_hops :: nat
  ar_max_hops :: nat
  ar_require_geo_diversity :: bool
  ar_avoid_regions :: "geo_region list"
  ar_avoid_asns :: "u32 list"
  ar_failover_timeout :: duration
  ar_max_retries :: nat
  ar_auto_failover :: bool
  ar_health_check_interval :: duration

definition adaptive_config_default :: adaptive_config where
  "adaptive_config_default =
     \<lparr>ar_strategy = Balanced, ar_min_hops = 3, ar_max_hops = 5, ar_require_geo_diversity = True,
      ar_avoid_regions = [], ar_avoid_asns = [], ar_failover_timeout = from_secs 10, ar_max_retries = 3,
      ar_auto_failover = True, ar_health_check_interval = from_secs 60\<rparr>"

record computed_route =
  cr_id :: bytes
  cr_relays :: "peer_id list"
  cr_regions :: "geo_region list"
  cr_estimated_latency_ms :: u64
  cr_health_score :: f64
  cr_created_at :: instant
  cr_use_count :: nat
  cr_is_backup :: bool

definition route_is_valid :: "(rat \<Rightarrow> rat) \<Rightarrow> instant \<Rightarrow> duration \<Rightarrow> computed_route \<Rightarrow> bool" where
  "route_is_valid R now max_age r \<longleftrightarrow> elapsed now (cr_created_at r) < max_age \<and> cr_health_score r > R (3 / 10)"

record routing_stats =
  rs_routes_computed :: u64
  rs_successful_deliveries :: u64
  rs_failed_deliveries :: u64
  rs_failovers_triggered :: u64
  rs_censorship_events :: u64
  rs_blocked_paths :: nat
  rs_avg_route_time_ms :: f64

datatype routing_error =
    InsufficientRelays nat nat
  | NoPathFound | AllPathsBlocked | RouteExpired | FailoverFailed

fun routing_error_text :: "routing_error \<Rightarrow> string" where
  "routing_error_text (InsufficientRelays required available) =
     ''Need '' @ show_nat required @ '' relays, only '' @ show_nat available @ '' available''"
| "routing_error_text NoPathFound = ''No path found to destination''"
| "routing_error_text AllPathsBlocked = ''All paths are blocked''"
| "routing_error_text RouteExpired = ''Route has expired''"
| "routing_error_text FailoverFailed = ''Failover failed''"

type_synonym health_map = "(peer_id \<times> peer_id, path_health) hmap"

record adaptive_router =
  ar_relays :: "(peer_id, relay_info) hmap"
  ar_path_health :: health_map
  ar_active_routes :: "(bytes, computed_route) hmap"
  ar_backup_routes :: "(bytes, computed_route list) hmap"
  ar_blocked :: "(peer_id \<times> peer_id) list"
  ar_config :: adaptive_config
  ar_stats :: routing_stats

definition router_with_config :: "adaptive_config \<Rightarrow> adaptive_router" where
  "router_with_config cfg =
     \<lparr>ar_relays = [], ar_path_health = [], ar_active_routes = [], ar_backup_routes = [], ar_blocked = [],
      ar_config = cfg,
      ar_stats = \<lparr>rs_routes_computed = 0, rs_successful_deliveries = 0, rs_failed_deliveries = 0,
        rs_failovers_triggered = 0, rs_censorship_events = 0, rs_blocked_paths = 0, rs_avg_route_time_ms = 0\<rparr>\<rparr>"

definition router_new :: adaptive_router where
  "router_new = router_with_config adaptive_config_default"

definition register_relay :: "relay_info \<Rightarrow> adaptive_router \<Rightarrow> adaptive_router" where
  "register_relay r st = st\<lparr>ar_relays := hm_insert (ri_peer_id r) r (ar_relays st)\<rparr>"

definition remove_relay :: "peer_id \<Rightarrow> adaptive_router \<Rightarrow> adaptive_router" where
  "remove_relay p st = st\<lparr>ar_relays := hm_remove p (ar_relays st)\<rparr>"

definition get_relay :: "peer_id \<Rightarrow> adaptive_router \<Rightarrow> relay_info option" where
  "get_relay p st = hm_get (ar_relays st) p"

section \<open>Choosing relays\<close>

text \<open>What a call finds outside.\<close>

record route_env =
  re_round :: "rat \<Rightarrow> rat"
  re_now :: instant
  re_elapsed_ms :: nat
  re_random :: bytes
  re_blake3 :: "bytes \<Rightarrow> bytes"

definition is_path_ok ::
    "(peer_id \<times> peer_id) list \<Rightarrow> health_map \<Rightarrow> peer_id list \<Rightarrow> peer_id \<Rightarrow> bool" where
  "is_path_ok blocked ph selected p \<longleftrightarrow>
     (if selected = [] then True
      else (last selected, p) \<notin> set blocked \<and>
           (case hm_get ph (last selected, p) of None \<Rightarrow> True | Some h \<Rightarrow> \<not> should_avoid h))"

record picking =
  pk_selected :: "peer_id list"
  pk_regions :: "geo_region list"
  pk_asns :: "u32 list"

definition pick :: "relay_info \<Rightarrow> picking \<Rightarrow> picking" where
  "pick r pk =
     \<lparr>pk_selected = pk_selected pk @ [ri_peer_id r], pk_regions = hs_insert (ri_region r) (pk_regions pk),
      pk_asns = (case ri_asn r of None \<Rightarrow> pk_asns pk | Some a \<Rightarrow> hs_insert a (pk_asns pk))\<rparr>"

definition pick_peer :: "relay_info \<Rightarrow> picking \<Rightarrow> picking" where
  "pick_peer r pk = pk\<lparr>pk_selected := pk_selected pk @ [ri_peer_id r]\<rparr>"

definition hops_for :: "adaptive_config \<Rightarrow> nat" where
  "hops_for cfg =
     (case ar_strategy cfg of
        HighPrivacy \<Rightarrow> ar_max_hops cfg
      | LowLatency \<Rightarrow> ar_min_hops cfg
      | _ \<Rightarrow> (ar_min_hops cfg + ar_max_hops cfg) div 2)"

definition score_relays :: "(rat \<Rightarrow> rat) \<Rightarrow> adaptive_config \<Rightarrow> relay_info list \<Rightarrow> relay_info list" where
  "score_relays R cfg available = sort_key (\<lambda>r. - fitness_score R (ar_strategy cfg = LowLatency) r) available"

fun pick_guard ::
    "adaptive_config \<Rightarrow> (peer_id list \<Rightarrow> peer_id \<Rightarrow> bool) \<Rightarrow> relay_info list \<Rightarrow> picking \<Rightarrow> picking" where
  "pick_guard cfg ok [] pk = pk"
| "pick_guard cfg ok (r # rs) pk =
     (if ri_is_guard r \<and> ok (pk_selected pk) (ri_peer_id r) \<and>
         (\<not> ar_require_geo_diversity cfg \<or> ri_region r \<notin> set (pk_regions pk))
      then pick r pk else pick_guard cfg ok rs pk)"

definition pick_first :: "relay_info list \<Rightarrow> picking \<Rightarrow> picking" where
  "pick_first scored pk =
     (if pk_selected pk = [] then (case scored of [] \<Rightarrow> pk | r # _ \<Rightarrow> pick r pk) else pk)"

fun pick_middle ::
    "adaptive_config \<Rightarrow> nat \<Rightarrow> (peer_id list \<Rightarrow> peer_id \<Rightarrow> bool) \<Rightarrow> relay_info list \<Rightarrow> picking \<Rightarrow> picking" where
  "pick_middle cfg limit ok [] pk = pk"
| "pick_middle cfg limit ok (r # rs) pk =
     (if length (pk_selected pk) \<ge> limit then pk
      else if ri_peer_id r \<in> set (pk_selected pk) then pick_middle cfg limit ok rs pk
      else if \<not> ok (pk_selected pk) (ri_peer_id r) then pick_middle cfg limit ok rs pk
      else if ar_require_geo_diversity cfg \<and> ri_region r \<in> set (pk_regions pk) then pick_middle cfg limit ok rs pk
      else if ar_require_geo_diversity cfg \<and> (case ri_asn r of None \<Rightarrow> False | Some a \<Rightarrow> a \<in> set (pk_asns pk))
        then pick_middle cfg limit ok rs pk
      else pick_middle cfg limit ok rs (pick r pk))"

fun pick_exit :: "nat \<Rightarrow> (peer_id list \<Rightarrow> peer_id \<Rightarrow> bool) \<Rightarrow> relay_info list \<Rightarrow> picking \<Rightarrow> picking" where
  "pick_exit n ok [] pk = pk"
| "pick_exit n ok (r # rs) pk =
     (if length (pk_selected pk) \<ge> n then pk
      else if ri_peer_id r \<in> set (pk_selected pk) then pick_exit n ok rs pk
      else if ri_is_exit r \<and> ok (pk_selected pk) (ri_peer_id r) then pick_peer r pk
      else pick_exit n ok rs pk)"

fun pick_rest :: "nat \<Rightarrow> (peer_id list \<Rightarrow> peer_id \<Rightarrow> bool) \<Rightarrow> relay_info list \<Rightarrow> picking \<Rightarrow> picking" where
  "pick_rest n ok [] pk = pk"
| "pick_rest n ok (r # rs) pk =
     (if length (pk_selected pk) \<ge> n then pk
      else if ri_peer_id r \<notin> set (pk_selected pk) \<and> ok (pk_selected pk) (ri_peer_id r)
        then pick_rest n ok rs (pick_peer r pk)
      else pick_rest n ok rs pk)"

text \<open>\<open>num_hops - 1\<close> on \<open>usize\<close>, which wraps in a release build.\<close>

definition usize_pred :: "nat \<Rightarrow> nat" where
  "usize_pred n = (if n = 0 then 2 ^ 64 - 1 else n - 1)"

definition select_relays ::
    "(rat \<Rightarrow> rat) \<Rightarrow> adaptive_config \<Rightarrow> (peer_id \<times> peer_id) list \<Rightarrow> health_map \<Rightarrow> relay_info list \<Rightarrow>
     routing_error + peer_id list" where
  "select_relays R cfg blocked ph available =
     (let n = hops_for cfg;
          scored = score_relays R cfg available;
          ok = is_path_ok blocked ph;
          pk1 = pick_guard cfg ok scored \<lparr>pk_selected = [], pk_regions = [], pk_asns = []\<rparr>;
          pk2 = pick_first scored pk1;
          pk3 = pick_middle cfg (usize_pred n) ok scored pk2;
          pk4 = pick_exit n ok scored pk3;
          selected = pk_selected (pick_rest n ok scored pk4)
      in if length selected < ar_min_hops cfg
         then Inl (InsufficientRelays (ar_min_hops cfg) (length selected))
         else Inr selected)"

definition compute_route_health ::
    "(rat \<Rightarrow> rat) \<Rightarrow> instant \<Rightarrow> health_map \<Rightarrow> peer_id list \<Rightarrow> f64" where
  "compute_route_health R now ph route =
     (if length route < 2 then 1
      else
        let scores = map (\<lambda>seg. case hm_get ph seg of Some h \<Rightarrow> health_score R now h | None \<Rightarrow> 1 / 2)
              (zip route (tl route))
        in fdiv R (f64_sum R scores) (f64_of R (length scores)))"

definition total_latency :: "(peer_id, relay_info) hmap \<Rightarrow> peer_id list \<Rightarrow> u64" where
  "total_latency relays route = sum_list (map ri_avg_latency_ms (List.map_filter (hm_get relays) route))"

definition route_regions :: "(peer_id, relay_info) hmap \<Rightarrow> peer_id list \<Rightarrow> geo_region list" where
  "route_regions relays route = map ri_region (List.map_filter (hm_get relays) route)"

section \<open>Routes\<close>

datatype stuck = Deadlock | IndexPanic

text \<open>The relays a backup may use: not those of the primary route.\<close>

definition backup_relays :: "(rat \<Rightarrow> rat) \<Rightarrow> peer_id list \<Rightarrow> adaptive_router \<Rightarrow> relay_info list" where
  "backup_relays R used st =
     filter (\<lambda>r. ri_region r \<notin> set (ar_avoid_regions (ar_config st)))
       (filter (\<lambda>r. ri_peer_id r \<notin> set used) (filter (is_healthy R) (hm_values (ar_relays st))))"

definition backup_route :: "route_env \<Rightarrow> computed_route \<Rightarrow> adaptive_router \<Rightarrow> nat \<Rightarrow> computed_route option" where
  "backup_route E primary st i =
     (let R = re_round E; available = backup_relays R (cr_relays primary) st in
      if length available \<ge> ar_min_hops (ar_config st) then
        (case select_relays R (ar_config st) (ar_blocked st) (ar_path_health st) available of
           Inl _ \<Rightarrow> None
         | Inr selected \<Rightarrow> Some
             \<lparr>cr_id = of_nat (i + 1) # tl (cr_id primary), cr_relays = selected,
              cr_regions = route_regions (ar_relays st) selected,
              cr_estimated_latency_ms = total_latency (ar_relays st) selected,
              cr_health_score = compute_route_health R (re_now E) (ar_path_health st) selected,
              cr_created_at = re_now E, cr_use_count = 0, cr_is_backup = True\<rparr>)
      else None)"

text \<open>\<open>held\<close>: the caller holds a read guard of the backup routes, so asking for the write lock never ends.\<close>

definition generate_backup_routes ::
    "route_env \<Rightarrow> bool \<Rightarrow> computed_route \<Rightarrow> adaptive_router \<Rightarrow> stuck + adaptive_router" where
  "generate_backup_routes E held primary st =
     (let backups = List.map_filter (backup_route E primary st) [0 ..< 2]
      in if held then Inl Deadlock
         else Inr (st\<lparr>ar_backup_routes := hm_insert (cr_id primary) backups (ar_backup_routes st)\<rparr>))"

definition available_relays :: "(rat \<Rightarrow> rat) \<Rightarrow> adaptive_router \<Rightarrow> relay_info list" where
  "available_relays R st =
     filter (\<lambda>r. case ri_asn r of None \<Rightarrow> True | Some a \<Rightarrow> a \<notin> set (ar_avoid_asns (ar_config st)))
       (filter (\<lambda>r. ri_region r \<notin> set (ar_avoid_regions (ar_config st)))
         (filter (is_healthy R) (hm_values (ar_relays st))))"

definition route_choice :: "(rat \<Rightarrow> rat) \<Rightarrow> adaptive_router \<Rightarrow> routing_error + peer_id list" where
  "route_choice R st =
     (let available = available_relays R st in
      if length available < ar_min_hops (ar_config st)
      then Inl (InsufficientRelays (ar_min_hops (ar_config st)) (length available))
      else select_relays R (ar_config st) (ar_blocked st) (ar_path_health st) available)"

definition new_route :: "route_env \<Rightarrow> adaptive_router \<Rightarrow> peer_id list \<Rightarrow> computed_route" where
  "new_route E st selected =
     \<lparr>cr_id = take 16 (re_blake3 E (concat selected @ re_random E)), cr_relays = selected,
      cr_regions = route_regions (ar_relays st) selected,
      cr_estimated_latency_ms = total_latency (ar_relays st) selected,
      cr_health_score = compute_route_health (re_round E) (re_now E) (ar_path_health st) selected,
      cr_created_at = re_now E, cr_use_count = 0, cr_is_backup = False\<rparr>"

definition count_route :: "route_env \<Rightarrow> routing_stats \<Rightarrow> routing_stats" where
  "count_route E s =
     (let R = re_round E in
      s\<lparr>rs_routes_computed := rs_routes_computed s + 1,
        rs_avg_route_time_ms := fadd R (fmul R (rs_avg_route_time_ms s) (R (9 / 10)))
          (fmul R (f64_of R (re_elapsed_ms E)) (R (1 / 10)))\<rparr>)"

definition compute_route ::
    "route_env \<Rightarrow> bool \<Rightarrow> adaptive_router \<Rightarrow> stuck + (routing_error + computed_route) \<times> adaptive_router" where
  "compute_route E held st =
     (case route_choice (re_round E) st of
        Inl e \<Rightarrow> Inr (Inl e, st)
      | Inr selected \<Rightarrow>
          (let route = new_route E st selected;
               st1 = st\<lparr>ar_stats := count_route E (ar_stats st),
                        ar_active_routes := hm_insert (cr_id route) route (ar_active_routes st)\<rparr>
           in case generate_backup_routes E held route st1 of
                Inl x \<Rightarrow> Inl x
              | Inr st2 \<Rightarrow> Inr (Inr route, st2)))"

section \<open>Deliveries and failover\<close>

definition router_success :: "bytes \<Rightarrow> u64 \<Rightarrow> u64 \<Rightarrow> adaptive_router \<Rightarrow> adaptive_router" where
  "router_success route_id latency_ms n st =
     st\<lparr>ar_active_routes := hm_modify route_id (\<lambda>r. r\<lparr>cr_use_count := cr_use_count r + 1\<rparr>) (ar_active_routes st),
        ar_stats := (ar_stats st)\<lparr>rs_successful_deliveries := rs_successful_deliveries (ar_stats st) + 1\<rparr>\<rparr>"

text \<open>\<open>max_by\<close> answers the last of the greatest elements.\<close>

fun max_by_score :: "computed_route list \<Rightarrow> computed_route option" where
  "max_by_score [] = None"
| "max_by_score (r # rs) =
     (case max_by_score rs of
        None \<Rightarrow> Some r
      | Some b \<Rightarrow> if cr_health_score r > cr_health_score b then Some r else Some b)"

definition best_backup :: "route_env \<Rightarrow> bytes \<Rightarrow> adaptive_router \<Rightarrow> computed_route option" where
  "best_backup E route_id st =
     (case hm_get (ar_backup_routes st) route_id of
        None \<Rightarrow> None
      | Some bs \<Rightarrow> max_by_score (filter (route_is_valid (re_round E) (re_now E) (from_secs 300)) bs))"

definition count_failover :: "adaptive_router \<Rightarrow> adaptive_router" where
  "count_failover st = st\<lparr>ar_stats := (ar_stats st)\<lparr>rs_failovers_triggered := rs_failovers_triggered (ar_stats st) + 1\<rparr>\<rparr>"

definition failover :: "route_env \<Rightarrow> bytes \<Rightarrow> adaptive_router \<Rightarrow> stuck + computed_route option \<times> adaptive_router" where
  "failover E route_id st =
     (case best_backup E route_id st of
        Some b \<Rightarrow>
          (let st1 = count_failover st
           in Inr (Some b, st1\<lparr>ar_active_routes := hm_insert (cr_id b) b (ar_active_routes st1)\<rparr>))
      | None \<Rightarrow>
          (case compute_route E True st of
             Inl x \<Rightarrow> Inl x
           | Inr (Inl e, st1) \<Rightarrow> Inr (None, st1)
           | Inr (Inr r, st1) \<Rightarrow> Inr (Some r, count_failover st1)))"

definition fail_segment :: "route_env \<Rightarrow> peer_id \<Rightarrow> peer_id \<Rightarrow> failure_type \<Rightarrow> adaptive_router \<Rightarrow> adaptive_router" where
  "fail_segment E a b ft st =
     (let old = (case hm_get (ar_path_health st) (a, b) of None \<Rightarrow> path_health_new a b | Some h \<Rightarrow> h);
          h = path_failure (re_round E) (re_now E) ft old;
          st1 = st\<lparr>ar_path_health := hm_insert (a, b) h (ar_path_health st)\<rparr>
      in if ph_censorship_status h = Confirmed then
           let blocked = hs_insert (a, b) (ar_blocked st1)
           in st1\<lparr>ar_blocked := blocked,
                  ar_stats := (ar_stats st1)\<lparr>rs_censorship_events := rs_censorship_events (ar_stats st1) + 1,
                    rs_blocked_paths := length blocked\<rparr>\<rparr>
         else st1)"

definition note_failure :: "route_env \<Rightarrow> peer_id list \<Rightarrow> nat \<Rightarrow> failure_type \<Rightarrow> adaptive_router \<Rightarrow> adaptive_router" where
  "note_failure E relays hop ft st =
     (let st1 = (if hop < usize_pred (length relays)
                 then fail_segment E (relays ! hop) (relays ! (hop + 1)) ft st else st)
      in st1\<lparr>ar_stats := (ar_stats st1)\<lparr>rs_failed_deliveries := rs_failed_deliveries (ar_stats st1) + 1\<rparr>\<rparr>)"

definition router_failure ::
    "route_env \<Rightarrow> bytes \<Rightarrow> nat \<Rightarrow> failure_type \<Rightarrow> adaptive_router \<Rightarrow> stuck + computed_route option \<times> adaptive_router" where
  "router_failure E route_id hop ft st =
     (case hm_get (ar_active_routes st) route_id of
        None \<Rightarrow> Inr (None, st)
      | Some route \<Rightarrow>
          (let relays = cr_relays route in
           if hop < usize_pred (length relays) \<and> hop + 1 \<ge> length relays then Inl IndexPanic
           else
             let st1 = note_failure E relays hop ft st
             in if ar_auto_failover (ar_config st1) then failover E route_id st1 else Inr (None, st1)))"

section \<open>Queries and manual blocking\<close>

definition blocked_paths :: "adaptive_router \<Rightarrow> (peer_id \<times> peer_id) list" where
  "blocked_paths st = ar_blocked st"

definition block_path :: "peer_id \<Rightarrow> peer_id \<Rightarrow> adaptive_router \<Rightarrow> adaptive_router" where
  "block_path a b st = st\<lparr>ar_blocked := hs_insert (a, b) (ar_blocked st)\<rparr>"

definition unblock_path :: "peer_id \<Rightarrow> peer_id \<Rightarrow> adaptive_router \<Rightarrow> adaptive_router" where
  "unblock_path a b st = st\<lparr>ar_blocked := hs_remove (a, b) (ar_blocked st)\<rparr>"

definition get_path_health ::
    "(rat \<Rightarrow> rat) \<Rightarrow> instant \<Rightarrow> peer_id \<Rightarrow> peer_id \<Rightarrow> adaptive_router \<Rightarrow> (f64 \<times> censorship_status) option" where
  "get_path_health R now a b st =
     map_option (\<lambda>h. (health_score R now h, ph_censorship_status h)) (hm_get (ar_path_health st) (a, b))"

definition get_censored_paths :: "adaptive_router \<Rightarrow> (peer_id \<times> peer_id \<times> censorship_status) list" where
  "get_censored_paths st =
     map (\<lambda>((a, b), h). (a, b, ph_censorship_status h))
       (filter (\<lambda>(_, h). ph_censorship_status h \<in> {Confirmed, Suspected}) (ar_path_health st))"

definition relay_count :: "adaptive_router \<Rightarrow> nat" where
  "relay_count st = length (ar_relays st)"

definition active_route_count :: "adaptive_router \<Rightarrow> nat" where
  "active_route_count st = length (ar_active_routes st)"

section \<open>How a node reports to its router\<close>

definition link_route_id :: "route_env \<Rightarrow> peer_id \<Rightarrow> peer_id \<Rightarrow> bytes" where
  "link_route_id E me other = take 16 (re_blake3 E (me @ other))"

definition ensure_relay :: "u64 \<Rightarrow> peer_id \<Rightarrow> adaptive_router \<Rightarrow> adaptive_router" where
  "ensure_relay unix p st = (if get_relay p st = None then register_relay (relay_info_new unix p) st else st)"

definition block_if_confirmed :: "route_env \<Rightarrow> peer_id \<Rightarrow> peer_id \<Rightarrow> adaptive_router \<Rightarrow> adaptive_router" where
  "block_if_confirmed E me other st =
     (case get_path_health (re_round E) (re_now E) me other st of
        Some (_, Confirmed) \<Rightarrow> block_path me other st
      | _ \<Rightarrow> st)"

definition record_censorship_failure ::
    "route_env \<Rightarrow> u64 \<Rightarrow> peer_id \<Rightarrow> peer_id \<Rightarrow> failure_type \<Rightarrow> adaptive_router \<Rightarrow> stuck + adaptive_router" where
  "record_censorship_failure E unix me other ft st =
     (let st1 = ensure_relay unix other (ensure_relay unix me st) in
      case router_failure E (link_route_id E me other) 0 ft st1 of
        Inl x \<Rightarrow> Inl x
      | Inr (None, st2) \<Rightarrow> Inr (if is_censorship_indicator ft then block_if_confirmed E me other st2 else st2)
      | Inr (Some _, st2) \<Rightarrow> Inr (block_if_confirmed E me other st2))"

definition record_censorship_success :: "route_env \<Rightarrow> peer_id \<Rightarrow> peer_id \<Rightarrow> u64 \<Rightarrow> adaptive_router \<Rightarrow> adaptive_router" where
  "record_censorship_success E me other n st = router_success (link_route_id E me other) 0 n st"

end
