(* ===== verification/RoutingSafety.thy ===== *)
theory RoutingSafety
  imports AdaptiveRouter
begin

text \<open>
  What the adaptive router guarantees: the routes it hands out, its backups, that a well-formed router
  never panics; and where it fails: failover hangs once there is no valid backup, a segment that failed
  is avoided for ever, and a node that reports to it never detects anything.
\<close>

section \<open>Choosing relays\<close>

definition allowed :: "(peer_id \<times> peer_id) list \<Rightarrow> health_map \<Rightarrow> peer_id \<Rightarrow> peer_id \<Rightarrow> bool" where
  "allowed blocked ph a b \<longleftrightarrow> (a, b) \<notin> set blocked \<and> (case hm_get ph (a, b) of None \<Rightarrow> True | Some h \<Rightarrow> \<not> should_avoid h)"

lemma is_path_ok_iff: "is_path_ok blocked ph sel p \<longleftrightarrow> sel = [] \<or> allowed blocked ph (last sel) p"
  by (simp add: is_path_ok_def allowed_def)

text \<open>What every stage of the choice keeps.\<close>

definition chosen_ok :: "(peer_id \<Rightarrow> peer_id \<Rightarrow> bool) \<Rightarrow> relay_info list \<Rightarrow> peer_id list \<Rightarrow> bool" where
  "chosen_ok P available sel \<longleftrightarrow> distinct sel \<and> set sel \<subseteq> ri_peer_id ` set available \<and> successively P sel"

lemma pick_simps [simp]:
  "pk_selected (pick r pk) = pk_selected pk @ [ri_peer_id r]"
  "pk_selected (pick_peer r pk) = pk_selected pk @ [ri_peer_id r]"
  by (simp_all add: pick_def pick_peer_def)

lemma chosen_snoc:
  assumes "chosen_ok P available sel" "r \<in> set available" "ri_peer_id r \<notin> set sel" "sel = [] \<or> P (last sel) (ri_peer_id r)"
  shows "chosen_ok P available (sel @ [ri_peer_id r])"
  using assms by (auto simp: chosen_ok_def successively_append_iff)

abbreviation good :: "(peer_id \<times> peer_id) list \<Rightarrow> health_map \<Rightarrow> relay_info list \<Rightarrow> picking \<Rightarrow> bool" where
  "good blocked ph available pk \<equiv> chosen_ok (allowed blocked ph) available (pk_selected pk)"

lemma guard_good:
  "set rs \<subseteq> set available \<Longrightarrow> pk_selected pk = [] \<Longrightarrow> good blocked ph available (pick_guard cfg (is_path_ok blocked ph) rs pk)"
  by (induction rs) (auto simp: chosen_ok_def)

lemma first_good: "set rs \<subseteq> set available \<Longrightarrow> good blocked ph available pk \<Longrightarrow> good blocked ph available (pick_first rs pk)"
  by (auto simp: pick_first_def chosen_ok_def split: list.split)

lemma middle_good:
  "set rs \<subseteq> set available \<Longrightarrow> good blocked ph available pk \<Longrightarrow> good blocked ph available (pick_middle cfg n (is_path_ok blocked ph) rs pk)"
proof (induction rs arbitrary: pk)
  case (Cons r rs)
  then have "good blocked ph available (pick r pk)" if "ri_peer_id r \<notin> set (pk_selected pk)" "is_path_ok blocked ph (pk_selected pk) (ri_peer_id r)"
    using that chosen_snoc [of "allowed blocked ph" available "pk_selected pk" r] by (simp add: is_path_ok_iff)
  with Cons show ?case by simp
qed simp

lemma exit_good:
  "set rs \<subseteq> set available \<Longrightarrow> good blocked ph available pk \<Longrightarrow> good blocked ph available (pick_exit n (is_path_ok blocked ph) rs pk)"
proof (induction rs arbitrary: pk)
  case (Cons r rs)
  then have "good blocked ph available (pick_peer r pk)" if "ri_peer_id r \<notin> set (pk_selected pk)" "is_path_ok blocked ph (pk_selected pk) (ri_peer_id r)"
    using that chosen_snoc [of "allowed blocked ph" available "pk_selected pk" r] by (simp add: is_path_ok_iff)
  with Cons show ?case by simp
qed simp

lemma rest_good:
  "set rs \<subseteq> set available \<Longrightarrow> good blocked ph available pk \<Longrightarrow> good blocked ph available (pick_rest n (is_path_ok blocked ph) rs pk)"
proof (induction rs arbitrary: pk)
  case (Cons r rs)
  then have "good blocked ph available (pick_peer r pk)" if "ri_peer_id r \<notin> set (pk_selected pk)" "is_path_ok blocked ph (pk_selected pk) (ri_peer_id r)"
    using that chosen_snoc [of "allowed blocked ph" available "pk_selected pk" r] by (simp add: is_path_ok_iff)
  with Cons show ?case by simp
qed simp

lemma guard_length: "pk_selected pk = [] \<Longrightarrow> length (pk_selected (pick_guard cfg ok rs pk)) \<le> 1"
  by (induction rs) auto

lemma first_length: "length (pk_selected pk) \<le> 1 \<Longrightarrow> length (pk_selected (pick_first rs pk)) \<le> 1"
  by (auto simp: pick_first_def split: list.split)

lemma middle_length:
  "length (pk_selected (pick_middle cfg n ok rs pk)) \<le> max n (length (pk_selected pk))"
proof (induction rs arbitrary: pk)
  case (Cons r rs)
  from Cons [of "pick r pk"] Cons [of pk] show ?case by auto
qed simp

lemma exit_length: "length (pk_selected (pick_exit n ok rs pk)) \<le> max n (length (pk_selected pk))"
  by (induction rs) auto

lemma rest_length: "length (pk_selected (pick_rest n ok rs pk)) \<le> max n (length (pk_selected pk))"
proof (induction rs arbitrary: pk)
  case (Cons r rs)
  from Cons [of "pick_peer r pk"] Cons [of pk] show ?case by auto
qed simp

lemma select_relays_ok:
  assumes "select_relays R cfg blocked ph available = Inr sel"
  shows "chosen_ok (allowed blocked ph) available sel" "ar_min_hops cfg \<le> length sel" "1 \<le> hops_for cfg \<Longrightarrow> length sel \<le> hops_for cfg"
proof -
  define n ok scored where "n = hops_for cfg" and "ok = is_path_ok blocked ph" and "scored = score_relays R cfg available"
  define pk2 where "pk2 = pick_first scored (pick_guard cfg ok scored \<lparr>pk_selected = [], pk_regions = [], pk_asns = []\<rparr>)"
  define pk3 where "pk3 = pick_middle cfg (usize_pred n) ok scored pk2"
  define pk4 where "pk4 = pick_exit n ok scored pk3"
  have sel: "sel = pk_selected (pick_rest n ok scored pk4)" "ar_min_hops cfg \<le> length sel"
    using assms by (simp_all add: select_relays_def Let_def n_def ok_def scored_def pk2_def pk3_def pk4_def split: if_splits)
  have scored: "set scored \<subseteq> set available"
    by (simp add: scored_def score_relays_def)
  show "chosen_ok (allowed blocked ph) available sel"
    unfolding sel pk4_def pk3_def pk2_def ok_def
    by (intro rest_good exit_good middle_good first_good guard_good scored) simp
  show "ar_min_hops cfg \<le> length sel" by (rule sel(2))
  assume n: "1 \<le> hops_for cfg"
  have "length (pk_selected pk2) \<le> 1"
    unfolding pk2_def by (intro first_length guard_length) simp
  moreover have "length (pk_selected pk3) \<le> max (n - 1) (length (pk_selected pk2))"
    using middle_length [of cfg "n - 1" ok scored pk2] n by (simp add: pk3_def usize_pred_def n_def)
  moreover note exit_length [of n ok scored pk3] rest_length [of n ok scored pk4]
  ultimately show "length sel \<le> hops_for cfg"
    using n by (simp add: sel pk4_def n_def)
qed

section \<open>Runs of the router\<close>

datatype router_op =
    RegisterRelay relay_info
  | RemoveRelay peer_id
  | ComputeRoute
  | DeliverySuccess bytes u64 u64
  | DeliveryFailure bytes nat failure_type
  | Failover bytes
  | BlockPath peer_id peer_id
  | UnblockPath peer_id peer_id

fun router_call :: "route_env \<times> router_op \<Rightarrow> adaptive_router \<Rightarrow> stuck + adaptive_router" where
  "router_call (E, RegisterRelay r) st = Inr (register_relay r st)"
| "router_call (E, RemoveRelay p) st = Inr (remove_relay p st)"
| "router_call (E, ComputeRoute) st = map_sum id snd (compute_route E False st)"
| "router_call (E, DeliverySuccess i l n) st = Inr (router_success i l n st)"
| "router_call (E, DeliveryFailure i hop ft) st = map_sum id snd (router_failure E i hop ft st)"
| "router_call (E, Failover i) st = map_sum id snd (failover E i st)"
| "router_call (E, BlockPath a b) st = Inr (block_path a b st)"
| "router_call (E, UnblockPath a b) st = Inr (unblock_path a b st)"

text \<open>A thread that is stuck stays stuck.\<close>

definition live :: "('e \<Rightarrow> 's \<Rightarrow> 'x + 's) \<Rightarrow> 'e \<Rightarrow> 'x + 's \<Rightarrow> 'x + 's" where
  "live f e s = (case s of Inl x \<Rightarrow> Inl x | Inr st \<Rightarrow> f e st)"

definition whenever :: "('s \<Rightarrow> bool) \<Rightarrow> 'x + 's \<Rightarrow> bool" where
  "whenever P s = (case s of Inl _ \<Rightarrow> True | Inr st \<Rightarrow> P st)"

lemma whenever_simps [simp]: "whenever P (Inl x)" "whenever P (Inr st) \<longleftrightarrow> P st"
  by (simp_all add: whenever_def)

lemma whenever_live: "(\<And>st. P st \<Longrightarrow> whenever P (f e st)) \<Longrightarrow> whenever P s \<Longrightarrow> whenever P (live f e s)"
  by (cases s) (auto simp: live_def)

lemma compute_route_cases:
  obtains e where "compute_route E held st = Inr (Inl e, st)" "route_choice (re_round E) st = Inl e"
  | "held" "compute_route E held st = Inl Deadlock"
  | sel route st1 where "\<not> held" "route_choice (re_round E) st = Inr sel" "route = new_route E st sel"
      "st1 = st\<lparr>ar_stats := count_route E (ar_stats st), ar_active_routes := hm_insert (cr_id route) route (ar_active_routes st)\<rparr>"
      "compute_route E held st = Inr (Inr route, st1\<lparr>ar_backup_routes :=
         hm_insert (cr_id route) (List.map_filter (backup_route E route st1) [0 ..< 2]) (ar_backup_routes st)\<rparr>)"
  by (cases "route_choice (re_round E) st"; cases held)
    (auto simp: compute_route_def generate_backup_routes_def Let_def)

lemma failover_cases:
  obtains b where "best_backup E i st = Some b"
      "failover E i st = Inr (Some b, (count_failover st)\<lparr>ar_active_routes := hm_insert (cr_id b) b (ar_active_routes st)\<rparr>)"
  | e where "best_backup E i st = None" "route_choice (re_round E) st = Inl e" "failover E i st = Inr (None, st)"
  | sel where "best_backup E i st = None" "route_choice (re_round E) st = Inr sel" "failover E i st = Inl Deadlock"
  by (cases "best_backup E i st"; cases "route_choice (re_round E) st")
    (auto simp: failover_def compute_route_def generate_backup_routes_def Let_def count_failover_def)

text \<open>A failure, before the failover, changes only the health of one segment, the blocked paths and counters.\<close>

lemma note_failure_simps [simp]:
  "ar_relays (note_failure E relays hop ft st) = ar_relays st"
  "ar_config (note_failure E relays hop ft st) = ar_config st"
  "ar_active_routes (note_failure E relays hop ft st) = ar_active_routes st"
  "ar_backup_routes (note_failure E relays hop ft st) = ar_backup_routes st"
  by (simp_all add: note_failure_def fail_segment_def Let_def)

lemma best_backup_note [simp]: "best_backup E i (note_failure E' relays hop ft st) = best_backup E i st"
  by (simp add: best_backup_def cong: option.case_cong)

lemma router_failure_cases:
  obtains "hm_get (ar_active_routes st) i = None" "router_failure E i hop ft st = Inr (None, st)"
  | r where "hm_get (ar_active_routes st) i = Some r" "cr_relays r = []"
      "router_failure E i hop ft st = Inl IndexPanic"
  | r st1 where "hm_get (ar_active_routes st) i = Some r" "st1 = note_failure E (cr_relays r) hop ft st"
      "router_failure E i hop ft st = (if ar_auto_failover (ar_config st) then failover E i st1 else Inr (None, st1))"
proof (cases "hm_get (ar_active_routes st) i")
  case None
  then show thesis by (intro that(1)) (simp_all add: router_failure_def)
next
  case (Some r)
  show thesis
  proof (cases "hop < usize_pred (length (cr_relays r)) \<and> hop + 1 \<ge> length (cr_relays r)")
    case True
    then have "cr_relays r = []" by (auto simp: usize_pred_def split: if_splits)
    with True Some show thesis by (intro that(2)) (simp_all add: router_failure_def)
  next
    case False
    with Some show thesis by (intro that(3)) (auto simp: router_failure_def Let_def)
  qed
qed

lemma max_by_score_in: "max_by_score rs = Some r \<Longrightarrow> r \<in> set rs"
  by (induction rs) (auto split: option.splits if_splits)

lemma best_backup_in:
  assumes "best_backup E i st = Some b"
  obtains bs where "hm_get (ar_backup_routes st) i = Some bs" "b \<in> set bs"
  using assms max_by_score_in by (fastforce simp: best_backup_def split: option.splits)

section \<open>Well-formed routers\<close>

text \<open>
  Relays are kept under their own ids, and every route has relays, at least as many as configured.
\<close>

definition router_ok :: "adaptive_config \<Rightarrow> adaptive_router \<Rightarrow> bool" where
  "router_ok cfg st \<longleftrightarrow> ar_config st = cfg \<and>
     hm_wf (ar_relays st) \<and> (\<forall>p r. hm_get (ar_relays st) p = Some r \<longrightarrow> ri_peer_id r = p) \<and>
     (\<forall>i r. hm_get (ar_active_routes st) i = Some r \<longrightarrow> ar_min_hops cfg \<le> length (cr_relays r)) \<and>
     (\<forall>i rs. hm_get (ar_backup_routes st) i = Some rs \<longrightarrow> (\<forall>r \<in> set rs. ar_min_hops cfg \<le> length (cr_relays r)))"

lemma router_ok_with_config: "router_ok cfg (router_with_config cfg)"
  by (simp add: router_ok_def router_with_config_def)

lemma route_choice_length:
  "route_choice R st = Inr sel \<Longrightarrow> ar_min_hops (ar_config st) \<le> length sel"
  by (auto simp: route_choice_def Let_def dest: select_relays_ok split: if_splits)

lemma backup_route_Some:
  assumes "backup_route E primary st i = Some b"
  shows "select_relays (re_round E) (ar_config st) (ar_blocked st) (ar_path_health st)
      (backup_relays (re_round E) (cr_relays primary) st) = Inr (cr_relays b)"
  using assms by (auto simp: backup_route_def Let_def split: if_splits sum.splits)

lemma router_ok_compute:
  assumes "router_ok cfg st"
  shows "whenever (\<lambda>(_, st'). router_ok cfg st') (compute_route E held st)"
proof (cases rule: compute_route_cases [of E held st])
  case (3 sel route st1)
  have cfg: "ar_config st1 = cfg" "ar_config st = cfg"
    using 3(4) assms by (simp_all add: router_ok_def)
  have "ar_min_hops cfg \<le> length (cr_relays route)"
    using 3(2,3) route_choice_length cfg by (fastforce simp: new_route_def)
  moreover have "ar_min_hops cfg \<le> length (cr_relays b)"
    if "b \<in> set (List.map_filter (backup_route E route st1) [0 ..< 2])" for b
  proof -
    from that obtain k where "backup_route E route st1 k = Some b"
      by (auto simp: List.map_filter_def)
    then show ?thesis
      using select_relays_ok(2) [OF backup_route_Some] cfg by metis
  qed
  ultimately show ?thesis
    using assms by (simp add: 3(5)) (simp add: router_ok_def 3(4))
qed (use assms in simp_all)

lemma router_ok_failover:
  assumes "router_ok cfg st"
  shows "whenever (\<lambda>(_, st'). router_ok cfg st') (failover E i st)"
proof (cases rule: failover_cases [of E i st])
  case (1 b)
  obtain bs where "hm_get (ar_backup_routes st) i = Some bs" "b \<in> set bs"
    using 1(1) by (rule best_backup_in)
  with assms have "ar_min_hops cfg \<le> length (cr_relays b)"
    by (auto simp: router_ok_def)
  with assms show ?thesis
    by (simp add: 1(2)) (simp add: router_ok_def count_failover_def)
qed (use assms in simp_all)

lemma router_ok_failure:
  assumes "router_ok cfg st"
  shows "whenever (\<lambda>(_, st'). router_ok cfg st') (router_failure E i hop ft st)"
proof (cases rule: router_failure_cases [of st i E hop ft])
  case (3 r st1)
  then have "router_ok cfg st1"
    using assms by (simp add: router_ok_def)
  then show ?thesis
    using router_ok_failover [of cfg st1 E i] by (simp add: 3(3))
qed (use assms in simp_all)

lemma map_sum_id_Inl [simp]: "map_sum id f s = Inl x \<longleftrightarrow> s = Inl x"
  by (cases s) auto

lemma whenever_snd: "whenever (\<lambda>(_, st'). P st') s \<Longrightarrow> whenever P (map_sum id snd s)"
  by (cases s) auto

lemma router_ok_call: "router_ok cfg st \<Longrightarrow> whenever (router_ok cfg) (router_call e st)"
proof (induction e st rule: router_call.induct)
  case (1 E r st)
  then show ?case by (simp add: router_ok_def register_relay_def)
next
  case (2 E p st)
  then show ?case by (simp add: router_ok_def remove_relay_def)
next
  case (3 E st)
  then show ?case using router_ok_compute by (simp add: whenever_snd)
next
  case (4 E i l n st)
  then show ?case by (auto simp: router_ok_def router_success_def)
next
  case (5 E i hop ft st)
  then show ?case using router_ok_failure by (simp add: whenever_snd)
next
  case (6 E i st)
  then show ?case using router_ok_failover by (simp add: whenever_snd)
qed (simp_all add: router_ok_def block_path_def unblock_path_def)

interpretation router: call_machine "live router_call" "whenever (router_ok cfg)" for cfg
  by unfold_locales (auto intro: whenever_live router_ok_call)

definition router_run :: "(route_env \<times> router_op) list \<Rightarrow> adaptive_config \<Rightarrow> stuck + adaptive_router" where
  "router_run es cfg = fold (live router_call) es (Inr (router_with_config cfg))"

lemma router_run_ok: "router_run es cfg = Inr st \<Longrightarrow> router_ok cfg st"
  using router.run_inv [of cfg "Inr (router_with_config cfg)" es] router_ok_with_config [of cfg]
  by (simp add: router_run_def)


section \<open>What a route may use\<close>

lemma hm_values_relay:
  assumes "router_ok cfg st" "r \<in> set (hm_values (ar_relays st))"
  shows "hm_get (ar_relays st) (ri_peer_id r) = Some r"
proof -
  from assms(2) obtain k where "(k, r) \<in> set (ar_relays st)"
    by (auto simp: hm_values_def)
  then have "hm_get (ar_relays st) k = Some r"
    using assms(1) by (simp add: router_ok_def hm_get_iff_in_set)
  with assms(1) show ?thesis
    by (auto simp: router_ok_def)
qed

definition usable :: "(rat \<Rightarrow> rat) \<Rightarrow> adaptive_router \<Rightarrow> peer_id \<Rightarrow> bool" where
  "usable R st p \<longleftrightarrow>
     (case hm_get (ar_relays st) p of
        None \<Rightarrow> False
      | Some r \<Rightarrow> is_healthy R r \<and> ri_region r \<notin> set (ar_avoid_regions (ar_config st)) \<and>
          (case ri_asn r of None \<Rightarrow> True | Some a \<Rightarrow> a \<notin> set (ar_avoid_asns (ar_config st))))"

lemma hops_between:
  "ar_min_hops cfg \<le> ar_max_hops cfg \<Longrightarrow> ar_min_hops cfg \<le> hops_for cfg \<and> hops_for cfg \<le> ar_max_hops cfg"
  by (cases "ar_strategy cfg") (auto simp: hops_for_def)

lemma route_choice_ok:
  assumes "router_ok cfg st" "route_choice R st = Inr sel"
  shows "distinct sel" "\<forall>p \<in> set sel. usable R st p" "successively (allowed (ar_blocked st) (ar_path_health st)) sel"
    and "ar_min_hops cfg \<le> length sel" "1 \<le> hops_for cfg \<Longrightarrow> length sel \<le> hops_for cfg"
proof -
  have cfg: "ar_config st = cfg" using assms(1) by (simp add: router_ok_def)
  have sel: "select_relays R cfg (ar_blocked st) (ar_path_health st) (available_relays R st) = Inr sel"
    using assms(2) cfg by (auto simp: route_choice_def Let_def split: if_splits)
  note ok = select_relays_ok [OF sel]
  then show "distinct sel" "successively (allowed (ar_blocked st) (ar_path_health st)) sel"
      "ar_min_hops cfg \<le> length sel" "1 \<le> hops_for cfg \<Longrightarrow> length sel \<le> hops_for cfg"
    by (simp_all add: chosen_ok_def)
  show "\<forall>p \<in> set sel. usable R st p"
  proof
    fix p
    assume "p \<in> set sel"
    then obtain r where r: "r \<in> set (available_relays R st)" "p = ri_peer_id r"
      using ok(1) by (auto simp: chosen_ok_def)
    then have "hm_get (ar_relays st) p = Some r"
      using hm_values_relay [OF assms(1)] by (simp add: available_relays_def)
    with r show "usable R st p"
      by (simp add: usable_def available_relays_def)
  qed
qed


section \<open>Backup routes\<close>

text \<open>The backups of a new route share no relay with it, and so survive the failure of any relay of it; they too
  avoid blocked and failed paths and have the configured number of hops. But the two are the same route.\<close>

theorem backups_share_no_relay:
  assumes "router_run es cfg = Inr st" "compute_route E False st = Inr (Inr route, st')"
  shows "\<exists>bs. hm_get (ar_backup_routes st') (cr_id route) = Some bs \<and>
    (\<forall>b \<in> set bs. set (cr_relays b) \<inter> set (cr_relays route) = {} \<and> distinct (cr_relays b) \<and>
       ar_min_hops cfg \<le> length (cr_relays b) \<and>
       successively (allowed (ar_blocked st) (ar_path_health st)) (cr_relays b)) \<and>
    (\<forall>b \<in> set bs. \<forall>b' \<in> set bs. cr_relays b = cr_relays b')"
proof (cases rule: compute_route_cases [of E False st])
  case (3 sel r st1)
  define bs where "bs = List.map_filter (backup_route E route st1) [0 ..< 2]"
  have cfg: "ar_config st1 = cfg"
    using router_run_ok [OF assms(1)] 3(4) by (simp add: router_ok_def)
  have route: "r = route" "hm_get (ar_backup_routes st') (cr_id route) = Some bs"
    using 3(5) assms(2) by (auto simp: bs_def)
  have chosen: "select_relays (re_round E) cfg (ar_blocked st) (ar_path_health st)
      (backup_relays (re_round E) (cr_relays route) st1) = Inr (cr_relays b)" if "b \<in> set bs" for b
  proof -
    from that obtain k where "backup_route E route st1 k = Some b"
      by (auto simp: bs_def List.map_filter_def)
    from backup_route_Some [OF this] show ?thesis
      by (simp add: cfg) (simp add: 3(4))
  qed
  have "set (cr_relays b) \<inter> set (cr_relays route) = {} \<and> distinct (cr_relays b) \<and> ar_min_hops cfg \<le> length (cr_relays b) \<and>
      successively (allowed (ar_blocked st) (ar_path_health st)) (cr_relays b)" if "b \<in> set bs" for b
    using select_relays_ok(1,2) [OF chosen [OF that]] by (auto simp: chosen_ok_def backup_relays_def)
  moreover have "cr_relays b = cr_relays b'" if "b \<in> set bs" "b' \<in> set bs" for b b'
    using chosen [OF that(1)] chosen [OF that(2)] by simp
  ultimately show ?thesis
    using route(2) by (intro exI [of _ bs]) blast
qed (use assms in simp_all)

section \<open>Failover\<close>

lemma failure_without_backup:
  assumes "hm_get (ar_active_routes st) i = Some route" "cr_relays route \<noteq> []" "ar_auto_failover (ar_config st)"
    and "best_backup E i st = None"
  shows "router_failure E i hop ft st =
    (let st1 = note_failure E (cr_relays route) hop ft st in
     case route_choice (re_round E) st1 of Inl _ \<Rightarrow> Inr (None, st1) | Inr _ \<Rightarrow> Inl Deadlock)"
proof (cases rule: router_failure_cases [of st i E hop ft])
  case (3 r st1)
  with assms have "router_failure E i hop ft st = failover E i st1" "best_backup E i st1 = None"
    and st1: "st1 = note_failure E (cr_relays route) hop ft st" by simp_all
  then show ?thesis
    by (cases rule: failover_cases [of E i st1]) (simp_all add: Let_def)
qed (use assms in simp_all)

text \<open>Failover works once. When a route has failed over to a backup, the failure of the backup never leads to
  another route: if one can be found, the call waits for ever for a lock it holds itself, and it answers
  \<open>None\<close> only if none can be found. (No backups are kept for a backup: that its id is not that of a
  primary route is the hypothesis.)\<close>

theorem second_failure_hangs:
  assumes "router_run es cfg = Inr st" "1 \<le> ar_min_hops cfg" "ar_auto_failover cfg"
    and "router_failure E i hop ft st = Inr (Some b, st1)" "hm_get (ar_backup_routes st) (cr_id b) = None"
  shows "router_failure E' (cr_id b) hop' ft' st1 =
    (let st2 = note_failure E' (cr_relays b) hop' ft' st1 in
     case route_choice (re_round E') st2 of Inl _ \<Rightarrow> Inr (None, st2) | Inr _ \<Rightarrow> Inl Deadlock)"
proof -
  have ok: "router_ok cfg st" using assms(1) by (rule router_run_ok)
  have ok1: "router_ok cfg st1"
    using router_ok_failure [OF ok, of E i hop ft] assms(4) by simp
  obtain r st0 where fo: "failover E i st0 = Inr (Some b, st1)" and st0: "ar_backup_routes st0 = ar_backup_routes st"
    using assms(4) by (cases rule: router_failure_cases [of st i E hop ft]) (auto split: if_splits)
  then have st1: "hm_get (ar_active_routes st1) (cr_id b) = Some b" "ar_backup_routes st1 = ar_backup_routes st"
    by (cases rule: failover_cases [of E i st0]; auto simp: count_failover_def)+
  have "cr_relays b \<noteq> []" "ar_auto_failover (ar_config st1)"
    using ok1 st1(1) assms(2,3) by (fastforce simp: router_ok_def)+
  moreover have "best_backup E' (cr_id b) st1 = None"
    using st1(2) assms(5) by (simp add: best_backup_def)
  ultimately show ?thesis
    using st1(1) by (intro failure_without_backup)
qed

section \<open>Failed segments\<close>

definition failures :: "peer_id \<Rightarrow> peer_id \<Rightarrow> adaptive_router \<Rightarrow> nat" where
  "failures a b st = (case hm_get (ar_path_health st) (a, b) of None \<Rightarrow> 0 | Some h \<Rightarrow> ph_consecutive_failures h)"

lemma consecutive_path_failure [simp]:
  "ph_consecutive_failures (path_failure R now ft h) = Suc (ph_consecutive_failures h)"
  by (simp add: path_failure_def update_censorship_status_def add_attempt_def Let_def)

lemma path_health_fail_segment:
  "ar_path_health (fail_segment E a b ft st) = hm_insert (a, b)
     (path_failure (re_round E) (re_now E) ft
       (case hm_get (ar_path_health st) (a, b) of None \<Rightarrow> path_health_new a b | Some h \<Rightarrow> h)) (ar_path_health st)"
  by (simp add: fail_segment_def Let_def)

lemma failures_note_failure: "failures a b st \<le> failures a b (note_failure E relays hop ft st)"
  by (auto simp: failures_def note_failure_def path_health_fail_segment Let_def path_health_new_def split: option.split)

lemma failures_compute: "whenever (\<lambda>(_, st'). failures a b st' = failures a b st) (compute_route E held st)"
  by (cases rule: compute_route_cases [of E held st]) (simp_all add: failures_def)

lemma failures_failover: "whenever (\<lambda>(_, st'). failures a b st' = failures a b st) (failover E i st)"
  by (cases rule: failover_cases [of E i st]) (simp_all add: failures_def count_failover_def)

lemma failures_failure: "whenever (\<lambda>(_, st'). failures a b st \<le> failures a b st') (router_failure E i hop ft st)"
proof (cases rule: router_failure_cases [of st i E hop ft])
  case (3 r st1)
  then have "failures a b st \<le> failures a b st1" by (simp add: failures_note_failure)
  with failures_failover [of a b st1 E i] show ?thesis
    by (cases "failover E i st1") (auto simp: 3(3))
qed simp_all

lemma failures_call: "n \<le> failures a b st \<Longrightarrow> whenever (\<lambda>st'. n \<le> failures a b st') (router_call e st)"
proof (induction e st rule: router_call.induct)
  case (3 E st)
  then show ?case using failures_compute [of a b st E False] by (cases "compute_route E False st") auto
next
  case (5 E i hop ft st)
  then show ?case using failures_failure [of a b st E i hop ft] by (cases "router_failure E i hop ft st") auto
next
  case (6 E i st)
  then show ?case using failures_failover [of a b st E i] by (cases "failover E i st") auto
qed (simp_all add: failures_def register_relay_def remove_relay_def router_success_def block_path_def unblock_path_def)

interpretation failed: call_machine "live router_call" "whenever (\<lambda>st. n \<le> failures a b st)" for n a b
  by unfold_locales (auto intro: whenever_live failures_call)

lemma successively_split: "successively P (xs @ a # b # ys) \<Longrightarrow> P a b"
  by (simp add: successively_append_iff)

text \<open>A path that failed three times is never used again. Whatever happens after three failures of the path
  between two relays - deliveries that succeed, time, even unblocking it by hand -, no route handed out
  has them in a row.\<close>

theorem failed_segment_avoided_for_ever:
  assumes "3 \<le> failures a b st" "fold (live router_call) es (Inr st) = Inr st'"
    and "compute_route E held st' = Inr (Inr route, st'')"
  shows "cr_relays route \<noteq> xs @ a # b # ys"
proof (cases rule: compute_route_cases [of E held st'])
  case (3 sel r st1)
  have "whenever (\<lambda>st. 3 \<le> failures a b st) (fold (live router_call) es (Inr st))"
    by (rule failed.run_inv) (simp add: assms)
  then have "\<not> allowed (ar_blocked st') (ar_path_health st') a b"
    by (auto simp: assms(2) allowed_def failures_def should_avoid_def split: option.splits)
  moreover have "successively (allowed (ar_blocked st') (ar_path_health st')) sel"
    using 3(2) select_relays_ok(1) by (fastforce simp: route_choice_def Let_def chosen_ok_def split: if_splits)
  moreover have "cr_relays route = sel" using 3(3,5) assms(3) by (simp add: new_route_def)
  ultimately show ?thesis using successively_split by metis
qed (use assms in simp_all)

section \<open>Detecting censorship\<close>

lemma f64_sum_ones:
  assumes "rounds_to_nearest R" "k + n \<le> 2 ^ 53"
  shows "foldl (fadd R) (of_nat k) (replicate n 1) = of_nat (k + n)"
  using assms(2)
proof (induction n arbitrary: k)
  case (Suc n)
  have "fadd R (of_nat k) 1 = R (of_nat (Suc k))" by (simp add: fadd_def add.commute)
  also have "\<dots> = of_nat (Suc k)"
    using Suc.prems by (intro rounds_nat [OF assms(1)]) simp
  finally show ?case using Suc.IH [of "Suc k"] Suc.prems by simp
qed simp

lemma power_bounds: "1 \<le> n \<Longrightarrow> 1 / 2 ^ n \<le> (1 / 2 :: rat)" "(1 :: rat) \<le> 2 ^ n"
proof -
  assume "1 \<le> n"
  then obtain m where "n = Suc m" by (cases n) auto
  then show "1 / 2 ^ n \<le> (1 / 2 :: rat)"
    using one_le_power [of "2 :: rat" m] by (simp add: divide_simps)
qed (simp add: one_le_power)

lemma rounds_between:
  assumes "rounds_to_nearest R" "1 / 2 \<le> \<bar>x\<bar>" "\<bar>x\<bar> \<le> 1"
  shows "\<bar>R x - x\<bar> \<le> \<bar>x\<bar> / 2 ^ 53"
proof -
  have "1 / 2 ^ 1022 \<le> \<bar>x\<bar>" "\<bar>x\<bar> \<le> 2 ^ 1023"
    by (rule order_trans [OF power_bounds(1) assms(2)]) (simp, rule order_trans [OF assms(3) power_bounds(2)])
  with assms(1) show ?thesis
    unfolding rounds_to_nearest_def by blast
qed

lemma threshold_less_1:
  assumes "rounds_to_nearest R"
  shows "CENSORSHIP_FAILURE_THRESHOLD R < 1"
proof -
  have "R (7 / 10) - 7 / 10 \<le> \<bar>7 / 10\<bar> / 2 ^ 53"
    by (rule order_trans [OF abs_ge_self rounds_between [OF assms]]) simp_all
  then show ?thesis by (simp add: CENSORSHIP_FAILURE_THRESHOLD_def)
qed

text \<open>An attempt that was reset or tampered with, within the window.\<close>

definition strong_failure :: "instant \<Rightarrow> path_attempt \<Rightarrow> bool" where
  "strong_failure now a \<longleftrightarrow> elapsed now (pa_timestamp a) < FAILURE_WINDOW \<and> \<not> pa_success a \<and>
     pa_failure_type a \<in> {Some ConnectionReset, Some ContentTampering}"

lemma strong_failures_confirmed:
  assumes "rounds_to_nearest R" "recent_attempts now h = as" "list_all (strong_failure now) as" "5 \<le> length as" "length as \<le> 100"
  shows "ph_censorship_status (update_censorship_status R now h) = Confirmed"
proof -
  have fails: "filter is_censorship_indicator (List.map_filter pa_failure_type (filter (\<lambda>a. \<not> pa_success a) xs)) = map (the \<circ> pa_failure_type) xs"
      and ones: "map (severity_weight R) (map (the \<circ> pa_failure_type) xs) = replicate (length xs) 1"
    if "list_all (strong_failure now) xs" for xs
    using that by (induction xs) (auto simp: strong_failure_def map_filter_simps)
  have exact: "R (of_nat n) = of_nat n" if "n \<le> 100" for n
    using that by (intro rounds_nat [OF assms(1)]) simp
  have "f64_sum R (replicate (length as) 1) = of_nat (length as)"
    using f64_sum_ones [OF assms(1), of 0 "length as"] assms(5) by (simp add: f64_sum_def)
  moreover have "R 1 = 1" using exact [of 1] by simp
  ultimately have "censorship_failure_rate R now h = 1"
    using assms(2,4,5) fails [OF assms(3)] ones [OF assms(3)] exact [of "length as"]
    by (auto simp: censorship_failure_rate_def Let_def fdiv_def f64_of_def)
  with threshold_less_1 [OF assms(1)] assms(2,4) show ?thesis
    by (simp add: update_censorship_status_def MIN_SAMPLES_FOR_DETECTION_def Let_def)
qed

lemma blocked_failover: "whenever (\<lambda>(_, st'). ar_blocked st' = ar_blocked st) (failover E i st)"
  by (cases rule: failover_cases [of E i st]) (simp_all add: count_failover_def)

lemma path_failure_confirmed:
  assumes "rounds_to_nearest R" "list_all (strong_failure now) (recent_attempts now h)" "4 \<le> length (recent_attempts now h)"
    and "length (ph_attempts h) < MAX_PATH_HISTORY" "ft \<in> {ConnectionReset, ContentTampering}"
  shows "ph_censorship_status (path_failure R now ft h) = Confirmed"
proof -
  let ?new = "\<lparr>pa_timestamp = now, pa_success = False, pa_failure_type = Some ft, pa_latency_ms = None, pa_bytes_transferred = 0\<rparr>"
  define h1 where "h1 = (add_attempt ?new h)\<lparr>ph_consecutive_failures := Suc (ph_consecutive_failures h)\<rparr>"
  have "path_failure R now ft h = update_censorship_status R now h1"
    by (simp add: path_failure_def h1_def add_attempt_def Let_def)
  moreover have "recent_attempts now h1 = recent_attempts now h @ [?new]"
    using assms(4) by (simp add: h1_def recent_attempts_def add_attempt_def elapsed_def FAILURE_WINDOW_def from_secs_def)
  moreover have "strong_failure now ?new"
    using assms(5) by (auto simp: strong_failure_def elapsed_def FAILURE_WINDOW_def from_secs_def)
  moreover have "length (recent_attempts now h) \<le> length (ph_attempts h)"
    by (simp add: recent_attempts_def)
  ultimately show ?thesis
    using assms by (simp add: MAX_PATH_HISTORY_def strong_failures_confirmed)
qed

text \<open>Resets are recognised as censorship. When the path between two relays of an active route has nothing but
  resets or tampering within the window, four of them at least, the next one confirms the censorship and
  blocks the path, for which the arithmetic of rates must only round to nearest.\<close>

theorem resets_block_path:
  assumes "rounds_to_nearest (re_round E)" "hm_get (ar_active_routes st) i = Some route"
    and "cr_relays route = xs @ a # b # ys" "hm_get (ar_path_health st) (a, b) = Some h"
    and "list_all (strong_failure (re_now E)) (recent_attempts (re_now E) h)" "4 \<le> length (recent_attempts (re_now E) h)"
    and "length (ph_attempts h) < MAX_PATH_HISTORY" "ft \<in> {ConnectionReset, ContentTampering}"
    and "router_failure E i (length xs) ft st = Inr (r, st')"
  shows "(a, b) \<in> set (blocked_paths st')"
proof (cases rule: router_failure_cases [of st i E "length xs" ft])
  case (3 r0 st1)
  have "fail_segment E a b ft st = note_failure E (cr_relays route) (length xs) ft st\<lparr>ar_stats := ar_stats (fail_segment E a b ft st)\<rparr>"
    by (simp add: note_failure_def assms(3) usize_pred_def nth_append Let_def)
  moreover have "(a, b) \<in> set (ar_blocked (fail_segment E a b ft st))"
    using path_failure_confirmed [OF assms(1,5-8)] assms(4) by (simp add: fail_segment_def Let_def)
  ultimately have "(a, b) \<in> set (ar_blocked st1)"
    using 3(1,2) assms(2) by (metis (no_types, lifting) adaptive_router.select_convs(5) adaptive_router.surjective
        adaptive_router.update_convs(7) option.inject)
  moreover have "(if ar_auto_failover (ar_config st) then failover E i st1 else Inr (None, st1)) = Inr (r, st')"
    using 3(3) assms(9) by simp
  ultimately show ?thesis
    using blocked_failover [of st1 E i] by (cases "ar_auto_failover (ar_config st)") (auto simp: blocked_paths_def)
qed (use assms in simp_all)

section \<open>What nodes report\<close>

datatype node_report =
    FailureReport u64 peer_id failure_type
  | SuccessReport peer_id u64

fun report_step :: "peer_id \<Rightarrow> route_env \<times> node_report \<Rightarrow> adaptive_router \<Rightarrow> stuck + adaptive_router" where
  "report_step me (E, FailureReport unix other ft) st = record_censorship_failure E unix me other ft st"
| "report_step me (E, SuccessReport other n) st = Inr (record_censorship_success E me other n st)"

definition blind :: "adaptive_router \<Rightarrow> bool" where
  "blind st \<longleftrightarrow> ar_active_routes st = [] \<and> ar_path_health st = [] \<and> ar_blocked st = []"

lemma report_blind:
  assumes "blind st"
  shows "\<exists>st'. report_step me e st = Inr st' \<and> blind st'"
  using assms
proof (induction me e st rule: report_step.induct)
  case (1 me E unix other ft st)
  define st1 where "st1 = ensure_relay unix other (ensure_relay unix me st)"
  have "blind st1"
    using 1 by (simp add: blind_def st1_def ensure_relay_def register_relay_def)
  then have "router_failure E (link_route_id E me other) 0 ft st1 = Inr (None, st1)" "block_if_confirmed E me other st1 = st1"
    by (simp_all add: blind_def router_failure_def block_if_confirmed_def get_path_health_def)
  with \<open>blind st1\<close> show ?case
    by (simp add: record_censorship_failure_def st1_def Let_def)
next
  case (2 me E other n st)
  then show ?case
    by (simp add: blind_def record_censorship_success_def router_success_def hm_modify_def)
qed

interpretation reports: call_machine "live (report_step me)" "\<lambda>s. \<exists>st. s = Inr st \<and> blind st" for me
  by unfold_locales (auto simp: live_def report_blind)

text \<open>A node never notices censorship. Whatever failures and successes a node reports to its router, through the
  only two functions that do, no path has a health or is blocked, so the check before a fetch never
  refuses one: reports go to a route that was never registered.\<close>

theorem censorship_never_detected:
  "\<exists>st. fold (live (report_step me)) es (Inr router_new) = Inr st \<and>
     get_path_health R now a b st = None \<and> blocked_paths st = [] \<and> get_censored_paths st = []"
proof -
  have "\<exists>st. fold (live (report_step me)) es (Inr router_new) = Inr st \<and> blind st"
    by (rule reports.run_inv) (simp add: blind_def router_new_def router_with_config_def)
  then show ?thesis
    by (auto simp: blind_def get_path_health_def blocked_paths_def get_censored_paths_def)
qed

section \<open>Regions\<close>

lemma distance_symmetric: "distance_to a b = distance_to b a"
  by (cases a; cases b) (simp_all add: distance_to_def region_distances_def)

section \<open>Examples\<close>

text \<open>A router over six relays in Europe with an exact arithmetic and an example hash.\<close>

definition demo_route_env :: route_env where
  "demo_route_env = \<lparr>re_round = id, re_now = 0, re_elapsed_ms = 0, re_random = [7], re_blake3 = id\<rparr>"

definition demo_relay_info :: "u8 \<Rightarrow> bool \<Rightarrow> bool \<Rightarrow> relay_info" where
  "demo_relay_info n guard ex = (relay_info_new 0 [n])\<lparr>ri_is_guard := guard, ri_is_exit := ex, ri_asn := Some (ucast n),
     ri_region := Europe\<rparr>"

definition demo_adaptive_config :: adaptive_config where
  "demo_adaptive_config = adaptive_config_default\<lparr>ar_min_hops := 2, ar_max_hops := 2\<rparr>"

definition demo_router_calls :: "(route_env \<times> router_op) list" where
  "demo_router_calls = map (\<lambda>n. (demo_route_env, RegisterRelay (demo_relay_info n True True))) [1, 2, 3, 4]"

definition demo_router :: adaptive_router where
  "demo_router = (router_with_config demo_adaptive_config)\<lparr>ar_relays := map (\<lambda>n. ([n], demo_relay_info n True True)) [1, 2, 3, 4]\<rparr>"

lemma demo_run: "router_run demo_router_calls demo_adaptive_config = Inr demo_router"
  by (simp add: router_run_def demo_router_calls_def demo_router_def live_def register_relay_def hm_insert_def
      router_with_config_def demo_relay_info_def relay_info_new_def)

lemmas demo_defs = demo_router_def demo_adaptive_config_def demo_route_env_def adaptive_config_default_def
  router_with_config_def demo_relay_info_def relay_info_new_def

lemmas choice_defs = route_choice_def available_relays_def select_relays_def score_relays_def hm_values_def is_healthy_def
  fitness_score_def fadd_def fsub_def fmul_def fdiv_def hops_for_def usize_pred_def is_path_ok_def pick_def pick_peer_def
  pick_first_def hs_insert_def Let_def

lemma demo_choice: "route_choice id demo_router = Inr [[1], [2]]"
  by (simp add: choice_defs demo_defs)

definition demo_route :: computed_route where
  "demo_route = new_route demo_route_env demo_router [[1], [2]]"

definition demo_backup :: "u8 \<Rightarrow> computed_route" where
  "demo_backup n = \<lparr>cr_id = [n, 2, 7], cr_relays = [[3], [4]], cr_regions = [Europe, Europe], cr_estimated_latency_ms = 0,
     cr_health_score = 1 / 2, cr_created_at = 0, cr_use_count = 0, cr_is_backup = True\<rparr>"

definition demo_routed :: adaptive_router where
  "demo_routed = demo_router\<lparr>ar_stats := count_route demo_route_env (ar_stats demo_router),
     ar_active_routes := [([1, 2, 7], demo_route)], ar_backup_routes := [([1, 2, 7], [demo_backup 1, demo_backup 2])]\<rparr>"

lemma demo_backups:
  "backup_route demo_route_env demo_route (demo_router\<lparr>ar_stats := s, ar_active_routes := rs\<rparr>) n =
     Some (demo_backup (of_nat (n + 1)))"
  by (simp add: backup_route_def backup_relays_def demo_route_def demo_backup_def new_route_def choice_defs demo_defs
      total_latency_def route_regions_def map_filter_simps hm_get_def compute_route_health_def f64_sum_def f64_of_def)

lemma demo_compute: "compute_route demo_route_env False demo_router = Inr (Inr demo_route, demo_routed)"
proof (cases rule: compute_route_cases [of demo_route_env False demo_router])
  case (1 e)
  with demo_choice show ?thesis by (simp add: demo_route_env_def)
next
  case (3 sel route st1)
  with demo_choice have "route = demo_route" by (simp add: demo_route_env_def demo_route_def)
  moreover have "cr_id demo_route = [1, 2, 7]" by (simp add: demo_route_def new_route_def demo_route_env_def)
  moreover have "ar_active_routes demo_router = []" "ar_backup_routes demo_router = []" by (simp_all add: demo_defs)
  ultimately show ?thesis
    unfolding 3(5) by (simp add: 3(4) demo_backups map_filter_simps upt_conv_Cons demo_routed_def hm_insert_def)
qed simp



theorem backups_share_no_relay_witness:
  "\<exists>bs. hm_get (ar_backup_routes demo_routed) (cr_id demo_route) = Some bs \<and>
    (\<forall>b \<in> set bs. set (cr_relays b) \<inter> set (cr_relays demo_route) = {} \<and> distinct (cr_relays b) \<and>
       ar_min_hops demo_adaptive_config \<le> length (cr_relays b) \<and>
       successively (allowed (ar_blocked demo_router) (ar_path_health demo_router)) (cr_relays b)) \<and>
    (\<forall>b \<in> set bs. \<forall>b' \<in> set bs. cr_relays b = cr_relays b')"
  by (rule backups_share_no_relay [OF demo_run demo_compute])

lemma demo_run_routed: "router_run (demo_router_calls @ [(demo_route_env, ComputeRoute)]) demo_adaptive_config = Inr demo_routed"
proof -
  have "router_run (demo_router_calls @ [(demo_route_env, ComputeRoute)]) demo_adaptive_config =
      live router_call (demo_route_env, ComputeRoute) (router_run demo_router_calls demo_adaptive_config)"
    by (simp add: router_run_def)
  then show ?thesis by (simp add: demo_run live_def demo_compute)
qed

definition demo_failed :: adaptive_router where
  "demo_failed = note_failure demo_route_env [[1], [2]] 0 Timeout demo_routed"

definition demo_promoted :: adaptive_router where
  "demo_promoted = (count_failover demo_failed)\<lparr>ar_active_routes :=
     hm_insert [2, 2, 7] (demo_backup 2) (ar_active_routes demo_routed)\<rparr>"

lemma demo_routed_simps [simp]:
  "hm_get (ar_active_routes demo_routed) [1, 2, 7] = Some demo_route" "cr_relays demo_route = [[1], [2]]"
  "ar_auto_failover (ar_config demo_routed)"
  "best_backup demo_route_env [1, 2, 7] demo_routed = Some (demo_backup 2)" "cr_id (demo_backup n) = [n, 2, 7]"
  by (simp_all add: demo_routed_def demo_route_def new_route_def demo_defs hm_get_def best_backup_def demo_backup_def
      route_is_valid_def elapsed_def from_secs_def)

lemma demo_failover: "router_failure demo_route_env [1, 2, 7] 0 Timeout demo_routed = Inr (Some (demo_backup 2), demo_promoted)"
proof (cases rule: router_failure_cases [of demo_routed "[1, 2, 7]" demo_route_env 0 Timeout])
  case (3 r st1)
  then have "router_failure demo_route_env [1, 2, 7] 0 Timeout demo_routed = failover demo_route_env [1, 2, 7] demo_failed"
    by (simp add: demo_failed_def)
  then show ?thesis
    by (cases rule: failover_cases [of demo_route_env "[1, 2, 7]" demo_failed])
      (auto simp: demo_failed_def demo_promoted_def)
qed simp_all

text \<open>And it does hang: the first two relays are there again.\<close>

lemma first_failure_tolerated: "\<not> should_avoid (path_failure R now ft (path_health_new a b))"
  by (simp add: should_avoid_def path_failure_def update_censorship_status_def add_attempt_def recent_attempts_def
      path_health_new_def MIN_SAMPLES_FOR_DETECTION_def MAX_PATH_HISTORY_def Let_def)

lemma first_failure_not_confirmed: "ph_censorship_status (path_failure R now ft (path_health_new a b)) \<noteq> Confirmed"
  using first_failure_tolerated [of R now ft a b] by (auto simp: should_avoid_def)

lemma first_failure_note:
  assumes "hm_get (ar_path_health st) (a, b) = None"
  shows "ar_blocked (note_failure E [a, b] 0 ft st) = ar_blocked st"
    "ar_path_health (note_failure E [a, b] 0 ft st) =
       hm_insert (a, b) (path_failure (re_round E) (re_now E) ft (path_health_new a b)) (ar_path_health st)"
  using assms first_failure_not_confirmed
  by (simp_all add: note_failure_def usize_pred_def fail_segment_def Let_def)

theorem second_failure_hangs_witness: "router_failure demo_route_env (cr_id (demo_backup 2)) 0 Timeout demo_promoted = Inl Deadlock"
proof -
  let ?h = "\<lambda>a b. path_failure id 0 Timeout (path_health_new a b)"
  define st where "st = note_failure demo_route_env [[3], [4]] 0 Timeout demo_promoted"
  have fields: "ar_relays st = ar_relays demo_router" "ar_config st = ar_config demo_router"
    by (simp_all add: st_def demo_promoted_def demo_failed_def count_failover_def demo_routed_def demo_defs)
  have "ar_path_health demo_failed = [(([1], [2]), ?h [1] [2])]" "ar_blocked demo_failed = []"
    by (simp_all add: demo_failed_def first_failure_note demo_routed_def demo_defs hm_insert_def)
  then have "ar_path_health st = [(([1], [2]), ?h [1] [2]), (([3], [4]), ?h [3] [4])]" "ar_blocked st = []"
    by (simp_all add: st_def first_failure_note demo_promoted_def count_failover_def hm_get_def hm_insert_def)
      (simp_all add: demo_route_env_def)
  then have "is_path_ok (ar_blocked st) (ar_path_health st) = (\<lambda>_ _. True)"
    by (simp add: fun_eq_iff is_path_ok_def hm_get_def first_failure_tolerated)
  then have eq: "is_path_ok (ar_blocked st) (ar_path_health st) = is_path_ok (ar_blocked demo_router) (ar_path_health demo_router)"
    by (simp add: fun_eq_iff is_path_ok_def demo_defs)
  have "route_choice id st = route_choice id demo_router"
    unfolding route_choice_def available_relays_def select_relays_def fields eq ..
  moreover have "re_round demo_route_env = id" "cr_relays (demo_backup 2) = [[3], [4]]"
    by (simp_all add: demo_route_env_def demo_backup_def)
  ultimately show ?thesis
    using second_failure_hangs [OF demo_run_routed _ _ demo_failover, of demo_route_env 0 Timeout] fields
    by (simp add: st_def Let_def demo_choice) (simp add: demo_defs demo_routed_def hm_get_def)
qed

definition demo_health :: path_health where
  "demo_health = (path_health_new [1] [2])\<lparr>ph_attempts := replicate 4 \<lparr>pa_timestamp = 0, pa_success = False,
     pa_failure_type = Some ConnectionReset, pa_latency_ms = None, pa_bytes_transferred = 0\<rparr>,
     ph_consecutive_failures := 4\<rparr>"

definition demo_reset_router :: adaptive_router where
  "demo_reset_router = demo_routed\<lparr>ar_path_health := [(([1], [2]), demo_health)]\<rparr>"

lemma demo_reset_route: "\<exists>route st'. compute_route demo_route_env False demo_reset_router = Inr (Inr route, st')"
proof -
  have "route_choice id demo_reset_router = Inr [[1], [3]]"
    by (simp add: demo_reset_router_def demo_routed_def)
      (simp add: choice_defs demo_defs should_avoid_def hm_get_def demo_health_def path_health_new_def)
  then show ?thesis
    by (cases rule: compute_route_cases [of demo_route_env False demo_reset_router]) (simp_all add: demo_route_env_def)
qed

theorem failed_segment_avoided_for_ever_witness:
  "\<exists>route st'. compute_route demo_route_env False demo_reset_router = Inr (Inr route, st') \<and>
     cr_relays route \<noteq> [] @ [1] # [2] # []"
proof -
  have "3 \<le> failures [1] [2] demo_reset_router"
    by (simp add: failures_def demo_reset_router_def hm_get_def demo_health_def)
  then show ?thesis
    using demo_reset_route failed_segment_avoided_for_ever [of "[1]" "[2]" demo_reset_router "[]"]
    by (metis fold_simps(1))
qed

theorem resets_block_path_witness:
  "\<exists>r st'. router_failure demo_route_env [1, 2, 7] (length ([] :: peer_id list)) ConnectionReset demo_reset_router = Inr (r, st') \<and>
     ([1], [2]) \<in> set (blocked_paths st')"
proof -
  have routed: "hm_get (ar_active_routes demo_reset_router) [1, 2, 7] = Some demo_route"
    by (simp add: demo_reset_router_def)
  have "best_backup demo_route_env [1, 2, 7] demo_reset_router = Some (demo_backup 2)"
    using demo_routed_simps(4) by (simp add: demo_reset_router_def best_backup_def)
  then have "\<exists>r st'. router_failure demo_route_env [1, 2, 7] 0 ConnectionReset demo_reset_router = Inr (r, st')"
    using routed by (simp add: router_failure_def usize_pred_def failover_def Let_def)
  moreover have "rounds_to_nearest (re_round demo_route_env)"
    by (simp add: demo_route_env_def)
  moreover have "hm_get (ar_path_health demo_reset_router) ([1], [2]) = Some demo_health"
    by (simp add: demo_reset_router_def hm_get_def)
  moreover have "recent_attempts (re_now demo_route_env) demo_health = ph_attempts demo_health"
    by (simp add: recent_attempts_def demo_health_def elapsed_def FAILURE_WINDOW_def from_secs_def demo_route_env_def)
  moreover have "list_all (strong_failure (re_now demo_route_env)) (ph_attempts demo_health)" "length (ph_attempts demo_health) = 4"
    by (simp_all add: demo_health_def strong_failure_def elapsed_def FAILURE_WINDOW_def from_secs_def demo_route_env_def list_all_iff)
  ultimately show ?thesis
    using resets_block_path [of demo_route_env demo_reset_router "[1, 2, 7]" demo_route "[]" "[1]" "[2]" "[]" demo_health
        ConnectionReset] routed
    by (simp add: MAX_PATH_HISTORY_def) metis
qed

section \<open>What the policy does not give\<close>

text \<open>Diversity of regions is required, and both relays of the route are in Europe.\<close>

lemma single_region_route:
  "ar_require_geo_diversity (ar_config demo_router) \<and> route_regions (ar_relays demo_router) (cr_relays demo_route) = [Europe, Europe]"
  by (simp add: route_regions_def) (simp add: demo_defs map_filter_simps hm_get_def)

text \<open>Systems to avoid are forgotten for backups: here those of the relays 3 and 4.\<close>

lemma backup_ignores_asns:
  "map_option cr_relays (backup_route demo_route_env demo_route
     (demo_router\<lparr>ar_config := demo_adaptive_config\<lparr>ar_avoid_asns := [3, 4]\<rparr>\<rparr>) 0) = Some [[3], [4]]"
  by (simp add: backup_route_def backup_relays_def choice_defs demo_defs)

text \<open>The exit is not the last relay when the middle of the route could not be filled.\<close>

lemma exit_not_last:
  "route_choice id (demo_router\<lparr>ar_config := demo_adaptive_config\<lparr>ar_min_hops := 3, ar_max_hops := 3\<rparr>,
     ar_relays := [([1], demo_relay_info 1 True False), ([2], demo_relay_info 2 False True),
       ([3], demo_relay_info 3 False False)]\<rparr>) = Inr [[1], [2], [3]]"
  by (simp add: choice_defs demo_defs)

end
