(* ===== verification/Bandwidth.thy ===== *)
theory Bandwidth
  imports Float64
begin

text \<open>
  Bandwidth accounting, \<open>protocol/src/bandwidth.rs\<close>: the tracker with its sliding window, limits and
  per-peer counters, and the token bucket for throttling. Each call reads the clock once; the clock is an
  argument. \<open>format_bytes\<close> (decimal output of floats) is left out.
\<close>

section \<open>The tracker\<close>

definition DEFAULT_BANDWIDTH_LIMIT :: u64 where "DEFAULT_BANDWIDTH_LIMIT = 100 * 1024 * 1024"

definition MEASUREMENT_WINDOW_SECS :: nat where "MEASUREMENT_WINDOW_SECS = 60"

record bandwidth_sample =
  bs_bytes :: u64
  bs_timestamp :: instant

datatype direction = Inbound | Outbound

record bw_stats =
  bw_total_bytes :: u64
  bw_period_bytes :: u64
  bw_avg_bps :: f64
  bw_peak_bps :: u64
  bw_transfer_count :: u64

record peer_bandwidth =
  pb_peer_id :: string
  pb_inbound_bytes :: u64
  pb_outbound_bytes :: u64
  pb_last_transfer :: u64

record bandwidth_tracker =
  bt_inbound_samples :: "bandwidth_sample list"
  bt_outbound_samples :: "bandwidth_sample list"
  bt_total_inbound :: u64
  bt_total_outbound :: u64
  bt_inbound_limit :: "u64 option"
  bt_outbound_limit :: "u64 option"
  bt_peer_bandwidth :: "(string, peer_bandwidth) hmap"
  bt_peak_inbound :: u64
  bt_peak_outbound :: u64
  bt_inbound_transfers :: u64
  bt_outbound_transfers :: u64
  bt_window :: duration

definition tracker_new :: bandwidth_tracker where
  "tracker_new =
     \<lparr>bt_inbound_samples = [], bt_outbound_samples = [], bt_total_inbound = 0, bt_total_outbound = 0,
      bt_inbound_limit = None, bt_outbound_limit = None, bt_peer_bandwidth = [], bt_peak_inbound = 0,
      bt_peak_outbound = 0, bt_inbound_transfers = 0, bt_outbound_transfers = 0,
      bt_window = from_secs MEASUREMENT_WINDOW_SECS\<rparr>"

definition tracker_with_limits :: "u64 option \<Rightarrow> u64 option \<Rightarrow> bandwidth_tracker" where
  "tracker_with_limits i out = tracker_new\<lparr>bt_inbound_limit := i, bt_outbound_limit := out\<rparr>"

definition set_inbound_limit :: "u64 option \<Rightarrow> bandwidth_tracker \<Rightarrow> bandwidth_tracker" where
  "set_inbound_limit l t = t\<lparr>bt_inbound_limit := l\<rparr>"

definition set_outbound_limit :: "u64 option \<Rightarrow> bandwidth_tracker \<Rightarrow> bandwidth_tracker" where
  "set_outbound_limit l t = t\<lparr>bt_outbound_limit := l\<rparr>"

definition peer_entry :: "string \<Rightarrow> bandwidth_tracker \<Rightarrow> peer_bandwidth" where
  "peer_entry p t =
     (case hm_get (bt_peer_bandwidth t) p of
        Some e \<Rightarrow> e
      | None \<Rightarrow> \<lparr>pb_peer_id = p, pb_inbound_bytes = 0, pb_outbound_bytes = 0, pb_last_transfer = 0\<rparr>)"

definition record_peer_inbound :: "u64 \<Rightarrow> string \<Rightarrow> u64 \<Rightarrow> bandwidth_tracker \<Rightarrow> bandwidth_tracker" where
  "record_peer_inbound unix p n t =
     (let e = peer_entry p t in
      t\<lparr>bt_peer_bandwidth := hm_insert p
          (e\<lparr>pb_inbound_bytes := pb_inbound_bytes e + n, pb_last_transfer := unix\<rparr>) (bt_peer_bandwidth t)\<rparr>)"

definition record_peer_outbound :: "u64 \<Rightarrow> string \<Rightarrow> u64 \<Rightarrow> bandwidth_tracker \<Rightarrow> bandwidth_tracker" where
  "record_peer_outbound unix p n t =
     (let e = peer_entry p t in
      t\<lparr>bt_peer_bandwidth := hm_insert p
          (e\<lparr>pb_outbound_bytes := pb_outbound_bytes e + n, pb_last_transfer := unix\<rparr>) (bt_peer_bandwidth t)\<rparr>)"

definition drop_old :: "instant \<Rightarrow> bandwidth_sample list \<Rightarrow> bandwidth_sample list" where
  "drop_old cutoff = dropWhile (\<lambda>s. bs_timestamp s < cutoff)"

definition cleanup_old_samples :: "instant \<Rightarrow> bandwidth_tracker \<Rightarrow> bandwidth_tracker" where
  "cleanup_old_samples now t =
     (let cutoff = now - bt_window t in
      t\<lparr>bt_inbound_samples := drop_old cutoff (bt_inbound_samples t),
        bt_outbound_samples := drop_old cutoff (bt_outbound_samples t)\<rparr>)"

text \<open>\<open>Duration::as_secs_f64\<close>, and the conversion of a non-negative float to \<open>u64\<close>, which saturates.\<close>

definition as_secs_f64 :: "(rat \<Rightarrow> rat) \<Rightarrow> duration \<Rightarrow> f64" where
  "as_secs_f64 R d = fadd R (f64_of R (d div 10 ^ 9)) (fdiv R (f64_of R (d mod 10 ^ 9)) (10 ^ 9))"

definition u64_of_f64 :: "f64 \<Rightarrow> u64" where
  "u64_of_f64 x = word_of_int (min \<lfloor>x\<rfloor> (2 ^ 64 - 1))"

definition rate_span :: "(rat \<Rightarrow> rat) \<Rightarrow> instant \<Rightarrow> duration \<Rightarrow> bandwidth_sample list \<Rightarrow> f64" where
  "rate_span R now window samples =
     (let oldest = (case samples of [] \<Rightarrow> now | s # _ \<Rightarrow> bs_timestamp s)
      in max (as_secs_f64 R (elapsed now (max oldest (now - window)))) 1)"

definition calculate_rate :: "(rat \<Rightarrow> rat) \<Rightarrow> instant \<Rightarrow> duration \<Rightarrow> bandwidth_sample list \<Rightarrow> u64" where
  "calculate_rate R now window samples =
     (if samples = [] then 0
      else
        let total_bytes = sum_list (map bs_bytes (filter (\<lambda>s. bs_timestamp s \<ge> now - window) samples))
        in u64_of_f64 (fdiv R (f64_of R (unat total_bytes)) (rate_span R now window samples)))"

definition current_inbound_rate :: "(rat \<Rightarrow> rat) \<Rightarrow> instant \<Rightarrow> bandwidth_tracker \<Rightarrow> u64" where
  "current_inbound_rate R now t = calculate_rate R now (bt_window t) (bt_inbound_samples t)"

definition current_outbound_rate :: "(rat \<Rightarrow> rat) \<Rightarrow> instant \<Rightarrow> bandwidth_tracker \<Rightarrow> u64" where
  "current_outbound_rate R now t = calculate_rate R now (bt_window t) (bt_outbound_samples t)"

definition update_peak_rates :: "(rat \<Rightarrow> rat) \<Rightarrow> instant \<Rightarrow> bandwidth_tracker \<Rightarrow> bandwidth_tracker" where
  "update_peak_rates R now t =
     (let i = current_inbound_rate R now t; out = current_outbound_rate R now t in
      t\<lparr>bt_peak_inbound := (if i > bt_peak_inbound t then i else bt_peak_inbound t),
        bt_peak_outbound := (if out > bt_peak_outbound t then out else bt_peak_outbound t)\<rparr>)"

definition record_inbound ::
    "(rat \<Rightarrow> rat) \<Rightarrow> instant \<Rightarrow> u64 \<Rightarrow> u64 \<Rightarrow> string option \<Rightarrow> bandwidth_tracker \<Rightarrow> bandwidth_tracker" where
  "record_inbound R now unix n peer t =
     (let t1 = t\<lparr>bt_total_inbound := bt_total_inbound t + n, bt_inbound_transfers := bt_inbound_transfers t + 1,
            bt_inbound_samples := bt_inbound_samples t @ [\<lparr>bs_bytes = n, bs_timestamp = now\<rparr>]\<rparr>;
          t2 = (case peer of None \<Rightarrow> t1 | Some p \<Rightarrow> record_peer_inbound unix p n t1)
      in update_peak_rates R now (cleanup_old_samples now t2))"

definition record_outbound ::
    "(rat \<Rightarrow> rat) \<Rightarrow> instant \<Rightarrow> u64 \<Rightarrow> u64 \<Rightarrow> string option \<Rightarrow> bandwidth_tracker \<Rightarrow> bandwidth_tracker" where
  "record_outbound R now unix n peer t =
     (let t1 = t\<lparr>bt_total_outbound := bt_total_outbound t + n, bt_outbound_transfers := bt_outbound_transfers t + 1,
            bt_outbound_samples := bt_outbound_samples t @ [\<lparr>bs_bytes = n, bs_timestamp = now\<rparr>]\<rparr>;
          t2 = (case peer of None \<Rightarrow> t1 | Some p \<Rightarrow> record_peer_outbound unix p n t1)
      in update_peak_rates R now (cleanup_old_samples now t2))"

fun record_transfer ::
    "(rat \<Rightarrow> rat) \<Rightarrow> instant \<Rightarrow> u64 \<Rightarrow> direction \<Rightarrow> u64 \<Rightarrow> string option \<Rightarrow> bandwidth_tracker \<Rightarrow> bandwidth_tracker" where
  "record_transfer R now unix Inbound n peer t = record_inbound R now unix n peer t"
| "record_transfer R now unix Outbound n peer t = record_outbound R now unix n peer t"

definition can_receive :: "(rat \<Rightarrow> rat) \<Rightarrow> instant \<Rightarrow> u64 \<Rightarrow> bandwidth_tracker \<Rightarrow> bool" where
  "can_receive R now n t \<longleftrightarrow> (case bt_inbound_limit t of None \<Rightarrow> True | Some l \<Rightarrow> current_inbound_rate R now t + n \<le> l)"

definition can_send :: "(rat \<Rightarrow> rat) \<Rightarrow> instant \<Rightarrow> u64 \<Rightarrow> bandwidth_tracker \<Rightarrow> bool" where
  "can_send R now n t \<longleftrightarrow> (case bt_outbound_limit t of None \<Rightarrow> True | Some l \<Rightarrow> current_outbound_rate R now t + n \<le> l)"

definition inbound_stats :: "(rat \<Rightarrow> rat) \<Rightarrow> instant \<Rightarrow> bandwidth_tracker \<Rightarrow> bw_stats" where
  "inbound_stats R now t =
     \<lparr>bw_total_bytes = bt_total_inbound t, bw_period_bytes = sum_list (map bs_bytes (bt_inbound_samples t)),
      bw_avg_bps = f64_of R (unat (current_inbound_rate R now t)), bw_peak_bps = bt_peak_inbound t,
      bw_transfer_count = bt_inbound_transfers t\<rparr>"

definition outbound_stats :: "(rat \<Rightarrow> rat) \<Rightarrow> instant \<Rightarrow> bandwidth_tracker \<Rightarrow> bw_stats" where
  "outbound_stats R now t =
     \<lparr>bw_total_bytes = bt_total_outbound t, bw_period_bytes = sum_list (map bs_bytes (bt_outbound_samples t)),
      bw_avg_bps = f64_of R (unat (current_outbound_rate R now t)), bw_peak_bps = bt_peak_outbound t,
      bw_transfer_count = bt_outbound_transfers t\<rparr>"

record bandwidth_summary =
  sm_inbound :: bw_stats
  sm_outbound :: bw_stats
  sm_total_bytes :: u64
  sm_inbound_limit :: "u64 option"
  sm_outbound_limit :: "u64 option"

definition combined_stats :: "(rat \<Rightarrow> rat) \<Rightarrow> instant \<Rightarrow> bandwidth_tracker \<Rightarrow> bandwidth_summary" where
  "combined_stats R now t =
     \<lparr>sm_inbound = inbound_stats R now t, sm_outbound = outbound_stats R now t,
      sm_total_bytes = bt_total_inbound t + bt_total_outbound t,
      sm_inbound_limit = bt_inbound_limit t, sm_outbound_limit = bt_outbound_limit t\<rparr>"

definition utilization :: "(rat \<Rightarrow> rat) \<Rightarrow> bw_stats \<Rightarrow> u64 option \<Rightarrow> f64 option" where
  "utilization R s =
     map_option (\<lambda>l. if l = 0 then 0 else fmul R (fdiv R (bw_avg_bps s) (f64_of R (unat l))) 100)"

definition inbound_utilization :: "(rat \<Rightarrow> rat) \<Rightarrow> bandwidth_summary \<Rightarrow> f64 option" where
  "inbound_utilization R s = utilization R (sm_inbound s) (sm_inbound_limit s)"

definition outbound_utilization :: "(rat \<Rightarrow> rat) \<Rightarrow> bandwidth_summary \<Rightarrow> f64 option" where
  "outbound_utilization R s = utilization R (sm_outbound s) (sm_outbound_limit s)"

definition get_peer_stats :: "string \<Rightarrow> bandwidth_tracker \<Rightarrow> peer_bandwidth option" where
  "get_peer_stats p t = hm_get (bt_peer_bandwidth t) p"

definition get_all_peer_stats :: "bandwidth_tracker \<Rightarrow> peer_bandwidth list" where
  "get_all_peer_stats t = hm_values (bt_peer_bandwidth t)"

definition get_top_peers :: "nat \<Rightarrow> direction \<Rightarrow> bandwidth_tracker \<Rightarrow> peer_bandwidth list" where
  "get_top_peers count dir t =
     (let peers = hm_values (bt_peer_bandwidth t);
          bytes_of = (case dir of Inbound \<Rightarrow> pb_inbound_bytes | Outbound \<Rightarrow> pb_outbound_bytes)
      in take count (sort_key (\<lambda>p. - int (unat (bytes_of p))) peers))"

definition reset_tracker :: "bandwidth_tracker \<Rightarrow> bandwidth_tracker" where
  "reset_tracker t =
     t\<lparr>bt_inbound_samples := [], bt_outbound_samples := [], bt_total_inbound := 0, bt_total_outbound := 0,
       bt_peak_inbound := 0, bt_peak_outbound := 0, bt_inbound_transfers := 0, bt_outbound_transfers := 0,
       bt_peer_bandwidth := []\<rparr>"

section \<open>The token bucket\<close>

record token_bucket =
  tb_tokens :: f64
  tb_max_tokens :: f64
  tb_tokens_per_sec :: f64
  tb_last_refill :: instant

definition bucket_with_burst :: "(rat \<Rightarrow> rat) \<Rightarrow> instant \<Rightarrow> u64 \<Rightarrow> u64 \<Rightarrow> token_bucket" where
  "bucket_with_burst R now bytes_per_sec burst =
     \<lparr>tb_tokens = f64_of R (unat burst), tb_max_tokens = f64_of R (unat burst),
      tb_tokens_per_sec = f64_of R (unat bytes_per_sec), tb_last_refill = now\<rparr>"

definition bucket_new :: "(rat \<Rightarrow> rat) \<Rightarrow> instant \<Rightarrow> u64 \<Rightarrow> token_bucket" where
  "bucket_new R now bytes_per_sec = bucket_with_burst R now bytes_per_sec bytes_per_sec"

definition refill :: "(rat \<Rightarrow> rat) \<Rightarrow> instant \<Rightarrow> token_bucket \<Rightarrow> token_bucket" where
  "refill R now b =
     (let dt = as_secs_f64 R (elapsed now (tb_last_refill b)) in
      b\<lparr>tb_tokens := min (fadd R (tb_tokens b) (fmul R dt (tb_tokens_per_sec b))) (tb_max_tokens b),
        tb_last_refill := now\<rparr>)"

definition try_consume :: "(rat \<Rightarrow> rat) \<Rightarrow> instant \<Rightarrow> u64 \<Rightarrow> token_bucket \<Rightarrow> bool \<times> token_bucket" where
  "try_consume R now n b =
     (let b1 = refill R now b; needed = f64_of R (unat n) in
      if tb_tokens b1 \<ge> needed then (True, b1\<lparr>tb_tokens := fsub R (tb_tokens b1) needed\<rparr>) else (False, b1))"

definition available_tokens :: "(rat \<Rightarrow> rat) \<Rightarrow> instant \<Rightarrow> token_bucket \<Rightarrow> u64 \<times> token_bucket" where
  "available_tokens R now b = (let b1 = refill R now b in (u64_of_f64 (tb_tokens b1), b1))"

text \<open>
  \<open>Duration::from_secs_f64\<close> rounds to the nearest nanosecond, ties to even, and panics on what does not
  fit; a division by zero gives an infinity, which does not.
\<close>

definition round_half_even :: "rat \<Rightarrow> int" where
  "round_half_even x =
     (let n = \<lfloor>x\<rfloor>; d = x - of_int n in
      if d < 1 / 2 then n else if d > 1 / 2 then n + 1 else if even n then n else n + 1)"

definition duration_from_secs_f64 :: "f64 \<Rightarrow> duration option" where
  "duration_from_secs_f64 x =
     (let n = round_half_even (x * 10 ^ 9) in if 0 \<le> x \<and> n < 2 ^ 64 * 10 ^ 9 then Some (nat n) else None)"

definition wait_duration :: "(rat \<Rightarrow> rat) \<Rightarrow> instant \<Rightarrow> u64 \<Rightarrow> token_bucket \<Rightarrow> duration option \<times> token_bucket" where
  "wait_duration R now n b =
     (let b1 = refill R now b; needed = f64_of R (unat n) in
      if tb_tokens b1 \<ge> needed then (Some 0, b1)
      else (if tb_tokens_per_sec b1 = 0 then None
            else duration_from_secs_f64 (fdiv R (fsub R needed (tb_tokens b1)) (tb_tokens_per_sec b1)), b1))"

end
