(* ===== verification/BandwidthSafety.thy ===== *)
theory BandwidthSafety
  imports Bandwidth
begin

text \<open>
  The tracker counts exactly what was recorded, its window holds exactly the transfers of the last minute,
  and transfers it allows keep the rate within the limit; the token bucket never grants more than its
  burst.
\<close>

section \<open>Recorded transfers\<close>

type_synonym transfer_event = "instant \<times> u64 \<times> direction \<times> u64 \<times> string option"

fun transfer_step :: "(rat \<Rightarrow> rat) \<Rightarrow> transfer_event \<Rightarrow> bandwidth_tracker \<Rightarrow> bandwidth_tracker" where
  "transfer_step R (now, unix, d, n, p) t = record_transfer R now unix d n p t"

fun in_direction :: "direction \<Rightarrow> transfer_event \<Rightarrow> bool" where
  "in_direction d (now, unix, d', n, p) \<longleftrightarrow> d' = d"

fun event_bytes :: "transfer_event \<Rightarrow> u64" where
  "event_bytes (now, unix, d, n, p) = n"

fun event_peer :: "transfer_event \<Rightarrow> string option" where
  "event_peer (now, unix, d, n, p) = p"

definition bytes_in :: "direction \<Rightarrow> transfer_event list \<Rightarrow> u64" where
  "bytes_in d es = sum_list (map event_bytes (filter (in_direction d) es))"

definition recent_samples :: "direction \<Rightarrow> instant \<Rightarrow> transfer_event list \<Rightarrow> bandwidth_sample list" where
  "recent_samples d cutoff es =
     map (\<lambda>e. \<lparr>bs_bytes = event_bytes e, bs_timestamp = fst e\<rparr>) (filter (\<lambda>e. in_direction d e \<and> cutoff \<le> fst e) es)"

lemma peer_record_simps [simp]:
  "bt_inbound_samples (record_peer_inbound unix p n t) = bt_inbound_samples t"
  "bt_outbound_samples (record_peer_inbound unix p n t) = bt_outbound_samples t"
  "bt_total_inbound (record_peer_inbound unix p n t) = bt_total_inbound t"
  "bt_total_outbound (record_peer_inbound unix p n t) = bt_total_outbound t"
  "bt_inbound_transfers (record_peer_inbound unix p n t) = bt_inbound_transfers t"
  "bt_outbound_transfers (record_peer_inbound unix p n t) = bt_outbound_transfers t"
  "bt_window (record_peer_inbound unix p n t) = bt_window t"
  "bt_inbound_samples (record_peer_outbound unix p n t) = bt_inbound_samples t"
  "bt_outbound_samples (record_peer_outbound unix p n t) = bt_outbound_samples t"
  "bt_total_inbound (record_peer_outbound unix p n t) = bt_total_inbound t"
  "bt_total_outbound (record_peer_outbound unix p n t) = bt_total_outbound t"
  "bt_inbound_transfers (record_peer_outbound unix p n t) = bt_inbound_transfers t"
  "bt_outbound_transfers (record_peer_outbound unix p n t) = bt_outbound_transfers t"
  "bt_window (record_peer_outbound unix p n t) = bt_window t"
  by (simp_all add: record_peer_inbound_def record_peer_outbound_def Let_def)

lemmas record_defs = record_inbound_def record_outbound_def cleanup_old_samples_def update_peak_rates_def Let_def

lemma step_samples:
  "bt_window (transfer_step R e t) = bt_window t"
  "bt_inbound_samples (transfer_step R e t) = drop_old (fst e - bt_window t)
     (bt_inbound_samples t @ (if in_direction Inbound e then [\<lparr>bs_bytes = event_bytes e, bs_timestamp = fst e\<rparr>] else []))"
  "bt_outbound_samples (transfer_step R e t) = drop_old (fst e - bt_window t)
     (bt_outbound_samples t @ (if in_direction Outbound e then [\<lparr>bs_bytes = event_bytes e, bs_timestamp = fst e\<rparr>] else []))"
  by (cases "(R, e, t)" rule: transfer_step.cases; cases "fst (snd (snd e))"; simp add: record_defs split: option.split)+

lemma step_counts:
  "bt_total_inbound (transfer_step R e t) = bt_total_inbound t + (if in_direction Inbound e then event_bytes e else 0)"
  "bt_total_outbound (transfer_step R e t) = bt_total_outbound t + (if in_direction Outbound e then event_bytes e else 0)"
  "bt_inbound_transfers (transfer_step R e t) = bt_inbound_transfers t + (if in_direction Inbound e then 1 else 0)"
  "bt_outbound_transfers (transfer_step R e t) = bt_outbound_transfers t + (if in_direction Outbound e then 1 else 0)"
  by (cases "(R, e, t)" rule: transfer_step.cases; cases "fst (snd (snd e))"; simp add: record_defs split: option.split)+

text \<open>The bytes counted for a peer.\<close>

definition peer_bytes :: "direction \<Rightarrow> string \<Rightarrow> bandwidth_tracker \<Rightarrow> u64" where
  "peer_bytes d p t =
     (case get_peer_stats p t of
        None \<Rightarrow> 0
      | Some e \<Rightarrow> (case d of Inbound \<Rightarrow> pb_inbound_bytes e | Outbound \<Rightarrow> pb_outbound_bytes e))"

lemma step_peer:
  "peer_bytes d p (transfer_step R e t) =
     peer_bytes d p t + (if in_direction d e \<and> event_peer e = Some p then event_bytes e else 0)"
  by (cases "(R, e, t)" rule: transfer_step.cases; cases "fst (snd (snd e))"; cases d)
    (auto simp: record_defs peer_bytes_def get_peer_stats_def record_peer_inbound_def record_peer_outbound_def
      peer_entry_def split: option.splits)

definition tracker_run :: "(rat \<Rightarrow> rat) \<Rightarrow> u64 option \<Rightarrow> u64 option \<Rightarrow> transfer_event list \<Rightarrow> bandwidth_tracker" where
  "tracker_run R i out es = fold (transfer_step R) es (tracker_with_limits i out)"

lemma tracker_run_snoc: "tracker_run R i out (es @ [e]) = transfer_step R e (tracker_run R i out es)"
  by (simp add: tracker_run_def)

text \<open>Every byte is counted once. The totals, the transfer counts and the counters of each peer are exactly the
  sums over the recorded transfers (modulo \<open>2 ^ 64\<close>), direction by direction, whatever the window forgets.\<close>

theorem tracker_accounts:
  "bt_total_inbound (tracker_run R i out es) = bytes_in Inbound es \<and>
   bt_total_outbound (tracker_run R i out es) = bytes_in Outbound es \<and>
   bt_inbound_transfers (tracker_run R i out es) = of_nat (length (filter (in_direction Inbound) es)) \<and>
   bt_outbound_transfers (tracker_run R i out es) = of_nat (length (filter (in_direction Outbound) es)) \<and>
   (\<forall>d p. peer_bytes d p (tracker_run R i out es) = bytes_in d (filter (\<lambda>e. event_peer e = Some p) es))"
proof (induction es rule: rev_induct)
  case Nil
  show ?case
    by (simp add: tracker_run_def tracker_with_limits_def tracker_new_def bytes_in_def peer_bytes_def get_peer_stats_def)
next
  case (snoc e es)
  then show ?case
    by (auto simp: tracker_run_snoc step_counts step_peer bytes_in_def simp del: transfer_step.simps)
qed

lemma drop_old_sorted:
  "sorted (map bs_timestamp xs) \<Longrightarrow> drop_old c xs = filter (\<lambda>s. c \<le> bs_timestamp s) xs"
proof (induction xs)
  case (Cons x xs)
  have "\<forall>s \<in> set xs. c \<le> bs_timestamp s" if "c \<le> bs_timestamp x"
    using that Cons.prems by (auto intro: order_trans)
  with Cons show ?case
    by (cases "bs_timestamp x < c") (simp_all add: drop_old_def not_less)
qed (simp add: drop_old_def)

lemma recent_samples_times: "map bs_timestamp (recent_samples d c es) = map fst (filter (\<lambda>e. in_direction d e \<and> c \<le> fst e) es)"
  by (simp add: recent_samples_def)

lemma recent_samples_step:
  assumes "sorted (map fst (es @ [e]))" "c \<le> c'" "c' \<le> fst e"
  shows "drop_old c' (recent_samples d c es @ (if in_direction d e then [\<lparr>bs_bytes = event_bytes e, bs_timestamp = fst e\<rparr>] else [])) =
    recent_samples d c' (es @ [e])"
proof -
  have eq: "recent_samples d c es @ (if in_direction d e then [\<lparr>bs_bytes = event_bytes e, bs_timestamp = fst e\<rparr>] else []) =
      recent_samples d c (es @ [e])"
    using assms(2,3) by (auto simp: recent_samples_def)
  have "sorted (map bs_timestamp (recent_samples d c (es @ [e])))"
    unfolding recent_samples_times using assms(1) by (rule sorted_filter)
  moreover have "filter (\<lambda>x. in_direction d x \<and> c \<le> fst x \<and> c' \<le> fst x) xs = filter (\<lambda>x. in_direction d x \<and> c' \<le> fst x) xs"
    for xs :: "transfer_event list"
    using assms(2) by (intro filter_cong) auto
  ultimately show ?thesis
    unfolding eq using assms(2,3) by (simp add: drop_old_sorted) (simp add: recent_samples_def filter_map comp_def)
qed

text \<open>The window is exact. After transfers on a clock that does not go back, the samples kept in each direction are
  exactly the transfers of the last 60 seconds in that direction, in order.\<close>

theorem window_exact:
  assumes "sorted (map fst (es @ [e]))"
  shows "bt_inbound_samples (tracker_run R i out (es @ [e])) = recent_samples Inbound (fst e - from_secs 60) (es @ [e]) \<and>
    bt_outbound_samples (tracker_run R i out (es @ [e])) = recent_samples Outbound (fst e - from_secs 60) (es @ [e])"
proof -
  have "bt_window (tracker_run R i out es) = from_secs 60 \<and>
      (\<exists>c. (\<forall>e'. sorted (map fst (es @ [e'])) \<longrightarrow> c \<le> fst e' - from_secs 60) \<and>
        bt_inbound_samples (tracker_run R i out es) = recent_samples Inbound c es \<and>
        bt_outbound_samples (tracker_run R i out es) = recent_samples Outbound c es)" if "sorted (map fst es)" for es
    using that
  proof (induction es rule: rev_induct)
    case Nil
    show ?case
      by (auto simp: tracker_run_def tracker_with_limits_def tracker_new_def recent_samples_def MEASUREMENT_WINDOW_SECS_def
          intro: exI [of _ 0])
  next
    case (snoc x xs)
    then obtain c where c: "bt_window (tracker_run R i out xs) = from_secs 60" "c \<le> fst x - from_secs 60"
        "bt_inbound_samples (tracker_run R i out xs) = recent_samples Inbound c xs"
        "bt_outbound_samples (tracker_run R i out xs) = recent_samples Outbound c xs"
      by (auto simp: sorted_append)
    have "fst x - from_secs 60 \<le> fst e' - from_secs 60" if "sorted (map fst ((xs @ [x]) @ [e']))" for e' :: transfer_event
      using that by (simp add: sorted_append diff_le_mono)
    moreover note recent_samples_step [OF snoc.prems c(2), of Inbound] recent_samples_step [OF snoc.prems c(2), of Outbound]
    ultimately show ?case
      using c by (intro conjI exI [of _ "fst x - from_secs 60"]) (simp_all add: tracker_run_snoc step_samples del: transfer_step.simps)
  qed
  from this [of es] assms obtain c where c: "bt_window (tracker_run R i out es) = from_secs 60" "c \<le> fst e - from_secs 60"
      "bt_inbound_samples (tracker_run R i out es) = recent_samples Inbound c es"
      "bt_outbound_samples (tracker_run R i out es) = recent_samples Outbound c es"
    by (auto simp: sorted_append)
  then show ?thesis
    using recent_samples_step [OF assms c(2), of Inbound] recent_samples_step [OF assms c(2), of Outbound]
    by (simp add: tracker_run_snoc step_samples del: transfer_step.simps)
qed

theorem window_exact_witness:
  "let es = [(0, 0, Inbound, 10, None)]; e = (from_secs 61, 61, Inbound, 20, Some ''p'') in
   bt_inbound_samples (tracker_run id None None (es @ [e])) = recent_samples Inbound (fst e - from_secs 60) (es @ [e]) \<and>
   bt_outbound_samples (tracker_run id None None (es @ [e])) = recent_samples Outbound (fst e - from_secs 60) (es @ [e])"
  unfolding Let_def by (rule window_exact) simp

section \<open>The limit\<close>

lemma unat_sum_words:
  fixes ws :: "u64 list"
  shows "sum_list (map unat ws) < 2 ^ 64 \<Longrightarrow> unat (sum_list ws) = sum_list (map unat ws)"
proof (induction ws)
  case (Cons w ws)
  then show ?case by (simp add: unat_word_ariths)
qed simp

lemma floor_le_rounded:
  assumes "rounds_to_nearest R" "0 \<le> x" "x \<le> 2 ^ 53"
  shows "\<lfloor>x\<rfloor> \<le> \<lfloor>R x\<rfloor>"
proof -
  have "\<bar>\<lfloor>x\<rfloor>\<bar> \<le> 2 ^ 53"
    using assms(2,3) floor_mono [OF assms(3)] by simp
  then have "of_int \<lfloor>x\<rfloor> = R (of_int \<lfloor>x\<rfloor>)"
    by (simp add: rounds_int [OF assms(1)] del: of_int_floor_le)
  also have "\<dots> \<le> R x" by (rule rounds_mono [OF assms(1)]) simp
  finally show ?thesis by (simp add: le_floor_iff)
qed

lemma u64_of_f64_ge:
  assumes "0 \<le> x" "0 \<le> n" "n \<le> \<lfloor>x\<rfloor>" "n < 2 ^ 64"
  shows "n \<le> int (unat (u64_of_f64 x))"
proof -
  define m where "m = min \<lfloor>x\<rfloor> (2 ^ 64 - 1)"
  have m: "n \<le> m" "0 \<le> m" "m < 2 ^ 64" using assms by (simp_all add: m_def)
  have "int (unat (u64_of_f64 x)) = uint (word_of_int m :: u64)"
    by (simp only: u64_of_f64_def m_def uint_nat)
  also have "\<dots> = m"
    using m by (simp add: uint_word_of_int)
  finally show ?thesis using m(1) by simp
qed

lemma rate_span_ge: "1 \<le> rate_span R now w samples"
  by (simp add: rate_span_def)

text \<open>The bytes received in the window, and the check in exact arithmetic: what the limit lets in.\<close>

definition window_bytes :: "instant \<Rightarrow> duration \<Rightarrow> bandwidth_sample list \<Rightarrow> nat" where
  "window_bytes now w samples = sum_list (map (unat \<circ> bs_bytes) (filter (\<lambda>s. bs_timestamp s \<ge> now - w) samples))"

lemma rate_lower_bound:
  assumes "rounds_to_nearest R" "window_bytes now w samples \<le> 2 ^ 53"
  shows "of_nat (window_bytes now w samples) < rate_span R now w samples * (of_nat (unat (calculate_rate R now w samples)) + 1)"
proof (cases "samples = []")
  case True
  have "(0 :: rat) < of_nat (unat (calculate_rate R now w samples)) + 1"
    by (rule add_nonneg_pos [OF of_nat_0_le_iff zero_less_one])
  with rate_span_ge [of R now w samples] True show ?thesis
    by (simp only: window_bytes_def) (simp add: mult_pos_pos)
next
  case False
  define T where "T = window_bytes now w samples"
  define s where "s = rate_span R now w samples"
  have s: "1 \<le> s" by (simp add: s_def rate_span_ge)
  have sum: "unat (sum_list (map bs_bytes (filter (\<lambda>s. bs_timestamp s \<ge> now - w) samples))) = T"
    using unat_sum_words [of "map bs_bytes (filter (\<lambda>s. bs_timestamp s \<ge> now - w) samples)"] assms(2)
    by (simp add: T_def window_bytes_def)
  have T: "R (of_nat T) = of_nat T" "T \<le> 2 ^ 53"
    using rounds_nat [OF assms(1)] assms(2) by (simp_all add: T_def)
  then have "(of_nat T :: rat) \<le> of_nat (2 ^ 53)" unfolding of_nat_le_iff by simp
  then have q: "0 \<le> of_nat T / s" "of_nat T / s \<le> 2 ^ 53"
    using s mult_left_mono [of 1 s "2 ^ 53"] by (simp_all add: divide_simps)
  have "calculate_rate R now w samples = u64_of_f64 (R (of_nat T / s))"
    unfolding calculate_rate_def fdiv_def f64_of_def Let_def sum T(1) s_def using False by simp
  moreover have "\<lfloor>of_nat T / s\<rfloor> \<le> int (unat (u64_of_f64 (R (of_nat T / s))))"
  proof (rule u64_of_f64_ge)
    show "0 \<le> R (of_nat T / s)" using rounds_mono [OF assms(1) q(1)] rounds_numeral(1) [OF assms(1)] by simp
    show "\<lfloor>of_nat T / s\<rfloor> \<le> \<lfloor>R (of_nat T / s)\<rfloor>" by (rule floor_le_rounded [OF assms(1) q])
    show "\<lfloor>of_nat T / s\<rfloor> < 2 ^ 64" using floor_mono [OF q(2)] by simp
  qed (use q in simp)
  ultimately have "\<lfloor>of_nat T / s\<rfloor> \<le> int (unat (calculate_rate R now w samples))" by simp
  then have "of_nat T / s < of_nat (unat (calculate_rate R now w samples)) + 1"
    by (simp add: floor_le_iff)
  then show ?thesis
    using s by (simp add: divide_simps T_def s_def mult.commute)
qed


text \<open>Where the sum overflows, anything goes: \<open>2 ^ 64 - 1\<close> bytes are allowed once one byte per second came in.\<close>

lemma overflow_allows_all:
  assumes "current_inbound_rate R now t = 1" "bt_inbound_limit t = Some l"
  shows "can_receive R now (- 1) t"
  using assms by (simp add: can_receive_def)


section \<open>The bucket\<close>

datatype bucket_op = TryConsume u64 | AvailableTokens | WaitDuration u64

fun bucket_step :: "(rat \<Rightarrow> rat) \<Rightarrow> instant \<times> bucket_op \<Rightarrow> token_bucket \<Rightarrow> token_bucket" where
  "bucket_step R (now, TryConsume n) b = snd (try_consume R now n b)"
| "bucket_step R (now, AvailableTokens) b = snd (available_tokens R now b)"
| "bucket_step R (now, WaitDuration n) b = snd (wait_duration R now n b)"

definition bucket_ok :: "f64 \<Rightarrow> token_bucket \<Rightarrow> bool" where
  "bucket_ok burst b \<longleftrightarrow> 0 \<le> tb_tokens b \<and> tb_tokens b \<le> tb_max_tokens b \<and> tb_max_tokens b = burst \<and> 0 \<le> tb_tokens_per_sec b"

lemma rounds_nonneg: "rounds_to_nearest R \<Longrightarrow> 0 \<le> x \<Longrightarrow> 0 \<le> R x"
  using rounds_mono [of R 0 x] by (simp add: rounds_numeral)

lemma f64_of_nonneg: "rounds_to_nearest R \<Longrightarrow> 0 \<le> f64_of R n"
  by (simp add: f64_of_def rounds_nonneg)

lemma as_secs_f64_nonneg: "rounds_to_nearest R \<Longrightarrow> 0 \<le> as_secs_f64 R d"
  by (simp add: as_secs_f64_def fadd_def fdiv_def rounds_nonneg f64_of_nonneg)

lemma bucket_ok_refill:
  assumes R: "rounds_to_nearest R" and ok: "bucket_ok burst b"
  shows "bucket_ok burst (refill R now b)"
proof -
  define added where "added = fmul R (as_secs_f64 R (elapsed now (tb_last_refill b))) (tb_tokens_per_sec b)"
  have "0 \<le> added"
    using ok as_secs_f64_nonneg [OF R] by (simp add: added_def fmul_def rounds_nonneg [OF R] bucket_ok_def)
  then have "0 \<le> fadd R (tb_tokens b) added"
    using ok by (simp add: fadd_def rounds_nonneg [OF R] bucket_ok_def)
  with ok show ?thesis
    by (simp add: bucket_ok_def refill_def Let_def flip: added_def)
qed

lemma bucket_ok_consume:
  assumes R: "rounds_to_nearest R" and ok: "bucket_ok burst b" and idem: "R burst = burst"
  shows "bucket_ok burst (snd (try_consume R now n b))"
proof -
  define b1 where "b1 = refill R now b"
  have ok1: "bucket_ok burst b1" unfolding b1_def using R ok by (rule bucket_ok_refill)
  have "R (tb_tokens b1 - f64_of R (unat n)) \<le> burst"
    using rounds_mono [OF R, of "tb_tokens b1 - f64_of R (unat n)" burst] ok1 idem f64_of_nonneg [OF R, of "unat n"]
    by (simp add: bucket_ok_def)
  with ok1 R show ?thesis
    by (auto simp: try_consume_def bucket_ok_def fsub_def Let_def rounds_nonneg simp flip: b1_def)
qed

lemma bucket_ok_step:
  "rounds_to_nearest R \<Longrightarrow> R burst = burst \<Longrightarrow> bucket_ok burst b \<Longrightarrow> bucket_ok burst (bucket_step R e b)"
  by (induction R e b rule: bucket_step.induct)
    (simp_all add: bucket_ok_consume available_tokens_def wait_duration_def bucket_ok_refill Let_def)

lemma bucket_run_ok:
  assumes "rounds_to_nearest R"
  shows "bucket_ok (f64_of R (unat burst)) (fold (bucket_step R) es (bucket_with_burst R now rate burst))"
proof -
  have R: "rounds_to_nearest R" and idem: "R (f64_of R (unat burst)) = f64_of R (unat burst)"
    using assms by (simp_all add: f64_of_def rounds_idem)
  have "bucket_ok (f64_of R (unat burst)) (bucket_with_burst R now rate burst)"
    by (simp add: bucket_ok_def bucket_with_burst_def f64_of_nonneg [OF R])
  then show ?thesis
  proof (induction es arbitrary: rule: rev_induct)
    case (snoc e es)
    then show ?case by (simp add: bucket_ok_step [OF R idem])
  qed simp
qed

text \<open>The bucket grants at most its burst at once. Whatever calls it served, its tokens lie between nothing and the
  burst, and a transfer of more than that is never granted however long the caller waits - although
  \<open>wait_duration\<close> names a finite time.\<close>

theorem bucket_bounded:
  fixes R :: "rat \<Rightarrow> rat" and es :: "(instant \<times> bucket_op) list" and now :: instant and rate burst :: u64
  assumes "rounds_to_nearest R"
  defines "b \<equiv> fold (bucket_step R) es (bucket_with_burst R now rate burst)"
  shows "0 \<le> tb_tokens b \<and> tb_tokens b \<le> f64_of R (unat burst) \<and>
    (fst (try_consume R later n b) \<longrightarrow> f64_of R (unat n) \<le> f64_of R (unat burst))"
proof -
  note R = assms(1)
  have ok: "bucket_ok (f64_of R (unat burst)) b" unfolding b_def by (rule bucket_run_ok) (rule assms(1))
  have "tb_tokens (refill R later b) \<le> f64_of R (unat burst)"
    using bucket_ok_refill [OF R ok, of later] by (simp add: bucket_ok_def)
  with ok show ?thesis
    by (auto simp: bucket_ok_def try_consume_def Let_def split: if_splits)
qed

theorem bucket_bounded_witness:
  "let b = fold (bucket_step id) [(1, TryConsume 5)] (bucket_with_burst id 0 10 10) in
   0 \<le> tb_tokens b \<and> tb_tokens b \<le> f64_of id (unat (10 :: u64)) \<and>
    (fst (try_consume id 7 (3 :: u64) b) \<longrightarrow> f64_of id (unat (3 :: u64)) \<le> f64_of id (unat (10 :: u64)))"
  unfolding Let_def by (rule bucket_bounded) simp

end
