(* ===== verification/PeerDiscovery.thy ===== *)
theory PeerDiscovery
  imports ZkCells Float64
begin

text \<open>
  Peer discovery, \<open>protocol/src/peer_discovery.rs\<close>: peers with their scores, connection states and bans,
  the selection of peers, and the grouping by region. Each call reads the clock once.
\<close>

section \<open>Peers\<close>

definition DEFAULT_PEER_SCORE :: f64 where "DEFAULT_PEER_SCORE = 50"

definition MAX_PEER_SCORE :: f64 where "MAX_PEER_SCORE = 100"

definition MIN_PEER_SCORE :: f64 where "MIN_PEER_SCORE = 0"

definition SCORE_DECAY_FACTOR :: "(rat \<Rightarrow> rat) \<Rightarrow> f64" where "SCORE_DECAY_FACTOR R = R (99 / 100)"

datatype connection_state = Discovered | Connecting | Connected | Disconnected | Banned

record known_peer =
  kp_peer_id :: peer_id
  kp_addresses :: "string list"
  kp_region :: "string option"
  kp_last_seen :: instant
  kp_state :: connection_state
  kp_score :: f64
  kp_provides :: "string list"
  kp_latency_history :: "u32 list"
  kp_bandwidth_estimate :: "u64 option"
  kp_failed_attempts :: u32
  kp_successful_transfers :: u64
  kp_failed_transfers :: u64

definition known_peer_new :: "instant \<Rightarrow> peer_id \<Rightarrow> known_peer" where
  "known_peer_new now p =
     \<lparr>kp_peer_id = p, kp_addresses = [], kp_region = None, kp_last_seen = now, kp_state = Discovered,
      kp_score = DEFAULT_PEER_SCORE, kp_provides = [], kp_latency_history = [], kp_bandwidth_estimate = None,
      kp_failed_attempts = 0, kp_successful_transfers = 0, kp_failed_transfers = 0\<rparr>"

definition average_latency :: "known_peer \<Rightarrow> u32 option" where
  "average_latency p =
     (if kp_latency_history p = [] then None
      else
        let total = sum_list (map (\<lambda>v. ucast v :: u64) (kp_latency_history p))
        in Some (ucast (total div of_nat (length (kp_latency_history p)))))"

definition record_latency :: "u32 \<Rightarrow> known_peer \<Rightarrow> known_peer" where
  "record_latency ms p =
     (let h = kp_latency_history p @ [ms] in p\<lparr>kp_latency_history := (if length h > 100 then tl h else h)\<rparr>)"

definition record_peer_transfer :: "(rat \<Rightarrow> rat) \<Rightarrow> bool \<Rightarrow> u64 \<Rightarrow> u64 \<Rightarrow> known_peer \<Rightarrow> known_peer" where
  "record_peer_transfer R success n duration_ms p =
     (if success then
        let p1 = p\<lparr>kp_successful_transfers := kp_successful_transfers p + 1,
              kp_score := min (fadd R (kp_score p) 2) MAX_PEER_SCORE\<rparr>
        in if duration_ms > 0 then p1\<lparr>kp_bandwidth_estimate := Some (n * 1000 div duration_ms)\<rparr> else p1
      else p\<lparr>kp_failed_transfers := kp_failed_transfers p + 1,
             kp_score := max (fsub R (kp_score p) 5) MIN_PEER_SCORE\<rparr>)"

definition is_reliable :: "known_peer \<Rightarrow> bool" where
  "is_reliable p \<longleftrightarrow> kp_score p \<ge> 40 \<and> kp_failed_attempts p < 5"

definition success_rate :: "(rat \<Rightarrow> rat) \<Rightarrow> known_peer \<Rightarrow> f64" where
  "success_rate R p =
     (let total = kp_successful_transfers p + kp_failed_transfers p in
      if total = 0 then 1 / 2
      else fdiv R (f64_of R (unat (kp_successful_transfers p))) (f64_of R (unat total)))"

section \<open>The manager\<close>

record discovery_config =
  dc_max_peers :: nat
  dc_min_peers :: nat
  dc_refresh_interval_secs :: u64
  dc_peer_timeout_secs :: u64
  dc_enable_mdns :: bool
  dc_bootstrap_peers :: "string list"

definition discovery_config_default :: discovery_config where
  "discovery_config_default =
     \<lparr>dc_max_peers = 50, dc_min_peers = 5, dc_refresh_interval_secs = 300, dc_peer_timeout_secs = 600,
      dc_enable_mdns = True, dc_bootstrap_peers = []\<rparr>"

record discovery_stats =
  ds_total_discovered :: u64
  ds_currently_connected :: nat
  ds_total_connections :: u64
  ds_total_disconnections :: u64
  ds_banned_peers :: nat

record peer_discovery =
  pd_config :: discovery_config
  pd_peers :: "(peer_id, known_peer) hmap"
  pd_connected :: "peer_id list"
  pd_banned :: "peer_id list"
  pd_stats :: discovery_stats

definition discovery_with_config :: "discovery_config \<Rightarrow> peer_discovery" where
  "discovery_with_config cfg =
     \<lparr>pd_config = cfg, pd_peers = [], pd_connected = [], pd_banned = [],
      pd_stats = \<lparr>ds_total_discovered = 0, ds_currently_connected = 0, ds_total_connections = 0,
        ds_total_disconnections = 0, ds_banned_peers = 0\<rparr>\<rparr>"

definition discovery_new :: peer_discovery where
  "discovery_new = discovery_with_config discovery_config_default"

definition add_peer :: "instant \<Rightarrow> peer_id \<Rightarrow> string list \<Rightarrow> peer_discovery \<Rightarrow> peer_discovery" where
  "add_peer now p addresses d =
     (if p \<in> set (pd_banned d) then d
      else
        let old = (case hm_get (pd_peers d) p of None \<Rightarrow> known_peer_new now p | Some k \<Rightarrow> k)
        in d\<lparr>pd_stats := (pd_stats d)\<lparr>ds_total_discovered := ds_total_discovered (pd_stats d) + 1\<rparr>,
             pd_peers := hm_insert p
               (old\<lparr>kp_addresses := addresses, kp_last_seen := now, kp_state := Discovered\<rparr>) (pd_peers d)\<rparr>)"

definition peer_connected :: "instant \<Rightarrow> peer_id \<Rightarrow> peer_discovery \<Rightarrow> peer_discovery" where
  "peer_connected now p d =
     (let d1 = d\<lparr>pd_peers := hm_modify p
            (\<lambda>k. k\<lparr>kp_state := Connected, kp_last_seen := now, kp_failed_attempts := 0\<rparr>) (pd_peers d)\<rparr>
      in if p \<in> set (pd_connected d1) then d1
         else
           let conn = pd_connected d1 @ [p]
           in d1\<lparr>pd_connected := conn,
                 pd_stats := (pd_stats d1)\<lparr>ds_currently_connected := length conn,
                   ds_total_connections := ds_total_connections (pd_stats d1) + 1\<rparr>\<rparr>)"

text \<open>The end of a connection, as \<open>peer_disconnected\<close> and \<open>ban_peer\<close> count it.\<close>

definition drop_connection :: "peer_id \<Rightarrow> peer_discovery \<Rightarrow> peer_discovery" where
  "drop_connection p d =
     (let conn = filter (\<lambda>q. q \<noteq> p) (pd_connected d)
      in d\<lparr>pd_connected := conn,
           pd_stats := (pd_stats d)\<lparr>ds_currently_connected := length conn,
             ds_total_disconnections := ds_total_disconnections (pd_stats d) + 1\<rparr>\<rparr>)"

definition peer_disconnected :: "peer_id \<Rightarrow> peer_discovery \<Rightarrow> peer_discovery" where
  "peer_disconnected p d =
     drop_connection p (d\<lparr>pd_peers := hm_modify p (\<lambda>k. k\<lparr>kp_state := Disconnected\<rparr>) (pd_peers d)\<rparr>)"

definition ban_peer :: "peer_id \<Rightarrow> peer_discovery \<Rightarrow> peer_discovery" where
  "ban_peer p d =
     (let d1 = drop_connection p d;
          d2 = d1\<lparr>pd_peers := hm_modify p (\<lambda>k. k\<lparr>kp_state := Banned\<rparr>) (pd_peers d1)\<rparr>
      in if p \<in> set (pd_banned d2) then d2
         else
           let banned = pd_banned d2 @ [p]
           in d2\<lparr>pd_banned := banned, pd_stats := (pd_stats d2)\<lparr>ds_banned_peers := length banned\<rparr>\<rparr>)"

definition connection_failed :: "(rat \<Rightarrow> rat) \<Rightarrow> peer_id \<Rightarrow> peer_discovery \<Rightarrow> peer_discovery" where
  "connection_failed R p d =
     (case hm_get (pd_peers d) p of
        None \<Rightarrow> d
      | Some k \<Rightarrow>
          let k1 = k\<lparr>kp_failed_attempts := kp_failed_attempts k + 1,
                kp_score := max (fsub R (kp_score k) 10) MIN_PEER_SCORE\<rparr>;
              d1 = d\<lparr>pd_peers := hm_insert p k1 (pd_peers d)\<rparr>
          in if kp_failed_attempts k1 \<ge> 10 then ban_peer p d1 else d1)"

definition unban_peer :: "peer_id \<Rightarrow> peer_discovery \<Rightarrow> peer_discovery" where
  "unban_peer p d =
     (let banned = filter (\<lambda>q. q \<noteq> p) (pd_banned d)
      in d\<lparr>pd_banned := banned, pd_stats := (pd_stats d)\<lparr>ds_banned_peers := length banned\<rparr>,
           pd_peers := hm_modify p (\<lambda>k. k\<lparr>kp_state := Disconnected, kp_failed_attempts := 0,
             kp_score := DEFAULT_PEER_SCORE\<rparr>) (pd_peers d)\<rparr>)"

definition get_peer :: "peer_id \<Rightarrow> peer_discovery \<Rightarrow> known_peer option" where
  "get_peer p d = hm_get (pd_peers d) p"

text \<open>\<open>get_peer_mut\<close> lets the caller update a peer with the methods of \<open>PeerInfo\<close>.\<close>

definition update_peer :: "peer_id \<Rightarrow> (known_peer \<Rightarrow> known_peer) \<Rightarrow> peer_discovery \<Rightarrow> peer_discovery" where
  "update_peer p f d = d\<lparr>pd_peers := hm_modify p f (pd_peers d)\<rparr>"

definition get_connected_peers :: "peer_discovery \<Rightarrow> known_peer list" where
  "get_connected_peers d = List.map_filter (hm_get (pd_peers d)) (pd_connected d)"

definition get_best_known_peers :: "nat \<Rightarrow> peer_discovery \<Rightarrow> known_peer list" where
  "get_best_known_peers count d = take count (sort_key (\<lambda>k. - kp_score k) (get_connected_peers d))"

definition content_providers :: "string \<Rightarrow> peer_discovery \<Rightarrow> known_peer list" where
  "content_providers cid d = filter (\<lambda>k. cid \<in> set (kp_provides k) \<and> kp_state k = Connected) (hm_values (pd_peers d))"

definition add_provider :: "peer_id \<Rightarrow> string \<Rightarrow> peer_discovery \<Rightarrow> peer_discovery" where
  "add_provider p cid d =
     update_peer p (\<lambda>k. if cid \<in> set (kp_provides k) then k else k\<lparr>kp_provides := kp_provides k @ [cid]\<rparr>) d"

definition distribution_score :: "(rat \<Rightarrow> rat) \<Rightarrow> known_peer \<Rightarrow> f64" where
  "distribution_score R k =
     fsub R (kp_score k)
       (fmul R (f64_of R (unat (case average_latency k of None \<Rightarrow> 100 | Some l \<Rightarrow> l))) (R (1 / 10)))"

definition select_distribution_peers :: "(rat \<Rightarrow> rat) \<Rightarrow> nat \<Rightarrow> peer_id list \<Rightarrow> peer_discovery \<Rightarrow> peer_id list" where
  "select_distribution_peers R count exclude d =
     (let candidates = filter is_reliable
            (List.map_filter (hm_get (pd_peers d)) (filter (\<lambda>p. p \<notin> set exclude) (pd_connected d)))
      in map kp_peer_id (take count (sort_key (\<lambda>k. - distribution_score R k) candidates)))"

definition is_stale_peer :: "instant \<Rightarrow> duration \<Rightarrow> known_peer \<Rightarrow> bool" where
  "is_stale_peer now timeout k \<longleftrightarrow> kp_state k = Disconnected \<and> elapsed now (kp_last_seen k) > timeout"

definition cleanup_known_peers :: "instant \<Rightarrow> peer_discovery \<Rightarrow> peer_discovery" where
  "cleanup_known_peers now d =
     (let timeout = from_secs (unat (dc_peer_timeout_secs (pd_config d)));
          stale = map fst (filter (\<lambda>(_, k). is_stale_peer now timeout k) (pd_peers d))
      in d\<lparr>pd_peers := fold hm_remove stale (pd_peers d)\<rparr>)"

definition apply_score_decay :: "(rat \<Rightarrow> rat) \<Rightarrow> peer_discovery \<Rightarrow> peer_discovery" where
  "apply_score_decay R d =
     d\<lparr>pd_peers := hm_map_values
         (\<lambda>k. k\<lparr>kp_score := fadd R DEFAULT_PEER_SCORE (fmul R (fsub R (kp_score k) DEFAULT_PEER_SCORE) (SCORE_DECAY_FACTOR R))\<rparr>)
         (pd_peers d)\<rparr>"

definition needs_more_peers :: "peer_discovery \<Rightarrow> bool" where
  "needs_more_peers d \<longleftrightarrow> length (pd_connected d) < dc_min_peers (pd_config d)"

definition too_many_peers :: "peer_discovery \<Rightarrow> bool" where
  "too_many_peers d \<longleftrightarrow> length (pd_connected d) > dc_max_peers (pd_config d)"

definition get_peers_to_disconnect :: "nat \<Rightarrow> peer_discovery \<Rightarrow> peer_id list" where
  "get_peers_to_disconnect count d = map kp_peer_id (take count (sort_key kp_score (get_connected_peers d)))"

definition get_all_peer_ids :: "peer_discovery \<Rightarrow> peer_id list" where
  "get_all_peer_ids d = map fst (pd_peers d)"

section \<open>Regions\<close>

record regional_selector =
  rg_regions :: "(string, peer_id list) hmap"
  rg_local_region :: "string option"

definition selector_new :: regional_selector where
  "selector_new = \<lparr>rg_regions = [], rg_local_region = None\<rparr>"

definition set_local_region :: "string \<Rightarrow> regional_selector \<Rightarrow> regional_selector" where
  "set_local_region r s = s\<lparr>rg_local_region := Some r\<rparr>"

definition add_peer_to_region :: "peer_id \<Rightarrow> string \<Rightarrow> regional_selector \<Rightarrow> regional_selector" where
  "add_peer_to_region p r s =
     s\<lparr>rg_regions := hm_insert r ((case hm_get (rg_regions s) r of None \<Rightarrow> [] | Some ps \<Rightarrow> ps) @ [p]) (rg_regions s)\<rparr>"

definition get_local_peers :: "regional_selector \<Rightarrow> peer_id list" where
  "get_local_peers s =
     (case Option.bind (rg_local_region s) (hm_get (rg_regions s)) of None \<Rightarrow> [] | Some ps \<Rightarrow> ps)"

definition get_remote_peers :: "regional_selector \<Rightarrow> peer_id list" where
  "get_remote_peers s = concat (map snd (filter (\<lambda>(r, _). Some r \<noteq> rg_local_region s) (rg_regions s)))"

definition select_distributed :: "nat \<Rightarrow> regional_selector \<Rightarrow> peer_id list" where
  "select_distributed count s =
     (let local_count = count * 2 div 3
      in take local_count (get_local_peers s) @ take (count - local_count) (get_remote_peers s))"

end
