(* ===== verification/PeerDiscoverySafety.thy ===== *)
theory PeerDiscoverySafety
  imports PeerDiscovery
begin

text \<open>
  The invariant of the peer discovery manager (scores, histories, counters), the selection of peers for
  distribution, and the gap in its bans.
\<close>

section \<open>Calls\<close>

datatype discovery_op =
    AddPeer peer_id "string list"
  | PeerUp peer_id
  | PeerDown peer_id
  | ConnectionFailed peer_id
  | BanPeer peer_id
  | UnbanPeer peer_id
  | NoteLatency peer_id u32
  | NoteTransfer peer_id bool u64 u64
  | AddProvider peer_id string
  | CleanupPeers
  | DecayScores

fun discovery_step :: "(rat \<Rightarrow> rat) \<Rightarrow> instant \<times> discovery_op \<Rightarrow> peer_discovery \<Rightarrow> peer_discovery" where
  "discovery_step R (now, AddPeer p a) d = add_peer now p a d"
| "discovery_step R (now, PeerUp p) d = peer_connected now p d"
| "discovery_step R (now, PeerDown p) d = peer_disconnected p d"
| "discovery_step R (now, ConnectionFailed p) d = connection_failed R p d"
| "discovery_step R (now, BanPeer p) d = ban_peer p d"
| "discovery_step R (now, UnbanPeer p) d = unban_peer p d"
| "discovery_step R (now, NoteLatency p ms) d = update_peer p (record_latency ms) d"
| "discovery_step R (now, NoteTransfer p ok n ms) d = update_peer p (record_peer_transfer R ok n ms) d"
| "discovery_step R (now, AddProvider p cid) d = add_provider p cid d"
| "discovery_step R (now, CleanupPeers) d = cleanup_known_peers now d"
| "discovery_step R (now, DecayScores) d = apply_score_decay R d"

section \<open>The invariant\<close>

definition peer_ok :: "peer_id \<Rightarrow> known_peer \<Rightarrow> bool" where
  "peer_ok p k \<longleftrightarrow> kp_peer_id k = p \<and> 0 \<le> kp_score k \<and> kp_score k \<le> 100 \<and> length (kp_latency_history k) \<le> 100 \<and>
     distinct (kp_provides k)"

definition peers_ok :: "(peer_id, known_peer) hmap \<Rightarrow> bool" where
  "peers_ok m \<longleftrightarrow> hm_wf m \<and> (\<forall>p k. hm_get m p = Some k \<longrightarrow> peer_ok p k)"

definition lists_ok :: "peer_discovery \<Rightarrow> bool" where
  "lists_ok d \<longleftrightarrow> distinct (pd_connected d) \<and> distinct (pd_banned d) \<and>
     ds_currently_connected (pd_stats d) = length (pd_connected d) \<and> ds_banned_peers (pd_stats d) = length (pd_banned d)"

lemma peers_ok_insert [intro]: "peers_ok m \<Longrightarrow> peer_ok p k \<Longrightarrow> peers_ok (hm_insert p k m)"
  by (auto simp: peers_ok_def)

lemma peers_ok_modify: "peers_ok m \<Longrightarrow> (\<And>k. peer_ok p k \<Longrightarrow> peer_ok p (f k)) \<Longrightarrow> peers_ok (hm_modify p f m)"
  by (auto simp: peers_ok_def)

lemma peers_ok_remove [intro]: "peers_ok m \<Longrightarrow> peers_ok (hm_remove p m)"
  by (auto simp: peers_ok_def)

lemma peers_ok_map: "peers_ok m \<Longrightarrow> (\<And>p k. peer_ok p k \<Longrightarrow> peer_ok p (f k)) \<Longrightarrow> peers_ok (hm_map_values f m)"
  by (auto simp: peers_ok_def)

lemma peers_ok_fold_remove: "peers_ok m \<Longrightarrow> peers_ok (fold hm_remove ps m)"
  by (induction ps arbitrary: m) auto

lemma score_up:
  assumes R: "rounds_to_nearest R" and "0 \<le> s" "s \<le> 100"
  shows "0 \<le> min (fadd R s 2) MAX_PEER_SCORE \<and> min (fadd R s 2) MAX_PEER_SCORE \<le> 100"
  using rounds_mono [OF R, of 0 "s + 2"] assms by (simp add: fadd_def MAX_PEER_SCORE_def rounds_numeral [OF R])

lemma score_down:
  assumes R: "rounds_to_nearest R" and "0 \<le> s" "s \<le> 100" "0 \<le> c"
  shows "0 \<le> max (fsub R s c) MIN_PEER_SCORE \<and> max (fsub R s c) MIN_PEER_SCORE \<le> 100"
  using rounds_mono [OF R, of "s - c" 100] assms by (simp add: fsub_def MIN_PEER_SCORE_def rounds_numeral [OF R])

lemma score_decay:
  assumes R: "rounds_to_nearest R" and s: "0 \<le> s" "s \<le> 100"
  defines "s' \<equiv> fadd R DEFAULT_PEER_SCORE (fmul R (fsub R s DEFAULT_PEER_SCORE) (SCORE_DECAY_FACTOR R))"
  shows "0 \<le> s' \<and> s' \<le> 100"
proof -
  define f where "f = SCORE_DECAY_FACTOR R"
  have f: "0 \<le> f" "f \<le> 1"
    using rounds_mono [OF R, of 0 "99 / 100"] rounds_mono [OF R, of "99 / 100" 1]
    by (simp_all add: f_def SCORE_DECAY_FACTOR_def rounds_numeral [OF R])
  define diff where "diff = fsub R s DEFAULT_PEER_SCORE"
  have diff: "- 50 \<le> diff" "diff \<le> 50"
    using rounds_mono [OF R, of "- 50" "s - 50"] rounds_mono [OF R, of "s - 50" 50] s
    by (simp_all add: diff_def fsub_def DEFAULT_PEER_SCORE_def rounds_numeral [OF R])
  have prod: "- 50 \<le> diff * f" "diff * f \<le> 50"
    using mult_mono [of diff 50 f 1] mult_mono [of "- diff" 50 f 1] diff f by simp_all
  have "- 50 \<le> fmul R diff f" "fmul R diff f \<le> 50"
    using rounds_mono [OF R prod(1)] rounds_mono [OF R prod(2)] by (simp_all add: fmul_def rounds_numeral [OF R])
  then have "R 0 \<le> s'" "s' \<le> R 100"
    unfolding s'_def fadd_def diff_def f_def DEFAULT_PEER_SCORE_def by (auto intro!: rounds_mono [OF R])
  then show ?thesis by (simp add: rounds_numeral [OF R])
qed

lemma transfer_ok: "rounds_to_nearest R \<Longrightarrow> peer_ok p k \<Longrightarrow> peer_ok p (record_peer_transfer R ok n ms k)"
  using score_up [of R "kp_score k"] score_down [of R "kp_score k" 5]
  by (simp add: peer_ok_def record_peer_transfer_def Let_def)

lemma peers_ok_ban: "peers_ok (pd_peers d) \<Longrightarrow> peers_ok (pd_peers (ban_peer p d))"
  by (auto simp: ban_peer_def drop_connection_def Let_def peer_ok_def intro!: peers_ok_modify)

lemma peers_ok_failed:
  assumes "rounds_to_nearest R" "peers_ok (pd_peers d)"
  shows "peers_ok (pd_peers (connection_failed R p d))"
proof (cases "hm_get (pd_peers d) p")
  case (Some k)
  have "peer_ok p k" using Some assms(2) by (simp add: peers_ok_def)
  then have "peer_ok p (k\<lparr>kp_failed_attempts := n, kp_score := max (fsub R (kp_score k) 10) MIN_PEER_SCORE\<rparr>)" for n
    using score_down [OF assms(1), of "kp_score k" 10] by (simp add: peer_ok_def)
  then show ?thesis
    using Some assms(2) by (simp add: connection_failed_def Let_def peers_ok_ban peers_ok_insert)
qed (simp add: connection_failed_def assms)

lemma peers_ok_step:
  assumes "rounds_to_nearest R" "peers_ok (pd_peers d)"
  shows "peers_ok (pd_peers (discovery_step R e d))"
  using assms
proof (induction R e d rule: discovery_step.induct)
  case (1 R now p a d)
  have "peer_ok p (known_peer_new now p)"
    by (simp add: peer_ok_def known_peer_new_def DEFAULT_PEER_SCORE_def)
  with 1 show ?case
    by (auto simp: add_peer_def Let_def peers_ok_def peer_ok_def split: option.split)
next
  case (2 R now p d)
  then show ?case by (auto simp: peer_connected_def Let_def peer_ok_def intro!: peers_ok_modify)
next
  case (3 R now p d)
  then show ?case by (auto simp: peer_disconnected_def drop_connection_def Let_def peer_ok_def intro!: peers_ok_modify)
next
  case (4 R now p d)
  then show ?case by (simp add: peers_ok_failed)
next
  case (5 R now p d)
  then show ?case by (simp add: peers_ok_ban)
next
  case (6 R now p d)
  then show ?case by (auto simp: unban_peer_def Let_def peer_ok_def DEFAULT_PEER_SCORE_def intro!: peers_ok_modify)
next
  case (7 R now p ms d)
  then show ?case by (auto simp: update_peer_def record_latency_def Let_def peer_ok_def intro!: peers_ok_modify)
next
  case (8 R now p ok n ms d)
  then show ?case by (auto simp: update_peer_def intro!: peers_ok_modify transfer_ok)
next
  case (9 R now p cid d)
  then show ?case by (auto simp: add_provider_def update_peer_def peer_ok_def intro!: peers_ok_modify)
next
  case (10 R now d)
  then show ?case by (simp add: cleanup_known_peers_def Let_def peers_ok_fold_remove)
next
  case (11 R now d)
  have "peer_ok p (k\<lparr>kp_score := fadd R DEFAULT_PEER_SCORE (fmul R (fsub R (kp_score k) DEFAULT_PEER_SCORE) (SCORE_DECAY_FACTOR R))\<rparr>)"
    if "peer_ok p k" for p k
    using that score_decay [OF 11(1), of "kp_score k"] by (simp add: peer_ok_def)
  then show ?case
    using 11(2) by (simp add: apply_score_decay_def peers_ok_map)
qed

lemma lists_ok_drop: "lists_ok d \<Longrightarrow> lists_ok (drop_connection p d)"
  by (auto simp: lists_ok_def drop_connection_def Let_def)

lemma lists_ok_ban: "lists_ok d \<Longrightarrow> lists_ok (ban_peer p d)"
  by (auto simp: lists_ok_def ban_peer_def drop_connection_def Let_def)

lemma lists_ok_step: "lists_ok d \<Longrightarrow> lists_ok (discovery_step R e d)"
proof (induction R e d rule: discovery_step.induct)
  case (4 R now p d)
  then have "lists_ok (d\<lparr>pd_peers := m\<rparr>)" for m by (simp add: lists_ok_def)
  with 4 show ?case by (auto simp: connection_failed_def Let_def lists_ok_ban split: option.split)
next
  case (5 R now p d)
  then show ?case by (simp add: lists_ok_ban)
qed (auto simp: add_peer_def peer_connected_def peer_disconnected_def drop_connection_def unban_peer_def
       update_peer_def add_provider_def cleanup_known_peers_def apply_score_decay_def Let_def lists_ok_def split: option.split)

definition discovery_ok :: "peer_discovery \<Rightarrow> bool" where
  "discovery_ok d \<longleftrightarrow> peers_ok (pd_peers d) \<and> lists_ok d"

interpretation discovery: call_machine "discovery_step R" "\<lambda>d. rounds_to_nearest R \<longrightarrow> discovery_ok d" for R
  by unfold_locales (simp add: discovery_ok_def peers_ok_step lists_ok_step)

lemma discovery_ok_initial [simp]: "discovery_ok (discovery_with_config cfg)"
  by (simp add: discovery_ok_def discovery_with_config_def peers_ok_def lists_ok_def)

lemma discovery_run_ok:
  "rounds_to_nearest R \<Longrightarrow> discovery_ok (fold (discovery_step R) es (discovery_with_config cfg))"
  using discovery.run_inv [of R "discovery_with_config cfg" es] by simp

text \<open>The manager stays bounded. However its calls came, every known peer is kept under its own id, its
  score lies between 0 and 100 (decay, rounding included, cannot leave the range), it remembers at most
  100 latencies, and the connected and banned peers are counted exactly.\<close>

theorem discovery_bounded:
  fixes R :: "rat \<Rightarrow> rat" and es :: "(instant \<times> discovery_op) list" and cfg :: discovery_config
  assumes "rounds_to_nearest R"
  defines "d \<equiv> fold (discovery_step R) es (discovery_with_config cfg)"
  assumes "get_peer p d = Some k"
  shows "kp_peer_id k = p \<and> 0 \<le> kp_score k \<and> kp_score k \<le> 100 \<and> length (kp_latency_history k) \<le> 100 \<and>
    ds_currently_connected (pd_stats d) = card (set (pd_connected d)) \<and> ds_banned_peers (pd_stats d) = card (set (pd_banned d))"
  using discovery_run_ok [OF assms(1), of es cfg] assms(3)
  by (auto simp: discovery_ok_def peers_ok_def peer_ok_def lists_ok_def get_peer_def distinct_card simp flip: d_def)

theorem discovery_bounded_witness:
  "let d = fold (discovery_step id) [(0, AddPeer [1] []), (1, PeerUp [1]), (2, NoteTransfer [1] False 5 5)]
       (discovery_with_config discovery_config_default);
     k = (known_peer_new 0 [1])\<lparr>kp_last_seen := 1, kp_state := Connected, kp_score := 45, kp_failed_transfers := 1\<rparr>
   in kp_peer_id k = [1] \<and> 0 \<le> kp_score k \<and> kp_score k \<le> 100 \<and> length (kp_latency_history k) \<le> 100 \<and>
     ds_currently_connected (pd_stats d) = card (set (pd_connected d)) \<and> ds_banned_peers (pd_stats d) = card (set (pd_banned d))"
  unfolding Let_def
proof (rule discovery_bounded)
  show "rounds_to_nearest id" by simp
qed (simp add: add_peer_def peer_connected_def update_peer_def record_peer_transfer_def get_peer_def fsub_def MIN_PEER_SCORE_def
      known_peer_new_def discovery_with_config_def Let_def hm_modify_def DEFAULT_PEER_SCORE_def)

section \<open>Peers for distribution\<close>

text \<open>The first places of a stable sort hold the best: what is left out scores no better.\<close>

lemma take_best:
  assumes "x \<in> set (take n (sort_key f xs))" "y \<in> set xs" "y \<notin> set (take n (sort_key f xs))"
  shows "f x \<le> (f y :: rat)"
proof -
  let ?s = "sort_key f xs"
  have "sorted (map f (take n ?s @ drop n ?s))" by simp
  then have "\<forall>a \<in> set (take n ?s). \<forall>b \<in> set (drop n ?s). f a \<le> f b"
    by (simp only: map_append sorted_append) auto
  moreover have "y \<in> set (drop n ?s)"
    using assms(2,3) by (metis Un_iff append_take_drop_id set_append set_sort)
  ultimately show ?thesis using assms(1) by blast
qed

definition candidate :: "peer_id list \<Rightarrow> peer_discovery \<Rightarrow> known_peer \<Rightarrow> bool" where
  "candidate exclude d k \<longleftrightarrow> (\<exists>p \<in> set (pd_connected d). p \<notin> set exclude \<and> get_peer p d = Some k) \<and> is_reliable k"

lemma set_candidates:
  "set (filter is_reliable (List.map_filter (hm_get (pd_peers d)) (filter (\<lambda>p. p \<notin> set exclude) (pd_connected d)))) =
     {k. candidate exclude d k}"
  by (force simp: candidate_def get_peer_def List.map_filter_def)

lemma distinct_lookups:
  assumes "peers_ok m" "distinct ps"
  shows "distinct (map kp_peer_id (filter P (List.map_filter (hm_get m) ps)))"
  using assms(2)
proof (induction ps)
  case (Cons p ps)
  have "kp_peer_id k = q" if "hm_get m q = Some k" for q k
    using that assms(1) by (simp add: peers_ok_def peer_ok_def)
  with Cons show ?case
    by (auto simp: map_filter_simps List.map_filter_def split: option.split)
qed (simp add: map_filter_simps)

lemma map_filter_get_in: "k \<in> set (List.map_filter (hm_get m) ps) \<Longrightarrow> \<exists>p \<in> set ps. hm_get m p = Some k"
  by (auto simp: List.map_filter_def)

text \<open>The choice for distribution is exact. Of the connected, reliable peers outside the exclusion list it names
  as many as asked for, each once, or all of them if there are fewer, and no candidate left out
  scores better than one named.\<close>

theorem selection_exact:
  fixes R :: "rat \<Rightarrow> rat" and es :: "(instant \<times> discovery_op) list" and cfg :: discovery_config
  assumes "rounds_to_nearest R"
  defines "d \<equiv> fold (discovery_step R) es (discovery_with_config cfg)"
  shows "\<exists>ks. select_distribution_peers R count exclude d = map kp_peer_id ks \<and> distinct (map kp_peer_id ks) \<and>
    set ks \<subseteq> {k. candidate exclude d k} \<and> length ks = min count (card {k. candidate exclude d k}) \<and>
    set ks \<times> {k'. candidate exclude d k' \<and> k' \<notin> set ks} \<subseteq>
      {(k, k'). distribution_score R k' \<le> distribution_score R k}"
proof -
  define cs where "cs = filter is_reliable
    (List.map_filter (hm_get (pd_peers d)) (filter (\<lambda>p. p \<notin> set exclude) (pd_connected d)))"
  define ks where "ks = take count (sort_key (\<lambda>k. - distribution_score R k) cs)"
  have cs: "set cs = {k. candidate exclude d k}"
    unfolding cs_def by (rule set_candidates)
  have "discovery_ok d" unfolding d_def by (rule discovery_run_ok) (rule assms(1))
  then have dist: "distinct (map kp_peer_id cs)"
    unfolding cs_def by (intro distinct_lookups) (simp_all add: discovery_ok_def lists_ok_def)
  then have "distinct (map kp_peer_id (sort_key (\<lambda>k. - distribution_score R k) cs))"
    by (simp add: distinct_map)
  then have "distinct (map kp_peer_id ks)"
    unfolding ks_def take_map [symmetric] by (rule distinct_take)
  moreover have "length ks = min count (card {k. candidate exclude d k})"
    using dist by (simp add: ks_def min.commute distinct_card distinct_map flip: cs)
  moreover have "set ks \<subseteq> {k. candidate exclude d k}"
    unfolding cs [symmetric] ks_def using set_take_subset by fastforce
  moreover have "distribution_score R k' \<le> distribution_score R k"
    if "k \<in> set ks" "candidate exclude d k'" "k' \<notin> set ks" for k k'
    using take_best [of k count "\<lambda>k. - distribution_score R k" cs k'] that cs by (auto simp: ks_def)
  ultimately show ?thesis
    by (intro exI [of _ ks]) (auto simp: select_distribution_peers_def Let_def ks_def cs_def)
qed

definition demo_peer_calls :: "(instant \<times> discovery_op) list" where
  "demo_peer_calls = [(0, AddPeer [1] []), (0, AddPeer [2] []), (1, PeerUp [1]), (1, PeerUp [2]), (2, NoteTransfer [2] True 5 5)]"

definition demo_discovery :: peer_discovery where
  "demo_discovery = fold (discovery_step id) demo_peer_calls (discovery_with_config discovery_config_default)"

theorem selection_exact_witness:
  "\<exists>ks. select_distribution_peers id 1 [] demo_discovery = map kp_peer_id ks \<and> distinct (map kp_peer_id ks) \<and>
    set ks \<subseteq> {k. candidate [] demo_discovery k} \<and> length ks = min 1 (card {k. candidate [] demo_discovery k}) \<and>
    set ks \<times> {k'. candidate [] demo_discovery k' \<and> k' \<notin> set ks} \<subseteq>
      {(k, k'). distribution_score id k' \<le> distribution_score id k}"
  unfolding demo_discovery_def by (rule selection_exact) simp

section \<open>Bans\<close>

text \<open>A ban does not keep a peer out: if it connects again it is connected, and while it is reliable, as a
  peer banned by hand is, it is chosen for distribution. Only \<open>add_peer\<close> looks at the bans.\<close>

lemma banned_peer_selected:
  "let d = fold (discovery_step id) [(0, AddPeer [1] []), (1, PeerUp [1]), (2, BanPeer [1]), (3, PeerUp [1])] discovery_new
   in [1] \<in> set (pd_banned d) \<and> pd_connected d = [[1]] \<and> select_distribution_peers id 1 [] d = [[1]]"
  by (simp add: discovery_new_def discovery_with_config_def add_peer_def peer_connected_def ban_peer_def drop_connection_def
      select_distribution_peers_def is_reliable_def known_peer_new_def hm_modify_def hm_insert_def hm_get_def Let_def
      map_filter_simps DEFAULT_PEER_SCORE_def)

text \<open>An announcement turns a connected peer into a discovered one: its content is no longer found.\<close>

lemma announced_provider_lost:
  "let d = fold (discovery_step id) [(0, AddPeer [1] []), (1, PeerUp [1]), (2, AddProvider [1] ''c'')] discovery_new
   in map kp_peer_id (content_providers ''c'' d) = [[1]] \<and> content_providers ''c'' (add_peer 3 [1] [] d) = []"
  by (simp add: discovery_new_def discovery_with_config_def add_peer_def peer_connected_def add_provider_def update_peer_def
      content_providers_def known_peer_new_def hm_modify_def hm_insert_def hm_get_def hm_values_def Let_def)

end
