(* ===== verification/GatewayP2p.thy ===== *)
theory GatewayP2p
  imports AdaptiveRouter NodeP2p ContentCache NameStore
begin

text \<open>
  The P2P event loop of the gateway, \<open>gateway/src/p2p.rs\<close> with the commands of \<open>p2p_commands.rs\<close>. It is the
  loop of a node (\<open>NodeP2p\<close>) with other neighbours: it serves peers from the content cache instead of a
  fragment store, keeps the naming manager up to date from gossip, looks names up in the DHT, and
  reports every success and failure to its adaptive router, which is part of its state.

  libp2p is outside: what the loop hands to it is appended to \<open>gp_effects\<close>, the answers to requests to
  \<open>gp_answers\<close>, and what is sent on a one-shot channel to \<open>gp_replies\<close>. Events that only change libp2p
  (mDNS, identify, rendezvous discovery, NAT traversal) and logging are left out.
\<close>

section \<open>Commands and replies\<close>

datatype gw_fetch_error =
    GwNotFound
  | GwConnectionFailed string
  | GwPeerError string
  | GwChannelClosed
  | GwTimeout
  | GwRelayError string

definition gw_fetch_error_text :: "gw_fetch_error \<Rightarrow> string" where
  "gw_fetch_error_text e =
     (case e of
        GwNotFound \<Rightarrow> ''Content not found on peer network''
      | GwConnectionFailed m \<Rightarrow> ''Connection failed: '' @ m
      | GwPeerError m \<Rightarrow> ''Peer error: '' @ m
      | GwChannelClosed \<Rightarrow> ''P2P event loop is shut down''
      | GwTimeout \<Rightarrow> ''P2P resolution timed out''
      | GwRelayError m \<Rightarrow> ''ZK relay error: '' @ m)"

datatype gw_command =
    GwFetchFragment peer_id string channel
  | GwFetchManifest peer_id string channel
  | GwAnnounceContent string "string list" u64 string
  | GwFindProviders string channel
  | GwPublishName bytes string
  | GwResolveName string channel
  | GwReportCensorship peer_id failure_type
  | GwBuildCircuit "peer_id list" channel
  | GwSendRelayCell relay_cell peer_id
  | GwFetchViaCircuit circuit_id string channel

datatype gw_reply =
    GwBytes "gw_fetch_error + bytes"
  | GwManifest "gw_fetch_error + manifest_result"
  | GwProviders "gw_fetch_error + peer_id list"
  | GwName "gw_fetch_error + bytes option"
  | GwCircuit "gw_fetch_error + circuit_id"

datatype gw_pending =
    PendFragment peer_id string channel
  | PendManifest peer_id channel
  | PendRelayResponse peer_id circuit_id
  | PendRelayForward peer_id peer_id circuit_id

definition gw_target_peer :: "gw_pending \<Rightarrow> peer_id" where
  "gw_target_peer p =
     (case p of
        PendFragment t _ _ \<Rightarrow> t | PendManifest t _ \<Rightarrow> t | PendRelayResponse t _ \<Rightarrow> t | PendRelayForward t _ _ \<Rightarrow> t)"

definition gw_is_closed :: "(channel \<Rightarrow> bool) \<Rightarrow> gw_pending \<Rightarrow> bool" where
  "gw_is_closed gone p =
     (case p of
        PendFragment _ _ c \<Rightarrow> gone c | PendManifest _ c \<Rightarrow> gone c
      | PendRelayResponse _ _ \<Rightarrow> False | PendRelayForward _ _ _ \<Rightarrow> False)"

section \<open>The outside\<close>

text \<open>Codecs and keys, and what one call finds: clocks, random bytes, channels whose receiver is gone.\<close>

record gw_env =
  ge_p2p :: p2p_env
  ge_naming :: naming_env

record gw_call =
  gc_now :: instant
  gc_unix :: u64
  gc_drawn :: bytes
  gc_extra :: bytes
  gc_padding :: bytes
  gc_nonces :: "nat \<Rightarrow> bytes"
  gc_secrets :: "nat \<Rightarrow> bytes"
  gc_closed :: "channel \<Rightarrow> bool"
  gc_listen_addrs :: "string list"
  gc_route :: route_env

datatype gw_effect =
    GwSendRequest nat peer_id content_request
  | GwKadGetRecord bytes
  | GwKadPutRecord bytes bytes
  | GwGossipNames bytes
  | GwRendezvousRegister peer_id
  | GwRendezvousDiscover peer_id

text \<open>The key of a record or of a failed look-up as \<open>from_utf8_lossy\<close> shows it.\<close>

datatype gw_kad_result =
    GwFoundRecord string bytes
  | GwFinished
  | GwGetFailed string

section \<open>The state of the loop\<close>

record gateway_node =
  gp_peer :: peer_id
  gp_relay_enabled :: bool
  gp_listen_addrs :: "string list"
  gp_peers :: "(peer_id, string \<times> string) hmap"
  gp_cache :: content_cache
  gp_naming :: naming_manager
  gp_router :: adaptive_router
  gp_relay :: zk_node
  gp_client :: zk_client
  gp_builds :: "(circuit_id, pending_circuit_build) hmap"
  gp_fetches :: "(circuit_id, channel) hmap"
  gp_pending :: "(nat, gw_pending) hmap"
  gp_dht_queries :: "(string, channel) hmap"
  gp_name_queries :: "(string, channel) hmap"
  gp_next_id :: nat
  gp_effects :: "gw_effect list"
  gp_answers :: "(peer_id \<times> content_response) list"
  gp_replies :: "(channel \<times> gw_reply) list"
  gp_stuck :: "stuck option"

definition gateway_start ::
    "peer_id \<Rightarrow> bool \<Rightarrow> nat \<Rightarrow> bytes \<Rightarrow> bytes \<Rightarrow> content_cache \<Rightarrow> naming_manager \<Rightarrow> gateway_node" where
  "gateway_start peer enabled hops client_secret relay_secret cache naming =
     (let cfg = zk_config_default\<lparr>default_hops := hops\<rparr> in
      \<lparr>gp_peer = peer, gp_relay_enabled = enabled, gp_listen_addrs = [], gp_peers = [], gp_cache = cache,
       gp_naming = naming, gp_router = router_new, gp_relay = node_with_config relay_secret cfg,
       gp_client = client_with_config client_secret cfg, gp_builds = [], gp_fetches = [], gp_pending = [],
       gp_dht_queries = [], gp_name_queries = [], gp_next_id = 0, gp_effects = [], gp_answers = [],
       gp_replies = [], gp_stuck = None\<rparr>)"

definition gw_send_request :: "peer_id \<Rightarrow> content_request \<Rightarrow> gateway_node \<Rightarrow> nat \<times> gateway_node" where
  "gw_send_request peer req nd =
     (gp_next_id nd, nd\<lparr>gp_next_id := gp_next_id nd + 1,
        gp_effects := gp_effects nd @ [GwSendRequest (gp_next_id nd) peer req]\<rparr>)"

definition gw_send_tracked :: "peer_id \<Rightarrow> content_request \<Rightarrow> gw_pending \<Rightarrow> gateway_node \<Rightarrow> gateway_node" where
  "gw_send_tracked peer req p nd =
     (case gw_send_request peer req nd of
        (rid, nd1) \<Rightarrow> nd1\<lparr>gp_pending := hm_insert rid p (gp_pending nd1)\<rparr>)"

definition gw_reply_to :: "channel \<Rightarrow> gw_reply \<Rightarrow> gateway_node \<Rightarrow> gateway_node" where
  "gw_reply_to c r nd = nd\<lparr>gp_replies := gp_replies nd @ [(c, r)]\<rparr>"

definition gw_effect_of :: "gw_effect \<Rightarrow> gateway_node \<Rightarrow> gateway_node" where
  "gw_effect_of e nd = nd\<lparr>gp_effects := gp_effects nd @ [e]\<rparr>"

section \<open>Censorship reports\<close>

definition gw_record_failure ::
    "gw_call \<Rightarrow> peer_id \<Rightarrow> peer_id \<Rightarrow> failure_type \<Rightarrow> adaptive_router \<Rightarrow> stuck + adaptive_router" where
  "gw_record_failure ce me other ft st =
     (let E = gc_route ce; st1 = ensure_relay (gc_unix ce) other (ensure_relay (gc_unix ce) me st) in
      case router_failure E (link_route_id E me other) 0 ft st1 of
        Inl x \<Rightarrow> Inl x
      | Inr (_, st2) \<Rightarrow> Inr (block_if_confirmed E me other st2))"

text \<open>A handler that reports a failure goes on only if the router lets it.\<close>

definition gw_failed_then ::
    "gw_call \<Rightarrow> peer_id \<Rightarrow> failure_type \<Rightarrow> (gateway_node \<Rightarrow> gateway_node) \<Rightarrow> gateway_node \<Rightarrow> gateway_node" where
  "gw_failed_then ce peer ft k nd =
     (case gw_record_failure ce (gp_peer nd) peer ft (gp_router nd) of
        Inl x \<Rightarrow> nd\<lparr>gp_stuck := Some x\<rparr>
      | Inr r \<Rightarrow> k (nd\<lparr>gp_router := r\<rparr>))"

definition gw_succeeded :: "gw_call \<Rightarrow> peer_id \<Rightarrow> u64 \<Rightarrow> gateway_node \<Rightarrow> gateway_node" where
  "gw_succeeded ce peer n nd = nd\<lparr>gp_router := record_censorship_success (gc_route ce) (gp_peer nd) peer n (gp_router nd)\<rparr>"

fun str_contains :: "string \<Rightarrow> string \<Rightarrow> bool" where
  "str_contains [] sub \<longleftrightarrow> sub = []"
| "str_contains (c # cs) sub \<longleftrightarrow> starts_with (c # cs) sub \<or> str_contains cs sub"

definition dial_failure_type :: "string \<Rightarrow> failure_type" where
  "dial_failure_type err =
     (if str_contains err ''Timeout'' \<or> str_contains err ''timeout'' then Timeout
      else if str_contains err ''refused'' \<or> str_contains err ''Refused'' then ConnectionRefused
      else if str_contains err ''reset'' \<or> str_contains err ''Reset'' then ConnectionReset
      else NetworkError)"

definition request_failure_type :: "string \<Rightarrow> failure_type" where
  "request_failure_type err =
     (if str_contains err ''Timeout'' \<or> str_contains err ''timeout'' then Timeout
      else if str_contains err ''ConnectionClosed'' \<or> str_contains err ''reset'' then ConnectionReset
      else if str_contains err ''DialFailure'' \<or> str_contains err ''refused'' then ConnectionRefused
      else NetworkError)"

section \<open>Serving peers\<close>

text \<open>The exit answers the request in the clear, not in a cell.\<close>

definition gw_answer_blind_request ::
    "gw_env \<Rightarrow> gw_call \<Rightarrow> bytes \<Rightarrow> gateway_node \<Rightarrow> content_response \<times> gateway_node" where
  "gw_answer_blind_request E ce data nd =
     (case bc_blind_request_de (ge_p2p E) data of
        Inl e \<Rightarrow> (RespError (''Invalid exit payload: '' @ e), nd)
      | Inr req \<Rightarrow>
          (case cache_get (gc_now ce) (br_content_hash req) (gp_cache nd) of
             (r, cache) \<Rightarrow>
               (let resp = (case r of
                      Some (d, _) \<Rightarrow> \<lparr>bs_request_id = br_request_id req, bs_encrypted_content = d,
                        bs_content_hash = br_content_hash req, bs_success = True, bs_error = None\<rparr>
                    | None \<Rightarrow> \<lparr>bs_request_id = br_request_id req, bs_encrypted_content = [],
                        bs_content_hash = br_content_hash req, bs_success = False,
                        bs_error = Some ''Content not found''\<rparr>)
                in (RespRelayCell (or_default (bc_blind_response (ge_p2p E) resp)), nd\<lparr>gp_cache := cache\<rparr>))))"

definition handle_relay_cell_request ::
    "gw_env \<Rightarrow> gw_call \<Rightarrow> peer_id \<Rightarrow> bytes \<Rightarrow> gateway_node \<Rightarrow> content_response \<times> gateway_node" where
  "handle_relay_cell_request E ce from_peer cell_data nd =
     (let RE = pe_relay (ge_p2p E) in
      if \<not> gp_relay_enabled nd then (RespError ''ZK relay is not enabled on this gateway'', nd)
      else case cell_deserialize RE cell_data of
        Inl e \<Rightarrow> (RespError (''Invalid relay cell: '' @ relay_error_text e), nd)
      | Inr cell \<Rightarrow>
          (case process_cell RE (gc_now ce) (gc_unix ce) (gc_drawn ce) cell from_peer (gp_relay nd) of
             (r, relay) \<Rightarrow>
               (let nd1 = nd\<lparr>gp_relay := relay\<rparr> in
                case r of
                  Inr (Respond response_cell) \<Rightarrow> (RespRelayCell (cell_serialize RE response_cell), nd1)
                | Inr (Forward fwd_cell to_peer) \<Rightarrow>
                    (RespRelayCell [],
                     gw_send_tracked to_peer (ReqRelayCell (cell_serialize RE fwd_cell))
                       (PendRelayForward to_peer from_peer (cl_circuit_id fwd_cell)) nd1)
                | Inr (Exit data _) \<Rightarrow> gw_answer_blind_request E ce data nd1
                | Inr Drop \<Rightarrow> (RespRelayCell [], nd1)
                | Inl e \<Rightarrow> (RespError (''Relay error: '' @ relay_error_text e), nd1))))"

definition gw_content_answer ::
    "gw_env \<Rightarrow> gw_call \<Rightarrow> peer_id \<Rightarrow> content_request \<Rightarrow> gateway_node \<Rightarrow> content_response \<times> gateway_node" where
  "gw_content_answer E ce peer req nd =
     (case req of
        ReqRelayCell cell_data \<Rightarrow> handle_relay_cell_request E ce peer cell_data nd
      | ReqGetFragment h \<Rightarrow>
          (case cache_get (gc_now ce) h (gp_cache nd) of
             (Some (data, _), cache) \<Rightarrow> (RespFragment h data, nd\<lparr>gp_cache := cache\<rparr>)
           | (None, cache) \<Rightarrow> (RespNotFound h, nd\<lparr>gp_cache := cache\<rparr>))
      | ReqGetManifest h \<Rightarrow>
          (case cache_get (gc_now ce) h (gp_cache nd) of
             (Some (data, content_type), cache) \<Rightarrow>
               (RespManifest h [h] (word_of_nat (length data)) content_type, nd\<lparr>gp_cache := cache\<rparr>)
           | (None, cache) \<Rightarrow> (RespNotFound h, nd\<lparr>gp_cache := cache\<rparr>))
      | ReqListContent limit \<Rightarrow>
          (let all = cache_entries (gc_now ce) (gp_cache nd);
               chosen = (if limit > 0 then take (unat limit) all else all)
           in (RespContentList (map (\<lambda>(cid, n, mime). \<lparr>su_cid = cid, su_total_size = word_of_nat n,
                 su_fragment_count = 1, su_mime_type = mime\<rparr>) chosen), nd))
      | ReqPing \<Rightarrow> (RespPong, nd))"

definition gw_content_request ::
    "gw_env \<Rightarrow> gw_call \<Rightarrow> peer_id \<Rightarrow> content_request \<Rightarrow> gateway_node \<Rightarrow> gateway_node" where
  "gw_content_request E ce peer req nd =
     (case gw_content_answer E ce peer req nd of
        (response, nd1) \<Rightarrow> nd1\<lparr>gp_answers := gp_answers nd1 @ [(peer, response)]\<rparr>)"

section \<open>Answers to our requests\<close>

definition gw_resolve_pending :: "gw_pending \<Rightarrow> gw_fetch_error \<Rightarrow> gateway_node \<Rightarrow> gateway_node" where
  "gw_resolve_pending p e nd =
     (case p of
        PendFragment _ _ c \<Rightarrow> gw_reply_to c (GwBytes (Inl e)) nd
      | PendManifest _ c \<Rightarrow> gw_reply_to c (GwManifest (Inl e)) nd
      | PendRelayResponse _ _ \<Rightarrow> nd
      | PendRelayForward _ _ _ \<Rightarrow> nd)"

definition gw_end_build :: "circuit_id \<Rightarrow> gw_fetch_error + circuit_id \<Rightarrow> gateway_node \<Rightarrow> gateway_node" where
  "gw_end_build cid result nd =
     (case hm_get (gp_builds nd) cid of
        None \<Rightarrow> nd
      | Some b \<Rightarrow>
          (let nd1 = nd\<lparr>gp_builds := hm_remove cid (gp_builds nd)\<rparr> in
           case pb_reply b of None \<Rightarrow> nd1 | Some c \<Rightarrow> gw_reply_to c (GwCircuit result) nd1))"

definition gw_created :: "gw_env \<Rightarrow> gw_call \<Rightarrow> circuit_id \<Rightarrow> relay_cell \<Rightarrow> gateway_node \<Rightarrow> gateway_node" where
  "gw_created E ce cid cell nd =
     (let RE = pe_relay (ge_p2p E) in
      case hm_get (gp_builds nd) cid of
        None \<Rightarrow> nd
      | Some b \<Rightarrow>
          (let hop_index = pb_next_hop_index b in
           case created_deserialize RE (cl_payload cell) of
             Inl e \<Rightarrow> gw_end_build cid (Inl (GwRelayError ''Invalid CREATED handshake'')) nd
           | Inr handshake \<Rightarrow>
               (case process_created_response RE (gc_unix ce) (gc_padding ce) (gc_nonces ce) cid
                        handshake hop_index (gp_client nd) of
                  (Inr (Some next_cell), cl) \<Rightarrow>
                    (let nd1 = nd\<lparr>gp_client := cl,
                           gp_builds := hm_insert cid (b\<lparr>pb_next_hop_index := hop_index + 1\<rparr>) (gp_builds nd)\<rparr> in
                     case get_entry_node cid cl of
                       Some entry_peer \<Rightarrow>
                         snd (gw_send_request entry_peer (ReqRelayCell (cell_serialize RE next_cell)) nd1)
                     | None \<Rightarrow> nd1)
                | (Inr None, cl) \<Rightarrow> gw_end_build cid (Inr cid) (nd\<lparr>gp_client := cl\<rparr>)
                | (Inl e, cl) \<Rightarrow>
                    gw_end_build cid (Inl (GwRelayError (''Handshake failed at hop '' @ show_nat hop_index @ '': '' @
                      relay_error_text e))) (nd\<lparr>gp_client := cl\<rparr>))))"

definition gw_relay_data :: "gw_env \<Rightarrow> circuit_id \<Rightarrow> relay_cell \<Rightarrow> gateway_node \<Rightarrow> gateway_node" where
  "gw_relay_data E cid cell nd =
     (case hm_get (gp_fetches nd) cid of
        None \<Rightarrow> nd
      | Some c \<Rightarrow>
          (let nd1 = nd\<lparr>gp_fetches := hm_remove cid (gp_fetches nd)\<rparr> in
           case unwrap_response (zp (pe_relay (ge_p2p E))) cid cell (gp_client nd) of
             Inl e \<Rightarrow> gw_reply_to c (GwBytes (Inl (GwRelayError (''Unwrap failed: '' @ relay_error_text e)))) nd1
           | Inr plaintext \<Rightarrow>
               (case bc_blind_response_de (ge_p2p E) plaintext of
                  Inl e \<Rightarrow> gw_reply_to c (GwBytes (Inl (GwRelayError ''Invalid response from exit node''))) nd1
                | Inr resp \<Rightarrow>
                    if bs_success resp then gw_reply_to c (GwBytes (Inr (bs_encrypted_content resp))) nd1
                    else gw_reply_to c (GwBytes (Inl (GwPeerError
                      (case bs_error resp of None \<Rightarrow> ''Unknown error'' | Some m \<Rightarrow> m)))) nd1)))"

definition gw_relay_cell_response ::
    "gw_env \<Rightarrow> gw_call \<Rightarrow> circuit_id \<Rightarrow> bytes \<Rightarrow> gateway_node \<Rightarrow> gateway_node" where
  "gw_relay_cell_response E ce cid cell_data nd =
     (case cell_deserialize (pe_relay (ge_p2p E)) cell_data of
        Inl e \<Rightarrow> gw_end_build cid (Inl (GwRelayError ''Invalid relay cell response'')) nd
      | Inr cell \<Rightarrow>
          (case cl_cell_type cell of
             Created \<Rightarrow> gw_created E ce cid cell nd
           | cell_type.Relay \<Rightarrow> gw_relay_data E cid cell nd
           | _ \<Rightarrow> nd))"

definition gw_route_response ::
    "gw_env \<Rightarrow> gw_call \<Rightarrow> gw_pending \<Rightarrow> content_response \<Rightarrow> gateway_node \<Rightarrow> gateway_node" where
  "gw_route_response E ce p response nd =
     (case (p, response) of
        (PendRelayForward _ return_to_peer cid, RespRelayCell cell_data) \<Rightarrow>
          if cell_data = [] then nd
          else gw_send_tracked return_to_peer (ReqRelayCell cell_data)
                 (PendRelayForward return_to_peer return_to_peer cid) nd
      | (PendRelayResponse _ cid, RespRelayCell cell_data) \<Rightarrow> gw_relay_cell_response E ce cid cell_data nd
      | (PendFragment target h c, RespFragment _ data) \<Rightarrow>
          (let computed = fragment_hash_of (ge_p2p E) data in
           if computed = h
           then gw_reply_to c (GwBytes (Inr data)) (gw_succeeded ce target (word_of_nat (length data)) nd)
           else gw_failed_then ce target ContentTampering
                  (gw_reply_to c (GwBytes (Inl (GwPeerError
                     (''Hash mismatch: expected '' @ h @ '', got '' @ computed))))) nd)
      | (PendManifest target c, RespManifest h hs n mime) \<Rightarrow>
          gw_reply_to c (GwManifest (Inr \<lparr>mr_content_hash = h, mr_fragment_hashes = hs,
            mr_total_size = n, mr_mime_type = mime\<rparr>)) (gw_succeeded ce target n nd)
      | (_, RespNotFound _) \<Rightarrow> gw_resolve_pending p GwNotFound nd
      | (_, RespError m) \<Rightarrow>
          gw_failed_then ce (gw_target_peer p) PeerUnreachable (gw_resolve_pending p (GwPeerError m)) nd
      | _ \<Rightarrow> gw_resolve_pending p (GwPeerError ''Unexpected response type'') nd)"

definition gw_content_response ::
    "gw_env \<Rightarrow> gw_call \<Rightarrow> nat \<Rightarrow> content_response \<Rightarrow> gateway_node \<Rightarrow> gateway_node" where
  "gw_content_response E ce rid response nd =
     (case hm_get (gp_pending nd) rid of
        None \<Rightarrow> nd
      | Some p \<Rightarrow> gw_route_response E ce p response (nd\<lparr>gp_pending := hm_remove rid (gp_pending nd)\<rparr>))"

definition gw_outbound_failure :: "gw_call \<Rightarrow> peer_id \<Rightarrow> nat \<Rightarrow> string \<Rightarrow> gateway_node \<Rightarrow> gateway_node" where
  "gw_outbound_failure ce peer rid err =
     gw_failed_then ce peer (request_failure_type err) (\<lambda>nd.
       case hm_get (gp_pending nd) rid of
         None \<Rightarrow> nd
       | Some p \<Rightarrow> gw_resolve_pending p (GwConnectionFailed err) (nd\<lparr>gp_pending := hm_remove rid (gp_pending nd)\<rparr>))"

section \<open>The DHT and gossip\<close>

definition gw_answer_name :: "gw_env \<Rightarrow> string \<Rightarrow> bytes option \<Rightarrow> gateway_node \<Rightarrow> gateway_node" where
  "gw_answer_name E hash_suffix r nd =
     (case find (\<lambda>nm. name_to_hash (np (ge_naming E)) nm = hash_suffix) (map fst (gp_name_queries nd)) of
        None \<Rightarrow> nd
      | Some nm \<Rightarrow>
          (case hm_get (gp_name_queries nd) nm of
             None \<Rightarrow> nd
           | Some c \<Rightarrow> gw_reply_to c (GwName (Inr r)) (nd\<lparr>gp_name_queries := hm_remove nm (gp_name_queries nd)\<rparr>)))"

definition gw_answer_providers :: "string \<Rightarrow> gw_fetch_error + peer_id list \<Rightarrow> gateway_node \<Rightarrow> gateway_node" where
  "gw_answer_providers cid r nd =
     (case hm_get (gp_dht_queries nd) cid of
        None \<Rightarrow> nd
      | Some c \<Rightarrow> gw_reply_to c (GwProviders r) (nd\<lparr>gp_dht_queries := hm_remove cid (gp_dht_queries nd)\<rparr>))"

definition gw_kademlia_get_record :: "gw_env \<Rightarrow> gw_kad_result \<Rightarrow> gateway_node \<Rightarrow> gateway_node" where
  "gw_kademlia_get_record E result nd =
     (case result of
        GwFoundRecord key val \<Rightarrow>
          (case rust_strip_prefix ''/shadowmesh/names/'' key of
             Some hash_suffix \<Rightarrow> gw_answer_name E hash_suffix (Some val) nd
           | None \<Rightarrow>
               (case DhtManager.deserialize_record (pe_dht (ge_p2p E)) val of
                  Inl _ \<Rightarrow> nd
                | Inr r \<Rightarrow> gw_answer_providers (cr_cid r)
                    (Inr (List.map_filter (\<lambda>p. parse_peer (ge_p2p E) (pv_peer_id p)) (cr_providers r))) nd))
      | GwFinished \<Rightarrow> nd
      | GwGetFailed key \<Rightarrow>
          (case rust_strip_prefix ''/shadowmesh/names/'' key of
             Some hash_suffix \<Rightarrow> gw_answer_name E hash_suffix None nd
           | None \<Rightarrow>
               (case rust_strip_prefix ''/shadowmesh/content/'' key of
                  Some cid \<Rightarrow> gw_answer_providers cid (Inl GwNotFound) nd
                | None \<Rightarrow> nd)))"

text \<open>A record heard by gossip is cached when it is valid, signed and not a revocation.\<close>

definition gw_name_gossip :: "gw_env \<Rightarrow> bytes \<Rightarrow> gateway_node \<Rightarrow> gateway_node" where
  "gw_name_gossip E data nd =
     (let NE = ge_naming E in
      case NameStore.deserialize_record NE data of
        Inl _ \<Rightarrow> nd
      | Inr r \<Rightarrow>
          if validate_record (np NE) r = Inr () \<and> verify_record NE r = Inr True \<and> \<not> is_revoked r
          then nd\<lparr>gp_naming := snd (cache_record NE r (gp_naming nd))\<rparr> else nd)"

section \<open>Commands of the HTTP handlers\<close>

definition gw_path_blocked :: "gw_call \<Rightarrow> peer_id \<Rightarrow> gateway_node \<Rightarrow> bool" where
  "gw_path_blocked ce peer nd =
     (case get_path_health (re_round (gc_route ce)) (re_now (gc_route ce)) (gp_peer nd) peer (gp_router nd) of
        Some (_, Confirmed) \<Rightarrow> True
      | _ \<Rightarrow> False)"

definition gw_announce_to_dht ::
    "gw_env \<Rightarrow> gw_call \<Rightarrow> string \<Rightarrow> string list \<Rightarrow> u64 \<Rightarrow> string \<Rightarrow> gateway_node \<Rightarrow> gateway_node" where
  "gw_announce_to_dht E ce cid hashes n mime nd =
     (let r = \<lparr>cr_cid = cid,
            cr_providers = [\<lparr>pv_peer_id = peer_text (ge_p2p E) (gp_peer nd), pv_addresses = gc_listen_addrs ce,
              pv_reputation = 100, pv_online = True, pv_last_seen = gc_unix ce\<rparr>],
            cr_metadata = \<lparr>md_size = n, md_mime_type = mime,
              md_fragment_count = word_of_nat (length hashes), md_encrypted = False\<rparr>,
            DhtManager.content_record.cr_created_at = gc_unix ce, cr_ttl_seconds = 86400\<rparr> in
      case DhtManager.serialize_record (pe_dht (ge_p2p E)) r of
        Inl e \<Rightarrow> nd
      | Inr val \<Rightarrow> gw_effect_of (GwKadPutRecord (str_bytes (cid_to_key cid)) val) nd)"

definition gw_start_circuit :: "gw_env \<Rightarrow> gw_call \<Rightarrow> peer_id list \<Rightarrow> channel \<Rightarrow> gateway_node \<Rightarrow> gateway_node" where
  "gw_start_circuit E ce hops c nd =
     (let RE = pe_relay (ge_p2p E); fail = (\<lambda>m. gw_reply_to c (GwCircuit (Inl (GwRelayError m)))) in
      if \<not> gp_relay_enabled nd then fail ''ZK relay is not enabled'' nd
      else if length hops < 2 then fail ''Need at least 2 relay hops'' nd
      else case build_circuit (zp RE) (gc_now ce) (gc_drawn ce) (gc_extra ce) (gc_secrets ce) hops (gp_client nd) of
        (Inl e, cl) \<Rightarrow> fail (''Failed to build circuit: '' @ relay_error_text e) (nd\<lparr>gp_client := cl\<rparr>)
      | (Inr cid, cl) \<Rightarrow>
          (let nd1 = nd\<lparr>gp_client := cl\<rparr> in
           case get_create_cell RE (gc_unix ce) (gc_padding ce) cid cl of
             Inl e \<Rightarrow> fail (''Failed to create CREATE cell: '' @ relay_error_text e) nd1
           | Inr create_cell \<Rightarrow>
               gw_send_tracked (hd hops) (ReqRelayCell (cell_serialize RE create_cell))
                 (PendRelayResponse (hd hops) cid)
                 (nd1\<lparr>gp_builds := hm_insert cid \<lparr>pb_next_hop_index = 0, pb_total_hops = length hops,
                    pb_reply = Some c\<rparr> (gp_builds nd1)\<rparr>)))"

definition gw_fetch_via_circuit ::
    "gw_env \<Rightarrow> gw_call \<Rightarrow> circuit_id \<Rightarrow> string \<Rightarrow> channel \<Rightarrow> gateway_node \<Rightarrow> gateway_node" where
  "gw_fetch_via_circuit E ce cid h c nd =
     (let RE = pe_relay (ge_p2p E); fail = (\<lambda>m. gw_reply_to c (GwBytes (Inl (GwRelayError m))) nd) in
      if \<not> gp_relay_enabled nd then fail ''ZK relay is not enabled''
      else case bc_blind_request (ge_p2p E) (blind_request_new (gc_unix ce) (gc_drawn ce) h) of
        Inl e \<Rightarrow> fail (''Failed to serialize request: '' @ e)
      | Inr payload \<Rightarrow>
          (case wrap_request RE (gc_now ce) (gc_unix ce) (gc_nonces ce) cid payload (gp_client nd) of
             Inl e \<Rightarrow> fail (''Failed to wrap request: '' @ relay_error_text e)
           | Inr c1 \<Rightarrow>
               (case get_entry_node cid (gp_client nd) of
                  None \<Rightarrow> fail ''Circuit has no entry node''
                | Some entry_peer \<Rightarrow>
                    gw_send_tracked entry_peer (ReqRelayCell (cell_serialize RE c1))
                      (PendRelayResponse entry_peer cid)
                      (nd\<lparr>gp_fetches := hm_insert cid c (gp_fetches nd)\<rparr>))))"

definition gw_handle_command :: "gw_env \<Rightarrow> gw_call \<Rightarrow> gw_command \<Rightarrow> gateway_node \<Rightarrow> gateway_node" where
  "gw_handle_command E ce cmd nd =
     (case cmd of
        GwFetchFragment peer h c \<Rightarrow>
          if gw_path_blocked ce peer nd then gw_reply_to c (GwBytes (Inl (GwConnectionFailed path_blocked))) nd
          else gw_send_tracked peer (ReqGetFragment h) (PendFragment peer h c) nd
      | GwFetchManifest peer h c \<Rightarrow>
          if gw_path_blocked ce peer nd then gw_reply_to c (GwManifest (Inl (GwConnectionFailed path_blocked))) nd
          else gw_send_tracked peer (ReqGetManifest h) (PendManifest peer c) nd
      | GwAnnounceContent h hs n mime \<Rightarrow> gw_announce_to_dht E ce h hs n mime nd
      | GwFindProviders h c \<Rightarrow>
          (gw_effect_of (GwKadGetRecord (str_bytes (cid_to_key h))) nd)
            \<lparr>gp_dht_queries := hm_insert h c (gp_dht_queries nd)\<rparr>
      | GwPublishName data nm \<Rightarrow>
          gw_effect_of (GwGossipNames data)
            (gw_effect_of (GwKadPutRecord (name_to_key (np (ge_naming E)) nm) data) nd)
      | GwResolveName nm c \<Rightarrow>
          (gw_effect_of (GwKadGetRecord (name_to_key (np (ge_naming E)) nm)) nd)
            \<lparr>gp_name_queries := hm_insert nm c (gp_name_queries nd)\<rparr>
      | GwReportCensorship peer ft \<Rightarrow> gw_failed_then ce peer ft id nd
      | GwBuildCircuit hops c \<Rightarrow> gw_start_circuit E ce hops c nd
      | GwSendRelayCell cell target \<Rightarrow>
          if \<not> gp_relay_enabled nd then nd
          else gw_send_tracked target (ReqRelayCell (cell_serialize (pe_relay (ge_p2p E)) cell))
                 (PendRelayResponse target (cl_circuit_id cell)) nd
      | GwFetchViaCircuit cid h c \<Rightarrow> gw_fetch_via_circuit E ce cid h c nd)"

section \<open>The loop\<close>

text \<open>Unlike a node, the gateway keeps circuit builds and circuit fetches whose waiter has gone.\<close>

definition gw_cleanup :: "gw_call \<Rightarrow> gateway_node \<Rightarrow> gateway_node" where
  "gw_cleanup ce nd =
     (let nd1 = nd\<lparr>gp_pending := hm_retain (\<lambda>_ p. \<not> gw_is_closed (gc_closed ce) p) (gp_pending nd),
            gp_dht_queries := hm_retain (\<lambda>_ c. \<not> gc_closed ce c) (gp_dht_queries nd),
            gp_name_queries := hm_retain (\<lambda>_ c. \<not> gc_closed ce c) (gp_name_queries nd)\<rparr>
      in if gp_relay_enabled nd1 then
           nd1\<lparr>gp_client := snd (client_cleanup_expired (gc_now ce) (gp_client nd1)),
               gp_relay := snd (node_cleanup_expired (gc_now ce) (gp_relay nd1))\<rparr>
         else nd1)"

datatype gw_event =
    GwConnected peer_id string
  | GwDisconnected peer_id nat
  | GwListening string
  | GwDialFailed "peer_id option" string
  | GwRequest peer_id content_request
  | GwResponse nat content_response
  | GwRequestFailed peer_id nat string
  | GwKadResult gw_kad_result
  | GwGossip bytes
  | GwCommand gw_command
  | GwTick

definition gw_handle_event :: "gw_env \<Rightarrow> gw_call \<Rightarrow> gw_event \<Rightarrow> gateway_node \<Rightarrow> gateway_node" where
  "gw_handle_event E ce event nd =
     (case event of
        GwConnected peer addr \<Rightarrow>
          nd\<lparr>gp_peers := hm_insert peer (peer_text (ge_p2p E) peer, addr) (gp_peers nd),
             gp_effects := gp_effects nd @
               (if peer \<in> set (rendezvous_peers (ge_p2p E))
                then [GwRendezvousRegister peer, GwRendezvousDiscover peer] else [])\<rparr>
      | GwDisconnected peer num_established \<Rightarrow>
          if num_established = 0 then nd\<lparr>gp_peers := hm_remove peer (gp_peers nd)\<rparr> else nd
      | GwListening addr \<Rightarrow> nd\<lparr>gp_listen_addrs := gp_listen_addrs nd @ [addr]\<rparr>
      | GwDialFailed None err \<Rightarrow> nd
      | GwDialFailed (Some peer) err \<Rightarrow> gw_failed_then ce peer (dial_failure_type err) id nd
      | GwRequest peer req \<Rightarrow> gw_content_request E ce peer req nd
      | GwResponse rid response \<Rightarrow> gw_content_response E ce rid response nd
      | GwRequestFailed peer rid err \<Rightarrow> gw_outbound_failure ce peer rid err nd
      | GwKadResult result \<Rightarrow> gw_kademlia_get_record E result nd
      | GwGossip data \<Rightarrow> gw_name_gossip E data nd
      | GwCommand cmd \<Rightarrow> gw_handle_command E ce cmd nd
      | GwTick \<Rightarrow> gw_cleanup ce nd)"

definition gw_step :: "gw_env \<Rightarrow> gw_call \<times> gw_event \<Rightarrow> gateway_node \<Rightarrow> gateway_node" where
  "gw_step E e nd = (if gp_stuck nd \<noteq> None then nd else gw_handle_event E (fst e) (snd e) nd)"

end
