(* ===== verification/GatewayP2pSafety.thy ===== *)
theory GatewayP2pSafety
  imports GatewayP2p RoutingSafety NodeP2pSafety NameSafety CidPath
begin

text \<open>
  What the P2P loop of the gateway guarantees: it never hangs, its names stay sound, and fragments are
  verified; and where it fails: it never notices censorship, ignores revocations heard by gossip,
  cannot fetch an IPFS CID from another gateway, and answers the acknowledgements of nodes for ever.
\<close>

section \<open>What handlers leave alone\<close>

lemma gw_send_tracked_fields [simp]:
  "gp_replies (gw_send_tracked peer req p nd) = gp_replies nd"
  "gp_fetches (gw_send_tracked peer req p nd) = gp_fetches nd"
  "gp_naming (gw_send_tracked peer req p nd) = gp_naming nd"
  "gp_router (gw_send_tracked peer req p nd) = gp_router nd"
  "gp_stuck (gw_send_tracked peer req p nd) = gp_stuck nd"
  "gp_peer (gw_send_tracked peer req p nd) = gp_peer nd"
  "gp_effects (gw_send_tracked peer req p nd) = gp_effects nd @ [GwSendRequest (gp_next_id nd) peer req]"
  "gp_pending (gw_send_tracked peer req p nd) = hm_insert (gp_next_id nd) p (gp_pending nd)"
  by (simp_all add: gw_send_tracked_def gw_send_request_def)

lemma gw_send_request_fields [simp]:
  "gp_replies (snd (gw_send_request peer req nd)) = gp_replies nd"
  "gp_fetches (snd (gw_send_request peer req nd)) = gp_fetches nd"
  "gp_pending (snd (gw_send_request peer req nd)) = gp_pending nd"
  "gp_naming (snd (gw_send_request peer req nd)) = gp_naming nd"
  "gp_router (snd (gw_send_request peer req nd)) = gp_router nd"
  "gp_stuck (snd (gw_send_request peer req nd)) = gp_stuck nd"
  by (simp_all add: gw_send_request_def)

lemma gw_reply_fields [simp]:
  "gp_replies (gw_reply_to c r nd) = gp_replies nd @ [(c, r)]"
  "gp_fetches (gw_reply_to c r nd) = gp_fetches nd"
  "gp_pending (gw_reply_to c r nd) = gp_pending nd"
  "gp_naming (gw_reply_to c r nd) = gp_naming nd"
  "gp_router (gw_reply_to c r nd) = gp_router nd"
  "gp_stuck (gw_reply_to c r nd) = gp_stuck nd"
  by (simp_all add: gw_reply_to_def)

lemma gw_effect_fields [simp]:
  "gp_replies (gw_effect_of e nd) = gp_replies nd"
  "gp_fetches (gw_effect_of e nd) = gp_fetches nd"
  "gp_pending (gw_effect_of e nd) = gp_pending nd"
  "gp_naming (gw_effect_of e nd) = gp_naming nd"
  "gp_router (gw_effect_of e nd) = gp_router nd"
  "gp_stuck (gw_effect_of e nd) = gp_stuck nd"
  by (simp_all add: gw_effect_of_def)

lemma gw_succeeded_fields [simp]:
  "gp_replies (gw_succeeded ce peer n nd) = gp_replies nd"
  "gp_fetches (gw_succeeded ce peer n nd) = gp_fetches nd"
  "gp_pending (gw_succeeded ce peer n nd) = gp_pending nd"
  "gp_naming (gw_succeeded ce peer n nd) = gp_naming nd"
  "gp_stuck (gw_succeeded ce peer n nd) = gp_stuck nd"
  by (simp_all add: gw_succeeded_def)

section \<open>The loop goes on, and names stay sound\<close>

text \<open>The router of a gateway is as blind as that of a node: no path has a health, none is blocked.\<close>

lemma gw_record_failure_blind:
  assumes "blind st"
  shows "\<exists>st'. gw_record_failure ce me other ft st = Inr st' \<and> blind st'"
proof -
  define st1 where "st1 = ensure_relay (gc_unix ce) other (ensure_relay (gc_unix ce) me st)"
  have "blind st1"
    using assms by (simp add: blind_def st1_def ensure_relay_def register_relay_def)
  moreover from this have "router_failure E i 0 ft st1 = Inr (None, st1)" "block_if_confirmed E me other st1 = st1" for E i
    by (simp_all add: blind_def router_failure_def block_if_confirmed_def get_path_health_def)
  ultimately show ?thesis
    by (simp add: gw_record_failure_def st1_def Let_def)
qed

definition gw_sound :: "gw_env \<Rightarrow> gateway_node \<Rightarrow> bool" where
  "gw_sound E nd \<longleftrightarrow> gp_stuck nd = None \<and> blind (gp_router nd) \<and> naming_inv (ge_naming E) (gp_naming nd)"

lemma gw_sound_same:
  "gw_sound E nd \<Longrightarrow> gp_stuck nd' = gp_stuck nd \<Longrightarrow> gp_router nd' = gp_router nd \<Longrightarrow> gp_naming nd' = gp_naming nd \<Longrightarrow>
   gw_sound E nd'"
  by (simp add: gw_sound_def)

lemma gw_failed_thenE:
  assumes "gw_sound E nd"
  obtains r where "gw_failed_then ce peer ft k nd = k (nd\<lparr>gp_router := r\<rparr>)" "gw_sound E (nd\<lparr>gp_router := r\<rparr>)"
  using gw_record_failure_blind [of "gp_router nd" ce "gp_peer nd" peer ft] assms that
  by (auto simp: gw_failed_then_def gw_sound_def)

lemma gw_sound_succeeded: "gw_sound E nd \<Longrightarrow> gw_sound E (gw_succeeded ce peer n nd)"
  by (simp add: gw_sound_def gw_succeeded_def blind_def record_censorship_success_def router_success_def hm_modify_def)

lemma gw_sound_resolve: "gw_sound E nd \<Longrightarrow> gw_sound E (gw_resolve_pending p e nd)"
  by (auto simp: gw_resolve_pending_def split: gw_pending.splits intro: gw_sound_same [of E nd])

lemma gw_end_build_fields [simp]:
  "gp_stuck (gw_end_build cid r nd) = gp_stuck nd"
  "gp_router (gw_end_build cid r nd) = gp_router nd"
  "gp_naming (gw_end_build cid r nd) = gp_naming nd"
  "gp_pending (gw_end_build cid r nd) = gp_pending nd"
  "gp_fetches (gw_end_build cid r nd) = gp_fetches nd"
  by (auto simp: gw_end_build_def Let_def split: option.splits)

lemma gw_relay_response_fields [simp]:
  "gp_stuck (gw_relay_cell_response E ce cid data nd) = gp_stuck nd"
  "gp_router (gw_relay_cell_response E ce cid data nd) = gp_router nd"
  "gp_naming (gw_relay_cell_response E ce cid data nd) = gp_naming nd"
  "gp_pending (gw_relay_cell_response E ce cid data nd) = gp_pending nd"
  by (auto simp: gw_relay_cell_response_def gw_created_def gw_relay_data_def Let_def
      split: sum.splits option.splits prod.splits cell_type.splits)

lemma gw_sound_failed:
  assumes "gw_sound E nd" "\<And>nd. gw_sound E nd \<Longrightarrow> gw_sound E (k nd)"
  shows "gw_sound E (gw_failed_then ce peer ft k nd)"
  using gw_failed_thenE [OF assms(1)] assms(2) by metis

lemma gw_sound_route:
  assumes "gw_sound E nd"
  shows "gw_sound E (gw_route_response E ce p r nd)"
proof -
  have reply: "gw_sound E (gw_reply_to c x nd)" if "gw_sound E nd" for c x nd
    using that by (rule gw_sound_same) simp_all
  have sent: "gw_sound E (gw_send_tracked a b c nd)" "gw_sound E (gw_relay_cell_response E ce cid d nd)" for a b c cid d
    by (rule gw_sound_same [OF assms]; simp)+
  note rules = assms gw_sound_resolve gw_sound_succeeded gw_sound_failed reply sent
  show ?thesis
    unfolding gw_route_response_def Let_def
    by (cases p; cases r; simp only: prod.case gw_pending.case content_response.case split: if_split; intro conjI impI rules)
qed

lemma gw_relay_request_fields [simp]:
  "gp_stuck (snd (handle_relay_cell_request E ce peer data nd)) = gp_stuck nd"
  "gp_router (snd (handle_relay_cell_request E ce peer data nd)) = gp_router nd"
  "gp_naming (snd (handle_relay_cell_request E ce peer data nd)) = gp_naming nd"
  by (auto simp: handle_relay_cell_request_def gw_answer_blind_request_def Let_def
      split: sum.splits prod.splits relay_action.splits)

lemma gw_content_answer_fields [simp]:
  "gp_stuck (snd (gw_content_answer E ce peer req nd)) = gp_stuck nd"
  "gp_router (snd (gw_content_answer E ce peer req nd)) = gp_router nd"
  "gp_naming (snd (gw_content_answer E ce peer req nd)) = gp_naming nd"
  by (auto simp: gw_content_answer_def Let_def split: content_request.splits prod.splits option.splits)

lemma gw_content_request_fields [simp]:
  "gp_stuck (gw_content_request E ce peer req nd) = gp_stuck nd"
  "gp_router (gw_content_request E ce peer req nd) = gp_router nd"
  "gp_naming (gw_content_request E ce peer req nd) = gp_naming nd"
  by (simp_all add: gw_content_request_def split_beta)

lemma gw_sound_gossip: "gw_sound E nd \<Longrightarrow> gw_sound E (gw_name_gossip E data nd)"
  by (auto simp: gw_name_gossip_def gw_sound_def Let_def cache_record_inv split: sum.splits)

lemma gw_sound_command:
  assumes "gw_sound E nd"
  shows "gw_sound E (gw_handle_command E ce cmd nd)"
proof (cases cmd)
  case (GwReportCensorship peer ft)
  with assms show ?thesis by (auto simp: gw_handle_command_def intro: gw_sound_failed)
qed (use assms in \<open>auto simp: gw_handle_command_def gw_announce_to_dht_def gw_start_circuit_def gw_fetch_via_circuit_def Let_def
      split: sum.splits prod.splits option.splits intro!: gw_sound_same [of E nd]\<close>)

lemma gw_sound_event:
  assumes "gw_sound E nd"
  shows "gw_sound E (gw_handle_event E ce ev nd)"
proof (cases ev)
  case (GwDialFailed peer err)
  with assms show ?thesis
    by (cases peer) (auto simp: gw_handle_event_def intro: gw_sound_failed)
next
  case (GwResponse rid r)
  moreover have "gw_sound E (nd\<lparr>gp_pending := m\<rparr>)" for m
    using assms by (simp add: gw_sound_def)
  ultimately show ?thesis
    using assms by (auto simp: gw_handle_event_def gw_content_response_def gw_sound_route split: option.split)
next
  case (GwRequestFailed peer rid err)
  have "gw_sound E (case hm_get (gp_pending nd) rid of None \<Rightarrow> nd
      | Some p \<Rightarrow> gw_resolve_pending p (GwConnectionFailed err) (nd\<lparr>gp_pending := hm_remove rid (gp_pending nd)\<rparr>))"
    if "gw_sound E nd" for nd
  proof -
    have "gw_sound E (nd\<lparr>gp_pending := m\<rparr>)" for m
      using that by (simp add: gw_sound_def)
    with that show ?thesis by (auto simp: gw_sound_resolve split: option.split)
  qed
  with GwRequestFailed assms show ?thesis
    by (auto simp: gw_handle_event_def gw_outbound_failure_def intro!: gw_sound_failed)
next
  case (GwGossip data)
  with assms show ?thesis by (simp add: gw_handle_event_def gw_sound_gossip)
next
  case (GwCommand cmd)
  with assms show ?thesis by (simp add: gw_handle_event_def gw_sound_command)
qed (use assms in \<open>auto simp: gw_handle_event_def gw_kademlia_get_record_def gw_answer_name_def gw_answer_providers_def
      gw_cleanup_def Let_def split: gw_kad_result.splits sum.splits option.splits intro!: gw_sound_same [of E nd]\<close>)

interpretation gateway: call_machine "gw_step E" "gw_sound E" for E
  by unfold_locales (simp add: gw_step_def gw_sound_event)

text \<open>C25. The loop of the gateway is sound. Whatever events it meets, it never hangs, the names it knows stay
  valid, signed and bounded, and it refuses no fetch: its check for censored paths never holds, for
  whatever failures were reported.\<close>

theorem gateway_loop_sound:
  assumes "naming_inv (ge_naming E) naming"
  shows "let nd = fold (gw_step E) es (gateway_start peer enabled hops csec rsec cache naming) in
    gp_stuck nd = None \<and> naming_inv (ge_naming E) (gp_naming nd) \<and>
    gw_handle_command E ce (GwFetchFragment target h c) nd =
      gw_send_tracked target (ReqGetFragment h) (PendFragment target h c) nd"
proof -
  have "gw_sound E (fold (gw_step E) es (gateway_start peer enabled hops csec rsec cache naming))"
    by (rule gateway.run_inv)
      (use assms in \<open>simp add: gw_sound_def gateway_start_def blind_def router_new_def router_with_config_def Let_def\<close>)
  then show ?thesis
    by (simp add: gw_sound_def blind_def gw_handle_command_def gw_path_blocked_def get_path_health_def Let_def)
qed

section \<open>Revocations\<close>

text \<open>A revocation heard by gossip is dropped: the name goes on resolving to the revoked record.\<close>

lemma gossiped_revocation_ignored:
  assumes "NameStore.deserialize_record (ge_naming E) data = Inr r" "is_revoked r"
  shows "gw_name_gossip E data nd = nd"
  using assms by (simp add: gw_name_gossip_def Let_def)

section \<open>Content between gateways\<close>

lemma fragment_hash_length: "blake3_sized (zp (pe_relay E)) \<Longrightarrow> length (fragment_hash_of E data) = 64"
  by (simp add: fragment_hash_of_def hex_bytes_def blake3_sized_def length_concat o_def sum_list_triv)

lemma cid_no_hash:
  "blake3_sized (zp (pe_relay E)) \<Longrightarrow> validate_cid cid \<Longrightarrow> fragment_hash_of E data \<noteq> cid"
  using fragment_hash_length [of E data] by (auto simp: validate_cid_def split: if_splits)

text \<open>A gateway cannot fetch an IPFS CID from another gateway. Whatever gateway keeps content under an IPFS
  CID names the CID itself as the only fragment of its manifest, and whatever bytes then come back for
  that fragment, the asking gateway refuses them: no BLAKE3 hash is an IPFS CID.\<close>

theorem cid_never_fetched_between_gateways:
  assumes "blake3_sized (zp (pe_relay (ge_p2p E)))" "validate_cid cid"
    and "cache_get (gc_now cb) cid (gp_cache b) = (Some (data, mime), cache')"
    and "gw_sound E a" "hm_get (gp_pending a) rid = Some (PendFragment target cid c)"
  shows "fst (gw_content_answer Eb cb peer (ReqGetManifest cid) b) = RespManifest cid [cid] (word_of_nat (length data)) mime \<and>
    (\<exists>e. last (gp_replies (gw_step E (ca, GwResponse rid (RespFragment h data')) a)) = (c, GwBytes (Inl (GwPeerError e))))"
proof -
  have bad: "fragment_hash_of (ge_p2p E) data' \<noteq> cid"
    using assms(1,2) by (rule cid_no_hash)
  have "gw_sound E (a\<lparr>gp_pending := hm_remove rid (gp_pending a)\<rparr>)"
    using assms(4) by (simp add: gw_sound_def)
  then obtain r where "\<And>k. \<exists>r. gw_failed_then ca target ContentTampering k (a\<lparr>gp_pending := hm_remove rid (gp_pending a)\<rparr>) =
      k (a\<lparr>gp_pending := hm_remove rid (gp_pending a), gp_router := r\<rparr>)"
    by (metis gw_failed_thenE)
  then obtain r where "\<exists>m. gw_route_response E ca (PendFragment target cid c) (RespFragment h data')
      (a\<lparr>gp_pending := hm_remove rid (gp_pending a)\<rparr>) =
    gw_reply_to c (GwBytes (Inl (GwPeerError m))) (a\<lparr>gp_pending := hm_remove rid (gp_pending a), gp_router := r\<rparr>)"
    using bad by (simp add: gw_route_response_def Let_def) metis
  moreover have "gp_stuck a = None"
    using assms(4) by (simp add: gw_sound_def)
  ultimately show ?thesis
    using assms(3,5) by (auto simp: gw_content_answer_def gw_step_def gw_handle_event_def gw_content_response_def)
qed

section \<open>Acknowledgements\<close>

text \<open>The documented behaviour of the codec: a padding cell serializes, to some bytes, and parses back.\<close>

definition padding_codec :: "relay_env \<Rightarrow> bool" where
  "padding_codec RE \<longleftrightarrow> (\<forall>unix cid. \<exists>b. b \<noteq> [] \<and> bc_cell RE (cell_new unix cid Padding []) = Inr b \<and>
     bc_cell_de RE b = Inr (cell_new unix cid Padding []))"

lemma padding_codecE:
  assumes "padding_codec RE"
  shows "cell_serialize RE (cell_new unix cid Padding []) \<noteq> []"
    "cell_deserialize RE (cell_serialize RE (cell_new unix cid Padding [])) = Inr (cell_new unix cid Padding [])"
proof -
  obtain b where "b \<noteq> []" "bc_cell RE (cell_new unix cid Padding []) = Inr b" "bc_cell_de RE b = Inr (cell_new unix cid Padding [])"
    using assms unfolding padding_codec_def by blast
  then show "cell_serialize RE (cell_new unix cid Padding []) \<noteq> []"
    "cell_deserialize RE (cell_serialize RE (cell_new unix cid Padding [])) = Inr (cell_new unix cid Padding [])"
    by (simp_all add: cell_serialize_def cell_deserialize_def or_default_def or_invalid_def)
qed

text \<open>One exchange: the node answers the last request of the gateway, the gateway hears the answer.\<close>

definition ack_round ::
    "p2p_env \<Rightarrow> u64 \<Rightarrow> gw_env \<Rightarrow> call_env \<times> gw_call \<Rightarrow> p2p_node \<times> gateway_node \<Rightarrow> p2p_node \<times> gateway_node" where
  "ack_round Eb ttl E = (\<lambda>(cb, cg) (b, g).
     case last (gp_effects g) of
       GwSendRequest rid p req \<Rightarrow>
         if p \<noteq> pn_peer b then (b, g)
         else (let b' = p2p_step Eb ttl (cb, InboundRequest (gp_peer g) req) b
           in (b', gw_step E (cg, GwResponse rid (snd (last (pn_answers b')))) g))
     | _ \<Rightarrow> (b, g))"

definition acking :: "p2p_env \<Rightarrow> peer_id \<Rightarrow> gateway_node \<Rightarrow> bool" where
  "acking Eb p g \<longleftrightarrow> gp_stuck g = None \<and> (\<exists>es rid unix k cid.
     gp_effects g = es @ [GwSendRequest rid p (ReqRelayCell (cell_serialize (pe_relay Eb) (cell_new unix k Padding [])))] \<and>
     hm_get (gp_pending g) rid = Some (PendRelayForward p p cid))"

lemma node_acks_padding:
  fixes cb :: call_env and ttl :: u64 and peer :: peer_id and unix :: u64 and k :: circuit_id
  assumes "padding_codec (pe_relay Eb)"
  defines "b' \<equiv> \<lambda>b. p2p_step Eb ttl (cb, InboundRequest peer (ReqRelayCell (cell_serialize (pe_relay Eb) (cell_new unix k Padding [])))) b"
  shows "snd (last (pn_answers (b' b))) = ack_cell Eb cb k" "pn_peer (b' b) = pn_peer b"
  using padding_codecE(2) [OF assms(1), of unix k]
  by (simp_all add: b'_def p2p_step_def handle_content_request_def content_answer_def handle_inbound_relay_cell_def Let_def)
    (simp_all add: cell_new_def process_cell_def)

lemma gateway_returns_ack:
  fixes E :: gw_env and cg :: gw_call and cb :: call_env and k :: circuit_id
  assumes "padding_codec (pe_relay Eb)" "gp_stuck g = None" "hm_get (gp_pending g) rid = Some (PendRelayForward t p cid)"
  defines "g' \<equiv> gw_step E (cg, GwResponse rid (ack_cell Eb cb k)) g"
  shows "acking Eb p g' \<and> length (gp_effects g') = Suc (length (gp_effects g))"
proof -
  have "g' = gw_send_tracked p (ReqRelayCell (cell_serialize (pe_relay Eb) (cell_new (ce_unix cb) k Padding [])))
      (PendRelayForward p p cid) (g\<lparr>gp_pending := hm_remove rid (gp_pending g)\<rparr>)"
    using assms(2,3) padding_codecE(1) [OF assms(1)]
    by (simp add: g'_def gw_step_def gw_handle_event_def gw_content_response_def gw_route_response_def ack_cell_def)
  then show ?thesis
    using assms(2) by (auto simp: acking_def)
qed

lemma ack_round_step:
  assumes "padding_codec (pe_relay Eb)" "acking Eb (pn_peer b) g"
  shows "pn_peer (fst (ack_round Eb ttl E e (b, g))) = pn_peer b \<and> acking Eb (pn_peer b) (snd (ack_round Eb ttl E e (b, g))) \<and>
    length (gp_effects (snd (ack_round Eb ttl E e (b, g)))) = Suc (length (gp_effects g))"
proof -
  obtain cb cg where e: "e = (cb, cg)" by force
  obtain rid unix k cid where "last (gp_effects g) = GwSendRequest rid (pn_peer b)
      (ReqRelayCell (cell_serialize (pe_relay Eb) (cell_new unix k Padding [])))"
    "hm_get (gp_pending g) rid = Some (PendRelayForward (pn_peer b) (pn_peer b) cid)" "gp_stuck g = None"
    using assms(2) by (auto simp: acking_def)
  then show ?thesis
    using node_acks_padding [OF assms(1)] gateway_returns_ack [OF assms(1)]
    by (simp add: ack_round_def e Let_def)
qed

interpretation acks: simulation "ack_round Eb ttl E" "\<lambda>_. True" "\<lambda>(b, g). padding_codec (pe_relay Eb) \<and> acking Eb (pn_peer b) g"
    "\<lambda>(b, g). length (gp_effects g)" "\<lambda>_. Suc" for Eb ttl E
proof
  show "case ack_round Eb ttl E e s of (b, g) \<Rightarrow> padding_codec (pe_relay Eb) \<and> acking Eb (pn_peer b) g"
    if "case s of (b, g) \<Rightarrow> padding_codec (pe_relay Eb) \<and> acking Eb (pn_peer b) g" for e s
    using that ack_round_step [of Eb "fst s" "snd s" ttl E e] by (cases s) (simp add: split_beta)
  show "(case ack_round Eb ttl E e s of (b, g) \<Rightarrow> length (gp_effects g)) = Suc (case s of (b, g) \<Rightarrow> length (gp_effects g))"
    if "case s of (b, g) \<Rightarrow> padding_codec (pe_relay Eb) \<and> acking Eb (pn_peer b) g" for e s
    using that ack_round_step [of Eb "fst s" "snd s" ttl E e] by (cases s) (simp add: split_beta)
qed

lemma fold_Suc [simp]: "fold (\<lambda>_. Suc) es n = length es + n"
  by (induction es arbitrary: n) auto

text \<open>C26. A gateway and a node acknowledge each other for ever. A gateway that forwarded a cell of node \<open>b\<close> takes
  the acknowledgement of the next hop, a padding cell, for an answer and sends it to \<open>b\<close> as a request;
  \<open>b\<close> acknowledges that with a padding cell, which the gateway sends to \<open>b\<close> again. Every exchange ends
  with one more request on the way, however many there were.\<close>

theorem acks_for_ever:
  fixes E :: gw_env and Eb :: p2p_env and b :: p2p_node and g :: gateway_node and cg :: gw_call and cn :: call_env
    and rid :: nat and k :: circuit_id
  assumes "padding_codec (pe_relay Eb)" "gp_stuck g = None"
    and "hm_get (gp_pending g) rid = Some (PendRelayForward next_hop (pn_peer b) cid)"
  defines "g1 \<equiv> gw_step E (cg, GwResponse rid (ack_cell Eb cn k)) g"
  shows "length (gp_effects (snd (fold (ack_round Eb ttl E) es (b, g1)))) = length (gp_effects g) + 1 + length es"
proof -
  have "acking Eb (pn_peer b) g1" "length (gp_effects g1) = Suc (length (gp_effects g))"
    using gateway_returns_ack [OF assms(1-3)] by (simp_all add: g1_def)
  then show ?thesis
    using acks.sim_run [of es Eb "(b, g1)" ttl E] assms(1) by (simp add: list_all_iff split_beta)
qed

section \<open>Fetched bytes are verified\<close>

text \<open>
  Every pending fragment request was asked for by a command of \<open>S\<close>, and so was every answer with bytes;
  bytes that answer a request for a fragment hash to it.
\<close>

definition gw_asked :: "gw_env \<Rightarrow> (gw_call \<times> gw_event) set \<Rightarrow> gateway_node \<Rightarrow> bool" where
  "gw_asked E S nd \<longleftrightarrow>
     hm_wf (gp_pending nd) \<and> hm_wf (gp_fetches nd) \<and>
     (\<forall>rid peer h c. hm_get (gp_pending nd) rid = Some (PendFragment peer h c) \<longrightarrow>
        (\<exists>ce. (ce, GwCommand (GwFetchFragment peer h c)) \<in> S)) \<and>
     (\<forall>cid c. hm_get (gp_fetches nd) cid = Some c \<longrightarrow>
        (\<exists>ce h. (ce, GwCommand (GwFetchViaCircuit cid h c)) \<in> S)) \<and>
     (\<forall>c data. (c, GwBytes (Inr data)) \<in> set (gp_replies nd) \<longrightarrow>
        (\<exists>ce peer h. (ce, GwCommand (GwFetchFragment peer h c)) \<in> S \<and> fragment_hash_of (ge_p2p E) data = h) \<or>
        (\<exists>ce cid h. (ce, GwCommand (GwFetchViaCircuit cid h c)) \<in> S))"

lemma gw_asked_same:
  assumes "gw_asked E S nd" "gp_pending nd' = gp_pending nd" "gp_fetches nd' = gp_fetches nd"
    and "\<And>c data. (c, GwBytes (Inr data)) \<in> set (gp_replies nd') \<Longrightarrow> (c, GwBytes (Inr data)) \<in> set (gp_replies nd)"
  shows "gw_asked E S nd'"
  using assms unfolding gw_asked_def by auto

lemma gw_asked_fields [simp]:
  "gw_asked E S (nd\<lparr>gp_client := cl\<rparr>) = gw_asked E S nd"
  "gw_asked E S (nd\<lparr>gp_builds := b\<rparr>) = gw_asked E S nd"
  "gw_asked E S (nd\<lparr>gp_router := x\<rparr>) = gw_asked E S nd"
  "gw_asked E S (nd\<lparr>gp_stuck := y\<rparr>) = gw_asked E S nd"
  by (simp_all add: gw_asked_def)

lemma gw_asked_reply: "gw_asked E S nd \<Longrightarrow> (\<And>data. r \<noteq> GwBytes (Inr data)) \<Longrightarrow> gw_asked E S (gw_reply_to c r nd)"
  by (auto simp: gw_asked_def)

lemma gw_asked_removed: "gw_asked E S nd \<Longrightarrow> gw_asked E S (nd\<lparr>gp_pending := hm_remove rid (gp_pending nd)\<rparr>)"
  by (auto simp: gw_asked_def split: if_splits)

lemma gw_asked_sent:
  "gw_asked E S nd \<Longrightarrow> (\<And>peer h c. p \<noteq> PendFragment peer h c) \<Longrightarrow> gw_asked E S (gw_send_tracked a req p nd)"
  by (auto simp: gw_asked_def split: if_splits)

lemma gw_asked_resolve: "gw_asked E S nd \<Longrightarrow> gw_asked E S (gw_resolve_pending p e nd)"
  by (auto simp: gw_resolve_pending_def split: gw_pending.splits intro!: gw_asked_reply)

lemma gw_asked_failed:
  "gw_asked E S nd \<Longrightarrow> (\<And>nd. gw_asked E S nd \<Longrightarrow> gw_asked E S (k nd)) \<Longrightarrow> gw_asked E S (gw_failed_then ce peer ft k nd)"
  by (simp add: gw_failed_then_def split: sum.split)

lemma gw_asked_succeeded: "gw_asked E S nd \<Longrightarrow> gw_asked E S (gw_succeeded ce peer n nd)"
  by (simp add: gw_succeeded_def)

lemma gw_asked_end_build: "gw_asked E S nd \<Longrightarrow> gw_asked E S (gw_end_build cid r nd)"
  by (auto simp: gw_end_build_def Let_def split: option.splits intro!: gw_asked_reply)

lemma gw_asked_created: "gw_asked E S nd \<Longrightarrow> gw_asked E S (gw_created E' ce cid cell nd)"
  by (auto simp: gw_created_def Let_def gw_asked_end_build
      split: option.splits sum.splits prod.splits intro!: gw_asked_same [of E S nd])

lemma gw_asked_relay_data:
  assumes "gw_asked E S nd"
  shows "gw_asked E S (gw_relay_data E' cid cell nd)"
proof (cases "hm_get (gp_fetches nd) cid")
  case (Some c)
  let ?nd = "nd\<lparr>gp_fetches := hm_remove cid (gp_fetches nd)\<rparr>"
  obtain ce h where "(ce, GwCommand (GwFetchViaCircuit cid h c)) \<in> S"
    using assms Some unfolding gw_asked_def by blast
  then have "gw_asked E S (gw_reply_to c r ?nd)" for r
    using assms by (auto simp: gw_asked_def split: if_splits)
  with Some show ?thesis
    by (auto simp: gw_relay_data_def Let_def split: sum.splits)
qed (simp add: gw_relay_data_def assms)

lemma gw_asked_cell_response: "gw_asked E S nd \<Longrightarrow> gw_asked E S (gw_relay_cell_response E' ce cid data nd)"
  by (auto simp: gw_relay_cell_response_def gw_asked_end_build gw_asked_created gw_asked_relay_data
      split: sum.split cell_type.split)

lemma gw_asked_route:
  assumes "gw_asked E S nd"
    and "\<And>peer h c. p = PendFragment peer h c \<Longrightarrow> \<exists>ce. (ce, GwCommand (GwFetchFragment peer h c)) \<in> S"
  shows "gw_asked E S (gw_route_response E ce p r nd)"
proof (cases p)
  case (PendFragment peer h c)
  with assms(2) obtain ce' where "(ce', GwCommand (GwFetchFragment peer h c)) \<in> S" by blast
  then have "gw_asked E S (gw_reply_to c (GwBytes (Inr data)) nd)" if "fragment_hash_of (ge_p2p E) data = h" "gw_asked E S nd"
    for data nd
    using that by (auto simp: gw_asked_def)
  with PendFragment assms(1) show ?thesis
    by (auto simp: gw_route_response_def Let_def gw_asked_resolve gw_asked_succeeded gw_asked_reply
        split: content_response.splits intro!: gw_asked_failed)
next
  case (PendManifest peer c)
  with assms(1) show ?thesis
    by (auto simp: gw_route_response_def gw_asked_resolve gw_asked_succeeded split: content_response.splits
        intro!: gw_asked_failed gw_asked_reply)
next
  case (PendRelayResponse peer cid)
  with assms(1) show ?thesis
    by (auto simp: gw_route_response_def gw_asked_resolve gw_asked_cell_response split: content_response.splits
        intro!: gw_asked_failed)
next
  case (PendRelayForward t q cid)
  with assms(1) show ?thesis
    by (auto simp: gw_route_response_def gw_asked_resolve split: content_response.splits
        intro!: gw_asked_failed gw_asked_sent)
qed

lemma gw_asked_serving: "gw_asked E S nd \<Longrightarrow> gw_asked E S (gw_content_request E' ce peer req nd)"
proof -
  assume nd: "gw_asked E S nd"
  have "gw_asked E S (snd (handle_relay_cell_request E' ce peer data nd))" for data
  proof -
    have "gw_asked E S (snd (gw_answer_blind_request E' ce d (nd\<lparr>gp_relay := x\<rparr>)))" for d x
      using nd by (auto simp: gw_answer_blind_request_def Let_def gw_asked_def split: sum.split prod.split)
    moreover have "gw_asked E S (nd\<lparr>gp_relay := x\<rparr>)" for x
      using nd by (simp add: gw_asked_def)
    ultimately show ?thesis
      using nd by (auto simp: handle_relay_cell_request_def Let_def split: sum.split prod.split relay_action.split
          intro!: gw_asked_sent)
  qed
  moreover have "gw_asked E S (nd\<lparr>gp_cache := x\<rparr>)" for x
    using nd by (simp add: gw_asked_def)
  ultimately have "gw_asked E S (snd (gw_content_answer E' ce peer req nd))"
    using nd by (auto simp: gw_content_answer_def Let_def split: content_request.split prod.split option.split)
  moreover have "gw_asked E S (x\<lparr>gp_answers := y\<rparr>) = gw_asked E S x" for x y
    by (simp add: gw_asked_def)
  ultimately show ?thesis
    by (simp add: gw_content_request_def split_beta)
qed

lemma gw_asked_command:
  assumes "gw_asked E S nd" "(ce, GwCommand cmd) \<in> S"
  shows "gw_asked E S (gw_handle_command E ce cmd nd)"
proof (cases cmd)
  case (GwFetchFragment peer h c)
  with assms show ?thesis
    by (auto simp: gw_handle_command_def gw_asked_def split: if_splits)
next
  case (GwReportCensorship peer ft)
  with assms show ?thesis by (simp add: gw_handle_command_def gw_asked_failed)
next
  case (GwBuildCircuit hops c)
  with assms show ?thesis
    by (auto simp: gw_handle_command_def gw_start_circuit_def Let_def split: sum.split prod.split
        intro!: gw_asked_sent gw_asked_reply)
next
  case (GwFetchViaCircuit cid h c)
  with assms show ?thesis
    by (auto simp: gw_handle_command_def gw_fetch_via_circuit_def gw_asked_def Let_def
        split: sum.splits option.splits if_splits)
qed (use assms in \<open>auto simp: gw_handle_command_def gw_announce_to_dht_def gw_asked_def Let_def
      split: sum.splits if_splits\<close>)

lemma gw_asked_event:
  assumes "(ce, ev) \<in> S" "gw_asked E S nd"
  shows "gw_asked E S (gw_handle_event E ce ev nd)"
proof (cases ev)
  case (GwDialFailed peer err)
  with assms(2) show ?thesis by (cases peer) (simp_all add: gw_handle_event_def gw_asked_failed)
next
  case (GwRequest peer req)
  with assms(2) show ?thesis by (simp add: gw_handle_event_def gw_asked_serving)
next
  case (GwResponse rid r)
  with assms(2) show ?thesis
    by (auto simp: gw_handle_event_def gw_content_response_def gw_asked_removed gw_asked_def [of E S nd]
        split: option.splits intro!: gw_asked_route)
next
  case (GwRequestFailed peer rid err)
  with assms(2) show ?thesis
    by (auto simp: gw_handle_event_def gw_outbound_failure_def gw_asked_removed gw_asked_resolve
        split: option.split intro!: gw_asked_failed)
next
  case (GwCommand cmd)
  with assms show ?thesis by (simp add: gw_handle_event_def gw_asked_command)
next
  case GwTick
  with assms(2) show ?thesis
    by (auto simp: gw_handle_event_def gw_cleanup_def gw_asked_def Let_def dest: hm_get_retain_Some)
qed (use assms(2) in \<open>auto simp: gw_handle_event_def gw_kademlia_get_record_def gw_answer_name_def gw_answer_providers_def
      gw_name_gossip_def Let_def split: gw_kad_result.splits sum.splits option.splits intro!: gw_asked_same [of E S nd]\<close>)

interpretation gateway_fetches: guarded_machine "gw_step E" "\<lambda>e. e \<in> S" "gw_asked E S" for E S
  by unfold_locales (simp add: gw_step_def gw_asked_event)

text \<open>The gateway verifies every fragment. Whatever events it meets, the bytes it hands to a waiter that asked
  a peer for a fragment hash, with BLAKE3, to the hash asked for, and no waiter gets bytes it did not ask for.\<close>

theorem gateway_fragments_verified:
  assumes "(c, GwBytes (Inr data)) \<in> set (gp_replies (fold (gw_step E) es
      (gateway_start peer enabled hops csec rsec cache naming)))"
  shows "(\<exists>ce target h. (ce, GwCommand (GwFetchFragment target h c)) \<in> set es \<and> fragment_hash_of (ge_p2p E) data = h) \<or>
    (\<exists>ce cid h. (ce, GwCommand (GwFetchViaCircuit cid h c)) \<in> set es)"
proof -
  have "gw_asked E (set es) (gateway_start peer enabled hops csec rsec cache naming)"
    by (simp add: gw_asked_def gateway_start_def Let_def)
  then have "gw_asked E (set es) (fold (gw_step E) es (gateway_start peer enabled hops csec rsec cache naming))"
    by (rule gateway_fetches.guarded_run [rotated]) (simp add: list_all_iff)
  with assms show ?thesis
    unfolding gw_asked_def by blast
qed

section \<open>Witnesses\<close>

definition demo_gateway_env :: gw_env where
  "demo_gateway_env = \<lparr>ge_p2p = demo_p2p, ge_naming = demo_naming\<rparr>"

definition demo_gateway_call :: gw_call where
  "demo_gateway_call = \<lparr>gc_now = 5, gc_unix = 1, gc_drawn = [1], gc_extra = [2], gc_padding = [3], gc_nonces = \<lambda>_. [4],
     gc_secrets = \<lambda>i. [of_nat i], gc_closed = \<lambda>_. False, gc_listen_addrs = [], gc_route = demo_route_env\<rparr>"

definition demo_gateway :: gateway_node where
  "demo_gateway = gateway_start [9] True 2 [7] [8] cache_new manager_new"

theorem gateway_loop_sound_witness:
  "let nd = fold (gw_step demo_gateway_env) [(demo_gateway_call, GwDialFailed (Some [6]) ''reset by peer'')] demo_gateway in
    gp_stuck nd = None \<and> naming_inv demo_naming (gp_naming nd) \<and>
    gw_handle_command demo_gateway_env demo_gateway_call (GwFetchFragment [6] ''h'' 4) nd =
      gw_send_tracked [6] (ReqGetFragment ''h'') (PendFragment [6] ''h'' 4) nd"
  using gateway_loop_sound [of demo_gateway_env manager_new
      "[(demo_gateway_call, GwDialFailed (Some [6]) ''reset by peer'')]" "[9]" True 2 "[7]" "[8]" cache_new demo_gateway_call
      "[6]" "''h''" 4]
  by (simp add: demo_gateway_def naming_inv_new Let_def) (simp add: demo_gateway_env_def)

definition demo_cid :: string where
  "demo_cid = ''Qm'' @ replicate 44 CHR ''a''"

lemma demo_cid_valid: "validate_cid demo_cid"
  by (simp add: validate_cid_def demo_cid_def starts_with_def all_base58_def list_all_iff is_base58_def BASE58_CHARS_def)

theorem cid_never_fetched_between_gateways_witness:
  "let b = demo_gateway\<lparr>gp_cache := cache_set 5 demo_cid [1, 2] ''text/html'' cache_new\<rparr>;
       a = demo_gateway\<lparr>gp_pending := [(0, PendFragment [9] demo_cid 3)]\<rparr>
   in fst (gw_content_answer demo_gateway_env demo_gateway_call [6] (ReqGetManifest demo_cid) b) =
        RespManifest demo_cid [demo_cid] (word_of_nat (length [1 :: 8 word, 2])) ''text/html'' \<and>
      (\<exists>e. last (gp_replies (gw_step demo_gateway_env (demo_gateway_call, GwResponse 0 (RespFragment demo_cid [1, 2])) a)) =
        (3, GwBytes (Inl (GwPeerError e))))"
  unfolding Let_def
proof (rule cid_never_fetched_between_gateways)
  show "blake3_sized (zp (pe_relay (ge_p2p demo_gateway_env)))"
    by (auto simp: demo_gateway_env_def demo_p2p_def demo_relay_def demo_relay_prims_def demo_prims_def blake3_sized_def pad_to_def)
  show "validate_cid demo_cid" by (rule demo_cid_valid)
  show "gw_sound demo_gateway_env (demo_gateway\<lparr>gp_pending := [(0, PendFragment [9] demo_cid 3)]\<rparr>)"
    by (simp add: gw_sound_def demo_gateway_def gateway_start_def blind_def router_new_def router_with_config_def Let_def
        naming_inv_new)
qed (simp_all add: cache_set_def cache_set_with_ttl_def cache_new_def cache_with_config_def cache_get_def
      cached_is_expired_def demo_gateway_call_def elapsed_def hm_insert_def hm_get_def)

definition demo_padding_p2p :: p2p_env where
  "demo_padding_p2p = demo_p2p\<lparr>pe_relay := demo_relay\<lparr>bc_cell := \<lambda>c. Inr (1 # u64_enc (cl_timestamp c) @ cl_circuit_id c),
     bc_cell_de := \<lambda>b. Inr (cell_new (u64_dec (take 8 (tl b))) (drop 9 b) Padding [])\<rparr>\<rparr>"

lemma demo_padding_codec: "padding_codec (pe_relay demo_padding_p2p)"
  by (simp add: padding_codec_def demo_padding_p2p_def cell_new_def)

theorem acks_for_ever_witness:
  "length (gp_effects (snd (fold (ack_round demo_padding_p2p 60 demo_gateway_env)
      [(demo_call, demo_gateway_call), (demo_call, demo_gateway_call)]
      (p2p_start [6] [7] (demo_store True),
       gw_step demo_gateway_env (demo_gateway_call, GwResponse 0 (ack_cell demo_padding_p2p demo_call [1]))
         (demo_gateway\<lparr>gp_pending := [(0, PendRelayForward [5] [6] [1])]\<rparr>))))) =
    length (gp_effects demo_gateway) + 1 + length [(demo_call, demo_gateway_call), (demo_call, demo_gateway_call)]"
  using acks_for_ever [OF demo_padding_codec, of "demo_gateway\<lparr>gp_pending := [(0, PendRelayForward [5] [6] [1])]\<rparr>" 0 "[5]"
      "p2p_start [6] [7] (demo_store True)" "[1]" 60 demo_gateway_env
      "[(demo_call, demo_gateway_call), (demo_call, demo_gateway_call)]" demo_gateway_call demo_call "[1]"]
  by (simp add: demo_gateway_def gateway_start_def p2p_start_def Let_def hm_get_def)

theorem gateway_fragments_verified_witness:
  "let h = fragment_hash_of demo_p2p [1, 2];
       es = [(demo_gateway_call, GwCommand (GwFetchFragment [8] h 5)),
             (demo_gateway_call, GwResponse 0 (RespFragment h [1, 2]))]
   in (5, GwBytes (Inr [1, 2])) \<in> set (gp_replies (fold (gw_step demo_gateway_env) es demo_gateway)) \<and>
     (\<exists>ce target k. (ce, GwCommand (GwFetchFragment target k 5)) \<in> set es \<and> fragment_hash_of demo_p2p [1, 2] = k)"
proof -
  let ?h = "fragment_hash_of demo_p2p [1, 2]"
  let ?es = "[(demo_gateway_call, GwCommand (GwFetchFragment [8] ?h 5)),
    (demo_gateway_call, GwResponse 0 (RespFragment ?h [1, 2]))]"
  have "gw_handle_command demo_gateway_env demo_gateway_call (GwFetchFragment [8] ?h 5) demo_gateway =
      gw_send_tracked [8] (ReqGetFragment ?h) (PendFragment [8] ?h 5) demo_gateway"
    by (simp add: gw_handle_command_def gw_path_blocked_def get_path_health_def demo_gateway_def gateway_start_def
        router_new_def router_with_config_def Let_def hm_get_def)
  then have "(5, GwBytes (Inr [1, 2])) \<in> set (gp_replies (fold (gw_step demo_gateway_env) ?es demo_gateway))"
    by (simp add: gw_step_def gw_handle_event_def gw_content_response_def gw_route_response_def Let_def demo_gateway_env_def)
      (simp add: demo_gateway_def gateway_start_def Let_def)
  with gateway_fragments_verified [of 5 "[1, 2]" demo_gateway_env ?es "[9]" True 2 "[7]" "[8]" cache_new manager_new]
  show ?thesis
    by (auto simp: Let_def demo_gateway_def demo_gateway_env_def)
qed

end
