(* ===== verification/GatewayResolver.thy ===== *)
theory GatewayResolver
  imports GatewayP2pSafety
begin

text \<open>
  How the HTTP handlers of the gateway find content in the P2P network, \<open>gateway/src/p2p_resolver.rs\<close>:
  providers from the DHT, the manifest of one of them, its fragments, with a detour over a circuit when
  the ZK relay is on. The resolver sends commands to the event loop (\<open>GatewayP2p\<close>) and waits for the
  replies, which are an argument: the reply to the \<open>n\<close>-th command, or \<open>None\<close> when it does not come before
  the timeout of the whole resolution.
\<close>

section \<open>Resolution\<close>

record resolved_content =
  rc_data :: bytes
  rc_mime_type :: string

text \<open>The settings of \<open>P2pState\<close> that the resolver reads.\<close>

record p2p_settings =
  ps_zk_relay_enabled :: bool
  ps_zk_relay_hops :: nat

definition p2p_state_new :: p2p_settings where
  "p2p_state_new = \<lparr>ps_zk_relay_enabled = False, ps_zk_relay_hops = 3\<rparr>"

definition with_p2p_config :: "bool \<Rightarrow> nat \<Rightarrow> p2p_settings" where
  "with_p2p_config enable_zk_relay zk_relay_hops =
     \<lparr>ps_zk_relay_enabled = enable_zk_relay, ps_zk_relay_hops = max zk_relay_hops 2\<rparr>"

record loop_replies =
  lp_peers :: "nat \<Rightarrow> peer_id list"
  lp_providers :: "nat \<Rightarrow> string \<Rightarrow> (gw_fetch_error + peer_id list) option"
  lp_manifest :: "nat \<Rightarrow> peer_id \<Rightarrow> string \<Rightarrow> (gw_fetch_error + manifest_result) option"
  lp_fragment :: "nat \<Rightarrow> peer_id \<Rightarrow> string \<Rightarrow> (gw_fetch_error + bytes) option"
  lp_circuit :: "nat \<Rightarrow> peer_id list \<Rightarrow> (gw_fetch_error + circuit_id) option"

type_synonym 'a resolution = "((gw_fetch_error + 'a) \<times> nat) option"

definition asked_then ::
    "(gw_fetch_error + 'a) option \<Rightarrow> nat \<Rightarrow> ('a \<Rightarrow> nat \<Rightarrow> 'b resolution) \<Rightarrow> 'b resolution" where
  "asked_then answer n k =
     (case answer of None \<Rightarrow> None | Some (Inl e) \<Rightarrow> Some (Inl e, n + 1) | Some (Inr x) \<Rightarrow> k x (n + 1))"

fun gather_fragments :: "loop_replies \<Rightarrow> peer_id \<Rightarrow> string list \<Rightarrow> bytes \<Rightarrow> nat \<Rightarrow> bytes resolution" where
  "gather_fragments L peer [] assembled n = Some (Inr assembled, n)"
| "gather_fragments L peer (h # hs) assembled n =
     asked_then (lp_fragment L n peer h) n (\<lambda>data. gather_fragments L peer hs (assembled @ data))"

definition fetch_from_peer :: "loop_replies \<Rightarrow> peer_id \<Rightarrow> string \<Rightarrow> nat \<Rightarrow> resolved_content resolution" where
  "fetch_from_peer L peer cid n =
     asked_then (lp_manifest L n peer cid) n (\<lambda>m k.
       case gather_fragments L peer (mr_fragment_hashes m) [] k of
         None \<Rightarrow> None
       | Some (Inl e, j) \<Rightarrow> Some (Inl e, j)
       | Some (Inr data, j) \<Rightarrow> Some (Inr \<lparr>rc_data = data, rc_mime_type = mr_mime_type m\<rparr>, j))"

fun try_providers ::
    "loop_replies \<Rightarrow> string \<Rightarrow> gw_fetch_error \<Rightarrow> peer_id list \<Rightarrow> nat \<Rightarrow> resolved_content resolution" where
  "try_providers L cid last_error [] n = Some (Inl last_error, n)"
| "try_providers L cid last_error (p # ps) n =
     (case fetch_from_peer L p cid n of
        None \<Rightarrow> None
      | Some (Inr content, k) \<Rightarrow> Some (Inr content, k)
      | Some (Inl e, k) \<Rightarrow> try_providers L cid e ps k)"

text \<open>The circuit is built, and then not used: the fragments are asked for directly.\<close>

definition resolve_via_circuit ::
    "loop_replies \<Rightarrow> p2p_settings \<Rightarrow> string \<Rightarrow> peer_id list \<Rightarrow> nat \<Rightarrow> resolved_content resolution" where
  "resolve_via_circuit L st cid providers n =
     (let available = lp_peers L n; required_hops = ps_zk_relay_hops st in
      if length available < required_hops then
        Some (Inl (GwConnectionFailed (''Need '' @ show_nat required_hops @ '' peers for circuit but only '' @
          show_nat (length available) @ '' available'')), n)
      else asked_then (lp_circuit L n (take required_hops available)) n (\<lambda>_ k.
        case try_providers L cid GwNotFound providers k of
          None \<Rightarrow> None
        | Some (Inr content, j) \<Rightarrow> Some (Inr content, j)
        | Some (Inl _, j) \<Rightarrow> Some (Inl GwNotFound, j)))"

definition resolve_content_inner ::
    "loop_replies \<Rightarrow> p2p_settings \<Rightarrow> string \<Rightarrow> nat \<Rightarrow> resolved_content resolution" where
  "resolve_content_inner L st cid n =
     asked_then (lp_providers L n cid) n (\<lambda>providers k.
       if providers = [] then Some (Inl GwNotFound, k)
       else if ps_zk_relay_enabled st \<and> length (lp_peers L k) \<ge> ps_zk_relay_hops st then
         (case resolve_via_circuit L st cid providers k of
            None \<Rightarrow> None
          | Some (Inr content, j) \<Rightarrow> Some (Inr content, j)
          | Some (Inl _, j) \<Rightarrow> try_providers L cid GwNotFound providers j)
       else try_providers L cid GwNotFound providers k)"

definition resolve_content :: "loop_replies \<Rightarrow> p2p_settings \<Rightarrow> string \<Rightarrow> gw_fetch_error + resolved_content" where
  "resolve_content L st cid =
     (case resolve_content_inner L st cid 0 of None \<Rightarrow> Inl GwTimeout | Some (result, _) \<Rightarrow> result)"

section \<open>What is resolved\<close>

text \<open>The law the event loop keeps (\<open>gateway_fragments_verified\<close>): a fragment hashes to what was asked for.\<close>

definition replies_verified :: "gw_env \<Rightarrow> loop_replies \<Rightarrow> bool" where
  "replies_verified E L \<longleftrightarrow> (\<forall>n p h data. lp_fragment L n p h = Some (Inr data) \<longrightarrow> fragment_hash_of (ge_p2p E) data = h)"

lemma asked_then_Inr:
  "asked_then answer n k = Some (Inr y, j) \<longleftrightarrow> (\<exists>x. answer = Some (Inr x) \<and> k x (n + 1) = Some (Inr y, j))"
  by (auto simp: asked_then_def split: option.split sum.split)

lemma gather_sound:
  assumes "replies_verified E L" "gather_fragments L peer hs acc n = Some (Inr data, k)"
  shows "\<exists>ds. data = acc @ concat ds \<and> map (fragment_hash_of (ge_p2p E)) ds = hs"
  using assms(2)
proof (induction hs arbitrary: acc n)
  case Nil
  then show ?case by simp
next
  case (Cons h hs)
  then obtain d where d: "lp_fragment L n peer h = Some (Inr d)" "gather_fragments L peer hs (acc @ d) (n + 1) = Some (Inr data, k)"
    by (auto simp: asked_then_Inr)
  obtain ds where "data = (acc @ d) @ concat ds" "map (fragment_hash_of (ge_p2p E)) ds = hs"
    using Cons.IH [OF d(2)] by blast
  with d(1) assms(1) show ?case
    by (intro exI [of _ "d # ds"]) (auto simp: replies_verified_def)
qed

text \<open>Content that matches the manifest of a provider.\<close>

definition from_manifest :: "gw_env \<Rightarrow> loop_replies \<Rightarrow> string \<Rightarrow> peer_id set \<Rightarrow> resolved_content \<Rightarrow> bool" where
  "from_manifest E L cid ps c \<longleftrightarrow> (\<exists>p \<in> ps. \<exists>n m ds. lp_manifest L n p cid = Some (Inr m) \<and>
     map (fragment_hash_of (ge_p2p E)) ds = mr_fragment_hashes m \<and> rc_data c = concat ds \<and> rc_mime_type c = mr_mime_type m)"

lemma fetch_sound:
  assumes "replies_verified E L" "fetch_from_peer L p cid n = Some (Inr c, k)"
  shows "from_manifest E L cid {p} c"
proof -
  obtain m where m: "lp_manifest L n p cid = Some (Inr m)"
      "(case gather_fragments L p (mr_fragment_hashes m) [] (n + 1) of
         None \<Rightarrow> None
       | Some (Inl e, j) \<Rightarrow> Some (Inl e, j)
       | Some (Inr data, j) \<Rightarrow> Some (Inr \<lparr>rc_data = data, rc_mime_type = mr_mime_type m\<rparr>, j)) = Some (Inr c, k)"
    using assms(2) by (auto simp: fetch_from_peer_def asked_then_Inr)
  then obtain data j where "gather_fragments L p (mr_fragment_hashes m) [] (n + 1) = Some (Inr data, j)"
      "c = \<lparr>rc_data = data, rc_mime_type = mr_mime_type m\<rparr>"
    by (auto split: option.splits sum.splits)
  with m(1) gather_sound [OF assms(1)] show ?thesis
    by (fastforce simp: from_manifest_def)
qed

lemma try_sound:
  "replies_verified E L \<Longrightarrow> try_providers L cid e ps n = Some (Inr c, k) \<Longrightarrow> from_manifest E L cid (set ps) c"
proof (induction ps arbitrary: e n)
  case (Cons p ps)
  show ?case
  proof (cases "fetch_from_peer L p cid n")
    case (Some a)
    obtain r j where a: "a = (r, j)" by force
    show ?thesis
    proof (cases r)
      case (Inl e')
      with Some a Cons show ?thesis by (fastforce simp: from_manifest_def)
    next
      case (Inr c')
      with Some a Cons.prems fetch_sound [of E L p cid n c' j] show ?thesis by (auto simp: from_manifest_def)
    qed
  qed (use Cons.prems in simp)
qed simp

lemma circuit_sound:
  "replies_verified E L \<Longrightarrow> resolve_via_circuit L st cid ps n = Some (Inr c, k) \<Longrightarrow> from_manifest E L cid (set ps) c"
  by (auto simp: resolve_via_circuit_def Let_def asked_then_Inr split: if_splits option.splits sum.splits dest: try_sound)

text \<open>What the resolver returns is what a provider announced: the concatenation of fragments that hash, in order,
  to the fragment hashes of the manifest a provider of the CID answered with, and that manifest's type.\<close>

theorem resolution_matches_manifest:
  assumes "replies_verified E L" "resolve_content L st cid = Inr c"
  shows "\<exists>ps. lp_providers L 0 cid = Some (Inr ps) \<and> from_manifest E L cid (set ps) c"
proof -
  obtain k where "resolve_content_inner L st cid 0 = Some (Inr c, k)"
    using assms(2) by (auto simp: resolve_content_def split: option.splits)
  then show ?thesis
    using try_sound [OF assms(1)] circuit_sound [OF assms(1)]
    by (fastforce simp: resolve_content_inner_def asked_then_Inr split: if_splits option.splits sum.splits)
qed

text \<open>The CID does not bind the content. The manifest is the provider's word and the assembled bytes are never
  compared with the CID: whatever providers are listed and whatever all the others answer, the provider
  listed first can make the gateway resolve any CID to any bytes of any type, with every fragment
  verified.\<close>

theorem first_provider_decides:
  fixes data :: bytes and mime :: string
  assumes "replies_verified E L" "lp_providers L 0 cid = Some (Inr (p # ps))" "\<not> ps_zk_relay_enabled st"
  shows "\<exists>L'. replies_verified E L' \<and> lp_providers L' = lp_providers L \<and>
    {(n, q, h). lp_fragment L' n q h \<noteq> lp_fragment L n q h} \<subseteq> {(n, q, h). q = p} \<and>
    {(n, q, k). lp_manifest L' n q k \<noteq> lp_manifest L n q k} \<subseteq> {(n, q, k). q = p} \<and>
    resolve_content L' st cid = Inr \<lparr>rc_data = data, rc_mime_type = mime\<rparr>"
proof -
  define h where "h = fragment_hash_of (ge_p2p E) data"
  define m where "m = \<lparr>mr_content_hash = cid, mr_fragment_hashes = [h], mr_total_size = 0, mr_mime_type = mime\<rparr>"
  define L' where "L' = L\<lparr>
    lp_manifest := \<lambda>n q k. if q = p then Some (Inr m) else lp_manifest L n q k,
    lp_fragment := \<lambda>n q k. if q = p then (if k = h then Some (Inr data) else None) else lp_fragment L n q k\<rparr>"
  have "replies_verified E L'"
    using assms(1) by (auto simp: replies_verified_def L'_def h_def)
  moreover have "resolve_content L' st cid = Inr \<lparr>rc_data = data, rc_mime_type = mime\<rparr>"
    using assms(2,3) by (simp add: resolve_content_def resolve_content_inner_def fetch_from_peer_def asked_then_def L'_def m_def)
  ultimately show ?thesis
    by (intro exI [of _ L']) (auto simp: L'_def)
qed

text \<open>A circuit that is never reported built takes the whole time: nothing is fetched directly any more.\<close>

lemma silent_circuit_times_out:
  assumes "ps_zk_relay_enabled st" "ps_zk_relay_hops st \<le> length (lp_peers L 1)" "lp_providers L 0 cid = Some (Inr (p # ps))"
    and "lp_circuit L 1 (take (ps_zk_relay_hops st) (lp_peers L 1)) = None"
  shows "resolve_content L st cid = Inl GwTimeout"
  using assms by (simp add: resolve_content_def resolve_content_inner_def resolve_via_circuit_def asked_then_def)

section \<open>Witnesses\<close>

definition demo_replies :: loop_replies where
  "demo_replies = \<lparr>lp_peers = \<lambda>_. [], lp_providers = \<lambda>_ _. Some (Inr [[3], [4]]),
     lp_manifest = \<lambda>_ p cid. Some (Inr \<lparr>mr_content_hash = cid, mr_fragment_hashes = [fragment_hash_of demo_p2p [1]],
       mr_total_size = 1, mr_mime_type = ''text/plain''\<rparr>),
     lp_fragment = \<lambda>_ _ h. if h = fragment_hash_of demo_p2p [1] then Some (Inr [1]) else None,
     lp_circuit = \<lambda>_ _. None\<rparr>"

lemma demo_replies_verified: "replies_verified demo_gateway_env demo_replies"
  by (auto simp: replies_verified_def demo_replies_def demo_gateway_env_def)

lemma demo_resolved: "resolve_content demo_replies p2p_state_new ''c'' = Inr \<lparr>rc_data = [1], rc_mime_type = ''text/plain''\<rparr>"
  by (simp add: resolve_content_def resolve_content_inner_def p2p_state_new_def demo_replies_def asked_then_def fetch_from_peer_def)

theorem resolution_matches_manifest_witness:
  "\<exists>ps. lp_providers demo_replies 0 ''c'' = Some (Inr ps) \<and>
     from_manifest demo_gateway_env demo_replies ''c'' (set ps) \<lparr>rc_data = [1], rc_mime_type = ''text/plain''\<rparr>"
  by (rule resolution_matches_manifest [OF demo_replies_verified demo_resolved])

theorem first_provider_decides_witness:
  "\<exists>L'. replies_verified demo_gateway_env L' \<and> lp_providers L' = lp_providers demo_replies \<and>
    {(n, q, h). lp_fragment L' n q h \<noteq> lp_fragment demo_replies n q h} \<subseteq> {(n, q, h). q = [3]} \<and>
    {(n, q, k). lp_manifest L' n q k \<noteq> lp_manifest demo_replies n q k} \<subseteq> {(n, q, k). q = [3]} \<and>
    resolve_content L' p2p_state_new ''c'' = Inr \<lparr>rc_data = [6, 6, 6], rc_mime_type = ''text/html''\<rparr>"
  by (rule first_provider_decides [OF demo_replies_verified, of _ _ "[[4]]"]) (simp_all add: demo_replies_def p2p_state_new_def)

end
