(* ===== verification/NodeHealth.thy ===== *)
theory NodeHealth
  imports CircuitBreaker Bandwidth
begin

text \<open>
  How the gateway chooses among its node-runners and fetches content from them,
  \<open>gateway/src/node_health.rs\<close> and \<open>gateway/src/node_resolver.rs\<close>: a circuit breaker and a moving average of
  the latency per node, four strategies, and the loop that asks the selected nodes over HTTP. The
  answers of the nodes and the clock are parameters; every locked section is one step and reads
  the clock once. Logging is left out.
\<close>

section \<open>The health of a node\<close>

record node_health =
  nh_avg_latency_ms :: f64
  nh_last_success :: "instant option"
  nh_circuit_breaker :: circuit_breaker

definition node_health_new :: "string \<Rightarrow> u32 \<Rightarrow> duration \<Rightarrow> node_health" where
  "node_health_new url threshold reset_timeout =
     \<lparr>nh_avg_latency_ms = 0, nh_last_success = None,
      nh_circuit_breaker = breaker_new (''node-'' @ url) threshold reset_timeout\<rparr>"

definition node_succeeded :: "(rat \<Rightarrow> rat) \<Rightarrow> instant \<Rightarrow> f64 \<Rightarrow> node_health \<Rightarrow> node_health" where
  "node_succeeded R now latency_ms n =
     \<lparr>nh_avg_latency_ms = (if nh_avg_latency_ms n = 0 then latency_ms
        else fadd R (fmul R (nh_avg_latency_ms n) (R (9 / 10))) (fmul R latency_ms (R (1 / 10)))),
      nh_last_success = Some now, nh_circuit_breaker = record_success (nh_circuit_breaker n)\<rparr>"

definition node_failed :: "instant \<Rightarrow> node_health \<Rightarrow> node_health" where
  "node_failed now n = n\<lparr>nh_circuit_breaker := record_failure now (nh_circuit_breaker n)\<rparr>"

text \<open>Asking whether a node is available may move its breaker from open to half-open.\<close>

definition is_available :: "instant \<Rightarrow> node_health \<Rightarrow> bool \<times> node_health" where
  "is_available now n =
     (case allow_request now (nh_circuit_breaker n) of (ok, b) \<Rightarrow> (ok, n\<lparr>nh_circuit_breaker := b\<rparr>))"

definition health_score :: "(rat \<Rightarrow> rat) \<Rightarrow> instant \<Rightarrow> node_health \<Rightarrow> f64 \<times> node_health" where
  "health_score R now n =
     (case is_available now n of
        (False, n1) \<Rightarrow> (0, n1)
      | (True, n1) \<Rightarrow>
          (let latency_score = (if nh_avg_latency_ms n1 > 0
             then fdiv R 1000 (fadd R 1000 (nh_avg_latency_ms n1)) else R (1 / 2));
               recency_score = (case nh_last_success n1 of
                   Some t \<Rightarrow> fdiv R 1 (fadd R 1 (fdiv R (as_secs_f64 R (elapsed now t)) 60))
                 | None \<Rightarrow> R (3 / 10))
           in (fadd R (fmul R latency_score (R (7 / 10))) (fmul R recency_score (R (3 / 10))), n1)))"

section \<open>The tracker\<close>

datatype node_selection_strategy = Sequential | RoundRobin | LeastLatency | Weighted

record node_health_config =
  hc_strategy :: node_selection_strategy
  hc_health_check_interval_seconds :: u64
  hc_circuit_breaker_threshold :: u32
  hc_circuit_breaker_reset_seconds :: u64

definition node_health_config_default :: node_health_config where
  "node_health_config_default = \<lparr>hc_strategy = Sequential, hc_health_check_interval_seconds = 30,
     hc_circuit_breaker_threshold = 3, hc_circuit_breaker_reset_seconds = 15\<rparr>"

type_synonym node_table = "(string, node_health) hmap"

record node_tracker =
  nt_nodes :: node_table
  nt_urls :: "string list"
  nt_strategy :: node_selection_strategy
  nt_round_robin_index :: nat
  nt_cb_threshold :: u32
  nt_cb_reset :: duration

definition node_tracker_new :: "string list \<Rightarrow> node_health_config \<Rightarrow> node_tracker" where
  "node_tracker_new urls cfg =
     \<lparr>nt_nodes = [], nt_urls = urls, nt_strategy = hc_strategy cfg, nt_round_robin_index = 0,
      nt_cb_threshold = hc_circuit_breaker_threshold cfg,
      nt_cb_reset = from_secs (unat (hc_circuit_breaker_reset_seconds cfg))\<rparr>"

definition ensure_nodes :: "node_tracker \<Rightarrow> node_tracker" where
  "ensure_nodes tr = tr\<lparr>nt_nodes := fold (\<lambda>url nodes.
     if hm_get nodes url = None then hm_insert url (node_health_new url (nt_cb_threshold tr) (nt_cb_reset tr)) nodes
     else nodes) (nt_urls tr) (nt_nodes tr)\<rparr>"

text \<open>The filter all strategies share; a URL without an entry passes it.\<close>

fun available_urls :: "instant \<Rightarrow> string list \<Rightarrow> node_table \<Rightarrow> string list \<times> node_table" where
  "available_urls now [] nodes = ([], nodes)"
| "available_urls now (u # us) nodes =
     (case hm_get nodes u of
        None \<Rightarrow> (case available_urls now us nodes of (r, nodes1) \<Rightarrow> (u # r, nodes1))
      | Some n \<Rightarrow>
          (case is_available now n of (ok, n1) \<Rightarrow>
            (case available_urls now us (hm_insert u n1 nodes) of
               (r, nodes1) \<Rightarrow> (if ok then u # r else r, nodes1))))"

text \<open>
  The sorts are stable. \<open>LeastLatency\<close> puts the nodes whose latency is unknown (0) last.
\<close>

definition latency_of :: "node_table \<Rightarrow> string \<Rightarrow> f64" where
  "latency_of nodes u = (case hm_get nodes u of None \<Rightarrow> 0 | Some n \<Rightarrow> nh_avg_latency_ms n)"

definition score_of :: "(rat \<Rightarrow> rat) \<Rightarrow> instant \<Rightarrow> node_table \<Rightarrow> string \<Rightarrow> f64" where
  "score_of R now nodes u = (case hm_get nodes u of None \<Rightarrow> R (1 / 2) | Some n \<Rightarrow> fst (health_score R now n))"

definition order_nodes ::
    "(rat \<Rightarrow> rat) \<Rightarrow> instant \<Rightarrow> node_selection_strategy \<Rightarrow> nat \<Rightarrow> node_table \<Rightarrow> string list \<Rightarrow> string list" where
  "order_nodes R now strategy i nodes available =
     (case strategy of
        Sequential \<Rightarrow> available
      | RoundRobin \<Rightarrow>
          (let n = length available; idx = i mod n in map (\<lambda>j. available ! ((idx + j) mod n)) [0..<n])
      | LeastLatency \<Rightarrow>
          sort_key (latency_of nodes) (filter (\<lambda>u. latency_of nodes u \<noteq> 0) available) @
          filter (\<lambda>u. latency_of nodes u = 0) available
      | Weighted \<Rightarrow> sort_key (\<lambda>u. - score_of R now nodes u) available)"

text \<open>\<open>fetch_add\<close> on the \<open>usize\<close> counter wraps around; an empty choice leaves it alone.\<close>

definition select_nodes :: "(rat \<Rightarrow> rat) \<Rightarrow> instant \<Rightarrow> node_tracker \<Rightarrow> string list \<times> node_tracker" where
  "select_nodes R now tr =
     (let tr1 = ensure_nodes tr in
      case available_urls now (nt_urls tr1) (nt_nodes tr1) of
        (available, nodes) \<Rightarrow>
          (let tr2 = tr1\<lparr>nt_nodes := nodes\<rparr> in
           (order_nodes R now (nt_strategy tr) (nt_round_robin_index tr) nodes available,
            if nt_strategy tr = RoundRobin \<and> available \<noteq> []
            then tr2\<lparr>nt_round_robin_index := (nt_round_robin_index tr + 1) mod 2 ^ 64\<rparr> else tr2)))"

definition tracker_update :: "string \<Rightarrow> (node_health \<Rightarrow> node_health) \<Rightarrow> node_tracker \<Rightarrow> node_tracker" where
  "tracker_update url f tr = (let tr1 = ensure_nodes tr in tr1\<lparr>nt_nodes := hm_modify url f (nt_nodes tr1)\<rparr>)"

definition tracker_success :: "(rat \<Rightarrow> rat) \<Rightarrow> instant \<Rightarrow> string \<Rightarrow> f64 \<Rightarrow> node_tracker \<Rightarrow> node_tracker" where
  "tracker_success R now url latency_ms = tracker_update url (node_succeeded R now latency_ms)"

definition tracker_failure :: "instant \<Rightarrow> string \<Rightarrow> node_tracker \<Rightarrow> node_tracker" where
  "tracker_failure now url = tracker_update url (node_failed now)"

section \<open>HTTP\<close>

text \<open>
  An answer: its status, the two headers when they are readable text, and the body unless reading it
  fails. \<open>ne_answer i url\<close> is the answer to the \<open>i\<close>-th request of a call, \<open>None\<close> for a transport error or
  a timeout; \<open>ne_now i\<close> the clock when it is dealt with and \<open>ne_took i\<close> the time it took.
\<close>

record node_answer =
  na_status :: nat
  na_content_type :: "string option"
  na_content_length :: "string option"
  na_body :: "bytes option"

record node_env =
  ne_round :: "rat \<Rightarrow> rat"
  ne_start :: instant
  ne_answer :: "nat \<Rightarrow> string \<Rightarrow> node_answer option"
  ne_now :: "nat \<Rightarrow> instant"
  ne_took :: "nat \<Rightarrow> duration"

definition is_success :: "nat \<Rightarrow> bool" where
  "is_success status \<longleftrightarrow> 200 \<le> status \<and> status < 300"

definition STREAM_THRESHOLD_BYTES :: u64 where
  "STREAM_THRESHOLD_BYTES = 5 * 1024 * 1024"

text \<open>A stream is what its bytes turn out to be.\<close>

datatype node_content =
    Buffered bytes string
  | Streaming "bytes option" string u64

definition latency_ms_of :: "(rat \<Rightarrow> rat) \<Rightarrow> duration \<Rightarrow> f64" where
  "latency_ms_of R d = fmul R (as_secs_f64 R d) 1000"

definition download_url :: "string \<Rightarrow> string \<Rightarrow> string" where
  "download_url base cid = trim_end_slashes base @ ''/api/storage/download/'' @ cid"

text \<open>What a successful answer gives; \<open>None\<close> if its body cannot be read.\<close>

definition node_content_of :: "node_answer \<Rightarrow> node_content option" where
  "node_content_of resp =
     (let mime = (case na_content_type resp of None \<Rightarrow> ''application/octet-stream'' | Some m \<Rightarrow> m);
          content_length = (case Option.bind (na_content_length resp) parse_u64 of None \<Rightarrow> 0 | Some n \<Rightarrow> n)
      in if content_length > STREAM_THRESHOLD_BYTES then Some (Streaming (na_body resp) mime content_length)
         else map_option (\<lambda>data. Buffered data mime) (na_body resp))"

fun resolve_from_nodes_adaptive :: "node_env \<Rightarrow> string list \<Rightarrow> string \<Rightarrow> nat \<Rightarrow> node_content option" where
  "resolve_from_nodes_adaptive N [] cid i = None"
| "resolve_from_nodes_adaptive N (base # urls) cid i =
     (case ne_answer N i (download_url base cid) of
        Some resp \<Rightarrow>
          if is_success (na_status resp) then
            (case node_content_of resp of
               Some content \<Rightarrow> Some content
             | None \<Rightarrow> resolve_from_nodes_adaptive N urls cid (i + 1))
          else resolve_from_nodes_adaptive N urls cid (i + 1)
      | None \<Rightarrow> resolve_from_nodes_adaptive N urls cid (i + 1))"

fun resolve_tracked :: "node_env \<Rightarrow> string list \<Rightarrow> string \<Rightarrow> nat \<Rightarrow> node_tracker \<Rightarrow> node_content option \<times> node_tracker" where
  "resolve_tracked N [] cid i tr = (None, tr)"
| "resolve_tracked N (url # urls) cid i tr =
     (case ne_answer N i (download_url url cid) of
        Some resp \<Rightarrow>
          if is_success (na_status resp) then
            (let tr1 = tracker_success (ne_round N) (ne_now N i) url (latency_ms_of (ne_round N) (ne_took N i)) tr in
             case node_content_of resp of
               Some content \<Rightarrow> (Some content, tr1)
             | None \<Rightarrow> resolve_tracked N urls cid (i + 1) tr1)
          else resolve_tracked N urls cid (i + 1) (tracker_failure (ne_now N i) url tr)
      | None \<Rightarrow> resolve_tracked N urls cid (i + 1) (tracker_failure (ne_now N i) url tr))"

definition resolve_from_nodes_with_tracking ::
    "node_env \<Rightarrow> string \<Rightarrow> node_tracker \<Rightarrow> node_content option \<times> node_tracker" where
  "resolve_from_nodes_with_tracking N cid tr =
     (case select_nodes (ne_round N) (ne_start N) tr of (urls, tr1) \<Rightarrow> resolve_tracked N urls cid 0 tr1)"

text \<open>A probe asks every configured node, available or not.\<close>

fun probe_nodes :: "node_env \<Rightarrow> string list \<Rightarrow> nat \<Rightarrow> node_tracker \<Rightarrow> node_tracker" where
  "probe_nodes N [] i tr = tr"
| "probe_nodes N (url # urls) i tr =
     (case ne_answer N i (trim_end_slashes url @ ''/api/health'') of
        Some resp \<Rightarrow>
          if is_success (na_status resp) then
            probe_nodes N urls (i + 1)
              (tracker_success (ne_round N) (ne_now N i) url (latency_ms_of (ne_round N) (ne_took N i)) tr)
          else probe_nodes N urls (i + 1) (tracker_failure (ne_now N i) url tr)
      | None \<Rightarrow> probe_nodes N urls (i + 1) (tracker_failure (ne_now N i) url tr))"

definition probe_all_nodes :: "node_env \<Rightarrow> node_tracker \<Rightarrow> node_tracker" where
  "probe_all_nodes N tr = probe_nodes N (nt_urls tr) 0 tr"

end
