(* ===== verification/NodeHealthSafety.thy ===== *)
theory NodeHealthSafety
  imports NodeHealth "HOL-Library.Multiset"
begin

text \<open>
  Which nodes are selected and in what order, and what failures do to the selection: an answer that
  a node does not have the content counts as a failure of the node.
\<close>

section \<open>Which nodes are available\<close>

definition node_open_to :: "instant \<Rightarrow> node_table \<Rightarrow> string \<Rightarrow> bool" where
  "node_open_to now nodes u =
     (case hm_get nodes u of None \<Rightarrow> True | Some n \<Rightarrow> fst (allow_request now (nh_circuit_breaker n)))"

lemma fst_is_available [simp]: "fst (is_available now n) = fst (allow_request now (nh_circuit_breaker n))"
  by (simp add: is_available_def split: prod.split)

lemma asked_twice [simp]: "fst (allow_request now (snd (allow_request now b))) = fst (allow_request now b)"
  by (simp add: allow_request_def split: circuit_state.splits option.splits)

lemma available_after [simp]:
  "fst (allow_request now (nh_circuit_breaker (snd (is_available now n)))) = fst (allow_request now (nh_circuit_breaker n))"
  by (simp add: is_available_def split_beta)

lemma open_after_asking [simp]:
  "hm_get nodes u = Some n \<Longrightarrow> node_open_to now (hm_insert u (snd (is_available now n)) nodes) v = node_open_to now nodes v"
  by (auto simp: node_open_to_def)

lemma available_urls_exact: "fst (available_urls now us nodes) = filter (node_open_to now nodes) us"
proof (induction us arbitrary: nodes)
  case Nil
  then show ?case by simp
next
  case (Cons u us)
  show ?case
  proof (cases "hm_get nodes u")
    case None
    then show ?thesis
      using Cons.IH [of nodes] by (simp add: node_open_to_def split_beta)
  next
    case (Some n)
    then have "node_open_to now nodes u = fst (is_available now n)"
      by (simp add: node_open_to_def)
    moreover have "filter (node_open_to now (hm_insert u (snd (is_available now n)) nodes)) us = filter (node_open_to now nodes) us"
      by (intro filter_cong) (simp_all add: Some)
    ultimately show ?thesis
      using Some Cons.IH [of "hm_insert u (snd (is_available now n)) nodes"]
      by (simp add: split_beta del: fst_is_available)
  qed
qed

text \<open>Nodes whose breakers are closed are left as they are.\<close>

definition node_closed :: "node_table \<Rightarrow> string \<Rightarrow> bool" where
  "node_closed nodes u \<longleftrightarrow> (\<exists>n. hm_get nodes u = Some n \<and> breaker_state (nh_circuit_breaker n) = Closed)"

lemma available_closed: "breaker_state (nh_circuit_breaker n) = Closed \<Longrightarrow> is_available now n = (True, n)"
  by (simp add: is_available_def allow_request_def)

lemma available_urls_closed:
  assumes "list_all (node_closed nodes) us" "hm_wf nodes"
  shows "fst (available_urls now us nodes) = us \<and> hm_wf (snd (available_urls now us nodes)) \<and>
    (\<forall>u. hm_get (snd (available_urls now us nodes)) u = hm_get nodes u)"
  using assms
proof (induction us arbitrary: nodes)
  case Nil
  then show ?case by simp
next
  case (Cons u us)
  then obtain n where n: "hm_get nodes u = Some n" "breaker_state (nh_circuit_breaker n) = Closed"
    by (auto simp: node_closed_def)
  have same: "hm_get (hm_insert u n nodes) v = hm_get nodes v" for v
    using n by simp
  then have "list_all (node_closed (hm_insert u n nodes)) us"
    using Cons.prems by (simp add: node_closed_def list_all_iff)
  then show ?case
    using n Cons.IH [of "hm_insert u n nodes"] Cons.prems same
    by (simp add: available_closed split_beta)
qed

section \<open>The order of the strategies\<close>

lemma round_robin_rotates:
  assumes "xs \<noteq> []"
  shows "map (\<lambda>j. xs ! ((i mod length xs + j) mod length xs)) [0..<length xs] = rotate i xs"
  using assms by (intro nth_equalityI) (simp_all add: nth_rotate mod_add_left_eq)

lemma mset_rotated: "mset (rotate i xs) = mset xs"
  using union_commute [of "mset (drop (i mod length xs) xs)" "mset (take (i mod length xs) xs)"]
  unfolding rotate_drop_take mset_append [symmetric] append_take_drop_id .

lemma order_nodes_perm: "mset (order_nodes R now strategy i nodes xs) = mset xs"
proof (cases strategy)
  case RoundRobin
  then show ?thesis
    using round_robin_rotates [of xs i] by (cases "xs = []") (simp_all add: order_nodes_def Let_def mset_rotated)
next
  case LeastLatency
  then show ?thesis
    using multiset_partition [of "mset xs" "\<lambda>u. latency_of nodes u \<noteq> 0"]
    by (simp add: order_nodes_def flip: mset_filter)
qed (simp_all add: order_nodes_def)

lemma set_order_nodes [simp]: "set (order_nodes R now strategy i nodes xs) = set xs"
  using order_nodes_perm [of R now strategy i nodes xs] by (metis set_mset_mset)

lemma distinct_order_nodes [simp]: "distinct (order_nodes R now strategy i nodes xs) = distinct xs"
  using order_nodes_perm [of R now strategy i nodes xs] by (metis mset_eq_imp_distinct_iff)

definition faster :: "(string \<Rightarrow> f64) \<Rightarrow> string \<Rightarrow> string \<Rightarrow> bool" where
  "faster latency u v \<longleftrightarrow> latency v = 0 \<or> latency u \<noteq> 0 \<and> latency u \<le> latency v"

lemma sort_key_sorted_wrt: "sorted_wrt (\<lambda>u v. f u \<le> f v) (sort_key f xs)"
  using sorted_sort_key [of f xs] by (simp add: sorted_map)

lemma least_latency_sorted:
  "sorted_wrt (faster (latency_of nodes)) (order_nodes R now LeastLatency i nodes xs)"
  unfolding order_nodes_def
  by (auto simp: sorted_wrt_append faster_def sorted_wrt_filter
      intro: sorted_wrt_mono_rel [OF _ sort_key_sorted_wrt] sorted_wrt_mono_rel [of _ "\<lambda>_ _. True"])

section \<open>New nodes\<close>

definition fresh_breaker :: "node_tracker \<Rightarrow> circuit_breaker \<Rightarrow> bool" where
  "fresh_breaker tr b \<longleftrightarrow> breaker_state b = Closed \<and> cb_failure_count b = 0 \<and>
     cb_failure_threshold b = nt_cb_threshold tr \<and> cb_reset_timeout b = nt_cb_reset tr"

lemma new_node_fresh:
  "fresh_breaker tr (nh_circuit_breaker (node_health_new url (nt_cb_threshold tr) (nt_cb_reset tr)))"
  by (simp add: fresh_breaker_def node_health_new_def breaker_new_def breaker_state_def state_of_code_def)

lemma ensure_fold:
  fixes us :: "string list"
  defines "ens th rs nodes \<equiv> fold (\<lambda>url nodes. if hm_get nodes url = None
      then hm_insert url (node_health_new url th rs) nodes else nodes) us nodes"
  shows "hm_get (ens th rs nodes) u =
    (case hm_get nodes u of Some n \<Rightarrow> Some n | None \<Rightarrow> if u \<in> set us then Some (node_health_new u th rs) else None)"
    and "hm_wf nodes \<Longrightarrow> hm_wf (ens th rs nodes)"
  unfolding ens_def by (induction us arbitrary: nodes) (auto split: option.splits)

lemma ensure_nodes_fields [simp]:
  "nt_urls (ensure_nodes tr) = nt_urls tr" "nt_strategy (ensure_nodes tr) = nt_strategy tr"
  "nt_round_robin_index (ensure_nodes tr) = nt_round_robin_index tr"
  "nt_cb_threshold (ensure_nodes tr) = nt_cb_threshold tr" "nt_cb_reset (ensure_nodes tr) = nt_cb_reset tr"
  by (simp_all add: ensure_nodes_def)

lemma ensured_get:
  "hm_get (nt_nodes (ensure_nodes tr)) u =
    (case hm_get (nt_nodes tr) u of Some n \<Rightarrow> Some n
     | None \<Rightarrow> if u \<in> set (nt_urls tr) then Some (node_health_new u (nt_cb_threshold tr) (nt_cb_reset tr)) else None)"
  by (simp add: ensure_nodes_def ensure_fold)

lemma ensured_wf: "hm_wf (nt_nodes tr) \<Longrightarrow> hm_wf (nt_nodes (ensure_nodes tr))"
  by (simp add: ensure_nodes_def ensure_fold)

lemma fresh_allows: "fresh_breaker tr b \<Longrightarrow> fst (allow_request now b)"
  by (simp add: fresh_breaker_def allow_request_def)

lemma ensured_open: "u \<in> set (nt_urls tr) \<Longrightarrow> node_open_to now (nt_nodes (ensure_nodes tr)) u = node_open_to now (nt_nodes tr) u"
  using fresh_allows [OF new_node_fresh [of tr u]] by (simp add: node_open_to_def ensured_get split: option.splits)


text \<open>What is selected and in which order. The selection holds exactly the configured nodes whose breaker lets a
  request through, each as often as configured, in the order of the strategy: the configured order; that
  order rotated by the counter; the fastest first and the unknown last; the best score first.\<close>

theorem selection_ordered:
  "let urls = fst (select_nodes R now tr); chosen = filter (node_open_to now (nt_nodes tr)) (nt_urls tr);
       nodes = nt_nodes (snd (select_nodes R now tr)) in
   mset urls = mset chosen \<and>
   (case nt_strategy tr of
      Sequential \<Rightarrow> urls = chosen
    | RoundRobin \<Rightarrow> urls = rotate (nt_round_robin_index tr) chosen
    | LeastLatency \<Rightarrow> sorted_wrt (faster (latency_of nodes)) urls
    | Weighted \<Rightarrow> sorted_wrt (\<lambda>u v. score_of R now nodes u \<ge> score_of R now nodes v) urls)"
proof -
  define table where "table = snd (available_urls now (nt_urls tr) (nt_nodes (ensure_nodes tr)))"
  define chosen where "chosen = filter (node_open_to now (nt_nodes tr)) (nt_urls tr)"
  have "fst (available_urls now (nt_urls tr) (nt_nodes (ensure_nodes tr))) = chosen"
    unfolding chosen_def available_urls_exact by (rule filter_cong) (simp_all add: ensured_open)
  then have sel: "fst (select_nodes R now tr) = order_nodes R now (nt_strategy tr) (nt_round_robin_index tr) table chosen"
      "nt_nodes (snd (select_nodes R now tr)) = table"
    by (simp_all add: select_nodes_def table_def split_beta Let_def)
  have "sorted_wrt (\<lambda>u v. score_of R now table u \<ge> score_of R now table v) (order_nodes R now Weighted i table chosen)" for i
    using sort_key_sorted_wrt [of "\<lambda>u. - score_of R now table u" chosen] by (simp add: order_nodes_def)
  moreover have "order_nodes R now RoundRobin i table chosen = rotate i chosen" for i
    using round_robin_rotates [of chosen i] by (cases "chosen = []") (simp_all add: order_nodes_def Let_def)
  moreover have "order_nodes R now Sequential i table chosen = chosen" for i
    by (simp add: order_nodes_def)
  ultimately show ?thesis
    by (cases "nt_strategy tr")
       (simp_all only: Let_def sel chosen_def [symmetric] order_nodes_perm mset_rotated least_latency_sorted
         node_selection_strategy.case simp_thms)
qed

section \<open>Missing content\<close>

definition refused :: "node_answer option \<Rightarrow> bool" where
  "refused a \<longleftrightarrow> (case a of None \<Rightarrow> True | Some resp \<Rightarrow> \<not> is_success (na_status resp))"

definition nowhere :: "node_env \<Rightarrow> string list \<Rightarrow> string \<Rightarrow> bool" where
  "nowhere N urls cid \<longleftrightarrow> (\<forall>i. \<forall>u\<in>set urls. refused (ne_answer N i (download_url u cid)))"

definition tracked :: "node_tracker \<Rightarrow> bool" where
  "tracked tr \<longleftrightarrow> hm_wf (nt_nodes tr) \<and> (\<forall>u\<in>set (nt_urls tr). hm_get (nt_nodes tr) u \<noteq> None)"

definition same_setup :: "node_tracker \<Rightarrow> node_tracker \<Rightarrow> bool" where
  "same_setup tr' tr \<longleftrightarrow> nt_urls tr' = nt_urls tr \<and> nt_cb_threshold tr' = nt_cb_threshold tr \<and> nt_cb_reset tr' = nt_cb_reset tr"

lemma ensured_tracked: "hm_wf (nt_nodes tr) \<Longrightarrow> tracked (ensure_nodes tr)"
  by (auto simp: tracked_def ensured_wf ensured_get split: option.splits)

lemma ensured_same: "tracked tr \<Longrightarrow> u \<in> set (nt_urls tr) \<Longrightarrow> hm_get (nt_nodes (ensure_nodes tr)) u = hm_get (nt_nodes tr) u"
  by (auto simp: tracked_def ensured_get split: option.splits)

lemma tracker_update:
  assumes "tracked tr" "url \<in> set (nt_urls tr)"
  shows "tracked (tracker_update url f tr)" "same_setup (tracker_update url f tr) tr"
    and "v \<in> set (nt_urls tr) \<Longrightarrow> hm_get (nt_nodes (tracker_update url f tr)) v =
      (if v = url then map_option f (hm_get (nt_nodes tr) v) else hm_get (nt_nodes tr) v)"
  using assms ensured_tracked [of tr] ensured_same [of tr]
  by (auto simp: tracker_update_def Let_def tracked_def same_setup_def)

lemma resolve_refused:
  assumes "tracked tr" "distinct us" "set us \<subseteq> set (nt_urls tr)"
    and "\<forall>i. \<forall>u\<in>set us. refused (ne_answer N i (download_url u cid))"
  shows "fst (resolve_tracked N us cid i tr) = None \<and> tracked (snd (resolve_tracked N us cid i tr)) \<and>
    same_setup (snd (resolve_tracked N us cid i tr)) tr \<and>
    (\<forall>v\<in>set (nt_urls tr). \<exists>j. hm_get (nt_nodes (snd (resolve_tracked N us cid i tr))) v =
      (if v \<in> set us then map_option (node_failed (ne_now N j)) (hm_get (nt_nodes tr) v) else hm_get (nt_nodes tr) v))"
  using assms
proof (induction us arbitrary: i tr)
  case Nil
  then show ?case by (simp add: same_setup_def)
next
  case (Cons u us)
  define tr1 where "tr1 = tracker_failure (ne_now N i) u tr"
  have "refused (ne_answer N i (download_url u cid))"
    using Cons.prems(4) by simp
  then have step: "resolve_tracked N (u # us) cid i tr = resolve_tracked N us cid (i + 1) tr1"
    by (auto simp: refused_def tr1_def split: option.splits)
  have tr1: "tracked tr1" "same_setup tr1 tr" "\<And>v. v \<in> set (nt_urls tr) \<Longrightarrow> hm_get (nt_nodes tr1) v =
      (if v = u then map_option (node_failed (ne_now N i)) (hm_get (nt_nodes tr) v) else hm_get (nt_nodes tr) v)"
    using tracker_update [of tr u] Cons.prems(1,3) by (auto simp: tr1_def tracker_failure_def)
  then have "set us \<subseteq> set (nt_urls tr1)" "nt_urls tr1 = nt_urls tr"
    using Cons.prems(3) by (auto simp: same_setup_def)
  with Cons.IH [of tr1 "i + 1"] Cons.prems tr1(1)
  have IH: "fst (resolve_tracked N us cid (i + 1) tr1) = None" "tracked (snd (resolve_tracked N us cid (i + 1) tr1))"
    "same_setup (snd (resolve_tracked N us cid (i + 1) tr1)) tr1"
    "\<And>v. v \<in> set (nt_urls tr) \<Longrightarrow> \<exists>j. hm_get (nt_nodes (snd (resolve_tracked N us cid (i + 1) tr1))) v =
      (if v \<in> set us then map_option (node_failed (ne_now N j)) (hm_get (nt_nodes tr1) v) else hm_get (nt_nodes tr1) v)"
    by auto
  have "\<exists>j. hm_get (nt_nodes (snd (resolve_tracked N us cid (i + 1) tr1))) v =
      (if v \<in> set (u # us) then map_option (node_failed (ne_now N j)) (hm_get (nt_nodes tr) v) else hm_get (nt_nodes tr) v)"
    if "v \<in> set (nt_urls tr)" for v
    using IH(4) [OF that] tr1(3) [OF that] Cons.prems(2) by (cases "v = u") auto
  with IH(1-3) tr1(2) show ?case
    unfolding step by (auto simp: same_setup_def)
qed

lemma ensure_id: "\<forall>u\<in>set (nt_urls tr). hm_get (nt_nodes tr) u \<noteq> None \<Longrightarrow> ensure_nodes tr = tr"
proof -
  have "\<forall>u\<in>set us. hm_get nodes u \<noteq> None \<Longrightarrow> fold (\<lambda>url nodes. if hm_get nodes url = None
    then hm_insert url (node_health_new url th rs) nodes else nodes) us nodes = nodes" for us nodes th rs
    by (induction us) auto
  then show "\<forall>u\<in>set (nt_urls tr). hm_get (nt_nodes tr) u \<noteq> None \<Longrightarrow> ensure_nodes tr = tr"
    by (simp add: ensure_nodes_def)
qed

lemma ensure_twice: "hm_wf (nt_nodes tr) \<Longrightarrow> ensure_nodes (ensure_nodes tr) = ensure_nodes tr"
  using ensured_tracked [of tr] by (intro ensure_id) (simp add: tracked_def)

lemma resolve_ensured:
  "hm_wf (nt_nodes tr) \<Longrightarrow> resolve_from_nodes_with_tracking N cid (ensure_nodes tr) = resolve_from_nodes_with_tracking N cid tr"
  by (simp add: resolve_from_nodes_with_tracking_def select_nodes_def ensure_twice Let_def cong: if_cong)

text \<open>Every node is closed and has failed \<open>k\<close> times in a row.\<close>

definition failing :: "nat \<Rightarrow> node_tracker \<Rightarrow> bool" where
  "failing k tr \<longleftrightarrow> tracked tr \<and> (\<forall>u\<in>set (nt_urls tr). \<exists>n. hm_get (nt_nodes tr) u = Some n \<and>
     breaker_state (nh_circuit_breaker n) = Closed \<and> unat (cb_failure_count (nh_circuit_breaker n)) = k \<and>
     cb_failure_threshold (nh_circuit_breaker n) = nt_cb_threshold tr \<and>
     cb_reset_timeout (nh_circuit_breaker n) = nt_cb_reset tr)"

lemma failing_new: "failing 0 (ensure_nodes (node_tracker_new urls cfg))"
  using ensured_tracked [of "node_tracker_new urls cfg"]
  by (auto simp: failing_def ensured_get node_tracker_new_def node_health_new_def breaker_new_def
      breaker_state_def state_of_code_def)

lemma select_closed:
  assumes "failing k tr"
  shows "mset (fst (select_nodes R now tr)) = mset (nt_urls tr) \<and> same_setup (snd (select_nodes R now tr)) tr \<and>
    hm_wf (nt_nodes (snd (select_nodes R now tr))) \<and>
    (\<forall>u. hm_get (nt_nodes (snd (select_nodes R now tr))) u = hm_get (nt_nodes tr) u)"
proof -
  have "ensure_nodes tr = tr" "list_all (node_closed (nt_nodes tr)) (nt_urls tr)" "hm_wf (nt_nodes tr)"
    using assms by (auto simp: failing_def tracked_def node_closed_def list_all_iff intro!: ensure_id)
  then show ?thesis
    using available_urls_closed [of "nt_nodes tr" "nt_urls tr" now]
    by (simp add: select_nodes_def split_beta Let_def order_nodes_perm same_setup_def)
qed

lemma failing_call:
  assumes "failing k tr" "distinct (nt_urls tr)" "nowhere N (nt_urls tr) cid"
  shows "fst (resolve_from_nodes_with_tracking N cid tr) = None \<and>
    tracked (snd (resolve_from_nodes_with_tracking N cid tr)) \<and> same_setup (snd (resolve_from_nodes_with_tracking N cid tr)) tr \<and>
    (\<forall>u\<in>set (nt_urls tr). \<exists>j n. hm_get (nt_nodes tr) u = Some n \<and>
      hm_get (nt_nodes (snd (resolve_from_nodes_with_tracking N cid tr))) u = Some (node_failed (ne_now N j) n))"
proof -
  obtain urls tr1 where sel: "select_nodes (ne_round N) (ne_start N) tr = (urls, tr1)"
    by fastforce
  then have urls: "mset urls = mset (nt_urls tr)" and tr1: "same_setup tr1 tr" "hm_wf (nt_nodes tr1)"
    "\<And>u. hm_get (nt_nodes tr1) u = hm_get (nt_nodes tr) u"
    using select_closed [OF assms(1), of "ne_round N" "ne_start N"] by simp_all
  then have us: "distinct urls" "set urls = set (nt_urls tr)" "nt_urls tr1 = nt_urls tr"
    using assms(2) mset_eq_imp_distinct_iff [OF urls] mset_eq_setD [OF urls] by (auto simp: same_setup_def)
  moreover have "tracked tr1"
    using assms(1) tr1 us(3) by (simp add: tracked_def failing_def)
  ultimately have "fst (resolve_tracked N urls cid 0 tr1) = None \<and> tracked (snd (resolve_tracked N urls cid 0 tr1)) \<and>
    same_setup (snd (resolve_tracked N urls cid 0 tr1)) tr1 \<and>
    (\<forall>v\<in>set (nt_urls tr). \<exists>j. hm_get (nt_nodes (snd (resolve_tracked N urls cid 0 tr1))) v =
      map_option (node_failed (ne_now N j)) (hm_get (nt_nodes tr) v))"
    using resolve_refused [of tr1 urls N cid 0] assms(3) tr1(3) by (simp add: nowhere_def)
  moreover have "\<forall>u\<in>set (nt_urls tr). hm_get (nt_nodes tr) u \<noteq> None"
    using assms(1) by (auto simp: failing_def)
  ultimately show ?thesis
    using tr1(1) by (fastforce simp: resolve_from_nodes_with_tracking_def sel same_setup_def)
qed

lemma failing_more:
  assumes "failing k tr" "distinct (nt_urls tr)" "nowhere N (nt_urls tr) cid" "Suc k < unat (nt_cb_threshold tr)"
  shows "failing (Suc k) (snd (resolve_from_nodes_with_tracking N cid tr))"
proof -
  have "breaker_state (record_failure t b) = Closed \<and> unat (cb_failure_count (record_failure t b)) = Suc k \<and>
      cb_failure_threshold (record_failure t b) = nt_cb_threshold tr \<and> cb_reset_timeout (record_failure t b) = nt_cb_reset tr"
    if "breaker_state b = Closed" "unat (cb_failure_count b) = k" "cb_failure_threshold b = nt_cb_threshold tr"
      "cb_reset_timeout b = nt_cb_reset tr" for b t
    using failures_below [of b "[t]"] that assms(4) by simp
  then show ?thesis
    using failing_call [OF assms(1-3)] assms(1)
    unfolding failing_def by (fastforce simp: same_setup_def node_failed_def)
qed

lemma failing_opens:
  assumes "failing k tr" "distinct (nt_urls tr)" "nowhere N (nt_urls tr) cid" "Suc k = unat (nt_cb_threshold tr)"
    and "\<forall>j. elapsed now (ne_now N j) < nt_cb_reset tr" "u \<in> set (nt_urls tr)"
  shows "\<not> node_open_to now (nt_nodes (snd (resolve_from_nodes_with_tracking N cid tr))) u"
proof -
  obtain j n where n: "hm_get (nt_nodes tr) u = Some n"
    "hm_get (nt_nodes (snd (resolve_from_nodes_with_tracking N cid tr))) u = Some (node_failed (ne_now N j) n)"
    using failing_call [OF assms(1-3)] assms(6) by blast
  then have "breaker_state (nh_circuit_breaker n) = Closed" "unat (cb_failure_count (nh_circuit_breaker n)) = k"
    "cb_failure_threshold (nh_circuit_breaker n) = nt_cb_threshold tr" "cb_reset_timeout (nh_circuit_breaker n) = nt_cb_reset tr"
    using assms(1,6) by (auto simp: failing_def)
  with failure_at_threshold [of "nh_circuit_breaker n" "ne_now N j"] assms(4,5) n(2) show ?thesis
    by (simp add: node_open_to_def node_failed_def allow_request_def breaker_state_def state_of_code_def not_le)
qed

abbreviation resolve_all :: "(node_env \<times> string) list \<Rightarrow> node_tracker \<Rightarrow> node_tracker" where
  "resolve_all \<equiv> fold (\<lambda>(N, cid) tr. snd (resolve_from_nodes_with_tracking N cid tr))"

lemma failing_run:
  assumes "failing k tr" "distinct (nt_urls tr)" "\<forall>(N, cid)\<in>set reqs. nowhere N (nt_urls tr) cid"
    and "k + length reqs < unat (nt_cb_threshold tr)"
  shows "failing (k + length reqs) (resolve_all reqs tr) \<and> same_setup (resolve_all reqs tr) tr"
  using assms
proof (induction reqs arbitrary: k tr)
  case Nil
  then show ?case by (simp add: same_setup_def)
next
  case (Cons r reqs)
  obtain N cid where r: "r = (N, cid)" by fastforce
  define tr1 where "tr1 = snd (resolve_from_nodes_with_tracking N cid tr)"
  have "failing (Suc k) tr1" "same_setup tr1 tr"
    using failing_more [of k tr N cid] failing_call [of k tr N cid] Cons.prems r by (simp_all add: tr1_def)
  with Cons.IH [of "Suc k" tr1] Cons.prems show ?case
    by (simp add: r tr1_def [symmetric] same_setup_def)
qed

lemma select_none: "\<forall>u\<in>set (nt_urls tr). \<not> node_open_to now (nt_nodes tr) u \<Longrightarrow> fst (select_nodes R now tr) = []"
  by (auto simp: select_nodes_def Let_def split_beta available_urls_exact ensured_open filter_empty_conv
      simp flip: set_empty)

text \<open>Content that no node has makes every node unavailable. After as many requests in a row as the breaker
  threshold, each for content no node has, the gateway asks no node at all until the reset timeout has
  passed: whatever is requested then, and whatever the nodes would answer, it is not found at the nodes.\<close>

theorem missing_content_excludes_nodes:
  assumes "distinct urls" "length reqs = unat (hc_circuit_breaker_threshold cfg)" "reqs \<noteq> []"
    and "\<forall>(N, missing)\<in>set reqs. nowhere N urls missing"
    and "\<forall>(N, missing)\<in>set reqs. \<forall>j. elapsed (ne_start M) (ne_now N j) < from_secs (unat (hc_circuit_breaker_reset_seconds cfg))"
  shows "fst (select_nodes R (ne_start M) (resolve_all reqs (node_tracker_new urls cfg))) = [] \<and>
    fst (resolve_from_nodes_with_tracking M cid (resolve_all reqs (node_tracker_new urls cfg))) = None"
proof -
  define tr where "tr = ensure_nodes (node_tracker_new urls cfg)"
  have tr: "failing 0 tr" "nt_urls tr = urls" "nt_cb_threshold tr = hc_circuit_breaker_threshold cfg"
    "nt_cb_reset tr = from_secs (unat (hc_circuit_breaker_reset_seconds cfg))"
    using failing_new by (simp_all add: tr_def node_tracker_new_def)
  obtain rs N missing where reqs: "reqs = rs @ [(N, missing)]"
    using assms(3) by (metis rev_exhaust surj_pair)
  define tr1 where "tr1 = resolve_all rs tr"
  have tr1: "failing (length rs) tr1" "same_setup tr1 tr"
    using failing_run [of 0 tr rs] tr assms(1,2,4) by (auto simp: tr1_def reqs)
  have run: "resolve_all reqs (node_tracker_new urls cfg) = resolve_all reqs tr"
    using assms(3) resolve_ensured [of "node_tracker_new urls cfg"]
    by (cases reqs) (simp_all add: tr_def node_tracker_new_def split_beta)
  have "same_setup (resolve_all reqs tr) tr1"
    using failing_call [OF tr1(1), of N missing] tr tr1(2) assms(1,4) by (auto simp: reqs tr1_def same_setup_def)
  then have urls: "nt_urls (resolve_all reqs tr) = urls"
    using tr1(2) tr(2) by (simp add: same_setup_def)
  have "\<not> node_open_to (ne_start M) (nt_nodes (resolve_all reqs tr)) u" if "u \<in> set urls" for u
    using failing_opens [OF tr1(1), of N missing "ne_start M" u] that tr tr1(2) assms
    by (simp add: reqs tr1_def same_setup_def)
  then have none: "fst (select_nodes R (ne_start M) (resolve_all reqs (node_tracker_new urls cfg))) = []" for R
    unfolding run by (intro select_none) (simp add: urls)
  then show ?thesis
    using none [of "ne_round M"] by (simp add: resolve_from_nodes_with_tracking_def split_beta)
qed

section \<open>Witnesses\<close>

definition demo_absent :: node_env where
  "demo_absent = \<lparr>ne_round = id, ne_start = 0, ne_answer = \<lambda>_ _. Some \<lparr>na_status = 404, na_content_type = None,
     na_content_length = None, na_body = None\<rparr>, ne_now = \<lambda>_. 5, ne_took = \<lambda>_. 1\<rparr>"

theorem missing_content_excludes_nodes_witness:
  "fst (select_nodes id 7 (resolve_all (replicate 3 (demo_absent, ''absent''))
     (node_tracker_new [''http://a'', ''http://b''] node_health_config_default))) = []"
proof -
  have reqs: "length (replicate 3 (demo_absent, ''absent'')) = unat (hc_circuit_breaker_threshold node_health_config_default)"
    "replicate 3 (demo_absent, ''absent'') \<noteq> []"
    by (simp_all add: node_health_config_default_def)
  have "\<forall>(N, missing)\<in>set (replicate 3 (demo_absent, ''absent'')). nowhere N [''http://a'', ''http://b''] missing"
    by (simp add: nowhere_def refused_def demo_absent_def is_success_def)
  moreover have "\<forall>(N, missing)\<in>set (replicate 3 (demo_absent, ''absent'')). \<forall>j.
      elapsed (ne_start (demo_absent\<lparr>ne_start := 7\<rparr>)) (ne_now N j) <
      from_secs (unat (hc_circuit_breaker_reset_seconds node_health_config_default))"
    by (simp add: demo_absent_def elapsed_def from_secs_def node_health_config_default_def)
  moreover have "distinct [''http://a'', ''http://b'']"
    by simp
  ultimately show ?thesis
    using missing_content_excludes_nodes [OF _ reqs, of _ "demo_absent\<lparr>ne_start := 7\<rparr>" id] by simp
qed

end
