(* ===== verification/IpfsStorage.thy ===== *)
theory IpfsStorage
  imports CidPath
begin

text \<open>
  The IPFS storage layer, \<open>protocol/src/storage.rs\<close>: the client of the IPFS HTTP API with its validated
  path, the retries with exponential backoff, directory uploads and pins. The IPFS node is a
  parameter: \<open>ip_post i url body\<close> is what becomes of the \<open>i\<close>-th request of a call, \<open>None\<close> when there is no
  answer within the timeout of the attempt. Logging and the clock are left out: a call yields what it
  returns and how long it slept between attempts.
\<close>

section \<open>The HTTP API\<close>

record storage_config =
  so_api_url :: string
  so_timeout :: duration
  so_retry_attempts :: u32

definition storage_config_default :: storage_config where
  "storage_config_default = \<lparr>so_api_url = ''http://127.0.0.1:5001'', so_timeout = from_secs 30, so_retry_attempts = 3\<rparr>"

record add_response =
  ad_name :: string
  ad_hash :: string
  ad_size :: string

datatype ipfs_body = NoBody | Parts "(string \<times> bytes) list"

record ipfs_answer =
  ia_status :: nat
  ia_body :: bytes

record ipfs_env =
  ip_post :: "nat \<Rightarrow> string \<Rightarrow> ipfs_body \<Rightarrow> (string + ipfs_answer) option"
  ip_version :: "bytes \<Rightarrow> string + string"
  ip_add_response :: "bytes \<Rightarrow> string + add_response"
  ip_lines :: "bytes \<Rightarrow> string list"
  ip_line_response :: "string \<Rightarrow> string + add_response"
  ip_text :: "bytes \<Rightarrow> string"
  ip_draw :: "nat \<Rightarrow> nat \<Rightarrow> nat"

text \<open>A request whose outcome is a value or an error; \<open>?\<close> passes a transport error on.\<close>

definition posted ::
    "ipfs_env \<Rightarrow> nat \<Rightarrow> string \<Rightarrow> ipfs_body \<Rightarrow> (ipfs_answer \<Rightarrow> string + 'a) \<Rightarrow> (string + 'a) option" where
  "posted I i url body k = map_option (\<lambda>r. case r of Inl e \<Rightarrow> Inl e | Inr a \<Rightarrow> k a) (ip_post I i url body)"

definition ipfs_client_new :: "string \<Rightarrow> string" where
  "ipfs_client_new base_url = trim_end_slashes base_url"

definition ipfs_version :: "ipfs_env \<Rightarrow> nat \<Rightarrow> string \<Rightarrow> (string + string) option" where
  "ipfs_version I i base = posted I i (base @ ''/api/v0/version'') NoBody (\<lambda>a. ip_version I (ia_body a))"

definition ipfs_add_file :: "ipfs_env \<Rightarrow> nat \<Rightarrow> string \<Rightarrow> string \<Rightarrow> bytes \<Rightarrow> (string + add_response) option" where
  "ipfs_add_file I i base nm data =
     posted I i (base @ ''/api/v0/add'') (Parts [(nm, data)]) (\<lambda>a. ip_add_response I (ia_body a))"

definition ipfs_add :: "ipfs_env \<Rightarrow> nat \<Rightarrow> string \<Rightarrow> bytes \<Rightarrow> (string + add_response) option" where
  "ipfs_add I i base data = ipfs_add_file I i base ''file'' data"

text \<open>The status of the answer is not looked at.\<close>

definition ipfs_cat :: "ipfs_env \<Rightarrow> nat \<Rightarrow> string \<Rightarrow> string \<Rightarrow> (string + bytes) option" where
  "ipfs_cat I i base cid =
     (case cat_url base cid of
        Inl e \<Rightarrow> Some (Inl (cid_validation_error_text e))
      | Inr url \<Rightarrow> posted I i url NoBody (\<lambda>a. Inr (ia_body a)))"

definition http_ok :: "ipfs_answer \<Rightarrow> bool" where
  "http_ok a \<longleftrightarrow> 200 \<le> ia_status a \<and> ia_status a < 300"

definition pin_add :: "ipfs_env \<Rightarrow> nat \<Rightarrow> string \<Rightarrow> string \<Rightarrow> (string + unit) option" where
  "pin_add I i base cid = posted I i (base @ ''/api/v0/pin/add?arg='' @ cid) NoBody
     (\<lambda>a. if http_ok a then Inr () else Inl (''IPFS pin/add failed: '' @ ip_text I (ia_body a)))"

definition pin_rm :: "ipfs_env \<Rightarrow> nat \<Rightarrow> string \<Rightarrow> string \<Rightarrow> (string + unit) option" where
  "pin_rm I i base cid = posted I i (base @ ''/api/v0/pin/rm?arg='' @ cid) NoBody
     (\<lambda>a. if http_ok a then Inr () else Inl (''IPFS pin/rm failed: '' @ ip_text I (ia_body a)))"

definition pin_ls :: "ipfs_env \<Rightarrow> nat \<Rightarrow> string \<Rightarrow> string \<Rightarrow> (string + bool) option" where
  "pin_ls I i base cid = posted I i (base @ ''/api/v0/pin/ls?arg='' @ cid) NoBody (\<lambda>a. Inr (http_ok a))"

text \<open>One line of JSON per file; blank lines are skipped and the first bad line is the error.\<close>

definition is_white :: "string \<Rightarrow> bool" where
  "is_white c \<longleftrightarrow> c \<in> {[CHR '' ''], [CHR 0x09], [CHR 0x0A], [CHR 0x0B], [CHR 0x0C], [CHR 0x0D],
     [CHR 0xC2, CHR 0x85], [CHR 0xC2, CHR 0xA0], [CHR 0xE1, CHR 0x9A, CHR 0x80],
     [CHR 0xE2, CHR 0x80, CHR 0xA8], [CHR 0xE2, CHR 0x80, CHR 0xA9], [CHR 0xE2, CHR 0x80, CHR 0xAF],
     [CHR 0xE2, CHR 0x81, CHR 0x9F], [CHR 0xE3, CHR 0x80, CHR 0x80]} \<or>
     length c = 3 \<and> take 2 c = [CHR 0xE2, CHR 0x80] \<and> code (c ! 2) \<in> {0x80..0x8A}"

definition is_blank :: "string \<Rightarrow> bool" where
  "is_blank l \<longleftrightarrow> list_all is_white (rust_chars l)"

definition parse_lines :: "ipfs_env \<Rightarrow> string list \<Rightarrow> string + add_response list" where
  "parse_lines I ls = try_fold (\<lambda>l acc. map_sum id (\<lambda>r. acc @ [r]) (ip_line_response I l))
     (filter (\<lambda>l. \<not> is_blank l) ls) []"

definition add_directory :: "ipfs_env \<Rightarrow> nat \<Rightarrow> string \<Rightarrow> (string \<times> bytes) list \<Rightarrow> (string + add_response list) option" where
  "add_directory I i base files =
     posted I i (base @ ''/api/v0/add?wrap-with-directory=true&pin=true'') (Parts files)
       (\<lambda>a. parse_lines I (ip_lines I (ia_body a)))"

section \<open>Backoff\<close>

definition sat64 :: "nat \<Rightarrow> nat" where "sat64 n = min n (2 ^ 64 - 1)"

text \<open>The most an attempt may be followed by, in milliseconds; the delay is drawn between 0 and that.\<close>

definition capped_delay :: "nat \<Rightarrow> nat" where
  "capped_delay attempt = min (sat64 (100 * sat64 (2 ^ (attempt - 1)))) 10000"

definition calculate_backoff_delay :: "ipfs_env \<Rightarrow> nat \<Rightarrow> duration" where
  "calculate_backoff_delay I attempt = 1000000 * ip_draw I attempt (capped_delay attempt)"

section \<open>The storage layer\<close>

text \<open>The retry loop of \<open>store_content\<close> and \<open>retrieve_content\<close>: \<open>n\<close> attempts are left, the next is \<open>attempt\<close>.\<close>

fun retry_from ::
    "ipfs_env \<Rightarrow> (nat \<Rightarrow> (string + 'a) option) \<Rightarrow> string \<Rightarrow> nat \<Rightarrow> nat \<Rightarrow> string \<Rightarrow> (string + 'a) \<times> duration list" where
  "retry_from I op timed_out attempt 0 last_error = (Inl last_error, [])"
| "retry_from I op timed_out attempt (Suc n) last_error =
     (case op attempt of
        Some (Inr x) \<Rightarrow> (Inr x, [])
      | failed \<Rightarrow>
          (let e = (case failed of Some (Inl e) \<Rightarrow> e | _ \<Rightarrow> timed_out);
               slept = (if n > 0 then [calculate_backoff_delay I attempt] else [])
           in case retry_from I op timed_out (attempt + 1) n e of (r, ds) \<Rightarrow> (r, slept @ ds)))"

definition with_retries ::
    "ipfs_env \<Rightarrow> storage_config \<Rightarrow> (nat \<Rightarrow> (string + 'a) option) \<Rightarrow> string \<Rightarrow> (string + 'a) \<times> duration list" where
  "with_retries I cfg op timed_out = retry_from I op timed_out 1 (unat (so_retry_attempts cfg)) ''Unknown error''"

definition storage_with_config :: "ipfs_env \<Rightarrow> storage_config \<Rightarrow> string + string" where
  "storage_with_config I cfg =
     (let base = ipfs_client_new (so_api_url cfg) in
      case ipfs_version I 0 base of
        Some (Inr version) \<Rightarrow> Inr base
      | failed \<Rightarrow> Inl (''Failed to connect to IPFS at '' @ so_api_url cfg @ '': '' @
          (case failed of Some (Inl e) \<Rightarrow> e | _ \<Rightarrow> ''operation timed out'')))"

definition store_content :: "ipfs_env \<Rightarrow> storage_config \<Rightarrow> string \<Rightarrow> bytes \<Rightarrow> (string + string) \<times> duration list" where
  "store_content I cfg base data =
     with_retries I cfg (\<lambda>i. map_option (map_sum id ad_hash) (ipfs_add I i base data)) ''IPFS operation timed out''"

text \<open>\<open>{:?}\<close> of the timeout is the text \<open>shown\<close>.\<close>

definition retrieve_content ::
    "ipfs_env \<Rightarrow> storage_config \<Rightarrow> string \<Rightarrow> string \<Rightarrow> string \<Rightarrow> (string + bytes) \<times> duration list" where
  "retrieve_content I cfg shown base cid =
     with_retries I cfg (\<lambda>i. ipfs_cat I i base cid) (''IPFS operation timed out after '' @ shown)"

text \<open>
  A directory: \<open>None\<close> when the path does not exist or is none; otherwise its regular files in the order of the
  walk, relative to it, with what reading each gives.
\<close>

record uploaded_file =
  uf_name :: string
  uf_hash :: string
  uf_size :: u64

record directory_upload =
  du_root_cid :: string
  du_files :: "uploaded_file list"
  du_total_size :: u64

datatype dir_state = Missing | NotDirectory | Walked "(string \<times> (string + bytes)) list"

definition root_of :: "add_response list \<Rightarrow> string" where
  "root_of results =
     (case find (\<lambda>r. ad_name r = []) (rev results) of
        Some r \<Rightarrow> ad_hash r
      | None \<Rightarrow> (case rev results of [] \<Rightarrow> [] | r # _ \<Rightarrow> ad_hash r))"

definition upload_result :: "add_response list \<Rightarrow> directory_upload" where
  "upload_result results =
     (let files = map (\<lambda>r. \<lparr>uf_name = ad_name r, uf_hash = ad_hash r,
            uf_size = (case parse_u64 (ad_size r) of None \<Rightarrow> 0 | Some n \<Rightarrow> n)\<rparr>)
            (filter (\<lambda>r. ad_name r \<noteq> []) results)
      in \<lparr>du_root_cid = root_of results, du_files = files, du_total_size = sum_list (map uf_size files)\<rparr>)"

definition read_entries :: "(string \<times> (string + bytes)) list \<Rightarrow> string + (string \<times> bytes) list" where
  "read_entries entries = try_fold (\<lambda>(p, r) acc. case r of
      Inl e \<Rightarrow> Inl (''Failed to read file '' @ p @ '': '' @ e) | Inr data \<Rightarrow> Inr (acc @ [(p, data)])) entries []"

definition store_directory :: "ipfs_env \<Rightarrow> string \<Rightarrow> string \<Rightarrow> dir_state \<Rightarrow> string + directory_upload" where
  "store_directory I base path dir =
     (case dir of
        Missing \<Rightarrow> Inl (''Directory not found: '' @ path)
      | NotDirectory \<Rightarrow> Inl (''Path is not a directory: '' @ path)
      | Walked entries \<Rightarrow>
          (case read_entries entries of
             Inl e \<Rightarrow> Inl e
           | Inr files \<Rightarrow>
               (case add_directory I 0 base files of
                  None \<Rightarrow> Inl ''Directory upload timed out''
                | Some (Inl e) \<Rightarrow> Inl e
                | Some (Inr results) \<Rightarrow> Inr (upload_result results))))"

section \<open>Retries\<close>

definition failure_text :: "string \<Rightarrow> (string + 'a) option \<Rightarrow> string" where
  "failure_text timed_out r = (case r of Some (Inl e) \<Rightarrow> e | _ \<Rightarrow> timed_out)"

definition succeeded :: "(string + 'a) option \<Rightarrow> bool" where
  "succeeded r \<longleftrightarrow> (case r of Some (Inr _) \<Rightarrow> True | _ \<Rightarrow> False)"

lemma retry_succeeds: "succeeded (op attempt) \<Longrightarrow> retry_from I op t attempt (Suc n) e = (the (op attempt), [])"
  by (auto simp: succeeded_def split: option.splits sum.splits)

lemma retry_fails:
  "\<not> succeeded (op attempt) \<Longrightarrow> retry_from I op t attempt (Suc n) e =
     (case retry_from I op t (attempt + 1) n (failure_text t (op attempt)) of
        (r, ds) \<Rightarrow> (r, (if n > 0 then [calculate_backoff_delay I attempt] else []) @ ds))"
  by (auto simp: succeeded_def failure_text_def Let_def split: option.splits sum.splits prod.splits)

lemma retry_result:
  "fst (retry_from I op t attempt n e) =
     (case find (\<lambda>i. succeeded (op i)) [attempt..<attempt + n] of
        Some i \<Rightarrow> the (op i)
      | None \<Rightarrow> Inl (if n = 0 then e else failure_text t (op (attempt + n - 1))))"
proof (induction n arbitrary: attempt e)
  case 0
  then show ?case by simp
next
  case (Suc n)
  have upt: "[attempt..<attempt + Suc n] = attempt # [attempt + 1..<attempt + 1 + n]"
    by (simp add: upt_conv_Cons del: upt_Suc)
  show ?case
    using Suc.IH [of "attempt + 1" "failure_text t (op attempt)"]
    unfolding upt by (cases "succeeded (op attempt)") (simp_all add: retry_succeeds retry_fails split_beta
        del: retry_from.simps upt_Suc cong: option.case_cong)
qed

lemma retry_slept:
  assumes "\<forall>a c. ip_draw I a c \<le> c"
  shows "sum_list (snd (retry_from I op t attempt n e)) \<le> sum_list (map (\<lambda>a. 1000000 * capped_delay a) [attempt..<attempt + n - 1])"
proof (induction n arbitrary: attempt e)
  case 0
  then show ?case by simp
next
  case (Suc n)
  have le: "calculate_backoff_delay I attempt \<le> 1000000 * capped_delay attempt"
    using assms by (simp add: calculate_backoff_delay_def)
  show ?case
  proof (cases "succeeded (op attempt) \<or> n = 0")
    case True
    then show ?thesis
      by (cases "succeeded (op attempt)") (simp_all add: retry_succeeds retry_fails split_beta del: retry_from.simps(2))
  next
    case False
    then have "[attempt..<attempt + Suc n - 1] = attempt # [attempt + 1..<attempt + 1 + n - 1]"
      by (simp add: upt_conv_Cons del: upt_Suc)
    with False show ?thesis
      using Suc.IH [of "attempt + 1" "failure_text t (op attempt)"] le
      by (simp add: retry_fails split_beta add_mono del: retry_from.simps upt_Suc)
  qed
qed

lemma capped_delay_le: "capped_delay a \<le> 10000"
  by (simp add: capped_delay_def)

lemma sum_list_bounded: "(\<And>x. x \<in> set xs \<Longrightarrow> f x \<le> (c::nat)) \<Longrightarrow> sum_list (map f xs) \<le> c * length xs"
  by (induction xs) (auto simp: algebra_simps intro: add_mono)

text \<open>The retries of the storage layer. A store or a retrieval yields what the first successful attempt yields and,
  if none of the configured attempts succeeds, the error of the last one; between the attempts it sleeps
  at most ten seconds each, so it always returns.\<close>

theorem retries_bounded:
  assumes "\<forall>a c. ip_draw I a c \<le> c"
  shows "let n = unat (so_retry_attempts cfg) in
    fst (with_retries I cfg op t) =
      (case find (\<lambda>i. succeeded (op i)) [1..<n + 1] of
         Some i \<Rightarrow> the (op i) | None \<Rightarrow> Inl (if n = 0 then ''Unknown error'' else failure_text t (op n))) \<and>
    sum_list (snd (with_retries I cfg op t)) \<le> from_secs 10 * (n - 1)"
proof -
  have "1000000 * capped_delay a \<le> 10000000000" for a
    using capped_delay_le [of a] by simp
  then have "sum_list (map (\<lambda>a. 1000000 * capped_delay a) [1..<1 + n - 1]) \<le> 10000000000 * (n - 1)" for n
    using sum_list_bounded [of "[1..<1 + n - 1]" "\<lambda>a. 1000000 * capped_delay a"] by simp
  from order_trans [OF retry_slept [OF assms, of op t 1] this]
  have "sum_list (snd (retry_from I op t 1 n e)) \<le> 10000000000 * (n - 1)" for n e .
  then show ?thesis
    by (simp add: with_retries_def retry_result Let_def from_secs_def add.commute
        del: retry_from.simps upt_Suc cong: option.case_cong)
qed

text \<open>An error answer of the IPFS node is content. Whatever the status, the body of the answer to a request for a
  valid path is what \<open>retrieve_content\<close> returns as the content, at the first attempt.\<close>

theorem error_answer_is_content:
  assumes "validate_cid_path cid = Inr split" "so_retry_attempts cfg \<noteq> 0"
    and "ip_post I 1 (base @ ''/api/v0/cat?arg='' @ cid) NoBody = Some (Inr \<lparr>ia_status = status, ia_body = body\<rparr>)"
  shows "retrieve_content I cfg shown base cid = (Inr body, [])"
proof -
  obtain n where "unat (so_retry_attempts cfg) = Suc n"
    using assms(2) by (metis not0_implies_Suc unat_eq_zero)
  then show ?thesis
    using assms(1,3) by (simp add: retrieve_content_def with_retries_def ipfs_cat_def cat_url_def posted_def)
qed

text \<open>A path that is not valid is not sent to the node, and tried again all the same.\<close>

lemma invalid_path_retried:
  assumes "validate_cid_path cid = Inl e" "so_retry_attempts cfg \<noteq> 0"
  shows "fst (retrieve_content I cfg shown base cid) = Inl (cid_validation_error_text e)"
    and "1 < unat (so_retry_attempts cfg) \<Longrightarrow> snd (retrieve_content I cfg shown base cid) \<noteq> []"
proof -
  obtain n where n: "unat (so_retry_attempts cfg) = Suc n"
    using assms(2) by (metis not0_implies_Suc unat_eq_zero)
  show "fst (retrieve_content I cfg shown base cid) = Inl (cid_validation_error_text e)"
    using assms(1) n by (simp add: retrieve_content_def with_retries_def ipfs_cat_def cat_url_def retry_result
        failure_text_def succeeded_def find_None_iff del: retry_from.simps split: option.split)
  show "snd (retrieve_content I cfg shown base cid) \<noteq> []" if "1 < unat (so_retry_attempts cfg)"
    using assms(1) n that by (simp add: retrieve_content_def with_retries_def ipfs_cat_def cat_url_def split_beta Let_def)
qed

section \<open>Witnesses\<close>

definition demo_ipfs :: ipfs_env where
  "demo_ipfs = \<lparr>ip_post = \<lambda>i url body. Some (Inr \<lparr>ia_status = 500, ia_body = [9]\<rparr>),
     ip_version = \<lambda>_. Inr ''0.1'', ip_add_response = \<lambda>_. Inl ''eof'', ip_lines = \<lambda>_. [], ip_line_response = \<lambda>_. Inl ''eof'',
     ip_text = \<lambda>_. [], ip_draw = \<lambda>a c. c div 2\<rparr>"

theorem retries_bounded_witness:
  "fst (with_retries demo_ipfs storage_config_default (\<lambda>i. if i = 3 then Some (Inr [7::u8]) else None) ''late'') = Inr [7] \<and>
   sum_list (snd (with_retries demo_ipfs storage_config_default (\<lambda>i. if i = 3 then Some (Inr [7::u8]) else None) ''late''))
     \<le> from_secs 20"
proof -
  have "\<forall>a c. ip_draw demo_ipfs a c \<le> c"
    by (simp add: demo_ipfs_def)
  from retries_bounded [OF this, of storage_config_default "\<lambda>i. if i = 3 then Some (Inr [7::u8]) else None" "''late''"]
  show ?thesis
    by (simp add: Let_def storage_config_default_def succeeded_def from_secs_def upt_conv_Cons)
qed

theorem error_answer_is_content_witness:
  "retrieve_content demo_ipfs storage_config_default ''30s''
     ''http://127.0.0.1:5001'' ''QmYwAPJzv5CZsnA625s3Xf2nemtYgPpHdWEz79ojWnPbdG/absent'' = (Inr [9], [])"
proof -
  have "validate_cid_path ''QmYwAPJzv5CZsnA625s3Xf2nemtYgPpHdWEz79ojWnPbdG/absent'' =
      Inr (''QmYwAPJzv5CZsnA625s3Xf2nemtYgPpHdWEz79ojWnPbdG'', Some ''absent'')"
    by code_simp
  from error_answer_is_content [OF this, of storage_config_default] show ?thesis
    by (simp add: storage_config_default_def demo_ipfs_def)
qed

end
