(* ===== verification/GatewayContent.thy ===== *)
theory GatewayContent
  imports GatewayResolver NodeHealth IpfsStorage
begin

text \<open>
  How the gateway serves content, \<open>gateway/src/lib.rs\<close> and the content handlers of \<open>gateway/src/main.rs\<close>: the
  cache, then the P2P network, the node-runners and IPFS behind a circuit breaker; the content type;
  the rewriting of HTML for the path it is served under; the fallbacks to \<open>index.html\<close>.

  The Unicode tables of \<open>to_lowercase\<close>, the decoding of \<open>from_utf8_lossy\<close>, the file signatures of \<open>infer\<close> and the
  header check of axum are parameters, as are the backends. A panic is the value \<open>None\<close>. Prometheus
  metrics and logging are left out.
\<close>

section \<open>Text\<close>

record text_env =
  te_lossy :: "bytes \<Rightarrow> string"
  te_lower :: "string \<Rightarrow> string"
  te_infer :: "bytes \<Rightarrow> string option"
  te_header_ok :: "string \<Rightarrow> bool"

text \<open>\<open>str::replace\<close> and \<open>str::find\<close> with a non-empty pattern; slices and insertions panic inside a code point.\<close>

function str_replace :: "string \<Rightarrow> string \<Rightarrow> string \<Rightarrow> string" where
  "str_replace pat to [] = []"
| "str_replace pat to (c # cs) =
     (if pat \<noteq> [] \<and> starts_with (c # cs) pat then to @ str_replace pat to (drop (length pat) (c # cs))
      else c # str_replace pat to cs)"
  by pat_completeness auto
termination
  by (relation "measure (\<lambda>(pat, to, s). length s)") auto

fun str_find :: "string \<Rightarrow> string \<Rightarrow> nat option" where
  "str_find pat [] = (if pat = [] then Some 0 else None)"
| "str_find pat (c # cs) = (if starts_with (c # cs) pat then Some 0 else map_option Suc (str_find pat cs))"

definition is_char_boundary :: "string \<Rightarrow> nat \<Rightarrow> bool" where
  "is_char_boundary s i \<longleftrightarrow> i = 0 \<or> i = length s \<or> i < length s \<and> \<not> is_continuation (s ! i)"

definition slice_from :: "string \<Rightarrow> nat \<Rightarrow> string option" where
  "slice_from s i = (if is_char_boundary s i then Some (drop i s) else None)"

definition insert_str :: "string \<Rightarrow> nat \<Rightarrow> string \<Rightarrow> string option" where
  "insert_str s i t = (if is_char_boundary s i then Some (take i s @ t @ drop i s) else None)"

definition escape_html :: "string \<Rightarrow> string" where
  "escape_html s =
     str_replace [CHR 0x27] ''&#x27;'' (str_replace [CHR 0x22] ''&quot;'' (str_replace ''>'' ''&gt;''
       (str_replace ''<'' ''&lt;'' (str_replace ''&'' ''&amp;'' s))))"

section \<open>Content types\<close>

definition looks_like_html :: "text_env \<Rightarrow> bytes \<Rightarrow> bool" where
  "looks_like_html T data =
     (let snippet = te_lower T (te_lossy T (take 512 data))
      in str_contains snippet ''<!doctype html'' \<or> str_contains snippet ''<html'')"

text \<open>The extensions after those of HTML, in the order they are tested.\<close>

definition extension_types :: "(string list \<times> string) list" where
  "extension_types =
     [([''.css''], ''text/css''), ([''.js'', ''.mjs'', ''.jsx'', ''.ts''], ''application/javascript''),
      ([''.json'', ''.map''], ''application/json''), ([''.svg''], ''image/svg+xml''), ([''.png''], ''image/png''),
      ([''.jpg'', ''.jpeg''], ''image/jpeg''), ([''.gif''], ''image/gif''), ([''.webp''], ''image/webp''),
      ([''.ico''], ''image/x-icon''), ([''.woff''], ''font/woff''), ([''.woff2''], ''font/woff2''),
      ([''.ttf''], ''font/ttf''), ([''.otf''], ''font/otf''), ([''.wasm''], ''application/wasm''),
      ([''.xml''], ''application/xml''), ([''.mp4''], ''video/mp4''), ([''.webm''], ''video/webm''),
      ([''.mp3''], ''audio/mpeg''), ([''.pdf''], ''application/pdf''), ([''.txt''], ''text/plain''),
      ([''.avif''], ''image/avif'')]"

definition content_type_from_path :: "text_env \<Rightarrow> string \<Rightarrow> bytes \<Rightarrow> string" where
  "content_type_from_path T path data =
     (let lower = te_lower T path in
      if ends_with lower ''.html'' \<or> ends_with lower ''.htm'' \<or> looks_like_html T data then ''text/html''
      else case find (\<lambda>(exts, ty). list_ex (ends_with lower) exts) extension_types of
        Some (exts, ty) \<Rightarrow> ty
      | None \<Rightarrow> (case te_infer T data of Some ty \<Rightarrow> ty | None \<Rightarrow> ''application/octet-stream''))"

section \<open>Rewriting HTML\<close>

text \<open>The position of \<open><head\<close> is found in the lower-case text and used in the original.\<close>

definition insert_base :: "text_env \<Rightarrow> string \<Rightarrow> string \<Rightarrow> string option" where
  "insert_base T base_prefix html =
     (if str_contains (te_lower T html) ''<base '' then Some html
      else case str_find ''<head'' (te_lower T html) of
        None \<Rightarrow> Some html
      | Some head_pos \<Rightarrow>
          Option.bind (slice_from html head_pos) (\<lambda>rest.
            case str_find ''>'' rest of
              None \<Rightarrow> Some html
            | Some end_pos \<Rightarrow> insert_str html (head_pos + end_pos + 1)
                ([CHR 0x0A] @ ''    <base href='' @ [CHR 0x22] @ base_prefix @ [CHR 0x22] @ ''>'')))"

definition attribute_is :: "string \<Rightarrow> string \<Rightarrow> string" where
  "attribute_is attr val = attr @ ''='' @ [CHR 0x22] @ val"

definition rewrite_attribute :: "string \<Rightarrow> string \<Rightarrow> string \<Rightarrow> string" where
  "rewrite_attribute base_prefix attr html =
     (let guard_token = attribute_is attr ''__IPFS_GUARD__/'';
          html1 = str_replace (attribute_is attr ''/ipfs/'') guard_token html;
          html2 = str_replace (attribute_is attr ''/'') (attribute_is attr base_prefix) html1
      in str_replace guard_token (attribute_is attr ''/ipfs/'') html2)"

definition rewrite_html_assets :: "text_env \<Rightarrow> bytes \<Rightarrow> string \<Rightarrow> string option \<Rightarrow> bytes option" where
  "rewrite_html_assets T data content_type base_prefix =
     (if content_type \<noteq> ''text/html'' then Some data
      else case base_prefix of
        None \<Rightarrow> Some data
      | Some b \<Rightarrow>
          (let base = (if ends_with b ''/'' then b else b @ ''/'') in
           map_option (\<lambda>html. str_bytes (fold (rewrite_attribute base) [''href'', ''src'', ''srcset''] html))
             (insert_base T base (te_lossy T data))))"

section \<open>The state and the backends\<close>

record gw_metrics =
  me_requests_total :: u64
  me_requests_success :: u64
  me_requests_error :: u64
  me_bytes_served :: u64

record content_state =
  gs_cache :: content_cache
  gs_breaker :: circuit_breaker
  gs_tracker :: "node_tracker option"
  gs_metrics :: gw_metrics
  gs_cid_requests :: "(string, u64) hmap"
  gs_cid_bytes :: "(string, u64) hmap"
  gs_announced :: "gw_command list"

text \<open>One request: when it comes, when the breaker is asked, when the backends have answered, and what they answer.\<close>

record fetch_env =
  fe_now :: instant
  fe_ask :: instant
  fe_done :: instant
  fe_text :: text_env
  fe_p2p :: "(p2p_settings \<times> loop_replies) option"
  fe_announce :: bool
  fe_node_runners :: "string list"
  fe_nodes :: node_env
  fe_storage :: "(storage_config \<times> string \<times> string) option"
  fe_ipfs :: ipfs_env

datatype reply_body = Whole bytes | Streamed "bytes option"

record http_reply =
  hp_status :: nat
  hp_content_type :: string
  hp_cache :: "string option"
  hp_source :: "string option"
  hp_body :: reply_body

definition increment_requests :: "content_state \<Rightarrow> content_state" where
  "increment_requests s = s\<lparr>gs_metrics := (gs_metrics s)\<lparr>me_requests_total := me_requests_total (gs_metrics s) + 1\<rparr>\<rparr>"

definition increment_error :: "content_state \<Rightarrow> content_state" where
  "increment_error s = s\<lparr>gs_metrics := (gs_metrics s)\<lparr>me_requests_error := me_requests_error (gs_metrics s) + 1\<rparr>\<rparr>"

definition root_cid :: "string \<Rightarrow> string" where
  "root_cid cid = fst (split_once (CHR ''/'') cid)"

definition counter_add :: "string \<Rightarrow> u64 \<Rightarrow> (string, u64) hmap \<Rightarrow> (string, u64) hmap" where
  "counter_add k n m = hm_insert k ((case hm_get m k of None \<Rightarrow> 0 | Some c \<Rightarrow> c) + n) m"

definition record_per_cid :: "string \<Rightarrow> u64 \<Rightarrow> content_state \<Rightarrow> content_state" where
  "record_per_cid cid n s =
     s\<lparr>gs_cid_requests := counter_add (root_cid cid) 1 (gs_cid_requests s),
       gs_cid_bytes := counter_add (root_cid cid) n (gs_cid_bytes s)\<rparr>"

text \<open>What every branch that succeeds counts.\<close>

definition count_served :: "string \<Rightarrow> u64 \<Rightarrow> content_state \<Rightarrow> content_state" where
  "count_served cid n s = record_per_cid cid n (s\<lparr>gs_metrics := (gs_metrics s)
     \<lparr>me_requests_success := me_requests_success (gs_metrics s) + 1,
      me_bytes_served := me_bytes_served (gs_metrics s) + n\<rparr>\<rparr>)"

text \<open>A reply whose content type is no valid header value becomes an error reply.\<close>

definition content_reply :: "text_env \<Rightarrow> string \<Rightarrow> string option \<Rightarrow> string option \<Rightarrow> reply_body \<Rightarrow> http_reply" where
  "content_reply T ty cache source body =
     (if te_header_ok T ty
      then \<lparr>hp_status = 200, hp_content_type = ty, hp_cache = cache, hp_source = source, hp_body = body\<rparr>
      else \<lparr>hp_status = 500, hp_content_type = ''text/plain; charset=utf-8'', hp_cache = None, hp_source = None,
            hp_body = Whole (str_bytes ''failed to parse header value'')\<rparr>)"

definition html_reply :: "nat \<Rightarrow> string \<Rightarrow> http_reply" where
  "html_reply status html = \<lparr>hp_status = status, hp_content_type = ''text/html; charset=utf-8'', hp_cache = None,
     hp_source = None, hp_body = Whole (str_bytes (''<html><body>'' @ html @ ''</body></html>''))\<rparr>"

definition circuit_open_reply :: http_reply where
  "circuit_open_reply = \<lparr>hp_status = 503, hp_content_type = ''application/json'', hp_cache = None, hp_source = None,
     hp_body = Whole (str_bytes (''{'' @ [CHR 0x22] @ ''code'' @ [CHR 0x22] @ '':'' @ [CHR 0x22] @ ''CIRCUIT_OPEN'' @ [CHR 0x22] @
       '','' @ [CHR 0x22] @ ''error'' @ [CHR 0x22] @ '':'' @ [CHR 0x22] @ ''IPFS service temporarily unavailable'' @ [CHR 0x22] @
       '','' @ [CHR 0x22] @ ''retry_after_seconds'' @ [CHR 0x22] @ '':30}''))\<rparr>"

section \<open>Fetching\<close>

text \<open>Content found at a backend is rewritten, kept in the cache, announced to peers where the branch does so,
  counted and returned.\<close>

definition announced :: "fetch_env \<Rightarrow> bool \<Rightarrow> string \<Rightarrow> bytes \<Rightarrow> string \<Rightarrow> gw_command list" where
  "announced F announce cid data ty =
     (if announce \<and> fe_p2p F \<noteq> None \<and> fe_announce F
      then [GwAnnounceContent cid [cid] (word_of_nat (length data)) ty] else [])"

definition keep_and_reply ::
    "fetch_env \<Rightarrow> string \<Rightarrow> string option \<Rightarrow> bool \<Rightarrow> string option \<Rightarrow> bytes \<Rightarrow> string \<Rightarrow> content_state \<Rightarrow>
      http_reply option \<times> content_state" where
  "keep_and_reply F cid base_prefix announce source data ty s =
     (case rewrite_html_assets (fe_text F) data ty base_prefix of
        None \<Rightarrow> (None, s)
      | Some page \<Rightarrow>
          (Some (content_reply (fe_text F) ty (Some ''MISS'') source (Whole page)),
           count_served cid (word_of_nat (length page))
             (s\<lparr>gs_cache := cache_set (fe_done F) cid page ty (gs_cache s),
                gs_announced := gs_announced s @ announced F announce cid page ty\<rparr>)))"

definition resolved_type :: "text_env \<Rightarrow> string \<Rightarrow> string \<Rightarrow> bytes \<Rightarrow> string" where
  "resolved_type T cid mime data = (if mime = [] then content_type_from_path T cid data else mime)"

definition serve_cached :: "fetch_env \<Rightarrow> string \<Rightarrow> bytes \<Rightarrow> string \<Rightarrow> content_state \<Rightarrow> http_reply option \<times> content_state" where
  "serve_cached F cid data ty s =
     (Some (content_reply (fe_text F) ty (Some ''HIT'') None (Whole data)), count_served cid (word_of_nat (length data)) s)"

definition serve_from_p2p :: "fetch_env \<Rightarrow> string \<Rightarrow> resolved_content option" where
  "serve_from_p2p F cid =
     (case fe_p2p F of
        None \<Rightarrow> None
      | Some (st, L) \<Rightarrow> (case resolve_content L st cid of Inl _ \<Rightarrow> None | Inr r \<Rightarrow> Some r))"

definition ask_nodes :: "fetch_env \<Rightarrow> string \<Rightarrow> content_state \<Rightarrow> node_content option \<times> content_state" where
  "ask_nodes F cid s =
     (if fe_node_runners F = [] then (None, s)
      else case gs_tracker s of
        Some tr \<Rightarrow> (case resolve_from_nodes_with_tracking (fe_nodes F) cid tr of (r, tr1) \<Rightarrow> (r, s\<lparr>gs_tracker := Some tr1\<rparr>))
      | None \<Rightarrow> (resolve_from_nodes_adaptive (fe_nodes F) (fe_node_runners F) cid 0, s))"

definition serve_from_node :: "fetch_env \<Rightarrow> string \<Rightarrow> string option \<Rightarrow> node_content \<Rightarrow> content_state \<Rightarrow> http_reply option \<times> content_state" where
  "serve_from_node F cid base_prefix content s =
     (case content of
        Buffered data mime \<Rightarrow>
          keep_and_reply F cid base_prefix False (Some ''NODE'') data (resolved_type (fe_text F) cid mime data) s
      | Streaming body mime n \<Rightarrow>
          (let ty = (if mime = [] then ''application/octet-stream'' else mime) in
           (Some (if te_header_ok (fe_text F) ty
                  then content_reply (fe_text F) ty (Some ''MISS'') (Some ''NODE-STREAM'') (Streamed body)
                  else \<lparr>hp_status = 500, hp_content_type = [], hp_cache = None, hp_source = None, hp_body = Whole []\<rparr>),
            count_served cid n s)))"

definition fetch_from_ipfs :: "fetch_env \<Rightarrow> string \<Rightarrow> string option \<Rightarrow> content_state \<Rightarrow> http_reply option \<times> content_state" where
  "fetch_from_ipfs F cid base_prefix s =
     (case allow_request (fe_ask F) (gs_breaker s) of
        (False, b) \<Rightarrow> (Some circuit_open_reply, increment_error (s\<lparr>gs_breaker := b\<rparr>))
      | (True, b) \<Rightarrow>
          (let s1 = s\<lparr>gs_breaker := b\<rparr> in
           case fe_storage F of
             None \<Rightarrow> (Some (html_reply 503 ''<h1>IPFS Not Connected</h1>''), increment_error s1)
           | Some (cfg, shown, base) \<Rightarrow>
               (case fst (retrieve_content (fe_ipfs F) cfg shown base cid) of
                  Inr data \<Rightarrow>
                    keep_and_reply F cid base_prefix True None data (content_type_from_path (fe_text F) cid data)
                      (s1\<lparr>gs_breaker := record_success b\<rparr>)
                | Inl e \<Rightarrow>
                    (Some (html_reply 404 (''<h1>Not Found</h1><p>'' @ escape_html e @ ''</p>'')),
                     increment_error (s1\<lparr>gs_breaker := record_failure (fe_done F) b\<rparr>)))))"

definition fetch_content :: "fetch_env \<Rightarrow> string \<Rightarrow> string option \<Rightarrow> content_state \<Rightarrow> http_reply option \<times> content_state" where
  "fetch_content F cid base_prefix s0 =
     (let s = increment_requests s0 in
      case cache_get (fe_now F) cid (gs_cache s) of
        (Some (data, ty), cache) \<Rightarrow> serve_cached F cid data ty (s\<lparr>gs_cache := cache\<rparr>)
      | (None, cache) \<Rightarrow>
          (let s1 = s\<lparr>gs_cache := cache\<rparr> in
           case serve_from_p2p F cid of
             Some r \<Rightarrow>
               keep_and_reply F cid base_prefix True (Some ''P2P'') (rc_data r)
                 (resolved_type (fe_text F) cid (rc_mime_type r) (rc_data r)) s1
           | None \<Rightarrow>
               (case ask_nodes F cid s1 of
                  (Some content, s2) \<Rightarrow> serve_from_node F cid base_prefix content s2
                | (None, s2) \<Rightarrow> fetch_from_ipfs F cid base_prefix s2)))"

section \<open>Handlers\<close>

text \<open>A panic in the handler's task ends the request; the state keeps what was changed before.\<close>

definition then_reply ::
    "http_reply option \<times> content_state \<Rightarrow> (http_reply \<Rightarrow> content_state \<Rightarrow> http_reply option \<times> content_state) \<Rightarrow>
      http_reply option \<times> content_state" where
  "then_reply r k = (case r of (None, s) \<Rightarrow> (None, s) | (Some reply, s) \<Rightarrow> k reply s)"

definition served_as_is :: "string list \<Rightarrow> http_reply \<Rightarrow> bool" where
  "served_as_is types reply \<longleftrightarrow> list_ex (str_contains (hp_content_type reply)) types"

definition page_types :: "string list" where
  "page_types = [''text/html'', ''application/javascript'', ''text/css'']"

text \<open>The second fetch of a request meets its own clock and backends: \<open>F2\<close>.\<close>

definition ipfs_content_path_handler ::
    "fetch_env \<Rightarrow> fetch_env \<Rightarrow> string \<Rightarrow> content_state \<Rightarrow> http_reply option \<times> content_state" where
  "ipfs_content_path_handler F F2 path s =
     (case validate_content_path path of
        Inl e \<Rightarrow> (Some (html_reply 400 (''<h1>Bad Request</h1><p>'' @ escape_html (cid_validation_error_text e) @ ''</p>'')), s)
      | Inr (cid, subpath) \<Rightarrow>
          (let base_prefix = Some (''/ipfs/'' @ cid @ ''/''); index_path = cid @ ''/index.html'' in
           case subpath of
             None \<Rightarrow>
               then_reply (fetch_content F cid base_prefix s) (\<lambda>reply s1.
                 if served_as_is page_types reply then (Some reply, s1) else fetch_content F2 index_path base_prefix s1)
           | Some sub \<Rightarrow>
               then_reply (fetch_content F path base_prefix s) (\<lambda>reply s1.
                 if hp_status reply = 404 \<and> CHR ''.'' \<notin> set sub then fetch_content F2 index_path base_prefix s1
                 else (Some reply, s1))))"

text \<open>
  The handlers at the root of the gateway, for requests that are neither names, nor served by a process or an
  edge function; \<open>None\<close> on the outside is the embedded dashboard.
\<close>

definition content_or_spa ::
    "fetch_env \<Rightarrow> fetch_env \<Rightarrow> string \<Rightarrow> content_state \<Rightarrow> (http_reply option \<times> content_state) option" where
  "content_or_spa F F2 cid s =
     (if validate_cid cid then
        (let base_prefix = Some (''/'' @ cid @ ''/'') in
         Some (then_reply (fetch_content F cid base_prefix s) (\<lambda>reply s1.
           if served_as_is (page_types @ [''image/'']) reply then (Some reply, s1)
           else fetch_content F2 (cid @ ''/index.html'') base_prefix s1)))
      else None)"

definition content_subpath ::
    "fetch_env \<Rightarrow> fetch_env \<Rightarrow> string \<Rightarrow> string \<Rightarrow> content_state \<Rightarrow> (http_reply option \<times> content_state) option" where
  "content_subpath F F2 nm path s =
     (let full_path = nm @ ''/'' @ path; base_prefix = Some (''/'' @ nm @ ''/'') in
      case validate_content_path full_path of
        Inl _ \<Rightarrow> None
      | Inr _ \<Rightarrow>
          Some (then_reply (fetch_content F full_path base_prefix s) (\<lambda>reply s1.
            if hp_status reply = 404 \<and> CHR ''.'' \<notin> set path then fetch_content F2 (nm @ ''/index.html'') base_prefix s1
            else (Some reply, s1))))"

end
