(* ===== verification/GatewayContentSafety.thy ===== *)
theory GatewayContentSafety
  imports GatewayContent
begin

text \<open>
  What the gateway serves: where every page comes from, and what requests do to one another through the shared
  cache and the shared circuit breaker.
\<close>

section \<open>Where pages come from\<close>

definition node_gave :: "node_env \<Rightarrow> string \<Rightarrow> bytes \<Rightarrow> bool" where
  "node_gave N cid data \<longleftrightarrow> (\<exists>i url resp mime. ne_answer N i (download_url url cid) = Some resp \<and>
     is_success (na_status resp) \<and> node_content_of resp = Some (Buffered data mime))"

definition backend_gave :: "fetch_env \<Rightarrow> string \<Rightarrow> bytes \<Rightarrow> bool" where
  "backend_gave F cid data \<longleftrightarrow>
     (\<exists>r. serve_from_p2p F cid = Some r \<and> rc_data r = data) \<or> node_gave (fe_nodes F) cid data \<or>
     (\<exists>cfg shown base. fe_storage F = Some (cfg, shown, base) \<and>
        fst (retrieve_content (fe_ipfs F) cfg shown base cid) = Inr data)"

type_synonym content_request = "fetch_env \<times> string \<times> string option"

definition from_backend :: "content_request set \<Rightarrow> string \<Rightarrow> bytes \<Rightarrow> string \<Rightarrow> bool" where
  "from_backend S cid page ty \<longleftrightarrow> (\<exists>F b data. (F, cid, b) \<in> S \<and> backend_gave F cid data \<and>
     rewrite_html_assets (fe_text F) data ty b = Some page)"

definition cache_from :: "content_request set \<Rightarrow> content_state \<Rightarrow> bool" where
  "cache_from S s \<longleftrightarrow> hm_wf (cc_entries (gs_cache s)) \<and>
     (\<forall>cid e. hm_get (cc_entries (gs_cache s)) cid = Some e \<longrightarrow> from_backend S cid (ca_data e) (ca_content_type e))"

definition reply_from :: "content_request set \<Rightarrow> string \<Rightarrow> http_reply \<Rightarrow> bool" where
  "reply_from S cid reply \<longleftrightarrow> (case hp_body reply of
     Whole page \<Rightarrow> hp_status reply = 200 \<longrightarrow> from_backend S cid page (hp_content_type reply) | Streamed _ \<Rightarrow> True)"

definition fetched_from :: "content_request set \<Rightarrow> string \<Rightarrow> http_reply option \<times> content_state \<Rightarrow> bool" where
  "fetched_from S cid r \<longleftrightarrow> cache_from S (snd r) \<and> (\<forall>reply. fst r = Some reply \<longrightarrow> reply_from S cid reply)"

lemma cache_from_cong:
  "gs_cache s' = gs_cache s \<Longrightarrow> cache_from S s' = cache_from S s"
  by (simp add: cache_from_def)

lemma gs_cache_simps [simp]:
  "gs_cache (increment_requests s) = gs_cache s" "gs_cache (increment_error s) = gs_cache s"
  "gs_cache (count_served cid n s) = gs_cache s" "gs_cache (record_per_cid cid n s) = gs_cache s"
  by (simp_all add: increment_requests_def increment_error_def count_served_def record_per_cid_def)

lemma reply_from_content: "from_backend S cid page ty \<Longrightarrow> reply_from S cid (content_reply T ty c src (Whole page))"
  by (simp add: reply_from_def content_reply_def)

lemma cache_from_set:
  assumes "cache_from S s" "from_backend S cid page ty"
  shows "cache_from S (s\<lparr>gs_cache := cache_set now cid page ty (gs_cache s)\<rparr>)"
  using assms made_room [of "gs_cache s" now]
  by (auto simp: cache_from_def cache_set_def cache_set_eq split: if_splits)

lemma keep_fetched:
  assumes "cache_from S s" "(F, cid, b) \<in> S" "backend_gave F cid data"
  shows "fetched_from S cid (keep_and_reply F cid b a src data ty s)"
proof (cases "rewrite_html_assets (fe_text F) data ty b")
  case None
  with assms(1) show ?thesis by (simp add: keep_and_reply_def fetched_from_def)
next
  case (Some page)
  then have "from_backend S cid page ty"
    using assms(2,3) by (auto simp: from_backend_def)
  with Some cache_from_set [OF assms(1) this] show ?thesis
    by (simp add: keep_and_reply_def fetched_from_def reply_from_content cache_from_def)
qed

lemma other_reply: "hp_status reply \<noteq> 200 \<Longrightarrow> reply_from S cid reply"
  by (simp add: reply_from_def split: reply_body.split)

lemma adaptive_gave:
  "resolve_from_nodes_adaptive N urls cid i = Some (Buffered data mime) \<Longrightarrow> node_gave N cid data"
  by (induction N urls cid i rule: resolve_from_nodes_adaptive.induct)
     (auto simp: node_gave_def split: option.splits if_splits)

lemma tracked_gave:
  "fst (resolve_tracked N urls cid i tr) = Some (Buffered data mime) \<Longrightarrow> node_gave N cid data"
  by (induction N urls cid i tr rule: resolve_tracked.induct)
     (auto simp: node_gave_def Let_def split: option.splits if_splits)

lemma ask_nodes_gave:
  assumes "ask_nodes F cid s = (r, s')"
  shows "gs_cache s' = gs_cache s" "r = Some (Buffered data mime) \<Longrightarrow> node_gave (fe_nodes F) cid data"
  using assms adaptive_gave tracked_gave
  by (auto simp: ask_nodes_def resolve_from_nodes_with_tracking_def split: if_splits option.splits prod.splits
      dest: arg_cong [where f = fst])

lemma serve_from_node_fetched:
  assumes "cache_from S s" "(F, cid, b) \<in> S" "\<And>data mime. content = Buffered data mime \<Longrightarrow> node_gave (fe_nodes F) cid data"
  shows "fetched_from S cid (serve_from_node F cid b content s)"
proof (cases content)
  case (Buffered data mime)
  then show ?thesis
    using assms by (auto simp: serve_from_node_def backend_gave_def intro!: keep_fetched)
next
  case (Streaming body mime n)
  then show ?thesis
    using assms(1) by (auto simp: serve_from_node_def fetched_from_def reply_from_def content_reply_def Let_def cache_from_def)
qed

lemma ipfs_fetched:
  assumes "cache_from S s" "(F, cid, b) \<in> S"
  shows "fetched_from S cid (fetch_from_ipfs F cid b s)"
proof -
  have other: "fetched_from S cid (Some r, increment_error (s\<lparr>gs_breaker := x\<rparr>))" if "hp_status r \<noteq> 200" for r x
    using assms(1) other_reply [OF that] by (simp add: fetched_from_def cache_from_def)
  have "fetched_from S cid (keep_and_reply F cid b True None data ty (s\<lparr>gs_breaker := x\<rparr>))"
    if "fe_storage F = Some (cfg, shown, base)" "fst (retrieve_content (fe_ipfs F) cfg shown base cid) = Inr data"
    for data ty x cfg shown base
    using that assms by (intro keep_fetched) (auto simp: backend_gave_def cache_from_def)
  then show ?thesis
    by (auto simp: fetch_from_ipfs_def Let_def html_reply_def circuit_open_reply_def intro!: other
        split: prod.split bool.split option.split sum.split)
qed

lemma fetch_miss:
  assumes "fst (cache_get (fe_now F) cid (gs_cache s)) = None"
  shows "fetch_content F cid b s = (case serve_from_p2p F cid of
      Some r \<Rightarrow> keep_and_reply F cid b True (Some ''P2P'') (rc_data r)
        (resolved_type (fe_text F) cid (rc_mime_type r) (rc_data r)) (increment_requests s)
    | None \<Rightarrow> (case ask_nodes F cid (increment_requests s) of
        (Some content, s2) \<Rightarrow> serve_from_node F cid b content s2
      | (None, s2) \<Rightarrow> fetch_from_ipfs F cid b s2))"
proof -
  have "cache_get (fe_now F) cid (gs_cache s) = (None, gs_cache s)"
    using assms by (auto simp: cache_get_def split: option.splits if_splits)
  then show ?thesis
    by (cases s) (simp add: fetch_content_def increment_requests_def Let_def cong: option.case_cong)
qed

lemma fetch_fetched:
  assumes "cache_from S s" "(F, cid, b) \<in> S"
  shows "fetched_from S cid (fetch_content F cid b s)"
proof -
  define s0 where "s0 = increment_requests s"
  have s0: "cache_from S s0"
    using assms(1) by (simp add: s0_def cache_from_def)
  show ?thesis
  proof (cases "cache_get (fe_now F) cid (gs_cache s0)")
    case (Pair r cache)
    show ?thesis
    proof (cases r)
      case (Some hit)
      obtain data ty where hit: "hit = (data, ty)" by fastforce
      obtain e where e: "hm_get (cc_entries (gs_cache s0)) cid = Some e" "data = ca_data e" "ty = ca_content_type e"
        "cache = (gs_cache s0)\<lparr>cc_entries := hm_insert cid (e\<lparr>ca_last_accessed := fe_now F\<rparr>) (cc_entries (gs_cache s0))\<rparr>"
        using Pair Some hit by (auto simp: cache_get_def split: option.splits if_splits)
      then have "from_backend S cid data ty" "cache_from S (s0\<lparr>gs_cache := cache\<rparr>)"
        using s0 by (auto simp: cache_from_def)
      then show ?thesis
        using Pair Some hit by (simp add: fetch_content_def s0_def [symmetric] serve_cached_def fetched_from_def
            reply_from_content cache_from_def Let_def)
    next
      case None
      have fetch: "fetch_content F cid b s = (case serve_from_p2p F cid of
          Some r \<Rightarrow> keep_and_reply F cid b True (Some ''P2P'') (rc_data r)
            (resolved_type (fe_text F) cid (rc_mime_type r) (rc_data r)) s0
        | None \<Rightarrow> (case ask_nodes F cid s0 of
            (Some content, s2) \<Rightarrow> serve_from_node F cid b content s2
          | (None, s2) \<Rightarrow> fetch_from_ipfs F cid b s2))"
        using Pair None fetch_miss [of F cid s b] by (simp add: s0_def cong: option.case_cong)
      show ?thesis
      proof (cases "serve_from_p2p F cid")
        case (Some r)
        then show ?thesis
          using s0 assms(2) by (auto simp: fetch backend_gave_def intro!: keep_fetched)
      next
        case None
        obtain r s2 where ask: "ask_nodes F cid s0 = (r, s2)" by fastforce
        then have "cache_from S s2"
          using ask_nodes_gave(1) s0 cache_from_cong by metis
        then show ?thesis
          using None ask ask_nodes_gave(2) [OF ask] assms(2)
          by (cases r) (auto simp: fetch intro!: serve_from_node_fetched ipfs_fetched)
      qed
    qed
  qed
qed

definition fetch_step :: "content_request \<Rightarrow> content_state \<Rightarrow> content_state" where
  "fetch_step r s = (case r of (F, cid, b) \<Rightarrow> snd (fetch_content F cid b s))"

interpretation content: guarded_machine fetch_step "\<lambda>r. r \<in> S" "cache_from S" for S
  using fetch_fetched by unfold_locales (auto simp: fetch_step_def fetched_from_def)

text \<open>C27. Where pages come from. Whatever requests a gateway with an empty cache has served, a whole page it replies with
  status 200 is what a backend gave for exactly the requested key in one of them, rewritten for the prefix
  of that request: its own or, out of the cache, that of an earlier one.\<close>

theorem pages_come_from_backends:
  assumes "cc_entries (gs_cache s) = []"
    and "fst (fetch_content F cid b (fold fetch_step reqs s)) = Some reply" "hp_status reply = 200" "hp_body reply = Whole page"
  shows "\<exists>F' b' data. (F', cid, b') \<in> insert (F, cid, b) (set reqs) \<and> backend_gave F' cid data \<and>
    rewrite_html_assets (fe_text F') data (hp_content_type reply) b' = Some page"
proof -
  define S where "S = insert (F, cid, b) (set reqs)"
  have "cache_from S s"
    using assms(1) by (simp add: cache_from_def)
  then have "cache_from S (fold fetch_step reqs s)"
    by (rule content.guarded_run [rotated]) (simp add: S_def list_all_iff)
  then have "fetched_from S cid (fetch_content F cid b (fold fetch_step reqs s))"
    by (rule fetch_fetched) (simp add: S_def)
  with assms(2-4) show ?thesis
    by (simp add: fetched_from_def reply_from_def from_backend_def S_def)
qed

section \<open>One prefix for all\<close>

lemma kept_reply:
  assumes "keep_and_reply F cid b a src data ty s = (Some reply, s1)" "hp_status reply = 200"
  shows "\<exists>page. rewrite_html_assets (fe_text F) data ty b = Some page \<and> hp_body reply = Whole page \<and>
    hp_content_type reply = ty \<and> gs_cache s1 = cache_set (fe_done F) cid page ty (gs_cache s)"
  using assms by (auto simp: keep_and_reply_def content_reply_def split: option.splits if_splits)

lemma set_then_get:
  assumes "now \<le> t + cc_default_ttl c"
  shows "fst (cache_get now cid (cache_set t cid page ty c)) = Some (page, ty)"
  using assms by (simp add: cache_get_def cache_set_def cache_set_eq cached_is_expired_def elapsed_def)

lemma ipfs_miss:
  assumes "fetch_from_ipfs F cid b s = (Some reply, s1)" "hp_status reply = 200"
  obtains data ty s' where "keep_and_reply F cid b True None data ty s' = (Some reply, s1)" "gs_cache s' = gs_cache s"
  using assms by (auto simp: fetch_from_ipfs_def Let_def html_reply_def circuit_open_reply_def
      split: prod.splits bool.splits option.splits sum.splits)

lemma node_miss:
  assumes "serve_from_node F cid b content s = (Some reply, s1)" "hp_body reply = Whole page" "hp_status reply = 200"
  obtains src data ty where "keep_and_reply F cid b False src data ty s = (Some reply, s1)"
  using assms by (auto simp: serve_from_node_def content_reply_def Let_def split: node_content.splits if_splits)

text \<open>A page that was not in the cache was rewritten for its request and is in the cache now.\<close>

lemma page_kept:
  assumes "fetch_content F cid b s = (Some reply, s1)" "hp_status reply = 200" "hp_body reply = Whole page"
    and "fst (cache_get (fe_now F) cid (gs_cache s)) = None"
  shows "(\<exists>data. rewrite_html_assets (fe_text F) data (hp_content_type reply) b = Some page) \<and>
    gs_cache s1 = cache_set (fe_done F) cid page (hp_content_type reply) (gs_cache s)"
proof -
  have "\<exists>a src data ty s'. keep_and_reply F cid b a src data ty s' = (Some reply, s1) \<and> gs_cache s' = gs_cache s"
  proof (cases "serve_from_p2p F cid")
    case (Some r)
    then show ?thesis
      using assms(1,4) by (simp add: fetch_miss) (metis gs_cache_simps(1))
  next
    case None
    obtain r s2 where ask: "ask_nodes F cid (increment_requests s) = (r, s2)" by fastforce
    have "gs_cache s2 = gs_cache s"
      using ask_nodes_gave(1) [OF ask] by simp
    then show ?thesis
      using None ask assms by (cases r) (simp_all add: fetch_miss, (metis ipfs_miss node_miss)+)
  qed
  then obtain a src data ty s' where "keep_and_reply F cid b a src data ty s' = (Some reply, s1)" "gs_cache s' = gs_cache s"
    by blast
  from kept_reply [OF this(1) assms(2)] this(2) assms(3) show ?thesis
    by auto
qed

text \<open>The first request decides the page of the others. The page that a request brought into the cache was rewritten
  for its own prefix, and until it expires every request for the same content gets it unchanged, whatever
  its prefix: a page first asked for under one name sends the visitors of every other name there.\<close>

theorem first_prefix_sticks:
  assumes "fetch_content F cid (Some p) s = (Some reply, s1)" "hp_status reply = 200" "hp_body reply = Whole page"
    and "fst (cache_get (fe_now F) cid (gs_cache s)) = None"
    and "fe_now G \<le> fe_done F + cc_default_ttl (gs_cache s)" "te_header_ok (fe_text G) (hp_content_type reply)"
  shows "(\<exists>data. rewrite_html_assets (fe_text F) data (hp_content_type reply) (Some p) = Some page) \<and>
    (\<exists>again. fst (fetch_content G cid (Some q) s1) = Some again \<and> hp_status again = 200 \<and>
       hp_body again = Whole page \<and> hp_cache again = Some ''HIT'')"
proof -
  note kept = page_kept [OF assms(1-4)]
  then have "fst (cache_get (fe_now G) cid (gs_cache (increment_requests s1))) = Some (page, hp_content_type reply)"
    using assms(5) by (simp add: set_then_get)
  then obtain c where "cache_get (fe_now G) cid (gs_cache (increment_requests s1)) = (Some (page, hp_content_type reply), c)"
    by (metis prod.collapse)
  then have "fst (fetch_content G cid (Some q) s1) =
      Some (content_reply (fe_text G) (hp_content_type reply) (Some ''HIT'') None (Whole page))"
    by (simp add: fetch_content_def serve_cached_def Let_def)
  with kept assms(6) show ?thesis
    by (simp add: content_reply_def)
qed

section \<open>The circuit breaker\<close>

text \<open>A path that is no CID path, not cached, found neither in the P2P network nor at a node.\<close>

definition stray :: "content_cache \<Rightarrow> content_request \<Rightarrow> bool" where
  "stray c r \<longleftrightarrow> (case r of (F, cid, b) \<Rightarrow> hm_get (cc_entries c) cid = None \<and> serve_from_p2p F cid = None \<and>
     fe_node_runners F = [] \<and>
     (case fe_storage F of None \<Rightarrow> False | Some (cfg, shown, base) \<Rightarrow> so_retry_attempts cfg \<noteq> 0) \<and>
     (case validate_cid_path cid of Inl _ \<Rightarrow> True | Inr _ \<Rightarrow> False))"

lemma stray_fails:
  assumes "stray (gs_cache s) (F, cid, b)" "breaker_state (gs_breaker s) = Closed"
  shows "gs_cache (fetch_step (F, cid, b) s) = gs_cache s"
    and "gs_breaker (fetch_step (F, cid, b) s) = record_failure (fe_done F) (gs_breaker s)"
proof -
  obtain cfg shown base e where st: "fe_storage F = Some (cfg, shown, base)" "so_retry_attempts cfg \<noteq> 0"
    "validate_cid_path cid = Inl e"
    using assms(1) by (auto simp: stray_def split: option.splits sum.splits)
  have "fst (retrieve_content (fe_ipfs F) cfg shown base cid) = Inl (cid_validation_error_text e)"
    using invalid_path_retried(1) [OF st(3,2)] .
  moreover have "fst (cache_get (fe_now F) cid (gs_cache s)) = None"
    using assms(1) by (simp add: stray_def cache_get_def)
  ultimately have fetch: "fetch_step (F, cid, b) s = increment_error ((increment_requests s)\<lparr>gs_breaker := record_failure (fe_done F) (gs_breaker s)\<rparr>)"
    using assms st by (simp add: fetch_step_def fetch_miss stray_def ask_nodes_def fetch_from_ipfs_def
        allow_request_def increment_requests_def)
  show "gs_cache (fetch_step (F, cid, b) s) = gs_cache s"
    "gs_breaker (fetch_step (F, cid, b) s) = record_failure (fe_done F) (gs_breaker s)"
    by (simp_all add: fetch increment_error_def increment_requests_def)
qed

lemma strays_fail:
  assumes "\<forall>r\<in>set reqs. stray (gs_cache s) r" "breaker_state (gs_breaker s) = Closed"
    and "unat (cb_failure_count (gs_breaker s)) + length reqs \<le> unat (cb_failure_threshold (gs_breaker s))"
  shows "gs_cache (fold fetch_step reqs s) = gs_cache s \<and>
    gs_breaker (fold fetch_step reqs s) = fold record_failure (map (\<lambda>(F, cid, b). fe_done F) reqs) (gs_breaker s)"
  using assms
proof (induction reqs arbitrary: s)
  case Nil
  then show ?case by simp
next
  case (Cons r reqs)
  obtain F cid b where r: "r = (F, cid, b)" by (cases r)
  define s1 where "s1 = fetch_step (F, cid, b) s"
  have s1: "gs_cache s1 = gs_cache s" "gs_breaker s1 = record_failure (fe_done F) (gs_breaker s)"
    using stray_fails [of s F cid b] Cons.prems by (simp_all add: s1_def r)
  show ?case
  proof (cases reqs)
    case Nil
    with s1 show ?thesis by (simp add: r s1_def)
  next
    case (Cons _ _)
    then have "breaker_state (gs_breaker s1) = Closed \<and>
        unat (cb_failure_count (gs_breaker s1)) = unat (cb_failure_count (gs_breaker s)) + 1 \<and>
        cb_failure_threshold (gs_breaker s1) = cb_failure_threshold (gs_breaker s)"
      using failures_below [of "gs_breaker s" "[fe_done F]"] Cons.prems s1(2) by simp
    with Cons.IH [of s1] Cons.prems s1 show ?thesis
      by (simp add: s1_def [symmetric] r)
  qed
qed

text \<open>Stray paths close the gateway's way to IPFS. Paths that are no CIDs are refused before anything is sent to
  the IPFS node, and counted as its failures: once as many of them as the threshold have been asked for,
  every request for content that is not cached is answered 503 until the reset timeout has passed.\<close>

theorem stray_paths_open_breaker:
  assumes "breaker_state (gs_breaker s) = Closed" "reqs \<noteq> []" "\<forall>r\<in>set reqs. stray (gs_cache s) r"
    and "unat (cb_failure_count (gs_breaker s)) + length reqs = unat (cb_failure_threshold (gs_breaker s))"
    and "\<forall>(F, missing, b)\<in>set reqs. elapsed (fe_ask G) (fe_done F) < cb_reset_timeout (gs_breaker s)"
    and "hm_get (cc_entries (gs_cache s)) cid = None" "serve_from_p2p G cid = None" "fe_node_runners G = []"
  shows "fst (fetch_content G cid p (fold fetch_step reqs s)) = Some circuit_open_reply"
proof -
  obtain rs F missing b where reqs: "reqs = rs @ [(F, missing, b)]"
    using assms(2) by (metis rev_exhaust prod_cases3)
  define b1 where "b1 = fold record_failure (map (\<lambda>(F, cid, b). fe_done F) rs) (gs_breaker s)"
  have "breaker_state b1 = Closed" "unat (cb_failure_count b1) + 1 = unat (cb_failure_threshold b1)"
    "cb_reset_timeout b1 = cb_reset_timeout (gs_breaker s)"
    using failures_below [of "gs_breaker s" "map (\<lambda>(F, cid, b). fe_done F) rs"] assms(1,4) by (simp_all add: b1_def reqs)
  then have "fst (allow_request (fe_ask G) (record_failure (fe_done F) b1)) = False"
    using failure_at_threshold [of b1 "fe_done F"] assms(5)
    by (simp add: reqs allow_request_def breaker_state_def state_of_code_def not_le)
  moreover have "gs_cache (fold fetch_step reqs s) = gs_cache s" "gs_breaker (fold fetch_step reqs s) = record_failure (fe_done F) b1"
    using strays_fail [OF assms(3,1)] assms(4) by (simp_all add: b1_def reqs)
  ultimately show ?thesis
    using assms(6-8) by (auto simp: fetch_miss cache_get_def ask_nodes_def fetch_from_ipfs_def increment_requests_def
        split: prod.splits bool.splits)
qed

section \<open>Error answers\<close>

text \<open>Error answers of the IPFS node are served and kept as content. Whatever status it answers with, the body of its
  answer is served with status 200 under the path asked for, and cached.\<close>

theorem error_answers_served:
  assumes "hm_get (cc_entries (gs_cache s)) cid = None" "serve_from_p2p F cid = None" "fe_node_runners F = []"
    and "breaker_state (gs_breaker s) = Closed" "fe_storage F = Some (cfg, shown, base)" "so_retry_attempts cfg \<noteq> 0"
    and "validate_cid_path cid = Inr split"
    and "ip_post (fe_ipfs F) 1 (base @ ''/api/v0/cat?arg='' @ cid) NoBody = Some (Inr \<lparr>ia_status = status, ia_body = body\<rparr>)"
    and "content_type_from_path (fe_text F) cid body = ty" "ty \<noteq> ''text/html''" "te_header_ok (fe_text F) ty"
  shows "\<exists>reply s1. fetch_content F cid p s = (Some reply, s1) \<and> hp_status reply = 200 \<and> hp_body reply = Whole body \<and>
    fst (cache_get (fe_done F) cid (gs_cache s1)) = Some (body, ty)"
proof -
  have "retrieve_content (fe_ipfs F) cfg shown base cid = (Inr body, [])"
    using error_answer_is_content [OF assms(7,6,8)] .
  then have "fetch_content F cid p s = keep_and_reply F cid p True None body ty
      ((increment_requests s)\<lparr>gs_breaker := record_success (gs_breaker s)\<rparr>)"
    using assms by (simp add: fetch_miss cache_get_def ask_nodes_def fetch_from_ipfs_def allow_request_def increment_requests_def)
  also have "\<dots> = (Some (content_reply (fe_text F) ty (Some ''MISS'') None (Whole body)),
      snd (keep_and_reply F cid p True None body ty ((increment_requests s)\<lparr>gs_breaker := record_success (gs_breaker s)\<rparr>)))"
    using assms(10) by (simp add: keep_and_reply_def rewrite_html_assets_def)
  finally have "fetch_content F cid p s = \<dots>" .
  moreover have "gs_cache (snd (keep_and_reply F cid p True None body ty
      ((increment_requests s)\<lparr>gs_breaker := record_success (gs_breaker s)\<rparr>))) = cache_set (fe_done F) cid body ty (gs_cache s)"
    using assms(10) by (simp add: keep_and_reply_def rewrite_html_assets_def)
  ultimately show ?thesis
    using assms(11) by (simp add: content_reply_def set_then_get)
qed

section \<open>Content of other types\<close>

text \<open>Under \<open>/ipfs/\<close> only pages are served by their CID. Content of another type that is in the cache under its CID,
  an image say, is thrown away, and the request is answered with what there is at \<open>index.html\<close> below the CID;
  at the root of the gateway the same image is served.\<close>

theorem only_pages_by_cid:
  assumes "validate_content_path cid = Inr (cid, None)" "validate_cid cid"
    and "fst (cache_get (fe_now F) cid (gs_cache s)) = Some (data, ty)" "te_header_ok (fe_text F) ty"
    and "\<not> list_ex (str_contains ty) page_types" "str_contains ty ''image/''"
  shows "(\<exists>s1. ipfs_content_path_handler F F2 cid s = fetch_content F2 (cid @ ''/index.html'') (Some (''/ipfs/'' @ cid @ ''/'')) s1 \<and>
      fst (cache_get (fe_now F) cid (gs_cache s1)) = Some (data, ty)) \<and>
    (\<exists>reply s1. content_or_spa F F2 cid s = Some (Some reply, s1) \<and> hp_status reply = 200 \<and> hp_body reply = Whole data)"
proof -
  obtain c where hit: "cache_get (fe_now F) cid (gs_cache s) = (Some (data, ty), c)"
    using assms(3) by (metis prod.collapse)
  define reply where "reply = content_reply (fe_text F) ty (Some ''HIT'') None (Whole data)"
  define s1 where "s1 = (\<lambda>p :: string option. snd (fetch_content F cid p s))"
  have fetch: "fetch_content F cid p s = (Some reply, s1 p)" for p
    using hit by (simp add: fetch_content_def serve_cached_def reply_def s1_def increment_requests_def Let_def)
  have reply: "hp_status reply = 200" "hp_content_type reply = ty" "hp_body reply = Whole data"
    using assms(4) by (simp_all add: reply_def content_reply_def)
  have "gs_cache (s1 p) = c" for p
    using hit by (simp add: fetch_content_def serve_cached_def s1_def increment_requests_def Let_def)
  moreover have "fst (cache_get (fe_now F) cid c) = Some (data, ty)"
    using hit by (auto simp: cache_get_def cached_is_expired_def split: option.splits if_splits)
  ultimately have "fst (cache_get (fe_now F) cid (gs_cache (s1 p))) = Some (data, ty)" for p
    by simp
  moreover have "\<not> served_as_is page_types reply" "served_as_is (page_types @ [''image/'']) reply"
    using assms(5,6) reply(2) by (simp_all add: served_as_is_def)
  ultimately show ?thesis
    using assms(1,2) reply by (auto simp: ipfs_content_path_handler_def content_or_spa_def then_reply_def fetch Let_def)
qed

section \<open>Witnesses\<close>

text \<open>A text environment with the lower case of ASCII and of the dotted capital I, whose lower case is longer.\<close>

definition demo_lower :: "string \<Rightarrow> string" where
  "demo_lower s = concat (map (\<lambda>c.
     if c = [CHR 0xC4, CHR 0xB0] then [CHR ''i'', CHR 0xCC, CHR 0x87]
     else map (\<lambda>x. if is_ascii_uppercase x then char_of (code x + 32) else x) c) (rust_chars s))"

definition demo_text :: text_env where
  "demo_text = \<lparr>te_lossy = map (\<lambda>b. char_of (unat b)), te_lower = demo_lower, te_infer = \<lambda>_. None, te_header_ok = \<lambda>_. True\<rparr>"

definition demo_fetch :: fetch_env where
  "demo_fetch = \<lparr>fe_now = 0, fe_ask = 0, fe_done = 1, fe_text = demo_text, fe_p2p = None, fe_announce = True,
     fe_node_runners = [], fe_nodes = \<lparr>ne_round = id, ne_start = 0, ne_answer = \<lambda>_ _. None, ne_now = \<lambda>_. 0, ne_took = \<lambda>_. 0\<rparr>,
     fe_storage = Some (storage_config_default, ''30s'', ''http://ipfs''), fe_ipfs = demo_ipfs\<rparr>"

definition demo_content :: content_state where
  "demo_content = \<lparr>gs_cache = cache_new, gs_breaker = breaker_default_for ''ipfs'', gs_tracker = None,
     gs_metrics = \<lparr>me_requests_total = 0, me_requests_success = 0, me_requests_error = 0, me_bytes_served = 0\<rparr>,
     gs_cid_requests = [], gs_cid_bytes = [], gs_announced = []\<rparr>"

definition demo_image :: string where
  "demo_image = ''QmYwAPJzv5CZsnA625s3Xf2nemtYgPpHdWEz79ojWnPbdG/logo.png''"

text \<open>Text whose lower case is longer shifts the position of the head: the slice panics, and the request with it.\<close>

lemma rewriting_panics:
  "rewrite_html_assets demo_text (str_bytes (concat (replicate 7 [CHR 0xC4, CHR 0xB0]) @ ''<head>'')) ''text/html'' (Some ''/p/'') = None"
  by code_simp

lemma demo_image_valid:
  "validate_cid_path demo_image = Inr (''QmYwAPJzv5CZsnA625s3Xf2nemtYgPpHdWEz79ojWnPbdG'', Some ''logo.png'')"
  by code_simp

lemma demo_image_type: "content_type_from_path demo_text demo_image [9] = ''image/png''"
  by code_simp

lemma demo_image_posted:
  "ip_post demo_ipfs 1 (''http://ipfs'' @ ''/api/v0/cat?arg='' @ demo_image) NoBody = Some (Inr \<lparr>ia_status = 500, ia_body = [9]\<rparr>)"
  by (simp add: demo_ipfs_def)

lemma demo_retries: "so_retry_attempts storage_config_default \<noteq> 0"
  by (simp add: storage_config_default_def)

lemma demo_fetch_simps [simp]:
  "fe_now demo_fetch = 0" "fe_ask demo_fetch = 0" "fe_done demo_fetch = 1" "fe_text demo_fetch = demo_text"
  "fe_p2p demo_fetch = None" "fe_node_runners demo_fetch = []" "fe_ipfs demo_fetch = demo_ipfs"
  "fe_storage demo_fetch = Some (storage_config_default, ''30s'', ''http://ipfs'')" "serve_from_p2p demo_fetch cid = None"
  "te_header_ok demo_text ty"
  by (simp_all add: demo_fetch_def demo_text_def serve_from_p2p_def)

lemma demo_content_simps [simp]:
  "cc_entries (gs_cache demo_content) = []" "cc_default_ttl (gs_cache demo_content) = from_secs 3600"
  "breaker_state (gs_breaker demo_content) = Closed" "cb_failure_count (gs_breaker demo_content) = 0"
  "cb_failure_threshold (gs_breaker demo_content) = 5" "cb_reset_timeout (gs_breaker demo_content) = from_secs 30"
  by (simp_all add: demo_content_def cache_new_def cache_with_config_def breaker_default_for_def breaker_new_def
      breaker_state_def state_of_code_def)

lemma demo_image_reply:
  "fst (fetch_content demo_fetch demo_image (Some ''/p/'') demo_content) =
     Some \<lparr>hp_status = 200, hp_content_type = ''image/png'', hp_cache = Some ''MISS'', hp_source = None, hp_body = Whole [9]\<rparr>"
  using error_answer_is_content [OF demo_image_valid demo_retries demo_image_posted, of "''30s''"]
  by (simp add: fetch_miss cache_get_def ask_nodes_def fetch_from_ipfs_def allow_request_def increment_requests_def
      demo_image_type keep_and_reply_def rewrite_html_assets_def content_reply_def)

theorem pages_come_from_backends_witness:
  "\<exists>F' b' data. (F', demo_image, b') \<in> {(demo_fetch, demo_image, Some ''/p/'')} \<and> backend_gave F' demo_image data \<and>
     rewrite_html_assets (fe_text F') data ''image/png'' b' = Some [9]"
  using pages_come_from_backends [of demo_content demo_fetch demo_image "Some ''/p/''" "[]", unfolded fold_Nil id_apply,
      OF _ demo_image_reply] by simp

theorem first_prefix_sticks_witness:
  "\<exists>again. fst (fetch_content demo_fetch demo_image (Some ''/other/'')
      (snd (fetch_content demo_fetch demo_image (Some ''/p/'') demo_content))) = Some again \<and> hp_body again = Whole [9]"
proof -
  obtain s1 where "fetch_content demo_fetch demo_image (Some ''/p/'') demo_content =
      (Some \<lparr>hp_status = 200, hp_content_type = ''image/png'', hp_cache = Some ''MISS'', hp_source = None, hp_body = Whole [9]\<rparr>, s1)"
    using demo_image_reply by (metis prod.collapse)
  from first_prefix_sticks [OF this, of "[9]" demo_fetch "''/other/''"] this show ?thesis
    by (auto simp: cache_get_def from_secs_def)
qed

theorem stray_paths_open_breaker_witness:
  "fst (fetch_content demo_fetch demo_image (Some ''/p/'')
     (fold fetch_step (replicate 5 (demo_fetch, ''admin/login'', None)) demo_content)) = Some circuit_open_reply"
proof (rule stray_paths_open_breaker)
  have "validate_cid_path ''admin/login'' = Inl InvalidCid"
    by code_simp
  then show "\<forall>r\<in>set (replicate 5 (demo_fetch, ''admin/login'', None)). stray (gs_cache demo_content) r"
    using demo_retries by (simp add: stray_def)
qed (simp_all add: elapsed_def from_secs_def)

theorem error_answers_served_witness:
  "\<exists>reply s1. fetch_content demo_fetch demo_image (Some ''/p/'') demo_content = (Some reply, s1) \<and> hp_status reply = 200 \<and>
     hp_body reply = Whole [9] \<and> fst (cache_get (fe_done demo_fetch) demo_image (gs_cache s1)) = Some ([9], ''image/png'')"
  by (rule error_answers_served [where status = 500, OF _ _ _ _ _ demo_retries demo_image_valid])
     (simp_all add: demo_image_type demo_ipfs_def)

theorem only_pages_by_cid_witness:
  "\<exists>reply s1. content_or_spa demo_fetch demo_fetch ''QmYwAPJzv5CZsnA625s3Xf2nemtYgPpHdWEz79ojWnPbdG''
     (demo_content\<lparr>gs_cache := cache_set 0 ''QmYwAPJzv5CZsnA625s3Xf2nemtYgPpHdWEz79ojWnPbdG'' [8] ''image/png'' cache_new\<rparr>) =
     Some (Some reply, s1) \<and> hp_status reply = 200 \<and> hp_body reply = Whole [8]"
proof -
  define cid where "cid = ''QmYwAPJzv5CZsnA625s3Xf2nemtYgPpHdWEz79ojWnPbdG''"
  have "validate_content_path cid = Inr (cid, None)" "validate_cid cid"
    unfolding cid_def by code_simp+
  moreover have "fst (cache_get (fe_now demo_fetch) cid (gs_cache (demo_content\<lparr>gs_cache := cache_set 0 cid [8] ''image/png'' cache_new\<rparr>))) =
      Some ([8], ''image/png'')"
    by (simp add: set_then_get demo_fetch_def)
  moreover have "te_header_ok (fe_text demo_fetch) ''image/png''"
    by (simp add: demo_fetch_def demo_text_def)
  moreover have "\<not> list_ex (str_contains ''image/png'') page_types" "str_contains ''image/png'' ''image/''"
    by code_simp+
  ultimately show ?thesis
    using only_pages_by_cid [of cid demo_fetch "demo_content\<lparr>gs_cache := cache_set 0 cid [8] ''image/png'' cache_new\<rparr>" "[8]" "''image/png''" demo_fetch]
    by (simp only: cid_def) blast
qed

end
