(* ===== verification/GatewayNames.thy ===== *)
theory GatewayNames
  imports GatewayContent NameStore
begin

text \<open>
  Names at the gateway, the naming handlers of \<open>gateway/src/main.rs\<close> and the domains a deployment gets in
  \<open>gateway/src/lib.rs\<close>: names are looked up at the naming manager and then in the DHT, registered by their
  owners or by the gateway with its own key, published, deleted, and served as content.

  The answers of the DHT are a parameter: \<open>nv_dht i nm\<close> is what the event loop gives for the \<open>i\<close>-th look-up of
  a request, \<open>None\<close> when there is no answer in time. Commands handed to the event loop are appended to
  \<open>ns_published\<close>. JSON replies are the values they carry.
\<close>

section \<open>The state\<close>

record names_env =
  nv_naming :: naming_env
  nv_enabled :: bool
  nv_now :: u64
  nv_key :: bytes
  nv_p2p :: bool
  nv_room :: bool
  nv_dht :: "nat \<Rightarrow> string \<Rightarrow> (gw_fetch_error + bytes option) option"
  nv_draws :: "nat \<Rightarrow> nat \<Rightarrow> u8"
  nv_lower :: "string \<Rightarrow> string"
  nv_fetch :: fetch_env
  nv_fetch_index :: fetch_env

record names_state =
  ns_naming :: naming_manager
  ns_published :: "gw_command list"
  ns_content :: content_state

datatype name_reply =
    NameAnswer "name_record option"
  | NameDone string string "string option"
  | NameRefused nat string
  | NameDeleted
  | NameList "name_record list"
  | ServiceEntries string "service_registry_entry list" "u64 option"
  | ServicesDisabled
  | UnknownService

definition publish_name :: "names_env \<Rightarrow> name_record \<Rightarrow> string \<Rightarrow> names_state \<Rightarrow> names_state" where
  "publish_name V r nm s =
     (if nv_p2p V then
        (case NameStore.serialize_record (nv_naming V) r of
           Inl _ \<Rightarrow> s
         | Inr data \<Rightarrow> s\<lparr>ns_published := ns_published s @ [GwPublishName data nm]\<rparr>)
      else s)"

definition publish_name_best_effort :: "names_env \<Rightarrow> name_record \<Rightarrow> names_state \<Rightarrow> names_state" where
  "publish_name_best_effort V r s = (if nv_room V then publish_name V r (name r) s else s)"

section \<open>Resolution\<close>

definition resolve_name_from_dht :: "names_env \<Rightarrow> nat \<Rightarrow> string \<Rightarrow> names_state \<Rightarrow> name_record option \<times> names_state" where
  "resolve_name_from_dht V i nm s =
     (let E = nv_naming V in
      if \<not> nv_p2p V then (None, s)
      else case nv_dht V i nm of
        Some (Inr (Some data)) \<Rightarrow>
          (case NameStore.deserialize_record E data of
             Inl _ \<Rightarrow> (None, s)
           | Inr r \<Rightarrow>
               if validate_record (np E) r \<noteq> Inr () then (None, s)
               else if verify_record E r \<noteq> Inr True then (None, s)
               else if is_revoked r then (None, s)
               else (Some r, s\<lparr>ns_naming := snd (cache_record E r (ns_naming s))\<rparr>))
      | _ \<Rightarrow> (None, s))"

definition resolve_name_record :: "names_env \<Rightarrow> nat \<Rightarrow> string \<Rightarrow> names_state \<Rightarrow> name_record option \<times> names_state" where
  "resolve_name_record V i nm s =
     (case resolve_local (nv_naming V) (ns_naming s) nm of
        Some r \<Rightarrow> (Some r, s)
      | None \<Rightarrow> resolve_name_from_dht V i nm s)"

definition name_resolve_handler :: "names_env \<Rightarrow> string \<Rightarrow> names_state \<Rightarrow> name_reply \<times> names_state" where
  "name_resolve_handler V nm s =
     (if \<not> nv_enabled V then (NameAnswer None, s)
      else case resolve_name_record V 0 nm s of (r, s1) \<Rightarrow> (NameAnswer r, s1))"

section \<open>Registration\<close>

definition naming_disabled :: name_reply where
  "naming_disabled = NameRefused 503 ''Naming service disabled''"

definition name_register_handler :: "names_env \<Rightarrow> name_record \<Rightarrow> names_state \<Rightarrow> name_reply \<times> names_state" where
  "name_register_handler V r s =
     (let E = nv_naming V in
      if \<not> nv_enabled V then (naming_disabled, s)
      else case validate_record (np E) r of
        Inl e \<Rightarrow> (NameRefused 400 (''Invalid record: '' @ naming_error_text e), s)
      | Inr _ \<Rightarrow>
          (case verify_record E r of
             Inl e \<Rightarrow> (NameRefused 400 (''Verification error: '' @ naming_error_text e), s)
           | Inr False \<Rightarrow> (NameRefused 400 ''Invalid signature'', s)
           | Inr True \<Rightarrow>
               (case cache_record E r (ns_naming s) of
                  (Inr _, naming) \<Rightarrow>
                    (NameDone (name r) (name_hash r) None, publish_name V r (name r) (s\<lparr>ns_naming := naming\<rparr>))
                | (Inl e, naming) \<Rightarrow> (NameRefused 409 (naming_error_text e), s\<lparr>ns_naming := naming\<rparr>))))"

definition name_list_handler :: "names_env \<Rightarrow> names_state \<Rightarrow> name_reply" where
  "name_list_handler V s =
     (if \<not> nv_enabled V then NameList []
      else NameList (filter (\<lambda>r. records r \<noteq> []) (list_owned_names (ns_naming s))))"

definition full_shadow_name :: "string \<Rightarrow> string" where
  "full_shadow_name nm = (if ends_with nm ''.shadow'' then nm else nm @ ''.shadow'')"

definition name_assign_handler :: "names_env \<Rightarrow> string \<Rightarrow> string \<Rightarrow> names_state \<Rightarrow> name_reply \<times> names_state" where
  "name_assign_handler V nm cid s =
     (let E = nv_naming V; full_name = full_shadow_name nm in
      if \<not> nv_enabled V then (naming_disabled, s)
      else case validate_name full_name of
        Inl e \<Rightarrow> (NameRefused 400 (''Invalid name: '' @ naming_error_text e), s)
      | Inr _ \<Rightarrow>
          if \<not> validate_cid cid then (NameRefused 400 ''Invalid CID format (expected CIDv0 Qm... or CIDv1 bafy...)'', s)
          else case register_name E (nv_now V) full_name [Content cid] (nv_key V) DEFAULT_NAME_TTL (ns_naming s) of
            (Inr r, naming) \<Rightarrow>
              (NameDone (name r) (name_hash r) (Some cid), publish_name V r (name r) (s\<lparr>ns_naming := naming\<rparr>))
          | (Inl e, naming) \<Rightarrow>
              (NameRefused (if e = NameTaken then 409 else 400) (naming_error_text e), s\<lparr>ns_naming := naming\<rparr>))"

text \<open>The record is revoked for the others; at the gateway only the cache forgets the name.\<close>

definition name_delete_handler :: "names_env \<Rightarrow> string \<Rightarrow> names_state \<Rightarrow> name_reply \<times> names_state" where
  "name_delete_handler V nm s =
     (let E = nv_naming V; full_name = full_shadow_name nm in
      if \<not> nv_enabled V then (naming_disabled, s)
      else case resolve_local E (ns_naming s) full_name of
        None \<Rightarrow> (NameRefused 404 ''Name not found'', s)
      | Some r \<Rightarrow>
          (case revoke_name_record E (nv_now V) r (nv_key V) of
             Inl e \<Rightarrow> (NameRefused 400 (naming_error_text e), s)
           | Inr revoked \<Rightarrow>
               (NameDeleted, publish_name V revoked full_name
                  (s\<lparr>ns_naming := invalidate_cache E full_name (ns_naming s)\<rparr>))))"

section \<open>Domains of deployments\<close>

definition trim_hyphens :: "string \<Rightarrow> string" where
  "trim_hyphens s = rev (dropWhile (\<lambda>c. c = CHR ''-'') (rev s))"

definition sanitize_domain_label :: "(string \<Rightarrow> string) \<Rightarrow> string \<Rightarrow> string" where
  "sanitize_domain_label lower nm =
     (let label = map (\<lambda>c. case c of [x] \<Rightarrow> if is_ascii_alphanumeric x \<or> x = CHR ''-'' then x else CHR ''-'' | _ \<Rightarrow> CHR ''-'')
            (rust_chars (lower nm));
          trimmed = trim_hyphens (dropWhile (\<lambda>c. c = CHR ''-'') label);
          short = trim_hyphens (if length trimmed > 40 then take 40 trimmed else trimmed)
      in if short = [] then ''site'' else short)"

definition suffix_char :: "u8 \<Rightarrow> char" where
  "suffix_char draw = (let idx = unat draw mod 36 in char_of (if idx < 10 then 48 + idx else 97 + idx - 10))"

definition random_suffix :: "names_env \<Rightarrow> nat \<Rightarrow> string" where
  "random_suffix V attempt = map (\<lambda>j. suffix_char (nv_draws V attempt j)) [0..<4]"

fun assign_with_suffix ::
    "names_env \<Rightarrow> string \<Rightarrow> name_record_type list \<Rightarrow> nat list \<Rightarrow> names_state \<Rightarrow> string option \<times> names_state" where
  "assign_with_suffix V base_label recs [] s = (None, s)"
| "assign_with_suffix V base_label recs (attempt # rest) s =
     (let nm = base_label @ ''-'' @ random_suffix V attempt @ ''.shadow'' in
      case register_name (nv_naming V) (nv_now V) nm recs (nv_key V) DEFAULT_NAME_TTL (ns_naming s) of
        (Inr r, naming) \<Rightarrow> (Some nm, publish_name_best_effort V r (s\<lparr>ns_naming := naming\<rparr>))
      | (Inl _, naming) \<Rightarrow> assign_with_suffix V base_label recs rest (s\<lparr>ns_naming := naming\<rparr>))"

definition auto_assign_domain :: "names_env \<Rightarrow> string \<Rightarrow> string \<Rightarrow> names_state \<Rightarrow> string option \<times> names_state" where
  "auto_assign_domain V deploy_name cid s =
     (if \<not> nv_enabled V then (None, s)
      else let base_label = sanitize_domain_label (nv_lower V) deploy_name; recs = [Content cid];
               full_name = base_label @ ''.shadow'' in
        case register_name (nv_naming V) (nv_now V) full_name recs (nv_key V) DEFAULT_NAME_TTL (ns_naming s) of
          (Inr r, naming) \<Rightarrow> (Some full_name, publish_name_best_effort V r (s\<lparr>ns_naming := naming\<rparr>))
        | (Inl NameTaken, naming) \<Rightarrow> assign_with_suffix V base_label recs [0, 1, 2] (s\<lparr>ns_naming := naming\<rparr>)
        | (Inl _, naming) \<Rightarrow> (None, s\<lparr>ns_naming := naming\<rparr>))"

section \<open>Serving names\<close>

definition MAX_ALIAS_DEPTH :: nat where
  "MAX_ALIAS_DEPTH = 8"

definition alias_target :: "name_record \<Rightarrow> string option" where
  "alias_target r = (case filter is_Alias (records r) of [] \<Rightarrow> None | a # _ \<Rightarrow> Some (rt_target a))"

definition fetched ::
    "http_reply option \<times> content_state \<Rightarrow> names_state \<Rightarrow> http_reply option \<times> names_state" where
  "fetched r s = (case r of (reply, c) \<Rightarrow> (reply, s\<lparr>ns_content := c\<rparr>))"

definition serve_name_content ::
    "names_env \<Rightarrow> string \<Rightarrow> string \<Rightarrow> string \<Rightarrow> names_state \<Rightarrow> http_reply option \<times> names_state" where
  "serve_name_content V nm cid sub_path s =
     (let fetch_path = (if sub_path = [] then cid else cid @ ''/'' @ sub_path); base_prefix = Some (''/'' @ nm @ ''/'') in
      fetched (then_reply (fetch_content (nv_fetch V) fetch_path base_prefix (ns_content s)) (\<lambda>reply c.
        if sub_path = [] \<and> \<not> served_as_is (page_types @ [''image/'']) reply
        then fetch_content (nv_fetch_index V) (cid @ ''/index.html'') base_prefix c
        else (Some reply, c))) s)"

text \<open>\<open>n\<close> records may still be looked at; \<open>i\<close> have been.\<close>

fun follow_name ::
    "names_env \<Rightarrow> string \<Rightarrow> string \<Rightarrow> nat \<Rightarrow> nat \<Rightarrow> string \<Rightarrow> names_state \<Rightarrow> http_reply option \<times> names_state" where
  "follow_name V nm sub_path 0 i current s = (Some (html_reply 508 ''<h1>Loop Detected</h1><p>Alias chain too deep</p>''), s)"
| "follow_name V nm sub_path (Suc n) i current s =
     (case resolve_name_record V i current s of
        (None, s1) \<Rightarrow>
          (Some (html_reply 404 (''<h1>Not Found</h1><p>'' @ escape_html current @ '' could not be resolved</p>'')), s1)
      | (Some r, s1) \<Rightarrow>
          (case alias_target r of
             Some target \<Rightarrow> follow_name V nm sub_path n (i + 1) target s1
           | None \<Rightarrow>
               (case content_cids r of
                  cid # _ \<Rightarrow> serve_name_content V nm cid sub_path s1
                | [] \<Rightarrow>
                    (Some (html_reply 404 (''<h1>No Content</h1><p>'' @ escape_html nm @ '' has no content records</p>'')), s1))))"

definition resolve_shadow_name_and_serve ::
    "names_env \<Rightarrow> string \<Rightarrow> string \<Rightarrow> names_state \<Rightarrow> http_reply option \<times> names_state" where
  "resolve_shadow_name_and_serve V nm sub_path s = follow_name V nm sub_path MAX_ALIAS_DEPTH 0 nm s"

text \<open>
  The two handlers at the root, for requests that no process or edge function serves; the outer \<open>None\<close> is the
  embedded dashboard.
\<close>

definition content_or_spa_handler ::
    "names_env \<Rightarrow> string \<Rightarrow> names_state \<Rightarrow> (http_reply option \<times> names_state) option" where
  "content_or_spa_handler V cid s =
     (if ends_with cid ''.shadow'' \<and> nv_enabled V then Some (resolve_shadow_name_and_serve V cid [] s)
      else map_option (\<lambda>r. fetched r s) (content_or_spa (nv_fetch V) (nv_fetch_index V) cid (ns_content s)))"

definition shadow_or_content_subpath_handler ::
    "names_env \<Rightarrow> string \<Rightarrow> string \<Rightarrow> names_state \<Rightarrow> (http_reply option \<times> names_state) option" where
  "shadow_or_content_subpath_handler V nm path s =
     (if ends_with nm ''.shadow'' \<and> nv_enabled V then Some (resolve_shadow_name_and_serve V nm path s)
      else map_option (\<lambda>r. fetched r s) (content_subpath (nv_fetch V) (nv_fetch_index V) nm path (ns_content s)))"

section \<open>Service discovery\<close>

definition service_name :: "string \<Rightarrow> string option" where
  "service_name service_type =
     (if service_type = ''gateway'' then Some ''_gateway.shadow''
      else if service_type = ''signaling'' then Some ''_signaling.shadow''
      else if service_type = ''bootstrap'' then Some ''_bootstrap.shadow''
      else if service_type = ''turn'' then Some ''_turn.shadow''
      else if service_type = ''stun'' then Some ''_stun.shadow''
      else None)"

definition service_discovery_handler :: "names_env \<Rightarrow> string \<Rightarrow> names_state \<Rightarrow> name_reply" where
  "service_discovery_handler V service_type s =
     (if \<not> nv_enabled V then ServicesDisabled
      else case service_name service_type of
        None \<Rightarrow> UnknownService
      | Some nm \<Rightarrow>
          (case get_service_registry (ns_naming s) nm of
             Some registry \<Rightarrow> ServiceEntries nm (sr_entries registry) (Some (sr_updated_at registry))
           | None \<Rightarrow> ServiceEntries nm [] None))"

end
