(* ===== verification/GatewayNamesSafety.thy ===== *)
theory GatewayNamesSafety
  imports GatewayNames GatewayContentSafety NameSafety
begin

text \<open>
  What the names of a gateway resolve to: its own names keep their first record for ever, aliases are followed up
  to the limit, and neither the name of a record from the DHT nor the path below a name is checked.
\<close>

section \<open>The calls of a gateway\<close>

datatype names_call =
    CallResolve string
  | CallRegister name_record
  | CallAssign string string
  | CallDelete string
  | CallAutoAssign string string
  | CallServe string string
  | CallGossip name_record

fun names_step :: "names_env \<times> names_call \<Rightarrow> names_state \<Rightarrow> names_state" where
  "names_step (V, CallResolve nm) s = snd (name_resolve_handler V nm s)"
| "names_step (V, CallRegister r) s = snd (name_register_handler V r s)"
| "names_step (V, CallAssign nm cid) s = snd (name_assign_handler V nm cid s)"
| "names_step (V, CallDelete nm) s = snd (name_delete_handler V nm s)"
| "names_step (V, CallAutoAssign nm cid) s = snd (auto_assign_domain V nm cid s)"
| "names_step (V, CallServe nm path) s = snd (resolve_shadow_name_and_serve V nm path s)"
| "names_step (V, CallGossip r) s = s\<lparr>ns_naming := snd (cache_record (nv_naming V) r (ns_naming s))\<rparr>"

lemma publish_naming [simp]:
  "ns_naming (publish_name V r nm s) = ns_naming s" "ns_naming (publish_name_best_effort V r s) = ns_naming s"
  by (simp_all add: publish_name_def publish_name_best_effort_def split: sum.split)

text \<open>
  Every handler changes the naming manager by operations of the manager only, and never updates an owned name.
  A property of the manager that these operations keep is therefore kept by the handlers.
\<close>

definition manager_keeps :: "naming_env \<Rightarrow> (naming_manager \<Rightarrow> bool) \<Rightarrow> bool" where
  "manager_keeps E P \<longleftrightarrow>
     (\<forall>st r. P st \<longrightarrow> P (snd (cache_record E r st))) \<and>
     (\<forall>st now nm recs key ttl. P st \<longrightarrow> P (snd (register_name E now nm recs key ttl st))) \<and>
     (\<forall>st nm. P st \<longrightarrow> P (invalidate_cache E nm st))"

lemma dht_keeps:
  assumes "manager_keeps (nv_naming V) P" "P (ns_naming s)"
  shows "P (ns_naming (snd (resolve_name_from_dht V i nm s)))"
  using assms by (auto simp: resolve_name_from_dht_def manager_keeps_def Let_def split: option.split sum.split)

lemma resolve_keeps:
  assumes "manager_keeps (nv_naming V) P" "P (ns_naming s)"
  shows "P (ns_naming (snd (resolve_name_record V i nm s)))"
  using assms dht_keeps by (auto simp: resolve_name_record_def split: option.split)

lemma fetched_naming [simp]: "ns_naming (snd (fetched r s)) = ns_naming s"
  by (simp add: fetched_def split_beta)

lemma serve_naming [simp]: "ns_naming (snd (serve_name_content V nm cid path s)) = ns_naming s"
  by (simp add: serve_name_content_def Let_def)

lemma follow_keeps:
  assumes "manager_keeps (nv_naming V) P" "P (ns_naming s)"
  shows "P (ns_naming (snd (follow_name V nm path n i cur s)))"
  using assms(2)
proof (induction n arbitrary: i cur s)
  case 0
  then show ?case by simp
next
  case (Suc n)
  obtain r s1 where res: "resolve_name_record V i cur s = (r, s1)" by fastforce
  then have "P (ns_naming s1)"
    using resolve_keeps [OF assms(1) Suc.prems, of i cur] by simp
  then show ?case
    using Suc.IH res by (auto split: option.split list.split)
qed

lemma register_then:
  assumes "manager_keeps E P" "P st"
  shows "case register_name E now nm recs key ttl st of (r, st1) \<Rightarrow> P st1"
  using assms by (auto simp: manager_keeps_def split_beta)

lemma suffix_keeps:
  assumes "manager_keeps (nv_naming V) P" "P (ns_naming s)"
  shows "P (ns_naming (snd (assign_with_suffix V base recs attempts s)))"
  using assms(2)
proof (induction attempts arbitrary: s)
  case Nil
  then show ?case by simp
next
  case (Cons a rest)
  let ?nm = "base @ ''-'' @ random_suffix V a @ ''.shadow''"
  obtain r st1 where reg: "register_name (nv_naming V) (nv_now V) ?nm recs (nv_key V) DEFAULT_NAME_TTL (ns_naming s) = (r, st1)"
    by fastforce
  then have "P st1"
    using register_then [OF assms(1) Cons.prems, of "nv_now V" ?nm recs "nv_key V" DEFAULT_NAME_TTL] by simp
  with reg Cons.IH show ?case
    by (cases r) (simp_all add: Let_def)
qed

lemma names_step_keeps:
  assumes "manager_keeps (nv_naming V) P" "P (ns_naming s)"
  shows "P (ns_naming (names_step (V, c) s))"
proof (cases c)
  case (CallResolve nm)
  then show ?thesis
    using resolve_keeps [OF assms, of 0 nm] assms(2) by (simp add: name_resolve_handler_def split_beta)
next
  case (CallRegister r)
  have "P (snd (cache_record (nv_naming V) r (ns_naming s)))"
    using assms by (simp add: manager_keeps_def)
  then show ?thesis
    using CallRegister assms(2)
    by (auto simp: name_register_handler_def Let_def split: sum.split bool.split prod.splits)
next
  case (CallAssign nm cid)
  then show ?thesis
    using register_then [OF assms, of "nv_now V" "full_shadow_name nm" "[Content cid]" "nv_key V" DEFAULT_NAME_TTL] assms(2)
    by (auto simp: name_assign_handler_def Let_def split: sum.split prod.splits)
next
  case (CallDelete nm)
  have "P (invalidate_cache (nv_naming V) (full_shadow_name nm) (ns_naming s))"
    using assms by (simp add: manager_keeps_def)
  then show ?thesis
    using CallDelete assms(2) by (auto simp: name_delete_handler_def Let_def split: sum.split option.split)
next
  case (CallAutoAssign nm cid)
  let ?full = "sanitize_domain_label (nv_lower V) nm @ ''.shadow''"
  obtain r st1 where reg: "register_name (nv_naming V) (nv_now V) ?full [Content cid] (nv_key V) DEFAULT_NAME_TTL (ns_naming s) = (r, st1)"
    by fastforce
  then have "P st1"
    using register_then [OF assms, of "nv_now V" ?full "[Content cid]" "nv_key V" DEFAULT_NAME_TTL] by simp
  then show ?thesis
    using CallAutoAssign reg assms suffix_keeps [OF assms(1)]
    by (auto simp: auto_assign_domain_def Let_def simp del: assign_with_suffix.simps split: sum.split naming_error.split)
next
  case (CallServe nm path)
  then show ?thesis
    using follow_keeps [OF assms] by (simp add: resolve_shadow_name_and_serve_def)
next
  case (CallGossip r)
  then show ?thesis
    using assms by (simp add: manager_keeps_def)
qed

section \<open>Names of the gateway\<close>

definition frozen :: "string \<Rightarrow> name_record \<Rightarrow> naming_manager \<Rightarrow> bool" where
  "frozen h r st \<longleftrightarrow> hm_get (owned_names st) h = Some r"

lemma cache_record_owned [simp]: "owned_names (snd (cache_record E r st)) = owned_names st"
  by (auto simp: cache_record_def split: sum.split bool.split option.split)

lemma frozen_kept: "manager_keeps E (frozen h r)"
  by (auto simp: manager_keeps_def frozen_def invalidate_cache_def register_name_def Let_def
      split: option.splits sum.splits if_splits)

interpretation gateway_names: guarded_machine names_step "\<lambda>c. nv_naming (fst c) = E" "\<lambda>s. frozen h r (ns_naming s)" for E h r
  using names_step_keeps frozen_kept by unfold_locales (metis prod.collapse)

lemma sound_kept: "manager_keeps E (naming_inv E)"
  using manager.step_inv [of E _ "CacheRecord _"] manager.step_inv [of E _ "RegisterName _ _ _ _ _"]
    manager.step_inv [of E _ "InvalidateCache _"]
  by (simp add: manager_keeps_def)

interpretation sound_names: guarded_machine names_step "\<lambda>c. nv_naming (fst c) = E" "\<lambda>s. naming_inv E (ns_naming s)" for E
  using names_step_keeps sound_kept by unfold_locales (metis prod.collapse)

text \<open>C28. Names of a gateway are frozen. Once the gateway owns a name, requests to assign it to other content are
  answered with success, and so are requests to delete it; but whatever is requested, registered or heard by
  gossip, the gateway goes on resolving it to the record it was first registered with.\<close>

theorem owned_names_frozen:
  assumes "naming_correct E" "hm_get (owned_names (ns_naming s)) (name_to_hash (np E) nm) = Some r"
    and "list_all (\<lambda>c. nv_naming (fst c) = E) calls" "nv_naming V = E" "nv_enabled V" "owner_pubkey r = pubkey_hex E (nv_key V)"
    and "ends_with nm ''.shadow''" "validate_name nm = Inr ()" "validate_cid cid"
  shows "let s1 = fold names_step calls s in
    fst (resolve_name_record V i nm s1) = Some r \<and> fst (name_delete_handler V nm s1) = NameDeleted \<and>
    fst (name_assign_handler V nm cid s1) = NameDone (name r) (name_hash r) (Some cid)"
proof -
  define s1 where "s1 = fold names_step calls s"
  have "frozen (name_to_hash (np E) nm) r (ns_naming s1)"
    unfolding s1_def by (rule gateway_names.guarded_run [OF assms(3)]) (simp add: frozen_def assms(2))
  then have owned: "hm_get (owned_names (ns_naming s1)) (name_to_hash (np E) nm) = Some r"
    by (simp add: frozen_def)
  then have local: "resolve_local E (ns_naming s1) nm = Some r"
    by (simp add: resolve_local_def)
  have full: "full_shadow_name nm = nm"
    using assms(7) by (simp add: full_shadow_name_def)
  have "\<exists>sg. revoke_name_record E (nv_now V) r (nv_key V) = Inr (r\<lparr>records := [], sequence := u64_max, updated_at := nv_now V, signature := sg\<rparr>)"
    using sign_verify [OF assms(1), of "r\<lparr>records := [], sequence := u64_max, updated_at := nv_now V, signature := []\<rparr>" "nv_key V"] assms(6)
    by (auto simp: revoke_name_record_def)
  then have "fst (name_delete_handler V nm s1) = NameDeleted"
    using local assms(4,5) by (auto simp: name_delete_handler_def full Let_def)
  moreover have "\<exists>sg. register_name E (nv_now V) nm [Content cid] (nv_key V) DEFAULT_NAME_TTL (ns_naming s1) =
      (Inr (r\<lparr>records := [Content cid], sequence := sat_add (sequence r) 1, updated_at := nv_now V, signature := sg\<rparr>), ns_naming s1)"
    using sign_verify [OF assms(1), of "r\<lparr>records := [Content cid], sequence := sat_add (sequence r) 1, updated_at := nv_now V, signature := []\<rparr>" "nv_key V"]
      assms(6) owned by (auto simp: register_name_def update_name_record_def)
  then have "fst (name_assign_handler V nm cid s1) = NameDone (name r) (name_hash r) (Some cid)"
    using assms(4,5,8,9) by (auto simp: name_assign_handler_def full Let_def)
  ultimately show ?thesis
    using local assms(4) by (simp add: resolve_name_record_def s1_def [symmetric])
qed

section \<open>Aliases\<close>

text \<open>From a name the gateway knows, \<open>k\<close> aliases lead to content.\<close>

inductive alias_path :: "naming_env \<Rightarrow> naming_manager \<Rightarrow> string \<Rightarrow> nat \<Rightarrow> string \<Rightarrow> bool" for E st where
  content: "resolve_local E st nm = Some r \<Longrightarrow> alias_target r = None \<Longrightarrow> content_cids r = cid # cids \<Longrightarrow> alias_path E st nm 0 cid"
| via: "resolve_local E st nm = Some r \<Longrightarrow> alias_target r = Some target \<Longrightarrow> alias_path E st target k cid \<Longrightarrow>
    alias_path E st nm (Suc k) cid"

lemma follow_alias_path:
  assumes "alias_path (nv_naming V) (ns_naming s) cur k cid"
  shows "follow_name V nm path n i cur s =
    (if k < n then serve_name_content V nm cid path s
     else (Some (html_reply 508 ''<h1>Loop Detected</h1><p>Alias chain too deep</p>''), s))"
  using assms
proof (induction arbitrary: n i rule: alias_path.induct)
  case (content cur r cid cids)
  then show ?case
    by (cases n) (simp_all add: resolve_name_record_def)
next
  case (via cur r target k cid)
  then show ?case
    by (cases n) (simp_all add: resolve_name_record_def)
qed


section \<open>What is not checked\<close>

text \<open>A record the DHT gives for a name is served for it, whatever name it is a record of.\<close>

lemma dht_record_of_other_name:
  assumes "nv_p2p V" "nv_dht V i nm = Some (Inr (Some data))" "NameStore.deserialize_record (nv_naming V) data = Inr r"
    and "accepted (nv_naming V) r" "\<not> is_revoked r"
  shows "fst (resolve_name_from_dht V i nm s) = Some r"
  using assms by (simp add: resolve_name_from_dht_def accepted_def)

lemma node_fetch:
  assumes "hm_get (cc_entries (gs_cache s)) key = None" "serve_from_p2p F key = None"
    and "fe_node_runners F = base # urls" "gs_tracker s = None" "ne_answer (fe_nodes F) 0 (download_url base key) = Some resp"
    and "is_success (na_status resp)" "node_content_of resp = Some (Buffered data mime)" "mime \<noteq> []" "mime \<noteq> ''text/html''"
  shows "fst (fetch_content F key b s) = Some (content_reply (fe_text F) mime (Some ''MISS'') (Some ''NODE'') (Whole data))"
proof -
  have "fst (cache_get (fe_now F) key (gs_cache s)) = None"
    using assms(1) by (simp add: cache_get_def)
  from fetch_miss [OF this] assms(2-9) show ?thesis
    by (simp add: ask_nodes_def increment_requests_def serve_from_node_def resolved_type_def keep_and_reply_def rewrite_html_assets_def)
qed

text \<open>The path below a name is not checked. A request for a CID with a path that climbs up is refused, but below a
  name that resolves to the same CID any path goes into the URL the node-runner is asked for, and what the
  node answers there is served.\<close>

theorem name_paths_unchecked:
  assumes "alias_path (nv_naming V) (ns_naming s) nm 0 cid" "nv_fetch V = F" "path \<noteq> []"
    and "hm_get (cc_entries (gs_cache (ns_content s))) (cid @ ''/'' @ path) = None" "serve_from_p2p F (cid @ ''/'' @ path) = None"
    and "fe_node_runners F = base # urls" "gs_tracker (ns_content s) = None"
    and "ne_answer (fe_nodes F) 0 (trim_end_slashes base @ ''/api/storage/download/'' @ cid @ ''/'' @ path) = Some resp"
    and "is_success (na_status resp)" "node_content_of resp = Some (Buffered data mime)"
    and "mime \<noteq> []" "mime \<noteq> ''text/html''" "te_header_ok (fe_text F) mime" "validate_cid cid" "traverses path"
  shows "(\<exists>reply. fst (resolve_shadow_name_and_serve V nm path s) = Some reply \<and> hp_status reply = 200 \<and> hp_body reply = Whole data) \<and>
    content_subpath F F2 cid path (ns_content s) = None"
proof -
  have serve: "resolve_shadow_name_and_serve V nm path s = serve_name_content V nm cid path s"
    using follow_alias_path [OF assms(1)] by (simp add: resolve_shadow_name_and_serve_def MAX_ALIAS_DEPTH_def)
  have "ne_answer (fe_nodes F) 0 (download_url base (cid @ ''/'' @ path)) = Some resp"
    using assms(8) by (simp add: download_url_def)
  then have "fst (fetch_content F (cid @ ''/'' @ path) b (ns_content s)) =
      Some (content_reply (fe_text F) mime (Some ''MISS'') (Some ''NODE'') (Whole data))" for b
    by (rule node_fetch [OF assms(4-7) _ assms(9-12)])
  then have "fst (serve_name_content V nm cid path s) = Some (content_reply (fe_text F) mime (Some ''MISS'') (Some ''NODE'') (Whole data))"
    using assms(2,3) by (simp add: serve_name_content_def fetched_def then_reply_def split_beta Let_def split: option.split)
  moreover have "CHR ''/'' \<notin> set cid"
    using validate_cid_alphanumeric [OF assms(14)] slash_not_alphanumeric by (auto simp: list_all_iff)
  then have "split_once (CHR ''/'') (cid @ ''/'' @ path) = (cid, Some path)"
    by (simp add: split_once_join join_path_def)
  then have "content_subpath F F2 cid path (ns_content s) = None"
    using assms(14,15) by (auto simp: content_subpath_def validate_content_path_def Let_def split: sum.split if_splits)
  ultimately show ?thesis
    using assms(13) by (simp add: serve content_reply_def)
qed

section \<open>Witnesses\<close>

definition demo_node_fetch :: fetch_env where
  "demo_node_fetch = demo_fetch\<lparr>fe_node_runners := [''http://n/''], fe_nodes := (fe_nodes demo_fetch)\<lparr>ne_answer := \<lambda>_ _. Some
     \<lparr>na_status = 200, na_content_type = Some ''text/plain'', na_content_length = None, na_body = Some [1]\<rparr>\<rparr>\<rparr>"

definition demo_names :: names_env where
  "demo_names = \<lparr>nv_naming = demo_naming, nv_enabled = True, nv_now = 200, nv_key = str_bytes ''k'', nv_p2p = True, nv_room = True,
     nv_dht = \<lambda>_ _. None, nv_draws = \<lambda>_ _. 0, nv_lower = demo_lower, nv_fetch = demo_node_fetch, nv_fetch_index = demo_fetch\<rparr>"

definition demo_cid_v0 :: string where
  "demo_cid_v0 = ''QmYwAPJzv5CZsnA625s3Xf2nemtYgPpHdWEz79ojWnPbdG''"

definition demo_named :: names_state where
  "demo_named = \<lparr>ns_naming = manager_new\<lparr>owned_names := [(name_hash demo_record, demo_record\<lparr>records := [Content demo_cid_v0]\<rparr>)]\<rparr>,
     ns_published = [], ns_content = demo_content\<rparr>"

lemma demo_named_owned:
  "hm_get (owned_names (ns_naming demo_named)) (name_to_hash (np demo_naming) ''app.shadow'') =
     Some (demo_record\<lparr>records := [Content demo_cid_v0]\<rparr>)"
  by (simp add: demo_named_def hm_get_def name_to_hash_def demo_record_def demo_naming_def)

lemma demo_named_path: "alias_path (nv_naming demo_names) (ns_naming demo_named) ''app.shadow'' 0 demo_cid_v0"
proof (rule alias_path.content)
  show "resolve_local (nv_naming demo_names) (ns_naming demo_named) ''app.shadow'' = Some (demo_record\<lparr>records := [Content demo_cid_v0]\<rparr>)"
    using demo_named_owned by (simp add: resolve_local_def demo_names_def)
qed (simp_all add: alias_target_def content_cids_def)

theorem owned_names_frozen_witness:
  "fst (name_assign_handler demo_names ''app.shadow'' demo_cid_v0 (names_step (demo_names, CallDelete ''app.shadow'') demo_named)) =
     NameDone ''app.shadow'' (name_hash demo_record) (Some demo_cid_v0)"
proof -
  have "validate_name ''app.shadow'' = Inr ()" "validate_cid demo_cid_v0" "ends_with ''app.shadow'' ''.shadow''"
    by code_simp+
  then show ?thesis
    using owned_names_frozen [OF demo_naming_correct demo_named_owned, of "[(demo_names, CallDelete ''app.shadow'')]" demo_names demo_cid_v0] demo_owner
    by (simp add: demo_names_def Let_def) (simp add: demo_record_def)
qed


theorem name_paths_unchecked_witness:
  "content_subpath demo_node_fetch demo_fetch demo_cid_v0 ''../../health'' (ns_content demo_named) = None"
proof (rule name_paths_unchecked [OF demo_named_path, THEN conjunct2])
  show "nv_fetch demo_names = demo_node_fetch"
    by (simp add: demo_names_def)
  show "validate_cid demo_cid_v0" "traverses ''../../health''"
    by code_simp+
  show "fe_node_runners demo_node_fetch = ''http://n/'' # []"
    by (simp add: demo_node_fetch_def)
  show "ne_answer (fe_nodes demo_node_fetch) 0 (trim_end_slashes ''http://n/'' @ ''/api/storage/download/'' @ demo_cid_v0 @ ''/'' @ ''../../health'') =
      Some \<lparr>na_status = 200, na_content_type = Some ''text/plain'', na_content_length = None, na_body = Some [1]\<rparr>"
    by (simp add: demo_node_fetch_def)
  show "node_content_of \<lparr>na_status = 200, na_content_type = Some ''text/plain'', na_content_length = None, na_body = Some [1]\<rparr> =
      Some (Buffered [1] ''text/plain'')"
    by (simp add: node_content_of_def STREAM_THRESHOLD_BYTES_def)
qed (simp_all add: demo_named_def demo_node_fetch_def is_success_def serve_from_p2p_def, simp_all add: demo_content_def)

end
