(* ===== verification/EnsBridge.thy ===== *)
theory EnsBridge
  imports NameRecord GatewayAuth GatewayContent
begin

text \<open>
  Names outside the network: the ENS bridge of \<open>protocol/src/ens_bridge.rs\<close>, which asks the eth.limo gateway and
  keeps the answers for an hour, and the bootstrap lists of \<open>protocol/src/bootstrap.rs\<close>. The Unicode tables of
  \<open>to_lowercase\<close>, the HTTP client, the DNS resolver and the environment are parameters.
\<close>

section \<open>Resolutions\<close>

datatype ens_resolution = ShadowName string | ContentId string | NotFoundEns

definition parse_contenthash :: "string \<Rightarrow> ens_resolution" where
  "parse_contenthash contenthash =
     (let trimmed = rust_trim contenthash in
      case rust_strip_prefix ''shadow://'' trimmed of
        Some shadow_ref \<Rightarrow> if ends_with shadow_ref ''.shadow'' then ShadowName shadow_ref else ContentId shadow_ref
      | None \<Rightarrow>
          (case rust_strip_prefix ''ipfs://'' trimmed of
             Some ipfs_ref \<Rightarrow> ContentId ipfs_ref
           | None \<Rightarrow>
               (case rust_strip_prefix ''/ipfs/'' trimmed of
                  Some ipfs_ref \<Rightarrow> ContentId ipfs_ref
                | None \<Rightarrow> NotFoundEns)))"

text \<open>The first piece of a split at any of some characters.\<close>

definition up_to_any :: "string \<Rightarrow> string \<Rightarrow> string" where
  "up_to_any ds s = takeWhile (\<lambda>c. c \<notin> set ds) s"

definition subdomain_cid :: "string \<Rightarrow> string option" where
  "subdomain_cid url =
     (case (case rust_strip_prefix ''https://'' url of Some h \<Rightarrow> Some h | None \<Rightarrow> rust_strip_prefix ''http://'' url) of
        None \<Rightarrow> None
      | Some host \<Rightarrow>
          (let parts = split_at CHR ''.'' host in
           if 4 \<le> length parts \<and> parts ! 1 = ''ipfs'' \<and> parts ! 0 \<noteq> [] then Some (parts ! 0) else None))"

definition extract_cid_from_url :: "string \<Rightarrow> string option" where
  "extract_cid_from_url url =
     (case str_find ''/ipfs/'' url of
        Some idx \<Rightarrow>
          (let cid = up_to_any ''/?#'' (drop (idx + 6) url)
           in if cid \<noteq> [] then Some cid else subdomain_cid url)
      | None \<Rightarrow> subdomain_cid url)"

section \<open>The bridge\<close>

definition ENS_CACHE_TTL :: duration where
  "ENS_CACHE_TTL = from_secs 3600"

definition ETH_LIMO_GATEWAY :: string where
  "ETH_LIMO_GATEWAY = ''eth.limo''"

record ens_cache_entry =
  ec_resolution :: ens_resolution
  ec_cached_at :: instant

record ens_bridge =
  eb_rpc_url :: "string option"
  eb_cache :: "(string, ens_cache_entry) hmap"
  eb_cache_ttl :: duration

definition ens_new :: "string \<Rightarrow> ens_bridge" where
  "ens_new rpc_url = \<lparr>eb_rpc_url = Some rpc_url, eb_cache = [], eb_cache_ttl = ENS_CACHE_TTL\<rparr>"

definition ens_without_rpc :: ens_bridge where
  "ens_without_rpc = \<lparr>eb_rpc_url = None, eb_cache = [], eb_cache_ttl = ENS_CACHE_TTL\<rparr>"

definition cleanup_cache :: "instant \<Rightarrow> ens_bridge \<Rightarrow> ens_bridge" where
  "cleanup_cache now b =
     b\<lparr>eb_cache := hm_retain (\<lambda>_ e. elapsed now (ec_cached_at e) < eb_cache_ttl b) (eb_cache b)\<rparr>"

definition cache_len :: "ens_bridge \<Rightarrow> nat" where
  "cache_len b = length (eb_cache b)"

definition ens_cache_insert :: "(string \<Rightarrow> string) \<Rightarrow> instant \<Rightarrow> string \<Rightarrow> ens_resolution \<Rightarrow> ens_bridge \<Rightarrow> ens_bridge" where
  "ens_cache_insert lower now nm resolution b =
     b\<lparr>eb_cache := hm_insert (lower nm) \<lparr>ec_resolution = resolution, ec_cached_at = now\<rparr> (eb_cache b)\<rparr>"

text \<open>\<open>trim_end_matches(".eth")\<close> removes the suffix as often as it is there.\<close>

function trim_end_eth :: "string \<Rightarrow> string" where
  "trim_end_eth s = (case rust_strip_suffix ''.eth'' s of Some l \<Rightarrow> trim_end_eth l | None \<Rightarrow> s)"
  by pat_completeness auto
termination
  by (relation "measure length") (auto simp: rust_strip_suffix_Some)

declare trim_end_eth.simps [simp del]

definition normalize_name :: "(string \<Rightarrow> string) \<Rightarrow> string \<Rightarrow> naming_error + string" where
  "normalize_name lower nm =
     (let normalized = rust_trim (lower nm) in
      if normalized = [] then Inl (InvalidName ''ENS name cannot be empty'')
      else if \<not> ends_with normalized ''.eth'' then
        Inl (InvalidName (''ENS name must end with .eth, got: '' @ normalized))
      else if trim_end_eth normalized = [] then Inl (InvalidName ''ENS name label cannot be empty'')
      else Inr normalized)"

datatype http_error = HttpTimeout string | HttpConnect string | HttpOther string

text \<open>A response: its status, and the headers that are readable text.\<close>

record http_head =
  hh_status :: nat
  hh_status_text :: string
  hh_header :: "string \<Rightarrow> string option"

record ens_http =
  eh_head :: "string \<Rightarrow> http_error + http_head"
  eh_get :: "string \<Rightarrow> http_error + http_head"

definition http_failure :: "string \<Rightarrow> http_error \<Rightarrow> naming_error" where
  "http_failure nm e =
     ResolutionFailed (case e of
        HttpTimeout m \<Rightarrow> ''ENS resolution timed out for '' @ nm @ '': '' @ m
      | HttpConnect m \<Rightarrow> ''Failed to connect to eth.limo for '' @ nm @ '': '' @ m
      | HttpOther m \<Rightarrow> ''HTTP error resolving '' @ nm @ '': '' @ m)"

definition found_in :: "string option \<Rightarrow> ens_resolution option" where
  "found_in header =
     (case header of
        None \<Rightarrow> None
      | Some v \<Rightarrow> (case parse_contenthash v of NotFoundEns \<Rightarrow> None | r \<Rightarrow> Some r))"

definition read_response :: "string \<Rightarrow> http_head \<Rightarrow> naming_error + ens_resolution" where
  "read_response nm resp =
     (let status = hh_status resp in
      if status = 404 \<or> status = 410 then Inr NotFoundEns
      else case found_in (hh_header resp ''x-ipfs-path'') of
        Some r \<Rightarrow> Inr r
      | None \<Rightarrow>
     (case found_in (hh_header resp ''content-hash'') of
        Some r \<Rightarrow> Inr r
      | None \<Rightarrow>
     (case (if 300 \<le> status \<and> status < 400 then Option.bind (hh_header resp ''location'') extract_cid_from_url else None) of
        Some cid \<Rightarrow> Inr (ContentId cid)
      | None \<Rightarrow>
          if 200 \<le> status \<and> status < 300 then Inr NotFoundEns
          else Inl (ResolutionFailed (''Unexpected HTTP '' @ hh_status_text resp @ '' from eth.limo for '' @ nm)))))"

definition gateway_url :: "string \<Rightarrow> string" where
  "gateway_url nm = ''https://'' @ nm @ ''.'' @ ETH_LIMO_GATEWAY"

definition resolve_via_gateway :: "ens_http \<Rightarrow> string \<Rightarrow> naming_error + ens_resolution" where
  "resolve_via_gateway H nm =
     (case eh_head H (gateway_url nm) of
        Inr resp \<Rightarrow> read_response nm resp
      | Inl _ \<Rightarrow>
          (case eh_get H (gateway_url nm) of
             Inl e \<Rightarrow> Inl (http_failure nm e)
           | Inr resp \<Rightarrow> read_response nm resp))"

definition ask_gateway ::
    "ens_http \<Rightarrow> instant \<Rightarrow> string \<Rightarrow> ens_bridge \<Rightarrow> (naming_error + ens_resolution) \<times> ens_bridge" where
  "ask_gateway H later normalized b =
     (case resolve_via_gateway H normalized of
        Inl e \<Rightarrow> (Inl e, b)
      | Inr r \<Rightarrow>
          (Inr r, b\<lparr>eb_cache := hm_insert normalized \<lparr>ec_resolution = r, ec_cached_at = later\<rparr> (eb_cache b)\<rparr>))"

text \<open>\<open>resolve_ens\<close> asked at \<open>now\<close> and answered at \<open>later\<close>.\<close>

definition resolve_ens ::
    "(string \<Rightarrow> string) \<Rightarrow> ens_http \<Rightarrow> instant \<Rightarrow> instant \<Rightarrow> string \<Rightarrow> ens_bridge \<Rightarrow> (naming_error + ens_resolution) \<times> ens_bridge" where
  "resolve_ens lower H now later ens_name b =
     (case normalize_name lower ens_name of
        Inl e \<Rightarrow> (Inl e, b)
      | Inr normalized \<Rightarrow>
          (case hm_get (eb_cache b) normalized of
             Some entry \<Rightarrow>
               if elapsed now (ec_cached_at entry) < eb_cache_ttl b then (Inr (ec_resolution entry), b)
               else ask_gateway H later normalized b
           | None \<Rightarrow> ask_gateway H later normalized b))"

section \<open>Bootstrap lists\<close>

definition list_items :: "string \<Rightarrow> string list" where
  "list_items s = filter (\<lambda>w. w \<noteq> []) (map rust_trim (split_at CHR '','' s))"

text \<open>\<open>env_nodes\<close> is the variable \<open>SHADOWMESH_BOOTSTRAP_NODES\<close>.\<close>

definition get_bootstrap_nodes :: "string option \<Rightarrow> string list" where
  "get_bootstrap_nodes env_nodes = (case env_nodes of None \<Rightarrow> [] | Some s \<Rightarrow> list_items s)"

definition DEFAULT_BOOTSTRAP_NODES :: "string list" where
  "DEFAULT_BOOTSTRAP_NODES = []"

definition get_bootstrap_nodes_merged :: "string option \<Rightarrow> string list \<Rightarrow> string list" where
  "get_bootstrap_nodes_merged env_nodes config_peers =
     (let from_env = fold hs_insert (case env_nodes of None \<Rightarrow> [] | Some s \<Rightarrow> list_items s) [];
          from_config = fold hs_insert (filter (\<lambda>w. w \<noteq> []) (map rust_trim config_peers)) from_env
      in fold hs_insert (filter (\<lambda>w. w \<noteq> []) DEFAULT_BOOTSTRAP_NODES) from_config)"

definition is_valid_bootstrap_multiaddr :: "string \<Rightarrow> bool" where
  "is_valid_bootstrap_multiaddr addr \<longleftrightarrow>
     (starts_with addr ''/ip4/'' \<or> starts_with addr ''/ip6/'') \<and> str_contains addr ''/p2p/'' \<and>
     (str_contains addr ''/tcp/'' \<or> str_contains addr ''/udp/'')"

text \<open>DNS: no resolver, or for each domain the TXT records with their data, a failure or a timeout.\<close>

datatype dns_answer = TxtRecords "bytes list list" | DnsFailed | DnsTimedOut

definition resolve_dns_seeds :: "(bytes \<Rightarrow> string) \<Rightarrow> (string \<Rightarrow> dns_answer) option \<Rightarrow> string list \<Rightarrow> string list" where
  "resolve_dns_seeds lossy resolver domains =
     (case resolver of
        None \<Rightarrow> []
      | Some lookup \<Rightarrow>
          concat (map (\<lambda>domain.
            (case lookup domain of
               TxtRecords answers \<Rightarrow>
                 filter (\<lambda>a. a \<noteq> [] \<and> is_valid_bootstrap_multiaddr a)
                   (map (\<lambda>txt. rust_trim (lossy txt)) (concat answers))
             | DnsFailed \<Rightarrow> []
             | DnsTimedOut \<Rightarrow> [])) domains))"

text \<open>What the gateway and the node dial: the merged list, then the seeds that are not in it.\<close>

definition all_bootstrap :: "string list \<Rightarrow> string list \<Rightarrow> string list" where
  "all_bootstrap merged dns_peers = fold hs_insert dns_peers merged"

lemma fold_hs_insert:
  "distinct xs \<Longrightarrow> distinct (fold hs_insert ys xs) \<and> set (fold hs_insert ys xs) = set xs \<union> set ys \<and>
     prefix xs (fold hs_insert ys xs)"
proof (induction ys arbitrary: xs)
  case (Cons y ys)
  have "prefix xs (hs_insert y xs)"
    by (simp add: hs_insert_def)
  with Cons.IH [of "hs_insert y xs"] Cons.prems show ?case
    by (auto intro: prefix_order.trans)
qed simp

text \<open>The nodes to dial are without duplicates, start with those of the environment in their order, which take
  precedence, and contain every source; every DNS seed among them is an address with an IP, a transport and a
  peer id.\<close>

theorem bootstrap_sources:
  "let seeds = resolve_dns_seeds lossy resolver domains;
       dialed = all_bootstrap (get_bootstrap_nodes_merged env_nodes config_peers) seeds
   in distinct dialed \<and> prefix (fold hs_insert (get_bootstrap_nodes env_nodes) []) dialed \<and>
      set dialed = set (get_bootstrap_nodes env_nodes) \<union> (rust_trim ` set config_peers - {[]}) \<union> set seeds \<and>
      list_all is_valid_bootstrap_multiaddr seeds"
proof -
  let ?env = "fold hs_insert (get_bootstrap_nodes env_nodes) []"
  let ?merged = "get_bootstrap_nodes_merged env_nodes config_peers"
  have env: "distinct ?env" "set ?env = set (get_bootstrap_nodes env_nodes)"
    using fold_hs_insert [of "[]" "get_bootstrap_nodes env_nodes"] by auto
  have merged: "?merged = fold hs_insert (filter (\<lambda>w. w \<noteq> []) (map rust_trim config_peers)) ?env"
    by (simp add: get_bootstrap_nodes_merged_def get_bootstrap_nodes_def DEFAULT_BOOTSTRAP_NODES_def)
  have m: "distinct ?merged" "prefix ?env ?merged"
      "set ?merged = set (get_bootstrap_nodes env_nodes) \<union> (rust_trim ` set config_peers - {[]})"
    using fold_hs_insert [OF env(1)] env(2) by (auto simp: merged)
  have "list_all is_valid_bootstrap_multiaddr (resolve_dns_seeds lossy resolver domains)"
    by (auto simp: resolve_dns_seeds_def list_all_iff split: option.split dns_answer.splits)
  then show ?thesis
    using fold_hs_insert [OF m(1), of "resolve_dns_seeds lossy resolver domains"] m
    by (auto simp: all_bootstrap_def Let_def intro: prefix_order.trans)
qed

section \<open>What an ENS name may do\<close>

lemma trim_end_eth_keeps: "CHR ''/'' \<in> set s \<Longrightarrow> CHR ''/'' \<in> set (trim_end_eth s)"
proof (induction s rule: trim_end_eth.induct)
  case (1 s)
  show ?case
  proof (cases "rust_strip_suffix ''.eth'' s")
    case None
    with 1 show ?thesis
      by (simp add: trim_end_eth.simps [of s])
  next
    case (Some l)
    then have "trim_end_eth s = trim_end_eth l"
      by (simp add: trim_end_eth.simps [of s])
    moreover have "s = l @ ''.eth''"
      using Some by (simp add: rust_strip_suffix_Some)
    ultimately show ?thesis
      using 1 Some by simp
  qed
qed

text \<open>An ENS name chooses the host that is asked: a slash in it ends the host of the URL, so that the server of
  the caller's choice, not eth.limo, decides what the name resolves to.\<close>

theorem ens_name_chooses_host:
  assumes "rust_trim (lower ens_name) = host @ ''/'' @ label @ ''.eth''" "hm_get (eb_cache b) (rust_trim (lower ens_name)) = None"
    and "eh_head H (''https://'' @ host @ ''/'' @ label @ ''.eth.eth.limo'') = Inr answer"
  shows "fst (resolve_ens lower H now later ens_name b) = read_response (rust_trim (lower ens_name)) answer"
proof -
  let ?n = "host @ ''/'' @ label @ ''.eth''"
  have "ends_with ?n ''.eth''"
    using rust_strip_suffix_Some [of "''.eth''" ?n "host @ ''/'' @ label"] by (simp add: ends_with_def)
  moreover have "trim_end_eth ?n \<noteq> []"
    using trim_end_eth_keeps [of ?n] by auto
  ultimately have "normalize_name lower ens_name = Inr ?n"
    using assms(1) by (simp add: normalize_name_def Let_def)
  with assms show ?thesis
    by (simp add: resolve_ens_def ask_gateway_def resolve_via_gateway_def gateway_url_def ETH_LIMO_GATEWAY_def
        split: sum.split)
qed

definition demo_head :: http_head where
  "demo_head = \<lparr>hh_status = 200, hh_status_text = ''200 OK'',
     hh_header = \<lambda>h. if h = ''x-ipfs-path'' then Some ''/ipfs/QmEvil'' else None\<rparr>"

definition demo_ens_http :: ens_http where
  "demo_ens_http =
     \<lparr>eh_head = \<lambda>url. if url = ''https://evil.example/a.eth.eth.limo'' then Inr demo_head else Inl (HttpOther ''no''),
      eh_get = \<lambda>_. Inl (HttpOther ''no'')\<rparr>"

theorem ens_name_chooses_host_witness:
  "fst (resolve_ens (\<lambda>s. s) demo_ens_http 0 0 '' evil.example/a.eth'' ens_without_rpc) = Inr (ContentId ''QmEvil'')"
proof -
  have trimmed: "rust_trim '' evil.example/a.eth'' = ''evil.example'' @ ''/'' @ ''a'' @ ''.eth''"
    by code_simp
  have "read_response ''evil.example/a.eth'' demo_head = Inr (ContentId ''QmEvil'')"
    by code_simp
  with ens_name_chooses_host [of "\<lambda>s. s", OF trimmed, of ens_without_rpc demo_ens_http demo_head 0 0] show ?thesis
    by (simp add: trimmed ens_without_rpc_def demo_ens_http_def)
qed

end
