(* ===== verification/BrowserNames.thy ===== *)
theory BrowserNames
  imports EnsBridge
begin

text \<open>
  The name resolver of the browser SDK, \<open>sdk-browser/src/naming.rs\<close>: \<open>.shadow\<close> names are asked of the known
  gateways, \<open>.eth\<close> names of eth.limo and then of the gateways, and answers are cached for five minutes.

  The browser's \<open>fetch\<close> is a parameter, and so are \<open>serde_json\<close> and \<open>to_lowercase\<close>. Times are the milliseconds
  of \<open>Date.now()\<close>, whole numbers. Errors of JavaScript only make the resolver go on, so that they carry nothing.
\<close>

section \<open>Third-party code\<close>

text \<open>What a request comes to: an exception, a rejected promise or something that is no response; otherwise the
  status, the headers that are there, and the body as text, when it can be read.\<close>

record js_response =
  jr_status :: nat
  jr_header :: "string \<Rightarrow> string option"
  jr_text :: "string option option" \<comment> \<open>\<open>None\<close>: reading it throws; \<open>Some None\<close>: it is not text\<close>

record names_fetch =
  nf_head :: "string \<Rightarrow> js_response option"
  nf_get :: "string \<Rightarrow> js_response option"
  nf_window :: bool
  nf_lower :: "string \<Rightarrow> string"
  nf_to_json :: "ens_resolution \<Rightarrow> string option"
  nf_field :: "string \<Rightarrow> string \<Rightarrow> string option" \<comment> \<open>a string field of a JSON object, in its text\<close>
  nf_has_field :: "string \<Rightarrow> string \<Rightarrow> bool" \<comment> \<open>a field of any type\<close>
  nf_multiaddrs :: "string \<Rightarrow> string list option" \<comment> \<open>the strings in the array \<open>multiaddrs\<close>\<close>
  nf_parses :: "string \<Rightarrow> bool"

definition response_ok :: "js_response \<Rightarrow> bool" where
  "response_ok r \<longleftrightarrow> 200 \<le> jr_status r \<and> jr_status r < 300"

section \<open>Resolver\<close>

definition MAX_CACHE_ENTRIES_SDK :: nat where
  "MAX_CACHE_ENTRIES_SDK = 500"

definition CACHE_TTL_MS :: nat where
  "CACHE_TTL_MS = 300000"

record cached_entry =
  ce_data :: string
  ce_expires_at :: nat

record wasm_resolver =
  wr_gateway_urls :: "string list"
  wr_cache :: "(string, cached_entry) hmap"

definition resolver_new :: "string list \<Rightarrow> wasm_resolver" where
  "resolver_new urls = \<lparr>wr_gateway_urls = urls, wr_cache = []\<rparr>"

definition add_gateway_url :: "string \<Rightarrow> wasm_resolver \<Rightarrow> wasm_resolver" where
  "add_gateway_url url r =
     (if url \<in> set (wr_gateway_urls r) then r else r\<lparr>wr_gateway_urls := wr_gateway_urls r @ [url]\<rparr>)"

definition clear_cache :: "wasm_resolver \<Rightarrow> wasm_resolver" where
  "clear_cache r = r\<lparr>wr_cache := []\<rparr>"

definition get_cached :: "nat \<Rightarrow> string \<Rightarrow> wasm_resolver \<Rightarrow> string option" where
  "get_cached now n r =
     (case hm_get (wr_cache r) n of
        None \<Rightarrow> None
      | Some e \<Rightarrow> if now < ce_expires_at e then Some (ce_data e) else None)"

definition set_cached :: "nat \<Rightarrow> string \<Rightarrow> string \<Rightarrow> wasm_resolver \<Rightarrow> wasm_resolver" where
  "set_cached now n data r =
     (let cache = (case wr_cache r of
                     [] \<Rightarrow> []
                   | (k, _) # rest \<Rightarrow>
                       if MAX_CACHE_ENTRIES_SDK \<le> length (wr_cache r) then hm_remove k (wr_cache r) else wr_cache r)
      in r\<lparr>wr_cache := hm_insert n \<lparr>ce_data = data, ce_expires_at = now + CACHE_TTL_MS\<rparr> cache\<rparr>)"

section \<open>Content hashes\<close>

definition sdk_parse_contenthash :: "string \<Rightarrow> ens_resolution option" where
  "sdk_parse_contenthash contenthash =
     (let trimmed = rust_trim contenthash in
      case rust_strip_prefix ''shadow://'' trimmed of
        Some shadow_ref \<Rightarrow>
          Some (if ends_with shadow_ref ''.shadow'' then ShadowName shadow_ref else ContentId shadow_ref)
      | None \<Rightarrow>
          (case rust_strip_prefix ''ipfs://'' trimmed of
             Some ipfs_ref \<Rightarrow> if ipfs_ref \<noteq> [] then Some (ContentId ipfs_ref) else None
           | None \<Rightarrow>
               (case rust_strip_prefix ''/ipfs/'' trimmed of
                  Some ipfs_ref \<Rightarrow>
                    (let cid = up_to_any ''/'' ipfs_ref in if cid \<noteq> [] then Some (ContentId cid) else None)
                | None \<Rightarrow> None)))"

text \<open>The SDK has a copy of \<open>extract_cid_from_url\<close>, word for word.\<close>

definition sdk_extract_cid_from_url :: "string \<Rightarrow> string option" where
  "sdk_extract_cid_from_url url = extract_cid_from_url url"

text \<open>\<open>Ok(None)\<close> is \<open>Inr None\<close>: no useful header.\<close>

definition extract_cid_from_response :: "names_fetch \<Rightarrow> js_response \<Rightarrow> unit + string option" where
  "extract_cid_from_response F resp =
     (let status = jr_status resp;
          answer = (\<lambda>r. case nf_to_json F r of None \<Rightarrow> Inl () | Some json \<Rightarrow> Inr (Some json)) in
      if status = 404 \<or> status = 410 then answer NotFoundEns
      else case Option.bind (jr_header resp ''x-ipfs-path'') sdk_parse_contenthash of
        Some r \<Rightarrow> answer r
      | None \<Rightarrow>
     (case Option.bind (jr_header resp ''content-hash'') sdk_parse_contenthash of
        Some r \<Rightarrow> answer r
      | None \<Rightarrow>
     (case (if status \<in> {301, 302, 307, 308} then Option.bind (jr_header resp ''location'') sdk_extract_cid_from_url
            else None) of
        Some cid \<Rightarrow> answer (ContentId cid)
      | None \<Rightarrow> Inr None)))"

definition fetch_eth_limo :: "names_fetch \<Rightarrow> (string \<Rightarrow> js_response option) \<Rightarrow> string \<Rightarrow> unit + string option" where
  "fetch_eth_limo F request url =
     (if \<not> nf_window F then Inl ()
      else (case request url of None \<Rightarrow> Inl () | Some resp \<Rightarrow> extract_cid_from_response F resp))"

section \<open>Gateways\<close>

text \<open>The first gateway that answers with a text; one that throws while its body is read ends the search.\<close>

fun eth_via_gateways :: "names_fetch \<Rightarrow> string \<Rightarrow> string list \<Rightarrow> unit + string option" where
  "eth_via_gateways F n [] = Inr None"
| "eth_via_gateways F n (url # urls) =
     (if \<not> nf_window F then Inl ()
      else
        (case nf_get F (trim_end_slashes url @ ''/api/ens/'' @ n) of
           None \<Rightarrow> eth_via_gateways F n urls
         | Some resp \<Rightarrow>
             if \<not> response_ok resp then eth_via_gateways F n urls
             else
               (case jr_text resp of
                  None \<Rightarrow> Inl ()
                | Some None \<Rightarrow> eth_via_gateways F n urls
                | Some (Some t) \<Rightarrow> Inr (Some t))))"

definition resolve_eth :: "names_fetch \<Rightarrow> string \<Rightarrow> wasm_resolver \<Rightarrow> unit + string option" where
  "resolve_eth F n r =
     (let normalized = nf_lower F n in
      if \<not> ends_with normalized ''.eth'' then Inr None
      else
        (let url = gateway_url normalized in
         case fetch_eth_limo F (nf_head F) url of
           Inr (Some json) \<Rightarrow> Inr (Some json)
         | Inr None \<Rightarrow>
             (case fetch_eth_limo F (nf_get F) url of
                Inr result \<Rightarrow> Inr result
              | Inl _ \<Rightarrow> eth_via_gateways F normalized (wr_gateway_urls r))
         | Inl _ \<Rightarrow> eth_via_gateways F normalized (wr_gateway_urls r)))"

definition fetch_text :: "names_fetch \<Rightarrow> string \<Rightarrow> (string option) option" where
  "fetch_text F url =
     (if \<not> nf_window F then None
      else
        (case nf_get F url of
           None \<Rightarrow> None
         | Some resp \<Rightarrow> if \<not> response_ok resp then Some None else jr_text resp))"

definition quoted :: "string \<Rightarrow> string" where
  "quoted s = [CHR 0x22] @ s @ [CHR 0x22]"

definition fetch_name :: "names_fetch \<Rightarrow> string \<Rightarrow> string \<Rightarrow> string option" where
  "fetch_name F url n =
     (case fetch_text F (trim_end_slashes url @ ''/api/names/'' @ n) of
        Some (Some t) \<Rightarrow>
          if str_contains t (quoted ''found'' @ '':true'') \<or> str_contains t (quoted ''cid'') then Some t else None
      | _ \<Rightarrow> None)"

definition fetch_services :: "names_fetch \<Rightarrow> string \<Rightarrow> string \<Rightarrow> string option" where
  "fetch_services F url service_type =
     (case fetch_text F (trim_end_slashes url @ ''/api/services/'' @ service_type) of Some (Some t) \<Rightarrow> Some t | _ \<Rightarrow> None)"

text \<open>The first success of a loop that goes on after each failure.\<close>

fun find_map :: "('a \<Rightarrow> 'b option) \<Rightarrow> 'a list \<Rightarrow> 'b option" where
  "find_map f [] = None"
| "find_map f (x # xs) = (case f x of Some y \<Rightarrow> Some y | None \<Rightarrow> find_map f xs)"

definition resolve_shadow :: "names_fetch \<Rightarrow> string \<Rightarrow> wasm_resolver \<Rightarrow> unit + string option" where
  "resolve_shadow F n r = Inr (find_map (\<lambda>url. fetch_name F url n) (wr_gateway_urls r))"

section \<open>Entry points\<close>

text \<open>\<open>resolve\<close>, asked at \<open>now\<close> and answered at \<open>later\<close>; null is \<open>None\<close>.\<close>

definition resolve_name ::
    "names_fetch \<Rightarrow> nat \<Rightarrow> nat \<Rightarrow> string \<Rightarrow> wasm_resolver \<Rightarrow> string option \<times> wasm_resolver" where
  "resolve_name F now later n r =
     (case get_cached now n r of
        Some cached \<Rightarrow> (Some cached, r)
      | None \<Rightarrow>
          (case (if ends_with n ''.eth'' then resolve_eth F n r else resolve_shadow F n r) of
             Inr (Some json) \<Rightarrow> (Some json, set_cached later n json r)
           | _ \<Rightarrow> (None, r)))"

text \<open>The URL of a service in its resolution: one of two fields, then the first multiaddress with a scheme.\<close>

definition service_url :: "names_fetch \<Rightarrow> string \<Rightarrow> string list \<Rightarrow> string \<Rightarrow> string option" where
  "service_url F other schemes s =
     (if \<not> nf_parses F s then None
      else
        (case (if nf_has_field F s ''url'' then nf_field F s ''url'' else nf_field F s other) of
           Some url \<Rightarrow> Some url
         | None \<Rightarrow>
             Option.bind (nf_multiaddrs F s) (find (\<lambda>a. list_ex (starts_with a) schemes))))"

definition resolve_service ::
    "names_fetch \<Rightarrow> nat \<Rightarrow> nat \<Rightarrow> string \<Rightarrow> string \<Rightarrow> string list \<Rightarrow> string \<Rightarrow> wasm_resolver \<Rightarrow> string \<times> wasm_resolver" where
  "resolve_service F now later n other schemes fallback r =
     (case resolve_name F now later n r of
        (Some s, r') \<Rightarrow> (case service_url F other schemes s of Some u \<Rightarrow> (u, r') | None \<Rightarrow> (fallback, r'))
      | (None, r') \<Rightarrow> (fallback, r'))"

definition resolve_gateway :: "names_fetch \<Rightarrow> nat \<Rightarrow> nat \<Rightarrow> string \<Rightarrow> wasm_resolver \<Rightarrow> string \<times> wasm_resolver" where
  "resolve_gateway F now later fallback r =
     resolve_service F now later ''_gateway.shadow'' ''gateway_url'' [''http://'', ''https://''] fallback r"

definition resolve_signaling :: "names_fetch \<Rightarrow> nat \<Rightarrow> nat \<Rightarrow> string \<Rightarrow> wasm_resolver \<Rightarrow> string \<times> wasm_resolver" where
  "resolve_signaling F now later fallback r =
     resolve_service F now later ''_signaling.shadow'' ''signaling_url'' [''ws://'', ''wss://''] fallback r"

definition discover_services :: "names_fetch \<Rightarrow> string \<Rightarrow> wasm_resolver \<Rightarrow> string" where
  "discover_services F service_type r =
     (case find_map (\<lambda>url. fetch_services F url service_type) (wr_gateway_urls r) of Some json \<Rightarrow> json | None \<Rightarrow> ''[]'')"

section \<open>What the resolver guarantees\<close>

datatype names_call =
    Resolve names_fetch nat nat string
  | Service names_fetch nat nat string string "string list" string
  | AddGateway string
  | ClearCache

fun resolver_call :: "names_call \<Rightarrow> wasm_resolver \<Rightarrow> wasm_resolver" where
  "resolver_call (Resolve F now later n) r = snd (resolve_name F now later n r)"
| "resolver_call (Service F now later n other schemes fallback) r =
     snd (resolve_service F now later n other schemes fallback r)"
| "resolver_call (AddGateway url) r = add_gateway_url url r"
| "resolver_call ClearCache r = clear_cache r"

definition resolver_bounded :: "wasm_resolver \<Rightarrow> bool" where
  "resolver_bounded r \<longleftrightarrow> hm_wf (wr_cache r) \<and> length (wr_cache r) \<le> MAX_CACHE_ENTRIES_SDK"

lemma set_cached_bounded:
  assumes "resolver_bounded r"
  shows "resolver_bounded (set_cached now n data r)"
proof (cases "wr_cache r")
  case (Cons kv rest)
  obtain k v where kv: "kv = (k, v)" by (cases kv)
  have "length (hm_remove k (wr_cache r)) = length (wr_cache r) - 1"
    using assms by (intro length_hm_remove [where v = v]) (auto simp: resolver_bounded_def Cons kv hm_get_def)
  then have "length (wr_cache (set_cached now n data r)) \<le> MAX_CACHE_ENTRIES_SDK"
    using assms by (auto simp: set_cached_def Let_def Cons kv resolver_bounded_def length_hm_insert MAX_CACHE_ENTRIES_SDK_def)
  then show ?thesis
    using assms by (auto simp: resolver_bounded_def set_cached_def Let_def split: list.split)
qed (simp add: resolver_bounded_def set_cached_def length_hm_insert MAX_CACHE_ENTRIES_SDK_def)

lemma resolve_name_bounded: "resolver_bounded r \<Longrightarrow> resolver_bounded (snd (resolve_name F now later n r))"
  by (auto simp: resolve_name_def intro: set_cached_bounded split: option.split sum.split)

lemma resolve_service_state:
  "snd (resolve_service F now later n other schemes fallback r) = snd (resolve_name F now later n r)"
  by (simp add: resolve_service_def split: prod.split option.split)

lemma resolver_call_bounded: "resolver_bounded r \<Longrightarrow> resolver_bounded (resolver_call c r)"
  by (cases c) (simp_all add: resolve_service_state resolve_name_bounded,
    simp_all add: add_gateway_url_def clear_cache_def resolver_bounded_def)

interpretation browser_names: call_machine resolver_call resolver_bounded
  by unfold_locales (rule resolver_call_bounded)

theorem browser_names_bounded:
  "length (wr_cache (fold resolver_call calls (resolver_new urls))) \<le> 500"
  using browser_names.run_inv [of "resolver_new urls" calls]
  by (simp add: resolver_bounded_def resolver_new_def MAX_CACHE_ENTRIES_SDK_def)

text \<open>The node and the browser read a content hash with a path differently: the node takes the path for a part of
  the identifier.\<close>

theorem content_hashes_read_twice:
  "parse_contenthash ''/ipfs/QmA/index.html'' = ContentId ''QmA/index.html'' \<and>
   sdk_parse_contenthash ''/ipfs/QmA/index.html'' = Some (ContentId ''QmA'')"
  by code_simp

end
