(* ===== verification/BrowserCrypto.thy ===== *)
theory BrowserCrypto
  imports Crypto
begin

text \<open>
  The keys of the browser SDK, \<open>sdk-browser/src/crypto.rs\<close>: the long-term identity of a browser, the signed
  handshake that carries an ephemeral key, the channel key both ends derive, and the encrypted frames of a
  data channel. Errors are those of \<open>sdk-browser/src/error.rs\<close>.

  The Ed25519 and X25519 keys are known by their 32 secret bytes, which the generator draws. HKDF-SHA256 and
  the check of \<open>VerifyingKey::from_bytes\<close> are parameters next to the primitives of \<open>Crypto\<close>.
\<close>

section \<open>Errors\<close>

record sdk_error =
  se_code :: string
  se_message :: string

definition sdk_error_new :: "string \<Rightarrow> string \<Rightarrow> sdk_error" where
  "sdk_error_new c message = \<lparr>se_code = c, se_message = message\<rparr>"

definition sdk_error_text :: "sdk_error \<Rightarrow> string" where
  "sdk_error_text e = se_code e @ '': '' @ se_message e"

definition CONNECTION_FAILED :: string where
  "CONNECTION_FAILED = ''CONNECTION_FAILED''"

definition SIGNALING_ERROR :: string where
  "SIGNALING_ERROR = ''SIGNALING_ERROR''"

definition WEBRTC_ERROR :: string where
  "WEBRTC_ERROR = ''WEBRTC_ERROR''"

definition CONTENT_NOT_FOUND :: string where
  "CONTENT_NOT_FOUND = ''CONTENT_NOT_FOUND''"

definition SDK_TIMEOUT :: string where
  "SDK_TIMEOUT = ''TIMEOUT''"

definition NOT_CONNECTED :: string where
  "NOT_CONNECTED = ''NOT_CONNECTED''"

definition CRYPTO_ERROR :: string where
  "CRYPTO_ERROR = ''CRYPTO_ERROR''"

definition AUTH_FAILED :: string where
  "AUTH_FAILED = ''AUTH_FAILED''"

section \<open>Third-party code\<close>

record browser_keys =
  bk_prims :: prims
  bk_hkdf :: "bytes \<Rightarrow> bytes \<Rightarrow> bytes \<Rightarrow> bytes" \<comment> \<open>salt, input key, info; 32 bytes\<close>
  bk_key_ok :: "bytes \<Rightarrow> bool"

text \<open>What \<open>ed25519-dalek\<close> and \<open>hkdf\<close> document: the key of a seed is a valid key of 32 bytes, a signature has 64
  bytes, HKDF fills the requested 32 bytes.\<close>

definition browser_keys_correct :: "browser_keys \<Rightarrow> bool" where
  "browser_keys_correct K \<longleftrightarrow>
     aead_correct (bk_prims K) \<and> x25519_correct (bk_prims K) \<and> ed25519_correct (bk_prims K) \<and>
     (\<forall>s. length (ed_public (bk_prims K) s) = 32 \<and> bk_key_ok K (ed_public (bk_prims K) s)) \<and>
     (\<forall>s m. length (ed_sign (bk_prims K) s m) = 64) \<and>
     (\<forall>salt ikm info. length (bk_hkdf K salt ikm info) = 32)"

section \<open>Identities and ephemeral keys\<close>

definition MIN_ENCRYPTED_LEN :: nat where
  "MIN_ENCRYPTED_LEN = NONCE_SIZE + 16"

definition HANDSHAKE_TAG :: u8 where
  "HANDSHAKE_TAG = 1"

definition DATA_TAG :: u8 where
  "DATA_TAG = 2"

definition IDENTITY_PUBLIC_LEN :: nat where
  "IDENTITY_PUBLIC_LEN = 32"

definition EPHEMERAL_PUBLIC_LEN :: nat where
  "EPHEMERAL_PUBLIC_LEN = 32"

definition SIGNATURE_LEN :: nat where
  "SIGNATURE_LEN = 64"

definition HANDSHAKE_FRAME_LEN :: nat where
  "HANDSHAKE_FRAME_LEN = 1 + IDENTITY_PUBLIC_LEN + EPHEMERAL_PUBLIC_LEN + SIGNATURE_LEN"

definition HS_CONTEXT :: bytes where
  "HS_CONTEXT = str_bytes ''shadowmesh-datachannel-noise-v2''"

definition hex_lower :: "bytes \<Rightarrow> string" where
  "hex_lower bs = hex_bytes bs"

record identity =
  id_signing :: bytes

definition public_bytes :: "browser_keys \<Rightarrow> identity \<Rightarrow> bytes" where
  "public_bytes K i = ed_public (bk_prims K) (id_signing i)"

definition identity_peer_id :: "browser_keys \<Rightarrow> identity \<Rightarrow> string" where
  "identity_peer_id K i = hex_lower (public_bytes K i)"

definition identity_sign :: "browser_keys \<Rightarrow> identity \<Rightarrow> bytes \<Rightarrow> bytes" where
  "identity_sign K i message = ed_sign (bk_prims K) (id_signing i) message"

record ephemeral_keypair =
  ek_secret :: bytes
  ek_public :: bytes

definition ephemeral_generate :: "browser_keys \<Rightarrow> bytes \<Rightarrow> ephemeral_keypair" where
  "ephemeral_generate K drawn = \<lparr>ek_secret = drawn, ek_public = x25519_public (bk_prims K) drawn\<rparr>"

section \<open>The handshake\<close>

definition ephemeral_signing_message :: "bytes \<Rightarrow> bytes" where
  "ephemeral_signing_message eph_pub = HS_CONTEXT @ eph_pub"

definition build_handshake :: "browser_keys \<Rightarrow> identity \<Rightarrow> ephemeral_keypair \<Rightarrow> bytes" where
  "build_handshake K i e =
     HANDSHAKE_TAG # public_bytes K i @ ek_public e @
     identity_sign K i (ephemeral_signing_message (ek_public e))"

record peer_handshake =
  ph_peer_id :: string
  ph_ephemeral_public :: bytes

definition verify_handshake :: "browser_keys \<Rightarrow> bytes \<Rightarrow> sdk_error + peer_handshake" where
  "verify_handshake K frame =
     (if length frame \<noteq> HANDSHAKE_FRAME_LEN then
        Inl (sdk_error_new AUTH_FAILED (''Invalid handshake: expected '' @ show_nat HANDSHAKE_FRAME_LEN @
          '' bytes, got '' @ show_nat (length frame)))
      else if frame ! 0 \<noteq> HANDSHAKE_TAG then
        Inl (sdk_error_new AUTH_FAILED ''Invalid handshake: missing handshake tag'')
      else
        (let identity_pub = take IDENTITY_PUBLIC_LEN (drop 1 frame);
             eph_start = 1 + IDENTITY_PUBLIC_LEN;
             eph_pub = take EPHEMERAL_PUBLIC_LEN (drop eph_start frame);
             sig_start = eph_start + EPHEMERAL_PUBLIC_LEN;
             sig_bytes = take SIGNATURE_LEN (drop sig_start frame)
         in if \<not> bk_key_ok K identity_pub then
              Inl (sdk_error_new AUTH_FAILED ''Invalid handshake: bad identity key'')
            else if \<not> ed_verify (bk_prims K) identity_pub (ephemeral_signing_message eph_pub) sig_bytes then
              Inl (sdk_error_new AUTH_FAILED
                ''Invalid handshake: ephemeral key signature verification failed'')
            else Inr \<lparr>ph_peer_id = hex_lower identity_pub, ph_ephemeral_public = eph_pub\<rparr>))"

text \<open>The salt orders the two public keys, so that both ends derive the same key.\<close>

definition derive_channel_key :: "browser_keys \<Rightarrow> ephemeral_keypair \<Rightarrow> bytes \<Rightarrow> bytes" where
  "derive_channel_key K e theirs =
     (let shared = x25519_dh (bk_prims K) (ek_secret e) theirs;
          salt = (if \<not> bytes_less theirs (ek_public e) then ek_public e @ theirs else theirs @ ek_public e)
      in bk_hkdf K salt shared HS_CONTEXT)"

section \<open>Frames\<close>

text \<open>A cipher is its key; the nonce of a frame is drawn at random.\<close>

definition channel_encrypt :: "browser_keys \<Rightarrow> bytes \<Rightarrow> bytes \<Rightarrow> bytes \<Rightarrow> sdk_error + bytes" where
  "channel_encrypt K key rnd plaintext =
     (case aead_encrypt (bk_prims K) key rnd plaintext of
        Inl e \<Rightarrow> Inl (sdk_error_new CRYPTO_ERROR (''ChaCha20-Poly1305 encryption failed: '' @ e))
      | Inr c \<Rightarrow> Inr (rnd @ c))"

definition channel_decrypt :: "browser_keys \<Rightarrow> bytes \<Rightarrow> bytes \<Rightarrow> sdk_error + bytes" where
  "channel_decrypt K key data =
     (if length data < MIN_ENCRYPTED_LEN then
        Inl (sdk_error_new CRYPTO_ERROR (''Ciphertext too short ('' @ show_nat (length data) @
          '' bytes, minimum '' @ show_nat MIN_ENCRYPTED_LEN @ '')''))
      else
        (case aead_decrypt (bk_prims K) key (take NONCE_SIZE data) (drop NONCE_SIZE data) of
           Inl e \<Rightarrow> Inl (sdk_error_new CRYPTO_ERROR (''ChaCha20-Poly1305 decryption failed: '' @ e))
         | Inr p \<Rightarrow> Inr p))"

definition encrypt_data :: "browser_keys \<Rightarrow> bytes \<Rightarrow> bytes \<Rightarrow> bytes \<Rightarrow> sdk_error + bytes" where
  "encrypt_data K key rnd payload = channel_encrypt K key rnd (DATA_TAG # payload)"

definition decrypt_data :: "browser_keys \<Rightarrow> bytes \<Rightarrow> bytes \<Rightarrow> sdk_error + bytes" where
  "decrypt_data K key data =
     (case channel_decrypt K key data of
        Inl e \<Rightarrow> Inl e
      | Inr plaintext \<Rightarrow>
          (case plaintext of
             [] \<Rightarrow> Inl (sdk_error_new CRYPTO_ERROR ''Invalid data frame: unexpected tag byte'')
           | t # payload \<Rightarrow>
               if t \<noteq> DATA_TAG then
                 Inl (sdk_error_new CRYPTO_ERROR ''Invalid data frame: unexpected tag byte'')
               else Inr payload))"

section \<open>Lemmas\<close>

lemmas handshake_sizes = HANDSHAKE_FRAME_LEN_def IDENTITY_PUBLIC_LEN_def EPHEMERAL_PUBLIC_LEN_def
  SIGNATURE_LEN_def

lemma hex_digit_distinct: "a < 16 \<Longrightarrow> b < 16 \<Longrightarrow> hex_digit a = hex_digit b \<Longrightarrow> a = b"
proof -
  assume "a < 16" "b < 16" "hex_digit a = hex_digit b"
  then have "(of_char (hex_digit a) :: nat) = of_char (hex_digit b)"
    by simp
  with \<open>a < 16\<close> \<open>b < 16\<close> show "a = b"
    by (simp add: hex_digit_def split: if_splits)
qed

lemma hex_byte_inj:
  assumes "hex_digit (unat a div 16) = hex_digit (unat b div 16)"
    and "hex_digit (unat a mod 16) = hex_digit (unat b mod 16)"
  shows "a = (b :: u8)"
proof -
  have small: "unat x div 16 < 16" for x :: u8
    using unsigned_less [of x, where 'a = nat] by simp
  have "unat a div 16 = unat b div 16" "unat a mod 16 = unat b mod 16"
    using assms by (auto intro: hex_digit_distinct small)
  then have "unat a = unat b"
    by (metis div_mult_mod_eq)
  then show ?thesis
    by (simp only: word_eq_iff_unsigned [where 'a = nat])
qed

lemma hex_lower_inj: "hex_lower a = hex_lower b \<Longrightarrow> a = b"
proof (induction a arbitrary: b)
  case Nil
  then show ?case
    by (cases b) (auto simp: hex_lower_def hex_bytes_def)
next
  case (Cons x xs)
  then obtain y ys where "b = y # ys"
    by (cases b) (auto simp: hex_lower_def hex_bytes_def)
  with Cons show ?case
    by (auto simp: hex_lower_def hex_bytes_def intro: hex_byte_inj)
qed

lemma length_channel_key [word_len]: "browser_keys_correct K \<Longrightarrow> length (derive_channel_key K e p) = 32"
  by (simp add: derive_channel_key_def browser_keys_correct_def Let_def)

text \<open>A frame that verifies carries an ephemeral key signed by the identity it names, and nothing else about
  the connection it is sent on.\<close>

lemma verified_handshake:
  assumes "verify_handshake K frame = Inr h"
  obtains pub sig where "ph_peer_id h = hex_lower pub"
    and "ed_verify (bk_prims K) pub (ephemeral_signing_message (ph_ephemeral_public h)) sig"
    and "frame = HANDSHAKE_TAG # pub @ ph_ephemeral_public h @ sig"
proof -
  let ?pub = "take 32 (drop 1 frame)" and ?eph = "take 32 (drop 33 frame)" and ?sig = "take 64 (drop 65 frame)"
  from assms have len: "length frame = 129" and tag: "frame ! 0 = HANDSHAKE_TAG"
    and sig: "ed_verify (bk_prims K) ?pub (ephemeral_signing_message ?eph) ?sig"
    and h: "h = \<lparr>ph_peer_id = hex_lower ?pub, ph_ephemeral_public = ?eph\<rparr>"
    by (auto simp: verify_handshake_def handshake_sizes Let_def split: if_splits)
  from len tag obtain rest where frame: "frame = HANDSHAKE_TAG # rest" and rest: "length rest = 128"
    by (cases frame) auto
  have "rest = take 32 rest @ take 32 (drop 32 rest) @ take 64 (drop 64 rest)"
    using rest by (metis append_take_drop_id drop_drop take_all_iff length_drop numeral_Bit0 add_diff_cancel_left' order_refl)
  with frame have "frame = HANDSHAKE_TAG # ?pub @ ?eph @ ?sig"
    by simp
  with that [of ?pub ?sig] sig h show ?thesis
    by simp
qed

lemma handshake_verifies:
  assumes "browser_keys_correct K" "length (ek_public e) = 32"
  shows "verify_handshake K (build_handshake K i e) =
    Inr \<lparr>ph_peer_id = identity_peer_id K i, ph_ephemeral_public = ek_public e\<rparr>"
  using assms
  by (simp add: verify_handshake_def build_handshake_def handshake_sizes Let_def browser_keys_correct_def
      public_bytes_def identity_sign_def identity_peer_id_def ed25519_correct_def)

lemma channel_keys_agree:
  assumes "browser_keys_correct K"
  shows "derive_channel_key K (ephemeral_generate K a) (ek_public (ephemeral_generate K b)) =
    derive_channel_key K (ephemeral_generate K b) (ek_public (ephemeral_generate K a))"
proof -
  have "derive_channel_key K e p = bk_hkdf K (sorted_pair (ek_public e) p)
      (x25519_dh (bk_prims K) (ek_secret e) p) HS_CONTEXT" for e p
    using bytes_less_asym [of p "ek_public e"] bytes_less_total [of p "ek_public e"]
    by (auto simp: derive_channel_key_def sorted_pair_def Let_def)
  then show ?thesis
    using assms sorted_pair_commute
    by (simp add: ephemeral_generate_def browser_keys_correct_def x25519_correct_def)
qed

lemma data_frame_opens:
  assumes "browser_keys_correct K" "length key = 32" "length rnd = 12" "length payload < aead_limit"
  shows "\<exists>frame. encrypt_data K key rnd payload = Inr frame \<and> decrypt_data K key frame = Inr payload"
proof -
  have "aead_correct (bk_prims K)"
    using assms(1) by (simp add: browser_keys_correct_def)
  then obtain c where "aead_encrypt (bk_prims K) key rnd (DATA_TAG # payload) = Inr c"
    "length c = length (DATA_TAG # payload) + 16"
    "aead_decrypt (bk_prims K) key rnd c = Inr (DATA_TAG # payload)"
    by (rule aead_correctE [of _ key rnd "DATA_TAG # payload"]) (use assms in auto)
  with assms(3) show ?thesis
    by (intro exI [of _ "rnd @ c"])
      (simp add: encrypt_data_def decrypt_data_def channel_encrypt_def channel_decrypt_def
        MIN_ENCRYPTED_LEN_def NONCE_SIZE_def)
qed

end
