(* ===== verification/BrowserChannel.thy ===== *)
theory BrowserChannel
  imports BrowserCrypto
begin

text \<open>
  The WebRTC connection of the browser SDK, \<open>sdk-browser/src/webrtc.rs\<close>: the states of a connection, the
  handlers of its data channels, and the sending of application data under the key of the handshake.

  The browser's \<open>RTCPeerConnection\<close> is outside the model: it is the source of the events, and the effects are
  what the handlers ask of it. A data channel is known by a number; all channels of a connection share its
  state, as the handlers do. What a message event carries is an \<open>ArrayBuffer\<close> or something else.
\<close>

section \<open>Connections\<close>

datatype webrtc_state = StNew | StConnecting | StConnected | StAuthenticated | StDisconnected | StFailed

datatype ready_state = ChConnecting | ChOpen | ChClosed

type_synonym channel_id = nat

record webrtc_conn =
  wc_data_channel :: "channel_id option"
  wc_ready :: "(channel_id, ready_state) hmap"
  wc_state :: webrtc_state
  wc_identity :: identity
  wc_ephemeral :: ephemeral_keypair
  wc_cipher :: "bytes option"
  wc_expected_remote_id :: string
  wc_peer_authenticated :: bool

text \<open>\<open>new\<close>: \<open>drawn\<close> is the ephemeral secret, \<open>refused\<close> the error of the browser, when it refuses the connection.\<close>

definition webrtc_new ::
    "browser_keys \<Rightarrow> bytes \<Rightarrow> string option \<Rightarrow> identity \<Rightarrow> string \<Rightarrow> sdk_error + webrtc_conn" where
  "webrtc_new K drawn refused i remote_peer_id =
     (case refused of
        Some e \<Rightarrow> Inl (sdk_error_new WEBRTC_ERROR e)
      | None \<Rightarrow> Inr
          \<lparr>wc_data_channel = None, wc_ready = [], wc_state = StNew, wc_identity = i,
           wc_ephemeral = ephemeral_generate K drawn, wc_cipher = None,
           wc_expected_remote_id = remote_peer_id, wc_peer_authenticated = False\<rparr>)"

section \<open>Handlers of the data channels\<close>

datatype js_data = ArrayBuffer bytes | OtherData

datatype channel_event =
    DataChannel channel_id
  | OpenEvent channel_id
  | CloseEvent channel_id
  | ErrorEvent channel_id
  | MessageEvent channel_id js_data

datatype channel_effect =
    SendFrame channel_id bytes
  | Deliver bytes

definition channel_close :: "channel_id \<Rightarrow> webrtc_conn \<Rightarrow> webrtc_conn" where
  "channel_close c w = w\<lparr>wc_ready := hm_insert c ChClosed (wc_ready w)\<rparr>"

definition on_open ::
    "browser_keys \<Rightarrow> channel_id \<Rightarrow> webrtc_conn \<Rightarrow> webrtc_conn \<times> channel_effect list" where
  "on_open K c w =
     (w\<lparr>wc_ready := hm_insert c ChOpen (wc_ready w), wc_state := StConnected\<rparr>,
      [SendFrame c (build_handshake K (wc_identity w) (wc_ephemeral w))])"

text \<open>A frame before the peer is authenticated, and one after.\<close>

definition on_handshake :: "browser_keys \<Rightarrow> channel_id \<Rightarrow> bytes \<Rightarrow> webrtc_conn \<Rightarrow> webrtc_conn" where
  "on_handshake K c raw w =
     (case verify_handshake K raw of
        Inr peer \<Rightarrow>
          if ph_peer_id peer \<noteq> wc_expected_remote_id w then
            (channel_close c w)\<lparr>wc_state := StFailed\<rparr>
          else
            w\<lparr>wc_cipher := Some (derive_channel_key K (wc_ephemeral w) (ph_ephemeral_public peer)),
              wc_peer_authenticated := True, wc_state := StAuthenticated\<rparr>
      | Inl _ \<Rightarrow> (channel_close c w)\<lparr>wc_state := StFailed\<rparr>)"

definition on_data :: "browser_keys \<Rightarrow> bytes \<Rightarrow> webrtc_conn \<Rightarrow> channel_effect list" where
  "on_data K raw w =
     (case wc_cipher w of
        None \<Rightarrow> []
      | Some key \<Rightarrow> (case decrypt_data K key raw of Inr plaintext \<Rightarrow> [Deliver plaintext] | Inl _ \<Rightarrow> []))"

fun channel_step ::
    "browser_keys \<Rightarrow> channel_event \<Rightarrow> webrtc_conn \<Rightarrow> webrtc_conn \<times> channel_effect list" where
  "channel_step K (DataChannel c) w =
     (w\<lparr>wc_ready := hm_insert c ChConnecting (wc_ready w), wc_data_channel := Some c\<rparr>, [])"
| "channel_step K (OpenEvent c) w = on_open K c w"
| "channel_step K (CloseEvent c) w =
     ((channel_close c w)\<lparr>wc_state := StDisconnected\<rparr>, [])"
| "channel_step K (ErrorEvent c) w = (w\<lparr>wc_state := StFailed\<rparr>, [])"
| "channel_step K (MessageEvent c data) w =
     (case data of
        OtherData \<Rightarrow> (w, [])
      | ArrayBuffer raw \<Rightarrow>
          if \<not> wc_peer_authenticated w then (on_handshake K c raw w, []) else (w, on_data K raw w))"

section \<open>Offers, answers, sending\<close>

text \<open>\<open>create_offer\<close> opens the channel \<open>c\<close>; the descriptions are made by the browser, which may refuse.\<close>

definition create_offer :: "channel_id \<Rightarrow> string + string \<Rightarrow> webrtc_conn \<Rightarrow> (sdk_error + string) \<times> webrtc_conn" where
  "create_offer c sdp w =
     (map_err (sdk_error_new WEBRTC_ERROR) sdp,
      w\<lparr>wc_state := StConnecting, wc_ready := hm_insert c ChConnecting (wc_ready w), wc_data_channel := Some c\<rparr>)"

definition create_answer :: "string + string \<Rightarrow> webrtc_conn \<Rightarrow> (sdk_error + string) \<times> webrtc_conn" where
  "create_answer sdp w = (map_err (sdk_error_new WEBRTC_ERROR) sdp, w\<lparr>wc_state := StConnecting\<rparr>)"

text \<open>\<open>send\<close>: \<open>rnd\<close> is the nonce, \<open>refused\<close> the error of the browser's \<open>send\<close>. The frame goes to the channel.\<close>

definition webrtc_send ::
    "browser_keys \<Rightarrow> bytes \<Rightarrow> string option \<Rightarrow> bytes \<Rightarrow> webrtc_conn \<Rightarrow> sdk_error + channel_id \<times> bytes" where
  "webrtc_send K rnd refused data w =
     (case wc_data_channel w of
        None \<Rightarrow> Inl (sdk_error_new NOT_CONNECTED ''Data channel not ready'')
      | Some c \<Rightarrow>
          if hm_get (wc_ready w) c \<noteq> Some ChOpen then
            Inl (sdk_error_new NOT_CONNECTED ''Data channel not open'')
          else
            (case wc_cipher w of
               None \<Rightarrow> Inl (sdk_error_new NOT_CONNECTED
                         ''Cannot send: authenticated handshake not yet complete'')
             | Some key \<Rightarrow>
                 (case encrypt_data K key rnd data of
                    Inl e \<Rightarrow> Inl e
                  | Inr encrypted \<Rightarrow>
                      (case refused of
                         Some e \<Rightarrow> Inl (sdk_error_new WEBRTC_ERROR (''Send failed: '' @ e))
                       | None \<Rightarrow> Inr (c, encrypted)))))"

definition webrtc_is_connected :: "webrtc_conn \<Rightarrow> bool" where
  "webrtc_is_connected w \<longleftrightarrow> wc_state w = StConnected \<or> wc_state w = StAuthenticated"

definition webrtc_is_authenticated :: "webrtc_conn \<Rightarrow> bool" where
  "webrtc_is_authenticated w \<longleftrightarrow> wc_peer_authenticated w"

definition webrtc_close :: "webrtc_conn \<Rightarrow> webrtc_conn" where
  "webrtc_close w =
     (case wc_data_channel w of None \<Rightarrow> w | Some c \<Rightarrow> channel_close c w)\<lparr>wc_state := StDisconnected\<rparr>"

section \<open>What a connection guarantees\<close>

lemmas channel_defs = on_open_def on_handshake_def on_data_def channel_close_def

text \<open>The key of a connection comes from an ephemeral key that the expected identity signed.\<close>

definition signed_by :: "browser_keys \<Rightarrow> string \<Rightarrow> bytes \<Rightarrow> bool" where
  "signed_by K peer eph \<longleftrightarrow> (\<exists>pub sig. peer = hex_lower pub \<and>
     ed_verify (bk_prims K) pub (ephemeral_signing_message eph) sig)"

definition keyed :: "browser_keys \<Rightarrow> string \<Rightarrow> ephemeral_keypair \<Rightarrow> bytes \<Rightarrow> bool" where
  "keyed K peer e key \<longleftrightarrow> (\<exists>theirs. signed_by K peer theirs \<and> key = derive_channel_key K e theirs)"

definition conn_ok :: "browser_keys \<Rightarrow> string \<Rightarrow> ephemeral_keypair \<Rightarrow> webrtc_conn \<Rightarrow> bool" where
  "conn_ok K peer e w \<longleftrightarrow> wc_expected_remote_id w = peer \<and> wc_ephemeral w = e \<and>
     (wc_peer_authenticated w \<longleftrightarrow> wc_cipher w \<noteq> None) \<and>
     (\<forall>key. wc_cipher w = Some key \<longrightarrow> keyed K peer e key)"

lemma verified_keyed:
  "verify_handshake K raw = Inr h \<Longrightarrow> ph_peer_id h = peer \<Longrightarrow>
   keyed K peer e (derive_channel_key K e (ph_ephemeral_public h))"
  by (erule verified_handshake) (auto simp: signed_by_def keyed_def)

lemma conn_ok_step: "conn_ok K peer e w \<Longrightarrow> conn_ok K peer e (fst (channel_step K ev w))"
  by (cases ev)
    (auto simp: conn_ok_def channel_defs intro: verified_keyed split: js_data.split sum.split)

interpretation channel: call_machine "\<lambda>ev w. fst (channel_step K ev w)" "conn_ok K peer e" for K peer e
  by unfold_locales (rule conn_ok_step)

lemma delivered_opens:
  assumes "conn_ok K peer e w" "Deliver p \<in> set (snd (channel_step K ev w))"
  obtains c raw key where "ev = MessageEvent c (ArrayBuffer raw)" "keyed K peer e key"
    "decrypt_data K key raw = Inr p"
  using assms
  by (cases ev) (auto simp: conn_ok_def channel_defs split: js_data.splits sum.splits if_splits option.splits)

end
