(* ===== verification/BrowserClient.thy ===== *)
theory BrowserClient
  imports BrowserChannel Signaling Fragments NodeStorage RateLimit
begin

text \<open>
  The browser client of the SDK, \<open>sdk-browser/src/client.rs\<close>: content it asks of peers over their encrypted
  channels, puts together, verifies and keeps, what it serves in turn, and the HTTP gateway it falls back on.

  The client runs in one thread; an \<open>await\<close> lets other events in. A P2P fetch is therefore two steps, the
  request and the wake-up, with a token for its one-shot channel: the answer is read from \<open>cb_answers\<close>, and a
  token that no pending fetch holds any more is a dropped sender. \<open>cb_waiting\<close> are the fetches that are suspended. \<open>cb_awaiting\<close> is the time in which the
  message loop waits for the browser with the connections borrowed; borrowing them mutably then is a panic,
  the value \<open>None\<close>. Frames that were sent are appended to \<open>cb_outbox\<close>. A connection that leaves the map is
  closed, and its events are not modelled. JSON, Base64, the answers of the gateway and of the browser are
  parameters. Logging is left out.
\<close>

section \<open>Messages\<close>

record sdk_request =
  qr_request_type :: string
  qr_cid :: string
  qr_fragment_index :: "u32 option"

record sdk_response =
  qs_response_type :: string
  qs_cid :: string
  qs_fragment_index :: "u32 option"
  qs_total_fragments :: "u32 option"
  qs_data :: "string option"
  qs_error :: "string option"

record sdk_json =
  sj_request :: "sdk_request \<Rightarrow> string + bytes"
  sj_request_de :: "bytes \<Rightarrow> sdk_request option"
  sj_response :: "sdk_response \<Rightarrow> string + bytes"
  sj_response_de :: "bytes \<Rightarrow> sdk_response option"
  sj_base64 :: "bytes \<Rightarrow> string"
  sj_base64_de :: "string \<Rightarrow> bytes option"

text \<open>
  \<open>serde_json\<close> and \<open>base64\<close>: messages are written as UTF-8 text that reads back, a request has no field
  \<open>response_type\<close> and does not read as a response, no JSON text starts with a control character, and Base64
  decodes to what was encoded.
\<close>

definition sdk_json_correct :: "sdk_json \<Rightarrow> bool" where
  "sdk_json_correct J \<longleftrightarrow>
     (\<forall>r. \<exists>t. sj_request J r = Inr t \<and> utf8_valid (map unat t) \<and> sj_request_de J t = Some r \<and>
        sj_response_de J t = None) \<and>
     (\<forall>r. \<exists>t. sj_response J r = Inr t \<and> utf8_valid (map unat t) \<and> sj_response_de J t = Some r) \<and>
     (\<forall>b t. b < 9 \<longrightarrow> sj_request_de J (b # t) = None \<and> sj_response_de J (b # t) = None) \<and>
     (\<forall>d. sj_base64_de J (sj_base64 J d) = Some d)"

section \<open>The client\<close>

definition FRAGMENT_SIZE :: nat where
  "FRAGMENT_SIZE = 256 * 1024"

record client_config =
  cc_signaling_url :: string
  cc_gateway_url :: "string option"
  cc_stun_servers :: "string list"
  cc_max_peers :: nat
  cc_timeout_ms :: u32
  cc_use_fallback :: bool

definition client_config_new :: "string \<Rightarrow> client_config" where
  "client_config_new signaling_url =
     \<lparr>cc_signaling_url = signaling_url, cc_gateway_url = None,
      cc_stun_servers = [''stun:stun.l.google.com:19302'', ''stun:stun1.l.google.com:19302'',
        ''stun:stun2.l.google.com:19302''],
      cc_max_peers = 5, cc_timeout_ms = 30000, cc_use_fallback = True\<rparr>"

definition set_gateway_url :: "string \<Rightarrow> client_config \<Rightarrow> client_config" where
  "set_gateway_url url c = c\<lparr>cc_gateway_url := Some url\<rparr>"

definition add_stun_server :: "string \<Rightarrow> client_config \<Rightarrow> client_config" where
  "add_stun_server server c = c\<lparr>cc_stun_servers := cc_stun_servers c @ [server]\<rparr>"

definition set_max_peers :: "nat \<Rightarrow> client_config \<Rightarrow> client_config" where
  "set_max_peers n c = c\<lparr>cc_max_peers := n\<rparr>"

definition set_timeout :: "u32 \<Rightarrow> client_config \<Rightarrow> client_config" where
  "set_timeout ms c = c\<lparr>cc_timeout_ms := ms\<rparr>"

definition set_use_fallback :: "bool \<Rightarrow> client_config \<Rightarrow> client_config" where
  "set_use_fallback b c = c\<lparr>cc_use_fallback := b\<rparr>"

record browser_env =
  be_keys :: browser_keys
  be_json :: sdk_json

type_synonym fetch_token = nat

record pending_fetch =
  pf_cid :: string
  pf_fragments :: "(u32, bytes) hmap"
  pf_total_fragments :: "u32 option"
  pf_resolver :: "fetch_token option"

record browser_client =
  cb_config :: client_config
  cb_identity :: identity
  cb_peer_id :: string
  cb_signaling :: bool
  cb_connections :: "(string, webrtc_conn) hmap"
  cb_connecting :: "(string \<times> webrtc_conn) list"
  cb_available_peers :: "peer_info list"
  cb_connected :: bool
  cb_pending :: "(string, pending_fetch) hmap"
  cb_cache :: "(string, bytes) hmap"
  cb_answers :: "(fetch_token, sdk_error + bytes) hmap"
  cb_next :: fetch_token
  cb_waiting :: "(fetch_token, string) hmap"
  cb_awaiting :: bool
  cb_outbox :: "(string \<times> channel_id \<times> bytes) list"

text \<open>\<open>new\<close>: \<open>seed\<close> is the drawn identity key.\<close>

definition client_new :: "browser_env \<Rightarrow> bytes \<Rightarrow> client_config \<Rightarrow> browser_client" where
  "client_new E seed cfg =
     \<lparr>cb_config = cfg, cb_identity = \<lparr>id_signing = seed\<rparr>,
      cb_peer_id = identity_peer_id (be_keys E) \<lparr>id_signing = seed\<rparr>, cb_signaling = False,
      cb_connections = [], cb_connecting = [], cb_available_peers = [], cb_connected = False,
      cb_pending = [], cb_cache = [], cb_answers = [], cb_next = 0, cb_waiting = [], cb_awaiting = False, cb_outbox = []\<rparr>"

section \<open>Content identifiers\<close>

definition base58 :: string where
  "base58 = ''123456789ABCDEFGHJKLMNPQRSTUVWXYZabcdefghijkmnopqrstuvwxyz''"

definition base32_lower :: string where
  "base32_lower = ''abcdefghijklmnopqrstuvwxyz234567''"

definition is_valid_ipfs_cid :: "string \<Rightarrow> bool" where
  "is_valid_ipfs_cid cid \<longleftrightarrow>
     (if starts_with cid ''Qm'' then length cid = 46 \<and> list_all (\<lambda>b. b \<in> set base58) cid
      else if starts_with cid ''bafy'' then length cid = 59 \<and> list_all (\<lambda>b. b \<in> set base32_lower) cid
      else False)"

definition verify_cid :: "browser_env \<Rightarrow> bytes \<Rightarrow> string \<Rightarrow> bool" where
  "verify_cid E data expected_cid \<longleftrightarrow>
     (if starts_with expected_cid ''Qm'' \<or> starts_with expected_cid ''bafy'' then is_valid_ipfs_cid expected_cid
      else map to_ascii_lowercase (hex_lower (blake3 (bk_prims (be_keys E)) data)) = map to_ascii_lowercase expected_cid)"

section \<open>Answers of peers\<close>

definition resolve_fetch :: "string \<Rightarrow> sdk_error + bytes \<Rightarrow> pending_fetch \<Rightarrow> browser_client \<Rightarrow> browser_client" where
  "resolve_fetch cid r fetch s =
     s\<lparr>cb_pending := hm_remove cid (cb_pending s),
       cb_answers := (case pf_resolver fetch of None \<Rightarrow> cb_answers s | Some t \<Rightarrow> hm_insert t r (cb_answers s))\<rparr>"

text \<open>The fragments \<open>0..total\<close> in order, or \<open>None\<close> when one is missing.\<close>

definition assemble :: "u32 \<Rightarrow> (u32, bytes) hmap \<Rightarrow> bytes option" where
  "assemble n fragments =
     map_option concat (those (map (\<lambda>i. hm_get fragments (word_of_nat i)) [0..<unat n]))"

definition handle_fragment ::
    "browser_env \<Rightarrow> string \<Rightarrow> u32 \<Rightarrow> u32 \<Rightarrow> bytes \<Rightarrow> pending_fetch \<Rightarrow> browser_client \<Rightarrow> browser_client" where
  "handle_fragment E cid fragment_index n fragment_data fetch0 s =
     (let fetch = fetch0\<lparr>pf_total_fragments := Some n,
                          pf_fragments := hm_insert fragment_index fragment_data (pf_fragments fetch0)\<rparr>
      in if length (pf_fragments fetch) = unat n then
           (case assemble n (pf_fragments fetch) of
              None \<Rightarrow> resolve_fetch cid (Inl (sdk_error_new CONTENT_NOT_FOUND
                         ''Missing fragment during reassembly'')) fetch s
            | Some assembled \<Rightarrow>
                if \<not> verify_cid E assembled cid then
                  resolve_fetch cid (Inl (sdk_error_new CONTENT_NOT_FOUND
                    ''Content hash verification failed'')) fetch s
                else
                  resolve_fetch cid (Inr assembled) fetch
                    (s\<lparr>cb_cache := hm_insert cid assembled (cb_cache s)\<rparr>))
         else s\<lparr>cb_pending := hm_insert cid fetch (cb_pending s)\<rparr>)"

definition handle_content_response :: "browser_env \<Rightarrow> sdk_response \<Rightarrow> browser_client \<Rightarrow> browser_client" where
  "handle_content_response E response s =
     (let cid = qs_cid response; kind = qs_response_type response in
      if kind = ''content_response'' then
        (case (qs_fragment_index response, qs_total_fragments response, qs_data response) of
           (Some fragment_index, Some n, Some data_b64) \<Rightarrow>
             (case sj_base64_de (be_json E) data_b64 of
                None \<Rightarrow> s
              | Some fragment_data \<Rightarrow>
                  (case hm_get (cb_pending s) cid of
                     None \<Rightarrow> s
                   | Some fetch \<Rightarrow> handle_fragment E cid fragment_index n fragment_data fetch s))
         | _ \<Rightarrow> s)
      else if kind = ''content_not_found'' then
        (case hm_get (cb_pending s) cid of
           None \<Rightarrow> s
         | Some fetch \<Rightarrow> resolve_fetch cid (Inl (sdk_error_new CONTENT_NOT_FOUND
             ''Peer does not have the requested content'')) fetch s)
      else if kind = ''content_error'' then
        (case hm_get (cb_pending s) cid of
           None \<Rightarrow> s
         | Some fetch \<Rightarrow> resolve_fetch cid (Inl (sdk_error_new WEBRTC_ERROR
             (case qs_error response of None \<Rightarrow> ''Unknown peer error'' | Some m \<Rightarrow> m))) fetch s)
      else s)"

section \<open>Requests of peers\<close>

definition fragment_response :: "sdk_json \<Rightarrow> string \<Rightarrow> nat \<Rightarrow> u32 \<Rightarrow> bytes \<Rightarrow> sdk_response" where
  "fragment_response J cid i n chunk =
     \<lparr>qs_response_type = ''content_response'', qs_cid = cid, qs_fragment_index = Some (word_of_nat i),
      qs_total_fragments = Some n, qs_data = Some (sj_base64 J chunk), qs_error = None\<rparr>"

definition not_found_response :: "string \<Rightarrow> sdk_response" where
  "not_found_response cid =
     \<lparr>qs_response_type = ''content_not_found'', qs_cid = cid, qs_fragment_index = None,
      qs_total_fragments = None, qs_data = None, qs_error = None\<rparr>"

text \<open>The loop over the chunks: the \<open>k\<close>-th frame takes the nonce \<open>rnd k\<close>; it stops at the first frame that is not sent.\<close>

fun send_fragments ::
    "browser_env \<Rightarrow> (nat \<Rightarrow> bytes) \<Rightarrow> (nat \<Rightarrow> string option) \<Rightarrow> string \<Rightarrow> u32 \<Rightarrow> webrtc_conn \<Rightarrow> nat \<Rightarrow> bytes list \<Rightarrow>
     (channel_id \<times> bytes) list" where
  "send_fragments E rnd refused cid n w i [] = []"
| "send_fragments E rnd refused cid n w i (chunk # cs) =
     (case sj_response (be_json E) (fragment_response (be_json E) cid i n chunk) of
        Inl _ \<Rightarrow> send_fragments E rnd refused cid n w (Suc i) cs
      | Inr json \<Rightarrow>
          (case webrtc_send (be_keys E) (rnd i) (refused i) json w of
             Inl _ \<Rightarrow> []
           | Inr sent \<Rightarrow> sent # send_fragments E rnd refused cid n w (Suc i) cs))"

definition handle_content_request ::
    "browser_env \<Rightarrow> (nat \<Rightarrow> bytes) \<Rightarrow> (nat \<Rightarrow> string option) \<Rightarrow> string \<Rightarrow> sdk_request \<Rightarrow> browser_client \<Rightarrow>
     (channel_id \<times> bytes) list" where
  "handle_content_request E rnd refused peer_id request s =
     (case hm_get (cb_connections s) peer_id of
        None \<Rightarrow> []
      | Some w \<Rightarrow>
          if \<not> webrtc_is_connected w then []
          else
            (case hm_get (cb_cache s) (qr_cid request) of
               Some data \<Rightarrow>
                 (let cs = chunks FRAGMENT_SIZE data
                  in send_fragments E rnd refused (qr_cid request) (word_of_nat (length cs)) w 0 cs)
             | None \<Rightarrow>
                 (case sj_response (be_json E) (not_found_response (qr_cid request)) of
                    Inl _ \<Rightarrow> []
                  | Inr json \<Rightarrow>
                      (case webrtc_send (be_keys E) (rnd 0) (refused 0) json w of
                         Inl _ \<Rightarrow> [] | Inr sent \<Rightarrow> [sent]))))"

text \<open>The callback of a connection, and the events of a connection.\<close>

definition on_message ::
    "browser_env \<Rightarrow> (nat \<Rightarrow> bytes) \<Rightarrow> (nat \<Rightarrow> string option) \<Rightarrow> string \<Rightarrow> bytes \<Rightarrow> browser_client \<Rightarrow> browser_client" where
  "on_message E rnd refused peer_id data s =
     (if \<not> utf8_valid (map unat data) then s
      else
        (case sj_response_de (be_json E) data of
           Some response \<Rightarrow> handle_content_response E response s
         | None \<Rightarrow>
             (case sj_request_de (be_json E) data of
                None \<Rightarrow> s
              | Some request \<Rightarrow>
                  s\<lparr>cb_outbox := cb_outbox s @
                      map (\<lambda>(c, frame). (peer_id, c, frame))
                        (handle_content_request E rnd refused peer_id request s)\<rparr>)))"

fun apply_effect ::
    "browser_env \<Rightarrow> (nat \<Rightarrow> bytes) \<Rightarrow> (nat \<Rightarrow> string option) \<Rightarrow> string \<Rightarrow> channel_effect \<Rightarrow> browser_client \<Rightarrow> browser_client" where
  "apply_effect E rnd refused peer_id (SendFrame c frame) s =
     s\<lparr>cb_outbox := cb_outbox s @ [(peer_id, c, frame)]\<rparr>"
| "apply_effect E rnd refused peer_id (Deliver data) s = on_message E rnd refused peer_id data s"

definition connection_event ::
    "browser_env \<Rightarrow> (nat \<Rightarrow> bytes) \<Rightarrow> (nat \<Rightarrow> string option) \<Rightarrow> string \<Rightarrow> channel_event \<Rightarrow> browser_client \<Rightarrow> browser_client" where
  "connection_event E rnd refused peer_id ev s =
     (case hm_get (cb_connections s) peer_id of
        None \<Rightarrow> s
      | Some w \<Rightarrow>
          (case channel_step (be_keys E) ev w of
             (w', effects) \<Rightarrow>
               fold (apply_effect E rnd refused peer_id) effects
                 (s\<lparr>cb_connections := hm_insert peer_id w' (cb_connections s)\<rparr>)))"

section \<open>Fetching content\<close>

text \<open>The cache holds at most 256 entries where it is filled by a fetch: the first key makes room.\<close>

definition cache_put :: "string \<Rightarrow> bytes \<Rightarrow> browser_client \<Rightarrow> browser_client" where
  "cache_put cid data s =
     (let cache = (case cb_cache s of
                     [] \<Rightarrow> []
                   | (k, _) # rest \<Rightarrow> if 256 \<le> length (cb_cache s) then hm_remove k (cb_cache s) else cb_cache s)
      in s\<lparr>cb_cache := hm_insert cid data cache\<rparr>)"

text \<open>The first connected peer, in the order of the map.\<close>

definition first_connected :: "browser_client \<Rightarrow> (string \<times> webrtc_conn) option" where
  "first_connected s = find (\<lambda>(_, w). webrtc_is_connected w) (cb_connections s)"

text \<open>The first half of \<open>fetch_p2p\<close>, up to the wait: a result at once, or the token to wait for.\<close>

definition fetch_p2p_begin ::
    "browser_env \<Rightarrow> bytes \<Rightarrow> string option \<Rightarrow> string \<Rightarrow> browser_client \<Rightarrow>
     (sdk_error + bytes + fetch_token) \<times> browser_client" where
  "fetch_p2p_begin E rnd refused cid s =
     (case hm_get (cb_cache s) cid of
        Some data \<Rightarrow> (Inr (Inl data), s)
      | None \<Rightarrow>
          if cb_connections s = [] then (Inl (sdk_error_new NOT_CONNECTED ''No connected peers''), s)
          else
            (case sj_request (be_json E) \<lparr>qr_request_type = ''content_request'', qr_cid = cid, qr_fragment_index = None\<rparr> of
               Inl e \<Rightarrow> (Inl (sdk_error_new SIGNALING_ERROR e), s)
             | Inr json \<Rightarrow>
                 (case first_connected s of
                    None \<Rightarrow> (Inl (sdk_error_new NOT_CONNECTED ''No connected peers with open data channel''), s)
                  | Some (peer_id, w) \<Rightarrow>
                      (case webrtc_send (be_keys E) rnd refused json w of
                         Inl e \<Rightarrow> (Inl (sdk_error_new WEBRTC_ERROR (sdk_error_text e)), s)
                       | Inr (c, frame) \<Rightarrow>
                           (Inr (Inr (cb_next s)),
                            s\<lparr>cb_outbox := cb_outbox s @ [(peer_id, c, frame)],
                              cb_next := Suc (cb_next s),
                              cb_waiting := hm_insert (cb_next s) cid (cb_waiting s),
                              cb_pending := hm_insert cid
                                \<lparr>pf_cid = cid, pf_fragments = [], pf_total_fragments = None,
                                 pf_resolver = Some (cb_next s)\<rparr> (cb_pending s)\<rparr>)))))"

text \<open>Whether some pending fetch still holds the sender of a token.\<close>

definition sender_alive :: "fetch_token \<Rightarrow> browser_client \<Rightarrow> bool" where
  "sender_alive t s \<longleftrightarrow> list_ex (\<lambda>(_, f). pf_resolver f = Some t) (cb_pending s)"

text \<open>
  The second half: the timer fired or the one-shot channel is ready (with an answer, or because its sender is
  gone). \<open>None\<close> when neither: the fetch goes on waiting.
\<close>

definition fetch_p2p_wake ::
    "bool \<Rightarrow> string \<Rightarrow> fetch_token \<Rightarrow> browser_client \<Rightarrow> ((sdk_error + bytes) \<times> browser_client) option" where
  "fetch_p2p_wake timer cid t s0 =
     (let s = s0\<lparr>cb_waiting := hm_remove t (cb_waiting s0)\<rparr> in
      if timer then
        Some (Inl (sdk_error_new SDK_TIMEOUT ''P2P fetch timed out''), s\<lparr>cb_pending := hm_remove cid (cb_pending s)\<rparr>)
      else
        (case hm_get (cb_answers s) t of
           Some (Inr data) \<Rightarrow> Some (Inr data, cache_put cid data s)
         | Some (Inl e) \<Rightarrow> Some (Inl e, s)
         | None \<Rightarrow>
             if sender_alive t s then None
             else Some (Inl (sdk_error_new WEBRTC_ERROR ''Response channel closed''), s)))"

text \<open>
  \<open>fetch_http\<close> under its timeout: what the browser's \<open>fetch\<close> comes to, for the URL. The body is read in two
  steps, either of which may fail.
\<close>

datatype js_body = Unreadable | BodyError string | Body bytes

datatype js_fetch =
    FetchTimedOut
  | NoWindow
  | FetchRejected string
  | NotAResponse
  | Responded nat js_body

definition fetch_http_with_timeout ::
    "client_config \<Rightarrow> (string \<Rightarrow> js_fetch) \<Rightarrow> string \<Rightarrow> string \<Rightarrow> sdk_error + bytes" where
  "fetch_http_with_timeout cfg http gateway_url cid =
     (case http (trim_end_slashes gateway_url @ ''/ipfs/'' @ cid) of
        FetchTimedOut \<Rightarrow> Inl (sdk_error_new SDK_TIMEOUT
          (''HTTP gateway fetch timed out after '' @ show_nat (unat (cc_timeout_ms cfg)) @ ''ms''))
      | NoWindow \<Rightarrow> Inl (sdk_error_new CONNECTION_FAILED ''No window object'')
      | FetchRejected e \<Rightarrow> Inl (sdk_error_new CONNECTION_FAILED (''HTTP fetch error: '' @ e))
      | NotAResponse \<Rightarrow> Inl (sdk_error_new CONNECTION_FAILED ''Invalid HTTP response object'')
      | Responded status body \<Rightarrow>
          if \<not> (200 \<le> status \<and> status < 300) then
            Inl (sdk_error_new CONTENT_NOT_FOUND (''HTTP '' @ show_nat status @ '' from gateway''))
          else
            (case body of
               Unreadable \<Rightarrow> Inl (sdk_error_new CONNECTION_FAILED ''Failed to read response body'')
             | BodyError e \<Rightarrow> Inl (sdk_error_new CONNECTION_FAILED (''Body read error: '' @ e))
             | Body data \<Rightarrow> Inr data))"

definition all_sources_failed :: "sdk_error option \<Rightarrow> string" where
  "all_sources_failed p2p_error =
     ''Failed to fetch content from any source ('' @
     (case p2p_error of Some e \<Rightarrow> ''P2P error: '' @ sdk_error_text e | None \<Rightarrow> ''no P2P connection available'') @ '')''"

text \<open>Steps 3 and 4 of \<open>fetch\<close>: the gateway, then no source is left.\<close>

definition http_fallback ::
    "browser_env \<Rightarrow> (string \<Rightarrow> js_fetch) \<Rightarrow> string \<Rightarrow> sdk_error option \<Rightarrow> browser_client \<Rightarrow> (string + bytes) \<times> browser_client" where
  "http_fallback E http cid p2p_error s =
     (if \<not> cc_use_fallback (cb_config s) then (Inl (all_sources_failed p2p_error), s)
      else
        (case cc_gateway_url (cb_config s) of
           None \<Rightarrow> (Inl (all_sources_failed p2p_error), s)
         | Some gateway_url \<Rightarrow>
             (case fetch_http_with_timeout (cb_config s) http gateway_url cid of
                Inl _ \<Rightarrow> (Inl (all_sources_failed p2p_error), s)
              | Inr data \<Rightarrow>
                  if \<not> verify_cid E data cid then (Inl (''HTTP fallback: BLAKE3 hash mismatch for CID '' @ cid), s)
                  else (Inr data, cache_put cid data s))))"

text \<open>\<open>fetch\<close>, up to the wait for a peer and from there on.\<close>

definition fetch_begin ::
    "browser_env \<Rightarrow> bytes \<Rightarrow> string option \<Rightarrow> (string \<Rightarrow> js_fetch) \<Rightarrow> string \<Rightarrow> browser_client \<Rightarrow>
     ((string + bytes) + fetch_token) \<times> browser_client" where
  "fetch_begin E rnd refused http cid s =
     (case hm_get (cb_cache s) cid of
        Some data \<Rightarrow> (Inl (Inr data), s)
      | None \<Rightarrow>
          if cb_connected s then
            (case fetch_p2p_begin E rnd refused cid s of
               (Inr (Inl data), s') \<Rightarrow> (Inl (Inr data), s')
             | (Inr (Inr t), s') \<Rightarrow> (Inr t, s')
             | (Inl e, s') \<Rightarrow> (case http_fallback E http cid (Some e) s' of (r, s'') \<Rightarrow> (Inl r, s'')))
          else (case http_fallback E http cid None s of (r, s') \<Rightarrow> (Inl r, s')))"

definition fetch_resume ::
    "browser_env \<Rightarrow> bool \<Rightarrow> (string \<Rightarrow> js_fetch) \<Rightarrow> fetch_token \<Rightarrow> browser_client \<Rightarrow>
     ((string + bytes) \<times> browser_client) option" where
  "fetch_resume E timer http t s =
     (case hm_get (cb_waiting s) t of
        None \<Rightarrow> None
      | Some cid \<Rightarrow>
          (case fetch_p2p_wake timer cid t s of
             None \<Rightarrow> None
           | Some (Inr data, s') \<Rightarrow> Some (Inr data, s')
           | Some (Inl e, s') \<Rightarrow> Some (http_fallback E http cid (Some e) s')))"

section \<open>Connections\<close>

text \<open>\<open>connect\<close> when the signaling server was reached, and \<open>discover_peers\<close>, which answers with the peers known so far.\<close>

definition client_connect :: "sdk_error + unit \<Rightarrow> browser_client \<Rightarrow> (string + unit) \<times> browser_client" where
  "client_connect reached s =
     (case reached of
        Inl e \<Rightarrow> (Inl (sdk_error_text e), s)
      | Inr _ \<Rightarrow> (Inr (), s\<lparr>cb_signaling := True, cb_connected := True\<rparr>))"

definition discover_peers :: "sdk_error + unit \<Rightarrow> browser_client \<Rightarrow> string + peer_info list" where
  "discover_peers sent s =
     (if \<not> cb_signaling s then Inl ''Not connected''
      else (case sent of Inl e \<Rightarrow> Inl (sdk_error_text e) | Inr _ \<Rightarrow> Inr (cb_available_peers s)))"

text \<open>\<open>connect_to_peer\<close>: the connection is set up, then, when the browser has made the offer, sent and stored.\<close>

definition connect_begin ::
    "browser_env \<Rightarrow> bytes \<Rightarrow> string option \<Rightarrow> channel_id \<Rightarrow> string \<Rightarrow> browser_client \<Rightarrow> (string + bool) \<times> browser_client" where
  "connect_begin E drawn refused c peer_id s =
     (if hm_get (cb_connections s) peer_id \<noteq> None then (Inr False, s)
      else
        (case webrtc_new (be_keys E) drawn refused (cb_identity s) peer_id of
           Inl e \<Rightarrow> (Inl (sdk_error_text e), s)
         | Inr w \<Rightarrow>
             (Inr True,
              s\<lparr>cb_connecting := cb_connecting s @ [(peer_id, snd (create_offer c (Inr []) w))]\<rparr>)))"

definition connect_finish ::
    "string + string \<Rightarrow> sdk_error + unit \<Rightarrow> string \<Rightarrow> browser_client \<Rightarrow> ((string + unit) \<times> browser_client) option" where
  "connect_finish sdp sent peer_id s =
     (case map_of (cb_connecting s) peer_id of
        None \<Rightarrow> Some (Inr (), s)
      | Some w \<Rightarrow>
          (let s1 = s\<lparr>cb_connecting := remove1 (peer_id, w) (cb_connecting s)\<rparr> in
           case sdp of
             Inl e \<Rightarrow> Some (Inl (sdk_error_text (sdk_error_new WEBRTC_ERROR e)), s1)
           | Inr _ \<Rightarrow>
               if \<not> cb_signaling s then Some (Inl ''Not connected'', s1)
               else
                 (case sent of
                    Inl e \<Rightarrow> Some (Inl (sdk_error_text e), s1)
                  | Inr _ \<Rightarrow>
                      if cb_awaiting s then None
                      else Some (Inr (), s1\<lparr>cb_connections := hm_insert peer_id w (cb_connections s)\<rparr>))))"

definition client_disconnect :: "browser_client \<Rightarrow> browser_client option" where
  "client_disconnect s =
     (if cb_awaiting s then None
      else Some (s\<lparr>cb_connections := [], cb_signaling := False, cb_connected := False\<rparr>))"

text \<open>
  The signaling message loop. \<open>drawn\<close>, \<open>refused\<close> and \<open>sdp\<close> are the ephemeral secret, the browser's refusal of
  a new connection and its answer. For an answer or a candidate of a known peer the loop waits for the browser
  and holds its borrow meanwhile.
\<close>

definition signal_message ::
    "browser_env \<Rightarrow> bytes \<Rightarrow> string option \<Rightarrow> string + string \<Rightarrow> signaling_message \<Rightarrow> browser_client \<Rightarrow> browser_client" where
  "signal_message E drawn refused sdp m s =
     (if cb_awaiting s then s
      else
        (case m of
           Peers pm \<Rightarrow> s\<lparr>cb_available_peers := ps_peers pm\<rparr>
         | Offer offer \<Rightarrow>
             (case webrtc_new (be_keys E) drawn refused (cb_identity s) (so_from offer) of
                Inl _ \<Rightarrow> s
              | Inr w \<Rightarrow>
                  (case create_answer sdp w of
                     (Inl _, _) \<Rightarrow> s
                   | (Inr _, w') \<Rightarrow> s\<lparr>cb_connections := hm_insert (so_from offer) w' (cb_connections s)\<rparr>))
         | Answer answer \<Rightarrow> s\<lparr>cb_awaiting := hm_get (cb_connections s) (so_from answer) \<noteq> None\<rparr>
         | IceCandidate ice \<Rightarrow> s\<lparr>cb_awaiting := hm_get (cb_connections s) (ic_from ice) \<noteq> None\<rparr>
         | PeerDisconnected disc \<Rightarrow> s\<lparr>cb_connections := hm_remove (pd_peer_id disc) (cb_connections s)\<rparr>
         | _ \<Rightarrow> s))"

definition browser_done :: "browser_client \<Rightarrow> browser_client" where
  "browser_done s = s\<lparr>cb_awaiting := False\<rparr>"

section \<open>The client as a machine\<close>

datatype client_event =
    FetchBegin bytes "string option" "string \<Rightarrow> js_fetch" string
  | FetchWake bool "string \<Rightarrow> js_fetch" fetch_token
  | OnConnection "nat \<Rightarrow> bytes" "nat \<Rightarrow> string option" string channel_event
  | OnSignal bytes "string option" "string + string" signaling_message
  | BrowserDone
  | Connect "sdk_error + unit"
  | ConnectBegin bytes "string option" channel_id string
  | ConnectFinish "string + string" "sdk_error + unit" string
  | Disconnect

fun client_step :: "browser_env \<Rightarrow> client_event \<Rightarrow> browser_client \<Rightarrow> browser_client option" where
  "client_step E (FetchBegin rnd refused http cid) s = Some (snd (fetch_begin E rnd refused http cid s))"
| "client_step E (FetchWake timer http t) s =
     Some (case fetch_resume E timer http t s of None \<Rightarrow> s | Some (_, s') \<Rightarrow> s')"
| "client_step E (OnConnection rnd refused peer_id ev) s = Some (connection_event E rnd refused peer_id ev s)"
| "client_step E (OnSignal drawn refused sdp m) s = Some (signal_message E drawn refused sdp m s)"
| "client_step E BrowserDone s = Some (browser_done s)"
| "client_step E (Connect reached) s = Some (snd (client_connect reached s))"
| "client_step E (ConnectBegin drawn refused c peer_id) s = Some (snd (connect_begin E drawn refused c peer_id s))"
| "client_step E (ConnectFinish sdp sent peer_id) s = map_option snd (connect_finish sdp sent peer_id s)"
| "client_step E Disconnect s = client_disconnect s"

text \<open>A panic ends the client.\<close>

definition client_run_step :: "browser_env \<Rightarrow> client_event \<Rightarrow> browser_client option \<Rightarrow> browser_client option" where
  "client_run_step E ev r = Option.bind r (client_step E ev)"

end
