(* ===== verification/TextCodec.thy ===== *)
theory TextCodec
  imports GatewayAuth NodeStorage Crypto
begin

text \<open>
  A concrete text format with its decoder, for the witnesses of properties that rely on a codec such as \<open>serde_json\<close>:
  what is written is ASCII text that reads back.
\<close>

section \<open>Fields\<close>

text \<open>A message as a list of optional strings: a letter, then every field in hexadecimal, closed by a semicolon.\<close>

definition put_field :: "string option \<Rightarrow> string" where
  "put_field f = (case f of None \<Rightarrow> ''-'' | Some s \<Rightarrow> hex_bytes (str_bytes s))"

definition get_field :: "string \<Rightarrow> string option option" where
  "get_field w = (if w = ''-'' then Some None
     else map_option (\<lambda>b. Some (map (\<lambda>x. char_of (unat x)) b)) (unhex w))"

definition put_fields :: "char \<Rightarrow> string option list \<Rightarrow> bytes" where
  "put_fields k fs = str_bytes (k # concat (map (\<lambda>f. put_field f @ '';'') fs))"

definition get_fields :: "char \<Rightarrow> bytes \<Rightarrow> string option list option" where
  "get_fields k bs =
     (case map (\<lambda>x. char_of (unat x)) bs of
        [] \<Rightarrow> None
      | j # s \<Rightarrow> if j = k then those (map get_field (butlast (split_at CHR '';'' s))) else None)"

lemma unat_of_char_byte: "unat (of_char c :: u8) = of_char c"
proof -
  have "(of_char c :: u8) = word_of_nat (of_char c)"
    by (simp only: of_nat_of_char)
  also have "unat (word_of_nat (of_char c) :: u8) = of_char c"
    by (simp only: unat_of_nat) simp
  finally show ?thesis .
qed

lemma chars_of_str_bytes: "map (\<lambda>x. char_of (unat x)) (str_bytes s) = s"
  by (simp add: str_bytes_def comp_def unat_of_char_byte)

lemma hex_digit_small: "n < 16 \<Longrightarrow> of_char (hex_digit n) < (128 :: nat) \<and> hex_digit n \<noteq> CHR '';'' \<and> hex_digit n \<noteq> CHR ''-''"
  by (auto simp: hex_digit_def char_of_eq_iff take_bit_eq_mod)

lemma hex_chars: "c \<in> set (hex_bytes b) \<Longrightarrow> \<exists>n < 16. c = hex_digit n"
proof -
  assume "c \<in> set (hex_bytes b)"
  then obtain w where "c = hex_digit (unat w div 16) \<or> c = hex_digit (unat (w :: u8) mod 16)"
    by (auto simp: hex_bytes_def)
  moreover have "unat w div 16 < 16"
    using unsigned_less [of w, where 'a = nat] by simp
  ultimately show ?thesis
    by (metis mod_less_divisor zero_less_numeral)
qed

lemma put_field_chars: "c \<in> set (put_field f) \<Longrightarrow> of_char c < (128 :: nat) \<and> c \<noteq> CHR '';''"
  by (cases f) (auto simp: put_field_def dest!: hex_chars dest: hex_digit_small)

lemma get_put_field [simp]: "get_field (put_field f) = Some f"
proof (cases f)
  case (Some s)
  have "hex_bytes (str_bytes s) \<noteq> ''-''"
    using hex_chars [of "CHR ''-''" "str_bytes s"] hex_digit_small by fastforce
  with Some show ?thesis
    by (simp add: put_field_def get_field_def unhex_hex chars_of_str_bytes)
qed (simp add: put_field_def get_field_def)

lemma split_at_fields:
  assumes "\<And>w. w \<in> set ws \<Longrightarrow> d \<notin> set w"
  shows "split_at d (concat (map (\<lambda>w. w @ [d]) ws)) = ws @ [[]]"
  using assms
proof (induction ws)
  case (Cons w ws)
  have "split_at d (v @ d # r) = v # split_at d r" if "d \<notin> set v" for v r
    using that by (induction v) auto
  with Cons show ?case by simp
qed simp

lemma get_put_fields: "get_fields k (put_fields k fs) = Some fs"
proof -
  have "split_at CHR '';'' (concat (map (\<lambda>w. w @ '';'') (map put_field fs))) = map put_field fs @ [[]]"
    by (rule split_at_fields) (auto dest: put_field_chars)
  moreover have "those (map Some fs) = Some fs"
    by (induction fs) auto
  ultimately show ?thesis
    by (simp add: get_fields_def put_fields_def chars_of_str_bytes comp_def)
qed

lemma get_other_fields: "j \<noteq> k \<Longrightarrow> get_fields j (put_fields k fs) = None"
  by (simp add: get_fields_def put_fields_def chars_of_str_bytes)

lemma utf8_ascii: "\<forall>x \<in> set xs. x < 128 \<Longrightarrow> utf8_valid xs"
  by (induction xs) auto

lemma put_fields_utf8:
  assumes "of_char k < (128 :: nat)"
  shows "utf8_valid (map unat (put_fields k fs))"
  using assms put_field_chars
  by (intro utf8_ascii) (auto simp: put_fields_def str_bytes_def unat_of_char_byte)

text \<open>A number as the characters of its bytes.\<close>

definition put_u32 :: "u32 \<Rightarrow> string" where
  "put_u32 n = map (\<lambda>b. char_of (unat b)) (le_bytes 4 (unat n))"

definition get_u32 :: "string \<Rightarrow> u32" where
  "get_u32 s = word_of_nat (from_le_bytes (str_bytes s))"

lemma get_put_u32 [simp]: "get_u32 (put_u32 n) = n"
proof -
  have "unat n < 2 ^ LENGTH(32)"
    by (rule unsigned_less)
  then have "from_le_bytes (le_bytes 4 (unat n)) = unat n"
    by (simp add: from_le_bytes_le_bytes)
  moreover have "str_bytes (map (\<lambda>b. char_of (unat b)) bs) = bs" for bs
    by (induction bs) (simp_all add: str_bytes_def byte_char_byte)
  ultimately show ?thesis
    by (simp add: put_u32_def get_u32_def)
qed

lemma fields_start: "b < 9 \<Longrightarrow> 9 \<le> (of_char k :: nat) \<Longrightarrow> get_fields k (b # t) = None"
proof -
  assume "b < 9" and k: "9 \<le> (of_char k :: nat)"
  then have b: "unat b < 9"
    by (simp add: word_less_nat_alt)
  then have "(of_char (char_of (unat b) :: char) :: nat) = unat b"
    by simp
  with b k have "char_of (unat b) \<noteq> k"
    by auto
  then show ?thesis
    by (simp add: get_fields_def)
qed

end
