(* ===== verification/BrowserSafety.thy ===== *)
theory BrowserSafety
  imports BrowserClient TextCodec
begin

text \<open>
  What a browser may rely on: data on a channel comes from the identity it expects, whatever it caches was
  verified against its identifier, and content one browser keeps reaches another one whole; and what it may not:
  an IPFS identifier verifies nothing, and one peer that never authenticates keeps it from all others.
\<close>

section \<open>Channels\<close>

text \<open>Everything that happens to a connection: events of its channels and calls of its owner.\<close>

datatype conn_call = Event channel_event | CallOffer channel_id "string + string" | CallAnswer "string + string" | CallClose

fun conn_step :: "browser_keys \<Rightarrow> conn_call \<Rightarrow> webrtc_conn \<Rightarrow> webrtc_conn" where
  "conn_step K (Event ev) w = fst (channel_step K ev w)"
| "conn_step K (CallOffer c sdp) w = snd (create_offer c sdp w)"
| "conn_step K (CallAnswer sdp) w = snd (create_answer sdp w)"
| "conn_step K CallClose w = webrtc_close w"

lemma conn_ok_call:
  assumes "conn_ok K peer e w"
  shows "conn_ok K peer e (conn_step K call w)"
proof (cases call)
  case (Event ev)
  with assms show ?thesis
    by (simp add: conn_ok_step)
qed (use assms in \<open>auto simp: conn_ok_def create_offer_def create_answer_def webrtc_close_def
  channel_close_def split: option.split\<close>)

interpretation conn_calls: call_machine "conn_step K" "conn_ok K peer e" for K peer e
  by unfold_locales (rule conn_ok_call)

lemma fresh_conn_ok:
  "webrtc_new K drawn refused i peer = Inr w \<Longrightarrow> conn_ok K peer (ephemeral_generate K drawn) w"
  by (auto simp: webrtc_new_def conn_ok_def split: option.splits)

text \<open>C30. Data that a connection hands to the application was decrypted under a key agreed with an ephemeral
  key that the identity expected on the connection has signed, whatever arrived on its channels and in
  whatever order.\<close>

theorem channel_data_authentic:
  assumes "webrtc_new K drawn refused i (hex_lower (ed_public (bk_prims K) seed)) = Inr w"
    and "Deliver p \<in> set (snd (channel_step K ev (fold (conn_step K) calls w)))"
  shows "\<exists>c raw eph sig. ev = MessageEvent c (ArrayBuffer raw) \<and>
    ed_verify (bk_prims K) (ed_public (bk_prims K) seed) (ephemeral_signing_message eph) sig \<and>
    decrypt_data K (derive_channel_key K (ephemeral_generate K drawn) eph) raw = Inr p"
proof -
  have "conn_ok K (hex_lower (ed_public (bk_prims K) seed)) (ephemeral_generate K drawn) (fold (conn_step K) calls w)"
    by (rule conn_calls.run_inv) (rule fresh_conn_ok [OF assms(1)])
  then show ?thesis
    by (rule delivered_opens [OF _ assms(2)]) (auto simp: keyed_def signed_by_def dest: hex_lower_inj)
qed

text \<open>Two connections made for each other, each opened and given the handshake frame of the other.\<close>

definition opened :: "browser_keys \<Rightarrow> channel_id \<Rightarrow> bytes \<Rightarrow> webrtc_conn \<Rightarrow> webrtc_conn" where
  "opened K c frame w =
     fold (conn_step K) [Event (DataChannel c), Event (OpenEvent c), Event (MessageEvent c (ArrayBuffer frame))] w"

definition fresh_conn :: "browser_keys \<Rightarrow> bytes \<Rightarrow> identity \<Rightarrow> string \<Rightarrow> webrtc_conn" where
  "fresh_conn K drawn i peer = (case webrtc_new K drawn None i peer of Inr w \<Rightarrow> w)"

definition hello :: "browser_keys \<Rightarrow> identity \<Rightarrow> bytes \<Rightarrow> bytes" where
  "hello K i drawn = build_handshake K i (ephemeral_generate K drawn)"

lemma length_ephemeral [word_len]: "browser_keys_correct K \<Longrightarrow> length (ek_public (ephemeral_generate K d)) = 32"
  by (simp add: ephemeral_generate_def browser_keys_correct_def x25519_correct_def)

lemma opened_conn:
  assumes "browser_keys_correct K"
  shows "wc_cipher (opened K c (hello K j b) (fresh_conn K a i (identity_peer_id K j))) =
      Some (derive_channel_key K (ephemeral_generate K a) (ek_public (ephemeral_generate K b)))"
    and "wc_data_channel (opened K c (hello K j b) (fresh_conn K a i (identity_peer_id K j))) = Some c"
    and "hm_get (wc_ready (opened K c (hello K j b) (fresh_conn K a i (identity_peer_id K j)))) c = Some ChOpen"
    and "wc_peer_authenticated (opened K c (hello K j b) (fresh_conn K a i (identity_peer_id K j)))"
    and "wc_state (opened K c (hello K j b) (fresh_conn K a i (identity_peer_id K j))) = StAuthenticated"
  using handshake_verifies [OF assms length_ephemeral [OF assms], of j b]
  by (simp_all add: opened_def fresh_conn_def webrtc_new_def hello_def channel_defs)

text \<open>Two browsers that know each other's peer id and exchange their handshakes hold the same key: what one
  sends, the other one's application receives.\<close>

theorem browsers_exchange_data:
  assumes "browser_keys_correct K" "length rnd = 12" "length data < aead_limit"
  shows "\<exists>frame.
    webrtc_send K rnd None data (opened K c (hello K j b) (fresh_conn K a i (identity_peer_id K j))) = Inr (c, frame) \<and>
    snd (channel_step K (MessageEvent d (ArrayBuffer frame))
      (opened K d (hello K i a) (fresh_conn K b j (identity_peer_id K i)))) = [Deliver data]"
proof -
  let ?key = "derive_channel_key K (ephemeral_generate K a) (ek_public (ephemeral_generate K b))"
  obtain frame where "encrypt_data K ?key rnd data = Inr frame" "decrypt_data K ?key frame = Inr data"
    using data_frame_opens [OF assms(1) length_channel_key [OF assms(1)] assms(2,3)] by blast
  then show ?thesis
    using channel_keys_agree [OF assms(1), of a b]
    by (intro exI [of _ frame]) (simp add: webrtc_send_def on_data_def opened_conn [OF assms(1)])
qed

text \<open>A handshake frame is not bound to the connection it is sent on: the frame of one connection authenticates its
  sender on every other connection that expects it, whoever sends it there.\<close>

theorem handshake_replays:
  assumes "conn_ok K peer e w" "\<not> wc_peer_authenticated w"
    and "wc_peer_authenticated (fst (channel_step K (MessageEvent c (ArrayBuffer frame)) w))"
    and "wc_expected_remote_id w' = peer" "\<not> wc_peer_authenticated w'"
  shows "webrtc_is_authenticated (fst (channel_step K (MessageEvent d (ArrayBuffer frame)) w'))"
  using assms
  by (auto simp: conn_ok_def channel_defs webrtc_is_authenticated_def split: sum.splits if_splits)

section \<open>The cache\<close>

definition cache_verified :: "browser_env \<Rightarrow> (string, bytes) hmap \<Rightarrow> bool" where
  "cache_verified E cache \<longleftrightarrow> (\<forall>cid data. hm_get cache cid = Some data \<longrightarrow> verify_cid E data cid)"

text \<open>Every pending fetch resolves the token of a task that waits for its own content, and what a token was
  answered with is verified for the content its task waits for.\<close>

definition client_ok :: "browser_env \<Rightarrow> browser_client \<Rightarrow> bool" where
  "client_ok E s \<longleftrightarrow>
     cache_verified E (cb_cache s) \<and>
     (\<forall>t data cid. hm_get (cb_answers s) t = Some (Inr data) \<longrightarrow> hm_get (cb_waiting s) t = Some cid \<longrightarrow>
        verify_cid E data cid) \<and>
     (\<forall>cid f t cid'. hm_get (cb_pending s) cid = Some f \<longrightarrow> pf_resolver f = Some t \<longrightarrow>
        hm_get (cb_waiting s) t = Some cid' \<longrightarrow> cid' = cid) \<and>
     (\<forall>t. hm_get (cb_answers s) t \<noteq> None \<longrightarrow> t < cb_next s) \<and>
     (\<forall>cid f t. hm_get (cb_pending s) cid = Some f \<longrightarrow> pf_resolver f = Some t \<longrightarrow> t < cb_next s)"

lemma client_ok_cache: "client_ok E s \<Longrightarrow> hm_get (cb_cache s) cid = Some data \<Longrightarrow> verify_cid E data cid"
  by (simp add: client_ok_def cache_verified_def)

text \<open>The parts of the state the invariant does not read.\<close>

lemma client_ok_frame [simp]:
  "client_ok E (s\<lparr>cb_connections := x\<rparr>) = client_ok E s"
  "client_ok E (s\<lparr>cb_connecting := y\<rparr>) = client_ok E s"
  "client_ok E (s\<lparr>cb_available_peers := z\<rparr>) = client_ok E s"
  "client_ok E (s\<lparr>cb_signaling := b\<rparr>) = client_ok E s"
  "client_ok E (s\<lparr>cb_connected := b\<rparr>) = client_ok E s"
  "client_ok E (s\<lparr>cb_awaiting := b\<rparr>) = client_ok E s"
  "client_ok E (s\<lparr>cb_outbox := out\<rparr>) = client_ok E s"
  by (simp_all add: client_ok_def)

lemma client_ok_insert_cache:
  "client_ok E s \<Longrightarrow> verify_cid E data cid \<Longrightarrow> client_ok E (s\<lparr>cb_cache := hm_insert cid data (cb_cache s)\<rparr>)"
  by (auto simp: client_ok_def cache_verified_def)

lemma client_ok_cache_put:
  "client_ok E s \<Longrightarrow> verify_cid E data cid \<Longrightarrow> client_ok E (cache_put cid data s)"
  by (auto simp: client_ok_def cache_verified_def cache_put_def Let_def split: list.splits if_splits)

lemma client_ok_resolve:
  assumes "client_ok E s" "hm_get (cb_pending s) cid = Some f" "pf_resolver f' = pf_resolver f"
    and "\<And>data. r = Inr data \<Longrightarrow> verify_cid E data cid"
  shows "client_ok E (resolve_fetch cid r f' s)"
proof -
  have "hm_get (cb_waiting s) t = Some cid' \<Longrightarrow> pf_resolver f = Some t \<Longrightarrow> cid' = cid" for t cid'
    using assms(1,2) by (auto simp: client_ok_def)
  then show ?thesis
    using assms
    by (auto simp: client_ok_def resolve_fetch_def split: option.split if_splits) blast+
qed

lemma client_ok_fragment:
  assumes "client_ok E s" "hm_get (cb_pending s) cid = Some f"
  shows "client_ok E (handle_fragment E cid i n data f s)"
proof -
  have update: "client_ok E (s\<lparr>cb_pending := hm_insert cid (f\<lparr>pf_total_fragments := a, pf_fragments := b\<rparr>) (cb_pending s)\<rparr>)"
    for a b
    using assms by (auto simp: client_ok_def split: if_splits)
  show ?thesis
    using assms
    by (auto simp: handle_fragment_def Let_def update intro!: client_ok_resolve [where f = f] client_ok_insert_cache
        split: option.split)
qed

lemma client_ok_response: "client_ok E s \<Longrightarrow> client_ok E (handle_content_response E r s)"
  by (auto simp: handle_content_response_def Let_def intro: client_ok_fragment client_ok_resolve
      split: option.split)

lemma client_ok_effect: "client_ok E s \<Longrightarrow> client_ok E (apply_effect E rnd refused peer ef s)"
  by (cases ef) (auto simp: on_message_def intro: client_ok_response split: option.split)

lemma client_ok_effects: "client_ok E s \<Longrightarrow> client_ok E (fold (apply_effect E rnd refused peer) efs s)"
  by (induction efs arbitrary: s) (auto intro: client_ok_effect)

lemma client_ok_connection: "client_ok E s \<Longrightarrow> client_ok E (connection_event E rnd refused peer ev s)"
  by (auto simp: connection_event_def intro!: client_ok_effects split: option.split prod.split)

lemma client_ok_fallback: "client_ok E s \<Longrightarrow> client_ok E (snd (http_fallback E http cid e s))"
  by (auto simp: http_fallback_def intro: client_ok_cache_put split: option.split sum.split)

lemma client_ok_fallback_eq: "http_fallback E http cid e s = (r, s') \<Longrightarrow> client_ok E s \<Longrightarrow> client_ok E s'"
  by (metis client_ok_fallback snd_conv)

lemma client_ok_request:
  assumes "client_ok E s"
  shows "client_ok E (snd (fetch_p2p_begin E rnd refused cid s))"
proof -
  have fresh: "hm_get (cb_answers s) (cb_next s) = None"
    using assms by (auto simp: client_ok_def)
  have started: "client_ok E (s\<lparr>cb_outbox := out, cb_next := Suc (cb_next s),
      cb_waiting := hm_insert (cb_next s) cid (cb_waiting s),
      cb_pending := hm_insert cid \<lparr>pf_cid = cid, pf_fragments = [], pf_total_fragments = None,
        pf_resolver = Some (cb_next s)\<rparr> (cb_pending s)\<rparr>)" for out
    using assms fresh unfolding client_ok_def
    by (auto split: if_splits) (fastforce dest: less_SucI)+
  show ?thesis
    using assms started
    by (auto simp: fetch_p2p_begin_def split: option.split sum.split prod.split)
qed

lemma client_ok_begin: "client_ok E s \<Longrightarrow> client_ok E (snd (fetch_begin E rnd refused http cid s))"
  using client_ok_request [of E s rnd refused cid]
  by (auto simp: fetch_begin_def split: option.split sum.split prod.split dest: client_ok_fallback_eq)

lemma client_ok_wake:
  assumes "client_ok E s" "hm_get (cb_waiting s) t = Some cid" "fetch_p2p_wake timer cid t s = Some (r, s')"
  shows "client_ok E s' \<and> (\<forall>data. r = Inr data \<longrightarrow> verify_cid E data cid)"
proof -
  have calm: "client_ok E (s\<lparr>cb_waiting := hm_remove t (cb_waiting s)\<rparr>)"
    and removed: "client_ok E (s\<lparr>cb_waiting := hm_remove t (cb_waiting s), cb_pending := hm_remove cid (cb_pending s)\<rparr>)"
    using assms(1) by (auto simp: client_ok_def split: if_splits)
  have answer: "hm_get (cb_answers s) t = Some (Inr data) \<Longrightarrow> verify_cid E data cid" for data
    using assms(1,2) by (auto simp: client_ok_def)
  show ?thesis
    using assms(3) calm removed
    by (auto simp: fetch_p2p_wake_def Let_def split: if_splits option.splits sum.splits
        intro: answer client_ok_cache_put [OF calm])
qed

lemma client_ok_resume: "client_ok E s \<Longrightarrow> fetch_resume E timer http t s = Some (r, s') \<Longrightarrow> client_ok E s'"
  by (auto simp: fetch_resume_def split: option.splits sum.splits)
    (metis client_ok_wake client_ok_fallback_eq)+

lemma client_ok_step: "client_ok E s \<Longrightarrow> client_step E ev s = Some s' \<Longrightarrow> client_ok E s'"
  by (cases ev)
    (auto simp: client_connect_def connect_begin_def connect_finish_def client_disconnect_def browser_done_def
      signal_message_def Let_def intro: client_ok_begin client_ok_connection client_ok_resume
      split: option.splits sum.splits signaling_message.splits if_splits prod.splits)

interpretation client: call_machine "client_run_step E" "\<lambda>r. \<forall>s. r = Some s \<longrightarrow> client_ok E s" for E
  by unfold_locales (auto simp: client_run_step_def bind_eq_Some_conv intro: client_ok_step)

lemma client_new_ok [simp]: "client_ok E (client_new E seed cfg)"
  by (simp add: client_ok_def client_new_def cache_verified_def)


section \<open>A fetch between two browsers\<close>

definition ready_conn :: "channel_id \<Rightarrow> bytes \<Rightarrow> webrtc_conn \<Rightarrow> bool" where
  "ready_conn c key w \<longleftrightarrow> wc_data_channel w = Some c \<and> hm_get (wc_ready w) c = Some ChOpen \<and>
     wc_cipher w = Some key \<and> wc_peer_authenticated w \<and> wc_state w = StAuthenticated"

lemma opened_ready:
  assumes "browser_keys_correct K"
  shows "ready_conn c (derive_channel_key K (ephemeral_generate K a) (ek_public (ephemeral_generate K b)))
    (opened K c (hello K j b) (fresh_conn K a i (identity_peer_id K j)))"
  by (simp add: ready_conn_def opened_conn [OF assms])

lemma ready_connected: "ready_conn c key w \<Longrightarrow> webrtc_is_connected w"
  by (simp add: ready_conn_def webrtc_is_connected_def)

lemma ready_send:
  assumes "browser_keys_correct K" "ready_conn c key w" "length key = 32" "length rnd = 12" "length data < aead_limit"
  obtains frame where "webrtc_send K rnd None data w = Inr (c, frame)" "decrypt_data K key frame = Inr data"
  using data_frame_opens [OF assms(1,3,4,5)] assms(2) by (auto simp: webrtc_send_def ready_conn_def)

text \<open>A frame that opens to a JSON text goes to its handler; the connection stays as it is.\<close>

lemma hm_insert_same: "hm_get m k = Some v \<Longrightarrow> hm_insert k v m = m"
  by (simp add: hm_get_def hm_insert_def update_triv)

lemma receive_frame:
  assumes "hm_get (cb_connections s) peer = Some w" "ready_conn c key w"
    and "decrypt_data (be_keys E) key frame = Inr text"
  shows "connection_event E rnd refused peer (MessageEvent d (ArrayBuffer frame)) s = on_message E rnd refused peer text s"
  using assms by (simp add: connection_event_def on_data_def ready_conn_def hm_insert_same)

lemma receive_response:
  assumes "hm_get (cb_connections s) peer = Some w" "ready_conn c key w"
    and "decrypt_data (be_keys E) key frame = Inr text" "sj_response (be_json E) r = Inr text"
    and "sdk_json_correct (be_json E)"
  shows "connection_event E rnd refused peer (MessageEvent d (ArrayBuffer frame)) s = handle_content_response E r s"
proof -
  obtain t where "sj_response (be_json E) r = Inr t" "utf8_valid (map unat t)" "sj_response_de (be_json E) t = Some r"
    using assms(5) unfolding sdk_json_correct_def by blast
  with assms(4) show ?thesis
    by (simp add: receive_frame [OF assms(1-3)] on_message_def)
qed

text \<open>The messages a serving peer sends fit a frame.\<close>

definition frames_fit :: "sdk_json \<Rightarrow> string \<Rightarrow> bool" where
  "frames_fit J cid \<longleftrightarrow> (\<forall>i n chunk t. length chunk \<le> FRAGMENT_SIZE \<longrightarrow>
      sj_response J (fragment_response J cid i n chunk) = Inr t \<longrightarrow> length t < aead_limit) \<and>
    (\<forall>t. sj_request J \<lparr>qr_request_type = ''content_request'', qr_cid = cid, qr_fragment_index = None\<rparr> = Inr t \<longrightarrow>
      length t < aead_limit)"

definition opens_to :: "browser_env \<Rightarrow> bytes \<Rightarrow> string \<Rightarrow> u32 \<Rightarrow> nat \<times> bytes \<Rightarrow> bytes \<Rightarrow> bool" where
  "opens_to E key cid n = (\<lambda>(i, chunk) frame. \<exists>text.
     sj_response (be_json E) (fragment_response (be_json E) cid i n chunk) = Inr text \<and>
     decrypt_data (be_keys E) key frame = Inr text)"

lemma sent_fragments:
  assumes "browser_keys_correct (be_keys E)" "sdk_json_correct (be_json E)" "frames_fit (be_json E) cid"
    and "ready_conn c key w" "length key = 32" "\<And>i. length (rnd i) = 12"
    and "\<forall>chunk \<in> set cs. length chunk \<le> FRAGMENT_SIZE"
  shows "\<exists>frames. send_fragments E rnd (\<lambda>_. None) cid n w i cs = map (Pair c) frames \<and>
    list_all2 (opens_to E key cid n) (zip [i..<i + length cs] cs) frames"
  using assms(7)
proof (induction cs arbitrary: i)
  case Nil
  then show ?case by simp
next
  case (Cons chunk cs)
  let ?r = "fragment_response (be_json E) cid i n chunk"
  obtain t where json: "sj_response (be_json E) ?r = Inr t"
    using assms(2) unfolding sdk_json_correct_def by blast
  with Cons.prems assms(3) have "length t < aead_limit"
    by (auto simp: frames_fit_def)
  with assms obtain frame where frame: "webrtc_send (be_keys E) (rnd i) None t w = Inr (c, frame)"
    "decrypt_data (be_keys E) key frame = Inr t"
    by (metis ready_send)
  obtain frames where "send_fragments E rnd (\<lambda>_. None) cid n w (Suc i) cs = map (Pair c) frames"
    "list_all2 (opens_to E key cid n) (zip [Suc i..<Suc i + length cs] cs) frames"
    using Cons by (meson list.set_intros(2))
  with json frame show ?case
    by (intro exI [of _ "frame # frames"]) (simp add: opens_to_def upt_rec)
qed

text \<open>Fragments that arrive in order complete the fetch with the last one.\<close>

definition arrived :: "nat \<Rightarrow> bytes list \<Rightarrow> (u32, bytes) hmap \<Rightarrow> bool" where
  "arrived i pre fragments \<longleftrightarrow> length pre = i \<and> length fragments = i \<and>
     (\<forall>j < 2 ^ 32. hm_get fragments (word_of_nat j) = (if j < i then Some (pre ! j) else None))"

lemma word_of_nat_eq_32: "j < 2 ^ 32 \<Longrightarrow> i < 2 ^ 32 \<Longrightarrow> (word_of_nat j :: u32) = word_of_nat i \<longleftrightarrow> j = i"
  by (simp add: word_of_nat_eq_iff take_bit_nat_eq_self)

lemma arrived_insert:
  assumes "arrived i pre fragments" "i < 2 ^ 32"
  shows "arrived (Suc i) (pre @ [chunk]) (hm_insert (word_of_nat i) chunk fragments)"
proof -
  have "hm_get fragments (word_of_nat i) = None"
    using assms by (simp add: arrived_def)
  with assms show ?thesis
    by (auto simp: arrived_def length_hm_insert nth_append word_of_nat_eq_32)
qed

lemma arrived_assemble:
  assumes "arrived i pre fragments" "i < 2 ^ 32"
  shows "assemble (word_of_nat i) fragments = Some (concat pre)"
proof -
  have "map (\<lambda>j. hm_get fragments (word_of_nat j)) [0..<i] = map Some pre"
    using assms by (intro nth_equalityI) (auto simp: arrived_def)
  moreover have "those (map Some pre) = Some pre"
    by (induction pre) auto
  ultimately show ?thesis
    using assms(2) by (simp add: assemble_def unsigned_of_nat take_bit_nat_eq_self)
qed

lemma response_keeps_connections: "cb_connections (handle_content_response E r s) = cb_connections s"
  by (simp add: handle_content_response_def handle_fragment_def resolve_fetch_def Let_def split: option.split)

definition take_fragment :: "browser_env \<Rightarrow> string \<Rightarrow> u32 \<Rightarrow> nat \<times> bytes \<Rightarrow> browser_client \<Rightarrow> browser_client" where
  "take_fragment E cid n = (\<lambda>(i, chunk). handle_content_response E (fragment_response (be_json E) cid i n chunk))"

definition take_frame ::
    "browser_env \<Rightarrow> (nat \<Rightarrow> bytes) \<Rightarrow> (nat \<Rightarrow> string option) \<Rightarrow> string \<Rightarrow> channel_id \<Rightarrow> bytes \<Rightarrow> browser_client \<Rightarrow> browser_client" where
  "take_frame E rnd refused peer d frame = connection_event E rnd refused peer (MessageEvent d (ArrayBuffer frame))"

lemma frames_are_fragments:
  assumes "list_all2 (opens_to E key cid n) parts frames" "sdk_json_correct (be_json E)"
    and "hm_get (cb_connections s) peer = Some w" "ready_conn c key w"
  shows "fold (take_frame E rnd refused peer d) frames s = fold (take_fragment E cid n) parts s"
  using assms(1,3)
proof (induction parts frames arbitrary: s rule: list_all2_induct)
  case Nil
  then show ?case by simp
next
  case (Cons part parts frame frames)
  obtain i chunk where part: "part = (i, chunk)" by (cases part)
  with Cons.hyps obtain t where "sj_response (be_json E) (fragment_response (be_json E) cid i n chunk) = Inr t"
    "decrypt_data (be_keys E) key frame = Inr t"
    by (auto simp: opens_to_def)
  then have "take_frame E rnd refused peer d frame s = take_fragment E cid n part s"
    using receive_response [OF Cons.prems assms(4) _ _ assms(2)] by (simp add: take_frame_def take_fragment_def part)
  with Cons show ?case
    by (simp add: take_fragment_def part response_keeps_connections)
qed

lemma take_fragment_pending:
  assumes "sdk_json_correct (be_json E)" "hm_get (cb_pending s) cid = Some fetch"
  shows "take_fragment E cid n (i, chunk) s = handle_fragment E cid (word_of_nat i) n chunk fetch s"
  using assms by (simp add: take_fragment_def handle_content_response_def fragment_response_def sdk_json_correct_def)

definition fetched :: "string \<Rightarrow> fetch_token \<Rightarrow> bytes \<Rightarrow> browser_client \<Rightarrow> browser_client \<Rightarrow> bool" where
  "fetched cid t data s s' \<longleftrightarrow> hm_get (cb_cache s') cid = Some data \<and> hm_get (cb_answers s') t = Some (Inr data) \<and>
     cb_waiting s' = cb_waiting s"

lemma fragments_complete:
  assumes "sdk_json_correct (be_json E)" "verify_cid E (concat (pre @ cs)) cid"
    and "hm_get (cb_pending s) cid = Some fetch" "pf_resolver fetch = Some t"
    and "arrived i pre (pf_fragments fetch)" "i + length cs = n" "n < 2 ^ 32" "cs \<noteq> []"
  shows "fetched cid t (concat (pre @ cs)) s (fold (take_fragment E cid (word_of_nat n)) (zip [i..<n] cs) s)"
  using assms(2-)
proof (induction cs arbitrary: i pre s fetch)
  case Nil
  then show ?case by simp
next
  case (Cons chunk cs)
  have i: "i < 2 ^ 32" "i < n" and n: "unat (word_of_nat n :: u32) = n"
    using Cons.prems by (auto simp: unsigned_of_nat take_bit_nat_eq_self)
  let ?frags = "hm_insert (word_of_nat i) chunk (pf_fragments fetch)"
  let ?f = "fetch\<lparr>pf_total_fragments := Some (word_of_nat n), pf_fragments := ?frags\<rparr>"
  have arr: "arrived (Suc i) (pre @ [chunk]) ?frags"
    using Cons.prems i by (simp add: arrived_insert)
  then have len: "length ?frags = Suc i"
    by (simp add: arrived_def)
  have step: "take_fragment E cid (word_of_nat n) (i, chunk) s =
      handle_fragment E cid (word_of_nat i) (word_of_nat n) chunk fetch s"
    by (rule take_fragment_pending [OF assms(1) Cons.prems(2)])
  have upt: "[i..<n] = i # [Suc i..<n]"
    using i by (simp add: upt_conv_Cons)
  show ?case
  proof (cases "cs = []")
    case True
    with Cons.prems have last: "n = Suc i" by simp
    with arrived_assemble [OF arr] Cons.prems True n len show ?thesis
      by (simp add: upt step [unfolded last] handle_fragment_def Let_def resolve_fetch_def fetched_def del: of_nat_Suc)
  next
    case False
    with Cons.prems have "length ?frags \<noteq> n"
      using len by (cases cs) auto
    then have "take_fragment E cid (word_of_nat n) (i, chunk) s = s\<lparr>cb_pending := hm_insert cid ?f (cb_pending s)\<rparr>"
      by (simp add: step handle_fragment_def Let_def n)
    moreover have "fetched cid t (concat ((pre @ [chunk]) @ cs)) (s\<lparr>cb_pending := hm_insert cid ?f (cb_pending s)\<rparr>)
      (fold (take_fragment E cid (word_of_nat n)) (zip [Suc i..<n] cs) (s\<lparr>cb_pending := hm_insert cid ?f (cb_pending s)\<rparr>))"
      by (rule Cons.IH [where fetch = ?f]) (use Cons.prems False arr in auto)
    ultimately show ?thesis
      by (simp add: upt fetched_def)
  qed
qed

text \<open>What the two halves of a fetch do when the answer comes from the first peer.\<close>

lemma request_sent:
  assumes "browser_keys_correct (be_keys E)" "sdk_json_correct (be_json E)" "frames_fit (be_json E) cid"
    and "ready_conn c key w" "length key = 32" "length rnd = 12"
    and "cb_connected A" "first_connected A = Some (b, w)" "cb_connections A \<noteq> []" "hm_get (cb_cache A) cid = None"
  obtains req json where "fetch_begin E rnd None http cid A =
      (Inr (cb_next A), A\<lparr>cb_outbox := cb_outbox A @ [(b, c, req)], cb_next := Suc (cb_next A),
        cb_waiting := hm_insert (cb_next A) cid (cb_waiting A),
        cb_pending := hm_insert cid \<lparr>pf_cid = cid, pf_fragments = [], pf_total_fragments = None,
          pf_resolver = Some (cb_next A)\<rparr> (cb_pending A)\<rparr>)"
    and "decrypt_data (be_keys E) key req = Inr json" "utf8_valid (map unat json)" "sj_response_de (be_json E) json = None"
    and "sj_request_de (be_json E) json = Some \<lparr>qr_request_type = ''content_request'', qr_cid = cid, qr_fragment_index = None\<rparr>"
proof -
  let ?q = "\<lparr>qr_request_type = ''content_request'', qr_cid = cid, qr_fragment_index = None\<rparr>"
  obtain json where json: "sj_request (be_json E) ?q = Inr json" "utf8_valid (map unat json)"
    "sj_request_de (be_json E) json = Some ?q" "sj_response_de (be_json E) json = None"
    using assms(2) unfolding sdk_json_correct_def by blast
  with assms(3) have "length json < aead_limit"
    by (simp add: frames_fit_def)
  then obtain req where "webrtc_send (be_keys E) rnd None json w = Inr (c, req)"
    "decrypt_data (be_keys E) key req = Inr json"
    by (rule ready_send [OF assms(1,4,5,6)])
  with json assms(7-) show ?thesis
    by (intro that [of req json]) (simp_all add: fetch_begin_def fetch_p2p_begin_def)
qed

lemma request_served:
  assumes "hm_get (cb_connections B) a = Some w" "ready_conn d key w"
    and "decrypt_data (be_keys E) key req = Inr json" "utf8_valid (map unat json)" "sj_response_de (be_json E) json = None"
    and "sj_request_de (be_json E) json = Some q" "hm_get (cb_cache B) (qr_cid q) = Some data"
  shows "cb_outbox (connection_event E rnd (\<lambda>_. None) a (MessageEvent ch (ArrayBuffer req)) B) = cb_outbox B @
    map (\<lambda>(c, frame). (a, c, frame)) (send_fragments E rnd (\<lambda>_. None) (qr_cid q)
      (word_of_nat (length (chunks FRAGMENT_SIZE data))) w 0 (chunks FRAGMENT_SIZE data))"
  using assms ready_connected [OF assms(2)]
  by (simp add: receive_frame on_message_def handle_content_request_def Let_def)

text \<open>C32. Content that one browser keeps reaches another one whole: it asks over the channel of its first connected
  peer, the peer answers with the fragments, they are put together and verified, and the fetch returns the
  content and keeps it.\<close>

theorem browser_fetch_between_peers:
  assumes "browser_keys_correct (be_keys E)" "sdk_json_correct (be_json E)" "frames_fit (be_json E) cid"
    and "length key = 32" "length rnd0 = 12" "\<And>i. length (rnd i) = 12"
    and "cb_connected A" "first_connected A = Some (b, wa)" "hm_get (cb_connections A) b = Some wa" "ready_conn c key wa"
    and "hm_get (cb_connections B) a = Some wb" "ready_conn d key wb"
    and "hm_get (cb_cache A) cid = None" "hm_get (cb_cache B) cid = Some data"
    and "verify_cid E data cid" "data \<noteq> []" "length (chunks FRAGMENT_SIZE data) < 2 ^ 32"
  shows "\<exists>t A1 req frames A3.
    fetch_begin E rnd0 None http cid A = (Inr t, A1) \<and> cb_outbox A1 = cb_outbox A @ [(b, c, req)] \<and>
    cb_outbox (connection_event E rnd (\<lambda>_. None) a (MessageEvent d (ArrayBuffer req)) B) =
      cb_outbox B @ map (\<lambda>f. (a, d, f)) frames \<and>
    fetch_resume E False http t (fold (take_frame E rnd' refused b c) frames A1) = Some (Inr data, A3) \<and>
    hm_get (cb_cache A3) cid = Some data"
proof -
  have conns: "cb_connections A \<noteq> []"
    using assms(8) by (auto simp: first_connected_def)
  obtain req json where started: "fetch_begin E rnd0 None http cid A =
      (Inr (cb_next A), A\<lparr>cb_outbox := cb_outbox A @ [(b, c, req)], cb_next := Suc (cb_next A),
        cb_waiting := hm_insert (cb_next A) cid (cb_waiting A),
        cb_pending := hm_insert cid \<lparr>pf_cid = cid, pf_fragments = [], pf_total_fragments = None,
          pf_resolver = Some (cb_next A)\<rparr> (cb_pending A)\<rparr>)" (is "_ = (_, ?A1)")
    and req: "decrypt_data (be_keys E) key req = Inr json" "utf8_valid (map unat json)"
      "sj_response_de (be_json E) json = None"
      "sj_request_de (be_json E) json = Some \<lparr>qr_request_type = ''content_request'', qr_cid = cid, qr_fragment_index = None\<rparr>"
    by (rule request_sent [OF assms(1-3,10,4,5,7,8) conns assms(13)])
  let ?cs = "chunks FRAGMENT_SIZE data" and ?t = "cb_next A"
  let ?n = "word_of_nat (length ?cs) :: u32"
  have pos: "0 < FRAGMENT_SIZE"
    by (simp add: FRAGMENT_SIZE_def)
  obtain frames where sent: "send_fragments E rnd (\<lambda>_. None) cid ?n wb 0 ?cs = map (Pair d) frames"
    and frames: "list_all2 (opens_to E key cid ?n) (zip [0..<length ?cs] ?cs) frames"
    using sent_fragments [OF assms(1-3,12,4,6), where cs = ?cs and n = ?n and i = 0] chunk_length by fastforce
  have out: "cb_outbox (connection_event E rnd (\<lambda>_. None) a (MessageEvent d (ArrayBuffer req)) B) =
      cb_outbox B @ map (\<lambda>f. (a, d, f)) frames"
    using request_served [OF assms(11,12) req] assms(14) sent by (simp add: comp_def)
  have "fetched cid ?t (concat ([] @ ?cs)) ?A1 (fold (take_fragment E cid ?n) (zip [0..<length ?cs] ?cs) ?A1)"
    by (rule fragments_complete [OF assms(2)])
      (use assms(15-17) pos in \<open>auto simp: concat_chunks arrived_def chunks_step\<close>)
  then have taken: "fetched cid ?t data ?A1 (fold (take_frame E rnd' refused b c) frames ?A1)"
    using frames_are_fragments [OF frames assms(2) _ assms(10), of ?A1 b] assms(9) pos by (simp add: concat_chunks)
  then have "\<exists>A3. fetch_resume E False http ?t (fold (take_frame E rnd' refused b c) frames ?A1) = Some (Inr data, A3) \<and>
      hm_get (cb_cache A3) cid = Some data"
    by (simp add: fetched_def fetch_resume_def fetch_p2p_wake_def Let_def cache_put_def)
  with started out show ?thesis
    by - (rule exI [of _ ?t], rule exI [of _ ?A1], rule exI [of _ req], rule exI [of _ frames], simp)
qed

section \<open>IPFS identifiers\<close>

text \<open>Content fetched under an IPFS identifier is whatever the first peer to answer says: any connected peer,
  asked or not, ends the fetch with one frame of its choice, which is kept and served from then on.\<close>

theorem ipfs_content_unverified:
  assumes "sdk_json_correct (be_json E)" "is_valid_ipfs_cid cid"
    and "hm_get (cb_pending s) cid = Some fetch" "pf_fragments fetch = []" "pf_resolver fetch = Some t"
    and "hm_get (cb_connections s) peer = Some w" "ready_conn c key w"
    and "sj_response (be_json E) (fragment_response (be_json E) cid 0 1 forged) = Inr json"
    and "decrypt_data (be_keys E) key frame = Inr json"
  shows "fetched cid t forged s (take_frame E rnd refused peer d frame s)"
proof -
  have "starts_with cid ''Qm'' \<or> starts_with cid ''bafy''"
    using assms(2) by (auto simp: is_valid_ipfs_cid_def split: if_splits)
  then have "verify_cid E (concat ([] @ [forged])) cid"
    using assms(2) by (simp add: verify_cid_def)
  then have "fetched cid t (concat ([] @ [forged])) s (fold (take_fragment E cid (word_of_nat 1)) (zip [0..<1] [forged]) s)"
    by (rule fragments_complete [OF assms(1) _ assms(3,5)]) (use assms(4) in \<open>auto simp: arrived_def\<close>)
  moreover have "take_frame E rnd refused peer d frame s = take_fragment E cid 1 (0, forged) s"
    using receive_response [OF assms(6,7,9,8,1)] by (simp add: take_frame_def take_fragment_def)
  ultimately show ?thesis
    by simp
qed

section \<open>Witnesses\<close>

definition demo_browser_keys :: browser_keys where
  "demo_browser_keys = \<lparr>bk_prims = demo_prims\<lparr>ed_public := pad_to 32, ed_sign := \<lambda>s m. pad_to 64 (pad_to 32 s @ m),
     ed_verify := \<lambda>p m g. g = pad_to 64 (p @ m)\<rparr>, bk_hkdf = \<lambda>salt ikm info. pad_to 32 (ikm @ salt), bk_key_ok = \<lambda>_. True\<rparr>"

lemma demo_browser_keys_correct: "browser_keys_correct demo_browser_keys"
  using demo_aead demo_x25519
  by (simp add: browser_keys_correct_def demo_browser_keys_def ed25519_correct_def aead_correct_def x25519_correct_def)


definition demo_sdk_json :: sdk_json where
  "demo_sdk_json = \<lparr>
     sj_request = \<lambda>r. Inr (put_fields CHR ''q'' [Some (qr_request_type r), Some (qr_cid r),
       map_option put_u32 (qr_fragment_index r)]),
     sj_request_de = \<lambda>bs. (case get_fields CHR ''q'' bs of
       Some [Some ty, Some cid, i] \<Rightarrow>
         Some \<lparr>qr_request_type = ty, qr_cid = cid, qr_fragment_index = map_option get_u32 i\<rparr>
     | _ \<Rightarrow> None),
     sj_response = \<lambda>r. Inr (put_fields CHR ''s'' [Some (qs_response_type r), Some (qs_cid r),
       map_option put_u32 (qs_fragment_index r), map_option put_u32 (qs_total_fragments r), qs_data r, qs_error r]),
     sj_response_de = \<lambda>bs. (case get_fields CHR ''s'' bs of
       Some [Some ty, Some cid, i, n, d, e] \<Rightarrow>
         Some \<lparr>qs_response_type = ty, qs_cid = cid, qs_fragment_index = map_option get_u32 i,
           qs_total_fragments = map_option get_u32 n, qs_data = d, qs_error = e\<rparr>
     | _ \<Rightarrow> None),
     sj_base64 = hex_bytes, sj_base64_de = unhex\<rparr>"

lemma demo_sdk_json_correct: "sdk_json_correct demo_sdk_json"
  by (simp add: sdk_json_correct_def demo_sdk_json_def get_put_fields get_other_fields put_fields_utf8 fields_start
      unhex_hex option.map_comp comp_def option.map_ident)

lemma length_put_fields:
  "length (put_fields k fs) = 1 + (\<Sum>f\<leftarrow>fs. Suc (case f of None \<Rightarrow> 1 | Some s \<Rightarrow> 2 * length s))"
proof -
  have "length (hex_bytes b) = 2 * length b" for b
    by (induction b) (simp_all add: hex_bytes_def)
  then have "length (put_field f) = (case f of None \<Rightarrow> 1 | Some s \<Rightarrow> 2 * length s)" for f
    by (simp add: put_field_def split: option.split)
  then show ?thesis
    by (simp add: put_fields_def length_concat comp_def)
qed

lemma demo_frames_fit: "length cid < 1000 \<Longrightarrow> frames_fit demo_sdk_json cid"
  by (auto simp: frames_fit_def demo_sdk_json_def length_put_fields fragment_response_def put_u32_def FRAGMENT_SIZE_def
      aead_limit_def hex_bytes_def length_concat comp_def sum_list_triv)

definition demo_alice :: identity where
  "demo_alice = \<lparr>id_signing = [1]\<rparr>"

definition demo_bob :: identity where
  "demo_bob = \<lparr>id_signing = [2]\<rparr>"

abbreviation alice_conn :: webrtc_conn where
  "alice_conn \<equiv> opened demo_browser_keys 0 (hello demo_browser_keys demo_bob [4])
     (fresh_conn demo_browser_keys [3] demo_alice (identity_peer_id demo_browser_keys demo_bob))"

abbreviation bob_conn :: webrtc_conn where
  "bob_conn \<equiv> opened demo_browser_keys 5 (hello demo_browser_keys demo_alice [3])
     (fresh_conn demo_browser_keys [4] demo_bob (identity_peer_id demo_browser_keys demo_alice))"

abbreviation demo_key :: bytes where
  "demo_key \<equiv> derive_channel_key demo_browser_keys (ephemeral_generate demo_browser_keys [3])
     (ek_public (ephemeral_generate demo_browser_keys [4]))"

lemma alice_ready: "ready_conn 0 demo_key alice_conn"
  by (rule opened_ready [OF demo_browser_keys_correct])

lemma bob_ready: "ready_conn 5 demo_key bob_conn"
  unfolding channel_keys_agree [OF demo_browser_keys_correct, of "[3]" "[4]"]
  by (rule opened_ready [OF demo_browser_keys_correct])

lemmas demo_key_length = length_channel_key [OF demo_browser_keys_correct]

theorem channel_data_authentic_witness:
  "\<exists>frame eph sig. ed_verify (bk_prims demo_browser_keys) (ed_public (bk_prims demo_browser_keys) [2]) (ephemeral_signing_message eph) sig \<and>
     decrypt_data demo_browser_keys (derive_channel_key demo_browser_keys (ephemeral_generate demo_browser_keys [3]) eph) frame = Inr [7]"
proof -
  have w: "webrtc_new demo_browser_keys [3] None demo_alice (hex_lower (ed_public (bk_prims demo_browser_keys) [2])) =
      Inr (fresh_conn demo_browser_keys [3] demo_alice (identity_peer_id demo_browser_keys demo_bob))"
    by (simp add: webrtc_new_def fresh_conn_def identity_peer_id_def public_bytes_def demo_bob_def)
  obtain frame where "decrypt_data demo_browser_keys demo_key frame = Inr [7]"
    using data_frame_opens [OF demo_browser_keys_correct demo_key_length, of "replicate 12 0" "[7]"] by (auto simp: aead_limit_def)
  then have "Deliver [7] \<in> set (snd (channel_step demo_browser_keys (MessageEvent 0 (ArrayBuffer frame)) alice_conn))"
    using alice_ready by (simp add: ready_conn_def on_data_def)
  then have "\<exists>c raw eph sig. MessageEvent 0 (ArrayBuffer frame) = MessageEvent c (ArrayBuffer raw) \<and>
      ed_verify (bk_prims demo_browser_keys) (ed_public (bk_prims demo_browser_keys) [2]) (ephemeral_signing_message eph) sig \<and>
      decrypt_data demo_browser_keys (derive_channel_key demo_browser_keys (ephemeral_generate demo_browser_keys [3]) eph) raw = Inr [7]"
    unfolding opened_def by (rule channel_data_authentic [OF w])
  then show ?thesis
    by blast
qed

theorem browsers_exchange_data_witness:
  "\<exists>frame. webrtc_send demo_browser_keys (replicate 12 0) None [7] alice_conn = Inr (0, frame) \<and>
     snd (channel_step demo_browser_keys (MessageEvent 5 (ArrayBuffer frame)) bob_conn) = [Deliver [7]]"
  by (rule browsers_exchange_data [OF demo_browser_keys_correct]) (simp_all add: aead_limit_def)

theorem handshake_replays_witness:
  "webrtc_is_authenticated (fst (channel_step demo_browser_keys (MessageEvent 8 (ArrayBuffer (hello demo_browser_keys demo_bob [4])))
     (fresh_conn demo_browser_keys [9] demo_alice (identity_peer_id demo_browser_keys demo_bob))))"
  by (rule handshake_replays [of demo_browser_keys "identity_peer_id demo_browser_keys demo_bob" "ephemeral_generate demo_browser_keys [3]"
        "fresh_conn demo_browser_keys [3] demo_alice (identity_peer_id demo_browser_keys demo_bob)" 0])
    (use handshake_verifies [OF demo_browser_keys_correct length_ephemeral [OF demo_browser_keys_correct], of demo_bob "[4]"]
      in \<open>simp_all add: conn_ok_def fresh_conn_def webrtc_new_def hello_def on_handshake_def\<close>)

definition demo_env :: browser_env where
  "demo_env = \<lparr>be_keys = demo_browser_keys, be_json = demo_sdk_json\<rparr>"

definition demo_cid :: string where
  "demo_cid = hex_lower (blake3 demo_prims [7])"

lemma demo_env_simps [simp]: "be_keys demo_env = demo_browser_keys" "be_json demo_env = demo_sdk_json"
  by (simp_all add: demo_env_def)

lemma demo_cid_plain: "\<not> starts_with demo_cid ''Qm''" "\<not> starts_with demo_cid ''bafy''"
  by code_simp+

lemma demo_cid_verifies: "verify_cid demo_env [7] demo_cid"
  using demo_cid_plain by (simp add: verify_cid_def demo_browser_keys_def) (simp add: demo_cid_def)

lemma length_demo_cid: "length demo_cid = 64"
  by code_simp

text \<open>Alice is connected to Bob, who keeps one byte of content.\<close>

definition demo_client :: "bytes \<Rightarrow> string \<Rightarrow> webrtc_conn \<Rightarrow> (string, bytes) hmap \<Rightarrow> browser_client" where
  "demo_client seed peer w cache = (client_new demo_env seed (client_config_new ''wss://s''))
     \<lparr>cb_connected := True, cb_connections := [(peer, w)], cb_cache := cache\<rparr>"

theorem browser_fetch_between_peers_witness:
  "\<exists>t A1 req frames A3.
    fetch_begin demo_env (replicate 12 0) None (\<lambda>_. NoWindow) demo_cid (demo_client [1] ''bob'' alice_conn []) = (Inr t, A1) \<and>
    cb_outbox A1 = cb_outbox (demo_client [1] ''bob'' alice_conn []) @ [(''bob'', 0, req)] \<and>
    cb_outbox (connection_event demo_env (\<lambda>_. replicate 12 0) (\<lambda>_. None) ''alice'' (MessageEvent 5 (ArrayBuffer req))
        (demo_client [2] ''alice'' bob_conn [(demo_cid, [7])])) =
      cb_outbox (demo_client [2] ''alice'' bob_conn [(demo_cid, [7])]) @ map (\<lambda>f. (''alice'', 5, f)) frames \<and>
    fetch_resume demo_env False (\<lambda>_. NoWindow) t
      (fold (take_frame demo_env (\<lambda>_. []) (\<lambda>_. None) ''bob'' 0) frames A1) = Some (Inr [7], A3) \<and>
    hm_get (cb_cache A3) demo_cid = Some [7]"
proof -
  have "chunks FRAGMENT_SIZE [7 :: u8] = [[7]]"
    by (simp add: chunks_step FRAGMENT_SIZE_def)
  then show ?thesis
    by (intro browser_fetch_between_peers [where wa = alice_conn and wb = bob_conn and key = demo_key])
      (simp_all add: demo_browser_keys_correct demo_sdk_json_correct demo_frames_fit length_demo_cid demo_key_length
        demo_client_def client_new_def first_connected_def ready_connected [OF alice_ready] alice_ready bob_ready
        demo_cid_verifies hm_get_def)
qed


definition demo_ipfs_cid :: string where
  "demo_ipfs_cid = ''Qm'' @ replicate 44 CHR ''a''"

theorem ipfs_content_unverified_witness:
  "\<exists>frame fetch. fetched demo_ipfs_cid 0 [6, 6, 6]
     (demo_client [1] ''mallory'' alice_conn []\<lparr>cb_pending := [(demo_ipfs_cid, fetch)]\<rparr>)
     (take_frame demo_env (\<lambda>_. []) (\<lambda>_. None) ''mallory'' 0 frame
       (demo_client [1] ''mallory'' alice_conn []\<lparr>cb_pending := [(demo_ipfs_cid, fetch)]\<rparr>))"
proof -
  let ?r = "fragment_response demo_sdk_json demo_ipfs_cid 0 1 [6, 6, 6]"
  obtain json where json: "sj_response demo_sdk_json ?r = Inr json"
    by (simp add: demo_sdk_json_def)
  have "frames_fit demo_sdk_json demo_ipfs_cid"
    by (rule demo_frames_fit) (simp add: demo_ipfs_cid_def)
  moreover have "length [6, 6, 6 :: u8] \<le> FRAGMENT_SIZE"
    by (simp add: FRAGMENT_SIZE_def)
  ultimately have "length json < aead_limit"
    using json unfolding frames_fit_def by blast
  then obtain frame where frame: "decrypt_data demo_browser_keys demo_key frame = Inr json"
    using data_frame_opens [OF demo_browser_keys_correct demo_key_length, of "replicate 12 0" json] by auto
  have valid: "is_valid_ipfs_cid demo_ipfs_cid"
    by code_simp
  let ?fetch = "\<lparr>pf_cid = demo_ipfs_cid, pf_fragments = [], pf_total_fragments = None, pf_resolver = Some 0\<rparr>"
  have "fetched demo_ipfs_cid 0 [6, 6, 6]
     (demo_client [1] ''mallory'' alice_conn []\<lparr>cb_pending := [(demo_ipfs_cid, ?fetch)]\<rparr>)
     (take_frame demo_env (\<lambda>_. []) (\<lambda>_. None) ''mallory'' 0 frame
       (demo_client [1] ''mallory'' alice_conn []\<lparr>cb_pending := [(demo_ipfs_cid, ?fetch)]\<rparr>))"
    by (rule ipfs_content_unverified [where fetch = ?fetch and w = alice_conn and key = demo_key and c = 0])
      (simp_all add: demo_sdk_json_correct valid hm_get_def demo_client_def alice_ready json frame)
  then show ?thesis
    by blast
qed

text \<open>A client that connects to a peer while its message loop waits for the browser to take an answer panics: the
  loop still borrows the connections.\<close>

theorem connecting_panics:
  "\<exists>events. fold (client_run_step E) events (Some (client_new E seed cfg)) = None"
proof -
  let ?m = "\<lparr>so_from = ''b'', so_to = [], so_sdp = [], so_session_id = []\<rparr>"
  have "fold (client_run_step E) [Connect (Inr ()), OnSignal [] None (Inr []) (Offer ?m), OnSignal [] None (Inr []) (Answer ?m),
      ConnectBegin [] None 0 ''c'', ConnectFinish (Inr []) (Inr ()) ''c''] (Some (client_new E seed cfg)) = None"
    by (simp add: client_run_step_def client_new_def client_connect_def signal_message_def webrtc_new_def create_answer_def
        connect_begin_def connect_finish_def create_offer_def)
  then show ?thesis
    by blast
qed

end
