(* ===== verification/NodeBridge.thy ===== *)
theory NodeBridge
  imports BrowserSafety
begin

text \<open>
  The WebRTC bridge of a node, \<open>node-runner/src/bridge.rs\<close>: it announces itself at the gateway's signaling server,
  accepts offers of browsers up to a limit and serves content over their data channels.

  Every accepted offer is a task: it is spawned, starts at some later time, and ends. The WebRTC stack is outside:
  it hands a task the messages of its data channel. The messages are those of the SDK, which the bridge declares
  a second time. A panic while serving is the value \<open>None\<close>; reconnecting and logging are left out.
\<close>

section \<open>Configuration and state\<close>

record bridge_config =
  bg_enabled :: bool
  bg_signaling_url :: "string option"
  bg_stun_servers :: "string list"
  bg_max_connections :: nat
  bg_heartbeat_interval_secs :: u64
  bg_reconnect_delay_secs :: u64

record bridge_task =
  bt_offer :: sdp_message
  bt_started :: bool
  bt_ice :: "ice_candidate_message list"
  bt_session :: nat

record bridge =
  br_connected_browsers :: nat
  br_active_sessions :: "(string, nat) hmap"
  br_tasks :: "(nat, bridge_task) hmap"
  br_next :: nat
  br_session :: nat
  br_outgoing :: "signaling_message list"
  br_storage :: storage
  br_bytes_served :: u64

definition bridge_new :: "storage \<Rightarrow> bridge" where
  "bridge_new st =
     \<lparr>br_connected_browsers = 0, br_active_sessions = [], br_tasks = [], br_next = 0, br_session = 0, br_outgoing = [],
      br_storage = st, br_bytes_served = 0\<rparr>"

definition bridge_config_default :: bridge_config where
  "bridge_config_default =
     \<lparr>bg_enabled = False, bg_signaling_url = None, bg_stun_servers = [''stun:stun.l.google.com:19302''],
      bg_max_connections = 20, bg_heartbeat_interval_secs = 25, bg_reconnect_delay_secs = 5\<rparr>"

section \<open>Signaling\<close>

definition bridge_announce :: "string \<Rightarrow> signaling_message" where
  "bridge_announce peer_id =
     Announce \<lparr>am_peer_id = peer_id, am_multiaddrs = [], am_transports = [''webrtc''],
       am_metadata = [(''peer_type'', ''node-runner'')]\<rparr>"

definition bridge_heartbeat :: "string \<Rightarrow> u64 \<Rightarrow> signaling_message" where
  "bridge_heartbeat peer_id unix_ms = Heartbeat \<lparr>hb_peer_id = peer_id, hb_timestamp = unix_ms\<rparr>"

text \<open>
  \<open>handle_signaling_message\<close>: the limit is compared with the browsers that are connected now; the task that an
  offer spawns counts itself when it starts. A candidate goes to the task that holds its session.
\<close>

definition bridge_signal :: "signaling_env \<Rightarrow> bridge_config \<Rightarrow> string \<Rightarrow> bridge \<Rightarrow> bridge" where
  "bridge_signal J cfg frame s =
     (case sj_from_json J frame of
        Inl _ \<Rightarrow> s
      | Inr m \<Rightarrow>
          (case m of
             Offer offer \<Rightarrow>
               if bg_max_connections cfg \<le> br_connected_browsers s then s
               else s\<lparr>br_active_sessions := hm_insert (so_session_id offer) (br_next s) (br_active_sessions s),
                      br_tasks := hm_insert (br_next s) \<lparr>bt_offer = offer, bt_started = False, bt_ice = [],
                        bt_session = br_session s\<rparr> (br_tasks s),
                      br_next := Suc (br_next s)\<rparr>
           | IceCandidate candidate \<Rightarrow>
               (case hm_get (br_active_sessions s) (ic_session_id candidate) of
                  None \<Rightarrow> s
                | Some n \<Rightarrow> s\<lparr>br_tasks := hm_modify n (\<lambda>t. t\<lparr>bt_ice := bt_ice t @ [candidate]\<rparr>) (br_tasks s)\<rparr>)
           | _ \<Rightarrow> s))"

text \<open>\<open>handle_browser_offer\<close> and the end of the task: it counts itself, answers when the stack made an answer, and
  leaves the count and the session when it is over.\<close>

definition task_start :: "nat \<Rightarrow> bridge \<Rightarrow> bridge" where
  "task_start n s =
     (case hm_get (br_tasks s) n of
        None \<Rightarrow> s
      | Some t \<Rightarrow>
          if bt_started t then s
          else s\<lparr>br_connected_browsers := Suc (br_connected_browsers s),
                 br_tasks := hm_insert n (t\<lparr>bt_started := True\<rparr>) (br_tasks s)\<rparr>)"

definition task_answer :: "string \<Rightarrow> nat \<Rightarrow> string \<Rightarrow> bridge \<Rightarrow> bridge" where
  "task_answer our_peer_id n sdp s =
     (case hm_get (br_tasks s) n of
        None \<Rightarrow> s
      | Some t \<Rightarrow>
          if \<not> bt_started t \<or> bt_session t \<noteq> br_session s then s
          else s\<lparr>br_outgoing := br_outgoing s @ [Answer
             \<lparr>so_from = our_peer_id, so_to = so_from (bt_offer t), so_sdp = sdp,
              so_session_id = so_session_id (bt_offer t)\<rparr>]\<rparr>)"

definition task_end :: "nat \<Rightarrow> bridge \<Rightarrow> bridge" where
  "task_end n s =
     (case hm_get (br_tasks s) n of
        None \<Rightarrow> s
      | Some t \<Rightarrow>
          if \<not> bt_started t then s
          else s\<lparr>br_connected_browsers := br_connected_browsers s - 1,
                 br_tasks := hm_remove n (br_tasks s),
                 br_active_sessions :=
                   (if bt_session t = br_session s then hm_remove (so_session_id (bt_offer t)) (br_active_sessions s)
                    else br_active_sessions s)\<rparr>)"

text \<open>A new signaling session starts with the announcement and an empty table; tasks of the last one go on.\<close>

definition bridge_session :: "string \<Rightarrow> bridge \<Rightarrow> bridge" where
  "bridge_session peer_id s =
     s\<lparr>br_session := Suc (br_session s), br_active_sessions := [],
       br_outgoing := br_outgoing s @ [bridge_announce peer_id]\<rparr>"

section \<open>Serving content\<close>

text \<open>The loop that collects the fragments: an error carries the hash it stopped at.\<close>

fun collect_fragments ::
    "io \<Rightarrow> u64 \<Rightarrow> string list \<Rightarrow> bytes \<Rightarrow> storage \<Rightarrow> ((string + bytes) \<times> storage) option" where
  "collect_fragments io now [] all_data st = Some (Inr all_data, st)"
| "collect_fragments io now (hash # hs) all_data st =
     (case get_fragment io now hash st of
        (Inl (SlicePanic _), _) \<Rightarrow> None
      | (Inl _, st') \<Rightarrow> Some (Inl hash, st')
      | (Inr data, st') \<Rightarrow> collect_fragments io now hs (all_data @ data) st')"

definition content_error_response :: "string \<Rightarrow> u32 option \<Rightarrow> u32 option \<Rightarrow> string \<Rightarrow> sdk_response" where
  "content_error_response cid idx n message =
     \<lparr>qs_response_type = ''content_error'', qs_cid = cid, qs_fragment_index = idx, qs_total_fragments = n,
      qs_data = None, qs_error = Some message\<rparr>"

text \<open>The chunks of the content, each as a response.\<close>

definition chunk_responses :: "sdk_json \<Rightarrow> string \<Rightarrow> bytes \<Rightarrow> sdk_response list" where
  "chunk_responses J cid all_data =
     (let cs = chunks FRAGMENT_SIZE all_data; n = word_of_nat (length cs)
      in map (\<lambda>(i, chunk). fragment_response J cid i n chunk) (enumerate 0 cs))"

definition bridge_content_request ::
    "io \<Rightarrow> sdk_json \<Rightarrow> u64 \<Rightarrow> sdk_request \<Rightarrow> bridge \<Rightarrow> (sdk_response list \<times> bridge) option" where
  "bridge_content_request io J now request s =
     (let cid = qr_cid request in
      case get_content (br_storage s) cid of
        None \<Rightarrow> Some ([not_found_response cid], s)
      | Some content \<Rightarrow>
          (case collect_fragments io now (sc_fragments content) [] (br_storage s) of
             None \<Rightarrow> None
           | Some (Inl hash, st) \<Rightarrow>
               Some ([content_error_response cid None None (''Missing fragment: '' @ hash)], s\<lparr>br_storage := st\<rparr>)
           | Some (Inr all_data, st) \<Rightarrow>
               (let n = word_of_nat (length (chunks FRAGMENT_SIZE all_data)) :: u32;
                    served = (chunk_responses J cid all_data,
                      s\<lparr>br_storage := st, br_bytes_served := br_bytes_served s + word_of_nat (length all_data)\<rparr>)
                in case qr_fragment_index request of
                     Some idx \<Rightarrow>
                       if n \<le> idx then
                         Some ([content_error_response cid (Some idx) (Some n)
                            (''fragment_index '' @ show_nat (unat idx) @ '' out of range (total: '' @
                             show_nat (unat n) @ '')'')], s\<lparr>br_storage := st\<rparr>)
                       else Some served
                   | None \<Rightarrow> Some served)))"

text \<open>One message of a data channel: text that parses as a content request is answered, with text.\<close>

definition serve_message ::
    "io \<Rightarrow> sdk_json \<Rightarrow> u64 \<Rightarrow> bytes \<Rightarrow> bridge \<Rightarrow> (sdk_response list \<times> bridge) option" where
  "serve_message io J now data s =
     (if \<not> utf8_valid (map unat data) then Some ([], s)
      else
        (case sj_request_de J data of
           None \<Rightarrow> Some ([], s)
         | Some request \<Rightarrow>
             if qr_request_type request = ''content_request'' then bridge_content_request io J now request s
             else Some ([], s)))"

section \<open>The bridge as a machine\<close>

datatype bridge_event =
    SessionStart
  | HeartbeatTick u64
  | SignalText string
  | TaskStart nat
  | TaskAnswer nat string
  | TaskMessage nat u64 bytes
  | TaskEnd nat

text \<open>A panic ends the task only: the state stays, and so does its place in the count.\<close>

fun bridge_step :: "io \<Rightarrow> sdk_json \<Rightarrow> signaling_env \<Rightarrow> bridge_config \<Rightarrow> string \<Rightarrow> bridge_event \<Rightarrow> bridge \<Rightarrow> bridge" where
  "bridge_step io J S cfg me SessionStart s = bridge_session me s"
| "bridge_step io J S cfg me (HeartbeatTick unix_ms) s = s\<lparr>br_outgoing := br_outgoing s @ [bridge_heartbeat me unix_ms]\<rparr>"
| "bridge_step io J S cfg me (SignalText frame) s = bridge_signal S cfg frame s"
| "bridge_step io J S cfg me (TaskStart n) s = task_start n s"
| "bridge_step io J S cfg me (TaskAnswer n sdp) s = task_answer me n sdp s"
| "bridge_step io J S cfg me (TaskMessage n now data) s =
     (case hm_get (br_tasks s) n of
        None \<Rightarrow> s
      | Some t \<Rightarrow>
          if \<not> bt_started t then s
          else (case serve_message io J now data s of
                  None \<Rightarrow> s\<lparr>br_tasks := hm_remove n (br_tasks s)\<rparr>
                | Some (_, s') \<Rightarrow> s'))"
| "bridge_step io J S cfg me (TaskEnd n) s = task_end n s"

section \<open>What the bridge serves\<close>

lemma concat_enumerated: "concat (map (\<lambda>(i, c). c) (enumerate k cs)) = concat cs"
  by (induction cs arbitrary: k) auto

text \<open>The bridge answers a request for one fragment with all of them: an index in range changes nothing in what
  it sends, and the chunks it sends together are the stored fragments of the content.\<close>

theorem bridge_sends_everything:
  assumes "get_content (br_storage s) cid = Some content"
    and "collect_fragments io now (sc_fragments content) [] (br_storage s) = Some (Inr all_data, st)"
    and "idx < word_of_nat (length (chunks FRAGMENT_SIZE all_data))" "sdk_json_correct J"
  shows "\<exists>responses s'.
    bridge_content_request io J now \<lparr>qr_request_type = ''content_request'', qr_cid = cid, qr_fragment_index = Some idx\<rparr> s =
      Some (responses, s') \<and>
    bridge_content_request io J now \<lparr>qr_request_type = ''content_request'', qr_cid = cid, qr_fragment_index = None\<rparr> s =
      Some (responses, s') \<and>
    concat (map (\<lambda>r. the (Option.bind (qs_data r) (sj_base64_de J))) responses) = all_data"
proof -
  have "0 < FRAGMENT_SIZE"
    by (simp add: FRAGMENT_SIZE_def)
  then have "concat (map (\<lambda>r. the (Option.bind (qs_data r) (sj_base64_de J))) (chunk_responses J cid all_data)) = all_data"
    using assms(4) concat_enumerated [of 0 "chunks FRAGMENT_SIZE all_data"]
    by (simp add: chunk_responses_def Let_def comp_def case_prod_unfold fragment_response_def sdk_json_correct_def concat_chunks)
  with assms(1-3) show ?thesis
    by (auto simp: bridge_content_request_def Let_def not_le)
qed

section \<open>The bridge and the browsers of the SDK\<close>

text \<open>All that a bridge ever puts on a data channel is text; the SDK reads binary frames only.\<close>

fun bridge_talks :: "conn_call \<Rightarrow> bool" where
  "bridge_talks (Event (MessageEvent c d)) \<longleftrightarrow> d = OtherData"
| "bridge_talks _ \<longleftrightarrow> True"

definition keyless :: "webrtc_conn \<Rightarrow> bool" where
  "keyless w \<longleftrightarrow> wc_cipher w = None \<and> \<not> wc_peer_authenticated w"

lemma keyless_step:
  assumes "bridge_talks call" "keyless w"
  shows "keyless (conn_step K call w)"
proof (cases call)
  case (Event ev)
  with assms show ?thesis
    by (cases ev) (auto simp: keyless_def channel_defs)
qed (use assms in \<open>auto simp: keyless_def create_offer_def create_answer_def webrtc_close_def channel_close_def
  split: option.split\<close>)

interpretation with_bridge: guarded_machine "conn_step K" bridge_talks keyless for K
  by unfold_locales (rule keyless_step)

lemma hello_ignored:
  "sdk_json_correct J \<Longrightarrow> serve_message io J now (hello K i drawn) s = Some ([], s)"
  by (simp add: serve_message_def hello_def build_handshake_def HANDSHAKE_TAG_def sdk_json_correct_def)

lemma keyless_first_blocks:
  assumes "first_connected A = Some (b, w)" "keyless w" "hm_get (cb_cache A) cid = None"
  shows "\<exists>e. fetch_p2p_begin E rnd refused cid A = (Inl e, A)"
proof -
  have "cb_connections A \<noteq> []"
    using assms(1) by (auto simp: first_connected_def)
  with assms show ?thesis
    by (auto simp: fetch_p2p_begin_def webrtc_send_def keyless_def split: sum.split option.split)
qed

text \<open>A browser of the SDK gets nothing from a bridge and, because of it, nothing from anybody: the bridge ignores
  the handshake and only ever sends text, so the connection never has a key and refuses to send; it counts as
  connected all the same, and while it comes first among the connections, every fetch fails before it asks any
  other peer.\<close>

theorem bridge_blocks_browser:
  assumes "sdk_json_correct (be_json E)" "list_all bridge_talks calls"
    and "w = fold (conn_step (be_keys E)) calls (fresh_conn (be_keys E) drawn i peer)"
    and "first_connected A = Some (b, w)" "hm_get (cb_cache A) cid = None"
  shows "serve_message io (be_json E) now (hello (be_keys E) i drawn) s = Some ([], s) \<and>
    (\<exists>e. fetch_p2p_begin E rnd refused cid A = (Inl e, A))"
proof -
  have "keyless (fresh_conn (be_keys E) drawn i peer)"
    by (simp add: fresh_conn_def webrtc_new_def keyless_def)
  then have "keyless w"
    unfolding assms(3) by (rule with_bridge.guarded_run [OF assms(2)])
  then show ?thesis
    using keyless_first_blocks assms(1,4,5) by (simp add: hello_ignored)
qed

section \<open>The limit of connections\<close>

definition spawned :: "bridge \<Rightarrow> nat \<Rightarrow> bridge \<Rightarrow> bool" where
  "spawned s n s' \<longleftrightarrow> br_connected_browsers s' = br_connected_browsers s \<and> br_next s' = br_next s + n \<and>
     (\<forall>k < n. \<exists>t. hm_get (br_tasks s') (br_next s + k) = Some t \<and> \<not> bt_started t)"

lemma offers_spawn:
  assumes "sj_from_json S frame = Inr (Offer offer)" "br_connected_browsers s < bg_max_connections cfg"
  shows "spawned s n (fold (bridge_step io J S cfg me) (replicate n (SignalText frame)) s)"
proof (induction n)
  case 0
  then show ?case by (simp add: spawned_def)
next
  case (Suc n)
  then show ?case
    unfolding replicate_Suc replicate_append_same [symmetric] using assms
    by (auto simp: spawned_def bridge_signal_def less_Suc_eq)
qed

definition running :: "bridge \<Rightarrow> nat \<Rightarrow> nat \<Rightarrow> bridge \<Rightarrow> bool" where
  "running s n m s' \<longleftrightarrow> br_connected_browsers s' = br_connected_browsers s + m \<and>
     (\<forall>k. m \<le> k \<and> k < n \<longrightarrow> (\<exists>t. hm_get (br_tasks s') (br_next s + k) = Some t \<and> \<not> bt_started t))"

lemma tasks_run:
  assumes "spawned s n s1" "m \<le> n"
  shows "running s n m (fold (bridge_step io J S cfg me) (map (\<lambda>k. TaskStart (br_next s + k)) [0..<m]) s1)"
  using assms(2)
proof (induction m)
  case 0
  with assms show ?case by (simp add: running_def spawned_def)
next
  case (Suc m)
  then show ?case
    by (fastforce simp: running_def task_start_def split: option.split)
qed

text \<open>The limit of connections is not one: offers that arrive before their tasks have started all pass it, so any
  number of browsers can be connected, whatever the limit.\<close>

theorem bridge_limit_races:
  assumes "sj_from_json S frame = Inr (Offer offer)" "0 < bg_max_connections cfg"
  shows "\<exists>events. br_connected_browsers (fold (bridge_step io J S cfg me) events (bridge_new st)) = n"
proof -
  have "spawned (bridge_new st) n (fold (bridge_step io J S cfg me) (replicate n (SignalText frame)) (bridge_new st))"
    by (rule offers_spawn) (use assms in \<open>simp_all add: bridge_new_def\<close>)
  from tasks_run [OF this order_refl, of io J S cfg me] show ?thesis
    by (intro exI [of _ "replicate n (SignalText frame) @ map (\<lambda>k. TaskStart (br_next (bridge_new st) + k)) [0..<n]"])
      (simp add: running_def bridge_new_def)
qed

section \<open>Witnesses\<close>

definition demo_disk_io :: io where
  "demo_disk_io = \<lparr>io_create_dir = \<lambda>_. None, io_write = \<lambda>_. None, io_read = \<lambda>_. None, io_remove = \<lambda>_. None\<rparr>"

definition demo_node_storage :: storage where
  "demo_node_storage = (empty_manager [''d''] 1000 [([''d'', ''fragments'', ''ab'', ''ab''], [7, 8])])
     \<lparr>sm_fragments := [(''ab'', \<lparr>sf_hash = ''ab'', sf_cid = ''c'', sf_index = 0, sf_size = 2, sf_stored_at = 0,
        sf_last_accessed = 0, sf_access_count = 0, sf_pinned = False\<rparr>)],
      sm_content := [(''c'', \<lparr>sc_cid = ''c'', sc_name = ''n'', sc_total_size = 2, sc_fragment_count = 1,
        sc_fragments = [''ab''], sc_stored_at = 0, sc_pinned = False, sc_mime_type = ''t''\<rparr>)]\<rparr>"

theorem bridge_sends_everything_witness:
  "\<exists>responses s'.
    bridge_content_request demo_disk_io demo_sdk_json 1
        \<lparr>qr_request_type = ''content_request'', qr_cid = ''c'', qr_fragment_index = Some 0\<rparr> (bridge_new demo_node_storage) =
      Some (responses, s') \<and>
    bridge_content_request demo_disk_io demo_sdk_json 1
        \<lparr>qr_request_type = ''content_request'', qr_cid = ''c'', qr_fragment_index = None\<rparr> (bridge_new demo_node_storage) =
      Some (responses, s') \<and>
    concat (map (\<lambda>r. the (Option.bind (qs_data r) (sj_base64_de demo_sdk_json))) responses) = [7, 8]"
proof (rule bridge_sends_everything)
  show "get_content (br_storage (bridge_new demo_node_storage)) ''c'' =
      Some \<lparr>sc_cid = ''c'', sc_name = ''n'', sc_total_size = 2, sc_fragment_count = 1,
        sc_fragments = [''ab''], sc_stored_at = 0, sc_pinned = False, sc_mime_type = ''t''\<rparr>"
    by (simp add: bridge_new_def demo_node_storage_def get_content_def hm_get_def)
  show "collect_fragments demo_disk_io 1 (sc_fragments \<lparr>sc_cid = ''c'', sc_name = ''n'', sc_total_size = 2,
        sc_fragment_count = 1, sc_fragments = [''ab''], sc_stored_at = 0, sc_pinned = False, sc_mime_type = ''t''\<rparr>) []
        (br_storage (bridge_new demo_node_storage)) =
      Some (Inr [7, 8], bump_access 1 ''ab'' demo_node_storage)"
    by (simp add: bridge_new_def demo_node_storage_def get_fragment_def fragment_path_def safe_hash_def ascii_defs
        fs_read_def demo_disk_io_def empty_manager_def hm_get_def)
qed (simp_all add: chunks_step FRAGMENT_SIZE_def demo_sdk_json_correct)

definition demo_bridge_conn :: webrtc_conn where
  "demo_bridge_conn = fold (conn_step demo_browser_keys) [CallOffer 0 (Inr []), Event (OpenEvent 0)]
     (fresh_conn demo_browser_keys [3] demo_alice ''bridge'')"

definition demo_blocked :: browser_client where
  "demo_blocked = (client_new demo_env [1] (client_config_new ''wss://s''))
     \<lparr>cb_connected := True, cb_connections := [(''bridge'', demo_bridge_conn), (''bob'', alice_conn)]\<rparr>"

theorem bridge_blocks_browser_witness:
  "serve_message demo_disk_io demo_sdk_json 1 (hello demo_browser_keys demo_alice [3]) (bridge_new demo_node_storage) =
     Some ([], bridge_new demo_node_storage) \<and>
   (\<exists>e. fetch_p2p_begin demo_env (replicate 12 0) None demo_cid demo_blocked = (Inl e, demo_blocked))"
proof -
  have first: "first_connected demo_blocked = Some (''bridge'', demo_bridge_conn)"
    by (simp add: demo_blocked_def demo_bridge_conn_def first_connected_def webrtc_is_connected_def fresh_conn_def
        webrtc_new_def create_offer_def on_open_def)
  have "hm_get (cb_cache demo_blocked) demo_cid = None"
    by (simp add: demo_blocked_def client_new_def)
  with first show ?thesis
    using bridge_blocks_browser [of demo_env "[CallOffer 0 (Inr []), Event (OpenEvent 0)]" demo_bridge_conn "[3]"
        demo_alice "''bridge''" demo_blocked "''bridge''" demo_cid]
    by (simp add: demo_sdk_json_correct demo_bridge_conn_def)
qed

theorem bridge_limit_races_witness:
  "\<exists>events. br_connected_browsers (fold (bridge_step demo_disk_io demo_sdk_json
      \<lparr>sj_to_json = \<lambda>_. None,
       sj_from_json = \<lambda>_. Inr (Offer \<lparr>so_from = ''b'', so_to = ''n'', so_sdp = [], so_session_id = ''s''\<rparr>),
       sj_parse_peer = \<lambda>_. None, sj_parse_addr = \<lambda>_. None\<rparr> bridge_config_default ''n'') events (bridge_new demo_node_storage)) = 500"
  by (rule bridge_limit_races) (simp_all add: bridge_config_default_def)

end
