(* ===== verification/ProcessManager.thy ===== *)
theory ProcessManager
  imports GatewayContent
begin

text \<open>
  The processes of dynamic deployments, \<open>gateway/src/process_manager.rs\<close>: ports, the start of a process with its
  wait for a first connection, stopping, restarting and the health loop.

  A child process is known by a number. The operating system is outside: it starts children, says which still run
  and which ports accept a connection. A loop that waits takes the list of what it will see, and is \<open>None\<close> when the
  list ends first. Between two observations of a waiting start other calls can come in: \<open>spawn_begin\<close> and
  \<open>startup_probe\<close> are its steps, and \<open>stop_begin\<close> and \<open>stop_end\<close> those of a stop. The mutexes are never poisoned,
  as nothing panics while one is held. Logging is left out.
\<close>

section \<open>Configuration\<close>

type_synonym u16 = "16 word"

definition HEALTH_HEALTHY :: u8 where
  "HEALTH_HEALTHY = 0"

definition HEALTH_STARTING :: u8 where
  "HEALTH_STARTING = 1"

definition HEALTH_UNHEALTHY :: u8 where
  "HEALTH_UNHEALTHY = 2"

definition HEALTH_STOPPED :: u8 where
  "HEALTH_STOPPED = 3"

lemmas health_defs = HEALTH_HEALTHY_def HEALTH_STARTING_def HEALTH_UNHEALTHY_def HEALTH_STOPPED_def

record process_manager_config =
  pc_port_range_start :: u16
  pc_port_range_end :: u16
  pc_max_processes :: nat
  pc_memory_limit_mb :: u64
  pc_health_check_interval :: duration
  pc_startup_timeout :: duration
  pc_max_restart_count :: u32
  pc_node_binary :: string

definition health_str :: "u8 \<Rightarrow> string" where
  "health_str h =
     (if h = HEALTH_HEALTHY then ''healthy''
      else if h = HEALTH_STARTING then ''starting''
      else if h = HEALTH_UNHEALTHY then ''unhealthy''
      else if h = HEALTH_STOPPED then ''stopped''
      else ''unknown'')"

type_synonym child = nat

record managed_process =
  mp_cid :: string
  mp_port :: u16
  mp_child :: child
  mp_started_at :: instant
  mp_restart_count :: u32
  mp_health :: u8
  mp_working_dir :: string
  mp_start_command :: "string list"
  mp_env :: "(string, string) hmap"
  mp_consecutive_failures :: u32

section \<open>Ports\<close>

record port_allocator =
  pa_base :: u16
  pa_count :: u16
  pa_allocated :: "bool list"

definition pa_new :: "u16 \<Rightarrow> u16 \<Rightarrow> port_allocator" where
  "pa_new start stop =
     (let n = sat_add (sat_sub stop start) 1
      in \<lparr>pa_base = start, pa_count = n, pa_allocated = replicate (unat n) False\<rparr>)"

text \<open>The index of the first free slot.\<close>

fun first_free :: "bool list \<Rightarrow> nat option" where
  "first_free [] = None"
| "first_free (b # bs) = (if \<not> b then Some 0 else map_option Suc (first_free bs))"

definition pa_allocate :: "port_allocator \<Rightarrow> u16 option \<times> port_allocator" where
  "pa_allocate a =
     (case first_free (pa_allocated a) of
        None \<Rightarrow> (None, a)
      | Some i \<Rightarrow> (Some (pa_base a + word_of_nat i), a\<lparr>pa_allocated := (pa_allocated a)[i := True]\<rparr>))"

definition pa_release :: "u16 \<Rightarrow> port_allocator \<Rightarrow> port_allocator" where
  "pa_release port a =
     (if pa_base a \<le> port then
        (let idx = unat (port - pa_base a) in
         if idx < length (pa_allocated a) then a\<lparr>pa_allocated := (pa_allocated a)[idx := False]\<rparr> else a)
      else a)"

section \<open>Starting a process\<close>

definition ALLOWED_PROCESS_BINARIES :: "string list" where
  "ALLOWED_PROCESS_BINARIES =
     [''node'', ''npm'', ''npx'', ''yarn'', ''pnpm'', ''bun'', ''next'', ''nuxt'', ''remix-serve'']"

fun join_with :: "string \<Rightarrow> string list \<Rightarrow> string" where
  "join_with sep [] = []"
| "join_with sep [w] = w"
| "join_with sep (w # v # ws) = w @ sep @ join_with sep (v # ws)"

text \<open>\<open>Path::file_name\<close>: the last component, unless it is \<open>..\<close> or there is none.\<close>

definition path_file_name :: "string \<Rightarrow> string option" where
  "path_file_name p =
     (case rev (filter (\<lambda>w. w \<noteq> [] \<and> w \<noteq> ''.'') (split_at CHR ''/'' p)) of
        [] \<Rightarrow> None
      | w # _ \<Rightarrow> if w = ''..'' then None else Some w)"

text \<open>The operating system: paths, the environment of the gateway, the start of a command with its arguments,
  directory and environment.\<close>

record process_env =
  pe_canonicalize :: "string \<Rightarrow> string + string"
  pe_path :: "string option"
  pe_home :: "string option"
  pe_spawn :: "string \<Rightarrow> string list \<Rightarrow> string \<Rightarrow> (string, string) hmap \<Rightarrow> string + child"
  pe_pid :: "child \<Rightarrow> u32 option"

record process_manager =
  pm_processes :: "(string, managed_process) hmap"
  pm_port_allocator :: port_allocator
  pm_ended :: "child list" \<comment> \<open>children that were killed or let go\<close>

definition pm_new :: "process_manager_config \<Rightarrow> process_manager" where
  "pm_new cfg =
     \<lparr>pm_processes = [], pm_port_allocator = pa_new (pc_port_range_start cfg) (pc_port_range_end cfg), pm_ended = []\<rparr>"

definition or_insert :: "string \<Rightarrow> string option \<Rightarrow> (string, string) hmap \<Rightarrow> (string, string) hmap" where
  "or_insert k v m = (case v of Some x \<Rightarrow> if hm_get m k = None then hm_insert k x m else m | None \<Rightarrow> m)"

definition command_env :: "process_env \<Rightarrow> u16 \<Rightarrow> (string, string) hmap \<Rightarrow> (string, string) hmap" where
  "command_env P port env =
     (let port_str = show_nat (unat port);
          m1 = hm_insert ''NODE_ENV'' ''production'' (hm_insert ''HOST'' ''127.0.0.1'' (hm_insert ''PORT'' port_str env));
          m2 = hm_map_values (\<lambda>v. if str_contains v ''{PORT}'' then str_replace ''{PORT}'' port_str v else v) m1
      in or_insert ''HOME'' (pe_home P) (or_insert ''PATH'' (pe_path P) m2))"

text \<open>The checks between the allocation of the port and the start; \<open>?\<close> and \<open>return Err\<close> leave the port allocated.\<close>

definition start_child :: "process_env \<Rightarrow> u16 \<Rightarrow> string \<Rightarrow> string list \<Rightarrow> (string, string) hmap \<Rightarrow> string + child" where
  "start_child P port working_dir start_cmd env =
     (case start_cmd of
        [] \<Rightarrow> Inl ''Empty start command''
      | program # args \<Rightarrow>
          (let binary_name = (case path_file_name program of Some n \<Rightarrow> n | None \<Rightarrow> program) in
           if binary_name \<notin> set ALLOWED_PROCESS_BINARIES then
             Inl (''Binary '' @ [CHR 0x27] @ program @ [CHR 0x27] @ '' not allowed. Allowed: '' @
               join_with '', '' ALLOWED_PROCESS_BINARIES)
           else
             (case pe_canonicalize P working_dir of
                Inl e \<Rightarrow> Inl (''Invalid working dir: '' @ e)
              | Inr canonical \<Rightarrow>
                  if str_contains canonical ''..'' then Inl ''Working directory contains path traversal''
                  else map_err (\<lambda>e. ''Failed to spawn '' @ program @ '': '' @ e)
                    (pe_spawn P program args working_dir (command_env P port env)))))"

text \<open>A process that is inserted under the identifier of another one drops it, which kills its child.\<close>

definition insert_process :: "managed_process \<Rightarrow> process_manager \<Rightarrow> process_manager" where
  "insert_process p s =
     s\<lparr>pm_processes := hm_insert (mp_cid p) p (pm_processes s),
       pm_ended := (case hm_get (pm_processes s) (mp_cid p) of None \<Rightarrow> pm_ended s | Some q \<Rightarrow> pm_ended s @ [mp_child q])\<rparr>"

definition spawn_begin ::
    "process_manager_config \<Rightarrow> process_env \<Rightarrow> instant \<Rightarrow> string \<Rightarrow> string \<Rightarrow> string list \<Rightarrow> (string, string) hmap \<Rightarrow>
     process_manager \<Rightarrow> (string + u16) \<times> process_manager" where
  "spawn_begin cfg P now cid working_dir start_cmd env s =
     (if pc_max_processes cfg \<le> length (pm_processes s) then (Inl ''Maximum number of dynamic processes reached'', s)
      else
        (case pa_allocate (pm_port_allocator s) of
           (None, _) \<Rightarrow> (Inl ''No available ports'', s)
         | (Some port, alloc) \<Rightarrow>
             (let s1 = s\<lparr>pm_port_allocator := alloc\<rparr> in
              case start_child P port working_dir start_cmd env of
                Inl e \<Rightarrow> (Inl e, s1)
              | Inr c \<Rightarrow>
                  (Inr port, insert_process
                     \<lparr>mp_cid = cid, mp_port = port, mp_child = c, mp_started_at = now, mp_restart_count = 0,
                      mp_health = HEALTH_STARTING, mp_working_dir = working_dir, mp_start_command = start_cmd,
                      mp_env = env, mp_consecutive_failures = 0\<rparr> s1))))"

section \<open>Stopping a process\<close>

definition release_port :: "u16 \<Rightarrow> process_manager \<Rightarrow> process_manager" where
  "release_port port s = s\<lparr>pm_port_allocator := pa_release port (pm_port_allocator s)\<rparr>"

text \<open>The process leaves the map; its child is told to end, and dies when it is let go; then the port is free.\<close>

definition stop_begin :: "string \<Rightarrow> process_manager \<Rightarrow> (string + managed_process) \<times> process_manager" where
  "stop_begin cid s =
     (case hm_get (pm_processes s) cid of
        None \<Rightarrow> (Inl ''Process not found'', s)
      | Some p \<Rightarrow> (Inr p, s\<lparr>pm_processes := hm_remove cid (pm_processes s)\<rparr>))"

definition stop_end :: "managed_process \<Rightarrow> process_manager \<Rightarrow> process_manager" where
  "stop_end p s = release_port (mp_port p) (s\<lparr>pm_ended := pm_ended s @ [mp_child p]\<rparr>)"

text \<open>The wait of at most ten seconds in between: what \<open>try_wait\<close> answers, and when. \<open>Some True\<close> is a forced kill.\<close>

datatype wait_answer = Exited | StillRunning | WaitFailed

fun wait_exit :: "instant \<Rightarrow> (instant \<times> wait_answer) list \<Rightarrow> bool option" where
  "wait_exit deadline [] = None"
| "wait_exit deadline ((now, a) # rest) =
     (case a of
        Exited \<Rightarrow> Some False
      | WaitFailed \<Rightarrow> Some False
      | StillRunning \<Rightarrow> if now > deadline then Some True else wait_exit deadline rest)"

definition stop_process ::
    "instant \<Rightarrow> (instant \<times> wait_answer) list \<Rightarrow> string \<Rightarrow> process_manager \<Rightarrow> ((string + unit) \<times> process_manager) option" where
  "stop_process now waits cid s =
     (case stop_begin cid s of
        (Inl e, s') \<Rightarrow> Some (Inl e, s')
      | (Inr p, s') \<Rightarrow>
          (case wait_exit (now + from_secs 10) waits of
             None \<Rightarrow> None
           | Some _ \<Rightarrow> Some (Inr (), stop_end p s')))"

section \<open>Waiting for a start\<close>

text \<open>What one round of the loop sees: the time, whether a port accepts a connection, whether a child has exited.\<close>

record probe =
  pr_now :: instant
  pr_connects :: "u16 \<Rightarrow> bool"
  pr_exited :: "child \<Rightarrow> bool"

datatype probe_result = TimedOut | Started | ExitedEarly | KeepWaiting

definition set_health :: "u8 \<Rightarrow> string \<Rightarrow> process_manager \<Rightarrow> process_manager" where
  "set_health h cid s = s\<lparr>pm_processes := hm_modify cid (\<lambda>p. p\<lparr>mp_health := h\<rparr>) (pm_processes s)\<rparr>"

text \<open>One round for the process \<open>cid\<close> and the port it was given. On a timeout the caller stops the process. The
  process that has exited is the one that is under the identifier now, the port the one of this start.\<close>

definition startup_probe ::
    "instant \<Rightarrow> string \<Rightarrow> u16 \<Rightarrow> probe \<Rightarrow> process_manager \<Rightarrow> probe_result \<times> process_manager" where
  "startup_probe deadline cid port pr s =
     (if pr_now pr > deadline then (TimedOut, s)
      else if pr_connects pr port then (Started, set_health HEALTH_HEALTHY cid s)
      else
        (case hm_get (pm_processes s) cid of
           None \<Rightarrow> (KeepWaiting, s)
         | Some p \<Rightarrow>
             if pr_exited pr (mp_child p) then
               (ExitedEarly, (release_port port s)
                  \<lparr>pm_processes := hm_remove cid (pm_processes s), pm_ended := pm_ended s @ [mp_child p]\<rparr>)
             else (KeepWaiting, s)))"

fun startup_loop ::
    "instant \<Rightarrow> string \<Rightarrow> u16 \<Rightarrow> (instant \<times> wait_answer) list \<Rightarrow> probe list \<Rightarrow> process_manager \<Rightarrow>
     ((string + u16) \<times> process_manager) option" where
  "startup_loop deadline cid port waits [] s = None"
| "startup_loop deadline cid port waits (pr # prs) s =
     (case startup_probe deadline cid port pr s of
        (TimedOut, s') \<Rightarrow>
          map_option (\<lambda>(_, s''). (Inl ''Process failed to start within timeout'', s''))
            (stop_process (pr_now pr) waits cid s')
      | (Started, s') \<Rightarrow> Some (Inr port, s')
      | (ExitedEarly, s') \<Rightarrow> Some (Inl ''Process exited during startup'', s')
      | (KeepWaiting, s') \<Rightarrow> startup_loop deadline cid port waits prs s')"

definition spawn_process ::
    "process_manager_config \<Rightarrow> process_env \<Rightarrow> instant \<Rightarrow> probe list \<Rightarrow> (instant \<times> wait_answer) list \<Rightarrow> string \<Rightarrow> string \<Rightarrow>
     string list \<Rightarrow> (string, string) hmap \<Rightarrow> process_manager \<Rightarrow> ((string + u16) \<times> process_manager) option" where
  "spawn_process cfg P now probes waits cid working_dir start_cmd env s =
     (case spawn_begin cfg P now cid working_dir start_cmd env s of
        (Inl e, s') \<Rightarrow> Some (Inl e, s')
      | (Inr port, s') \<Rightarrow> startup_loop (now + pc_startup_timeout cfg) cid port waits probes s')"

section \<open>Queries and restarts\<close>

definition get_port :: "process_manager \<Rightarrow> string \<Rightarrow> u16 option" where
  "get_port s cid =
     (case hm_get (pm_processes s) cid of
        None \<Rightarrow> None
      | Some p \<Rightarrow> if mp_health p = HEALTH_HEALTHY then Some (mp_port p) else None)"

record process_status =
  st_cid :: string
  st_port :: u16
  st_pid :: u32
  st_health :: string
  st_uptime_seconds :: nat
  st_restart_count :: u32
  st_memory_mb :: "u64 option"

definition process_pid :: "process_env \<Rightarrow> managed_process \<Rightarrow> u32" where
  "process_pid P p = (case pe_pid P (mp_child p) of None \<Rightarrow> 0 | Some n \<Rightarrow> n)"

text \<open>Linux: the resident pages of \<open>/proc/<pid>/statm\<close>, when the file can be read and has a second number.\<close>

definition read_process_memory :: "(u32 \<Rightarrow> u64 option) \<Rightarrow> u32 \<Rightarrow> u64 option" where
  "read_process_memory rss_pages pid =
     (if pid = 0 then None else map_option (\<lambda>n. n * 4096 div (1024 * 1024)) (rss_pages pid))"

definition get_status ::
    "process_env \<Rightarrow> (u32 \<Rightarrow> u64 option) \<Rightarrow> instant \<Rightarrow> process_manager \<Rightarrow> string \<Rightarrow> process_status option" where
  "get_status P rss_pages now s cid =
     map_option (\<lambda>p. \<lparr>st_cid = mp_cid p, st_port = mp_port p, st_pid = process_pid P p,
        st_health = health_str (mp_health p), st_uptime_seconds = as_secs (elapsed now (mp_started_at p)),
        st_restart_count = mp_restart_count p, st_memory_mb = read_process_memory rss_pages (process_pid P p)\<rparr>)
       (hm_get (pm_processes s) cid)"

text \<open>What a restart meets: when it stops, what it sees until the child is gone, when it starts, what it sees then.\<close>

record restart_env =
  re_stop_at :: instant
  re_waits :: "(instant \<times> wait_answer) list"
  re_start_at :: instant
  re_probes :: "probe list"
  re_waits_again :: "(instant \<times> wait_answer) list"

definition restart_process ::
    "process_manager_config \<Rightarrow> process_env \<Rightarrow> restart_env \<Rightarrow> string \<Rightarrow> process_manager \<Rightarrow>
     ((string + u16) \<times> process_manager) option" where
  "restart_process cfg P R cid s =
     (case hm_get (pm_processes s) cid of
        None \<Rightarrow> Some (Inl ''Process not found'', s)
      | Some p \<Rightarrow>
          (case stop_process (re_stop_at R) (re_waits R) cid s of
             None \<Rightarrow> None
           | Some (Inl e, s1) \<Rightarrow> Some (Inl e, s1)
           | Some (Inr _, s1) \<Rightarrow>
               (case spawn_process cfg P (re_start_at R) (re_probes R) (re_waits_again R) cid (mp_working_dir p)
                       (mp_start_command p) (mp_env p) s1 of
                  None \<Rightarrow> None
                | Some (Inl e, s2) \<Rightarrow> Some (Inl e, s2)
                | Some (Inr port, s2) \<Rightarrow>
                    Some (Inr port, s2\<lparr>pm_processes := hm_modify cid
                      (\<lambda>q. q\<lparr>mp_restart_count := mp_restart_count p + 1\<rparr>) (pm_processes s2)\<rparr>))))"

section \<open>The health loop\<close>

text \<open>One check of one process. The three locks are tried, not waited for.\<close>

record health_env =
  he_first_lock :: bool
  he_memory_lock :: bool
  he_update_lock :: bool
  he_connects :: "u16 \<Rightarrow> bool"
  he_rss_pages :: "u32 \<Rightarrow> u64 option"
  he_restart :: restart_env

definition over_memory :: "process_manager_config \<Rightarrow> process_env \<Rightarrow> health_env \<Rightarrow> managed_process \<Rightarrow> bool" where
  "over_memory cfg P H p \<longleftrightarrow> 0 < pc_memory_limit_mb cfg \<and> he_memory_lock H \<and>
     (case read_process_memory (he_rss_pages H) (process_pid P p) of
        None \<Rightarrow> False | Some mem_mb \<Rightarrow> mem_mb > pc_memory_limit_mb cfg)"

definition after_failure :: "managed_process \<Rightarrow> managed_process" where
  "after_failure p =
     (let p1 = p\<lparr>mp_consecutive_failures := mp_consecutive_failures p + 1\<rparr>
      in if 3 \<le> mp_consecutive_failures p1 then p1\<lparr>mp_health := HEALTH_UNHEALTHY\<rparr> else p1)"

definition should_restart :: "process_manager_config \<Rightarrow> managed_process \<Rightarrow> bool" where
  "should_restart cfg p \<longleftrightarrow> 5 \<le> mp_consecutive_failures p \<and> mp_restart_count p < pc_max_restart_count cfg"

definition health_check ::
    "process_manager_config \<Rightarrow> process_env \<Rightarrow> health_env \<Rightarrow> string \<Rightarrow> process_manager \<Rightarrow> process_manager option" where
  "health_check cfg P H cid s =
     (case hm_get (pm_processes s) cid of
        None \<Rightarrow> Some s
      | Some p \<Rightarrow>
          if \<not> he_first_lock H \<or> mp_health p = HEALTH_STOPPED \<or> mp_health p = HEALTH_STARTING then Some s
          else if he_connects H (mp_port p) then
            (if over_memory cfg P H p then
               map_option snd (stop_process (re_stop_at (he_restart H)) (re_waits (he_restart H)) cid s)
             else if he_update_lock H then
               Some (s\<lparr>pm_processes := hm_insert cid (p\<lparr>mp_health := HEALTH_HEALTHY, mp_consecutive_failures := 0\<rparr>)
                 (pm_processes s)\<rparr>)
             else Some s)
          else if \<not> he_update_lock H then Some s
          else
            (let s1 = s\<lparr>pm_processes := hm_insert cid (after_failure p) (pm_processes s)\<rparr>
             in if should_restart cfg (after_failure p) then map_option snd (restart_process cfg P (he_restart H) cid s1)
                else Some s1))"

text \<open>A round goes over the identifiers that were in the map when it began.\<close>

fun health_round ::
    "process_manager_config \<Rightarrow> process_env \<Rightarrow> (string \<Rightarrow> health_env) \<Rightarrow> string list \<Rightarrow> process_manager \<Rightarrow> process_manager option" where
  "health_round cfg P H [] s = Some s"
| "health_round cfg P H (cid # cids) s =
     Option.bind (health_check cfg P (H cid) cid s) (health_round cfg P H cids)"

definition health_tick ::
    "process_manager_config \<Rightarrow> process_env \<Rightarrow> (string \<Rightarrow> health_env) \<Rightarrow> process_manager \<Rightarrow> process_manager option" where
  "health_tick cfg P H s = health_round cfg P H (map fst (pm_processes s)) s"

fun shutdown_loop :: "(string \<Rightarrow> instant \<times> (instant \<times> wait_answer) list) \<Rightarrow> string list \<Rightarrow> process_manager \<Rightarrow> process_manager option" where
  "shutdown_loop W [] s = Some s"
| "shutdown_loop W (cid # cids) s =
     (case stop_process (fst (W cid)) (snd (W cid)) cid s of
        None \<Rightarrow> None
      | Some (_, s') \<Rightarrow> shutdown_loop W cids s')"

definition shutdown_all :: "(string \<Rightarrow> instant \<times> (instant \<times> wait_answer) list) \<Rightarrow> process_manager \<Rightarrow> process_manager option" where
  "shutdown_all W s = shutdown_loop W (map fst (pm_processes s)) s"

section \<open>Lemmas on ports\<close>

lemma first_free_Some: "first_free bs = Some i \<Longrightarrow> i < length bs \<and> \<not> bs ! i \<and> (\<forall>j < i. bs ! j)"
  by (induction bs arbitrary: i) (auto simp: less_Suc_eq_0_disj split: if_splits)

lemma first_free_None: "first_free bs = None \<longleftrightarrow> list_all id bs"
  by (induction bs) auto

definition pa_ok :: "port_allocator \<Rightarrow> bool" where
  "pa_ok a \<longleftrightarrow> length (pa_allocated a) = unat (pa_count a) \<and> unat (pa_base a) + unat (pa_count a) \<le> 2 ^ 16"

text \<open>The slot of a port of the range, and the port of a slot.\<close>

definition in_range :: "port_allocator \<Rightarrow> u16 \<Rightarrow> bool" where
  "in_range a port \<longleftrightarrow> pa_base a \<le> port \<and> unat (port - pa_base a) < length (pa_allocated a)"

definition taken :: "port_allocator \<Rightarrow> u16 \<Rightarrow> bool" where
  "taken a port \<longleftrightarrow> in_range a port \<and> pa_allocated a ! unat (port - pa_base a)"

lemma pa_new_ok: "pa_ok (pa_new start stop)"
proof -
  have "unat start < 2 ^ LENGTH(16)" "unat stop < 2 ^ LENGTH(16)"
    by (rule unsigned_less)+
  then show ?thesis
    by (simp add: pa_ok_def pa_new_def Let_def unat_sat_add unat_sat_sub)
qed

end
