(* ===== verification/ProcessSafety.thy ===== *)
theory ProcessSafety
  imports ProcessManager
begin

text \<open>
  What the process manager keeps: the ports of the running processes, in calls that do not overlap and in steps that
  do, and what failed starts cost.
\<close>

section \<open>The port allocator as a set of ports\<close>

lemma in_range_slot:
  assumes "pa_ok a" "i < length (pa_allocated a)"
  shows "pa_base a \<le> pa_base a + word_of_nat i" and "unat (pa_base a + word_of_nat i - pa_base a) = i"
proof -
  have small: "unat (pa_base a) + i < 2 ^ 16"
    using assms by (simp add: pa_ok_def)
  then have i: "unat (word_of_nat i :: u16) = i"
    by (simp add: unsigned_of_nat take_bit_nat_eq_self)
  have "unat (pa_base a + word_of_nat i) = unat (pa_base a) + i"
    using small by (simp add: unat_word_ariths i)
  then show "pa_base a \<le> pa_base a + word_of_nat i"
    by (simp add: word_le_nat_alt)
  show "unat (pa_base a + word_of_nat i - pa_base a) = i"
    by (simp add: i)
qed

lemma slot_inj: "in_range a p \<Longrightarrow> in_range a q \<Longrightarrow> unat (p - pa_base a) = unat (q - pa_base a) \<Longrightarrow> p = q"
  by (metis diff_add_cancel word_unat_eq_iff)

lemma pa_allocate_taken:
  assumes "pa_ok a" "pa_allocate a = (Some port, a')"
  shows "pa_ok a'" "\<not> taken a port" "taken a' q \<longleftrightarrow> taken a q \<or> q = port"
proof -
  obtain i where i: "first_free (pa_allocated a) = Some i" "port = pa_base a + word_of_nat i"
      "a' = a\<lparr>pa_allocated := (pa_allocated a)[i := True]\<rparr>"
    using assms(2) by (auto simp: pa_allocate_def split: option.splits)
  have free: "i < length (pa_allocated a)" "\<not> pa_allocated a ! i"
    using first_free_Some [OF i(1)] by auto
  note slot = in_range_slot [OF assms(1) free(1), folded i(2)]
  show "pa_ok a'"
    using assms(1) by (simp add: pa_ok_def i)
  show "\<not> taken a port"
    using slot free by (simp add: taken_def)
  have port: "in_range a port"
    using slot free by (simp add: in_range_def)
  have range: "in_range a' q \<longleftrightarrow> in_range a q"
    by (simp add: in_range_def i)
  show "taken a' q \<longleftrightarrow> taken a q \<or> q = port"
    using slot free slot_inj [OF port, of q] port
    by (auto simp: taken_def range nth_list_update in_range_def i(3))
qed

lemma pa_release_taken:
  assumes "pa_ok a"
  shows "pa_ok (pa_release port a)" "taken (pa_release port a) q \<longleftrightarrow> taken a q \<and> q \<noteq> port"
proof -
  show "pa_ok (pa_release port a)"
    using assms by (simp add: pa_ok_def pa_release_def Let_def)
  have "in_range (pa_release port a) q \<longleftrightarrow> in_range a q"
    by (simp add: in_range_def pa_release_def Let_def)
  then show "taken (pa_release port a) q \<longleftrightarrow> taken a q \<and> q \<noteq> port"
    using slot_inj [of a q port]
    by (auto simp: taken_def pa_release_def Let_def nth_list_update in_range_def)
qed

section \<open>Calls one after the other\<close>

text \<open>Every process is under its own identifier, its port is taken, and no two processes have the same port.\<close>

definition pm_ok :: "process_manager \<Rightarrow> bool" where
  "pm_ok s \<longleftrightarrow> hm_wf (pm_processes s) \<and> pa_ok (pm_port_allocator s) \<and>
     (\<forall>c p. hm_get (pm_processes s) c = Some p \<longrightarrow> mp_cid p = c \<and> taken (pm_port_allocator s) (mp_port p)) \<and>
     (\<forall>c p d q. hm_get (pm_processes s) c = Some p \<and> hm_get (pm_processes s) d = Some q \<and> mp_port p = mp_port q \<longrightarrow> c = d)"

lemma pm_new_ok: "pm_ok (pm_new cfg)"
  by (simp add: pm_ok_def pm_new_def pa_new_ok)

text \<open>A process whose identifier, port and child stay, and everything else may change.\<close>

lemma pm_ok_update:
  assumes "pm_ok s" "hm_get (pm_processes s) cid = Some p" "mp_cid p' = mp_cid p" "mp_port p' = mp_port p"
  shows "pm_ok (s\<lparr>pm_processes := hm_insert cid p' (pm_processes s)\<rparr>)"
  using assms unfolding pm_ok_def by (auto simp: hm_get_insert split: if_splits)

lemma pm_ok_modify:
  assumes "pm_ok s" "\<And>p. mp_cid (f p) = mp_cid p" "\<And>p. mp_port (f p) = mp_port p"
  shows "pm_ok (s\<lparr>pm_processes := hm_modify cid f (pm_processes s)\<rparr>)"
  using assms unfolding pm_ok_def by (auto split: if_splits option.splits)

text \<open>A process that leaves the map with its port, and one that leaves without.\<close>

lemma pm_ok_remove:
  assumes "pm_ok s" "hm_get (pm_processes s) cid = Some p" "pm_processes s' = hm_remove cid (pm_processes s)"
    "pm_port_allocator s' = pa_release (mp_port p) (pm_port_allocator s)"
  shows "pm_ok s'"
proof -
  have "pa_ok (pm_port_allocator s)"
    using assms by (simp add: pm_ok_def)
  note release = pa_release_taken [OF this]
  show ?thesis
    using assms unfolding pm_ok_def by (auto simp: release split: if_splits)
qed

lemma pm_ok_insert:
  assumes "pm_ok s" "pa_allocate (pm_port_allocator s) = (Some (mp_port p), pm_port_allocator s')"
    "pm_processes s' = hm_insert (mp_cid p) p (pm_processes s)"
  shows "pm_ok s'"
proof -
  have "pa_ok (pm_port_allocator s)"
    using assms by (simp add: pm_ok_def)
  note alloc = pa_allocate_taken [OF this assms(2)]
  show ?thesis
    using assms(1,3) alloc unfolding pm_ok_def by (auto split: if_splits) metis+
qed

lemma pm_ok_alloc:
  assumes "pm_ok s" "pa_allocate (pm_port_allocator s) = (Some port, a)"
  shows "pm_ok (s\<lparr>pm_port_allocator := a\<rparr>)"
proof -
  have "pa_ok (pm_port_allocator s)"
    using assms by (simp add: pm_ok_def)
  then show ?thesis
    using assms pa_allocate_taken [OF _ assms(2)] unfolding pm_ok_def by auto
qed

lemma stop_end_ok:
  assumes "pm_ok s" "hm_get (pm_processes s) cid = Some p"
  shows "pm_ok (stop_end p (s\<lparr>pm_processes := hm_remove cid (pm_processes s)\<rparr>))"
  by (rule pm_ok_remove [OF assms]) (simp_all add: stop_end_def release_port_def)

lemma stop_process_ok: "stop_process now waits cid s = Some (r, s') \<Longrightarrow> pm_ok s \<Longrightarrow> pm_ok s'"
  by (auto simp: stop_process_def stop_begin_def split: option.splits dest: stop_end_ok)

lemma startup_loop_ok:
  "startup_loop deadline cid port waits prs s = Some (r, s') \<Longrightarrow> pm_ok s \<Longrightarrow>
   (\<And>p. hm_get (pm_processes s) cid = Some p \<Longrightarrow> mp_port p = port) \<Longrightarrow> pm_ok s'"
proof (induction prs arbitrary: s)
  case (Cons pr prs)
  have gone: "pm_ok ((release_port port s)\<lparr>pm_processes := hm_remove cid (pm_processes s), pm_ended := pm_ended s @ [mp_child p]\<rparr>)"
    if "hm_get (pm_processes s) cid = Some p" for p
    by (rule pm_ok_remove [OF Cons.prems(2) that]) (simp_all add: release_port_def Cons.prems(3) [OF that])
  have started: "pm_ok (set_health HEALTH_HEALTHY cid s)"
    unfolding set_health_def by (rule pm_ok_modify [OF Cons.prems(2)]) simp_all
  show ?case
    using Cons.prems Cons.IH [of s] gone started
    by (auto simp: startup_probe_def split: if_splits option.splits probe_result.splits dest: stop_process_ok)
qed simp

lemma spawn_begin_Inr:
  assumes "spawn_begin cfg P now cid dir cmd env s = (Inr port, s')"
  obtains p where "pa_allocate (pm_port_allocator s) = (Some port, pm_port_allocator s')"
    "pm_processes s' = hm_insert cid p (pm_processes s)" "mp_cid p = cid" "mp_port p = port" "mp_health p = HEALTH_STARTING"
  using assms
  by (fastforce simp: spawn_begin_def Let_def insert_process_def split: if_splits prod.splits option.splits sum.splits)

lemma spawn_begin_ok:
  assumes "spawn_begin cfg P now cid dir cmd env s = (r, s')" "pm_ok s"
  shows "pm_ok s'"
proof (cases r)
  case (Inl e)
  then show ?thesis
    using assms pm_ok_alloc [OF assms(2)]
    by (auto simp: spawn_begin_def Let_def split: if_splits prod.splits option.splits sum.splits)
next
  case (Inr port)
  then show ?thesis
    using assms by (metis spawn_begin_Inr pm_ok_insert)
qed

lemma spawn_process_ok:
  assumes "spawn_process cfg P now prs waits cid dir cmd env s = Some (r, s')" "pm_ok s"
  shows "pm_ok s'"
proof -
  obtain r1 s1 where begun: "spawn_begin cfg P now cid dir cmd env s = (r1, s1)"
    by fastforce
  note ok = spawn_begin_ok [OF begun assms(2)]
  show ?thesis
  proof (cases r1)
    case (Inl e)
    then show ?thesis
      using assms(1) begun ok by (simp add: spawn_process_def)
  next
    case (Inr port)
    then have "\<And>p. hm_get (pm_processes s1) cid = Some p \<Longrightarrow> mp_port p = port"
      using begun by (auto elim!: spawn_begin_Inr)
    then show ?thesis
      using assms(1) begun Inr startup_loop_ok [OF _ ok] by (simp add: spawn_process_def)
  qed
qed

lemma restart_process_ok: "restart_process cfg P R cid s = Some (r, s') \<Longrightarrow> pm_ok s \<Longrightarrow> pm_ok s'"
  by (auto simp: restart_process_def split: option.splits sum.splits prod.splits
      dest!: stop_process_ok spawn_process_ok intro!: pm_ok_modify)

lemma health_check_ok: "health_check cfg P H cid s = Some s' \<Longrightarrow> pm_ok s \<Longrightarrow> pm_ok s'"
  by (auto simp: health_check_def Let_def after_failure_def split: option.splits if_splits
      dest!: stop_process_ok restart_process_ok intro!: pm_ok_update)

lemma health_round_ok: "health_round cfg P H cids s = Some s' \<Longrightarrow> pm_ok s \<Longrightarrow> pm_ok s'"
  by (induction cids arbitrary: s) (auto simp: bind_eq_Some_conv dest: health_check_ok)

lemma shutdown_loop_ok: "shutdown_loop W cids s = Some s' \<Longrightarrow> pm_ok s \<Longrightarrow> pm_ok s'"
  by (induction cids arbitrary: s) (auto split: option.splits dest: stop_process_ok)

section \<open>Calls as a machine\<close>

text \<open>Calls that do not overlap: each one with what it meets of the operating system. A run whose observations end
  before its loops do has no result.\<close>

datatype process_call =
    SpawnCall process_env instant "probe list" "(instant \<times> wait_answer) list" string string "string list" "(string, string) hmap"
  | StopCall instant "(instant \<times> wait_answer) list" string
  | RestartCall process_env restart_env string
  | HealthTick process_env "string \<Rightarrow> health_env"
  | ShutdownAll "string \<Rightarrow> instant \<times> (instant \<times> wait_answer) list"

fun process_step :: "process_manager_config \<Rightarrow> process_call \<Rightarrow> process_manager \<Rightarrow> process_manager option" where
  "process_step cfg (SpawnCall P now prs waits cid dir cmd env) s = map_option snd (spawn_process cfg P now prs waits cid dir cmd env s)"
| "process_step cfg (StopCall now waits cid) s = map_option snd (stop_process now waits cid s)"
| "process_step cfg (RestartCall P R cid) s = map_option snd (restart_process cfg P R cid s)"
| "process_step cfg (HealthTick P H) s = health_tick cfg P H s"
| "process_step cfg (ShutdownAll W) s = shutdown_all W s"

fun process_run :: "process_manager_config \<Rightarrow> process_call list \<Rightarrow> process_manager \<Rightarrow> process_manager option" where
  "process_run cfg [] s = Some s"
| "process_run cfg (c # cs) s = Option.bind (process_step cfg c s) (process_run cfg cs)"

lemma process_step_ok: "process_step cfg c s = Some s' \<Longrightarrow> pm_ok s \<Longrightarrow> pm_ok s'"
  by (cases c) (auto simp: health_tick_def shutdown_all_def
      dest: spawn_process_ok stop_process_ok restart_process_ok health_round_ok shutdown_loop_ok)

lemma process_run_ok: "process_run cfg cs s = Some s' \<Longrightarrow> pm_ok s \<Longrightarrow> pm_ok s'"
  by (induction cs arbitrary: s) (auto simp: bind_eq_Some_conv dest: process_step_ok)

lemma process_run_append: "process_run cfg (cs @ ds) s = Option.bind (process_run cfg cs s) (process_run cfg ds)"
  by (induction cs arbitrary: s) (auto split: Option.bind_splits)

text \<open>C33. Calls one after the other never share a port: after every run from a new manager the port that a request
  for a deployment is sent to is held by the allocator, is the port of a healthy process under that identifier, and is
  sent to for no other deployment.\<close>

theorem ports_exclusive:
  assumes "process_run cfg calls (pm_new cfg) = Some s" "get_port s cid = Some port"
  shows "taken (pm_port_allocator s) port \<and>
    (\<exists>p. hm_get (pm_processes s) cid = Some p \<and> mp_cid p = cid \<and> mp_port p = port \<and> mp_health p = HEALTH_HEALTHY) \<and>
    (get_port s cid' = Some port \<longrightarrow> cid' = cid)"
  using process_run_ok [OF assms(1) pm_new_ok] assms(2)
  unfolding pm_ok_def by (auto simp: get_port_def split: option.splits if_splits)

section \<open>What failed starts cost\<close>

text \<open>A start that is refused after its port was allocated.\<close>

lemma refused_start:
  assumes "length (pm_processes s) < pc_max_processes cfg" "\<And>port. \<exists>e. start_child P port dir cmd env = Inl e"
  shows "\<exists>r. spawn_process cfg P now prs waits cid dir cmd env s =
    Some (Inl r, s\<lparr>pm_port_allocator := snd (pa_allocate (pm_port_allocator s))\<rparr>)"
proof (cases "pa_allocate (pm_port_allocator s)")
  case (Pair p a)
  show ?thesis
  proof (cases p)
    case None
    then have "a = pm_port_allocator s"
      using Pair by (auto simp: pa_allocate_def split: option.splits)
    then show ?thesis
      using Pair None assms(1) by (simp add: spawn_process_def spawn_begin_def)
  next
    case (Some port)
    obtain e where "start_child P port dir cmd env = Inl e"
      using assms(2) by blast
    then show ?thesis
      using Pair Some assms(1) by (simp add: spawn_process_def spawn_begin_def Let_def)
  qed
qed

text \<open>The free slots of an allocator.\<close>

definition free_ports :: "port_allocator \<Rightarrow> nat" where
  "free_ports a = length (filter Not (pa_allocated a))"

lemma free_slots_update: "first_free bs = Some i \<Longrightarrow> Suc (length (filter Not (bs[i := True]))) = length (filter Not bs)"
  by (induction bs arbitrary: i) (auto split: if_splits)

lemma free_ports_allocate: "free_ports (snd (pa_allocate a)) = free_ports a - 1"
proof (cases "first_free (pa_allocated a)")
  case None
  then have "filter Not (pa_allocated a) = []"
    by (auto simp: first_free_None list_all_iff filter_empty_conv)
  then show ?thesis
    using None by (simp add: free_ports_def pa_allocate_def)
next
  case (Some i)
  then show ?thesis
    using free_slots_update [OF Some] by (simp add: free_ports_def pa_allocate_def)
qed

lemma no_free_port: "free_ports a = 0 \<Longrightarrow> pa_allocate a = (None, a)"
proof -
  assume "free_ports a = 0"
  then have "first_free (pa_allocated a) = None"
    by (auto simp: free_ports_def first_free_None list_all_iff filter_empty_conv)
  then show ?thesis
    by (simp add: pa_allocate_def)
qed

text \<open>A manager that runs nothing and has no port left: no call changes it.\<close>

definition starved :: "process_manager \<Rightarrow> bool" where
  "starved s \<longleftrightarrow> pm_processes s = [] \<and> free_ports (pm_port_allocator s) = 0"

lemma starved_spawn:
  "starved s \<Longrightarrow> 0 < pc_max_processes cfg \<Longrightarrow>
   spawn_process cfg P now prs waits cid dir cmd env s = Some (Inl ''No available ports'', s)"
  by (simp add: starved_def spawn_process_def spawn_begin_def no_free_port)

lemma starved_step: "starved s \<Longrightarrow> 0 < pc_max_processes cfg \<Longrightarrow> process_step cfg c s = Some s"
  by (cases c) (auto simp: starved_spawn stop_process_def stop_begin_def restart_process_def health_tick_def shutdown_all_def starved_def)

lemma starved_run: "starved s \<Longrightarrow> 0 < pc_max_processes cfg \<Longrightarrow> process_run cfg cs s = Some s"
  by (induction cs) (simp_all add: starved_step)

text \<open>A call that starts a command the operating system or the allow list refuses, whatever the port.\<close>

fun refused_call :: "process_call \<Rightarrow> bool" where
  "refused_call (SpawnCall P now prs waits cid dir cmd env) \<longleftrightarrow> (\<forall>port. \<exists>e. start_child P port dir cmd env = Inl e)"
| "refused_call _ \<longleftrightarrow> False"

lemma refused_run:
  assumes "\<forall>c \<in> set cs. refused_call c" "pm_processes s = []" "0 < pc_max_processes cfg"
  shows "\<exists>s'. process_run cfg cs s = Some s' \<and> pm_processes s' = [] \<and>
    free_ports (pm_port_allocator s') = free_ports (pm_port_allocator s) - length cs"
  using assms(1,2)
proof (induction cs arbitrary: s)
  case (Cons c cs)
  from Cons.prems obtain P now prs waits cid dir cmd env where
      c: "c = SpawnCall P now prs waits cid dir cmd env" "\<And>port. \<exists>e. start_child P port dir cmd env = Inl e"
    by (cases c) auto
  define s1 where "s1 = s\<lparr>pm_port_allocator := snd (pa_allocate (pm_port_allocator s))\<rparr>"
  have "process_step cfg c s = Some s1"
    using refused_start [of s cfg P dir cmd env now prs waits cid] c Cons.prems assms(3) by (auto simp: s1_def)
  moreover have "pm_processes s1 = []" "free_ports (pm_port_allocator s1) = free_ports (pm_port_allocator s) - 1"
    using Cons.prems by (simp_all add: s1_def free_ports_allocate)
  ultimately show ?case
    using Cons.IH [of s1] Cons.prems by auto
qed simp

lemma free_ports_new: "free_ports (pa_new start stop) = unat (pa_count (pa_new start stop))"
  by (simp add: free_ports_def pa_new_def Let_def)

text \<open>A start that fails after its port was allocated keeps the port: once as many starts as there are ports have
  been refused, and nothing runs, every later start of any command answers that no port is available, whatever calls
  come in between.\<close>

theorem refused_starts_take_all_ports:
  assumes "\<forall>c \<in> set refused. refused_call c" "unat (pa_count (pa_new (pc_port_range_start cfg) (pc_port_range_end cfg))) \<le> length refused"
    "0 < pc_max_processes cfg"
  shows "\<exists>s. process_run cfg (refused @ later) (pm_new cfg) = Some s \<and> pm_processes s = [] \<and>
    spawn_process cfg P now prs waits cid dir cmd env s = Some (Inl ''No available ports'', s)"
proof -
  obtain s where s: "process_run cfg refused (pm_new cfg) = Some s" "starved s"
    using refused_run [OF assms(1) _ assms(3), of "pm_new cfg"] assms(2)
    by (auto simp: starved_def pm_new_def free_ports_new)
  then show ?thesis
    using starved_run [OF s(2) assms(3)] starved_spawn [OF s(2) assms(3)]
    by (auto simp: process_run_append starved_def)
qed

text \<open>A concrete run for the witnesses: three ports, three starts of a command that is not on the list.\<close>

definition small_pool :: process_manager_config where
  "small_pool = \<lparr>pc_port_range_start = 9000, pc_port_range_end = 9002, pc_max_processes = 5, pc_memory_limit_mb = 0,
     pc_health_check_interval = from_secs 10, pc_startup_timeout = from_secs 30, pc_max_restart_count = 3, pc_node_binary = ''node''\<rparr>"

definition plain_os :: "child \<Rightarrow> process_env" where
  "plain_os c = \<lparr>pe_canonicalize = Inr, pe_path = None, pe_home = None, pe_spawn = (\<lambda>_ _ _ _. Inr c), pe_pid = (\<lambda>_. None)\<rparr>"

definition curl_call :: process_call where
  "curl_call = SpawnCall (plain_os 1) 0 [] [] ''a'' ''/app'' [''curl''] []"

lemma curl_refused: "refused_call curl_call"
  by (simp add: curl_call_def start_child_def path_file_name_def ALLOWED_PROCESS_BINARIES_def split: sum.splits)

theorem refused_starts_take_all_ports_witness:
  "\<exists>s. process_run small_pool (replicate 3 curl_call @ [StopCall 0 [] ''a'']) (pm_new small_pool) = Some s \<and> pm_processes s = [] \<and>
    spawn_process small_pool (plain_os 2) 7 [] [] ''b'' ''/app'' [''node'', ''server.js''] [] s = Some (Inl ''No available ports'', s)"
  by (rule refused_starts_take_all_ports)
    (auto simp: curl_refused small_pool_def pa_new_def Let_def sat_add_def sat_sub_def)

text \<open>One process that answers on its port, then a health round.\<close>

definition node_call :: "string \<Rightarrow> child \<Rightarrow> process_call" where
  "node_call cid c = SpawnCall (plain_os c) 0 [\<lparr>pr_now = 0, pr_connects = (\<lambda>_. True), pr_exited = (\<lambda>_. False)\<rparr>] []
     cid ''/app'' [''node'', ''server.js''] []"

lemma node_allowed: "start_child (plain_os c) port ''/app'' [''node'', ''server.js''] [] = Inr c"
  by (simp add: start_child_def path_file_name_def ALLOWED_PROCESS_BINARIES_def plain_os_def starts_with_def Let_def)

lemma small_new: "pm_new small_pool = \<lparr>pm_processes = [],
    pm_port_allocator = \<lparr>pa_base = 9000, pa_count = 3, pa_allocated = [False, False, False]\<rparr>, pm_ended = []\<rparr>"
  by (simp add: pm_new_def small_pool_def pa_new_def Let_def sat_add_def sat_sub_def numeral_3_eq_3 [symmetric])
    (simp add: numeral_3_eq_3)

lemma small_limits: "pc_max_processes small_pool = 5" "pc_startup_timeout small_pool = from_secs 30"
  by (simp_all add: small_pool_def)

theorem ports_exclusive_witness:
  "\<exists>s. process_run small_pool [node_call ''a'' 1, node_call ''b'' 2] (pm_new small_pool) = Some s \<and>
    get_port s ''b'' = Some 9001 \<and> taken (pm_port_allocator s) 9001 \<and> (get_port s ''a'' = Some 9001 \<longrightarrow> ''a'' = ''b'')"
proof -
  obtain s where s: "process_run small_pool [node_call ''a'' 1, node_call ''b'' 2] (pm_new small_pool) = Some s"
      "get_port s ''b'' = Some 9001"
    by (simp add: node_call_def spawn_process_def spawn_begin_def node_allowed insert_process_def startup_probe_def
        set_health_def get_port_def small_new small_limits pa_allocate_def Let_def hm_insert_def hm_get_def hm_modify_def)
  then show ?thesis
    using ports_exclusive [OF s, of "''a''"] by auto
qed

section \<open>Steps that overlap\<close>

text \<open>Starts and stops wait, and other calls run meanwhile. A task is a call under way: a start with its deadline,
  identifier and port, or a stop with the process that it took out of the map. A restart is a stop and then a start of
  the same task. A stop that a task begins takes the place of its start, as after a timeout.\<close>

record process_system =
  ps_manager :: process_manager
  ps_starting :: "(nat, instant \<times> string \<times> u16) hmap"
  ps_stopping :: "(nat, managed_process) hmap"

definition ps_new :: "process_manager_config \<Rightarrow> process_system" where
  "ps_new cfg = \<lparr>ps_manager = pm_new cfg, ps_starting = [], ps_stopping = []\<rparr>"

datatype process_event =
    StartBegins nat process_env instant string string "string list" "(string, string) hmap"
  | StartLooks nat probe
  | StopBegins nat string
  | StopEnds nat

definition stop_task :: "nat \<Rightarrow> string \<Rightarrow> process_system \<Rightarrow> process_system" where
  "stop_task t cid S =
     (case stop_begin cid (ps_manager S) of
        (Inl _, m) \<Rightarrow> S\<lparr>ps_manager := m\<rparr>
      | (Inr p, m) \<Rightarrow> S\<lparr>ps_manager := m, ps_stopping := hm_insert t p (ps_stopping S)\<rparr>)"

fun process_event_step :: "process_manager_config \<Rightarrow> process_event \<Rightarrow> process_system \<Rightarrow> process_system" where
  "process_event_step cfg (StartBegins t P now cid dir cmd env) S =
     (case spawn_begin cfg P now cid dir cmd env (ps_manager S) of
        (Inl _, m) \<Rightarrow> S\<lparr>ps_manager := m\<rparr>
      | (Inr port, m) \<Rightarrow>
          S\<lparr>ps_manager := m, ps_starting := hm_insert t (now + pc_startup_timeout cfg, cid, port) (ps_starting S)\<rparr>)"
| "process_event_step cfg (StartLooks t pr) S =
     (case hm_get (ps_starting S) t of
        None \<Rightarrow> S
      | Some (deadline, cid, port) \<Rightarrow>
          (case startup_probe deadline cid port pr (ps_manager S) of
             (KeepWaiting, m) \<Rightarrow> S\<lparr>ps_manager := m\<rparr>
           | (TimedOut, m) \<Rightarrow> stop_task t cid (S\<lparr>ps_manager := m, ps_starting := hm_remove t (ps_starting S)\<rparr>)
           | (_, m) \<Rightarrow> S\<lparr>ps_manager := m, ps_starting := hm_remove t (ps_starting S)\<rparr>))"
| "process_event_step cfg (StopBegins t cid) S = stop_task t cid S"
| "process_event_step cfg (StopEnds t) S =
     (case hm_get (ps_stopping S) t of
        None \<Rightarrow> S
      | Some p \<Rightarrow> S\<lparr>ps_manager := stop_end p (ps_manager S), ps_stopping := hm_remove t (ps_stopping S)\<rparr>)"

text \<open>A first start of \<open>a\<close> is still waiting when \<open>a\<close> is restarted; \<open>b\<close> is started on the port that the stop freed
  and \<open>a\<close> again on the next one. The second child of \<open>a\<close> exits, the first start sees that and frees its own port,
  which is the one of \<open>b\<close>; \<open>c\<close> is started on it, and then a server listens there.\<close>

definition looks :: "instant \<Rightarrow> bool \<Rightarrow> bool \<Rightarrow> probe" where
  "looks now connects exited = \<lparr>pr_now = now, pr_connects = (\<lambda>_. connects), pr_exited = (\<lambda>_. exited)\<rparr>"

definition overlapping :: "(child \<Rightarrow> process_env) \<Rightarrow> string \<Rightarrow> string list \<Rightarrow> string \<Rightarrow> string \<Rightarrow> string \<Rightarrow> process_event list" where
  "overlapping P dir cmd a b c =
     [StartBegins 1 (P 1) 0 a dir cmd [], StopBegins 2 a, StopEnds 2, StartBegins 3 (P 2) 0 b dir cmd [],
      StartBegins 2 (P 3) 0 a dir cmd [], StartLooks 1 (looks 0 False True), StartBegins 4 (P 4) 0 c dir cmd [],
      StartLooks 3 (looks 0 True False), StartLooks 4 (looks 0 True False)]"

lemma two_slots:
  assumes "start < (stop :: u16)"
  obtains n where "pa_allocated (pa_new start stop) = False # False # replicate n False"
proof -
  have "Suc (unat start) \<le> unat stop" "unat stop < 2 ^ LENGTH(16)"
    using assms by (simp_all only: word_less_nat_alt Suc_le_eq unsigned_less)
  then have "2 \<le> unat (sat_add (sat_sub stop start) 1)"
    by (simp add: unat_sat_add unat_sat_sub)
  then obtain n where "unat (sat_add (sat_sub stop start) 1) = Suc (Suc n)"
    by (metis add_2_eq_Suc le_Suc_ex)
  then show ?thesis
    using that [of n] by (simp add: pa_new_def Let_def)
qed

text \<open>Calls that overlap can share a port: with two ports and room for two processes, three deployments and a
  restart can be interleaved so that two deployments with different identifiers are healthy on the same port, each
  with a child that was never told to end. Requests for one are then sent to the server of the other.\<close>

theorem overlapping_calls_share_a_port:
  assumes "a \<noteq> b" "b \<noteq> c" "a \<noteq> c" "pc_port_range_start cfg < pc_port_range_end cfg" "2 \<le> pc_max_processes cfg"
    "\<And>i port. start_child (P i) port dir cmd [] = Inr i"
  shows "\<exists>events s p q. s = ps_manager (fold (process_event_step cfg) events (ps_new cfg)) \<and>
    get_port s b = Some (pc_port_range_start cfg) \<and> get_port s c = Some (pc_port_range_start cfg) \<and>
    hm_get (pm_processes s) b = Some p \<and> hm_get (pm_processes s) c = Some q \<and>
    mp_child p \<noteq> mp_child q \<and> mp_child p \<notin> set (pm_ended s) \<and> mp_child q \<notin> set (pm_ended s)"
proof -
  let ?start = "pc_port_range_start cfg"
  obtain n where slots: "pa_allocated (pa_new ?start (pc_port_range_end cfg)) = False # False # replicate n False"
    using two_slots [OF assms(4)] by blast
  have base: "pa_base (pa_new ?start stop) = ?start" for stop
    by (simp add: pa_new_def Let_def)
  have "unat ?start < unat (pc_port_range_end cfg)" "unat (pc_port_range_end cfg) < 2 ^ LENGTH(16)"
    using assms(4) by (simp_all only: word_less_nat_alt unsigned_less)
  then have "unat (?start + 1) = Suc (unat ?start)"
    by (simp add: unat_word_ariths)
  then have next_port: "?start \<le> ?start + 1"
    by (simp add: word_le_nat_alt)
  show ?thesis
    by (rule exI [of _ "overlapping P dir cmd a b c"], use assms slots next_port in
      \<open>simp add: overlapping_def looks_def ps_new_def pm_new_def spawn_begin_def stop_task_def stop_begin_def
        stop_end_def base startup_probe_def insert_process_def set_health_def get_port_def pa_allocate_def pa_release_def
        release_port_def Let_def hm_insert_def hm_remove_def hm_modify_def hm_get_def\<close>)
qed

theorem overlapping_calls_share_a_port_witness:
  "\<exists>events s p q. s = ps_manager (fold (process_event_step small_pool) events (ps_new small_pool)) \<and>
    get_port s ''b'' = Some (pc_port_range_start small_pool) \<and> get_port s ''c'' = Some (pc_port_range_start small_pool) \<and>
    hm_get (pm_processes s) ''b'' = Some p \<and> hm_get (pm_processes s) ''c'' = Some q \<and>
    mp_child p \<noteq> mp_child q \<and> mp_child p \<notin> set (pm_ended s) \<and> mp_child q \<notin> set (pm_ended s)"
  by (rule overlapping_calls_share_a_port [of "''a''" _ _ _ plain_os "''/app''" "[''node'', ''server.js'']"])
    (simp_all add: node_allowed small_pool_def)

text \<open>Steps that overlap still keep the allocator well formed.\<close>

lemma overlap_allocator:
  assumes "pa_ok (pm_port_allocator (ps_manager S))"
  shows "pa_ok (pm_port_allocator (ps_manager (process_event_step cfg e S)))"
  using assms
  by (cases e) (auto simp: stop_task_def stop_begin_def stop_end_def release_port_def startup_probe_def set_health_def
      spawn_begin_def insert_process_def Let_def pa_release_taken pa_allocate_taken(1)
      split: option.splits sum.splits prod.splits if_splits probe_result.splits)

interpretation overlapping: call_machine "process_event_step cfg" "\<lambda>S. pa_ok (pm_port_allocator (ps_manager S))" for cfg
  by unfold_locales (rule overlap_allocator)

end
