(* ===== verification/BuildPipeline.thy ===== *)
theory BuildPipeline
  imports ProcessManager GatewayAuth
begin

text \<open>
  From a GitHub repository to a directory that can be published, \<open>gateway/src/dashboard.rs\<close> and
  \<open>framework_detect.rs\<close>: the checks of URL and branch, the extraction of the archive, the build with its cache of
  dependencies, and the choice of the output directory, plain and with the log lines of a build session.

  Outside are the file system (\<open>build_os\<close>, over a state \<open>'f\<close>), the commands that are run, the ZIP library and JSON.
  A panic is the value \<open>None\<close>. The progress lines that only show a size are left out.
\<close>

section \<open>GitHub repositories\<close>

record repo_info =
  ri_owner :: string
  ri_repo :: string

definition is_valid_github_name :: "string \<Rightarrow> bool" where
  "is_valid_github_name s \<longleftrightarrow> s \<noteq> [] \<and> list_all (\<lambda>c. is_ascii_alphanumeric c \<or> c \<in> set ''-._'') s"

text \<open>\<open>trim_end_matches(".git")\<close> removes the suffix as often as it is there.\<close>

function trim_end_git :: "string \<Rightarrow> string" where
  "trim_end_git s = (case rust_strip_suffix ''.git'' s of Some l \<Rightarrow> trim_end_git l | None \<Rightarrow> s)"
  by pat_completeness auto
termination
  by (relation "measure length") (auto simp: rust_strip_suffix_Some)

declare trim_end_git.simps [simp del]

definition parse_github_url :: "string \<Rightarrow> repo_info option" where
  "parse_github_url url0 =
     (let url = trim_end_git (trim_end_slashes url0) in
      case (case rust_strip_prefix ''https://github.com/'' url of
              Some p \<Rightarrow> Some p | None \<Rightarrow> rust_strip_prefix ''github.com/'' url) of
        None \<Rightarrow> None
      | Some path \<Rightarrow>
          (case split_at CHR ''/'' path of
             owner # repo # _ \<Rightarrow>
               if length owner > 39 \<or> length repo > 100 \<or> \<not> is_valid_github_name owner \<or> \<not> is_valid_github_name repo
               then None else Some \<lparr>ri_owner = owner, ri_repo = repo\<rparr>
           | _ \<Rightarrow> None))"

definition is_valid_branch_name :: "string \<Rightarrow> bool" where
  "is_valid_branch_name s \<longleftrightarrow> s \<noteq> [] \<and> length s \<le> 255 \<and> \<not> starts_with s ''.'' \<and> \<not> starts_with s ''-'' \<and>
     \<not> str_contains s ''..'' \<and> \<not> str_contains s ''//'' \<and> CHR 0x5C \<notin> set s \<and> CHR '' '' \<notin> set s \<and>
     list_all (\<lambda>c. is_ascii_alphanumeric c \<or> c \<in> set ''-._/'') s"

definition zip_url :: "repo_info \<Rightarrow> string \<Rightarrow> string" where
  "zip_url r branch =
     ''https://github.com/'' @ ri_owner r @ ''/'' @ ri_repo r @ ''/archive/refs/heads/'' @ branch @ ''.zip''"

section \<open>Archives\<close>

definition MAX_UNCOMPRESSED_SIZE :: nat where
  "MAX_UNCOMPRESSED_SIZE = 512 * 1024 * 1024"

definition MAX_FILE_COUNT :: nat where
  "MAX_FILE_COUNT = 10000"

text \<open>An entry: its name, whether it is a directory, and the reads of its file, at most 8192 bytes each, which end
  well or with the error of a read or of writing what was read. The archive lists its entries, or the errors of opening
  them.\<close>

datatype copy_error = ReadFailed string | WriteFailed string

fun copy_error_text :: "copy_error \<Rightarrow> string" where
  "copy_error_text (ReadFailed e) = ''Read failed: '' @ e"
| "copy_error_text (WriteFailed e) = ''Write failed: '' @ e"

record zip_entry =
  ze_name :: string
  ze_is_dir :: bool
  ze_reads :: "bytes list"
  ze_error :: "copy_error option"

record extracted =
  ex_dirs :: "string list"
  ex_files :: "(string \<times> bytes) list"
  ex_total :: nat

definition relative_name :: "string \<Rightarrow> string \<Rightarrow> string" where
  "relative_name root_prefix n =
     (if root_prefix \<noteq> [] \<and> starts_with n root_prefix then drop (length root_prefix) n else n)"

text \<open>The loop over the reads of a file.\<close>

fun read_entry :: "bytes list \<Rightarrow> copy_error option \<Rightarrow> nat \<Rightarrow> bytes \<Rightarrow> string + bytes \<times> nat" where
  "read_entry [] err total_size acc =
     (case err of Some e \<Rightarrow> Inl (copy_error_text e) | None \<Rightarrow> Inr (acc, total_size))"
| "read_entry (r # rs) err total_size acc =
     (if r = [] then Inr (acc, total_size)
      else if total_size + length r > MAX_UNCOMPRESSED_SIZE then
        Inl (''ZIP uncompressed size exceeds limit ('' @ show_nat MAX_UNCOMPRESSED_SIZE @ '' bytes)'')
      else read_entry rs err (total_size + length r) (acc @ r))"

text \<open>\<open>fails\<close> says for a path why it could not be made, when it could not. A path is escaping when it is absolute:
  joined to the directory it replaces it (the directory has a fresh random name, which no archive contains).\<close>

definition extract_entry ::
    "(string \<Rightarrow> string option) \<Rightarrow> string \<Rightarrow> zip_entry \<Rightarrow> extracted \<Rightarrow> string + extracted" where
  "extract_entry fails root_prefix e x =
     (let relative_path = relative_name root_prefix (ze_name e) in
      if relative_path = [] then Inr x
      else if str_contains relative_path ''..'' then Inl (''ZIP contains path traversal: '' @ relative_path)
      else if starts_with relative_path ''/'' then Inl (''ZIP path escapes target directory: '' @ relative_path)
      else if ze_is_dir e then
        (case fails relative_path of
           Some m \<Rightarrow> Inl (''Dir failed: '' @ m)
         | None \<Rightarrow> Inr (x\<lparr>ex_dirs := ex_dirs x @ [relative_path]\<rparr>))
      else
        (case fails relative_path of
           Some m \<Rightarrow> Inl (''File failed: '' @ m)
         | None \<Rightarrow>
             (case read_entry (ze_reads e) (ze_error e) (ex_total x) [] of
                Inl m \<Rightarrow> Inl m
              | Inr (content, t) \<Rightarrow> Inr (x\<lparr>ex_files := ex_files x @ [(relative_path, content)], ex_total := t\<rparr>))))"

fun extract_entries ::
    "(string \<Rightarrow> string option) \<Rightarrow> string \<Rightarrow> (string + zip_entry) list \<Rightarrow> extracted \<Rightarrow> string + extracted" where
  "extract_entries fails root_prefix [] x = Inr x"
| "extract_entries fails root_prefix (Inl m # es) x = Inl (''ZIP error: '' @ m)"
| "extract_entries fails root_prefix (Inr e # es) x =
     (case extract_entry fails root_prefix e x of
        Inl m \<Rightarrow> Inl m
      | Inr x' \<Rightarrow> extract_entries fails root_prefix es x')"

text \<open>The first entry gives the common prefix when it is a directory, and is then not extracted.\<close>

definition extract_github_zip ::
    "string + string \<Rightarrow> string + (string + zip_entry) list \<Rightarrow> (string \<Rightarrow> string option) \<Rightarrow> string + extracted" where
  "extract_github_zip temp_dir archive fails =
     (case temp_dir of
        Inl m \<Rightarrow> Inl (''Temp dir failed: '' @ m)
      | Inr _ \<Rightarrow>
          (case archive of
             Inl m \<Rightarrow> Inl (''Invalid ZIP: '' @ m)
           | Inr es \<Rightarrow>
               if length es > MAX_FILE_COUNT then
                 Inl (''ZIP contains too many entries ('' @ show_nat (length es) @ '', max '' @ show_nat MAX_FILE_COUNT @ '')'')
               else
                 (let empty = \<lparr>ex_dirs = [], ex_files = [], ex_total = 0\<rparr> in
                  case es of
                    Inr e # rest \<Rightarrow>
                      if ends_with (ze_name e) ''/'' then extract_entries fails (ze_name e) rest empty
                      else extract_entries fails [] es empty
                  | _ \<Rightarrow> extract_entries fails [] es empty)))"

section \<open>The file system and commands\<close>

text \<open>What a command that was started comes to, and an entry of a directory with its time and size. \<open>bo_run\<close> is told
  whether the output is read while the command runs: a command blocks when it has filled a pipe that nobody reads.\<close>

datatype command_end =
    NotSpawned string
  | TimedOutKilled
  | NotWaited string
  | OutputUnreadable string
  | Finished bool string string \<comment> \<open>success, standard output, standard error\<close>

text \<open>A directory as it is walked: files with their size when it can be read, directories with their entries when they can
  be listed. To copy it, links and the errors of listing matter too.\<close>

datatype dir_tree = TreeFile "u64 option" | TreeDir "dir_tree list option"

datatype copy_tree =
    CopyDir "string + (string + string \<times> copy_tree) list"
  | CopyLink "string + string"
  | CopyFile
  | CopyUnknown string

record cache_dir_entry =
  cd_path :: string
  cd_mtime :: nat
  cd_tree :: dir_tree

record 'f build_os =
  bo_exists :: "string \<Rightarrow> 'f \<Rightarrow> bool"
  bo_is_dir :: "string \<Rightarrow> 'f \<Rightarrow> bool"
  bo_read_text :: "string \<Rightarrow> 'f \<Rightarrow> string option"
  bo_read :: "string \<Rightarrow> 'f \<Rightarrow> bytes option"
  bo_write :: "string \<Rightarrow> string \<Rightarrow> 'f \<Rightarrow> 'f"
  bo_entries :: "string \<Rightarrow> 'f \<Rightarrow> string list option"
  bo_run :: "bool \<Rightarrow> string \<Rightarrow> string list \<Rightarrow> string \<Rightarrow> (string \<times> string) list \<Rightarrow> nat \<Rightarrow> 'f \<Rightarrow> command_end \<times> 'f"
  bo_mkdir :: "string \<Rightarrow> 'f \<Rightarrow> string option \<times> 'f"
  bo_walk :: "string \<Rightarrow> 'f \<Rightarrow> copy_tree"
  bo_copy_file :: "string \<Rightarrow> string \<Rightarrow> 'f \<Rightarrow> string option \<times> 'f"
  bo_symlink :: "string \<Rightarrow> string \<Rightarrow> 'f \<Rightarrow> string option \<times> 'f"
  bo_remove_dir :: "string \<Rightarrow> 'f \<Rightarrow> string option \<times> 'f"
  bo_touch :: "string \<Rightarrow> 'f \<Rightarrow> 'f"
  bo_cache_dirs :: "string \<Rightarrow> 'f \<Rightarrow> cache_dir_entry list option" \<comment> \<open>only directories\<close>
  bo_var :: "string \<Rightarrow> string option"
  bo_has_build :: "string \<Rightarrow> bool" \<comment> \<open>the JSON text has a field \<open>scripts.build\<close>\<close>

definition path_join :: "string \<Rightarrow> string \<Rightarrow> string" where
  "path_join dir p = (if starts_with p ''/'' then p else dir @ ''/'' @ p)"

definition any_exists :: "'f build_os \<Rightarrow> string \<Rightarrow> string list \<Rightarrow> 'f \<Rightarrow> bool" where
  "any_exists B dir names f \<longleftrightarrow> list_ex (\<lambda>n. bo_exists B (path_join dir n) f) names"

section \<open>Frameworks\<close>

text \<open>\<open>detect_framework\<close> of the dashboard: the first row with a file that exists.\<close>

definition framework_files :: "(string list \<times> string) list" where
  "framework_files =
     [([''next.config.js'', ''next.config.ts'', ''next.config.mjs''], ''Next.js''),
      ([''nuxt.config.ts'', ''nuxt.config.js''], ''Nuxt''),
      ([''astro.config.mjs'', ''astro.config.ts''], ''Astro''),
      ([''svelte.config.js'', ''svelte.config.ts''], ''SvelteKit''),
      ([''vite.config.ts'', ''vite.config.js'', ''vite.config.mjs''], ''Vite''),
      ([''gatsby-config.js'', ''gatsby-config.ts''], ''Gatsby''),
      ([''angular.json''], ''Angular''),
      ([''package.json''], ''Node.js''),
      ([''index.html''], ''Static HTML'')]"

definition detect_framework :: "'f build_os \<Rightarrow> string \<Rightarrow> 'f \<Rightarrow> string" where
  "detect_framework B dir f =
     (case find (\<lambda>(files, _). any_exists B dir files f) framework_files of
        Some (_, n) \<Rightarrow> n | None \<Rightarrow> ''Unknown'')"

datatype framework_kind =
    NextJs | Nuxt | SvelteKit | Remix | Astro | Vite | Gatsby | Angular | Express | StaticHtml | GenericNode | UnknownFramework

definition deps_mention :: "'f build_os \<Rightarrow> string \<Rightarrow> string list \<Rightarrow> 'f \<Rightarrow> bool" where
  "deps_mention B dir words f \<longleftrightarrow>
     (case bo_read_text B (path_join dir ''package.json'') f of
        None \<Rightarrow> False | Some t \<Rightarrow> list_ex (str_contains t) words)"

text \<open>\<open>detect_framework\<close> of \<open>framework_detect.rs\<close>.\<close>

definition detect_framework_kind :: "'f build_os \<Rightarrow> string \<Rightarrow> 'f \<Rightarrow> framework_kind" where
  "detect_framework_kind B dir f =
     (if any_exists B dir [''next.config.js'', ''next.config.ts'', ''next.config.mjs''] f then NextJs
      else if any_exists B dir [''nuxt.config.ts'', ''nuxt.config.js''] f then Nuxt
      else if any_exists B dir [''astro.config.mjs'', ''astro.config.ts''] f then Astro
      else if any_exists B dir [''svelte.config.js'', ''svelte.config.ts''] f then SvelteKit
      else if any_exists B dir [''remix.config.js'', ''remix.config.ts''] f then Remix
      else if deps_mention B dir [''@remix-run/react'', ''@remix-run/node''] f then Remix
      else if any_exists B dir [''vite.config.ts'', ''vite.config.js'', ''vite.config.mjs''] f then Vite
      else if any_exists B dir [''gatsby-config.js'', ''gatsby-config.ts''] f then Gatsby
      else if any_exists B dir [''angular.json''] f then Angular
      else if deps_mention B dir [''express'', ''fastify''] f then Express
      else if any_exists B dir [''package.json''] f then GenericNode
      else if any_exists B dir [''index.html''] f then StaticHtml
      else UnknownFramework)"

record dynamic_config =
  dc_framework :: framework_kind
  dc_start_command :: "string list"
  dc_health_path :: string
  dc_output_dir :: string
  dc_env_overrides :: "(string, string) hmap"

definition dynamic_config_of :: "framework_kind \<Rightarrow> string list \<Rightarrow> string \<Rightarrow> (string, string) hmap \<Rightarrow> dynamic_config" where
  "dynamic_config_of k cmd out env =
     \<lparr>dc_framework = k, dc_start_command = cmd, dc_health_path = ''/'', dc_output_dir = out, dc_env_overrides = env\<rparr>"

text \<open>\<open>None\<close> is the static mode.\<close>

definition detect_deploy_mode :: "'f build_os \<Rightarrow> string \<Rightarrow> bool \<Rightarrow> 'f \<Rightarrow> dynamic_config option" where
  "detect_deploy_mode B dir user_requested_dynamic f =
     (if \<not> user_requested_dynamic then None
      else
        (case detect_framework_kind B dir f of
           NextJs \<Rightarrow> Some (dynamic_config_of NextJs [''node'', ''.next/standalone/server.js''] ''.next/standalone'' [])
         | Nuxt \<Rightarrow> Some (dynamic_config_of Nuxt [''node'', ''.output/server/index.mjs''] ''.output'' [(''NITRO_PORT'', ''{PORT}'')])
         | SvelteKit \<Rightarrow> Some (dynamic_config_of SvelteKit [''node'', ''build/index.js''] ''build'' [])
         | Remix \<Rightarrow> Some (dynamic_config_of Remix [''npx'', ''remix-serve'', ''build/server/index.js''] ''build'' [])
         | Express \<Rightarrow> Some (dynamic_config_of Express [''npm'', ''start''] ''.'' [])
         | GenericNode \<Rightarrow> Some (dynamic_config_of GenericNode [''npm'', ''start''] ''.'' [])
         | _ \<Rightarrow> None))"

definition detect_package_manager :: "'f build_os \<Rightarrow> string \<Rightarrow> 'f \<Rightarrow> string \<times> string list \<times> string list" where
  "detect_package_manager B dir f =
     (if any_exists B dir [''bun.lockb'', ''bun.lock''] f then (''bun'', [''install''], [''run'', ''build''])
      else if any_exists B dir [''pnpm-lock.yaml''] f then (''pnpm'', [''install'', ''--frozen-lockfile''], [''run'', ''build''])
      else if any_exists B dir [''yarn.lock''] f then (''yarn'', [''install'', ''--frozen-lockfile''], [''build''])
      else (''npm'', [''ci''], [''run'', ''build'']))"

text \<open>The Next.js configuration: the first of its files that exists is rewritten, when it can be read.\<close>

definition next_configs :: "string list" where
  "next_configs = [''next.config.mjs'', ''next.config.js'', ''next.config.ts'']"

definition str_rfind :: "string \<Rightarrow> string \<Rightarrow> nat option" where
  "str_rfind pat s = (case rev (filter (\<lambda>i. starts_with (drop i s) pat) [0..<length s]) of [] \<Rightarrow> None | i # _ \<Rightarrow> Some i)"

definition output_setting :: "char \<Rightarrow> string \<Rightarrow> string" where
  "output_setting q v = ''output: '' @ [q] @ v @ [q]"

definition inject_output :: "string \<Rightarrow> string \<Rightarrow> string option" where
  "inject_output v content =
     (case str_rfind ''= {'' content of
        None \<Rightarrow> None
      | Some p \<Rightarrow> Some (take (p + 3) content @ [CHR 0x0A] @ ''  '' @ output_setting CHR 0x27 v @ '','' @ drop (p + 3) content))"

definition patch_next_config :: "'f build_os \<Rightarrow> (string \<Rightarrow> string option) \<Rightarrow> string \<Rightarrow> 'f \<Rightarrow> 'f" where
  "patch_next_config B patch dir f =
     (case find (\<lambda>n. bo_exists B (path_join dir n) f) next_configs of
        None \<Rightarrow> f
      | Some n \<Rightarrow>
          (case Option.bind (bo_read_text B (path_join dir n) f) patch of
             None \<Rightarrow> f
           | Some patched \<Rightarrow> bo_write B (path_join dir n) patched f))"

definition ensure_nextjs_standalone :: "'f build_os \<Rightarrow> string \<Rightarrow> 'f \<Rightarrow> 'f" where
  "ensure_nextjs_standalone B =
     patch_next_config B (\<lambda>content.
       if str_contains content ''output'' then
         Some (str_replace (output_setting CHR 0x22 ''export'') (output_setting CHR 0x27 ''standalone'')
           (str_replace (output_setting CHR 0x27 ''export'') (output_setting CHR 0x27 ''standalone'') content))
       else inject_output ''standalone'' content)"

definition ensure_nextjs_static_export :: "'f build_os \<Rightarrow> string \<Rightarrow> 'f \<Rightarrow> 'f" where
  "ensure_nextjs_static_export B =
     patch_next_config B (\<lambda>content. if str_contains content ''output'' then None else inject_output ''export'' content)"

section \<open>Build sessions\<close>

datatype session_status = SsBuilding | SsSucceeded | SsFailed

record build_event =
  ev_type :: string
  ev_data :: string

text \<open>What a finished deployment answers.\<close>

record deploy_payload =
  dp_cid :: string
  dp_domain :: "string option"
  dp_deploy_mode :: "string option"
  dp_repo :: string
  dp_branch :: string

record build_session =
  bs_logs :: "string list"
  bs_status :: session_status
  bs_result :: "(string + deploy_payload) option"
  bs_sent :: "build_event list" \<comment> \<open>all that was sent to the subscribers\<close>

definition session_new :: build_session where
  "session_new = \<lparr>bs_logs = [], bs_status = SsBuilding, bs_result = None, bs_sent = []\<rparr>"

definition push_line :: "string \<Rightarrow> build_session \<Rightarrow> build_session" where
  "push_line sub s =
     (let sanitized = filter (\<lambda>c. c \<noteq> CHR 0x0D) sub
      in s\<lparr>bs_logs := bs_logs s @ [sanitized], bs_sent := bs_sent s @ [\<lparr>ev_type = ''log'', ev_data = sanitized\<rparr>]\<rparr>)"

definition push_log :: "string \<Rightarrow> build_session \<Rightarrow> build_session" where
  "push_log line s = fold push_line (split_at CHR 0x0A line) s"

text \<open>\<open>render\<close> is the JSON text of a payload.\<close>

definition session_complete :: "(deploy_payload \<Rightarrow> string) \<Rightarrow> deploy_payload \<Rightarrow> build_session \<Rightarrow> build_session" where
  "session_complete render r s =
     s\<lparr>bs_status := SsSucceeded, bs_result := Some (Inr r), bs_sent := bs_sent s @ [\<lparr>ev_type = ''complete'', ev_data = render r\<rparr>]\<rparr>"

definition session_fail :: "string \<Rightarrow> build_session \<Rightarrow> build_session" where
  "session_fail e s =
     s\<lparr>bs_status := SsFailed, bs_result := Some (Inl e), bs_sent := bs_sent s @ [\<lparr>ev_type = ''error'', ev_data = e\<rparr>]\<rparr>"

text \<open>The stream of a session. The handler reads logs, status and result and then subscribes, at the four states
  \<open>s1\<close> to \<open>s4\<close> of the session; from there on it gets what is sent, up to the final event. A receiver that falls
  behind the 512 events of the channel is not modelled.\<close>

definition is_final :: "build_event \<Rightarrow> bool" where
  "is_final e \<longleftrightarrow> ev_type e = ''complete'' \<or> ev_type e = ''error''"

fun until_final :: "build_event list \<Rightarrow> build_event list" where
  "until_final [] = []"
| "until_final (e # es) = (if is_final e then [e] else e # until_final es)"

definition deploy_stream ::
    "(deploy_payload \<Rightarrow> string) \<Rightarrow> build_session \<Rightarrow> build_session \<Rightarrow> build_session \<Rightarrow> build_session \<Rightarrow> build_session \<Rightarrow> build_event list" where
  "deploy_stream render s1 s2 s3 s4 later =
     map (\<lambda>line. \<lparr>ev_type = ''log'', ev_data = line\<rparr>) (bs_logs s1) @
     (if bs_status s2 = SsSucceeded then
        (case bs_result s3 of
           Some (Inr r) \<Rightarrow> [\<lparr>ev_type = ''complete'', ev_data = render r\<rparr>]
         | _ \<Rightarrow> [])
      else if bs_status s2 = SsFailed then
        (case bs_result s3 of
           Some (Inl e) \<Rightarrow> [\<lparr>ev_type = ''error'', ev_data = e\<rparr>]
         | Some (Inr _) \<Rightarrow> [\<lparr>ev_type = ''error'', ev_data = ''Build failed''\<rparr>]
         | None \<Rightarrow> [])
      else until_final (drop (length (bs_sent s4)) (bs_sent later)))"

section \<open>Running commands\<close>

definition BUILD_TIMEOUT_SECS :: nat where
  "BUILD_TIMEOUT_SECS = 300"

definition em_dash :: string where
  "em_dash = [CHR 0xE2, CHR 0x80, CHR 0x94]"

definition nl :: string where
  "nl = [CHR 0x0A]"

definition run_cmd_with_timeout ::
    "'f build_os \<Rightarrow> string \<Rightarrow> string list \<Rightarrow> string \<Rightarrow> (string \<times> string) list \<Rightarrow> nat \<Rightarrow> 'f \<Rightarrow> (string + bool \<times> string) \<times> 'f" where
  "run_cmd_with_timeout B cmd args dir env timeout_secs f =
     (case bo_run B False cmd args dir env timeout_secs f of
        (r, f') \<Rightarrow>
          (case r of
             NotSpawned e \<Rightarrow> Inl (''Failed to spawn '' @ cmd @ '': '' @ e)
           | TimedOutKilled \<Rightarrow>
               Inl (cmd @ '' '' @ (case args of [] \<Rightarrow> ''<unknown>'' | a # _ \<Rightarrow> a) @ '' timed out after '' @ show_nat timeout_secs @
                 ''s in '' @ dir @ '' '' @ em_dash @ '' killed'')
           | NotWaited e \<Rightarrow> Inl (''Failed to wait for '' @ cmd @ '': '' @ e)
           | OutputUnreadable e \<Rightarrow> Inl (''Failed to read '' @ cmd @ '' output: '' @ e)
           | Finished ok out err \<Rightarrow> Inr (ok, out @ err), f'))"

text \<open>\<open>BufRead::lines\<close>: an end of line at the very end opens no further line.\<close>

definition text_lines :: "string \<Rightarrow> string list" where
  "text_lines t =
     (let ls = split_at CHR 0x0A t; ls' = (if last ls = [] then butlast ls else ls)
      in map (\<lambda>l. case rust_strip_suffix [CHR 0x0D] l of Some l' \<Rightarrow> l' | None \<Rightarrow> l) ls')"

text \<open>The two reading threads may interleave their lines in the session; here standard output comes first, and the
  lines of a command that is killed are left out.\<close>

definition run_cmd_streaming ::
    "'f build_os \<Rightarrow> string \<Rightarrow> string list \<Rightarrow> string \<Rightarrow> (string \<times> string) list \<Rightarrow> nat \<Rightarrow> 'f \<times> build_session \<Rightarrow>
     (string + bool \<times> string) \<times> 'f \<times> build_session" where
  "run_cmd_streaming B cmd args dir env timeout_secs fs =
     (case bo_run B True cmd args dir env timeout_secs (fst fs) of
        (r, f') \<Rightarrow>
          (case r of
             NotSpawned e \<Rightarrow> (Inl (''Failed to spawn '' @ cmd @ '': '' @ e), f', snd fs)
           | TimedOutKilled \<Rightarrow> (Inl (cmd @ '' timed out after '' @ show_nat timeout_secs @ ''s''), f', snd fs)
           | NotWaited e \<Rightarrow> (Inl (''Failed to wait for '' @ cmd @ '': '' @ e), f', snd fs)
           | OutputUnreadable e \<Rightarrow> (Inl (''Failed to capture stdout from '' @ cmd), f', snd fs)
           | Finished ok out err \<Rightarrow>
               (let out_lines = text_lines out; err_lines = text_lines err;
                    stdout_text = join_with nl out_lines; stderr_text = join_with nl err_lines
                in (Inr (ok, stdout_text @ (if stderr_text = [] then [] else (if stdout_text = [] then [] else nl) @ stderr_text)),
                    f', fold push_log (out_lines @ err_lines) (snd fs)))))"

section \<open>The cache of dependencies\<close>

definition LOCKFILE_NAMES :: "string list" where
  "LOCKFILE_NAMES = [''bun.lockb'', ''bun.lock'', ''pnpm-lock.yaml'', ''yarn.lock'', ''package-lock.json'']"

text \<open>The hash of the first lockfile that exists and can be read.\<close>

fun lockfile_hash :: "prims \<Rightarrow> 'f build_os \<Rightarrow> string \<Rightarrow> string list \<Rightarrow> 'f \<Rightarrow> string option" where
  "lockfile_hash P B dir [] f = None"
| "lockfile_hash P B dir (n # ns) f =
     (case (if bo_exists B (path_join dir n) f then bo_read B (path_join dir n) f else None) of
        Some contents \<Rightarrow> Some (hex_bytes (blake3 P contents))
      | None \<Rightarrow> lockfile_hash P B dir ns f)"

definition compute_lockfile_hash :: "prims \<Rightarrow> 'f build_os \<Rightarrow> string \<Rightarrow> 'f \<Rightarrow> string option" where
  "compute_lockfile_hash P B dir f = lockfile_hash P B dir LOCKFILE_NAMES f"

text \<open>The walks over directories: the size of one, and its copy, which ends with the first error.\<close>

fun dir_size_bytes :: "dir_tree \<Rightarrow> nat" where
  "dir_size_bytes (TreeFile None) = 0"
| "dir_size_bytes (TreeFile (Some n)) = unat n"
| "dir_size_bytes (TreeDir None) = 0"
| "dir_size_bytes (TreeDir (Some ts)) = sum_list (map dir_size_bytes ts)"

definition cd_size :: "cache_dir_entry \<Rightarrow> nat" where
  "cd_size e = dir_size_bytes (cd_tree e)"

function (sequential) copy_tree_to :: "'f build_os \<Rightarrow> string \<Rightarrow> string \<Rightarrow> copy_tree \<Rightarrow> 'f \<Rightarrow> string option \<times> 'f"
  and copy_entries_to ::
    "'f build_os \<Rightarrow> string \<Rightarrow> string \<Rightarrow> (string + string \<times> copy_tree) list \<Rightarrow> 'f \<Rightarrow> string option \<times> 'f" where
  "copy_tree_to B src dst (CopyDir listing) f =
     (case bo_mkdir B dst f of
        (Some m, f1) \<Rightarrow> (Some m, f1)
      | (None, f1) \<Rightarrow> (case listing of Inl e \<Rightarrow> (Some e, f1) | Inr es \<Rightarrow> copy_entries_to B src dst es f1))"
| "copy_tree_to B src dst (CopyLink (Inl e)) f = (Some e, f)"
| "copy_tree_to B src dst (CopyLink (Inr t)) f = bo_symlink B t dst f"
| "copy_tree_to B src dst CopyFile f = bo_copy_file B src dst f"
| "copy_tree_to B src dst (CopyUnknown e) f = (Some e, f)"
| "copy_entries_to B src dst [] f = (None, f)"
| "copy_entries_to B src dst (Inl e # es) f = (Some e, f)"
| "copy_entries_to B src dst (Inr (n, t) # es) f =
     (case copy_tree_to B (path_join src n) (path_join dst n) t f of
        (Some m, f1) \<Rightarrow> (Some m, f1)
      | (None, f1) \<Rightarrow> copy_entries_to B src dst es f1)"
  by pat_completeness auto
termination
  by (relation "measure (\<lambda>x. case x of Inl (B, src, dst, t, f) \<Rightarrow> size t
       | Inr (B, src, dst, es, f) \<Rightarrow> Suc (size_list (size_sum (\<lambda>_. 0) (size_prod (\<lambda>_. 0) size)) es))") auto

definition copy_dir_recursive :: "'f build_os \<Rightarrow> string \<Rightarrow> string \<Rightarrow> 'f \<Rightarrow> string option \<times> 'f" where
  "copy_dir_recursive B src dst f = copy_tree_to B src dst (bo_walk B src f) f"

definition is_directory :: "'f build_os \<Rightarrow> string \<Rightarrow> 'f \<Rightarrow> bool" where
  "is_directory B p f \<longleftrightarrow> bo_exists B p f \<and> bo_is_dir B p f"

definition restore_build_cache ::
    "'f build_os \<Rightarrow> string \<Rightarrow> string \<Rightarrow> string \<Rightarrow> 'f \<times> build_session \<Rightarrow> bool \<times> 'f \<times> build_session" where
  "restore_build_cache B cache_dir cache_key build_dir fs =
     (let cached_nm = path_join (path_join cache_dir cache_key) ''node_modules''; target = path_join build_dir ''node_modules'';
          f = fst fs; s = snd fs in
      if \<not> is_directory B cached_nm f then
        (False, f, push_log ''Build cache: miss (no cached node_modules for this lockfile)'' s)
      else
        (let s1 = push_log ''Restoring cached dependencies...'' s in
         case copy_dir_recursive B cached_nm target f of
           (None, f1) \<Rightarrow> (True, bo_touch B (path_join cache_dir cache_key) f1, push_log ''Build cache: restored successfully'' s1)
         | (Some e, f1) \<Rightarrow>
             (False, snd (bo_remove_dir B target f1),
              push_log (''Build cache: restore failed ('' @ e @ ''), continuing without cache'') s1)))"

text \<open>The oldest entries are removed until the rest fits; an entry that cannot be removed is passed over.\<close>

fun evict_entries ::
    "'f build_os \<Rightarrow> u64 \<Rightarrow> cache_dir_entry list \<Rightarrow> nat \<Rightarrow> 'f \<times> build_session \<Rightarrow> nat \<times> 'f \<times> build_session" where
  "evict_entries B max_bytes [] total_size fs = (total_size, fs)"
| "evict_entries B max_bytes (e # es) total_size fs =
     (if total_size \<le> unat max_bytes then (total_size, fs)
      else
        (case bo_remove_dir B (cd_path e) (fst fs) of
           (Some m, f') \<Rightarrow>
             evict_entries B max_bytes es total_size
               (f', push_log (''Build cache: failed to evict '' @ cd_path e @ '' ('' @ m @ '')'') (snd fs))
         | (None, f') \<Rightarrow> evict_entries B max_bytes es (total_size - cd_size e) (f', snd fs)))"

definition evict_build_cache :: "'f build_os \<Rightarrow> string \<Rightarrow> u64 \<Rightarrow> 'f \<times> build_session \<Rightarrow> 'f \<times> build_session" where
  "evict_build_cache B cache_dir max_gb fs =
     (let max_bytes = max_gb * 1024 * 1024 * 1024 in
      case bo_cache_dirs B cache_dir (fst fs) of
        None \<Rightarrow> fs
      | Some entry_info \<Rightarrow>
          snd (evict_entries B max_bytes (sort_key cd_mtime entry_info) (sum_list (map cd_size entry_info)) fs))"

definition save_build_cache ::
    "'f build_os \<Rightarrow> string \<Rightarrow> string \<Rightarrow> string \<Rightarrow> u64 \<Rightarrow> 'f \<times> build_session \<Rightarrow> 'f \<times> build_session" where
  "save_build_cache B cache_dir cache_key build_dir max_gb fs =
     (let source = path_join build_dir ''node_modules''; cache_entry = path_join cache_dir cache_key;
          target = path_join cache_entry ''node_modules''; f = fst fs in
      if \<not> is_directory B source f then fs
      else
        (let s1 = push_log ''Saving dependencies to cache...'' (snd fs) in
         case bo_mkdir B cache_entry f of
           (Some e, f1) \<Rightarrow> (f1, push_log (''Build cache: failed to create cache directory ('' @ e @ '')'') s1)
         | (None, f1) \<Rightarrow>
             (let f2 = (if bo_exists B target f1 then snd (bo_remove_dir B target f1) else f1) in
              case copy_dir_recursive B source target f2 of
                (Some e, f3) \<Rightarrow> (snd (bo_remove_dir B target f3), push_log (''Build cache: save failed ('' @ e @ '')'') s1)
              | (None, f3) \<Rightarrow>
                  evict_build_cache B cache_dir max_gb (f3, push_log ''Build cache: saved successfully'' s1))))"

section \<open>Building\<close>

definition BUILD_ENV_ALLOWLIST :: "string list" where
  "BUILD_ENV_ALLOWLIST =
     [''PATH'', ''HOME'', ''USER'', ''LANG'', ''LC_ALL'', ''NODE_ENV'', ''npm_config_cache'', ''npm_config_loglevel'']"

definition ALLOWED_BUILD_BINARIES :: "string list" where
  "ALLOWED_BUILD_BINARIES =
     [''npm'', ''npx'', ''yarn'', ''pnpm'', ''bun'', ''node'', ''next'', ''nuxt'', ''vite'', ''astro'', ''gatsby'', ''hugo'', ''jekyll'']"

definition OUTPUT_DIRS :: "string list" where
  "OUTPUT_DIRS = [''dist'', ''build'', ''out'', ''.output/public'', ''public'', ''_site'', ''storybook-static'']"

record build_outcome =
  bu_deploy_root :: string
  bu_build_status :: string
  bu_build_logs :: string

text \<open>The last 12000 bytes after an ellipsis; a panic when they begin inside a code point.\<close>

definition trim_logs :: "string \<Rightarrow> string option" where
  "trim_logs logs =
     (if length logs \<le> 12000 then Some logs
      else map_option (\<lambda>rest. [CHR 0xE2, CHR 0x80, CHR 0xA6] @ nl @ rest) (slice_from logs (length logs - 12000)))"

definition has_build_script :: "'f build_os \<Rightarrow> string \<Rightarrow> 'f \<Rightarrow> bool" where
  "has_build_script B dir f \<longleftrightarrow> bo_exists B (path_join dir ''package.json'') f \<and>
     (case bo_read_text B (path_join dir ''package.json'') f of None \<Rightarrow> False | Some t \<Rightarrow> bo_has_build B t)"

definition build_env :: "'f build_os \<Rightarrow> bool \<Rightarrow> (string, string) hmap option \<Rightarrow> (string \<times> string) list" where
  "build_env B nuxt_static env_vars =
     List.map_filter (\<lambda>k. map_option (\<lambda>v. (k, v)) (bo_var B k)) BUILD_ENV_ALLOWLIST @
     (if nuxt_static then [(''NITRO_PRESET'', ''static'')] else []) @
     (case env_vars of None \<Rightarrow> [] | Some m \<Rightarrow> m)"

definition split_whitespace :: "string \<Rightarrow> string list" where
  "split_whitespace s =
     (let groups = fold (\<lambda>c gs. if is_white_space c then [] # gs else (hd gs @ c) # tl gs) (rust_chars s) [[]]
      in filter (\<lambda>g. g \<noteq> []) (rev groups))"

definition command_line :: "string \<Rightarrow> string list \<Rightarrow> string" where
  "command_line pm args = ''$ '' @ pm @ '' '' @ join_with '' '' args"

text \<open>A custom command: its words, or why it is refused.\<close>

definition custom_command :: "string \<Rightarrow> string + string \<times> string list" where
  "custom_command custom_cmd =
     (case split_whitespace custom_cmd of
        [] \<Rightarrow> Inl ''Empty build command''
      | program # args \<Rightarrow>
          if program \<notin> set ALLOWED_BUILD_BINARIES then
            Inl (''Build binary '' @ [CHR 0x27] @ program @ [CHR 0x27] @ '' is not allowed. Allowed: '' @
              join_with '', '' ALLOWED_BUILD_BINARIES)
          else Inr (program, args))"

text \<open>Where the output is: the directory and how it is shown. A custom directory is joined as it is.\<close>

fun angular_output :: "'f build_os \<Rightarrow> string list \<Rightarrow> 'f \<Rightarrow> string option" where
  "angular_output B [] f = None"
| "angular_output B (e # es) f =
     (if bo_is_dir B (path_join e ''browser'') f \<and> bo_exists B (path_join (path_join e ''browser'') ''index.html'') f
      then Some (path_join e ''browser'')
      else if bo_exists B (path_join e ''index.html'') f then Some e
      else angular_output B es f)"

definition known_output :: "'f build_os \<Rightarrow> string \<Rightarrow> string \<Rightarrow> 'f \<Rightarrow> (string \<times> string) option" where
  "known_output B dir framework f =
     (case find (\<lambda>n. \<not> (n = ''public'' \<and> framework = ''Next.js'') \<and> is_directory B (path_join dir n) f) OUTPUT_DIRS of
        Some n \<Rightarrow> Some (path_join dir n, n @ ''/'')
      | None \<Rightarrow>
          if framework = ''Angular'' then
            (case bo_entries B (path_join dir ''dist'') f of
               None \<Rightarrow> None
             | Some es \<Rightarrow> map_option (\<lambda>p. (p, p)) (angular_output B es f))
          else None)"

definition built_status :: "string \<Rightarrow> string" where
  "built_status framework = ''Built ('' @ framework @ '')''"

text \<open>Without a build: the directory itself, its \<open>public\<close> directory, or the directory as it is. The last component
  is the line for the session.\<close>

definition static_outcome :: "'f build_os \<Rightarrow> string \<Rightarrow> string \<Rightarrow> string \<Rightarrow> string \<Rightarrow> 'f \<Rightarrow> build_outcome \<times> string" where
  "static_outcome B dir framework as_is skipped f =
     (let detected = ''Detected framework: '' @ framework; status = ''Static ('' @ framework @ '')'';
          public = path_join dir ''public'' in
      if bo_exists B (path_join dir ''index.html'') f then
        (\<lparr>bu_deploy_root = dir, bu_build_status = status, bu_build_logs = detected @ nl @ as_is\<rparr>,
         detected @ '' '' @ em_dash @ '' deploying static site'')
      else if bo_exists B public f \<and> bo_exists B (path_join public ''index.html'') f then
        (\<lparr>bu_deploy_root = public, bu_build_status = status, bu_build_logs = detected @ nl @ ''Deploying public/ directory.''\<rparr>,
         ''Deploying public/ directory'')
      else
        (\<lparr>bu_deploy_root = dir, bu_build_status = ''Skipped'', bu_build_logs = detected @ nl @ skipped\<rparr>,
         ''No build script detected, deploying as-is''))"

text \<open>The steps of a build: a result and the state after it, or a panic.\<close>

type_synonym ('a, 's) build_step = "((string + 'a) \<times> 's) option"

definition then_step :: "('a, 's) build_step \<Rightarrow> ('a \<Rightarrow> 's \<Rightarrow> ('b, 's) build_step) \<Rightarrow> ('b, 's) build_step" where
  "then_step r k =
     (case r of
        None \<Rightarrow> None
      | Some (Inl e, s) \<Rightarrow> Some (Inl e, s)
      | Some (Inr x, s) \<Rightarrow> k x s)"

definition fail_with_logs :: "string \<Rightarrow> string \<Rightarrow> 's \<Rightarrow> ('a, 's) build_step" where
  "fail_with_logs message logs s = map_option (\<lambda>t. (Inl (message @ nl @ t), s)) (trim_logs logs)"

definition finish_build :: "string \<Rightarrow> string \<Rightarrow> string \<Rightarrow> 's \<Rightarrow> (build_outcome, 's) build_step" where
  "finish_build out framework logs s =
     map_option (\<lambda>t. (Inr \<lparr>bu_deploy_root = out, bu_build_status = built_status framework, bu_build_logs = t\<rparr>, s)) (trim_logs logs)"

subsection \<open>Without a session\<close>

definition run_logged ::
    "'f build_os \<Rightarrow> string \<Rightarrow> string list \<Rightarrow> string \<Rightarrow> (string \<times> string) list \<Rightarrow> string \<Rightarrow> string \<Rightarrow> 'f \<Rightarrow> (string, 'f) build_step" where
  "run_logged B program args dir env failed logs f =
     (case run_cmd_with_timeout B program args dir env BUILD_TIMEOUT_SECS f of
        (Inl e, f') \<Rightarrow> Some (Inl e, f')
      | (Inr (ok, out), f') \<Rightarrow> if ok then Some (Inr (logs @ out), f') else fail_with_logs failed (logs @ out) f')"

definition install_deps ::
    "'f build_os \<Rightarrow> string \<Rightarrow> string \<Rightarrow> string list \<Rightarrow> (string \<times> string) list \<Rightarrow> string \<Rightarrow> 'f \<Rightarrow> (string, 'f) build_step" where
  "install_deps B dir pm install_args env logs f =
     (if bo_exists B (path_join dir ''package.json'') f then
        run_logged B pm install_args dir env (pm @ '' install failed'') (logs @ command_line pm install_args @ nl) f
      else Some (Inr logs, f))"

definition run_build ::
    "'f build_os \<Rightarrow> string \<Rightarrow> string \<Rightarrow> string list \<Rightarrow> (string \<times> string) list \<Rightarrow> string option \<Rightarrow> string \<Rightarrow> 'f \<Rightarrow>
     (string, 'f) build_step" where
  "run_build B dir pm build_args env build_command logs f =
     (case build_command of
        Some custom_cmd \<Rightarrow>
          (case custom_command custom_cmd of
             Inl e \<Rightarrow> Some (Inl e, f)
           | Inr (program, args) \<Rightarrow>
               run_logged B program args dir env ''Custom build command failed'' (logs @ nl @ ''$ '' @ custom_cmd @ nl) f)
      | None \<Rightarrow>
          run_logged B pm build_args dir env (pm @ '' build failed'') (logs @ nl @ command_line pm build_args @ nl) f)"

definition choose_output ::
    "'f build_os \<Rightarrow> string \<Rightarrow> string \<Rightarrow> string option \<Rightarrow> string \<Rightarrow> 'f \<Rightarrow> (build_outcome, 'f) build_step" where
  "choose_output B dir framework output_directory logs f =
     (case output_directory of
        Some custom_out \<Rightarrow>
          if is_directory B (path_join dir custom_out) f then
            finish_build (path_join dir custom_out) framework (logs @ nl @ ''Output directory: '' @ custom_out @ ''/'' @ nl) f
          else
            fail_with_logs (''Custom output directory '' @ [CHR 0x27] @ custom_out @ [CHR 0x27] @ '' not found after build.'') logs f
      | None \<Rightarrow>
          (case known_output B dir framework f of
             Some (out, shown) \<Rightarrow> finish_build out framework (logs @ nl @ ''Output directory: '' @ shown @ nl) f
           | None \<Rightarrow>
               fail_with_logs (''Build finished but no output folder found.'' @ nl @ ''Looked for: '' @ join_with '', '' OUTPUT_DIRS)
                 logs f))"

definition prepare_deploy_dir ::
    "'f build_os \<Rightarrow> string \<Rightarrow> (string, string) hmap option \<Rightarrow> string option \<Rightarrow> string option \<Rightarrow> 'f \<Rightarrow>
     (build_outcome, 'f) build_step" where
  "prepare_deploy_dir B dir env_vars build_command output_directory f =
     (let framework = detect_framework B dir f in
      if has_build_script B dir f \<or> build_command \<noteq> None then
        (let f1 = (if bo_exists B (path_join dir ''package.json'') f \<and> framework = ''Next.js''
                   then ensure_nextjs_static_export B dir f else f) in
         case detect_package_manager B dir f1 of
           (pm, install_args, build_args) \<Rightarrow>
             (let env = build_env B (framework = ''Nuxt'') env_vars;
                  logs = ''Detected framework: '' @ framework @ '' ('' @ pm @ '')'' @ nl @ nl
              in then_step (install_deps B dir pm install_args env logs f1) (\<lambda>logs f2.
                 then_step (run_build B dir pm build_args env build_command logs f2) (\<lambda>logs f3.
                 choose_output B dir framework output_directory logs f3))))
      else
        Some (Inr (fst (static_outcome B dir framework (''No build needed '' @ em_dash @ '' deploying as-is.'')
          ''No build script detected. Deployed repository as-is.'' f)), f))"

subsection \<open>With a session\<close>

definition run_shown ::
    "'f build_os \<Rightarrow> string \<Rightarrow> string list \<Rightarrow> string \<Rightarrow> (string \<times> string) list \<Rightarrow> string \<Rightarrow> 'f \<times> build_session \<Rightarrow>
     (string, 'f \<times> build_session) build_step" where
  "run_shown B program args dir env failed fs =
     (case run_cmd_streaming B program args dir env BUILD_TIMEOUT_SECS fs of
        (Inl e, fs') \<Rightarrow> Some (Inl e, fs')
      | (Inr (ok, out), fs') \<Rightarrow> Some (if ok then Inr out else Inl failed, fs'))"

definition say :: "string \<Rightarrow> 'f \<times> build_session \<Rightarrow> 'f \<times> build_session" where
  "say line fs = (fst fs, push_log line (snd fs))"

record deploy_config =
  dg_max_size_mb :: u64
  dg_build_cache_enabled :: bool
  dg_build_cache_dir :: string
  dg_build_cache_max_gb :: u64

definition deploy_config_default :: deploy_config where
  "deploy_config_default =
     \<lparr>dg_max_size_mb = 100, dg_build_cache_enabled = True, dg_build_cache_dir = ''/tmp/shadowmesh-build-cache'',
      dg_build_cache_max_gb = 10\<rparr>"

text \<open>The key of the cache, and the state after the attempt to restore it.\<close>

definition use_build_cache ::
    "prims \<Rightarrow> 'f build_os \<Rightarrow> deploy_config \<Rightarrow> string \<Rightarrow> 'f \<times> build_session \<Rightarrow> string option \<times> 'f \<times> build_session" where
  "use_build_cache P B cfg dir fs =
     (let cache_key = (if dg_build_cache_enabled cfg then compute_lockfile_hash P B dir (fst fs) else None) in
      (cache_key,
       (case cache_key of
          Some key \<Rightarrow>
            (case bo_mkdir B (dg_build_cache_dir cfg) (fst fs) of
               (Some e, f1) \<Rightarrow> say (''Build cache: cannot create cache dir ('' @ e @ '')'') (f1, snd fs)
             | (None, f1) \<Rightarrow> snd (restore_build_cache B (dg_build_cache_dir cfg) key dir (f1, snd fs)))
        | None \<Rightarrow>
            if dg_build_cache_enabled cfg then say ''Build cache: skipped (no lockfile found)'' fs else fs)))"

definition install_deps_streaming ::
    "'f build_os \<Rightarrow> deploy_config \<Rightarrow> string \<Rightarrow> string \<Rightarrow> string list \<Rightarrow> (string \<times> string) list \<Rightarrow> string option \<Rightarrow>
     'f \<times> build_session \<Rightarrow> (unit, 'f \<times> build_session) build_step" where
  "install_deps_streaming B cfg dir pm install_args env cache_key fs =
     (if bo_exists B (path_join dir ''package.json'') (fst fs) then
        then_step (run_shown B pm install_args dir env (pm @ '' install failed'') (say (command_line pm install_args) fs))
          (\<lambda>_ fs'. Some (Inr (),
             case cache_key of
               None \<Rightarrow> fs'
             | Some key \<Rightarrow> save_build_cache B (dg_build_cache_dir cfg) key dir (dg_build_cache_max_gb cfg) fs'))
      else Some (Inr (), fs))"

definition run_build_streaming ::
    "'f build_os \<Rightarrow> string \<Rightarrow> string \<Rightarrow> string list \<Rightarrow> (string \<times> string) list \<Rightarrow> string option \<Rightarrow> 'f \<times> build_session \<Rightarrow>
     (string, 'f \<times> build_session) build_step" where
  "run_build_streaming B dir pm build_args env build_command fs =
     (case build_command of
        Some custom_cmd \<Rightarrow>
          (let shown = ''$ '' @ custom_cmd; fs1 = say shown fs in
           case custom_command custom_cmd of
             Inl e \<Rightarrow> Some (Inl e, fs1)
           | Inr (program, args) \<Rightarrow>
               then_step (run_shown B program args dir env ''Custom build command failed'' fs1)
                 (\<lambda>out fs2. Some (Inr (nl @ shown @ nl @ out), fs2)))
      | None \<Rightarrow>
          (let shown = command_line pm build_args in
           then_step (run_shown B pm build_args dir env (pm @ '' build failed'') (say shown fs))
             (\<lambda>out fs2. Some (Inr (nl @ shown @ nl @ out), fs2))))"

definition choose_output_streaming ::
    "'f build_os \<Rightarrow> string \<Rightarrow> string \<Rightarrow> string option \<Rightarrow> string \<Rightarrow> 'f \<times> build_session \<Rightarrow>
     (build_outcome, 'f \<times> build_session) build_step" where
  "choose_output_streaming B dir framework output_directory logs fs =
     (case output_directory of
        Some custom_out \<Rightarrow>
          if is_directory B (path_join dir custom_out) (fst fs) then
            finish_build (path_join dir custom_out) framework logs (say (''Output directory: '' @ custom_out @ ''/'') fs)
          else
            Some (Inl (''Custom output directory '' @ [CHR 0x27] @ custom_out @ [CHR 0x27] @ '' not found after build.''), fs)
      | None \<Rightarrow>
          (case known_output B dir framework (fst fs) of
             Some (out, shown) \<Rightarrow> finish_build out framework logs (say (''Output directory: '' @ shown) fs)
           | None \<Rightarrow>
               Some (Inl (''Build finished but no output folder found. Looked for: '' @ join_with '', '' OUTPUT_DIRS), fs)))"

definition configure_next :: "'f build_os \<Rightarrow> bool \<Rightarrow> string \<Rightarrow> string \<Rightarrow> 'f \<times> build_session \<Rightarrow> 'f \<times> build_session" where
  "configure_next B is_dynamic framework dir fs =
     (if framework \<noteq> ''Next.js'' then fs
      else if is_dynamic then
        say ''Configured Next.js for standalone output (SSR mode)'' (ensure_nextjs_standalone B dir (fst fs), snd fs)
      else if bo_exists B (path_join dir ''package.json'') (fst fs) then (ensure_nextjs_static_export B dir (fst fs), snd fs)
      else fs)"

definition prepare_deploy_dir_streaming ::
    "prims \<Rightarrow> 'f build_os \<Rightarrow> string \<Rightarrow> (string, string) hmap option \<Rightarrow> string option \<Rightarrow> string option \<Rightarrow> deploy_config \<Rightarrow> bool \<Rightarrow>
     'f \<times> build_session \<Rightarrow> (build_outcome, 'f \<times> build_session) build_step" where
  "prepare_deploy_dir_streaming P B dir env_vars build_command output_directory cfg is_dynamic fs =
     (let framework = detect_framework B dir (fst fs) in
      if has_build_script B dir (fst fs) \<or> build_command \<noteq> None then
        (let fs1 = configure_next B is_dynamic framework dir fs in
         case detect_package_manager B dir (fst fs1) of
           (pm, install_args, build_args) \<Rightarrow>
             (let env = build_env B (framework = ''Nuxt'' \<and> \<not> is_dynamic) env_vars;
                  fs2 = say (''Detected framework: '' @ framework @ '' ('' @ pm @ '')'') fs1 in
              case use_build_cache P B cfg dir fs2 of
                (cache_key, fs3) \<Rightarrow>
                  then_step (install_deps_streaming B cfg dir pm install_args env cache_key fs3) (\<lambda>_ fs4.
                  then_step (run_build_streaming B dir pm build_args env build_command fs4) (\<lambda>logs fs5.
                  choose_output_streaming B dir framework output_directory logs fs5))))
      else
        (case static_outcome B dir framework ''No build needed.'' ''No build script detected.'' (fst fs) of
           (outcome, line) \<Rightarrow> Some (Inr outcome, say line fs)))"

end
