(* ===== verification/BuildSafety.thy ===== *)
theory BuildSafety
  imports BuildPipeline
begin

text \<open>
  What holds of the build pipeline: what an archive can write, which programs and which variables of the gateway a
  build gets, that the plain and the streamed build publish the same, what the stream of a session shows, and which
  cache entries are evicted.
\<close>

section \<open>Archives\<close>

lemma str_contains_split: "str_contains s sub \<longleftrightarrow> (\<exists>a b. s = a @ sub @ b)"
proof (induction s)
  case Nil
  show ?case by simp
next
  case (Cons c cs)
  have "(\<exists>a b. c # cs = a @ sub @ b) \<longleftrightarrow> (\<exists>b. c # cs = sub @ b) \<or> (\<exists>a b. cs = a @ sub @ b)"
    by (metis append_Cons append_Nil list.exhaust list.inject)
  then show ?case by (simp add: Cons.IH starts_with_iff)
qed

lemma split_at_component: "w \<in> set (split_at d s) \<Longrightarrow> \<exists>a b. s = a @ w @ b"
proof (induction d s arbitrary: w rule: split_at.induct)
  case (1 d)
  then show ?case by simp
next
  case (2 d c cs)
  show ?case
  proof (cases "c = d")
    case True
    then have "w = [] \<or> w \<in> set (split_at d cs)" using "2.prems" by simp
    then show ?thesis
    proof
      assume "w = []"
      then have "c # cs = [] @ w @ c # cs" by simp
      then show ?thesis by blast
    next
      assume "w \<in> set (split_at d cs)"
      then obtain a b where "cs = a @ w @ b" using "2.IH"(1) True by blast
      then have "c # cs = (c # a) @ w @ b" by simp
      then show ?thesis by blast
    qed
  next
    case False
    obtain v vs where v: "split_at d cs = v # vs" using split_at_not_Nil by (metis list.exhaust)
    then have "w = c # v \<or> w \<in> set vs" using "2.prems" False by simp
    then show ?thesis
    proof
      assume w: "w = c # v"
      have "\<exists>b. cs = v @ b" using v
      proof (induction cs arbitrary: v vs)
        case Nil then show ?case by simp
      next
        case (Cons x xs)
        then show ?case by (cases "x = d") (auto split: list.splits)
      qed
      then show ?thesis using w by (metis append_Cons append_Nil)
    next
      assume "w \<in> set vs"
      then have "w \<in> set (split_at d cs)" using v by simp
      then obtain a b where "cs = a @ w @ b" using "2.IH"(2) False by blast
      then have "c # cs = (c # a) @ w @ b" by simp
      then show ?thesis by blast
    qed
  qed
qed

text \<open>A path below the directory: not empty, not absolute, and none of its components is the parent.\<close>

definition contained :: "string \<Rightarrow> bool" where
  "contained p \<longleftrightarrow> p \<noteq> [] \<and> \<not> starts_with p ''/'' \<and> ''..'' \<notin> set (split_at CHR ''/'' p)"

lemma containedI: "p \<noteq> [] \<Longrightarrow> \<not> starts_with p ''/'' \<Longrightarrow> \<not> str_contains p ''..'' \<Longrightarrow> contained p"
  unfolding contained_def using split_at_component[of "''..''" "CHR ''/''" p] by (metis str_contains_split)

definition extracted_ok :: "extracted \<Rightarrow> bool" where
  "extracted_ok x \<longleftrightarrow> list_all contained (ex_dirs x) \<and> list_all (contained \<circ> fst) (ex_files x) \<and>
     ex_total x = sum_list (map (length \<circ> snd) (ex_files x)) \<and> ex_total x \<le> MAX_UNCOMPRESSED_SIZE"

lemma read_entry_ok:
  "read_entry rs err t acc = Inr (content, t') \<Longrightarrow> t \<le> MAX_UNCOMPRESSED_SIZE \<Longrightarrow>
   t' = t + (length content - length acc) \<and> length acc \<le> length content \<and> t' \<le> MAX_UNCOMPRESSED_SIZE"
  by (induction rs err t acc rule: read_entry.induct) (auto split: option.splits if_splits)

lemma extract_entry_ok:
  assumes "extract_entry fails pre e x = Inr x'" "extracted_ok x"
  shows "extracted_ok x' \<and> length (ex_dirs x') + length (ex_files x') \<le> Suc (length (ex_dirs x) + length (ex_files x))"
  using assms
  by (auto simp: extract_entry_def extracted_ok_def Let_def intro!: containedI split: if_splits option.splits sum.splits
      dest!: read_entry_ok)

lemma extract_entries_ok:
  "extract_entries fails pre es x = Inr x' \<Longrightarrow> extracted_ok x \<Longrightarrow>
   extracted_ok x' \<and> length (ex_dirs x') + length (ex_files x') \<le> length (ex_dirs x) + length (ex_files x) + length es"
proof (induction fails pre es x rule: extract_entries.induct)
  case (3 fails pre e es x)
  then obtain y where y: "extract_entry fails pre e x = Inr y" by (auto split: sum.splits)
  with 3 show ?case using extract_entry_ok[OF y] by force
qed auto


definition demo_zip :: "(string + zip_entry) list" where
  "demo_zip =
     [Inr \<lparr>ze_name = ''site-main/'', ze_is_dir = True, ze_reads = [], ze_error = None\<rparr>,
      Inr \<lparr>ze_name = ''site-main/pages/'', ze_is_dir = True, ze_reads = [], ze_error = None\<rparr>,
      Inr \<lparr>ze_name = ''site-main/pages/index.js'', ze_is_dir = False, ze_reads = [[1, 2], [3], []], ze_error = None\<rparr>]"

lemma demo_zip_extracted:
  "extract_github_zip (Inr ''/tmp/x'') (Inr demo_zip) (\<lambda>_. None) =
   Inr \<lparr>ex_dirs = [''pages/''], ex_files = [(''pages/index.js'', [1, 2, 3])], ex_total = 3\<rparr>"
  by (simp add: extract_github_zip_def demo_zip_def extract_entry_def relative_name_def starts_with_def ends_with_def
      rust_strip_suffix_def MAX_FILE_COUNT_def MAX_UNCOMPRESSED_SIZE_def Let_def)


text \<open>The test for two dots is made on the text of the path and not on its components, so it also refuses names that
  leave no directory, as the files of the catch-all routes of Next.js.\<close>

lemma extract_entry_refuses:
  "str_contains (relative_name pre (ze_name e)) ''..'' \<Longrightarrow> \<exists>m. extract_entry fails pre e x = Inl m"
  by (auto simp: extract_entry_def Let_def)

lemma extract_entries_refuses:
  "Inr e \<in> set es \<Longrightarrow> str_contains (relative_name pre (ze_name e)) ''..'' \<Longrightarrow> \<exists>m. extract_entries fails pre es x = Inl m"
proof (induction fails pre es x rule: extract_entries.induct)
  case (3 fails pre e' es x)
  show ?case
  proof (cases "extract_entry fails pre e' x")
    case (Inl m)
    then show ?thesis by simp
  next
    case (Inr x')
    obtain m where "extract_entry fails pre e x = Inl m" using extract_entry_refuses[OF 3(3)] by blast
    with Inr have "e' \<noteq> e" by auto
    then show ?thesis using 3 Inr by auto
  qed
qed auto

theorem catch_all_routes_refused:
  "\<exists>m. extract_github_zip (Inr ''/tmp/x'')
     (Inr (demo_zip @ Inr \<lparr>ze_name = ''site-main/pages/[...slug].js'', ze_is_dir = False, ze_reads = [], ze_error = None\<rparr> # rest))
     fails = Inl m"
proof -
  let ?e = "\<lparr>ze_name = ''site-main/pages/[...slug].js'', ze_is_dir = False, ze_reads = [], ze_error = None\<rparr>"
  have "str_contains (relative_name ''site-main/'' (ze_name ?e)) ''..''"
    by (simp add: relative_name_def starts_with_def)
  then have "\<exists>m. extract_entries fails ''site-main/'' (tl demo_zip @ Inr ?e # rest) x = Inl m" for x
    by (intro extract_entries_refuses[where e = ?e]) auto
  then show ?thesis
    by (simp add: extract_github_zip_def Let_def demo_zip_def ends_with_def rust_strip_suffix_def)
qed

section \<open>What a build gets of the gateway\<close>

text \<open>Two hosts with the same files, on which the allowed programs behave alike in the directory of the build and the
  passed variables have the same values; anything else may differ.\<close>

definition alike_for_builds :: "string \<Rightarrow> 'f build_os \<Rightarrow> 'f build_os \<Rightarrow> bool" where
  "alike_for_builds dir B B' \<longleftrightarrow> B' = B\<lparr>bo_run := bo_run B', bo_var := bo_var B'\<rparr> \<and>
     (\<forall>p \<in> set ALLOWED_BUILD_BINARIES. \<forall>d args. bo_run B' d p args dir = bo_run B d p args dir) \<and>
     (\<forall>v \<in> set BUILD_ENV_ALLOWLIST. bo_var B' v = bo_var B v)"

lemma alike_fields:
  assumes "alike_for_builds dir B B'"
  shows "bo_exists B' = bo_exists B" "bo_is_dir B' = bo_is_dir B" "bo_read_text B' = bo_read_text B" "bo_read B' = bo_read B"
    "bo_write B' = bo_write B" "bo_entries B' = bo_entries B" "bo_mkdir B' = bo_mkdir B" "bo_walk B' = bo_walk B"
    "bo_copy_file B' = bo_copy_file B" "bo_symlink B' = bo_symlink B"
    "bo_remove_dir B' = bo_remove_dir B" "bo_touch B' = bo_touch B" "bo_cache_dirs B' = bo_cache_dirs B"
    "bo_has_build B' = bo_has_build B"
proof -
  have e: "B' = B\<lparr>bo_run := bo_run B', bo_var := bo_var B'\<rparr>" using assms by (simp add: alike_for_builds_def)
  show "bo_exists B' = bo_exists B" by (subst e) simp
  show "bo_is_dir B' = bo_is_dir B" by (subst e) simp
  show "bo_read_text B' = bo_read_text B" by (subst e) simp
  show "bo_read B' = bo_read B" by (subst e) simp
  show "bo_write B' = bo_write B" by (subst e) simp
  show "bo_entries B' = bo_entries B" by (subst e) simp
  show "bo_mkdir B' = bo_mkdir B" by (subst e) simp
  show "bo_walk B' = bo_walk B" by (subst e) simp
  show "bo_copy_file B' = bo_copy_file B" by (subst e) simp
  show "bo_symlink B' = bo_symlink B" by (subst e) simp
  show "bo_remove_dir B' = bo_remove_dir B" by (subst e) simp
  show "bo_touch B' = bo_touch B" by (subst e) simp
  show "bo_cache_dirs B' = bo_cache_dirs B" by (subst e) simp
  show "bo_has_build B' = bo_has_build B" by (subst e) simp
qed

lemma alike_env: "alike_for_builds dir B B' \<Longrightarrow> build_env B' n e = build_env B n e"
  by (simp add: build_env_def alike_for_builds_def List.map_filter_def BUILD_ENV_ALLOWLIST_def)

lemma alike_run:
  "alike_for_builds dir B B' \<Longrightarrow> p \<in> set ALLOWED_BUILD_BINARIES \<Longrightarrow> run_logged B' p args dir env m l f = run_logged B p args dir env m l f"
  by (simp add: run_logged_def run_cmd_with_timeout_def alike_for_builds_def)

lemma alike_shown:
  "alike_for_builds dir B B' \<Longrightarrow> p \<in> set ALLOWED_BUILD_BINARIES \<Longrightarrow> run_shown B' p args dir env m fs = run_shown B p args dir env m fs"
  by (simp add: run_shown_def run_cmd_streaming_def alike_for_builds_def)

lemma package_manager_allowed: "detect_package_manager B dir f = (pm, i, b) \<Longrightarrow> pm \<in> set ALLOWED_BUILD_BINARIES"
  by (auto simp: detect_package_manager_def ALLOWED_BUILD_BINARIES_def split: if_splits)

lemma custom_command_allowed: "custom_command c = Inr (p, args) \<Longrightarrow> p \<in> set ALLOWED_BUILD_BINARIES"
  by (auto simp: custom_command_def split: list.splits if_splits)

lemma alike_build_step:
  "alike_for_builds dir B B' \<Longrightarrow> pm \<in> set ALLOWED_BUILD_BINARIES \<Longrightarrow>
   run_build B' dir pm b env c l f = run_build B dir pm b env c l f"
  by (auto simp: run_build_def alike_run dest!: custom_command_allowed split: option.splits sum.splits)

lemma alike_build_step_streaming:
  "alike_for_builds dir B B' \<Longrightarrow> pm \<in> set ALLOWED_BUILD_BINARIES \<Longrightarrow>
   run_build_streaming B' dir pm b env c fs = run_build_streaming B dir pm b env c fs"
  by (auto simp: run_build_streaming_def alike_shown Let_def dest!: custom_command_allowed split: option.splits sum.splits)

lemma alike_queries:
  assumes "alike_for_builds dir B B'"
  shows "any_exists B' = any_exists B" "detect_framework B' = detect_framework B" "has_build_script B' = has_build_script B"
    "detect_package_manager B' = detect_package_manager B" "known_output B' = known_output B"
    "is_directory B' = is_directory B" "static_outcome B' = static_outcome B" "patch_next_config B' = patch_next_config B"
proof -
  note f = alike_fields[OF assms]
  show e: "any_exists B' = any_exists B" by (intro ext) (simp add: any_exists_def f)
  show "detect_framework B' = detect_framework B" by (intro ext) (simp add: detect_framework_def e)
  show "has_build_script B' = has_build_script B" by (intro ext) (unfold has_build_script_def f, rule refl)
  show "detect_package_manager B' = detect_package_manager B" by (intro ext) (simp add: detect_package_manager_def e)
  show d: "is_directory B' = is_directory B" by (intro ext) (simp add: is_directory_def f)
  have "angular_output B' es fl = angular_output B es fl" for es fl by (induction es) (simp_all add: f)
  then have a: "angular_output B' = angular_output B" by (intro ext)
  show "known_output B' = known_output B" by (intro ext) (unfold known_output_def d f a, rule refl)
  show "static_outcome B' = static_outcome B" by (intro ext) (unfold static_outcome_def f, rule refl)
  show "patch_next_config B' = patch_next_config B" by (intro ext) (unfold patch_next_config_def f, rule refl)
qed

lemma then_step_cong: "r = r' \<Longrightarrow> (\<And>x s. k x s = k' x s) \<Longrightarrow> then_step r k = then_step r' k'"
  by (simp add: then_step_def split: option.splits sum.splits prod.splits)

lemma alike_plain:
  assumes "alike_for_builds dir B B'"
  shows "prepare_deploy_dir B' dir env c od f = prepare_deploy_dir B dir env c od f"
proof -
  note q = alike_queries[OF assms] alike_fields[OF assms] alike_env[OF assms]
  have n: "ensure_nextjs_static_export B' = ensure_nextjs_static_export B" by (unfold ensure_nextjs_static_export_def q, rule refl)
  have i: "install_deps B' dir pm a e l g = install_deps B dir pm a e l g" if "pm \<in> set ALLOWED_BUILD_BINARIES" for pm a e l g
    by (simp add: install_deps_def q alike_run[OF assms that])
  have o: "choose_output B' dir fw od l g = choose_output B dir fw od l g" for fw l g
    by (unfold choose_output_def q, rule refl)
  show ?thesis
    by (auto simp: prepare_deploy_dir_def q n Let_def i alike_build_step[OF assms] o dest!: package_manager_allowed
        intro!: then_step_cong split: prod.splits)
qed

lemma copy_same:
  "bo_mkdir B' = bo_mkdir B \<Longrightarrow> bo_copy_file B' = bo_copy_file B \<Longrightarrow> bo_symlink B' = bo_symlink B \<Longrightarrow>
   copy_tree_to B' src dst t f = copy_tree_to B src dst t f"
  "bo_mkdir B' = bo_mkdir B \<Longrightarrow> bo_copy_file B' = bo_copy_file B \<Longrightarrow> bo_symlink B' = bo_symlink B \<Longrightarrow>
   copy_entries_to B' src dst es f = copy_entries_to B src dst es f"
  by (induction B src dst t f and B src dst es f rule: copy_tree_to_copy_entries_to.induct)
    (simp_all split: prod.splits option.splits sum.splits)

lemma alike_cache:
  assumes "alike_for_builds dir B B'"
  shows "use_build_cache P B' = use_build_cache P B" "save_build_cache B' = save_build_cache B"
proof -
  note q = alike_queries[OF assms] alike_fields[OF assms]
  have "lockfile_hash P B' d ns f = lockfile_hash P B d ns f" for d ns f
    by (induction ns) (simp_all add: q cong: option.case_cong)
  then have l: "lockfile_hash P B' = lockfile_hash P B" by (intro ext)
  have c: "compute_lockfile_hash P B' = compute_lockfile_hash P B" by (intro ext) (unfold compute_lockfile_hash_def l, rule refl)
  have t: "copy_tree_to B' = copy_tree_to B" by (intro ext copy_same(1)) (simp_all add: q)
  have w: "copy_dir_recursive B' = copy_dir_recursive B" by (intro ext) (unfold copy_dir_recursive_def q t, rule refl)
  have r: "restore_build_cache B' = restore_build_cache B" by (intro ext) (unfold restore_build_cache_def q w, rule refl)
  show "use_build_cache P B' = use_build_cache P B" by (intro ext) (unfold use_build_cache_def q c r, rule refl)
  have "evict_entries B' m es t fs = evict_entries B m es t fs" for m es t fs
    by (induction es arbitrary: t fs) (simp_all add: q split: prod.splits option.splits)
  then have e: "evict_entries B' = evict_entries B" by (intro ext)
  have v: "evict_build_cache B' = evict_build_cache B" by (intro ext) (unfold evict_build_cache_def q e, rule refl)
  show "save_build_cache B' = save_build_cache B" by (intro ext) (unfold save_build_cache_def q w v, rule refl)
qed

lemma alike_streaming:
  assumes "alike_for_builds dir B B'"
  shows "prepare_deploy_dir_streaming P B' dir env c od cfg dyn fs = prepare_deploy_dir_streaming P B dir env c od cfg dyn fs"
proof -
  note q = alike_queries[OF assms] alike_fields[OF assms] alike_env[OF assms] alike_cache[OF assms]
  have n: "configure_next B' = configure_next B"
    by (intro ext) (unfold configure_next_def ensure_nextjs_static_export_def ensure_nextjs_standalone_def q, rule refl)
  have i: "install_deps_streaming B' cfg dir pm a e k g = install_deps_streaming B cfg dir pm a e k g"
    if "pm \<in> set ALLOWED_BUILD_BINARIES" for pm a e k g
    by (unfold install_deps_streaming_def q alike_shown[OF assms that], rule refl)
  have o: "choose_output_streaming B' dir fw od l g = choose_output_streaming B dir fw od l g" for fw l g
    by (unfold choose_output_streaming_def q, rule refl)
  show ?thesis
    by (auto simp: prepare_deploy_dir_streaming_def q n Let_def i alike_build_step_streaming[OF assms] o
        dest!: package_manager_allowed intro!: then_step_cong split: prod.splits)
qed


text \<open>A host whose files are a list of paths: a build makes the directory \<open>dist\<close>.\<close>

definition demo_os :: "string list build_os" where
  "demo_os =
     \<lparr>bo_exists = \<lambda>p f. p \<in> set f, bo_is_dir = \<lambda>p f. p \<in> set f, bo_read_text = \<lambda>_ _. Some ''{}'', bo_read = \<lambda>_ _. None,
      bo_write = \<lambda>_ _ f. f, bo_entries = \<lambda>_ _. None,
      bo_run = \<lambda>_ p args dir env t f. (Finished True ''done'' [], (dir @ ''/dist'') # f),
      bo_mkdir = \<lambda>_ f. (None, f), bo_walk = \<lambda>_ _. CopyFile,
      bo_copy_file = \<lambda>_ _ f. (None, f), bo_symlink = \<lambda>_ _ f. (None, f), bo_remove_dir = \<lambda>_ f. (None, f), bo_touch = \<lambda>_ f. f,
      bo_cache_dirs = \<lambda>_ _. None, bo_var = \<lambda>k. if k = ''PATH'' then Some ''/bin'' else None, bo_has_build = \<lambda>_. True\<rparr>"

definition hostile_os :: "string list build_os" where
  "hostile_os = demo_os\<lparr>
     bo_run := \<lambda>d p args dir env t f. if p = ''rm'' then (Finished True [] [], []) else bo_run demo_os d p args dir env t f,
     bo_var := \<lambda>k. if k = ''SHADOWMESH_AUTH_SECRET'' then Some ''secret'' else bo_var demo_os k\<rparr>"

lemma hostile_alike: "alike_for_builds ''/b'' demo_os hostile_os"
  by (simp add: alike_for_builds_def hostile_os_def ALLOWED_BUILD_BINARIES_def BUILD_ENV_ALLOWLIST_def)


section \<open>The two builds\<close>

definition same_kind_of_result :: "string + build_outcome \<Rightarrow> string + build_outcome \<Rightarrow> bool" where
  "same_kind_of_result r r' \<longleftrightarrow>
     (case (r, r') of
        (Inl _, Inl _) \<Rightarrow> True
      | (Inr a, Inr b) \<Rightarrow> bu_deploy_root a = bu_deploy_root b \<and> bu_build_status a = bu_build_status b
      | _ \<Rightarrow> False)"

text \<open>A plain and a shown step that did the same to the files.\<close>

definition steps_agree :: "(string + 'a) \<times> 'f \<Rightarrow> (string + 'b) \<times> 'f \<times> build_session \<Rightarrow> bool" where
  "steps_agree r r' \<longleftrightarrow> snd r = fst (snd r') \<and> isl (fst r) = isl (fst r')"

lemma run_agree:
  assumes "bo_run B True = bo_run B False" "run_logged B p args dir env m l f = Some r" "run_shown B p args dir env m' fs = Some r'"
    "fst fs = f"
  shows "steps_agree r r'"
  using assms
  by (auto simp: run_logged_def run_shown_def run_cmd_with_timeout_def run_cmd_streaming_def steps_agree_def fail_with_logs_def Let_def
      split: prod.splits sum.splits command_end.splits if_splits option.splits)

lemma fst_say [simp]: "fst (say l fs) = fst fs"
  by (simp add: say_def)

lemma install_agree:
  assumes "bo_run B True = bo_run B False" "install_deps B dir pm a env l f = Some r"
    "install_deps_streaming B cfg dir pm a env None fs = Some r'" "fst fs = f"
  shows "steps_agree r r'"
proof (cases "bo_exists B (path_join dir ''package.json'') f")
  case False
  then show ?thesis using assms by (auto simp: install_deps_def install_deps_streaming_def steps_agree_def)
next
  case True
  then obtain q where q: "run_shown B pm a dir env (pm @ '' install failed'') (say (command_line pm a) fs) = Some q"
    "then_step (Some q) (\<lambda>_ fs'. Some (Inr (), fs')) = Some r'"
    using assms by (auto simp: install_deps_streaming_def then_step_def split: option.splits)
  have "steps_agree r q"
    using assms True by (intro run_agree[OF assms(1) _ q(1)]) (auto simp: install_deps_def)
  then show ?thesis using q(2) by (auto simp: then_step_def steps_agree_def split: sum.splits prod.splits)
qed

lemma build_agree:
  assumes "bo_run B True = bo_run B False" "run_build B dir pm b env c l f = Some r"
    "run_build_streaming B dir pm b env c fs = Some r'" "fst fs = f"
  shows "steps_agree r r'"
proof -
  have *: "steps_agree r r'"
    if l: "run_logged B p args dir env m l2 f = Some r"
      and t: "then_step (run_shown B p args dir env m' fs2) (\<lambda>out fs2. Some (Inr (g out), fs2)) = Some r'"
      and eq: "fst fs2 = f"
    for p args m m' l2 fs2 and g :: "string \<Rightarrow> string"
  proof -
    obtain q where q: "run_shown B p args dir env m' fs2 = Some q" using t by (auto simp: then_step_def split: option.splits)
    have "steps_agree r q" by (rule run_agree[OF assms(1) l q eq])
    then show ?thesis using t q by (auto simp: then_step_def steps_agree_def split: sum.splits prod.splits)
  qed
  show ?thesis
  proof (cases c)
    case None
    then show ?thesis using assms *[of pm b] by (auto simp: run_build_def run_build_streaming_def Let_def)
  next
    case (Some cmd)
    show ?thesis
    proof (cases "custom_command cmd")
      case (Inl e)
      then show ?thesis using assms Some by (auto simp: run_build_def run_build_streaming_def Let_def steps_agree_def)
    next
      case (Inr pa)
      then show ?thesis using assms Some *[of "fst pa" "snd pa"]
        by (auto simp: run_build_def run_build_streaming_def Let_def split: prod.splits)
    qed
  qed
qed

lemma output_agree:
  assumes "choose_output B dir fw od l f = Some r" "choose_output_streaming B dir fw od l' fs = Some r'" "fst fs = f"
  shows "snd r = fst (snd r') \<and> same_kind_of_result (fst r) (fst r')"
  using assms
  by (auto simp: choose_output_def choose_output_streaming_def finish_build_def fail_with_logs_def same_kind_of_result_def
      split: option.splits prod.splits if_splits)

lemma then_step_Some:
  "then_step (Some (r, s)) k = Some x \<Longrightarrow> (\<exists>e. r = Inl e \<and> x = (Inl e, s)) \<or> (\<exists>y. r = Inr y \<and> k y s = Some x)"
  by (cases r) (auto simp: then_step_def)

lemma then_step_agree:
  assumes "then_step a k = Some r" "then_step a' k' = Some r'"
    and "\<And>x x'. a = Some x \<Longrightarrow> a' = Some x' \<Longrightarrow> steps_agree x x'"
    and "\<And>y y' s s'. k y s = Some r \<Longrightarrow> k' y' s' = Some r' \<Longrightarrow> fst s' = s \<Longrightarrow> snd r = fst (snd r') \<and> same_kind_of_result (fst r) (fst r')"
  shows "snd r = fst (snd r') \<and> same_kind_of_result (fst r) (fst r')"
proof -
  obtain x where x: "a = Some x" using assms(1) by (auto simp: then_step_def split: option.splits)
  obtain x' where x': "a' = Some x'" using assms(2) by (auto simp: then_step_def split: option.splits)
  have s: "steps_agree x x'" by (rule assms(3)[OF x x'])
  show ?thesis
  proof (cases "fst x")
    case (Inl e)
    then obtain e' where "fst x' = Inl e'" using s by (auto simp: steps_agree_def isl_def)
    then show ?thesis using Inl assms(1,2) x x' s
      by (cases x; cases x') (auto simp: then_step_def same_kind_of_result_def steps_agree_def)
  next
    case (Inr y)
    then obtain y' where "fst x' = Inr y'" using s by (cases "fst x'") (auto simp: steps_agree_def)
    then show ?thesis using Inr assms(1,2) x x' s
      by (intro assms(4)[of y "snd x" y' "snd x'"]) (cases x; cases x'; auto simp: then_step_def steps_agree_def)+
  qed
qed

lemma static_agree: "fst (static_outcome B dir fw a b f) = o1 \<Longrightarrow> fst (static_outcome B dir fw a' b' f) = o2 \<Longrightarrow>
   bu_deploy_root o1 = bu_deploy_root o2 \<and> bu_build_status o1 = bu_build_status o2"
  by (auto simp: static_outcome_def Let_def)


definition demo_deploy_config :: deploy_config where
  "demo_deploy_config = deploy_config_default\<lparr>dg_build_cache_enabled := False\<rparr>"

lemma demo_plain:
  "prepare_deploy_dir demo_os ''/b'' None None None [''/b/package.json''] =
   Some (Inr \<lparr>bu_deploy_root = ''/b/dist'', bu_build_status = ''Built (Node.js)'',
     bu_build_logs = ''Detected framework: Node.js (npm)'' @ nl @ nl @ ''$ npm ci'' @ nl @ ''done'' @ nl @ ''$ npm run build'' @ nl @
       ''done'' @ nl @ ''Output directory: dist/'' @ nl\<rparr>, [''/b/dist'', ''/b/dist'', ''/b/package.json''])"
  by (simp add: prepare_deploy_dir_def detect_framework_def framework_files_def any_exists_def demo_os_def path_join_def starts_with_def
      has_build_script_def detect_package_manager_def install_deps_def run_logged_def run_cmd_with_timeout_def then_step_def
      run_build_def choose_output_def known_output_def is_directory_def OUTPUT_DIRS_def finish_build_def trim_logs_def
      built_status_def command_line_def Let_def nl_def)

lemma demo_streamed:
  "\<exists>l s. prepare_deploy_dir_streaming P demo_os ''/b'' None None None demo_deploy_config False ([''/b/package.json''], session_new) =
   Some (Inr \<lparr>bu_deploy_root = ''/b/dist'', bu_build_status = ''Built (Node.js)'', bu_build_logs = l\<rparr>,
     [''/b/dist'', ''/b/dist'', ''/b/package.json''], s)"
  by (simp add: prepare_deploy_dir_streaming_def detect_framework_def framework_files_def any_exists_def demo_os_def path_join_def
      starts_with_def has_build_script_def detect_package_manager_def install_deps_streaming_def run_shown_def run_cmd_streaming_def
      then_step_def run_build_streaming_def choose_output_streaming_def known_output_def is_directory_def OUTPUT_DIRS_def
      finish_build_def trim_logs_def built_status_def command_line_def Let_def nl_def say_def configure_next_def use_build_cache_def
      demo_deploy_config_def text_lines_def rust_strip_suffix_def)


section \<open>The stream of a session\<close>

text \<open>What happens to a session: lines, and once its end.\<close>

datatype session_op = LineLogged string | BuildCompleted deploy_payload | BuildFailed string

definition session_step :: "(deploy_payload \<Rightarrow> string) \<Rightarrow> session_op \<Rightarrow> build_session \<Rightarrow> build_session" where
  "session_step render op s =
     (case op of
        LineLogged l \<Rightarrow> push_log l s
      | BuildCompleted r \<Rightarrow> session_complete render r s
      | BuildFailed e \<Rightarrow> session_fail e s)"

definition log_event :: "string \<Rightarrow> build_event" where
  "log_event l = \<lparr>ev_type = ''log'', ev_data = l\<rparr>"

definition end_events :: "(deploy_payload \<Rightarrow> string) \<Rightarrow> build_session \<Rightarrow> build_event list" where
  "end_events render s =
     (case bs_result s of
        None \<Rightarrow> []
      | Some (Inr r) \<Rightarrow> [\<lparr>ev_type = ''complete'', ev_data = render r\<rparr>]
      | Some (Inl e) \<Rightarrow> [\<lparr>ev_type = ''error'', ev_data = e\<rparr>])"

definition session_ok :: "(deploy_payload \<Rightarrow> string) \<Rightarrow> build_session \<Rightarrow> bool" where
  "session_ok render s \<longleftrightarrow> bs_sent s = map log_event (bs_logs s) @ end_events render s \<and>
     (bs_status s = SsBuilding \<longleftrightarrow> bs_result s = None) \<and> (bs_status s = SsSucceeded \<longleftrightarrow> (\<exists>r. bs_result s = Some (Inr r)))"

lemma session_ok_new: "session_ok render session_new"
  by (simp add: session_ok_def session_new_def end_events_def)

lemma push_line_fields:
  "bs_status (push_line l s) = bs_status s" "bs_result (push_line l s) = bs_result s"
  "\<exists>ls. bs_logs (push_line l s) = bs_logs s @ ls \<and> bs_sent (push_line l s) = bs_sent s @ map log_event ls"
  by (simp_all add: push_line_def Let_def log_event_def)

lemma push_log_fields:
  "bs_status (push_log l s) = bs_status s \<and> bs_result (push_log l s) = bs_result s \<and>
   (\<exists>ls. bs_logs (push_log l s) = bs_logs s @ ls \<and> bs_sent (push_log l s) = bs_sent s @ map log_event ls)"
proof -
  have "bs_status (fold push_line xs s) = bs_status s \<and> bs_result (fold push_line xs s) = bs_result s \<and>
   (\<exists>ls. bs_logs (fold push_line xs s) = bs_logs s @ ls \<and> bs_sent (fold push_line xs s) = bs_sent s @ map log_event ls)" for xs
  proof (induction xs arbitrary: s)
    case Nil
    show ?case by simp
  next
    case (Cons x xs)
    obtain a where a: "bs_logs (push_line x s) = bs_logs s @ a" "bs_sent (push_line x s) = bs_sent s @ map log_event a"
      using push_line_fields(3) by blast
    obtain b where "bs_logs (fold push_line xs (push_line x s)) = bs_logs (push_line x s) @ b"
      "bs_sent (fold push_line xs (push_line x s)) = bs_sent (push_line x s) @ map log_event b"
      using Cons.IH by blast
    then show ?case using a Cons.IH[of "push_line x s"] push_line_fields(1,2)
      by (intro conjI exI[of _ "a @ b"]) simp_all
  qed
  then show ?thesis by (simp add: push_log_def)
qed

lemma session_ok_push: "session_ok render s \<Longrightarrow> bs_status s = SsBuilding \<Longrightarrow> session_ok render (push_log l s)"
  using push_log_fields[of l s] by (auto simp: session_ok_def end_events_def)

inductive session_life :: "(deploy_payload \<Rightarrow> string) \<Rightarrow> build_session \<Rightarrow> build_session \<Rightarrow> bool"
  for render where
  now: "session_life render s s"
| later: "session_life render s t \<Longrightarrow> bs_status t = SsBuilding \<Longrightarrow> session_life render s (session_step render op t)"

lemma session_step_ok: "session_ok render s \<Longrightarrow> bs_status s = SsBuilding \<Longrightarrow> session_ok render (session_step render op s)"
  by (cases op) (auto simp: session_step_def session_ok_push, auto simp: session_ok_def end_events_def session_complete_def session_fail_def)

lemma session_life_ok: "session_life render s t \<Longrightarrow> session_ok render s \<Longrightarrow> session_ok render t"
  by (induction rule: session_life.induct) (auto intro: session_step_ok)

lemma session_life_sent:
  "session_life render s t \<Longrightarrow> \<exists>es. bs_sent t = bs_sent s @ es"
proof (induction rule: session_life.induct)
  case (later s t op)
  then obtain es where "bs_sent t = bs_sent s @ es" by blast
  moreover have "\<exists>es. bs_sent (session_step render op t) = bs_sent t @ es"
    using push_log_fields by (cases op) (auto simp: session_step_def session_complete_def session_fail_def)
  ultimately show ?case by force
qed simp

lemma session_life_fixed: "session_life render s t \<Longrightarrow> bs_status s \<noteq> SsBuilding \<Longrightarrow> t = s"
  by (induction rule: session_life.induct) auto

lemma until_final_logs: "until_final (map log_event ls @ es) = map log_event ls @ until_final es"
  by (induction ls) (simp_all add: log_event_def is_final_def)

lemma until_final_end: "until_final (end_events render s) = end_events render s"
  by (auto simp: end_events_def is_final_def split: option.splits sum.splits)

lemma until_final_ok:
  assumes "session_ok render t" "bs_sent t = map log_event ls @ es"
  shows "until_final es = es"
proof -
  have "until_final (bs_sent t) = bs_sent t"
    using assms(1) by (simp add: session_ok_def until_final_logs until_final_end)
  then show ?thesis using assms(2) by (simp add: until_final_logs)
qed

text \<open>A subscriber sees the whole build. Whenever it joins, if the handler reads logs, status and result and
  subscribes with nothing in between, its stream is exactly what the session sends over its life: every line once and
  in order, and the final event.\<close>

theorem stream_shows_the_build:
  assumes "session_life render session_new s" "session_life render s t"
  shows "deploy_stream render s s s s t = bs_sent t"
proof -
  have s: "session_ok render s" and t: "session_ok render t"
    using session_life_ok assms session_ok_new by blast+
  have l: "map (\<lambda>line. \<lparr>ev_type = ''log'', ev_data = line\<rparr>) (bs_logs s) = map log_event (bs_logs s)" by (simp add: log_event_def)
  show ?thesis
  proof (cases "bs_status s")
    case SsBuilding
    then have "bs_sent s = map log_event (bs_logs s)" using s by (simp add: session_ok_def end_events_def)
    moreover obtain es where "bs_sent t = bs_sent s @ es" using session_life_sent[OF assms(2)] by blast
    ultimately show ?thesis using SsBuilding until_final_ok[OF t] l by (simp add: deploy_stream_def)
  next
    case SsSucceeded
    then have "t = s" using session_life_fixed[OF assms(2)] by simp
    moreover obtain r where "bs_result s = Some (Inr r)" using SsSucceeded s by (auto simp: session_ok_def)
    ultimately show ?thesis using SsSucceeded s l by (simp add: deploy_stream_def session_ok_def end_events_def)
  next
    case SsFailed
    then have "t = s" using session_life_fixed[OF assms(2)] by simp
    moreover have "bs_result s \<noteq> None" "\<nexists>r. bs_result s = Some (Inr r)"
      using SsFailed s by (auto simp: session_ok_def)
    then obtain e where "bs_result s = Some (Inl e)" by (metis option.exhaust old.sum.exhaust)
    ultimately show ?thesis using SsFailed s l by (simp add: deploy_stream_def session_ok_def end_events_def)
  qed
qed

theorem stream_shows_the_build_witness:
  "deploy_stream (\<lambda>_. ''{}'') (push_log ''a'' session_new) (push_log ''a'' session_new) (push_log ''a'' session_new)
     (push_log ''a'' session_new) (session_fail ''no'' (push_log ''a'' session_new)) =
   [\<lparr>ev_type = ''log'', ev_data = ''a''\<rparr>, \<lparr>ev_type = ''error'', ev_data = ''no''\<rparr>]"
proof -
  have b: "bs_status session_new = SsBuilding" "bs_status (push_log ''a'' session_new) = SsBuilding"
    using push_log_fields by (simp_all add: session_new_def)
  have "session_life (\<lambda>_. ''{}'') session_new (push_log ''a'' session_new)"
    using session_life.later[OF session_life.now b(1), of _ "LineLogged ''a''"] by (simp add: session_step_def)
  moreover have "session_life (\<lambda>_. ''{}'') (push_log ''a'' session_new) (session_fail ''no'' (push_log ''a'' session_new))"
    using session_life.later[OF session_life.now b(2), of _ "BuildFailed ''no''"] by (simp add: session_step_def)
  ultimately show ?thesis
    using stream_shows_the_build by (simp add: push_log_def push_line_def session_new_def session_fail_def Let_def)
qed

text \<open>The four steps of the handler are not one. When the build ends after the status was read and before the handler
  has subscribed, the stream shows the lines of its first look and then waits for ever: neither the lines since nor the
  final event is in it.\<close>

theorem stream_misses_the_end:
  assumes "session_life render session_new s" "session_life render s t" "bs_status s = SsBuilding"
  shows "deploy_stream render s s u t t = map log_event (bs_logs s) \<and> (\<forall>e \<in> set (deploy_stream render s s u t t). \<not> is_final e)"
  using assms(3) by (simp add: deploy_stream_def log_event_def is_final_def)

section \<open>The cache\<close>

definition removed_from :: "'f build_os \<Rightarrow> cache_dir_entry list \<Rightarrow> 'f \<Rightarrow> 'f" where
  "removed_from B es f = fold (\<lambda>e. snd \<circ> bo_remove_dir B (cd_path e)) es f"

lemma evict_entries_prefix:
  assumes "\<And>p f. fst (bo_remove_dir B p f) = None"
  shows "\<exists>k \<le> length es. evict_entries B m es t (f, s) =
     (t - sum_list (map cd_size (take k es)), removed_from B (take k es) f, s) \<and>
     (t - sum_list (map cd_size (take k es)) \<le> unat m \<or> k = length es) \<and>
     (\<forall>j < k. unat m < t - sum_list (map cd_size (take j es)))"
proof (induction es arbitrary: t f)
  case Nil
  show ?case by (simp add: removed_from_def)
next
  case (Cons e es)
  show ?case
  proof (cases "t \<le> unat m")
    case True
    then show ?thesis by (intro exI[of _ 0]) (simp add: removed_from_def)
  next
    case False
    obtain f' where f': "bo_remove_dir B (cd_path e) f = (None, f')" using assms by (metis prod.collapse)
    obtain k where k: "k \<le> length es" "evict_entries B m es (t - cd_size e) (f', s) =
       (t - cd_size e - sum_list (map cd_size (take k es)), removed_from B (take k es) f', s)"
      "t - cd_size e - sum_list (map cd_size (take k es)) \<le> unat m \<or> k = length es"
      "\<forall>j < k. unat m < t - cd_size e - sum_list (map cd_size (take j es))"
      using Cons.IH by blast
    have "\<forall>j < Suc k. unat m < t - sum_list (map cd_size (take j (e # es)))"
    proof (intro allI impI)
      fix j assume "j < Suc k"
      then show "unat m < t - sum_list (map cd_size (take j (e # es)))"
        using k(4) False by (cases j) simp_all
    qed
    then show ?thesis using k f' False by (intro exI[of _ "Suc k"]) (simp add: removed_from_def)
  qed
qed

text \<open>The cache of dependencies is evicted oldest first and no further than needed: when removals succeed, what
  is removed is an initial part of the entries in the order of their times; what is left fits the limit, and with one
  removal less it would not have.\<close>

theorem eviction_oldest_first:
  assumes "\<And>p f. fst (bo_remove_dir B p f) = None" "bo_cache_dirs B dir f = Some es"
    "sum_list (map cd_size es) = tot"
  shows "\<exists>k \<le> length es. evict_build_cache B dir gb (f, s) = (removed_from B (take k (sort_key cd_mtime es)) f, s) \<and>
     tot - sum_list (map cd_size (take k (sort_key cd_mtime es))) \<le> unat (gb * 1024 * 1024 * 1024) \<and>
     (\<forall>j < k. unat (gb * 1024 * 1024 * 1024) < tot - sum_list (map cd_size (take j (sort_key cd_mtime es))))"
proof -
  let ?es = "sort_key cd_mtime es" and ?m = "gb * 1024 * 1024 * 1024"
  obtain k where k: "k \<le> length ?es" "evict_entries B ?m ?es tot (f, s) =
       (tot - sum_list (map cd_size (take k ?es)), removed_from B (take k ?es) f, s)"
      "tot - sum_list (map cd_size (take k ?es)) \<le> unat ?m \<or> k = length ?es"
      "\<forall>j < k. unat ?m < tot - sum_list (map cd_size (take j ?es))"
    using evict_entries_prefix[OF assms(1)] by blast
  have "sum_list (map cd_size ?es) = tot"
    using assms(3) by (metis mset_map mset_sort sum_mset_sum_list)
  then have "tot - sum_list (map cd_size (take k ?es)) \<le> unat ?m" using k(3) by auto
  then show ?thesis using k assms(2,3) by (intro exI[of _ k]) (simp add: evict_build_cache_def)
qed

definition full_cache :: "cache_dir_entry list" where
  "full_cache = [\<lparr>cd_path = ''new'', cd_mtime = 9, cd_tree = TreeFile (Some (2 ^ 30))\<rparr>, \<lparr>cd_path = ''old'', cd_mtime = 1, cd_tree = TreeFile (Some (2 ^ 30))\<rparr>]"

definition full_cache_os :: "string list build_os" where
  "full_cache_os = demo_os\<lparr>bo_cache_dirs := \<lambda>_ _. Some full_cache\<rparr>"

theorem eviction_oldest_first_witness:
  "\<exists>k \<le> 2. evict_build_cache full_cache_os ''c'' 1 ([], session_new) =
     (removed_from full_cache_os (take k (sort_key cd_mtime full_cache)) [], session_new)"
proof -
  have 1: "fst (bo_remove_dir full_cache_os p f) = None" for p f by (simp add: full_cache_os_def demo_os_def)
  have 2: "bo_cache_dirs full_cache_os ''c'' [] = Some full_cache" by (simp add: full_cache_os_def)
  have "length full_cache = 2" by (simp add: full_cache_def)
  then show ?thesis using eviction_oldest_first[OF 1 2 refl, of 1 session_new] by auto
qed

section \<open>Where the checks do not look\<close>

text \<open>A log of more than 12,000 bytes is cut at a byte: inside a code point that is a panic, and the build, which may
  have succeeded, is lost.\<close>

theorem long_logs_can_panic:
  "trim_logs logs = None \<longleftrightarrow> 12000 < length logs \<and> is_continuation (logs ! (length logs - 12000))"
proof (cases "12000 < length logs")
  case True
  then have "length logs - 12000 \<noteq> 0" "length logs - 12000 < length logs" "length logs - 12000 \<noteq> length logs" by linarith+
  then have "is_char_boundary logs (length logs - 12000) \<longleftrightarrow> \<not> is_continuation (logs ! (length logs - 12000))"
    unfolding is_char_boundary_def by blast
  moreover have "\<not> length logs \<le> 12000" using True by simp
  ultimately show ?thesis using True by (simp only: trim_logs_def slice_from_def if_False if_True split: if_split) auto
next
  case False
  then show ?thesis by (simp add: trim_logs_def)
qed

lemma length_marks: "length (concat (replicate n [a, b, c])) = 3 * n"
  by (induction n) simp_all

theorem check_marks_panic:
  "finish_build out fw (concat (replicate 4000 [CHR 0xE2, CHR 0x9C, CHR 0x93]) @ nl) s = None"
proof -
  let ?m = "[CHR 0xE2, CHR 0x9C, CHR 0x93]"
  obtain n :: nat where n: "4000 = Suc n" by (metis zero_neq_numeral not0_implies_Suc)
  let ?l = "concat (replicate 4000 ?m) @ nl"
  have len: "length ?l = 12001" by (simp add: length_marks nl_def)
  have "?l ! 1 = CHR 0x9C" unfolding n by simp
  then have "is_continuation (?l ! 1)" by (simp add: is_continuation_def code_def)
  moreover have "length ?l - 12000 = 1" unfolding len by simp
  ultimately have "trim_logs ?l = None" unfolding long_logs_can_panic len by simp
  then show ?thesis by (simp only: finish_build_def option.map)
qed

text \<open>The custom output directory is joined to the directory of the build without a check. An absolute one
  replaces it: when the build succeeds, any directory of the gateway's host is what gets published.\<close>

theorem output_directory_unchecked:
  assumes "starts_with od ''/''" "bo_exists B od f" "bo_is_dir B od f" "length logs + length od < 11000"
  shows "\<exists>l. choose_output B dir fw (Some od) logs f =
    Some (Inr \<lparr>bu_deploy_root = od, bu_build_status = built_status fw, bu_build_logs = l\<rparr>, f)"
  using assms by (simp add: choose_output_def is_directory_def path_join_def finish_build_def trim_logs_def nl_def)

theorem output_directory_unchecked_witness:
  "\<exists>l. choose_output demo_os ''/tmp/b'' ''Vite'' (Some ''/etc'') [] [''/etc''] =
    Some (Inr \<lparr>bu_deploy_root = ''/etc'', bu_build_status = built_status ''Vite'', bu_build_logs = l\<rparr>, [''/etc''])"
  by (rule output_directory_unchecked) (simp_all add: demo_os_def starts_with_def)

text \<open>The directories inside \<open>dist\<close> of an Angular project are never looked at: \<open>dist\<close> itself is taken first. (A
  directory that can be listed exists.)\<close>

theorem angular_layout_unreachable:
  assumes "bo_entries B (path_join dir ''dist'') f \<noteq> None \<Longrightarrow> is_directory B (path_join dir ''dist'') f"
  shows "known_output B dir fw f = known_output (B\<lparr>bo_entries := \<lambda>_ _. None\<rparr>) dir fw f"
proof (cases "is_directory B (path_join dir ''dist'') f")
  case True
  then show ?thesis by (simp add: known_output_def OUTPUT_DIRS_def is_directory_def)
next
  case False
  then have "bo_entries B (path_join dir ''dist'') f = None" using assms by blast
  then show ?thesis by (simp add: known_output_def is_directory_def split: option.split)
qed

end
