(* ===== verification/EdgeRoutes.thy ===== *)
theory EdgeRoutes
  imports ProcessManager GatewayNames GatewayTenants
begin

text \<open>
  Requests that a process or an edge function of a deployment serves: the route manifest
  (\<open>gateway/src/route_manifest.rs\<close>), the cache of WASM modules and their execution (\<open>wasm_runtime.rs\<close>), the reverse
  proxy (\<open>reverse_proxy.rs\<close>), and the handlers of \<open>main.rs\<close> that choose between process, function and content.

  JSON, the compiler and interpreter of WASM, the HTTP client and the Unicode tables of \<open>to_uppercase\<close> are outside.
\<close>

section \<open>Manifests\<close>

record route_entry =
  rr_path :: string
  rr_handler :: string
  rr_methods :: "string list"

record route_manifest =
  rm_version :: u32
  rm_routes :: "route_entry list"
  rm_static_patterns :: "string list"
  rm_capabilities :: "(string, string list) hmap"

definition default_methods :: "string list" where
  "default_methods = [''GET'']"

definition VALID_METHODS :: "string list" where
  "VALID_METHODS = [''GET'', ''POST'', ''PUT'', ''DELETE'', ''PATCH'', ''HEAD'', ''OPTIONS'']"

definition check_route :: "(string \<Rightarrow> string) \<Rightarrow> route_entry \<Rightarrow> string + unit" where
  "check_route upper r =
     (let h = rr_handler r in
      if str_contains h ''..'' \<or> CHR ''/'' \<in> set h \<or> CHR 0x5C \<in> set h \<or> h = [] then
        Inl (''Invalid handler '' @ [CHR 0x27] @ h @ [CHR 0x27] @ '': must be a filename without path separators'')
      else
        (case find (\<lambda>m. upper m \<notin> set VALID_METHODS) (rr_methods r) of
           Some m \<Rightarrow> Inl (''Invalid HTTP method: '' @ m)
         | None \<Rightarrow> Inr ()))"

fun check_routes :: "(string \<Rightarrow> string) \<Rightarrow> route_entry list \<Rightarrow> string + unit" where
  "check_routes upper [] = Inr ()"
| "check_routes upper (r # rs) = (case check_route upper r of Inl e \<Rightarrow> Inl e | Inr _ \<Rightarrow> check_routes upper rs)"

definition parse_manifest ::
    "(bytes \<Rightarrow> string + route_manifest) \<Rightarrow> (string \<Rightarrow> string) \<Rightarrow> bytes \<Rightarrow> string + route_manifest" where
  "parse_manifest json upper data =
     (case json data of
        Inl e \<Rightarrow> Inl (''Invalid manifest JSON: '' @ e)
      | Inr m \<Rightarrow>
          if rm_version m \<noteq> 1 then
            Inl (''Unsupported manifest version: '' @ show_nat (unat (rm_version m)) @ '' (expected 1)'')
          else (case check_routes upper (rm_routes m) of Inl e \<Rightarrow> Inl e | Inr _ \<Rightarrow> Inr m))"

text \<open>\<open>reading\<close> is the content of \<open>_shadowmesh/routes.json\<close>, when it can be read.\<close>

definition load_manifest_from_dir ::
    "(bytes \<Rightarrow> string + route_manifest) \<Rightarrow> (string \<Rightarrow> string) \<Rightarrow> bytes option \<Rightarrow> route_manifest option" where
  "load_manifest_from_dir json upper reading =
     (case reading of
        None \<Rightarrow> None
      | Some data \<Rightarrow> (case parse_manifest json upper data of Inr m \<Rightarrow> Some m | Inl _ \<Rightarrow> None))"

section \<open>Matching\<close>

definition or_slash :: "string \<Rightarrow> string" where
  "or_slash p = (if p = [] then ''/'' else p)"

definition path_parts :: "string \<Rightarrow> string list" where
  "path_parts p = filter (\<lambda>w. w \<noteq> []) (split_at CHR ''/'' p)"

definition zip_all :: "('a \<Rightarrow> 'b \<Rightarrow> bool) \<Rightarrow> 'a list \<Rightarrow> 'b list \<Rightarrow> bool" where
  "zip_all f xs ys \<longleftrightarrow> list_all (\<lambda>(x, y). f x y) (zip xs ys)"

definition match_path_score :: "string \<Rightarrow> string \<Rightarrow> u8" where
  "match_path_score pattern0 path0 =
     (let pattern = or_slash (trim_end_slashes pattern0); path = or_slash path0;
          pattern_parts = path_parts pattern; parts = path_parts path in
      if pattern = path then 3
      else if pattern_parts \<noteq> [] \<and> last pattern_parts = ''*'' \<and> length (butlast pattern_parts) \<le> length parts \<and>
              zip_all (=) (butlast pattern_parts) parts then 1
      else if length pattern_parts = length parts \<and> zip_all (\<lambda>p v. starts_with p '':'' \<or> p = v) pattern_parts parts then 2
      else 0)"

definition better_route :: "(string \<Rightarrow> string) \<Rightarrow> string \<Rightarrow> string \<Rightarrow> route_entry \<Rightarrow> route_entry option \<times> u8 \<Rightarrow> route_entry option \<times> u8" where
  "better_route upper method_upper path r best =
     (if \<not> list_ex (\<lambda>m. upper m = method_upper) (rr_methods r) then best
      else let score = match_path_score (rr_path r) path in
        if score > snd best then (Some r, score) else best)"

definition match_route :: "(string \<Rightarrow> string) \<Rightarrow> route_manifest \<Rightarrow> string \<Rightarrow> string \<Rightarrow> route_entry option" where
  "match_route upper m http_method path0 =
     (let path = or_slash (trim_end_slashes path0)
      in fst (fold (better_route upper (upper http_method) path) (rm_routes m) (None, 0)))"

section \<open>WASM modules\<close>

record wasm_http_request =
  wq_method :: string
  wq_url :: string
  wq_headers :: "(string \<times> string) list"
  wq_body :: bytes

record wasm_http_response =
  wp_status :: "16 word"
  wp_headers :: "(string \<times> string) list"
  wp_body :: bytes

record wasm_config =
  wc_max_memory_mb :: u64
  wc_max_fuel :: u64
  wc_max_module_size_mb :: u64
  wc_timeout_seconds :: u64
  wc_max_cached_modules :: nat

definition wasm_config_default :: wasm_config where
  "wasm_config_default =
     \<lparr>wc_max_memory_mb = 128, wc_max_fuel = 10000000, wc_max_module_size_mb = 50, wc_timeout_seconds = 30,
      wc_max_cached_modules = 100\<rparr>"

text \<open>How the start function of a module ends: it returns, or it traps with some fuel left, as the exit of the process
  with a code or otherwise.\<close>

datatype wasm_end = StartReturned | StartTrapped u64 "int option" string

text \<open>\<open>we_run\<close> prepares and runs a module with fuel: the error of a preparation that failed, with its message, or the
  end with standard output and standard error.\<close>

record 'm wasm_env =
  we_compile :: "bytes \<Rightarrow> string + 'm"
  we_request_json :: "wasm_http_request \<Rightarrow> string + bytes"
  we_run :: "'m \<Rightarrow> u64 \<Rightarrow> bytes \<Rightarrow> string + wasm_end \<times> bytes \<times> string"
  we_response :: "bytes \<Rightarrow> string + wasm_http_response"

record 'm wasm_runtime =
  wr_module_cache :: "(string, 'm) hmap"
  wr_module_order :: "string list"
  wr_config :: wasm_config

definition wasm_runtime_new :: "wasm_config \<Rightarrow> 'm wasm_runtime" where
  "wasm_runtime_new cfg = \<lparr>wr_module_cache = [], wr_module_order = [], wr_config = cfg\<rparr>"

definition evict_oldest_module :: "'m wasm_runtime \<Rightarrow> 'm wasm_runtime" where
  "evict_oldest_module w =
     (if wc_max_cached_modules (wr_config w) \<le> length (wr_module_cache w) \<and> wr_module_order w \<noteq> [] then
        w\<lparr>wr_module_cache := hm_remove (hd (wr_module_order w)) (wr_module_cache w), wr_module_order := tl (wr_module_order w)\<rparr>
      else w)"

definition load_module :: "'m wasm_env \<Rightarrow> string \<Rightarrow> bytes \<Rightarrow> 'm wasm_runtime \<Rightarrow> (string + unit) \<times> 'm wasm_runtime" where
  "load_module E key wasm_bytes w =
     (let max_mb = wc_max_module_size_mb (wr_config w) in
      if word_of_nat (length wasm_bytes) > max_mb * 1024 * 1024 then
        (Inl (''WASM module too large: '' @ show_nat (length wasm_bytes) @ '' bytes (max '' @ show_nat (unat max_mb) @ ''MB)''), w)
      else
        (case we_compile E wasm_bytes of
           Inl e \<Rightarrow> (Inl (''Failed to compile WASM module: '' @ e), w)
         | Inr m \<Rightarrow>
             (let w1 = evict_oldest_module w
              in (Inr (), w1\<lparr>wr_module_order := filter (\<lambda>k. k \<noteq> key) (wr_module_order w1) @ [key],
                             wr_module_cache := hm_insert key m (wr_module_cache w1)\<rparr>))))"

definition parse_output :: "'m wasm_env \<Rightarrow> bytes \<Rightarrow> string \<Rightarrow> string + wasm_http_response" where
  "parse_output E output errors =
     (if output = [] then Inl ''WASM module produced no output''
      else
        (case we_response E output of
           Inr r \<Rightarrow> Inr r
         | Inl e \<Rightarrow> Inl (''Failed to parse WASM response: '' @ e @ ''. Stderr: '' @ concat (take 500 (rust_chars errors)))))"

definition execute :: "'m wasm_env \<Rightarrow> string \<Rightarrow> wasm_http_request \<Rightarrow> 'm wasm_runtime \<Rightarrow> string + wasm_http_response" where
  "execute E key request w =
     (case hm_get (wr_module_cache w) key of
        None \<Rightarrow> Inl (''WASM module not found: '' @ key)
      | Some m \<Rightarrow>
          (case we_request_json E request of
             Inl e \<Rightarrow> Inl (''Failed to serialize request: '' @ e)
           | Inr input \<Rightarrow>
               (case we_run E m (wc_max_fuel (wr_config w)) input of
                  Inl e \<Rightarrow> Inl e
                | Inr (StartTrapped fuel_left exit e, output, errors) \<Rightarrow>
                    if fuel_left = 0 then Inl ''WASM execution exceeded fuel limit (CPU timeout)''
                    else if exit \<noteq> Some 0 then Inl (''WASM execution failed: '' @ e)
                    else parse_output E output errors
                | Inr (StartReturned, output, errors) \<Rightarrow> parse_output E output errors)))"

definition has_module :: "'m wasm_runtime \<Rightarrow> string \<Rightarrow> bool" where
  "has_module w key \<longleftrightarrow> hm_get (wr_module_cache w) key \<noteq> None"

definition remove_module :: "string \<Rightarrow> 'm wasm_runtime \<Rightarrow> 'm wasm_runtime" where
  "remove_module key w = w\<lparr>wr_module_cache := hm_remove key (wr_module_cache w)\<rparr>"

section \<open>The state of the deployments that run\<close>

record 'm edge_state =
  ed_processes :: "process_manager option"
  ed_wasm :: "'m wasm_runtime option"
  ed_manifests :: "(string, route_manifest) hmap"

definition handler_key :: "string \<Rightarrow> string \<Rightarrow> string" where
  "handler_key cid handler = cid @ '':'' @ handler"

text \<open>What a client is answered by a process or a function: status, headers and body, or an error.\<close>

datatype edge_reply =
    HandlerReply nat "(string \<times> string) list" bytes
  | HandlerError string
  | BadGateway string

text \<open>\<open>valid_header\<close> says which headers HTTP allows; the others are left out.\<close>

definition try_wasm_execute ::
    "'m wasm_env \<Rightarrow> (string \<Rightarrow> string) \<Rightarrow> (string \<times> string \<Rightarrow> bool) \<Rightarrow> string \<Rightarrow> string \<Rightarrow> string \<Rightarrow> 'm edge_state \<Rightarrow>
     edge_reply option" where
  "try_wasm_execute E upper valid_header cid http_method path s =
     (case hm_get (ed_manifests s) cid of
        None \<Rightarrow> None
      | Some manifest \<Rightarrow>
          (case match_route upper manifest http_method path of
             None \<Rightarrow> None
           | Some route \<Rightarrow>
               (case ed_wasm s of
                  None \<Rightarrow> None
                | Some w \<Rightarrow>
                    (let key = handler_key cid (rr_handler route) in
                     if \<not> has_module w key then None
                     else
                       (case execute E key \<lparr>wq_method = http_method, wq_url = path, wq_headers = [], wq_body = []\<rparr> w of
                          Inr resp \<Rightarrow>
                            (let st = unat (wp_status resp)
                             in Some (HandlerReply (if 100 \<le> st \<and> st < 1000 then st else 200)
                                  (filter valid_header (wp_headers resp)) (wp_body resp)))
                        | Inl e \<Rightarrow> Some (HandlerError (''Edge function error: '' @ e)))))))"

section \<open>The reverse proxy\<close>

type_synonym headers = "(string \<times> string) list" \<comment> \<open>names in lower case\<close>

definition header_value :: "headers \<Rightarrow> string \<Rightarrow> string option" where
  "header_value hs n = map_option snd (find (\<lambda>h. fst h = n) hs)"

definition visible_text :: "string \<Rightarrow> bool" where
  "visible_text v \<longleftrightarrow> list_all (\<lambda>c. code c = 9 \<or> 32 \<le> code c \<and> code c < 127) v"

definition str_find :: "char \<Rightarrow> string \<Rightarrow> nat option" where
  "str_find c s = (let n = length (takeWhile (\<lambda>x. x \<noteq> c) s) in if n < length s then Some n else None)"

definition parses_as_u16 :: "string \<Rightarrow> bool" where
  "parses_as_u16 s \<longleftrightarrow> (case parse_u64 s of None \<Rightarrow> False | Some n \<Rightarrow> unat n < 2 ^ 16)"

definition first_set :: "string option list \<Rightarrow> string option" where
  "first_set xs = (case List.map_filter (\<lambda>x. x) xs of [] \<Rightarrow> None | x # _ \<Rightarrow> Some x)"

definition non_empty :: "string \<Rightarrow> string option" where
  "non_empty s = (if s = [] then None else Some s)"

text \<open>A socket address without its port.\<close>

definition socket_ip :: "string \<Rightarrow> string" where
  "socket_ip addr =
     (case (if starts_with addr ''['' then str_find CHR '']'' addr else None) of
        Some n \<Rightarrow> take (n - 1) (drop 1 addr)
      | None \<Rightarrow>
          (case str_find CHR '':'' (rev addr) of
             Some k \<Rightarrow> if parses_as_u16 (drop (length addr - k) addr) then take (length addr - k - 1) addr else addr
           | None \<Rightarrow> addr))"

definition extract_client_ip :: "headers \<Rightarrow> string option \<Rightarrow> string option" where
  "extract_client_ip hs socket_addr =
     (let text = (\<lambda>n. Option.bind (header_value hs n) (\<lambda>v. if visible_text v then Some v else None))
      in first_set
        [Option.bind (text ''x-real-ip'') (\<lambda>v. non_empty (rust_trim v)),
         Option.bind (text ''x-forwarded-for'') (\<lambda>v. non_empty (rust_trim (hd (split_at CHR '','' v)))),
         map_option socket_ip socket_addr])"

record proxied_request =
  pq_url :: string
  pq_method :: string
  pq_headers :: headers
  pq_body :: bytes

definition hop_headers :: "string list" where
  "hop_headers = [''host'', ''connection'', ''transfer-encoding'', ''keep-alive'', ''upgrade'']"

definition localhost :: "u16 \<Rightarrow> string" where
  "localhost port = ''127.0.0.1:'' @ show_nat (unat port)"

definition proxied ::
    "u16 \<Rightarrow> string \<Rightarrow> string \<Rightarrow> string option \<Rightarrow> headers \<Rightarrow> bytes \<Rightarrow> string option \<Rightarrow> proxied_request" where
  "proxied port http_method path query hs body client_ip =
     \<lparr>pq_url = ''http://'' @ localhost port @ path @
        (case query of Some q \<Rightarrow> if q = [] then [] else ''?'' @ q | None \<Rightarrow> []),
      pq_method = http_method,
      pq_headers = filter (\<lambda>h. fst h \<notin> set hop_headers) hs @ [(''host'', localhost port)] @
        (case client_ip of Some ip \<Rightarrow> [(''x-forwarded-for'', ip)] | None \<Rightarrow> []) @ [(''x-forwarded-proto'', ''https'')] @
        (case header_value hs ''host'' of Some h \<Rightarrow> [(''x-forwarded-host'', h)] | None \<Rightarrow> []),
      pq_body = body\<rparr>"

datatype upstream_error = UpstreamTimeout | UpstreamConnect | UpstreamOther

text \<open>\<open>valid_method\<close> and \<open>valid_header\<close> say which methods and headers HTTP allows; \<open>http\<close> is the process.\<close>

definition proxy_request ::
    "(string \<Rightarrow> bool) \<Rightarrow> (string \<times> string \<Rightarrow> bool) \<Rightarrow> (proxied_request \<Rightarrow> upstream_error + nat \<times> headers \<times> bytes) \<Rightarrow>
     u16 \<Rightarrow> string \<Rightarrow> string \<Rightarrow> string option \<Rightarrow> headers \<Rightarrow> bytes \<Rightarrow> string option \<Rightarrow> edge_reply" where
  "proxy_request valid_method valid_header http port http_method path query hs body client_ip =
     (if \<not> valid_method http_method then BadGateway (''unsupported HTTP method: '' @ http_method)
      else
        (case http (proxied port http_method path query hs body client_ip) of
           Inl UpstreamTimeout \<Rightarrow> BadGateway ''upstream request timed out''
         | Inl UpstreamConnect \<Rightarrow> BadGateway ''connection refused by upstream''
         | Inl UpstreamOther \<Rightarrow> BadGateway ''failed to reach upstream''
         | Inr (st, reply_headers, reply_body) \<Rightarrow>
             HandlerReply (if 100 \<le> st \<and> st < 1000 then st else 502) (filter valid_header reply_headers) reply_body))"

section \<open>The handlers\<close>

record 'm serve_env =
  sv_names :: names_env
  sv_wasm :: "'m wasm_env"
  sv_upper :: "string \<Rightarrow> string"
  sv_valid_method :: "string \<Rightarrow> bool"
  sv_valid_header :: "string \<times> string \<Rightarrow> bool"
  sv_http :: "proxied_request \<Rightarrow> upstream_error + nat \<times> headers \<times> bytes"

text \<open>\<open>Embedded\<close> is the dashboard of the gateway.\<close>

datatype served = ByDeployment edge_reply | ByContent "http_reply option" | Embedded

definition by_process :: "'m serve_env \<Rightarrow> string \<Rightarrow> string \<Rightarrow> string option \<Rightarrow> 'm edge_state \<Rightarrow> edge_reply option" where
  "by_process V cid path query s =
     (case ed_processes s of
        None \<Rightarrow> None
      | Some pm \<Rightarrow>
          map_option (\<lambda>port. proxy_request (sv_valid_method V) (sv_valid_header V) (sv_http V) port ''GET'' path query [] [] None)
            (get_port pm cid))"

definition by_function :: "'m serve_env \<Rightarrow> string \<Rightarrow> string \<Rightarrow> 'm edge_state \<Rightarrow> edge_reply option" where
  "by_function V cid path s = try_wasm_execute (sv_wasm V) (sv_upper V) (sv_valid_header V) cid ''GET'' path s"

definition as_content :: "(http_reply option \<times> names_state) option \<Rightarrow> names_state \<Rightarrow> served \<times> names_state" where
  "as_content r n = (case r of None \<Rightarrow> (Embedded, n) | Some (reply, n') \<Rightarrow> (ByContent reply, n'))"

text \<open>\<open>/:cid\<close>, with the path and the query of the request.\<close>

definition content_or_spa_route ::
    "'m serve_env \<Rightarrow> string \<Rightarrow> string \<Rightarrow> string option \<Rightarrow> 'm edge_state \<Rightarrow> names_state \<Rightarrow> served \<times> names_state" where
  "content_or_spa_route V cid uri_path query s n =
     (if \<not> (ends_with cid ''.shadow'' \<and> nv_enabled (sv_names V)) \<and> validate_cid cid then
        (case by_process V cid uri_path query s of
           Some r \<Rightarrow> (ByDeployment r, n)
         | None \<Rightarrow>
             (case by_function V cid ''/'' s of
                Some r \<Rightarrow> (ByDeployment r, n)
              | None \<Rightarrow> as_content (content_or_spa_handler (sv_names V) cid n) n))
      else as_content (content_or_spa_handler (sv_names V) cid n) n)"

text \<open>\<open>/:name/*path\<close>.\<close>

definition subpath_route ::
    "'m serve_env \<Rightarrow> string \<Rightarrow> string \<Rightarrow> string option \<Rightarrow> 'm edge_state \<Rightarrow> names_state \<Rightarrow> served \<times> names_state" where
  "subpath_route V nm path query s n =
     (if \<not> (ends_with nm ''.shadow'' \<and> nv_enabled (sv_names V)) \<and> validate_cid nm then
        (case by_process V nm (''/'' @ path) query s of
           Some r \<Rightarrow> (ByDeployment r, n)
         | None \<Rightarrow>
             (case by_function V nm (''/'' @ path) s of
                Some r \<Rightarrow> (ByDeployment r, n)
              | None \<Rightarrow> as_content (shadow_or_content_subpath_handler (sv_names V) nm path n) n))
      else as_content (shadow_or_content_subpath_handler (sv_names V) nm path n) n)"

text \<open>The routes of a deployment, and which of their modules are loaded.\<close>

datatype routes_reply =
    RoutesRefused tenant_response
  | RoutesOf route_manifest "(string \<times> bool) list option"
  | NoRoutes

definition deployment_routes_handler :: "api_identity option \<Rightarrow> string \<Rightarrow> 'm edge_state \<Rightarrow> routes_reply" where
  "deployment_routes_handler identity cid s =
     (case authorize_namespace identity cid of
        Inl resp \<Rightarrow> RoutesRefused resp
      | Inr _ \<Rightarrow>
          (case hm_get (ed_manifests s) cid of
             None \<Rightarrow> NoRoutes
           | Some m \<Rightarrow>
               RoutesOf m (map_option (\<lambda>w. map (\<lambda>r. (rr_handler r, has_module w (handler_key cid (rr_handler r)))) (rm_routes m))
                 (ed_wasm s))))"

text \<open>The status and the restart of a process.\<close>

datatype process_reply =
    ProcessRefused tenant_response
  | ProcessStatus process_status
  | ProcessRestarted u16
  | ProcessError nat string

definition process_status_handler ::
    "process_env \<Rightarrow> (u32 \<Rightarrow> u64 option) \<Rightarrow> instant \<Rightarrow> api_identity option \<Rightarrow> string \<Rightarrow> 'm edge_state \<Rightarrow> process_reply" where
  "process_status_handler P rss_pages now identity cid s =
     (case authorize_namespace identity cid of
        Inl resp \<Rightarrow> ProcessRefused resp
      | Inr _ \<Rightarrow>
          (case ed_processes s of
             None \<Rightarrow> ProcessError 503 ''Dynamic deployments not enabled''
           | Some pm \<Rightarrow>
               (case get_status P rss_pages now pm cid of
                  Some st \<Rightarrow> ProcessStatus st
                | None \<Rightarrow> ProcessError 404 ''No active process for this deployment'')))"

definition process_restart_handler ::
    "process_manager_config \<Rightarrow> process_env \<Rightarrow> restart_env \<Rightarrow> api_identity option \<Rightarrow> string \<Rightarrow> 'm edge_state \<Rightarrow>
     (process_reply \<times> 'm edge_state) option" where
  "process_restart_handler cfg P R identity cid s =
     (case authorize_namespace identity cid of
        Inl resp \<Rightarrow> Some (ProcessRefused resp, s)
      | Inr _ \<Rightarrow>
          (case ed_processes s of
             None \<Rightarrow> Some (ProcessError 503 ''Dynamic deployments not enabled'', s)
           | Some pm \<Rightarrow>
               map_option (\<lambda>(r, pm'). (case r of
                    Inr port \<Rightarrow> ProcessRestarted port
                  | Inl e \<Rightarrow> ProcessError 500 (''Restart failed: '' @ e), s\<lparr>ed_processes := Some pm'\<rparr>))
                 (restart_process cfg P R cid pm)))"

text \<open>What a deployment has served.\<close>

datatype analytics_reply = AnalyticsRefused tenant_response | Analytics u64 u64

definition deployment_analytics_handler :: "api_identity option \<Rightarrow> string \<Rightarrow> content_state \<Rightarrow> analytics_reply" where
  "deployment_analytics_handler identity cid c =
     (case authorize_namespace identity cid of
        Inl resp \<Rightarrow> AnalyticsRefused resp
      | Inr _ \<Rightarrow>
          (let get = (\<lambda>m. case hm_get m cid of Some v \<Rightarrow> v | None \<Rightarrow> 0)
           in Analytics (get (gs_cid_requests c)) (get (gs_cid_bytes c))))"

end
