(* ===== verification/EdgeSafety.thy ===== *)
theory EdgeSafety
  imports EdgeRoutes BuildSafety
begin

text \<open>
  What holds of the requests that processes and edge functions serve: which route is chosen, that a manifest names
  only files beside it, how many modules are kept, and what of a request reaches a function or a process.
\<close>

section \<open>Routes\<close>

definition route_applies :: "(string \<Rightarrow> string) \<Rightarrow> string \<Rightarrow> route_entry \<Rightarrow> bool" where
  "route_applies upper http_method r \<longleftrightarrow> (\<exists>m \<in> set (rr_methods r). upper m = upper http_method)"

definition route_score :: "string \<Rightarrow> route_entry \<Rightarrow> u8" where
  "route_score path r = match_path_score (rr_path r) (or_slash (trim_end_slashes path))"

lemma better_route_step:
  "better_route upper (upper m) (or_slash (trim_end_slashes path)) r best =
   (if route_applies upper m r \<and> snd best < route_score path r then (Some r, route_score path r) else best)"
  by (auto simp: better_route_def route_applies_def route_score_def list_ex_iff Let_def)

text \<open>What the fold over the routes has found after them.\<close>

definition best_so_far :: "(string \<Rightarrow> string) \<Rightarrow> string \<Rightarrow> string \<Rightarrow> route_entry list \<Rightarrow> route_entry option \<times> u8 \<Rightarrow> bool" where
  "best_so_far upper m path rs b \<longleftrightarrow>
     (\<forall>r \<in> set rs. route_applies upper m r \<longrightarrow> route_score path r \<le> snd b) \<and>
     (case fst b of
        None \<Rightarrow> snd b = 0
      | Some r \<Rightarrow> snd b = route_score path r \<and> 0 < snd b \<and> route_applies upper m r \<and>
          (\<exists>xs ys. rs = xs @ r # ys \<and> (\<forall>x \<in> set xs. route_applies upper m x \<longrightarrow> route_score path x < snd b)))"

lemma best_so_far_snoc:
  assumes "best_so_far upper m path rs b"
  shows "best_so_far upper m path (rs @ [r]) (better_route upper (upper m) (or_slash (trim_end_slashes path)) r b)"
proof (cases "route_applies upper m r \<and> snd b < route_score path r")
  case True
  have "0 < route_score path r" using True by (metis word_greater_zero_iff word_not_simps(1))
  moreover have "\<forall>x \<in> set rs. route_applies upper m x \<longrightarrow> route_score path x < route_score path r"
    using assms True by (auto simp: best_so_far_def)
  ultimately show ?thesis using True
    by (force simp: best_so_far_def better_route_step intro: less_imp_le)
next
  case False
  then have r: "route_applies upper m r \<Longrightarrow> route_score path r \<le> snd b" by auto
  have b: "better_route upper (upper m) (or_slash (trim_end_slashes path)) r b = b"
    unfolding better_route_step using False by (rule if_not_P)
  show ?thesis
  proof (cases "fst b")
    case None
    then show ?thesis using assms r unfolding b by (auto simp: best_so_far_def)
  next
    case (Some x)
    then obtain xs ys where "rs = xs @ x # ys" "\<forall>z \<in> set xs. route_applies upper m z \<longrightarrow> route_score path z < snd b"
      using assms by (auto simp: best_so_far_def)
    then have "\<exists>xs' ys'. rs @ [r] = xs' @ x # ys' \<and> (\<forall>z \<in> set xs'. route_applies upper m z \<longrightarrow> route_score path z < snd b)"
      by (intro exI[of _ xs] exI[of _ "ys @ [r]"]) simp
    then show ?thesis using assms r Some unfolding b best_so_far_def by auto
  qed
qed

lemma best_so_far_fold:
  "best_so_far upper m path rs (fold (better_route upper (upper m) (or_slash (trim_end_slashes path))) rs (None, 0))"
proof (induction rs rule: rev_induct)
  case Nil
  show ?case by (simp add: best_so_far_def)
next
  case (snoc r rs)
  then show ?case using best_so_far_snoc by simp
qed

text \<open>C37. The route that serves a request is the best one: of the routes for its method it has the highest score
  (exact before parameters before wildcard), and it is the first of those; no route is chosen exactly when none of
  them matches the path.\<close>

theorem best_route_first:
  "case match_route upper manifest m path of
     None \<Rightarrow> \<forall>r \<in> set (rm_routes manifest). \<not> (route_applies upper m r \<and> 0 < route_score path r)
   | Some r \<Rightarrow> route_applies upper m r \<and> 0 < route_score path r \<and>
       (\<forall>r' \<in> set (rm_routes manifest). \<not> (route_applies upper m r' \<and> route_score path r < route_score path r')) \<and>
       (\<exists>xs ys. rm_routes manifest = xs @ r # ys \<and>
          (\<forall>x \<in> set xs. \<not> (route_applies upper m x \<and> route_score path r \<le> route_score path x)))"
proof -
  have "best_so_far upper m path (rm_routes manifest)
    (fold (better_route upper (upper m) (or_slash (trim_end_slashes path))) (rm_routes manifest) (None, 0))" (is "best_so_far _ _ _ _ ?b")
    by (rule best_so_far_fold)
  moreover have "match_route upper manifest m path = fst ?b" by (simp add: match_route_def Let_def)
  ultimately show ?thesis
    by (auto simp: best_so_far_def not_less split: option.splits) (metis not_less)+
qed

definition demo_manifest :: route_manifest where
  "demo_manifest =
     \<lparr>rm_version = 1,
      rm_routes = [\<lparr>rr_path = ''/api/*'', rr_handler = ''api.wasm'', rr_methods = [''GET'', ''POST'']\<rparr>,
                   \<lparr>rr_path = ''/api/save'', rr_handler = ''save.wasm'', rr_methods = [''POST'']\<rparr>],
      rm_static_patterns = [], rm_capabilities = []\<rparr>"

theorem best_route_first_witness:
  "match_route id demo_manifest ''POST'' ''/api/save'' = Some (rm_routes demo_manifest ! 1) \<and>
   0 < route_score ''/api/save'' (rm_routes demo_manifest ! 1) \<and>
   \<not> (route_applies id ''POST'' (rm_routes demo_manifest ! 0) \<and>
      route_score ''/api/save'' (rm_routes demo_manifest ! 1) < route_score ''/api/save'' (rm_routes demo_manifest ! 0))"
proof -
  have m: "match_route id demo_manifest ''POST'' ''/api/save'' = Some (rm_routes demo_manifest ! 1)"
    by (simp add: match_route_def demo_manifest_def better_route_def match_path_score_def or_slash_def path_parts_def zip_all_def
        trim_end_slashes_def starts_with_def Let_def)
  show ?thesis using best_route_first[where upper = id and manifest = demo_manifest and m = "''POST''" and path = "''/api/save''"] unfolding m
    by (simp add: demo_manifest_def)
qed

section \<open>Manifests\<close>

lemma check_routes_ok: "check_routes upper rs = Inr () \<Longrightarrow> r \<in> set rs \<Longrightarrow> check_route upper r = Inr ()"
  by (induction rs) (auto split: sum.splits)

text \<open>The modules of a manifest that was accepted lie beside it: every handler is the name of a file, neither empty
  nor with a separator or two dots. So a manifest can load no other file of the gateway as its code; and every method
  it names is one of HTTP.\<close>

theorem handlers_beside_manifest:
  assumes "load_manifest_from_dir json upper reading = Some manifest" "r \<in> set (rm_routes manifest)"
  shows "contained (rr_handler r) \<and> CHR ''/'' \<notin> set (rr_handler r) \<and> CHR 0x5C \<notin> set (rr_handler r) \<and>
         upper ` set (rr_methods r) \<subseteq> set VALID_METHODS"
proof -
  have "check_routes upper (rm_routes manifest) = Inr ()"
    using assms(1) by (auto simp: load_manifest_from_dir_def parse_manifest_def split: option.splits sum.splits if_splits)
  then have c: "check_route upper r = Inr ()" using check_routes_ok assms(2) by blast
  then have h: "rr_handler r \<noteq> []" "\<not> str_contains (rr_handler r) ''..''" "CHR ''/'' \<notin> set (rr_handler r)" "CHR 0x5C \<notin> set (rr_handler r)"
    by (auto simp: check_route_def Let_def split: if_splits)
  have "upper ` set (rr_methods r) \<subseteq> set VALID_METHODS"
    using c by (auto simp: check_route_def Let_def find_None_iff split: if_splits option.splits)
  moreover have "\<not> starts_with (rr_handler r) ''/''" using h by (auto simp: starts_with_iff)
  ultimately show ?thesis using h by (simp add: containedI)
qed

theorem handlers_beside_manifest_witness:
  "contained ''save.wasm'' \<and> id ` {''POST''} \<subseteq> set VALID_METHODS"
proof -
  have "load_manifest_from_dir (\<lambda>_. Inr demo_manifest) id (Some []) = Some demo_manifest"
    by (simp add: load_manifest_from_dir_def parse_manifest_def demo_manifest_def check_route_def VALID_METHODS_def starts_with_def Let_def)
  from handlers_beside_manifest[OF this, of "\<lparr>rr_path = ''/api/save'', rr_handler = ''save.wasm'', rr_methods = [''POST'']\<rparr>"]
  show ?thesis by (simp add: demo_manifest_def)
qed

section \<open>Modules\<close>

definition wasm_ok :: "'m wasm_runtime \<Rightarrow> bool" where
  "wasm_ok w \<longleftrightarrow> hm_wf (wr_module_cache w) \<and> distinct (wr_module_order w) \<and>
     set (wr_module_order w) = fst ` set (wr_module_cache w) \<and>
     length (wr_module_cache w) \<le> max 1 (wc_max_cached_modules (wr_config w))"

inductive wasm_loads :: "'m wasm_env \<Rightarrow> wasm_config \<Rightarrow> 'm wasm_runtime \<Rightarrow> bool" for E cfg where
  none: "wasm_loads E cfg (wasm_runtime_new cfg)"
| load: "wasm_loads E cfg w \<Longrightarrow> wasm_loads E cfg (snd (load_module E key wasm_bytes w))"

lemma keys_remove: "fst ` set (hm_remove k m) = fst ` set m - {k}"
proof -
  have "set (map fst (AList.delete k m)) = set (map fst m) - {k}" by (simp only: AList.delete_keys set_removeAll)
  then show ?thesis by (simp add: hm_remove_def)
qed

lemma keys_insert: "fst ` set (hm_insert k v m) = insert k (fst ` set m)"
  by (simp add: hm_insert_def dom_update)

lemma key_found: "k \<in> fst ` set m \<Longrightarrow> hm_get m k \<noteq> None"
  by (simp add: hm_get_def map_of_eq_None_iff)

lemma evict_oldest_module_ok:
  assumes "wasm_ok w"
  shows "wasm_ok (evict_oldest_module w) \<and> wr_config (evict_oldest_module w) = wr_config w \<and>
         length (wr_module_cache (evict_oldest_module w)) < max 1 (wc_max_cached_modules (wr_config w))"
proof (cases "wc_max_cached_modules (wr_config w) \<le> length (wr_module_cache w) \<and> wr_module_order w \<noteq> []")
  case True
  then obtain k ks where o: "wr_module_order w = k # ks" by (metis list.exhaust)
  let ?c = "wr_module_cache w" and ?max = "max 1 (wc_max_cached_modules (wr_config w))"
  have w: "hm_wf ?c" "distinct (k # ks)" "set (k # ks) = fst ` set ?c" "length ?c \<le> ?max"
    using assms by (simp_all only: wasm_ok_def o)
  have k: "k \<in> fst ` set ?c" using w(3) by (metis list.set_intros(1))
  then obtain v where v: "hm_get ?c k = Some v" using key_found by fastforce
  have "0 < length ?c" using k by (cases ?c) simp_all
  then have len: "length (hm_remove k ?c) < ?max" using length_hm_remove[OF w(1) v] w(4) by linarith
  have keys: "set ks = fst ` set (hm_remove k ?c)" using w(2,3) by (auto simp: keys_remove)
  have e: "evict_oldest_module w = w\<lparr>wr_module_cache := hm_remove k ?c, wr_module_order := ks\<rparr>"
    using True by (simp add: evict_oldest_module_def o)
  show ?thesis unfolding e wasm_ok_def using w(1,2) len keys by simp
next
  case False
  then have e: "evict_oldest_module w = w" unfolding evict_oldest_module_def by (rule if_not_P)
  have "wr_module_order w = [] \<Longrightarrow> wr_module_cache w = []" using assms by (auto simp: wasm_ok_def)
  then have "length (wr_module_cache w) < max 1 (wc_max_cached_modules (wr_config w))"
    using False by (cases "wr_module_order w") auto
  then show ?thesis unfolding e using assms by simp
qed

lemma insert_module_ok:
  assumes "wasm_ok w" "length (wr_module_cache w) < max 1 (wc_max_cached_modules (wr_config w))"
  shows "wasm_ok (w\<lparr>wr_module_order := filter (\<lambda>k. k \<noteq> key) (wr_module_order w) @ [key],
     wr_module_cache := hm_insert key m (wr_module_cache w)\<rparr>)"
  using assms by (auto simp: wasm_ok_def keys_insert length_hm_insert)

lemma load_module_ok:
  assumes "wasm_ok w"
  shows "wasm_ok (snd (load_module E key b w)) \<and> wr_config (snd (load_module E key b w)) = wr_config w"
proof (cases "snd (load_module E key b w) = w")
  case True
  then show ?thesis using assms by simp
next
  case False
  then obtain m where "snd (load_module E key b w) = (let w1 = evict_oldest_module w in w1\<lparr>
      wr_module_order := filter (\<lambda>k. k \<noteq> key) (wr_module_order w1) @ [key], wr_module_cache := hm_insert key m (wr_module_cache w1)\<rparr>)"
    by (auto simp: load_module_def Let_def split: sum.splits if_splits)
  then show ?thesis using insert_module_ok[of "evict_oldest_module w" key m] evict_oldest_module_ok[OF assms]
    by (simp add: Let_def)
qed

text \<open>However many modules deployments bring, the cache keeps no more than its limit (and never less than the one
  just loaded), and its list of ages holds exactly the modules it has, each once.\<close>

theorem module_cache_bounded:
  assumes "wasm_loads E cfg w"
  shows "wasm_ok w \<and> length (wr_module_cache w) \<le> max 1 (wc_max_cached_modules cfg)"
proof -
  have "wasm_ok w \<and> wr_config w = cfg" using assms
  proof (induction rule: wasm_loads.induct)
    case none
    show ?case by (simp add: wasm_runtime_new_def wasm_ok_def)
  next
    case (load w key b)
    then show ?case using load_module_ok[of w E key b] by simp
  qed
  then show ?thesis by (auto simp: wasm_ok_def)
qed

definition demo_wasm_env :: "bytes wasm_env" where
  "demo_wasm_env = \<lparr>we_compile = Inr, we_request_json = \<lambda>r. Inr (str_bytes (wq_url r)),
     we_run = \<lambda>m fuel input. Inr (StartReturned, m, []),
     we_response = \<lambda>b. Inr \<lparr>wp_status = 200, wp_headers = [], wp_body = b\<rparr>\<rparr>"

theorem module_cache_bounded_witness:
  "length (wr_module_cache (snd (load_module demo_wasm_env ''x:b'' [2] (snd (load_module demo_wasm_env ''x:a'' [1]
     (wasm_runtime_new (wasm_config_default\<lparr>wc_max_cached_modules := 1\<rparr>))))))) \<le> 1"
  using module_cache_bounded[OF wasm_loads.load[OF wasm_loads.load[OF wasm_loads.none]],
      of demo_wasm_env "''x:b''" "[2]" "''x:a''" "[1]" "wasm_config_default\<lparr>wc_max_cached_modules := 1\<rparr>"] by simp

text \<open>A module that is removed stays in the list of ages: then the cache outgrows its limit. (The source never removes
  one.)\<close>

theorem removal_breaks_the_bound:
  "let load = (\<lambda>k w. snd (load_module demo_wasm_env k [1] w));
       w = load ''a'' (wasm_runtime_new (wasm_config_default\<lparr>wc_max_cached_modules := 2\<rparr>))
   in length (wr_module_cache (load ''d'' (load ''c'' (remove_module ''a'' (load ''b'' w))))) = 3"
  by (simp add: load_module_def wasm_runtime_new_def wasm_config_default_def demo_wasm_env_def evict_oldest_module_def
      remove_module_def hm_insert_def hm_remove_def Let_def)

section \<open>What reaches a function or a process\<close>

lemma execute_same:
  assumes "we_run E' = we_run E" "we_response E' = we_response E" "we_request_json E' req = we_request_json E req"
  shows "execute E' key req w = execute E key req w"
proof -
  have p: "parse_output E' = parse_output E" by (intro ext) (unfold parse_output_def assms, rule refl)
  show ?thesis by (unfold execute_def assms p, rule refl)
qed

text \<open>An edge function only ever sees a GET without headers and without body: how a runtime writes any other request
  makes no difference to what the two routes of the gateway answer. The methods, headers and bodies that manifests
  and functions are made for never reach them.\<close>

theorem functions_see_plain_gets:
  assumes "we_compile E' = we_compile (sv_wasm V)" "we_run E' = we_run (sv_wasm V)" "we_response E' = we_response (sv_wasm V)"
    and "\<And>url. we_request_json E' \<lparr>wq_method = ''GET'', wq_url = url, wq_headers = [], wq_body = []\<rparr> =
       we_request_json (sv_wasm V) \<lparr>wq_method = ''GET'', wq_url = url, wq_headers = [], wq_body = []\<rparr>"
  shows "content_or_spa_route (V\<lparr>sv_wasm := E'\<rparr>) cid p q s n = content_or_spa_route V cid p q s n \<and>
         subpath_route (V\<lparr>sv_wasm := E'\<rparr>) cid p q s n = subpath_route V cid p q s n"
proof -
  have "by_function (V\<lparr>sv_wasm := E'\<rparr>) cid path s = by_function V cid path s" for path
  proof -
    have e: "execute E' key \<lparr>wq_method = ''GET'', wq_url = path, wq_headers = [], wq_body = []\<rparr> w =
       execute (sv_wasm V) key \<lparr>wq_method = ''GET'', wq_url = path, wq_headers = [], wq_body = []\<rparr> w" for key w
      by (rule execute_same[OF assms(2,3) assms(4)])
    have f: "sv_wasm (V\<lparr>sv_wasm := E'\<rparr>) = E'" "sv_upper (V\<lparr>sv_wasm := E'\<rparr>) = sv_upper V"
      "sv_valid_header (V\<lparr>sv_wasm := E'\<rparr>) = sv_valid_header V" by simp_all
    show ?thesis by (unfold by_function_def try_wasm_execute_def f e, rule refl)
  qed
  moreover have "by_process (V\<lparr>sv_wasm := E'\<rparr>) cid path q s = by_process V cid path q s" for path
    by (simp add: by_process_def cong: option.case_cong)
  moreover have "sv_names (V\<lparr>sv_wasm := E'\<rparr>) = sv_names V" by simp
  ultimately show ?thesis by (simp add: content_or_spa_route_def subpath_route_def cong: option.case_cong)
qed

definition posting_wasm_env :: "bytes wasm_env" where
  "posting_wasm_env = demo_wasm_env\<lparr>we_request_json := \<lambda>r.
     if wq_method r = ''POST'' then Inr (wq_body r) else we_request_json demo_wasm_env r\<rparr>"

theorem functions_see_plain_gets_witness:
  "\<forall>V cid p q s n. subpath_route (V\<lparr>sv_wasm := posting_wasm_env\<rparr>) cid p q s n = subpath_route (V\<lparr>sv_wasm := demo_wasm_env\<rparr>) cid p q s n"
proof (intro allI)
  fix V :: "bytes serve_env" and cid p q s n
  show "subpath_route (V\<lparr>sv_wasm := posting_wasm_env\<rparr>) cid p q s n = subpath_route (V\<lparr>sv_wasm := demo_wasm_env\<rparr>) cid p q s n"
    using functions_see_plain_gets[of posting_wasm_env "V\<lparr>sv_wasm := demo_wasm_env\<rparr>" cid p q s n]
    by (simp add: posting_wasm_env_def)
qed

text \<open>A route that does not list GET never runs.\<close>

lemma match_route_applies: "match_route upper manifest m path = Some r \<Longrightarrow> route_applies upper m r \<and> r \<in> set (rm_routes manifest)"
proof -
  assume r: "match_route upper manifest m path = Some r"
  have "best_so_far upper m path (rm_routes manifest)
    (fold (better_route upper (upper m) (or_slash (trim_end_slashes path))) (rm_routes manifest) (None, 0))"
    by (rule best_so_far_fold)
  then show ?thesis using r by (auto simp: best_so_far_def match_route_def Let_def split: option.splits)
qed

theorem post_routes_unreachable:
  assumes "hm_get (ed_manifests s) cid = Some manifest" "\<forall>r \<in> set (rm_routes manifest). \<not> route_applies (sv_upper V) ''GET'' r"
  shows "by_function V cid path s = None"
  using assms match_route_applies[of "sv_upper V" manifest "''GET''" path]
  by (cases "match_route (sv_upper V) manifest ''GET'' path") (auto simp: by_function_def try_wasm_execute_def)

text \<open>The domain of a deployment never reaches its process or its functions: what is served under a \<open>.shadow\<close> name
  does not depend on what runs. It is always content, also where the deployment is dynamic and the gateway itself
  gave it the name.\<close>

theorem domains_serve_content_only:
  assumes "nv_enabled (sv_names V)" "ends_with nm ''.shadow''"
  shows "content_or_spa_route V nm p q s n = content_or_spa_route V nm p q s' n \<and>
         subpath_route V nm p q s n = subpath_route V nm p q s' n"
  using assms by (simp add: content_or_spa_route_def subpath_route_def)

theorem domains_serve_content_only_witness:
  "\<forall>(V :: bytes serve_env) pm n. content_or_spa_route (V\<lparr>sv_names := (sv_names V)\<lparr>nv_enabled := True\<rparr>\<rparr>) ''app.shadow'' ''/app.shadow'' None
       \<lparr>ed_processes = Some pm, ed_wasm = None, ed_manifests = []\<rparr> n =
     content_or_spa_route (V\<lparr>sv_names := (sv_names V)\<lparr>nv_enabled := True\<rparr>\<rparr>) ''app.shadow'' ''/app.shadow'' None
       \<lparr>ed_processes = None, ed_wasm = None, ed_manifests = []\<rparr> n"
proof (intro allI)
  fix V :: "bytes serve_env" and pm n
  let ?V = "V\<lparr>sv_names := (sv_names V)\<lparr>nv_enabled := True\<rparr>\<rparr>"
  have "nv_enabled (sv_names ?V)" "ends_with ''app.shadow'' ''.shadow''" by (simp_all add: ends_with_def rust_strip_suffix_def)
  from domains_serve_content_only[OF this]
  show "content_or_spa_route ?V ''app.shadow'' ''/app.shadow'' None \<lparr>ed_processes = Some pm, ed_wasm = None, ed_manifests = []\<rparr> n =
    content_or_spa_route ?V ''app.shadow'' ''/app.shadow'' None \<lparr>ed_processes = None, ed_wasm = None, ed_manifests = []\<rparr> n" by blast
qed

text \<open>The process gets the path with the deployment's CID for its root, and without it for everything below.\<close>

theorem process_root_has_cid:
  assumes "validate_cid cid" "\<not> ends_with cid ''.shadow''" "ed_processes s = Some pm" "get_port pm cid = Some port"
  shows "content_or_spa_route V cid (''/'' @ cid) None s n =
      (ByDeployment (proxy_request (sv_valid_method V) (sv_valid_header V) (sv_http V) port ''GET'' (''/'' @ cid) None [] [] None), n) \<and>
    pq_url (proxied port ''GET'' (''/'' @ cid) None [] [] None) = ''http://'' @ localhost port @ ''/'' @ cid \<and>
    subpath_route V cid p None s n =
      (ByDeployment (proxy_request (sv_valid_method V) (sv_valid_header V) (sv_http V) port ''GET'' (''/'' @ p) None [] [] None), n)"
  using assms by (simp add: content_or_spa_route_def subpath_route_def by_process_def proxied_def)

end
