(* ===== verification/GithubLogin.thy ===== *)
theory GithubLogin
  imports BuildPipeline
begin

text \<open>
  Signing in with GitHub, \<open>gateway/src/dashboard.rs\<close>: the login with its state tokens, the callback with the codes that
  stand for a signed token, the exchange of a code, who a request is taken for, and the requests made to GitHub in the
  name of that user.

  GitHub, the percent-encoding, the signed tokens (\<open>jwt_env\<close>) and the draws of the identifiers are outside. Times are
  those at which a handler looks at the clock, the same for one handler.
\<close>

section \<open>The state\<close>

record github_user =
  gu_login :: string
  gu_avatar_url :: "string option"

record github_auth =
  ga_token :: string
  ga_user :: github_user

record github_repo =
  gr_id :: u64
  gr_name :: string
  gr_full_name :: string
  gr_html_url :: string
  gr_private :: bool
  gr_default_branch :: string

text \<open>Of the state of the gateway: the last user that signed in here, the state tokens with their time and the address to
  go back to, and the codes with their token and time.\<close>

record login_state =
  gl_auth :: "github_auth option"
  gl_states :: "(string, instant \<times> string option) hmap"
  gl_codes :: "(string, string \<times> instant) hmap"

text \<open>An answer of GitHub: none, one that cannot be read, or a value.\<close>

datatype 'a github_answer = NotAnswered string | NotReadable | Answered 'a

record login_env =
  le_client_id :: "string option"
  le_client_secret :: "string option"
  le_redirect_url :: "string option"
  le_auth_secret :: "string option"
  le_port :: nat
  le_encode :: "string \<Rightarrow> string"
  le_jwt :: jwt_env
  le_token :: "(string \<times> string) list \<Rightarrow> string github_answer"
  le_user :: "string \<Rightarrow> github_user github_answer"
  le_repos :: "string \<Rightarrow> github_repo list github_answer"
  le_tree :: "string \<Rightarrow> string \<Rightarrow> (string option \<times> string option) list option github_answer"

datatype login_reply =
    RedirectTo string
  | LoginRefused nat string
  | TokenGranted string
  | LoginStatus "github_user option"
  | ReposListed "github_repo list"
  | TreeListed "string list"

definition STATE_SECS :: nat where
  "STATE_SECS = 600"

definition CODE_SECS :: nat where
  "CODE_SECS = 60"

definition redirect_uri :: "login_env \<Rightarrow> string" where
  "redirect_uri L =
     (case le_redirect_url L of
        Some u \<Rightarrow> u | None \<Rightarrow> ''http://localhost:'' @ show_nat (le_port L) @ ''/api/github/callback'')"

section \<open>Login\<close>

definition github_login ::
    "login_env \<Rightarrow> instant \<Rightarrow> string \<Rightarrow> string option \<Rightarrow> login_state \<Rightarrow> login_reply \<times> login_state" where
  "github_login L now csrf_state redirect_to s =
     (case le_client_id L of
        None \<Rightarrow> (LoginRefused 400 ''GITHUB_CLIENT_ID not set'', s)
      | Some client_id \<Rightarrow>
          (let states = hm_retain (\<lambda>_ (created, _). elapsed now created \<le> from_secs STATE_SECS) (gl_states s) in
           (RedirectTo (''https://github.com/login/oauth/authorize?client_id='' @ le_encode L client_id @
              ''&redirect_uri='' @ le_encode L (redirect_uri L) @ ''&scope=read:user%20repo&state='' @ le_encode L csrf_state),
            s\<lparr>gl_states := hm_insert csrf_state (now, redirect_to) states\<rparr>)))"

section \<open>Callback\<close>

text \<open>The state token is taken out, whatever its age.\<close>

definition consume_state :: "instant \<Rightarrow> string option \<Rightarrow> login_state \<Rightarrow> (string + string option) \<times> login_state" where
  "consume_state now query_state s =
     (case query_state of
        None \<Rightarrow> (Inl ''Missing OAuth state parameter'', s)
      | Some k \<Rightarrow>
          (case hm_get (gl_states s) k of
             None \<Rightarrow> (Inl ''Invalid OAuth state'', s)
           | Some (created, stored) \<Rightarrow>
               (let s1 = s\<lparr>gl_states := hm_remove k (gl_states s)\<rparr> in
                if elapsed now created > from_secs STATE_SECS then (Inl ''OAuth state expired'', s1) else (Inr stored, s1))))"

definition code_target :: "string option \<Rightarrow> string \<Rightarrow> string" where
  "code_target redirect_to auth_code =
     (let base = (case redirect_to of Some u \<Rightarrow> u | None \<Rightarrow> ''/'')
      in base @ (if CHR ''?'' \<in> set base then ''&'' else ''?'') @ ''code='' @ auth_code)"

definition insert_code :: "instant \<Rightarrow> string \<Rightarrow> string \<Rightarrow> login_state \<Rightarrow> login_state" where
  "insert_code now auth_code jwt s =
     (let codes = (if 10000 \<le> length (gl_codes s)
                   then hm_retain (\<lambda>_ (_, created). elapsed now created \<le> from_secs CODE_SECS) (gl_codes s) else gl_codes s)
      in s\<lparr>gl_codes := hm_insert auth_code (jwt, now) codes\<rparr>)"

definition claims_for :: "u64 \<Rightarrow> string \<Rightarrow> github_user \<Rightarrow> claims" where
  "claims_for unix token user =
     \<lparr>cl_sub = gu_login user, cl_login = gu_login user, cl_avatar_url = gu_avatar_url user, cl_github_token = token,
      cl_iat = unix, cl_exp = unix + 7 * 24 * 3600\<rparr>"

text \<open>What follows once GitHub has named the user.\<close>

definition finish_login ::
    "login_env \<Rightarrow> instant \<Rightarrow> u64 \<Rightarrow> string \<Rightarrow> string option \<Rightarrow> string \<Rightarrow> github_user \<Rightarrow> login_state \<Rightarrow> login_reply \<times> login_state" where
  "finish_login L now unix auth_code redirect_to token user s =
     (let s1 = s\<lparr>gl_auth := Some \<lparr>ga_token = token, ga_user = user\<rparr>\<rparr>;
          plain = (RedirectTo (case redirect_to of Some u \<Rightarrow> u | None \<Rightarrow> ''/''), s1) in
      case auth_secret (le_auth_secret L) of
        None \<Rightarrow> plain
      | Some secret \<Rightarrow>
          (case jwt_encode (le_jwt L) (claims_for unix token user) secret of
             Inl _ \<Rightarrow> plain
           | Inr jwt \<Rightarrow> (RedirectTo (code_target redirect_to auth_code), insert_code now auth_code jwt s1)))"

definition github_callback ::
    "login_env \<Rightarrow> instant \<Rightarrow> u64 \<Rightarrow> string \<Rightarrow> string \<Rightarrow> string option \<Rightarrow> login_state \<Rightarrow> login_reply \<times> login_state" where
  "github_callback L now unix auth_code github_code query_state s =
     (case le_client_id L of
        None \<Rightarrow> (LoginRefused 400 ''GITHUB_CLIENT_ID not set'', s)
      | Some client_id \<Rightarrow>
          (case le_client_secret L of
             None \<Rightarrow> (LoginRefused 400 ''GITHUB_CLIENT_SECRET not set'', s)
           | Some client_secret \<Rightarrow>
               (case consume_state now query_state s of
                  (Inl e, s1) \<Rightarrow> (LoginRefused 400 e, s1)
                | (Inr redirect_to, s1) \<Rightarrow>
                    (case le_token L [(''client_id'', client_id), (''client_secret'', client_secret), (''code'', github_code),
                                      (''redirect_uri'', redirect_uri L)] of
                       NotAnswered e \<Rightarrow> (LoginRefused 502 (''Token exchange failed: '' @ e), s1)
                     | NotReadable \<Rightarrow> (LoginRefused 502 ''Invalid token response'', s1)
                     | Answered token \<Rightarrow>
                         (case le_user L token of
                            NotAnswered e \<Rightarrow> (LoginRefused 502 (''Failed to fetch user: '' @ e), s1)
                          | NotReadable \<Rightarrow> (LoginRefused 502 ''Failed to parse user'', s1)
                          | Answered user \<Rightarrow> finish_login L now unix auth_code redirect_to token user s1)))))"

section \<open>The exchange of a code\<close>

definition exchange_auth_code :: "instant \<Rightarrow> string \<Rightarrow> login_state \<Rightarrow> login_reply \<times> login_state" where
  "exchange_auth_code now auth_code s =
     (let codes = hm_retain (\<lambda>_ (_, created). elapsed now created \<le> from_secs CODE_SECS) (gl_codes s);
          s1 = s\<lparr>gl_codes := hm_remove auth_code codes\<rparr> in
      case hm_get codes auth_code of
        None \<Rightarrow> (LoginRefused 400 ''Invalid or already-used authorization code'', s1)
      | Some (jwt, created) \<Rightarrow>
          if elapsed now created > from_secs CODE_SECS then (LoginRefused 400 ''Authorization code expired'', s1)
          else (TokenGranted jwt, s1))"

section \<open>Who a request is taken for\<close>

definition resolve_auth :: "login_env \<Rightarrow> u64 \<Rightarrow> login_state \<Rightarrow> http_request \<Rightarrow> github_auth option" where
  "resolve_auth L unix s req =
     (case gl_auth s of
        Some a \<Rightarrow> Some a
      | None \<Rightarrow>
          (case Option.bind (rq_authorization req) (rust_strip_prefix ''Bearer '') of
             None \<Rightarrow> None
           | Some token \<Rightarrow>
               (case auth_secret (le_auth_secret L) of
                  None \<Rightarrow> None
                | Some secret \<Rightarrow>
                    (case jwt_decode (le_jwt L) unix token secret of
                       Inl _ \<Rightarrow> None
                     | Inr c \<Rightarrow> Some \<lparr>ga_token = cl_github_token c, ga_user = \<lparr>gu_login = cl_login c, gu_avatar_url = cl_avatar_url c\<rparr>\<rparr>))))"

definition github_status :: "login_env \<Rightarrow> u64 \<Rightarrow> login_state \<Rightarrow> http_request \<Rightarrow> login_reply" where
  "github_status L unix s req = LoginStatus (map_option ga_user (resolve_auth L unix s req))"

definition github_repos :: "login_env \<Rightarrow> u64 \<Rightarrow> login_state \<Rightarrow> http_request \<Rightarrow> login_reply" where
  "github_repos L unix s req =
     (case resolve_auth L unix s req of
        None \<Rightarrow> LoginRefused 401 ''GitHub not connected''
      | Some auth \<Rightarrow>
          (case le_repos L (ga_token auth) of
             NotAnswered e \<Rightarrow> LoginRefused 502 (''Failed to fetch repos: '' @ e)
           | NotReadable \<Rightarrow> LoginRefused 502 ''Failed to parse repos''
           | Answered repos \<Rightarrow> ReposListed repos))"

text \<open>Of the tree, the entries that have a path and a type, the type being \<open>tree\<close>. The repository is put into the
  address as it is.\<close>

definition tree_url :: "string \<Rightarrow> string \<Rightarrow> string" where
  "tree_url repo branch = ''https://api.github.com/repos/'' @ repo @ ''/git/trees/'' @ branch @ ''?recursive=1''"

definition github_repo_tree :: "login_env \<Rightarrow> u64 \<Rightarrow> login_state \<Rightarrow> http_request \<Rightarrow> string \<Rightarrow> string \<Rightarrow> login_reply" where
  "github_repo_tree L unix s req repo branch =
     (case resolve_auth L unix s req of
        None \<Rightarrow> LoginRefused 401 ''GitHub not connected''
      | Some auth \<Rightarrow>
          if \<not> is_valid_branch_name branch then LoginRefused 400 ''Invalid branch name''
          else
            (case split_once CHR ''/'' repo of
               (owner, Some rest) \<Rightarrow>
                 if owner = [] \<or> rest = [] then LoginRefused 400 ''Invalid repo format, expected owner/repo''
                 else
                   (case le_tree L (ga_token auth) (tree_url repo branch) of
                      NotAnswered e \<Rightarrow> LoginRefused 502 (''Failed to fetch tree: '' @ e)
                    | NotReadable \<Rightarrow> LoginRefused 502 ''Failed to parse tree response''
                    | Answered tree \<Rightarrow>
                        TreeListed (case tree of
                          None \<Rightarrow> []
                        | Some items \<Rightarrow> List.map_filter (\<lambda>i. case i of
                            (Some path, Some t) \<Rightarrow> if t = ''tree'' then Some path else None | _ \<Rightarrow> None) items))
             | (_, None) \<Rightarrow> LoginRefused 400 ''Invalid repo format, expected owner/repo''))"

end
