(* ===== verification/LoginSafety.thy ===== *)
theory LoginSafety
  imports GithubLogin EdgeSafety
begin

text \<open>
  What holds of signing in: codes and state tokens are redeemed at most once for each time they were issued, young ones
  only; who a request is taken for, and where codes are sent.
\<close>

section \<open>Tickets\<close>

text \<open>Something that is issued and redeemed: redeeming takes it away, and nothing but issuing brings it. \<open>tally\<close> counts the
  events of a run that are of a kind.\<close>

fun tally :: "('e \<Rightarrow> 's \<Rightarrow> 's) \<Rightarrow> ('e \<Rightarrow> 's \<Rightarrow> bool) \<Rightarrow> 'e list \<Rightarrow> 's \<Rightarrow> nat" where
  "tally step P [] s = 0"
| "tally step P (e # es) s = (if P e s then 1 else 0) + tally step P es (step e s)"

locale tickets =
  fixes step :: "'e \<Rightarrow> 's \<Rightarrow> 's"
    and held :: "'k \<Rightarrow> 's \<Rightarrow> bool"
    and issues :: "'k \<Rightarrow> 'e \<Rightarrow> 's \<Rightarrow> bool"
    and redeems :: "'k \<Rightarrow> 'e \<Rightarrow> 's \<Rightarrow> bool"
  assumes redeemed: "redeems k e s \<Longrightarrow> held k s \<and> \<not> held k (step e s)"
    and brought: "held k (step e s) \<Longrightarrow> held k s \<or> issues k e s"
begin

lemma redeemed_at_most_issued:
  "tally step (redeems k) es s \<le> tally step (issues k) es s + (if held k s then 1 else 0)"
proof (induction es arbitrary: s)
  case Nil
  show ?case by simp
next
  case (Cons e es)
  have "(if redeems k e s then 1 else 0) + (if held k (step e s) then 1 else 0) \<le>
        (if issues k e s then 1 else 0) + (if held k s then 1 else (0 :: nat))"
    using redeemed[of k e s] brought[of k e s] by auto
  then show ?case using Cons.IH[of "step e s"] by simp
qed

end

section \<open>A run of the handlers\<close>

datatype login_event =
    LoginCalled instant string "string option" \<comment> \<open>with the token it draws\<close>
  | CallbackCalled instant u64 string string "string option" \<comment> \<open>with the code it draws\<close>
  | ExchangeCalled instant string

definition login_call :: "login_env \<Rightarrow> login_event \<Rightarrow> login_state \<Rightarrow> login_reply \<times> login_state" where
  "login_call L e s =
     (case e of
        LoginCalled now k redirect_to \<Rightarrow> github_login L now k redirect_to s
      | CallbackCalled now unix auth_code github_code k \<Rightarrow> github_callback L now unix auth_code github_code k s
      | ExchangeCalled now auth_code \<Rightarrow> exchange_auth_code now auth_code s)"

definition login_step :: "login_env \<Rightarrow> login_event \<Rightarrow> login_state \<Rightarrow> login_state" where
  "login_step L e s = snd (login_call L e s)"

definition grants :: "string \<Rightarrow> login_event \<Rightarrow> login_state \<Rightarrow> bool" where
  "grants c e s \<longleftrightarrow>
     (case e of ExchangeCalled now c' \<Rightarrow> c' = c \<and> (\<exists>jwt. fst (exchange_auth_code now c' s) = TokenGranted jwt) | _ \<Rightarrow> False)"

definition signs_in :: "login_env \<Rightarrow> login_event \<Rightarrow> login_state \<Rightarrow> bool" where
  "signs_in L e s \<longleftrightarrow>
     (case e of CallbackCalled now unix c g k \<Rightarrow> (\<exists>u. fst (github_callback L now unix c g k s) = RedirectTo u) | _ \<Rightarrow> False)"

definition draws_code :: "login_env \<Rightarrow> string \<Rightarrow> login_event \<Rightarrow> login_state \<Rightarrow> bool" where
  "draws_code L c e s \<longleftrightarrow> signs_in L e s \<and> (case e of CallbackCalled now unix c' g k \<Rightarrow> c' = c | _ \<Rightarrow> False)"

definition draws_state :: "string \<Rightarrow> login_event \<Rightarrow> login_state \<Rightarrow> bool" where
  "draws_state k e s \<longleftrightarrow> (case e of LoginCalled now k' r \<Rightarrow> k' = k | _ \<Rightarrow> False)"

definition signs_in_with :: "login_env \<Rightarrow> string \<Rightarrow> login_event \<Rightarrow> login_state \<Rightarrow> bool" where
  "signs_in_with L k e s \<longleftrightarrow> signs_in L e s \<and> (case e of CallbackCalled now unix c g k' \<Rightarrow> k' = Some k | _ \<Rightarrow> False)"

definition code_held :: "string \<Rightarrow> login_state \<Rightarrow> bool" where
  "code_held c s \<longleftrightarrow> c \<in> fst ` set (gl_codes s)"

definition state_held :: "string \<Rightarrow> login_state \<Rightarrow> bool" where
  "state_held k s \<longleftrightarrow> k \<in> fst ` set (gl_states s)"

lemma keys_retain: "fst ` set (hm_retain P m) \<subseteq> fst ` set m"
  by (auto simp: hm_retain_def)

lemma consume_state_fields:
  "gl_codes (snd (consume_state now q s)) = gl_codes s" "gl_auth (snd (consume_state now q s)) = gl_auth s"
  "fst ` set (gl_states (snd (consume_state now q s))) \<subseteq> fst ` set (gl_states s)"
  by (auto simp: consume_state_def keys_remove Let_def split: option.splits)

lemma consume_state_Inr:
  assumes "consume_state now q s = (Inr r, s')"
  obtains k created where "q = Some k" "hm_get (gl_states s) k = Some (created, r)" "elapsed now created \<le> from_secs STATE_SECS"
    "s' = s\<lparr>gl_states := hm_remove k (gl_states s)\<rparr>"
  using assms by (auto simp: consume_state_def Let_def not_less split: option.splits if_splits)

lemma insert_code_fields:
  "gl_states (insert_code now c j s) = gl_states s" "gl_auth (insert_code now c j s) = gl_auth s"
  "fst ` set (gl_codes (insert_code now c j s)) \<subseteq> insert c (fst ` set (gl_codes s))"
proof -
  show "gl_states (insert_code now c j s) = gl_states s" "gl_auth (insert_code now c j s) = gl_auth s"
    by (simp_all add: insert_code_def Let_def)
  have "fst ` set (if 10000 \<le> length (gl_codes s) then hm_retain P (gl_codes s) else gl_codes s) \<subseteq> fst ` set (gl_codes s)" for P
    by (simp add: keys_retain)
  then show "fst ` set (gl_codes (insert_code now c j s)) \<subseteq> insert c (fst ` set (gl_codes s))"
    by (simp add: insert_code_def keys_insert Let_def subset_insertI2)
qed

lemma finish_login_fields:
  "gl_states (snd (finish_login L now unix c r t u s)) = gl_states s"
  "gl_auth (snd (finish_login L now unix c r t u s)) = Some \<lparr>ga_token = t, ga_user = u\<rparr>"
  "\<exists>target. fst (finish_login L now unix c r t u s) = RedirectTo target"
  "fst ` set (gl_codes (snd (finish_login L now unix c r t u s))) \<subseteq> insert c (fst ` set (gl_codes s))"
proof -
  define s1 where "s1 = s\<lparr>gl_auth := Some \<lparr>ga_token = t, ga_user = u\<rparr>\<rparr>"
  have s1: "gl_states s1 = gl_states s" "gl_codes s1 = gl_codes s" "gl_auth s1 = Some \<lparr>ga_token = t, ga_user = u\<rparr>"
    by (simp_all add: s1_def)
  obtain target j where f: "finish_login L now unix c r t u s = (RedirectTo target, s1) \<or>
      finish_login L now unix c r t u s = (RedirectTo target, insert_code now c j s1)"
    unfolding finish_login_def Let_def s1_def[symmetric]
    by (cases "auth_secret (le_auth_secret L)"; cases "jwt_encode (le_jwt L) (claims_for unix t u) (the (auth_secret (le_auth_secret L)))") auto
  show "gl_states (snd (finish_login L now unix c r t u s)) = gl_states s"
    "gl_auth (snd (finish_login L now unix c r t u s)) = Some \<lparr>ga_token = t, ga_user = u\<rparr>"
    "\<exists>target. fst (finish_login L now unix c r t u s) = RedirectTo target"
    using f s1 insert_code_fields[of now c j s1] by auto
  show "fst ` set (gl_codes (snd (finish_login L now unix c r t u s))) \<subseteq> insert c (fst ` set (gl_codes s))"
    using f s1(2) insert_code_fields(3)[of now c j s1] by (metis snd_conv subset_insertI)
qed

lemma exchange_fields:
  "gl_codes (snd (exchange_auth_code now c s)) =
     hm_remove c (hm_retain (\<lambda>_ (_, created). elapsed now created \<le> from_secs CODE_SECS) (gl_codes s))"
  "gl_states (snd (exchange_auth_code now c s)) = gl_states s" "gl_auth (snd (exchange_auth_code now c s)) = gl_auth s"
  by (auto simp: exchange_auth_code_def Let_def split: option.splits)

lemma login_fields:
  "gl_codes (snd (github_login L now k r s)) = gl_codes s" "gl_auth (snd (github_login L now k r s)) = gl_auth s"
  "fst ` set (gl_states (snd (github_login L now k r s))) \<subseteq> insert k (fst ` set (gl_states s))"
proof -
  show "gl_codes (snd (github_login L now k r s)) = gl_codes s" "gl_auth (snd (github_login L now k r s)) = gl_auth s"
    by (simp_all add: github_login_def Let_def split: option.split)
  have "fst ` set (hm_retain P (gl_states s)) \<subseteq> fst ` set (gl_states s)" for P by (rule keys_retain)
  then show "fst ` set (gl_states (snd (github_login L now k r s))) \<subseteq> insert k (fst ` set (gl_states s))"
    by (auto simp: github_login_def keys_insert Let_def subset_insertI2 split: option.split)
qed

lemma github_callback_cases:
  obtains (refused) n m s1 where "github_callback L now unix c g q s = (LoginRefused n m, s1)" "s1 = s \<or> s1 = snd (consume_state now q s)"
  | (signed) r s1 t u where "consume_state now q s = (Inr r, s1)" "le_user L t = Answered u"
      "github_callback L now unix c g q s = finish_login L now unix c r t u s1"
proof -
  consider (id) "le_client_id L = None" | (secret) ci where "le_client_id L = Some ci" "le_client_secret L = None"
    | (both) ci cs where "le_client_id L = Some ci" "le_client_secret L = Some cs" by auto
  then show ?thesis
proof cases
  case id
  then show ?thesis by (intro refused[of 400 _ s]) (simp_all add: github_callback_def)
next
  case secret
  then show ?thesis by (intro refused[of 400 _ s]) (simp_all add: github_callback_def)
next
  case c: (both ci cs)
  obtain x s1 where x: "consume_state now q s = (x, s1)" by (metis surj_pair)
  show ?thesis
  proof (cases x)
    case (Inl e)
    then show ?thesis using c x by (intro refused[of 400 e s1]) (simp_all add: github_callback_def)
  next
    case (Inr r)
    let ?t = "le_token L [(''client_id'', ci), (''client_secret'', cs), (''code'', g), (''redirect_uri'', redirect_uri L)]"
    show ?thesis
    proof (cases ?t)
      case (NotAnswered e)
      then show ?thesis using c x Inr by (intro refused[of 502 _ s1]) (simp_all add: github_callback_def)
    next
      case NotReadable
      then show ?thesis using c x Inr by (intro refused[of 502 _ s1]) (simp_all add: github_callback_def)
    next
      case (Answered t)
      show ?thesis
      proof (cases "le_user L t")
        case (NotAnswered e)
        then show ?thesis using c x Inr Answered by (intro refused[of 502 _ s1]) (simp_all add: github_callback_def)
      next
        case NotReadable
        then show ?thesis using c x Inr Answered by (intro refused[of 502 _ s1]) (simp_all add: github_callback_def)
      next
        case u: (Answered u)
        then show ?thesis using c x Inr Answered by (intro signed[of r s1 t u]) (simp_all add: github_callback_def)
      qed
    qed
  qed
qed
qed

text \<open>Codes.\<close>

lemma grants_takes: "grants c e s \<Longrightarrow> code_held c s \<and> \<not> code_held c (login_step L e s)"
proof (cases e)
  case (ExchangeCalled now c')
  assume g: "grants c e s"
  let ?codes = "hm_retain (\<lambda>_ (_, created). elapsed now created \<le> from_secs CODE_SECS) (gl_codes s)"
  have c: "c' = c" using g ExchangeCalled by (simp add: grants_def)
  have "hm_get ?codes c \<noteq> None" using g ExchangeCalled by (auto simp: grants_def exchange_auth_code_def Let_def split: option.splits)
  then have "c \<in> fst ` set ?codes" using hm_get_in_set by force
  then have "code_held c s" using keys_retain by (force simp: code_held_def)
  moreover have "\<not> code_held c (login_step L e s)"
    by (simp add: ExchangeCalled c login_step_def login_call_def exchange_fields code_held_def keys_remove)
  ultimately show ?thesis by blast
qed (simp_all add: grants_def)

lemma code_brought: "code_held c (login_step L e s) \<Longrightarrow> code_held c s \<or> draws_code L c e s"
proof (cases e)
  case (LoginCalled now k r)
  assume "code_held c (login_step L e s)"
  then show ?thesis
    by (simp add: LoginCalled login_step_def login_call_def login_fields code_held_def)
next
  case (CallbackCalled now unix c' g q)
  assume held: "code_held c (login_step L e s)"
  show ?thesis
  proof (rule github_callback_cases[of L now unix c' g q s])
    fix n m s1 assume "github_callback L now unix c' g q s = (LoginRefused n m, s1)" "s1 = s \<or> s1 = snd (consume_state now q s)"
    then show ?thesis using held CallbackCalled consume_state_fields(1)
      by (auto simp: login_step_def login_call_def code_held_def)
  next
    fix r s1 t u assume f: "consume_state now q s = (Inr r, s1)" "github_callback L now unix c' g q s = finish_login L now unix c' r t u s1"
    have "gl_codes s1 = gl_codes s" using f(1) consume_state_fields(1)[of now q s] by simp
    then have "code_held c s \<or> c = c'" using held finish_login_fields(4)[of L now unix c' r t u s1]
      by (auto simp: CallbackCalled login_step_def login_call_def f(2) code_held_def)
    moreover have "signs_in L e s" using finish_login_fields(3) by (auto simp: signs_in_def CallbackCalled f(2))
    ultimately show ?thesis by (auto simp: draws_code_def CallbackCalled)
  qed
next
  case (ExchangeCalled now c')
  assume "code_held c (login_step L e s)"
  then have "c \<in> fst ` set (hm_retain (\<lambda>_ (_, created). elapsed now created \<le> from_secs CODE_SECS) (gl_codes s))"
    by (simp add: ExchangeCalled login_step_def login_call_def exchange_fields code_held_def keys_remove)
  then show ?thesis using keys_retain by (force simp: code_held_def)
qed

interpretation codes: tickets "login_step L" code_held "draws_code L" grants for L
  by unfold_locales (auto dest: grants_takes code_brought)

text \<open>State tokens.\<close>

lemma signs_in_takes: "signs_in_with L k e s \<Longrightarrow> state_held k s \<and> \<not> state_held k (login_step L e s)"
proof (cases e)
  case (CallbackCalled now unix c g q)
  assume s: "signs_in_with L k e s"
  then have q: "q = Some k" by (simp add: signs_in_with_def CallbackCalled)
  show ?thesis
  proof (rule github_callback_cases[of L now unix c g q s])
    fix n m s1 assume "github_callback L now unix c g q s = (LoginRefused n m, s1)"
    then show ?thesis using s by (simp add: signs_in_with_def signs_in_def CallbackCalled)
  next
    fix r s1 t u assume f: "consume_state now q s = (Inr r, s1)" "github_callback L now unix c g q s = finish_login L now unix c r t u s1"
    from f(1) obtain k' created where k: "q = Some k'" "hm_get (gl_states s) k' = Some (created, r)"
      "s1 = s\<lparr>gl_states := hm_remove k' (gl_states s)\<rparr>" by (rule consume_state_Inr)
    have "state_held k s" using k q hm_get_in_set by (force simp: state_held_def)
    moreover have "\<not> state_held k (login_step L e s)"
      unfolding CallbackCalled login_step_def login_call_def login_event.case f(2) state_held_def finish_login_fields(1)
      using k q by (simp add: keys_remove)
    ultimately show ?thesis by blast
  qed
qed (simp_all add: signs_in_with_def signs_in_def)

lemma state_brought: "state_held k (login_step L e s) \<Longrightarrow> state_held k s \<or> draws_state k e s"
proof (cases e)
  case (LoginCalled now k' r)
  assume "state_held k (login_step L e s)"
  then show ?thesis using login_fields(3)[of L now k' r s]
    by (auto simp: LoginCalled login_step_def login_call_def state_held_def draws_state_def)
next
  case (CallbackCalled now unix c g q)
  assume held: "state_held k (login_step L e s)"
  have sub: "fst ` set (gl_states (snd (consume_state now q s))) \<subseteq> fst ` set (gl_states s)" by (rule consume_state_fields)
  show ?thesis
  proof (rule github_callback_cases[of L now unix c g q s])
    fix n m s1 assume "github_callback L now unix c g q s = (LoginRefused n m, s1)" "s1 = s \<or> s1 = snd (consume_state now q s)"
    then show ?thesis using held CallbackCalled sub by (auto simp: login_step_def login_call_def state_held_def)
  next
    fix r s1 t u assume f: "consume_state now q s = (Inr r, s1)" "github_callback L now unix c g q s = finish_login L now unix c r t u s1"
    have "k \<in> fst ` set (gl_states s1)"
      using held unfolding CallbackCalled login_step_def login_call_def login_event.case f(2) state_held_def finish_login_fields(1) .
    then show ?thesis using sub f(1) by (auto simp: state_held_def)
  qed
next
  case (ExchangeCalled now c)
  assume "state_held k (login_step L e s)"
  then show ?thesis
    by (simp add: ExchangeCalled login_step_def login_call_def exchange_fields state_held_def)
qed

interpretation states: tickets "login_step L" state_held draws_state "signs_in_with L" for L
  by unfold_locales (auto dest: signs_in_takes state_brought)

definition login_new :: login_state where
  "login_new = \<lparr>gl_auth = None, gl_states = [], gl_codes = []\<rparr>"

text \<open>C38. Codes and state tokens are good for one use. From the start of the gateway, over any calls in any order: a code
  is exchanged for a token no more often than callbacks have drawn it, and a state token signs a user in no more often
  than logins have drawn it. (So once, the draws being unique.)\<close>

theorem login_tickets_single_use:
  "tally (login_step L) (grants c) es login_new \<le> tally (login_step L) (draws_code L c) es login_new \<and>
   tally (login_step L) (signs_in_with L k) es login_new \<le> tally (login_step L) (draws_state k) es login_new"
  using codes.redeemed_at_most_issued[of L c es login_new] states.redeemed_at_most_issued[of L k es login_new]
  by (simp add: login_new_def code_held_def state_held_def)

text \<open>They are also young: a code of more than 60 seconds grants nothing, a state token of more than ten minutes signs
  nobody in. The token granted is the one the code was stored with.\<close>

theorem granted_code_is_young:
  assumes "exchange_auth_code now c s = (TokenGranted jwt, s')" "hm_wf (gl_codes s)"
  shows "\<exists>created. hm_get (gl_codes s) c = Some (jwt, created) \<and> elapsed now created \<le> from_secs CODE_SECS \<and> hm_get (gl_codes s') c = None"
  using assms by (auto simp: exchange_auth_code_def Let_def hm_get_retain split: option.splits if_splits)

theorem sign_in_needs_young_state:
  assumes "github_callback L now unix c g q s = (RedirectTo u, s')"
  shows "\<exists>k created r. q = Some k \<and> hm_get (gl_states s) k = Some (created, r) \<and> elapsed now created \<le> from_secs STATE_SECS"
proof (rule github_callback_cases[of L now unix c g q s])
  fix n m s1 assume "github_callback L now unix c g q s = (LoginRefused n m, s1)"
  then show ?thesis using assms by simp
next
  fix r s1 t u' assume "consume_state now q s = (Inr r, s1)"
  then show ?thesis by (auto elim: consume_state_Inr)
qed

section \<open>Whom a request is taken for\<close>

definition demo_login_env :: login_env where
  "demo_login_env =
     \<lparr>le_client_id = Some ''id'', le_client_secret = Some ''secret'', le_redirect_url = None, le_auth_secret = None, le_port = 8081,
      le_encode = id, le_jwt = demo_jwt, le_token = \<lambda>_. Answered ''gho_alice'',
      le_user = \<lambda>_. Answered \<lparr>gu_login = ''alice'', gu_avatar_url = None\<rparr>, le_repos = \<lambda>_. Answered [],
      le_tree = \<lambda>_ _. NotReadable\<rparr>"

text \<open>C39. The user that signed in last is everyone. After a callback has signed a user in, every request is taken for that
  user, whatever token it carries and without any: the status shows the user, and the repositories, private ones
  included, are listed with the token GitHub gave to that user.\<close>

theorem everyone_is_the_last_user:
  assumes "github_callback L now unix c g q s = (RedirectTo target, s')"
  shows "\<exists>a. le_user L (ga_token a) = Answered (ga_user a) \<and>
    (\<forall>unix' req. resolve_auth L unix' s' req = Some a \<and> github_status L unix' s' req = LoginStatus (Some (ga_user a)) \<and>
       (\<forall>repos. le_repos L (ga_token a) = Answered repos \<longrightarrow> github_repos L unix' s' req = ReposListed repos))"
proof (rule github_callback_cases[of L now unix c g q s])
  fix n m s1 assume "github_callback L now unix c g q s = (LoginRefused n m, s1)"
  then show ?thesis using assms by simp
next
  fix r s1 t u assume f: "le_user L t = Answered u" "github_callback L now unix c g q s = finish_login L now unix c r t u s1"
  have "s' = snd (finish_login L now unix c r t u s1)" using assms f(2) by simp
  then have "gl_auth s' = Some \<lparr>ga_token = t, ga_user = u\<rparr>" using finish_login_fields(2) by simp
  then show ?thesis using f(1)
    by (intro exI[of _ "\<lparr>ga_token = t, ga_user = u\<rparr>"]) (simp add: resolve_auth_def github_status_def github_repos_def)
qed

theorem everyone_is_the_last_user_witness:
  "\<exists>s'. github_callback demo_login_env 0 0 ''c'' ''g'' (Some ''k'') (snd (github_login demo_login_env 0 ''k'' None login_new)) = (RedirectTo ''/'', s') \<and>
     (\<exists>a. \<forall>unix req. resolve_auth demo_login_env unix s' req = Some a)"
proof -
  have "\<exists>s'. github_callback demo_login_env 0 0 ''c'' ''g'' (Some ''k'') (snd (github_login demo_login_env 0 ''k'' None login_new)) = (RedirectTo ''/'', s')"
    by (simp add: github_callback_def github_login_def demo_login_env_def login_new_def consume_state_def finish_login_def auth_secret_def
        hm_retain_def elapsed_def Let_def)
  then obtain s' where s': "github_callback demo_login_env 0 0 ''c'' ''g'' (Some ''k'') (snd (github_login demo_login_env 0 ''k'' None login_new)) =
      (RedirectTo ''/'', s')" by blast
  then show ?thesis using everyone_is_the_last_user[OF s'] by blast
qed

text \<open>No handler signs a user out.\<close>

theorem nobody_signs_out: "gl_auth s \<noteq> None \<Longrightarrow> gl_auth (login_step L e s) \<noteq> None"
proof (cases e)
  case (CallbackCalled now unix c g q)
  assume a: "gl_auth s \<noteq> None"
  show ?thesis
  proof (rule github_callback_cases[of L now unix c g q s])
    fix n m s1 assume "github_callback L now unix c g q s = (LoginRefused n m, s1)" "s1 = s \<or> s1 = snd (consume_state now q s)"
    then show ?thesis using a consume_state_fields(2) by (auto simp: CallbackCalled login_step_def login_call_def)
  next
    fix r s1 t u assume "github_callback L now unix c g q s = finish_login L now unix c r t u s1"
    then show ?thesis using finish_login_fields(2) by (simp add: CallbackCalled login_step_def login_call_def)
  qed
qed (simp_all add: login_step_def login_call_def login_fields exchange_fields)

text \<open>The address to go back to is not checked: the code of a sign-in is sent to whatever address the link that
  started it named, on whatever host.\<close>

theorem code_sent_anywhere:
  assumes "github_login L now k (Some u) s = (RedirectTo v, s1)"
    and "github_callback L now' unix c g (Some k) s1 = (RedirectTo t, s2)"
  shows "t = u \<or> t = code_target (Some u) c"
proof (rule github_callback_cases[of L now' unix c g "Some k" s1])
  fix n m s1' assume "github_callback L now' unix c g (Some k) s1 = (LoginRefused n m, s1')"
  then show ?thesis using assms by simp
next
  fix r s1' tok usr assume f: "consume_state now' (Some k) s1 = (Inr r, s1')"
    "github_callback L now' unix c g (Some k) s1 = finish_login L now' unix c r tok usr s1'"
  have "hm_get (gl_states s1) k = Some (now, Some u)"
    using assms(1) by (auto simp: github_login_def Let_def split: option.splits)
  then have "r = Some u" using f(1) by (elim consume_state_Inr) simp
  then show ?thesis using assms(2) f(2)
    by (auto simp: finish_login_def Let_def split: option.splits sum.splits)
qed

definition signing_login_env :: login_env where
  "signing_login_env = demo_login_env\<lparr>le_auth_secret := Some (replicate 32 CHR ''s''),
     le_jwt := demo_jwt\<lparr>claims_to_json := \<lambda>_. Inr [1], b64_encode := \<lambda>_. ''x''\<rparr>\<rparr>"

theorem code_sent_anywhere_witness:
  "\<exists>t s2. github_callback signing_login_env 0 0 ''c1'' ''g'' (Some ''k'')
      (snd (github_login signing_login_env 0 ''k'' (Some ''https://evil.example/'') login_new)) = (RedirectTo t, s2) \<and>
    (t = ''https://evil.example/'' \<or> t = ''https://evil.example/?code=c1'')"
proof -
  let ?s1 = "snd (github_login signing_login_env 0 ''k'' (Some ''https://evil.example/'') login_new)"
  have 1: "\<exists>v. github_login signing_login_env 0 ''k'' (Some ''https://evil.example/'') login_new = (RedirectTo v, ?s1)"
    by (simp add: github_login_def signing_login_env_def demo_login_env_def Let_def)
  have "\<exists>r tok u s1. github_callback signing_login_env 0 0 ''c1'' ''g'' (Some ''k'') ?s1 = finish_login signing_login_env 0 0 ''c1'' r tok u s1"
    by (simp add: github_callback_def github_login_def signing_login_env_def demo_login_env_def login_new_def consume_state_def
        hm_retain_def elapsed_def Let_def) (intro exI, rule refl)
  then obtain r tok u s1 where f: "github_callback signing_login_env 0 0 ''c1'' ''g'' (Some ''k'') ?s1 = finish_login signing_login_env 0 0 ''c1'' r tok u s1"
    by (elim exE)
  obtain t s2 where "finish_login signing_login_env 0 0 ''c1'' r tok u s1 = (RedirectTo t, s2)"
    using finish_login_fields(3)[of signing_login_env 0 0 "''c1''" r tok u s1] by (cases "finish_login signing_login_env 0 0 ''c1'' r tok u s1") auto
  then have "\<exists>t s2. github_callback signing_login_env 0 0 ''c1'' ''g'' (Some ''k'') ?s1 = (RedirectTo t, s2)" unfolding f by (intro exI)
  then obtain t s2 where 2: "github_callback signing_login_env 0 0 ''c1'' ''g'' (Some ''k'') ?s1 = (RedirectTo t, s2)" by blast
  have c: "code_target (Some ''https://evil.example/'') ''c1'' = ''https://evil.example/?code=c1''"
    by (simp add: code_target_def)
  obtain v where v: "github_login signing_login_env 0 ''k'' (Some ''https://evil.example/'') login_new = (RedirectTo v, ?s1)" using 1 by blast
  have "t = ''https://evil.example/'' \<or> t = ''https://evil.example/?code=c1''" using code_sent_anywhere[OF v 2] unfolding c .
  then show ?thesis using 2 by (intro exI[of _ t] exI[of _ s2] conjI)
qed

lemma authenticated_key: "authenticate cfg key = Some i \<Longrightarrow> key \<in> fst ` set (ac_keys cfg)"
  by (force simp: authenticate_eq dest: map_of_SomeD)

lemma jwt_decode_no_dot: "CHR ''.'' \<notin> set t \<Longrightarrow> jwt_decode J unix t secret = Inl MalformedToken"
  by (simp add: jwt_decode_def split_at_single)

text \<open>With API keys required, the header that carries the key is the one that would carry the user's token: while nobody
  has signed in at this gateway, no request that passes with a key has a user, and the listing of repositories is
  refused to all of them. (Keys hold no dot.)\<close>

theorem api_keys_hide_users:
  assumes "api_key_auth cfg m path req = NextAs (Some i)" "\<forall>k \<in> fst ` set (ac_keys cfg). CHR ''.'' \<notin> set k" "gl_auth s = None"
  shows "resolve_auth L unix s req = None \<and> github_repos L unix s req = LoginRefused 401 ''GitHub not connected''"
proof -
  obtain key where key: "extract_bearer_token req = Some key" "authenticate cfg key = Some i"
    using assms(1) by (auto simp: api_key_auth_def split: if_splits option.splits)
  then have dot: "CHR ''.'' \<notin> set key" using assms(2) authenticated_key by blast
  obtain v where v: "rq_authorization req = Some v" "key = dropWhile is_ascii_space (drop 7 v)"
    using key(1) by (auto simp: extract_bearer_token_def split: option.splits if_splits)
  have "CHR ''.'' \<notin> set (takeWhile is_ascii_space (drop 7 v))"
    by (auto dest: set_takeWhileD simp: is_ascii_space_def code_def)
  then have "CHR ''.'' \<notin> set (drop 7 v)" using dot v(2) by (metis Un_iff set_append takeWhile_dropWhile_id)
  moreover have "t = drop 7 v" if "rust_strip_prefix ''Bearer '' v = Some t" for t
    using that by (auto simp: rust_strip_prefix_Some)
  ultimately have "jwt_decode J u t sec = Inl MalformedToken" if "rust_strip_prefix ''Bearer '' v = Some t" for J u t sec
    using that jwt_decode_no_dot by blast
  then have "resolve_auth L unix s req = None"
    using assms(3) v(1) by (simp add: resolve_auth_def split: option.split)
  then show ?thesis by (simp add: github_repos_def)
qed

theorem api_keys_hide_users_witness:
  "resolve_auth demo_login_env 0 login_new \<lparr>rq_connect_ip = None, rq_authorization = Some ''Bearer key1''\<rparr> = None"
proof -
  let ?cfg = "with_keys [(''key1'', \<lparr>id_name = ''a'', id_admin = True, id_namespaces = []\<rparr>)] True"
  let ?req = "\<lparr>rq_connect_ip = None, rq_authorization = Some ''Bearer key1''\<rparr>"
  have "map to_ascii_lowercase ''Bearer '' = ''bearer ''" "\<not> is_ascii_space CHR ''k''" by code_simp+
  then have "extract_bearer_token ?req = Some ''key1''" by (simp add: extract_bearer_token_def)
  then have "api_key_auth ?cfg ''GET'' ''/api/github/repos'' ?req = NextAs (Some \<lparr>id_name = ''a'', id_admin = True, id_namespaces = []\<rparr>)"
    by (simp add: api_key_auth_def is_public_route_def with_keys_def public_routes_def route_matches_def starts_with_def authenticate_def Let_def)
  then show ?thesis using api_keys_hide_users[of ?cfg "''GET''" "''/api/github/repos''" ?req] by (auto simp: with_keys_def login_new_def)
qed

end
