(* ===== verification/Deployments.thy ===== *)
theory Deployments
  imports EdgeRoutes GithubLogin
begin

text \<open>
  Deployments, \<open>gateway/src/dashboard.rs\<close>: the record of a deployment and its copy in Redis, the deployment of a GitHub
  repository (plain and with a build session), and the handlers that start, repeat, list, show and delete deployments.

  Outside are downloads, the ZIP library, IPFS, Redis (over a state \<open>'r\<close>), the file system (over \<open>'f\<close>) and the clock. Metrics
  and the audit log are left out, and a build waits for no permit. \<open>None\<close> is a panic, or a process that is still
  starting when the observations given for it end. A map is walked in the order of its entries.
\<close>

section \<open>Deployments\<close>

record deployment =
  dep_name :: string
  dep_cid :: string
  dep_size :: u64
  dep_file_count :: nat
  dep_created_at :: string
  dep_source :: string
  dep_branch :: "string option"
  dep_repo_url :: "string option"
  dep_build_status :: string
  dep_build_logs :: "string option"
  dep_status :: string
  dep_domain :: "string option"
  dep_root_directory :: "string option"
  dep_env_vars :: "(string, string) hmap option"
  dep_build_command :: "string option"
  dep_output_directory :: "string option"
  dep_deployed_by :: "string option"
  dep_deploy_mode :: string
  dep_process_port :: "u16 option"
  dep_start_command :: "string list option"

definition deployment_new :: "string \<Rightarrow> string \<Rightarrow> string \<Rightarrow> u64 \<Rightarrow> nat \<Rightarrow> deployment" where
  "deployment_new made_at nm cid sz files =
     \<lparr>dep_name = nm, dep_cid = cid, dep_size = sz, dep_file_count = files, dep_created_at = made_at,
      dep_source = ''upload'', dep_branch = None, dep_repo_url = None, dep_build_status = ''Uploaded'',
      dep_build_logs = Some ''Uploaded ZIP without build step'', dep_status = ''Ready'', dep_domain = None,
      dep_root_directory = None, dep_env_vars = None, dep_build_command = None, dep_output_directory = None,
      dep_deployed_by = None, dep_deploy_mode = ''static'', dep_process_port = None, dep_start_command = None\<rparr>"

text \<open>What a deployment from GitHub was asked for.\<close>

record github_request =
  gq_url :: string
  gq_branch :: string
  gq_root_directory :: "string option"
  gq_env_vars :: "(string, string) hmap option"
  gq_build_command :: "string option"
  gq_output_directory :: "string option"

definition deployment_new_github ::
    "string \<Rightarrow> string \<Rightarrow> string \<Rightarrow> u64 \<Rightarrow> nat \<Rightarrow> github_request \<Rightarrow> build_outcome \<Rightarrow> deployment" where
  "deployment_new_github made_at nm cid sz files q b =
     \<lparr>dep_name = nm, dep_cid = cid, dep_size = sz, dep_file_count = files, dep_created_at = made_at,
      dep_source = ''github'', dep_branch = Some (gq_branch q), dep_repo_url = Some (gq_url q),
      dep_build_status = bu_build_status b, dep_build_logs = Some (bu_build_logs b), dep_status = ''Ready'',
      dep_domain = None, dep_root_directory = gq_root_directory q, dep_env_vars = gq_env_vars q,
      dep_build_command = gq_build_command q, dep_output_directory = gq_output_directory q,
      dep_deployed_by = None, dep_deploy_mode = ''static'', dep_process_port = None, dep_start_command = None\<rparr>"

section \<open>The copy in Redis\<close>

record 'r deploy_redis =
  dr_set_json :: "string \<Rightarrow> deployment \<Rightarrow> 'r \<Rightarrow> (string + unit) \<times> 'r"
  dr_zadd :: "string \<Rightarrow> string \<Rightarrow> 'r \<Rightarrow> (string + unit) \<times> 'r"
  dr_zrevrange :: "string \<Rightarrow> 'r \<Rightarrow> string + string list"
  dr_get_json :: "string \<Rightarrow> 'r \<Rightarrow> string + deployment option"
  dr_delete :: "string \<Rightarrow> 'r \<Rightarrow> (string + unit) \<times> 'r"
  dr_zrem :: "string \<Rightarrow> string \<Rightarrow> 'r \<Rightarrow> (string + unit) \<times> 'r"

definition deployment_key :: "string \<Rightarrow> string" where
  "deployment_key cid = ''deployment:'' @ cid"

definition and_then_redis :: "(string + unit) \<times> 'r \<Rightarrow> ('r \<Rightarrow> (string + unit) \<times> 'r) \<Rightarrow> (string + unit) \<times> 'r" where
  "and_then_redis r k = (case r of (Inl e, s) \<Rightarrow> (Inl e, s) | (Inr _, s) \<Rightarrow> k s)"

definition save_to_redis :: "'r deploy_redis \<Rightarrow> deployment \<Rightarrow> 'r \<Rightarrow> (string + unit) \<times> 'r" where
  "save_to_redis R d r =
     and_then_redis (dr_set_json R (deployment_key (dep_cid d)) d r) (dr_zadd R ''deployments'' (dep_cid d))"

definition delete_from_redis :: "'r deploy_redis \<Rightarrow> string \<Rightarrow> 'r \<Rightarrow> (string + unit) \<times> 'r" where
  "delete_from_redis R cid r = and_then_redis (dr_delete R (deployment_key cid) r) (dr_zrem R ''deployments'' cid)"

text \<open>The first that cannot be read ends the loading; one that is missing is passed over.\<close>

fun load_each :: "'r deploy_redis \<Rightarrow> 'r \<Rightarrow> string list \<Rightarrow> string + deployment list" where
  "load_each R r [] = Inr []"
| "load_each R r (cid # cids) =
     (case dr_get_json R (deployment_key cid) r of
        Inl e \<Rightarrow> Inl e
      | Inr found \<Rightarrow>
          (case load_each R r cids of
             Inl e \<Rightarrow> Inl e
           | Inr ds \<Rightarrow> Inr (case found of Some d \<Rightarrow> d # ds | None \<Rightarrow> ds)))"

definition load_all_from_redis :: "'r deploy_redis \<Rightarrow> 'r \<Rightarrow> string + deployment list" where
  "load_all_from_redis R r = (case dr_zrevrange R ''deployments'' r of Inl e \<Rightarrow> Inl e | Inr cids \<Rightarrow> load_each R r cids)"

section \<open>The gateway around them\<close>

fun count_files :: "dir_tree \<Rightarrow> u64 \<times> nat" where
  "count_files (TreeFile None) = (0, 0)"
| "count_files (TreeFile (Some n)) = (n, 1)"
| "count_files (TreeDir None) = (0, 0)"
| "count_files (TreeDir (Some ts)) = fold (\<lambda>t (sz, n). case count_files t of (s, c) \<Rightarrow> (sz + s, n + c)) ts (0, 0)"

datatype download = DownloadFailed string | Downloaded nat "(string + bytes) list" \<comment> \<open>status, chunks\<close>

text \<open>\<open>de_unpack\<close> makes a temporary directory with what was extracted, \<open>de_drop\<close> removes it.\<close>

record ('m, 'f, 'r) deploy_env =
  de_download :: "string \<Rightarrow> download"
  de_temp_dir :: "'f \<Rightarrow> string + string"
  de_zip :: "bytes \<Rightarrow> string + (string + zip_entry) list"
  de_fails :: "'f \<Rightarrow> string \<Rightarrow> string option"
  de_unpack :: "string \<Rightarrow> extracted \<Rightarrow> 'f \<Rightarrow> 'f"
  de_drop :: "string \<Rightarrow> 'f \<Rightarrow> 'f"
  de_os :: "'f build_os"
  de_tree :: "string \<Rightarrow> 'f \<Rightarrow> dir_tree"
  de_storage :: "(string \<Rightarrow> 'f \<Rightarrow> string + string) option"
  de_names :: names_env
  de_redis :: "'r deploy_redis option"
  de_created_at :: string
  de_prims :: prims
  de_config :: deploy_config
  de_process_config :: process_manager_config
  de_process :: "'f \<Rightarrow> process_env"
  de_now :: instant
  de_probes :: "probe list"
  de_waits :: "(instant \<times> wait_answer) list"
  de_json :: "bytes \<Rightarrow> string + route_manifest"
  de_upper :: "string \<Rightarrow> string"
  de_wasm :: "'m wasm_env"
  de_login :: login_env
  de_unix :: u64

record ('m, 'f, 'r) deploy_state =
  ds_deployments :: "(string, deployment) hmap"
  ds_sessions :: "(string, build_session) hmap"
  ds_edge :: "'m edge_state"
  ds_names :: names_state
  ds_login :: login_state
  ds_redis :: 'r
  ds_files :: 'f

definition MAX_ZIP_DOWNLOAD :: nat where
  "MAX_ZIP_DOWNLOAD = 512 * 1024 * 1024"

text \<open>Refusals have a status and a message.\<close>

type_synonym refusal = "nat \<times> string"

fun collect_chunks :: "(string + bytes) list \<Rightarrow> bytes \<Rightarrow> refusal + bytes" where
  "collect_chunks [] acc = Inr acc"
| "collect_chunks (Inl e # cs) acc = Inl (502, ''Failed to read: '' @ e)"
| "collect_chunks (Inr c # cs) acc =
     (if length acc + length c > MAX_ZIP_DOWNLOAD then Inl (413, ''Repository archive exceeds 512 MB limit'')
      else collect_chunks cs (acc @ c))"

definition download_archive :: "('m, 'f, 'r) deploy_env \<Rightarrow> repo_info \<Rightarrow> string \<Rightarrow> refusal + bytes" where
  "download_archive E r branch =
     (case de_download E (zip_url r branch) of
        DownloadFailed e \<Rightarrow> Inl (502, ''Failed to download: '' @ e)
      | Downloaded st cs \<Rightarrow>
          if \<not> (200 \<le> st \<and> st < 300) then
            Inl (404, ''Repository or branch '' @ [CHR 0x27] @ branch @ [CHR 0x27] @ '' not found'')
          else collect_chunks cs [])"

text \<open>The temporary directory with the repository, and the files after it was made.\<close>

definition unpack_archive :: "('m, 'f, 'r) deploy_env \<Rightarrow> bytes \<Rightarrow> 'f \<Rightarrow> refusal + string \<times> 'f" where
  "unpack_archive E z f =
     (case extract_github_zip (de_temp_dir E f) (de_zip E z) (de_fails E f) of
        Inl e \<Rightarrow> Inl (500, e)
      | Inr x \<Rightarrow> (case de_temp_dir E f of Inl e \<Rightarrow> Inl (500, e) | Inr dir \<Rightarrow> Inr (dir, de_unpack E dir x f)))"

definition trim_slashes :: "string \<Rightarrow> string" where
  "trim_slashes s = trim_end_slashes (dropWhile (\<lambda>c. c = CHR ''/'') s)"

text \<open>The directory to build in; with a subdirectory also its cleaned name.\<close>

definition resolve_build_root ::
    "'f build_os \<Rightarrow> string \<Rightarrow> string option \<Rightarrow> 'f \<Rightarrow> refusal + string \<times> string option" where
  "resolve_build_root B dir root_directory f =
     (case Option.bind root_directory non_empty of
        None \<Rightarrow> Inr (dir, None)
      | Some rd \<Rightarrow>
          (let cleaned = trim_slashes rd; sub = path_join dir cleaned in
           if str_contains cleaned ''..'' then
             Inl (400, ''root_directory must not contain '' @ [CHR 0x27] @ ''..'' @ [CHR 0x27])
           else if \<not> is_directory B sub f then
             Inl (400, ''Root directory '' @ [CHR 0x27] @ cleaned @ [CHR 0x27] @ '' not found in repository'')
           else Inr (sub, Some cleaned)))"

text \<open>The upload: the CID of the directory.\<close>

definition publish :: "('m, 'f, 'r) deploy_env \<Rightarrow> string \<Rightarrow> 'f \<Rightarrow> refusal + string" where
  "publish E dir f =
     (case de_storage E of
        None \<Rightarrow> Inl (503, ''IPFS not available'')
      | Some store_dir \<Rightarrow>
          (case store_dir dir f of Inl e \<Rightarrow> Inl (500, ''IPFS upload failed: '' @ e) | Inr cid \<Rightarrow> Inr cid))"

definition save_deployment :: "('m, 'f, 'r) deploy_env \<Rightarrow> deployment \<Rightarrow> ('m, 'f, 'r) deploy_state \<Rightarrow> ('m, 'f, 'r) deploy_state" where
  "save_deployment E d s =
     (let r = (case de_redis E of None \<Rightarrow> ds_redis s | Some R \<Rightarrow> snd (save_to_redis R d (ds_redis s)))
      in s\<lparr>ds_redis := r, ds_deployments := hm_insert (dep_cid d) d (ds_deployments s)\<rparr>)"

definition assign_domain ::
    "('m, 'f, 'r) deploy_env \<Rightarrow> string \<Rightarrow> deployment \<Rightarrow> ('m, 'f, 'r) deploy_state \<Rightarrow> deployment \<times> ('m, 'f, 'r) deploy_state" where
  "assign_domain E repo d s =
     (case auto_assign_domain (de_names E) repo (dep_cid d) (ds_names s) of
        (domain, n) \<Rightarrow> (d\<lparr>dep_domain := domain\<rparr>, s\<lparr>ds_names := n\<rparr>))"

definition payload_of :: "repo_info \<Rightarrow> string \<Rightarrow> string option \<Rightarrow> deployment \<Rightarrow> deploy_payload" where
  "payload_of r branch deploy_mode d =
     \<lparr>dp_cid = dep_cid d, dp_domain = dep_domain d, dp_deploy_mode = deploy_mode, dp_repo = ri_owner r @ ''/'' @ ri_repo r,
      dp_branch = branch\<rparr>"

text \<open>Checks and download, before anything is written.\<close>

definition fetch_repository :: "('m, 'f, 'r) deploy_env \<Rightarrow> github_request \<Rightarrow> refusal + repo_info \<times> bytes" where
  "fetch_repository E q =
     (case parse_github_url (gq_url q) of
        None \<Rightarrow> Inl (400, ''Invalid GitHub URL'')
      | Some r \<Rightarrow>
          if \<not> is_valid_branch_name (gq_branch q) then Inl (400, ''Invalid branch name'')
          else (case download_archive E r (gq_branch q) of Inl e \<Rightarrow> Inl e | Inr z \<Rightarrow> Inr (r, z)))"

section \<open>Plain deployments\<close>

text \<open>The part between unpacking and the end, in the directory; the directory is dropped afterwards.\<close>

definition deploy_unpacked ::
    "('m, 'f, 'r) deploy_env \<Rightarrow> github_request \<Rightarrow> repo_info \<Rightarrow> string \<Rightarrow> ('m, 'f, 'r) deploy_state \<Rightarrow>
     ((refusal + deploy_payload) \<times> ('m, 'f, 'r) deploy_state) option" where
  "deploy_unpacked E q r dir s =
     (case resolve_build_root (de_os E) dir (gq_root_directory q) (ds_files s) of
        Inl e \<Rightarrow> Some (Inl e, s)
      | Inr (build_root, _) \<Rightarrow>
          (case prepare_deploy_dir (de_os E) build_root (gq_env_vars q) (gq_build_command q) (gq_output_directory q) (ds_files s) of
             None \<Rightarrow> None
           | Some (Inl e, f) \<Rightarrow> Some (Inl (500, e), s\<lparr>ds_files := f\<rparr>)
           | Some (Inr b, f) \<Rightarrow>
               (let s1 = s\<lparr>ds_files := f\<rparr>; (sz, files) = count_files (de_tree E (bu_deploy_root b) f) in
                case publish E (bu_deploy_root b) f of
                  Inl e \<Rightarrow> Some (Inl e, s1)
                | Inr cid \<Rightarrow>
                    (case assign_domain E (ri_repo r) (deployment_new_github (de_created_at E) (ri_repo r) cid sz files q b) s1 of
                       (d, s2) \<Rightarrow> Some (Inr (payload_of r (gq_branch q) None d), save_deployment E d s2)))))"

definition drop_dir :: "('m, 'f, 'r) deploy_env \<Rightarrow> string \<Rightarrow> ('m, 'f, 'r) deploy_state \<Rightarrow> ('m, 'f, 'r) deploy_state" where
  "drop_dir E dir s = s\<lparr>ds_files := de_drop E dir (ds_files s)\<rparr>"

definition deploy_github_project ::
    "('m, 'f, 'r) deploy_env \<Rightarrow> github_request \<Rightarrow> ('m, 'f, 'r) deploy_state \<Rightarrow>
     ((refusal + deploy_payload) \<times> ('m, 'f, 'r) deploy_state) option" where
  "deploy_github_project E q s =
     (case fetch_repository E q of
        Inl e \<Rightarrow> Some (Inl e, s)
      | Inr (r, z) \<Rightarrow>
          (case unpack_archive E z (ds_files s) of
             Inl e \<Rightarrow> Some (Inl e, s)
           | Inr (dir, f) \<Rightarrow>
               map_option (\<lambda>(res, s'). (res, drop_dir E dir s')) (deploy_unpacked E q r dir (s\<lparr>ds_files := f\<rparr>))))"

section \<open>Deployments with a session\<close>

text \<open>The process of a dynamic deployment. The framework is looked for in the directory that was published.\<close>

definition merge_env :: "(string, string) hmap \<Rightarrow> (string, string) hmap option \<Rightarrow> (string, string) hmap" where
  "merge_env base user = (case user of None \<Rightarrow> base | Some m \<Rightarrow> fold (\<lambda>(k, v) acc. hm_insert k v acc) m base)"

definition start_dynamic ::
    "('m, 'f, 'r) deploy_env \<Rightarrow> github_request \<Rightarrow> string \<Rightarrow> deployment \<Rightarrow> ('m, 'f, 'r) deploy_state \<Rightarrow> build_session \<Rightarrow>
     (deployment \<times> ('m, 'f, 'r) deploy_state \<times> build_session) option" where
  "start_dynamic E q deploy_root d0 s ses =
     (let d = d0\<lparr>dep_deploy_mode := ''dynamic''\<rparr> in
      case detect_deploy_mode (de_os E) deploy_root True (ds_files s) of
        None \<Rightarrow> Some (d, s, ses)
      | Some c \<Rightarrow>
          (let d1 = d\<lparr>dep_start_command := Some (dc_start_command c)\<rparr> in
           case ed_processes (ds_edge s) of
             None \<Rightarrow> Some (d1, s, push_log ''Warning: dynamic deployments are disabled in gateway config'' ses)
           | Some pm \<Rightarrow>
               (let ses1 = push_log (''Starting SSR server: '' @ join_with '' '' (dc_start_command c)) ses in
                case spawn_process (de_process_config E) (de_process E (ds_files s)) (de_now E) (de_probes E) (de_waits E)
                       (dep_cid d) deploy_root (dc_start_command c) (merge_env (dc_env_overrides c) (gq_env_vars q)) pm of
                  None \<Rightarrow> None
                | Some (res, pm') \<Rightarrow>
                    (let s1 = s\<lparr>ds_edge := (ds_edge s)\<lparr>ed_processes := Some pm'\<rparr>\<rparr> in
                     case res of
                       Inr port \<Rightarrow>
                         Some (d1\<lparr>dep_process_port := Some port\<rparr>, s1,
                               push_log (''SSR server running on port '' @ show_nat (unat port)) ses1)
                     | Inl e \<Rightarrow> Some (d1, s1, push_log (''Warning: failed to start SSR server: '' @ e) ses1)))))"

text \<open>The modules of a manifest.\<close>

definition sm_dir :: "string \<Rightarrow> string" where
  "sm_dir deploy_root = path_join deploy_root ''_shadowmesh''"

definition load_route_module ::
    "('m, 'f, 'r) deploy_env \<Rightarrow> 'f \<Rightarrow> string \<Rightarrow> string \<Rightarrow> route_entry \<Rightarrow> 'm wasm_runtime \<times> build_session \<Rightarrow> 'm wasm_runtime \<times> build_session" where
  "load_route_module E f deploy_root cid route ws =
     (let h = rr_handler route; module_path = path_join (sm_dir deploy_root) h in
      if \<not> bo_exists (de_os E) module_path f then (fst ws, push_log (''Warning: handler '' @ h @ '' not found'') (snd ws))
      else
        (case bo_read (de_os E) module_path f of
           None \<Rightarrow> (fst ws, push_log (''Failed to read '' @ h) (snd ws))
         | Some b \<Rightarrow>
             (case load_module (de_wasm E) (handler_key cid h) b (fst ws) of
                (Inr _, w) \<Rightarrow> (w, push_log (''Loaded WASM module: '' @ h) (snd ws))
              | (Inl e, w) \<Rightarrow> (w, push_log (''Failed to load '' @ h @ '': '' @ e) (snd ws)))))"

definition load_functions ::
    "('m, 'f, 'r) deploy_env \<Rightarrow> string \<Rightarrow> deployment \<Rightarrow> ('m, 'f, 'r) deploy_state \<Rightarrow> build_session \<Rightarrow>
     deployment \<times> ('m, 'f, 'r) deploy_state \<times> build_session" where
  "load_functions E deploy_root d s ses =
     (case load_manifest_from_dir (de_json E) (de_upper E) (bo_read (de_os E) (path_join (sm_dir deploy_root) ''routes.json'') (ds_files s)) of
        None \<Rightarrow> (d, s, ses)
      | Some m \<Rightarrow>
          (let ses1 = push_log (''Found edge function manifest: '' @ show_nat (length (rm_routes m)) @ '' routes'') ses;
               edge = ds_edge s;
               (w', ses2) = (case ed_wasm edge of
                  None \<Rightarrow> (None, ses1)
                | Some w \<Rightarrow>
                    (case fold (load_route_module E (ds_files s) deploy_root (dep_cid d)) (rm_routes m) (w, ses1) of
                       (w', ses2) \<Rightarrow> (Some w', ses2)))
           in (d\<lparr>dep_deploy_mode := ''edge''\<rparr>,
               s\<lparr>ds_edge := edge\<lparr>ed_wasm := w', ed_manifests := hm_insert (dep_cid d) m (ed_manifests edge)\<rparr>\<rparr>, ses2)))"

text \<open>The rest of a deployment once it is uploaded.\<close>

definition deploy_published ::
    "('m, 'f, 'r) deploy_env \<Rightarrow> github_request \<Rightarrow> repo_info \<Rightarrow> string option \<Rightarrow> bool \<Rightarrow> build_outcome \<Rightarrow> u64 \<times> nat \<Rightarrow> string \<Rightarrow>
     ('m, 'f, 'r) deploy_state \<Rightarrow> build_session \<Rightarrow> (deploy_payload \<times> ('m, 'f, 'r) deploy_state \<times> build_session) option" where
  "deploy_published E q r deployed_by is_dynamic b counted cid s ses =
     (case assign_domain E (ri_repo r) (deployment_new_github (de_created_at E) (ri_repo r) cid (fst counted) (snd counted) q b) s of
        (d0, s1) \<Rightarrow>
          (let d1 = d0\<lparr>dep_deployed_by := deployed_by\<rparr> in
           case (if is_dynamic then start_dynamic E q (bu_deploy_root b) d1 s1 (push_log (''Uploaded to IPFS: '' @ cid) ses)
                 else Some (d1, s1, push_log (''Uploaded to IPFS: '' @ cid) ses)) of
             None \<Rightarrow> None
           | Some (d2, s2, ses2) \<Rightarrow>
               (case load_functions E (bu_deploy_root b) d2 s2 ses2 of
                  (d3, s3, ses3) \<Rightarrow>
                    Some (payload_of r (gq_branch q) (Some (dep_deploy_mode d3)) d3, save_deployment E d3 s3,
                      push_log ''Deployment complete!''
                        (case dep_domain d3 of Some n \<Rightarrow> push_log (''Domain: '' @ n) ses3 | None \<Rightarrow> ses3)))))"

text \<open>A panic of the build is an error of the task it runs in; what it printed and wrote until then is left out.\<close>

definition deploy_unpacked_streaming ::
    "('m, 'f, 'r) deploy_env \<Rightarrow> github_request \<Rightarrow> repo_info \<Rightarrow> string option \<Rightarrow> bool \<Rightarrow> string \<Rightarrow> ('m, 'f, 'r) deploy_state \<Rightarrow>
     build_session \<Rightarrow> ((refusal + deploy_payload) \<times> ('m, 'f, 'r) deploy_state \<times> build_session) option" where
  "deploy_unpacked_streaming E q r deployed_by is_dynamic dir s ses =
     (case resolve_build_root (de_os E) dir (gq_root_directory q) (ds_files s) of
        Inl e \<Rightarrow> Some (Inl e, s, ses)
      | Inr (build_root, shown) \<Rightarrow>
          (let ses1 = (case shown of Some c \<Rightarrow> push_log (''Using root directory: '' @ c) ses | None \<Rightarrow> ses) in
           case prepare_deploy_dir_streaming (de_prims E) (de_os E) build_root (gq_env_vars q) (gq_build_command q)
                  (gq_output_directory q) (de_config E) is_dynamic (ds_files s, ses1) of
             None \<Rightarrow> Some (Inl (500, ''Build task failed''), s, ses1)
           | Some (Inl e, f, ses2) \<Rightarrow> Some (Inl (500, e), s\<lparr>ds_files := f\<rparr>, ses2)
           | Some (Inr b, f, ses2) \<Rightarrow>
               (case publish E (bu_deploy_root b) f of
                  Inl e \<Rightarrow> Some (Inl e, s\<lparr>ds_files := f\<rparr>, ses2)
                | Inr cid \<Rightarrow>
                    map_option (\<lambda>(p, s', ses'). (Inr p, s', ses'))
                      (deploy_published E q r deployed_by is_dynamic b (count_files (de_tree E (bu_deploy_root b) f)) cid
                        (s\<lparr>ds_files := f\<rparr>) ses2))))"

definition deploy_github_project_streaming ::
    "('m, 'f, 'r) deploy_env \<Rightarrow> github_request \<Rightarrow> string option \<Rightarrow> bool \<Rightarrow> ('m, 'f, 'r) deploy_state \<Rightarrow> build_session \<Rightarrow>
     ((refusal + deploy_payload) \<times> ('m, 'f, 'r) deploy_state \<times> build_session) option" where
  "deploy_github_project_streaming E q deployed_by is_dynamic s ses =
     (case parse_github_url (gq_url q) of
        None \<Rightarrow> Some (Inl (400, ''Invalid GitHub URL''), s, ses)
      | Some r \<Rightarrow>
          if \<not> is_valid_branch_name (gq_branch q) then Some (Inl (400, ''Invalid branch name''), s, ses)
          else
            (let ses1 = push_log (''Cloning '' @ ri_owner r @ ''/'' @ ri_repo r @ '' (branch: '' @ gq_branch q @ '')'') ses in
             case download_archive E r (gq_branch q) of
               Inl e \<Rightarrow> Some (Inl e, s, ses1)
             | Inr z \<Rightarrow>
                 (case unpack_archive E z (ds_files s) of
                    Inl e \<Rightarrow> Some (Inl e, s, ses1)
                  | Inr (dir, f) \<Rightarrow>
                      map_option (\<lambda>(res, s', ses'). (res, drop_dir E dir s', ses'))
                        (deploy_unpacked_streaming E q r deployed_by is_dynamic dir (s\<lparr>ds_files := f\<rparr>) ses1))))"

section \<open>Starting a deployment\<close>

text \<open>The body of \<open>POST /api/deploy/github\<close> and what it asks for; the second component is whether the deployment is to
  run.\<close>

record github_deploy_request =
  gd_url :: string
  gd_branch :: "string option"
  gd_root_directory :: "string option"
  gd_env_vars :: "(string, string) hmap option"
  gd_build_command :: "string option"
  gd_output_directory :: "string option"
  gd_deploy_mode :: "string option"

definition requested :: "github_deploy_request \<Rightarrow> github_request \<times> bool" where
  "requested b =
     (\<lparr>gq_url = rust_trim (gd_url b), gq_branch = (case gd_branch b of Some x \<Rightarrow> x | None \<Rightarrow> ''main''),
       gq_root_directory = gd_root_directory b, gq_env_vars = gd_env_vars b, gq_build_command = gd_build_command b,
       gq_output_directory = gd_output_directory b\<rparr>,
      gd_deploy_mode b = Some ''dynamic'')"

text \<open>The handler opens a session and hands the task that builds the request, with the name of the user that signed in last
  (who it is for). The answer is the id of the deployment.\<close>

definition deploy_from_github ::
    "string \<Rightarrow> github_deploy_request \<Rightarrow> ('m, 'f, 'r) deploy_state \<Rightarrow>
     (string \<times> (github_request \<times> bool) \<times> string option) \<times> ('m, 'f, 'r) deploy_state" where
  "deploy_from_github deploy_id b s =
     ((deploy_id, requested b, map_option (\<lambda>a. gu_login (ga_user a)) (gl_auth (ds_login s))),
      s\<lparr>ds_sessions := hm_insert deploy_id session_new (ds_sessions s)\<rparr>)"

text \<open>The task, once it has its permit: the semaphore is never closed.\<close>

definition build_task ::
    "('m, 'f, 'r) deploy_env \<Rightarrow> (deploy_payload \<Rightarrow> string) \<Rightarrow> string \<Rightarrow> github_request \<Rightarrow> string option \<Rightarrow> bool \<Rightarrow> build_session \<Rightarrow>
     ('m, 'f, 'r) deploy_state \<Rightarrow> ('m, 'f, 'r) deploy_state option" where
  "build_task E render deploy_id q deployed_by is_dynamic ses s =
     map_option (\<lambda>(res, s', ses').
         s'\<lparr>ds_sessions := hm_modify deploy_id (\<lambda>_. case res of
              Inr p \<Rightarrow> session_complete render p ses' | Inl (_, message) \<Rightarrow> session_fail message ses') (ds_sessions s')\<rparr>)
       (deploy_github_project_streaming E q deployed_by is_dynamic s (push_log (''Starting deployment from '' @ gq_url q) ses))"

definition end_session :: "string \<Rightarrow> ('m, 'f, 'r) deploy_state \<Rightarrow> ('m, 'f, 'r) deploy_state" where
  "end_session deploy_id s = s\<lparr>ds_sessions := hm_remove deploy_id (ds_sessions s)\<rparr>"

section \<open>Repeating, listing, showing, deleting\<close>

datatype deploy_reply =
    DeployRefused nat string
  | DeployDone deploy_payload
  | DeployIgnored string
  | DeployLogs string string
  | DeployList "deployment list"
  | DeployDeleted

definition current_login :: "('m, 'f, 'r) deploy_env \<Rightarrow> http_request \<Rightarrow> ('m, 'f, 'r) deploy_state \<Rightarrow> string option" where
  "current_login E req s = map_option (\<lambda>a. gu_login (ga_user a)) (resolve_auth (de_login E) (de_unix E) (ds_login s) req)"

text \<open>The checks the three handlers of one deployment share: the tenant of the key, then the owner, when a user is known
  and the deployment has one.\<close>

definition denied ::
    "('m, 'f, 'r) deploy_env \<Rightarrow> api_identity option \<Rightarrow> http_request \<Rightarrow> string \<Rightarrow> ('m, 'f, 'r) deploy_state \<Rightarrow> bool" where
  "denied E identity req cid s \<longleftrightarrow>
     (case identity of Some i \<Rightarrow> \<not> is_authorized_for i cid | None \<Rightarrow> False) \<or>
     (case (current_login E req s, Option.bind (hm_get (ds_deployments s) cid) dep_deployed_by) of
        (Some user, Some owner) \<Rightarrow> user \<noteq> owner
      | _ \<Rightarrow> False)"

definition refuse_other :: deploy_reply where
  "refuse_other = DeployRefused 403 ''Not authorized for this deployment''"

definition forget_deployment :: "('m, 'f, 'r) deploy_env \<Rightarrow> string \<Rightarrow> ('m, 'f, 'r) deploy_state \<Rightarrow> ('m, 'f, 'r) deploy_state" where
  "forget_deployment E cid s =
     s\<lparr>ds_deployments := hm_remove cid (ds_deployments s),
       ds_redis := (case de_redis E of None \<Rightarrow> ds_redis s | Some R \<Rightarrow> snd (delete_from_redis R cid (ds_redis s)))\<rparr>"

definition request_of :: "string \<Rightarrow> deployment \<Rightarrow> github_request" where
  "request_of url d =
     \<lparr>gq_url = url, gq_branch = (case dep_branch d of Some b \<Rightarrow> b | None \<Rightarrow> ''main''), gq_root_directory = dep_root_directory d,
      gq_env_vars = dep_env_vars d, gq_build_command = dep_build_command d, gq_output_directory = dep_output_directory d\<rparr>"

definition redeploy_github ::
    "('m, 'f, 'r) deploy_env \<Rightarrow> api_identity option \<Rightarrow> http_request \<Rightarrow> string \<Rightarrow> ('m, 'f, 'r) deploy_state \<Rightarrow>
     (deploy_reply \<times> ('m, 'f, 'r) deploy_state) option" where
  "redeploy_github E identity req cid s =
     (if denied E identity req cid s then Some (refuse_other, s)
      else
        (case hm_get (ds_deployments s) cid of
           None \<Rightarrow> Some (DeployRefused 404 ''Deployment not found'', s)
         | Some d \<Rightarrow>
             if dep_source d \<noteq> ''github'' then Some (DeployRefused 400 ''Redeploy only supported for GitHub deployments'', s)
             else
               (case dep_repo_url d of
                  None \<Rightarrow> Some (DeployRefused 400 ''Missing repo URL'', s)
                | Some url \<Rightarrow>
                    map_option (\<lambda>(res, s'). (case res of
                         Inr p \<Rightarrow> (DeployDone p, forget_deployment E cid s')
                       | Inl (st, message) \<Rightarrow> (DeployRefused st message, s')))
                      (deploy_github_project E (request_of url d) s))))"

definition delete_deployment ::
    "('m, 'f, 'r) deploy_env \<Rightarrow> api_identity option \<Rightarrow> http_request \<Rightarrow> string \<Rightarrow> ('m, 'f, 'r) deploy_state \<Rightarrow>
     deploy_reply \<times> ('m, 'f, 'r) deploy_state" where
  "delete_deployment E identity req cid s =
     (if denied E identity req cid s then (refuse_other, s)
      else if hm_get (ds_deployments s) cid = None then (DeployRefused 404 ''Deployment not found'', s)
      else (DeployDeleted, forget_deployment E cid s))"

definition deployment_logs ::
    "('m, 'f, 'r) deploy_env \<Rightarrow> api_identity option \<Rightarrow> http_request \<Rightarrow> string \<Rightarrow> ('m, 'f, 'r) deploy_state \<Rightarrow> deploy_reply" where
  "deployment_logs E identity req cid s =
     (if denied E identity req cid s then refuse_other
      else
        (case hm_get (ds_deployments s) cid of
           None \<Rightarrow> DeployRefused 404 ''Deployment not found''
         | Some d \<Rightarrow>
             DeployLogs (dep_build_status d) (case dep_build_logs d of Some l \<Rightarrow> l | None \<Rightarrow> ''No logs available'')))"

definition shown_to :: "string option \<Rightarrow> deployment \<Rightarrow> bool" where
  "shown_to current_user d \<longleftrightarrow>
     (case (current_user, dep_deployed_by d) of
        (Some user, Some owner) \<Rightarrow> user = owner
      | (Some _, None) \<Rightarrow> True
      | (None, _) \<Rightarrow> True)"

definition get_deployments ::
    "('m, 'f, 'r) deploy_env \<Rightarrow> http_request \<Rightarrow> ('m, 'f, 'r) deploy_state \<Rightarrow> deploy_reply" where
  "get_deployments E req s = DeployList (filter (shown_to (current_login E req s)) (hm_values (ds_deployments s)))"

section \<open>The webhook\<close>

definition verify_webhook_signature :: "jwt_env \<Rightarrow> string \<Rightarrow> bytes \<Rightarrow> string \<Rightarrow> bool" where
  "verify_webhook_signature J secret body sig \<longleftrightarrow>
     (case rust_strip_prefix ''sha256='' sig of
        None \<Rightarrow> False
      | Some expected \<Rightarrow>
          (case hmac_sha256 J (str_bytes secret) body of
             Inl _ \<Rightarrow> False
           | Inr mac \<Rightarrow> hex_bytes mac = expected))"

text \<open>Of a push: the address of the repository and the reference, when they are texts.\<close>

record push_payload =
  pp_html_url :: "string option"
  pp_ref :: "string option"

definition pushed_branch :: "push_payload \<Rightarrow> string" where
  "pushed_branch p =
     (let git_ref = (case pp_ref p of Some x \<Rightarrow> x | None \<Rightarrow> ''refs/heads/main'')
      in case rust_strip_prefix ''refs/heads/'' git_ref of Some b \<Rightarrow> b | None \<Rightarrow> git_ref)"

definition webhook_request :: "string \<Rightarrow> string \<Rightarrow> deployment option \<Rightarrow> github_request" where
  "webhook_request url branch found =
     (let past = (\<lambda>field. Option.bind found field) in
      \<lparr>gq_url = url, gq_branch = branch, gq_root_directory = past dep_root_directory, gq_env_vars = Option.bind found dep_env_vars,
       gq_build_command = past dep_build_command, gq_output_directory = past dep_output_directory\<rparr>)"

definition github_webhook ::
    "('m, 'f, 'r) deploy_env \<Rightarrow> string option \<Rightarrow> (bytes \<Rightarrow> string + push_payload) \<Rightarrow> headers \<Rightarrow> bytes \<Rightarrow> ('m, 'f, 'r) deploy_state \<Rightarrow>
     (deploy_reply \<times> ('m, 'f, 'r) deploy_state) option" where
  "github_webhook E webhook_secret json hs body s =
     (let header_text = (\<lambda>n. case header_value hs n of Some v \<Rightarrow> if visible_text v then v else [] | None \<Rightarrow> []) in
      case webhook_secret of
        None \<Rightarrow> Some (DeployRefused 403 ''Webhook secret not configured'', s)
      | Some secret \<Rightarrow>
          if \<not> verify_webhook_signature (le_jwt (de_login E)) secret body (header_text ''x-hub-signature-256'') then
            Some (DeployRefused 401 ''Invalid signature'', s)
          else if header_text ''x-github-event'' \<noteq> ''push'' then Some (DeployIgnored (''Ignored event: '' @ header_text ''x-github-event''), s)
          else
            (case json body of
               Inl e \<Rightarrow> Some (DeployRefused 400 (''Invalid JSON: '' @ e), s)
             | Inr p \<Rightarrow>
                 (let repo_url = (case pp_html_url p of Some u \<Rightarrow> u | None \<Rightarrow> []); branch = pushed_branch p in
                  if repo_url = [] then Some (DeployRefused 400 ''No repository URL in payload'', s)
                  else
                    (let found = find (\<lambda>d. dep_source d = ''github'' \<and> dep_repo_url d = Some repo_url \<and> dep_branch d = Some branch)
                                   (hm_values (ds_deployments s)) in
                     map_option (\<lambda>(res, s'). (case res of
                          Inr payload \<Rightarrow> (DeployDone payload, (case found of Some d \<Rightarrow> forget_deployment E (dep_cid d) s' | None \<Rightarrow> s'))
                        | Inl (_, message) \<Rightarrow> (DeployRefused 500 message, s')))
                       (deploy_github_project E (webhook_request repo_url branch found) s)))))"

end
