(* ===== verification/DeploymentSafety.thy ===== *)
theory DeploymentSafety
  imports Deployments LoginSafety GatewayNamesSafety ProcessSafety
begin

text \<open>
  What holds of deployments: what a deployment leaves in the state, what a failed one leaves alone, who may touch which,
  that Redis holds what the gateway holds, and what repeating and deleting really do.
\<close>

section \<open>What a deployment leaves\<close>

text \<open>The parts of the state that only a finished deployment changes.\<close>

definition settled :: "('m, 'f, 'r) deploy_state \<Rightarrow> ('m, 'f, 'r) deploy_state \<Rightarrow> bool" where
  "settled s s' \<longleftrightarrow> ds_deployments s' = ds_deployments s \<and> ds_redis s' = ds_redis s \<and> ds_names s' = ds_names s \<and>
     ds_edge s' = ds_edge s \<and> ds_login s' = ds_login s \<and> ds_sessions s' = ds_sessions s"

text \<open>A deployment of a request that was stored.\<close>

definition answers_request :: "github_request \<Rightarrow> deployment \<Rightarrow> bool" where
  "answers_request q d \<longleftrightarrow> dep_source d = ''github'' \<and> dep_repo_url d = Some (gq_url q) \<and> dep_branch d = Some (gq_branch q) \<and>
     dep_root_directory d = gq_root_directory q \<and> dep_env_vars d = gq_env_vars q \<and>
     dep_build_command d = gq_build_command q \<and> dep_output_directory d = gq_output_directory q"

definition stores ::
    "('m, 'f, 'r) deploy_env \<Rightarrow> deployment \<Rightarrow> ('m, 'f, 'r) deploy_state \<Rightarrow> ('m, 'f, 'r) deploy_state \<Rightarrow> bool" where
  "stores E d s s' \<longleftrightarrow> ds_deployments s' = hm_insert (dep_cid d) d (ds_deployments s) \<and>
     ds_redis s' = (case de_redis E of None \<Rightarrow> ds_redis s | Some R \<Rightarrow> snd (save_to_redis R d (ds_redis s))) \<and>
     ds_login s' = ds_login s \<and> ds_sessions s' = ds_sessions s"

lemma assign_domain_fields:
  assumes "assign_domain E repo d s = (d', s')"
  shows "\<exists>domain n. d' = d\<lparr>dep_domain := domain\<rparr> \<and> s' = s\<lparr>ds_names := n\<rparr>"
  using assms by (auto simp: assign_domain_def split: prod.splits)

lemma deploy_unpacked_cases:
  assumes "deploy_unpacked E q r dir s = Some (res, s')"
  shows "(\<exists>e. res = Inl e \<and> settled s s') \<or>
         (\<exists>p d. res = Inr p \<and> dp_cid p = dep_cid d \<and> stores E d s s' \<and> ds_edge s' = ds_edge s \<and> answers_request q d \<and>
            dep_deployed_by d = None)"
proof -
  consider (root) e where "resolve_build_root (de_os E) dir (gq_root_directory q) (ds_files s) = Inl e"
    | (ok) b x where "resolve_build_root (de_os E) dir (gq_root_directory q) (ds_files s) = Inr (b, x)"
    by (metis old.sum.exhaust surj_pair)
  then show ?thesis
  proof cases
    case root
    then show ?thesis using assms by (auto simp: deploy_unpacked_def settled_def)
  next
    case ok
    let ?p = "prepare_deploy_dir (de_os E) b (gq_env_vars q) (gq_build_command q) (gq_output_directory q) (ds_files s)"
    obtain y f where p: "?p = Some (y, f)" using assms ok by (cases ?p) (auto simp: deploy_unpacked_def)
    show ?thesis
    proof (cases y)
      case (Inl e)
      then show ?thesis using assms ok p by (auto simp: deploy_unpacked_def settled_def)
    next
      case y: (Inr bo)
      obtain sz n where c: "count_files (de_tree E (bu_deploy_root bo) f) = (sz, n)" by (metis surj_pair)
      show ?thesis
      proof (cases "publish E (bu_deploy_root bo) f")
        case (Inl e)
        then show ?thesis using assms ok p y c by (auto simp: deploy_unpacked_def settled_def)
      next
        case pub: (Inr cid)
        let ?d = "deployment_new_github (de_created_at E) (ri_repo r) cid sz n q bo" and ?s = "s\<lparr>ds_files := f\<rparr>"
        obtain d s2 where a: "assign_domain E (ri_repo r) ?d ?s = (d, s2)" by (metis surj_pair)
        obtain domain nm where d: "d = ?d\<lparr>dep_domain := domain\<rparr>" "s2 = ?s\<lparr>ds_names := nm\<rparr>" using assign_domain_fields[OF a] by blast
        have "res = Inr (payload_of r (gq_branch q) None d)" "s' = save_deployment E d s2"
          using assms ok p y c pub a by (simp_all add: deploy_unpacked_def)
        moreover have "stores E d s s'" "ds_edge s' = ds_edge s" using d calculation(2)
          by (simp_all add: stores_def save_deployment_def Let_def cong: option.case_cong)
        moreover have "answers_request q d" "dep_deployed_by d = None" using d(1)
          by (simp_all add: answers_request_def deployment_new_github_def)
        ultimately show ?thesis by (auto simp: payload_of_def)
      qed
    qed
  qed
qed

lemma deploy_github_project_cases:
  assumes "deploy_github_project E q s = Some (res, s')"
  shows "(\<exists>e. res = Inl e \<and> settled s s') \<or>
         (\<exists>p d. res = Inr p \<and> dp_cid p = dep_cid d \<and> stores E d s s' \<and> ds_edge s' = ds_edge s \<and> answers_request q d \<and>
            dep_deployed_by d = None)"
proof -
  consider (fetch) e where "fetch_repository E q = Inl e" | (got) r z where "fetch_repository E q = Inr (r, z)"
    by (metis old.sum.exhaust surj_pair)
  then show ?thesis
  proof cases
    case fetch
    then show ?thesis using assms by (auto simp: deploy_github_project_def settled_def)
  next
    case got
    consider (unpack) e where "unpack_archive E z (ds_files s) = Inl e" | (dir) dir f where "unpack_archive E z (ds_files s) = Inr (dir, f)"
      by (metis old.sum.exhaust surj_pair)
    then show ?thesis
    proof cases
      case unpack
      then show ?thesis using assms got by (auto simp: deploy_github_project_def settled_def)
    next
      case dir
      let ?s = "s\<lparr>ds_files := f\<rparr>"
      obtain s1 where s1: "deploy_unpacked E q r dir ?s = Some (res, s1)" "s' = drop_dir E dir s1"
        using assms got dir by (auto simp: deploy_github_project_def split: option.splits)
      have k: "settled ?s s1 = settled s s'" "stores E d ?s s1 = stores E d s s'" "ds_edge s' = ds_edge s1" for d
        by (simp_all add: s1(2) settled_def stores_def drop_dir_def cong: option.case_cong)
      show ?thesis using deploy_unpacked_cases[OF s1(1)] k by auto
    qed
  qed
qed

text \<open>With a session.\<close>

definition same_origin :: "deployment \<Rightarrow> deployment \<Rightarrow> bool" where
  "same_origin d d' \<longleftrightarrow> dep_cid d' = dep_cid d \<and> dep_deployed_by d' = dep_deployed_by d \<and> (\<forall>q. answers_request q d' = answers_request q d)"

lemma same_origin_refl [simp]: "same_origin d d"
  by (simp add: same_origin_def)

lemma same_origin_trans: "same_origin d d' \<Longrightarrow> same_origin d' d'' \<Longrightarrow> same_origin d d''"
  by (simp add: same_origin_def)

lemma same_origin_updates [simp]:
  "same_origin d (d\<lparr>dep_deploy_mode := m\<rparr>)"
  "same_origin d (d\<lparr>dep_deploy_mode := m, dep_start_command := c\<rparr>)"
  "same_origin d (d\<lparr>dep_deploy_mode := m, dep_start_command := c, dep_process_port := p\<rparr>)"
  by (simp_all add: same_origin_def answers_request_def)

lemma start_dynamic_fields:
  assumes "start_dynamic E q dir d s ses = Some (d', s', ses')"
  shows "same_origin d d' \<and> dep_deploy_mode d' = ''dynamic'' \<and> (\<exists>e. s' = s\<lparr>ds_edge := e\<rparr>)"
proof (cases "detect_deploy_mode (de_os E) dir True (ds_files s)")
  case None
  then show ?thesis using assms by (auto simp: start_dynamic_def intro!: exI[of _ "ds_edge s"])
next
  case c: (Some c)
  show ?thesis
  proof (cases "ed_processes (ds_edge s)")
    case None
    then show ?thesis using assms c by (auto simp: start_dynamic_def Let_def intro!: exI[of _ "ds_edge s"])
  next
    case (Some pm)
    let ?sp = "spawn_process (de_process_config E) (de_process E (ds_files s)) (de_now E) (de_probes E) (de_waits E)
                       (dep_cid (d\<lparr>dep_deploy_mode := ''dynamic''\<rparr>)) dir (dc_start_command c) (merge_env (dc_env_overrides c) (gq_env_vars q)) pm"
    obtain x pm' where sp: "?sp = Some (x, pm')" using assms c Some by (cases ?sp) (auto simp: start_dynamic_def Let_def)
    show ?thesis using assms c Some sp by (cases x) (auto simp: start_dynamic_def Let_def)
  qed
qed

lemma load_functions_fields:
  assumes "load_functions E dir d s ses = (d', s', ses')"
  shows "same_origin d d' \<and> (\<exists>e. s' = s\<lparr>ds_edge := e\<rparr>)"
proof -
  have "d' = d \<and> s' = s \<or> (\<exists>e. d' = d\<lparr>dep_deploy_mode := ''edge''\<rparr> \<and> s' = s\<lparr>ds_edge := e\<rparr>)"
    using assms by (auto simp: load_functions_def Let_def split: option.splits prod.splits)
  moreover have "s = s\<lparr>ds_edge := ds_edge s\<rparr>" by simp
  ultimately show ?thesis by (metis same_origin_refl same_origin_updates(1))
qed

lemma deploy_published_cases:
  assumes "deploy_published E q r owner dyn b counted cid s ses = Some (p, s', ses')"
  shows "\<exists>d. dp_cid p = dep_cid d \<and> stores E d s s' \<and> answers_request q d \<and> dep_deployed_by d = owner \<and> dep_cid d = cid"
proof -
  let ?d = "deployment_new_github (de_created_at E) (ri_repo r) cid (fst counted) (snd counted) q b"
  obtain d0 s1 where a: "assign_domain E (ri_repo r) ?d s = (d0, s1)" by (metis surj_pair)
  obtain domain nm where d0: "d0 = ?d\<lparr>dep_domain := domain\<rparr>" "s1 = s\<lparr>ds_names := nm\<rparr>" using assign_domain_fields[OF a] by blast
  define d1 where "d1 = d0\<lparr>dep_deployed_by := owner\<rparr>"
  define ses1 where "ses1 = push_log (''Uploaded to IPFS: '' @ cid) ses"
  define x where "x = (if dyn then start_dynamic E q (bu_deploy_root b) d1 s1 ses1 else Some (d1, s1, ses1))"
  have x: "(case x of None \<Rightarrow> None | Some (d2, s2, ses2) \<Rightarrow>
      (case load_functions E (bu_deploy_root b) d2 s2 ses2 of (d3, s3, ses3) \<Rightarrow>
         Some (payload_of r (gq_branch q) (Some (dep_deploy_mode d3)) d3, save_deployment E d3 s3,
           push_log ''Deployment complete!'' (case dep_domain d3 of Some n \<Rightarrow> push_log (''Domain: '' @ n) ses3 | None \<Rightarrow> ses3)))) = Some (p, s', ses')"
    using assms unfolding deploy_published_def a prod.case Let_def d1_def ses1_def x_def .
  then obtain d2 s2 ses2 where x2: "x = Some (d2, s2, ses2)" by (cases x) auto
  then have d2: "(if dyn then start_dynamic E q (bu_deploy_root b) d1 s1 ses1 else Some (d1, s1, ses1)) = Some (d2, s2, ses2)"
    by (simp only: x_def)
  have o2: "same_origin d1 d2" "\<exists>e. s2 = s1\<lparr>ds_edge := e\<rparr>"
    using d2 start_dynamic_fields[of E q "bu_deploy_root b" d1 s1 ses1 d2 s2 ses2]
    by (auto split: if_splits intro!: exI[of _ "ds_edge s1"])
  obtain d3 s3 ses3 where d3: "load_functions E (bu_deploy_root b) d2 s2 ses2 = (d3, s3, ses3)" by (metis surj_pair)
  have o3: "same_origin d2 d3" "\<exists>e. s3 = s2\<lparr>ds_edge := e\<rparr>" using load_functions_fields[OF d3] by auto
  obtain e where s3: "s3 = s\<lparr>ds_names := nm, ds_edge := e\<rparr>" using o2(2) o3(2) d0(2) by auto
  have r: "p = payload_of r (gq_branch q) (Some (dep_deploy_mode d3)) d3" "s' = save_deployment E d3 s3"
    using x x2 d3 by simp_all
  have o: "same_origin d1 d3" using o2(1) o3(1) same_origin_trans by blast
  have "dep_cid d1 = cid" "answers_request q d1" "dep_deployed_by d1 = owner"
    by (simp_all add: d1_def d0(1) deployment_new_github_def answers_request_def)
  then have "dep_cid d3 = cid" "answers_request q d3" "dep_deployed_by d3 = owner" using o by (auto simp: same_origin_def)
  moreover have "stores E d3 s s'" unfolding r(2) s3
    by (simp add: stores_def save_deployment_def Let_def cong: option.case_cong)
  ultimately show ?thesis using r(1) by (auto simp: payload_of_def)
qed

lemma deploy_unpacked_streaming_cases:
  assumes "deploy_unpacked_streaming E q r owner dyn dir s ses = Some (res, s', ses')"
  shows "(\<exists>e. res = Inl e \<and> settled s s') \<or>
         (\<exists>p d. res = Inr p \<and> dp_cid p = dep_cid d \<and> stores E d s s' \<and> answers_request q d \<and> dep_deployed_by d = owner)"
proof -
  consider (root) e where "resolve_build_root (de_os E) dir (gq_root_directory q) (ds_files s) = Inl e"
    | (ok) b x where "resolve_build_root (de_os E) dir (gq_root_directory q) (ds_files s) = Inr (b, x)"
    by (metis old.sum.exhaust surj_pair)
  then show ?thesis
  proof cases
    case root
    then show ?thesis using assms by (auto simp: deploy_unpacked_streaming_def settled_def)
  next
    case ok
    define ses1 where "ses1 = (case x of Some c \<Rightarrow> push_log (''Using root directory: '' @ c) ses | None \<Rightarrow> ses)"
    let ?p = "prepare_deploy_dir_streaming (de_prims E) (de_os E) b (gq_env_vars q) (gq_build_command q)
                  (gq_output_directory q) (de_config E) dyn (ds_files s, ses1)"
    show ?thesis
    proof (cases ?p)
      case None
      then show ?thesis using assms ok
        by (auto simp: deploy_unpacked_streaming_def settled_def Let_def simp flip: ses1_def)
    next
      case (Some t)
      obtain y f ses2 where t: "t = (y, f, ses2)" by (metis surj_pair)
      show ?thesis
      proof (cases y)
        case (Inl e)
        then show ?thesis using assms ok Some t
          by (auto simp: deploy_unpacked_streaming_def settled_def Let_def simp flip: ses1_def)
      next
        case y: (Inr bo)
        show ?thesis
        proof (cases "publish E (bu_deploy_root bo) f")
          case (Inl e)
          then show ?thesis using assms ok Some t y
            by (auto simp: deploy_unpacked_streaming_def settled_def Let_def simp flip: ses1_def)
        next
          case pub: (Inr cid)
          let ?s = "s\<lparr>ds_files := f\<rparr>"
          obtain p where p: "deploy_published E q r owner dyn bo (count_files (de_tree E (bu_deploy_root bo) f)) cid ?s ses2 = Some (p, s', ses')"
              "res = Inr p"
            using assms ok Some t y pub
            by (auto simp: deploy_unpacked_streaming_def Let_def simp flip: ses1_def)
          have "stores E d ?s s' = stores E d s s'" for d by (simp add: stores_def cong: option.case_cong)
          then show ?thesis using deploy_published_cases[OF p(1)] p(2) by auto
        qed
      qed
    qed
  qed
qed

lemma deploy_streaming_cases:
  assumes "deploy_github_project_streaming E q owner dyn s ses = Some (res, s', ses')"
  shows "(\<exists>e. res = Inl e \<and> settled s s') \<or>
         (\<exists>p d. res = Inr p \<and> dp_cid p = dep_cid d \<and> stores E d s s' \<and> answers_request q d \<and> dep_deployed_by d = owner)"
proof (cases "\<exists>r z dir f. parse_github_url (gq_url q) = Some r \<and> is_valid_branch_name (gq_branch q) \<and>
    download_archive E r (gq_branch q) = Inr z \<and> unpack_archive E z (ds_files s) = Inr (dir, f)")
  case False
  then have "settled s s' \<and> isl res" using assms
    by (auto simp: deploy_github_project_streaming_def settled_def Let_def split: option.splits if_splits sum.splits prod.splits)
  then show ?thesis by (auto simp: isl_def)
next
  case True
  then obtain r z dir f where k: "parse_github_url (gq_url q) = Some r" "is_valid_branch_name (gq_branch q)"
    "download_archive E r (gq_branch q) = Inr z" "unpack_archive E z (ds_files s) = Inr (dir, f)" by blast
  let ?s = "s\<lparr>ds_files := f\<rparr>"
  obtain s1 ses0 where s1: "deploy_unpacked_streaming E q r owner dyn dir ?s ses0 = Some (res, s1, ses')" "s' = drop_dir E dir s1"
    using assms k by (auto simp: deploy_github_project_streaming_def Let_def)
  have "settled ?s s1 = settled s s'" "stores E d ?s s1 = stores E d s s'" for d
    by (simp_all add: s1(2) settled_def stores_def drop_dir_def cong: option.case_cong)
  then show ?thesis using deploy_unpacked_streaming_cases[OF s1(1)] by auto
qed

section \<open>Failures\<close>

text \<open>A deployment that fails leaves no trace but files: whatever goes wrong, from a bad URL over a download, an archive, a
  build or the upload, plain or with a session, the deployments, their copy in Redis, the names, the processes and
  functions that run, the logins and the sessions are as before.\<close>

theorem failed_deploy_leaves_no_trace:
  assumes "deploy_github_project E q s = Some (Inl e, s') \<or> deploy_github_project_streaming E q owner dyn s ses = Some (Inl e, s', ses')"
  shows "settled s s'"
  using assms deploy_github_project_cases[of E q s "Inl e" s'] deploy_streaming_cases[of E q owner dyn s ses "Inl e" s' ses'] by auto

section \<open>Who may touch a deployment\<close>

text \<open>Tenants are apart: with the key of a tenant, a deployment outside its namespaces is neither shown by its logs, nor
  deleted, nor deployed again; the answer is 403 and nothing changes.\<close>

theorem tenants_are_apart:
  assumes "\<not> is_authorized_for i cid"
  shows "deployment_logs E (Some i) req cid s = refuse_other \<and> delete_deployment E (Some i) req cid s = (refuse_other, s) \<and>
         redeploy_github E (Some i) req cid s = Some (refuse_other, s)"
  using assms by (simp add: deployment_logs_def delete_deployment_def redeploy_github_def denied_def)

theorem tenants_are_apart_witness:
  "\<forall>E req s. delete_deployment E (Some \<lparr>id_name = ''a'', id_admin = False, id_namespaces = [''mine'']\<rparr>) req ''yours'' s = (refuse_other, s)"
  by (intro allI tenants_are_apart[THEN conjunct2, THEN conjunct1]) (simp add: is_authorized_for_def)

text \<open>The list is not: it asks neither for the tenant nor, of a request without a user, for anything. Such a request is shown
  every deployment with its variables and logs, more than any user that signed in.\<close>

theorem anonymous_sees_everything:
  assumes "current_login E req s = None"
  shows "get_deployments E req s = DeployList (hm_values (ds_deployments s))"
  using assms by (simp add: get_deployments_def shown_to_def)

text \<open>And so is the owner of a deployment, for the requests of which no user is known.\<close>

theorem owner_not_asked:
  assumes "current_login E req s = None"
  shows "\<not> denied E None req cid s"
  using assms by (simp add: denied_def)

section \<open>The webhook\<close>

text \<open>The webhook acts for GitHub only: unless its secret is set and the body carries the HMAC of the body under that
  secret, nothing is deployed and nothing changes.\<close>

theorem webhook_needs_signature:
  assumes "github_webhook E secret json hs body s = Some (reply, s')" "s' \<noteq> s \<or> (\<exists>p. reply = DeployDone p)"
  shows "\<exists>k mac v. secret = Some k \<and> hmac_sha256 (le_jwt (de_login E)) (str_bytes k) body = Inr mac \<and>
    header_value hs ''x-hub-signature-256'' = Some v \<and> v = ''sha256='' @ hex_bytes mac"
proof -
  obtain k where k: "secret = Some k" using assms by (cases secret) (auto simp: github_webhook_def Let_def)
  define sig where "sig = (case header_value hs ''x-hub-signature-256'' of Some v \<Rightarrow> if visible_text v then v else [] | None \<Rightarrow> [])"
  have ok: "verify_webhook_signature (le_jwt (de_login E)) k body sig"
    using assms k unfolding github_webhook_def Let_def sig_def by (auto split: if_splits)
  then obtain mac where mac: "sig = ''sha256='' @ hex_bytes mac" "hmac_sha256 (le_jwt (de_login E)) (str_bytes k) body = Inr mac"
    by (auto simp: verify_webhook_signature_def rust_strip_prefix_Some split: option.splits sum.splits)
  then have "header_value hs ''x-hub-signature-256'' = Some sig"
    by (auto simp: sig_def split: option.splits if_splits)
  then show ?thesis using k mac by blast
qed

section \<open>Repeating a deployment\<close>

lemma forget_deployment_fields:
  "ds_deployments (forget_deployment E cid s) = hm_remove cid (ds_deployments s)" "ds_edge (forget_deployment E cid s) = ds_edge s"
  by (simp_all add: forget_deployment_def)

lemma redeploy_done:
  assumes "redeploy_github E i req cid s = Some (DeployDone p, s')"
  obtains d url s1 where "hm_get (ds_deployments s) cid = Some d" "dep_repo_url d = Some url"
    "deploy_github_project E (request_of url d) s = Some (Inr p, s1)" "s' = forget_deployment E cid s1"
proof -
  obtain d where d: "hm_get (ds_deployments s) cid = Some d" "\<not> denied E i req cid s" "dep_source d = ''github''"
    using assms by (auto simp: redeploy_github_def refuse_other_def split: if_splits option.splits)
  obtain url where url: "dep_repo_url d = Some url"
    using assms d by (auto simp: redeploy_github_def split: option.splits)
  obtain res s1 where p: "deploy_github_project E (request_of url d) s = Some (res, s1)"
    using assms d url by (auto simp: redeploy_github_def)
  then have "res = Inr p \<and> s' = forget_deployment E cid s1"
    using assms d url by (cases res) (auto simp: redeploy_github_def)
  then show ?thesis using that d(1) url p by blast
qed

text \<open>Repeating a deployment first stores the new one and then removes what is under the old CID. When the repository has
  not changed both have the same CID, so a successful repetition removes the deployment altogether. Otherwise the new
  one has the settings of the old one, but no owner any more; the others are untouched.\<close>

theorem redeploy_removes_unchanged:
  assumes "redeploy_github E i req cid s = Some (DeployDone p, s')"
  shows "hm_get (ds_deployments s') cid = None \<and>
    (\<forall>c. c \<noteq> cid \<longrightarrow> c \<noteq> dp_cid p \<longrightarrow> hm_get (ds_deployments s') c = hm_get (ds_deployments s) c) \<and>
    (dp_cid p \<noteq> cid \<longrightarrow> (\<exists>d url d'. hm_get (ds_deployments s) cid = Some d \<and> dep_repo_url d = Some url \<and>
       hm_get (ds_deployments s') (dp_cid p) = Some d' \<and> answers_request (request_of url d) d' \<and> dep_deployed_by d' = None))"
proof -
  obtain d url s1 where r: "hm_get (ds_deployments s) cid = Some d" "dep_repo_url d = Some url"
    "deploy_github_project E (request_of url d) s = Some (Inr p, s1)" "s' = forget_deployment E cid s1"
    using redeploy_done[OF assms] .
  obtain d' where d': "dp_cid p = dep_cid d'" "stores E d' s s1" "answers_request (request_of url d) d'" "dep_deployed_by d' = None"
    using deploy_github_project_cases[OF r(3)] by auto
  then have "ds_deployments s' = hm_remove cid (hm_insert (dep_cid d') d' (ds_deployments s))"
    using r(4) by (simp add: forget_deployment_fields stores_def)
  then show ?thesis using d' r by auto
qed

section \<open>Deleting a deployment\<close>

text \<open>Deleting a deployment does not stop it. Its process, its routes and its modules stay, so every request for it, at
  its root or below, is answered as before the deletion.\<close>

theorem deleted_deployment_still_served:
  assumes "delete_deployment E i req cid s = (reply, s')"
  shows "content_or_spa_route V c p q (ds_edge s') n = content_or_spa_route V c p q (ds_edge s) n \<and>
         subpath_route V c p q (ds_edge s') n = subpath_route V c p q (ds_edge s) n"
proof -
  have "ds_edge s' = ds_edge s" using assms by (auto simp: delete_deployment_def forget_deployment_fields split: if_splits)
  then show ?thesis by simp
qed

section \<open>The copy in Redis\<close>

text \<open>Redis as documented, when it answers: values by key, and a set ordered by the time of the last addition.\<close>

type_synonym mem_redis = "(string \<Rightarrow> deployment option) \<times> string list"

definition mem_redis :: "mem_redis deploy_redis" where
  "mem_redis =
     \<lparr>dr_set_json = \<lambda>k d (m, z). (Inr (), (m(k \<mapsto> d), z)),
      dr_zadd = \<lambda>_ c (m, z). (Inr (), (m, c # filter (\<lambda>x. x \<noteq> c) z)),
      dr_zrevrange = \<lambda>_ (m, z). Inr z,
      dr_get_json = \<lambda>k (m, z). Inr (m k),
      dr_delete = \<lambda>k (m, z). (Inr (), (m(k := None), z)),
      dr_zrem = \<lambda>_ c (m, z). (Inr (), (m, filter (\<lambda>x. x \<noteq> c) z))\<rparr>"

definition mirrors :: "(string, deployment) hmap \<Rightarrow> mem_redis \<Rightarrow> bool" where
  "mirrors ds r \<longleftrightarrow> distinct (snd r) \<and>
     (\<forall>cid. fst r (deployment_key cid) = hm_get ds cid \<and> (cid \<in> set (snd r) \<longleftrightarrow> hm_get ds cid \<noteq> None) \<and>
        (\<forall>d. hm_get ds cid = Some d \<longrightarrow> dep_cid d = cid))"

lemma deployment_key_eq [simp]: "deployment_key a = deployment_key b \<longleftrightarrow> a = b"
  by (simp add: deployment_key_def)

lemma mirrors_save: "mirrors ds r \<Longrightarrow> mirrors (hm_insert (dep_cid d) d ds) (snd (save_to_redis mem_redis d r))"
  by (cases r) (auto simp: mirrors_def save_to_redis_def and_then_redis_def mem_redis_def)

lemma mirrors_delete: "mirrors ds r \<Longrightarrow> mirrors (hm_remove cid ds) (snd (delete_from_redis mem_redis cid r))"
  by (cases r) (auto simp: mirrors_def delete_from_redis_def and_then_redis_def mem_redis_def)

lemma mirrors_load:
  assumes "\<And>c. c \<in> set cids \<Longrightarrow> \<exists>d. fst r (deployment_key c) = Some d \<and> dep_cid d = c"
  shows "\<exists>ds. load_each mem_redis r cids = Inr ds \<and> map dep_cid ds = cids \<and> (\<forall>d \<in> set ds. fst r (deployment_key (dep_cid d)) = Some d)"
  using assms
proof (induction cids)
  case Nil
  show ?case by simp
next
  case (Cons c cids)
  obtain m z where r: "r = (m, z)" by (metis surj_pair)
  obtain d where d: "m (deployment_key c) = Some d" "dep_cid d = c" using Cons.prems r by force
  obtain ds where "load_each mem_redis r cids = Inr ds" "map dep_cid ds = cids" "\<forall>d \<in> set ds. fst r (deployment_key (dep_cid d)) = Some d"
    using Cons.IH Cons.prems by (meson list.set_intros(2))
  then show ?case using d r by (intro exI[of _ "d # ds"]) (simp add: mem_redis_def)
qed

text \<open>The calls of the handlers, in any order, with whatever environment they meet, as long as Redis answers.\<close>

inductive deploys ::
    "('m, 'f, mem_redis) deploy_state \<Rightarrow> ('m, 'f, mem_redis) deploy_state \<Rightarrow> bool" where
  opened: "deploys s (snd (deploy_from_github deploy_id b s))"
| built: "de_redis E = Some mem_redis \<Longrightarrow> build_task E render deploy_id q owner dyn ses s = Some s' \<Longrightarrow> deploys s s'"
| closed: "deploys s (end_session deploy_id s)"
| repeated: "de_redis E = Some mem_redis \<Longrightarrow> redeploy_github E i req cid s = Some (reply, s') \<Longrightarrow> deploys s s'"
| deleted: "de_redis E = Some mem_redis \<Longrightarrow> delete_deployment E i req cid s = (reply, s') \<Longrightarrow> deploys s s'"
| pushed: "de_redis E = Some mem_redis \<Longrightarrow> github_webhook E secret json hs body s = Some (reply, s') \<Longrightarrow> deploys s s'"

lemma mirrors_stores:
  "stores E d s s' \<Longrightarrow> de_redis E = Some mem_redis \<Longrightarrow> mirrors (ds_deployments s) (ds_redis s) \<Longrightarrow>
   mirrors (ds_deployments s') (ds_redis s')"
  by (simp add: stores_def mirrors_save)

lemma mirrors_settled:
  "settled s s' \<Longrightarrow> mirrors (ds_deployments s) (ds_redis s) \<Longrightarrow> mirrors (ds_deployments s') (ds_redis s')"
  by (simp add: settled_def)

lemma mirrors_forget:
  "de_redis E = Some mem_redis \<Longrightarrow> mirrors (ds_deployments s) (ds_redis s) \<Longrightarrow>
   mirrors (ds_deployments (forget_deployment E cid s)) (ds_redis (forget_deployment E cid s))"
  by (simp add: forget_deployment_def mirrors_delete)

lemma mirrors_project:
  assumes "deploy_github_project E q s = Some (res, s')" "de_redis E = Some mem_redis" "mirrors (ds_deployments s) (ds_redis s)"
  shows "mirrors (ds_deployments s') (ds_redis s')"
  using deploy_github_project_cases[OF assms(1)] mirrors_stores mirrors_settled assms(2,3) by blast

lemma redeploy_state:
  assumes "redeploy_github E i req cid s = Some (reply, s')"
  shows "s' = s \<or> (\<exists>q res s1. deploy_github_project E q s = Some (res, s1) \<and> (s' = s1 \<or> s' = forget_deployment E cid s1))"
proof (rule ccontr)
  assume n: "\<not> ?thesis"
  then obtain d where d: "hm_get (ds_deployments s) cid = Some d" "\<not> denied E i req cid s" "dep_source d = ''github''"
    using assms by (auto simp: redeploy_github_def split: if_splits option.splits)
  obtain url where url: "dep_repo_url d = Some url"
    using assms d n by (auto simp: redeploy_github_def split: option.splits)
  obtain res s1 where p: "deploy_github_project E (request_of url d) s = Some (res, s1)"
    using assms d url by (auto simp: redeploy_github_def)
  then have "s' = s1 \<or> s' = forget_deployment E cid s1"
    using assms d url by (cases res) (auto simp: redeploy_github_def)
  then show False using n p by blast
qed

lemma webhook_state:
  assumes "github_webhook E secret json hs body s = Some (reply, s')"
  shows "s' = s \<or> (\<exists>q res s1 c. deploy_github_project E q s = Some (res, s1) \<and> (s' = s1 \<or> s' = forget_deployment E c s1))"
proof (rule ccontr)
  assume n: "\<not> ?thesis"
  obtain k where k: "secret = Some k" using assms n by (cases secret) (auto simp: github_webhook_def Let_def)
  obtain p where p: "json body = Inr p"
    using assms n k by (cases "json body") (auto simp: github_webhook_def Let_def split: if_splits)
  define url where "url = (case pp_html_url p of Some u \<Rightarrow> u | None \<Rightarrow> [])"
  define found where "found = find (\<lambda>d. dep_source d = ''github'' \<and> dep_repo_url d = Some url \<and> dep_branch d = Some (pushed_branch p))
                                   (hm_values (ds_deployments s))"
  let ?q = "webhook_request url (pushed_branch p) found"
  have e: "map_option (\<lambda>(res, s'). (case res of
              Inr payload \<Rightarrow> (DeployDone payload, (case found of Some d \<Rightarrow> forget_deployment E (dep_cid d) s' | None \<Rightarrow> s'))
            | Inl (_, message) \<Rightarrow> (DeployRefused 500 message, s'))) (deploy_github_project E ?q s) = Some (reply, s')"
    unfolding url_def found_def using assms n k p by (auto simp: github_webhook_def Let_def split: if_splits)
  then obtain res s1 where r: "deploy_github_project E ?q s = Some (res, s1)" by auto
  then have "s' = s1 \<or> (\<exists>c. s' = forget_deployment E c s1)"
    using e by (cases res; cases found) auto
  then show False using n r by blast
qed

lemma mirrors_step: "deploys s s' \<Longrightarrow> mirrors (ds_deployments s) (ds_redis s) \<Longrightarrow> mirrors (ds_deployments s') (ds_redis s')"
proof (induction rule: deploys.induct)
  case (opened s deploy_id)
  then show ?case by (simp add: deploy_from_github_def)
next
  case (built E render deploy_id q owner dyn ses s s')
  obtain res s1 ses1 where r: "deploy_github_project_streaming E q owner dyn s (push_log (''Starting deployment from '' @ gq_url q) ses) = Some (res, s1, ses1)"
    "ds_deployments s' = ds_deployments s1" "ds_redis s' = ds_redis s1"
    using built(2) by (auto simp: build_task_def)
  then show ?case using deploy_streaming_cases[OF r(1)] mirrors_stores[OF _ built(1)] mirrors_settled built(3) by metis
next
  case (closed s deploy_id)
  then show ?case by (simp add: end_session_def)
next
  case (repeated E i req cid s reply s')
  show ?case
  proof (cases "s' = s")
    case True
    then show ?thesis using repeated by simp
  next
    case False
    then obtain q res s1 where q: "deploy_github_project E q s = Some (res, s1)" "s' = s1 \<or> s' = forget_deployment E cid s1"
      using redeploy_state[OF repeated(2)] by blast
    then show ?thesis using mirrors_project[OF q(1)] mirrors_forget repeated by metis
  qed
next
  case (deleted E i req cid s reply s')
  then show ?case using mirrors_forget[OF deleted(1)] by (auto simp: delete_deployment_def split: if_splits)
next
  case (pushed E secret json hs body s reply s')
  show ?case
  proof (cases "s' = s")
    case True
    then show ?thesis using pushed by simp
  next
    case False
    then obtain q res s1 c where q: "deploy_github_project E q s = Some (res, s1)" "s' = s1 \<or> s' = forget_deployment E c s1"
      using webhook_state[OF pushed(2)] by blast
    then show ?thesis using mirrors_project[OF q(1)] mirrors_forget pushed by metis
  qed
qed


section \<open>A deployment, run\<close>

definition demo_deploy_env :: "(bytes, string list, mem_redis) deploy_env" where
  "demo_deploy_env =
     \<lparr>de_download = \<lambda>_. Downloaded 200 [Inr [1]],
      de_temp_dir = \<lambda>_. Inr ''/t'',
      de_zip = \<lambda>_. Inr
        [Inr \<lparr>ze_name = ''s/'', ze_is_dir = True, ze_reads = [], ze_error = None\<rparr>,
         Inr \<lparr>ze_name = ''s/index.html'', ze_is_dir = False, ze_reads = [[7], []], ze_error = None\<rparr>],
      de_fails = \<lambda>_ _. None,
      de_unpack = \<lambda>dir x f. map (\<lambda>p. path_join dir (fst p)) (ex_files x) @ f,
      de_drop = \<lambda>dir f. [],
      de_os = demo_os, de_tree = \<lambda>_ _. TreeDir (Some [TreeFile (Some 1)]),
      de_storage = Some (\<lambda>dir _. Inr ''c1''),
      de_names = demo_names\<lparr>nv_enabled := False\<rparr>, de_redis = Some mem_redis, de_created_at = ''Jan 01, 00:00'',
      de_prims = demo_prims, de_config = demo_deploy_config,
      de_process_config = small_pool,
      de_process = \<lambda>_. \<lparr>pe_canonicalize = Inr, pe_path = None, pe_home = None, pe_spawn = \<lambda>_ _ _ _. Inr 0, pe_pid = \<lambda>_. None\<rparr>,
      de_now = 0, de_probes = [], de_waits = [], de_json = \<lambda>_. Inl ''no'', de_upper = id, de_wasm = demo_wasm_env,
      de_login = demo_login_env, de_unix = 0\<rparr>"

definition demo_deploy_state :: "(bytes, string list, mem_redis) deploy_state" where
  "demo_deploy_state =
     \<lparr>ds_deployments = [], ds_sessions = [], ds_edge = \<lparr>ed_processes = None, ed_wasm = None, ed_manifests = []\<rparr>,
      ds_names = demo_named, ds_login = login_new, ds_redis = (\<lambda>_. None, []), ds_files = []\<rparr>"

definition demo_request :: github_request where
  "demo_request = \<lparr>gq_url = ''https://github.com/a/s'', gq_branch = ''main'', gq_root_directory = None, gq_env_vars = None,
     gq_build_command = None, gq_output_directory = None\<rparr>"

lemma demo_fetched: "fetch_repository demo_deploy_env demo_request = Inr (\<lparr>ri_owner = ''a'', ri_repo = ''s''\<rparr>, [1])"
proof -
  have "is_ascii_alphanumeric CHR ''a''" "is_ascii_alphanumeric CHR ''s''" by code_simp+
  then have "parse_github_url ''https://github.com/a/s'' = Some \<lparr>ri_owner = ''a'', ri_repo = ''s''\<rparr>"
    by (simp add: parse_github_url_def trim_end_slashes_def trim_end_git.simps rust_strip_suffix_def rust_strip_prefix_def
        is_valid_github_name_def Let_def)
  moreover have "is_valid_branch_name ''main''" by code_simp
  moreover have "download_archive demo_deploy_env r b = Inr [1]" for r b
    by (simp add: download_archive_def demo_deploy_env_def MAX_ZIP_DOWNLOAD_def)
  ultimately show ?thesis by (simp add: fetch_repository_def demo_request_def)
qed

lemma demo_unpacked: "unpack_archive demo_deploy_env z f = Inr (''/t'', ''/t/index.html'' # f)"
  by (simp add: unpack_archive_def demo_deploy_env_def extract_github_zip_def extract_entry_def relative_name_def starts_with_def
      ends_with_def rust_strip_suffix_def MAX_FILE_COUNT_def MAX_UNCOMPRESSED_SIZE_def path_join_def Let_def)

lemma demo_built:
  "\<exists>l. prepare_deploy_dir demo_os ''/t'' None None None [''/t/index.html''] =
     Some (Inr \<lparr>bu_deploy_root = ''/t'', bu_build_status = ''Static (Static HTML)'', bu_build_logs = l\<rparr>, [''/t/index.html''])"
  by (simp add: prepare_deploy_dir_def detect_framework_def framework_files_def any_exists_def demo_os_def path_join_def starts_with_def
      has_build_script_def static_outcome_def Let_def)

lemma demo_unpacked_deployed:
  assumes "ds_files s = [''/t/index.html'']"
  shows "\<exists>p s'. deploy_unpacked demo_deploy_env demo_request r ''/t'' s = Some (Inr p, s') \<and> dp_cid p = ''c1''"
proof -
  obtain l where l: "prepare_deploy_dir demo_os ''/t'' None None None [''/t/index.html''] =
     Some (Inr \<lparr>bu_deploy_root = ''/t'', bu_build_status = ''Static (Static HTML)'', bu_build_logs = l\<rparr>, [''/t/index.html''])"
    using demo_built by blast
  show ?thesis using assms l
    by (simp add: deploy_unpacked_def resolve_build_root_def demo_request_def demo_deploy_env_def publish_def assign_domain_def
        auto_assign_domain_def payload_of_def deployment_new_github_def)
qed

lemma demo_deployed:
  assumes "ds_files s = []"
  shows "\<exists>p s'. deploy_github_project demo_deploy_env demo_request s = Some (Inr p, s') \<and> dp_cid p = ''c1'' \<and> ds_files s' = []"
proof -
  let ?r = "\<lparr>ri_owner = ''a'', ri_repo = ''s''\<rparr>" and ?s = "s\<lparr>ds_files := [''/t/index.html'']\<rparr>"
  obtain p s' where "deploy_unpacked demo_deploy_env demo_request ?r ''/t'' ?s = Some (Inr p, s')" "dp_cid p = ''c1''"
    using demo_unpacked_deployed[of ?s ?r] by auto
  then show ?thesis using assms
    by (simp add: deploy_github_project_def demo_fetched demo_unpacked drop_dir_def) (simp add: demo_deploy_env_def)
qed

definition demo_deployed_state :: "(bytes, string list, mem_redis) deploy_state" where
  "demo_deployed_state = snd (the (deploy_github_project demo_deploy_env demo_request demo_deploy_state))"

lemma demo_deployed_state:
  "\<exists>p d. deploy_github_project demo_deploy_env demo_request demo_deploy_state = Some (Inr p, demo_deployed_state) \<and> dp_cid p = ''c1'' \<and>
     ds_files demo_deployed_state = [] \<and> stores demo_deploy_env d demo_deploy_state demo_deployed_state \<and> dep_cid d = ''c1'' \<and>
     answers_request demo_request d \<and> dep_deployed_by d = None"
proof -
  obtain p s' where p: "deploy_github_project demo_deploy_env demo_request demo_deploy_state = Some (Inr p, s')" "dp_cid p = ''c1''" "ds_files s' = []"
    using demo_deployed[of demo_deploy_state] by (auto simp: demo_deploy_state_def)
  then have "demo_deployed_state = s'" by (simp add: demo_deployed_state_def)
  then show ?thesis using p deploy_github_project_cases[OF p(1)] by fastforce
qed

text \<open>The repetition of the same deployment.\<close>

lemma demo_repeated:
  "\<exists>p s'. redeploy_github demo_deploy_env None \<lparr>rq_connect_ip = None, rq_authorization = None\<rparr> ''c1'' demo_deployed_state =
     Some (DeployDone p, s') \<and> dp_cid p = ''c1''"
proof -
  obtain d where d: "stores demo_deploy_env d demo_deploy_state demo_deployed_state" "dep_cid d = ''c1''" "answers_request demo_request d"
    "dep_deployed_by d = None" "ds_files demo_deployed_state = []" using demo_deployed_state by auto
  have get: "hm_get (ds_deployments demo_deployed_state) ''c1'' = Some d" using d by (simp add: stores_def)
  have q: "request_of ''https://github.com/a/s'' d = demo_request" using d(3) by (simp add: request_of_def answers_request_def demo_request_def)
  obtain p s' where p: "deploy_github_project demo_deploy_env demo_request demo_deployed_state = Some (Inr p, s')" "dp_cid p = ''c1''"
    using demo_deployed d(5) by blast
  have "\<not> denied demo_deploy_env None \<lparr>rq_connect_ip = None, rq_authorization = None\<rparr> ''c1'' demo_deployed_state"
    using d get by (simp add: denied_def split: option.split)
  moreover have "dep_source d = ''github''" "dep_repo_url d = Some ''https://github.com/a/s''"
    using d(3) by (simp_all add: answers_request_def demo_request_def)
  ultimately show ?thesis using get q p by (simp add: redeploy_github_def)
qed

theorem redeploy_removes_unchanged_witness:
  "\<exists>p s'. redeploy_github demo_deploy_env None \<lparr>rq_connect_ip = None, rq_authorization = None\<rparr> ''c1'' demo_deployed_state =
     Some (DeployDone p, s') \<and> hm_get (ds_deployments demo_deployed_state) ''c1'' \<noteq> None \<and> hm_get (ds_deployments s') ''c1'' = None"
proof -
  obtain p s' where p: "redeploy_github demo_deploy_env None \<lparr>rq_connect_ip = None, rq_authorization = None\<rparr> ''c1'' demo_deployed_state =
     Some (DeployDone p, s')" using demo_repeated by blast
  moreover have "hm_get (ds_deployments demo_deployed_state) ''c1'' \<noteq> None" using demo_deployed_state by (auto simp: stores_def)
  ultimately show ?thesis using redeploy_removes_unchanged[OF p] by blast
qed


theorem failed_deploy_leaves_no_trace_witness:
  "\<exists>e s'. deploy_github_project (demo_deploy_env\<lparr>de_storage := None\<rparr>) (demo_request\<lparr>gq_branch := ''..''\<rparr>) demo_deploy_state = Some (Inl e, s') \<and>
     settled demo_deploy_state s'"
proof -
  have "\<not> is_valid_branch_name ''..''" by code_simp
  then have "\<exists>e s'. deploy_github_project (demo_deploy_env\<lparr>de_storage := None\<rparr>) (demo_request\<lparr>gq_branch := ''..''\<rparr>) demo_deploy_state = Some (Inl e, s')"
    by (simp add: deploy_github_project_def fetch_repository_def split: option.split)
  then show ?thesis using failed_deploy_leaves_no_trace by blast
qed

theorem deleted_deployment_still_served_witness:
  "\<forall>(V :: bytes serve_env) n. \<exists>s'. delete_deployment demo_deploy_env None \<lparr>rq_connect_ip = None, rq_authorization = None\<rparr> ''c1'' demo_deployed_state =
      (DeployDeleted, s') \<and> content_or_spa_route V ''c1'' ''/c1'' None (ds_edge s') n = content_or_spa_route V ''c1'' ''/c1'' None (ds_edge demo_deployed_state) n"
proof (intro allI)
  fix V :: "bytes serve_env" and n
  obtain d where d: "hm_get (ds_deployments demo_deployed_state) ''c1'' = Some d" "dep_deployed_by d = None"
    using demo_deployed_state by (auto simp: stores_def)
  then have e: "delete_deployment demo_deploy_env None \<lparr>rq_connect_ip = None, rq_authorization = None\<rparr> ''c1'' demo_deployed_state =
      (DeployDeleted, forget_deployment demo_deploy_env ''c1'' demo_deployed_state)"
    by (simp add: delete_deployment_def denied_def split: option.split)
  show "\<exists>s'. delete_deployment demo_deploy_env None \<lparr>rq_connect_ip = None, rq_authorization = None\<rparr> ''c1'' demo_deployed_state =
      (DeployDeleted, s') \<and> content_or_spa_route V ''c1'' ''/c1'' None (ds_edge s') n = content_or_spa_route V ''c1'' ''/c1'' None (ds_edge demo_deployed_state) n"
    using e deleted_deployment_still_served[OF e, of V "''c1''" "''/c1''" None n] by blast
qed

theorem webhook_needs_signature_witness:
  "\<exists>k mac v. Some ''key'' = Some k \<and> hmac_sha256 demo_jwt (str_bytes k) [] = Inr mac \<and>
    header_value [(''x-hub-signature-256'', ''sha256='' @ hex_bytes (str_bytes ''key'')), (''x-github-event'', ''push'')] ''x-hub-signature-256'' = Some v \<and>
    v = ''sha256='' @ hex_bytes mac"
proof -
  let ?hs = "[(''x-hub-signature-256'', ''sha256='' @ hex_bytes (str_bytes ''key'')), (''x-github-event'', ''push'')]"
  let ?json = "\<lambda>_. Inr \<lparr>pp_html_url = Some ''https://github.com/a/s'', pp_ref = Some ''refs/heads/main''\<rparr>"
  have v: "visible_text (''sha256='' @ hex_bytes (str_bytes ''key''))" "visible_text ''push''" by code_simp+
  have b: "pushed_branch \<lparr>pp_html_url = Some ''https://github.com/a/s'', pp_ref = Some ''refs/heads/main''\<rparr> = ''main''"
    by (simp add: pushed_branch_def rust_strip_prefix_def)
  have q: "webhook_request ''https://github.com/a/s'' ''main'' None = demo_request" by (simp add: webhook_request_def demo_request_def)
  obtain p s' where "deploy_github_project demo_deploy_env demo_request demo_deploy_state = Some (Inr p, s')"
    using demo_deployed_state by blast
  moreover have "le_jwt (de_login demo_deploy_env) = demo_jwt" by (simp add: demo_deploy_env_def demo_login_env_def)
  moreover have "hmac_sha256 demo_jwt (str_bytes ''key'') [] = Inr (str_bytes ''key'')" by (simp add: demo_jwt_def)
  ultimately have "github_webhook demo_deploy_env (Some ''key'') ?json ?hs [] demo_deploy_state = Some (DeployDone p, s')"
    using v b q
    by (simp add: github_webhook_def header_value_def verify_webhook_signature_def rust_strip_prefix_def demo_deploy_state_def hm_values_def Let_def)
  from webhook_needs_signature[OF this] show ?thesis by (simp add: demo_deploy_env_def demo_login_env_def)
qed

section \<open>Processes whose directory is gone\<close>

text \<open>A process runs in the directory that was built, below the temporary directory that is dropped when the deployment ends.
  A restart stops the process and then looks for that directory: it fails, and the process is gone.\<close>

theorem restart_needs_the_directory:
  assumes "hm_get (pm_processes pm) cid = Some p" "pe_canonicalize P (mp_working_dir p) = Inl e"
    and "restart_process cfg P R cid pm = Some (res, pm')"
  shows "isl res \<and> hm_get (pm_processes pm') cid = None"
proof -
  let ?pm1 = "snd (stop_begin cid pm)"
  have s1: "stop_begin cid pm = (Inr p, pm\<lparr>pm_processes := hm_remove cid (pm_processes pm)\<rparr>)"
    using assms(1) by (simp add: stop_begin_def)
  obtain x where x: "wait_exit (re_stop_at R + from_secs 10) (re_waits R) = Some x"
    using assms(1,3) s1 by (auto simp: restart_process_def stop_process_def split: option.splits)
  define s where "s = stop_end p (pm\<lparr>pm_processes := hm_remove cid (pm_processes pm)\<rparr>)"
  have stop: "stop_process (re_stop_at R) (re_waits R) cid pm = Some (Inr (), s)"
    using s1 x by (simp add: stop_process_def s_def)
  have gone: "hm_get (pm_processes s) cid = None" by (simp add: s_def stop_end_def release_port_def)
  have child: "\<exists>m. start_child P port (mp_working_dir p) cmd env = Inl m" for port cmd env
    using assms(2) by (cases cmd) (simp_all add: start_child_def Let_def)
  have "\<exists>m s2. spawn_begin cfg P (re_start_at R) cid (mp_working_dir p) (mp_start_command p) (mp_env p) s = (Inl m, s2) \<and>
      pm_processes s2 = pm_processes s"
  proof (cases "pc_max_processes cfg \<le> length (pm_processes s)")
    case True
    then show ?thesis by (simp add: spawn_begin_def)
  next
    case False
    obtain po al where a: "pa_allocate (pm_port_allocator s) = (po, al)" by (metis surj_pair)
    show ?thesis
    proof (cases po)
      case None
      then show ?thesis using False a by (simp add: spawn_begin_def)
    next
      case (Some port)
      obtain m where "start_child P port (mp_working_dir p) (mp_start_command p) (mp_env p) = Inl m" using child by blast
      then show ?thesis using False a Some by (simp add: spawn_begin_def Let_def)
    qed
  qed
  then obtain m s2 where sp: "spawn_begin cfg P (re_start_at R) cid (mp_working_dir p) (mp_start_command p) (mp_env p) s = (Inl m, s2)"
    "pm_processes s2 = pm_processes s" by blast
  then have "restart_process cfg P R cid pm = Some (Inl m, s2)"
    using assms(1) stop by (simp add: restart_process_def spawn_process_def)
  then show ?thesis using assms(3) sp(2) gone by simp
qed

text \<open>The framework of a dynamic deployment is looked for in the directory that is published. When the output holds none of the
  files that tell it, no process is started: the deployment counts as dynamic and has neither a command nor a port.\<close>

theorem output_without_config_never_runs:
  assumes "detect_framework_kind (de_os E) dir (ds_files s) \<in> {Astro, Vite, Gatsby, Angular, StaticHtml, UnknownFramework}"
  shows "start_dynamic E q dir d s ses = Some (d\<lparr>dep_deploy_mode := ''dynamic''\<rparr>, s, ses)"
  using assms by (auto simp: start_dynamic_def detect_deploy_mode_def)

end
