(* ===== verification/Spec2Isabelle.thy ===== *)
theory Spec2Isabelle
  imports CidPath Onion NameLookup ZkCircuit Replication CircuitBreaker RateLimit ApiKeys StorageGc NodeP2pSafety ReplicaSafety
    KvStore ContentCache GatewayTenants SignalingSafety RoutingSafety BandwidthSafety PeerDiscoverySafety
    GatewayResolver NodeHealthSafety GatewayContentSafety GatewayNamesSafety
    BrowserNames NodeBridge EnsBridge ProcessSafety
    BuildSafety EdgeSafety LoginSafety DeploymentSafety
begin

text \<open>
  ShadowMesh, a decentralised content network in Rust: a verification development of its protocol
  library (\<open>protocol/src\<close>), of the node that stores and serves fragments (\<open>node-runner/src\<close>) and of the
  HTTP gateway in front of the network (\<open>gateway/src\<close>).

  \<^bold>\<open>The program.\<close> Content is cut into fragments (\<open>fragments.rs\<close>), sealed (\<open>crypto.rs\<close>), addressed by
  CIDs and paths (\<open>cid_validation.rs\<close>) and kept by nodes (\<open>node-runner/storage.rs\<close>), which announce it in
  a DHT (\<open>dht.rs\<close>), serve it over a request protocol (\<open>content_protocol.rs\<close>, \<open>node-runner/p2p.rs\<close>) and
  replicate it in the background (\<open>replication.rs\<close> on both sides). Requests can travel in onion packets
  (\<open>routing.rs\<close>) or over circuits of relays (\<open>zk_relay.rs\<close>), along routes that avoid failing or censored
  paths (\<open>adaptive_routing.rs\<close>). Names are signed records that peers gossip, cache and resolve
  (\<open>naming.rs\<close>). The gateway serves pages from its cache, the P2P network, node-runners over HTTP or
  IPFS, resolves names, relays WebRTC signaling, and keeps keys, secrets and key-value pairs for its
  tenants.

  \<^bold>\<open>Reading the model.\<close> Definitions keep the names of the Rust items; a method with \<open>&mut self\<close> (or
  behind a lock) takes the state last and returns its result with the new state; a \<open>Result\<close> is a sum
  with the error on the left; every \<open>?\<close>, early return and guard is a branch. A panic is a value
  (\<open>None\<close> or \<open>Inl\<close>), and so is a call that never returns (\<open>None\<close>), so that a theorem about the result
  also says that there is one. A component with several entry points has a type of calls and one step
  function; its invariant is proved once for the locale it interprets and holds of every run.

  \<^bold>\<open>Shared.\<close> \<open>Prelude\<close>: Rust's integers (\<open>u8\<close>, \<open>u32\<close>, \<open>u64\<close> as words, \<open>usize\<close> as \<open>nat\<close>), saturating
  arithmetic, byte encodings, strings as their UTF-8 bytes, \<open>HashMap\<close> as an association list with distinct
  keys, loops with \<open>?\<close>, and the interfaces of components: \<open>call_machine\<close> (an invariant every call keeps
  holds after any run), \<open>guarded_machine\<close> (the same for admissible calls; every \<open>call_machine\<close> is one, by
  \<open>sublocale\<close>), \<open>simulation\<close> (an abstract machine that every call follows) and \<open>monotone_machine\<close> (a level
  that only rises). \<open>Float64\<close>: an \<open>f64\<close> as a rational with a rounding of every operation.

  \<^bold>\<open>The protocol library.\<close>
  \<^item> \<open>Crypto\<close>, \<open>Fragments\<close>, \<open>CidPath\<close>: \<open>crypto.rs\<close>, \<open>fragments.rs\<close>, \<open>cid_validation.rs\<close>. The locale \<open>sealing\<close>
    states what layers of encryption need from one layer; it is interpreted on \<open>encrypt_raw\<close>, on the
    ECDH layers of \<open>Onion\<close> (\<open>routing.rs\<close>) and on the circuit layers of \<open>ZkCircuit\<close>.
  \<^item> \<open>NameRecord\<close>, \<open>NameStore\<close>: \<open>naming.rs\<close>, records, then \<open>NamingManager\<close> and \<open>NameResolver\<close>. \<open>NameSafety\<close>
    and \<open>NameLookup\<close> prove them correct; the locale \<open>selection\<close> (an order-independent choice of a winner)
    is interpreted on \<open>resolve_conflict\<close>.
  \<^item> \<open>ZkCells\<close>, \<open>ZkClient\<close>, \<open>ZkNode\<close>: \<open>zk_relay.rs\<close>, messages, client and relay. \<open>ZkCircuit\<close> puts them
    together: the handshakes, a request along a path of relays, replays.
  \<^item> \<open>Replication\<close>: \<open>replication.rs\<close>. \<open>DhtManager\<close>: \<open>dht.rs\<close>. \<open>ContentCodec\<close>: \<open>content_protocol.rs\<close>.
    \<open>IpfsStorage\<close>: \<open>storage.rs\<close>, with its retries. \<open>Bandwidth\<close>, \<open>PeerDiscovery\<close>: \<open>bandwidth.rs\<close> and
    \<open>peer_discovery.rs\<close>, with \<open>BandwidthSafety\<close> and \<open>PeerDiscoverySafety\<close>.
  \<^item> \<open>AdaptiveRouting\<close>, \<open>AdaptiveRouter\<close>: \<open>adaptive_routing.rs\<close>, path health and the choice of routes;
    \<open>RoutingSafety\<close> proves the policy of the routes and shows where failover and detection fail.

  \<^bold>\<open>The node.\<close>
  \<^item> \<open>NodeStorage\<close>: \<open>node-runner/storage.rs\<close>, fragments on disk with their index. \<open>StorageSafety\<close> and
    \<open>StorageGc\<close>: its accounting, pinning, garbage collection and what a restart reads back.
  \<^item> \<open>NodeP2p\<close>: the event loop of \<open>node-runner/p2p.rs\<close> over the storage, the DHT, names and circuits;
    \<open>NodeP2pSafety\<close>: what a fetched fragment is, a fetch between two nodes, why circuits never complete.
  \<^item> \<open>NodeReplication\<close>, \<open>ReplicaSafety\<close>: the background scan of \<open>node-runner/replication.rs\<close>.

  \<^bold>\<open>The gateway.\<close>
  \<^item> \<open>CircuitBreaker\<close>, \<open>RateLimit\<close>, \<open>ApiKeys\<close>, \<open>GatewayAuth\<close>: the guards of the routes (\<open>circuit_breaker.rs\<close>,
    \<open>rate_limit.rs\<close>, \<open>distributed_rate_limit.rs\<close>, \<open>api_keys.rs\<close>, \<open>auth.rs\<close>, \<open>jwt.rs\<close>). The documented
    transitions of the breaker are an inductive relation (\<open>moves\<close>) its operations refine.
  \<^item> \<open>KvStore\<close>, \<open>ContentCache\<close>, \<open>GatewayTenants\<close>: \<open>kv_store.rs\<close>, \<open>cache.rs\<close>, \<open>secrets.rs\<close> and the handlers
    of tenants.
  \<^item> \<open>Signaling\<close>, \<open>SignalingSafety\<close>: \<open>signaling.rs\<close> of the gateway and of the protocol library.
  \<^item> \<open>GatewayP2p\<close>, \<open>GatewayP2pSafety\<close>, \<open>GatewayResolver\<close>: \<open>p2p.rs\<close>, \<open>p2p_commands.rs\<close>, \<open>p2p_resolver.rs\<close>; the
    gateway's loop reuses the names and the codec of the library.
  \<^item> \<open>NodeHealth\<close>, \<open>NodeHealthSafety\<close>: \<open>node_health.rs\<close>, \<open>node_resolver.rs\<close>.
  \<^item> \<open>GatewayContent\<close>, \<open>GatewayContentSafety\<close>: how a page is found and rewritten (\<open>lib.rs\<close>, \<open>main.rs\<close>), over
    the cache, the P2P resolver, the node-runners, the breaker and IPFS. \<open>GatewayNames\<close>,
    \<open>GatewayNamesSafety\<close>: the naming handlers and the pages served under a name.
  \<^item> \<open>ProcessManager\<close>, \<open>ProcessSafety\<close>: \<open>process_manager.rs\<close>, the child processes of dynamic deployments, as
    calls one after the other and as steps that overlap.
  \<^item> \<open>BuildPipeline\<close>: from a GitHub repository to a directory, \<open>dashboard.rs\<close> and \<open>framework_detect.rs\<close>: archives,
    frameworks, the cache of dependencies, builds plain and with a session. \<open>BuildSafety\<close>: what archives and builds
    can reach, that both builds agree, what the stream of a session shows, eviction.
  \<^item> \<open>GithubLogin\<close>: the sign-in of \<open>dashboard.rs\<close>. \<open>LoginSafety\<close>: its tickets by the locale \<open>tickets\<close> (issued
    at least as often as redeemed), interpreted on codes and on state tokens, and whom a request is taken for.
  \<^item> \<open>EdgeRoutes\<close>: \<open>route_manifest.rs\<close>, \<open>wasm_runtime.rs\<close>, \<open>reverse_proxy.rs\<close> and the routes of \<open>main.rs\<close> in
    front of \<open>GatewayContent\<close> and \<open>GatewayNames\<close>. \<open>EdgeSafety\<close>: which route serves, the bound of the module cache,
    what functions get to see.
  \<^item> \<open>Deployments\<close>: the handlers of \<open>dashboard.rs\<close> for deployments and the webhook, over all of the above.
    \<open>DeploymentSafety\<close>: failures, tenants and owners, the webhook, deleting and repeating, the copy in Redis.

  \<^bold>\<open>The browser and the bridges.\<close>
  \<^item> \<open>BrowserCrypto\<close>, \<open>BrowserChannel\<close>, \<open>BrowserClient\<close>: \<open>sdk-browser/src\<close>, the handshake and the frames of
    \<open>crypto.rs\<close>, a connection with the handlers of its data channels (\<open>webrtc.rs\<close>), and the client with its
    fetches, cache and message loop (\<open>client.rs\<close>), one thread in which an \<open>await\<close> lets other events in.
    \<open>BrowserSafety\<close>: what a channel and the cache guarantee, a fetch between two browsers, replayed handshakes,
    the panic of a borrow held across an \<open>await\<close>. \<open>TextCodec\<close> holds the concrete codec of the witnesses.
  \<^item> \<open>NodeBridge\<close>: \<open>node-runner/bridge.rs\<close>, the WebRTC bridge of a node, and why it cannot serve that client.
  \<^item> \<open>EnsBridge\<close>: \<open>ens_bridge.rs\<close> and \<open>bootstrap.rs\<close>. \<open>BrowserNames\<close>: \<open>sdk-browser/naming.rs\<close>, which has a
    second reader of content hashes.

  \<^bold>\<open>Third-party code.\<close> Ciphers, hashes, key exchange and signatures (\<open>prims\<close>), \<open>serde_json\<close> and libp2p
  keys (\<open>naming_env\<close>, \<open>dht_json\<close>, \<open>content_json\<close>, \<open>index_codec\<close>), \<open>bincode\<close> and \<open>PeerId\<close> (\<open>relay_env\<close>),
  SHA-256, \<open>chrono\<close> and JWT codecs (\<open>key_env\<close>, \<open>jwt_env\<close>), the Redis client (\<open>redis_ops\<close>), the file system
  (\<open>io\<close>), HTTP backends and the IPFS daemon (\<open>ipfs_env\<close>, \<open>node_env\<close>, \<open>fetch_env\<close>), the Unicode tables
  (\<open>text_env\<close>), and the answers of the libp2p swarm (\<open>p2p_env\<close>, \<open>gw_env\<close>, \<open>loop_replies\<close>, \<open>scan_env\<close>)
  are records of functions or arguments. What the code relies on - decryption undoes encryption with
  the same key and nonce, both sides of a key exchange agree, signatures verify, codecs round-trip - is
  stated in named hypotheses (\<open>aead_correct\<close>, \<open>x25519_correct\<close>, \<open>ed25519_correct\<close>, \<open>naming_correct\<close>,
  \<open>relay_correct\<close>, \<open>jwt_correct\<close> and their like), each shown to hold of a concrete instance. Random draws
  and clock readings are arguments; iteration over a hash map follows the association list, whose order
  is arbitrary.

  \<^bold>\<open>What is shown.\<close> Round trips (fragments, onion packets, restarts of the store), invariants of every
  reachable state (naming, relays, replication, storage, signaling, discovery, the gateway's loop),
  convergence of name caches, that fetched bytes are the bytes asked for, that scans end, that tenants
  and applications do not see one another, that routers never panic, the bounds of the limiters, the
  transitions of the breaker. Other properties state behaviour that falls short of the documentation:
  hops after the first cannot complete their handshake, censorship is never detected, a page fetched
  under one prefix is served under another, paths of visitors open the breaker of everybody, and others.

  \<^bold>\<open>Bounds.\<close> Loops are structural recursions or folds, or terminate by a \<open>measure\<close>. Fuel appears where the
  code has it: the depth of aliases (8) and the attempts of a retry. A loop that waits for the outside
  takes the list of what it will see, and yields \<open>None\<close> when the list ends first; that a bounded number of
  observations suffices is proved. Length hypotheses such as \<open>aead_limit\<close> are those of the cipher.
  \<open>u32\<close> and \<open>u64\<close> arithmetic wraps or saturates as the release build does.

  \<^bold>\<open>Not modelled.\<close> Concurrency inside a call (unless a theory says otherwise, a handler runs as one step
  under its locks), logging and metrics, the wiring of HTTP routers and of the libp2p swarm
  (\<open>main.rs\<close> of the three programs, \<open>protocol/node.rs\<close>, \<open>transport.rs\<close>),
  the page of the dashboard and the uploads of the gateway with its configuration, audit log and telemetry,
  the WebAssembly engine, the HTTP API and configuration of the node, the signaling client of the browser
  SDK, the command line and the benchmarks.
\<close>

end
